(* ===== verification/Mcal_Prelude.thy ===== *)
theory Mcal_Prelude
  imports Main "HOL-Library.Word" "HOL-Library.Monad_Syntax"
begin

unbundle bit_operations_syntax

text \<open>
  What the component theories share: the fixed-width integer types of
  \<^verbatim>\<open>Std_Types.h\<close>, the reading of C memory, and the lemmas on lists and words that
  carry the component proofs.

  \<^item> An unsigned C type of \<^emph>\<open>w\<close> bits is \<open>w word\<close>, so \<open>+\<close>, \<open>-\<close> and shifts wrap as they do in C
    after the assignment back to the narrow type. Where C's integer promotion makes an expression
    on \<open>uint8\<close> or \<open>uint16\<close> operands an \<open>int\<close> that cannot overflow (comparisons of bit offsets
    and lengths), the model computes on \<open>unat\<close> values in \<open>int\<close> or \<open>nat\<close>.
  \<^item> A pointer argument is an option: \<open>None\<close> is \<open>NULL\<close>. A pointer to an array is the list of the
    elements that follow it, so \<open>&p[k]\<close> is \<open>drop k p\<close>.
  \<^item> A function that reads or writes memory returns an option: \<open>None\<close> is undefined behaviour (an
    access outside the object, a \<open>NULL\<close> dereference, an index outside a table). That a call
    does not fault is a theorem, never an assumption of the model.
\<close>

section \<open>Types and memory access\<close>

type_synonym uint8 = "8 word"
type_synonym uint16 = "16 word"
type_synonym uint32 = "32 word"

type_synonym 'a ub = "'a option"
type_synonym 'a ptr = "'a option"

text \<open>Reading and writing an element of an array object.\<close>

definition rd :: "'a list \<Rightarrow> nat \<Rightarrow> 'a ub" where
  "rd xs i = (if i < length xs then Some (xs ! i) else None)"

definition wr :: "'a list \<Rightarrow> nat \<Rightarrow> 'a \<Rightarrow> 'a list ub" where
  "wr xs i v = (if i < length xs then Some (xs[i := v]) else None)"

text \<open>Dereferencing a pointer.\<close>

definition deref :: "'a ptr \<Rightarrow> 'a ub" where
  "deref p = p"

text \<open>
  The loop shape \<^verbatim>\<open>for (byte = 0; byte < n; byte++) { s = f(s, *p); p++; }\<close>:
  each round reads the element under the pointer, and running past the object faults.
\<close>

fun ptr_loop :: "('s \<Rightarrow> 'a \<Rightarrow> 's) \<Rightarrow> nat \<Rightarrow> 'a list \<Rightarrow> 's \<Rightarrow> 's ub" where
  "ptr_loop f 0 xs s = Some s"
| "ptr_loop f (Suc n) [] s = None"
| "ptr_loop f (Suc n) (x # xs) s = ptr_loop f n xs (f s x)"

text \<open>
  The loop shape \<^verbatim>\<open>for (i = 0; i < n; i++) body(i)\<close> is \<open>for_each body [0..<n]\<close>; a loop over the
  elements of a configuration array is \<open>for_each\<close> over the list.
\<close>

fun for_each :: "('a \<Rightarrow> 's \<Rightarrow> 's ub) \<Rightarrow> 'a list \<Rightarrow> 's \<Rightarrow> 's ub" where
  "for_each f [] s = Some s"
| "for_each f (x # xs) s = do { s \<leftarrow> f x s; for_each f xs s }"

text \<open>Facts that evaluate the memory operations, and facts that describe single bits.\<close>

named_theorems ub_simps
named_theorems word_facts

section \<open>Lemmas on memory access\<close>

lemma rd_Some [ub_simps]: "i < length xs \<Longrightarrow> rd xs i = Some (xs ! i)"
  by (simp add: rd_def)

lemma wr_Some [ub_simps]: "i < length xs \<Longrightarrow> wr xs i v = Some (xs[i := v])"
  by (simp add: wr_def)

lemma rd_None_iff: "rd xs i = None \<longleftrightarrow> length xs \<le> i"
  by (auto simp: rd_def)

lemma wr_None_iff: "wr xs i v = None \<longleftrightarrow> length xs \<le> i"
  by (auto simp: wr_def)

lemma rd_eq_Some_iff: "rd xs i = Some v \<longleftrightarrow> i < length xs \<and> xs ! i = v"
  by (auto simp: rd_def)

lemma wr_eq_Some_iff: "wr xs i v = Some ys \<longleftrightarrow> i < length xs \<and> ys = xs[i := v]"
  by (auto simp: wr_def)

lemma ptr_loop_eq:
  "ptr_loop f n xs s = (if n \<le> length xs then Some (foldl f s (take n xs)) else None)"
  by (induction f n xs s rule: ptr_loop.induct) auto

lemma ptr_loop_Some [ub_simps]:
  "n \<le> length xs \<Longrightarrow> ptr_loop f n xs s = Some (foldl f s (take n xs))"
  by (simp add: ptr_loop_eq)

text \<open>A loop keeps what its body keeps, and returns when its body does.\<close>

lemma for_each_inv:
  assumes "P s" and "\<And>x s. x \<in> set xs \<Longrightarrow> P s \<Longrightarrow> \<exists>s'. f x s = Some s' \<and> P s'"
  shows "\<exists>s'. for_each f xs s = Some s' \<and> P s'"
  using assms
proof (induction xs arbitrary: s)
  case (Cons x xs)
  obtain s1 where "f x s = Some s1" "P s1" using Cons.prems by (metis list.set_intros(1))
  then show ?case using Cons.IH [of s1] Cons.prems(2) by simp
qed simp

text \<open>The same for a counting loop, with an invariant that depends on the counter.\<close>

lemma for_each_upt:
  assumes "P 0 s" and "\<And>i s. i < n \<Longrightarrow> P i s \<Longrightarrow> \<exists>s'. f i s = Some s' \<and> P (Suc i) s'"
  shows "\<exists>s'. for_each f [0..<n] s = Some s' \<and> P n s'"
proof -
  have "\<exists>s'. for_each f [k..<n] s = Some s' \<and> P n s'" if "k \<le> n" "P k s" for k s
    using that
  proof (induction "n - k" arbitrary: k s)
    case (Suc d)
    then have k: "k < n" by simp
    then obtain s1 where "f k s = Some s1" "P (Suc k) s1" using assms(2) Suc.prems by blast
    then show ?case using Suc.hyps(1) [of "Suc k" s1] Suc.hyps(2) k by (simp add: upt_conv_Cons)
  qed simp
  then show ?thesis using assms(1) by blast
qed

lemma for_each_append: "for_each f (xs @ ys) s = do { s \<leftarrow> for_each f xs s; for_each f ys s }"
proof (induction xs arbitrary: s)
  case (Cons x xs)
  then show ?case by (cases "f x s") simp_all
qed simp

section \<open>Computations that return\<close>

text \<open>A computation that returns, with a property of the result.\<close>

definition returns :: "'a ub \<Rightarrow> ('a \<Rightarrow> bool) \<Rightarrow> bool" where
  "returns m P \<longleftrightarrow> (\<exists>x. m = Some x \<and> P x)"

lemma returns_Some [simp]: "returns (Some x) P = P x"
  by (simp add: returns_def)

lemma returns_bind: "returns m P \<Longrightarrow> (\<And>x. P x \<Longrightarrow> returns (k x) Q) \<Longrightarrow> returns (m \<bind> k) Q"
  by (auto simp: returns_def)

lemma returns_mono: "returns m P \<Longrightarrow> (\<And>x. P x \<Longrightarrow> Q x) \<Longrightarrow> returns m Q"
  by (auto simp: returns_def)

lemma returns_map: "returns m (\<lambda>x. P (f x)) \<Longrightarrow> returns (map_option f m) P"
  by (auto simp: returns_def)

lemma returns_if: "(c \<Longrightarrow> returns a P) \<Longrightarrow> (\<not> c \<Longrightarrow> returns b P) \<Longrightarrow> returns (if c then a else b) P"
  by simp

lemma returns_read: "m = Some v \<Longrightarrow> returns (k v) P \<Longrightarrow> returns (m \<bind> k) P"
  by simp

section \<open>Lemmas on lists\<close>

lemma take_split_at: "i < n \<Longrightarrow> n \<le> length xs \<Longrightarrow>
    take n xs = take i xs @ xs ! i # take (n - Suc i) (drop (Suc i) xs)"
proof -
  assume "i < n" and "n \<le> length xs"
  then have "take n xs = take i (take n xs) @ take n xs ! i # drop (Suc i) (take n xs)"
    by (intro id_take_nth_drop) simp
  then show ?thesis using \<open>i < n\<close> by (simp add: drop_take min_def)
qed

lemma map_field_update: "f y = f (xs ! i) \<Longrightarrow> map f (xs[i := y]) = map f xs"
  by (metis list_update_id map_update)

lemma foldl_append_eq: "foldl f s (xs @ ys) = foldl f (foldl f s xs) ys"
  by simp

section \<open>Lemmas on words\<close>

lemma xor_cancel_right [simp]: "(x XOR a) XOR a = (x :: 'a::len word)"
  by (rule bit_word_eqI) (auto simp: bit_simps)

lemma xor_cancel_left [simp]: "a XOR (a XOR x) = (x :: 'a::len word)"
  by (rule bit_word_eqI) (auto simp: bit_simps)

lemma xor_left_inject [simp]: "x XOR a = y XOR a \<longleftrightarrow> x = (y :: 'a::len word)"
  by (metis xor_cancel_right)

lemma xor_right_inject [simp]: "a XOR x = a XOR y \<longleftrightarrow> x = (y :: 'a::len word)"
  by (metis xor_cancel_left)

lemma xor_one_neq [simp]: "x XOR 1 \<noteq> (x :: 'a::len word)" "x \<noteq> x XOR 1"
  by (metis xor_cancel_left xor_self_eq zero_neq_one)+

lemma byte_and_full [simp]: "x AND 0xFF = (x :: uint8)"
proof -
  have "x AND mask 8 = x" by (simp add: take_bit_eq_mask [symmetric] take_bit_word_eq_self)
  then show ?thesis by (simp add: mask_eq_exp_minus_1)
qed

lemma unat_uint8_less [simp]: "unat (x :: uint8) < 256"
  using unsigned_less [of x] by simp

lemma unat_uint16_less [simp]: "unat (x :: uint16) < 65536"
  using unsigned_less [of x] by simp

lemma unat_of_nat_small: "n < 2 ^ LENGTH('w) \<Longrightarrow> unat (of_nat n :: 'w::len word) = n"
  by (simp add: unat_of_nat take_bit_nat_eq_self)

lemma unat_of_nat32: "n < 4294967296 \<Longrightarrow> unat (of_nat n :: uint32) = n"
  by (rule unat_of_nat_small) simp

lemma word_wrap_inc:
  fixes c :: "'w::len word"
  assumes "m = 2 ^ LENGTH('w)"
  shows "of_nat ((unat c + 1) mod m) = c + 1"
proof -
  have "of_nat ((unat c + 1) mod m) = (of_nat (unat c + 1) :: 'w word)"
    unfolding assms by (rule word_unat_eq_iff [THEN iffD2]) (simp only: unat_of_nat take_bit_eq_mod mod_mod_trivial)
  then show ?thesis by simp
qed

lemma unat_inc: "x < y \<Longrightarrow> unat (x + 1) = unat x + 1" for x y :: uint16
proof -
  assume "x < y"
  then have "Suc (unat x) < 65536" using unat_uint16_less [of y] unfolding word_less_nat_alt by linarith
  then show ?thesis by (simp add: unat_word_ariths)
qed

lemma bit_times_two [word_facts]:
  "bit (r * 2) n \<longleftrightarrow> 0 < n \<and> n < LENGTH('w) \<and> bit r (n - 1)" for r :: "'w::len word"
proof -
  have "r * 2 = push_bit 1 r" by simp
  then show ?thesis by (simp only: bit_push_bit_iff) auto
qed

lemma nat_lt_8_cases: "n < 8 \<Longrightarrow>
    n = 0 \<or> n = 1 \<or> n = 2 \<or> n = 3 \<or> n = 4 \<or> n = 5 \<or> n = 6 \<or> n = (7 :: nat)"
  by arith

lemma all_nat_lt_8:
  "(\<forall>n < 8. P n) \<longleftrightarrow>
     P 0 \<and> P 1 \<and> P 2 \<and> P 3 \<and> P 4 \<and> P 5 \<and> P 6 \<and> P (7 :: nat)"
  by (auto dest: nat_lt_8_cases)

lemma bit_and_exp: "bit (v AND 2 ^ k) n \<longleftrightarrow> n = k \<and> bit v k" for v :: "'w::len word"
  by (auto simp: bit_and_iff bit_exp_iff dest: bit_imp_le_length)

lemma bit_and_byte:
  fixes v :: uint8
  shows "bit (v AND 0x80) n \<longleftrightarrow> n = 7 \<and> bit v 7" and "bit (v AND 0x40) n \<longleftrightarrow> n = 6 \<and> bit v 6"
    and "bit (v AND 0x20) n \<longleftrightarrow> n = 5 \<and> bit v 5" and "bit (v AND 0x10) n \<longleftrightarrow> n = 4 \<and> bit v 4"
    and "bit (v AND 0x08) n \<longleftrightarrow> n = 3 \<and> bit v 3" and "bit (v AND 0x04) n \<longleftrightarrow> n = 2 \<and> bit v 2"
    and "bit (v AND 0x02) n \<longleftrightarrow> n = 1 \<and> bit v 1" and "bit (v AND 0x01) n \<longleftrightarrow> n = 0 \<and> bit v 0"
  using bit_and_exp [of v 7 n] bit_and_exp [of v 6 n] bit_and_exp [of v 5 n] bit_and_exp [of v 4 n]
    bit_and_exp [of v 3 n] bit_and_exp [of v 2 n] bit_and_exp [of v 1 n] bit_and_exp [of v 0 n]
  by simp_all

text \<open>The masks the sources use to pick bytes and nibbles, as shifted masks.\<close>

lemma mask_const:
  "(0xFF :: uint8) = mask 8" "(0x0F :: uint8) = mask 4" "(0xF0 :: uint8) = push_bit 4 (mask 4)"
  "(0x00FF :: uint16) = mask 8" "(0xFF00 :: uint16) = push_bit 8 (mask 8)"
  "(0x000000FF :: uint32) = mask 8" "(0x0000FF00 :: uint32) = push_bit 8 (mask 8)"
  "(0x00FF0000 :: uint32) = push_bit 16 (mask 8)" "(0xFF000000 :: uint32) = push_bit 24 (mask 8)"
  by (simp_all add: mask_eq_exp_minus_1)

end
