(* ===== verification/Crc_Poly.thy ===== *)
theory Crc_Poly
  imports Mcal_Prelude
begin

text \<open>
  The reference the CRC routines are measured against: shift-register division by a generator
  polynomial, on words of any width, and the two contracts the clients use.

  \<^item> \<open>crc_step\<close> is one bit of the division, \<open>crc_upd\<close> one byte, most significant bit first.
  \<^item> The locale \<open>crc_poly\<close> takes a polynomial with a constant term on at least 8 bits and
    shows what such a register promises: the division is linear and injective, and a block
    of bytes that fits into the register can be recovered from it.
  \<^item> The locale \<open>crc_engine\<close> is the interface of a byte-wise check value: what \<open>E2E\<close> relies
    on when it chains calls and when it trusts that a changed block is noticed.
    Every \<open>crc_poly\<close> is a \<open>crc_engine\<close> (\<open>sublocale\<close>).
  \<^item> \<open>xor_span\<close> builds a lookup table from its eight entries at powers of two.
\<close>

section \<open>Reference division\<close>

definition crc_step :: "'w::len word \<Rightarrow> 'w word \<Rightarrow> 'w word" where
  "crc_step p r = push_bit 1 r XOR (if bit r (LENGTH('w) - 1) then p else 0)"

definition crc_in :: "uint8 \<Rightarrow> 'w::len word" where
  "crc_in b = push_bit (LENGTH('w) - 8) (ucast b)"

definition crc_upd :: "'w::len word \<Rightarrow> 'w word \<Rightarrow> uint8 \<Rightarrow> 'w word" where
  "crc_upd p s b = (crc_step p ^^ 8) (s XOR crc_in b)"

text \<open>The same division with the bits of state and data in reverse order.\<close>

definition crc_rupd :: "'w::len word \<Rightarrow> 'w word \<Rightarrow> uint8 \<Rightarrow> 'w word" where
  "crc_rupd p s b = word_reverse (crc_upd p (word_reverse s) (word_reverse b))"

text \<open>The table form: what one byte at the top of an empty register becomes.\<close>

definition crc_tabf :: "'w::len word \<Rightarrow> uint8 \<Rightarrow> 'w word" where
  "crc_tabf p x = (crc_step p ^^ 8) (crc_in x)"

definition crc_rtabf :: "'w::len word \<Rightarrow> uint8 \<Rightarrow> 'w word" where
  "crc_rtabf p x = word_reverse (crc_tabf p (word_reverse x))"

definition crc_rstep :: "'w::len word \<Rightarrow> 'w word \<Rightarrow> 'w word" where
  "crc_rstep q r = drop_bit 1 r XOR (if bit r 0 then q else 0)"

text \<open>A whole call: the register around the initial and the final XOR.\<close>

definition crc_call :: "('w::len word \<Rightarrow> uint8 \<Rightarrow> 'w word) \<Rightarrow> 'w word \<Rightarrow> 'w word \<Rightarrow>
    uint8 list ptr \<Rightarrow> uint32 \<Rightarrow> 'w word \<Rightarrow> bool \<Rightarrow> 'w word ub" where
  "crc_call upd init xorv p n start isFirst =
     (case p of None \<Rightarrow> Some 0
      | Some d \<Rightarrow> if unat n \<le> length d
          then Some (foldl upd (if isFirst then init else start XOR xorv) (take (unat n) d) XOR xorv)
          else None)"

text \<open>A block of bytes laid into the register from its top end.\<close>

fun crc_block :: "uint8 list \<Rightarrow> 'w::len word" where
  "crc_block [] = 0"
| "crc_block (b # bs) = crc_in b XOR drop_bit 8 (crc_block bs)"

text \<open>All XOR sums of a list of generators, the sum without the first generator first.\<close>

fun xor_span :: "'w::len word list \<Rightarrow> 'w word list" where
  "xor_span [] = [0]"
| "xor_span (g # gs) = (let t = xor_span gs in t @ map (\<lambda>x. g XOR x) t)"

section \<open>Linearity\<close>

lemma crc_step_xor: "crc_step p (x XOR y) = crc_step p x XOR crc_step p y"
  by (rule bit_word_eqI) (auto simp: crc_step_def bit_simps)

lemma crc_step_zero [simp]: "crc_step p 0 = 0"
  by (simp add: crc_step_def)

lemma crc_steps_xor: "(crc_step p ^^ n) (x XOR y) = (crc_step p ^^ n) x XOR (crc_step p ^^ n) y"
  by (induction n) (simp_all add: crc_step_xor)

lemma crc_steps_zero [simp]: "(crc_step p ^^ n) 0 = 0"
  by (induction n) simp_all

lemma crc_in_xor: "crc_in (x XOR y) = (crc_in x XOR crc_in y :: 'w::len word)"
  by (simp add: crc_in_def unsigned_xor_eq)

lemma crc_in_zero [simp]: "crc_in 0 = 0"
  by (simp add: crc_in_def)

text \<open>While the bits shifted out are zero, the division is a plain shift.\<close>

lemma crc_steps_shift:
  fixes x :: "'w::len word"
  assumes "\<And>k. bit x k \<Longrightarrow> k + n < LENGTH('w)"
  shows "(crc_step p ^^ n) x = push_bit n x"
  using assms
proof (induction n arbitrary: x)
  case 0
  then show ?case by simp
next
  case (Suc n)
  have "crc_step p x = push_bit 1 x"
    using Suc.prems [of "LENGTH('w) - 1"] by (auto simp: crc_step_def)
  moreover have "(crc_step p ^^ n) (push_bit 1 x) = push_bit n (push_bit 1 x)"
  proof (rule Suc.IH)
    fix k assume "bit (push_bit 1 x) k"
    then have "1 \<le> k" and "bit x (k - 1)" by (simp_all only: bit_push_bit_iff)
    with Suc.prems [of "k - 1"] show "k + n < LENGTH('w)" by simp
  qed
  ultimately have "(crc_step p ^^ n) (crc_step p x) = push_bit (n + 1) x" by simp
  then show ?case by (simp add: funpow_swap1)
qed

section \<open>Tables from generators\<close>

lemma length_xor_span [simp]: "length (xor_span gs) = 2 ^ length gs"
  by (induction gs) (simp_all add: Let_def)

lemma word_exp_xor_of_nat:
  fixes j n :: nat
  assumes "j < 2 ^ n"
  shows "(of_nat (2 ^ n + j) :: 'b::len word) = 2 ^ n XOR of_nat j"
proof -
  have "(2 ^ n :: 'b word) AND of_nat j = 0"
  proof (rule bit_word_eqI)
    fix k
    have "\<not> bit j n" using assms by (metis bit_take_bit_iff less_irrefl take_bit_nat_eq_self)
    then show "bit (2 ^ n AND of_nat j :: 'b word) k = bit (0 :: 'b word) k"
      by (auto simp: bit_simps)
  qed
  then show ?thesis by (simp add: disjunctive_add_eq_xor)
qed

lemma xor_span_nth:
  fixes f :: "'b::len word \<Rightarrow> 'w::len word"
  assumes lin: "\<And>x y. f (x XOR y) = f x XOR f y"
    and i: "i < 2 ^ n"
  shows "xor_span (map (\<lambda>k. f (2 ^ k)) (rev [0..<n])) ! i = f (of_nat i)"
  using i
proof (induction n arbitrary: i)
  case 0
  have "f 0 = f 0 XOR f 0" using lin [of 0 0] by simp
  with 0 show ?case by simp
next
  case (Suc n)
  let ?t = "xor_span (map (\<lambda>k. f (2 ^ k)) (rev [0..<n]))"
  show ?case
  proof (cases "i < 2 ^ n")
    case True
    with Suc.IH show ?thesis by (simp add: Let_def nth_append)
  next
    case False
    define j where "j = i - 2 ^ n"
    with False Suc.prems have j: "i = 2 ^ n + j" "j < 2 ^ n" by auto
    then have "xor_span (map (\<lambda>k. f (2 ^ k)) (rev [0..<Suc n])) ! i = f (2 ^ n) XOR ?t ! j"
      by (simp add: Let_def nth_append)
    also have "\<dots> = f (2 ^ n) XOR f (of_nat j)" using Suc.IH j(2) by simp
    also have "\<dots> = f (of_nat i)" by (simp only: j(1) word_exp_xor_of_nat [OF j(2)] lin)
    finally show ?thesis .
  qed
qed

lemma xor_span_table:
  fixes f :: "uint8 \<Rightarrow> 'w::len word"
  assumes tab: "tab = xor_span [f 128, f 64, f 32, f 16, f 8, f 4, f 2, f 1]"
    and lin: "\<And>x y. f (x XOR y) = f x XOR f y"
  shows "tab ! unat x = f x" "length tab = 256"
proof -
  have gens: "map (\<lambda>k. f (2 ^ k)) (rev [0..<8]) = [f 128, f 64, f 32, f 16, f 8, f 4, f 2, f 1]"
    by (simp add: upt_rec)
  show "tab ! unat x = f x"
    using xor_span_nth [of f "unat x" 8] lin unat_uint8_less [of x] unfolding gens tab by simp
  show "length tab = 256" by (simp add: tab)
qed

section \<open>Table form and reflection\<close>

lemma crc_tabf_xor: "crc_tabf p (x XOR y) = crc_tabf p x XOR crc_tabf p y"
  by (simp add: crc_tabf_def crc_in_xor crc_steps_xor)

lemma word_reverse_xor: "word_reverse (x XOR y) = word_reverse x XOR (word_reverse y :: 'w::len word)"
  by (rule bit_word_eqI) (auto simp: bit_simps)

lemma crc_rtabf_xor: "crc_rtabf p (x XOR y) = crc_rtabf p x XOR crc_rtabf p y"
  by (simp add: crc_rtabf_def crc_tabf_xor word_reverse_xor)

lemma word_reverse_step:
  "word_reverse (crc_step p r) = crc_rstep (word_reverse p) (word_reverse (r :: 'w::len word))"
proof (rule bit_word_eqI)
  fix k assume k: "k < LENGTH('w)"
  have "bit (push_bit 1 r) (LENGTH('w) - Suc k) \<longleftrightarrow> bit (drop_bit 1 (word_reverse r)) k"
    using k by (auto simp: word_facts bit_drop_bit_eq bit_word_reverse_iff)
  then show "bit (word_reverse (crc_step p r)) k =
      bit (crc_rstep (word_reverse p) (word_reverse r)) k"
    using k by (simp add: crc_step_def crc_rstep_def bit_word_reverse_iff bit_xor_iff)
qed

lemma word_reverse_steps:
  "word_reverse ((crc_step p ^^ n) r) = (crc_rstep (word_reverse p) ^^ n) (word_reverse r)"
  by (induction n) (simp_all add: word_reverse_step)

lemma word_reverse_crc_in:
  "8 \<le> LENGTH('w) \<Longrightarrow> word_reverse (crc_in (word_reverse x) :: 'w::len word) = ucast x"
proof (rule bit_word_eqI)
  fix n assume "8 \<le> LENGTH('w)" and "n < LENGTH('w)"
  then show "bit (word_reverse (crc_in (word_reverse x) :: 'w word)) n = bit (ucast x :: 'w word) n"
    using bit_imp_le_length [of x n]
    by (cases "n < 8") (auto simp: crc_in_def bit_push_bit_iff bit_word_reverse_iff bit_unsigned_iff)
qed

lemma crc_rtabf_steps:
  "8 \<le> LENGTH('w) \<Longrightarrow>
   crc_rtabf p x = (crc_rstep (word_reverse p) ^^ 8) (ucast x :: 'w::len word)"
  by (simp add: crc_rtabf_def crc_tabf_def word_reverse_steps word_reverse_crc_in)

lemma crc_upd_table:
  fixes s :: "'w::len word"
  assumes w: "8 \<le> LENGTH('w)"
  shows "crc_upd p s b = push_bit 8 s XOR crc_tabf p (ucast (drop_bit (LENGTH('w) - 8) s) XOR b)"
proof -
  let ?hi = "crc_in (ucast (drop_bit (LENGTH('w) - 8) s)) :: 'w word"
  let ?lo = "take_bit (LENGTH('w) - 8) s"
  have split: "s = ?lo XOR ?hi"
    by (rule bit_word_eqI)
      (use w in \<open>auto simp: crc_in_def bit_xor_iff bit_take_bit_iff bit_push_bit_iff
        bit_unsigned_iff bit_drop_bit_eq\<close>)
  have "(crc_step p ^^ 8) ?lo = push_bit 8 ?lo"
    by (rule crc_steps_shift) (auto simp: bit_take_bit_iff)
  also have "push_bit 8 ?lo = push_bit 8 s"
    by (rule bit_word_eqI) (auto simp: bit_take_bit_iff bit_push_bit_iff)
  finally have lo: "(crc_step p ^^ 8) ?lo = push_bit 8 s" .
  have "crc_upd p s b = (crc_step p ^^ 8) ((?lo XOR ?hi) XOR crc_in b)"
    using split by (simp add: crc_upd_def)
  then show ?thesis
    by (simp only: xor.assoc crc_in_xor [symmetric] crc_steps_xor lo crc_tabf_def)
qed

lemma crc_rupd_table:
  fixes s :: "'w::len word"
  assumes w: "8 \<le> LENGTH('w)"
  shows "crc_rupd p s b = drop_bit 8 s XOR crc_rtabf p (ucast s XOR b)"
proof -
  have "word_reverse (push_bit 8 (word_reverse s)) = drop_bit 8 s"
  proof (rule bit_word_eqI)
    fix n assume "n < LENGTH('w)"
    then show "bit (word_reverse (push_bit 8 (word_reverse s))) n = bit (drop_bit 8 s) n"
      using bit_imp_le_length [of s "8 + n"]
      by (cases "8 + n < LENGTH('w)")
        (auto simp: bit_word_reverse_iff bit_push_bit_iff bit_drop_bit_eq)
  qed
  moreover have "(ucast (drop_bit (LENGTH('w) - 8) (word_reverse s)) :: uint8) =
      word_reverse (ucast s)"
    by (rule bit_word_eqI)
      (use w in \<open>auto simp: bit_word_reverse_iff bit_unsigned_iff bit_drop_bit_eq\<close>)
  ultimately show ?thesis
    by (simp add: crc_rupd_def crc_upd_table [OF w] crc_rtabf_def word_reverse_xor)
qed

lemma crc_rupd_run:
  "foldl (crc_rupd p) s bs =
   word_reverse (foldl (crc_upd p) (word_reverse s) (map word_reverse bs))"
  by (induction bs arbitrary: s) (simp_all add: crc_rupd_def)

section \<open>The contract of a byte-wise check value\<close>

locale crc_engine =
  fixes upd :: "'s \<Rightarrow> uint8 \<Rightarrow> 's"
    and blk :: nat
  assumes upd_state_inj: "upd s b = upd t b \<Longrightarrow> s = t"
    and blk_inj: "length bs \<le> blk \<Longrightarrow> length cs = length bs \<Longrightarrow>
      foldl upd s bs = foldl upd s cs \<Longrightarrow> bs = cs"
begin

lemma run_state_inj: "foldl upd s bs = foldl upd t bs \<longleftrightarrow> s = t"
proof (induction bs arbitrary: s t)
  case Nil
  then show ?case by simp
next
  case (Cons b bs)
  then show ?case using upd_state_inj by auto
qed

text \<open>A burst: the two messages differ only inside a block of at most \<open>blk\<close> bytes.\<close>

lemma burst_detected:
  assumes "length bs \<le> blk" and "length cs = length bs" and "bs \<noteq> cs"
  shows "foldl upd s (pre @ bs @ post) \<noteq> foldl upd s (pre @ cs @ post)"
  using assms blk_inj by (auto simp: run_state_inj)

end

section \<open>Polynomials with a constant term\<close>

locale crc_poly =
  fixes p :: "'w::len word"
  assumes odd_poly: "bit p 0"
    and byte_width: "8 \<le> LENGTH('w)"
begin

lemma step_inj: "crc_step p x = crc_step p y \<Longrightarrow> x = y"
proof -
  assume eq: "crc_step p x = crc_step p y"
  have top: "bit x (LENGTH('w) - 1) = bit y (LENGTH('w) - 1)"
    using arg_cong [OF eq, of "\<lambda>w. bit w 0"] odd_poly
    by (auto simp: crc_step_def bit_0 even_xor_iff split: if_splits)
  then have sh: "push_bit 1 x = push_bit 1 y" using eq by (simp add: crc_step_def)
  show "x = y"
  proof (rule bit_word_eqI)
    fix k assume "k < LENGTH('w)"
    then consider "k = LENGTH('w) - 1" | "Suc k < LENGTH('w)" by linarith
    then show "bit x k = bit y k"
    proof cases
      case 1
      with top show ?thesis by simp
    next
      case 2
      then show ?thesis using arg_cong [OF sh, of "\<lambda>w. bit w (Suc k)"]
        by (simp only: bit_push_bit_iff) simp
    qed
  qed
qed

lemma steps_inj: "(crc_step p ^^ n) x = (crc_step p ^^ n) y \<Longrightarrow> x = y"
  by (induction n) (auto dest: step_inj)

lemma upd_inj_state: "crc_upd p s b = crc_upd p t b \<Longrightarrow> s = t"
  by (auto simp: crc_upd_def dest: steps_inj)

lemma bit_block: "bit (crc_block bs :: 'w word) k \<Longrightarrow> LENGTH('w) \<le> k + 8 * length bs \<and> k < LENGTH('w)"
proof (induction bs arbitrary: k)
  case Nil
  then show ?case by simp
next
  case (Cons b bs)
  from Cons.prems consider "bit (crc_in b :: 'w word) k" | "bit (crc_block bs :: 'w word) (k + 8)"
    by (auto simp: bit_simps add.commute)
  then show ?case
  proof cases
    case 1
    then show ?thesis using bit_imp_le_length [OF 1] by (auto simp: crc_in_def bit_push_bit_iff)
  next
    case 2
    from Cons.IH [OF 2] show ?thesis by simp
  qed
qed

lemma run_block:
  "8 * length bs \<le> LENGTH('w) \<Longrightarrow>
   foldl (crc_upd p) s bs = (crc_step p ^^ (8 * length bs)) (s XOR crc_block bs)"
proof (induction bs arbitrary: s)
  case Nil
  then show ?case by simp
next
  case (Cons b bs)
  let ?c = "crc_block bs :: 'w word"
  have shl: "(crc_step p ^^ 8) (drop_bit 8 ?c) = ?c"
  proof -
    have "(crc_step p ^^ 8) (drop_bit 8 ?c) = push_bit 8 (drop_bit 8 ?c)"
      by (rule crc_steps_shift) (use bit_imp_le_length in \<open>auto simp: bit_drop_bit_eq add.commute\<close>)
    also have "\<dots> = ?c"
    proof (rule bit_word_eqI)
      fix k
      show "bit (push_bit 8 (drop_bit 8 ?c)) k = bit ?c k"
        using bit_block [of bs k] Cons.prems by (auto simp: bit_push_bit_iff bit_drop_bit_eq)
    qed
    finally show ?thesis .
  qed
  have "foldl (crc_upd p) s (b # bs) =
      (crc_step p ^^ (8 * length bs)) ((crc_step p ^^ 8) (s XOR crc_in b) XOR ?c)"
    using Cons by (simp add: crc_upd_def [of p s b])
  also have "(crc_step p ^^ 8) (s XOR crc_in b) XOR ?c =
      (crc_step p ^^ 8) (s XOR crc_block (b # bs))"
    by (simp add: shl crc_steps_xor xor.assoc [symmetric])
  finally show ?case
    using funpow_add [of "8 * length bs" 8 "crc_step p"] by (simp add: add.commute)
qed

lemma block_inj:
  "8 * length bs \<le> LENGTH('w) \<Longrightarrow> length cs = length bs \<Longrightarrow>
   crc_block bs = (crc_block cs :: 'w word) \<Longrightarrow> bs = cs"
proof (induction bs arbitrary: cs)
  case Nil
  then show ?case by simp
next
  case (Cons b bs)
  then obtain c cs' where cs: "cs = c # cs'" "length cs' = length bs" by (cases cs) auto
  have eq: "crc_in b XOR drop_bit 8 (crc_block bs) =
      (crc_in c XOR drop_bit 8 (crc_block cs') :: 'w word)"
    using Cons.prems cs by simp
  have "b = c"
  proof (rule bit_word_eqI)
    fix k assume k: "k < LENGTH(8)"
    have "bit (crc_in b :: 'w word) (LENGTH('w) - 8 + k) = bit (crc_in c :: 'w word) (LENGTH('w) - 8 + k)"
      using arg_cong [OF eq, of "\<lambda>w. bit w (LENGTH('w) - 8 + k)"] k byte_width
      by (auto simp: bit_xor_iff bit_drop_bit_eq dest: bit_imp_le_length)
    then show "bit b k = bit c k" using k byte_width
      by (auto simp: crc_in_def bit_push_bit_iff bit_unsigned_iff)
  qed
  moreover have "crc_block bs = (crc_block cs' :: 'w word)"
  proof (rule bit_word_eqI)
    fix k
    have "drop_bit 8 (crc_block bs) = (drop_bit 8 (crc_block cs') :: 'w word)"
      using eq \<open>b = c\<close> by simp
    then have "bit (crc_block bs :: 'w word) (8 + (k - 8)) = bit (crc_block cs' :: 'w word) (8 + (k - 8))"
      by (metis bit_drop_bit_eq comp_apply)
    then show "bit (crc_block bs :: 'w word) k = bit (crc_block cs' :: 'w word) k"
      using bit_block [of bs k] bit_block [of cs' k] Cons.prems(1) cs(2) by (cases "8 \<le> k") auto
  qed
  ultimately show ?case using Cons.IH Cons.prems(1) cs by simp
qed

lemma run_block_inj:
  assumes "length bs \<le> LENGTH('w) div 8" and "length cs = length bs"
    and "foldl (crc_upd p) s bs = foldl (crc_upd p) s cs"
  shows "bs = cs"
proof -
  have fits: "8 * length bs \<le> LENGTH('w)" using assms(1) by auto
  then have "s XOR crc_block bs = s XOR crc_block cs"
    using assms(2,3) run_block [of bs s] run_block [of cs s] steps_inj by metis
  then show ?thesis using block_inj fits assms(2) by simp
qed

end

sublocale crc_poly \<subseteq> reg: crc_engine "crc_upd p" "LENGTH('w) div 8"
  by unfold_locales (auto dest: upd_inj_state run_block_inj)

sublocale crc_poly \<subseteq> rfl: crc_engine "crc_rupd p" "LENGTH('w) div 8"
proof unfold_locales
  fix s t :: "'w word" and b
  assume "crc_rupd p s b = crc_rupd p t b"
  then show "s = t" by (metis crc_rupd_def upd_inj_state word_rev_rev)
next
  fix bs cs :: "uint8 list" and s :: "'w word"
  assume "length bs \<le> LENGTH('w) div 8" and "length cs = length bs"
    and "foldl (crc_rupd p) s bs = foldl (crc_rupd p) s cs"
  then have "map word_reverse bs = map word_reverse cs"
    by (auto simp: crc_rupd_run dest!: word_eq_reverseI intro: run_block_inj)
  then show "bs = cs"
    by (rule map_injective) (auto intro: injI word_eq_reverseI)
qed

end
