(* ===== verification/Crc.thy ===== *)
theory Crc
  imports Crc_Poly
begin

text \<open>
  The CRC module: \<^verbatim>\<open>core/system/Crc/Crc_8.c\<close>, \<^verbatim>\<open>Crc_16.c\<close>,
  \<^verbatim>\<open>Crc_32.c\<close> and \<^verbatim>\<open>Crc_32P4.c\<close>, with the configuration of
  \<^verbatim>\<open>core/boards/generic/Crc_Cfg.h\<close>. Each routine exists twice in the sources, selected by
  the preprocessor: bit by bit (\<open>CRC_RUNTIME\<close>) or by a 256-entry table (\<open>CRC_TABLE\<close>); the
  hardware mode is refused at compile time. The model takes the mode as its first argument.
  The data pointer is the list of bytes from it on, and \<open>None\<close> as a result is a read past its end.

  The lemmas show that the tables are those of the polynomials, that the two modes agree on every
  input, that calls can be chained over a split message, and that every change of the message
  confined to a block as wide as the check value changes the check value.
\<close>

section \<open>Definitions\<close>

datatype Crc_Mode = CRC_RUNTIME | CRC_TABLE

definition CRC_8_MODE :: Crc_Mode where "CRC_8_MODE = CRC_TABLE"
definition CRC_8H2F_MODE :: Crc_Mode where "CRC_8H2F_MODE = CRC_TABLE"
definition CRC_16_MODE :: Crc_Mode where "CRC_16_MODE = CRC_TABLE"
definition CRC_32_MODE :: Crc_Mode where "CRC_32_MODE = CRC_TABLE"
definition CRC_32P4_MODE :: Crc_Mode where "CRC_32P4_MODE = CRC_TABLE"

abbreviation (input) CRC8_START_VALUE :: uint8 where "CRC8_START_VALUE \<equiv> 0xFF"
abbreviation (input) CRC8_XOR :: uint8 where "CRC8_XOR \<equiv> 0xFF"
abbreviation (input) CRC8_POLYNOMIAL :: uint8 where "CRC8_POLYNOMIAL \<equiv> 0x1D"
abbreviation (input) CRC8_H2F_START_VALUE :: uint8 where "CRC8_H2F_START_VALUE \<equiv> 0xFF"
abbreviation (input) CRC8_H2F_XOR :: uint8 where "CRC8_H2F_XOR \<equiv> 0xFF"
abbreviation (input) CRC8_H2F_POLYNOMIAL :: uint8 where "CRC8_H2F_POLYNOMIAL \<equiv> 0x2F"
abbreviation (input) CRC16_CCITT_START_VALUE :: uint16 where "CRC16_CCITT_START_VALUE \<equiv> 0xFFFF"
abbreviation (input) CRC16_CCITT_POLYNOMIAL :: uint16 where "CRC16_CCITT_POLYNOMIAL \<equiv> 0x1021"
abbreviation (input) CRC16_CCITT_XOR :: uint16 where "CRC16_CCITT_XOR \<equiv> 0"
abbreviation (input) CRC32_START_VALUE :: uint32 where "CRC32_START_VALUE \<equiv> 0xFFFFFFFF"
abbreviation (input) CRC32_POLYNOMIAL :: uint32 where "CRC32_POLYNOMIAL \<equiv> 0x04C11DB7"
abbreviation (input) CRC32_XOR :: uint32 where "CRC32_XOR \<equiv> 0xFFFFFFFF"
abbreviation (input) CRC32P4_START_VALUE :: uint32 where "CRC32P4_START_VALUE \<equiv> 0xFFFFFFFF"
abbreviation (input) CRC32P4_POLYNOMIAL :: uint32 where "CRC32P4_POLYNOMIAL \<equiv> 0xF4ACFB13"
abbreviation (input) CRC32P4_XOR :: uint32 where "CRC32P4_XOR \<equiv> 0xFFFFFFFF"

text \<open>The inner loop all bit-by-bit routines share, over a counter that runs down from 8.\<close>

primrec crc_bit_loop :: "nat \<Rightarrow> 'w::len word \<Rightarrow> 'w word \<Rightarrow> 'w word \<Rightarrow> 'w word" where
  "crc_bit_loop 0 topbit poly remainder = remainder"
| "crc_bit_loop (Suc i) topbit poly remainder =
     crc_bit_loop i topbit poly
       (if remainder AND topbit \<noteq> 0 then push_bit 1 remainder XOR poly
        else push_bit 1 remainder)"

subsection \<open>Crc_8.c\<close>

definition crc8_tab :: "8 word list" where
  "crc8_tab = [
     0x00, 0x1D, 0x3A, 0x27, 0x74, 0x69, 0x4E, 0x53,
     0xE8, 0xF5, 0xD2, 0xCF, 0x9C, 0x81, 0xA6, 0xBB,
     0xCD, 0xD0, 0xF7, 0xEA, 0xB9, 0xA4, 0x83, 0x9E,
     0x25, 0x38, 0x1F, 0x02, 0x51, 0x4C, 0x6B, 0x76,
     0x87, 0x9A, 0xBD, 0xA0, 0xF3, 0xEE, 0xC9, 0xD4,
     0x6F, 0x72, 0x55, 0x48, 0x1B, 0x06, 0x21, 0x3C,
     0x4A, 0x57, 0x70, 0x6D, 0x3E, 0x23, 0x04, 0x19,
     0xA2, 0xBF, 0x98, 0x85, 0xD6, 0xCB, 0xEC, 0xF1,
     0x13, 0x0E, 0x29, 0x34, 0x67, 0x7A, 0x5D, 0x40,
     0xFB, 0xE6, 0xC1, 0xDC, 0x8F, 0x92, 0xB5, 0xA8,
     0xDE, 0xC3, 0xE4, 0xF9, 0xAA, 0xB7, 0x90, 0x8D,
     0x36, 0x2B, 0x0C, 0x11, 0x42, 0x5F, 0x78, 0x65,
     0x94, 0x89, 0xAE, 0xB3, 0xE0, 0xFD, 0xDA, 0xC7,
     0x7C, 0x61, 0x46, 0x5B, 0x08, 0x15, 0x32, 0x2F,
     0x59, 0x44, 0x63, 0x7E, 0x2D, 0x30, 0x17, 0x0A,
     0xB1, 0xAC, 0x8B, 0x96, 0xC5, 0xD8, 0xFF, 0xE2,
     0x26, 0x3B, 0x1C, 0x01, 0x52, 0x4F, 0x68, 0x75,
     0xCE, 0xD3, 0xF4, 0xE9, 0xBA, 0xA7, 0x80, 0x9D,
     0xEB, 0xF6, 0xD1, 0xCC, 0x9F, 0x82, 0xA5, 0xB8,
     0x03, 0x1E, 0x39, 0x24, 0x77, 0x6A, 0x4D, 0x50,
     0xA1, 0xBC, 0x9B, 0x86, 0xD5, 0xC8, 0xEF, 0xF2,
     0x49, 0x54, 0x73, 0x6E, 0x3D, 0x20, 0x07, 0x1A,
     0x6C, 0x71, 0x56, 0x4B, 0x18, 0x05, 0x22, 0x3F,
     0x84, 0x99, 0xBE, 0xA3, 0xF0, 0xED, 0xCA, 0xD7,
     0x35, 0x28, 0x0F, 0x12, 0x41, 0x5C, 0x7B, 0x66,
     0xDD, 0xC0, 0xE7, 0xFA, 0xA9, 0xB4, 0x93, 0x8E,
     0xF8, 0xE5, 0xC2, 0xDF, 0x8C, 0x91, 0xB6, 0xAB,
     0x10, 0x0D, 0x2A, 0x37, 0x64, 0x79, 0x5E, 0x43,
     0xB2, 0xAF, 0x88, 0x95, 0xC6, 0xDB, 0xFC, 0xE1,
     0x5A, 0x47, 0x60, 0x7D, 0x2E, 0x33, 0x14, 0x09,
     0x7F, 0x62, 0x45, 0x58, 0x0B, 0x16, 0x31, 0x2C,
     0x97, 0x8A, 0xAD, 0xB0, 0xE3, 0xFE, 0xD9, 0xC4]"

definition crc8H2F_tab :: "8 word list" where
  "crc8H2F_tab = [
     0x00, 0x2F, 0x5E, 0x71, 0xBC, 0x93, 0xE2, 0xCD,
     0x57, 0x78, 0x09, 0x26, 0xEB, 0xC4, 0xB5, 0x9A,
     0xAE, 0x81, 0xF0, 0xDF, 0x12, 0x3D, 0x4C, 0x63,
     0xF9, 0xD6, 0xA7, 0x88, 0x45, 0x6A, 0x1B, 0x34,
     0x73, 0x5C, 0x2D, 0x02, 0xCF, 0xE0, 0x91, 0xBE,
     0x24, 0x0B, 0x7A, 0x55, 0x98, 0xB7, 0xC6, 0xE9,
     0xDD, 0xF2, 0x83, 0xAC, 0x61, 0x4E, 0x3F, 0x10,
     0x8A, 0xA5, 0xD4, 0xFB, 0x36, 0x19, 0x68, 0x47,
     0xE6, 0xC9, 0xB8, 0x97, 0x5A, 0x75, 0x04, 0x2B,
     0xB1, 0x9E, 0xEF, 0xC0, 0x0D, 0x22, 0x53, 0x7C,
     0x48, 0x67, 0x16, 0x39, 0xF4, 0xDB, 0xAA, 0x85,
     0x1F, 0x30, 0x41, 0x6E, 0xA3, 0x8C, 0xFD, 0xD2,
     0x95, 0xBA, 0xCB, 0xE4, 0x29, 0x06, 0x77, 0x58,
     0xC2, 0xED, 0x9C, 0xB3, 0x7E, 0x51, 0x20, 0x0F,
     0x3B, 0x14, 0x65, 0x4A, 0x87, 0xA8, 0xD9, 0xF6,
     0x6C, 0x43, 0x32, 0x1D, 0xD0, 0xFF, 0x8E, 0xA1,
     0xE3, 0xCC, 0xBD, 0x92, 0x5F, 0x70, 0x01, 0x2E,
     0xB4, 0x9B, 0xEA, 0xC5, 0x08, 0x27, 0x56, 0x79,
     0x4D, 0x62, 0x13, 0x3C, 0xF1, 0xDE, 0xAF, 0x80,
     0x1A, 0x35, 0x44, 0x6B, 0xA6, 0x89, 0xF8, 0xD7,
     0x90, 0xBF, 0xCE, 0xE1, 0x2C, 0x03, 0x72, 0x5D,
     0xC7, 0xE8, 0x99, 0xB6, 0x7B, 0x54, 0x25, 0x0A,
     0x3E, 0x11, 0x60, 0x4F, 0x82, 0xAD, 0xDC, 0xF3,
     0x69, 0x46, 0x37, 0x18, 0xD5, 0xFA, 0x8B, 0xA4,
     0x05, 0x2A, 0x5B, 0x74, 0xB9, 0x96, 0xE7, 0xC8,
     0x52, 0x7D, 0x0C, 0x23, 0xEE, 0xC1, 0xB0, 0x9F,
     0xAB, 0x84, 0xF5, 0xDA, 0x17, 0x38, 0x49, 0x66,
     0xFC, 0xD3, 0xA2, 0x8D, 0x40, 0x6F, 0x1E, 0x31,
     0x76, 0x59, 0x28, 0x07, 0xCA, 0xE5, 0x94, 0xBB,
     0x21, 0x0E, 0x7F, 0x50, 0x9D, 0xB2, 0xC3, 0xEC,
     0xD8, 0xF7, 0x86, 0xA9, 0x64, 0x4B, 0x3A, 0x15,
     0x8F, 0xA0, 0xD1, 0xFE, 0x33, 0x1C, 0x6D, 0x42]"

definition CalculateCRC8 :: "uint8 list \<Rightarrow> uint32 \<Rightarrow> uint8 \<Rightarrow> uint8 \<Rightarrow> uint8 ub" where
  "CalculateCRC8 message nBytes start poly =
     ptr_loop (\<lambda>remainder byte. crc_bit_loop 8 0x80 poly (remainder XOR byte))
       (unat nBytes) message start"

definition crc8_table_byte :: "uint8 \<Rightarrow> uint8 \<Rightarrow> uint8" where
  "crc8_table_byte crc b = crc8_tab ! unat (crc XOR b)"

definition crc8H2F_table_byte :: "uint8 \<Rightarrow> uint8 \<Rightarrow> uint8" where
  "crc8H2F_table_byte crc b = crc8H2F_tab ! unat (crc XOR b)"

definition Crc_CalculateCRC8 ::
  "Crc_Mode \<Rightarrow> uint8 list ptr \<Rightarrow> uint32 \<Rightarrow> uint8 \<Rightarrow> bool \<Rightarrow> uint8 ub" where
  "Crc_CalculateCRC8 mode Crc_DataPtr Crc_Length Crc_StartValue8 Crc_IsFirstCall =
     (case Crc_DataPtr of
        None \<Rightarrow> Some 0
      | Some data \<Rightarrow>
          do { let crc = (if Crc_IsFirstCall then CRC8_START_VALUE else Crc_StartValue8 XOR CRC8_XOR);
               crc \<leftarrow> (case mode of
                 CRC_RUNTIME \<Rightarrow> CalculateCRC8 data Crc_Length crc CRC8_POLYNOMIAL
               | CRC_TABLE \<Rightarrow> ptr_loop crc8_table_byte (unat Crc_Length) data crc);
               Some (crc XOR CRC8_XOR) })"

definition Crc_CalculateCRC8H2F ::
  "Crc_Mode \<Rightarrow> uint8 list ptr \<Rightarrow> uint32 \<Rightarrow> uint8 \<Rightarrow> bool \<Rightarrow> uint8 ub" where
  "Crc_CalculateCRC8H2F mode Crc_DataPtr Crc_Length Crc_StartValue8 Crc_IsFirstCall =
     (case Crc_DataPtr of
        None \<Rightarrow> Some 0
      | Some data \<Rightarrow>
          do { let crc = (if Crc_IsFirstCall then CRC8_H2F_START_VALUE
                          else Crc_StartValue8 XOR CRC8_H2F_XOR);
               crc \<leftarrow> (case mode of
                 CRC_RUNTIME \<Rightarrow> CalculateCRC8 data Crc_Length crc CRC8_H2F_POLYNOMIAL
               | CRC_TABLE \<Rightarrow> ptr_loop crc8H2F_table_byte (unat Crc_Length) data crc);
               Some (crc XOR CRC8_H2F_XOR) })"

subsection \<open>Crc_16.c\<close>

definition crc16tab :: "16 word list" where
  "crc16tab = [
     0x0000, 0x1021, 0x2042, 0x3063, 0x4084, 0x50A5, 0x60C6, 0x70E7,
     0x8108, 0x9129, 0xA14A, 0xB16B, 0xC18C, 0xD1AD, 0xE1CE, 0xF1EF,
     0x1231, 0x0210, 0x3273, 0x2252, 0x52B5, 0x4294, 0x72F7, 0x62D6,
     0x9339, 0x8318, 0xB37B, 0xA35A, 0xD3BD, 0xC39C, 0xF3FF, 0xE3DE,
     0x2462, 0x3443, 0x0420, 0x1401, 0x64E6, 0x74C7, 0x44A4, 0x5485,
     0xA56A, 0xB54B, 0x8528, 0x9509, 0xE5EE, 0xF5CF, 0xC5AC, 0xD58D,
     0x3653, 0x2672, 0x1611, 0x0630, 0x76D7, 0x66F6, 0x5695, 0x46B4,
     0xB75B, 0xA77A, 0x9719, 0x8738, 0xF7DF, 0xE7FE, 0xD79D, 0xC7BC,
     0x48C4, 0x58E5, 0x6886, 0x78A7, 0x0840, 0x1861, 0x2802, 0x3823,
     0xC9CC, 0xD9ED, 0xE98E, 0xF9AF, 0x8948, 0x9969, 0xA90A, 0xB92B,
     0x5AF5, 0x4AD4, 0x7AB7, 0x6A96, 0x1A71, 0x0A50, 0x3A33, 0x2A12,
     0xDBFD, 0xCBDC, 0xFBBF, 0xEB9E, 0x9B79, 0x8B58, 0xBB3B, 0xAB1A,
     0x6CA6, 0x7C87, 0x4CE4, 0x5CC5, 0x2C22, 0x3C03, 0x0C60, 0x1C41,
     0xEDAE, 0xFD8F, 0xCDEC, 0xDDCD, 0xAD2A, 0xBD0B, 0x8D68, 0x9D49,
     0x7E97, 0x6EB6, 0x5ED5, 0x4EF4, 0x3E13, 0x2E32, 0x1E51, 0x0E70,
     0xFF9F, 0xEFBE, 0xDFDD, 0xCFFC, 0xBF1B, 0xAF3A, 0x9F59, 0x8F78,
     0x9188, 0x81A9, 0xB1CA, 0xA1EB, 0xD10C, 0xC12D, 0xF14E, 0xE16F,
     0x1080, 0x00A1, 0x30C2, 0x20E3, 0x5004, 0x4025, 0x7046, 0x6067,
     0x83B9, 0x9398, 0xA3FB, 0xB3DA, 0xC33D, 0xD31C, 0xE37F, 0xF35E,
     0x02B1, 0x1290, 0x22F3, 0x32D2, 0x4235, 0x5214, 0x6277, 0x7256,
     0xB5EA, 0xA5CB, 0x95A8, 0x8589, 0xF56E, 0xE54F, 0xD52C, 0xC50D,
     0x34E2, 0x24C3, 0x14A0, 0x0481, 0x7466, 0x6447, 0x5424, 0x4405,
     0xA7DB, 0xB7FA, 0x8799, 0x97B8, 0xE75F, 0xF77E, 0xC71D, 0xD73C,
     0x26D3, 0x36F2, 0x0691, 0x16B0, 0x6657, 0x7676, 0x4615, 0x5634,
     0xD94C, 0xC96D, 0xF90E, 0xE92F, 0x99C8, 0x89E9, 0xB98A, 0xA9AB,
     0x5844, 0x4865, 0x7806, 0x6827, 0x18C0, 0x08E1, 0x3882, 0x28A3,
     0xCB7D, 0xDB5C, 0xEB3F, 0xFB1E, 0x8BF9, 0x9BD8, 0xABBB, 0xBB9A,
     0x4A75, 0x5A54, 0x6A37, 0x7A16, 0x0AF1, 0x1AD0, 0x2AB3, 0x3A92,
     0xFD2E, 0xED0F, 0xDD6C, 0xCD4D, 0xBDAA, 0xAD8B, 0x9DE8, 0x8DC9,
     0x7C26, 0x6C07, 0x5C64, 0x4C45, 0x3CA2, 0x2C83, 0x1CE0, 0x0CC1,
     0xEF1F, 0xFF3E, 0xCF5D, 0xDF7C, 0xAF9B, 0xBFBA, 0x8FD9, 0x9FF8,
     0x6E17, 0x7E36, 0x4E55, 0x5E74, 0x2E93, 0x3EB2, 0x0ED1, 0x1EF0]"

definition CalculateCRC16 :: "uint8 list \<Rightarrow> uint32 \<Rightarrow> uint16 \<Rightarrow> uint16 ub" where
  "CalculateCRC16 message nBytes start =
     ptr_loop (\<lambda>remainder byte.
         crc_bit_loop 8 0x8000 CRC16_CCITT_POLYNOMIAL (remainder XOR push_bit 8 (ucast byte)))
       (unat nBytes) message start"

definition crc16_table_byte :: "uint16 \<Rightarrow> uint8 \<Rightarrow> uint16" where
  "crc16_table_byte crc b =
     push_bit 8 crc XOR (crc16tab ! unat ((drop_bit 8 crc XOR ucast b) AND 0x00FF))"

definition Crc_CalculateCRC16 ::
  "Crc_Mode \<Rightarrow> uint8 list ptr \<Rightarrow> uint32 \<Rightarrow> uint16 \<Rightarrow> bool \<Rightarrow> uint16 ub" where
  "Crc_CalculateCRC16 mode Crc_DataPtr Crc_Length Crc_StartValue16 Crc_IsFirstCall =
     (case Crc_DataPtr of
        None \<Rightarrow> Some 0
      | Some data \<Rightarrow>
          do { let crc = (if Crc_IsFirstCall then CRC16_CCITT_START_VALUE
                          else Crc_StartValue16 XOR CRC16_CCITT_XOR);
               crc \<leftarrow> (case mode of
                 CRC_RUNTIME \<Rightarrow> CalculateCRC16 data Crc_Length crc
               | CRC_TABLE \<Rightarrow> ptr_loop crc16_table_byte (unat Crc_Length) data crc);
               Some (crc XOR CRC16_CCITT_XOR) })"

subsection \<open>Crc_32.c and Crc_32P4.c\<close>

definition crc32_tab :: "32 word list" where
  "crc32_tab = [
     0x00000000, 0x77073096, 0xEE0E612C, 0x990951BA, 0x076DC419, 0x706AF48F, 0xE963A535, 0x9E6495A3,
     0x0EDB8832, 0x79DCB8A4, 0xE0D5E91E, 0x97D2D988, 0x09B64C2B, 0x7EB17CBD, 0xE7B82D07, 0x90BF1D91,
     0x1DB71064, 0x6AB020F2, 0xF3B97148, 0x84BE41DE, 0x1ADAD47D, 0x6DDDE4EB, 0xF4D4B551, 0x83D385C7,
     0x136C9856, 0x646BA8C0, 0xFD62F97A, 0x8A65C9EC, 0x14015C4F, 0x63066CD9, 0xFA0F3D63, 0x8D080DF5,
     0x3B6E20C8, 0x4C69105E, 0xD56041E4, 0xA2677172, 0x3C03E4D1, 0x4B04D447, 0xD20D85FD, 0xA50AB56B,
     0x35B5A8FA, 0x42B2986C, 0xDBBBC9D6, 0xACBCF940, 0x32D86CE3, 0x45DF5C75, 0xDCD60DCF, 0xABD13D59,
     0x26D930AC, 0x51DE003A, 0xC8D75180, 0xBFD06116, 0x21B4F4B5, 0x56B3C423, 0xCFBA9599, 0xB8BDA50F,
     0x2802B89E, 0x5F058808, 0xC60CD9B2, 0xB10BE924, 0x2F6F7C87, 0x58684C11, 0xC1611DAB, 0xB6662D3D,
     0x76DC4190, 0x01DB7106, 0x98D220BC, 0xEFD5102A, 0x71B18589, 0x06B6B51F, 0x9FBFE4A5, 0xE8B8D433,
     0x7807C9A2, 0x0F00F934, 0x9609A88E, 0xE10E9818, 0x7F6A0DBB, 0x086D3D2D, 0x91646C97, 0xE6635C01,
     0x6B6B51F4, 0x1C6C6162, 0x856530D8, 0xF262004E, 0x6C0695ED, 0x1B01A57B, 0x8208F4C1, 0xF50FC457,
     0x65B0D9C6, 0x12B7E950, 0x8BBEB8EA, 0xFCB9887C, 0x62DD1DDF, 0x15DA2D49, 0x8CD37CF3, 0xFBD44C65,
     0x4DB26158, 0x3AB551CE, 0xA3BC0074, 0xD4BB30E2, 0x4ADFA541, 0x3DD895D7, 0xA4D1C46D, 0xD3D6F4FB,
     0x4369E96A, 0x346ED9FC, 0xAD678846, 0xDA60B8D0, 0x44042D73, 0x33031DE5, 0xAA0A4C5F, 0xDD0D7CC9,
     0x5005713C, 0x270241AA, 0xBE0B1010, 0xC90C2086, 0x5768B525, 0x206F85B3, 0xB966D409, 0xCE61E49F,
     0x5EDEF90E, 0x29D9C998, 0xB0D09822, 0xC7D7A8B4, 0x59B33D17, 0x2EB40D81, 0xB7BD5C3B, 0xC0BA6CAD,
     0xEDB88320, 0x9ABFB3B6, 0x03B6E20C, 0x74B1D29A, 0xEAD54739, 0x9DD277AF, 0x04DB2615, 0x73DC1683,
     0xE3630B12, 0x94643B84, 0x0D6D6A3E, 0x7A6A5AA8, 0xE40ECF0B, 0x9309FF9D, 0x0A00AE27, 0x7D079EB1,
     0xF00F9344, 0x8708A3D2, 0x1E01F268, 0x6906C2FE, 0xF762575D, 0x806567CB, 0x196C3671, 0x6E6B06E7,
     0xFED41B76, 0x89D32BE0, 0x10DA7A5A, 0x67DD4ACC, 0xF9B9DF6F, 0x8EBEEFF9, 0x17B7BE43, 0x60B08ED5,
     0xD6D6A3E8, 0xA1D1937E, 0x38D8C2C4, 0x4FDFF252, 0xD1BB67F1, 0xA6BC5767, 0x3FB506DD, 0x48B2364B,
     0xD80D2BDA, 0xAF0A1B4C, 0x36034AF6, 0x41047A60, 0xDF60EFC3, 0xA867DF55, 0x316E8EEF, 0x4669BE79,
     0xCB61B38C, 0xBC66831A, 0x256FD2A0, 0x5268E236, 0xCC0C7795, 0xBB0B4703, 0x220216B9, 0x5505262F,
     0xC5BA3BBE, 0xB2BD0B28, 0x2BB45A92, 0x5CB36A04, 0xC2D7FFA7, 0xB5D0CF31, 0x2CD99E8B, 0x5BDEAE1D,
     0x9B64C2B0, 0xEC63F226, 0x756AA39C, 0x026D930A, 0x9C0906A9, 0xEB0E363F, 0x72076785, 0x05005713,
     0x95BF4A82, 0xE2B87A14, 0x7BB12BAE, 0x0CB61B38, 0x92D28E9B, 0xE5D5BE0D, 0x7CDCEFB7, 0x0BDBDF21,
     0x86D3D2D4, 0xF1D4E242, 0x68DDB3F8, 0x1FDA836E, 0x81BE16CD, 0xF6B9265B, 0x6FB077E1, 0x18B74777,
     0x88085AE6, 0xFF0F6A70, 0x66063BCA, 0x11010B5C, 0x8F659EFF, 0xF862AE69, 0x616BFFD3, 0x166CCF45,
     0xA00AE278, 0xD70DD2EE, 0x4E048354, 0x3903B3C2, 0xA7672661, 0xD06016F7, 0x4969474D, 0x3E6E77DB,
     0xAED16A4A, 0xD9D65ADC, 0x40DF0B66, 0x37D83BF0, 0xA9BCAE53, 0xDEBB9EC5, 0x47B2CF7F, 0x30B5FFE9,
     0xBDBDF21C, 0xCABAC28A, 0x53B39330, 0x24B4A3A6, 0xBAD03605, 0xCDD70693, 0x54DE5729, 0x23D967BF,
     0xB3667A2E, 0xC4614AB8, 0x5D681B02, 0x2A6F2B94, 0xB40BBE37, 0xC30C8EA1, 0x5A05DF1B, 0x2D02EF8D]"

definition crc32p4_tab :: "32 word list" where
  "crc32p4_tab = [
     0x00000000, 0x30850FF5, 0x610A1FEA, 0x518F101F, 0xC2143FD4, 0xF2913021, 0xA31E203E, 0x939B2FCB,
     0x159615F7, 0x25131A02, 0x749C0A1D, 0x441905E8, 0xD7822A23, 0xE70725D6, 0xB68835C9, 0x860D3A3C,
     0x2B2C2BEE, 0x1BA9241B, 0x4A263404, 0x7AA33BF1, 0xE938143A, 0xD9BD1BCF, 0x88320BD0, 0xB8B70425,
     0x3EBA3E19, 0x0E3F31EC, 0x5FB021F3, 0x6F352E06, 0xFCAE01CD, 0xCC2B0E38, 0x9DA41E27, 0xAD2111D2,
     0x565857DC, 0x66DD5829, 0x37524836, 0x07D747C3, 0x944C6808, 0xA4C967FD, 0xF54677E2, 0xC5C37817,
     0x43CE422B, 0x734B4DDE, 0x22C45DC1, 0x12415234, 0x81DA7DFF, 0xB15F720A, 0xE0D06215, 0xD0556DE0,
     0x7D747C32, 0x4DF173C7, 0x1C7E63D8, 0x2CFB6C2D, 0xBF6043E6, 0x8FE54C13, 0xDE6A5C0C, 0xEEEF53F9,
     0x68E269C5, 0x58676630, 0x09E8762F, 0x396D79DA, 0xAAF65611, 0x9A7359E4, 0xCBFC49FB, 0xFB79460E,
     0xACB0AFB8, 0x9C35A04D, 0xCDBAB052, 0xFD3FBFA7, 0x6EA4906C, 0x5E219F99, 0x0FAE8F86, 0x3F2B8073,
     0xB926BA4F, 0x89A3B5BA, 0xD82CA5A5, 0xE8A9AA50, 0x7B32859B, 0x4BB78A6E, 0x1A389A71, 0x2ABD9584,
     0x879C8456, 0xB7198BA3, 0xE6969BBC, 0xD6139449, 0x4588BB82, 0x750DB477, 0x2482A468, 0x1407AB9D,
     0x920A91A1, 0xA28F9E54, 0xF3008E4B, 0xC38581BE, 0x501EAE75, 0x609BA180, 0x3114B19F, 0x0191BE6A,
     0xFAE8F864, 0xCA6DF791, 0x9BE2E78E, 0xAB67E87B, 0x38FCC7B0, 0x0879C845, 0x59F6D85A, 0x6973D7AF,
     0xEF7EED93, 0xDFFBE266, 0x8E74F279, 0xBEF1FD8C, 0x2D6AD247, 0x1DEFDDB2, 0x4C60CDAD, 0x7CE5C258,
     0xD1C4D38A, 0xE141DC7F, 0xB0CECC60, 0x804BC395, 0x13D0EC5E, 0x2355E3AB, 0x72DAF3B4, 0x425FFC41,
     0xC452C67D, 0xF4D7C988, 0xA558D997, 0x95DDD662, 0x0646F9A9, 0x36C3F65C, 0x674CE643, 0x57C9E9B6,
     0xC8DF352F, 0xF85A3ADA, 0xA9D52AC5, 0x99502530, 0x0ACB0AFB, 0x3A4E050E, 0x6BC11511, 0x5B441AE4,
     0xDD4920D8, 0xEDCC2F2D, 0xBC433F32, 0x8CC630C7, 0x1F5D1F0C, 0x2FD810F9, 0x7E5700E6, 0x4ED20F13,
     0xE3F31EC1, 0xD3761134, 0x82F9012B, 0xB27C0EDE, 0x21E72115, 0x11622EE0, 0x40ED3EFF, 0x7068310A,
     0xF6650B36, 0xC6E004C3, 0x976F14DC, 0xA7EA1B29, 0x347134E2, 0x04F43B17, 0x557B2B08, 0x65FE24FD,
     0x9E8762F3, 0xAE026D06, 0xFF8D7D19, 0xCF0872EC, 0x5C935D27, 0x6C1652D2, 0x3D9942CD, 0x0D1C4D38,
     0x8B117704, 0xBB9478F1, 0xEA1B68EE, 0xDA9E671B, 0x490548D0, 0x79804725, 0x280F573A, 0x188A58CF,
     0xB5AB491D, 0x852E46E8, 0xD4A156F7, 0xE4245902, 0x77BF76C9, 0x473A793C, 0x16B56923, 0x263066D6,
     0xA03D5CEA, 0x90B8531F, 0xC1374300, 0xF1B24CF5, 0x6229633E, 0x52AC6CCB, 0x03237CD4, 0x33A67321,
     0x646F9A97, 0x54EA9562, 0x0565857D, 0x35E08A88, 0xA67BA543, 0x96FEAAB6, 0xC771BAA9, 0xF7F4B55C,
     0x71F98F60, 0x417C8095, 0x10F3908A, 0x20769F7F, 0xB3EDB0B4, 0x8368BF41, 0xD2E7AF5E, 0xE262A0AB,
     0x4F43B179, 0x7FC6BE8C, 0x2E49AE93, 0x1ECCA166, 0x8D578EAD, 0xBDD28158, 0xEC5D9147, 0xDCD89EB2,
     0x5AD5A48E, 0x6A50AB7B, 0x3BDFBB64, 0x0B5AB491, 0x98C19B5A, 0xA84494AF, 0xF9CB84B0, 0xC94E8B45,
     0x3237CD4B, 0x02B2C2BE, 0x533DD2A1, 0x63B8DD54, 0xF023F29F, 0xC0A6FD6A, 0x9129ED75, 0xA1ACE280,
     0x27A1D8BC, 0x1724D749, 0x46ABC756, 0x762EC8A3, 0xE5B5E768, 0xD530E89D, 0x84BFF882, 0xB43AF777,
     0x191BE6A5, 0x299EE950, 0x7811F94F, 0x4894F6BA, 0xDB0FD971, 0xEB8AD684, 0xBA05C69B, 0x8A80C96E,
     0x0C8DF352, 0x3C08FCA7, 0x6D87ECB8, 0x5D02E34D, 0xCE99CC86, 0xFE1CC373, 0xAF93D36C, 0x9F16DC99]"

text \<open>
  The reflection loops: round \<open>pos\<close> sets bit \<open>31 - pos\<close> (or \<open>7 - pos\<close>) when the lowest bit of
  the shifted data is set. The two files hold the same text of both helpers.
\<close>

fun reflectResult_loop :: "nat \<Rightarrow> nat \<Rightarrow> uint32 \<Rightarrow> uint32 \<Rightarrow> uint32" where
  "reflectResult_loop 0 pos tmpData reflection = reflection"
| "reflectResult_loop (Suc n) pos tmpData reflection =
     reflectResult_loop n (Suc pos) (drop_bit 1 tmpData)
       (if tmpData AND 1 \<noteq> 0 then reflection OR push_bit (31 - pos) 1 else reflection)"

definition reflectResult :: "uint32 \<Rightarrow> uint32" where
  "reflectResult data = reflectResult_loop 32 0 data 0"

fun reflectInData_loop :: "nat \<Rightarrow> nat \<Rightarrow> uint32 \<Rightarrow> uint8 \<Rightarrow> uint8" where
  "reflectInData_loop 0 pos tmpData reflection = reflection"
| "reflectInData_loop (Suc n) pos tmpData reflection =
     reflectInData_loop n (Suc pos) (drop_bit 1 tmpData)
       (if tmpData AND 1 \<noteq> 0 then reflection OR push_bit (7 - pos) 1 else reflection)"

definition reflectInData :: "uint8 \<Rightarrow> uint8" where
  "reflectInData data = reflectInData_loop 8 0 (ucast data) 0"

definition CalculateCRC32 :: "uint8 list \<Rightarrow> uint32 \<Rightarrow> uint32 \<Rightarrow> uint32 ub" where
  "CalculateCRC32 message nBytes start =
     do { remainder \<leftarrow> ptr_loop (\<lambda>remainder byte.
              crc_bit_loop 8 0x80000000 CRC32_POLYNOMIAL
                (remainder XOR push_bit 24 (ucast (reflectInData byte))))
            (unat nBytes) message (reflectResult start);
          Some (reflectResult remainder) }"

definition CalculateCRC32P4 :: "uint8 list \<Rightarrow> uint32 \<Rightarrow> uint32 \<Rightarrow> uint32 ub" where
  "CalculateCRC32P4 message nBytes start =
     do { remainder \<leftarrow> ptr_loop (\<lambda>remainder byte.
              crc_bit_loop 8 0x80000000 CRC32P4_POLYNOMIAL
                (remainder XOR push_bit 24 (ucast (reflectInData byte))))
            (unat nBytes) message (reflectResult start);
          Some (reflectResult remainder) }"

definition crc32_table_byte :: "uint32 \<Rightarrow> uint8 \<Rightarrow> uint32" where
  "crc32_table_byte crc b =
     (drop_bit 8 crc AND 0x00FFFFFF) XOR (crc32_tab ! unat ((crc XOR ucast b) AND 0xFF))"

definition crc32p4_table_byte :: "uint32 \<Rightarrow> uint8 \<Rightarrow> uint32" where
  "crc32p4_table_byte crc b =
     (drop_bit 8 crc AND 0x00FFFFFF) XOR (crc32p4_tab ! unat ((crc XOR ucast b) AND 0xFF))"

definition Crc_CalculateCRC32 ::
  "Crc_Mode \<Rightarrow> uint8 list ptr \<Rightarrow> uint32 \<Rightarrow> uint32 \<Rightarrow> bool \<Rightarrow> uint32 ub" where
  "Crc_CalculateCRC32 mode Crc_DataPtr Crc_Length Crc_StartValue32 Crc_IsFirstCall =
     (case Crc_DataPtr of
        None \<Rightarrow> Some 0
      | Some data \<Rightarrow>
          do { let crc = (if Crc_IsFirstCall then CRC32_START_VALUE
                          else Crc_StartValue32 XOR CRC32_XOR);
               crc \<leftarrow> (case mode of
                 CRC_RUNTIME \<Rightarrow> CalculateCRC32 data Crc_Length crc
               | CRC_TABLE \<Rightarrow> ptr_loop crc32_table_byte (unat Crc_Length) data crc);
               Some (crc XOR CRC32_XOR) })"

definition Crc_CalculateCRC32P4 ::
  "Crc_Mode \<Rightarrow> uint8 list ptr \<Rightarrow> uint32 \<Rightarrow> uint32 \<Rightarrow> bool \<Rightarrow> uint32 ub" where
  "Crc_CalculateCRC32P4 mode Crc_DataPtr Crc_Length Crc_StartValue32 Crc_IsFirstCall =
     (case Crc_DataPtr of
        None \<Rightarrow> Some 0
      | Some data \<Rightarrow>
          do { let crc = (if Crc_IsFirstCall then CRC32P4_START_VALUE
                          else Crc_StartValue32 XOR CRC32P4_XOR);
               crc \<leftarrow> (case mode of
                 CRC_RUNTIME \<Rightarrow> CalculateCRC32P4 data Crc_Length crc
               | CRC_TABLE \<Rightarrow> ptr_loop crc32p4_table_byte (unat Crc_Length) data crc);
               Some (crc XOR CRC32P4_XOR) })"

section \<open>The bit loops are the reference division\<close>

lemma crc_bit_loop_steps:
  fixes p :: "'w::len word"
  assumes "topbit = 2 ^ (LENGTH('w) - 1)"
  shows "crc_bit_loop n topbit p r = (crc_step p ^^ n) r"
proof (induction n arbitrary: r)
  case 0
  then show ?case by simp
next
  case (Suc n)
  have "(if r AND topbit \<noteq> 0 then push_bit 1 r XOR p else push_bit 1 r) = crc_step p r"
    using assms by (simp add: crc_step_def and_exp_eq_0_iff_not_bit)
  with Suc show ?case by (simp add: funpow_swap1)
qed

lemma crc8_bits: "crc_bit_loop 8 0x80 p (r XOR b) = crc_upd p r (b :: uint8)"
  by (simp add: crc_bit_loop_steps crc_upd_def crc_in_def)

lemma crc16_bits: "crc_bit_loop 8 0x8000 p (r XOR push_bit 8 (ucast b)) = crc_upd (p :: uint16) r b"
  by (simp add: crc_bit_loop_steps crc_upd_def crc_in_def)

lemma crc32_bits:
  "crc_bit_loop 8 0x80000000 p (r XOR push_bit 24 (ucast b)) = crc_upd (p :: uint32) r b"
  by (simp add: crc_bit_loop_steps crc_upd_def crc_in_def)

section \<open>Reflection\<close>

lemma reflectResult_loop_bit:
  "n + k = 32 \<Longrightarrow> j < 32 \<Longrightarrow>
   bit (reflectResult_loop n k d r) j \<longleftrightarrow> bit r j \<or> (j < n \<and> bit d (n - 1 - j))"
proof (induction n arbitrary: k d r)
  case 0
  then show ?case by simp
next
  case (Suc n)
  then have "31 - k = n" by simp
  then have "bit (if d AND 1 \<noteq> 0 then r OR push_bit (31 - k) 1 else r) j \<longleftrightarrow>
      bit r j \<or> (j = n \<and> bit d 0)"
    using Suc.prems by (auto simp: bit_simps and_one_eq mod_2_eq_odd bit_0)
  moreover have "j < n \<Longrightarrow> Suc (n - Suc j) = n - j" by simp
  ultimately show ?case using Suc
    by (auto simp: bit_drop_bit_eq less_Suc_eq)
qed

lemma reflectInData_loop_bit:
  "n + k = 8 \<Longrightarrow> j < 8 \<Longrightarrow>
   bit (reflectInData_loop n k d r) j \<longleftrightarrow> bit r j \<or> (j < n \<and> bit d (n - 1 - j))"
proof (induction n arbitrary: k d r)
  case 0
  then show ?case by simp
next
  case (Suc n)
  then have "7 - k = n" by simp
  then have "bit (if d AND 1 \<noteq> 0 then r OR push_bit (7 - k) 1 else r) j \<longleftrightarrow>
      bit r j \<or> (j = n \<and> bit d 0)"
    using Suc.prems by (auto simp: bit_simps and_one_eq mod_2_eq_odd bit_0)
  moreover have "j < n \<Longrightarrow> Suc (n - Suc j) = n - j" by simp
  ultimately show ?case using Suc
    by (auto simp: bit_drop_bit_eq less_Suc_eq)
qed

lemma reflectResult_eq: "reflectResult d = word_reverse d"
  by (rule bit_word_eqI) (simp add: reflectResult_def reflectResult_loop_bit bit_word_reverse_iff)

lemma reflectInData_eq: "reflectInData d = word_reverse d"
  by (rule bit_word_eqI)
    (auto simp: reflectInData_def reflectInData_loop_bit bit_word_reverse_iff bit_unsigned_iff)

section \<open>The polynomials\<close>

interpretation p8: crc_poly "CRC8_POLYNOMIAL"
  by unfold_locales (simp_all add: bit_0)

interpretation pH2F: crc_poly "CRC8_H2F_POLYNOMIAL"
  by unfold_locales (simp_all add: bit_0)

interpretation p16: crc_poly "CRC16_CCITT_POLYNOMIAL"
  by unfold_locales (simp_all add: bit_0)

interpretation p32: crc_poly "CRC32_POLYNOMIAL"
  by unfold_locales (simp_all add: bit_0)

interpretation p32P4: crc_poly "CRC32P4_POLYNOMIAL"
  by unfold_locales (simp_all add: bit_0)

section \<open>The tables\<close>

lemma crc_steps_8: "(f ^^ 8) x = f (f (f (f (f (f (f (f x)))))))"
  by (simp add: numeral_eq_Suc)

lemma word_reverse_CRC32: "word_reverse CRC32_POLYNOMIAL = 0xEDB88320"
  by (rule word_rev_gal, rule bit_word_eqI) (simp add: word_reverse_def upt_rec)

lemma word_reverse_CRC32P4: "word_reverse CRC32P4_POLYNOMIAL = 0xC8DF352F"
  by (simp add: word_reverse_def upt_rec)

text \<open>Each table is spanned by its entries at the powers of two, and those are the reference's.\<close>

lemma crc_table:
  fixes f :: "uint8 \<Rightarrow> 'w::len word"
  assumes "tab = xor_span gs" and "gs = map f [128, 64, 32, 16, 8, 4, 2, 1]"
    and "\<And>x y. f (x XOR y) = f x XOR f y"
  shows "tab ! unat x = f x" and "length tab = 256"
  using xor_span_table [of tab f] assms by simp_all

lemma crc8_span: "crc8_tab = xor_span [0x26, 0x13, 0x87, 0xCD, 0xE8, 0x74, 0x3A, 0x1D]"
  by (simp add: crc8_tab_def Let_def)

lemma crc8_gens: "[0x26, 0x13, 0x87, 0xCD, 0xE8, 0x74, 0x3A, 0x1D] = map (crc_tabf CRC8_POLYNOMIAL) [128, 64, 32, 16, 8, 4, 2, 1]"
  by (simp add: crc_tabf_def crc_steps_8 crc_step_def crc_in_def)

lemma crc8H2F_span: "crc8H2F_tab = xor_span [0xE3, 0xE6, 0x73, 0xAE, 0x57, 0xBC, 0x5E, 0x2F]"
  by (simp add: crc8H2F_tab_def Let_def)

lemma crc8H2F_gens:
  "[0xE3, 0xE6, 0x73, 0xAE, 0x57, 0xBC, 0x5E, 0x2F] = map (crc_tabf CRC8_H2F_POLYNOMIAL) [128, 64, 32, 16, 8, 4, 2, 1]"
  by (simp add: crc_tabf_def crc_steps_8 crc_step_def crc_in_def)

lemma crc16_span: "crc16tab = xor_span [0x9188, 0x48C4, 0x2462, 0x1231, 0x8108, 0x4084, 0x2042, 0x1021]"
  by (simp add: crc16tab_def Let_def)

lemma crc16_gens:
  "[0x9188, 0x48C4, 0x2462, 0x1231, 0x8108, 0x4084, 0x2042, 0x1021] = map (crc_tabf CRC16_CCITT_POLYNOMIAL) [128, 64, 32, 16, 8, 4, 2, 1]"
  by (simp add: crc_tabf_def crc_steps_8 crc_step_def crc_in_def)

lemma crc32_span: "crc32_tab = xor_span [0xEDB88320, 0x76DC4190, 0x3B6E20C8, 0x1DB71064, 0x0EDB8832, 0x076DC419, 0xEE0E612C, 0x77073096]"
  by (simp add: crc32_tab_def Let_def)

lemma crc32_gens:
  "[0xEDB88320, 0x76DC4190, 0x3B6E20C8, 0x1DB71064, 0x0EDB8832, 0x076DC419, 0xEE0E612C, 0x77073096] = map (crc_rtabf CRC32_POLYNOMIAL) [128, 64, 32, 16, 8, 4, 2, 1]"
  by (simp add: crc_rtabf_steps word_reverse_CRC32 crc_steps_8 crc_rstep_def)

lemma crc32p4_span: "crc32p4_tab = xor_span [0xC8DF352F, 0xACB0AFB8, 0x565857DC, 0x2B2C2BEE, 0x159615F7, 0xC2143FD4, 0x610A1FEA, 0x30850FF5]"
  by (simp add: crc32p4_tab_def Let_def)

lemma crc32p4_gens:
  "[0xC8DF352F, 0xACB0AFB8, 0x565857DC, 0x2B2C2BEE, 0x159615F7, 0xC2143FD4, 0x610A1FEA, 0x30850FF5] = map (crc_rtabf CRC32P4_POLYNOMIAL) [128, 64, 32, 16, 8, 4, 2, 1]"
  by (simp add: crc_rtabf_steps word_reverse_CRC32P4 crc_steps_8 crc_rstep_def)

lemmas crc8_tab_nth = crc_table [OF crc8_span crc8_gens crc_tabf_xor]
lemmas crc8H2F_tab_nth = crc_table [OF crc8H2F_span crc8H2F_gens crc_tabf_xor]
lemmas crc16tab_nth = crc_table [OF crc16_span crc16_gens crc_tabf_xor]
lemmas crc32_tab_nth = crc_table [OF crc32_span crc32_gens crc_rtabf_xor]
lemmas crc32p4_tab_nth = crc_table [OF crc32p4_span crc32p4_gens crc_rtabf_xor]

section \<open>The table routines are the reference division\<close>

lemma crc8_table_byte_eq: "crc8_table_byte = crc_upd CRC8_POLYNOMIAL"
  by (intro ext) (simp add: crc8_table_byte_def crc8_tab_nth crc_upd_table)

lemma crc8H2F_table_byte_eq: "crc8H2F_table_byte = crc_upd CRC8_H2F_POLYNOMIAL"
  by (intro ext) (simp add: crc8H2F_table_byte_def crc8H2F_tab_nth crc_upd_table)

lemma unat_and_255:
  "unat ((x :: 'w::len word) AND 0xFF) = unat (ucast x :: uint8)"
proof -
  have "x AND 0xFF = take_bit 8 x" by (simp add: take_bit_eq_mask mask_eq_exp_minus_1)
  then show ?thesis by (simp add: unsigned_take_bit_eq unsigned_ucast_eq)
qed

lemma ucast_xor_byte:
  "8 \<le> LENGTH('w) \<Longrightarrow> (ucast ((x :: 'w::len word) XOR ucast b) :: uint8) = ucast x XOR b"
  by (rule bit_word_eqI) (auto simp: bit_xor_iff bit_unsigned_iff)

lemma crc16_table_byte_eq: "crc16_table_byte = crc_upd CRC16_CCITT_POLYNOMIAL"
  by (intro ext) (simp add: crc16_table_byte_def unat_and_255 crc16tab_nth crc_upd_table ucast_xor_byte)

lemma drop_8_mask_24: "drop_bit 8 (s :: uint32) AND 0x00FFFFFF = drop_bit 8 s"
proof -
  have "(0x00FFFFFF :: uint32) = mask 24" by (simp add: mask_eq_exp_minus_1)
  then show ?thesis by (auto simp: bit_eq_iff bit_simps dest: bit_imp_le_length)
qed

lemma crc32_table_byte_eq: "crc32_table_byte = crc_rupd CRC32_POLYNOMIAL"
  by (intro ext) (simp add: crc32_table_byte_def drop_8_mask_24 unat_and_255 crc32_tab_nth
    crc_rupd_table ucast_xor_byte)

lemma crc32p4_table_byte_eq: "crc32p4_table_byte = crc_rupd CRC32P4_POLYNOMIAL"
  by (intro ext) (simp add: crc32p4_table_byte_def drop_8_mask_24 unat_and_255 crc32p4_tab_nth
    crc_rupd_table ucast_xor_byte)

text \<open>
  The register of each routine after a whole message. A call is the register around the final and
  the initial XOR, in either mode, and it faults exactly when the length runs past the data.
\<close>

lemma crc_reflect_loop:
  "map_option word_reverse (ptr_loop (\<lambda>r b. crc_upd p r (word_reverse b)) n d (word_reverse s)) =
   ptr_loop (crc_rupd p) n d s"
  by (induction "crc_rupd p" n d s rule: ptr_loop.induct) (simp_all add: crc_rupd_def)

lemma Crc_CalculateCRC8_call:
  "Crc_CalculateCRC8 mode = crc_call (crc_upd CRC8_POLYNOMIAL) CRC8_START_VALUE CRC8_XOR"
  by (intro ext) (auto simp: Crc_CalculateCRC8_def crc_call_def CalculateCRC8_def crc8_bits
    crc8_table_byte_eq ptr_loop_eq split: option.split Crc_Mode.split)

lemma Crc_CalculateCRC8H2F_call:
  "Crc_CalculateCRC8H2F mode = crc_call (crc_upd CRC8_H2F_POLYNOMIAL) CRC8_H2F_START_VALUE CRC8_H2F_XOR"
  by (intro ext) (auto simp: Crc_CalculateCRC8H2F_def crc_call_def CalculateCRC8_def crc8_bits
    crc8H2F_table_byte_eq ptr_loop_eq split: option.split Crc_Mode.split)

lemma Crc_CalculateCRC16_call:
  "Crc_CalculateCRC16 mode =
   crc_call (crc_upd CRC16_CCITT_POLYNOMIAL) CRC16_CCITT_START_VALUE CRC16_CCITT_XOR"
  by (intro ext) (auto simp: Crc_CalculateCRC16_def crc_call_def CalculateCRC16_def crc16_bits
    crc16_table_byte_eq ptr_loop_eq split: option.split Crc_Mode.split)

lemma CalculateCRC32_eq:
  "CalculateCRC32 d n s = ptr_loop (crc_rupd CRC32_POLYNOMIAL) (unat n) d s"
  by (simp add: CalculateCRC32_def crc32_bits reflectResult_eq reflectInData_eq
    crc_reflect_loop [symmetric] map_conv_bind_option comp_def)

lemma CalculateCRC32P4_eq:
  "CalculateCRC32P4 d n s = ptr_loop (crc_rupd CRC32P4_POLYNOMIAL) (unat n) d s"
  by (simp add: CalculateCRC32P4_def crc32_bits reflectResult_eq reflectInData_eq
    crc_reflect_loop [symmetric] map_conv_bind_option comp_def)

lemma Crc_CalculateCRC32_call:
  "Crc_CalculateCRC32 mode = crc_call (crc_rupd CRC32_POLYNOMIAL) CRC32_START_VALUE CRC32_XOR"
  by (intro ext) (auto simp: Crc_CalculateCRC32_def crc_call_def CalculateCRC32_eq
    crc32_table_byte_eq ptr_loop_eq split: option.split Crc_Mode.split)

lemma Crc_CalculateCRC32P4_call:
  "Crc_CalculateCRC32P4 mode = crc_call (crc_rupd CRC32P4_POLYNOMIAL) CRC32P4_START_VALUE CRC32P4_XOR"
  by (intro ext) (auto simp: Crc_CalculateCRC32P4_def crc_call_def CalculateCRC32P4_eq
    crc32p4_table_byte_eq ptr_loop_eq split: option.split Crc_Mode.split)

section \<open>What the callers rely on\<close>

lemma crc_call_None_iff:
  "crc_call upd init xorv p n start isFirst = None \<longleftrightarrow> (\<exists>d. p = Some d \<and> length d < unat n)"
  by (auto simp: crc_call_def split: option.split)

lemma crc_call_chain:
  assumes "unat n1 + unat n2 < 2 ^ 32" and "unat n1 \<le> length d"
  shows "crc_call upd init xorv (Some d) (n1 + n2) start isFirst =
    do { crc \<leftarrow> crc_call upd init xorv (Some d) n1 start isFirst;
         crc_call upd init xorv (Some (drop (unat n1) d)) n2 crc False }"
proof -
  have "unat (n1 + n2) = unat n1 + unat n2" using assms(1) by (simp add: unat_word_ariths)
  then show ?thesis using assms(2) by (auto simp: crc_call_def take_add)
qed

lemma crc_call_burst:
  assumes "crc_engine upd blk"
    and "length bs \<le> blk" "length cs = length bs" "bs \<noteq> cs"
    and "length (pre @ bs @ post) = unat n"
  shows "crc_call upd init xorv (Some (pre @ bs @ post)) n start isFirst \<noteq>
    crc_call upd init xorv (Some (pre @ cs @ post)) n start isFirst"
  using crc_engine.burst_detected [OF assms(1-4), of _ pre post] assms(3,5)
  by (simp add: crc_call_def)

text \<open>
  C1: For every one of the five CRCs, the bit-by-bit implementation (RUNTIME) and the table
  implementation (TABLE) return the same value, or both run past the data, for every data pointer
  (NULL included), length, start value and first-call flag. In particular the five 256-entry tables
  are the right ones for the polynomials 0x1D, 0x2F, 0x1021, 0x04C11DB7 and 0xF4ACFB13.
\<close>

theorem crc_modes_agree:
  "Crc_CalculateCRC8 CRC_TABLE p n s8 f = Crc_CalculateCRC8 CRC_RUNTIME p n s8 f \<and>
   Crc_CalculateCRC8H2F CRC_TABLE p n s8 f = Crc_CalculateCRC8H2F CRC_RUNTIME p n s8 f \<and>
   Crc_CalculateCRC16 CRC_TABLE p n s16 f = Crc_CalculateCRC16 CRC_RUNTIME p n s16 f \<and>
   Crc_CalculateCRC32 CRC_TABLE p n s32 f = Crc_CalculateCRC32 CRC_RUNTIME p n s32 f \<and>
   Crc_CalculateCRC32P4 CRC_TABLE p n s32 f = Crc_CalculateCRC32P4 CRC_RUNTIME p n s32 f"
  by (simp only: Crc_CalculateCRC8_call Crc_CalculateCRC8H2F_call Crc_CalculateCRC16_call
    Crc_CalculateCRC32_call Crc_CalculateCRC32P4_call)

text \<open>
  A call over a message can be split anywhere: the call over the first part, continued by a
  call with its result as start value and the first-call flag off, gives the CRC of the whole, for
  all five CRCs and both modes (the final XOR of the first call is undone by the second).
\<close>

theorem crc_chaining:
  assumes "unat n1 + unat n2 < 2 ^ 32" and "unat n1 \<le> length d"
  shows "Crc_CalculateCRC8 m (Some d) (n1 + n2) s8 f =
      do { c \<leftarrow> Crc_CalculateCRC8 m (Some d) n1 s8 f;
           Crc_CalculateCRC8 m (Some (drop (unat n1) d)) n2 c False } \<and>
    Crc_CalculateCRC8H2F m (Some d) (n1 + n2) s8 f =
      do { c \<leftarrow> Crc_CalculateCRC8H2F m (Some d) n1 s8 f;
           Crc_CalculateCRC8H2F m (Some (drop (unat n1) d)) n2 c False } \<and>
    Crc_CalculateCRC16 m (Some d) (n1 + n2) s16 f =
      do { c \<leftarrow> Crc_CalculateCRC16 m (Some d) n1 s16 f;
           Crc_CalculateCRC16 m (Some (drop (unat n1) d)) n2 c False } \<and>
    Crc_CalculateCRC32 m (Some d) (n1 + n2) s32 f =
      do { c \<leftarrow> Crc_CalculateCRC32 m (Some d) n1 s32 f;
           Crc_CalculateCRC32 m (Some (drop (unat n1) d)) n2 c False } \<and>
    Crc_CalculateCRC32P4 m (Some d) (n1 + n2) s32 f =
      do { c \<leftarrow> Crc_CalculateCRC32P4 m (Some d) n1 s32 f;
           Crc_CalculateCRC32P4 m (Some (drop (unat n1) d)) n2 c False }"
  by (simp only: Crc_CalculateCRC8_call Crc_CalculateCRC8H2F_call Crc_CalculateCRC16_call
    Crc_CalculateCRC32_call Crc_CalculateCRC32P4_call crc_call_chain [OF assms])

theorem crc_chaining_witness:
  "Crc_CalculateCRC8 CRC_TABLE (Some [1, 2, 3]) (1 + 2) 0 True =
     do { c \<leftarrow> Crc_CalculateCRC8 CRC_TABLE (Some [1, 2, 3]) 1 0 True;
          Crc_CalculateCRC8 CRC_TABLE (Some (drop (unat (1 :: uint32)) [1, 2, 3])) 2 c False }"
  using crc_chaining [of 1 2 "[1, 2, 3]"] by simp

text \<open>
  C2: Two messages of the checked length that differ inside one block of consecutive bytes no wider
  than the check value (1 byte for the two CRC-8, 2 for CRC-16, 4 for the two CRC-32) never
  have the same CRC, whatever surrounds the block, for every start value, in both modes.
\<close>

theorem crc_burst_detected:
  assumes "length (pre @ bs @ post) = unat n" and "length cs = length bs" and "bs \<noteq> cs"
  shows "(length bs \<le> 1 \<longrightarrow>
      Crc_CalculateCRC8 m (Some (pre @ bs @ post)) n s8 f \<noteq>
      Crc_CalculateCRC8 m (Some (pre @ cs @ post)) n s8 f \<and>
      Crc_CalculateCRC8H2F m (Some (pre @ bs @ post)) n s8 f \<noteq>
      Crc_CalculateCRC8H2F m (Some (pre @ cs @ post)) n s8 f) \<and>
    (length bs \<le> 2 \<longrightarrow>
      Crc_CalculateCRC16 m (Some (pre @ bs @ post)) n s16 f \<noteq>
      Crc_CalculateCRC16 m (Some (pre @ cs @ post)) n s16 f) \<and>
    (length bs \<le> 4 \<longrightarrow>
      Crc_CalculateCRC32 m (Some (pre @ bs @ post)) n s32 f \<noteq>
      Crc_CalculateCRC32 m (Some (pre @ cs @ post)) n s32 f \<and>
      Crc_CalculateCRC32P4 m (Some (pre @ bs @ post)) n s32 f \<noteq>
      Crc_CalculateCRC32P4 m (Some (pre @ cs @ post)) n s32 f)"
  unfolding Crc_CalculateCRC8_call Crc_CalculateCRC8H2F_call Crc_CalculateCRC16_call
    Crc_CalculateCRC32_call Crc_CalculateCRC32P4_call
  using crc_call_burst [OF p8.reg.crc_engine_axioms _ assms(2,3,1)]
    crc_call_burst [OF pH2F.reg.crc_engine_axioms _ assms(2,3,1)]
    crc_call_burst [OF p16.reg.crc_engine_axioms _ assms(2,3,1)]
    crc_call_burst [OF p32.rfl.crc_engine_axioms _ assms(2,3,1)]
    crc_call_burst [OF p32P4.rfl.crc_engine_axioms _ assms(2,3,1)]
  by simp

theorem crc_burst_detected_witness:
  "Crc_CalculateCRC16 CRC_TABLE (Some ([7] @ [1, 2] @ [9])) 4 0 True \<noteq>
   Crc_CalculateCRC16 CRC_TABLE (Some ([7] @ [3, 2] @ [9])) 4 0 True"
  using crc_burst_detected [of "[7]" "[1, 2]" "[9]" 4 "[3, 2]"] by simp

text \<open>
  A CRC routine reads outside the data object exactly when the data pointer is not NULL and
  fewer than the requested number of bytes follow it; in every other case it returns a value.
\<close>

theorem crc_reads_in_bounds:
  "(Crc_CalculateCRC8 m p n s8 f = None \<longleftrightarrow> (\<exists>d. p = Some d \<and> length d < unat n)) \<and>
   (Crc_CalculateCRC8H2F m p n s8 f = None \<longleftrightarrow> (\<exists>d. p = Some d \<and> length d < unat n)) \<and>
   (Crc_CalculateCRC16 m p n s16 f = None \<longleftrightarrow> (\<exists>d. p = Some d \<and> length d < unat n)) \<and>
   (Crc_CalculateCRC32 m p n s32 f = None \<longleftrightarrow> (\<exists>d. p = Some d \<and> length d < unat n)) \<and>
   (Crc_CalculateCRC32P4 m p n s32 f = None \<longleftrightarrow> (\<exists>d. p = Some d \<and> length d < unat n))"
  by (simp only: Crc_CalculateCRC8_call Crc_CalculateCRC8H2F_call Crc_CalculateCRC16_call
    Crc_CalculateCRC32_call Crc_CalculateCRC32P4_call crc_call_None_iff)

end
