(* ===== verification/E2E.thy ===== *)
theory E2E
  imports Crc
begin

text \<open>
  The parts of the end-to-end protection library the profiles share:
  \<^verbatim>\<open>core/system/E2E/E2E.c\<close> and \<^verbatim>\<open>core/include/E2E.h\<close>, and the contract of a
  protected link.

  \<^item> The CRC-8 helpers on integers and integer arrays serialise little-endian, byte by byte, so
    their value does not depend on the byte order of the machine.
  \<^item> The locale \<open>e2e_link\<close> is the contract a profile's sender and receiver keep together: a
    message the sender protects is accepted by a receiver in step with it, and both stay in step.
    Its client lemma lifts that to a whole sequence of messages. The profiles 1, 2, 4, 5 and 6
    are interpretations of it.
\<close>

section \<open>Definitions\<close>

text \<open>The return codes of \<^verbatim>\<open>E2E.h\<close>.\<close>

datatype E2E_ReturnType =
    E2E_E_OK
  | E2E_E_INPUTERR_NULL
  | E2E_E_INPUTERR_WRONG
  | E2E_E_INTERR
  | E2E_E_WRONGSTATE

text \<open>The profile-independent check status of \<^verbatim>\<open>E2E_SM.h\<close>.\<close>

datatype E2E_PCheckStatusType =
    E2E_P_OK
  | E2E_P_REPEATED
  | E2E_P_WRONGSEQUENCE
  | E2E_P_ERROR
  | E2E_P_NOTAVAILABLE
  | E2E_P_NONEWDATA

definition E2E_UpdateCounter :: "uint8 \<Rightarrow> uint8" where
  "E2E_UpdateCounter Counter = of_nat ((unat Counter + 1) mod 15)"

definition E2E_CRC8u8 :: "uint8 \<Rightarrow> uint8 \<Rightarrow> uint8 ub" where
  "E2E_CRC8u8 E2E_Data E2E_StartValue =
     do { c \<leftarrow> Crc_CalculateCRC8 CRC_8_MODE (Some [E2E_Data]) 1 (E2E_StartValue XOR CRC8_XOR) False;
          Some (c XOR CRC8_XOR) }"

definition E2E_CRC8u16 :: "uint16 \<Rightarrow> uint8 \<Rightarrow> uint8 ub" where
  "E2E_CRC8u16 E2E_Data E2E_StartValue =
     do { let data = [ucast (E2E_Data AND 0xFF), ucast (drop_bit 8 E2E_Data)];
          c \<leftarrow> Crc_CalculateCRC8 CRC_8_MODE (Some data) 2 (E2E_StartValue XOR CRC8_XOR) False;
          Some (c XOR CRC8_XOR) }"

definition E2E_CRC8u32 :: "uint32 \<Rightarrow> uint8 \<Rightarrow> uint8 ub" where
  "E2E_CRC8u32 E2E_Data E2E_StartValue =
     do { let data = [ucast (E2E_Data AND 0xFF), ucast (drop_bit 8 E2E_Data AND 0xFF),
                      ucast (drop_bit 16 E2E_Data AND 0xFF), ucast (drop_bit 24 E2E_Data)];
          c \<leftarrow> Crc_CalculateCRC8 CRC_8_MODE (Some data) 4 (E2E_StartValue XOR CRC8_XOR) False;
          Some (c XOR CRC8_XOR) }"

definition E2E_CRC8u8Array :: "uint8 list ptr \<Rightarrow> uint32 \<Rightarrow> uint8 \<Rightarrow> uint8 ub" where
  "E2E_CRC8u8Array E2E_DataPtr E2E_ArrayLength E2E_StartValue =
     do { c \<leftarrow> Crc_CalculateCRC8 CRC_8_MODE E2E_DataPtr E2E_ArrayLength
                (E2E_StartValue XOR CRC8_XOR) False;
          Some (c XOR CRC8_XOR) }"

text \<open>
  The array loops \<^verbatim>\<open>for (i=0; i<E2E_ArrayLength; i++) { crc = g(*p, crc); p++; }\<close>,
  where the helper \<open>g\<close> may itself fault.
\<close>

fun array_crc_loop :: "('a \<Rightarrow> 's \<Rightarrow> 's ub) \<Rightarrow> nat \<Rightarrow> 'a list \<Rightarrow> 's \<Rightarrow> 's ub" where
  "array_crc_loop g 0 xs crc = Some crc"
| "array_crc_loop g (Suc n) [] crc = None"
| "array_crc_loop g (Suc n) (x # xs) crc =
     do { crc \<leftarrow> g x crc; array_crc_loop g n xs crc }"

definition E2E_CRC8u16Array :: "uint16 list \<Rightarrow> uint32 \<Rightarrow> uint8 \<Rightarrow> uint8 ub" where
  "E2E_CRC8u16Array data E2E_ArrayLength E2E_StartValue =
     array_crc_loop E2E_CRC8u16 (unat E2E_ArrayLength) data E2E_StartValue"

definition E2E_CRC8u32Array :: "uint32 list \<Rightarrow> uint32 \<Rightarrow> uint8 \<Rightarrow> uint8 ub" where
  "E2E_CRC8u32Array data E2E_ArrayLength E2E_StartValue =
     array_crc_loop E2E_CRC8u32 (unat E2E_ArrayLength) data E2E_StartValue"

definition E2E_CRC8H2Fu8 :: "uint8 \<Rightarrow> uint8 \<Rightarrow> uint8 ub" where
  "E2E_CRC8H2Fu8 E2E_Data E2E_StartValue =
     Crc_CalculateCRC8H2F CRC_8H2F_MODE (Some [E2E_Data]) 1 E2E_StartValue False"

definition E2E_CRC8H2Fu16 :: "uint16 \<Rightarrow> uint8 \<Rightarrow> uint8 ub" where
  "E2E_CRC8H2Fu16 E2E_Data E2E_StartValue =
     (let data = [ucast (E2E_Data AND 0xFF), ucast (drop_bit 8 E2E_Data)]
      in Crc_CalculateCRC8H2F CRC_8H2F_MODE (Some data) 2 E2E_StartValue False)"

definition E2E_CRC8H2Fu32 :: "uint32 \<Rightarrow> uint8 \<Rightarrow> uint8 ub" where
  "E2E_CRC8H2Fu32 E2E_Data E2E_StartValue =
     (let data = [ucast (E2E_Data AND 0xFF), ucast (drop_bit 8 E2E_Data AND 0xFF),
                  ucast (drop_bit 16 E2E_Data AND 0xFF), ucast (drop_bit 24 E2E_Data)]
      in Crc_CalculateCRC8H2F CRC_8H2F_MODE (Some data) 4 E2E_StartValue False)"

definition E2E_CRC8H2Fu8Array :: "uint8 list ptr \<Rightarrow> uint32 \<Rightarrow> uint8 \<Rightarrow> uint8 ub" where
  "E2E_CRC8H2Fu8Array E2E_DataPtr E2E_ArrayLength E2E_StartValue =
     Crc_CalculateCRC8H2F CRC_8H2F_MODE E2E_DataPtr E2E_ArrayLength E2E_StartValue False"

definition E2E_CRC8H2Fu16Array :: "uint16 list \<Rightarrow> uint32 \<Rightarrow> uint8 \<Rightarrow> uint8 ub" where
  "E2E_CRC8H2Fu16Array data E2E_ArrayLength E2E_StartValue =
     array_crc_loop E2E_CRC8H2Fu16 (unat E2E_ArrayLength) data E2E_StartValue"

definition E2E_CRC8H2Fu32Array :: "uint32 list \<Rightarrow> uint32 \<Rightarrow> uint8 \<Rightarrow> uint8 ub" where
  "E2E_CRC8H2Fu32Array data E2E_ArrayLength E2E_StartValue =
     array_crc_loop E2E_CRC8H2Fu32 (unat E2E_ArrayLength) data E2E_StartValue"

text \<open>The little-endian bytes of an integer, the reference for the helpers above.\<close>

definition le16 :: "uint16 \<Rightarrow> uint8 list" where
  "le16 x = [ucast x, ucast (drop_bit 8 x)]"

definition le32 :: "uint32 \<Rightarrow> uint8 list" where
  "le32 x = [ucast x, ucast (drop_bit 8 x), ucast (drop_bit 16 x), ucast (drop_bit 24 x)]"

text \<open>
  The bit reversal of a byte, a static helper with the same text in \<^verbatim>\<open>E2E_P04.c\<close> and
  \<^verbatim>\<open>E2E_P06.c\<close>.
\<close>

definition ChangeBitEndianness :: "uint8 \<Rightarrow> uint8" where
  "ChangeBitEndianness value =
     push_bit 7 (value AND 0x01) OR push_bit 5 (value AND 0x02) OR
     push_bit 3 (value AND 0x04) OR push_bit 1 (value AND 0x08) OR
     drop_bit 1 (value AND 0x10) OR drop_bit 3 (value AND 0x20) OR
     drop_bit 5 (value AND 0x40) OR drop_bit 7 (value AND 0x80)"

text \<open>
  The bytes of a message of length \<open>n\<close> that a check value stored in the bytes \<open>a\<close> to
  \<open>b - 1\<close> covers: all but the field itself.
\<close>

definition covered :: "nat \<Rightarrow> nat \<Rightarrow> nat \<Rightarrow> 'a list \<Rightarrow> 'a list" where
  "covered a b n d = take a d @ drop b (take n d)"

text \<open>
  The field itself, and where a burst of \<open>k\<close> changed bytes at position \<open>i\<close> of a message may
  lie: before the field, inside it, or behind it, but not across one of its ends.
\<close>

definition field :: "nat \<Rightarrow> nat \<Rightarrow> 'a list \<Rightarrow> 'a list" where
  "field a b d = drop a (take b d)"

definition burst_at :: "nat \<Rightarrow> nat \<Rightarrow> nat \<Rightarrow> nat \<Rightarrow> nat \<Rightarrow> bool" where
  "burst_at a b n i k \<longleftrightarrow> i + k \<le> a \<or> a \<le> i \<and> i + k \<le> b \<or> b \<le> i \<and> i + k \<le> n"

text \<open>
  The big-endian bytes of an integer, and the overwriting of a part of a message with a header.
\<close>

definition be16 :: "uint16 \<Rightarrow> uint8 list" where
  "be16 x = [ucast (drop_bit 8 x), ucast x]"

definition be32 :: "uint32 \<Rightarrow> uint8 list" where
  "be32 x = [ucast (drop_bit 24 x), ucast (drop_bit 16 x), ucast (drop_bit 8 x), ucast x]"

definition splice_at :: "nat \<Rightarrow> 'a list \<Rightarrow> 'a list \<Rightarrow> 'a list" where
  "splice_at a bs d = take a d @ bs @ drop (a + length bs) d"

text \<open>
  A lossless transmission of a sequence of messages: each is protected by the sender and checked
  by the receiver before the next one. The result lists the receiver states after each check.
\<close>

fun transmit :: "('tx \<Rightarrow> 'd \<Rightarrow> ('tx \<times> 'd) ub) \<Rightarrow> ('rx \<Rightarrow> 'd \<Rightarrow> 'rx ub) \<Rightarrow>
    'tx \<Rightarrow> 'rx \<Rightarrow> 'd list \<Rightarrow> ('tx \<times> 'rx list) ub" where
  "transmit protect check tx rx [] = Some (tx, [])"
| "transmit protect check tx rx (d # ds) =
     do { (tx, d) \<leftarrow> protect tx d;
          rx \<leftarrow> check rx d;
          (tx, rxs) \<leftarrow> transmit protect check tx rx ds;
          Some (tx, rx # rxs) }"

text \<open>
  A caller that goes on only when the profile function reports success, taking what the
  out-pointers hold.
\<close>

definition sent :: "(E2E_ReturnType \<times> 'tx ptr \<times> 'd ptr) ub \<Rightarrow> ('tx \<times> 'd) ub" where
  "sent call = do { (ret, st, d) \<leftarrow> call; st \<leftarrow> deref st; d \<leftarrow> deref d;
                    if ret = E2E_E_OK then Some (st, d) else None }"

definition received :: "(E2E_ReturnType \<times> 'rx ptr) ub \<Rightarrow> 'rx ub" where
  "received call = do { (ret, st) \<leftarrow> call; st \<leftarrow> deref st; if ret = E2E_E_OK then Some st else None }"

section \<open>The contract of a protected link\<close>

locale e2e_link =
  fixes protect :: "'tx \<Rightarrow> 'd \<Rightarrow> ('tx \<times> 'd) ub"
    and check :: "'rx \<Rightarrow> 'd \<Rightarrow> 'rx ub"
    and msg :: "'d \<Rightarrow> bool"
    and in_step :: "'tx \<Rightarrow> 'rx \<Rightarrow> bool"
    and accepted :: "'rx \<Rightarrow> bool"
  assumes delivered: "msg d \<Longrightarrow> in_step tx rx \<Longrightarrow>
      \<exists>tx' d' rx'. protect tx d = Some (tx', d') \<and> check rx d' = Some rx' \<and>
        accepted rx' \<and> in_step tx' rx'"
begin

lemma all_delivered:
  "list_all msg ds \<Longrightarrow> in_step tx rx \<Longrightarrow>
   \<exists>tx' rxs. transmit protect check tx rx ds = Some (tx', rxs) \<and>
     length rxs = length ds \<and> list_all accepted rxs \<and> in_step tx' (last (rx # rxs))"
proof (induction ds arbitrary: tx rx)
  case Nil
  then show ?case by simp
next
  case (Cons d ds)
  from Cons.prems obtain tx1 d1 rx1 where
    one: "protect tx d = Some (tx1, d1)" "check rx d1 = Some rx1" "accepted rx1" "in_step tx1 rx1"
    using delivered [of d tx rx] by auto
  from Cons.IH [of tx1 rx1] Cons.prems one(4) obtain tx' rxs where
    "transmit protect check tx1 rx1 ds = Some (tx', rxs)" "length rxs = length ds"
    "list_all accepted rxs" "in_step tx' (last (rx1 # rxs))" by auto
  with one show ?case by auto
qed

end

lemma sent_Some [simp]: "sent (Some (E2E_E_OK, Some st, Some d)) = Some (st, d)"
  by (simp add: sent_def deref_def)

lemma received_Some [simp]: "received (Some (E2E_E_OK, Some st)) = Some st"
  by (simp add: received_def deref_def)

section \<open>Bit reversal and covered bytes\<close>

lemma ChangeBitEndianness_eq: "ChangeBitEndianness v = word_reverse v"
proof (rule bit_word_eqI)
  fix n assume "n < LENGTH(8)"
  then have "n < 8" by simp
  then have "n = 0 \<or> n = 1 \<or> n = 2 \<or> n = 3 \<or> n = 4 \<or> n = 5 \<or> n = 6 \<or> n = 7"
    by (rule nat_lt_8_cases)
  then show "bit (ChangeBitEndianness v) n = bit (word_reverse v) n"
    unfolding ChangeBitEndianness_def bit_or_iff bit_push_bit_iff bit_drop_bit_eq comp_apply
      bit_and_byte bit_word_reverse_iff
    by (elim disjE) simp_all
qed

lemma ChangeBitEndianness_invol [simp]: "ChangeBitEndianness (ChangeBitEndianness v) = v"
  by (simp add: ChangeBitEndianness_eq)

lemma ChangeBitEndianness_inject [simp]: "ChangeBitEndianness v = ChangeBitEndianness w \<longleftrightarrow> v = w"
  by (metis ChangeBitEndianness_invol)

lemma covered_burst:
  assumes ab: "a \<le> b" and len: "length cs = length bs"
    and place: "length pre + length bs \<le> a \<or> b \<le> length pre \<and> length pre + length bs \<le> n"
  shows "\<exists>p q. covered a b n (pre @ bs @ post) = p @ bs @ q \<and>
    covered a b n (pre @ cs @ post) = p @ cs @ q"
  using place
proof
  assume fits: "length pre + length bs \<le> a"
  have "covered a b n (pre @ xs @ post) =
      pre @ xs @ take (a - length pre - length bs) post @
        drop (b - length pre - length bs) (take (n - length pre - length bs) post)"
    if "length xs = length bs" for xs
  proof -
    have "drop b (take n (pre @ xs @ post)) =
        drop (b - length pre - length bs) (take (n - length pre - length bs) post)"
      using fits ab that by (cases "n < length pre + length bs") (simp_all add: drop_take)
    then show ?thesis using fits that by (simp add: covered_def)
  qed
  with len show ?thesis by metis
next
  assume fits: "b \<le> length pre \<and> length pre + length bs \<le> n"
  have "covered a b n (pre @ xs @ post) =
      (take a pre @ drop b pre) @ xs @ take (n - length pre - length bs) post"
    if "length xs = length bs" for xs
    using conjunct1 [OF fits] ab that le_diff_conv2 [of "length pre" n "length bs"] fits
    by (simp add: covered_def add.commute)
  with len show ?thesis by metis
qed

lemma field_nth: "b \<le> length d \<Longrightarrow> b = a + 4 \<Longrightarrow> field a b d = [d ! a, d ! (a + 1), d ! (a + 2), d ! (a + 3)]"
  by (rule nth_equalityI) (auto simp: field_def nth_Cons numeral_eq_Suc less_Suc_eq split: nat.splits)

lemma field_nth2: "b \<le> length d \<Longrightarrow> b = a + 2 \<Longrightarrow> field a b d = [d ! a, d ! (a + 1)]"
  by (rule nth_equalityI) (auto simp: field_def nth_Cons numeral_eq_Suc less_Suc_eq split: nat.splits)

lemma field_before: "length pre + length bs \<le> a \<Longrightarrow> length cs = length bs \<Longrightarrow>
    field a b (pre @ bs @ post) = field a b (pre @ cs @ post)"
  by (simp add: field_def drop_take)

lemma field_behind: "b \<le> length pre \<Longrightarrow> field a b (pre @ bs @ post) = field a b (pre @ cs @ post)"
  by (simp add: field_def)

lemma field_inside: "a \<le> length pre \<Longrightarrow> length pre + length bs \<le> b \<Longrightarrow> length cs = length bs \<Longrightarrow>
    field a b (pre @ bs @ post) = field a b (pre @ cs @ post) \<longleftrightarrow> bs = cs"
  by (auto simp: field_def)

lemma covered_inside: "a \<le> length pre \<Longrightarrow> length pre + length bs \<le> b \<Longrightarrow> length cs = length bs \<Longrightarrow>
    covered a b n (pre @ bs @ post) = covered a b n (pre @ cs @ post)"
  by (cases "n \<le> length pre + length bs") (simp_all add: covered_def drop_take)

text \<open>A burst changes either a block of the covered bytes or the field, and leaves the other alone.\<close>

lemma burst_cases:
  assumes "burst_at a b n (length pre) (length bs)" "a \<le> b" "length cs = length bs"
  obtains (covered) p q where "covered a b n (pre @ bs @ post) = p @ bs @ q"
      "covered a b n (pre @ cs @ post) = p @ cs @ q"
      "field a b (pre @ bs @ post) = field a b (pre @ cs @ post)"
    | (field) "covered a b n (pre @ bs @ post) = covered a b n (pre @ cs @ post)"
      "field a b (pre @ bs @ post) = field a b (pre @ cs @ post) \<longleftrightarrow> bs = cs"
proof -
  consider "length pre + length bs \<le> a" | "a \<le> length pre" "length pre + length bs \<le> b"
    | "b \<le> length pre" "length pre + length bs \<le> n"
    using assms(1) by (auto simp: burst_at_def)
  then show thesis
  proof cases
    case 1
    then show thesis
      using covered_burst [OF assms(2,3), of pre n post] field_before [OF 1 assms(3)] that(1) by blast
  next
    case 2
    then show thesis using covered_inside [OF 2 assms(3)] field_inside [OF 2 assms(3)] that(2) by blast
  next
    case 3
    then show thesis
      using covered_burst [OF assms(2,3), of pre n post] field_behind [OF 3(1)] that(1) by blast
  qed
qed

section \<open>Headers in a message\<close>

lemma length_splice_at [simp]: "a + length bs \<le> length d \<Longrightarrow> length (splice_at a bs d) = length d"
  by (simp add: splice_at_def)

lemma length_be [simp]: "length (be16 x) = 2" "length (be32 y) = 4"
  by (simp_all add: be16_def be32_def)

lemma list_update_splice: "i < length d \<Longrightarrow> d[i := v] = splice_at i [v] d"
  by (simp add: splice_at_def upd_conv_take_nth_drop)

lemma splice_at_extend: "a + length bs \<le> length d \<Longrightarrow> i = a + length bs \<Longrightarrow>
    splice_at i cs (splice_at a bs d) = splice_at a (bs @ cs) d"
  by (simp add: splice_at_def ac_simps)

lemma splice_at_front: "a + length bs + length cs \<le> length d \<Longrightarrow> i = a + length bs \<Longrightarrow>
    splice_at a bs (splice_at i cs d) = splice_at a (bs @ cs) d"
  by (simp add: splice_at_def ac_simps)

lemma wr_splice: "i < length d \<Longrightarrow> wr d i v = Some (splice_at i [v] d)"
  by (simp add: wr_def list_update_splice)

lemma wr_extend: "i = a + length bs \<Longrightarrow> i < length d \<Longrightarrow>
    wr (splice_at a bs d) i v = Some (splice_at a (bs @ [v]) d)"
  by (simp add: wr_splice splice_at_extend)

lemma rd_splice: "a \<le> i \<Longrightarrow> i < a + length bs \<Longrightarrow> a + length bs \<le> length d \<Longrightarrow>
    rd (splice_at a bs d) i = Some (bs ! (i - a))"
  by (auto simp: rd_def splice_at_def nth_append)

lemma splice_at_outside: "i < length d \<Longrightarrow> i < a \<or> a + length bs \<le> i \<Longrightarrow>
    splice_at a bs d ! i = d ! i"
  by (auto simp: splice_at_def nth_append)

lemma covered_splice:
  "a + length h + length c \<le> length d \<Longrightarrow> a + length h + length c \<le> n \<Longrightarrow>
   covered (a + length h) (a + length h + length c) n (splice_at a (h @ c) d) =
   take a d @ h @ drop (a + length h + length c) (take n d)"
  by (simp add: covered_def splice_at_def drop_take add.assoc)

lemma covered_splice_front:
  "a + length c + length h \<le> length d \<Longrightarrow> a + length c + length h \<le> n \<Longrightarrow>
   covered a (a + length c) n (splice_at a (c @ h) d) =
   take a d @ h @ drop (a + length c + length h) (take n d)"
  by (simp add: covered_def splice_at_def drop_take add.assoc)

lemma covered_splice_behind:
  "a \<le> b \<Longrightarrow> b + length h \<le> length d \<Longrightarrow> b + length h \<le> n \<Longrightarrow>
   covered a b n (splice_at b h d) = take a d @ h @ drop (b + length h) (take n d)"
  by (simp add: covered_def splice_at_def drop_take add.assoc)

lemma byte_and_255 [simp]: "(ucast ((x :: 'w::len word) AND 0xFF) :: uint8) = ucast x"
proof -
  have "x AND 0xFF = take_bit 8 x" by (simp add: take_bit_eq_mask mask_eq_exp_minus_1)
  then show ?thesis by (auto intro!: bit_word_eqI simp: bit_unsigned_iff bit_take_bit_iff)
qed

lemma byte_fields [simp]:
  fixes x :: uint16 and y :: uint32
  shows "(ucast (drop_bit 8 (x AND 0xFF00)) :: uint8) = ucast (drop_bit 8 x)"
    and "(ucast (drop_bit 24 (y AND 0xFF000000)) :: uint8) = ucast (drop_bit 24 y)"
    and "(ucast (drop_bit 16 (y AND 0x00FF0000)) :: uint8) = ucast (drop_bit 16 y)"
    and "(ucast (drop_bit 8 (y AND 0x0000FF00)) :: uint8) = ucast (drop_bit 8 y)"
  unfolding mask_const by (rule bit_word_eqI; auto simp: bit_simps)+

lemma join16: "(push_bit 8 (ucast (ucast (drop_bit 8 x) :: uint8)) AND 0xFF00) OR
    (ucast (ucast x :: uint8) AND 0x00FF) = (x :: uint16)"
  unfolding mask_const by (rule bit_word_eqI) (auto simp: bit_simps)

lemma join32: "(push_bit 24 (ucast (ucast (drop_bit 24 x) :: uint8)) AND 0xFF000000) OR
    (push_bit 16 (ucast (ucast (drop_bit 16 x) :: uint8)) AND 0x00FF0000) OR
    (push_bit 8 (ucast (ucast (drop_bit 8 x) :: uint8)) AND 0x0000FF00) OR
    (ucast (ucast x :: uint8) AND 0x000000FF) = (x :: uint32)" (is "?w = x")
proof (rule bit_word_eqI)
  fix k assume k: "k < LENGTH(32)"
  then consider "k < 8" | "8 \<le> k" "k < 16" | "16 \<le> k" "k < 24" | "24 \<le> k" "k < 32"
    by fastforce
  then show "bit ?w k = bit x k" unfolding mask_const
    by cases (auto simp: bit_or_iff bit_and_iff bit_push_bit_iff bit_mask_iff bit_unsigned_iff
      bit_drop_bit_eq)
qed

lemma split16: "ucast (drop_bit 8 ((push_bit 8 (ucast a) AND 0xFF00) OR (ucast b AND 0x00FF) :: uint16)) = (a :: uint8)"
  "ucast ((push_bit 8 (ucast a) AND 0xFF00) OR (ucast b AND 0x00FF) :: uint16) = (b :: uint8)"
  unfolding mask_const by (rule bit_word_eqI; auto simp: bit_simps)+

lemma split32:
  fixes a b c e :: uint8
  defines "w \<equiv> (push_bit 24 (ucast a) AND 0xFF000000) OR (push_bit 16 (ucast b) AND 0x00FF0000) OR
    (push_bit 8 (ucast c) AND 0x0000FF00) OR (ucast e AND 0x000000FF) :: uint32"
  shows "be32 w = [a, b, c, e]"
proof -
  have byte: "bit w (8 * j + i) = bit ([e, c, b, a] ! j) i" if "i < 8" "j < 4" for i j
  proof -
    from that consider "j = 0" | "j = 1" | "j = 2" | "j = 3" by linarith
    then show ?thesis unfolding w_def mask_const
      by cases (use that in \<open>auto simp: bit_or_iff bit_and_iff bit_push_bit_iff bit_mask_iff
        bit_unsigned_iff dest: bit_imp_le_length\<close>)
  qed
  show ?thesis unfolding be32_def
    using byte [where j = 0] byte [where j = 1] byte [where j = 2] byte [where j = 3]
    by (auto intro!: bit_word_eqI simp: bit_unsigned_iff bit_drop_bit_eq)
qed

lemma join32_inject:
  fixes a b c e a' b' c' e' :: uint8
  shows "(push_bit 24 (ucast a) AND 0xFF000000) OR (push_bit 16 (ucast b) AND 0x00FF0000) OR
      (push_bit 8 (ucast c) AND 0x0000FF00) OR (ucast e AND 0x000000FF) =
    ((push_bit 24 (ucast a') AND 0xFF000000) OR (push_bit 16 (ucast b') AND 0x00FF0000) OR
      (push_bit 8 (ucast c') AND 0x0000FF00) OR (ucast e' AND 0x000000FF) :: uint32) \<longleftrightarrow>
    [a, b, c, e] = [a', b', c', e']" (is "?w = ?v \<longleftrightarrow> _")
proof
  assume "?w = ?v"
  then have "be32 ?w = be32 ?v" by (rule arg_cong)
  then show "[a, b, c, e] = [a', b', c', e']" unfolding split32 .
qed simp

lemma split16_swap:
  "ucast (drop_bit 8 ((ucast b AND 0x00FF) OR (push_bit 8 (ucast a) AND 0xFF00) :: uint16)) = (a :: uint8)"
  "ucast ((ucast b AND 0x00FF) OR (push_bit 8 (ucast a) AND 0xFF00) :: uint16) = (b :: uint8)"
  using split16 [of a b] by (simp_all add: or.commute)

lemma join16_inject:
  fixes a b a' b' :: uint8
  shows "(push_bit 8 (ucast a) AND 0xFF00) OR (ucast b AND 0x00FF) =
    ((push_bit 8 (ucast a') AND 0xFF00) OR (ucast b' AND 0x00FF) :: uint16) \<longleftrightarrow> a = a' \<and> b = b'"
  by (metis split16)

lemma join16_swap_inject:
  fixes a b a' b' :: uint8
  shows "(ucast b AND 0x00FF) OR (push_bit 8 (ucast a) AND 0xFF00) =
    ((ucast b' AND 0x00FF) OR (push_bit 8 (ucast a') AND 0xFF00) :: uint16) \<longleftrightarrow> a = a' \<and> b = b'"
  by (metis split16_swap)

lemma join16_swap: "(ucast (ucast x :: uint8) AND 0x00FF) OR
    (push_bit 8 (ucast (ucast (drop_bit 8 x) :: uint8)) AND 0xFF00) = (x :: uint16)"
  using join16 [of x] by (simp add: or.commute)

section \<open>A 16-bit CRC around a field\<close>

text \<open>The part of the check value computation that \<^verbatim>\<open>E2E_P05.c\<close> and \<^verbatim>\<open>E2E_P06.c\<close> share.\<close>

lemma crc16_around_field:
  assumes "a = unat offset" "a + 2 \<le> unat Length" "unat Length \<le> length d"
  shows "(if 0 < offset
      then do { crc \<leftarrow> Crc_CalculateCRC16 m (Some d) (ucast offset) 0xFFFF True;
                Crc_CalculateCRC16 m (Some (drop (unat offset + 2) d)) (ucast (Length - offset - 2 :: uint16)) crc False }
      else Crc_CalculateCRC16 m (Some (drop (unat offset + 2) d)) (ucast (Length - offset - 2 :: uint16)) 0xFFFF True) =
    Some (foldl (crc_upd CRC16_CCITT_POLYNOMIAL) 0xFFFF (covered a (a + 2) (unat Length) d))"
proof -
  have le: "offset \<le> Length" "2 \<le> Length - offset"
    using assms(1,2) by (simp_all add: word_le_nat_alt unat_sub)
  have n: "unat (Length - offset - 2) = unat Length - a - 2"
    using le assms(1) by (simp add: unat_sub)
  have seg: "take (unat Length - a - 2) (drop (a + 2) d) = drop (a + 2) (take (unat Length) d)"
    by (simp add: drop_take)
  have up: "unat (ucast x :: uint32) = unat x" for x :: uint16
    by (simp add: unsigned_ucast_eq take_bit_nat_eq_self less_trans [OF unat_uint16_less])
  show ?thesis
    using assms n seg up
    by (auto simp: Crc_CalculateCRC16_call crc_call_def covered_def word_gt_0)
qed

lemma crc16_byte: "Crc_CalculateCRC16 m (Some [b]) 1 s False = Some (crc_upd CRC16_CCITT_POLYNOMIAL s b)"
  by (simp add: Crc_CalculateCRC16_call crc_call_def)

section \<open>Nibbles of a byte\<close>

lemma bit_mask_byte:
  fixes x :: uint8
  shows "bit (x AND 0x0F) n \<longleftrightarrow> n < 4 \<and> bit x n"
    and "bit (x AND 0xF0) n \<longleftrightarrow> 4 \<le> n \<and> bit x n"
  unfolding mask_const by (auto simp: bit_simps dest: bit_imp_le_length)

lemma nibble_simps [simp]:
  fixes x c :: uint8
  shows "((x AND 0xF0) OR (c AND 0x0F)) AND 0x0F = c AND 0x0F"
    and "drop_bit 4 ((x AND 0x0F) OR (push_bit 4 c AND 0xF0)) AND 0x0F = c AND 0x0F"
    and "drop_bit 4 ((x AND 0xF0) OR (c AND 0x0F)) AND 0x0F = drop_bit 4 x AND 0x0F"
    and "((x AND 0x0F) OR (push_bit 4 c AND 0xF0)) AND 0x0F = x AND 0x0F"
    and "drop_bit 4 (push_bit 4 c) AND 0x0F = c AND 0x0F"
  by (rule bit_word_eqI; auto simp: bit_mask_byte bit_or_iff bit_push_bit_iff bit_drop_bit_eq)+

lemma nibble_id: "c \<le> 15 \<Longrightarrow> c AND 0x0F = (c :: uint8)"
proof -
  assume "c \<le> 15"
  then have "unat c < 2 ^ 4" by (simp add: word_le_nat_alt)
  then have "take_bit 4 c = c" by (simp add: take_bit_word_eq_self word_unat_eq_iff unsigned_take_bit_eq take_bit_nat_eq_self)
  then show ?thesis by (simp add: take_bit_eq_mask mask_eq_exp_minus_1)
qed

section \<open>The CRC-8 helpers\<close>

lemma E2E_CRC8u16_bytes: "E2E_CRC8u16 x s = E2E_CRC8u8Array (Some (le16 x)) 2 s"
  by (simp add: E2E_CRC8u16_def E2E_CRC8u8Array_def le16_def)

lemma E2E_CRC8u32_bytes: "E2E_CRC8u32 x s = E2E_CRC8u8Array (Some (le32 x)) 4 s"
  by (simp add: E2E_CRC8u32_def E2E_CRC8u8Array_def le32_def)

lemma E2E_CRC8H2Fu16_bytes: "E2E_CRC8H2Fu16 x s = E2E_CRC8H2Fu8Array (Some (le16 x)) 2 s"
  by (simp add: E2E_CRC8H2Fu16_def E2E_CRC8H2Fu8Array_def le16_def)

lemma E2E_CRC8H2Fu32_bytes: "E2E_CRC8H2Fu32 x s = E2E_CRC8H2Fu8Array (Some (le32 x)) 4 s"
  by (simp add: E2E_CRC8H2Fu32_def E2E_CRC8H2Fu8Array_def le32_def)

lemma E2E_CRC8u8Array_fold:
  "E2E_CRC8u8Array (Some d) n s =
   (if unat n \<le> length d then Some (foldl (crc_upd CRC8_POLYNOMIAL) s (take (unat n) d)) else None)"
  by (simp add: E2E_CRC8u8Array_def Crc_CalculateCRC8_call crc_call_def)

lemma E2E_CRC8H2Fu8Array_fold:
  "E2E_CRC8H2Fu8Array (Some d) n s =
   (if unat n \<le> length d
    then Some (foldl (crc_upd CRC8_H2F_POLYNOMIAL) (s XOR 0xFF) (take (unat n) d) XOR 0xFF) else None)"
  by (simp add: E2E_CRC8H2Fu8Array_def Crc_CalculateCRC8H2F_call crc_call_def)

lemma array_crc_loop_fold:
  assumes "\<And>x s. g x s = Some (out (foldl upd (inp s) (ser x)))" and "\<And>s. inp (out s) = s"
    and "\<And>s. out (inp s) = s"
  shows "n \<le> length xs \<Longrightarrow>
    array_crc_loop g n xs s = Some (out (foldl upd (inp s) (concat (map ser (take n xs)))))"
proof (induction n arbitrary: xs s)
  case 0
  then show ?case by (simp add: assms)
next
  case (Suc n)
  then show ?case by (cases xs) (simp_all add: assms)
qed

lemma length_concat_map: "(\<And>x. length (ser x) = k) \<Longrightarrow> length (concat (map ser xs)) = k * length xs"
  by (induction xs) simp_all

lemma length_le [simp]: "length (le16 x) = 2" "length (le32 y) = 4"
  by (simp_all add: le16_def le32_def)

lemma unat_scale: "k * unat n < 2 ^ 32 \<Longrightarrow> unat (of_nat k * n :: uint32) = k * unat n"
  by (simp add: unat_word_ariths unat_of_nat mod_mult_left_eq)

lemma array_bytes:
  fixes n :: uint32
  assumes "\<And>x. length (ser x) = k" and "unat n \<le> length xs" and "k * unat n < 2 ^ 32"
  shows "unat (of_nat k * n) = length (concat (map ser (take (unat n) xs)))"
  using unat_scale [OF assms(3)] assms(1,2) length_concat_map [of ser k "take (unat n) xs"] by simp

lemma E2E_CRC8u16Array_fold:
  "unat n \<le> length xs \<Longrightarrow> E2E_CRC8u16Array xs n s =
   Some (foldl (crc_upd CRC8_POLYNOMIAL) s (concat (map le16 (take (unat n) xs))))"
  unfolding E2E_CRC8u16Array_def
  by (subst array_crc_loop_fold [where inp = "\<lambda>x. x" and out = "\<lambda>x. x" and ser = le16
      and upd = "crc_upd CRC8_POLYNOMIAL"])
    (simp_all add: E2E_CRC8u16_bytes E2E_CRC8u8Array_fold)

lemma E2E_CRC8u32Array_fold:
  "unat n \<le> length xs \<Longrightarrow> E2E_CRC8u32Array xs n s =
   Some (foldl (crc_upd CRC8_POLYNOMIAL) s (concat (map le32 (take (unat n) xs))))"
  unfolding E2E_CRC8u32Array_def
  by (subst array_crc_loop_fold [where inp = "\<lambda>x. x" and out = "\<lambda>x. x" and ser = le32
      and upd = "crc_upd CRC8_POLYNOMIAL"])
    (simp_all add: E2E_CRC8u32_bytes E2E_CRC8u8Array_fold)

lemma E2E_CRC8H2Fu16Array_fold:
  "unat n \<le> length xs \<Longrightarrow> E2E_CRC8H2Fu16Array xs n s =
   Some (foldl (crc_upd CRC8_H2F_POLYNOMIAL) (s XOR 0xFF) (concat (map le16 (take (unat n) xs))) XOR 0xFF)"
  unfolding E2E_CRC8H2Fu16Array_def
  by (subst array_crc_loop_fold [where inp = "\<lambda>x. x XOR 0xFF" and out = "\<lambda>x. x XOR 0xFF"
      and ser = le16 and upd = "crc_upd CRC8_H2F_POLYNOMIAL"])
    (simp_all add: E2E_CRC8H2Fu16_bytes E2E_CRC8H2Fu8Array_fold)

lemma E2E_CRC8H2Fu32Array_fold:
  "unat n \<le> length xs \<Longrightarrow> E2E_CRC8H2Fu32Array xs n s =
   Some (foldl (crc_upd CRC8_H2F_POLYNOMIAL) (s XOR 0xFF) (concat (map le32 (take (unat n) xs))) XOR 0xFF)"
  unfolding E2E_CRC8H2Fu32Array_def
  by (subst array_crc_loop_fold [where inp = "\<lambda>x. x XOR 0xFF" and out = "\<lambda>x. x XOR 0xFF"
      and ser = le32 and upd = "crc_upd CRC8_H2F_POLYNOMIAL"])
    (simp_all add: E2E_CRC8H2Fu32_bytes E2E_CRC8H2Fu8Array_fold)

text \<open>
  The CRC-8 helpers on arrays of 16-bit and 32-bit integers compute the CRC of the little-endian
  bytes of the array, in one call of the byte-array helper, for both polynomials: the value does
  not depend on the machine's byte order.
\<close>

theorem e2e_crc8_arrays_little_endian:
  assumes "unat n \<le> length xs" "2 * unat n < 2 ^ 32" and "unat k \<le> length ys" "4 * unat k < 2 ^ 32"
  shows "E2E_CRC8u16Array xs n s =
      E2E_CRC8u8Array (Some (concat (map le16 (take (unat n) xs)))) (2 * n) s \<and>
    E2E_CRC8u32Array ys k s =
      E2E_CRC8u8Array (Some (concat (map le32 (take (unat k) ys)))) (4 * k) s \<and>
    E2E_CRC8H2Fu16Array xs n s =
      E2E_CRC8H2Fu8Array (Some (concat (map le16 (take (unat n) xs)))) (2 * n) s \<and>
    E2E_CRC8H2Fu32Array ys k s =
      E2E_CRC8H2Fu8Array (Some (concat (map le32 (take (unat k) ys)))) (4 * k) s"
  using array_bytes [of le16 2 n xs] array_bytes [of le32 4 k ys] assms
  by (simp add: E2E_CRC8u16Array_fold E2E_CRC8u32Array_fold E2E_CRC8H2Fu16Array_fold
    E2E_CRC8H2Fu32Array_fold E2E_CRC8u8Array_fold E2E_CRC8H2Fu8Array_fold)

theorem e2e_crc8_arrays_little_endian_witness:
  "E2E_CRC8u16Array [0x1234, 0x5678] 2 0 =
   E2E_CRC8u8Array (Some (concat (map le16 (take 2 [0x1234, 0x5678])))) 4 0"
  using e2e_crc8_arrays_little_endian [of 2 "[0x1234, 0x5678]" 0 "[]" 0] by simp

end
