(* ===== verification/E2E_P01.thy ===== *)
theory E2E_P01
  imports E2E
begin

text \<open>
  End-to-end profile 1, \<^verbatim>\<open>core/system/E2E/E2E_P01.c\<close> and \<^verbatim>\<open>E2E_P01.h\<close>: a
  4-bit counter modulo 15 in a nibble of the message and a CRC-8 byte over the rest of the message and
  the data ID, which enters in one of four modes; the receiver resynchronises after lost or
  repeated messages.

  The operations stand in the order of the source, the static ones with the prefix \<open>P01\<close>.
  \<open>P01_frame\<close> is the layout of a protected message. The lemmas show that the sender produces it
  and the receiver accepts a lossless sequence of such messages, that the receiver's counters stay
  in range, that a changed byte is noticed once the receiver is initialised, and that the very first
  message is accepted whatever its CRC.
\<close>

section \<open>Definitions\<close>

datatype E2E_P01DataIDMode =
    E2E_P01_DATAID_BOTH
  | E2E_P01_DATAID_ALT
  | E2E_P01_DATAID_LOW
  | E2E_P01_DATAID_NIBBLE

datatype E2E_P01CheckStatusType =
    E2E_P01STATUS_OK
  | E2E_P01STATUS_NONEWDATA
  | E2E_P01STATUS_WRONGCRC
  | E2E_P01STATUS_SYNC
  | E2E_P01STATUS_INITIAL
  | E2E_P01STATUS_REPEATED
  | E2E_P01STATUS_OKSOMELOST
  | E2E_P01STATUS_WRONGSEQUENCE

record E2E_P01ConfigType =
  p01_CounterOffset :: uint16
  p01_CRCOffset :: uint16
  p01_DataID :: uint16
  p01_DataIDNibbleOffset :: uint16
  p01_DataIDMode :: E2E_P01DataIDMode
  p01_DataLength :: uint16
  p01_MaxDeltaCounterInit :: uint8
  p01_MaxNoNewOrRepeatedData :: uint8
  p01_SyncCounterInit :: uint8

record E2E_P01ProtectStateType =
  p01p_Counter :: uint8

record E2E_P01CheckStateType =
  p01c_LastValidCounter :: uint8
  p01c_MaxDeltaCounter :: uint8
  p01c_WaitForFirstData :: bool
  p01c_NewDataAvailable :: bool
  p01c_LostData :: uint8
  p01c_Status :: E2E_P01CheckStatusType
  p01c_SyncCounter :: uint8
  p01c_NoNewOrRepeatedDataCounter :: uint8

abbreviation (input) MAX_P01_DATA_LENGTH_IN_BITS :: nat where "MAX_P01_DATA_LENGTH_IN_BITS \<equiv> 240"
abbreviation (input) MAX_P01_COUNTER_VALUE :: uint8 where "MAX_P01_COUNTER_VALUE \<equiv> 14"

definition P01_CalculateDeltaCounter :: "uint8 \<Rightarrow> uint8 \<Rightarrow> uint8" where
  "P01_CalculateDeltaCounter receivedCounter lastValidCounter =
     (if receivedCounter \<ge> lastValidCounter then receivedCounter - lastValidCounter
      else MAX_P01_COUNTER_VALUE + 1 + receivedCounter - lastValidCounter)"

definition P01_CheckConfig :: "E2E_P01ConfigType ptr \<Rightarrow> E2E_ReturnType" where
  "P01_CheckConfig Config =
     (case Config of None \<Rightarrow> E2E_E_INPUTERR_NULL
      | Some cfg \<Rightarrow>
          if unat (p01_DataLength cfg) > MAX_P01_DATA_LENGTH_IN_BITS \<or> unat (p01_DataLength cfg) mod 8 \<noteq> 0 \<or>
             unat (p01_CounterOffset cfg) mod 4 \<noteq> 0 \<or> unat (p01_CRCOffset cfg) mod 8 \<noteq> 0
          then E2E_E_INPUTERR_WRONG
          else if unat (p01_CRCOffset cfg) + 8 > unat (p01_DataLength cfg) \<or>
             unat (p01_CounterOffset cfg) + 4 > unat (p01_DataLength cfg) \<or>
             unat (p01_CRCOffset cfg) div 8 = unat (p01_CounterOffset cfg) div 8
          then E2E_E_INPUTERR_WRONG
          else if p01_DataIDMode cfg \<noteq> E2E_P01_DATAID_NIBBLE \<and> p01_DataIDNibbleOffset cfg \<noteq> 0
          then E2E_E_INPUTERR_WRONG
          else if p01_DataIDMode cfg = E2E_P01_DATAID_LOW \<and> drop_bit 8 (p01_DataID cfg) \<noteq> 0
          then E2E_E_INPUTERR_WRONG
          else if p01_DataIDMode cfg = E2E_P01_DATAID_NIBBLE \<and> drop_bit 12 (p01_DataID cfg) \<noteq> 0
          then E2E_E_INPUTERR_WRONG
          else E2E_E_OK)"

definition P01_CalculateCrc :: "E2E_P01ConfigType \<Rightarrow> uint8 \<Rightarrow> uint8 list \<Rightarrow> uint8 ub" where
  "P01_CalculateCrc cfg Counter Data =
     (let crc = 0x00 XOR CRC8_XOR;
          lowerByteId = ucast (p01_DataID cfg);
          upperByteId = ucast (drop_bit 8 (p01_DataID cfg));
          crc8 = \<lambda>p n start. Crc_CalculateCRC8 CRC_8_MODE (Some p) n start False;
          crcByte = unat (p01_CRCOffset cfg) div 8;
          dataBytes = unat (p01_DataLength cfg) div 8
      in do {
        crc \<leftarrow>
          (if p01_DataIDMode cfg = E2E_P01_DATAID_BOTH
           then do { crc \<leftarrow> crc8 [lowerByteId] 1 crc; crc8 [upperByteId] 1 crc }
           else if p01_DataIDMode cfg = E2E_P01_DATAID_LOW then crc8 [lowerByteId] 1 crc
           else if p01_DataIDMode cfg = E2E_P01_DATAID_NIBBLE
           then do { crc \<leftarrow> crc8 [lowerByteId] 1 crc; crc8 [0] 1 crc }
           else if unat Counter mod 2 = 0 then crc8 [lowerByteId] 1 crc
           else crc8 [upperByteId] 1 crc);
        crc \<leftarrow> (if unat (p01_CRCOffset cfg) \<ge> 8 then crc8 Data (of_nat crcByte) crc else Some crc);
        crc \<leftarrow> (if int crcByte < int dataBytes - 1
                then crc8 (drop (crcByte + 1) Data) (of_nat (dataBytes - crcByte - 1)) crc
                else Some crc);
        Some (crc XOR CRC8_XOR) })"

text \<open>The two blocks of \<^verbatim>\<open>E2E_P01Protect\<close> that put the counter and the data ID nibble.\<close>

definition P01_WriteCounter ::
  "E2E_P01ConfigType \<Rightarrow> E2E_P01ProtectStateType \<Rightarrow> uint8 list \<Rightarrow> uint8 list ub" where
  "P01_WriteCounter cfg st d =
     (let i = unat (p01_CounterOffset cfg) div 8 in
      do { x \<leftarrow> rd d i;
           if unat (p01_CounterOffset cfg) mod 8 = 0
           then wr d i ((x AND 0xF0) OR (p01p_Counter st AND 0x0F))
           else wr d i ((x AND 0x0F) OR (push_bit 4 (p01p_Counter st) AND 0xF0)) })"

definition P01_WriteDataIDNibble :: "E2E_P01ConfigType \<Rightarrow> uint8 list \<Rightarrow> uint8 list ub" where
  "P01_WriteDataIDNibble cfg d =
     (if p01_DataIDMode cfg = E2E_P01_DATAID_NIBBLE
      then (let j = unat (p01_DataIDNibbleOffset cfg) div 8 in
            do { x \<leftarrow> rd d j;
                 if unat (p01_DataIDNibbleOffset cfg) mod 8 = 0
                 then wr d j ((x AND 0xF0) OR ucast (drop_bit 8 (p01_DataID cfg) AND 0x0F))
                 else wr d j ((x AND 0x0F) OR ucast (drop_bit 4 (p01_DataID cfg) AND 0xF0)) })
      else Some d)"

definition E2E_P01Protect ::
  "E2E_P01ConfigType ptr \<Rightarrow> E2E_P01ProtectStateType ptr \<Rightarrow> uint8 list ptr \<Rightarrow>
   (E2E_ReturnType \<times> E2E_P01ProtectStateType ptr \<times> uint8 list ptr) ub" where
  "E2E_P01Protect ConfigPtr StatePtr DataPtr =
     (let returnValue = P01_CheckConfig ConfigPtr in
      if returnValue \<noteq> E2E_E_OK then Some (returnValue, StatePtr, DataPtr)
      else if StatePtr = None \<or> DataPtr = None then Some (E2E_E_INPUTERR_NULL, StatePtr, DataPtr)
      else do {
        cfg \<leftarrow> deref ConfigPtr; st \<leftarrow> deref StatePtr; d \<leftarrow> deref DataPtr;
        d \<leftarrow> P01_WriteCounter cfg st d;
        d \<leftarrow> P01_WriteDataIDNibble cfg d;
        crc \<leftarrow> P01_CalculateCrc cfg (p01p_Counter st) d;
        d \<leftarrow> wr d (unat (p01_CRCOffset cfg) div 8) crc;
        Some (E2E_E_OK, Some (st\<lparr>p01p_Counter := E2E_UpdateCounter (p01p_Counter st)\<rparr>), Some d) })"

definition P01_ReadCounter :: "E2E_P01ConfigType \<Rightarrow> uint8 list \<Rightarrow> uint8 ub" where
  "P01_ReadCounter cfg d =
     do { x \<leftarrow> rd d (unat (p01_CounterOffset cfg) div 8);
          Some (if unat (p01_CounterOffset cfg) mod 8 = 0 then x AND 0x0F else drop_bit 4 x AND 0x0F) }"

definition P01_ReadDataIDNibbleOffset :: "E2E_P01ConfigType \<Rightarrow> uint8 list \<Rightarrow> uint8 ub" where
  "P01_ReadDataIDNibbleOffset cfg d =
     (if p01_DataIDMode cfg = E2E_P01_DATAID_NIBBLE
      then do { x \<leftarrow> rd d (unat (p01_DataIDNibbleOffset cfg) div 8);
                Some (if unat (p01_DataIDNibbleOffset cfg) mod 8 = 0 then x AND 0x0F
                      else drop_bit 4 x AND 0x0F) }
      else Some 0)"

text \<open>The returned boolean, and the state it leaves.\<close>

definition P01_IsFirstDataSinceInitialisation ::
  "E2E_P01ConfigType \<Rightarrow> E2E_P01CheckStateType \<Rightarrow> uint8 \<Rightarrow> bool \<times> E2E_P01CheckStateType" where
  "P01_IsFirstDataSinceInitialisation cfg st receivedCounter =
     (if p01c_WaitForFirstData st
      then (True, st\<lparr>p01c_WaitForFirstData := False,
              p01c_MaxDeltaCounter := p01_MaxDeltaCounterInit cfg,
              p01c_LastValidCounter := receivedCounter,
              p01c_Status := E2E_P01STATUS_INITIAL\<rparr>)
      else (False, st))"

definition P01_IsCheckOfReceivedDataNotOk ::
  "E2E_P01ConfigType \<Rightarrow> E2E_P01CheckStateType \<Rightarrow> uint8 \<Rightarrow> uint8 \<Rightarrow> uint8 \<Rightarrow> uint8 \<Rightarrow>
   bool \<times> E2E_P01CheckStateType" where
  "P01_IsCheckOfReceivedDataNotOk cfg st receivedCounter receivedCrc calculatedCrc receivedDataIDNibble =
     (let (status, st) =
        (if receivedCrc \<noteq> calculatedCrc \<or>
            p01_DataIDMode cfg = E2E_P01_DATAID_NIBBLE \<and>
            ucast receivedDataIDNibble \<noteq> drop_bit 8 (p01_DataID cfg)
         then (True, st\<lparr>p01c_Status := E2E_P01STATUS_WRONGCRC\<rparr>)
         else (False, st));
          (first, st) = P01_IsFirstDataSinceInitialisation cfg st receivedCounter
      in (if first then True else status, st))"

definition P01_DoChecks ::
  "E2E_P01ConfigType \<Rightarrow> E2E_P01CheckStateType \<Rightarrow> uint8 \<Rightarrow> E2E_P01CheckStateType" where
  "P01_DoChecks cfg st receivedCounter =
     (let delta = P01_CalculateDeltaCounter receivedCounter (p01c_LastValidCounter st) in
      if delta = 0 then
        (let st = (if p01c_NoNewOrRepeatedDataCounter st < MAX_P01_COUNTER_VALUE
                   then st\<lparr>p01c_NoNewOrRepeatedDataCounter := p01c_NoNewOrRepeatedDataCounter st + 1\<rparr>
                   else st)
         in st\<lparr>p01c_Status := E2E_P01STATUS_REPEATED\<rparr>)
      else if delta = 1 then
        (let st = st\<lparr>p01c_MaxDeltaCounter := p01_MaxDeltaCounterInit cfg,
                     p01c_LastValidCounter := receivedCounter, p01c_LostData := 0\<rparr>
         in if p01c_NoNewOrRepeatedDataCounter st \<le> p01_MaxNoNewOrRepeatedData cfg
            then (let st = st\<lparr>p01c_NoNewOrRepeatedDataCounter := 0\<rparr> in
                  if p01c_SyncCounter st > 0
                  then st\<lparr>p01c_SyncCounter := p01c_SyncCounter st - 1, p01c_Status := E2E_P01STATUS_SYNC\<rparr>
                  else st\<lparr>p01c_Status := E2E_P01STATUS_OK\<rparr>)
            else st\<lparr>p01c_NoNewOrRepeatedDataCounter := 0,
                    p01c_SyncCounter := p01_SyncCounterInit cfg,
                    p01c_Status := E2E_P01STATUS_SYNC\<rparr>)
      else if delta \<le> p01c_MaxDeltaCounter st then
        (let st = st\<lparr>p01c_MaxDeltaCounter := p01_MaxDeltaCounterInit cfg,
                     p01c_LastValidCounter := receivedCounter, p01c_LostData := delta - 1\<rparr>
         in if p01c_NoNewOrRepeatedDataCounter st \<le> p01_MaxNoNewOrRepeatedData cfg
            then (let st = st\<lparr>p01c_NoNewOrRepeatedDataCounter := 0\<rparr> in
                  if p01c_SyncCounter st > 0
                  then st\<lparr>p01c_SyncCounter := p01c_SyncCounter st - 1, p01c_Status := E2E_P01STATUS_SYNC\<rparr>
                  else st\<lparr>p01c_Status := E2E_P01STATUS_OKSOMELOST\<rparr>)
            else st\<lparr>p01c_NoNewOrRepeatedDataCounter := 0,
                    p01c_SyncCounter := p01_SyncCounterInit cfg,
                    p01c_Status := E2E_P01STATUS_SYNC\<rparr>)
      else
        (let st = st\<lparr>p01c_NoNewOrRepeatedDataCounter := 0, p01c_SyncCounter := p01_SyncCounterInit cfg\<rparr>;
             st = (if p01c_SyncCounter st > 0
                   then st\<lparr>p01c_MaxDeltaCounter := p01_MaxDeltaCounterInit cfg,
                           p01c_LastValidCounter := receivedCounter\<rparr>
                   else st)
         in st\<lparr>p01c_Status := E2E_P01STATUS_WRONGSEQUENCE\<rparr>))"

text \<open>The allowed counter distance grows with every call of \<^verbatim>\<open>E2E_P01Check\<close>.\<close>

definition P01_tick :: "E2E_P01CheckStateType \<Rightarrow> E2E_P01CheckStateType" where
  "P01_tick st = (if p01c_MaxDeltaCounter st < MAX_P01_COUNTER_VALUE
     then st\<lparr>p01c_MaxDeltaCounter := p01c_MaxDeltaCounter st + 1\<rparr> else st)"

definition E2E_P01Check ::
  "E2E_P01ConfigType ptr \<Rightarrow> E2E_P01CheckStateType ptr \<Rightarrow> uint8 list ptr \<Rightarrow>
   (E2E_ReturnType \<times> E2E_P01CheckStateType ptr) ub" where
  "E2E_P01Check ConfigPtr StatePtr DataPtr =
     (let returnValue = P01_CheckConfig ConfigPtr in
      if returnValue \<noteq> E2E_E_OK then Some (returnValue, StatePtr)
      else if StatePtr = None \<or> DataPtr = None then Some (E2E_E_INPUTERR_NULL, StatePtr)
      else do {
        cfg \<leftarrow> deref ConfigPtr; st \<leftarrow> deref StatePtr; d \<leftarrow> deref DataPtr;
        let st = P01_tick st;
        if \<not> p01c_NewDataAvailable st then
          (let st = (if p01c_NoNewOrRepeatedDataCounter st < MAX_P01_COUNTER_VALUE
                     then st\<lparr>p01c_NoNewOrRepeatedDataCounter := p01c_NoNewOrRepeatedDataCounter st + 1\<rparr>
                     else st)
           in Some (E2E_E_OK, Some (st\<lparr>p01c_Status := E2E_P01STATUS_NONEWDATA\<rparr>)))
        else do {
          receivedCounter \<leftarrow> P01_ReadCounter cfg d;
          if receivedCounter > MAX_P01_COUNTER_VALUE then Some (E2E_E_INPUTERR_WRONG, Some st)
          else do {
            receivedCrc \<leftarrow> rd d (unat (p01_CRCOffset cfg) div 8);
            receivedDataIDNibble \<leftarrow> P01_ReadDataIDNibbleOffset cfg d;
            calculatedCrc \<leftarrow> P01_CalculateCrc cfg receivedCounter d;
            let (notOk, st) = P01_IsCheckOfReceivedDataNotOk cfg st receivedCounter receivedCrc
                                calculatedCrc receivedDataIDNibble;
            if notOk then Some (E2E_E_OK, Some st)
            else Some (E2E_E_OK, Some (P01_DoChecks cfg st receivedCounter)) } } })"

definition E2E_P01ProtectInit ::
  "E2E_P01ProtectStateType ptr \<Rightarrow> E2E_ReturnType \<times> E2E_P01ProtectStateType ptr" where
  "E2E_P01ProtectInit StatePtr =
     (case StatePtr of None \<Rightarrow> (E2E_E_INPUTERR_NULL, None)
      | Some st \<Rightarrow> (E2E_E_OK, Some (st\<lparr>p01p_Counter := 0\<rparr>)))"

definition E2E_P01CheckInit ::
  "E2E_P01CheckStateType ptr \<Rightarrow> E2E_ReturnType \<times> E2E_P01CheckStateType ptr" where
  "E2E_P01CheckInit StatePtr =
     (case StatePtr of None \<Rightarrow> (E2E_E_INPUTERR_NULL, None)
      | Some st \<Rightarrow> (E2E_E_OK, Some \<lparr>p01c_LastValidCounter = 0, p01c_MaxDeltaCounter = 0,
          p01c_WaitForFirstData = True, p01c_NewDataAvailable = False, p01c_LostData = 0,
          p01c_Status = E2E_P01STATUS_NONEWDATA, p01c_SyncCounter = 0,
          p01c_NoNewOrRepeatedDataCounter = 0\<rparr>))"

definition E2E_P01MapStatusToSM_TRUE :: "E2E_P01CheckStatusType \<Rightarrow> E2E_PCheckStatusType" where
  "E2E_P01MapStatusToSM_TRUE Status =
     (case Status of
        E2E_P01STATUS_OK \<Rightarrow> E2E_P_OK
      | E2E_P01STATUS_OKSOMELOST \<Rightarrow> E2E_P_OK
      | E2E_P01STATUS_SYNC \<Rightarrow> E2E_P_OK
      | E2E_P01STATUS_REPEATED \<Rightarrow> E2E_P_REPEATED
      | E2E_P01STATUS_NONEWDATA \<Rightarrow> E2E_P_NONEWDATA
      | E2E_P01STATUS_WRONGSEQUENCE \<Rightarrow> E2E_P_WRONGSEQUENCE
      | E2E_P01STATUS_INITIAL \<Rightarrow> E2E_P_WRONGSEQUENCE
      | _ \<Rightarrow> E2E_P_ERROR)"

definition E2E_P01MapStatusToSM_FALSE :: "E2E_P01CheckStatusType \<Rightarrow> E2E_PCheckStatusType" where
  "E2E_P01MapStatusToSM_FALSE Status =
     (case Status of
        E2E_P01STATUS_OK \<Rightarrow> E2E_P_OK
      | E2E_P01STATUS_OKSOMELOST \<Rightarrow> E2E_P_OK
      | E2E_P01STATUS_INITIAL \<Rightarrow> E2E_P_OK
      | E2E_P01STATUS_REPEATED \<Rightarrow> E2E_P_REPEATED
      | E2E_P01STATUS_NONEWDATA \<Rightarrow> E2E_P_NONEWDATA
      | E2E_P01STATUS_WRONGSEQUENCE \<Rightarrow> E2E_P_WRONGSEQUENCE
      | E2E_P01STATUS_SYNC \<Rightarrow> E2E_P_WRONGSEQUENCE
      | _ \<Rightarrow> E2E_P_ERROR)"

definition E2E_P01MapStatusToSM ::
  "E2E_ReturnType \<Rightarrow> E2E_P01CheckStatusType \<Rightarrow> bool \<Rightarrow> E2E_PCheckStatusType" where
  "E2E_P01MapStatusToSM CheckReturn Status profileBehavior =
     (if CheckReturn \<noteq> E2E_E_OK then E2E_P_ERROR
      else if profileBehavior then E2E_P01MapStatusToSM_TRUE Status
      else E2E_P01MapStatusToSM_FALSE Status)"

section \<open>What a protected message is\<close>

text \<open>The configuration as \<^verbatim>\<open>CheckConfig\<close> accepts it, and with a usable nibble offset.\<close>

definition P01_ok :: "E2E_P01ConfigType \<Rightarrow> bool" where
  "P01_ok cfg \<longleftrightarrow> P01_CheckConfig (Some cfg) = E2E_E_OK"

definition P01_nibble_ok :: "E2E_P01ConfigType \<Rightarrow> bool" where
  "P01_nibble_ok cfg \<longleftrightarrow> p01_DataIDMode cfg = E2E_P01_DATAID_NIBBLE \<longrightarrow>
     unat (p01_DataIDNibbleOffset cfg) mod 4 = 0 \<and>
     unat (p01_DataIDNibbleOffset cfg) + 4 \<le> unat (p01_DataLength cfg) \<and>
     unat (p01_DataIDNibbleOffset cfg) div 8 \<noteq> unat (p01_CRCOffset cfg) div 8 \<and>
     p01_DataIDNibbleOffset cfg \<noteq> p01_CounterOffset cfg"

abbreviation P01_crc_pos :: "E2E_P01ConfigType \<Rightarrow> nat" where
  "P01_crc_pos cfg \<equiv> unat (p01_CRCOffset cfg) div 8"

abbreviation P01_len :: "E2E_P01ConfigType \<Rightarrow> nat" where
  "P01_len cfg \<equiv> unat (p01_DataLength cfg) div 8"

text \<open>The bytes of the data ID that enter the CRC, before the message.\<close>

definition P01_ids :: "E2E_P01ConfigType \<Rightarrow> uint8 \<Rightarrow> uint8 list" where
  "P01_ids cfg Counter =
     (let lo = ucast (p01_DataID cfg); hi = ucast (drop_bit 8 (p01_DataID cfg)) in
      case p01_DataIDMode cfg of
        E2E_P01_DATAID_BOTH \<Rightarrow> [lo, hi]
      | E2E_P01_DATAID_LOW \<Rightarrow> [lo]
      | E2E_P01_DATAID_NIBBLE \<Rightarrow> [lo, 0]
      | E2E_P01_DATAID_ALT \<Rightarrow> if even (unat Counter) then [lo] else [hi])"

definition P01_crc :: "E2E_P01ConfigType \<Rightarrow> uint8 \<Rightarrow> uint8 list \<Rightarrow> uint8" where
  "P01_crc cfg Counter d = foldl (crc_upd CRC8_POLYNOMIAL) 0
     (P01_ids cfg Counter @ covered (P01_crc_pos cfg) (P01_crc_pos cfg + 1) (P01_len cfg) d)"

text \<open>A nibble of the message, at a bit offset that is a multiple of four.\<close>

definition get_nib :: "nat \<Rightarrow> uint8 list \<Rightarrow> uint8" where
  "get_nib off d = (let x = d ! (off div 8) in if off mod 8 = 0 then x AND 0x0F else drop_bit 4 x AND 0x0F)"

definition put_nib :: "nat \<Rightarrow> uint8 \<Rightarrow> uint8 list \<Rightarrow> uint8 list" where
  "put_nib off v d = (let x = d ! (off div 8) in
     d[off div 8 := if off mod 8 = 0 then (x AND 0xF0) OR (v AND 0x0F)
                    else (x AND 0x0F) OR (push_bit 4 v AND 0xF0)])"

definition P01_body :: "E2E_P01ConfigType \<Rightarrow> uint8 \<Rightarrow> uint8 list \<Rightarrow> uint8 list" where
  "P01_body cfg Counter d =
     (let d = put_nib (unat (p01_CounterOffset cfg)) Counter d in
      if p01_DataIDMode cfg = E2E_P01_DATAID_NIBBLE
      then put_nib (unat (p01_DataIDNibbleOffset cfg)) (ucast (drop_bit 8 (p01_DataID cfg))) d else d)"

definition P01_frame :: "E2E_P01ConfigType \<Rightarrow> uint8 \<Rightarrow> uint8 list \<Rightarrow> uint8 list" where
  "P01_frame cfg Counter d =
     (let b = P01_body cfg Counter d in b[P01_crc_pos cfg := P01_crc cfg Counter b])"

text \<open>
  How an initialised receiver judges an intact message with counter \<open>c\<close>, from the number of
  messages since the last valid one.
\<close>

definition P01_judge :: "E2E_P01ConfigType \<Rightarrow> E2E_P01CheckStateType \<Rightarrow> uint8 \<Rightarrow> E2E_P01CheckStatusType" where
  "P01_judge cfg st c =
     (let n = (unat c + 15 - unat (p01c_LastValidCounter st)) mod 15;
          synced = (p01c_NoNewOrRepeatedDataCounter st \<le> p01_MaxNoNewOrRepeatedData cfg \<and> p01c_SyncCounter st = 0)
      in if n = 0 then E2E_P01STATUS_REPEATED
         else if n = 1 then (if synced then E2E_P01STATUS_OK else E2E_P01STATUS_SYNC)
         else if n \<le> unat (p01c_MaxDeltaCounter (P01_tick st))
         then (if synced then E2E_P01STATUS_OKSOMELOST else E2E_P01STATUS_SYNC)
         else E2E_P01STATUS_WRONGSEQUENCE)"

definition P01_example :: E2E_P01ConfigType where
  "P01_example = \<lparr>p01_CounterOffset = 8, p01_CRCOffset = 0, p01_DataID = 0x0123,
     p01_DataIDNibbleOffset = 12, p01_DataIDMode = E2E_P01_DATAID_NIBBLE, p01_DataLength = 32,
     p01_MaxDeltaCounterInit = 1, p01_MaxNoNewOrRepeatedData = 14, p01_SyncCounterInit = 0\<rparr>"

definition P01_example_rx :: E2E_P01CheckStateType where
  "P01_example_rx = \<lparr>p01c_LastValidCounter = 4, p01c_MaxDeltaCounter = 1, p01c_WaitForFirstData = False,
     p01c_NewDataAvailable = True, p01c_LostData = 0, p01c_Status = E2E_P01STATUS_OK,
     p01c_SyncCounter = 0, p01c_NoNewOrRepeatedDataCounter = 0\<rparr>"

text \<open>The state an intact message with counter \<open>c\<close> leaves.\<close>

definition P01_accept :: "E2E_P01ConfigType \<Rightarrow> E2E_P01CheckStateType \<Rightarrow> uint8 \<Rightarrow> E2E_P01CheckStateType" where
  "P01_accept cfg st c =
     (if p01c_WaitForFirstData st
      then (P01_tick st)\<lparr>p01c_WaitForFirstData := False, p01c_MaxDeltaCounter := p01_MaxDeltaCounterInit cfg,
             p01c_LastValidCounter := c, p01c_Status := E2E_P01STATUS_INITIAL\<rparr>
      else P01_DoChecks cfg (P01_tick st) c)"

text \<open>The range of the receiver's counters.\<close>

definition P01_inv :: "E2E_P01CheckStateType \<Rightarrow> bool" where
  "P01_inv st \<longleftrightarrow> p01c_LastValidCounter st \<le> MAX_P01_COUNTER_VALUE \<and>
     p01c_NoNewOrRepeatedDataCounter st \<le> MAX_P01_COUNTER_VALUE"

text \<open>
  The range of the other counters, which depends on the configuration of the channel: the configured start
  values are not checked against the range of the counter.
\<close>

definition P01_range :: "E2E_P01ConfigType \<Rightarrow> E2E_P01CheckStateType \<Rightarrow> bool" where
  "P01_range cfg st \<longleftrightarrow> p01c_MaxDeltaCounter st \<le> max MAX_P01_COUNTER_VALUE (p01_MaxDeltaCounterInit cfg) \<and>
     p01c_SyncCounter st \<le> p01_SyncCounterInit cfg \<and> p01c_LostData st < MAX_P01_COUNTER_VALUE"

section \<open>Nibbles\<close>

lemma length_put_nib [simp]: "length (put_nib off v d) = length d"
  by (simp add: put_nib_def Let_def)

lemma get_put_nib [simp]: "off div 8 < length d \<Longrightarrow> get_nib off (put_nib off v d) = v AND 0x0F"
  by (simp add: get_nib_def put_nib_def Let_def)

lemma mod_4_cases: "off mod 4 = 0 \<Longrightarrow> off mod 8 = 0 \<or> off mod 8 = (4 :: nat)"
  by presburger

lemma get_put_nib_other:
  assumes "off mod 4 = 0" "off' mod 4 = 0" "off \<noteq> off'" "off div 8 < length d"
  shows "get_nib off (put_nib off' v d) = get_nib off d"
proof (cases "off div 8 = off' div 8")
  case True
  with assms have "(off mod 8 = 0) \<noteq> (off' mod 8 = 0)"
    using mod_4_cases [of off] mod_4_cases [of off'] div_mult_mod_eq [of off 8] div_mult_mod_eq [of off' 8]
    by metis
  then show ?thesis using True assms(4) by (auto simp: get_nib_def put_nib_def Let_def)
next
  case False
  then show ?thesis by (simp add: get_nib_def put_nib_def Let_def)
qed

lemma get_nib_update: "k \<noteq> off div 8 \<Longrightarrow> get_nib off (d[k := y]) = get_nib off d"
  by (simp add: get_nib_def)

section \<open>Configuration and CRC\<close>

lemma P01_ok_bounds:
  assumes "P01_ok cfg"
  shows "P01_crc_pos cfg < P01_len cfg" "unat (p01_CounterOffset cfg) div 8 < P01_len cfg"
    "P01_len cfg \<le> 30" "unat (p01_CounterOffset cfg) mod 4 = 0"
    "unat (p01_CounterOffset cfg) div 8 \<noteq> P01_crc_pos cfg"
  using assms by (auto simp: P01_ok_def P01_CheckConfig_def split: if_splits)

lemma crc8_continue:
  "unat n \<le> length d \<Longrightarrow> Crc_CalculateCRC8 m (Some d) n (s XOR 0xFF) False =
   Some (foldl (crc_upd CRC8_POLYNOMIAL) s (take (unat n) d) XOR 0xFF)"
  by (simp add: Crc_CalculateCRC8_call crc_call_def)

lemma P01_id_crc:
  "(if p01_DataIDMode cfg = E2E_P01_DATAID_BOTH
    then do { crc \<leftarrow> Crc_CalculateCRC8 m (Some [ucast (p01_DataID cfg)]) 1 (0 XOR 0xFF) False;
              Crc_CalculateCRC8 m (Some [ucast (drop_bit 8 (p01_DataID cfg))]) 1 crc False }
    else if p01_DataIDMode cfg = E2E_P01_DATAID_LOW
    then Crc_CalculateCRC8 m (Some [ucast (p01_DataID cfg)]) 1 (0 XOR 0xFF) False
    else if p01_DataIDMode cfg = E2E_P01_DATAID_NIBBLE
    then do { crc \<leftarrow> Crc_CalculateCRC8 m (Some [ucast (p01_DataID cfg)]) 1 (0 XOR 0xFF) False;
              Crc_CalculateCRC8 m (Some [0]) 1 crc False }
    else if unat c mod 2 = 0
    then Crc_CalculateCRC8 m (Some [ucast (p01_DataID cfg)]) 1 (0 XOR 0xFF) False
    else Crc_CalculateCRC8 m (Some [ucast (drop_bit 8 (p01_DataID cfg))]) 1 (0 XOR 0xFF) False) =
   Some (foldl (crc_upd CRC8_POLYNOMIAL) 0 (P01_ids cfg c) XOR 0xFF)"
proof -
  have one: "Crc_CalculateCRC8 m (Some [x]) 1 (s XOR 0xFF) False = Some (crc_upd CRC8_POLYNOMIAL s x XOR 0xFF)"
    for x s by (simp add: crc8_continue)
  show ?thesis unfolding one
    by (cases "p01_DataIDMode cfg") (simp_all add: one P01_ids_def even_iff_mod_2_eq_zero)
qed

lemma P01_data_crc:
  assumes "k = P01_crc_pos cfg" "n = P01_len cfg" "k < n" "n \<le> 30" "n \<le> length d"
  shows "do { crc \<leftarrow> (if unat (p01_CRCOffset cfg) \<ge> 8
                     then Crc_CalculateCRC8 m (Some d) (of_nat k) (s XOR 0xFF) False else Some (s XOR 0xFF));
              if int k < int n - 1
              then Crc_CalculateCRC8 m (Some (drop (k + 1) d)) (of_nat (n - k - 1)) crc False
              else Some crc } =
         Some (foldl (crc_upd CRC8_POLYNOMIAL) s (covered k (k + 1) n d) XOR 0xFF)"
proof -
  have n: "unat (of_nat k :: uint32) = k" "unat (of_nat (n - k - 1) :: uint32) = n - k - 1"
    using unat_of_nat32 [of k] unat_of_nat32 [of "n - k - 1"] assms(3,4) by linarith+
  have front: "(if unat (p01_CRCOffset cfg) \<ge> 8
      then Crc_CalculateCRC8 m (Some d) (of_nat k) (s XOR 0xFF) False else Some (s XOR 0xFF)) =
      Some (foldl (crc_upd CRC8_POLYNOMIAL) s (take k d) XOR 0xFF)"
    using assms n(1) crc8_continue [of "of_nat k" d m s] by (cases "k = 0") auto
  have rest: "(if int k < int n - 1
      then Crc_CalculateCRC8 m (Some (drop (k + 1) d)) (of_nat (n - k - 1)) (t XOR 0xFF) False
      else Some (t XOR 0xFF)) = Some (foldl (crc_upd CRC8_POLYNOMIAL) t (drop (k + 1) (take n d)) XOR 0xFF)" for t
    using assms(3-) n(2) crc8_continue [of "of_nat (n - k - 1)" "drop (k + 1) d" m t]
    by (cases "int k < int n - 1") (auto simp: drop_take)
  show ?thesis unfolding front by (simp only: bind.bind_lunit rest) (simp add: covered_def)
qed

lemma P01_CalculateCrc_eq:
  assumes ok: "P01_ok cfg" and d: "P01_len cfg \<le> length d"
  shows "P01_CalculateCrc cfg c d = Some (P01_crc cfg c d)"
proof -
  note b = P01_ok_bounds [OF ok]
  have data: "do { crc \<leftarrow> (if unat (p01_CRCOffset cfg) \<ge> 8
                     then Crc_CalculateCRC8 m (Some d) (of_nat (P01_crc_pos cfg)) (s XOR 0xFF) False
                     else Some (s XOR 0xFF));
              crc \<leftarrow> (if int (P01_crc_pos cfg) < int (P01_len cfg) - 1
              then Crc_CalculateCRC8 m (Some (drop (P01_crc_pos cfg + 1) d))
                     (of_nat (P01_len cfg - P01_crc_pos cfg - 1)) crc False
              else Some crc); g crc } = g (foldl (crc_upd CRC8_POLYNOMIAL) s
                (covered (P01_crc_pos cfg) (P01_crc_pos cfg + 1) (P01_len cfg) d) XOR 0xFF)"
    for m s and g :: "uint8 \<Rightarrow> uint8 ub"
    using arg_cong [OF P01_data_crc [OF refl refl b(1,3) d, of m s], of "\<lambda>x. Option.bind x g"]
    by simp
  show ?thesis unfolding P01_CalculateCrc_def Let_def P01_id_crc bind.bind_lunit data
    by (simp add: P01_crc_def)
qed

section \<open>Protected messages\<close>

lemma length_P01_body [simp]: "length (P01_body cfg c d) = length d"
  by (simp add: P01_body_def Let_def)

lemma length_P01_frame [simp]: "length (P01_frame cfg c d) = length d"
  by (simp add: P01_frame_def Let_def)

lemma P01_nibble_bound:
  assumes "P01_ok cfg" "P01_nibble_ok cfg" "p01_DataIDMode cfg = E2E_P01_DATAID_NIBBLE"
  shows "unat (p01_DataIDNibbleOffset cfg) div 8 < P01_len cfg"
proof -
  have "unat (p01_DataLength cfg) = P01_len cfg * 8"
    using assms(1) by (auto simp: P01_ok_def P01_CheckConfig_def split: if_splits)
  moreover have "unat (p01_DataIDNibbleOffset cfg) + 4 \<le> unat (p01_DataLength cfg)"
    using assms(2,3) by (simp add: P01_nibble_ok_def)
  ultimately show ?thesis by (intro less_mult_imp_div_less) linarith
qed

lemma nibble_of_id:
  "(ucast (drop_bit 8 x AND 0x0F :: uint16) :: uint8) = ucast (drop_bit 8 x) AND 0x0F"
  "(ucast (drop_bit 4 x AND 0xF0 :: uint16) :: uint8) = push_bit 4 (ucast (drop_bit 8 x)) AND 0xF0"
proof -
  have m: "(0x0F :: uint16) = mask 4" "(0xF0 :: uint16) = push_bit 4 (mask 4)"
    by (simp_all add: mask_eq_exp_minus_1)
  show "(ucast (drop_bit 8 x AND 0x0F :: uint16) :: uint8) = ucast (drop_bit 8 x) AND 0x0F"
    unfolding m mask_const
    by (rule bit_word_eqI) (auto simp: bit_and_iff bit_push_bit_iff bit_drop_bit_eq bit_mask_iff bit_unsigned_iff)
  show "(ucast (drop_bit 4 x AND 0xF0 :: uint16) :: uint8) = push_bit 4 (ucast (drop_bit 8 x)) AND 0xF0"
    unfolding m mask_const
    by (rule bit_word_eqI) (auto simp: bit_and_iff bit_push_bit_iff bit_drop_bit_eq bit_mask_iff bit_unsigned_iff)
qed

lemma P01_Protect_valid:
  assumes ok: "P01_ok cfg" "P01_nibble_ok cfg" and d: "P01_len cfg \<le> length d"
  shows "E2E_P01Protect (Some cfg) (Some st) (Some d) =
    Some (E2E_E_OK, Some (st\<lparr>p01p_Counter := E2E_UpdateCounter (p01p_Counter st)\<rparr>),
      Some (P01_frame cfg (p01p_Counter st) d))"
proof -
  note b = P01_ok_bounds [OF ok(1)]
  have i: "unat (p01_CounterOffset cfg) div 8 < length d" "P01_crc_pos cfg < length d" using b d by linarith+
  have j: "p01_DataIDMode cfg = E2E_P01_DATAID_NIBBLE \<Longrightarrow>
      unat (p01_DataIDNibbleOffset cfg) div 8 < length d" using P01_nibble_bound [OF ok] d by linarith
  have crc: "P01_CalculateCrc cfg (p01p_Counter st) (P01_body cfg (p01p_Counter st) d) =
      Some (P01_crc cfg (p01p_Counter st) (P01_body cfg (p01p_Counter st) d))"
    using d by (intro P01_CalculateCrc_eq ok) simp
  have cnt: "P01_WriteCounter cfg st d = Some (put_nib (unat (p01_CounterOffset cfg)) (p01p_Counter st) d)"
    using i by (simp add: P01_WriteCounter_def rd_Some wr_Some put_nib_def Let_def)
  have nib: "P01_WriteDataIDNibble cfg (put_nib (unat (p01_CounterOffset cfg)) (p01p_Counter st) d) =
      Some (P01_body cfg (p01p_Counter st) d)"
    using j by (simp add: P01_WriteDataIDNibble_def rd_Some wr_Some P01_body_def
      put_nib_def [of "unat (p01_DataIDNibbleOffset cfg)"] nibble_of_id Let_def)
  show ?thesis
    using ok(1) i crc cnt nib
    by (simp add: E2E_P01Protect_def P01_ok_def deref_def wr_Some P01_frame_def Let_def)
qed

lemma get_counter_frame:
  assumes ok: "P01_ok cfg" "P01_nibble_ok cfg" and d: "P01_len cfg \<le> length d"
  shows "get_nib (unat (p01_CounterOffset cfg)) (P01_frame cfg c d) = c AND 0x0F"
proof -
  note b = P01_ok_bounds [OF ok(1)]
  have i: "unat (p01_CounterOffset cfg) div 8 < length d" using b d by linarith
  have "get_nib (unat (p01_CounterOffset cfg)) (P01_body cfg c d) = c AND 0x0F"
    using ok(2) b(4) i
    by (auto simp: P01_body_def P01_nibble_ok_def Let_def get_put_nib_other word_unat_eq_iff)
  then show ?thesis using b(5) by (simp add: P01_frame_def Let_def get_nib_update)
qed

section \<open>The receiver\<close>

lemma P01_Check_new:
  assumes ok: "P01_ok cfg" "P01_nibble_ok cfg" and d: "P01_len cfg \<le> length d"
    and new: "p01c_NewDataAvailable st"
    and rc: "rc = get_nib (unat (p01_CounterOffset cfg)) d"
    and chk: "P01_IsCheckOfReceivedDataNotOk cfg (P01_tick st) rc (d ! P01_crc_pos cfg) (P01_crc cfg rc d)
      (if p01_DataIDMode cfg = E2E_P01_DATAID_NIBBLE
       then get_nib (unat (p01_DataIDNibbleOffset cfg)) d else 0) = (notOk, st')"
  shows "E2E_P01Check (Some cfg) (Some st) (Some d) =
    (if rc > 14 then Some (E2E_E_INPUTERR_WRONG, Some (P01_tick st))
     else Some (E2E_E_OK, Some (if notOk then st' else P01_DoChecks cfg st' rc)))"
proof -
  note b = P01_ok_bounds [OF ok(1)]
  have i: "unat (p01_CounterOffset cfg) div 8 < length d" "P01_crc_pos cfg < length d" using b d by linarith+
  have j: "p01_DataIDMode cfg = E2E_P01_DATAID_NIBBLE \<Longrightarrow>
      unat (p01_DataIDNibbleOffset cfg) div 8 < length d" using P01_nibble_bound [OF ok] d by linarith
  have r1: "P01_ReadCounter cfg d = Some rc"
    using i rc by (simp add: P01_ReadCounter_def rd_Some get_nib_def Let_def)
  have r2: "P01_ReadDataIDNibbleOffset cfg d = Some (if p01_DataIDMode cfg = E2E_P01_DATAID_NIBBLE
      then get_nib (unat (p01_DataIDNibbleOffset cfg)) d else 0)"
    using j by (simp add: P01_ReadDataIDNibbleOffset_def rd_Some get_nib_def Let_def)
  have n: "p01c_NewDataAvailable (P01_tick st)" using new by (simp add: P01_tick_def)
  show ?thesis
    unfolding E2E_P01Check_def Let_def
    using ok(1) i r1 r2 n chk P01_CalculateCrc_eq [OF ok(1) d]
    by (simp add: P01_ok_def deref_def rd_Some)
qed

lemma P01_crc_frame: "P01_crc cfg r (P01_frame cfg c d) = P01_crc cfg r (P01_body cfg c d)"
proof -
  have "covered k (k + 1) n (xs[k := y]) = covered k (k + 1) n xs" for k n and xs :: "uint8 list" and y
    by (simp add: covered_def drop_take)
  then show ?thesis by (simp add: P01_crc_def P01_frame_def Let_def)
qed

lemma P01_frame_crc_byte:
  "P01_ok cfg \<Longrightarrow> P01_len cfg \<le> length d \<Longrightarrow>
   P01_frame cfg c d ! P01_crc_pos cfg = P01_crc cfg c (P01_frame cfg c d)"
  using P01_ok_bounds(1) [of cfg] unfolding P01_crc_frame by (simp add: P01_frame_def Let_def)

lemma get_id_nibble_frame:
  assumes ok: "P01_ok cfg" "P01_nibble_ok cfg" and d: "P01_len cfg \<le> length d"
    and mode: "p01_DataIDMode cfg = E2E_P01_DATAID_NIBBLE"
  shows "ucast (get_nib (unat (p01_DataIDNibbleOffset cfg)) (P01_frame cfg c d)) = drop_bit 8 (p01_DataID cfg)"
proof -
  have j: "unat (p01_DataIDNibbleOffset cfg) div 8 < length d" using P01_nibble_bound [OF ok mode] d by linarith
  have k: "P01_crc_pos cfg \<noteq> unat (p01_DataIDNibbleOffset cfg) div 8"
    using ok(2) mode by (auto simp: P01_nibble_ok_def)
  have top: "drop_bit 12 (p01_DataID cfg) = 0"
    using ok(1) mode by (auto simp: P01_ok_def P01_CheckConfig_def split: if_splits)
  have "ucast (ucast (drop_bit 8 (p01_DataID cfg)) AND 0x0F :: uint8) = drop_bit 8 (p01_DataID cfg)"
  proof (rule bit_word_eqI)
    fix n assume "n < LENGTH(16)"
    have "\<not> bit (p01_DataID cfg) (8 + n)" if "4 \<le> n"
      using arg_cong [OF top, of "\<lambda>w. bit w (n - 4)"] that by (simp add: bit_drop_bit_eq)
    then show "bit (ucast (ucast (drop_bit 8 (p01_DataID cfg)) AND 0x0F :: uint8) :: uint16) n =
        bit (drop_bit 8 (p01_DataID cfg)) n"
      by (cases "4 \<le> n") (auto simp: bit_unsigned_iff bit_mask_byte bit_drop_bit_eq)
  qed
  then show ?thesis using j k mode by (simp add: P01_frame_def P01_body_def Let_def get_nib_update)
qed

lemma P01_Check_frame:
  assumes ok: "P01_ok cfg" "P01_nibble_ok cfg" and d: "P01_len cfg \<le> length d"
    and new: "p01c_NewDataAvailable st" and c: "c \<le> 14"
  shows "E2E_P01Check (Some cfg) (Some st) (Some (P01_frame cfg c d)) =
    Some (E2E_E_OK, Some (P01_accept cfg st c))"
proof -
  let ?m = "P01_frame cfg c d"
  have "c \<le> 15" using c by (rule order_trans) simp
  then have rc: "c = get_nib (unat (p01_CounterOffset cfg)) ?m"
    using get_counter_frame [OF ok d, of c] by (simp add: nibble_id)
  have w: "p01c_WaitForFirstData (P01_tick st) = p01c_WaitForFirstData st" by (simp add: P01_tick_def)
  have "P01_IsCheckOfReceivedDataNotOk cfg (P01_tick st) c (?m ! P01_crc_pos cfg) (P01_crc cfg c ?m)
      (if p01_DataIDMode cfg = E2E_P01_DATAID_NIBBLE
       then get_nib (unat (p01_DataIDNibbleOffset cfg)) ?m else 0) =
      P01_IsFirstDataSinceInitialisation cfg (P01_tick st) c"
    using P01_frame_crc_byte [OF ok(1) d, of c] get_id_nibble_frame [OF ok d, of c]
    by (simp add: P01_IsCheckOfReceivedDataNotOk_def P01_IsFirstDataSinceInitialisation_def)
  then show ?thesis
    using P01_Check_new [OF ok _ new rc] d c w
    by (cases "p01c_WaitForFirstData st") (simp_all add: P01_IsFirstDataSinceInitialisation_def P01_accept_def leD)
qed

lemma P01_delta:
  assumes "c \<le> 14" "r \<le> 14"
  shows "unat (P01_CalculateDeltaCounter c r) = (unat c + 15 - unat r) mod 15"
proof -
  have c: "unat c \<le> 14" and r: "unat r \<le> 14" using assms by (simp_all add: word_le_nat_alt)
  show ?thesis
  proof (cases "unat r \<le> unat c")
    case True
    have "unat (c - r) = unat c - unat r" using True by (intro unat_sub) (simp add: word_le_nat_alt)
    moreover have "(unat c + 15 - unat r) mod 15 = (unat c - unat r) mod 15"
      using True by (metis Nat.add_diff_assoc2 mod_add_self2)
    moreover have "(unat c - unat r) mod 15 = unat c - unat r" using c by (intro mod_less) linarith
    ultimately show ?thesis using True by (simp only: P01_CalculateDeltaCounter_def word_le_nat_alt if_True)
  next
    case False
    have "unat (15 + c) = (15 + unat c) mod 2 ^ 8" by (simp add: unat_word_ariths)
    also have "\<dots> = 15 + unat c" using c by (intro mod_less) simp
    finally have s: "unat (15 + c) = 15 + unat c" .
    have "unat (15 + c - r) = unat (15 + c) - unat r" using r s by (intro unat_sub) (simp add: word_le_nat_alt)
    moreover have "(unat c + 15 - unat r) mod 15 = unat c + 15 - unat r"
      using False by (intro mod_less) linarith
    moreover have "14 + 1 + c - r = 15 + c - r" by simp
    ultimately show ?thesis
      using False s by (simp only: P01_CalculateDeltaCounter_def word_le_nat_alt if_False add.commute)
  qed
qed

lemma P01_DoChecks_status:
  assumes "c \<le> 14" "p01c_LastValidCounter st \<le> 14"
  shows "p01c_Status (P01_DoChecks cfg (P01_tick st) c) = P01_judge cfg st c"
proof -
  let ?D = "P01_CalculateDeltaCounter c (p01c_LastValidCounter st)"
  have t: "p01c_LastValidCounter (P01_tick st) = p01c_LastValidCounter st"
    "p01c_NoNewOrRepeatedDataCounter (P01_tick st) = p01c_NoNewOrRepeatedDataCounter st"
    "p01c_SyncCounter (P01_tick st) = p01c_SyncCounter st"
    by (simp_all add: P01_tick_def)
  have z: "?D = 0 \<longleftrightarrow> unat ?D = 0" "?D = 1 \<longleftrightarrow> unat ?D = 1"
    "?D \<le> x \<longleftrightarrow> unat ?D \<le> unat x" for x
    by (simp_all add: word_unat_eq_iff word_le_nat_alt)
  show ?thesis
    unfolding P01_DoChecks_def P01_judge_def Let_def t z P01_delta [OF assms]
    by (simp add: t word_gt_0)
qed

lemma E2E_UpdateCounter_eq:
  "unat (E2E_UpdateCounter c) = (unat c + 1) mod 15"
  unfolding E2E_UpdateCounter_def by (rule unat_of_nat_small) (simp add: less_trans [of _ 15])

lemma E2E_UpdateCounter_le: "E2E_UpdateCounter c \<le> 14"
proof -
  have "(unat c + 1) mod 15 < 15" by simp
  then show ?thesis by (simp only: word_le_nat_alt E2E_UpdateCounter_eq) simp
qed

lemma P01_next:
  assumes "r \<le> 14"
  shows "(unat (E2E_UpdateCounter r) + 15 - unat r) mod 15 = 1"
proof -
  have "unat r \<le> 14" using assms by (simp add: word_le_nat_alt)
  then consider "unat r = 14" | "unat r + 1 < 15" by linarith
  then show ?thesis unfolding E2E_UpdateCounter_eq by cases simp_all
qed

lemma P01_accept_in_step:
  assumes "p01c_NewDataAvailable st" "p01c_SyncCounter st = 0" "p01c_NoNewOrRepeatedDataCounter st = 0"
    and "p01c_WaitForFirstData st \<or>
      p01c_LastValidCounter st \<le> 14 \<and> c = E2E_UpdateCounter (p01c_LastValidCounter st)"
    and "P01_accept cfg st c = st'"
  shows "(p01c_Status st' = E2E_P01STATUS_OK \<or> p01c_Status st' = E2E_P01STATUS_INITIAL) \<and>
    p01c_NewDataAvailable st' \<and> p01c_SyncCounter st' = 0 \<and> p01c_NoNewOrRepeatedDataCounter st' = 0 \<and>
    p01c_LastValidCounter st' = c"
proof (cases "p01c_WaitForFirstData st")
  case True
  then show ?thesis using assms by (auto simp: P01_accept_def P01_tick_def)
next
  case False
  with assms(4) have r: "p01c_LastValidCounter st \<le> 14" "c = E2E_UpdateCounter (p01c_LastValidCounter st)"
    by simp_all
  have t: "p01c_LastValidCounter (P01_tick st) = p01c_LastValidCounter st"
    "p01c_NoNewOrRepeatedDataCounter (P01_tick st) = p01c_NoNewOrRepeatedDataCounter st"
    "p01c_SyncCounter (P01_tick st) = p01c_SyncCounter st"
    "p01c_NewDataAvailable (P01_tick st) = p01c_NewDataAvailable st"
    by (simp_all add: P01_tick_def)
  have "P01_CalculateDeltaCounter c (p01c_LastValidCounter st) = 1"
    using P01_delta [OF E2E_UpdateCounter_le r(1), of "p01c_LastValidCounter st"] P01_next [OF r(1)]
    unfolding r(2) by (simp add: word_unat_eq_iff)
  then show ?thesis using assms(1-3,5) False t by (auto simp: P01_accept_def P01_DoChecks_def)
qed

section \<open>Corrupted messages\<close>

lemma P01_ids_same: "p01_DataIDMode cfg \<noteq> E2E_P01_DATAID_ALT \<Longrightarrow> P01_ids cfg c = P01_ids cfg c'"
  by (cases "p01_DataIDMode cfg") (simp_all add: P01_ids_def Let_def)

lemma P01_crc_change:
  assumes ok: "P01_ok cfg" and len: "P01_len cfg \<le> length (pre @ x # post)" "length pre < P01_len cfg"
    and crc: "(pre @ x # post) ! P01_crc_pos cfg = P01_crc cfg c (pre @ x # post)"
    and ids: "P01_ids cfg c' = P01_ids cfg c" and xy: "x \<noteq> y"
  shows "(pre @ y # post) ! P01_crc_pos cfg \<noteq> P01_crc cfg c' (pre @ y # post)"
proof -
  let ?k = "P01_crc_pos cfg" and ?n = "P01_len cfg"
  let ?c = "covered ?k (?k + 1) ?n"
  have k: "?k < ?n" using P01_ok_bounds [OF ok] by simp
  have fld: "field ?k (?k + 1) d = [d ! ?k]" if "P01_len cfg \<le> length d" for d :: "uint8 list"
    using k that by (simp add: field_def take_Suc_conv_app_nth)
  have burst: "burst_at ?k (?k + 1) ?n (length pre) (length [x])"
    using len(2) by (auto simp: burst_at_def)
  have fx: "field ?k (?k + 1) (pre @ z # post) = [(pre @ z # post) ! ?k]" for z
    using fld [of "pre @ z # post"] len(1) by simp
  have crc': "P01_crc cfg c' d = foldl (crc_upd CRC8_POLYNOMIAL) 0 (P01_ids cfg c @ ?c d)" for d
    by (simp add: P01_crc_def ids)
  show ?thesis
  proof (cases rule: burst_cases [OF burst le_add1, where cs = "[y]" and post = post, case_names len covered field])
    case (covered p q)
    have "foldl (crc_upd CRC8_POLYNOMIAL) 0 ((P01_ids cfg c @ p) @ [x] @ q) \<noteq>
        foldl (crc_upd CRC8_POLYNOMIAL) 0 ((P01_ids cfg c @ p) @ [y] @ q)"
      using xy by (intro p8.reg.burst_detected) simp_all
    then show ?thesis using covered crc fx [of x] fx [of y] by (simp add: crc') (simp add: P01_crc_def)
  next
    case field
    then show ?thesis using xy crc fx [of x] fx [of y] by (simp add: crc') (simp add: P01_crc_def)
  qed simp
qed

lemma get_nib_elsewhere: "length pre \<noteq> off div 8 \<Longrightarrow> get_nib off (pre @ x # post) = get_nib off (pre @ y # post)"
  by (simp add: get_nib_def nth_append nth_Cons' Let_def)

lemma P01_Check_corrupted:
  assumes ok: "P01_ok cfg" "P01_nibble_ok cfg" and d: "P01_len cfg \<le> length d" and c: "c \<le> 14"
    and m: "P01_frame cfg c d = pre @ x # post" and pos: "length pre < P01_len cfg" and xy: "x \<noteq> y"
    and alt: "p01_DataIDMode cfg = E2E_P01_DATAID_ALT \<Longrightarrow> length pre \<noteq> unat (p01_CounterOffset cfg) div 8"
    and rx: "p01c_NewDataAvailable st" "\<not> p01c_WaitForFirstData st"
  shows "E2E_P01Check (Some cfg) (Some st) (Some (pre @ y # post)) \<in>
    {Some (E2E_E_INPUTERR_WRONG, Some (P01_tick st)),
     Some (E2E_E_OK, Some ((P01_tick st)\<lparr>p01c_Status := E2E_P01STATUS_WRONGCRC\<rparr>))}"
proof -
  let ?m' = "pre @ y # post"
  define rc where "rc = get_nib (unat (p01_CounterOffset cfg)) ?m'"
  have len: "P01_len cfg \<le> length (pre @ x # post)" using d m length_P01_frame [of cfg c d] by simp
  have "c \<le> 15" using c by (rule order_trans) simp
  then have "c = get_nib (unat (p01_CounterOffset cfg)) (pre @ x # post)"
    using get_counter_frame [OF ok d, of c] m by (simp add: nibble_id)
  then have "P01_ids cfg rc = P01_ids cfg c"
    using P01_ids_same get_nib_elsewhere [of pre "unat (p01_CounterOffset cfg)" x post y] alt
    unfolding rc_def by metis
  then have bad: "?m' ! P01_crc_pos cfg \<noteq> P01_crc cfg rc ?m'"
    using P01_frame_crc_byte [OF ok(1) d, of c] unfolding m
    by (intro P01_crc_change [OF ok(1) len pos _ _ xy]) simp_all
  have w: "\<not> p01c_WaitForFirstData (P01_tick st)" using rx by (simp add: P01_tick_def)
  have "P01_len cfg \<le> length ?m'" using len by simp
  from P01_Check_new [OF ok this rx(1) rc_def] bad w show ?thesis
    by (simp add: P01_IsCheckOfReceivedDataNotOk_def P01_IsFirstDataSinceInitialisation_def)
qed

lemma P01_NotOk_first:
  "p01c_WaitForFirstData st \<Longrightarrow> P01_IsCheckOfReceivedDataNotOk cfg st c a b n =
   (True, st\<lparr>p01c_WaitForFirstData := False, p01c_MaxDeltaCounter := p01_MaxDeltaCounterInit cfg,
      p01c_LastValidCounter := c, p01c_Status := E2E_P01STATUS_INITIAL\<rparr>)"
  by (simp add: P01_IsCheckOfReceivedDataNotOk_def P01_IsFirstDataSinceInitialisation_def)

section \<open>Invariant\<close>

lemma P01_inv_DoChecks: "P01_inv st \<Longrightarrow> c \<le> 14 \<Longrightarrow> P01_inv (P01_DoChecks cfg st c)"
  by (auto simp: P01_inv_def P01_DoChecks_def Let_def inc_le)

lemma P01_inv_tick: "P01_inv st \<Longrightarrow> P01_inv (P01_tick st)"
  by (simp add: P01_inv_def P01_tick_def)

lemma P01_inv_NotOk:
  "P01_IsCheckOfReceivedDataNotOk cfg st c a b n = (x, st') \<Longrightarrow> P01_inv st \<Longrightarrow> c \<le> 14 \<Longrightarrow> P01_inv st'"
  by (auto split: if_splits simp: P01_inv_def P01_IsCheckOfReceivedDataNotOk_def P01_IsFirstDataSinceInitialisation_def Let_def)

lemma P01_inv_Check:
  assumes "P01_inv st" "E2E_P01Check cp (Some st) dp = Some (ret, Some st')"
  shows "P01_inv st'"
proof -
  have inc: "P01_inv (P01_tick st)" using assms(1) by (rule P01_inv_tick)
  show ?thesis
  proof (cases "p01c_NewDataAvailable (P01_tick st)")
    case True
    then show ?thesis
      using assms inc
      by (auto simp: E2E_P01Check_def Let_def deref_def Option.bind_eq_Some_conv not_less
        split: if_splits prod.split_asm) (metis P01_inv_NotOk P01_inv_DoChecks surj_pair)
  next
    case False
    then show ?thesis
      using assms inc
      by (auto simp: E2E_P01Check_def Let_def deref_def Option.bind_eq_Some_conv P01_inv_def inc_le split: if_splits)
  qed
qed

lemma P01_range_tick: "P01_range cfg st \<Longrightarrow> P01_range cfg (P01_tick st)"
  by (auto simp: P01_range_def P01_tick_def inc_le max_def)

lemma P01_delta_le:
  assumes "c \<le> 14" "r \<le> 14"
  shows "P01_CalculateDeltaCounter c r \<le> 14"
proof -
  have "unat (P01_CalculateDeltaCounter c r) < 15" unfolding P01_delta [OF assms] by simp
  then show ?thesis by (simp add: word_le_nat_alt)
qed

lemma dec_le: "(x :: uint8) \<noteq> 0 \<Longrightarrow> x \<le> m \<Longrightarrow> x - 1 \<le> m"
  by (simp add: word_le_nat_alt unat_minus_one)

lemma dec_less: "(x :: uint8) \<noteq> 0 \<Longrightarrow> x \<le> m \<Longrightarrow> x - 1 < m"
proof -
  assume x: "x \<noteq> 0" "x \<le> m"
  then have "0 < unat x" by (simp add: unat_gt_0)
  then show "x - 1 < m" using x by (simp add: word_le_nat_alt word_less_nat_alt unat_minus_one)
qed

lemma P01_range_DoChecks:
  assumes "P01_range cfg st" "P01_inv st" "c \<le> 14"
  shows "P01_range cfg (P01_DoChecks cfg st c)"
proof -
  have "P01_CalculateDeltaCounter c (p01c_LastValidCounter st) \<le> 14"
    using P01_delta_le assms(2,3) by (simp add: P01_inv_def)
  moreover have "max MAX_P01_COUNTER_VALUE (p01_MaxDeltaCounterInit cfg) \<ge> p01_MaxDeltaCounterInit cfg" by simp
  ultimately show ?thesis
    using assms(1) unfolding P01_range_def P01_DoChecks_def Let_def by (simp add: dec_le dec_less word_gt_0) auto
qed

lemma P01_range_NotOk:
  assumes "P01_IsCheckOfReceivedDataNotOk cfg st c a b n = (x, st')" "P01_range cfg st"
  shows "P01_range cfg st'"
proof -
  have "P01_range cfg (snd (P01_IsCheckOfReceivedDataNotOk cfg st c a b n))"
    using assms(2)
    by (simp add: P01_range_def P01_IsCheckOfReceivedDataNotOk_def P01_IsFirstDataSinceInitialisation_def)
  then show ?thesis using assms(1) by simp
qed

lemma P01_Check_cases:
  assumes "E2E_P01Check (Some cfg) (Some st) dp = Some (ret, Some st')"
  shows "st' = st \<or> st' = P01_tick st \<or> st' = (P01_tick st)\<lparr>p01c_Status := E2E_P01STATUS_NONEWDATA\<rparr> \<or>
    (\<exists>k. st' = (P01_tick st)\<lparr>p01c_NoNewOrRepeatedDataCounter := k, p01c_Status := E2E_P01STATUS_NONEWDATA\<rparr>) \<or>
    (\<exists>c a b n x st1. c \<le> 14 \<and> P01_IsCheckOfReceivedDataNotOk cfg (P01_tick st) c a b n = (x, st1) \<and>
       (st' = st1 \<or> st' = P01_DoChecks cfg st1 c))"
proof (cases "p01c_NewDataAvailable (P01_tick st) \<and> P01_CheckConfig (Some cfg) = E2E_E_OK \<and> dp \<noteq> None")
  case False
  then show ?thesis using assms by (auto simp: E2E_P01Check_def Let_def deref_def split: if_splits)
next
  case True
  then obtain d where d: "dp = Some d" by auto
  obtain c where c: "P01_ReadCounter cfg d = Some c"
    using assms True d by (auto simp: E2E_P01Check_def Let_def deref_def Option.bind_eq_Some_conv)
  show ?thesis
  proof (cases "14 < c")
    case True
    then show ?thesis using assms \<open>_ \<and> _\<close> d c by (simp add: E2E_P01Check_def Let_def deref_def)
  next
    case False
    obtain a n b where abn: "rd d (unat (p01_CRCOffset cfg) div 8) = Some a"
      "P01_ReadDataIDNibbleOffset cfg d = Some n" "P01_CalculateCrc cfg c d = Some b"
      using assms True d c False by (auto simp: E2E_P01Check_def Let_def deref_def Option.bind_eq_Some_conv)
    obtain x st1 where 1: "P01_IsCheckOfReceivedDataNotOk cfg (P01_tick st) c a b n = (x, st1)" by fastforce
    have "st' = (if x then st1 else P01_DoChecks cfg st1 c)"
      using assms True d c False abn 1 by (simp add: E2E_P01Check_def Let_def deref_def split: if_splits)
    then have "c \<le> 14 \<and> P01_IsCheckOfReceivedDataNotOk cfg (P01_tick st) c a b n = (x, st1) \<and>
        (st' = st1 \<or> st' = P01_DoChecks cfg st1 c)"
      using 1 False by (simp add: not_less)
    then show ?thesis by blast
  qed
qed

lemma P01_range_Check:
  assumes "P01_range cfg st" "P01_inv st" "E2E_P01Check (Some cfg) (Some st) dp = Some (ret, Some st')"
  shows "P01_range cfg st'"
proof -
  have tick: "P01_range cfg (P01_tick st)" "P01_inv (P01_tick st)"
    using assms(1,2) by (simp_all add: P01_range_tick P01_inv_tick)
  from P01_Check_cases [OF assms(3)] show ?thesis
  proof (elim disjE exE conjE)
    fix c a b n x st1
    assume c: "c \<le> 14" and 1: "P01_IsCheckOfReceivedDataNotOk cfg (P01_tick st) c a b n = (x, st1)"
    note st1 = P01_range_NotOk [OF 1 tick(1)] P01_inv_NotOk [OF 1 tick(2) c]
    show "P01_range cfg st'" if "st' = st1" using that st1(1) by simp
    show "P01_range cfg st'" if "st' = P01_DoChecks cfg st1 c" using that P01_range_DoChecks [OF st1 c] by simp
  qed (use assms(1) tick(1) in \<open>simp_all add: P01_range_def\<close>)
qed

section \<open>Properties\<close>

lemma P01_example_ok: "P01_ok P01_example" "P01_nibble_ok P01_example" "P01_len P01_example = 4"
  by (simp_all add: P01_example_def P01_ok_def P01_CheckConfig_def P01_nibble_ok_def)

text \<open>
  C15: A profile 1 receiver that waits for its first message accepts an intact one as INITIAL, and
  an initialised one judges it by the number of messages since the last valid one, modulo 15: the
  sender's call succeeds, advances its counter modulo 15, keeps the length of the message, and the
  receiver reports REPEATED, OK, OKSOMELOST, SYNC or WRONGSEQUENCE accordingly.
\<close>

theorem p01_roundtrip:
  assumes "P01_ok cfg" "P01_nibble_ok cfg" "P01_len cfg \<le> length d"
    and "p01p_Counter tx \<le> 14" "p01c_NewDataAvailable rx" "p01c_LastValidCounter rx \<le> 14"
  shows "\<exists>m rx'. E2E_P01Protect (Some cfg) (Some tx) (Some d) =
      Some (E2E_E_OK, Some (tx\<lparr>p01p_Counter := E2E_UpdateCounter (p01p_Counter tx)\<rparr>), Some m) \<and>
    length m = length d \<and>
    E2E_P01Check (Some cfg) (Some rx) (Some m) = Some (E2E_E_OK, Some rx') \<and>
    p01c_Status rx' = (if p01c_WaitForFirstData rx then E2E_P01STATUS_INITIAL
      else P01_judge cfg rx (p01p_Counter tx))"
proof (intro exI conjI)
  show "E2E_P01Protect (Some cfg) (Some tx) (Some d) =
      Some (E2E_E_OK, Some (tx\<lparr>p01p_Counter := E2E_UpdateCounter (p01p_Counter tx)\<rparr>),
        Some (P01_frame cfg (p01p_Counter tx) d))"
    using assms(1-3) by (rule P01_Protect_valid)
  show "E2E_P01Check (Some cfg) (Some rx) (Some (P01_frame cfg (p01p_Counter tx) d)) = Some (E2E_E_OK,
      Some (P01_accept cfg rx (p01p_Counter tx)))"
    using assms by (simp add: P01_Check_frame)
qed (use assms in \<open>simp_all add: P01_accept_def P01_DoChecks_status\<close>)

theorem p01_roundtrip_witness:
  "\<exists>m rx'. E2E_P01Protect (Some P01_example) (Some \<lparr>p01p_Counter = 5\<rparr>) (Some [0, 0, 7, 7]) =
      Some (E2E_E_OK, Some \<lparr>p01p_Counter = 6\<rparr>, Some m) \<and>
    E2E_P01Check (Some P01_example) (Some P01_example_rx) (Some m) = Some (E2E_E_OK, Some rx') \<and>
    p01c_Status rx' = E2E_P01STATUS_OK"
proof -
  have "E2E_UpdateCounter 5 = 6" by (simp add: E2E_UpdateCounter_def)
  moreover have "P01_judge P01_example P01_example_rx 5 = E2E_P01STATUS_OK"
    by (simp add: P01_judge_def P01_example_def P01_example_rx_def)
  moreover have "p01c_NewDataAvailable P01_example_rx" "p01c_LastValidCounter P01_example_rx \<le> 14"
    "\<not> p01c_WaitForFirstData P01_example_rx"
    by (simp_all add: P01_example_rx_def)
  ultimately show ?thesis
    using p01_roundtrip [OF P01_example_ok(1,2), of "[0, 0, 7, 7]" "\<lparr>p01p_Counter = 5\<rparr>" P01_example_rx]
      P01_example_ok(3) by auto
qed

text \<open>
  C16: A profile 1 receiver with new data that no longer waits for its first message notices every change of one byte of a protected message
  (in the alternating data ID mode, of every byte but the counter's): it reports WRONGCRC, or refuses
  the message because its counter is out of range, and keeps its last valid counter.
\<close>

theorem p01_corruption_detected:
  assumes "P01_ok cfg" "P01_nibble_ok cfg" "P01_len cfg \<le> length d" "p01p_Counter tx \<le> 14"
    and "E2E_P01Protect (Some cfg) (Some tx) (Some d) = Some (E2E_E_OK, tx', Some (pre @ x # post))"
    and "length pre < P01_len cfg" "x \<noteq> y"
    and "p01_DataIDMode cfg = E2E_P01_DATAID_ALT \<Longrightarrow> length pre \<noteq> unat (p01_CounterOffset cfg) div 8"
    and "p01c_NewDataAvailable rx" "\<not> p01c_WaitForFirstData rx"
  shows "\<exists>ret rx'. E2E_P01Check (Some cfg) (Some rx) (Some (pre @ y # post)) = Some (ret, Some rx') \<and>
    (ret = E2E_E_INPUTERR_WRONG \<or> ret = E2E_E_OK \<and> p01c_Status rx' = E2E_P01STATUS_WRONGCRC) \<and>
    p01c_LastValidCounter rx' = p01c_LastValidCounter rx"
proof -
  have m: "P01_frame cfg (p01p_Counter tx) d = pre @ x # post"
    using assms(5) P01_Protect_valid [OF assms(1-3), of tx] by simp
  have t: "p01c_LastValidCounter (P01_tick rx) = p01c_LastValidCounter rx" by (simp add: P01_tick_def)
  from P01_Check_corrupted [OF assms(1-4) m assms(6-10)] t show ?thesis by auto
qed

theorem p01_corruption_detected_witness:
  "\<exists>m ret rx'. E2E_P01Protect (Some P01_example) (Some \<lparr>p01p_Counter = 5\<rparr>) (Some [0, 0, 7, 7]) =
      Some (E2E_E_OK, Some \<lparr>p01p_Counter = 6\<rparr>, Some m) \<and>
    E2E_P01Check (Some P01_example) (Some P01_example_rx) (Some (take 2 m @ (m ! 2 XOR 1) # drop 3 m)) =
      Some (ret, Some rx') \<and>
    (ret = E2E_E_INPUTERR_WRONG \<or> ret = E2E_E_OK \<and> p01c_Status rx' = E2E_P01STATUS_WRONGCRC)"
proof -
  let ?m = "P01_frame P01_example 5 [0, 0, 7, 7]"
  have u: "E2E_UpdateCounter 5 = 6" by (simp add: E2E_UpdateCounter_def)
  have p: "E2E_P01Protect (Some P01_example) (Some \<lparr>p01p_Counter = 5\<rparr>) (Some [0, 0, 7, 7]) =
      Some (E2E_E_OK, Some \<lparr>p01p_Counter = 6\<rparr>, Some ?m)"
    using P01_Protect_valid [OF P01_example_ok(1,2), of "[0, 0, 7, 7]" "\<lparr>p01p_Counter = 5\<rparr>"]
      P01_example_ok(3) u by simp
  have "?m = take 2 ?m @ ?m ! 2 # drop 3 ?m" using id_take_nth_drop [of 2 ?m] by (simp add: numeral_3_eq_3)
  then show ?thesis
    using p01_corruption_detected [OF P01_example_ok(1,2), of "[0, 0, 7, 7]" "\<lparr>p01p_Counter = 5\<rparr>"
        "Some \<lparr>p01p_Counter = 6\<rparr>" "take 2 ?m" "?m ! 2" "drop 3 ?m" "?m ! 2 XOR 1" P01_example_rx]
      p P01_example_ok(3)
    by (intro exI [of _ ?m]) (auto simp: P01_example_def P01_example_rx_def)
qed

text \<open>
  C20: The counters of a profile 1 receiver stay in their range. Whatever configuration and data a
  check is called with, the last valid counter and the counter of missing or repeated data are at
  most 14 afterwards if they were before. If the receiver is always checked with the same configuration,
  the tolerated delta stays at most the larger of 14 and its configured start value, the counter
  of synchronising messages stays at most its configured start value, and fewer than 14 lost messages are
  reported. The initial state is in all of these ranges, for every configuration.
\<close>

theorem p01_check_invariant:
  "(\<forall>st st' cfg. E2E_P01CheckInit (Some st) = (E2E_E_OK, Some st') \<longrightarrow> P01_inv st' \<and> P01_range cfg st') \<and>
   (\<forall>st cp dp ret st'. P01_inv st \<longrightarrow> E2E_P01Check cp (Some st) dp = Some (ret, Some st') \<longrightarrow> P01_inv st') \<and>
   (\<forall>st cfg dp ret st'. P01_inv st \<longrightarrow> P01_range cfg st \<longrightarrow>
      E2E_P01Check (Some cfg) (Some st) dp = Some (ret, Some st') \<longrightarrow> P01_range cfg st')"
proof (intro conjI allI impI)
  show "P01_inv st'" "P01_range cfg st'" if "E2E_P01CheckInit (Some st) = (E2E_E_OK, Some st')" for st st' cfg
    using that by (auto simp: E2E_P01CheckInit_def P01_inv_def P01_range_def)
qed (rule P01_inv_Check P01_range_Check; assumption)+

theorem p01_check_invariant_witness:
  "\<exists>st st'. E2E_P01CheckInit (Some P01_example_rx) = (E2E_E_OK, Some st) \<and>
     E2E_P01Check (Some P01_example) (Some st) (Some [0, 0, 7, 7]) = Some (E2E_E_OK, Some st') \<and>
     P01_inv st' \<and> P01_range P01_example st'"
proof -
  note init = p01_check_invariant [THEN conjunct1, rule_format, of P01_example_rx]
    and check = p01_check_invariant [THEN conjunct2, THEN conjunct1, rule_format]
    and range = p01_check_invariant [THEN conjunct2, THEN conjunct2, rule_format]
  obtain st where st: "E2E_P01CheckInit (Some P01_example_rx) = (E2E_E_OK, Some st)" "\<not> p01c_NewDataAvailable st"
    by (simp add: E2E_P01CheckInit_def)
  then have "\<not> p01c_NewDataAvailable (P01_tick st)" by (simp add: P01_tick_def)
  then obtain st' where st': "E2E_P01Check (Some P01_example) (Some st) (Some [0, 0, 7, 7]) = Some (E2E_E_OK, Some st')"
    using P01_example_ok(1) by (simp add: E2E_P01Check_def P01_ok_def deref_def Let_def)
  then show ?thesis using st(1) init [OF st(1)] check [OF _ st'] range [OF _ _ st'] by blast
qed

text \<open>
  The first message after initialisation is not checked: a profile 1 receiver that waits for its
  first message reports INITIAL and adopts the counter it reads, for any data whose counter is in
  range, even where the CRC byte is wrong and the check of the received data
  has just reported WRONGCRC.
\<close>

theorem p01_first_message_unchecked:
  assumes "P01_ok cfg" "P01_nibble_ok cfg" "P01_len cfg \<le> length d"
    and "p01c_NewDataAvailable rx" "p01c_WaitForFirstData rx"
    and "get_nib (unat (p01_CounterOffset cfg)) d \<le> 14"
  shows "\<exists>rx'. E2E_P01Check (Some cfg) (Some rx) (Some d) = Some (E2E_E_OK, Some rx') \<and>
    p01c_Status rx' = E2E_P01STATUS_INITIAL \<and> \<not> p01c_WaitForFirstData rx' \<and>
    p01c_LastValidCounter rx' = get_nib (unat (p01_CounterOffset cfg)) d"
proof -
  have w: "p01c_WaitForFirstData (P01_tick rx)" using assms(5) by (simp add: P01_tick_def)
  show ?thesis
    using P01_Check_new [OF assms(1-4) refl P01_NotOk_first [OF w]] assms(6) by (simp add: leD)
qed

theorem p01_first_message_unchecked_witness:
  "\<exists>rx'. E2E_P01Check (Some P01_example) (Some (P01_example_rx\<lparr>p01c_WaitForFirstData := True\<rparr>))
      (Some [0, 0x13, 7, 7]) = Some (E2E_E_OK, Some rx') \<and>
    p01c_Status rx' = E2E_P01STATUS_INITIAL \<and> \<not> p01c_WaitForFirstData rx' \<and>
    p01c_LastValidCounter rx' = 3"
  using p01_first_message_unchecked [OF P01_example_ok(1,2), of "[0, 0x13, 7, 7]"
      "P01_example_rx\<lparr>p01c_WaitForFirstData := True\<rparr>"] P01_example_ok(3)
  by (simp add: P01_example_def P01_example_rx_def get_nib_def)

section \<open>The protected link\<close>

text \<open>
  In step: the sender's counter follows the receiver's last valid one (or the receiver waits for
  its first message), and the receiver is not resynchronising. Each message is flagged as new.
\<close>

interpretation p01_link: e2e_link
  "\<lambda>tx d. sent (E2E_P01Protect (Some cfg) (Some tx) (Some d))"
  "\<lambda>rx d. received (E2E_P01Check (Some cfg) (Some rx) (Some d))"
  "\<lambda>d. P01_ok cfg \<and> P01_nibble_ok cfg \<and> P01_len cfg \<le> length d"
  "\<lambda>tx rx. p01p_Counter tx \<le> 14 \<and> p01c_NewDataAvailable rx \<and> p01c_SyncCounter rx = 0 \<and>
     p01c_NoNewOrRepeatedDataCounter rx = 0 \<and>
     (p01c_WaitForFirstData rx \<or>
      p01c_LastValidCounter rx \<le> 14 \<and> p01p_Counter tx = E2E_UpdateCounter (p01c_LastValidCounter rx))"
  "\<lambda>rx. p01c_Status rx = E2E_P01STATUS_OK \<or> p01c_Status rx = E2E_P01STATUS_INITIAL"
  for cfg :: E2E_P01ConfigType
proof
  fix d :: "uint8 list" and tx :: E2E_P01ProtectStateType and rx :: E2E_P01CheckStateType
  let ?c = "p01p_Counter tx"
  assume msg: "P01_ok cfg \<and> P01_nibble_ok cfg \<and> P01_len cfg \<le> length d"
    and step: "?c \<le> 14 \<and> p01c_NewDataAvailable rx \<and> p01c_SyncCounter rx = 0 \<and>
      p01c_NoNewOrRepeatedDataCounter rx = 0 \<and> (p01c_WaitForFirstData rx \<or>
      p01c_LastValidCounter rx \<le> 14 \<and> ?c = E2E_UpdateCounter (p01c_LastValidCounter rx))"
  have acc: "P01_accept cfg rx ?c = rx1 \<Longrightarrow> (p01c_Status rx1 = E2E_P01STATUS_OK \<or> p01c_Status rx1 = E2E_P01STATUS_INITIAL) \<and>
      p01c_NewDataAvailable rx1 \<and> p01c_SyncCounter rx1 = 0 \<and> p01c_NoNewOrRepeatedDataCounter rx1 = 0 \<and>
      p01c_LastValidCounter rx1 = ?c" for rx1
    using step P01_accept_in_step by blast
  then show "\<exists>tx' d' rx'. sent (E2E_P01Protect (Some cfg) (Some tx) (Some d)) = Some (tx', d') \<and>
      received (E2E_P01Check (Some cfg) (Some rx) (Some d')) = Some rx' \<and>
      (p01c_Status rx' = E2E_P01STATUS_OK \<or> p01c_Status rx' = E2E_P01STATUS_INITIAL) \<and>
      p01p_Counter tx' \<le> 14 \<and> p01c_NewDataAvailable rx' \<and> p01c_SyncCounter rx' = 0 \<and>
      p01c_NoNewOrRepeatedDataCounter rx' = 0 \<and> (p01c_WaitForFirstData rx' \<or>
      p01c_LastValidCounter rx' \<le> 14 \<and> p01p_Counter tx' = E2E_UpdateCounter (p01c_LastValidCounter rx'))"
    using msg step acc [OF refl] by (simp add: P01_Protect_valid P01_Check_frame E2E_UpdateCounter_le)
qed

end
