(* ===== verification/E2E_P02.thy ===== *)
theory E2E_P02
  imports E2E
begin

text \<open>
  End-to-end profile 2, \<^verbatim>\<open>core/system/E2E/E2E_P02.c\<close> and \<^verbatim>\<open>E2E_P02.h\<close>: a
  CRC-8/H2F in the first byte of the message, a 4-bit counter modulo 16 in the low nibble of the
  second, and a list of sixteen data IDs of which the counter selects the one that enters the CRC
  behind the message.

  The operations stand in the order of the source, the static ones with the prefix \<open>P02\<close>. The
  array of data IDs is a list, read with a bounds check. The lemmas show the same facts as for
  profile 1; here the CRC is checked before the first message is accepted.
\<close>

section \<open>Definitions\<close>

datatype E2E_P02CheckStatusType =
    E2E_P02STATUS_OK
  | E2E_P02STATUS_NONEWDATA
  | E2E_P02STATUS_WRONGCRC
  | E2E_P02STATUS_SYNC
  | E2E_P02STATUS_INITIAL
  | E2E_P02STATUS_REPEATED
  | E2E_P02STATUS_OKSOMELOST
  | E2E_P02STATUS_WRONGSEQUENCE

record E2E_P02ConfigType =
  p02_DataLength :: uint16
  p02_DataIDList :: "uint8 list"
  p02_MaxDeltaCounterInit :: uint8
  p02_MaxNoNewOrRepeatedData :: uint8
  p02_SyncCounterInit :: uint8
  p02_Offset :: uint16

record E2E_P02ProtectStateType =
  p02p_Counter :: uint8

record E2E_P02CheckStateType =
  p02c_LastValidCounter :: uint8
  p02c_MaxDeltaCounter :: uint8
  p02c_WaitForFirstData :: bool
  p02c_NewDataAvailable :: bool
  p02c_LostData :: uint8
  p02c_Status :: E2E_P02CheckStatusType
  p02c_SyncCounter :: uint8
  p02c_NoNewOrRepeatedDataCounter :: uint8

abbreviation (input) MAX_P02_COUNTER_VALUE :: uint8 where "MAX_P02_COUNTER_VALUE \<equiv> 15"
abbreviation (input) MAX_P02_DATA_LENGTH_IN_BITS :: nat where "MAX_P02_DATA_LENGTH_IN_BITS \<equiv> 2048"
abbreviation (input) MIN_P02_DATA_LENGTH_IN_BITS :: nat where "MIN_P02_DATA_LENGTH_IN_BITS \<equiv> 16"

definition P02_CalculateDeltaCounter :: "uint8 \<Rightarrow> uint8 \<Rightarrow> uint8" where
  "P02_CalculateDeltaCounter receivedCounter lastValidCounter =
     (if receivedCounter \<ge> lastValidCounter then receivedCounter - lastValidCounter
      else MAX_P02_COUNTER_VALUE + 1 + receivedCounter - lastValidCounter)"

definition P02_CheckConfig :: "E2E_P02ConfigType ptr \<Rightarrow> E2E_ReturnType" where
  "P02_CheckConfig Config =
     (case Config of None \<Rightarrow> E2E_E_INPUTERR_NULL
      | Some cfg \<Rightarrow>
          if unat (p02_DataLength cfg) mod 8 \<noteq> 0 \<or> unat (p02_DataLength cfg) < MIN_P02_DATA_LENGTH_IN_BITS \<or>
             unat (p02_DataLength cfg) > MAX_P02_DATA_LENGTH_IN_BITS
          then E2E_E_INPUTERR_WRONG
          else if unat (p02_Offset cfg) > MAX_P02_DATA_LENGTH_IN_BITS - MIN_P02_DATA_LENGTH_IN_BITS
          then E2E_E_INPUTERR_WRONG
          else E2E_E_OK)"

text \<open>The CRC computation that protect and check share word for word.\<close>

definition P02_ComputeCRC :: "E2E_P02ConfigType \<Rightarrow> uint8 list \<Rightarrow> uint8 \<Rightarrow> uint8 ub" where
  "P02_ComputeCRC cfg d dataId =
     do { crc \<leftarrow> Crc_CalculateCRC8H2F CRC_8H2F_MODE (Some (drop 1 d))
                  (of_nat (unat (p02_DataLength cfg) div 8 - 1)) 0x00 True;
          Crc_CalculateCRC8H2F CRC_8H2F_MODE (Some [dataId]) 1 crc False }"

definition E2E_P02Protect ::
  "E2E_P02ConfigType ptr \<Rightarrow> E2E_P02ProtectStateType ptr \<Rightarrow> uint8 list ptr \<Rightarrow>
   (E2E_ReturnType \<times> E2E_P02ProtectStateType ptr \<times> uint8 list ptr) ub" where
  "E2E_P02Protect ConfigPtr StatePtr DataPtr =
     (let returnValue = P02_CheckConfig ConfigPtr in
      if returnValue \<noteq> E2E_E_OK then Some (returnValue, StatePtr, DataPtr)
      else if StatePtr = None \<or> DataPtr = None then Some (E2E_E_INPUTERR_NULL, StatePtr, DataPtr)
      else do {
        cfg \<leftarrow> deref ConfigPtr; st \<leftarrow> deref StatePtr; d \<leftarrow> deref DataPtr;
        let st = st\<lparr>p02p_Counter := of_nat ((unat (p02p_Counter st) + 1) mod (unat MAX_P02_COUNTER_VALUE + 1))\<rparr>;
        x \<leftarrow> rd d 1;
        d \<leftarrow> wr d 1 ((x AND 0xF0) OR (p02p_Counter st AND 0x0F));
        dataId \<leftarrow> rd (p02_DataIDList cfg) (unat (p02p_Counter st));
        crc \<leftarrow> P02_ComputeCRC cfg d dataId;
        d \<leftarrow> wr d 0 crc;
        Some (E2E_E_OK, Some st, Some d) })"

text \<open>The returned boolean, and the state it leaves.\<close>

definition P02_IsFirstDataSinceInitialisation ::
  "E2E_P02ConfigType \<Rightarrow> E2E_P02CheckStateType \<Rightarrow> uint8 \<Rightarrow> bool \<times> E2E_P02CheckStateType" where
  "P02_IsFirstDataSinceInitialisation cfg st receivedCounter =
     (if p02c_WaitForFirstData st
      then (True, st\<lparr>p02c_WaitForFirstData := False,
              p02c_MaxDeltaCounter := p02_MaxDeltaCounterInit cfg,
              p02c_LastValidCounter := receivedCounter,
              p02c_Status := E2E_P02STATUS_INITIAL\<rparr>)
      else (False, st))"

definition P02_DoChecks ::
  "E2E_P02ConfigType \<Rightarrow> E2E_P02CheckStateType \<Rightarrow> uint8 \<Rightarrow> E2E_P02CheckStateType" where
  "P02_DoChecks cfg st receivedCounter =
     (let delta = P02_CalculateDeltaCounter receivedCounter (p02c_LastValidCounter st) in
      if delta = 0 then
        (let st = (if p02c_NoNewOrRepeatedDataCounter st < MAX_P02_COUNTER_VALUE
                   then st\<lparr>p02c_NoNewOrRepeatedDataCounter := p02c_NoNewOrRepeatedDataCounter st + 1\<rparr>
                   else st)
         in st\<lparr>p02c_Status := E2E_P02STATUS_REPEATED\<rparr>)
      else if delta = 1 then
        (let st = st\<lparr>p02c_MaxDeltaCounter := p02_MaxDeltaCounterInit cfg,
                     p02c_LastValidCounter := receivedCounter, p02c_LostData := 0\<rparr>
         in if p02c_NoNewOrRepeatedDataCounter st \<le> p02_MaxNoNewOrRepeatedData cfg
            then (let st = st\<lparr>p02c_NoNewOrRepeatedDataCounter := 0\<rparr> in
                  if p02c_SyncCounter st > 0
                  then st\<lparr>p02c_SyncCounter := p02c_SyncCounter st - 1, p02c_Status := E2E_P02STATUS_SYNC\<rparr>
                  else st\<lparr>p02c_Status := E2E_P02STATUS_OK\<rparr>)
            else st\<lparr>p02c_NoNewOrRepeatedDataCounter := 0,
                    p02c_SyncCounter := p02_SyncCounterInit cfg,
                    p02c_Status := E2E_P02STATUS_SYNC\<rparr>)
      else if delta > p02c_MaxDeltaCounter st then
        (let st = st\<lparr>p02c_NoNewOrRepeatedDataCounter := 0, p02c_SyncCounter := p02_SyncCounterInit cfg\<rparr>;
             st = (if p02c_SyncCounter st > 0
                   then st\<lparr>p02c_MaxDeltaCounter := p02_MaxDeltaCounterInit cfg,
                           p02c_LastValidCounter := receivedCounter\<rparr>
                   else st)
         in st\<lparr>p02c_Status := E2E_P02STATUS_WRONGSEQUENCE\<rparr>)
      else
        (let st = st\<lparr>p02c_MaxDeltaCounter := p02_MaxDeltaCounterInit cfg,
                     p02c_LastValidCounter := receivedCounter, p02c_LostData := delta - 1\<rparr>
         in if p02c_NoNewOrRepeatedDataCounter st \<le> p02_MaxNoNewOrRepeatedData cfg
            then (let st = st\<lparr>p02c_NoNewOrRepeatedDataCounter := 0\<rparr> in
                  if p02c_SyncCounter st > 0
                  then st\<lparr>p02c_SyncCounter := p02c_SyncCounter st - 1, p02c_Status := E2E_P02STATUS_SYNC\<rparr>
                  else st\<lparr>p02c_Status := E2E_P02STATUS_OKSOMELOST\<rparr>)
            else st\<lparr>p02c_NoNewOrRepeatedDataCounter := 0,
                    p02c_SyncCounter := p02_SyncCounterInit cfg,
                    p02c_Status := E2E_P02STATUS_SYNC\<rparr>))"

text \<open>The allowed counter distance grows with every call of \<^verbatim>\<open>E2E_P02Check\<close>.\<close>

definition P02_tick :: "E2E_P02CheckStateType \<Rightarrow> E2E_P02CheckStateType" where
  "P02_tick st = (if p02c_MaxDeltaCounter st < MAX_P02_COUNTER_VALUE
     then st\<lparr>p02c_MaxDeltaCounter := p02c_MaxDeltaCounter st + 1\<rparr> else st)"

definition E2E_P02Check ::
  "E2E_P02ConfigType ptr \<Rightarrow> E2E_P02CheckStateType ptr \<Rightarrow> uint8 list ptr \<Rightarrow>
   (E2E_ReturnType \<times> E2E_P02CheckStateType ptr) ub" where
  "E2E_P02Check ConfigPtr StatePtr DataPtr =
     (let returnValue = P02_CheckConfig ConfigPtr in
      if returnValue \<noteq> E2E_E_OK then Some (returnValue, StatePtr)
      else if StatePtr = None \<or> DataPtr = None then Some (E2E_E_INPUTERR_NULL, StatePtr)
      else do {
        cfg \<leftarrow> deref ConfigPtr; st \<leftarrow> deref StatePtr; d \<leftarrow> deref DataPtr;
        let st = P02_tick st;
        if \<not> p02c_NewDataAvailable st then
          (let st = (if p02c_NoNewOrRepeatedDataCounter st < MAX_P02_COUNTER_VALUE
                     then st\<lparr>p02c_NoNewOrRepeatedDataCounter := p02c_NoNewOrRepeatedDataCounter st + 1\<rparr>
                     else st)
           in Some (E2E_E_OK, Some (st\<lparr>p02c_Status := E2E_P02STATUS_NONEWDATA\<rparr>)))
        else do {
          x \<leftarrow> rd d 1;
          let receivedCounter = x AND 0x0F;
          dataId \<leftarrow> rd (p02_DataIDList cfg) (unat receivedCounter);
          crc \<leftarrow> P02_ComputeCRC cfg d dataId;
          receivedCrc \<leftarrow> rd d 0;
          if crc \<noteq> receivedCrc then Some (E2E_E_OK, Some (st\<lparr>p02c_Status := E2E_P02STATUS_WRONGCRC\<rparr>))
          else
            (let (first, st) = P02_IsFirstDataSinceInitialisation cfg st receivedCounter in
             if first then Some (E2E_E_OK, Some st)
             else Some (E2E_E_OK, Some (P02_DoChecks cfg st receivedCounter))) } })"

definition E2E_P02ProtectInit ::
  "E2E_P02ProtectStateType ptr \<Rightarrow> E2E_ReturnType \<times> E2E_P02ProtectStateType ptr" where
  "E2E_P02ProtectInit StatePtr =
     (case StatePtr of None \<Rightarrow> (E2E_E_INPUTERR_NULL, None)
      | Some st \<Rightarrow> (E2E_E_OK, Some (st\<lparr>p02p_Counter := 0\<rparr>)))"

definition E2E_P02CheckInit ::
  "E2E_P02CheckStateType ptr \<Rightarrow> E2E_ReturnType \<times> E2E_P02CheckStateType ptr" where
  "E2E_P02CheckInit StatePtr =
     (case StatePtr of None \<Rightarrow> (E2E_E_INPUTERR_NULL, None)
      | Some st \<Rightarrow> (E2E_E_OK, Some \<lparr>p02c_LastValidCounter = 0, p02c_MaxDeltaCounter = 0,
          p02c_WaitForFirstData = True, p02c_NewDataAvailable = False, p02c_LostData = 0,
          p02c_Status = E2E_P02STATUS_NONEWDATA, p02c_SyncCounter = 0,
          p02c_NoNewOrRepeatedDataCounter = 0\<rparr>))"

definition E2E_P02MapStatusToSM_TRUE :: "E2E_P02CheckStatusType \<Rightarrow> E2E_PCheckStatusType" where
  "E2E_P02MapStatusToSM_TRUE Status =
     (case Status of
        E2E_P02STATUS_OK \<Rightarrow> E2E_P_OK
      | E2E_P02STATUS_OKSOMELOST \<Rightarrow> E2E_P_OK
      | E2E_P02STATUS_SYNC \<Rightarrow> E2E_P_OK
      | E2E_P02STATUS_REPEATED \<Rightarrow> E2E_P_REPEATED
      | E2E_P02STATUS_NONEWDATA \<Rightarrow> E2E_P_NONEWDATA
      | E2E_P02STATUS_WRONGSEQUENCE \<Rightarrow> E2E_P_WRONGSEQUENCE
      | E2E_P02STATUS_INITIAL \<Rightarrow> E2E_P_WRONGSEQUENCE
      | _ \<Rightarrow> E2E_P_ERROR)"

definition E2E_P02MapStatusToSM_FALSE :: "E2E_P02CheckStatusType \<Rightarrow> E2E_PCheckStatusType" where
  "E2E_P02MapStatusToSM_FALSE Status =
     (case Status of
        E2E_P02STATUS_OK \<Rightarrow> E2E_P_OK
      | E2E_P02STATUS_OKSOMELOST \<Rightarrow> E2E_P_OK
      | E2E_P02STATUS_INITIAL \<Rightarrow> E2E_P_OK
      | E2E_P02STATUS_REPEATED \<Rightarrow> E2E_P_REPEATED
      | E2E_P02STATUS_NONEWDATA \<Rightarrow> E2E_P_NONEWDATA
      | E2E_P02STATUS_WRONGSEQUENCE \<Rightarrow> E2E_P_WRONGSEQUENCE
      | E2E_P02STATUS_SYNC \<Rightarrow> E2E_P_WRONGSEQUENCE
      | _ \<Rightarrow> E2E_P_ERROR)"

definition E2E_P02MapStatusToSM ::
  "E2E_ReturnType \<Rightarrow> E2E_P02CheckStatusType \<Rightarrow> bool \<Rightarrow> E2E_PCheckStatusType" where
  "E2E_P02MapStatusToSM CheckReturn Status profileBehavior =
     (if CheckReturn \<noteq> E2E_E_OK then E2E_P_ERROR
      else if profileBehavior then E2E_P02MapStatusToSM_TRUE Status
      else E2E_P02MapStatusToSM_FALSE Status)"

section \<open>What a protected message is\<close>

text \<open>The configuration as \<^verbatim>\<open>CheckConfig\<close> accepts it, with the sixteen data IDs of its type.\<close>

definition P02_ok :: "E2E_P02ConfigType \<Rightarrow> bool" where
  "P02_ok cfg \<longleftrightarrow> P02_CheckConfig (Some cfg) = E2E_E_OK \<and> length (p02_DataIDList cfg) = 16"

abbreviation P02_len :: "E2E_P02ConfigType \<Rightarrow> nat" where
  "P02_len cfg \<equiv> unat (p02_DataLength cfg) div 8"

definition P02_crc :: "E2E_P02ConfigType \<Rightarrow> uint8 \<Rightarrow> uint8 list \<Rightarrow> uint8" where
  "P02_crc cfg Counter d = foldl (crc_upd CRC8_H2F_POLYNOMIAL) CRC8_H2F_START_VALUE
     (covered 0 1 (P02_len cfg) d @ [p02_DataIDList cfg ! unat Counter]) XOR CRC8_H2F_XOR"

definition P02_frame :: "E2E_P02ConfigType \<Rightarrow> uint8 \<Rightarrow> uint8 list \<Rightarrow> uint8 list" where
  "P02_frame cfg Counter d =
     (let b = d[1 := (d ! 1 AND 0xF0) OR (Counter AND 0x0F)] in b[0 := P02_crc cfg Counter b])"

definition P02_next :: "uint8 \<Rightarrow> uint8" where
  "P02_next c = of_nat (Suc (unat c) mod 16)"

text \<open>
  How an initialised receiver judges an intact message with counter \<open>c\<close>, from the number of
  messages since the last valid one, and the state the message leaves.
\<close>

definition P02_judge :: "E2E_P02ConfigType \<Rightarrow> E2E_P02CheckStateType \<Rightarrow> uint8 \<Rightarrow> E2E_P02CheckStatusType" where
  "P02_judge cfg st c =
     (let n = (unat c + 16 - unat (p02c_LastValidCounter st)) mod 16;
          synced = (p02c_NoNewOrRepeatedDataCounter st \<le> p02_MaxNoNewOrRepeatedData cfg \<and> p02c_SyncCounter st = 0)
      in if n = 0 then E2E_P02STATUS_REPEATED
         else if n = 1 then (if synced then E2E_P02STATUS_OK else E2E_P02STATUS_SYNC)
         else if n \<le> unat (p02c_MaxDeltaCounter (P02_tick st))
         then (if synced then E2E_P02STATUS_OKSOMELOST else E2E_P02STATUS_SYNC)
         else E2E_P02STATUS_WRONGSEQUENCE)"

definition P02_example :: E2E_P02ConfigType where
  "P02_example = \<lparr>p02_DataLength = 32, p02_DataIDList = [0, 1, 2, 3, 4, 5, 6, 7, 8, 9, 10, 11, 12, 13, 14, 15],
     p02_MaxDeltaCounterInit = 1, p02_MaxNoNewOrRepeatedData = 14, p02_SyncCounterInit = 0, p02_Offset = 0\<rparr>"

definition P02_example_rx :: E2E_P02CheckStateType where
  "P02_example_rx = \<lparr>p02c_LastValidCounter = 4, p02c_MaxDeltaCounter = 1, p02c_WaitForFirstData = False,
     p02c_NewDataAvailable = True, p02c_LostData = 0, p02c_Status = E2E_P02STATUS_OK,
     p02c_SyncCounter = 0, p02c_NoNewOrRepeatedDataCounter = 0\<rparr>"

definition P02_accept :: "E2E_P02ConfigType \<Rightarrow> E2E_P02CheckStateType \<Rightarrow> uint8 \<Rightarrow> E2E_P02CheckStateType" where
  "P02_accept cfg st c =
     (if p02c_WaitForFirstData st
      then (P02_tick st)\<lparr>p02c_WaitForFirstData := False, p02c_MaxDeltaCounter := p02_MaxDeltaCounterInit cfg,
             p02c_LastValidCounter := c, p02c_Status := E2E_P02STATUS_INITIAL\<rparr>
      else P02_DoChecks cfg (P02_tick st) c)"

text \<open>The range of the receiver's counters.\<close>

definition P02_inv :: "E2E_P02CheckStateType \<Rightarrow> bool" where
  "P02_inv st \<longleftrightarrow> p02c_LastValidCounter st \<le> MAX_P02_COUNTER_VALUE \<and>
     p02c_NoNewOrRepeatedDataCounter st \<le> MAX_P02_COUNTER_VALUE"

section \<open>Configuration and CRC\<close>

lemma P02_ok_bounds:
  assumes "P02_ok cfg"
  shows "2 \<le> P02_len cfg" "P02_len cfg \<le> 256" "length (p02_DataIDList cfg) = 16"
  using assms by (auto simp: P02_ok_def P02_CheckConfig_def split: if_splits)

lemma P02_ComputeCRC_eq:
  assumes ok: "P02_ok cfg" and d: "P02_len cfg \<le> length d" and id: "dataId = p02_DataIDList cfg ! unat c"
  shows "P02_ComputeCRC cfg d dataId = Some (P02_crc cfg c d)"
proof -
  note b = P02_ok_bounds [OF ok]
  have n: "unat (of_nat (P02_len cfg - 1) :: uint32) = P02_len cfg - 1"
    using unat_of_nat32 [of "P02_len cfg - 1"] b(2) by linarith
  have t: "take (P02_len cfg - 1) (drop 1 d) = drop 1 (take (P02_len cfg) d)" by (simp add: drop_take)
  show ?thesis
    unfolding P02_ComputeCRC_def
    using n t b d id by (simp add: Crc_CalculateCRC8H2F_call crc_call_def P02_crc_def covered_def)
qed

lemma nibble_less: "unat (x AND 0x0F :: uint8) < 16"
proof -
  have "x AND 0x0F = take_bit 4 x" by (simp add: take_bit_eq_mask mask_eq_exp_minus_1)
  then show ?thesis by (simp add: unsigned_take_bit_eq) (use take_bit_nat_less_exp [of 4 "unat x"] in simp)
qed

section \<open>Protected messages\<close>

lemma length_P02_frame [simp]: "length (P02_frame cfg c d) = length d"
  by (simp add: P02_frame_def Let_def)

lemma P02_next_eq: "unat (P02_next c) = (unat c + 1) mod 16"
  unfolding P02_next_def by (subst unat_of_nat_small) (simp_all add: less_trans [of _ 16])

lemma P02_next_le: "P02_next c \<le> 15"
proof -
  have "(unat c + 1) mod 16 < 16" by simp
  then show ?thesis by (simp only: word_le_nat_alt P02_next_eq) simp
qed

lemma P02_next_delta:
  assumes "r \<le> 15"
  shows "(unat (P02_next r) + 16 - unat r) mod 16 = 1"
proof -
  have "unat r \<le> 15" using assms by (simp add: word_le_nat_alt)
  then consider "unat r = 15" | "unat r + 1 < 16" by linarith
  then show ?thesis unfolding P02_next_eq by cases simp_all
qed

lemma P02_Protect_valid:
  assumes ok: "P02_ok cfg" and d: "P02_len cfg \<le> length d"
  shows "E2E_P02Protect (Some cfg) (Some st) (Some d) =
    Some (E2E_E_OK, Some (st\<lparr>p02p_Counter := P02_next (p02p_Counter st)\<rparr>),
      Some (P02_frame cfg (P02_next (p02p_Counter st)) d))"
proof -
  note b = P02_ok_bounds [OF ok]
  let ?c = "P02_next (p02p_Counter st)"
  let ?b = "d[1 := (d ! 1 AND 0xF0) OR (?c AND 0x0F)]"
  have len: "1 < length d" "0 < length d" using b d by linarith+
  have c: "unat ?c < length (p02_DataIDList cfg)" unfolding P02_next_eq b(3) by simp
  have crc: "P02_ComputeCRC cfg ?b (p02_DataIDList cfg ! unat ?c) = Some (P02_crc cfg ?c ?b)"
    using d by (intro P02_ComputeCRC_eq [OF ok]) simp_all
  show ?thesis
    using ok len rd_Some [OF c] crc
    by (simp add: E2E_P02Protect_def P02_ok_def deref_def rd_Some wr_Some P02_next_def [symmetric]
      P02_frame_def Let_def)
qed

section \<open>The receiver\<close>

lemma P02_Check_new:
  assumes ok: "P02_ok cfg" and d: "P02_len cfg \<le> length d"
    and new: "p02c_NewDataAvailable st" and rc: "rc = d ! 1 AND 0x0F"
  shows "E2E_P02Check (Some cfg) (Some st) (Some d) = Some (E2E_E_OK, Some
    (if d ! 0 \<noteq> P02_crc cfg rc d then (P02_tick st)\<lparr>p02c_Status := E2E_P02STATUS_WRONGCRC\<rparr>
     else P02_accept cfg st rc))"
proof -
  note b = P02_ok_bounds [OF ok]
  have len: "1 < length d" "0 < length d" using b d by linarith+
  have c: "unat rc < length (p02_DataIDList cfg)" unfolding rc b(3) by (rule nibble_less)
  have t: "p02c_NewDataAvailable (P02_tick st)" "p02c_WaitForFirstData (P02_tick st) = p02c_WaitForFirstData st"
    using new by (simp_all add: P02_tick_def)
  show ?thesis
    using ok len t rd_Some [OF c] P02_ComputeCRC_eq [OF ok d refl, of rc] rc
    by (simp add: E2E_P02Check_def P02_ok_def deref_def rd_Some P02_accept_def
      P02_IsFirstDataSinceInitialisation_def Let_def)
qed

lemma P02_crc_head: "P02_crc cfg c (x[0 := y]) = P02_crc cfg c x"
  by (simp add: P02_crc_def covered_def drop_take)

lemma P02_frame_bytes:
  assumes "2 \<le> length d" "c \<le> 15"
  shows "P02_frame cfg c d ! Suc 0 AND 0x0F = c" "P02_frame cfg c d ! 0 = P02_crc cfg c (P02_frame cfg c d)"
proof -
  have len: "Suc 0 < length d" "0 < length d" using assms(1) by linarith+
  show "P02_frame cfg c d ! 0 = P02_crc cfg c (P02_frame cfg c d)"
    using len by (simp add: P02_frame_def Let_def P02_crc_head)
  have "P02_frame cfg c d ! Suc 0 AND 0x0F = c AND 0x0F"
    using len by (simp add: P02_frame_def Let_def)
  then show "P02_frame cfg c d ! Suc 0 AND 0x0F = c" using assms(2) by (simp add: nibble_id)
qed

lemma P02_Check_frame:
  assumes ok: "P02_ok cfg" and d: "P02_len cfg \<le> length d"
    and new: "p02c_NewDataAvailable st" and c: "c \<le> 15"
  shows "E2E_P02Check (Some cfg) (Some st) (Some (P02_frame cfg c d)) =
    Some (E2E_E_OK, Some (P02_accept cfg st c))"
proof -
  have "2 \<le> length d" using P02_ok_bounds [OF ok] d by linarith
  with c show ?thesis
    using P02_Check_new [OF ok _ new refl, of "P02_frame cfg c d"] d by (simp add: P02_frame_bytes)
qed

lemma P02_delta:
  assumes "c \<le> 15" "r \<le> 15"
  shows "unat (P02_CalculateDeltaCounter c r) = (unat c + 16 - unat r) mod 16"
proof -
  have c: "unat c \<le> 15" and r: "unat r \<le> 15" using assms by (simp_all add: word_le_nat_alt)
  show ?thesis
  proof (cases "unat r \<le> unat c")
    case True
    have "unat (c - r) = unat c - unat r" using True by (intro unat_sub) (simp add: word_le_nat_alt)
    moreover have "(unat c + 16 - unat r) mod 16 = (unat c - unat r) mod 16"
      using True by (metis Nat.add_diff_assoc2 mod_add_self2)
    moreover have "(unat c - unat r) mod 16 = unat c - unat r" using c by (intro mod_less) linarith
    ultimately show ?thesis using True by (simp only: P02_CalculateDeltaCounter_def word_le_nat_alt if_True)
  next
    case False
    have "unat (16 + c) = (16 + unat c) mod 2 ^ 8" by (simp add: unat_word_ariths)
    also have "\<dots> = 16 + unat c" using c by (intro mod_less) simp
    finally have s: "unat (16 + c) = 16 + unat c" .
    have "unat (16 + c - r) = unat (16 + c) - unat r" using r s by (intro unat_sub) (simp add: word_le_nat_alt)
    moreover have "(unat c + 16 - unat r) mod 16 = unat c + 16 - unat r"
      using False by (intro mod_less) linarith
    moreover have "15 + 1 + c - r = 16 + c - r" by simp
    ultimately show ?thesis
      using False s by (simp only: P02_CalculateDeltaCounter_def word_le_nat_alt if_False add.commute)
  qed
qed

lemma P02_DoChecks_status:
  assumes "c \<le> 15" "p02c_LastValidCounter st \<le> 15"
  shows "p02c_Status (P02_DoChecks cfg (P02_tick st) c) = P02_judge cfg st c"
proof -
  let ?D = "P02_CalculateDeltaCounter c (p02c_LastValidCounter st)"
  have t: "p02c_LastValidCounter (P02_tick st) = p02c_LastValidCounter st"
    "p02c_NoNewOrRepeatedDataCounter (P02_tick st) = p02c_NoNewOrRepeatedDataCounter st"
    "p02c_SyncCounter (P02_tick st) = p02c_SyncCounter st"
    by (simp_all add: P02_tick_def)
  have z: "?D = 0 \<longleftrightarrow> unat ?D = 0" "?D = 1 \<longleftrightarrow> unat ?D = 1"
    "x < ?D \<longleftrightarrow> \<not> unat ?D \<le> unat x" for x
    by (simp_all add: word_unat_eq_iff word_less_nat_alt not_le)
  show ?thesis
    unfolding P02_DoChecks_def P02_judge_def Let_def t z P02_delta [OF assms]
    by (simp add: t word_gt_0)
qed

lemma P02_accept_in_step:
  assumes "p02c_NewDataAvailable st" "p02c_SyncCounter st = 0" "p02c_NoNewOrRepeatedDataCounter st = 0"
    and "p02c_WaitForFirstData st \<or>
      p02c_LastValidCounter st \<le> 15 \<and> c = P02_next (p02c_LastValidCounter st)"
    and "P02_accept cfg st c = st'"
  shows "(p02c_Status st' = E2E_P02STATUS_OK \<or> p02c_Status st' = E2E_P02STATUS_INITIAL) \<and>
    p02c_NewDataAvailable st' \<and> p02c_SyncCounter st' = 0 \<and> p02c_NoNewOrRepeatedDataCounter st' = 0 \<and>
    p02c_LastValidCounter st' = c"
proof (cases "p02c_WaitForFirstData st")
  case True
  then show ?thesis using assms by (auto simp: P02_accept_def P02_tick_def)
next
  case False
  with assms(4) have r: "p02c_LastValidCounter st \<le> 15" "c = P02_next (p02c_LastValidCounter st)"
    by simp_all
  have t: "p02c_LastValidCounter (P02_tick st) = p02c_LastValidCounter st"
    "p02c_NoNewOrRepeatedDataCounter (P02_tick st) = p02c_NoNewOrRepeatedDataCounter st"
    "p02c_SyncCounter (P02_tick st) = p02c_SyncCounter st"
    "p02c_NewDataAvailable (P02_tick st) = p02c_NewDataAvailable st"
    by (simp_all add: P02_tick_def)
  have "P02_CalculateDeltaCounter c (p02c_LastValidCounter st) = 1"
    using P02_delta [OF P02_next_le r(1), of "p02c_LastValidCounter st"] P02_next_delta [OF r(1)]
    unfolding r(2) by (simp add: word_unat_eq_iff)
  then show ?thesis using assms(1-3,5) False t by (auto simp: P02_accept_def P02_DoChecks_def)
qed

section \<open>Corrupted messages\<close>

lemma P02_crc_change:
  assumes len: "P02_len cfg \<le> length (pre @ x # post)" "length pre < P02_len cfg"
    and crc: "(pre @ x # post) ! 0 = P02_crc cfg c (pre @ x # post)" and xy: "x \<noteq> y"
  shows "(pre @ y # post) ! 0 \<noteq> P02_crc cfg c (pre @ y # post)"
proof -
  let ?n = "P02_len cfg" and ?id = "p02_DataIDList cfg ! unat c"
  have fx: "field 0 1 (pre @ z # post) = [(pre @ z # post) ! 0]" for z
    by (cases pre) (simp_all add: field_def)
  have burst: "burst_at 0 1 ?n (length pre) (length [x])" using len(2) by (cases pre) (auto simp: burst_at_def)
  show ?thesis
  proof (cases rule: burst_cases [OF burst zero_le_one, where cs = "[y]" and post = post, case_names len covered field])
    case (covered p q)
    have "foldl (crc_upd CRC8_H2F_POLYNOMIAL) CRC8_H2F_START_VALUE (p @ [x] @ (q @ [?id])) \<noteq>
        foldl (crc_upd CRC8_H2F_POLYNOMIAL) CRC8_H2F_START_VALUE (p @ [y] @ (q @ [?id]))"
      using xy by (intro pH2F.reg.burst_detected) simp_all
    then show ?thesis using covered crc fx [of x] fx [of y] by (auto simp: P02_crc_def)
  next
    case field
    then show ?thesis using xy crc fx [of x] fx [of y] by (simp add: P02_crc_def)
  qed simp
qed

lemma P02_Check_corrupted:
  assumes ok: "P02_ok cfg" and d: "P02_len cfg \<le> length d" and c: "c \<le> 15"
    and m: "P02_frame cfg c d = pre @ x # post" and pos: "length pre < P02_len cfg" and xy: "x \<noteq> y"
    and cnt: "length pre = 1 \<Longrightarrow> y AND 0x0F = x AND 0x0F"
    and rx: "p02c_NewDataAvailable st"
  shows "E2E_P02Check (Some cfg) (Some st) (Some (pre @ y # post)) =
    Some (E2E_E_OK, Some ((P02_tick st)\<lparr>p02c_Status := E2E_P02STATUS_WRONGCRC\<rparr>))"
proof -
  have len: "P02_len cfg \<le> length (pre @ x # post)" "P02_len cfg \<le> length (pre @ y # post)"
    using d m length_P02_frame [of cfg c d] by simp_all
  have "2 \<le> length d" using P02_ok_bounds [OF ok] d by linarith
  note fr = P02_frame_bytes [OF this c, of cfg, unfolded m]
  have "(pre @ y # post) ! Suc 0 AND 0x0F = c"
    using fr(1) cnt by (auto simp: nth_append nth_Cons' split: if_splits)
  then show ?thesis
    using P02_Check_new [OF ok len(2) rx refl] P02_crc_change [OF len(1) pos fr(2) xy] by simp
qed

section \<open>Invariant\<close>

lemma P02_inv_DoChecks: "P02_inv st \<Longrightarrow> c \<le> 15 \<Longrightarrow> P02_inv (P02_DoChecks cfg st c)"
  by (auto simp: P02_inv_def P02_DoChecks_def Let_def inc_le)

lemma P02_inv_tick: "P02_inv st \<Longrightarrow> P02_inv (P02_tick st)"
  by (simp add: P02_inv_def P02_tick_def)

lemma P02_inv_accept: "P02_inv st \<Longrightarrow> c \<le> 15 \<Longrightarrow> P02_inv (P02_accept cfg st c)"
  using P02_inv_DoChecks [OF P02_inv_tick, of st c] by (auto simp: P02_accept_def P02_inv_def P02_tick_def)

lemma P02_first_inv:
  "P02_IsFirstDataSinceInitialisation cfg st c = (x, st') \<Longrightarrow> P02_inv st \<Longrightarrow> c \<le> 15 \<Longrightarrow> P02_inv st'"
  by (auto simp: P02_IsFirstDataSinceInitialisation_def P02_inv_def split: if_splits)

lemma nibble_le: "(x AND 0x0F :: uint8) \<le> 15"
  using nibble_less [of x] by (simp add: word_le_nat_alt)

lemma P02_inv_Check:
  assumes "P02_inv st" "E2E_P02Check cp (Some st) dp = Some (ret, Some st')"
  shows "P02_inv st'"
proof -
  have inc: "P02_inv (P02_tick st)" using assms(1) by (rule P02_inv_tick)
  then have st: "P02_inv ((P02_tick st)\<lparr>p02c_Status := s\<rparr>)" for s by (simp add: P02_inv_def)
  show ?thesis
  proof (cases "p02c_NewDataAvailable (P02_tick st)")
    case True
    then show ?thesis
      using assms inc st
      by (auto simp: E2E_P02Check_def Let_def deref_def Option.bind_eq_Some_conv
        split: if_splits prod.split_asm intro: P02_first_inv P02_inv_DoChecks nibble_le)
  next
    case False
    then show ?thesis
      using assms inc
      by (auto simp: E2E_P02Check_def Let_def deref_def Option.bind_eq_Some_conv P02_inv_def inc_le split: if_splits)
  qed
qed

section \<open>Properties\<close>

lemma P02_example_ok: "P02_ok P02_example" "P02_len P02_example = 4"
  by (simp_all add: P02_example_def P02_ok_def P02_CheckConfig_def)

text \<open>
  A profile 2 sender advances its counter modulo 16 and then protects the message with it; a
  receiver that waits for its first message accepts an intact one as INITIAL, and an initialised one
  judges it by the number of messages since the last valid one, modulo 16: REPEATED, OK,
  OKSOMELOST, SYNC or WRONGSEQUENCE.
\<close>

theorem p02_roundtrip:
  assumes "P02_ok cfg" "P02_len cfg \<le> length d"
    and "p02c_NewDataAvailable rx" "p02c_LastValidCounter rx \<le> 15"
  shows "\<exists>m rx'. E2E_P02Protect (Some cfg) (Some tx) (Some d) =
      Some (E2E_E_OK, Some (tx\<lparr>p02p_Counter := P02_next (p02p_Counter tx)\<rparr>), Some m) \<and>
    length m = length d \<and>
    E2E_P02Check (Some cfg) (Some rx) (Some m) = Some (E2E_E_OK, Some rx') \<and>
    p02c_Status rx' = (if p02c_WaitForFirstData rx then E2E_P02STATUS_INITIAL
      else P02_judge cfg rx (P02_next (p02p_Counter tx)))"
proof (intro exI conjI)
  show "E2E_P02Protect (Some cfg) (Some tx) (Some d) =
      Some (E2E_E_OK, Some (tx\<lparr>p02p_Counter := P02_next (p02p_Counter tx)\<rparr>),
        Some (P02_frame cfg (P02_next (p02p_Counter tx)) d))"
    using assms(1,2) by (rule P02_Protect_valid)
  show "E2E_P02Check (Some cfg) (Some rx) (Some (P02_frame cfg (P02_next (p02p_Counter tx)) d)) =
      Some (E2E_E_OK, Some (P02_accept cfg rx (P02_next (p02p_Counter tx))))"
    using assms by (simp add: P02_Check_frame P02_next_le)
qed (use assms in \<open>simp_all add: P02_accept_def P02_DoChecks_status P02_next_le\<close>)

theorem p02_roundtrip_witness:
  "\<exists>m rx'. E2E_P02Protect (Some P02_example) (Some \<lparr>p02p_Counter = 4\<rparr>) (Some [0, 0, 7, 7]) =
      Some (E2E_E_OK, Some \<lparr>p02p_Counter = 5\<rparr>, Some m) \<and>
    E2E_P02Check (Some P02_example) (Some P02_example_rx) (Some m) = Some (E2E_E_OK, Some rx') \<and>
    p02c_Status rx' = E2E_P02STATUS_OK"
proof -
  have "P02_next 4 = 5" by (simp add: P02_next_def)
  moreover have "P02_judge P02_example P02_example_rx 5 = E2E_P02STATUS_OK"
    by (simp add: P02_judge_def P02_example_def P02_example_rx_def)
  moreover have "p02c_NewDataAvailable P02_example_rx" "p02c_LastValidCounter P02_example_rx \<le> 15"
    "\<not> p02c_WaitForFirstData P02_example_rx"
    by (simp_all add: P02_example_rx_def)
  ultimately show ?thesis
    using p02_roundtrip [OF P02_example_ok(1), of "[0, 0, 7, 7]" P02_example_rx "\<lparr>p02p_Counter = 4\<rparr>"]
      P02_example_ok(2) by auto
qed

text \<open>
  A profile 2 receiver notices every change of one byte of a protected message that leaves the
  counter alone, also in the first message it sees: it reports WRONGCRC, stays uninitialised if it
  was, and keeps its last valid counter.
\<close>

theorem p02_corruption_detected:
  assumes "P02_ok cfg" "P02_len cfg \<le> length d"
    and "E2E_P02Protect (Some cfg) (Some tx) (Some d) = Some (E2E_E_OK, tx', Some (pre @ x # post))"
    and "length pre < P02_len cfg" "x \<noteq> y" "length pre = 1 \<Longrightarrow> y AND 0x0F = x AND 0x0F"
    and "p02c_NewDataAvailable rx"
  shows "\<exists>rx'. E2E_P02Check (Some cfg) (Some rx) (Some (pre @ y # post)) = Some (E2E_E_OK, Some rx') \<and>
    p02c_Status rx' = E2E_P02STATUS_WRONGCRC \<and>
    p02c_WaitForFirstData rx' = p02c_WaitForFirstData rx \<and>
    p02c_LastValidCounter rx' = p02c_LastValidCounter rx"
proof -
  have m: "P02_frame cfg (P02_next (p02p_Counter tx)) d = pre @ x # post"
    using assms(3) P02_Protect_valid [OF assms(1,2), of tx] by simp
  from P02_Check_corrupted [OF assms(1,2) P02_next_le m assms(4-7)] show ?thesis
    by (simp add: P02_tick_def)
qed

theorem p02_corruption_detected_witness:
  "\<exists>m rx'. E2E_P02Protect (Some P02_example) (Some \<lparr>p02p_Counter = 4\<rparr>) (Some [0, 0, 7, 7]) =
      Some (E2E_E_OK, Some \<lparr>p02p_Counter = 5\<rparr>, Some m) \<and>
    E2E_P02Check (Some P02_example) (Some P02_example_rx) (Some (take 2 m @ (m ! 2 XOR 1) # drop 3 m)) =
      Some (E2E_E_OK, Some rx') \<and> p02c_Status rx' = E2E_P02STATUS_WRONGCRC"
proof -
  let ?m = "P02_frame P02_example 5 [0, 0, 7, 7]"
  have u: "P02_next 4 = 5" by (simp add: P02_next_def)
  have p: "E2E_P02Protect (Some P02_example) (Some \<lparr>p02p_Counter = 4\<rparr>) (Some [0, 0, 7, 7]) =
      Some (E2E_E_OK, Some \<lparr>p02p_Counter = 5\<rparr>, Some ?m)"
    using P02_Protect_valid [OF P02_example_ok(1), of "[0, 0, 7, 7]" "\<lparr>p02p_Counter = 4\<rparr>"]
      P02_example_ok(2) u by simp
  have "?m = take 2 ?m @ ?m ! 2 # drop 3 ?m" using id_take_nth_drop [of 2 ?m] by (simp add: numeral_3_eq_3)
  then show ?thesis
    using p02_corruption_detected [OF P02_example_ok(1), of "[0, 0, 7, 7]" "\<lparr>p02p_Counter = 4\<rparr>"
        "Some \<lparr>p02p_Counter = 5\<rparr>" "take 2 ?m" "?m ! 2" "drop 3 ?m" "?m ! 2 XOR 1" P02_example_rx]
      p P02_example_ok(2)
    by (intro exI [of _ ?m]) (auto simp: P02_example_rx_def)
qed

text \<open>
  The counters of a profile 2 receiver stay in their range: whatever configuration and data a
  check is called with, the last valid counter and the counter of missing or repeated data are at
  most 15 afterwards if they were before, and the initial state is in range.
\<close>

theorem p02_check_invariant:
  "(\<forall>st st'. E2E_P02CheckInit (Some st) = (E2E_E_OK, Some st') \<longrightarrow> P02_inv st') \<and>
   (\<forall>st cp dp ret st'. P02_inv st \<longrightarrow> E2E_P02Check cp (Some st) dp = Some (ret, Some st') \<longrightarrow> P02_inv st')"
proof (intro conjI allI impI)
  show "P02_inv st'" if "E2E_P02CheckInit (Some st) = (E2E_E_OK, Some st')" for st st'
    using that by (auto simp: E2E_P02CheckInit_def P02_inv_def)
qed (rule P02_inv_Check)

theorem p02_check_invariant_witness:
  "P02_inv \<lparr>p02c_LastValidCounter = 0, p02c_MaxDeltaCounter = 0, p02c_WaitForFirstData = True,
     p02c_NewDataAvailable = False, p02c_LostData = 0, p02c_Status = E2E_P02STATUS_NONEWDATA,
     p02c_SyncCounter = 0, p02c_NoNewOrRepeatedDataCounter = 0\<rparr>"
  using p02_check_invariant [THEN conjunct1, rule_format, of P02_example_rx] by (simp add: E2E_P02CheckInit_def)

section \<open>The protected link\<close>

text \<open>
  In step: the receiver's last valid counter is the one the sender used last (or the receiver waits
  for its first message), and the receiver is not resynchronising. Each message is flagged as new.
\<close>

interpretation p02_link: e2e_link
  "\<lambda>tx d. sent (E2E_P02Protect (Some cfg) (Some tx) (Some d))"
  "\<lambda>rx d. received (E2E_P02Check (Some cfg) (Some rx) (Some d))"
  "\<lambda>d. P02_ok cfg \<and> P02_len cfg \<le> length d"
  "\<lambda>tx rx. p02c_NewDataAvailable rx \<and> p02c_SyncCounter rx = 0 \<and>
     p02c_NoNewOrRepeatedDataCounter rx = 0 \<and>
     (p02c_WaitForFirstData rx \<or> p02c_LastValidCounter rx \<le> 15 \<and> p02p_Counter tx = p02c_LastValidCounter rx)"
  "\<lambda>rx. p02c_Status rx = E2E_P02STATUS_OK \<or> p02c_Status rx = E2E_P02STATUS_INITIAL"
  for cfg :: E2E_P02ConfigType
proof
  fix d :: "uint8 list" and tx :: E2E_P02ProtectStateType and rx :: E2E_P02CheckStateType
  let ?c = "P02_next (p02p_Counter tx)"
  assume msg: "P02_ok cfg \<and> P02_len cfg \<le> length d"
    and step: "p02c_NewDataAvailable rx \<and> p02c_SyncCounter rx = 0 \<and>
      p02c_NoNewOrRepeatedDataCounter rx = 0 \<and> (p02c_WaitForFirstData rx \<or>
      p02c_LastValidCounter rx \<le> 15 \<and> p02p_Counter tx = p02c_LastValidCounter rx)"
  have acc: "P02_accept cfg rx ?c = rx1 \<Longrightarrow> (p02c_Status rx1 = E2E_P02STATUS_OK \<or> p02c_Status rx1 = E2E_P02STATUS_INITIAL) \<and>
      p02c_NewDataAvailable rx1 \<and> p02c_SyncCounter rx1 = 0 \<and> p02c_NoNewOrRepeatedDataCounter rx1 = 0 \<and>
      p02c_LastValidCounter rx1 = ?c" for rx1
    using step by (intro P02_accept_in_step) auto
  then show "\<exists>tx' d' rx'. sent (E2E_P02Protect (Some cfg) (Some tx) (Some d)) = Some (tx', d') \<and>
      received (E2E_P02Check (Some cfg) (Some rx) (Some d')) = Some rx' \<and>
      (p02c_Status rx' = E2E_P02STATUS_OK \<or> p02c_Status rx' = E2E_P02STATUS_INITIAL) \<and>
      p02c_NewDataAvailable rx' \<and> p02c_SyncCounter rx' = 0 \<and> p02c_NoNewOrRepeatedDataCounter rx' = 0 \<and>
      (p02c_WaitForFirstData rx' \<or>
       p02c_LastValidCounter rx' \<le> 15 \<and> p02p_Counter tx' = p02c_LastValidCounter rx')"
    using msg step acc [OF refl] by (simp add: P02_Protect_valid P02_Check_frame P02_next_le)
qed

end
