(* ===== verification/E2E_P04.thy ===== *)
theory E2E_P04
  imports E2E
begin

text \<open>
  End-to-end profile 4, \<^verbatim>\<open>core/system/E2E/E2E_P04.c\<close> and \<^verbatim>\<open>E2E_P04.h\<close>: a 12-byte
  header of length, counter, data ID and CRC-32/P4 at a byte offset of the message, every header
  byte bit-reversed.

  The first part holds the operations in the order of the source (its static functions with the
  prefix \<open>P04\<close>). \<open>P04_frame\<close> is what a protected message looks like, independent of how the
  code writes it; the lemmas show that \<^verbatim>\<open>E2E_P04Protect\<close> produces it, how
  \<^verbatim>\<open>E2E_P04Check\<close> judges it by the counter distance, that sender and receiver are an
  \<open>e2e_link\<close>, that a burst of up to four changed bytes is an error, and which inputs are refused.
\<close>

section \<open>Definitions\<close>

datatype E2E_P04CheckStatusType =
    E2E_P04STATUS_OK
  | E2E_P04STATUS_NONEWDATA
  | E2E_P04STATUS_ERROR
  | E2E_P04STATUS_REPEATED
  | E2E_P04STATUS_OKSOMELOST
  | E2E_P04STATUS_WRONGSEQUENCE

record E2E_P04ConfigType =
  p04_DataID :: uint32
  p04_Offset :: uint16
  p04_MinDataLength :: uint16
  p04_MaxDataLength :: uint16
  p04_MaxDeltaCounter :: uint8

record E2E_P04ProtectStateType =
  p04p_Counter :: uint16

record E2E_P04CheckStateType =
  p04c_Status :: E2E_P04CheckStatusType
  p04c_Counter :: uint16

abbreviation (input) MAX_P04_COUNTER_VALUE :: nat where "MAX_P04_COUNTER_VALUE \<equiv> 65535"
abbreviation (input) MAX_P04_DATA_LENGTH_IN_BITS :: nat where "MAX_P04_DATA_LENGTH_IN_BITS \<equiv> 32768"
abbreviation (input) MIN_P04_DATA_LENGTH_IN_BITS :: nat where "MIN_P04_DATA_LENGTH_IN_BITS \<equiv> 96"

text \<open>
  The two tests \<^verbatim>\<open>VerifyProtectInputs\<close> and \<^verbatim>\<open>VerifyCheckInputs\<close> share. The
  subtraction from \<^verbatim>\<open>Length*8\<close> is on C's \<^verbatim>\<open>int\<close> and may be negative.
\<close>

definition P04_bad_limits :: "E2E_P04ConfigType \<Rightarrow> bool" where
  "P04_bad_limits cfg \<longleftrightarrow>
     unat (p04_MinDataLength cfg) < MIN_P04_DATA_LENGTH_IN_BITS \<or>
     unat (p04_MaxDataLength cfg) < MIN_P04_DATA_LENGTH_IN_BITS \<or>
     unat (p04_MinDataLength cfg) > MAX_P04_DATA_LENGTH_IN_BITS \<or>
     unat (p04_MaxDataLength cfg) > MAX_P04_DATA_LENGTH_IN_BITS \<or>
     p04_MinDataLength cfg > p04_MaxDataLength cfg"

definition P04_bad_offset :: "E2E_P04ConfigType \<Rightarrow> uint16 \<Rightarrow> bool" where
  "P04_bad_offset cfg Length \<longleftrightarrow>
     unat (p04_Offset cfg) mod 8 \<noteq> 0 \<or>
     unat (p04_Offset cfg) > MAX_P04_DATA_LENGTH_IN_BITS - MIN_P04_DATA_LENGTH_IN_BITS \<or>
     int (unat (p04_Offset cfg)) > int (unat Length) * 8 - int MIN_P04_DATA_LENGTH_IN_BITS"

definition P04_VerifyProtectInputs ::
  "E2E_P04ConfigType ptr \<Rightarrow> E2E_P04ProtectStateType ptr \<Rightarrow> uint8 list ptr \<Rightarrow> uint16 \<Rightarrow> E2E_ReturnType" where
  "P04_VerifyProtectInputs ConfigPtr StatePtr DataPtr Length =
     (case (ConfigPtr, StatePtr, DataPtr) of
        (Some cfg, Some _, Some _) \<Rightarrow>
          if P04_bad_limits cfg then E2E_E_INPUTERR_WRONG
          else if P04_bad_offset cfg Length then E2E_E_INPUTERR_WRONG
          else if unat Length * 8 < unat (p04_MinDataLength cfg) \<or>
                  unat Length * 8 > unat (p04_MaxDataLength cfg) then E2E_E_INPUTERR_WRONG
          else E2E_E_OK
      | _ \<Rightarrow> E2E_E_INPUTERR_NULL)"

definition P04_ComputeOffset :: "E2E_P04ConfigType \<Rightarrow> uint16" where
  "P04_ComputeOffset cfg = of_nat (unat (p04_Offset cfg) div 8)"

definition P04_WriteLength :: "uint8 list \<Rightarrow> uint16 \<Rightarrow> uint16 \<Rightarrow> uint8 list ub" where
  "P04_WriteLength d offset Length =
     do { d \<leftarrow> wr d (unat offset) (ChangeBitEndianness (ucast (drop_bit 8 (Length AND 0xFF00) AND 0xFF)));
          wr d (unat offset + 1) (ChangeBitEndianness (ucast ((Length AND 0x00FF) AND 0xFF))) }"

definition P04_WriteCounter ::
  "uint8 list \<Rightarrow> uint16 \<Rightarrow> E2E_P04ProtectStateType \<Rightarrow> uint8 list ub" where
  "P04_WriteCounter d offset st =
     do { d \<leftarrow> wr d (unat offset + 2)
                 (ChangeBitEndianness (ucast (drop_bit 8 (p04p_Counter st AND 0xFF00) AND 0xFF)));
          wr d (unat offset + 3) (ChangeBitEndianness (ucast ((p04p_Counter st AND 0x00FF) AND 0xFF))) }"

definition P04_WriteDataID ::
  "uint8 list \<Rightarrow> uint16 \<Rightarrow> E2E_P04ConfigType \<Rightarrow> uint8 list ub" where
  "P04_WriteDataID d offset cfg =
     do { d \<leftarrow> wr d (unat offset + 4)
                 (ChangeBitEndianness (ucast (drop_bit 24 (p04_DataID cfg AND 0xFF000000) AND 0xFF)));
          d \<leftarrow> wr d (unat offset + 5)
                 (ChangeBitEndianness (ucast (drop_bit 16 (p04_DataID cfg AND 0x00FF0000) AND 0xFF)));
          d \<leftarrow> wr d (unat offset + 6)
                 (ChangeBitEndianness (ucast (drop_bit 8 (p04_DataID cfg AND 0x0000FF00) AND 0xFF)));
          wr d (unat offset + 7) (ChangeBitEndianness (ucast ((p04_DataID cfg AND 0x000000FF) AND 0xFF))) }"

definition P04_ComputeCRC :: "uint8 list \<Rightarrow> uint16 \<Rightarrow> uint16 \<Rightarrow> uint32 ub" where
  "P04_ComputeCRC d offset Length =
     do { crc \<leftarrow> Crc_CalculateCRC32P4 CRC_32P4_MODE (Some d) (of_nat (unat offset + 8)) 0xFFFFFFFF True;
          if unat offset + 12 < unat Length
          then Crc_CalculateCRC32P4 CRC_32P4_MODE (Some (drop (unat offset + 12) d))
                 (of_nat (unat Length - unat offset - 12)) crc False
          else Some crc }"

definition P04_WriteCRC :: "uint8 list \<Rightarrow> uint16 \<Rightarrow> uint32 \<Rightarrow> uint8 list ub" where
  "P04_WriteCRC d offset crc =
     do { d \<leftarrow> wr d (unat offset + 8) (ChangeBitEndianness (ucast (drop_bit 24 (crc AND 0xFF000000) AND 0xFF)));
          d \<leftarrow> wr d (unat offset + 9) (ChangeBitEndianness (ucast (drop_bit 16 (crc AND 0x00FF0000) AND 0xFF)));
          d \<leftarrow> wr d (unat offset + 10) (ChangeBitEndianness (ucast (drop_bit 8 (crc AND 0x0000FF00) AND 0xFF)));
          wr d (unat offset + 11) (ChangeBitEndianness (ucast ((crc AND 0x000000FF) AND 0xFF))) }"

definition P04_IncrementCounter :: "E2E_P04ProtectStateType \<Rightarrow> E2E_P04ProtectStateType" where
  "P04_IncrementCounter st =
     st\<lparr>p04p_Counter := of_nat ((unat (p04p_Counter st) + 1) mod (MAX_P04_COUNTER_VALUE + 1))\<rparr>"

text \<open>The result of a protect call: the return code and what the two out-pointers hold then.\<close>

definition E2E_P04Protect ::
  "E2E_P04ConfigType ptr \<Rightarrow> E2E_P04ProtectStateType ptr \<Rightarrow> uint8 list ptr \<Rightarrow> uint16 \<Rightarrow>
   (E2E_ReturnType \<times> E2E_P04ProtectStateType ptr \<times> uint8 list ptr) ub" where
  "E2E_P04Protect ConfigPtr StatePtr DataPtr Length =
     (let returnValue = P04_VerifyProtectInputs ConfigPtr StatePtr DataPtr Length in
      if returnValue \<noteq> E2E_E_OK then Some (returnValue, StatePtr, DataPtr)
      else do {
        cfg \<leftarrow> deref ConfigPtr; st \<leftarrow> deref StatePtr; d \<leftarrow> deref DataPtr;
        let offset = P04_ComputeOffset cfg;
        d \<leftarrow> P04_WriteLength d offset Length;
        d \<leftarrow> P04_WriteCounter d offset st;
        d \<leftarrow> P04_WriteDataID d offset cfg;
        crc \<leftarrow> P04_ComputeCRC d offset Length;
        d \<leftarrow> P04_WriteCRC d offset crc;
        Some (E2E_E_OK, Some (P04_IncrementCounter st), Some d) })"

text \<open>The return code and the value left in \<^verbatim>\<open>*NewDataAvailable\<close>.\<close>

definition P04_VerifyCheckInputs ::
  "E2E_P04ConfigType ptr \<Rightarrow> E2E_P04CheckStateType ptr \<Rightarrow> uint8 list ptr \<Rightarrow> uint16 \<Rightarrow>
   E2E_ReturnType \<times> bool" where
  "P04_VerifyCheckInputs ConfigPtr StatePtr DataPtr Length =
     (case (ConfigPtr, StatePtr) of
        (Some cfg, Some _) \<Rightarrow>
          if P04_bad_limits cfg then (E2E_E_INPUTERR_WRONG, False)
          else if \<not> ((DataPtr \<noteq> None \<and> Length \<noteq> 0) \<or> (DataPtr = None \<and> Length = 0))
          then (E2E_E_INPUTERR_WRONG, False)
          else if DataPtr = None then (E2E_E_OK, False)
          else if P04_bad_offset cfg Length then (E2E_E_INPUTERR_WRONG, False)
          else if unat Length * 8 < unat (p04_MinDataLength cfg) \<or>
                  unat Length * 8 > unat (p04_MaxDataLength cfg) then (E2E_E_INPUTERR_WRONG, False)
          else (E2E_E_OK, True)
      | _ \<Rightarrow> (E2E_E_INPUTERR_NULL, False))"

definition P04_ReadLength :: "uint8 list \<Rightarrow> uint16 \<Rightarrow> uint16 ub" where
  "P04_ReadLength d offset =
     do { a \<leftarrow> rd d (unat offset); b \<leftarrow> rd d (unat offset + 1);
          Some ((push_bit 8 (ucast (ChangeBitEndianness a)) AND 0xFF00) OR
                (ucast (ChangeBitEndianness b) AND 0x00FF)) }"

definition P04_ReadCounter :: "uint8 list \<Rightarrow> uint16 \<Rightarrow> uint16 ub" where
  "P04_ReadCounter d offset =
     do { a \<leftarrow> rd d (unat offset + 2); b \<leftarrow> rd d (unat offset + 3);
          Some ((push_bit 8 (ucast (ChangeBitEndianness a)) AND 0xFF00) OR
                (ucast (ChangeBitEndianness b) AND 0x00FF)) }"

definition P04_ReadDataID :: "uint8 list \<Rightarrow> uint16 \<Rightarrow> uint32 ub" where
  "P04_ReadDataID d offset =
     do { a \<leftarrow> rd d (unat offset + 4); b \<leftarrow> rd d (unat offset + 5);
          c \<leftarrow> rd d (unat offset + 6); e \<leftarrow> rd d (unat offset + 7);
          Some ((push_bit 24 (ucast (ChangeBitEndianness a)) AND 0xFF000000) OR
                (push_bit 16 (ucast (ChangeBitEndianness b)) AND 0x00FF0000) OR
                (push_bit 8 (ucast (ChangeBitEndianness c)) AND 0x0000FF00) OR
                (ucast (ChangeBitEndianness e) AND 0x000000FF)) }"

definition P04_ReadCRC :: "uint8 list \<Rightarrow> uint16 \<Rightarrow> uint32 ub" where
  "P04_ReadCRC d offset =
     do { a \<leftarrow> rd d (unat offset + 8); b \<leftarrow> rd d (unat offset + 9);
          c \<leftarrow> rd d (unat offset + 10); e \<leftarrow> rd d (unat offset + 11);
          Some ((push_bit 24 (ucast (ChangeBitEndianness a)) AND 0xFF000000) OR
                (push_bit 16 (ucast (ChangeBitEndianness b)) AND 0x00FF0000) OR
                (push_bit 8 (ucast (ChangeBitEndianness c)) AND 0x0000FF00) OR
                (ucast (ChangeBitEndianness e) AND 0x000000FF)) }"

definition P04_CalculateDeltaCounter :: "uint16 \<Rightarrow> uint16 \<Rightarrow> uint16" where
  "P04_CalculateDeltaCounter receivedCounter lastValidCounter =
     (if receivedCounter \<ge> lastValidCounter then receivedCounter - lastValidCounter
      else ucast (of_nat MAX_P04_COUNTER_VALUE + 1 + ucast receivedCounter - ucast lastValidCounter :: uint32))"

definition P04_DoChecks ::
  "E2E_P04CheckStateType \<Rightarrow> bool \<Rightarrow> E2E_P04ConfigType \<Rightarrow> uint32 \<Rightarrow> uint32 \<Rightarrow> uint32 \<Rightarrow> uint16 \<Rightarrow>
   uint16 \<Rightarrow> uint16 \<Rightarrow> E2E_P04CheckStateType" where
  "P04_DoChecks st NewDataAvailable cfg receivedCRC computedCRC receivedDataID receivedLength
     Length receivedCounter =
     (if \<not> NewDataAvailable then st\<lparr>p04c_Status := E2E_P04STATUS_NONEWDATA\<rparr>
      else if receivedCRC \<noteq> computedCRC \<or> receivedDataID \<noteq> p04_DataID cfg \<or> receivedLength \<noteq> Length
      then st\<lparr>p04c_Status := E2E_P04STATUS_ERROR\<rparr>
      else let deltaCounter = P04_CalculateDeltaCounter receivedCounter (p04c_Counter st);
               status = (if unat deltaCounter > unat (p04_MaxDeltaCounter cfg)
                         then E2E_P04STATUS_WRONGSEQUENCE
                         else if deltaCounter = 0 then E2E_P04STATUS_REPEATED
                         else if deltaCounter = 1 then E2E_P04STATUS_OK
                         else E2E_P04STATUS_OKSOMELOST)
           in st\<lparr>p04c_Status := status, p04c_Counter := receivedCounter\<rparr>)"

definition E2E_P04Check ::
  "E2E_P04ConfigType ptr \<Rightarrow> E2E_P04CheckStateType ptr \<Rightarrow> uint8 list ptr \<Rightarrow> uint16 \<Rightarrow>
   (E2E_ReturnType \<times> E2E_P04CheckStateType ptr) ub" where
  "E2E_P04Check ConfigPtr StatePtr DataPtr Length =
     (let (returnValue, NewDataAvailable) = P04_VerifyCheckInputs ConfigPtr StatePtr DataPtr Length in
      if returnValue \<noteq> E2E_E_OK then Some (returnValue, StatePtr)
      else do {
        cfg \<leftarrow> deref ConfigPtr; st \<leftarrow> deref StatePtr;
        (receivedLength, receivedCounter, receivedDataID, receivedCRC, computedCRC) \<leftarrow>
          (if NewDataAvailable then
             do { d \<leftarrow> deref DataPtr;
                  let offset = P04_ComputeOffset cfg;
                  receivedLength \<leftarrow> P04_ReadLength d offset;
                  receivedCounter \<leftarrow> P04_ReadCounter d offset;
                  receivedDataID \<leftarrow> P04_ReadDataID d offset;
                  receivedCRC \<leftarrow> P04_ReadCRC d offset;
                  computedCRC \<leftarrow> P04_ComputeCRC d offset Length;
                  Some (receivedLength, receivedCounter, receivedDataID, receivedCRC, computedCRC) }
           else Some (0, 0, 0, 0, 0));
        Some (E2E_E_OK, Some (P04_DoChecks st NewDataAvailable cfg receivedCRC computedCRC
          receivedDataID receivedLength Length receivedCounter)) })"

definition E2E_P04ProtectInit ::
  "E2E_P04ProtectStateType ptr \<Rightarrow> E2E_ReturnType \<times> E2E_P04ProtectStateType ptr" where
  "E2E_P04ProtectInit StatePtr =
     (case StatePtr of None \<Rightarrow> (E2E_E_INPUTERR_NULL, None)
      | Some st \<Rightarrow> (E2E_E_OK, Some (st\<lparr>p04p_Counter := 0\<rparr>)))"

definition E2E_P04CheckInit ::
  "E2E_P04CheckStateType ptr \<Rightarrow> E2E_ReturnType \<times> E2E_P04CheckStateType ptr" where
  "E2E_P04CheckInit StatePtr =
     (case StatePtr of None \<Rightarrow> (E2E_E_INPUTERR_NULL, None)
      | Some st \<Rightarrow> (E2E_E_OK, Some (st\<lparr>p04c_Status := E2E_P04STATUS_ERROR, p04c_Counter := 0xFFFF\<rparr>)))"

definition E2E_P04MapStatusToSM ::
  "E2E_ReturnType \<Rightarrow> E2E_P04CheckStatusType \<Rightarrow> E2E_PCheckStatusType" where
  "E2E_P04MapStatusToSM CheckReturn Status =
     (if CheckReturn \<noteq> E2E_E_OK then E2E_P_ERROR
      else case Status of
        E2E_P04STATUS_OK \<Rightarrow> E2E_P_OK
      | E2E_P04STATUS_OKSOMELOST \<Rightarrow> E2E_P_OK
      | E2E_P04STATUS_REPEATED \<Rightarrow> E2E_P_REPEATED
      | E2E_P04STATUS_NONEWDATA \<Rightarrow> E2E_P_NONEWDATA
      | E2E_P04STATUS_WRONGSEQUENCE \<Rightarrow> E2E_P_WRONGSEQUENCE
      | _ \<Rightarrow> E2E_P_ERROR)"

section \<open>What a protected message is\<close>

text \<open>The inputs both sides accept, and the layout of a protected message.\<close>

definition P04_valid :: "E2E_P04ConfigType \<Rightarrow> uint16 \<Rightarrow> bool" where
  "P04_valid cfg Length \<longleftrightarrow>
     \<not> P04_bad_limits cfg \<and> \<not> P04_bad_offset cfg Length \<and>
     unat (p04_MinDataLength cfg) \<le> unat Length * 8 \<and> unat Length * 8 \<le> unat (p04_MaxDataLength cfg)"

definition P04_crc :: "uint8 list \<Rightarrow> uint32" where
  "P04_crc bs = foldl (crc_rupd CRC32P4_POLYNOMIAL) CRC32P4_START_VALUE bs XOR CRC32P4_XOR"

definition P04_header :: "E2E_P04ConfigType \<Rightarrow> uint16 \<Rightarrow> uint16 \<Rightarrow> uint8 list" where
  "P04_header cfg Counter Length =
     map ChangeBitEndianness (be16 Length @ be16 Counter @ be32 (p04_DataID cfg))"

definition P04_frame :: "E2E_P04ConfigType \<Rightarrow> uint16 \<Rightarrow> uint16 \<Rightarrow> uint8 list \<Rightarrow> uint8 list" where
  "P04_frame cfg Counter Length d =
     (let a = unat (p04_Offset cfg) div 8;
          h = P04_header cfg Counter Length;
          c = P04_crc (take a d @ h @ drop (a + 12) (take (unat Length) d))
      in splice_at a (h @ map ChangeBitEndianness (be32 c)) d)"

text \<open>How a receiver that last accepted counter \<open>r\<close> judges an intact message with counter \<open>c\<close>.\<close>

definition P04_judge :: "E2E_P04ConfigType \<Rightarrow> uint16 \<Rightarrow> uint16 \<Rightarrow> E2E_P04CheckStatusType" where
  "P04_judge cfg r c =
     (if unat (c - r) > unat (p04_MaxDeltaCounter cfg) then E2E_P04STATUS_WRONGSEQUENCE
      else if c = r then E2E_P04STATUS_REPEATED
      else if c = r + 1 then E2E_P04STATUS_OK
      else E2E_P04STATUS_OKSOMELOST)"

text \<open>What the receiver reads from a message whose header bytes it can reach.\<close>

definition P04_fields :: "E2E_P04ConfigType \<Rightarrow> uint8 list \<Rightarrow> uint16 \<times> uint16 \<times> uint32 \<times> uint32" where
  "P04_fields cfg d = (let off = P04_ComputeOffset cfg in
     (the (P04_ReadLength d off), the (P04_ReadCounter d off), the (P04_ReadDataID d off), the (P04_ReadCRC d off)))"

text \<open>The return codes, from the pointers and the configuration alone.\<close>

definition P04_protect_code ::
  "E2E_P04ConfigType ptr \<Rightarrow> 'st ptr \<Rightarrow> uint8 list ptr \<Rightarrow> uint16 \<Rightarrow> E2E_ReturnType" where
  "P04_protect_code cp sp dp Length =
     (case cp of None \<Rightarrow> E2E_E_INPUTERR_NULL
      | Some cfg \<Rightarrow> if sp = None \<or> dp = None then E2E_E_INPUTERR_NULL
                    else if P04_valid cfg Length then E2E_E_OK else E2E_E_INPUTERR_WRONG)"

definition P04_check_code ::
  "E2E_P04ConfigType ptr \<Rightarrow> 'st ptr \<Rightarrow> uint8 list ptr \<Rightarrow> uint16 \<Rightarrow> E2E_ReturnType" where
  "P04_check_code cp sp dp Length =
     (case cp of None \<Rightarrow> E2E_E_INPUTERR_NULL
      | Some cfg \<Rightarrow> if sp = None then E2E_E_INPUTERR_NULL
                    else if (if dp = None then Length = 0 \<and> \<not> P04_bad_limits cfg else P04_valid cfg Length)
                    then E2E_E_OK else E2E_E_INPUTERR_WRONG)"

text \<open>A configuration used in the examples: a 16-byte message with the header at its start.\<close>

definition P04_example :: E2E_P04ConfigType where
  "P04_example = \<lparr>p04_DataID = 0x0A0B0C0D, p04_Offset = 0, p04_MinDataLength = 96,
     p04_MaxDataLength = 128, p04_MaxDeltaCounter = 1\<rparr>"

section \<open>Helper lemmas\<close>

lemma P04_offset: "unat (P04_ComputeOffset cfg) = unat (p04_Offset cfg) div 8"
proof -
  have "unat (p04_Offset cfg) div 8 < 65536"
    by (rule le_less_trans [OF div_le_dividend unat_uint16_less])
  then show ?thesis by (simp add: P04_ComputeOffset_def unat_of_nat)
qed

lemma P04_valid_bounds:
  assumes "P04_valid cfg Length"
  shows "unat (p04_Offset cfg) div 8 + 12 \<le> unat Length" "unat Length \<le> 4096" "Length \<noteq> 0"
proof -
  show b: "unat (p04_Offset cfg) div 8 + 12 \<le> unat Length"
    using assms by (auto simp: P04_valid_def P04_bad_offset_def simp del: of_nat_unat)
  show "unat Length \<le> 4096"
    using assms by (auto simp: P04_valid_def P04_bad_limits_def)
  show "Length \<noteq> 0" using b by auto
qed

lemma P04_ComputeCRC_eq:
  assumes "a = unat offset" "a + 12 \<le> unat Length" "unat Length \<le> length d"
  shows "P04_ComputeCRC d offset Length = Some (P04_crc (covered (a + 8) (a + 12) (unat Length) d))"
proof -
  have "unat (of_nat (a + 8) :: uint32) = a + 8"
    "unat (of_nat (unat Length - a - 12) :: uint32) = unat Length - a - 12"
    using unat_of_nat32 [of "a + 8"] unat_of_nat32 [of "unat Length - a - 12"] assms(1,2)
      unat_uint16_less [of Length] by linarith+
  moreover have "take (unat Length - a - 12) (drop (a + 12) d) = drop (a + 12) (take (unat Length) d)"
    by (simp add: drop_take)
  ultimately show ?thesis
    using assms unfolding P04_ComputeCRC_def assms(1) [symmetric]
    by (auto simp: Crc_CalculateCRC32P4_call crc_call_def covered_def P04_crc_def)
qed

lemma length_P04_header [simp]: "length (P04_header cfg c n) = 8"
  by (simp add: P04_header_def be16_def be32_def)

lemma P04_writes:
  assumes "a = unat offset" "a + 12 \<le> length d"
  shows "P04_WriteLength d offset Length = Some (splice_at a (map ChangeBitEndianness (be16 Length)) d)"
    and "length h = 2 \<Longrightarrow> P04_WriteCounter (splice_at a h d) offset st =
      Some (splice_at a (h @ map ChangeBitEndianness (be16 (p04p_Counter st))) d)"
    and "length h = 4 \<Longrightarrow> P04_WriteDataID (splice_at a h d) offset cfg =
      Some (splice_at a (h @ map ChangeBitEndianness (be32 (p04_DataID cfg))) d)"
    and "length h = 8 \<Longrightarrow> P04_WriteCRC (splice_at a h d) offset crc =
      Some (splice_at a (h @ map ChangeBitEndianness (be32 crc)) d)"
  using assms
  by (simp_all add: P04_WriteLength_def P04_WriteCounter_def P04_WriteDataID_def P04_WriteCRC_def
    wr_splice splice_at_extend wr_extend be16_def be32_def)

lemma P04_IncrementCounter_eq:
  "P04_IncrementCounter st = st\<lparr>p04p_Counter := p04p_Counter st + 1\<rparr>"
  by (simp add: P04_IncrementCounter_def word_wrap_inc [where m = 65536, simplified])

lemma P04_VerifyProtectInputs_ok:
  "P04_VerifyProtectInputs (Some cfg) (Some st) (Some d) Length =
   (if P04_valid cfg Length then E2E_E_OK else E2E_E_INPUTERR_WRONG)"
  by (auto simp: P04_VerifyProtectInputs_def P04_valid_def)

lemma P04_VerifyCheckInputs_ok:
  "P04_valid cfg Length \<Longrightarrow> P04_VerifyCheckInputs (Some cfg) (Some st) (Some d) Length = (E2E_E_OK, True)"
  using P04_valid_bounds(3) [of cfg Length] by (auto simp: P04_VerifyCheckInputs_def P04_valid_def)

lemma P04_Protect_valid:
  assumes v: "P04_valid cfg Length" and d: "unat Length \<le> length d"
  shows "E2E_P04Protect (Some cfg) (Some st) (Some d) Length =
    Some (E2E_E_OK, Some (st\<lparr>p04p_Counter := p04p_Counter st + 1\<rparr>),
      Some (P04_frame cfg (p04p_Counter st) Length d))"
proof -
  let ?a = "unat (p04_Offset cfg) div 8"
  let ?h = "P04_header cfg (p04p_Counter st) Length"
  have a: "?a + 12 \<le> unat Length" using P04_valid_bounds [OF v] by simp
  then have a12: "?a + 12 \<le> length d" using d by simp
  have crc: "P04_ComputeCRC (splice_at ?a ?h d) (P04_ComputeOffset cfg) Length =
      Some (P04_crc (take ?a d @ ?h @ drop (?a + 12) (take (unat Length) d)))"
    using a a12 d by (subst P04_ComputeCRC_eq [OF P04_offset [symmetric]])
      (simp_all add: covered_def splice_at_def drop_take add.commute)
  show ?thesis
    using v a12 crc
    by (simp add: E2E_P04Protect_def P04_VerifyProtectInputs_ok deref_def P04_IncrementCounter_eq
      P04_frame_def P04_writes [OF P04_offset [symmetric]] P04_header_def Let_def)
qed

lemma P04_delta: "P04_CalculateDeltaCounter c r = c - r"
proof (cases "r \<le> c")
  case False
  have down: "ucast (word_of_int k :: uint32) = (word_of_int k :: uint16)" for k
    by (rule ucast_down_wi) (simp add: is_down)
  have "65536 + ucast c - ucast r = (word_of_int (65536 + uint c - uint r) :: uint32)"
    by simp
  then have "ucast (65536 + ucast c - ucast r :: uint32) = (word_of_int (65536 + uint c - uint r) :: uint16)"
    by (simp only: down)
  also have "\<dots> = c - r" by simp
  finally have "ucast (65535 + 1 + ucast c - ucast r :: uint32) = (c - r :: uint16)" by simp
  then show ?thesis using False by (simp add: P04_CalculateDeltaCounter_def)
qed (simp add: P04_CalculateDeltaCounter_def)

lemma P04_DoChecks_intact:
  "P04_DoChecks st True cfg crc crc (p04_DataID cfg) Length Length c =
   st\<lparr>p04c_Status := P04_judge cfg (p04c_Counter st) c, p04c_Counter := c\<rparr>"
proof -
  have "c - r = 1 \<longleftrightarrow> c = r + 1" for r :: uint16 by (auto simp: algebra_simps)
  then show ?thesis by (simp add: P04_DoChecks_def P04_delta P04_judge_def)
qed

lemma length_P04_frame [simp]:
  "P04_valid cfg Length \<Longrightarrow> unat Length \<le> length d \<Longrightarrow> length (P04_frame cfg c Length d) = length d"
  using P04_valid_bounds [of cfg Length] by (simp add: P04_frame_def Let_def)

lemma P04_Check_valid:
  assumes v: "P04_valid cfg Length" and d: "unat Length \<le> length d"
    and f: "P04_fields cfg d = (rl, rc, ri, rx)"
    and a: "a = unat (p04_Offset cfg) div 8"
  shows "E2E_P04Check (Some cfg) (Some st) (Some d) Length =
    Some (E2E_E_OK, Some (P04_DoChecks st True cfg rx (P04_crc (covered (a + 8) (a + 12) (unat Length) d))
      ri rl Length rc))"
proof -
  have b: "a + 12 \<le> unat Length" "a + 12 \<le> length d" using P04_valid_bounds [OF v] d a by simp_all
  have crc: "P04_ComputeCRC d (P04_ComputeOffset cfg) Length =
      Some (P04_crc (covered (a + 8) (a + 12) (unat Length) d))"
    using b d by (intro P04_ComputeCRC_eq) (simp_all add: P04_offset a)
  show ?thesis using f b crc
    by (simp add: E2E_P04Check_def P04_VerifyCheckInputs_ok [OF v] deref_def P04_fields_def Let_def
      P04_ReadLength_def P04_ReadCounter_def P04_ReadDataID_def P04_ReadCRC_def rd_Some P04_offset a)
qed

lemma P04_fields_frame:
  assumes v: "P04_valid cfg Length" and d: "unat Length \<le> length d"
    and a: "a = unat (p04_Offset cfg) div 8"
  shows "P04_fields cfg (P04_frame cfg c Length d) =
    (Length, c, p04_DataID cfg,
      P04_crc (covered (a + 8) (a + 12) (unat Length) (P04_frame cfg c Length d)))"
proof -
  have b: "a + 12 \<le> unat Length" "a + 12 \<le> length d" using P04_valid_bounds [OF v] d a by simp_all
  let ?h = "P04_header cfg c Length"
  let ?x = "P04_crc (take a d @ ?h @ drop (a + 12) (take (unat Length) d))"
  have fr: "P04_frame cfg c Length d = splice_at a (?h @ map ChangeBitEndianness (be32 ?x)) d"
    by (simp add: P04_frame_def Let_def a)
  have cov: "covered (a + 8) (a + 12) (unat Length) (P04_frame cfg c Length d) =
      take a d @ ?h @ drop (a + 12) (take (unat Length) d)"
    using covered_splice [of a ?h "map ChangeBitEndianness (be32 ?x)" d "unat Length"] b
    unfolding fr by (simp add: add.commute)
  show ?thesis unfolding cov unfolding fr
    using b by (simp add: P04_fields_def P04_ReadLength_def P04_ReadCounter_def P04_ReadDataID_def
      P04_ReadCRC_def P04_offset a [symmetric] rd_splice P04_header_def be16_def be32_def
      join16 join32)
qed

lemma P04_Check_frame:
  assumes "P04_valid cfg Length" and "unat Length \<le> length d"
  shows "E2E_P04Check (Some cfg) (Some st) (Some (P04_frame cfg c Length d)) Length =
    Some (E2E_E_OK, Some (st\<lparr>p04c_Status := P04_judge cfg (p04c_Counter st) c, p04c_Counter := c\<rparr>))"
  using assms by (subst P04_Check_valid [OF _ _ P04_fields_frame [OF _ _ refl] refl])
    (simp_all add: P04_DoChecks_intact)

section \<open>Corrupted messages\<close>

lemma P04_crc_burst:
  "length bs \<le> 4 \<Longrightarrow> length cs = length bs \<Longrightarrow> bs \<noteq> cs \<Longrightarrow>
   P04_crc (p @ bs @ q) \<noteq> P04_crc (p @ cs @ q)"
  using p32P4.rfl.burst_detected [of bs cs] by (simp add: P04_crc_def)

lemma P04_ReadCRC_field:
  assumes "a = unat offset" "a + 12 \<le> length d" "a + 12 \<le> length d'"
  shows "the (P04_ReadCRC d offset) = the (P04_ReadCRC d' offset) \<longleftrightarrow>
    field (a + 8) (a + 12) d = field (a + 8) (a + 12) d'"
  using assms
  by (simp add: P04_ReadCRC_def rd_Some join32_inject field_nth add.commute)

lemma P04_Check_corrupted:
  assumes v: "P04_valid cfg Length" and d: "unat Length \<le> length d"
    and a: "a = unat (p04_Offset cfg) div 8"
    and m: "P04_frame cfg c Length d = pre @ bs @ post"
    and burst: "burst_at (a + 8) (a + 12) (unat Length) (length pre) (length bs)"
    and cs: "length bs \<le> 4" "length cs = length bs" "bs \<noteq> cs"
  shows "E2E_P04Check (Some cfg) (Some st) (Some (pre @ cs @ post)) Length =
    Some (E2E_E_OK, Some (st\<lparr>p04c_Status := E2E_P04STATUS_ERROR\<rparr>))"
proof -
  let ?m = "pre @ bs @ post" and ?m' = "pre @ cs @ post"
  let ?crc = "\<lambda>x. P04_crc (covered (a + 8) (a + 12) (unat Length) x)"
  let ?rx = "\<lambda>x. the (P04_ReadCRC x (P04_ComputeOffset cfg))"
  have len: "length ?m = length d" "length ?m' = length d"
    using length_P04_frame [OF v d, of c] cs(2) by (simp_all add: m)
  have b: "a + 12 \<le> length d" using P04_valid_bounds [OF v] d a by simp
  have rx: "?rx ?m = ?crc ?m"
    using P04_fields_frame [OF v d a, of c] by (simp add: m P04_fields_def Let_def)
  have rd: "?rx ?m = ?rx ?m' \<longleftrightarrow> field (a + 8) (a + 12) ?m = field (a + 8) (a + 12) ?m'"
    using b len by (intro P04_ReadCRC_field) (simp_all add: P04_offset a)
  have ab: "a + 8 \<le> a + 12" by simp
  have "?rx ?m' \<noteq> ?crc ?m'"
  proof (cases rule: burst_cases [OF burst ab cs(2), where post = post, case_names covered field])
    case (covered p q)
    then show ?thesis using P04_crc_burst [OF cs, of p q] rx rd by simp
  next
    case field
    then show ?thesis using cs(3) rx rd by simp
  qed
  moreover obtain rl rc ri where "P04_fields cfg ?m' = (rl, rc, ri, ?rx ?m')"
    by (simp add: P04_fields_def Let_def)
  ultimately show ?thesis
    using P04_Check_valid [OF v _ _ a, of ?m' rl rc ri "?rx ?m'" st] d len
    by (simp add: P04_DoChecks_def)
qed

lemma P04_example_valid: "P04_valid P04_example 16"
  by (simp add: P04_example_def P04_valid_def P04_bad_limits_def P04_bad_offset_def)

section \<open>Inputs\<close>

lemma P04_VerifyProtectInputs_code:
  "P04_VerifyProtectInputs cp sp dp Length = P04_protect_code cp sp dp Length"
  by (auto simp: P04_VerifyProtectInputs_def P04_protect_code_def P04_valid_def split: option.splits)

lemma P04_VerifyCheckInputs_code:
  "P04_VerifyCheckInputs cp sp dp Length =
   (P04_check_code cp sp dp Length, P04_check_code cp sp dp Length = E2E_E_OK \<and> dp \<noteq> None)"
  using P04_valid_bounds(3) [of "the cp" Length]
  by (auto simp: P04_VerifyCheckInputs_def P04_check_code_def P04_valid_def split: option.splits)

lemma P04_Protect_total:
  assumes "\<And>d. dp = Some d \<Longrightarrow> unat Length \<le> length d"
  shows "\<exists>sp' dp'. E2E_P04Protect cp sp dp Length = Some (P04_protect_code cp sp dp Length, sp', dp') \<and>
    (P04_protect_code cp sp dp Length \<noteq> E2E_E_OK \<longrightarrow> sp' = sp \<and> dp' = dp)"
proof (cases "P04_protect_code cp sp dp Length = E2E_E_OK")
  case True
  then obtain cfg st d where "cp = Some cfg" "sp = Some st" "dp = Some d" "P04_valid cfg Length"
    by (auto simp: P04_protect_code_def split: option.splits if_splits)
  then show ?thesis using P04_Protect_valid [of cfg Length d st] assms True by simp
qed (simp add: E2E_P04Protect_def P04_VerifyProtectInputs_code)

lemma P04_Check_total:
  assumes "\<And>d. dp = Some d \<Longrightarrow> unat Length \<le> length d"
  shows "\<exists>sp'. E2E_P04Check cp sp dp Length = Some (P04_check_code cp sp dp Length, sp') \<and>
    (P04_check_code cp sp dp Length \<noteq> E2E_E_OK \<longrightarrow> sp' = sp) \<and>
    (P04_check_code cp sp dp Length = E2E_E_OK \<and> dp = None \<longrightarrow>
       sp' = map_option (\<lambda>st. st\<lparr>p04c_Status := E2E_P04STATUS_NONEWDATA\<rparr>) sp)"
proof (cases "P04_check_code cp sp dp Length = E2E_E_OK")
  case ok: True
  then obtain cfg st where cs: "cp = Some cfg" "sp = Some st"
    by (auto simp: P04_check_code_def split: option.splits if_splits)
  show ?thesis
  proof (cases dp)
    case None
    then show ?thesis using ok cs
      by (simp add: E2E_P04Check_def P04_VerifyCheckInputs_code deref_def P04_DoChecks_def)
  next
    case (Some d)
    then have "P04_valid cfg Length" using ok cs by (simp add: P04_check_code_def split: if_splits)
    moreover obtain rl rc ri rx where "P04_fields cfg d = (rl, rc, ri, rx)" by (cases "P04_fields cfg d")
    ultimately show ?thesis using P04_Check_valid [of cfg Length d rl rc ri rx _ st] assms Some ok cs by simp
  qed
qed (simp add: E2E_P04Check_def P04_VerifyCheckInputs_code)

section \<open>Properties\<close>

text \<open>
  C3: A profile 4 receiver judges an intact protected message by the distance of its counter from
  the last one, modulo 2^16: the sender's call succeeds, advances its counter and touches only the
  12 header bytes, and the receiver then reports REPEATED, OK, OKSOMELOST or WRONGSEQUENCE
  and adopts the message's counter.
\<close>

theorem p04_roundtrip:
  assumes "P04_valid cfg Length" "unat Length \<le> length d"
  shows "\<exists>m. E2E_P04Protect (Some cfg) (Some tx) (Some d) Length =
        Some (E2E_E_OK, Some (tx\<lparr>p04p_Counter := p04p_Counter tx + 1\<rparr>), Some m) \<and>
      length m = length d \<and>
      (\<forall>i < length d. i < unat (p04_Offset cfg) div 8 \<or> unat (p04_Offset cfg) div 8 + 12 \<le> i \<longrightarrow> m ! i = d ! i) \<and>
      E2E_P04Check (Some cfg) (Some rx) (Some m) Length =
        Some (E2E_E_OK, Some (rx\<lparr>p04c_Status := P04_judge cfg (p04c_Counter rx) (p04p_Counter tx),
          p04c_Counter := p04p_Counter tx\<rparr>))"
proof (intro exI conjI)
  show "E2E_P04Protect (Some cfg) (Some tx) (Some d) Length =
      Some (E2E_E_OK, Some (tx\<lparr>p04p_Counter := p04p_Counter tx + 1\<rparr>),
        Some (P04_frame cfg (p04p_Counter tx) Length d))"
    using assms by (rule P04_Protect_valid)
  show "\<forall>i < length d. i < unat (p04_Offset cfg) div 8 \<or> unat (p04_Offset cfg) div 8 + 12 \<le> i \<longrightarrow>
      P04_frame cfg (p04p_Counter tx) Length d ! i = d ! i"
    by (simp add: P04_frame_def Let_def splice_at_outside)
qed (use assms in \<open>simp_all add: P04_Check_frame\<close>)

theorem p04_roundtrip_witness:
  "\<exists>m. E2E_P04Protect (Some P04_example) (Some \<lparr>p04p_Counter = 3\<rparr>) (Some (replicate 16 7)) 16 =
       Some (E2E_E_OK, Some \<lparr>p04p_Counter = 4\<rparr>, Some m) \<and>
     E2E_P04Check (Some P04_example) (Some \<lparr>p04c_Status = E2E_P04STATUS_OK, p04c_Counter = 2\<rparr>) (Some m) 16 =
       Some (E2E_E_OK, Some \<lparr>p04c_Status = E2E_P04STATUS_OK, p04c_Counter = 3\<rparr>)"
  using p04_roundtrip [OF P04_example_valid, of "replicate 16 7" "\<lparr>p04p_Counter = 3\<rparr>"
      "\<lparr>p04c_Status = E2E_P04STATUS_OK, p04c_Counter = 2\<rparr>"]
  by (auto simp: P04_judge_def P04_example_def)

text \<open>
  C4: A profile 4 receiver notices every corruption of a protected message within a block of up to four
  adjacent bytes that lies entirely before, entirely inside or entirely behind the CRC field: it reports
  ERROR and keeps its counter. A block across a border of the field is excluded, since a change of both the
  data and the CRC can match.
\<close>

theorem p04_corruption_detected:
  assumes "P04_valid cfg Length" "unat Length \<le> length d"
    and "E2E_P04Protect (Some cfg) (Some tx) (Some d) Length = Some (E2E_E_OK, tx', Some (pre @ bs @ post))"
    and "burst_at (unat (p04_Offset cfg) div 8 + 8) (unat (p04_Offset cfg) div 8 + 12) (unat Length)
      (length pre) (length bs)"
    and "length bs \<le> 4" "length cs = length bs" "bs \<noteq> cs"
  shows "E2E_P04Check (Some cfg) (Some rx) (Some (pre @ cs @ post)) Length =
    Some (E2E_E_OK, Some (rx\<lparr>p04c_Status := E2E_P04STATUS_ERROR\<rparr>))"
  using assms by (intro P04_Check_corrupted [OF _ _ refl, where c = "p04p_Counter tx" and d = d])
    (simp_all add: P04_Protect_valid)

theorem p04_corruption_detected_witness:
  "\<exists>m. E2E_P04Protect (Some P04_example) (Some \<lparr>p04p_Counter = 3\<rparr>) (Some (replicate 16 7)) 16 =
       Some (E2E_E_OK, Some \<lparr>p04p_Counter = 4\<rparr>, Some m) \<and>
     E2E_P04Check (Some P04_example) (Some \<lparr>p04c_Status = E2E_P04STATUS_OK, p04c_Counter = 2\<rparr>)
       (Some (take 13 m @ [m ! 13 XOR 1] @ drop 14 m)) 16 =
       Some (E2E_E_OK, Some \<lparr>p04c_Status = E2E_P04STATUS_ERROR, p04c_Counter = 2\<rparr>)"
proof -
  let ?m = "P04_frame P04_example 3 16 (replicate 16 7)"
  have p: "E2E_P04Protect (Some P04_example) (Some \<lparr>p04p_Counter = 3\<rparr>) (Some (replicate 16 7)) 16 =
      Some (E2E_E_OK, Some \<lparr>p04p_Counter = 4\<rparr>, Some ?m)"
    using P04_Protect_valid [OF P04_example_valid, of "replicate 16 7" "\<lparr>p04p_Counter = 3\<rparr>"] by simp
  have len: "length ?m = 16" using length_P04_frame [OF P04_example_valid, of "replicate 16 7"] by simp
  then have "?m = take 13 ?m @ [?m ! 13] @ drop 14 ?m" using id_take_nth_drop [of 13 ?m] by simp
  then show ?thesis
    using p04_corruption_detected [OF P04_example_valid, of "replicate 16 7" "\<lparr>p04p_Counter = 3\<rparr>"
        "Some \<lparr>p04p_Counter = 4\<rparr>" "take 13 ?m" "[?m ! 13]" "drop 14 ?m" "[?m ! 13 XOR 1]"
        "\<lparr>p04c_Status = E2E_P04STATUS_OK, p04c_Counter = 2\<rparr>"] p len
    by (intro exI [of _ ?m]) (simp add: burst_at_def P04_example_def)
qed

text \<open>
  C21: The profile 4 functions refuse bad inputs and never leave the message: with a data object of
  at least Length bytes neither call faults; the return code is INPUTERR\_NULL for a missing pointer,
  INPUTERR\_WRONG for a configuration or length outside the limits and OK otherwise; a refused call
  changes nothing; a check without data reports NONEWDATA and keeps the counter.
\<close>

theorem p04_input_errors:
  assumes "\<And>d. dp = Some d \<Longrightarrow> unat Length \<le> length d"
  shows "(\<exists>sp' dp'. E2E_P04Protect cp sp dp Length = Some (P04_protect_code cp sp dp Length, sp', dp') \<and>
        (P04_protect_code cp sp dp Length \<noteq> E2E_E_OK \<longrightarrow> sp' = sp \<and> dp' = dp)) \<and>
    (\<exists>cs'. E2E_P04Check cp cs dp Length = Some (P04_check_code cp cs dp Length, cs') \<and>
        (P04_check_code cp cs dp Length \<noteq> E2E_E_OK \<longrightarrow> cs' = cs) \<and>
        (P04_check_code cp cs dp Length = E2E_E_OK \<and> dp = None \<longrightarrow>
           cs' = map_option (\<lambda>st. st\<lparr>p04c_Status := E2E_P04STATUS_NONEWDATA\<rparr>) cs))"
  by (intro conjI P04_Protect_total P04_Check_total assms)

theorem p04_input_errors_witness:
  "E2E_P04Check (Some P04_example) (Some \<lparr>p04c_Status = E2E_P04STATUS_OK, p04c_Counter = 2\<rparr>) None 0 =
     Some (E2E_E_OK, Some \<lparr>p04c_Status = E2E_P04STATUS_NONEWDATA, p04c_Counter = 2\<rparr>)"
  using p04_input_errors [of None 0 "Some P04_example" None
      "Some \<lparr>p04c_Status = E2E_P04STATUS_OK, p04c_Counter = 2\<rparr>"] P04_example_valid
  by (auto simp: P04_check_code_def P04_valid_def)

section \<open>The protected link\<close>

text \<open>Sender and receiver with the same configuration and message length keep the link contract.\<close>

interpretation p04_link: e2e_link
  "\<lambda>tx d. sent (E2E_P04Protect (Some cfg) (Some tx) (Some d) Length)"
  "\<lambda>rx d. received (E2E_P04Check (Some cfg) (Some rx) (Some d) Length)"
  "\<lambda>d. P04_valid cfg Length \<and> 1 \<le> p04_MaxDeltaCounter cfg \<and> unat Length \<le> length d"
  "\<lambda>tx rx. p04p_Counter tx = p04c_Counter rx + 1"
  "\<lambda>rx. p04c_Status rx = E2E_P04STATUS_OK"
  for cfg :: E2E_P04ConfigType and Length :: uint16
proof
  fix d :: "uint8 list" and tx :: E2E_P04ProtectStateType and rx :: E2E_P04CheckStateType
  assume msg: "P04_valid cfg Length \<and> 1 \<le> p04_MaxDeltaCounter cfg \<and> unat Length \<le> length d"
    and step: "p04p_Counter tx = p04c_Counter rx + 1"
  then have "P04_judge cfg (p04c_Counter rx) (p04p_Counter tx) = E2E_P04STATUS_OK"
    by (auto simp: P04_judge_def word_le_nat_alt)
  with msg step show "\<exists>tx' d' rx'.
      sent (E2E_P04Protect (Some cfg) (Some tx) (Some d) Length) = Some (tx', d') \<and>
      received (E2E_P04Check (Some cfg) (Some rx) (Some d') Length) = Some rx' \<and>
      p04c_Status rx' = E2E_P04STATUS_OK \<and> p04p_Counter tx' = p04c_Counter rx' + 1"
    by (simp add: P04_Protect_valid P04_Check_frame)
qed

end
