(* ===== verification/E2E_P05.thy ===== *)
theory E2E_P05
  imports E2E
begin

text \<open>
  End-to-end profile 5, \<^verbatim>\<open>core/system/E2E/E2E_P05.c\<close> and \<^verbatim>\<open>E2E_P05.h\<close>: a
  3-byte header of a little-endian CRC-16 and an 8-bit counter at a byte offset of a message of
  fixed length; the data ID is not sent but enters the CRC behind the message.

  The operations stand in the order of the source, the static ones with the prefix \<open>P05\<close>;
  \<open>P05_frame\<close> is the layout of a protected message. The lemmas show that the sender produces it,
  how the receiver judges it, that both are an \<open>e2e_link\<close>, that bursts of up to two bytes are
  noticed, and which inputs are refused.
\<close>

section \<open>Definitions\<close>

datatype E2E_P05CheckStatusType =
    E2E_P05STATUS_OK
  | E2E_P05STATUS_NONEWDATA
  | E2E_P05STATUS_ERROR
  | E2E_P05STATUS_REPEATED
  | E2E_P05STATUS_OKSOMELOST
  | E2E_P05STATUS_WRONGSEQUENCE

record E2E_P05ConfigType =
  p05_Offset :: uint16
  p05_DataLength :: uint16
  p05_DataID :: uint16
  p05_MaxDeltaCounter :: uint8

record E2E_P05ProtectStateType =
  p05p_Counter :: uint8

record E2E_P05CheckStateType =
  p05c_Status :: E2E_P05CheckStatusType
  p05c_Counter :: uint8

abbreviation (input) MAX_P05_COUNTER_VALUE :: nat where "MAX_P05_COUNTER_VALUE \<equiv> 255"
abbreviation (input) MAX_P05_DATA_LENGTH_IN_BITS :: nat where "MAX_P05_DATA_LENGTH_IN_BITS \<equiv> 32768"
abbreviation (input) MIN_P05_DATA_LENGTH_IN_BITS :: nat where "MIN_P05_DATA_LENGTH_IN_BITS \<equiv> 24"

text \<open>The two tests on offset and length that both sides make, on C's signed \<^verbatim>\<open>int\<close>.\<close>

definition P05_bad_offset :: "E2E_P05ConfigType \<Rightarrow> uint16 \<Rightarrow> bool" where
  "P05_bad_offset cfg Length \<longleftrightarrow>
     unat (p05_Offset cfg) mod 8 \<noteq> 0 \<or>
     unat (p05_Offset cfg) > MAX_P05_DATA_LENGTH_IN_BITS - MIN_P05_DATA_LENGTH_IN_BITS \<or>
     int (unat (p05_Offset cfg)) > 8 * int (unat Length) - int MIN_P05_DATA_LENGTH_IN_BITS"

definition P05_bad_length :: "E2E_P05ConfigType \<Rightarrow> uint16 \<Rightarrow> bool" where
  "P05_bad_length cfg Length \<longleftrightarrow>
     8 * unat Length < MIN_P05_DATA_LENGTH_IN_BITS \<or> 8 * unat Length > MAX_P05_DATA_LENGTH_IN_BITS \<or>
     8 * unat Length \<noteq> unat (p05_DataLength cfg)"

definition P05_VerifyProtectInputs ::
  "E2E_P05ConfigType ptr \<Rightarrow> E2E_P05ProtectStateType ptr \<Rightarrow> uint8 list ptr \<Rightarrow> uint16 \<Rightarrow> E2E_ReturnType" where
  "P05_VerifyProtectInputs ConfigPtr StatePtr DataPtr Length =
     (case (ConfigPtr, StatePtr, DataPtr) of
        (Some cfg, Some _, Some _) \<Rightarrow>
          if P05_bad_offset cfg Length then E2E_E_INPUTERR_WRONG
          else if P05_bad_length cfg Length then E2E_E_INPUTERR_WRONG
          else E2E_E_OK
      | _ \<Rightarrow> E2E_E_INPUTERR_NULL)"

definition P05_ComputeOffset :: "E2E_P05ConfigType \<Rightarrow> uint16" where
  "P05_ComputeOffset cfg = of_nat (unat (p05_Offset cfg) div 8)"

definition P05_WriteCounter ::
  "uint8 list \<Rightarrow> uint16 \<Rightarrow> E2E_P05ProtectStateType \<Rightarrow> uint8 list ub" where
  "P05_WriteCounter d offset st = wr d (unat offset + 2) ((p05p_Counter st AND 0xFF) AND 0xFF)"

definition P05_ComputeCRC :: "uint8 list \<Rightarrow> uint16 \<Rightarrow> uint16 \<Rightarrow> uint16 \<Rightarrow> uint16 ub" where
  "P05_ComputeCRC d Length offset dataId =
     (let lengthBytes = Length - offset - 2 in
      do { crc \<leftarrow>
             (if 0 < offset
              then do { crc \<leftarrow> Crc_CalculateCRC16 CRC_16_MODE (Some d) (ucast offset) 0xFFFF True;
                        Crc_CalculateCRC16 CRC_16_MODE (Some (drop (unat offset + 2) d)) (ucast lengthBytes) crc False }
              else Crc_CalculateCRC16 CRC_16_MODE (Some (drop (unat offset + 2) d)) (ucast lengthBytes) 0xFFFF True);
           crc \<leftarrow> Crc_CalculateCRC16 CRC_16_MODE (Some [ucast (dataId AND 0xFF)]) 1 crc False;
           Crc_CalculateCRC16 CRC_16_MODE (Some [ucast (drop_bit 8 dataId AND 0xFF)]) 1 crc False })"

definition P05_WriteCRC :: "uint8 list \<Rightarrow> uint16 \<Rightarrow> uint16 \<Rightarrow> uint8 list ub" where
  "P05_WriteCRC d offset crc =
     do { d \<leftarrow> wr d (unat offset) (ucast ((crc AND 0x00FF) AND 0xFF));
          wr d (unat offset + 1) (ucast (drop_bit 8 (crc AND 0xFF00) AND 0xFF)) }"

definition P05_IncrementCounter :: "E2E_P05ProtectStateType \<Rightarrow> E2E_P05ProtectStateType" where
  "P05_IncrementCounter st =
     st\<lparr>p05p_Counter := of_nat ((unat (p05p_Counter st) + 1) mod (MAX_P05_COUNTER_VALUE + 1))\<rparr>"

definition E2E_P05Protect ::
  "E2E_P05ConfigType ptr \<Rightarrow> E2E_P05ProtectStateType ptr \<Rightarrow> uint8 list ptr \<Rightarrow> uint16 \<Rightarrow>
   (E2E_ReturnType \<times> E2E_P05ProtectStateType ptr \<times> uint8 list ptr) ub" where
  "E2E_P05Protect ConfigPtr StatePtr DataPtr Length =
     (let returnValue = P05_VerifyProtectInputs ConfigPtr StatePtr DataPtr Length in
      if returnValue \<noteq> E2E_E_OK then Some (returnValue, StatePtr, DataPtr)
      else do {
        cfg \<leftarrow> deref ConfigPtr; st \<leftarrow> deref StatePtr; d \<leftarrow> deref DataPtr;
        let offset = P05_ComputeOffset cfg;
        d \<leftarrow> P05_WriteCounter d offset st;
        crc \<leftarrow> P05_ComputeCRC d Length offset (p05_DataID cfg);
        d \<leftarrow> P05_WriteCRC d offset crc;
        Some (E2E_E_OK, Some (P05_IncrementCounter st), Some d) })"

definition P05_VerifyCheckInputs ::
  "E2E_P05ConfigType ptr \<Rightarrow> E2E_P05CheckStateType ptr \<Rightarrow> uint8 list ptr \<Rightarrow> uint16 \<Rightarrow>
   E2E_ReturnType \<times> bool" where
  "P05_VerifyCheckInputs ConfigPtr StatePtr DataPtr Length =
     (case (ConfigPtr, StatePtr) of
        (Some cfg, Some _) \<Rightarrow>
          if \<not> ((DataPtr \<noteq> None \<and> Length \<noteq> 0) \<or> (DataPtr = None \<and> Length = 0))
          then (E2E_E_INPUTERR_WRONG, False)
          else if DataPtr = None then (E2E_E_OK, False)
          else if P05_bad_offset cfg Length then (E2E_E_INPUTERR_WRONG, False)
          else if P05_bad_length cfg Length then (E2E_E_INPUTERR_WRONG, False)
          else (E2E_E_OK, True)
      | _ \<Rightarrow> (E2E_E_INPUTERR_NULL, False))"

definition P05_ReadCounter :: "uint8 list \<Rightarrow> uint16 \<Rightarrow> uint8 ub" where
  "P05_ReadCounter d offset = do { a \<leftarrow> rd d (unat offset + 2); Some (a AND 0xFF) }"

definition P05_ReadCRC :: "uint8 list \<Rightarrow> uint16 \<Rightarrow> uint16 ub" where
  "P05_ReadCRC d offset =
     do { a \<leftarrow> rd d (unat offset); b \<leftarrow> rd d (unat offset + 1);
          Some ((ucast a AND 0x00FF) OR (push_bit 8 (ucast b) AND 0xFF00)) }"

definition P05_CalculateDeltaCounter :: "uint8 \<Rightarrow> uint8 \<Rightarrow> uint8" where
  "P05_CalculateDeltaCounter receivedCounter lastValidCounter =
     (if receivedCounter \<ge> lastValidCounter then receivedCounter - lastValidCounter
      else ucast (of_nat MAX_P05_COUNTER_VALUE + 1 + ucast receivedCounter - ucast lastValidCounter :: uint32))"

definition P05_DoChecks ::
  "E2E_P05CheckStateType \<Rightarrow> bool \<Rightarrow> E2E_P05ConfigType \<Rightarrow> uint16 \<Rightarrow> uint16 \<Rightarrow> uint8 \<Rightarrow>
   E2E_P05CheckStateType" where
  "P05_DoChecks st NewDataAvailable cfg receivedCRC computedCRC receivedCounter =
     (if \<not> NewDataAvailable then st\<lparr>p05c_Status := E2E_P05STATUS_NONEWDATA\<rparr>
      else if receivedCRC \<noteq> computedCRC then st\<lparr>p05c_Status := E2E_P05STATUS_ERROR\<rparr>
      else let deltaCounter = P05_CalculateDeltaCounter receivedCounter (p05c_Counter st);
               status = (if deltaCounter > p05_MaxDeltaCounter cfg then E2E_P05STATUS_WRONGSEQUENCE
                         else if deltaCounter = 0 then E2E_P05STATUS_REPEATED
                         else if deltaCounter = 1 then E2E_P05STATUS_OK
                         else E2E_P05STATUS_OKSOMELOST)
           in st\<lparr>p05c_Status := status, p05c_Counter := receivedCounter\<rparr>)"

definition E2E_P05Check ::
  "E2E_P05ConfigType ptr \<Rightarrow> E2E_P05CheckStateType ptr \<Rightarrow> uint8 list ptr \<Rightarrow> uint16 \<Rightarrow>
   (E2E_ReturnType \<times> E2E_P05CheckStateType ptr) ub" where
  "E2E_P05Check ConfigPtr StatePtr DataPtr Length =
     (let (returnValue, NewDataAvailable) = P05_VerifyCheckInputs ConfigPtr StatePtr DataPtr Length in
      if returnValue \<noteq> E2E_E_OK then Some (returnValue, StatePtr)
      else do {
        cfg \<leftarrow> deref ConfigPtr; st \<leftarrow> deref StatePtr;
        (receivedCounter, receivedCRC, computedCRC) \<leftarrow>
          (if NewDataAvailable then
             do { d \<leftarrow> deref DataPtr;
                  let offset = P05_ComputeOffset cfg;
                  receivedCounter \<leftarrow> P05_ReadCounter d offset;
                  receivedCRC \<leftarrow> P05_ReadCRC d offset;
                  computedCRC \<leftarrow> P05_ComputeCRC d Length offset (p05_DataID cfg);
                  Some (receivedCounter, receivedCRC, computedCRC) }
           else Some (0, 0, 0));
        Some (E2E_E_OK, Some (P05_DoChecks st NewDataAvailable cfg receivedCRC computedCRC receivedCounter)) })"

definition E2E_P05ProtectInit ::
  "E2E_P05ProtectStateType ptr \<Rightarrow> E2E_ReturnType \<times> E2E_P05ProtectStateType ptr" where
  "E2E_P05ProtectInit StatePtr =
     (case StatePtr of None \<Rightarrow> (E2E_E_INPUTERR_NULL, None)
      | Some st \<Rightarrow> (E2E_E_OK, Some (st\<lparr>p05p_Counter := 0\<rparr>)))"

definition E2E_P05CheckInit ::
  "E2E_P05CheckStateType ptr \<Rightarrow> E2E_ReturnType \<times> E2E_P05CheckStateType ptr" where
  "E2E_P05CheckInit StatePtr =
     (case StatePtr of None \<Rightarrow> (E2E_E_INPUTERR_NULL, None)
      | Some st \<Rightarrow> (E2E_E_OK, Some (st\<lparr>p05c_Status := E2E_P05STATUS_ERROR, p05c_Counter := 0xFF\<rparr>)))"

definition E2E_P05MapStatusToSM ::
  "E2E_ReturnType \<Rightarrow> E2E_P05CheckStatusType \<Rightarrow> E2E_PCheckStatusType" where
  "E2E_P05MapStatusToSM CheckReturn Status =
     (if CheckReturn \<noteq> E2E_E_OK then E2E_P_ERROR
      else case Status of
        E2E_P05STATUS_OK \<Rightarrow> E2E_P_OK
      | E2E_P05STATUS_OKSOMELOST \<Rightarrow> E2E_P_OK
      | E2E_P05STATUS_REPEATED \<Rightarrow> E2E_P_REPEATED
      | E2E_P05STATUS_NONEWDATA \<Rightarrow> E2E_P_NONEWDATA
      | E2E_P05STATUS_WRONGSEQUENCE \<Rightarrow> E2E_P_WRONGSEQUENCE
      | _ \<Rightarrow> E2E_P_ERROR)"

section \<open>What a protected message is\<close>

text \<open>The inputs both sides accept, and the layout of a protected message.\<close>

definition P05_valid :: "E2E_P05ConfigType \<Rightarrow> uint16 \<Rightarrow> bool" where
  "P05_valid cfg Length \<longleftrightarrow> \<not> P05_bad_offset cfg Length \<and> \<not> P05_bad_length cfg Length"

definition P05_crc :: "E2E_P05ConfigType \<Rightarrow> uint8 list \<Rightarrow> uint16" where
  "P05_crc cfg bs = foldl (crc_upd CRC16_CCITT_POLYNOMIAL) CRC16_CCITT_START_VALUE (bs @ le16 (p05_DataID cfg))"

definition P05_frame :: "E2E_P05ConfigType \<Rightarrow> uint8 \<Rightarrow> uint16 \<Rightarrow> uint8 list \<Rightarrow> uint8 list" where
  "P05_frame cfg Counter Length d =
     (let a = unat (p05_Offset cfg) div 8;
          c = P05_crc cfg (take a d @ [Counter] @ drop (a + 3) (take (unat Length) d))
      in splice_at a (le16 c @ [Counter]) d)"

text \<open>How a receiver that last accepted counter \<open>r\<close> judges an intact message with counter \<open>c\<close>.\<close>

definition P05_judge :: "E2E_P05ConfigType \<Rightarrow> uint8 \<Rightarrow> uint8 \<Rightarrow> E2E_P05CheckStatusType" where
  "P05_judge cfg r c =
     (if c - r > p05_MaxDeltaCounter cfg then E2E_P05STATUS_WRONGSEQUENCE
      else if c = r then E2E_P05STATUS_REPEATED
      else if c = r + 1 then E2E_P05STATUS_OK
      else E2E_P05STATUS_OKSOMELOST)"

text \<open>What the receiver reads from a message whose header bytes it can reach.\<close>

definition P05_fields :: "E2E_P05ConfigType \<Rightarrow> uint8 list \<Rightarrow> uint8 \<times> uint16" where
  "P05_fields cfg d = (let off = P05_ComputeOffset cfg in
     (the (P05_ReadCounter d off), the (P05_ReadCRC d off)))"

text \<open>The return codes, from the pointers and the configuration alone.\<close>

definition P05_protect_code ::
  "E2E_P05ConfigType ptr \<Rightarrow> 'st ptr \<Rightarrow> uint8 list ptr \<Rightarrow> uint16 \<Rightarrow> E2E_ReturnType" where
  "P05_protect_code cp sp dp Length =
     (case cp of None \<Rightarrow> E2E_E_INPUTERR_NULL
      | Some cfg \<Rightarrow> if sp = None \<or> dp = None then E2E_E_INPUTERR_NULL
                    else if P05_valid cfg Length then E2E_E_OK else E2E_E_INPUTERR_WRONG)"

definition P05_check_code ::
  "E2E_P05ConfigType ptr \<Rightarrow> 'st ptr \<Rightarrow> uint8 list ptr \<Rightarrow> uint16 \<Rightarrow> E2E_ReturnType" where
  "P05_check_code cp sp dp Length =
     (case cp of None \<Rightarrow> E2E_E_INPUTERR_NULL
      | Some cfg \<Rightarrow> if sp = None then E2E_E_INPUTERR_NULL
                    else if (if dp = None then Length = 0 else P05_valid cfg Length)
                    then E2E_E_OK else E2E_E_INPUTERR_WRONG)"

text \<open>A configuration used in the examples: an 8-byte message with the header at its second byte.\<close>

definition P05_example :: E2E_P05ConfigType where
  "P05_example = \<lparr>p05_Offset = 8, p05_DataLength = 64, p05_DataID = 0x1234, p05_MaxDeltaCounter = 1\<rparr>"

section \<open>Helper lemmas\<close>

lemma P05_offset: "unat (P05_ComputeOffset cfg) = unat (p05_Offset cfg) div 8"
proof -
  have "unat (p05_Offset cfg) div 8 < 65536"
    by (rule le_less_trans [OF div_le_dividend unat_uint16_less])
  then show ?thesis by (simp add: P05_ComputeOffset_def unat_of_nat)
qed

lemma P05_valid_bounds:
  assumes "P05_valid cfg Length"
  shows "unat (p05_Offset cfg) div 8 + 3 \<le> unat Length" "unat Length \<le> 4096" "Length \<noteq> 0"
proof -
  show b: "unat (p05_Offset cfg) div 8 + 3 \<le> unat Length"
    using assms by (auto simp: P05_valid_def P05_bad_offset_def simp del: of_nat_unat)
  show "unat Length \<le> 4096"
    using assms by (auto simp: P05_valid_def P05_bad_length_def)
  show "Length \<noteq> 0" using b by auto
qed

lemma P05_ComputeCRC_eq:
  assumes "a = unat offset" "a + 3 \<le> unat Length" "unat Length \<le> length d"
  shows "P05_ComputeCRC d Length offset (p05_DataID cfg) =
    Some (P05_crc cfg (covered a (a + 2) (unat Length) d))"
  using crc16_around_field [of a offset Length d CRC_16_MODE] assms
  unfolding P05_ComputeCRC_def Let_def by (simp add: crc16_byte P05_crc_def le16_def)

lemma P05_writes:
  assumes "a = unat offset" "a + 3 \<le> length d"
  shows "P05_WriteCounter d offset st = Some (splice_at (a + 2) [p05p_Counter st] d)"
    and "P05_WriteCRC d offset crc = Some (splice_at a (le16 crc) d)"
  using assms by (simp_all add: P05_WriteCounter_def P05_WriteCRC_def wr_splice splice_at_extend le16_def)

lemma P05_IncrementCounter_eq:
  "P05_IncrementCounter st = st\<lparr>p05p_Counter := p05p_Counter st + 1\<rparr>"
  by (simp add: P05_IncrementCounter_def word_wrap_inc [where m = 256, simplified])

lemma P05_VerifyProtectInputs_code:
  "P05_VerifyProtectInputs cp sp dp Length = P05_protect_code cp sp dp Length"
  by (auto simp: P05_VerifyProtectInputs_def P05_protect_code_def P05_valid_def split: option.splits)

lemma P05_VerifyCheckInputs_code:
  "P05_VerifyCheckInputs cp sp dp Length =
   (P05_check_code cp sp dp Length, P05_check_code cp sp dp Length = E2E_E_OK \<and> dp \<noteq> None)"
  using P05_valid_bounds(3) [of "the cp" Length]
  by (auto simp: P05_VerifyCheckInputs_def P05_check_code_def P05_valid_def split: option.splits)

lemma P05_Protect_valid:
  assumes v: "P05_valid cfg Length" and d: "unat Length \<le> length d"
  shows "E2E_P05Protect (Some cfg) (Some st) (Some d) Length =
    Some (E2E_E_OK, Some (st\<lparr>p05p_Counter := p05p_Counter st + 1\<rparr>),
      Some (P05_frame cfg (p05p_Counter st) Length d))"
proof -
  let ?a = "unat (p05_Offset cfg) div 8"
  let ?h = "[p05p_Counter st]"
  have a: "?a + 3 \<le> unat Length" using P05_valid_bounds [OF v] by simp
  then have ad: "?a + 3 \<le> length d" using d by simp
  have crc: "P05_ComputeCRC (splice_at (?a + 2) ?h d) Length (P05_ComputeOffset cfg) (p05_DataID cfg) =
      Some (P05_crc cfg (take ?a d @ ?h @ drop (?a + 3) (take (unat Length) d)))"
    using a ad d covered_splice_behind [of ?a "?a + 2" ?h d "unat Length"]
    by (subst P05_ComputeCRC_eq [OF P05_offset [symmetric]]) (simp_all add: numeral_3_eq_3)
  show ?thesis
    using v ad crc
    by (simp add: E2E_P05Protect_def P05_VerifyProtectInputs_code P05_protect_code_def deref_def
      P05_IncrementCounter_eq P05_frame_def P05_writes [OF P05_offset [symmetric]] splice_at_front Let_def)
qed

lemma P05_delta: "P05_CalculateDeltaCounter c r = c - r"
proof (cases "r \<le> c")
  case False
  have down: "ucast (word_of_int k :: uint32) = (word_of_int k :: uint8)" for k
    by (rule ucast_down_wi) (simp add: is_down)
  have "256 + ucast c - ucast r = (word_of_int (256 + uint c - uint r) :: uint32)"
    by simp
  then have "ucast (256 + ucast c - ucast r :: uint32) = (word_of_int (256 + uint c - uint r) :: uint8)"
    by (simp only: down)
  also have "\<dots> = c - r" by simp
  finally have "ucast (255 + 1 + ucast c - ucast r :: uint32) = (c - r :: uint8)" by simp
  then show ?thesis using False by (simp add: P05_CalculateDeltaCounter_def)
qed (simp add: P05_CalculateDeltaCounter_def)

lemma P05_DoChecks_intact:
  "P05_DoChecks st True cfg crc crc c =
   st\<lparr>p05c_Status := P05_judge cfg (p05c_Counter st) c, p05c_Counter := c\<rparr>"
proof -
  have "c - r = 1 \<longleftrightarrow> c = r + 1" for r :: uint8 by (auto simp: algebra_simps)
  then show ?thesis by (simp add: P05_DoChecks_def P05_delta P05_judge_def)
qed

lemma length_P05_frame [simp]:
  "P05_valid cfg Length \<Longrightarrow> unat Length \<le> length d \<Longrightarrow> length (P05_frame cfg c Length d) = length d"
  using P05_valid_bounds [of cfg Length] by (simp add: P05_frame_def Let_def)

lemma P05_Check_valid:
  assumes v: "P05_valid cfg Length" and d: "unat Length \<le> length d"
    and f: "P05_fields cfg d = (rc, rx)"
    and a: "a = unat (p05_Offset cfg) div 8"
  shows "E2E_P05Check (Some cfg) (Some st) (Some d) Length =
    Some (E2E_E_OK, Some (P05_DoChecks st True cfg rx (P05_crc cfg (covered a (a + 2) (unat Length) d)) rc))"
proof -
  have b: "a + 3 \<le> unat Length" "a + 3 \<le> length d" using P05_valid_bounds [OF v] d a by simp_all
  have crc: "P05_ComputeCRC d Length (P05_ComputeOffset cfg) (p05_DataID cfg) =
      Some (P05_crc cfg (covered a (a + 2) (unat Length) d))"
    using b d by (intro P05_ComputeCRC_eq) (simp_all add: P05_offset a)
  show ?thesis using f b crc v
    by (simp add: E2E_P05Check_def P05_VerifyCheckInputs_code P05_check_code_def deref_def P05_fields_def Let_def
      P05_ReadCounter_def P05_ReadCRC_def rd_Some P05_offset a)
qed

lemma P05_fields_frame:
  assumes v: "P05_valid cfg Length" and d: "unat Length \<le> length d"
    and a: "a = unat (p05_Offset cfg) div 8"
  shows "P05_fields cfg (P05_frame cfg c Length d) =
    (c, P05_crc cfg (covered a (a + 2) (unat Length) (P05_frame cfg c Length d)))"
proof -
  have b: "a + 3 \<le> unat Length" "a + 3 \<le> length d" using P05_valid_bounds [OF v] d a by simp_all
  let ?x = "P05_crc cfg (take a d @ [c] @ drop (a + 3) (take (unat Length) d))"
  have fr: "P05_frame cfg c Length d = splice_at a (le16 ?x @ [c]) d"
    by (simp add: P05_frame_def Let_def a)
  have cov: "covered a (a + 2) (unat Length) (P05_frame cfg c Length d) =
      take a d @ [c] @ drop (a + 3) (take (unat Length) d)"
    using covered_splice_front [of a "le16 ?x" "[c]" d "unat Length"] b
    unfolding fr by (simp add: numeral_3_eq_3)
  show ?thesis unfolding cov unfolding fr
    using b by (simp add: P05_fields_def P05_ReadCounter_def P05_ReadCRC_def P05_offset a [symmetric]
      rd_splice le16_def join16_swap)
qed

lemma P05_Check_frame:
  assumes "P05_valid cfg Length" and "unat Length \<le> length d"
  shows "E2E_P05Check (Some cfg) (Some st) (Some (P05_frame cfg c Length d)) Length =
    Some (E2E_E_OK, Some (st\<lparr>p05c_Status := P05_judge cfg (p05c_Counter st) c, p05c_Counter := c\<rparr>))"
  using assms by (subst P05_Check_valid [OF _ _ P05_fields_frame [OF _ _ refl] refl])
    (simp_all add: P05_DoChecks_intact)

section \<open>Corrupted messages\<close>

lemma P05_crc_burst:
  "length bs \<le> 2 \<Longrightarrow> length cs = length bs \<Longrightarrow> bs \<noteq> cs \<Longrightarrow>
   P05_crc cfg (p @ bs @ q) \<noteq> P05_crc cfg (p @ cs @ q)"
  using p16.reg.burst_detected [of bs cs CRC16_CCITT_START_VALUE p "q @ le16 (p05_DataID cfg)"] by (simp add: P05_crc_def)

lemma P05_ReadCRC_field:
  assumes "a = unat offset" "a + 3 \<le> length d" "a + 3 \<le> length d'"
  shows "the (P05_ReadCRC d offset) = the (P05_ReadCRC d' offset) \<longleftrightarrow>
    field a (a + 2) d = field a (a + 2) d'"
  using assms
  by (auto simp: P05_ReadCRC_def rd_Some join16_swap_inject field_nth2)

lemma P05_Check_corrupted:
  assumes v: "P05_valid cfg Length" and d: "unat Length \<le> length d"
    and a: "a = unat (p05_Offset cfg) div 8"
    and m: "P05_frame cfg c Length d = pre @ bs @ post"
    and burst: "burst_at a (a + 2) (unat Length) (length pre) (length bs)"
    and cs: "length bs \<le> 2" "length cs = length bs" "bs \<noteq> cs"
  shows "E2E_P05Check (Some cfg) (Some st) (Some (pre @ cs @ post)) Length =
    Some (E2E_E_OK, Some (st\<lparr>p05c_Status := E2E_P05STATUS_ERROR\<rparr>))"
proof -
  let ?m = "pre @ bs @ post" and ?m' = "pre @ cs @ post"
  let ?crc = "\<lambda>x. P05_crc cfg (covered a (a + 2) (unat Length) x)"
  let ?rx = "\<lambda>x. the (P05_ReadCRC x (P05_ComputeOffset cfg))"
  have len: "length ?m = length d" "length ?m' = length d"
    using length_P05_frame [OF v d, of c] cs(2) by (simp_all add: m)
  have b: "a + 3 \<le> length d" using P05_valid_bounds [OF v] d a by simp
  have rx: "?rx ?m = ?crc ?m"
    using P05_fields_frame [OF v d a, of c] by (simp add: m P05_fields_def Let_def)
  have rd: "?rx ?m = ?rx ?m' \<longleftrightarrow> field a (a + 2) ?m = field a (a + 2) ?m'"
    using b len by (intro P05_ReadCRC_field) (simp_all add: P05_offset a)
  have ab: "a \<le> a + 2" by simp
  have "?rx ?m' \<noteq> ?crc ?m'"
  proof (cases rule: burst_cases [OF burst ab cs(2), where post = post, case_names covered field])
    case (covered p q)
    then show ?thesis using P05_crc_burst [OF cs, of cfg p q] rx rd by simp
  next
    case field
    then show ?thesis using cs(3) rx rd by simp
  qed
  moreover obtain rc where "P05_fields cfg ?m' = (rc, ?rx ?m')"
    by (simp add: P05_fields_def Let_def)
  ultimately show ?thesis
    using P05_Check_valid [OF v _ _ a, of ?m' rc "?rx ?m'" st] d len
    by (simp add: P05_DoChecks_def)
qed

lemma P05_example_valid: "P05_valid P05_example 8"
  by (simp add: P05_example_def P05_valid_def P05_bad_length_def P05_bad_offset_def)

section \<open>Inputs\<close>

lemma P05_Protect_total:
  assumes "\<And>d. dp = Some d \<Longrightarrow> unat Length \<le> length d"
  shows "\<exists>sp' dp'. E2E_P05Protect cp sp dp Length = Some (P05_protect_code cp sp dp Length, sp', dp') \<and>
    (P05_protect_code cp sp dp Length \<noteq> E2E_E_OK \<longrightarrow> sp' = sp \<and> dp' = dp)"
proof (cases "P05_protect_code cp sp dp Length = E2E_E_OK")
  case True
  then obtain cfg st d where "cp = Some cfg" "sp = Some st" "dp = Some d" "P05_valid cfg Length"
    by (auto simp: P05_protect_code_def split: option.splits if_splits)
  then show ?thesis using P05_Protect_valid [of cfg Length d st] assms True by simp
qed (simp add: E2E_P05Protect_def P05_VerifyProtectInputs_code)

lemma P05_Check_total:
  assumes "\<And>d. dp = Some d \<Longrightarrow> unat Length \<le> length d"
  shows "\<exists>sp'. E2E_P05Check cp sp dp Length = Some (P05_check_code cp sp dp Length, sp') \<and>
    (P05_check_code cp sp dp Length \<noteq> E2E_E_OK \<longrightarrow> sp' = sp) \<and>
    (P05_check_code cp sp dp Length = E2E_E_OK \<and> dp = None \<longrightarrow>
       sp' = map_option (\<lambda>st. st\<lparr>p05c_Status := E2E_P05STATUS_NONEWDATA\<rparr>) sp)"
proof (cases "P05_check_code cp sp dp Length = E2E_E_OK")
  case ok: True
  then obtain cfg st where cs: "cp = Some cfg" "sp = Some st"
    by (auto simp: P05_check_code_def split: option.splits if_splits)
  show ?thesis
  proof (cases dp)
    case None
    then show ?thesis using ok cs
      by (simp add: E2E_P05Check_def P05_VerifyCheckInputs_code deref_def P05_DoChecks_def)
  next
    case (Some d)
    then have "P05_valid cfg Length" using ok cs by (simp add: P05_check_code_def split: if_splits)
    moreover obtain rc rx where "P05_fields cfg d = (rc, rx)" by (cases "P05_fields cfg d")
    ultimately show ?thesis using P05_Check_valid [of cfg Length d rc rx _ st] assms Some ok cs by simp
  qed
qed (simp add: E2E_P05Check_def P05_VerifyCheckInputs_code)

section \<open>Properties\<close>

text \<open>
  A profile 5 receiver judges an intact protected message by the distance of its counter from
  the last one, modulo 2^8: the sender's call succeeds, advances its counter and touches only the
  3 header bytes, and the receiver then reports REPEATED, OK, OKSOMELOST or WRONGSEQUENCE
  and adopts the message's counter.
\<close>

theorem p05_roundtrip:
  assumes "P05_valid cfg Length" "unat Length \<le> length d"
  shows "\<exists>m. E2E_P05Protect (Some cfg) (Some tx) (Some d) Length =
        Some (E2E_E_OK, Some (tx\<lparr>p05p_Counter := p05p_Counter tx + 1\<rparr>), Some m) \<and>
      length m = length d \<and>
      (\<forall>i < length d. i < unat (p05_Offset cfg) div 8 \<or> unat (p05_Offset cfg) div 8 + 3 \<le> i \<longrightarrow> m ! i = d ! i) \<and>
      E2E_P05Check (Some cfg) (Some rx) (Some m) Length =
        Some (E2E_E_OK, Some (rx\<lparr>p05c_Status := P05_judge cfg (p05c_Counter rx) (p05p_Counter tx),
          p05c_Counter := p05p_Counter tx\<rparr>))"
proof (intro exI conjI)
  show "E2E_P05Protect (Some cfg) (Some tx) (Some d) Length =
      Some (E2E_E_OK, Some (tx\<lparr>p05p_Counter := p05p_Counter tx + 1\<rparr>),
        Some (P05_frame cfg (p05p_Counter tx) Length d))"
    using assms by (rule P05_Protect_valid)
  show "\<forall>i < length d. i < unat (p05_Offset cfg) div 8 \<or> unat (p05_Offset cfg) div 8 + 3 \<le> i \<longrightarrow>
      P05_frame cfg (p05p_Counter tx) Length d ! i = d ! i"
    by (simp add: P05_frame_def Let_def splice_at_outside)
qed (use assms in \<open>simp_all add: P05_Check_frame\<close>)

theorem p05_roundtrip_witness:
  "\<exists>m. E2E_P05Protect (Some P05_example) (Some \<lparr>p05p_Counter = 3\<rparr>) (Some (replicate 8 7)) 8 =
       Some (E2E_E_OK, Some \<lparr>p05p_Counter = 4\<rparr>, Some m) \<and>
     E2E_P05Check (Some P05_example) (Some \<lparr>p05c_Status = E2E_P05STATUS_OK, p05c_Counter = 2\<rparr>) (Some m) 8 =
       Some (E2E_E_OK, Some \<lparr>p05c_Status = E2E_P05STATUS_OK, p05c_Counter = 3\<rparr>)"
  using p05_roundtrip [OF P05_example_valid, of "replicate 8 7" "\<lparr>p05p_Counter = 3\<rparr>"
      "\<lparr>p05c_Status = E2E_P05STATUS_OK, p05c_Counter = 2\<rparr>"]
  by (auto simp: P05_judge_def P05_example_def)

text \<open>
  A profile 5 receiver notices every corruption of a protected message that changes up to two
  adjacent bytes, before, inside or behind the CRC field: it reports ERROR and keeps its counter.
\<close>

theorem p05_corruption_detected:
  assumes "P05_valid cfg Length" "unat Length \<le> length d"
    and "E2E_P05Protect (Some cfg) (Some tx) (Some d) Length = Some (E2E_E_OK, tx', Some (pre @ bs @ post))"
    and "burst_at (unat (p05_Offset cfg) div 8) (unat (p05_Offset cfg) div 8 + 2) (unat Length)
      (length pre) (length bs)"
    and "length bs \<le> 2" "length cs = length bs" "bs \<noteq> cs"
  shows "E2E_P05Check (Some cfg) (Some rx) (Some (pre @ cs @ post)) Length =
    Some (E2E_E_OK, Some (rx\<lparr>p05c_Status := E2E_P05STATUS_ERROR\<rparr>))"
  using assms by (intro P05_Check_corrupted [OF _ _ refl, where c = "p05p_Counter tx" and d = d])
    (simp_all add: P05_Protect_valid)

theorem p05_corruption_detected_witness:
  "\<exists>m. E2E_P05Protect (Some P05_example) (Some \<lparr>p05p_Counter = 3\<rparr>) (Some (replicate 8 7)) 8 =
       Some (E2E_E_OK, Some \<lparr>p05p_Counter = 4\<rparr>, Some m) \<and>
     E2E_P05Check (Some P05_example) (Some \<lparr>p05c_Status = E2E_P05STATUS_OK, p05c_Counter = 2\<rparr>)
       (Some (take 5 m @ [m ! 5 XOR 1] @ drop 6 m)) 8 =
       Some (E2E_E_OK, Some \<lparr>p05c_Status = E2E_P05STATUS_ERROR, p05c_Counter = 2\<rparr>)"
proof -
  let ?m = "P05_frame P05_example 3 8 (replicate 8 7)"
  have p: "E2E_P05Protect (Some P05_example) (Some \<lparr>p05p_Counter = 3\<rparr>) (Some (replicate 8 7)) 8 =
      Some (E2E_E_OK, Some \<lparr>p05p_Counter = 4\<rparr>, Some ?m)"
    using P05_Protect_valid [OF P05_example_valid, of "replicate 8 7" "\<lparr>p05p_Counter = 3\<rparr>"] by simp
  have len: "length ?m = 8" using length_P05_frame [OF P05_example_valid, of "replicate 8 7"] by simp
  then have "?m = take 5 ?m @ [?m ! 5] @ drop 6 ?m" using id_take_nth_drop [of 5 ?m] by simp
  then show ?thesis
    using p05_corruption_detected [OF P05_example_valid, of "replicate 8 7" "\<lparr>p05p_Counter = 3\<rparr>"
        "Some \<lparr>p05p_Counter = 4\<rparr>" "take 5 ?m" "[?m ! 5]" "drop 6 ?m" "[?m ! 5 XOR 1]"
        "\<lparr>p05c_Status = E2E_P05STATUS_OK, p05c_Counter = 2\<rparr>"] p len
    by (intro exI [of _ ?m]) (simp add: burst_at_def P05_example_def)
qed

text \<open>
  The profile 5 functions refuse bad inputs and never leave the message: with a data object of
  at least Length bytes neither call faults; the return code is INPUTERR\_NULL for a missing pointer,
  INPUTERR\_WRONG for a configuration or length outside the limits and OK otherwise; a refused call
  changes nothing; a check without data reports NONEWDATA and keeps the counter.
\<close>

theorem p05_input_errors:
  assumes "\<And>d. dp = Some d \<Longrightarrow> unat Length \<le> length d"
  shows "(\<exists>sp' dp'. E2E_P05Protect cp sp dp Length = Some (P05_protect_code cp sp dp Length, sp', dp') \<and>
        (P05_protect_code cp sp dp Length \<noteq> E2E_E_OK \<longrightarrow> sp' = sp \<and> dp' = dp)) \<and>
    (\<exists>cs'. E2E_P05Check cp cs dp Length = Some (P05_check_code cp cs dp Length, cs') \<and>
        (P05_check_code cp cs dp Length \<noteq> E2E_E_OK \<longrightarrow> cs' = cs) \<and>
        (P05_check_code cp cs dp Length = E2E_E_OK \<and> dp = None \<longrightarrow>
           cs' = map_option (\<lambda>st. st\<lparr>p05c_Status := E2E_P05STATUS_NONEWDATA\<rparr>) cs))"
  by (intro conjI P05_Protect_total P05_Check_total assms)

theorem p05_input_errors_witness:
  "E2E_P05Check (Some P05_example) (Some \<lparr>p05c_Status = E2E_P05STATUS_OK, p05c_Counter = 2\<rparr>) None 0 =
     Some (E2E_E_OK, Some \<lparr>p05c_Status = E2E_P05STATUS_NONEWDATA, p05c_Counter = 2\<rparr>)"
  using p05_input_errors [of None 0 "Some P05_example" None
      "Some \<lparr>p05c_Status = E2E_P05STATUS_OK, p05c_Counter = 2\<rparr>"] P05_example_valid
  by (auto simp: P05_check_code_def P05_valid_def)

section \<open>The protected link\<close>

text \<open>Sender and receiver with the same configuration and message length keep the link contract.\<close>

interpretation p05_link: e2e_link
  "\<lambda>tx d. sent (E2E_P05Protect (Some cfg) (Some tx) (Some d) Length)"
  "\<lambda>rx d. received (E2E_P05Check (Some cfg) (Some rx) (Some d) Length)"
  "\<lambda>d. P05_valid cfg Length \<and> 1 \<le> p05_MaxDeltaCounter cfg \<and> unat Length \<le> length d"
  "\<lambda>tx rx. p05p_Counter tx = p05c_Counter rx + 1"
  "\<lambda>rx. p05c_Status rx = E2E_P05STATUS_OK"
  for cfg :: E2E_P05ConfigType and Length :: uint16
proof
  fix d :: "uint8 list" and tx :: E2E_P05ProtectStateType and rx :: E2E_P05CheckStateType
  assume msg: "P05_valid cfg Length \<and> 1 \<le> p05_MaxDeltaCounter cfg \<and> unat Length \<le> length d"
    and step: "p05p_Counter tx = p05c_Counter rx + 1"
  then have "P05_judge cfg (p05c_Counter rx) (p05p_Counter tx) = E2E_P05STATUS_OK"
    by (auto simp: P05_judge_def word_le_nat_alt)
  with msg step show "\<exists>tx' d' rx'.
      sent (E2E_P05Protect (Some cfg) (Some tx) (Some d) Length) = Some (tx', d') \<and>
      received (E2E_P05Check (Some cfg) (Some rx) (Some d') Length) = Some rx' \<and>
      p05c_Status rx' = E2E_P05STATUS_OK \<and> p05p_Counter tx' = p05c_Counter rx' + 1"
    by (simp add: P05_Protect_valid P05_Check_frame)
qed

end
