(* ===== verification/E2E_P06.thy ===== *)
theory E2E_P06
  imports E2E
begin

text \<open>
  End-to-end profile 6, \<^verbatim>\<open>core/system/E2E/E2E_P06.c\<close> and \<^verbatim>\<open>E2E_P06.h\<close>: a
  5-byte header of a big-endian CRC-16, the message length and an 8-bit counter, every header byte
  bit-reversed, at a byte offset of a message of variable length; the data ID enters the CRC behind
  the message, high byte first.

  The operations stand in the order of the source, the static ones with the prefix \<open>P06\<close>;
  \<open>P06_frame\<close> is the layout of a protected message. The lemmas show the same facts as for
  profile 5, and that the length field is checked too.
\<close>

section \<open>Definitions\<close>

datatype E2E_P06CheckStatusType =
    E2E_P06STATUS_OK
  | E2E_P06STATUS_NONEWDATA
  | E2E_P06STATUS_ERROR
  | E2E_P06STATUS_REPEATED
  | E2E_P06STATUS_OKSOMELOST
  | E2E_P06STATUS_WRONGSEQUENCE

record E2E_P06ConfigType =
  p06_Offset :: uint16
  p06_MinDataLength :: uint16
  p06_MaxDataLength :: uint16
  p06_DataID :: uint16
  p06_MaxDeltaCounter :: uint8

record E2E_P06ProtectStateType =
  p06p_Counter :: uint8

record E2E_P06CheckStateType =
  p06c_Status :: E2E_P06CheckStatusType
  p06c_Counter :: uint8

abbreviation (input) MAX_P06_COUNTER_VALUE :: nat where "MAX_P06_COUNTER_VALUE \<equiv> 255"
abbreviation (input) MAX_P06_DATA_LENGTH_IN_BITS :: nat where "MAX_P06_DATA_LENGTH_IN_BITS \<equiv> 32768"
abbreviation (input) MIN_P06_DATA_LENGTH_IN_BITS :: nat where "MIN_P06_DATA_LENGTH_IN_BITS \<equiv> 40"

text \<open>
  The two tests \<^verbatim>\<open>VerifyProtectInputs\<close> and \<^verbatim>\<open>VerifyCheckInputs\<close> share. The
  subtraction from \<^verbatim>\<open>Length*8\<close> is on C's \<^verbatim>\<open>int\<close> and may be negative.
\<close>

definition P06_bad_limits :: "E2E_P06ConfigType \<Rightarrow> bool" where
  "P06_bad_limits cfg \<longleftrightarrow>
     unat (p06_MinDataLength cfg) < MIN_P06_DATA_LENGTH_IN_BITS \<or>
     unat (p06_MaxDataLength cfg) < MIN_P06_DATA_LENGTH_IN_BITS \<or>
     unat (p06_MinDataLength cfg) > MAX_P06_DATA_LENGTH_IN_BITS \<or>
     unat (p06_MaxDataLength cfg) > MAX_P06_DATA_LENGTH_IN_BITS \<or>
     p06_MinDataLength cfg > p06_MaxDataLength cfg"

definition P06_bad_offset :: "E2E_P06ConfigType \<Rightarrow> uint16 \<Rightarrow> bool" where
  "P06_bad_offset cfg Length \<longleftrightarrow>
     unat (p06_Offset cfg) mod 8 \<noteq> 0 \<or>
     unat (p06_Offset cfg) > MAX_P06_DATA_LENGTH_IN_BITS - MIN_P06_DATA_LENGTH_IN_BITS \<or>
     int (unat (p06_Offset cfg)) > int (unat Length) * 8 - int MIN_P06_DATA_LENGTH_IN_BITS"

definition P06_VerifyProtectInputs ::
  "E2E_P06ConfigType ptr \<Rightarrow> E2E_P06ProtectStateType ptr \<Rightarrow> uint8 list ptr \<Rightarrow> uint16 \<Rightarrow> E2E_ReturnType" where
  "P06_VerifyProtectInputs ConfigPtr StatePtr DataPtr Length =
     (case (ConfigPtr, StatePtr, DataPtr) of
        (Some cfg, Some _, Some _) \<Rightarrow>
          if P06_bad_limits cfg then E2E_E_INPUTERR_WRONG
          else if P06_bad_offset cfg Length then E2E_E_INPUTERR_WRONG
          else if unat Length * 8 < unat (p06_MinDataLength cfg) \<or>
                  unat Length * 8 > unat (p06_MaxDataLength cfg) then E2E_E_INPUTERR_WRONG
          else E2E_E_OK
      | _ \<Rightarrow> E2E_E_INPUTERR_NULL)"

definition P06_ComputeOffset :: "E2E_P06ConfigType \<Rightarrow> uint16" where
  "P06_ComputeOffset cfg = of_nat (unat (p06_Offset cfg) div 8)"

definition P06_WriteLength :: "uint8 list \<Rightarrow> uint16 \<Rightarrow> uint16 \<Rightarrow> uint8 list ub" where
  "P06_WriteLength d offset Length =
     do { d \<leftarrow> wr d (unat offset + 2) (ChangeBitEndianness (ucast (drop_bit 8 (Length AND 0xFF00) AND 0xFF)));
          wr d (unat offset + 3) (ChangeBitEndianness (ucast ((Length AND 0x00FF) AND 0xFF))) }"

definition P06_WriteCounter ::
  "uint8 list \<Rightarrow> uint16 \<Rightarrow> E2E_P06ProtectStateType \<Rightarrow> uint8 list ub" where
  "P06_WriteCounter d offset st =
     wr d (unat offset + 4) (ChangeBitEndianness ((p06p_Counter st AND 0xFF) AND 0xFF))"

definition P06_ComputeCRC :: "uint8 list \<Rightarrow> uint16 \<Rightarrow> uint16 \<Rightarrow> uint16 \<Rightarrow> uint16 ub" where
  "P06_ComputeCRC d offset dataId Length =
     (let lengthBytes = Length - offset - 2 in
      do { crc \<leftarrow>
             (if 0 < offset
              then do { crc \<leftarrow> Crc_CalculateCRC16 CRC_16_MODE (Some d) (ucast offset) 0xFFFF True;
                        Crc_CalculateCRC16 CRC_16_MODE (Some (drop (unat offset + 2) d)) (ucast lengthBytes) crc False }
              else Crc_CalculateCRC16 CRC_16_MODE (Some (drop (unat offset + 2) d)) (ucast lengthBytes) 0xFFFF True);
           crc \<leftarrow> Crc_CalculateCRC16 CRC_16_MODE (Some [ucast (drop_bit 8 dataId AND 0xFF)]) 1 crc False;
           Crc_CalculateCRC16 CRC_16_MODE (Some [ucast (dataId AND 0xFF)]) 1 crc False })"

definition P06_WriteCRC :: "uint8 list \<Rightarrow> uint16 \<Rightarrow> uint16 \<Rightarrow> uint8 list ub" where
  "P06_WriteCRC d offset crc =
     do { d \<leftarrow> wr d (unat offset) (ChangeBitEndianness (ucast (drop_bit 8 (crc AND 0xFF00) AND 0xFF)));
          wr d (unat offset + 1) (ChangeBitEndianness (ucast ((crc AND 0x00FF) AND 0xFF))) }"

definition P06_IncrementCounter :: "E2E_P06ProtectStateType \<Rightarrow> E2E_P06ProtectStateType" where
  "P06_IncrementCounter st =
     st\<lparr>p06p_Counter := of_nat ((unat (p06p_Counter st) + 1) mod (MAX_P06_COUNTER_VALUE + 1))\<rparr>"

definition E2E_P06Protect ::
  "E2E_P06ConfigType ptr \<Rightarrow> E2E_P06ProtectStateType ptr \<Rightarrow> uint8 list ptr \<Rightarrow> uint16 \<Rightarrow>
   (E2E_ReturnType \<times> E2E_P06ProtectStateType ptr \<times> uint8 list ptr) ub" where
  "E2E_P06Protect ConfigPtr StatePtr DataPtr Length =
     (let returnValue = P06_VerifyProtectInputs ConfigPtr StatePtr DataPtr Length in
      if returnValue \<noteq> E2E_E_OK then Some (returnValue, StatePtr, DataPtr)
      else do {
        cfg \<leftarrow> deref ConfigPtr; st \<leftarrow> deref StatePtr; d \<leftarrow> deref DataPtr;
        let offset = P06_ComputeOffset cfg;
        d \<leftarrow> P06_WriteLength d offset Length;
        d \<leftarrow> P06_WriteCounter d offset st;
        crc \<leftarrow> P06_ComputeCRC d offset (p06_DataID cfg) Length;
        d \<leftarrow> P06_WriteCRC d offset crc;
        Some (E2E_E_OK, Some (P06_IncrementCounter st), Some d) })"

definition P06_VerifyCheckInputs ::
  "E2E_P06ConfigType ptr \<Rightarrow> E2E_P06CheckStateType ptr \<Rightarrow> uint8 list ptr \<Rightarrow> uint16 \<Rightarrow>
   E2E_ReturnType \<times> bool" where
  "P06_VerifyCheckInputs ConfigPtr StatePtr DataPtr Length =
     (case (ConfigPtr, StatePtr) of
        (Some cfg, Some _) \<Rightarrow>
          if P06_bad_limits cfg then (E2E_E_INPUTERR_WRONG, False)
          else if \<not> ((DataPtr \<noteq> None \<and> Length \<noteq> 0) \<or> (DataPtr = None \<and> Length = 0))
          then (E2E_E_INPUTERR_WRONG, False)
          else if DataPtr = None then (E2E_E_OK, False)
          else if P06_bad_offset cfg Length then (E2E_E_INPUTERR_WRONG, False)
          else if unat Length * 8 < unat (p06_MinDataLength cfg) \<or>
                  unat Length * 8 > unat (p06_MaxDataLength cfg) then (E2E_E_INPUTERR_WRONG, False)
          else (E2E_E_OK, True)
      | _ \<Rightarrow> (E2E_E_INPUTERR_NULL, False))"

definition P06_ReadLength :: "uint8 list \<Rightarrow> uint16 \<Rightarrow> uint16 ub" where
  "P06_ReadLength d offset =
     do { a \<leftarrow> rd d (unat offset + 2); b \<leftarrow> rd d (unat offset + 3);
          Some ((push_bit 8 (ucast (ChangeBitEndianness a)) AND 0xFF00) OR
                (ucast (ChangeBitEndianness b) AND 0x00FF)) }"

definition P06_ReadCounter :: "uint8 list \<Rightarrow> uint16 \<Rightarrow> uint8 ub" where
  "P06_ReadCounter d offset = do { a \<leftarrow> rd d (unat offset + 4); Some (ChangeBitEndianness a AND 0xFF) }"

definition P06_ReadCRC :: "uint8 list \<Rightarrow> uint16 \<Rightarrow> uint16 ub" where
  "P06_ReadCRC d offset =
     do { a \<leftarrow> rd d (unat offset); b \<leftarrow> rd d (unat offset + 1);
          Some ((push_bit 8 (ucast (ChangeBitEndianness a)) AND 0xFF00) OR
                (ucast (ChangeBitEndianness b) AND 0x00FF)) }"

definition P06_CalculateDeltaCounter :: "uint8 \<Rightarrow> uint8 \<Rightarrow> uint8" where
  "P06_CalculateDeltaCounter receivedCounter lastValidCounter =
     (if receivedCounter \<ge> lastValidCounter then receivedCounter - lastValidCounter
      else ucast (of_nat MAX_P06_COUNTER_VALUE + 1 + ucast receivedCounter - ucast lastValidCounter :: uint32))"

definition P06_DoChecks ::
  "E2E_P06CheckStateType \<Rightarrow> bool \<Rightarrow> E2E_P06ConfigType \<Rightarrow> uint16 \<Rightarrow> uint16 \<Rightarrow> uint16 \<Rightarrow> uint16 \<Rightarrow>
   uint8 \<Rightarrow> E2E_P06CheckStateType" where
  "P06_DoChecks st NewDataAvailable cfg receivedCRC computedCRC receivedLength Length receivedCounter =
     (if \<not> NewDataAvailable then st\<lparr>p06c_Status := E2E_P06STATUS_NONEWDATA\<rparr>
      else if receivedCRC \<noteq> computedCRC \<or> receivedLength \<noteq> Length
      then st\<lparr>p06c_Status := E2E_P06STATUS_ERROR\<rparr>
      else let deltaCounter = P06_CalculateDeltaCounter receivedCounter (p06c_Counter st);
               status = (if deltaCounter > p06_MaxDeltaCounter cfg then E2E_P06STATUS_WRONGSEQUENCE
                         else if deltaCounter = 0 then E2E_P06STATUS_REPEATED
                         else if deltaCounter = 1 then E2E_P06STATUS_OK
                         else E2E_P06STATUS_OKSOMELOST)
           in st\<lparr>p06c_Status := status, p06c_Counter := receivedCounter\<rparr>)"

definition E2E_P06Check ::
  "E2E_P06ConfigType ptr \<Rightarrow> E2E_P06CheckStateType ptr \<Rightarrow> uint8 list ptr \<Rightarrow> uint16 \<Rightarrow>
   (E2E_ReturnType \<times> E2E_P06CheckStateType ptr) ub" where
  "E2E_P06Check ConfigPtr StatePtr DataPtr Length =
     (let (returnValue, NewDataAvailable) = P06_VerifyCheckInputs ConfigPtr StatePtr DataPtr Length in
      if returnValue \<noteq> E2E_E_OK then Some (returnValue, StatePtr)
      else do {
        cfg \<leftarrow> deref ConfigPtr; st \<leftarrow> deref StatePtr;
        (receivedLength, receivedCounter, receivedCRC, computedCRC) \<leftarrow>
          (if NewDataAvailable then
             do { d \<leftarrow> deref DataPtr;
                  let offset = P06_ComputeOffset cfg;
                  receivedLength \<leftarrow> P06_ReadLength d offset;
                  receivedCounter \<leftarrow> P06_ReadCounter d offset;
                  receivedCRC \<leftarrow> P06_ReadCRC d offset;
                  computedCRC \<leftarrow> P06_ComputeCRC d offset (p06_DataID cfg) Length;
                  Some (receivedLength, receivedCounter, receivedCRC, computedCRC) }
           else Some (0, 0, 0, 0));
        Some (E2E_E_OK, Some (P06_DoChecks st NewDataAvailable cfg receivedCRC computedCRC
          receivedLength Length receivedCounter)) })"

definition E2E_P06ProtectInit ::
  "E2E_P06ProtectStateType ptr \<Rightarrow> E2E_ReturnType \<times> E2E_P06ProtectStateType ptr" where
  "E2E_P06ProtectInit StatePtr =
     (case StatePtr of None \<Rightarrow> (E2E_E_INPUTERR_NULL, None)
      | Some st \<Rightarrow> (E2E_E_OK, Some (st\<lparr>p06p_Counter := 0\<rparr>)))"

definition E2E_P06CheckInit ::
  "E2E_P06CheckStateType ptr \<Rightarrow> E2E_ReturnType \<times> E2E_P06CheckStateType ptr" where
  "E2E_P06CheckInit StatePtr =
     (case StatePtr of None \<Rightarrow> (E2E_E_INPUTERR_NULL, None)
      | Some st \<Rightarrow> (E2E_E_OK, Some (st\<lparr>p06c_Status := E2E_P06STATUS_ERROR, p06c_Counter := 0xFF\<rparr>)))"

definition E2E_P06MapStatusToSM ::
  "E2E_ReturnType \<Rightarrow> E2E_P06CheckStatusType \<Rightarrow> E2E_PCheckStatusType" where
  "E2E_P06MapStatusToSM CheckReturn Status =
     (if CheckReturn \<noteq> E2E_E_OK then E2E_P_ERROR
      else case Status of
        E2E_P06STATUS_OK \<Rightarrow> E2E_P_OK
      | E2E_P06STATUS_OKSOMELOST \<Rightarrow> E2E_P_OK
      | E2E_P06STATUS_REPEATED \<Rightarrow> E2E_P_REPEATED
      | E2E_P06STATUS_NONEWDATA \<Rightarrow> E2E_P_NONEWDATA
      | E2E_P06STATUS_WRONGSEQUENCE \<Rightarrow> E2E_P_WRONGSEQUENCE
      | _ \<Rightarrow> E2E_P_ERROR)"

section \<open>What a protected message is\<close>

text \<open>The inputs both sides accept, and the layout of a protected message.\<close>

definition P06_valid :: "E2E_P06ConfigType \<Rightarrow> uint16 \<Rightarrow> bool" where
  "P06_valid cfg Length \<longleftrightarrow>
     \<not> P06_bad_limits cfg \<and> \<not> P06_bad_offset cfg Length \<and>
     unat (p06_MinDataLength cfg) \<le> unat Length * 8 \<and> unat Length * 8 \<le> unat (p06_MaxDataLength cfg)"

definition P06_crc :: "E2E_P06ConfigType \<Rightarrow> uint8 list \<Rightarrow> uint16" where
  "P06_crc cfg bs = foldl (crc_upd CRC16_CCITT_POLYNOMIAL) CRC16_CCITT_START_VALUE (bs @ be16 (p06_DataID cfg))"

definition P06_header :: "uint8 \<Rightarrow> uint16 \<Rightarrow> uint8 list" where
  "P06_header Counter Length = map ChangeBitEndianness (be16 Length @ [Counter])"

definition P06_frame :: "E2E_P06ConfigType \<Rightarrow> uint8 \<Rightarrow> uint16 \<Rightarrow> uint8 list \<Rightarrow> uint8 list" where
  "P06_frame cfg Counter Length d =
     (let a = unat (p06_Offset cfg) div 8;
          h = P06_header Counter Length;
          c = P06_crc cfg (take a d @ h @ drop (a + 5) (take (unat Length) d))
      in splice_at a (map ChangeBitEndianness (be16 c) @ h) d)"

text \<open>How a receiver that last accepted counter \<open>r\<close> judges an intact message with counter \<open>c\<close>.\<close>

definition P06_judge :: "E2E_P06ConfigType \<Rightarrow> uint8 \<Rightarrow> uint8 \<Rightarrow> E2E_P06CheckStatusType" where
  "P06_judge cfg r c =
     (if c - r > p06_MaxDeltaCounter cfg then E2E_P06STATUS_WRONGSEQUENCE
      else if c = r then E2E_P06STATUS_REPEATED
      else if c = r + 1 then E2E_P06STATUS_OK
      else E2E_P06STATUS_OKSOMELOST)"

text \<open>What the receiver reads from a message whose header bytes it can reach.\<close>

definition P06_fields :: "E2E_P06ConfigType \<Rightarrow> uint8 list \<Rightarrow> uint16 \<times> uint8 \<times> uint16" where
  "P06_fields cfg d = (let off = P06_ComputeOffset cfg in
     (the (P06_ReadLength d off), the (P06_ReadCounter d off), the (P06_ReadCRC d off)))"

text \<open>The return codes, from the pointers and the configuration alone.\<close>

definition P06_protect_code ::
  "E2E_P06ConfigType ptr \<Rightarrow> 'st ptr \<Rightarrow> uint8 list ptr \<Rightarrow> uint16 \<Rightarrow> E2E_ReturnType" where
  "P06_protect_code cp sp dp Length =
     (case cp of None \<Rightarrow> E2E_E_INPUTERR_NULL
      | Some cfg \<Rightarrow> if sp = None \<or> dp = None then E2E_E_INPUTERR_NULL
                    else if P06_valid cfg Length then E2E_E_OK else E2E_E_INPUTERR_WRONG)"

definition P06_check_code ::
  "E2E_P06ConfigType ptr \<Rightarrow> 'st ptr \<Rightarrow> uint8 list ptr \<Rightarrow> uint16 \<Rightarrow> E2E_ReturnType" where
  "P06_check_code cp sp dp Length =
     (case cp of None \<Rightarrow> E2E_E_INPUTERR_NULL
      | Some cfg \<Rightarrow> if sp = None then E2E_E_INPUTERR_NULL
                    else if (if dp = None then Length = 0 \<and> \<not> P06_bad_limits cfg else P06_valid cfg Length)
                    then E2E_E_OK else E2E_E_INPUTERR_WRONG)"

text \<open>A configuration used in the examples: an 8-byte message with the header at its second byte.\<close>

definition P06_example :: E2E_P06ConfigType where
  "P06_example = \<lparr>p06_Offset = 8, p06_MinDataLength = 48, p06_MaxDataLength = 64, p06_DataID = 0x1234, p06_MaxDeltaCounter = 1\<rparr>"

section \<open>Helper lemmas\<close>

lemma P06_offset: "unat (P06_ComputeOffset cfg) = unat (p06_Offset cfg) div 8"
proof -
  have "unat (p06_Offset cfg) div 8 < 65536"
    by (rule le_less_trans [OF div_le_dividend unat_uint16_less])
  then show ?thesis by (simp add: P06_ComputeOffset_def unat_of_nat)
qed

lemma P06_valid_bounds:
  assumes "P06_valid cfg Length"
  shows "unat (p06_Offset cfg) div 8 + 5 \<le> unat Length" "unat Length \<le> 4096" "Length \<noteq> 0"
proof -
  show b: "unat (p06_Offset cfg) div 8 + 5 \<le> unat Length"
    using assms by (auto simp: P06_valid_def P06_bad_offset_def simp del: of_nat_unat)
  show "unat Length \<le> 4096"
    using assms by (auto simp: P06_valid_def P06_bad_limits_def)
  show "Length \<noteq> 0" using b by auto
qed

lemma P06_ComputeCRC_eq:
  assumes "a = unat offset" "a + 5 \<le> unat Length" "unat Length \<le> length d"
  shows "P06_ComputeCRC d offset (p06_DataID cfg) Length =
    Some (P06_crc cfg (covered a (a + 2) (unat Length) d))"
  using crc16_around_field [of a offset Length d CRC_16_MODE] assms
  unfolding P06_ComputeCRC_def Let_def by (simp add: crc16_byte P06_crc_def be16_def)

lemma length_P06_header [simp]: "length (P06_header c n) = 3"
  by (simp add: P06_header_def be16_def)

lemma P06_writes:
  assumes "a = unat offset" "a + 5 \<le> length d"
  shows "P06_WriteLength d offset Length = Some (splice_at (a + 2) (map ChangeBitEndianness (be16 Length)) d)"
    and "P06_WriteCounter (splice_at (a + 2) (map ChangeBitEndianness (be16 Length)) d) offset st =
      Some (splice_at (a + 2) (P06_header (p06p_Counter st) Length) d)"
    and "P06_WriteCRC d offset crc = Some (splice_at a (map ChangeBitEndianness (be16 crc)) d)"
  using assms by (simp_all add: P06_WriteLength_def P06_WriteCounter_def P06_WriteCRC_def P06_header_def
    wr_splice splice_at_extend be16_def)

lemma P06_IncrementCounter_eq:
  "P06_IncrementCounter st = st\<lparr>p06p_Counter := p06p_Counter st + 1\<rparr>"
  by (simp add: P06_IncrementCounter_def word_wrap_inc [where m = 256, simplified])

lemma P06_VerifyProtectInputs_code:
  "P06_VerifyProtectInputs cp sp dp Length = P06_protect_code cp sp dp Length"
  by (auto simp: P06_VerifyProtectInputs_def P06_protect_code_def P06_valid_def split: option.splits)

lemma P06_VerifyCheckInputs_code:
  "P06_VerifyCheckInputs cp sp dp Length =
   (P06_check_code cp sp dp Length, P06_check_code cp sp dp Length = E2E_E_OK \<and> dp \<noteq> None)"
  using P06_valid_bounds(3) [of "the cp" Length]
  by (auto simp: P06_VerifyCheckInputs_def P06_check_code_def P06_valid_def split: option.splits)

lemma P06_Protect_valid:
  assumes v: "P06_valid cfg Length" and d: "unat Length \<le> length d"
  shows "E2E_P06Protect (Some cfg) (Some st) (Some d) Length =
    Some (E2E_E_OK, Some (st\<lparr>p06p_Counter := p06p_Counter st + 1\<rparr>),
      Some (P06_frame cfg (p06p_Counter st) Length d))"
proof -
  let ?a = "unat (p06_Offset cfg) div 8"
  let ?h = "P06_header (p06p_Counter st) Length"
  have a: "?a + 5 \<le> unat Length" using P06_valid_bounds [OF v] by simp
  then have ad: "?a + 5 \<le> length d" using d by simp
  have crc: "P06_ComputeCRC (splice_at (?a + 2) ?h d) (P06_ComputeOffset cfg) (p06_DataID cfg) Length =
      Some (P06_crc cfg (take ?a d @ ?h @ drop (?a + 5) (take (unat Length) d)))"
    using a ad d covered_splice_behind [of ?a "?a + 2" ?h d "unat Length"]
    by (subst P06_ComputeCRC_eq [OF P06_offset [symmetric]]) (simp_all add: add.commute)
  show ?thesis
    using v ad crc
    by (simp add: E2E_P06Protect_def P06_VerifyProtectInputs_code P06_protect_code_def deref_def
      P06_IncrementCounter_eq P06_frame_def P06_writes [OF P06_offset [symmetric]] splice_at_front Let_def
      del: add_2_eq_Suc')
qed

lemma P06_delta: "P06_CalculateDeltaCounter c r = c - r"
proof (cases "r \<le> c")
  case False
  have down: "ucast (word_of_int k :: uint32) = (word_of_int k :: uint8)" for k
    by (rule ucast_down_wi) (simp add: is_down)
  have "256 + ucast c - ucast r = (word_of_int (256 + uint c - uint r) :: uint32)"
    by simp
  then have "ucast (256 + ucast c - ucast r :: uint32) = (word_of_int (256 + uint c - uint r) :: uint8)"
    by (simp only: down)
  also have "\<dots> = c - r" by simp
  finally have "ucast (255 + 1 + ucast c - ucast r :: uint32) = (c - r :: uint8)" by simp
  then show ?thesis using False by (simp add: P06_CalculateDeltaCounter_def)
qed (simp add: P06_CalculateDeltaCounter_def)

lemma P06_DoChecks_intact:
  "P06_DoChecks st True cfg crc crc Length Length c =
   st\<lparr>p06c_Status := P06_judge cfg (p06c_Counter st) c, p06c_Counter := c\<rparr>"
proof -
  have "c - r = 1 \<longleftrightarrow> c = r + 1" for r :: uint8 by (auto simp: algebra_simps)
  then show ?thesis by (simp add: P06_DoChecks_def P06_delta P06_judge_def)
qed

lemma length_P06_frame [simp]:
  "P06_valid cfg Length \<Longrightarrow> unat Length \<le> length d \<Longrightarrow> length (P06_frame cfg c Length d) = length d"
  using P06_valid_bounds [of cfg Length] by (simp add: P06_frame_def Let_def)

lemma P06_Check_valid:
  assumes v: "P06_valid cfg Length" and d: "unat Length \<le> length d"
    and f: "P06_fields cfg d = (rl, rc, rx)"
    and a: "a = unat (p06_Offset cfg) div 8"
  shows "E2E_P06Check (Some cfg) (Some st) (Some d) Length =
    Some (E2E_E_OK, Some (P06_DoChecks st True cfg rx (P06_crc cfg (covered a (a + 2) (unat Length) d)) rl Length rc))"
proof -
  have b: "a + 5 \<le> unat Length" "a + 5 \<le> length d" using P06_valid_bounds [OF v] d a by simp_all
  have crc: "P06_ComputeCRC d (P06_ComputeOffset cfg) (p06_DataID cfg) Length =
      Some (P06_crc cfg (covered a (a + 2) (unat Length) d))"
    using b d by (intro P06_ComputeCRC_eq) (simp_all add: P06_offset a)
  show ?thesis using f b crc v
    by (simp add: E2E_P06Check_def P06_VerifyCheckInputs_code P06_check_code_def deref_def P06_fields_def Let_def
      P06_ReadLength_def P06_ReadCounter_def P06_ReadCRC_def rd_Some P06_offset a)
qed

lemma P06_fields_frame:
  assumes v: "P06_valid cfg Length" and d: "unat Length \<le> length d"
    and a: "a = unat (p06_Offset cfg) div 8"
  shows "P06_fields cfg (P06_frame cfg c Length d) =
    (Length, c, P06_crc cfg (covered a (a + 2) (unat Length) (P06_frame cfg c Length d)))"
proof -
  have b: "a + 5 \<le> unat Length" "a + 5 \<le> length d" using P06_valid_bounds [OF v] d a by simp_all
  let ?x = "P06_crc cfg (take a d @ P06_header c Length @ drop (a + 5) (take (unat Length) d))"
  have fr: "P06_frame cfg c Length d = splice_at a (map ChangeBitEndianness (be16 ?x) @ P06_header c Length) d"
    by (simp add: P06_frame_def Let_def a)
  have cov: "covered a (a + 2) (unat Length) (P06_frame cfg c Length d) =
      take a d @ P06_header c Length @ drop (a + 5) (take (unat Length) d)"
    using covered_splice_front [of a "map ChangeBitEndianness (be16 ?x)" "P06_header c Length" d "unat Length"] b
    unfolding fr by (simp add: add.commute)
  show ?thesis unfolding cov unfolding fr
    using b by (simp add: P06_fields_def P06_ReadLength_def P06_ReadCounter_def P06_ReadCRC_def P06_offset
      a [symmetric] rd_splice P06_header_def be16_def join16)
qed

lemma P06_Check_frame:
  assumes "P06_valid cfg Length" and "unat Length \<le> length d"
  shows "E2E_P06Check (Some cfg) (Some st) (Some (P06_frame cfg c Length d)) Length =
    Some (E2E_E_OK, Some (st\<lparr>p06c_Status := P06_judge cfg (p06c_Counter st) c, p06c_Counter := c\<rparr>))"
  using assms by (subst P06_Check_valid [OF _ _ P06_fields_frame [OF _ _ refl] refl])
    (simp_all add: P06_DoChecks_intact)

section \<open>Corrupted messages\<close>

lemma P06_crc_burst:
  "length bs \<le> 2 \<Longrightarrow> length cs = length bs \<Longrightarrow> bs \<noteq> cs \<Longrightarrow>
   P06_crc cfg (p @ bs @ q) \<noteq> P06_crc cfg (p @ cs @ q)"
  using p16.reg.burst_detected [of bs cs CRC16_CCITT_START_VALUE p "q @ be16 (p06_DataID cfg)"] by (simp add: P06_crc_def)

lemma P06_ReadCRC_field:
  assumes "a = unat offset" "a + 5 \<le> length d" "a + 5 \<le> length d'"
  shows "the (P06_ReadCRC d offset) = the (P06_ReadCRC d' offset) \<longleftrightarrow>
    field a (a + 2) d = field a (a + 2) d'"
  using assms
  by (auto simp: P06_ReadCRC_def rd_Some join16_inject field_nth2)

lemma P06_Check_corrupted:
  assumes v: "P06_valid cfg Length" and d: "unat Length \<le> length d"
    and a: "a = unat (p06_Offset cfg) div 8"
    and m: "P06_frame cfg c Length d = pre @ bs @ post"
    and burst: "burst_at a (a + 2) (unat Length) (length pre) (length bs)"
    and cs: "length bs \<le> 2" "length cs = length bs" "bs \<noteq> cs"
  shows "E2E_P06Check (Some cfg) (Some st) (Some (pre @ cs @ post)) Length =
    Some (E2E_E_OK, Some (st\<lparr>p06c_Status := E2E_P06STATUS_ERROR\<rparr>))"
proof -
  let ?m = "pre @ bs @ post" and ?m' = "pre @ cs @ post"
  let ?crc = "\<lambda>x. P06_crc cfg (covered a (a + 2) (unat Length) x)"
  let ?rx = "\<lambda>x. the (P06_ReadCRC x (P06_ComputeOffset cfg))"
  have len: "length ?m = length d" "length ?m' = length d"
    using length_P06_frame [OF v d, of c] cs(2) by (simp_all add: m)
  have b: "a + 5 \<le> length d" using P06_valid_bounds [OF v] d a by simp
  have rx: "?rx ?m = ?crc ?m"
    using P06_fields_frame [OF v d a, of c] by (simp add: m P06_fields_def Let_def)
  have rd: "?rx ?m = ?rx ?m' \<longleftrightarrow> field a (a + 2) ?m = field a (a + 2) ?m'"
    using b len by (intro P06_ReadCRC_field) (simp_all add: P06_offset a)
  have ab: "a \<le> a + 2" by simp
  have "?rx ?m' \<noteq> ?crc ?m'"
  proof (cases rule: burst_cases [OF burst ab cs(2), where post = post, case_names covered field])
    case (covered p q)
    then show ?thesis using P06_crc_burst [OF cs, of cfg p q] rx rd by simp
  next
    case field
    then show ?thesis using cs(3) rx rd by simp
  qed
  moreover obtain rl rc where "P06_fields cfg ?m' = (rl, rc, ?rx ?m')"
    by (simp add: P06_fields_def Let_def)
  ultimately show ?thesis
    using P06_Check_valid [OF v _ _ a, of ?m' rl rc "?rx ?m'" st] d len
    by (simp add: P06_DoChecks_def)
qed

lemma P06_example_valid: "P06_valid P06_example 8"
  by (simp add: P06_example_def P06_valid_def P06_bad_limits_def P06_bad_offset_def)

section \<open>Inputs\<close>

lemma P06_Protect_total:
  assumes "\<And>d. dp = Some d \<Longrightarrow> unat Length \<le> length d"
  shows "\<exists>sp' dp'. E2E_P06Protect cp sp dp Length = Some (P06_protect_code cp sp dp Length, sp', dp') \<and>
    (P06_protect_code cp sp dp Length \<noteq> E2E_E_OK \<longrightarrow> sp' = sp \<and> dp' = dp)"
proof (cases "P06_protect_code cp sp dp Length = E2E_E_OK")
  case True
  then obtain cfg st d where "cp = Some cfg" "sp = Some st" "dp = Some d" "P06_valid cfg Length"
    by (auto simp: P06_protect_code_def split: option.splits if_splits)
  then show ?thesis using P06_Protect_valid [of cfg Length d st] assms True by simp
qed (simp add: E2E_P06Protect_def P06_VerifyProtectInputs_code)

lemma P06_Check_total:
  assumes "\<And>d. dp = Some d \<Longrightarrow> unat Length \<le> length d"
  shows "\<exists>sp'. E2E_P06Check cp sp dp Length = Some (P06_check_code cp sp dp Length, sp') \<and>
    (P06_check_code cp sp dp Length \<noteq> E2E_E_OK \<longrightarrow> sp' = sp) \<and>
    (P06_check_code cp sp dp Length = E2E_E_OK \<and> dp = None \<longrightarrow>
       sp' = map_option (\<lambda>st. st\<lparr>p06c_Status := E2E_P06STATUS_NONEWDATA\<rparr>) sp)"
proof (cases "P06_check_code cp sp dp Length = E2E_E_OK")
  case ok: True
  then obtain cfg st where cs: "cp = Some cfg" "sp = Some st"
    by (auto simp: P06_check_code_def split: option.splits if_splits)
  show ?thesis
  proof (cases dp)
    case None
    then show ?thesis using ok cs
      by (simp add: E2E_P06Check_def P06_VerifyCheckInputs_code deref_def P06_DoChecks_def)
  next
    case (Some d)
    then have "P06_valid cfg Length" using ok cs by (simp add: P06_check_code_def split: if_splits)
    moreover obtain rl rc rx where "P06_fields cfg d = (rl, rc, rx)" by (cases "P06_fields cfg d")
    ultimately show ?thesis using P06_Check_valid [of cfg Length d rl rc rx _ st] assms Some ok cs by simp
  qed
qed (simp add: E2E_P06Check_def P06_VerifyCheckInputs_code)

section \<open>Properties\<close>

text \<open>
  A profile 6 receiver judges an intact protected message by the distance of its counter from
  the last one, modulo 2^8: the sender's call succeeds, advances its counter and touches only the
  5 header bytes, and the receiver then reports REPEATED, OK, OKSOMELOST or WRONGSEQUENCE
  and adopts the message's counter.
\<close>

theorem p06_roundtrip:
  assumes "P06_valid cfg Length" "unat Length \<le> length d"
  shows "\<exists>m. E2E_P06Protect (Some cfg) (Some tx) (Some d) Length =
        Some (E2E_E_OK, Some (tx\<lparr>p06p_Counter := p06p_Counter tx + 1\<rparr>), Some m) \<and>
      length m = length d \<and>
      (\<forall>i < length d. i < unat (p06_Offset cfg) div 8 \<or> unat (p06_Offset cfg) div 8 + 5 \<le> i \<longrightarrow> m ! i = d ! i) \<and>
      E2E_P06Check (Some cfg) (Some rx) (Some m) Length =
        Some (E2E_E_OK, Some (rx\<lparr>p06c_Status := P06_judge cfg (p06c_Counter rx) (p06p_Counter tx),
          p06c_Counter := p06p_Counter tx\<rparr>))"
proof (intro exI conjI)
  show "E2E_P06Protect (Some cfg) (Some tx) (Some d) Length =
      Some (E2E_E_OK, Some (tx\<lparr>p06p_Counter := p06p_Counter tx + 1\<rparr>),
        Some (P06_frame cfg (p06p_Counter tx) Length d))"
    using assms by (rule P06_Protect_valid)
  show "\<forall>i < length d. i < unat (p06_Offset cfg) div 8 \<or> unat (p06_Offset cfg) div 8 + 5 \<le> i \<longrightarrow>
      P06_frame cfg (p06p_Counter tx) Length d ! i = d ! i"
    by (simp add: P06_frame_def Let_def splice_at_outside)
qed (use assms in \<open>simp_all add: P06_Check_frame\<close>)

theorem p06_roundtrip_witness:
  "\<exists>m. E2E_P06Protect (Some P06_example) (Some \<lparr>p06p_Counter = 3\<rparr>) (Some (replicate 8 7)) 8 =
       Some (E2E_E_OK, Some \<lparr>p06p_Counter = 4\<rparr>, Some m) \<and>
     E2E_P06Check (Some P06_example) (Some \<lparr>p06c_Status = E2E_P06STATUS_OK, p06c_Counter = 2\<rparr>) (Some m) 8 =
       Some (E2E_E_OK, Some \<lparr>p06c_Status = E2E_P06STATUS_OK, p06c_Counter = 3\<rparr>)"
  using p06_roundtrip [OF P06_example_valid, of "replicate 8 7" "\<lparr>p06p_Counter = 3\<rparr>"
      "\<lparr>p06c_Status = E2E_P06STATUS_OK, p06c_Counter = 2\<rparr>"]
  by (auto simp: P06_judge_def P06_example_def)

text \<open>
  A profile 6 receiver notices every corruption of a protected message that changes up to two
  adjacent bytes, before, inside or behind the CRC field: it reports ERROR and keeps its counter.
\<close>

theorem p06_corruption_detected:
  assumes "P06_valid cfg Length" "unat Length \<le> length d"
    and "E2E_P06Protect (Some cfg) (Some tx) (Some d) Length = Some (E2E_E_OK, tx', Some (pre @ bs @ post))"
    and "burst_at (unat (p06_Offset cfg) div 8) (unat (p06_Offset cfg) div 8 + 2) (unat Length)
      (length pre) (length bs)"
    and "length bs \<le> 2" "length cs = length bs" "bs \<noteq> cs"
  shows "E2E_P06Check (Some cfg) (Some rx) (Some (pre @ cs @ post)) Length =
    Some (E2E_E_OK, Some (rx\<lparr>p06c_Status := E2E_P06STATUS_ERROR\<rparr>))"
  using assms by (intro P06_Check_corrupted [OF _ _ refl, where c = "p06p_Counter tx" and d = d])
    (simp_all add: P06_Protect_valid)

theorem p06_corruption_detected_witness:
  "\<exists>m. E2E_P06Protect (Some P06_example) (Some \<lparr>p06p_Counter = 3\<rparr>) (Some (replicate 8 7)) 8 =
       Some (E2E_E_OK, Some \<lparr>p06p_Counter = 4\<rparr>, Some m) \<and>
     E2E_P06Check (Some P06_example) (Some \<lparr>p06c_Status = E2E_P06STATUS_OK, p06c_Counter = 2\<rparr>)
       (Some (take 5 m @ [m ! 5 XOR 1] @ drop 6 m)) 8 =
       Some (E2E_E_OK, Some \<lparr>p06c_Status = E2E_P06STATUS_ERROR, p06c_Counter = 2\<rparr>)"
proof -
  let ?m = "P06_frame P06_example 3 8 (replicate 8 7)"
  have p: "E2E_P06Protect (Some P06_example) (Some \<lparr>p06p_Counter = 3\<rparr>) (Some (replicate 8 7)) 8 =
      Some (E2E_E_OK, Some \<lparr>p06p_Counter = 4\<rparr>, Some ?m)"
    using P06_Protect_valid [OF P06_example_valid, of "replicate 8 7" "\<lparr>p06p_Counter = 3\<rparr>"] by simp
  have len: "length ?m = 8" using length_P06_frame [OF P06_example_valid, of "replicate 8 7"] by simp
  then have "?m = take 5 ?m @ [?m ! 5] @ drop 6 ?m" using id_take_nth_drop [of 5 ?m] by simp
  then show ?thesis
    using p06_corruption_detected [OF P06_example_valid, of "replicate 8 7" "\<lparr>p06p_Counter = 3\<rparr>"
        "Some \<lparr>p06p_Counter = 4\<rparr>" "take 5 ?m" "[?m ! 5]" "drop 6 ?m" "[?m ! 5 XOR 1]"
        "\<lparr>p06c_Status = E2E_P06STATUS_OK, p06c_Counter = 2\<rparr>"] p len
    by (intro exI [of _ ?m]) (simp add: burst_at_def P06_example_def)
qed

text \<open>
  The profile 6 functions refuse bad inputs and never leave the message: with a data object of
  at least Length bytes neither call faults; the return code is INPUTERR\_NULL for a missing pointer,
  INPUTERR\_WRONG for a configuration or length outside the limits and OK otherwise; a refused call
  changes nothing; a check without data reports NONEWDATA and keeps the counter.
\<close>

theorem p06_input_errors:
  assumes "\<And>d. dp = Some d \<Longrightarrow> unat Length \<le> length d"
  shows "(\<exists>sp' dp'. E2E_P06Protect cp sp dp Length = Some (P06_protect_code cp sp dp Length, sp', dp') \<and>
        (P06_protect_code cp sp dp Length \<noteq> E2E_E_OK \<longrightarrow> sp' = sp \<and> dp' = dp)) \<and>
    (\<exists>cs'. E2E_P06Check cp cs dp Length = Some (P06_check_code cp cs dp Length, cs') \<and>
        (P06_check_code cp cs dp Length \<noteq> E2E_E_OK \<longrightarrow> cs' = cs) \<and>
        (P06_check_code cp cs dp Length = E2E_E_OK \<and> dp = None \<longrightarrow>
           cs' = map_option (\<lambda>st. st\<lparr>p06c_Status := E2E_P06STATUS_NONEWDATA\<rparr>) cs))"
  by (intro conjI P06_Protect_total P06_Check_total assms)

theorem p06_input_errors_witness:
  "E2E_P06Check (Some P06_example) (Some \<lparr>p06c_Status = E2E_P06STATUS_OK, p06c_Counter = 2\<rparr>) None 0 =
     Some (E2E_E_OK, Some \<lparr>p06c_Status = E2E_P06STATUS_NONEWDATA, p06c_Counter = 2\<rparr>)"
  using p06_input_errors [of None 0 "Some P06_example" None
      "Some \<lparr>p06c_Status = E2E_P06STATUS_OK, p06c_Counter = 2\<rparr>"] P06_example_valid
  by (auto simp: P06_check_code_def P06_valid_def)

section \<open>The protected link\<close>

text \<open>Sender and receiver with the same configuration and message length keep the link contract.\<close>

interpretation p06_link: e2e_link
  "\<lambda>tx d. sent (E2E_P06Protect (Some cfg) (Some tx) (Some d) Length)"
  "\<lambda>rx d. received (E2E_P06Check (Some cfg) (Some rx) (Some d) Length)"
  "\<lambda>d. P06_valid cfg Length \<and> 1 \<le> p06_MaxDeltaCounter cfg \<and> unat Length \<le> length d"
  "\<lambda>tx rx. p06p_Counter tx = p06c_Counter rx + 1"
  "\<lambda>rx. p06c_Status rx = E2E_P06STATUS_OK"
  for cfg :: E2E_P06ConfigType and Length :: uint16
proof
  fix d :: "uint8 list" and tx :: E2E_P06ProtectStateType and rx :: E2E_P06CheckStateType
  assume msg: "P06_valid cfg Length \<and> 1 \<le> p06_MaxDeltaCounter cfg \<and> unat Length \<le> length d"
    and step: "p06p_Counter tx = p06c_Counter rx + 1"
  then have "P06_judge cfg (p06c_Counter rx) (p06p_Counter tx) = E2E_P06STATUS_OK"
    by (auto simp: P06_judge_def word_le_nat_alt)
  with msg step show "\<exists>tx' d' rx'.
      sent (E2E_P06Protect (Some cfg) (Some tx) (Some d) Length) = Some (tx', d') \<and>
      received (E2E_P06Check (Some cfg) (Some rx) (Some d') Length) = Some rx' \<and>
      p06c_Status rx' = E2E_P06STATUS_OK \<and> p06p_Counter tx' = p06c_Counter rx' + 1"
    by (simp add: P06_Protect_valid P06_Check_frame)
qed

end
