(* ===== verification/E2E_SM.thy ===== *)
theory E2E_SM
  imports E2E
begin

text \<open>
  The communication state machine of the end-to-end library, \<^verbatim>\<open>core/system/E2E/E2E_SM.c\<close> and
  \<^verbatim>\<open>E2E_SM.h\<close>: a ring buffer of the last profile statuses, the counts of OK and ERROR in it,
  and the five channel states.

  \<^item> The first part holds the operations of the source on the ring buffer.
  \<^item> \<open>sm_trans\<close> is what the machine promises: a step relation on the state and the plain list of
    the last \<open>WindowSize\<close> statuses, oldest first. \<open>sm_hist\<close> reads that list out of the ring buffer
    and \<open>sm_wf\<close> says that the buffer is in order.
  \<^item> The locale \<open>channel_monitor\<close> states the interface: initialise, step, and what the two
    keep and refine; its client lemmas lift the step to sequences of statuses. The C model
    is an interpretation of it.
\<close>

section \<open>Definitions\<close>

datatype E2E_SMStateType = E2E_SM_VALID | E2E_SM_DEINIT | E2E_SM_NODATA | E2E_SM_INIT | E2E_SM_INVALID

record E2E_SMConfigType =
  sm_WindowSize :: uint8
  sm_MinOkStateInit :: uint8
  sm_MaxErrorStateInit :: uint8
  sm_MinOkStateValid :: uint8
  sm_MaxErrorStateValid :: uint8
  sm_MinOkStateInvalid :: uint8
  sm_MaxErrorStateInvalid :: uint8

record E2E_SMCheckStateType =
  sm_ProfileStatusWindow :: "uint8 list ptr"
  sm_WindowTopIndex :: uint8
  sm_OkCount :: uint8
  sm_ErrorCount :: uint8
  sm_SMState :: E2E_SMStateType

text \<open>The casts \<^verbatim>\<open>(uint8)E2E_P_OK\<close> and so on.\<close>

fun pcode :: "E2E_PCheckStatusType \<Rightarrow> uint8" where
  "pcode E2E_P_OK = 0"
| "pcode E2E_P_REPEATED = 1"
| "pcode E2E_P_WRONGSEQUENCE = 2"
| "pcode E2E_P_ERROR = 3"
| "pcode E2E_P_NOTAVAILABLE = 4"
| "pcode E2E_P_NONEWDATA = 5"

text \<open>The loops over the window; \<open>i\<close> is the loop counter, the first argument the rounds left.\<close>

fun sm_clear_loop :: "nat \<Rightarrow> nat \<Rightarrow> uint8 list ptr \<Rightarrow> uint8 list ptr ub" where
  "sm_clear_loop 0 i wp = Some wp"
| "sm_clear_loop (Suc n) i wp =
     do { w \<leftarrow> deref wp; w \<leftarrow> wr w i (pcode E2E_P_NOTAVAILABLE); sm_clear_loop n (i + 1) (Some w) }"

fun sm_count_loop :: "uint8 \<Rightarrow> nat \<Rightarrow> nat \<Rightarrow> uint8 list ptr \<Rightarrow> uint8 \<Rightarrow> uint8 ub" where
  "sm_count_loop code 0 i wp count = Some count"
| "sm_count_loop code (Suc n) i wp count =
     do { w \<leftarrow> deref wp; x \<leftarrow> rd w i;
          sm_count_loop code n (i + 1) wp (if x = code then count + 1 else count) }"

definition E2E_SMClearStatus :: "E2E_SMCheckStateType \<Rightarrow> uint8 \<Rightarrow> E2E_SMCheckStateType ub" where
  "E2E_SMClearStatus st windowSize =
     do { wp \<leftarrow> sm_clear_loop (unat windowSize) 0 (sm_ProfileStatusWindow st);
          Some (st\<lparr>sm_ProfileStatusWindow := wp, sm_OkCount := 0, sm_ErrorCount := 0, sm_WindowTopIndex := 0\<rparr>) }"

definition E2E_SMAddStatus ::
  "E2E_PCheckStatusType \<Rightarrow> E2E_SMCheckStateType \<Rightarrow> uint8 \<Rightarrow> E2E_SMCheckStateType ub" where
  "E2E_SMAddStatus ProfileStatus st windowSize =
     do { w \<leftarrow> deref (sm_ProfileStatusWindow st);
          w \<leftarrow> wr w (unat (sm_WindowTopIndex st)) (pcode ProfileStatus);
          ok \<leftarrow> sm_count_loop (pcode E2E_P_OK) (unat windowSize) 0 (Some w) 0;
          err \<leftarrow> sm_count_loop (pcode E2E_P_ERROR) (unat windowSize) 0 (Some w) 0;
          Some (st\<lparr>sm_ProfileStatusWindow := Some w, sm_OkCount := ok, sm_ErrorCount := err,
            sm_WindowTopIndex := (if int (unat (sm_WindowTopIndex st)) \<ge> int (unat windowSize) - 1 then 0
                                  else sm_WindowTopIndex st + 1)\<rparr>) }"

definition E2E_SMCheck_NODATA :: "E2E_PCheckStatusType \<Rightarrow> E2E_SMCheckStateType \<Rightarrow> E2E_SMCheckStateType" where
  "E2E_SMCheck_NODATA ProfileStatus st =
     (if ProfileStatus \<noteq> E2E_P_ERROR \<and> ProfileStatus \<noteq> E2E_P_NONEWDATA
      then st\<lparr>sm_SMState := E2E_SM_INIT\<rparr> else st\<lparr>sm_SMState := E2E_SM_NODATA\<rparr>)"

definition E2E_SMCheck_INIT :: "E2E_SMConfigType \<Rightarrow> E2E_SMCheckStateType \<Rightarrow> E2E_SMCheckStateType" where
  "E2E_SMCheck_INIT cfg st =
     (if sm_ErrorCount st \<le> sm_MaxErrorStateInit cfg \<and> sm_OkCount st \<ge> sm_MinOkStateInit cfg
      then st\<lparr>sm_SMState := E2E_SM_VALID\<rparr>
      else if sm_ErrorCount st > sm_MaxErrorStateInit cfg then st\<lparr>sm_SMState := E2E_SM_INVALID\<rparr>
      else st\<lparr>sm_SMState := E2E_SM_INIT\<rparr>)"

definition E2E_SMCheck_VALID :: "E2E_SMConfigType \<Rightarrow> E2E_SMCheckStateType \<Rightarrow> E2E_SMCheckStateType" where
  "E2E_SMCheck_VALID cfg st =
     (if sm_ErrorCount st \<le> sm_MaxErrorStateValid cfg \<and> sm_OkCount st \<ge> sm_MinOkStateValid cfg
      then st\<lparr>sm_SMState := E2E_SM_VALID\<rparr> else st\<lparr>sm_SMState := E2E_SM_INVALID\<rparr>)"

definition E2E_SMCheck_INVALID :: "E2E_SMConfigType \<Rightarrow> E2E_SMCheckStateType \<Rightarrow> E2E_SMCheckStateType" where
  "E2E_SMCheck_INVALID cfg st =
     (if sm_ErrorCount st \<le> sm_MaxErrorStateInvalid cfg \<and> sm_OkCount st \<ge> sm_MinOkStateInvalid cfg
      then st\<lparr>sm_SMState := E2E_SM_VALID\<rparr> else st\<lparr>sm_SMState := E2E_SM_INVALID\<rparr>)"

definition E2E_SMCheck ::
  "E2E_PCheckStatusType \<Rightarrow> E2E_SMConfigType ptr \<Rightarrow> E2E_SMCheckStateType ptr \<Rightarrow>
   (E2E_ReturnType \<times> E2E_SMCheckStateType ptr) ub" where
  "E2E_SMCheck ProfileStatus ConfigPtr StatePtr =
     (if StatePtr = None \<or> ConfigPtr = None then Some (E2E_E_INPUTERR_NULL, StatePtr)
      else do {
        cfg \<leftarrow> deref ConfigPtr; st \<leftarrow> deref StatePtr;
        if sm_ProfileStatusWindow st = None \<and> sm_WindowSize cfg > 0 then Some (E2E_E_INPUTERR_WRONG, StatePtr)
        else case sm_SMState st of
            E2E_SM_DEINIT \<Rightarrow> Some (E2E_E_WRONGSTATE, StatePtr)
          | E2E_SM_NODATA \<Rightarrow> Some (E2E_E_OK, Some (E2E_SMCheck_NODATA ProfileStatus st))
          | E2E_SM_INIT \<Rightarrow>
              do { st \<leftarrow> E2E_SMAddStatus ProfileStatus st (sm_WindowSize cfg);
                   Some (E2E_E_OK, Some (E2E_SMCheck_INIT cfg st)) }
          | E2E_SM_VALID \<Rightarrow>
              do { st \<leftarrow> E2E_SMAddStatus ProfileStatus st (sm_WindowSize cfg);
                   Some (E2E_E_OK, Some (E2E_SMCheck_VALID cfg st)) }
          | E2E_SM_INVALID \<Rightarrow>
              do { st \<leftarrow> E2E_SMAddStatus ProfileStatus st (sm_WindowSize cfg);
                   Some (E2E_E_OK, Some (E2E_SMCheck_INVALID cfg st)) } })"

definition E2E_SMCheckInit ::
  "E2E_SMCheckStateType ptr \<Rightarrow> E2E_SMConfigType ptr \<Rightarrow> (E2E_ReturnType \<times> E2E_SMCheckStateType ptr) ub" where
  "E2E_SMCheckInit StatePtr ConfigPtr =
     (if StatePtr = None \<or> ConfigPtr = None then Some (E2E_E_INPUTERR_NULL, StatePtr)
      else do {
        cfg \<leftarrow> deref ConfigPtr; st \<leftarrow> deref StatePtr;
        if sm_ProfileStatusWindow st = None \<and> sm_WindowSize cfg > 0 then Some (E2E_E_INPUTERR_WRONG, StatePtr)
        else do {
          st \<leftarrow> E2E_SMClearStatus st (sm_WindowSize cfg);
          Some (E2E_E_OK, Some (st\<lparr>sm_SMState := E2E_SM_NODATA\<rparr>)) } })"

section \<open>What the machine promises\<close>

text \<open>The abstract machine: a channel state and the last statuses, oldest first.\<close>

type_synonym sm_abs = "E2E_SMStateType \<times> uint8 list"

definition sm_push :: "uint8 list \<Rightarrow> E2E_PCheckStatusType \<Rightarrow> uint8 list" where
  "sm_push h s = tl h @ [pcode s]"

definition sm_good :: "uint8 \<Rightarrow> uint8 \<Rightarrow> uint8 list \<Rightarrow> bool" where
  "sm_good maxErr minOk h \<longleftrightarrow>
     count_list h (pcode E2E_P_ERROR) \<le> unat maxErr \<and> unat minOk \<le> count_list h (pcode E2E_P_OK)"

inductive sm_trans :: "E2E_SMConfigType \<Rightarrow> sm_abs \<Rightarrow> E2E_PCheckStatusType \<Rightarrow> sm_abs \<Rightarrow> bool"
  for cfg :: E2E_SMConfigType where
  nodata_stay: "s = E2E_P_ERROR \<or> s = E2E_P_NONEWDATA \<Longrightarrow>
    sm_trans cfg (E2E_SM_NODATA, h) s (E2E_SM_NODATA, h)"
| nodata_init: "s \<noteq> E2E_P_ERROR \<Longrightarrow> s \<noteq> E2E_P_NONEWDATA \<Longrightarrow>
    sm_trans cfg (E2E_SM_NODATA, h) s (E2E_SM_INIT, h)"
| init_valid: "sm_good (sm_MaxErrorStateInit cfg) (sm_MinOkStateInit cfg) (sm_push h s) \<Longrightarrow>
    sm_trans cfg (E2E_SM_INIT, h) s (E2E_SM_VALID, sm_push h s)"
| init_invalid: "unat (sm_MaxErrorStateInit cfg) < count_list (sm_push h s) (pcode E2E_P_ERROR) \<Longrightarrow>
    sm_trans cfg (E2E_SM_INIT, h) s (E2E_SM_INVALID, sm_push h s)"
| init_stay: "count_list (sm_push h s) (pcode E2E_P_ERROR) \<le> unat (sm_MaxErrorStateInit cfg) \<Longrightarrow>
    count_list (sm_push h s) (pcode E2E_P_OK) < unat (sm_MinOkStateInit cfg) \<Longrightarrow>
    sm_trans cfg (E2E_SM_INIT, h) s (E2E_SM_INIT, sm_push h s)"
| valid_stay: "sm_good (sm_MaxErrorStateValid cfg) (sm_MinOkStateValid cfg) (sm_push h s) \<Longrightarrow>
    sm_trans cfg (E2E_SM_VALID, h) s (E2E_SM_VALID, sm_push h s)"
| valid_invalid: "\<not> sm_good (sm_MaxErrorStateValid cfg) (sm_MinOkStateValid cfg) (sm_push h s) \<Longrightarrow>
    sm_trans cfg (E2E_SM_VALID, h) s (E2E_SM_INVALID, sm_push h s)"
| invalid_valid: "sm_good (sm_MaxErrorStateInvalid cfg) (sm_MinOkStateInvalid cfg) (sm_push h s) \<Longrightarrow>
    sm_trans cfg (E2E_SM_INVALID, h) s (E2E_SM_VALID, sm_push h s)"
| invalid_stay: "\<not> sm_good (sm_MaxErrorStateInvalid cfg) (sm_MinOkStateInvalid cfg) (sm_push h s) \<Longrightarrow>
    sm_trans cfg (E2E_SM_INVALID, h) s (E2E_SM_INVALID, sm_push h s)"

inductive sm_path :: "E2E_SMConfigType \<Rightarrow> sm_abs \<Rightarrow> E2E_PCheckStatusType list \<Rightarrow> sm_abs \<Rightarrow> bool"
  for cfg :: E2E_SMConfigType where
  path_nil: "sm_path cfg a [] a"
| path_cons: "sm_trans cfg a s b \<Longrightarrow> sm_path cfg b ss c \<Longrightarrow> sm_path cfg a (s # ss) c"

text \<open>The history in the ring buffer, and when the buffer is in order.\<close>

definition sm_hist :: "E2E_SMConfigType \<Rightarrow> E2E_SMCheckStateType \<Rightarrow> uint8 list" where
  "sm_hist cfg st = (case sm_ProfileStatusWindow st of None \<Rightarrow> []
     | Some w \<Rightarrow> drop (unat (sm_WindowTopIndex st)) (take (unat (sm_WindowSize cfg)) w) @
                 take (unat (sm_WindowTopIndex st)) w)"

definition sm_abs :: "E2E_SMConfigType \<Rightarrow> E2E_SMCheckStateType \<Rightarrow> sm_abs" where
  "sm_abs cfg st = (sm_SMState st, sm_hist cfg st)"

definition sm_wf :: "E2E_SMConfigType \<Rightarrow> E2E_SMCheckStateType \<Rightarrow> bool" where
  "sm_wf cfg st \<longleftrightarrow> sm_SMState st \<noteq> E2E_SM_DEINIT \<and> 0 < sm_WindowSize cfg \<and>
     sm_WindowTopIndex st < sm_WindowSize cfg \<and>
     (\<exists>w. sm_ProfileStatusWindow st = Some w \<and> unat (sm_WindowSize cfg) \<le> length w) \<and>
     unat (sm_OkCount st) = count_list (sm_hist cfg st) (pcode E2E_P_OK) \<and>
     unat (sm_ErrorCount st) = count_list (sm_hist cfg st) (pcode E2E_P_ERROR)"

text \<open>A window full of OK satisfies every threshold, a window full of ERROR none.\<close>

definition sm_sane :: "E2E_SMConfigType \<Rightarrow> bool" where
  "sm_sane cfg \<longleftrightarrow> 0 < sm_WindowSize cfg \<and>
     sm_MinOkStateInit cfg \<le> sm_WindowSize cfg \<and> sm_MaxErrorStateInit cfg < sm_WindowSize cfg \<and>
     sm_MinOkStateValid cfg \<le> sm_WindowSize cfg \<and> sm_MaxErrorStateValid cfg < sm_WindowSize cfg \<and>
     sm_MinOkStateInvalid cfg \<le> sm_WindowSize cfg \<and> sm_MaxErrorStateInvalid cfg < sm_WindowSize cfg"

text \<open>A configuration and a state used in the examples.\<close>

definition sm_example :: E2E_SMConfigType where
  "sm_example = \<lparr>sm_WindowSize = 2, sm_MinOkStateInit = 1, sm_MaxErrorStateInit = 1,
     sm_MinOkStateValid = 1, sm_MaxErrorStateValid = 1, sm_MinOkStateInvalid = 1, sm_MaxErrorStateInvalid = 1\<rparr>"

definition sm_example_state :: E2E_SMCheckStateType where
  "sm_example_state = \<lparr>sm_ProfileStatusWindow = Some [4, 4], sm_WindowTopIndex = 0, sm_OkCount = 0,
     sm_ErrorCount = 0, sm_SMState = E2E_SM_INIT\<rparr>"

text \<open>A sequence of checks, as the caller makes them.\<close>

fun run_steps :: "('s \<Rightarrow> 'st \<Rightarrow> 'st ub) \<Rightarrow> 'st \<Rightarrow> 's list \<Rightarrow> 'st ub" where
  "run_steps step st [] = Some st"
| "run_steps step st (s # ss) = do { st \<leftarrow> step s st; run_steps step st ss }"

definition sm_run :: "E2E_SMConfigType \<Rightarrow> E2E_SMCheckStateType \<Rightarrow> E2E_PCheckStatusType list \<Rightarrow>
    E2E_SMCheckStateType ub" where
  "sm_run cfg st ss = run_steps (\<lambda>s st. received (E2E_SMCheck s (Some cfg) (Some st))) st ss"

section \<open>The contract of a channel monitor\<close>

locale channel_monitor =
  fixes cfg :: E2E_SMConfigType
    and step :: "E2E_PCheckStatusType \<Rightarrow> 'st \<Rightarrow> 'st ub"
    and abs :: "'st \<Rightarrow> sm_abs"
    and wf :: "'st \<Rightarrow> bool"
  assumes step_refines: "wf st \<Longrightarrow> \<exists>st'. step s st = Some st' \<and> wf st' \<and> sm_trans cfg (abs st) s (abs st')"
begin

lemma run_refines: "wf st \<Longrightarrow> \<exists>st'. run_steps step st ss = Some st' \<and> wf st' \<and> sm_path cfg (abs st) ss (abs st')"
proof (induction ss arbitrary: st)
  case Nil
  then show ?case by (simp add: path_nil)
next
  case (Cons s ss)
  from step_refines [OF Cons.prems, of s] obtain st1 where
    one: "step s st = Some st1" "wf st1" "sm_trans cfg (abs st) s (abs st1)" by auto
  from Cons.IH [OF one(2)] obtain st' where
    "run_steps step st1 ss = Some st'" "wf st'" "sm_path cfg (abs st1) ss (abs st')" by auto
  with one show ?case by (auto intro: path_cons)
qed

end

section \<open>The ring buffer\<close>

lemma sm_clear_loop_eq:
  "i + n \<le> length w \<Longrightarrow>
   sm_clear_loop n i (Some w) = Some (Some (take i w @ replicate n (pcode E2E_P_NOTAVAILABLE) @ drop (i + n) w))"
proof (induction n arbitrary: i w)
  case 0
  then show ?case by simp
next
  case (Suc n)
  let ?w = "w[i := pcode E2E_P_NOTAVAILABLE]"
  have t: "take (Suc i) ?w = take i w @ [pcode E2E_P_NOTAVAILABLE]"
    using Suc.prems by (simp add: take_Suc_conv_app_nth)
  have "sm_clear_loop (Suc n) i (Some w) = sm_clear_loop n (Suc i) (Some ?w)"
    using Suc.prems by (simp add: deref_def wr_Some)
  also have "\<dots> = Some (Some (take (Suc i) ?w @ replicate n (pcode E2E_P_NOTAVAILABLE) @ drop (Suc i + n) ?w))"
    using Suc.prems by (intro Suc.IH) simp
  finally show ?case unfolding t by simp
qed

lemma sm_count_loop_eq:
  "i + n \<le> length w \<Longrightarrow>
   sm_count_loop code n i (Some w) c = Some (c + of_nat (count_list (take n (drop i w)) code))"
proof (induction n arbitrary: i c)
  case 0
  then show ?case by simp
next
  case (Suc n)
  then have "take (Suc n) (drop i w) = w ! i # take n (drop (Suc i) w)"
    by (simp add: Cons_nth_drop_Suc [symmetric])
  with Suc show ?case by (simp add: deref_def rd_Some add.assoc)
qed

lemma count_list_rotate:
  "t \<le> n \<Longrightarrow> count_list (drop t (take n w) @ take t w) x = count_list (take n w) x"
proof -
  assume "t \<le> n"
  then have "take n w = take t w @ drop t (take n w)"
    by (metis append_take_drop_id min.absorb1 take_take)
  then have "count_list (take n w) x = count_list (take t w @ drop t (take n w)) x" by (rule arg_cong)
  then show ?thesis by (simp add: count_list_append)
qed

lemma unat_count: "n \<le> 255 \<Longrightarrow> unat (of_nat (count_list (take n w) x) :: uint8) = count_list (take n w) x"
proof -
  assume "n \<le> 255"
  moreover have "count_list (take n w) x \<le> length (take n w)" by (rule count_le_length)
  ultimately show ?thesis by (intro unat_of_nat_small) simp
qed

lemma sm_hist_push:
  assumes "t < n" "n \<le> length w"
  shows "drop (if n \<le> Suc t then 0 else Suc t) (take n (w[t := x])) @ take (if n \<le> Suc t then 0 else Suc t) (w[t := x]) =
    tl (drop t (take n w) @ take t w) @ [x]"
proof (cases "n \<le> Suc t")
  case True
  then have n: "n = Suc t" using assms by simp
  have t: "drop t (take (Suc t) w) = [w ! t]" using assms n by (simp add: take_Suc_conv_app_nth)
  have "take (Suc t) (w[t := x]) = take t w @ [x]" using assms n by (simp add: take_Suc_conv_app_nth)
  then show ?thesis using t by (simp add: n)
next
  case False
  have "drop t (take n w) = w ! t # drop (Suc t) (take n w)"
    using assms by (simp add: Cons_nth_drop_Suc [symmetric])
  moreover have "take (Suc t) (w[t := x]) = take t w @ [x]"
    using assms by (simp add: take_Suc_conv_app_nth)
  moreover have "drop (Suc t) (take n (w[t := x])) = drop (Suc t) (take n w)"
    by (simp add: drop_take)
  ultimately show ?thesis using False by simp
qed

lemma E2E_SMAddStatus_eq:
  assumes wf: "sm_wf cfg st"
  obtains st1 where "E2E_SMAddStatus s st (sm_WindowSize cfg) = Some st1"
    "sm_hist cfg st1 = sm_push (sm_hist cfg st) s" "sm_SMState st1 = sm_SMState st" "sm_wf cfg st1"
proof -
  let ?n = "unat (sm_WindowSize cfg)" and ?t = "unat (sm_WindowTopIndex st)"
  obtain w where w: "sm_ProfileStatusWindow st = Some w" "?n \<le> length w" "?t < ?n" "0 < ?n"
    using wf by (auto simp: sm_wf_def word_less_nat_alt)
  let ?w = "w[?t := pcode s]"
  let ?top = "if int ?t \<ge> int ?n - 1 then 0 else sm_WindowTopIndex st + 1"
  let ?st = "st\<lparr>sm_ProfileStatusWindow := Some ?w,
    sm_OkCount := of_nat (count_list (take ?n ?w) (pcode E2E_P_OK)),
    sm_ErrorCount := of_nat (count_list (take ?n ?w) (pcode E2E_P_ERROR)), sm_WindowTopIndex := ?top\<rparr>"
  have n255: "?n \<le> 255" using unat_uint8_less [of "sm_WindowSize cfg"] by linarith
  have inc: "unat (sm_WindowTopIndex st + 1) = Suc ?t" if "Suc ?t < ?n"
    using that n255 by (simp add: unat_word_ariths)
  have top: "unat ?top = (if ?n \<le> Suc ?t then 0 else Suc ?t)"
    using inc by (auto simp: not_le simp del: of_nat_unat)
  have "E2E_SMAddStatus s st (sm_WindowSize cfg) = Some ?st"
    using w by (simp add: E2E_SMAddStatus_def deref_def wr_Some sm_count_loop_eq)
  moreover have h: "sm_hist cfg ?st = sm_push (sm_hist cfg st) s"
    using sm_hist_push [OF w(3,2), of "pcode s"] w(1) top by (simp add: sm_hist_def sm_push_def del: of_nat_unat)
  moreover have "sm_wf cfg ?st"
  proof -
    have lt: "unat ?top < ?n" unfolding top using w(4) by simp
    have c: "count_list (sm_hist cfg ?st) x = count_list (take ?n ?w) x" for x
      unfolding sm_hist_def using lt count_list_rotate [of "unat ?top" ?n ?w x] by simp
    show ?thesis
      using wf w lt unat_count [OF n255, of ?w] unfolding sm_wf_def c
      by (simp add: word_less_nat_alt)
  qed
  ultimately show thesis using that by simp
qed

section \<open>Refinement\<close>

lemma sm_hist_state [simp]: "sm_hist cfg (st\<lparr>sm_SMState := x\<rparr>) = sm_hist cfg st"
  by (simp add: sm_hist_def split: option.split)

lemma sm_wf_state: "sm_wf cfg st \<Longrightarrow> x \<noteq> E2E_SM_DEINIT \<Longrightarrow> sm_wf cfg (st\<lparr>sm_SMState := x\<rparr>)"
  by (simp add: sm_wf_def)

lemma sm_good_counts:
  "sm_wf cfg st \<Longrightarrow> sm_good e k (sm_hist cfg st) \<longleftrightarrow> sm_ErrorCount st \<le> e \<and> k \<le> sm_OkCount st"
  by (simp add: sm_wf_def sm_good_def word_le_nat_alt)

lemma E2E_SMCheck_refines:
  assumes wf: "sm_wf cfg st"
  shows "\<exists>st'. E2E_SMCheck s (Some cfg) (Some st) = Some (E2E_E_OK, Some st') \<and> sm_wf cfg st' \<and>
    sm_trans cfg (sm_abs cfg st) s (sm_abs cfg st')"
proof (cases "sm_SMState st = E2E_SM_NODATA")
  case True
  then show ?thesis using wf
    by (auto simp: E2E_SMCheck_def deref_def E2E_SMCheck_NODATA_def sm_abs_def sm_wf_def sm_wf_state
      intro: nodata_stay nodata_init)
next
  case False
  obtain st1 where a: "E2E_SMAddStatus s st (sm_WindowSize cfg) = Some st1"
    "sm_hist cfg st1 = sm_push (sm_hist cfg st) s" "sm_SMState st1 = sm_SMState st" "sm_wf cfg st1"
    using E2E_SMAddStatus_eq [OF wf] .
  have w: "\<not> (sm_ProfileStatusWindow st = None \<and> sm_WindowSize cfg > 0)" "sm_SMState st \<noteq> E2E_SM_DEINIT"
    using wf by (auto simp: sm_wf_def)
  have g: "sm_good e k (sm_push (sm_hist cfg st) s) \<longleftrightarrow> sm_ErrorCount st1 \<le> e \<and> k \<le> sm_OkCount st1" for e k
    using sm_good_counts [OF a(4)] a(2) by simp
  have c: "count_list (sm_push (sm_hist cfg st) s) (pcode E2E_P_OK) = unat (sm_OkCount st1)"
    "count_list (sm_push (sm_hist cfg st) s) (pcode E2E_P_ERROR) = unat (sm_ErrorCount st1)"
    using a(2,4) by (simp_all add: sm_wf_def)
  show ?thesis
  proof (cases "sm_SMState st")
    case E2E_SM_INIT
    have "sm_trans cfg (E2E_SM_INIT, sm_hist cfg st) s
        (sm_SMState (E2E_SMCheck_INIT cfg st1), sm_push (sm_hist cfg st) s)"
      by (auto simp: E2E_SMCheck_INIT_def g c word_less_nat_alt not_less not_le word_le_nat_alt
        intro: init_valid init_invalid init_stay simp del: pcode.simps)
    then show ?thesis using w a E2E_SM_INIT
      by (auto simp: E2E_SMCheck_def deref_def sm_abs_def E2E_SMCheck_INIT_def sm_wf_state)
  next
    case E2E_SM_VALID
    have "sm_trans cfg (E2E_SM_VALID, sm_hist cfg st) s
        (sm_SMState (E2E_SMCheck_VALID cfg st1), sm_push (sm_hist cfg st) s)"
      by (auto simp: E2E_SMCheck_VALID_def g intro: valid_stay valid_invalid)
    then show ?thesis using w a E2E_SM_VALID
      by (auto simp: E2E_SMCheck_def deref_def sm_abs_def E2E_SMCheck_VALID_def sm_wf_state)
  next
    case E2E_SM_INVALID
    have "sm_trans cfg (E2E_SM_INVALID, sm_hist cfg st) s
        (sm_SMState (E2E_SMCheck_INVALID cfg st1), sm_push (sm_hist cfg st) s)"
      by (auto simp: E2E_SMCheck_INVALID_def g intro: invalid_valid invalid_stay)
    then show ?thesis using w a E2E_SM_INVALID
      by (auto simp: E2E_SMCheck_def deref_def sm_abs_def E2E_SMCheck_INVALID_def sm_wf_state)
  qed (use False w in simp_all)
qed

interpretation sm: channel_monitor cfg
  "\<lambda>s st. received (E2E_SMCheck s (Some cfg) (Some st))" "sm_abs cfg" "sm_wf cfg"
  for cfg :: E2E_SMConfigType
proof
  fix st s assume "sm_wf cfg st"
  from E2E_SMCheck_refines [OF this, of s]
  show "\<exists>st'. received (E2E_SMCheck s (Some cfg) (Some st)) = Some st' \<and> sm_wf cfg st' \<and>
      sm_trans cfg (sm_abs cfg st) s (sm_abs cfg st')" by auto
qed

lemma sm_run_refines:
  "sm_wf cfg st \<Longrightarrow> \<exists>st'. sm_run cfg st ss = Some st' \<and> sm_wf cfg st' \<and>
   sm_path cfg (sm_abs cfg st) ss (sm_abs cfg st')"
  unfolding sm_run_def by (rule sm.run_refines)

lemma E2E_SMCheckInit_eq:
  assumes "0 < sm_WindowSize cfg" "sm_ProfileStatusWindow st = Some w" "unat (sm_WindowSize cfg) \<le> length w"
  obtains st' where "E2E_SMCheckInit (Some st) (Some cfg) = Some (E2E_E_OK, Some st')" "sm_wf cfg st'"
    "sm_abs cfg st' = (E2E_SM_NODATA, replicate (unat (sm_WindowSize cfg)) (pcode E2E_P_NOTAVAILABLE))"
proof -
  let ?n = "unat (sm_WindowSize cfg)"
  let ?w = "replicate ?n (pcode E2E_P_NOTAVAILABLE) @ drop ?n w"
  let ?st = "st\<lparr>sm_ProfileStatusWindow := Some ?w, sm_OkCount := 0, sm_ErrorCount := 0,
    sm_WindowTopIndex := 0, sm_SMState := E2E_SM_NODATA\<rparr>"
  have "E2E_SMCheckInit (Some st) (Some cfg) = Some (E2E_E_OK, Some ?st)"
    using assms by (simp add: E2E_SMCheckInit_def E2E_SMClearStatus_def deref_def sm_clear_loop_eq)
  moreover have h: "sm_hist cfg ?st = replicate ?n (pcode E2E_P_NOTAVAILABLE)" by (simp add: sm_hist_def)
  have "count_list (replicate ?n (4 :: uint8)) x = 0" if "x \<noteq> 4" for x using that by (induction ?n) auto
  then have "sm_wf cfg ?st" unfolding sm_wf_def h using assms by simp
  ultimately show thesis using that h by (simp add: sm_abs_def)
qed

section \<open>Runs of equal statuses\<close>

inductive_cases sm_path_ConsE: "sm_path cfg a (s # ss) c"
inductive_cases sm_path_NilE: "sm_path cfg a [] c"

lemma sm_path_snoc:
  "sm_path cfg a (ss @ [s]) c \<longleftrightarrow> (\<exists>b. sm_path cfg a ss b \<and> sm_trans cfg b s c)"
proof (induction ss arbitrary: a)
  case Nil
  have "sm_path cfg a [s] c \<longleftrightarrow> sm_trans cfg a s c"
    by (auto elim!: sm_path_ConsE sm_path_NilE intro: path_cons path_nil)
  moreover have "sm_path cfg a [] b \<longleftrightarrow> b = a" for b by (auto elim: sm_path_NilE intro: path_nil)
  ultimately show ?case by simp
next
  case (Cons x ss)
  have step: "sm_path cfg a (x # xs) d \<longleftrightarrow> (\<exists>b. sm_trans cfg a x b \<and> sm_path cfg b xs d)" for xs d
    by (blast elim: sm_path_ConsE intro: path_cons)
  show ?case unfolding append_Cons step Cons.IH by blast
qed

lemma sm_trans_running:
  assumes "sm_trans cfg (q, h) s (q', h')" "q \<noteq> E2E_SM_NODATA"
  shows "h' = sm_push h s \<and> q' \<noteq> E2E_SM_NODATA"
  using assms by cases simp_all

lemma sm_path_hist:
  "sm_path cfg (q, h) ss (q', h') \<Longrightarrow> q \<noteq> E2E_SM_NODATA \<Longrightarrow> h \<noteq> [] \<Longrightarrow> length ss \<le> length h \<Longrightarrow>
   h' = drop (length ss) h @ map pcode ss \<and> q' \<noteq> E2E_SM_NODATA"
proof (induction ss arbitrary: q' h' rule: rev_induct)
  case Nil
  then show ?case by (auto elim: sm_path_NilE)
next
  case (snoc s ss)
  then obtain q1 h1 where p: "sm_path cfg (q, h) ss (q1, h1)" "sm_trans cfg (q1, h1) s (q', h')"
    by (auto simp: sm_path_snoc)
  with snoc have "h1 = drop (length ss) h @ map pcode ss" "q1 \<noteq> E2E_SM_NODATA" by auto
  with sm_trans_running [OF p(2)] snoc.prems(4) show ?case
    by (simp add: sm_push_def drop_Suc tl_drop)
qed

lemma sm_path_replicate:
  assumes "sm_path cfg (q, h) (replicate (length h) s) (q', h')" "q \<noteq> E2E_SM_NODATA" "h \<noteq> []"
  shows "h' = replicate (length h) (pcode s)"
  using sm_path_hist [OF assms] by simp

lemma count_list_replicate: "count_list (replicate n x) y = (if x = y then n else 0)"
  by (induction n) auto

lemma sm_full_window:
  assumes path: "sm_path cfg (q, h) (replicate (length h) s) (q', h')"
    and q: "q \<noteq> E2E_SM_NODATA" and h: "length h = unat (sm_WindowSize cfg)" and sane: "sm_sane cfg"
  shows "s = E2E_P_OK \<Longrightarrow> q' = E2E_SM_VALID" "s = E2E_P_ERROR \<Longrightarrow> q' = E2E_SM_INVALID"
proof -
  obtain m where m: "length h = Suc m" using h sane by (cases h) (auto simp: sm_sane_def word_less_nat_alt)
  then have ne: "h \<noteq> []" by auto
  have h': "h' = replicate (length h) (pcode s)" using sm_path_replicate [OF path q ne] .
  have "replicate (length h) s = replicate m s @ [s]" using m by (simp add: replicate_append_same)
  with path obtain q1 h1 where t: "sm_path cfg (q, h) (replicate m s) (q1, h1)" "sm_trans cfg (q1, h1) s (q', h')"
    by (auto simp: sm_path_snoc)
  then have "q1 \<noteq> E2E_SM_NODATA" using sm_path_hist [OF t(1) q ne] m by simp
  note running = this
  have len: "unat k \<le> length h" if "k \<le> sm_WindowSize cfg" for k using that h by (simp add: word_le_nat_alt)
  show "q' = E2E_SM_VALID" if ok: "s = E2E_P_OK"
  proof -
    have good: "sm_good e k h'" if "k \<le> sm_WindowSize cfg" for e k
      using len [OF that] ok by (simp add: h' sm_good_def count_list_replicate)
    have "count_list h' (pcode E2E_P_ERROR) = 0" by (simp add: h' ok count_list_replicate)
    with t(2) running sane good show ?thesis
      by cases (simp_all add: sm_sane_def sm_good_def not_le [symmetric])
  qed
  show "q' = E2E_SM_INVALID" if err: "s = E2E_P_ERROR"
  proof -
    have "count_list h' (pcode E2E_P_ERROR) = unat (sm_WindowSize cfg)"
      by (simp add: h' err count_list_replicate h)
    with t(2) running sane show ?thesis
      by cases (simp_all add: sm_sane_def sm_good_def word_less_nat_alt)
  qed
qed

lemma sm_run_full_window:
  assumes wf: "sm_wf cfg st" and q: "sm_SMState st \<noteq> E2E_SM_NODATA" and sane: "sm_sane cfg"
  obtains st' where "sm_run cfg st (replicate (unat (sm_WindowSize cfg)) s) = Some st'" "sm_wf cfg st'"
    "s = E2E_P_OK \<Longrightarrow> sm_SMState st' = E2E_SM_VALID" "s = E2E_P_ERROR \<Longrightarrow> sm_SMState st' = E2E_SM_INVALID"
proof -
  let ?n = "unat (sm_WindowSize cfg)"
  obtain st' where r: "sm_run cfg st (replicate ?n s) = Some st'" "sm_wf cfg st'"
    "sm_path cfg (sm_abs cfg st) (replicate ?n s) (sm_abs cfg st')"
    using sm_run_refines [OF wf, of "replicate ?n s"] by blast
  have len: "length (sm_hist cfg st) = ?n"
    using wf by (auto simp: sm_wf_def sm_hist_def word_less_nat_alt)
  have "sm_path cfg (sm_SMState st, sm_hist cfg st) (replicate (length (sm_hist cfg st)) s)
      (sm_SMState st', sm_hist cfg st')" using r(3) by (simp add: sm_abs_def len)
  from sm_full_window [OF this q len sane] r that show thesis by blast
qed

lemma run_steps_append:
  "run_steps step st (xs @ ys) = do { st \<leftarrow> run_steps step st xs; run_steps step st ys }"
  by (induction xs arbitrary: st) simp_all

lemma sm_path_running:
  "sm_path cfg a ss b \<Longrightarrow> fst a \<noteq> E2E_SM_NODATA \<Longrightarrow> fst b \<noteq> E2E_SM_NODATA"
proof (induction rule: sm_path.induct)
  case (path_cons a s b ss c)
  then show ?case using sm_trans_running [of cfg "fst a" "snd a" s "fst b" "snd b"] by simp
qed simp

text \<open>More OK statuses than the window holds make a fresh channel VALID.\<close>

lemma sm_run_all_ok:
  assumes wf: "sm_wf cfg st" and q: "sm_SMState st = E2E_SM_NODATA" and sane: "sm_sane cfg"
    and n: "unat (sm_WindowSize cfg) < n"
  obtains st' where "sm_run cfg st (replicate n E2E_P_OK) = Some st'" "sm_SMState st' = E2E_SM_VALID"
proof -
  let ?w = "unat (sm_WindowSize cfg)"
  have "replicate n E2E_P_OK = E2E_P_OK # replicate (n - Suc ?w) E2E_P_OK @ replicate ?w E2E_P_OK"
    using n by (simp add: replicate_add [symmetric] replicate_Suc [symmetric] del: replicate_Suc)
  moreover obtain st1 where one: "received (E2E_SMCheck E2E_P_OK (Some cfg) (Some st)) = Some st1" "sm_wf cfg st1"
    "sm_trans cfg (sm_abs cfg st) E2E_P_OK (sm_abs cfg st1)"
    using sm.step_refines [OF wf, of E2E_P_OK] by blast
  moreover have "sm_SMState st1 \<noteq> E2E_SM_NODATA"
    using one(3) q unfolding sm_abs_def by cases simp_all
  moreover obtain st2 where two: "sm_run cfg st1 (replicate (n - Suc ?w) E2E_P_OK) = Some st2" "sm_wf cfg st2"
    "sm_path cfg (sm_abs cfg st1) (replicate (n - Suc ?w) E2E_P_OK) (sm_abs cfg st2)"
    using sm_run_refines [OF one(2)] by blast
  ultimately have "sm_SMState st2 \<noteq> E2E_SM_NODATA"
    using sm_path_running [OF two(3)] by (simp add: sm_abs_def)
  with two(2) obtain st' where "sm_run cfg st2 (replicate ?w E2E_P_OK) = Some st'" "sm_SMState st' = E2E_SM_VALID"
    using sm_run_full_window [of cfg st2, OF _ _ sane, of E2E_P_OK] by blast
  then show thesis
    using \<open>replicate n E2E_P_OK = _\<close> one(1) two(1) that by (simp add: sm_run_def run_steps_append)
qed

section \<open>Properties\<close>

lemma sm_example_sane: "sm_sane sm_example" "0 < sm_WindowSize sm_example"
  by (simp_all add: sm_sane_def sm_example_def)

lemma sm_example_wf: "sm_wf sm_example sm_example_state"
  by (simp add: sm_wf_def sm_hist_def sm_example_def sm_example_state_def)

text \<open>
  C17: The communication state machine refines its abstract machine: on a ring buffer in order, every
  check succeeds, leaves the buffer in order, and its effect on the channel state and the list of the
  last WindowSize statuses is a transition of the abstract machine; and so is every sequence of checks.
\<close>

theorem sm_refinement:
  assumes "sm_wf cfg st"
  shows "(\<forall>s. \<exists>st'. E2E_SMCheck s (Some cfg) (Some st) = Some (E2E_E_OK, Some st') \<and> sm_wf cfg st' \<and>
      sm_trans cfg (sm_abs cfg st) s (sm_abs cfg st')) \<and>
    (\<forall>ss. \<exists>st'. sm_run cfg st ss = Some st' \<and> sm_wf cfg st' \<and> sm_path cfg (sm_abs cfg st) ss (sm_abs cfg st'))"
  using E2E_SMCheck_refines [OF assms] sm_run_refines [OF assms] by blast

theorem sm_refinement_witness:
  "\<exists>st'. sm_run sm_example sm_example_state [E2E_P_OK, E2E_P_ERROR] = Some st' \<and>
     sm_path sm_example (sm_abs sm_example sm_example_state) [E2E_P_OK, E2E_P_ERROR] (sm_abs sm_example st')"
  using sm_refinement [OF sm_example_wf] by blast

text \<open>
  C18: The state machine converges: with thresholds that fit the window, once it has left NODATA, a
  window of consecutive OK statuses makes the channel VALID and a window of consecutive ERROR
  statuses makes it INVALID, whatever the state before.
\<close>

theorem sm_convergence:
  assumes "sm_wf cfg st" "sm_SMState st \<noteq> E2E_SM_NODATA" "sm_sane cfg"
  shows "(\<exists>st'. sm_run cfg st (replicate (unat (sm_WindowSize cfg)) E2E_P_OK) = Some st' \<and>
      sm_SMState st' = E2E_SM_VALID) \<and>
    (\<exists>st'. sm_run cfg st (replicate (unat (sm_WindowSize cfg)) E2E_P_ERROR) = Some st' \<and>
      sm_SMState st' = E2E_SM_INVALID)"
  using sm_run_full_window [OF assms, of E2E_P_OK] sm_run_full_window [OF assms, of E2E_P_ERROR] by metis

theorem sm_convergence_witness:
  "\<exists>st'. sm_run sm_example sm_example_state [E2E_P_OK, E2E_P_OK] = Some st' \<and> sm_SMState st' = E2E_SM_VALID"
proof -
  have "unat (sm_WindowSize sm_example) = Suc (Suc 0)" by (simp add: sm_example_def)
  then have "replicate (unat (sm_WindowSize sm_example)) E2E_P_OK = [E2E_P_OK, E2E_P_OK]" by simp
  moreover have "sm_SMState sm_example_state \<noteq> E2E_SM_NODATA" by (simp add: sm_example_state_def)
  ultimately show ?thesis using sm_convergence [OF sm_example_wf _ sm_example_sane(1)] by metis
qed

text \<open>
  C19: A channel is VALID only on evidence: whenever a check leaves the machine in VALID, the window
  then holds at most the allowed number of ERROR and at least the required number of OK statuses
  of the state the check started in.
\<close>

theorem sm_valid_sound:
  assumes "sm_wf cfg st" "E2E_SMCheck s (Some cfg) (Some st) = Some (E2E_E_OK, Some st')"
    and "sm_SMState st' = E2E_SM_VALID"
  shows "case sm_SMState st of
      E2E_SM_INIT \<Rightarrow> sm_good (sm_MaxErrorStateInit cfg) (sm_MinOkStateInit cfg) (sm_hist cfg st')
    | E2E_SM_VALID \<Rightarrow> sm_good (sm_MaxErrorStateValid cfg) (sm_MinOkStateValid cfg) (sm_hist cfg st')
    | E2E_SM_INVALID \<Rightarrow> sm_good (sm_MaxErrorStateInvalid cfg) (sm_MinOkStateInvalid cfg) (sm_hist cfg st')
    | _ \<Rightarrow> False"
proof -
  have "sm_trans cfg (sm_SMState st, sm_hist cfg st) s (E2E_SM_VALID, sm_hist cfg st')"
    using E2E_SMCheck_refines [OF assms(1), of s] assms(2,3) by (auto simp: sm_abs_def)
  then show ?thesis by cases simp_all
qed

theorem sm_valid_sound_witness:
  "\<exists>st'. E2E_SMCheck E2E_P_OK (Some sm_example) (Some sm_example_state) = Some (E2E_E_OK, Some st') \<and>
     sm_SMState st' = E2E_SM_VALID \<and> sm_good 1 1 (sm_hist sm_example st')"
proof -
  let ?st = "sm_example_state\<lparr>sm_ProfileStatusWindow := Some [0, 4], sm_OkCount := 1,
    sm_WindowTopIndex := 1, sm_SMState := E2E_SM_VALID\<rparr>"
  have run: "E2E_SMCheck E2E_P_OK (Some sm_example) (Some sm_example_state) = Some (E2E_E_OK, Some ?st)"
    by (simp add: E2E_SMCheck_def E2E_SMAddStatus_def E2E_SMCheck_INIT_def deref_def rd_def wr_def
      sm_example_def sm_example_state_def sm_count_loop_eq)
  then show ?thesis
    using sm_valid_sound [OF sm_example_wf run] by (simp add: sm_example_state_def sm_example_def)
qed

text \<open>
  A window of size zero is not supported although the input check admits it: with a zero
  WindowSize and no window, a check in the states INIT, VALID and INVALID dereferences NULL, in every
  other state it returns; initialisation succeeds.
\<close>

theorem sm_zero_window:
  assumes "sm_WindowSize cfg = 0" "sm_ProfileStatusWindow st = None"
  shows "(E2E_SMCheck s (Some cfg) (Some st) = None \<longleftrightarrow>
      sm_SMState st \<in> {E2E_SM_INIT, E2E_SM_VALID, E2E_SM_INVALID}) \<and>
    (\<exists>st'. E2E_SMCheckInit (Some st) (Some cfg) = Some (E2E_E_OK, Some st') \<and> sm_SMState st' = E2E_SM_NODATA)"
  using assms by (auto simp: E2E_SMCheck_def E2E_SMAddStatus_def E2E_SMCheckInit_def E2E_SMClearStatus_def
    deref_def split: E2E_SMStateType.splits)

theorem sm_zero_window_witness:
  "E2E_SMCheck E2E_P_OK (Some (sm_example\<lparr>sm_WindowSize := 0\<rparr>))
     (Some (sm_example_state\<lparr>sm_ProfileStatusWindow := None\<rparr>)) = None"
  using sm_zero_window [of "sm_example\<lparr>sm_WindowSize := 0\<rparr>"
      "sm_example_state\<lparr>sm_ProfileStatusWindow := None\<rparr>" E2E_P_OK] by (simp add: sm_example_state_def)

end
