(* ===== verification/Os_Irq.thy ===== *)
theory Os_Irq
  imports Mcal_Prelude
begin

text \<open>
  The interrupt services of \<^verbatim>\<open>core/system/Os/include/Os.h\<close> that the modules use as exclusive
  areas: \<^verbatim>\<open>SuspendOSInterrupts\<close>, \<^verbatim>\<open>ResumeOSInterrupts\<close> and their \<^verbatim>\<open>All\<close> and \<^verbatim>\<open>Disable/Enable\<close>
  variants, over the two nesting counters and the interrupt mask of the core. The counters are
  \<^verbatim>\<open>int8_t\<close>; \<open>8 word\<close> has the same values modulo 256, and the code only compares them with 0
  and 1.
\<close>

section \<open>Definitions\<close>

text \<open>\<open>irq_on\<close> is the PRIMASK bit of the core that \<^verbatim>\<open>__disable_irq\<close> and \<^verbatim>\<open>__enable_irq\<close> write.\<close>

record Os_Int =
  Os_IntDisableAllCnt :: uint8
  Os_IntSuspendAllCnt :: uint8
  irq_on :: bool

definition Irq_Disable :: "Os_Int \<Rightarrow> Os_Int" where
  "Irq_Disable os = os\<lparr>irq_on := False\<rparr>"

definition Irq_Enable :: "Os_Int \<Rightarrow> Os_Int" where
  "Irq_Enable os = os\<lparr>irq_on := True\<rparr>"

text \<open>\<^verbatim>\<open>ASSERT(Os_IntDisableAllCnt==1)\<close> stops the program: \<open>None\<close>.\<close>

definition DisableAllInterrupts :: "Os_Int \<Rightarrow> Os_Int option" where
  "DisableAllInterrupts os =
     (let os = Irq_Disable os;
          os = os\<lparr>Os_IntDisableAllCnt := Os_IntDisableAllCnt os + 1\<rparr>
      in if Os_IntDisableAllCnt os = 1 then Some os else None)"

definition EnableAllInterrupts :: "Os_Int \<Rightarrow> Os_Int" where
  "EnableAllInterrupts os =
     (if Os_IntDisableAllCnt os = 0 then os
      else Irq_Enable (os\<lparr>Os_IntDisableAllCnt := Os_IntDisableAllCnt os - 1\<rparr>))"

definition SuspendOSInterrupts :: "Os_Int \<Rightarrow> Os_Int" where
  "SuspendOSInterrupts os =
     (let os = Irq_Disable os
      in os\<lparr>Os_IntSuspendAllCnt := Os_IntSuspendAllCnt os + 1\<rparr>)"

definition ResumeOSInterrupts :: "Os_Int \<Rightarrow> Os_Int" where
  "ResumeOSInterrupts os =
     (if Os_IntSuspendAllCnt os = 0 then os
      else let os = os\<lparr>Os_IntSuspendAllCnt := Os_IntSuspendAllCnt os - 1\<rparr>
           in if Os_IntSuspendAllCnt os = 0 then Irq_Enable os else os)"

definition SuspendAllInterrupts :: "Os_Int \<Rightarrow> Os_Int" where
  "SuspendAllInterrupts os =
     (let os = Irq_Disable os
      in os\<lparr>Os_IntSuspendAllCnt := Os_IntSuspendAllCnt os + 1\<rparr>)"

definition ResumeAllInterrupts :: "Os_Int \<Rightarrow> Os_Int" where
  "ResumeAllInterrupts os =
     (if Os_IntSuspendAllCnt os = 0 then os
      else let os = os\<lparr>Os_IntSuspendAllCnt := Os_IntSuspendAllCnt os - 1\<rparr>
           in if Os_IntSuspendAllCnt os = 0 then Irq_Enable os else os)"

text \<open>
  The states in which an exclusive area may be entered: interrupts are off exactly inside
  suspended sections, and the counter has room for one more nesting.
\<close>

definition irq_balanced :: "Os_Int \<Rightarrow> bool" where
  "irq_balanced os \<longleftrightarrow>
     (irq_on os \<longleftrightarrow> Os_IntSuspendAllCnt os = 0) \<and> Os_IntSuspendAllCnt os \<noteq> 0xFF"

text \<open>The state after start-up, with interrupts enabled.\<close>

definition Os_Int_Start :: "Os_Int" where
  "Os_Int_Start = \<lparr>Os_IntDisableAllCnt = 0, Os_IntSuspendAllCnt = 0, irq_on = True\<rparr>"

lemmas Os_Int_defs = Irq_Disable_def Irq_Enable_def DisableAllInterrupts_def EnableAllInterrupts_def
  SuspendOSInterrupts_def ResumeOSInterrupts_def SuspendAllInterrupts_def ResumeAllInterrupts_def

section \<open>Exclusive areas\<close>

lemma word8_inc_zero: "x + 1 = 0 \<longleftrightarrow> x = (0xFF :: uint8)"
proof
  assume "x + 1 = 0"
  then have "x = - 1" by (simp add: eq_neg_iff_add_eq_0)
  then show "x = 0xFF" by simp
qed simp

text \<open>A section that is entered and left gives back the interrupt state it found.\<close>

lemma suspend_resume [simp]:
  assumes "irq_balanced os"
  shows "ResumeOSInterrupts (SuspendOSInterrupts os) = os"
    and "ResumeAllInterrupts (SuspendAllInterrupts os) = os"
  using assms by (cases os, auto simp: Os_Int_defs irq_balanced_def word8_inc_zero Let_def)+

text \<open>Inside the section interrupts are off, whatever is nested in it.\<close>

lemma suspended_off [simp]: "\<not> irq_on (SuspendOSInterrupts os)"
  by (simp add: Os_Int_defs Let_def)

lemma Os_Int_Start_balanced [simp]: "irq_balanced Os_Int_Start"
  by (simp add: Os_Int_Start_def irq_balanced_def)

end
