(* ===== verification/Fifo.thy ===== *)
theory Fifo
  imports Mcal_Prelude
begin

text \<open>
  The contract of a bounded first-in first-out queue. The locale \<open>fifo\<close> fixes the operations a
  client calls and the laws a provider promises; inside it the behaviour of every sequence of
  calls is proved once to be that of the abstract queue \<open>fifo_spec\<close>, a plain list. The circular
  buffer and the message box interpret it.
\<close>

section \<open>Sequences of calls\<close>

datatype 'a fifo_op = Put 'a | Get

datatype 'a fifo_out = Accepted bool | Got "'a option"

text \<open>A sequence of calls on an implementation, which may fault.\<close>

fun fifo_run ::
  "('a \<Rightarrow> 's \<Rightarrow> (bool \<times> 's) ub) \<Rightarrow> ('s \<Rightarrow> ('a option \<times> 's) ub) \<Rightarrow>
   'a fifo_op list \<Rightarrow> 's \<Rightarrow> ('a fifo_out list \<times> 's) ub" where
  "fifo_run put get [] s = Some ([], s)"
| "fifo_run put get (Put x # ops) s = do {
     (ok, s) \<leftarrow> put x s;
     (outs, s) \<leftarrow> fifo_run put get ops s;
     Some (Accepted ok # outs, s) }"
| "fifo_run put get (Get # ops) s = do {
     (r, s) \<leftarrow> get s;
     (outs, s) \<leftarrow> fifo_run put get ops s;
     Some (Got r # outs, s) }"

text \<open>The abstract queue of capacity \<open>cap\<close>.\<close>

fun fifo_spec :: "nat \<Rightarrow> 'a fifo_op list \<Rightarrow> 'a list \<Rightarrow> 'a fifo_out list \<times> 'a list" where
  "fifo_spec cap [] q = ([], q)"
| "fifo_spec cap (Put x # ops) q =
     (let (outs, q') = fifo_spec cap ops (if length q < cap then q @ [x] else q)
      in (Accepted (length q < cap) # outs, q'))"
| "fifo_spec cap (Get # ops) q =
     (let (outs, q') = fifo_spec cap ops (tl q)
      in (Got (case q of [] \<Rightarrow> None | x # _ \<Rightarrow> Some x) # outs, q'))"

text \<open>What went in and what came out of a sequence of calls.\<close>

fun accepted :: "'a fifo_op list \<Rightarrow> 'a fifo_out list \<Rightarrow> 'a list" where
  "accepted (Put x # ops) (Accepted True # outs) = x # accepted ops outs"
| "accepted (op # ops) (out # outs) = accepted ops outs"
| "accepted _ _ = []"

fun delivered :: "'a fifo_out list \<Rightarrow> 'a list" where
  "delivered [] = []"
| "delivered (Got (Some x) # outs) = x # delivered outs"
| "delivered (_ # outs) = delivered outs"

section \<open>The abstract queue\<close>

text \<open>Nothing is lost, duplicated or reordered, and the capacity is respected.\<close>

lemma fifo_spec_order:
  "fifo_spec cap ops q = (outs, q') \<Longrightarrow> delivered outs @ q' = q @ accepted ops outs"
  by (induction cap ops q arbitrary: outs q' rule: fifo_spec.induct)
    (auto split: prod.splits if_splits list.splits)

lemma fifo_spec_capacity:
  "fifo_spec cap ops q = (outs, q') \<Longrightarrow> length q \<le> cap \<Longrightarrow> length q' \<le> cap"
  by (induction cap ops q arbitrary: outs q' rule: fifo_spec.induct)
    (auto split: prod.splits if_splits)

section \<open>The contract\<close>

locale fifo =
  fixes inv :: "'s \<Rightarrow> bool"
    and contents :: "'s \<Rightarrow> 'a list"
    and capacity :: "'s \<Rightarrow> nat"
    and fits :: "'s \<Rightarrow> 'a \<Rightarrow> bool"
    and put :: "'a \<Rightarrow> 's \<Rightarrow> (bool \<times> 's) ub"
    and get :: "'s \<Rightarrow> ('a option \<times> 's) ub"
  assumes put_law: "inv s \<Longrightarrow> fits s x \<Longrightarrow>
      \<exists>s'. put x s = Some (length (contents s) < capacity s, s') \<and> inv s' \<and>
        capacity s' = capacity s \<and> fits s' = fits s \<and>
        contents s' = (if length (contents s) < capacity s then contents s @ [x] else contents s)"
    and get_law: "inv s \<Longrightarrow>
      \<exists>s'. get s = Some (case contents s of [] \<Rightarrow> None | x # _ \<Rightarrow> Some x, s') \<and> inv s' \<and>
        capacity s' = capacity s \<and> fits s' = fits s \<and> contents s' = tl (contents s)"
begin

lemma run_refines:
  assumes "inv s" and "\<And>x. Put x \<in> set ops \<Longrightarrow> fits s x"
  shows "\<exists>outs s'. fifo_run put get ops s = Some (outs, s') \<and> inv s' \<and>
    capacity s' = capacity s \<and> fits s' = fits s \<and>
    fifo_spec (capacity s) ops (contents s) = (outs, contents s')"
  using assms
proof (induction ops arbitrary: s)
  case (Cons op ops)
  show ?case
  proof (cases op)
    case (Put x)
    obtain s1 where s1: "put x s = Some (length (contents s) < capacity s, s1)" "inv s1"
      "capacity s1 = capacity s" "fits s1 = fits s"
      "contents s1 = (if length (contents s) < capacity s then contents s @ [x] else contents s)"
      using put_law [OF Cons.prems(1), of x] Cons.prems(2) Put by auto
    obtain outs s' where "fifo_run put get ops s1 = Some (outs, s')" "inv s'"
      "capacity s' = capacity s1" "fits s' = fits s1"
      "fifo_spec (capacity s1) ops (contents s1) = (outs, contents s')"
      using Cons.IH [OF s1(2)] Cons.prems(2) s1(4) by (metis list.set_intros(2))
    then show ?thesis using Put s1 by simp
  next
    case Get
    obtain s1 where s1: "get s = Some (case contents s of [] \<Rightarrow> None | x # _ \<Rightarrow> Some x, s1)" "inv s1"
      "capacity s1 = capacity s" "fits s1 = fits s" "contents s1 = tl (contents s)"
      using get_law [OF Cons.prems(1)] by auto
    obtain outs s' where "fifo_run put get ops s1 = Some (outs, s')" "inv s'"
      "capacity s' = capacity s1" "fits s' = fits s1"
      "fifo_spec (capacity s1) ops (contents s1) = (outs, contents s')"
      using Cons.IH [OF s1(2)] Cons.prems(2) s1(4) by (metis list.set_intros(2))
    then show ?thesis using Get s1 by simp
  qed
qed simp

text \<open>Every sequence of calls delivers what it accepted, in order.\<close>

lemma run_in_order:
  assumes "inv s" and "contents s = []" and "\<And>x. Put x \<in> set ops \<Longrightarrow> fits s x"
  shows "\<exists>outs s'. fifo_run put get ops s = Some (outs, s') \<and> inv s' \<and>
    fifo_spec (capacity s) ops [] = (outs, contents s') \<and>
    delivered outs @ contents s' = accepted ops outs \<and> length (contents s') \<le> capacity s"
  using run_refines [OF assms(1,3)] fifo_spec_order [of "capacity s" ops "[]"]
    fifo_spec_capacity [of "capacity s" ops "[]"] assms(2)
  by (metis append_Nil le0 list.size(3))

end

end
