(* ===== verification/Cirq.thy ===== *)
theory Cirq
  imports Os_Irq Fifo
begin

text \<open>
  The circular buffer of \<^verbatim>\<open>core/common/cirq_buffer.c\<close> and the message box
  \<^verbatim>\<open>core/common/mbox.c\<close> built on it.

  The memory at \<open>bufStart\<close> is a list of bytes, and the other pointers of the structure are byte
  offsets from it, so \<^verbatim>\<open>(char *)p + n\<close> is \<open>p + n\<close> and pointer comparison is comparison of
  offsets. \<open>None\<close> is a \<^verbatim>\<open>NULL\<close> buffer. \<^verbatim>\<open>malloc\<close> is an argument of the functions that call it:
  it gives \<^verbatim>\<open>NULL\<close> or an object of the size that was asked for. Every \<^verbatim>\<open>memcpy\<close> is checked
  against both of its objects.
\<close>

section \<open>Definitions\<close>

record CirqBufferType =
  maxCnt :: uint32
  currCnt :: uint32
  dataSize :: uint32
  head :: nat
  tail :: nat
  bufStart :: "uint8 list ptr"
  bufEnd :: nat

text \<open>
  \<^verbatim>\<open>memcpy(dst + d, src + s, n)\<close> between two objects: reading or writing outside either is
  undefined.
\<close>

definition copy_bytes :: "uint8 list ptr \<Rightarrow> nat \<Rightarrow> uint8 list ptr \<Rightarrow> nat \<Rightarrow> nat \<Rightarrow> uint8 list ub" where
  "copy_bytes dst d src s n = do {
     dst \<leftarrow> deref dst;
     src \<leftarrow> deref src;
     if d + n \<le> length dst \<and> s + n \<le> length src
     then Some (take d dst @ take n (drop s src) @ drop (d + n) dst)
     else None }"

definition CirqBuff_Init ::
  "CirqBufferType \<Rightarrow> uint8 list ptr \<Rightarrow> uint32 \<Rightarrow> uint32 \<Rightarrow> CirqBufferType" where
  "CirqBuff_Init cirqbuffer buffer mx dsz = cirqbuffer\<lparr>
     bufStart := buffer, maxCnt := mx, bufEnd := unat (dsz * mx), head := 0, tail := 0,
     dataSize := dsz, currCnt := 0\<rparr>"

definition CirqBuffStatCreate :: "uint8 list ptr \<Rightarrow> uint32 \<Rightarrow> uint32 \<Rightarrow> CirqBufferType" where
  "CirqBuffStatCreate buffer mx dsz = \<lparr>
     maxCnt = mx, currCnt = 0, dataSize = dsz, head = 0, tail = 0,
     bufStart = buffer, bufEnd = unat (dsz * mx)\<rparr>"

text \<open>
  \<open>got_struct\<close> tells whether the first \<^verbatim>\<open>malloc\<close> succeeds, \<open>alloc\<close> is the second one. The result
  of the second is not tested.
\<close>

definition CirqBuffDynCreate ::
  "bool \<Rightarrow> (nat \<Rightarrow> uint8 list ptr) \<Rightarrow> uint32 \<Rightarrow> uint32 \<Rightarrow> CirqBufferType ptr" where
  "CirqBuffDynCreate got_struct alloc sz dsz =
     (if \<not> got_struct then None
      else Some \<lparr>maxCnt = sz, currCnt = 0, dataSize = dsz, head = 0, tail = 0,
                 bufStart = alloc (unat (dsz * sz)), bufEnd = unat (dsz * sz)\<rparr>)"

text \<open>Moving \<open>head\<close> or \<open>tail\<close> by one element, wrapping at the end of the buffer.\<close>

definition cirq_advance :: "CirqBufferType \<Rightarrow> nat \<Rightarrow> nat" where
  "cirq_advance c p =
     (let p = p + unat (dataSize c) in if p = bufEnd c then 0 else p)"

definition CirqBuffPush ::
  "Os_Int \<Rightarrow> CirqBufferType ptr \<Rightarrow> uint8 list ptr \<Rightarrow> (int \<times> CirqBufferType ptr \<times> Os_Int) ub" where
  "CirqBuffPush os cPtr dataPtr =
     (let os = SuspendOSInterrupts os in
      case cPtr of
        None \<Rightarrow> Some (1, cPtr, ResumeOSInterrupts os)
      | Some c \<Rightarrow>
          if currCnt c = maxCnt c then Some (1, cPtr, ResumeOSInterrupts os)
          else do {
            b \<leftarrow> copy_bytes (bufStart c) (head c) dataPtr 0 (unat (dataSize c));
            let c = c\<lparr>bufStart := Some b\<rparr>;
            let c = c\<lparr>head := cirq_advance c (head c)\<rparr>;
            let c = c\<lparr>currCnt := currCnt c + 1\<rparr>;
            Some (0, Some c, ResumeOSInterrupts os) })"

definition CirqBuffPop ::
  "Os_Int \<Rightarrow> CirqBufferType ptr \<Rightarrow> uint8 list ptr \<Rightarrow>
     (int \<times> CirqBufferType ptr \<times> uint8 list ptr \<times> Os_Int) ub" where
  "CirqBuffPop os cPtr dataPtr =
     (let os = SuspendOSInterrupts os in
      case cPtr of
        None \<Rightarrow> Some (1, cPtr, dataPtr, ResumeOSInterrupts os)
      | Some c \<Rightarrow>
          if currCnt c = 0 then Some (1, cPtr, dataPtr, ResumeOSInterrupts os)
          else do {
            d \<leftarrow> copy_bytes dataPtr 0 (bufStart c) (tail c) (unat (dataSize c));
            let c = c\<lparr>tail := cirq_advance c (tail c)\<rparr>;
            let c = c\<lparr>currCnt := currCnt c - 1\<rparr>;
            Some (0, Some c, Some d, ResumeOSInterrupts os) })"

definition CirqBuff_PushLock :: "CirqBufferType ptr \<Rightarrow> nat ptr \<times> CirqBufferType ptr" where
  "CirqBuff_PushLock cPtr =
     (case cPtr of
        None \<Rightarrow> (None, cPtr)
      | Some c \<Rightarrow>
          if currCnt c = maxCnt c then (None, cPtr)
          else (Some (head c), Some (c\<lparr>head := cirq_advance c (head c)\<rparr>)))"

definition CirqBuff_PopLock :: "CirqBufferType ptr \<Rightarrow> nat ptr \<times> CirqBufferType ptr" where
  "CirqBuff_PopLock cPtr =
     (case cPtr of
        None \<Rightarrow> (None, cPtr)
      | Some c \<Rightarrow>
          if currCnt c = 0 then (None, cPtr)
          else (Some (tail c), Some (c\<lparr>tail := cirq_advance c (tail c)\<rparr>)))"

definition CirqBuff_Peek :: "CirqBufferType ptr \<Rightarrow> uint32 \<Rightarrow> nat ptr" where
  "CirqBuff_Peek cPtr offset =
     (case cPtr of
        None \<Rightarrow> None
      | Some c \<Rightarrow>
          if currCnt c = 0 \<or> offset > currCnt c then None
          else Some ((cirq_advance c ^^ unat offset) (tail c)))"

definition CirqBuff_Empty :: "CirqBufferType ptr \<Rightarrow> bool ub" where
  "CirqBuff_Empty cPtr = do { c \<leftarrow> deref cPtr; Some (currCnt c = 0) }"

definition CirqBuff_Full :: "CirqBufferType ptr \<Rightarrow> bool ub" where
  "CirqBuff_Full cPtr = do { c \<leftarrow> deref cPtr; Some (currCnt c = maxCnt c) }"

definition CirqBuff_Size :: "CirqBufferType ptr \<Rightarrow> int ub" where
  "CirqBuff_Size cPtr = do { c \<leftarrow> deref cPtr; Some (sint (currCnt c)) }"

definition CirqBuff_PushRelease :: "CirqBufferType ptr \<Rightarrow> CirqBufferType ptr ub" where
  "CirqBuff_PushRelease cPtr =
     do { c \<leftarrow> deref cPtr; Some (Some (c\<lparr>currCnt := currCnt c + 1\<rparr>)) }"

definition CirqBuff_PopRelease :: "CirqBufferType ptr \<Rightarrow> CirqBufferType ptr ub" where
  "CirqBuff_PopRelease cPtr =
     do { c \<leftarrow> deref cPtr; Some (Some (c\<lparr>currCnt := currCnt c - 1\<rparr>)) }"

text \<open>The message box: a buffer of pointers, \<^verbatim>\<open>sizeof(void *)\<close> being 4 on the target.\<close>

record Arc_MBoxType =
  cirqPtr :: "CirqBufferType ptr"

definition Arc_MBoxCreate ::
  "bool \<Rightarrow> bool \<Rightarrow> (nat \<Rightarrow> uint8 list ptr) \<Rightarrow> uint32 \<Rightarrow> Arc_MBoxType ub" where
  "Arc_MBoxCreate got_mbox got_struct alloc sz =
     (if got_mbox then Some \<lparr>cirqPtr = CirqBuffDynCreate got_struct alloc sz 4\<rparr> else None)"

definition Arc_MBoxPost ::
  "Os_Int \<Rightarrow> Arc_MBoxType \<Rightarrow> uint8 list ptr \<Rightarrow> (int \<times> Arc_MBoxType \<times> Os_Int) ub" where
  "Arc_MBoxPost os mPtr msg = do {
     (rv, c, os) \<leftarrow> CirqBuffPush os (cirqPtr mPtr) msg;
     let status = (if rv \<noteq> 0 then 1 else 0);
     Some (status, mPtr\<lparr>cirqPtr := c\<rparr>, os) }"

definition Arc_MBoxFetch ::
  "Os_Int \<Rightarrow> Arc_MBoxType \<Rightarrow> uint8 list ptr \<Rightarrow>
     (int \<times> Arc_MBoxType \<times> uint8 list ptr \<times> Os_Int) ub" where
  "Arc_MBoxFetch os mPtr msg = do {
     (rv, c, msg, os) \<leftarrow> CirqBuffPop os (cirqPtr mPtr) msg;
     let status = (if rv \<noteq> 0 then 1 else 0);
     Some (status, mPtr\<lparr>cirqPtr := c\<rparr>, msg, os) }"

section \<open>The buffer as a queue of elements\<close>

text \<open>
  A well-formed buffer outside every lock/release pair: the element size and the capacity are
  positive, the memory holds them all, and \<open>head\<close> is \<open>currCnt\<close> elements after \<open>tail\<close>.
\<close>

definition cirq_wf :: "CirqBufferType \<Rightarrow> bool" where
  "cirq_wf c =
     (let d = unat (dataSize c); n = unat (maxCnt c); k = unat (currCnt c) in
      case bufStart c of
        None \<Rightarrow> False
      | Some b \<Rightarrow> 0 < d \<and> 0 < n \<and> bufEnd c = n * d \<and> n * d \<le> length b \<and> k \<le> n \<and>
          d dvd tail c \<and> tail c < n * d \<and> head c = (tail c div d + k) mod n * d)"

definition cirq_slot :: "CirqBufferType \<Rightarrow> nat \<Rightarrow> uint8 list" where
  "cirq_slot c i =
     (let d = unat (dataSize c) in take d (drop (i * d) (case bufStart c of None \<Rightarrow> [] | Some b \<Rightarrow> b)))"

definition cirq_queue :: "CirqBufferType \<Rightarrow> uint8 list list" where
  "cirq_queue c = map (\<lambda>i. cirq_slot c ((tail c div unat (dataSize c) + i) mod unat (maxCnt c)))
                      [0..<unat (currCnt c)]"

text \<open>The two calls as operations of a queue of elements, on a buffer and the interrupt state.\<close>

definition cirq_put :: "uint8 list \<Rightarrow> CirqBufferType \<times> Os_Int \<Rightarrow> (bool \<times> CirqBufferType \<times> Os_Int) ub" where
  "cirq_put x s = do {
     (rv, c, os) \<leftarrow> CirqBuffPush (snd s) (Some (fst s)) (Some x);
     c \<leftarrow> deref c;
     Some (rv = 0, c, os) }"

definition cirq_get :: "CirqBufferType \<times> Os_Int \<Rightarrow> (uint8 list option \<times> CirqBufferType \<times> Os_Int) ub" where
  "cirq_get s = do {
     (rv, c, d, os) \<leftarrow> CirqBuffPop (snd s) (Some (fst s)) (Some (replicate (unat (dataSize (fst s))) 0));
     c \<leftarrow> deref c;
     Some (if rv = 0 then d else None, c, os) }"

lemma slot_of_copy:
  assumes "length (x :: 'a list) = d" and "i \<noteq> j" and "j * d + d \<le> length b"
  shows "take d (drop (i * d) (take (j * d) b @ x @ drop (j * d + d) b)) = take d (drop (i * d) b)"
proof (cases "i < j")
  case True
  then have "Suc i * d \<le> j * d" by (intro mult_le_mono1) simp
  then have le: "i * d + d \<le> j * d" by simp
  then have "take d (drop (i * d) (take (j * d) b @ x @ drop (j * d + d) b)) =
      take d (drop (i * d) (take (j * d) b))"
    using assms(3) by simp
  also have "\<dots> = take d (drop (i * d) b)" using le by (simp add: drop_take)
  finally show ?thesis .
next
  case False
  then have "Suc j * d \<le> i * d" using assms(2) by (intro mult_le_mono1) simp
  then have "j * d + d \<le> i * d" by simp
  then obtain m where "i * d = j * d + d + m" using le_Suc_ex by blast
  then show ?thesis using assms(1,3) by (simp add: ac_simps)
qed

lemma slot_of_copy_same:
  assumes "length (x :: 'a list) = d" and "j * d + d \<le> length b"
  shows "take d (drop (j * d) (take (j * d) b @ x @ drop (j * d + d) b)) = x"
  using assms by simp

text \<open>Going round the buffer.\<close>

lemma advance_slot:
  assumes "bufEnd c = n * unat (dataSize c)" and "0 < unat (dataSize c)" and "i < n"
  shows "cirq_advance c (i * unat (dataSize c)) = Suc i mod n * unat (dataSize c)"
proof (cases "Suc i = n")
  case True
  then show ?thesis using assms by (auto simp: cirq_advance_def Let_def)
next
  case False
  then have "Suc i < n" using assms(3) by simp
  moreover from this have "Suc i * unat (dataSize c) \<noteq> n * unat (dataSize c)"
    using assms(2) by (metis mult_cancel2 nat_neq_iff)
  ultimately show ?thesis using assms by (auto simp: cirq_advance_def Let_def)
qed

lemma slot_in_buffer: "i < n \<Longrightarrow> n * d \<le> l \<Longrightarrow> i * d + d \<le> (l :: nat)"
proof -
  assume "i < n" and "n * d \<le> l"
  then have "Suc i * d \<le> n * d" by (intro mult_le_mono1) simp
  then show ?thesis using \<open>n * d \<le> l\<close> by simp
qed

lemma mod_add_neq: "i < k \<Longrightarrow> k < n \<Longrightarrow> (t + i) mod n \<noteq> (t + k) mod (n :: nat)"
proof
  assume "i < k" and "k < n" and "(t + i) mod n = (t + k) mod n"
  then have "(t + k - (t + i)) mod n = 0" by (metis mod_eq_dvd_iff_nat dvd_imp_mod_0 add_le_cancel_left less_imp_le)
  then show False using \<open>i < k\<close> \<open>k < n\<close> by simp
qed

lemma wf_E:
  assumes "cirq_wf c"
  obtains b t where "bufStart c = Some b" and "0 < unat (dataSize c)" and "0 < unat (maxCnt c)"
    and "bufEnd c = unat (maxCnt c) * unat (dataSize c)"
    and "unat (maxCnt c) * unat (dataSize c) \<le> length b"
    and "unat (currCnt c) \<le> unat (maxCnt c)" and "t < unat (maxCnt c)"
    and "tail c = t * unat (dataSize c)"
    and "head c = (t + unat (currCnt c)) mod unat (maxCnt c) * unat (dataSize c)"
proof -
  have *: "t * d < n * d \<longleftrightarrow> t < n" if "0 < d" for t d n :: nat using that by simp
  show ?thesis using assms that unfolding cirq_wf_def Let_def
    by (auto simp: dvd_def mult.commute split: option.splits)
qed

lemma unat_inc_below: "unat (k :: uint32) < unat (m :: uint32) \<Longrightarrow> unat (k + 1) = Suc (unat k)"
proof -
  assume "unat k < unat m"
  moreover have "unat m < 4294967296" using unsigned_less [of m] by simp
  ultimately have "unat k + 1 < 2 ^ LENGTH(32)" by simp
  then show ?thesis by (simp add: unat_word_ariths)
qed

lemma unat_dec_above: "k \<noteq> 0 \<Longrightarrow> unat (k - 1 :: uint32) = unat k - 1"
  by (simp add: unat_minus_one)

lemma length_queue [simp]: "length (cirq_queue c) = unat (currCnt c)"
  by (simp add: cirq_queue_def)

lemma push_full:
  assumes "cirq_wf c" and "irq_balanced os" and "unat (currCnt c) = unat (maxCnt c)"
  shows "CirqBuffPush os (Some c) x = Some (1, Some c, os)"
  using assms by (simp add: CirqBuffPush_def Let_def word_unat_eq_iff)

text \<open>A push into a buffer with room appends the element.\<close>

lemma push_room:
  assumes wf: "cirq_wf c" and os: "irq_balanced os" and room: "unat (currCnt c) < unat (maxCnt c)"
    and x: "unat (dataSize c) \<le> length x"
  shows "\<exists>c'. CirqBuffPush os (Some c) (Some x) = Some (0, Some c', os) \<and> cirq_wf c' \<and>
    maxCnt c' = maxCnt c \<and> dataSize c' = dataSize c \<and>
    cirq_queue c' = cirq_queue c @ [take (unat (dataSize c)) x]"
proof -
  define d n k where "d = unat (dataSize c)" and "n = unat (maxCnt c)" and "k = unat (currCnt c)"
  obtain b t where b: "bufStart c = Some b" and d0: "0 < d" and n0: "0 < n" and be: "bufEnd c = n * d"
    and len: "n * d \<le> length b" and t: "t < n" and tl: "tail c = t * d"
    and hd: "head c = (t + k) mod n * d"
    using wf unfolding d_def n_def k_def by (rule wf_E)
  define j where "j = (t + k) mod n"
  have j: "j < n" using n0 by (simp add: j_def)
  note fit = slot_in_buffer [OF j len]
  define b' where "b' = take (j * d) b @ take d x @ drop (j * d + d) b"
  define c' where "c' = c\<lparr>bufStart := Some b', head := Suc j mod n * d, currCnt := currCnt c + 1\<rparr>"
  have k1: "unat (currCnt c + 1) = Suc k" using unat_inc_below room unfolding k_def by blast
  have adv: "cirq_advance (c\<lparr>bufStart := Some b'\<rparr>) (j * d) = Suc j mod n * d"
    using advance_slot [of "c\<lparr>bufStart := Some b'\<rparr>" n j] be d0 j by (simp add: d_def)
  have ne: "currCnt c \<noteq> maxCnt c" using room by auto
  have len': "length b' = length b" using fit x by (simp add: b'_def d_def)
  have "CirqBuffPush os (Some c) (Some x) = Some (0, Some c', os)"
    using ne fit x os adv b hd unfolding CirqBuffPush_def j_def [symmetric]
    by (simp add: copy_bytes_def deref_def b'_def c'_def d_def Let_def)
  moreover have "cirq_wf c'"
    using b d0 n0 be len t tl room k1 len'
    by (simp add: cirq_wf_def c'_def Let_def d_def n_def k_def j_def mod_Suc_eq)
  moreover have "cirq_slot c' i = (if i = j then take d x else cirq_slot c i)" if "i < n" for i
  proof -
    have "length (take d x) = d" using x by (simp add: d_def)
    then have "take d (drop (i * d) b') = (if i = j then take d x else take d (drop (i * d) b))"
      using slot_of_copy [of "take d x" d i j b] slot_of_copy_same [of "take d x" d j b] fit
      unfolding b'_def by presburger
    then show ?thesis using b by (simp add: cirq_slot_def c'_def d_def Let_def)
  qed
  then have "cirq_queue c' = cirq_queue c @ [take d x]"
    using k1 tl d0 n0 mod_add_neq [of _ k n t] room
    by (auto simp: cirq_queue_def c'_def d_def n_def k_def j_def)
  ultimately show ?thesis by (auto simp: c'_def d_def)
qed

lemma pop_empty:
  assumes "irq_balanced os" and "currCnt c = 0"
  shows "CirqBuffPop os (Some c) x = Some (1, Some c, x, os)"
  using assms by (simp add: CirqBuffPop_def Let_def)

text \<open>A pop from a buffer that is not empty delivers the oldest element.\<close>

lemma pop_some:
  assumes wf: "cirq_wf c" and os: "irq_balanced os" and some: "currCnt c \<noteq> 0"
    and x: "unat (dataSize c) \<le> length x"
  shows "\<exists>c'. CirqBuffPop os (Some c) (Some x) =
      Some (0, Some c', Some (hd (cirq_queue c) @ drop (unat (dataSize c)) x), os) \<and> cirq_wf c' \<and>
    maxCnt c' = maxCnt c \<and> dataSize c' = dataSize c \<and> cirq_queue c' = tl (cirq_queue c)"
proof -
  define d n k where "d = unat (dataSize c)" and "n = unat (maxCnt c)" and "k = unat (currCnt c)"
  obtain b t where b: "bufStart c = Some b" and d0: "0 < d" and n0: "0 < n" and be: "bufEnd c = n * d"
    and len: "n * d \<le> length b" and kn: "k \<le> n" and t: "t < n" and tl: "tail c = t * d"
    and hd: "head c = (t + k) mod n * d"
    using wf unfolding d_def n_def k_def by (rule wf_E)
  have k0: "0 < k" using some by (simp add: k_def unat_gt_0)
  have k1: "unat (currCnt c - 1) = k - 1" using unat_dec_above [OF some] by (simp add: k_def)
  note fit = slot_in_buffer [OF t len]
  define c' where "c' = c\<lparr>tail := Suc t mod n * d, currCnt := currCnt c - 1\<rparr>"
  have adv: "cirq_advance c (t * d) = Suc t mod n * d"
    using advance_slot [of c n t] be d0 t by (simp add: d_def)
  have q: "cirq_queue c = map (\<lambda>i. cirq_slot c ((t + i) mod n)) [0..<k]"
    using tl d0 by (simp add: cirq_queue_def d_def n_def k_def)
  then have hq: "hd (cirq_queue c) = take d (drop (t * d) b)"
    using k0 t b by (simp add: hd_map cirq_slot_def d_def Let_def)
  have "CirqBuffPop os (Some c) (Some x) = Some (0, Some c', Some (hd (cirq_queue c) @ drop d x), os)"
    using some fit x os adv b tl hq
    by (simp add: CirqBuffPop_def copy_bytes_def deref_def c'_def d_def Let_def)
  moreover have "(Suc t + (k - 1)) mod n = (t + k) mod n" using k0 by simp
  then have "cirq_wf c'"
    using b d0 n0 be len kn t hd k1
    by (simp add: cirq_wf_def c'_def Let_def d_def n_def k_def mod_Suc_eq mod_add_left_eq)
  moreover have "cirq_queue c' = tl (cirq_queue c)"
  proof -
    have slot: "cirq_slot c' = cirq_slot c" by (simp add: fun_eq_iff cirq_slot_def c'_def)
    have "tl (cirq_queue c) = map (\<lambda>i. cirq_slot c ((t + i) mod n)) [1..<k]"
      using k0 unfolding q by (simp add: upt_rec)
    also have "\<dots> = map (\<lambda>i. cirq_slot c ((t + Suc i) mod n)) [0..<k - 1]"
      by (rule nth_equalityI) auto
    also have "\<dots> = cirq_queue c'"
      using k1 d0 slot by (simp add: cirq_queue_def c'_def d_def n_def mod_add_left_eq)
    finally show ?thesis by simp
  qed
  ultimately show ?thesis by (auto simp: c'_def d_def)
qed

section \<open>The queue contract\<close>

definition cirq_inv :: "CirqBufferType \<times> Os_Int \<Rightarrow> bool" where
  "cirq_inv s \<longleftrightarrow> cirq_wf (fst s) \<and> irq_balanced (snd s)"

abbreviation (input) "cirq_capacity s \<equiv> unat (maxCnt (fst s))"

abbreviation (input) "cirq_contents s \<equiv> cirq_queue (fst s)"

definition cirq_fits :: "CirqBufferType \<times> Os_Int \<Rightarrow> uint8 list \<Rightarrow> bool" where
  "cirq_fits s x \<longleftrightarrow> length x = unat (dataSize (fst s))"

lemma unat_le_cases: "unat (k :: uint32) \<le> unat m \<Longrightarrow> unat k < unat m \<or> k = m"
  by (auto simp: word_unat_eq_iff)

lemma wf_count: "cirq_wf c \<Longrightarrow> unat (currCnt c) < unat (maxCnt c) \<or> currCnt c = maxCnt c"
  by (elim wf_E) (rule unat_le_cases)

lemma cirq_put_law:
  assumes "cirq_inv s" and "cirq_fits s x"
  shows "\<exists>s'. cirq_put x s = Some (length (cirq_contents s) < cirq_capacity s, s') \<and> cirq_inv s' \<and>
    cirq_capacity s' = cirq_capacity s \<and> cirq_fits s' = cirq_fits s \<and>
    cirq_contents s' =
      (if length (cirq_contents s) < cirq_capacity s then cirq_contents s @ [x] else cirq_contents s)"
proof -
  obtain c os where s: "s = (c, os)" "cirq_wf c" "irq_balanced os"
    using assms(1) by (cases s) (auto simp: cirq_inv_def)
  show ?thesis
  proof (cases "unat (currCnt c) < unat (maxCnt c)")
    case True
    then show ?thesis using push_room [of c os x] s assms(2) [unfolded cirq_fits_def]
      by (auto simp: cirq_put_def cirq_inv_def cirq_fits_def fun_eq_iff deref_def)
  next
    case False
    then show ?thesis using push_full [of c os "Some x"] wf_count [of c] s
      by (auto simp: cirq_put_def cirq_inv_def cirq_fits_def fun_eq_iff deref_def)
  qed
qed

lemma cirq_get_law:
  assumes "cirq_inv s"
  shows "\<exists>s'. cirq_get s = Some (case cirq_contents s of [] \<Rightarrow> None | x # _ \<Rightarrow> Some x, s') \<and>
    cirq_inv s' \<and> cirq_capacity s' = cirq_capacity s \<and> cirq_fits s' = cirq_fits s \<and>
    cirq_contents s' = tl (cirq_contents s)"
proof -
  obtain c os where s: "s = (c, os)" "cirq_wf c" "irq_balanced os"
    using assms by (cases s) (auto simp: cirq_inv_def)
  show ?thesis
  proof (cases "currCnt c = 0")
    case True
    then show ?thesis using pop_empty [of os c] s
      by (simp add: cirq_get_def cirq_inv_def cirq_fits_def fun_eq_iff deref_def cirq_queue_def)
  next
    case False
    then have "cirq_queue c \<noteq> []" by (simp add: cirq_queue_def unat_gt_0)
    then show ?thesis using pop_some [of c os "replicate (unat (dataSize c)) 0"] s False
      by (auto simp: cirq_get_def cirq_inv_def cirq_fits_def fun_eq_iff deref_def neq_Nil_conv)
  qed
qed

interpretation cirq: fifo cirq_inv "\<lambda>s. cirq_contents s" "\<lambda>s. cirq_capacity s" cirq_fits cirq_put cirq_get
  by unfold_locales (fact cirq_put_law, fact cirq_get_law)

text \<open>A created buffer is well formed and empty when its memory holds all the elements.\<close>

lemma create_wf:
  assumes "0 < unat mx" and "0 < unat dsz" and "unat dsz * unat mx < 2 ^ 32"
    and "unat dsz * unat mx \<le> length b"
  shows "cirq_wf (CirqBuffStatCreate (Some b) mx dsz)"
    and "cirq_queue (CirqBuffStatCreate (Some b) mx dsz) = []"
proof -
  have "unat (dsz * mx) = unat mx * unat dsz" using assms(3)
    by (simp add: unat_word_ariths mult.commute)
  then show "cirq_wf (CirqBuffStatCreate (Some b) mx dsz)" using assms
    by (simp add: cirq_wf_def CirqBuffStatCreate_def mult.commute)
qed (simp add: cirq_queue_def CirqBuffStatCreate_def)

lemma dyn_create_eq:
  "CirqBuffDynCreate True alloc sz dsz =
     Some (CirqBuffStatCreate (alloc (unat (dsz * sz))) sz dsz)"
  by (simp add: CirqBuffDynCreate_def CirqBuffStatCreate_def)

lemma init_eq: "CirqBuff_Init c b mx dsz = CirqBuffStatCreate b mx dsz"
  by (cases c) (simp add: CirqBuff_Init_def CirqBuffStatCreate_def)

lemma create_inv:
  assumes "0 < unat mx" and "0 < unat dsz" and "unat dsz * unat mx < 2 ^ 32"
    and "unat dsz * unat mx \<le> length b" and "irq_balanced os"
  shows "cirq_inv (CirqBuffStatCreate (Some b) mx dsz, os)"
  using create_wf (1) [OF assms(1-4)] assms(5) by (simp add: cirq_inv_def)

section \<open>Looking into the buffer\<close>

lemma advance_many:
  assumes "bufEnd c = n * unat (dataSize c)" and "0 < unat (dataSize c)" and "t < n"
  shows "(cirq_advance c ^^ m) (t * unat (dataSize c)) = (t + m) mod n * unat (dataSize c)"
proof (induction m)
  case (Suc m)
  have "(t + m) mod n < n" using assms(3) by simp
  then show ?case using Suc advance_slot [OF assms(1,2)] by (simp add: mod_Suc_eq)
qed (use assms in simp)

lemma peek_address:
  assumes "cirq_wf c" and "currCnt c \<noteq> 0" and "off \<le> currCnt c"
  shows "CirqBuff_Peek (Some c) off =
    Some ((tail c div unat (dataSize c) + unat off) mod unat (maxCnt c) * unat (dataSize c))"
  using assms(1)
proof (rule wf_E)
  fix b t assume "0 < unat (dataSize c)" "bufEnd c = unat (maxCnt c) * unat (dataSize c)"
    "t < unat (maxCnt c)" "tail c = t * unat (dataSize c)"
  then show ?thesis using assms(2,3) advance_many [of c "unat (maxCnt c)" t "unat off"]
    by (simp add: CirqBuff_Peek_def)
qed

section \<open>Filling an element in place\<close>

text \<open>
  A producer that locks an element, is interrupted by a consumer that pops one, fills the element
  it was given and releases it.
\<close>

definition locked_push_over_pop ::
  "Os_Int \<Rightarrow> CirqBufferType \<Rightarrow> uint8 list \<Rightarrow> uint8 list \<Rightarrow>
     (int \<times> CirqBufferType ptr \<times> uint8 list ptr \<times> Os_Int) ub" where
  "locked_push_over_pop os c x buf = do {
     let (p, cPtr) = CirqBuff_PushLock (Some c);
     p \<leftarrow> deref p;
     (rv, cPtr, d, os) \<leftarrow> CirqBuffPop os cPtr (Some buf);
     c \<leftarrow> deref cPtr;
     b \<leftarrow> copy_bytes (bufStart c) p (Some x) 0 (unat (dataSize c));
     cPtr \<leftarrow> CirqBuff_PushRelease (Some (c\<lparr>bufStart := Some b\<rparr>));
     Some (rv, cPtr, d, os) }"

lemma advance_upd [simp]:
  "cirq_advance (c\<lparr>head := h\<rparr>) p = cirq_advance c p"
  "cirq_advance (c\<lparr>tail := t\<rparr>) p = cirq_advance c p"
  "cirq_advance (c\<lparr>currCnt := k\<rparr>) p = cirq_advance c p"
  "cirq_advance (c\<lparr>bufStart := b\<rparr>) p = cirq_advance c p"
  by (simp_all add: cirq_advance_def)

text \<open>
  The interleaved run ends in the state that pushing and then popping reaches: the element under
  \<open>head\<close> is not the one under \<open>tail\<close>.
\<close>

lemma locked_push_commutes:
  assumes wf: "cirq_wf c" and os: "irq_balanced os" and some: "currCnt c \<noteq> 0"
    and room: "unat (currCnt c) < unat (maxCnt c)"
    and x: "unat (dataSize c) \<le> length x" and buf: "unat (dataSize c) \<le> length buf"
    and push: "CirqBuffPush os (Some c) (Some x) = Some (0, Some c1, os)"
  shows "locked_push_over_pop os c x buf = CirqBuffPop os (Some c1) (Some buf)"
  using wf
proof (rule wf_E)
  define d n k where "d = unat (dataSize c)" and "n = unat (maxCnt c)" and "k = unat (currCnt c)"
  fix b t assume b: "bufStart c = Some b" and n0: "0 < unat (maxCnt c)"
    and len': "unat (maxCnt c) * unat (dataSize c) \<le> length b" and t': "t < unat (maxCnt c)"
    and tl': "tail c = t * unat (dataSize c)"
    and hd': "head c = (t + unat (currCnt c)) mod unat (maxCnt c) * unat (dataSize c)"
  note len = len' [folded n_def d_def] and t = t' [folded n_def]
    and tl = tl' [folded d_def] and hd = hd' [folded d_def k_def n_def]
  define j where "j = (t + k) mod n"
  have j: "j < n" using n0 by (simp add: j_def n_def)
  have "0 < k" using some by (simp add: k_def unat_gt_0)
  then have tj: "t \<noteq> j" using mod_add_neq [of 0 k n t] room t by (simp add: j_def k_def n_def)
  note fitj = slot_in_buffer [OF j len] and fitt = slot_in_buffer [OF t len]
  have ne: "currCnt c \<noteq> maxCnt c" using room by auto
  define b' where "b' = take (j * d) b @ take d x @ drop (j * d + d) b"
  have slot: "take d (drop (t * d) b') = take d (drop (t * d) b)"
    unfolding b'_def using slot_of_copy [of "take d x" d t j b] tj fitj x by (simp add: d_def)
  have len'': "length b' = length b" using fitj x by (simp add: b'_def d_def)
  have c1: "c1 = c\<lparr>bufStart := Some b', head := cirq_advance c (j * d), currCnt := currCnt c + 1\<rparr>"
    using push ne b hd fitj x unfolding CirqBuffPush_def j_def [symmetric]
    by (simp add: copy_bytes_def deref_def b'_def d_def Let_def)
  have "unat (currCnt c + 1) = Suc k" using unat_inc_below room unfolding k_def by blast
  then have "currCnt c + 1 \<noteq> 0" by auto
  then show ?thesis
    using ne some b hd tl fitj fitt x buf slot len'' unfolding c1 j_def [symmetric]
    by (simp add: locked_push_over_pop_def CirqBuff_PushLock_def CirqBuffPop_def copy_bytes_def
        CirqBuff_PushRelease_def deref_def Let_def d_def [symmetric] b'_def [symmetric])
qed

section \<open>The message box\<close>

text \<open>The message box as a queue of 4-byte messages.\<close>

definition mbox_put :: "uint8 list \<Rightarrow> Arc_MBoxType \<times> Os_Int \<Rightarrow> (bool \<times> Arc_MBoxType \<times> Os_Int) ub" where
  "mbox_put x s = do {
     (status, m, os) \<leftarrow> Arc_MBoxPost (snd s) (fst s) (Some x);
     Some (status = 0, m, os) }"

definition mbox_get :: "Arc_MBoxType \<times> Os_Int \<Rightarrow> (uint8 list option \<times> Arc_MBoxType \<times> Os_Int) ub" where
  "mbox_get s = do {
     (status, m, msg, os) \<leftarrow> Arc_MBoxFetch (snd s) (fst s) (Some [0, 0, 0, 0]);
     Some (if status = 0 then msg else None, m, os) }"

definition mbox_buffer :: "Arc_MBoxType \<times> Os_Int \<Rightarrow> CirqBufferType \<times> Os_Int" where
  "mbox_buffer s = (the (cirqPtr (fst s)), snd s)"

definition mbox_inv :: "Arc_MBoxType \<times> Os_Int \<Rightarrow> bool" where
  "mbox_inv s \<longleftrightarrow> cirqPtr (fst s) \<noteq> None \<and> cirq_inv (mbox_buffer s) \<and> dataSize (fst (mbox_buffer s)) = 4"

lemma mbox_put_eq:
  assumes "mbox_inv s" and "cirq_put x (mbox_buffer s) = Some (ok, c, os)"
  shows "mbox_put x s = Some (ok, (fst s)\<lparr>cirqPtr := Some c\<rparr>, os)"
  using assms
  by (cases s) (auto simp: mbox_inv_def mbox_buffer_def mbox_put_def cirq_put_def Arc_MBoxPost_def
      Option.bind_eq_Some_conv deref_def Let_def)

lemma mbox_get_eq:
  assumes "mbox_inv s" and "cirq_get (mbox_buffer s) = Some (r, c, os)"
  shows "mbox_get s = Some (r, (fst s)\<lparr>cirqPtr := Some c\<rparr>, os)"
proof -
  have "replicate 4 0 = [0, 0, 0, 0 :: uint8]" by (simp add: numeral_eq_Suc)
  then show ?thesis using assms
    by (cases s) (auto simp: mbox_inv_def mbox_buffer_def mbox_get_def cirq_get_def Arc_MBoxFetch_def
        Option.bind_eq_Some_conv deref_def Let_def)
qed

definition mbox_fits :: "Arc_MBoxType \<times> Os_Int \<Rightarrow> uint8 list \<Rightarrow> bool" where
  "mbox_fits s x \<longleftrightarrow> length x = 4"

lemma put_keeps_size: "cirq_put x s = Some (ok, c, os) \<Longrightarrow> dataSize c = dataSize (fst s)"
  by (auto simp: cirq_put_def CirqBuffPush_def Option.bind_eq_Some_conv deref_def Let_def split: if_splits)

lemma get_keeps_size: "cirq_get s = Some (r, c, os) \<Longrightarrow> dataSize c = dataSize (fst s)"
  by (auto simp: cirq_get_def CirqBuffPop_def Option.bind_eq_Some_conv deref_def Let_def split: if_splits)

interpretation mbox: fifo mbox_inv "\<lambda>s. cirq_contents (mbox_buffer s)"
  "\<lambda>s. cirq_capacity (mbox_buffer s)" mbox_fits mbox_put mbox_get
proof
  fix s x assume inv: "mbox_inv s" and fits: "mbox_fits s x"
  define p where "p = mbox_buffer s"
  have "cirq_inv p" "cirq_fits p x" using inv fits by (simp_all add: mbox_inv_def mbox_fits_def cirq_fits_def p_def)
  from cirq_put_law [OF this] obtain c os where
    c: "cirq_put x p = Some (length (cirq_contents p) < cirq_capacity p, c, os)" "cirq_inv (c, os)"
      "unat (maxCnt c) = cirq_capacity p"
      "cirq_queue c = (if length (cirq_contents p) < cirq_capacity p then cirq_contents p @ [x]
        else cirq_contents p)"
    by (auto simp del: length_queue)
  have "dataSize c = 4" using put_keeps_size [OF c(1)] inv by (simp add: mbox_inv_def p_def)
  then show "\<exists>s'. mbox_put x s =
      Some (length (cirq_contents (mbox_buffer s)) < cirq_capacity (mbox_buffer s), s') \<and> mbox_inv s' \<and>
    cirq_capacity (mbox_buffer s') = cirq_capacity (mbox_buffer s) \<and> mbox_fits s' = mbox_fits s \<and>
    cirq_contents (mbox_buffer s') =
      (if length (cirq_contents (mbox_buffer s)) < cirq_capacity (mbox_buffer s)
       then cirq_contents (mbox_buffer s) @ [x] else cirq_contents (mbox_buffer s))"
    using mbox_put_eq [OF inv c(1) [unfolded p_def]] c(2-4)
    by (auto simp: p_def mbox_inv_def mbox_buffer_def mbox_fits_def fun_eq_iff)
next
  fix s assume inv: "mbox_inv s"
  define p where "p = mbox_buffer s"
  have "cirq_inv p" using inv by (simp add: mbox_inv_def p_def)
  from cirq_get_law [OF this] obtain c os where
    c: "cirq_get p = Some (case cirq_contents p of [] \<Rightarrow> None | x # _ \<Rightarrow> Some x, c, os)" "cirq_inv (c, os)"
      "unat (maxCnt c) = cirq_capacity p" "cirq_queue c = tl (cirq_contents p)"
    by auto
  have "dataSize c = 4" using get_keeps_size [OF c(1)] inv by (simp add: mbox_inv_def p_def)
  then show "\<exists>s'. mbox_get s =
      Some (case cirq_contents (mbox_buffer s) of [] \<Rightarrow> None | x # _ \<Rightarrow> Some x, s') \<and> mbox_inv s' \<and>
    cirq_capacity (mbox_buffer s') = cirq_capacity (mbox_buffer s) \<and> mbox_fits s' = mbox_fits s \<and>
    cirq_contents (mbox_buffer s') = tl (cirq_contents (mbox_buffer s))"
    using mbox_get_eq [OF inv c(1) [unfolded p_def]] c(2-4)
    by (auto simp: p_def mbox_inv_def mbox_buffer_def mbox_fits_def fun_eq_iff)
qed

text \<open>A box from \<^verbatim>\<open>Arc_MBoxCreate\<close>, when no allocation fails.\<close>

lemma mbox_create:
  assumes "0 < unat sz" and "unat sz < 2 ^ 30" and "alloc (unat (4 * sz)) = Some b"
    and "length b = unat (4 * sz)" and "irq_balanced os"
  shows "\<exists>m. Arc_MBoxCreate True True alloc sz = Some m \<and> mbox_inv (m, os) \<and>
    cirq_contents (mbox_buffer (m, os)) = [] \<and> cirq_capacity (mbox_buffer (m, os)) = unat sz"
proof -
  have "unat (4 * sz) = 4 * unat sz" using assms(2) by (simp add: unat_word_ariths)
  then show ?thesis
    using assms create_inv [of sz 4 b os] create_wf (2) [of sz 4 b]
    by (simp add: Arc_MBoxCreate_def dyn_create_eq mbox_inv_def mbox_buffer_def)
      (simp add: CirqBuffStatCreate_def)
qed

section \<open>Properties\<close>

text \<open>
  C22: On a circular buffer created over memory that holds all its elements, every sequence of pushes
  (of elements of the element size) and pops runs without undefined behaviour, restores the
  interrupt state, and answers exactly as a bounded list queue does: a push is refused exactly when
  the queue is full, a pop exactly when it is empty; the elements delivered followed by those still
  stored are the elements accepted, in order.
\<close>

theorem cirq_fifo:
  assumes "0 < unat mx" and "0 < unat dsz" and "unat dsz * unat mx < 2 ^ 32"
    and "unat dsz * unat mx \<le> length b" and "irq_balanced os"
    and "\<And>x. Put x \<in> set ops \<Longrightarrow> length x = unat dsz"
  shows "\<exists>outs c os'. fifo_run cirq_put cirq_get ops (CirqBuffStatCreate (Some b) mx dsz, os) =
      Some (outs, c, os') \<and> irq_balanced os' \<and>
    fifo_spec (unat mx) ops [] = (outs, cirq_queue c) \<and>
    delivered outs @ cirq_queue c = accepted ops outs \<and> length (cirq_queue c) \<le> unat mx"
proof -
  let ?c = "CirqBuffStatCreate (Some b) mx dsz"
  have "unat (maxCnt ?c) = unat mx" "cirq_fits (?c, os) x \<longleftrightarrow> length x = unat dsz" for x
    by (simp_all add: CirqBuffStatCreate_def cirq_fits_def)
  then show ?thesis
    using cirq.run_in_order [of "(?c, os)" ops] create_inv [OF assms(1-5)] create_wf (2) [OF assms(1-4)]
      assms(6) by (auto simp: cirq_inv_def simp del: length_queue)
qed

theorem cirq_fifo_witness:
  "\<exists>outs c os'. fifo_run cirq_put cirq_get [Put [1, 2], Get, Put [3, 4], Put [5, 6], Put [7, 8], Get]
      (CirqBuffStatCreate (Some [0, 0, 0, 0]) 2 2, Os_Int_Start) = Some (outs, c, os') \<and> irq_balanced os' \<and>
    fifo_spec (unat (2 :: uint32)) [Put [1, 2], Get, Put [3, 4], Put [5, 6], Put [7, 8], Get] [] =
      (outs, cirq_queue c) \<and>
    delivered outs @ cirq_queue c =
      accepted [Put [1, 2], Get, Put [3, 4], Put [5, 6], Put [7, 8], Get] outs \<and>
    length (cirq_queue c) \<le> unat (2 :: uint32)"
  by (rule cirq_fifo) auto

text \<open>
  A message box created with room for at most 2 ^ 30 - 1 messages, no allocation failing,
  delivers the messages posted to it in order: every sequence of posts and fetches answers as a
  bounded list queue does and never faults.
\<close>

theorem mbox_fifo:
  assumes "0 < unat sz" and "unat sz < 2 ^ 30" and "alloc (unat (4 * sz)) = Some b"
    and "length b = unat (4 * sz)" and "irq_balanced os"
    and "\<And>x. Put x \<in> set ops \<Longrightarrow> length x = 4"
  shows "\<exists>m outs m' os'. Arc_MBoxCreate True True alloc sz = Some m \<and>
    fifo_run mbox_put mbox_get ops (m, os) = Some (outs, m', os') \<and>
    fst (fifo_spec (unat sz) ops []) = outs \<and>
    delivered outs @ snd (fifo_spec (unat sz) ops []) = accepted ops outs"
proof -
  obtain m where m: "Arc_MBoxCreate True True alloc sz = Some m" "mbox_inv (m, os)"
    "cirq_contents (mbox_buffer (m, os)) = []" "cirq_capacity (mbox_buffer (m, os)) = unat sz"
    using mbox_create [of sz alloc b os] assms(1-5) by auto
  then show ?thesis using mbox.run_in_order [of "(m, os)" ops] assms(6)
    by (auto simp: mbox_fits_def simp del: length_queue)
qed

theorem mbox_fifo_witness:
  "\<exists>m outs m' os'. Arc_MBoxCreate True True (\<lambda>n. Some (replicate n 0)) 2 = Some m \<and>
    fifo_run mbox_put mbox_get [Put [1, 2, 3, 4], Get, Get] (m, Os_Int_Start) = Some (outs, m', os') \<and>
    fst (fifo_spec (unat (2 :: uint32)) [Put [1, 2, 3, 4], Get, Get] []) = outs \<and>
    delivered outs @ snd (fifo_spec (unat (2 :: uint32)) [Put [1, 2, 3, 4], Get, Get] []) =
      accepted [Put [1, 2, 3, 4], Get, Get] outs"
  by (rule mbox_fifo) auto

text \<open>
  C23: The lock and release protocol tolerates an interrupting consumer: if a producer has locked an
  element of a buffer that is neither empty nor full and a pop runs before the element is filled
  and released, the pop delivers the oldest element and the buffer then holds the remaining
  elements followed by the new one.
\<close>

theorem cirq_lock_interleaving:
  assumes "cirq_wf c" and "irq_balanced os" and "currCnt c \<noteq> 0"
    and "unat (currCnt c) < unat (maxCnt c)"
    and "unat (dataSize c) \<le> length x" and "unat (dataSize c) \<le> length buf"
  shows "\<exists>c'. locked_push_over_pop os c x buf =
      Some (0, Some c', Some (hd (cirq_queue c) @ drop (unat (dataSize c)) buf), os) \<and> cirq_wf c' \<and>
    cirq_queue c' = tl (cirq_queue c) @ [take (unat (dataSize c)) x]"
proof -
  obtain c1 where c1: "CirqBuffPush os (Some c) (Some x) = Some (0, Some c1, os)" "cirq_wf c1"
    "dataSize c1 = dataSize c" "cirq_queue c1 = cirq_queue c @ [take (unat (dataSize c)) x]"
    using push_room [OF assms(1,2,4,5)] by auto
  have q: "cirq_queue c \<noteq> []" using assms(3) by (simp add: cirq_queue_def unat_gt_0)
  then have "currCnt c1 \<noteq> 0" using c1(4) length_queue [of c1] by auto
  then show ?thesis
    using pop_some [OF c1(2) assms(2), of buf] locked_push_commutes [OF assms c1(1)] c1(3,4) q assms(6)
    by auto
qed

text \<open>A buffer of two 1-byte elements that holds one of them.\<close>

abbreviation (input) "cirq_example \<equiv>
  \<lparr>maxCnt = 2, currCnt = 1, dataSize = 1, head = 0, tail = 1, bufStart = Some [7, 9], bufEnd = 2\<rparr>"

theorem cirq_lock_interleaving_witness:
  "\<exists>c'. locked_push_over_pop Os_Int_Start cirq_example [5] [0] =
      Some (0, Some c', Some (hd (cirq_queue cirq_example) @ drop (unat (1 :: uint32)) [0]), Os_Int_Start) \<and>
    cirq_wf c' \<and> cirq_queue c' = tl (cirq_queue cirq_example) @ [take (unat (1 :: uint32)) [5]]"
  using cirq_lock_interleaving [of cirq_example Os_Int_Start "[5]" "[0]"]
  by (simp add: cirq_wf_def)

text \<open>
  CirqBuff_Peek with an offset below the number of stored elements gives the address of the
  element at that position of the queue. With the offset equal to the number of elements, which its
  guard lets through, it does not return NULL but the address under head, where no element is
  stored.
\<close>

theorem cirq_peek:
  assumes "cirq_wf c" and "currCnt c \<noteq> 0" and "off \<le> currCnt c"
  shows "\<exists>b p. bufStart c = Some b \<and> CirqBuff_Peek (Some c) off = Some p \<and>
    (if off < currCnt c then take (unat (dataSize c)) (drop p b) = cirq_queue c ! unat off
     else p = head c)"
  using assms(1)
proof (rule wf_E)
  fix b t assume *: "bufStart c = Some b" "0 < unat (dataSize c)" "tail c = t * unat (dataSize c)"
    "head c = (t + unat (currCnt c)) mod unat (maxCnt c) * unat (dataSize c)"
  have "unat off < unat (currCnt c) \<longleftrightarrow> off < currCnt c" by (simp add: word_less_nat_alt)
  moreover have "\<not> off < currCnt c \<Longrightarrow> off = currCnt c" using assms(3) by simp
  ultimately show ?thesis using * peek_address [OF assms]
    by (auto simp: cirq_queue_def cirq_slot_def Let_def)
qed

theorem cirq_peek_witness:
  "\<exists>b p. bufStart cirq_example = Some b \<and> CirqBuff_Peek (Some cirq_example) 1 = Some p \<and>
    (if (1 :: uint32) < currCnt cirq_example
     then take (unat (dataSize cirq_example)) (drop p b) = cirq_queue cirq_example ! unat (1 :: uint32)
     else p = head cirq_example)"
  by (rule cirq_peek) (simp_all add: cirq_wf_def)

end
