(* ===== verification/Det.thy ===== *)
theory Det
  imports Os_Irq
begin

text \<open>
  The development error tracer, \<^verbatim>\<open>core/diagnostic/Det/Det.c\<close>: its start-up states, the callback
  table, and \<^verbatim>\<open>Det_ReportError\<close>, which every other module calls. The preprocessor switches and
  sizes of \<^verbatim>\<open>Det_Cfg.h\<close> are the fields of a configuration record. The code behind a callback, a
  static hook, Dlt and \<^verbatim>\<open>printf\<close> is outside the module: a call to it is recorded, with its
  arguments, in \<open>det_calls\<close>; a callback does not call back into Det. The number of callbacks is a
  \<^verbatim>\<open>uint8\<close> loop bound, at most 254, so that no index is the failure code 0xFF.
\<close>

section \<open>Definitions\<close>

datatype Det_StateType = DET_UNINITIALIZED | DET_INITIALIZED | DET_STARTED

record Det_EntryType =
  moduleId :: uint16
  instanceId :: uint8
  apiId :: uint8
  errorId :: uint8

text \<open>Calls that leave the module; a function pointer is a number.\<close>

datatype Det_Call =
  DltForward Det_EntryType | StaticHook nat Det_EntryType | Callback nat Det_EntryType | Printf Det_EntryType

record Det_CfgType =
  DET_ENABLE_CALLBACKS :: bool
  DET_FORWARD_TO_DLT :: bool
  DET_USE_RAMLOG :: bool
  DET_WRAP_RAMLOG :: bool
  DET_USE_STDERR :: bool
  DET_USE_STATIC_CALLBACKS :: bool
  DET_RAMLOG_SIZE :: nat
  DET_NUMBER_OF_CALLBACKS :: nat
  DET_NUMBER_OF_STATIC_CALLBACKS :: nat

text \<open>The configuration of \<^verbatim>\<open>core/boards/generic/Det_Cfg.h\<close>.\<close>

definition Det_Cfg :: Det_CfgType where
  "Det_Cfg = \<lparr>DET_ENABLE_CALLBACKS = True, DET_FORWARD_TO_DLT = False, DET_USE_RAMLOG = True,
     DET_WRAP_RAMLOG = True, DET_USE_STDERR = False, DET_USE_STATIC_CALLBACKS = False,
     DET_RAMLOG_SIZE = 16, DET_NUMBER_OF_CALLBACKS = 5, DET_NUMBER_OF_STATIC_CALLBACKS = 0\<rparr>"

record Det_Global =
  detState :: Det_StateType
  Det_RamlogIndex :: uint32
  Det_RamLog :: "Det_EntryType list"
  detCbk_List :: "nat ptr list"
  det_calls :: "Det_Call list"
  det_os :: Os_Int

abbreviation (input) "DET_MODULE_ID \<equiv> (15 :: uint16)"
abbreviation (input) "DET_CALLBACK_API \<equiv> (0xFF :: uint8)"
abbreviation (input) "DET_E_CBK_REGISTRATION_FAILED \<equiv> (0x02 :: uint8)"
abbreviation (input) "DET_E_INDEX_OUT_OF_RANGE \<equiv> (0x03 :: uint8)"
abbreviation (input) "DET_CBK_REGISTRATION_FAILED_INDEX \<equiv> (0xFF :: uint8)"

definition det_zero :: Det_EntryType where
  "det_zero = \<lparr>moduleId = 0, instanceId = 0, apiId = 0, errorId = 0\<rparr>"

definition SchM_Enter_Det_EA_0 :: "Det_Global \<Rightarrow> Det_Global" where
  "SchM_Enter_Det_EA_0 st = st\<lparr>det_os := SuspendOSInterrupts (det_os st)\<rparr>"

definition SchM_Exit_Det_EA_0 :: "Det_Global \<Rightarrow> Det_Global" where
  "SchM_Exit_Det_EA_0 st = st\<lparr>det_os := ResumeOSInterrupts (det_os st)\<rparr>"

text \<open>\<^verbatim>\<open>for (i = 0; i < DET_NUMBER_OF_STATIC_CALLBACKS; i++) (*DetStaticHooks[i])(...)\<close>\<close>

definition det_static_hooks :: "nat \<Rightarrow> Det_EntryType \<Rightarrow> Det_Global \<Rightarrow> Det_Global" where
  "det_static_hooks n e st = st\<lparr>det_calls := det_calls st @ map (\<lambda>i. StaticHook i e) [0..<n]\<rparr>"

text \<open>The loop over \<open>detCbk_List\<close> from index \<open>i\<close>, \<open>n\<close> rounds.\<close>

fun det_callbacks :: "nat \<Rightarrow> nat \<Rightarrow> Det_EntryType \<Rightarrow> Det_Global \<Rightarrow> Det_Global ub" where
  "det_callbacks i 0 e st = Some st"
| "det_callbacks i (Suc n) e st = do {
     f \<leftarrow> rd (detCbk_List st) i;
     let st = (case f of None \<Rightarrow> st | Some g \<Rightarrow> st\<lparr>det_calls := det_calls st @ [Callback g e]\<rparr>);
     det_callbacks (Suc i) n e st }"

text \<open>The entry of the RAM log.\<close>

definition det_ramlog :: "Det_CfgType \<Rightarrow> Det_EntryType \<Rightarrow> Det_Global \<Rightarrow> Det_Global ub" where
  "det_ramlog cfg e st =
     (if unat (Det_RamlogIndex st) < DET_RAMLOG_SIZE cfg
      then do {
        l \<leftarrow> wr (Det_RamLog st) (unat (Det_RamlogIndex st)) e;
        let st = st\<lparr>Det_RamLog := l, Det_RamlogIndex := Det_RamlogIndex st + 1\<rparr>;
        Some (if DET_WRAP_RAMLOG cfg \<and> unat (Det_RamlogIndex st) = DET_RAMLOG_SIZE cfg
              then st\<lparr>Det_RamlogIndex := 0\<rparr> else st) }
      else Some st)"

text \<open>The body of \<^verbatim>\<open>Det_ReportError\<close> when the tracer is started, one step per switch.\<close>

definition Det_ReportError ::
  "Det_CfgType \<Rightarrow> Det_Global \<Rightarrow> uint16 \<Rightarrow> uint8 \<Rightarrow> uint8 \<Rightarrow> uint8 \<Rightarrow> Det_Global ub" where
  "Det_ReportError cfg st ModuleId InstanceId ApiId ErrorId =
     (if detState st = DET_STARTED then do {
        let e = \<lparr>moduleId = ModuleId, instanceId = InstanceId, apiId = ApiId, errorId = ErrorId\<rparr>;
        let st = (if DET_FORWARD_TO_DLT cfg then st\<lparr>det_calls := det_calls st @ [DltForward e]\<rparr> else st);
        let st = (if DET_USE_STATIC_CALLBACKS cfg
                  then SchM_Exit_Det_EA_0 (det_static_hooks (DET_NUMBER_OF_STATIC_CALLBACKS cfg) e
                         (SchM_Enter_Det_EA_0 st))
                  else st);
        st \<leftarrow> (if DET_ENABLE_CALLBACKS cfg
               then map_option SchM_Exit_Det_EA_0
                      (det_callbacks 0 (DET_NUMBER_OF_CALLBACKS cfg) e (SchM_Enter_Det_EA_0 st))
               else Some st);
        st \<leftarrow> (if DET_USE_RAMLOG cfg
               then map_option SchM_Exit_Det_EA_0 (det_ramlog cfg e (SchM_Enter_Det_EA_0 st))
               else Some st);
        Some (if DET_USE_STDERR cfg then st\<lparr>det_calls := det_calls st @ [Printf e]\<rparr> else st) }
      else Some st)"

text \<open>The search for a free place, from index \<open>i\<close>, \<open>n\<close> rounds.\<close>

fun det_free_index :: "nat \<Rightarrow> nat \<Rightarrow> nat ptr list \<Rightarrow> nat option ub" where
  "det_free_index i 0 l = Some None"
| "det_free_index i (Suc n) l = do {
     f \<leftarrow> rd l i;
     if f = None then Some (Some i) else det_free_index (Suc i) n l }"

definition Det_AddCbk :: "Det_CfgType \<Rightarrow> Det_Global \<Rightarrow> nat ptr \<Rightarrow> (uint8 \<times> Det_Global) ub" where
  "Det_AddCbk cfg st detCbk = do {
     let rv = DET_CBK_REGISTRATION_FAILED_INDEX;
     (rv, st) \<leftarrow>
       (if detState st \<noteq> DET_UNINITIALIZED then do {
          r \<leftarrow> det_free_index 0 (DET_NUMBER_OF_CALLBACKS cfg) (detCbk_List st);
          case r of
            None \<Rightarrow> Some (rv, st)
          | Some i \<Rightarrow> do {
              l \<leftarrow> wr (detCbk_List st) i detCbk;
              Some (of_nat i, st\<lparr>detCbk_List := l\<rparr>) } }
        else Some (rv, st));
     st \<leftarrow> (if rv = DET_CBK_REGISTRATION_FAILED_INDEX
            then Det_ReportError cfg st DET_MODULE_ID 0 DET_CALLBACK_API DET_E_CBK_REGISTRATION_FAILED
            else Some st);
     Some (rv, st) }"

definition Det_RemoveCbk :: "Det_CfgType \<Rightarrow> Det_Global \<Rightarrow> uint8 \<Rightarrow> Det_Global ub" where
  "Det_RemoveCbk cfg st detCbkIndex =
     (if unat detCbkIndex \<ge> DET_NUMBER_OF_CALLBACKS cfg
      then Det_ReportError cfg st DET_MODULE_ID 0 DET_CALLBACK_API DET_E_INDEX_OUT_OF_RANGE
      else do {
        l \<leftarrow> wr (detCbk_List st) (unat detCbkIndex) None;
        Some (st\<lparr>detCbk_List := l\<rparr>) })"

definition Det_Init :: "Det_CfgType \<Rightarrow> Det_Global \<Rightarrow> Det_Global" where
  "Det_Init cfg st =
     (let st = (if DET_ENABLE_CALLBACKS cfg
                then st\<lparr>detCbk_List := replicate (DET_NUMBER_OF_CALLBACKS cfg) None\<rparr> else st);
          st = (if DET_USE_RAMLOG cfg
                then st\<lparr>Det_RamLog := replicate (DET_RAMLOG_SIZE cfg) det_zero, Det_RamlogIndex := 0\<rparr>
                else st)
      in st\<lparr>detState := DET_INITIALIZED\<rparr>)"

definition Det_DeInit :: "Det_Global \<Rightarrow> Det_Global" where
  "Det_DeInit st = st\<lparr>detState := DET_UNINITIALIZED\<rparr>"

definition Det_Start :: "Det_Global \<Rightarrow> Det_Global" where
  "Det_Start st = st\<lparr>detState := DET_STARTED\<rparr>"

text \<open>Sequences of calls: registering callbacks, reporting errors.\<close>

fun det_register :: "Det_CfgType \<Rightarrow> Det_Global \<Rightarrow> nat list \<Rightarrow> Det_Global ub" where
  "det_register cfg st [] = Some st"
| "det_register cfg st (f # fs) = do {
     (rv, st) \<leftarrow> Det_AddCbk cfg st (Some f);
     det_register cfg st fs }"

fun det_reports :: "Det_CfgType \<Rightarrow> Det_Global \<Rightarrow> Det_EntryType list \<Rightarrow> Det_Global ub" where
  "det_reports cfg st [] = Some st"
| "det_reports cfg st (e # es) = do {
     st \<leftarrow> Det_ReportError cfg st (moduleId e) (instanceId e) (apiId e) (errorId e);
     det_reports cfg st es }"

text \<open>
  The specification. A wrapping log of \<open>n\<close> entries holds at place \<open>i\<close> the last report whose number
  is \<open>i\<close> modulo \<open>n\<close>; a log that does not wrap holds the first \<open>n\<close> reports.
\<close>

definition det_slot :: "nat \<Rightarrow> Det_EntryType list \<Rightarrow> nat \<Rightarrow> Det_EntryType" where
  "det_slot n es i =
     (if i < length es then es ! (i + n * ((length es - 1 - i) div n)) else det_zero)"

definition det_log :: "Det_CfgType \<Rightarrow> Det_EntryType list \<Rightarrow> Det_EntryType list" where
  "det_log cfg es =
     (let n = DET_RAMLOG_SIZE cfg in
      if DET_WRAP_RAMLOG cfg then map (det_slot n es) [0..<n]
      else take n (es @ replicate n det_zero))"

definition det_index :: "Det_CfgType \<Rightarrow> Det_EntryType list \<Rightarrow> nat" where
  "det_index cfg es =
     (let n = DET_RAMLOG_SIZE cfg in
      if DET_WRAP_RAMLOG cfg then length es mod n else min n (length es))"

text \<open>The calls one report makes, given the callback table.\<close>

definition det_calls_of :: "Det_CfgType \<Rightarrow> nat ptr list \<Rightarrow> Det_EntryType \<Rightarrow> Det_Call list" where
  "det_calls_of cfg cbks e =
     (if DET_FORWARD_TO_DLT cfg then [DltForward e] else []) @
     (if DET_USE_STATIC_CALLBACKS cfg
      then map (\<lambda>i. StaticHook i e) [0..<DET_NUMBER_OF_STATIC_CALLBACKS cfg] else []) @
     (if DET_ENABLE_CALLBACKS cfg then map (\<lambda>f. Callback f e) (List.map_filter id cbks) else []) @
     (if DET_USE_STDERR cfg then [Printf e] else [])"

text \<open>
  The invariant: the arrays have their declared sizes, the interrupt state is balanced.
\<close>

definition det_wf :: "Det_CfgType \<Rightarrow> Det_Global \<Rightarrow> bool" where
  "det_wf cfg st \<longleftrightarrow>
     length (Det_RamLog st) = DET_RAMLOG_SIZE cfg \<and> DET_RAMLOG_SIZE cfg < 2 ^ 32 \<and>
     length (detCbk_List st) = DET_NUMBER_OF_CALLBACKS cfg \<and> DET_NUMBER_OF_CALLBACKS cfg < 255 \<and>
     irq_balanced (det_os st)"

section \<open>One report\<close>

lemma det_callbacks_eq:
  "i + n \<le> length (detCbk_List st) \<Longrightarrow>
   det_callbacks i n e st = Some (st\<lparr>det_calls := det_calls st @
     map (\<lambda>f. Callback f e) (List.map_filter id (take n (drop i (detCbk_List st))))\<rparr>)"
proof (induction n arbitrary: i st)
  case (Suc n)
  then have i: "i < length (detCbk_List st)" by simp
  then have "take (Suc n) (drop i (detCbk_List st)) =
      detCbk_List st ! i # take n (drop (Suc i) (detCbk_List st))"
    by (metis Cons_nth_drop_Suc take_Suc_Cons)
  then show ?case using Suc.prems Suc.IH [of "Suc i"] i
    by (cases "detCbk_List st ! i") (simp_all add: ub_simps map_filter_simps)
qed (simp add: map_filter_simps)

lemma det_ramlog_eq:
  "det_wf cfg st \<Longrightarrow> det_ramlog cfg e st =
     Some (if unat (Det_RamlogIndex st) < DET_RAMLOG_SIZE cfg
       then st\<lparr>Det_RamLog := (Det_RamLog st)[unat (Det_RamlogIndex st) := e],
         Det_RamlogIndex :=
           (if DET_WRAP_RAMLOG cfg \<and> unat (Det_RamlogIndex st + 1) = DET_RAMLOG_SIZE cfg then 0
            else Det_RamlogIndex st + 1)\<rparr>
       else st)"
  by (simp add: det_ramlog_def det_wf_def ub_simps Let_def)

lemma det_wf_area [simp]:
  "det_wf cfg (st\<lparr>det_calls := c\<rparr>) = det_wf cfg st"
  by (simp add: det_wf_def)

text \<open>The whole effect of a report on a started tracer.\<close>

definition det_after :: "Det_CfgType \<Rightarrow> Det_Global \<Rightarrow> Det_EntryType \<Rightarrow> Det_Global" where
  "det_after cfg st e =
     (let st = st\<lparr>det_calls := det_calls st @ det_calls_of cfg (detCbk_List st) e\<rparr> in
      if DET_USE_RAMLOG cfg then the (det_ramlog cfg e st) else st)"

lemma report_started:
  assumes "det_wf cfg st" and "detState st = DET_STARTED"
  shows "Det_ReportError cfg st (moduleId e) (instanceId e) (apiId e) (errorId e) = Some (det_after cfg st e)"
proof -
  have os: "ResumeOSInterrupts (SuspendOSInterrupts (det_os st)) = det_os st"
    using assms(1) by (simp add: det_wf_def)
  have len: "DET_NUMBER_OF_CALLBACKS cfg = length (detCbk_List st)" "length (Det_RamLog st) = DET_RAMLOG_SIZE cfg"
    using assms(1) by (simp_all add: det_wf_def)
  define f where "f = (if DET_FORWARD_TO_DLT cfg then [DltForward e] else [])"
  define h where "h = (if DET_USE_STATIC_CALLBACKS cfg
    then map (\<lambda>i. StaticHook i e) [0..<DET_NUMBER_OF_STATIC_CALLBACKS cfg] else [])"
  have e: "\<lparr>moduleId = moduleId e, instanceId = instanceId e, apiId = apiId e, errorId = errorId e\<rparr> = e" by simp
  have s1: "(if DET_FORWARD_TO_DLT cfg then st\<lparr>det_calls := det_calls st @ [DltForward e]\<rparr> else st) =
      st\<lparr>det_calls := det_calls st @ f\<rparr>" by (simp add: f_def)
  have s2: "(if DET_USE_STATIC_CALLBACKS cfg then SchM_Exit_Det_EA_0
      (det_static_hooks (DET_NUMBER_OF_STATIC_CALLBACKS cfg) e (SchM_Enter_Det_EA_0 (st\<lparr>det_calls := c\<rparr>)))
      else st\<lparr>det_calls := c\<rparr>) = st\<lparr>det_calls := c @ h\<rparr>" for c
    using os by (simp add: h_def det_static_hooks_def SchM_Enter_Det_EA_0_def SchM_Exit_Det_EA_0_def)
  show ?thesis using assms(2) os len unfolding Det_ReportError_def Let_def e s1 s2
    by (simp add: det_after_def det_calls_of_def det_callbacks_eq
        SchM_Enter_Det_EA_0_def SchM_Exit_Det_EA_0_def det_ramlog_def Let_def ub_simps f_def h_def)
qed

lemma report_stopped:
  "detState st \<noteq> DET_STARTED \<Longrightarrow> Det_ReportError cfg st m i a e = Some st"
  by (simp add: Det_ReportError_def)

section \<open>The log after a sequence of reports\<close>

lemma det_slot_snoc:
  assumes "i < n"
  shows "det_slot n (es @ [e]) i = (if i = length es mod n then e else det_slot n es i)"
proof (cases "i < length es")
  case True
  define m where "m = length es - 1 - i"
  have m: "Suc m = length es - i" using True by (simp add: m_def)
  have m': "length es - Suc i = m" by (simp add: m_def)
  have *: "length es mod n = i \<longleftrightarrow> Suc m mod n = 0"
    using mod_eq_dvd_iff_nat [of i "length es" n] True assms unfolding m by (simp add: dvd_eq_mod_eq_0)
  show ?thesis
  proof (cases "Suc m mod n = 0")
    case True
    then have "i + n * (Suc m div n) = length es" using m \<open>i < length es\<close> by (simp add: mod_0_imp_dvd)
    then show ?thesis using True * m \<open>i < length es\<close> by (simp add: det_slot_def)
  next
    case False
    then have "Suc m div n = m div n" by (simp add: div_Suc)
    moreover have "i + n * (m div n) < length es"
      using times_div_less_eq_dividend [of n m] True unfolding m_def by linarith
    ultimately show ?thesis using False * m True
      using m' by (simp add: det_slot_def nth_append)
  qed
next
  case False
  then show ?thesis using assms by (cases "i = length es") (auto simp: det_slot_def)
qed

lemma det_log_snoc:
  assumes "0 < DET_RAMLOG_SIZE cfg"
  shows "det_log cfg (es @ [e]) =
    (if det_index cfg es < DET_RAMLOG_SIZE cfg then (det_log cfg es)[det_index cfg es := e]
     else det_log cfg es)"
proof (cases "DET_WRAP_RAMLOG cfg")
  case True
  then show ?thesis using assms
    by (auto simp: det_log_def det_index_def Let_def det_slot_snoc nth_list_update intro!: nth_equalityI)
next
  case False
  then show ?thesis
    by (auto simp: det_log_def det_index_def Let_def nth_append nth_list_update nth_Cons' min_def
        simp del: take_append intro!: nth_equalityI)
qed

lemma det_index_snoc:
  assumes "0 < DET_RAMLOG_SIZE cfg"
  shows "det_index cfg (es @ [e]) =
    (if det_index cfg es < DET_RAMLOG_SIZE cfg
     then (if DET_WRAP_RAMLOG cfg \<and> Suc (det_index cfg es) = DET_RAMLOG_SIZE cfg then 0
           else Suc (det_index cfg es))
     else det_index cfg es)"
  using assms by (auto simp: det_index_def Let_def mod_Suc min_def)

lemma det_after_frame:
  assumes "det_wf cfg st"
  shows "det_wf cfg (det_after cfg st e)" and "detState (det_after cfg st e) = detState st"
    and "det_os (det_after cfg st e) = det_os st" and "detCbk_List (det_after cfg st e) = detCbk_List st"
    and "det_calls (det_after cfg st e) = det_calls st @ det_calls_of cfg (detCbk_List st) e"
  using assms by (auto simp: det_after_def det_ramlog_eq Let_def) (simp_all add: det_wf_def)

lemma det_after_log:
  assumes "det_wf cfg st" and "DET_USE_RAMLOG cfg" and n: "0 < DET_RAMLOG_SIZE cfg"
    and "Det_RamLog st = det_log cfg es" and idx: "unat (Det_RamlogIndex st) = det_index cfg es"
  shows "Det_RamLog (det_after cfg st e) = det_log cfg (es @ [e])"
    and "unat (Det_RamlogIndex (det_after cfg st e)) = det_index cfg (es @ [e])"
proof -
  have "DET_RAMLOG_SIZE cfg < 2 ^ 32" using assms(1) by (simp add: det_wf_def)
  then have inc: "det_index cfg es < DET_RAMLOG_SIZE cfg \<Longrightarrow>
      unat (Det_RamlogIndex st + 1) = Suc (det_index cfg es)"
    using idx by (simp add: unat_word_ariths)
  show "Det_RamLog (det_after cfg st e) = det_log cfg (es @ [e])"
    using assms by (simp add: det_after_def det_ramlog_eq det_log_snoc Let_def)
  show "unat (Det_RamlogIndex (det_after cfg st e)) = det_index cfg (es @ [e])"
    using assms inc by (simp add: det_after_def det_ramlog_eq det_index_snoc Let_def)
qed

lemma det_reports_log:
  assumes "det_wf cfg st" and "detState st = DET_STARTED" and "DET_USE_RAMLOG cfg"
    and "0 < DET_RAMLOG_SIZE cfg" and "Det_RamLog st = det_log cfg es0"
    and "unat (Det_RamlogIndex st) = det_index cfg es0"
  shows "\<exists>st'. det_reports cfg st es = Some st' \<and> Det_RamLog st' = det_log cfg (es0 @ es) \<and>
    det_os st' = det_os st \<and>
    det_calls st' = det_calls st @ concat (map (det_calls_of cfg (detCbk_List st)) es)"
  using assms
proof (induction es arbitrary: es0 st)
  case (Cons e es)
  note f = det_after_frame [OF Cons.prems(1), of e] and l = det_after_log [OF Cons.prems(1,3-6), of e]
  show ?case using Cons.IH [OF f(1) _ Cons.prems(3,4) l] f Cons.prems(2)
    by (simp add: report_started [OF Cons.prems(1,2)])
qed simp

section \<open>Registering callbacks\<close>

lemma det_free_index_skip:
  "det_free_index i n (ys @ replicate m None) =
     (if length ys = i + k \<and> k < n \<and> n \<le> k + m \<and> (\<forall>y \<in> set ys. y \<noteq> None) then Some (Some (length ys))
      else det_free_index i n (ys @ replicate m None))"
proof (induction n arbitrary: i k)
  case (Suc n)
  show ?case
  proof (cases k)
    case 0
    then show ?thesis by (auto simp: rd_def nth_append)
  next
    case (Suc k')
    show ?thesis
    proof (cases "length ys = i + k \<and> k < Suc n \<and> Suc n \<le> k + m \<and> (\<forall>y \<in> set ys. y \<noteq> None)")
      case True
      then have "ys ! i \<noteq> None" using Suc nth_mem [of i ys] by auto
      then show ?thesis using Suc Suc.IH [of "Suc i" k'] True by (auto simp: rd_def nth_append)
    qed auto
  qed
qed simp

lemma det_register_all:
  assumes "det_wf cfg st" and "detState st \<noteq> DET_UNINITIALIZED"
    and "detCbk_List st = map Some gs @ replicate m None" and "length fs \<le> m"
  shows "det_register cfg st fs =
    Some (st\<lparr>detCbk_List := map Some (gs @ fs) @ replicate (m - length fs) None\<rparr>)"
  using assms
proof (induction fs arbitrary: st gs m)
  case (Cons f fs)
  then obtain m' where m: "m = Suc m'" by (cases m) auto
  have len: "DET_NUMBER_OF_CALLBACKS cfg = length gs + m" "DET_NUMBER_OF_CALLBACKS cfg < 255"
    using Cons.prems(1,3) by (simp_all add: det_wf_def)
  have free: "det_free_index 0 (DET_NUMBER_OF_CALLBACKS cfg) (detCbk_List st) = Some (Some (length gs))"
    using det_free_index_skip [of 0 "length gs + m" "map Some gs" m "length gs"] len(1) m Cons.prems(3) by simp
  have "unat (of_nat (length gs) :: uint8) = length gs"
    using len m by (intro unat_of_nat_small) simp
  then have rv: "(of_nat (length gs) :: uint8) \<noteq> 0xFF" using len m by (auto simp: word_unat_eq_iff)
  define st1 where "st1 = st\<lparr>detCbk_List := map Some (gs @ [f]) @ replicate m' None\<rparr>"
  have add: "Det_AddCbk cfg st (Some f) = Some (of_nat (length gs), st1)"
    using Cons.prems(2,3) free rv m by (simp add: Det_AddCbk_def st1_def wr_def list_update_append)
  have "det_wf cfg st1" using Cons.prems(1,3) m by (simp add: det_wf_def st1_def)
  then show ?case using Cons.IH [of st1 "gs @ [f]" m'] Cons.prems(2,4) m add
    by (simp add: st1_def)
qed simp

lemma map_filter_Some: "List.map_filter id (map Some fs @ replicate m None) = fs"
proof -
  have "List.map_filter id (replicate m None) = []" by (induction m) (simp_all add: map_filter_simps)
  then show ?thesis by (induction fs) (simp_all add: map_filter_simps)
qed

section \<open>Properties\<close>

text \<open>
  C24: After Det_Init, the registration of at most as many callbacks as the table has places, and
  Det_Start, every sequence of reported errors is processed without undefined behaviour: each
  report calls every registered callback once, in the order of registration, besides the calls the
  configuration asks for; the RAM log then holds the last reports at their places modulo its size when it
  wraps, the first ones when it does not; and the interrupt state is as it was.
\<close>

theorem det_report_history:
  assumes "det_wf cfg st" and "DET_USE_RAMLOG cfg" and "DET_ENABLE_CALLBACKS cfg"
    and "0 < DET_RAMLOG_SIZE cfg" and "length fs \<le> DET_NUMBER_OF_CALLBACKS cfg"
  shows "\<exists>st1 st2. det_register cfg (Det_Init cfg st) fs = Some st1 \<and>
    det_reports cfg (Det_Start st1) es = Some st2 \<and>
    Det_RamLog st2 = det_log cfg es \<and> det_os st2 = det_os st \<and>
    det_calls st2 = det_calls st @ concat (map (det_calls_of cfg (map Some fs)) es)"
proof -
  define m where "m = DET_NUMBER_OF_CALLBACKS cfg"
  have init: "Det_Init cfg st = st\<lparr>detCbk_List := replicate m None,
      Det_RamLog := replicate (DET_RAMLOG_SIZE cfg) det_zero, Det_RamlogIndex := 0, detState := DET_INITIALIZED\<rparr>"
    using assms(2,3) by (simp add: Det_Init_def m_def)
  define st1 where "st1 = (Det_Init cfg st)\<lparr>detCbk_List := map Some fs @ replicate (m - length fs) None\<rparr>"
  have "det_wf cfg (Det_Init cfg st)" using assms(1) by (simp add: init det_wf_def m_def)
  then have reg: "det_register cfg (Det_Init cfg st) fs = Some st1"
    using det_register_all [of cfg "Det_Init cfg st" "[]" m fs] assms(5) by (simp add: init st1_def m_def)
  have wf: "det_wf cfg (Det_Start st1)"
    using assms(1,5) by (simp add: Det_Start_def st1_def init det_wf_def m_def)
  have "replicate (DET_RAMLOG_SIZE cfg) det_zero = det_log cfg []"
    by (auto simp: det_log_def Let_def det_slot_def intro!: nth_equalityI)
  then have log: "Det_RamLog (Det_Start st1) = det_log cfg []"
    "unat (Det_RamlogIndex (Det_Start st1)) = det_index cfg []"
    by (simp_all add: Det_Start_def st1_def init det_index_def Let_def)
  have calls: "det_calls_of cfg (map Some fs @ replicate (m - length fs) None) = det_calls_of cfg (map Some fs)"
    using map_filter_Some [of fs 0] by (simp add: fun_eq_iff det_calls_of_def map_filter_Some)
  show ?thesis using det_reports_log [OF wf _ assms(2,4) log, of es] reg calls
    by (simp add: Det_Start_def st1_def init)
qed

text \<open>A tracer before start-up, with the generic configuration.\<close>

definition Det_Reset :: Det_Global where
  "Det_Reset = \<lparr>detState = DET_UNINITIALIZED, Det_RamlogIndex = 0,
     Det_RamLog = replicate 16 det_zero, detCbk_List = replicate 5 None, det_calls = [], det_os = Os_Int_Start\<rparr>"

lemma Det_Reset_wf [simp]: "det_wf Det_Cfg Det_Reset"
  by (simp add: det_wf_def Det_Cfg_def Det_Reset_def)

theorem det_report_history_witness:
  "\<exists>st1 st2. det_register Det_Cfg (Det_Init Det_Cfg Det_Reset) [3, 4] = Some st1 \<and>
    det_reports Det_Cfg (Det_Start st1) (replicate 20 det_zero) = Some st2 \<and>
    Det_RamLog st2 = det_log Det_Cfg (replicate 20 det_zero) \<and> det_os st2 = det_os Det_Reset \<and>
    det_calls st2 = det_calls Det_Reset @
      concat (map (det_calls_of Det_Cfg (map Some [3, 4])) (replicate 20 det_zero))"
  by (rule det_report_history) (rule Det_Reset_wf, simp_all add: Det_Cfg_def)

end
