(* ===== verification/Stm32.thy ===== *)
theory Stm32
  imports Det
begin

text \<open>
  The part of the STM32F10x the drivers work on (\<^verbatim>\<open>stm32f10x.h\<close>, \<^verbatim>\<open>stm32f10x_gpio.c\<close>): the seven
  GPIO ports, the pin remap registers and the timers, together with the error tracer, in one
  record that the driver functions pass along. A register is a memory cell: it holds what was last
  written to it, and \<open>IDR\<close>, which the pins drive, is an input. A pointer to a peripheral is its
  index.

  The theory also has the \<^verbatim>\<open>VALIDATE\<close> macros, which all drivers define alike, the contract of an
  output port and what a read-modify-write on one does.
\<close>

section \<open>Definitions\<close>

record GPIO_TypeDef =
  CRL :: uint32
  CRH :: uint32
  IDR :: uint32
  ODR :: uint32
  BSRR :: uint32
  BRR :: uint32
  LCKR :: uint32

text \<open>The timer registers the Gpt driver uses, with the reserved halves of its 32-bit accesses.\<close>

record TIM_TypeDef =
  CR1 :: uint16
  DIER :: uint16
  SR :: uint16
  CNT :: uint16
  RESERVED9 :: uint16
  PSC :: uint16
  ARR :: uint16
  RESERVED11 :: uint16

record stm32 =
  gpio :: "GPIO_TypeDef list"
  MAPR :: uint32
  MAPR2 :: uint32
  tim :: "TIM_TypeDef list"
  det :: Det_Global

text \<open>The switches of a build: development error detection, and the configuration of Det.\<close>

record build =
  DEV_ERROR_DETECT :: bool
  DET_CFG :: Det_CfgType

definition GPIO_ReadInputData :: "stm32 \<Rightarrow> nat \<Rightarrow> uint16 ub" where
  "GPIO_ReadInputData hw x = do { g \<leftarrow> rd (gpio hw) x; Some (ucast (IDR g)) }"

definition GPIO_ReadOutputData :: "stm32 \<Rightarrow> nat \<Rightarrow> uint16 ub" where
  "GPIO_ReadOutputData hw x = do { g \<leftarrow> rd (gpio hw) x; Some (ucast (ODR g)) }"

definition GPIO_Write :: "stm32 \<Rightarrow> nat \<Rightarrow> uint16 \<Rightarrow> stm32 ub" where
  "GPIO_Write hw x PortVal = do {
     g \<leftarrow> rd (gpio hw) x;
     l \<leftarrow> wr (gpio hw) x (g\<lparr>ODR := ucast PortVal\<rparr>);
     Some (hw\<lparr>gpio := l\<rparr>) }"

abbreviation (input) "DBGAFR_POSITION_MASK \<equiv> (0x000F0000 :: uint32)"
abbreviation (input) "DBGAFR_SWJCFG_MASK \<equiv> (0xF0FFFFFF :: uint32)"
abbreviation (input) "DBGAFR_LOCATION_MASK \<equiv> (0x00200000 :: uint32)"
abbreviation (input) "DBGAFR_NUMBITS_MASK \<equiv> (0x00100000 :: uint32)"
abbreviation (input) "LSB_MASK \<equiv> (0xFFFF :: uint32)"

text \<open>A left shift of a \<^verbatim>\<open>uint32_t\<close>; a distance of 32 or more is undefined.\<close>

definition shl32 :: "uint32 \<Rightarrow> nat \<Rightarrow> uint32 ub" where
  "shl32 v n = (if n < 32 then Some (push_bit n v) else None)"

definition GPIO_PinRemapConfig :: "stm32 \<Rightarrow> uint32 \<Rightarrow> bool \<Rightarrow> stm32 ub" where
  "GPIO_PinRemapConfig hw GPIO_Remap NewState = do {
     let tmpreg = (if GPIO_Remap AND 0x80000000 = 0x80000000 then MAPR2 hw else MAPR hw);
     let tmpmask = drop_bit 0x10 (GPIO_Remap AND DBGAFR_POSITION_MASK);
     let tmp = GPIO_Remap AND LSB_MASK;
     let sh = unat (drop_bit 0x15 GPIO_Remap * 0x10);
     (tmpreg, hw) \<leftarrow>
       (if GPIO_Remap AND (DBGAFR_LOCATION_MASK OR DBGAFR_NUMBITS_MASK) =
           (DBGAFR_LOCATION_MASK OR DBGAFR_NUMBITS_MASK)
        then Some (tmpreg AND DBGAFR_SWJCFG_MASK, hw\<lparr>MAPR := MAPR hw AND DBGAFR_SWJCFG_MASK\<rparr>)
        else if GPIO_Remap AND DBGAFR_NUMBITS_MASK = DBGAFR_NUMBITS_MASK
        then do {
          tmp1 \<leftarrow> shl32 0x03 (unat tmpmask);
          Some ((tmpreg AND NOT tmp1) OR NOT DBGAFR_SWJCFG_MASK, hw) }
        else do {
          t \<leftarrow> shl32 tmp sh;
          Some ((tmpreg AND NOT t) OR NOT DBGAFR_SWJCFG_MASK, hw) });
     tmpreg \<leftarrow> (if NewState then do { t \<leftarrow> shl32 tmp sh; Some (tmpreg OR t) } else Some tmpreg);
     Some (if GPIO_Remap AND 0x80000000 = 0x80000000
           then hw\<lparr>MAPR2 := tmpreg\<rparr> else hw\<lparr>MAPR := tmpreg\<rparr>) }"

text \<open>\<^verbatim>\<open>Det_ReportError(module, 0, api, err)\<close> as a driver calls it.\<close>

definition det_report :: "build \<Rightarrow> uint16 \<Rightarrow> uint8 \<Rightarrow> uint8 \<Rightarrow> stm32 \<Rightarrow> stm32 ub" where
  "det_report bld m api err hw = do {
     d \<leftarrow> Det_ReportError (DET_CFG bld) (det hw) m 0 api err;
     Some (hw\<lparr>det := d\<rparr>) }"

text \<open>
  \<^verbatim>\<open>VALIDATE(exp, api, err)\<close> and \<^verbatim>\<open>VALIDATE_RV\<close> followed by the rest of the function: with
  development error detection off they expand to nothing; \<open>exp\<close> may itself fault.
\<close>

definition VALIDATE_RV ::
  "build \<Rightarrow> bool ub \<Rightarrow> uint16 \<Rightarrow> uint8 \<Rightarrow> uint8 \<Rightarrow> 'r \<Rightarrow> (stm32 \<Rightarrow> ('r \<times> stm32) ub) \<Rightarrow> stm32 \<Rightarrow> ('r \<times> stm32) ub"
  where
  "VALIDATE_RV bld ex m api err rv rest hw =
     (if DEV_ERROR_DETECT bld then do {
        b \<leftarrow> ex;
        if b then rest hw else do { hw \<leftarrow> det_report bld m api err hw; Some (rv, hw) } }
      else rest hw)"

definition VALIDATE ::
  "build \<Rightarrow> bool ub \<Rightarrow> uint16 \<Rightarrow> uint8 \<Rightarrow> uint8 \<Rightarrow> (stm32 \<Rightarrow> stm32 ub) \<Rightarrow> stm32 \<Rightarrow> stm32 ub" where
  "VALIDATE bld ex m api err rest hw =
     (if DEV_ERROR_DETECT bld then do {
        b \<leftarrow> ex;
        if b then rest hw else det_report bld m api err hw }
      else rest hw)"

text \<open>A chip with its seven ports and timers and a tracer in a consistent state.\<close>

definition hw_wf :: "build \<Rightarrow> stm32 \<Rightarrow> bool" where
  "hw_wf bld hw \<longleftrightarrow> length (gpio hw) = 7 \<and> length (tim hw) = 7 \<and> det_wf (DET_CFG bld) (det hw)"

text \<open>The chip with everything but the tracer forgotten: what an operation that only reports keeps.\<close>

definition same_hw :: "stm32 \<Rightarrow> stm32 \<Rightarrow> bool" where
  "same_hw hw hw' \<longleftrightarrow> hw' = hw\<lparr>det := det hw'\<rparr>"

section \<open>Reporting\<close>

lemma report_total:
  assumes "det_wf cfg st"
  shows "\<exists>st'. Det_ReportError cfg st m i a e = Some st' \<and> det_wf cfg st'"
proof (cases "detState st = DET_STARTED")
  case True
  then show ?thesis
    using report_started [OF assms, of "\<lparr>moduleId = m, instanceId = i, apiId = a, errorId = e\<rparr>"]
      det_after_frame (1) [OF assms] by auto
qed (use report_stopped assms in auto)

lemma det_report_total:
  assumes "hw_wf bld hw"
  shows "\<exists>hw'. det_report bld m a e hw = Some hw' \<and> hw_wf bld hw' \<and> same_hw hw hw'"
  using report_total [of "DET_CFG bld" "det hw" m 0 a e] assms
  by (auto simp: hw_wf_def det_report_def same_hw_def)

lemma VALIDATE_pass [simp]:
  "VALIDATE bld (Some True) m a e rest hw = rest hw"
  "VALIDATE_RV bld (Some True) m a e rv rest2 hw = rest2 hw"
  by (simp_all add: VALIDATE_def VALIDATE_RV_def)

lemma VALIDATE_off [simp]:
  "\<not> DEV_ERROR_DETECT bld \<Longrightarrow> VALIDATE bld ex m a e rest hw = rest hw"
  "\<not> DEV_ERROR_DETECT bld \<Longrightarrow> VALIDATE_RV bld ex m a e rv rest2 hw = rest2 hw"
  by (simp_all add: VALIDATE_def VALIDATE_RV_def)

lemma VALIDATE_fail:
  assumes "DEV_ERROR_DETECT bld"
  shows "VALIDATE bld (Some False) m a e rest hw = det_report bld m a e hw"
    and "VALIDATE_RV bld (Some False) m a e rv rest2 hw = map_option (Pair rv) (det_report bld m a e hw)"
  using assms by (simp_all add: VALIDATE_def VALIDATE_RV_def map_conv_bind_option comp_def)

section \<open>The contract of an output port\<close>

text \<open>
  What the drivers rely on: a write is read back, and leaves the other ports alone.
\<close>

locale output_port =
  fixes valid :: "'h \<Rightarrow> nat \<Rightarrow> bool"
    and read_out :: "'h \<Rightarrow> nat \<Rightarrow> uint16 ub"
    and write_out :: "'h \<Rightarrow> nat \<Rightarrow> uint16 \<Rightarrow> 'h ub"
  assumes read_total: "valid h p \<Longrightarrow> read_out h p \<noteq> None"
    and write_total: "valid h p \<Longrightarrow> write_out h p v \<noteq> None"
    and write_valid: "write_out h p v = Some h' \<Longrightarrow> valid h' q = valid h q"
    and read_write: "write_out h p v = Some h' \<Longrightarrow> read_out h' q = (if q = p then Some v else read_out h q)"
begin

text \<open>A masked read-modify-write changes exactly the bits of the mask.\<close>

lemma masked_update:
  assumes "valid h p" and "read_out h p = Some v"
  shows "\<exists>h'. write_out h p ((v AND NOT m) OR (l AND m)) = Some h' \<and>
    read_out h' p = Some ((v AND NOT m) OR (l AND m)) \<and>
    (\<forall>q. q \<noteq> p \<longrightarrow> read_out h' q = read_out h q)"
  using write_total [OF assms(1)] read_write by fastforce

lemma masked_bits:
  "bit ((v AND NOT m) OR (l AND m)) k = (if bit m k then bit l k else bit (v :: uint16) k)"
  by (auto simp: bit_simps dest: bit_imp_le_length)

end

lemma ucast_ucast16 [simp]: "ucast (ucast (v :: uint16) :: uint32) = v"
  by (rule bit_word_eqI) (auto simp: bit_simps)

interpretation gpio_out: output_port "\<lambda>hw p. p < length (gpio hw)" GPIO_ReadOutputData GPIO_Write
  by unfold_locales
    (auto simp: GPIO_ReadOutputData_def GPIO_Write_def ub_simps rd_def Option.bind_eq_Some_conv
      wr_eq_Some_iff nth_list_update split: if_splits)

section \<open>The chip after reset\<close>

definition gpio_reset :: GPIO_TypeDef where
  "gpio_reset = \<lparr>CRL = 0x44444444, CRH = 0x44444444, IDR = 0, ODR = 0, BSRR = 0, BRR = 0, LCKR = 0\<rparr>"

definition tim_reset :: TIM_TypeDef where
  "tim_reset = \<lparr>CR1 = 0, DIER = 0, SR = 0, CNT = 0, RESERVED9 = 0, PSC = 0, ARR = 0xFFFF, RESERVED11 = 0\<rparr>"

definition hw_reset :: stm32 where
  "hw_reset = \<lparr>gpio = replicate 7 gpio_reset, MAPR = 0, MAPR2 = 0, tim = replicate 7 tim_reset, det = Det_Reset\<rparr>"

abbreviation (input) "dev_build \<equiv> \<lparr>DEV_ERROR_DETECT = True, DET_CFG = Det_Cfg\<rparr>"

lemma hw_reset_wf [simp]: "hw_wf dev_build hw_reset"
  by (simp add: hw_wf_def hw_reset_def)

end
