(* ===== verification/Dio.thy ===== *)
theory Dio
  imports Stm32
begin

text \<open>
  The digital I/O driver \<^verbatim>\<open>McalSrc/Dio.c\<close> with the types of \<^verbatim>\<open>core/drivers/Dio/Dio.h\<close> for the STM32
  and the configuration \<^verbatim>\<open>McalGen/Dio_Lcfg.c\<close>. \<open>DIO_DEV_ERROR_DETECT\<close> is the switch of the build
  record. The configuration lists end with \<open>DIO_END_OF_LIST\<close>; a search that leaves a list faults.
\<close>

section \<open>Definitions\<close>

type_synonym Dio_ChannelType = uint32
type_synonym Dio_PortType = uint32
type_synonym Dio_LevelType = uint8
type_synonym Dio_PortLevelType = uint16

record Dio_ChannelGroupType =
  port :: Dio_PortType
  offset :: uint8
  mask :: uint16

record Dio_ConfigType =
  ChannelConfig :: "Dio_ChannelType list"
  GroupConfig :: "Dio_ChannelGroupType list"
  PortConfig :: "Dio_PortType list"

record Dio_GlobalType =
  Config :: "Dio_ConfigType ptr"
  InitRun :: bool

abbreviation (input) "DIO_END_OF_LIST \<equiv> (0xFFFFFFFF :: uint32)"
abbreviation (input) "DIO_MODULE_ID \<equiv> (120 :: uint16)"
abbreviation (input) "DIO_READCHANNEL_ID \<equiv> (0x00 :: uint8)"
abbreviation (input) "DIO_WRITECHANNEL_ID \<equiv> (0x01 :: uint8)"
abbreviation (input) "DIO_READPORT_ID \<equiv> (0x02 :: uint8)"
abbreviation (input) "DIO_WRITEPORT_ID \<equiv> (0x03 :: uint8)"
abbreviation (input) "DIO_READCHANNELGROUP_ID \<equiv> (0x04 :: uint8)"
abbreviation (input) "DIO_WRITECHANNELGROUP_ID \<equiv> (0x05 :: uint8)"
abbreviation (input) "DIO_INIT_ID \<equiv> (0x10 :: uint8)"
abbreviation (input) "DIO_E_PARAM_INVALID_CHANNEL_ID \<equiv> (10 :: uint8)"
abbreviation (input) "DIO_E_PARAM_INVALID_PORT_ID \<equiv> (20 :: uint8)"
abbreviation (input) "DIO_E_PARAM_INVALID_GROUP_ID \<equiv> (31 :: uint8)"
abbreviation (input) "DIO_E_PARAM_CONFIG \<equiv> (0x10 :: uint8)"
abbreviation (input) "DIO_E_UNINIT \<equiv> (0x30 :: uint8)"
abbreviation (input) "STD_HIGH \<equiv> (1 :: uint8)"
abbreviation (input) "STD_LOW \<equiv> (0 :: uint8)"

text \<open>\<^verbatim>\<open>GPIO_ports[]\<close>: GPIOA to GPIOF, as indices of the chip's ports.\<close>

definition GPIO_ports :: "nat list" where
  "GPIO_ports = [0, 1, 2, 3, 4, 5]"

definition DIO_GET_PORT_FROM_CHANNEL_ID :: "Dio_ChannelType \<Rightarrow> Dio_PortType" where
  "DIO_GET_PORT_FROM_CHANNEL_ID channelId = channelId div 16"

definition DIO_GET_BIT_FROM_CHANNEL_ID :: "Dio_ChannelType \<Rightarrow> uint16" where
  "DIO_GET_BIT_FROM_CHANNEL_ID channelId = push_bit (unat (channelId mod 16)) 1"

text \<open>The search \<^verbatim>\<open>while (END != *p) { if (hit) { rv = 1; break; } p++; }\<close>\<close>

fun config_contains :: "('a \<Rightarrow> bool) \<Rightarrow> ('a \<Rightarrow> bool) \<Rightarrow> 'a list \<Rightarrow> bool ub" where
  "config_contains stop hit [] = None"
| "config_contains stop hit (x # xs) =
     (if stop x then Some False else if hit x then Some True else config_contains stop hit xs)"

definition Channel_Config_Contains :: "Dio_GlobalType \<Rightarrow> Dio_ChannelType \<Rightarrow> bool ub" where
  "Channel_Config_Contains g channelId = do {
     c \<leftarrow> deref (Config g);
     config_contains (\<lambda>x. x = DIO_END_OF_LIST) (\<lambda>x. x = channelId) (ChannelConfig c) }"

definition Port_Config_Contains :: "Dio_GlobalType \<Rightarrow> Dio_PortType \<Rightarrow> bool ub" where
  "Port_Config_Contains g portId = do {
     c \<leftarrow> deref (Config g);
     config_contains (\<lambda>x. x = DIO_END_OF_LIST) (\<lambda>x. x = portId) (PortConfig c) }"

definition Channel_Group_Config_Contains :: "Dio_GlobalType \<Rightarrow> Dio_ChannelGroupType ptr \<Rightarrow> bool ub" where
  "Channel_Group_Config_Contains g channelGroupIdPtr = do {
     c \<leftarrow> deref (Config g);
     case channelGroupIdPtr of
       None \<Rightarrow> Some False
     | Some p \<Rightarrow> config_contains (\<lambda>x. port x = DIO_END_OF_LIST)
                  (\<lambda>x. port x = port p \<and> mask x = mask p) (GroupConfig c) }"

definition Dio_ReadPort ::
  "build \<Rightarrow> Dio_GlobalType \<Rightarrow> Dio_PortType \<Rightarrow> stm32 \<Rightarrow> (Dio_PortLevelType \<times> stm32) ub" where
  "Dio_ReadPort bld g portId =
     VALIDATE_RV bld (Some (InitRun g)) DIO_MODULE_ID DIO_READPORT_ID DIO_E_UNINIT 0
    (VALIDATE_RV bld (Port_Config_Contains g portId) DIO_MODULE_ID DIO_READPORT_ID DIO_E_PARAM_INVALID_PORT_ID 0
    (\<lambda>hw. do {
       x \<leftarrow> rd GPIO_ports (unat portId);
       level \<leftarrow> GPIO_ReadInputData hw x;
       Some (level, hw) }))"

definition Dio_WritePort ::
  "build \<Rightarrow> Dio_GlobalType \<Rightarrow> Dio_PortType \<Rightarrow> Dio_PortLevelType \<Rightarrow> stm32 \<Rightarrow> stm32 ub" where
  "Dio_WritePort bld g portId level =
     VALIDATE bld (Some (InitRun g)) DIO_MODULE_ID DIO_READCHANNELGROUP_ID DIO_E_UNINIT
    (VALIDATE bld (Port_Config_Contains g portId) DIO_MODULE_ID DIO_WRITEPORT_ID DIO_E_PARAM_INVALID_PORT_ID
    (\<lambda>hw. do {
       x \<leftarrow> rd GPIO_ports (unat portId);
       GPIO_Write hw x level }))"

definition Dio_ReadChannel ::
  "build \<Rightarrow> Dio_GlobalType \<Rightarrow> Dio_ChannelType \<Rightarrow> stm32 \<Rightarrow> (Dio_LevelType \<times> stm32) ub" where
  "Dio_ReadChannel bld g channelId =
     VALIDATE_RV bld (Some (InitRun g)) DIO_MODULE_ID DIO_READCHANNEL_ID DIO_E_UNINIT 0
    (VALIDATE_RV bld (Channel_Config_Contains g channelId)
       DIO_MODULE_ID DIO_READCHANNEL_ID DIO_E_PARAM_INVALID_CHANNEL_ID 0
    (\<lambda>hw. do {
       (portVal, hw) \<leftarrow> Dio_ReadPort bld g (DIO_GET_PORT_FROM_CHANNEL_ID channelId) hw;
       let bt = DIO_GET_BIT_FROM_CHANNEL_ID channelId;
       Some (if portVal AND bt \<noteq> 0 then STD_HIGH else STD_LOW, hw) }))"

definition Dio_WriteChannel ::
  "build \<Rightarrow> Dio_GlobalType \<Rightarrow> Dio_ChannelType \<Rightarrow> Dio_LevelType \<Rightarrow> stm32 \<Rightarrow> stm32 ub" where
  "Dio_WriteChannel bld g channelId level =
     VALIDATE bld (Some (InitRun g)) DIO_MODULE_ID DIO_WRITECHANNEL_ID DIO_E_UNINIT
    (VALIDATE bld (Channel_Config_Contains g channelId)
       DIO_MODULE_ID DIO_WRITECHANNEL_ID DIO_E_PARAM_INVALID_CHANNEL_ID
    (\<lambda>hw. do {
       x \<leftarrow> rd GPIO_ports (unat (DIO_GET_PORT_FROM_CHANNEL_ID channelId));
       portVal \<leftarrow> GPIO_ReadOutputData hw x;
       let bt = DIO_GET_BIT_FROM_CHANNEL_ID channelId;
       let portVal = (if level = STD_HIGH then portVal OR bt else portVal AND NOT bt);
       Dio_WritePort bld g (DIO_GET_PORT_FROM_CHANNEL_ID channelId) portVal hw }))"

text \<open>
  The shifts of the group functions are on \<^verbatim>\<open>int\<close>: undefined for a distance of 32 or more, and, to
  the left, when the value leaves the range of \<^verbatim>\<open>int\<close>.
\<close>

definition shift_down :: "uint16 \<Rightarrow> uint8 \<Rightarrow> uint16 ub" where
  "shift_down v n = (if unat n < 32 then Some (drop_bit (unat n) v) else None)"

definition shift_up :: "uint16 \<Rightarrow> uint8 \<Rightarrow> uint16 ub" where
  "shift_up v n =
     (if unat n < 32 \<and> unat v * 2 ^ unat n < 2 ^ 31 then Some (push_bit (unat n) v) else None)"

definition Dio_ReadChannelGroup ::
  "build \<Rightarrow> Dio_GlobalType \<Rightarrow> Dio_ChannelGroupType ptr \<Rightarrow> stm32 \<Rightarrow> (Dio_PortLevelType \<times> stm32) ub" where
  "Dio_ReadChannelGroup bld g channelGroupIdPtr =
     VALIDATE_RV bld (Some (InitRun g)) DIO_MODULE_ID DIO_READCHANNELGROUP_ID DIO_E_UNINIT 0
    (VALIDATE_RV bld (Channel_Group_Config_Contains g channelGroupIdPtr)
       DIO_MODULE_ID DIO_READCHANNELGROUP_ID DIO_E_PARAM_INVALID_GROUP_ID 0
    (\<lambda>hw. do {
       p \<leftarrow> deref channelGroupIdPtr;
       (v, hw) \<leftarrow> Dio_ReadPort bld g (port p) hw;
       let level = v AND mask p;
       level \<leftarrow> shift_down level (offset p);
       Some (level, hw) }))"

definition Dio_WriteChannelGroup ::
  "build \<Rightarrow> Dio_GlobalType \<Rightarrow> Dio_ChannelGroupType ptr \<Rightarrow> Dio_PortLevelType \<Rightarrow> stm32 \<Rightarrow> stm32 ub" where
  "Dio_WriteChannelGroup bld g channelGroupIdPtr level =
     VALIDATE bld (Some (InitRun g)) DIO_MODULE_ID DIO_WRITECHANNELGROUP_ID DIO_E_UNINIT
    (VALIDATE bld (Channel_Group_Config_Contains g channelGroupIdPtr)
       DIO_MODULE_ID DIO_WRITECHANNELGROUP_ID DIO_E_PARAM_INVALID_GROUP_ID
    (\<lambda>hw. do {
       p \<leftarrow> deref channelGroupIdPtr;
       l \<leftarrow> shift_up level (offset p);
       let level = l AND mask p;
       x \<leftarrow> rd GPIO_ports (unat (port p));
       v \<leftarrow> GPIO_ReadOutputData hw x;
       let portVal = v AND NOT (mask p);
       let portVal = portVal OR level;
       Dio_WritePort bld g (port p) portVal hw }))"

definition Dio_Init ::
  "build \<Rightarrow> Dio_GlobalType \<Rightarrow> Dio_ConfigType ptr \<Rightarrow> stm32 \<Rightarrow> (Dio_GlobalType \<times> stm32) ub" where
  "Dio_Init bld g ConfigPtr =
     VALIDATE_RV bld (Some (ConfigPtr \<noteq> None)) DIO_MODULE_ID DIO_INIT_ID DIO_E_PARAM_CONFIG g
    (\<lambda>hw. Some (g\<lparr>Config := ConfigPtr, InitRun := True\<rparr>, hw))"

text \<open>The generated configuration: channels D7, D8, LED1 and LED2, ports D and E, no groups.\<close>

definition DioConfigData :: Dio_ConfigType where
  "DioConfigData = \<lparr>
     ChannelConfig = [76, 77, 55, 61, DIO_END_OF_LIST],
     GroupConfig = [\<lparr>port = DIO_END_OF_LIST, offset = 0, mask = 0\<rparr>],
     PortConfig = [3, 4, DIO_END_OF_LIST]\<rparr>"

text \<open>
  The specification. The output level of a pin, by channel number, and the part of the chip the
  driver never touches: every register but \<open>ODR\<close>.
\<close>

definition dio_out :: "stm32 \<Rightarrow> uint32 \<Rightarrow> bool" where
  "dio_out hw ch = bit (ODR (gpio hw ! (unat ch div 16))) (unat ch mod 16)"

definition same_but_out :: "stm32 \<Rightarrow> stm32 \<Rightarrow> bool" where
  "same_but_out hw hw' \<longleftrightarrow>
     map (ODR_update (\<lambda>_. 0)) (gpio hw') = map (ODR_update (\<lambda>_. 0)) (gpio hw) \<and>
     hw' = hw\<lparr>gpio := gpio hw'\<rparr>"

text \<open>A call passes the checks: detection is off, or the driver is initialised and the id configured.\<close>

definition dio_port_ok :: "build \<Rightarrow> Dio_GlobalType \<Rightarrow> Dio_PortType \<Rightarrow> bool" where
  "dio_port_ok bld g p \<longleftrightarrow> unat p < 6 \<and>
     (DEV_ERROR_DETECT bld \<longrightarrow> InitRun g \<and> Port_Config_Contains g p = Some True)"

definition dio_channel_ok :: "build \<Rightarrow> Dio_GlobalType \<Rightarrow> Dio_ChannelType \<Rightarrow> bool" where
  "dio_channel_ok bld g ch \<longleftrightarrow> dio_port_ok bld g (ch div 16) \<and>
     (DEV_ERROR_DETECT bld \<longrightarrow> Channel_Config_Contains g ch = Some True)"

definition dio_group_ok :: "build \<Rightarrow> Dio_GlobalType \<Rightarrow> Dio_ChannelGroupType \<Rightarrow> bool" where
  "dio_group_ok bld g p \<longleftrightarrow> dio_port_ok bld g (port p) \<and> unat (offset p) < 16 \<and>
     (DEV_ERROR_DETECT bld \<longrightarrow> Channel_Group_Config_Contains g (Some p) = Some True)"

text \<open>
  A configuration the driver can be initialised with: its lists are terminated and name only the
  six ports of \<open>GPIO_ports\<close>.
\<close>

definition dio_config_ok :: "Dio_ConfigType \<Rightarrow> bool" where
  "dio_config_ok c \<longleftrightarrow>
     DIO_END_OF_LIST \<in> set (ChannelConfig c) \<and> DIO_END_OF_LIST \<in> set (PortConfig c) \<and>
     list_ex (\<lambda>x. port x = DIO_END_OF_LIST) (GroupConfig c) \<and>
     list_all (\<lambda>x. x = DIO_END_OF_LIST \<or> unat x < 96) (ChannelConfig c) \<and>
     list_all (\<lambda>x. x = DIO_END_OF_LIST \<or> unat x < 6) (PortConfig c) \<and>
     list_all (\<lambda>x. port x = DIO_END_OF_LIST \<or> unat (port x) < 6) (GroupConfig c)"

definition dio_state_ok :: "Dio_GlobalType \<Rightarrow> bool" where
  "dio_state_ok g \<longleftrightarrow> (InitRun g \<longrightarrow> (\<exists>c. Config g = Some c \<and> dio_config_ok c))"

section \<open>The port operations\<close>

lemma ports_nth: "unat p < 6 \<Longrightarrow> rd GPIO_ports (unat p) = Some (unat p)"
proof -
  assume "unat p < 6"
  then have "GPIO_ports ! unat p = unat p" by (auto simp: GPIO_ports_def less_Suc_eq numeral_eq_Suc)
  then show ?thesis using \<open>unat p < 6\<close> by (simp add: rd_def GPIO_ports_def)
qed

lemma VALIDATE_pass_if:
  "(DEV_ERROR_DETECT bld \<Longrightarrow> ex = Some True) \<Longrightarrow> VALIDATE bld ex m a e rest hw = rest hw"
  "(DEV_ERROR_DETECT bld \<Longrightarrow> ex = Some True) \<Longrightarrow> VALIDATE_RV bld ex m a e rv rest2 hw = rest2 hw"
  by (cases "DEV_ERROR_DETECT bld", simp_all)+

lemma write_port_ok:
  "dio_port_ok bld g p \<Longrightarrow> Dio_WritePort bld g p v hw = GPIO_Write hw (unat p) v"
  by (simp add: Dio_WritePort_def dio_port_ok_def VALIDATE_pass_if ports_nth)

lemma read_port_ok:
  "dio_port_ok bld g p \<Longrightarrow> length (gpio hw) = 7 \<Longrightarrow>
   Dio_ReadPort bld g p hw = Some (ucast (IDR (gpio hw ! unat p)), hw)"
  by (simp add: Dio_ReadPort_def dio_port_ok_def VALIDATE_pass_if ports_nth GPIO_ReadInputData_def ub_simps)

lemma gpio_write_eq:
  "x < length (gpio hw) \<Longrightarrow> GPIO_Write hw x v =
     Some (hw\<lparr>gpio := (gpio hw)[x := (gpio hw ! x)\<lparr>ODR := ucast v\<rparr>]\<rparr>)"
  by (simp add: GPIO_Write_def ub_simps)

lemma gpio_write_same: "GPIO_Write hw x v = Some hw' \<Longrightarrow> same_but_out hw hw'"
  by (auto simp: GPIO_Write_def Option.bind_eq_Some_conv wr_eq_Some_iff rd_eq_Some_iff same_but_out_def
      map_update list_update_same_conv)

text \<open>The output levels after a port is written.\<close>

lemma dio_out_write:
  assumes "GPIO_Write hw x v = Some hw'"
  shows "dio_out hw' c = (if unat c div 16 = x then bit v (unat c mod 16) else dio_out hw c)"
  using assms
  by (auto simp: GPIO_Write_def Option.bind_eq_Some_conv wr_eq_Some_iff rd_eq_Some_iff dio_out_def
      bit_ucast_iff)

lemma read_out_bit:
  "GPIO_ReadOutputData hw (unat c div 16) = Some v \<Longrightarrow> bit v (unat c mod 16) = dio_out hw c"
  by (auto simp: GPIO_ReadOutputData_def Option.bind_eq_Some_conv rd_eq_Some_iff dio_out_def bit_ucast_iff)

lemma channel_split: "unat (ch div 16 :: uint32) = unat ch div 16" "unat (ch mod 16 :: uint32) = unat ch mod 16"
  by (simp_all add: unat_div_distrib unat_mod_distrib)

lemma channel_eq_iff: "c = ch \<longleftrightarrow> unat c div 16 = unat ch div 16 \<and> unat c mod 16 = unat (ch :: uint32) mod 16"
  by (metis div_mod_decomp word_unat_eq_iff)

lemma bit_channel_bit:
  "bit (DIO_GET_BIT_FROM_CHANNEL_ID ch) k \<longleftrightarrow> k = unat ch mod 16"
  by (auto simp: DIO_GET_BIT_FROM_CHANNEL_ID_def channel_split bit_exp_iff)

section \<open>The configuration checks\<close>

lemma config_contains_total:
  "\<exists>x \<in> set xs. stop x \<Longrightarrow> \<exists>b. config_contains stop hit xs = Some b"
  by (induction xs) auto

lemma config_contains_hit:
  "config_contains stop hit xs = Some True \<Longrightarrow> \<exists>x \<in> set xs. \<not> stop x \<and> hit x"
  by (induction xs) (auto split: if_splits)

lemma contains_total:
  assumes "dio_state_ok g" and "InitRun g"
  shows "\<exists>b. Channel_Config_Contains g ch = Some b" and "\<exists>b. Port_Config_Contains g p = Some b"
    and "\<exists>b. Channel_Group_Config_Contains g q = Some b"
proof -
  obtain c where c: "Config g = Some c" "dio_config_ok c" using assms by (auto simp: dio_state_ok_def)
  show "\<exists>b. Channel_Config_Contains g ch = Some b" "\<exists>b. Port_Config_Contains g p = Some b"
    using c unfolding Channel_Config_Contains_def Port_Config_Contains_def dio_config_ok_def
    by (auto simp: deref_def intro!: config_contains_total)
  show "\<exists>b. Channel_Group_Config_Contains g q = Some b"
    using c unfolding Channel_Group_Config_Contains_def dio_config_ok_def
    by (cases q) (auto simp: deref_def list_ex_iff intro!: config_contains_total)
qed

lemma contains_in_range:
  assumes "dio_state_ok g" and "InitRun g"
  shows "Channel_Config_Contains g ch = Some True \<Longrightarrow> unat ch < 96"
    and "Port_Config_Contains g p = Some True \<Longrightarrow> unat p < 6"
    and "Channel_Group_Config_Contains g (Some q) = Some True \<Longrightarrow> unat (port q) < 6"
proof -
  obtain c where c: "Config g = Some c" "dio_config_ok c" using assms by (auto simp: dio_state_ok_def)
  show "Channel_Config_Contains g ch = Some True \<Longrightarrow> unat ch < 96"
    "Port_Config_Contains g p = Some True \<Longrightarrow> unat p < 6"
    using c unfolding Channel_Config_Contains_def Port_Config_Contains_def dio_config_ok_def
    by (auto simp: deref_def list_all_iff dest!: config_contains_hit)
  show "Channel_Group_Config_Contains g (Some q) = Some True \<Longrightarrow> unat (port q) < 6"
    using c unfolding Channel_Group_Config_Contains_def dio_config_ok_def
    by (auto simp: deref_def list_all_iff dest!: config_contains_hit)
qed

section \<open>Writing channels and groups\<close>

lemma write_channel_eq:
  assumes "dio_channel_ok bld g ch" and "length (gpio hw) = 7"
    and v: "GPIO_ReadOutputData hw (unat ch div 16) = Some v"
  shows "Dio_WriteChannel bld g ch level hw =
    GPIO_Write hw (unat ch div 16)
      (if level = STD_HIGH then v OR DIO_GET_BIT_FROM_CHANNEL_ID ch
       else v AND NOT (DIO_GET_BIT_FROM_CHANNEL_ID ch))"
proof -
  have ok: "dio_port_ok bld g (ch div 16)" "unat (ch div 16) < 6"
    "DEV_ERROR_DETECT bld \<Longrightarrow> InitRun g \<and> Channel_Config_Contains g ch = Some True"
    using assms(1) by (auto simp: dio_channel_ok_def dio_port_ok_def)
  show ?thesis using ok v
    by (simp add: Dio_WriteChannel_def VALIDATE_pass_if write_port_ok DIO_GET_PORT_FROM_CHANNEL_ID_def
        ports_nth channel_split(1) [symmetric])
qed

lemma shift_up_total:
  assumes "unat n < 16"
  shows "shift_up v n = Some (push_bit (unat n) v)"
proof -
  have "unat v < 65536" by simp
  then have "unat v \<le> 65535" by linarith
  then have "unat v * 2 ^ unat n \<le> 65535 * 2 ^ 15"
    using assms by (intro mult_le_mono power_increasing) auto
  then show ?thesis using assms by (simp add: shift_up_def)
qed

lemma write_group_eq:
  assumes "dio_group_ok bld g p" and "length (gpio hw) = 7"
    and v: "GPIO_ReadOutputData hw (unat (port p)) = Some v"
  shows "Dio_WriteChannelGroup bld g (Some p) level hw =
    GPIO_Write hw (unat (port p))
      ((v AND NOT (mask p)) OR (push_bit (unat (offset p)) level AND mask p))"
proof -
  have ok: "dio_port_ok bld g (port p)" "unat (port p) < 6" "unat (offset p) < 16"
    "DEV_ERROR_DETECT bld \<Longrightarrow> InitRun g \<and> Channel_Group_Config_Contains g (Some p) = Some True"
    using assms(1) by (auto simp: dio_group_ok_def dio_port_ok_def)
  show ?thesis using ok v shift_up_total [OF ok(3), of level]
    by (simp add: Dio_WriteChannelGroup_def VALIDATE_pass_if write_port_ok ports_nth deref_def)
qed

lemma read_out_total:
  "x < 6 \<Longrightarrow> length (gpio hw) = 7 \<Longrightarrow> \<exists>v. GPIO_ReadOutputData hw x = Some v"
  by (simp add: GPIO_ReadOutputData_def ub_simps)

section \<open>Properties\<close>

lemma write_channel_effect:
  assumes "dio_channel_ok bld g ch" and "length (gpio hw) = 7"
  shows "\<exists>hw'. Dio_WriteChannel bld g ch level hw = Some hw' \<and> same_but_out hw hw' \<and>
    (\<forall>c. dio_out hw' c = (if c = ch then level = STD_HIGH else dio_out hw c))"
proof -
  have p: "unat ch div 16 < 6"
    using assms(1) by (simp add: dio_channel_ok_def dio_port_ok_def channel_split)
  then obtain v where v: "GPIO_ReadOutputData hw (unat ch div 16) = Some v"
    using read_out_total assms(2) by blast
  define w where "w = (if level = STD_HIGH then v OR DIO_GET_BIT_FROM_CHANNEL_ID ch
    else v AND NOT (DIO_GET_BIT_FROM_CHANNEL_ID ch))"
  obtain hw' where hw': "GPIO_Write hw (unat ch div 16) w = Some hw'"
    using p assms(2) by (simp add: gpio_write_eq)
  have "bit w (unat c mod 16) = (if c = ch then level = STD_HIGH else dio_out hw c)"
    if "unat c div 16 = unat ch div 16" for c
    using that v read_out_bit [of hw c v] channel_eq_iff [of c ch]
    by (auto simp: w_def bit_or_iff bit_and_iff bit_not_iff bit_channel_bit)
  then show ?thesis
    using write_channel_eq [OF assms v, of level] hw' dio_out_write [OF hw'] gpio_write_same [OF hw']
    by (auto simp: w_def)
qed

text \<open>
  Writing a channel sets the output of exactly that pin to the level: of all the pins of the
  seven ports no other changes its output level, and no register besides the output data registers
  is written.
\<close>

theorem dio_write_channel:
  assumes "dio_channel_ok bld g ch" and "length (gpio hw) = 7"
  shows "\<exists>hw'. Dio_WriteChannel bld g ch level hw = Some hw' \<and> same_but_out hw hw' \<and>
    (\<forall>c. dio_out hw' c = (if c = ch then level = STD_HIGH else dio_out hw c))"
  by (rule write_channel_effect [OF assms])

text \<open>The driver initialised with the generated configuration.\<close>

abbreviation (input) "dio_running \<equiv> \<lparr>Config = Some DioConfigData, InitRun = True\<rparr>"

theorem dio_write_channel_witness:
  "\<exists>hw'. Dio_WriteChannel dev_build dio_running 55 1 hw_reset = Some hw' \<and> same_but_out hw_reset hw' \<and>
    (\<forall>c. dio_out hw' c = (if c = 55 then (1 :: uint8) = STD_HIGH else dio_out hw_reset c))"
  by (rule dio_write_channel)
    (simp_all add: dio_channel_ok_def dio_port_ok_def DioConfigData_def Channel_Config_Contains_def
      Port_Config_Contains_def deref_def hw_reset_def)

text \<open>
  C25: Writing a channel group sets exactly the pins of its mask, to the bits of the level shifted to
  the group's offset, and writes no register besides the output data registers. When the pins of the
  port read back what is driven, reading the group returns the bits of the level that the mask lets
  through.
\<close>

theorem dio_group_roundtrip:
  assumes "dio_group_ok bld g p" and "length (gpio hw) = 7"
  shows "\<exists>hw'. Dio_WriteChannelGroup bld g (Some p) level hw = Some hw' \<and> same_but_out hw hw' \<and>
    (\<forall>c. dio_out hw' c =
      (if unat c div 16 = unat (port p) \<and> bit (mask p) (unat c mod 16)
       then bit (push_bit (unat (offset p)) level) (unat c mod 16) else dio_out hw c)) \<and>
    (\<forall>hw''. length (gpio hw'') = 7 \<and> IDR (gpio hw'' ! unat (port p)) = ODR (gpio hw' ! unat (port p)) \<longrightarrow>
      Dio_ReadChannelGroup bld g (Some p) hw'' =
        Some (level AND drop_bit (unat (offset p)) (mask p), hw''))"
proof -
  have p: "unat (port p) < 6" "unat (offset p) < 16" "dio_port_ok bld g (port p)"
    and dev: "DEV_ERROR_DETECT bld \<Longrightarrow> InitRun g \<and> Channel_Group_Config_Contains g (Some p) = Some True"
    using assms(1) by (auto simp: dio_group_ok_def dio_port_ok_def)
  obtain v where v: "GPIO_ReadOutputData hw (unat (port p)) = Some v"
    using read_out_total p(1) assms(2) by blast
  define w where "w = (v AND NOT (mask p)) OR (push_bit (unat (offset p)) level AND mask p)"
  define hw' where "hw' = hw\<lparr>gpio := (gpio hw)[unat (port p) := (gpio hw ! unat (port p))\<lparr>ODR := ucast w\<rparr>]\<rparr>"
  have hw': "GPIO_Write hw (unat (port p)) w = Some hw'"
    using p(1) assms(2) by (simp add: gpio_write_eq hw'_def)
  have "dio_out hw' c = (if unat c div 16 = unat (port p) \<and> bit (mask p) (unat c mod 16)
       then bit (push_bit (unat (offset p)) level) (unat c mod 16) else dio_out hw c)" for c
    using dio_out_write [OF hw', of c] gpio_out.masked_bits [of v "mask p" "push_bit (unat (offset p)) level" "unat c mod 16"]
      read_out_bit [of hw c v] v by (auto simp: w_def simp del: push_bit_eq_mult)
  moreover have "drop_bit (unat (offset p)) (w AND mask p) = level AND drop_bit (unat (offset p)) (mask p)"
    by (rule bit_word_eqI) (auto simp: w_def bit_simps dest: bit_imp_le_length)
  then have "Dio_ReadChannelGroup bld g (Some p) hw'' =
      Some (level AND drop_bit (unat (offset p)) (mask p), hw'')"
    if "length (gpio hw'') = 7" "IDR (gpio hw'' ! unat (port p)) = ODR (gpio hw' ! unat (port p))" for hw''
    using that p dev read_port_ok [OF p(3), of hw''] assms(2)
    by (simp add: Dio_ReadChannelGroup_def VALIDATE_pass_if deref_def shift_down_def hw'_def)
  ultimately show ?thesis
    using write_group_eq [OF assms v, of level] hw' gpio_write_same [OF hw'] by (auto simp: w_def)
qed

text \<open>Pins 4 to 7 of port D as a group.\<close>

abbreviation (input) "dio_group_example \<equiv> \<lparr>port = 3, offset = 4, mask = 0xF0\<rparr>"

abbreviation (input) "dio_group_global \<equiv> \<lparr>Config = Some (DioConfigData\<lparr>GroupConfig :=
  [dio_group_example, \<lparr>port = DIO_END_OF_LIST, offset = 0, mask = 0\<rparr>]\<rparr>), InitRun = True\<rparr>"

theorem dio_group_roundtrip_witness:
  "\<exists>hw'. Dio_WriteChannelGroup dev_build dio_group_global (Some dio_group_example) 0x15 hw_reset = Some hw' \<and>
    same_but_out hw_reset hw' \<and>
    (\<forall>c. dio_out hw' c =
      (if unat c div 16 = unat (3 :: uint32) \<and> bit (0xF0 :: uint16) (unat c mod 16)
       then bit (push_bit (unat (4 :: uint8)) (0x15 :: uint16)) (unat c mod 16) else dio_out hw_reset c)) \<and>
    (\<forall>hw''. length (gpio hw'') = 7 \<and> IDR (gpio hw'' ! unat (3 :: uint32)) = ODR (gpio hw' ! unat (3 :: uint32)) \<longrightarrow>
      Dio_ReadChannelGroup dev_build dio_group_global (Some dio_group_example) hw'' =
        Some (0x15 AND drop_bit (unat (4 :: uint8)) 0xF0, hw''))"
proof -
  have "dio_group_ok dev_build dio_group_global dio_group_example"
    by (simp add: dio_group_ok_def dio_port_ok_def DioConfigData_def Channel_Group_Config_Contains_def
        Port_Config_Contains_def deref_def)
  moreover have "length (gpio hw_reset) = 7" by (simp add: hw_reset_def)
  ultimately show ?thesis
    using dio_group_roundtrip [of dev_build dio_group_global dio_group_example hw_reset "0x15"]
    by (simp only: Dio_ChannelGroupType.select_convs)
qed

text \<open>
  What a call keeps when development error detection is on: it returns, the chip stays well formed,
  and only a call that passes the checks (\<open>ok\<close>) changes anything besides the error tracer.
\<close>

definition dio_safe :: "build \<Rightarrow> stm32 \<Rightarrow> bool \<Rightarrow> stm32 ub \<Rightarrow> bool" where
  "dio_safe bld hw ok r =
     (case r of None \<Rightarrow> False | Some hw' \<Rightarrow> hw_wf bld hw' \<and> (\<not> ok \<longrightarrow> same_hw hw hw'))"

lemma safe_report: "hw_wf bld hw \<Longrightarrow> dio_safe bld hw ok (det_report bld m a e hw)"
  using det_report_total [of bld hw m a e] by (auto simp: dio_safe_def)

lemma safe_VALIDATE:
  assumes "hw_wf bld hw" and "DEV_ERROR_DETECT bld" and "ex = Some b"
    and "b \<Longrightarrow> dio_safe bld hw ok (rest hw)"
  shows "dio_safe bld hw ok (VALIDATE bld ex m a e rest hw)"
  using assms safe_report [OF assms(1), of ok m a e]
  by (cases b) (auto simp: VALIDATE_def)

lemma safe_VALIDATE_RV:
  assumes "hw_wf bld hw" and "DEV_ERROR_DETECT bld" and "ex = Some b"
    and "b \<Longrightarrow> dio_safe bld hw ok (map_option snd (rest hw))"
  shows "dio_safe bld hw ok (map_option snd (VALIDATE_RV bld ex m a e rv rest hw))"
  using assms safe_report [OF assms(1), of ok m a e]
  by (cases b) (auto simp: VALIDATE_RV_def map_conv_bind_option comp_def)

lemma safe_gpio_write:
  assumes "hw_wf bld hw" and "x < 7" and ok
  shows "dio_safe bld hw ok (GPIO_Write hw x v)"
  using assms by (simp add: dio_safe_def hw_wf_def gpio_write_eq)

lemma same_hw_refl [simp]: "same_hw hw hw"
  by (simp add: same_hw_def)

text \<open>
  A guarded call is safe when its body is, the driver being initialised and the id accepted; the
  other two branches only report.
\<close>

lemma safe_guarded:
  assumes "hw_wf bld hw" and "DEV_ERROR_DETECT bld" and "ex = Some b"
    and "b1 \<Longrightarrow> b \<Longrightarrow> dio_safe bld hw ok (rest hw)"
  shows "dio_safe bld hw ok (VALIDATE bld (Some b1) m a e (VALIDATE bld ex m' a' e' rest) hw)"
  using assms safe_report [OF assms(1), of ok]
  by (cases b1; cases b) (simp_all add: VALIDATE_fail)

lemma safe_guarded_RV:
  assumes "hw_wf bld hw" and "DEV_ERROR_DETECT bld" and "ex = Some b"
    and "b1 \<Longrightarrow> b \<Longrightarrow> dio_safe bld hw ok (map_option snd (rest hw))"
  shows "dio_safe bld hw ok (map_option snd
    (VALIDATE_RV bld (Some b1) m a e rv (VALIDATE_RV bld ex m' a' e' rv rest) hw))"
  using assms safe_report [OF assms(1), of ok]
  by (cases b1; cases b) (simp_all add: VALIDATE_fail option.map_comp comp_def option.map_ident)

lemma safe_uninit:
  assumes "hw_wf bld hw" and "DEV_ERROR_DETECT bld"
  shows "dio_safe bld hw ok (VALIDATE bld (Some False) m a e rest hw)"
    and "dio_safe bld hw ok (map_option snd (VALIDATE_RV bld (Some False) m a e rv rest2 hw))"
  using assms safe_report [OF assms(1), of ok]
  by (simp_all add: VALIDATE_fail option.map_comp comp_def option.map_ident)

lemma safe_write_port:
  assumes "DEV_ERROR_DETECT bld" and "hw_wf bld hw" and "dio_state_ok g"
    and ok: "dio_port_ok bld g p \<Longrightarrow> ok"
  shows "dio_safe bld hw ok (Dio_WritePort bld g p v hw)"
proof (cases "InitRun g")
  case True
  obtain b where b: "Port_Config_Contains g p = Some b" using contains_total [OF assms(3) True] by blast
  have "unat p < 6" if b using contains_in_range [OF assms(3) True] b that by simp
  then show ?thesis using ok b True unfolding Dio_WritePort_def
    by (intro safe_guarded [OF assms(2,1) b])
      (simp add: ports_nth dio_port_ok_def safe_gpio_write [OF assms(2)])
qed (simp add: Dio_WritePort_def safe_uninit [OF assms(2,1)])

lemma safe_read_port:
  assumes "DEV_ERROR_DETECT bld" and "hw_wf bld hw" and "dio_state_ok g"
  shows "dio_safe bld hw False (map_option snd (Dio_ReadPort bld g p hw))"
proof (cases "InitRun g")
  case True
  obtain b where b: "Port_Config_Contains g p = Some b" using contains_total [OF assms(3) True] by blast
  have "unat p < 6" if b using contains_in_range [OF assms(3) True] b that by simp
  then show ?thesis using assms(2) unfolding Dio_ReadPort_def
    by (intro safe_guarded_RV [OF assms(2,1) b])
      (simp add: ports_nth GPIO_ReadInputData_def ub_simps dio_safe_def hw_wf_def)
qed (simp add: Dio_ReadPort_def safe_uninit [OF assms(2,1)])

lemma safe_read_bind:
  assumes "dio_safe bld hw False (map_option snd r)" and "\<And>v h. \<exists>w. f v h = Some (w, h)"
  shows "dio_safe bld hw False (map_option snd (r \<bind> (\<lambda>(v, h). f v h)))"
proof (cases r)
  case (Some vh)
  obtain v h where "vh = (v, h)" by (cases vh)
  then show ?thesis using Some assms(1) assms(2) [of v h] by auto
qed (use assms in simp)

lemma safe_write_channel:
  assumes "DEV_ERROR_DETECT bld" and "hw_wf bld hw" and "dio_state_ok g"
  shows "dio_safe bld hw (dio_channel_ok bld g ch) (Dio_WriteChannel bld g ch v hw)"
proof (cases "InitRun g")
  case True
  obtain b where b: "Channel_Config_Contains g ch = Some b" using contains_total [OF assms(3) True] by blast
  have "unat (ch div 16) < 6" if b
    using contains_in_range [OF assms(3) True] b that by (simp add: channel_split less_mult_imp_div_less)
  moreover have "length (gpio hw) = 7" using assms(2) by (simp add: hw_wf_def)
  moreover have "dio_safe bld hw (dio_channel_ok bld g ch) (Dio_WritePort bld g (ch div 16) w hw)" if b for w
    using safe_write_port [OF assms, of "ch div 16" "dio_channel_ok bld g ch"] b that
    by (simp add: dio_channel_ok_def)
  ultimately show ?thesis unfolding Dio_WriteChannel_def
    by (intro safe_guarded [OF assms(2,1) b])
      (simp add: ports_nth DIO_GET_PORT_FROM_CHANNEL_ID_def GPIO_ReadOutputData_def ub_simps Let_def)
qed (simp add: Dio_WriteChannel_def safe_uninit [OF assms(2,1)])

lemma safe_read_channel:
  assumes "DEV_ERROR_DETECT bld" and "hw_wf bld hw" and "dio_state_ok g"
  shows "dio_safe bld hw False (map_option snd (Dio_ReadChannel bld g ch hw))"
proof (cases "InitRun g")
  case True
  obtain b where b: "Channel_Config_Contains g ch = Some b" using contains_total [OF assms(3) True] by blast
  show ?thesis unfolding Dio_ReadChannel_def
    by (intro safe_guarded_RV [OF assms(2,1) b] safe_read_bind safe_read_port [OF assms]) (simp add: Let_def)
qed (simp add: Dio_ReadChannel_def safe_uninit [OF assms(2,1)])

lemma group_contains_nonnull: "Channel_Group_Config_Contains g q = Some True \<Longrightarrow> \<exists>p. q = Some p"
  by (cases q) (auto simp: Channel_Group_Config_Contains_def Option.bind_eq_Some_conv)

lemma safe_write_group:
  assumes "DEV_ERROR_DETECT bld" and "hw_wf bld hw" and "dio_state_ok g"
    and off: "\<And>p. q = Some p \<Longrightarrow> unat (offset p) < 16"
  shows "dio_safe bld hw (\<exists>p. q = Some p \<and> dio_group_ok bld g p) (Dio_WriteChannelGroup bld g q v hw)"
proof (cases "InitRun g")
  case True
  let ?ok = "\<exists>p. q = Some p \<and> dio_group_ok bld g p"
  obtain b where b: "Channel_Group_Config_Contains g q = Some b"
    using contains_total [OF assms(3) True] by blast
  have len: "length (gpio hw) = 7" using assms(2) by (simp add: hw_wf_def)
  have "dio_safe bld hw ?ok (Dio_WriteChannelGroup bld g q v hw)" if b': b
  proof -
    obtain p where p: "q = Some p" using group_contains_nonnull [of g q] b b' by auto
    have "unat (port p) < 6" using contains_in_range [OF assms(3) True] b p b' by simp
    moreover have "dio_safe bld hw ?ok (Dio_WritePort bld g (port p) w hw)" for w
      using safe_write_port [OF assms(1-3), of "port p" ?ok] b p b' off by (simp add: dio_group_ok_def)
    ultimately show ?thesis using b b' True p len shift_up_total [OF off [OF p], of v]
      by (simp add: Dio_WriteChannelGroup_def deref_def ports_nth GPIO_ReadOutputData_def ub_simps)
  qed
  then show ?thesis using b True unfolding Dio_WriteChannelGroup_def
    by (intro safe_guarded [OF assms(2,1) b]) simp
qed (simp add: Dio_WriteChannelGroup_def safe_uninit [OF assms(2,1)])

lemma safe_read_group:
  assumes "DEV_ERROR_DETECT bld" and "hw_wf bld hw" and "dio_state_ok g"
    and off: "\<And>p. q = Some p \<Longrightarrow> unat (offset p) < 16"
  shows "dio_safe bld hw False (map_option snd (Dio_ReadChannelGroup bld g q hw))"
proof (cases "InitRun g")
  case True
  obtain b where b: "Channel_Group_Config_Contains g q = Some b"
    using contains_total [OF assms(3) True] by blast
  have "dio_safe bld hw False (map_option snd (do {
      p \<leftarrow> deref q; (v, hw) \<leftarrow> Dio_ReadPort bld g (port p) hw;
      let level = v AND mask p; level \<leftarrow> shift_down level (offset p); Some (level, hw) }))" if b': b
  proof -
    obtain p where p: "q = Some p" using group_contains_nonnull [of g q] b b' by auto
    show ?thesis using off [OF p] p
      by (simp add: deref_def) (intro safe_read_bind safe_read_port [OF assms(1-3)], simp add: shift_down_def)
  qed
  then show ?thesis unfolding Dio_ReadChannelGroup_def by (intro safe_guarded_RV [OF assms(2,1) b])
qed (simp add: Dio_ReadChannelGroup_def safe_uninit [OF assms(2,1)])

text \<open>
  C26: With development error detection on, no call of the driver can go wrong: in any state it is
  left in by Dio_Init with a terminated configuration (or before it), every operation with any
  argument returns without undefined behaviour, a NULL group included; reads change nothing but the error tracer;
  and a write whose id is not configured, or that comes before initialisation, changes nothing
  but the error tracer either. The offset of a group, which the driver does not check, is taken to be
  below 16.
\<close>

theorem dio_dev_safe:
  assumes "DEV_ERROR_DETECT bld" and "hw_wf bld hw" and "dio_state_ok g"
    and "\<And>p. q = Some p \<Longrightarrow> unat (offset p) < 16"
  shows "dio_safe bld hw (dio_port_ok bld g p) (Dio_WritePort bld g p v hw) \<and>
    dio_safe bld hw (dio_channel_ok bld g ch) (Dio_WriteChannel bld g ch l hw) \<and>
    dio_safe bld hw (\<exists>p. q = Some p \<and> dio_group_ok bld g p) (Dio_WriteChannelGroup bld g q v hw) \<and>
    dio_safe bld hw False (map_option snd (Dio_ReadPort bld g p hw)) \<and>
    dio_safe bld hw False (map_option snd (Dio_ReadChannel bld g ch hw)) \<and>
    dio_safe bld hw False (map_option snd (Dio_ReadChannelGroup bld g q hw))"
proof (intro conjI)
  show "dio_safe bld hw (dio_port_ok bld g p) (Dio_WritePort bld g p v hw)"
    by (rule safe_write_port [OF assms(1-3)])
  show "dio_safe bld hw (\<exists>p. q = Some p \<and> dio_group_ok bld g p) (Dio_WriteChannelGroup bld g q v hw)"
    by (rule safe_write_group [OF assms(1-3)]) (rule assms(4))
  show "dio_safe bld hw False (map_option snd (Dio_ReadChannelGroup bld g q hw))"
    by (rule safe_read_group [OF assms(1-3)]) (rule assms(4))
qed (rule safe_write_channel [OF assms(1-3)] safe_read_port [OF assms(1-3)] safe_read_channel [OF assms(1-3)])+

lemma dio_init_ok:
  assumes "DEV_ERROR_DETECT bld" and "dio_config_ok c" and "Dio_Init bld g (Some c) hw = Some (g', hw')"
  shows "dio_state_ok g'" and "hw' = hw"
  using assms by (auto simp: Dio_Init_def dio_state_ok_def)

lemma DioConfigData_ok: "dio_config_ok DioConfigData"
  by (simp add: dio_config_ok_def DioConfigData_def)

theorem dio_dev_safe_witness:
  "dio_safe dev_build hw_reset (dio_port_ok dev_build dio_running 9) (Dio_WritePort dev_build dio_running 9 0xFF hw_reset) \<and>
    dio_safe dev_build hw_reset (dio_channel_ok dev_build dio_running 500)
      (Dio_WriteChannel dev_build dio_running 500 1 hw_reset) \<and>
    dio_safe dev_build hw_reset (\<exists>p. None = Some p \<and> dio_group_ok dev_build dio_running p)
      (Dio_WriteChannelGroup dev_build dio_running None 0xFF hw_reset) \<and>
    dio_safe dev_build hw_reset False (map_option snd (Dio_ReadPort dev_build dio_running 9 hw_reset)) \<and>
    dio_safe dev_build hw_reset False (map_option snd (Dio_ReadChannel dev_build dio_running 500 hw_reset)) \<and>
    dio_safe dev_build hw_reset False (map_option snd (Dio_ReadChannelGroup dev_build dio_running None hw_reset))"
  by (rule dio_dev_safe) (simp_all add: dio_state_ok_def DioConfigData_ok)

end
