(* ===== verification/Port.thy ===== *)
theory Port
  imports Dio
begin

text \<open>
  The port driver \<^verbatim>\<open>McalSrc/Port.c\<close> with the configuration types of
  \<^verbatim>\<open>core/include/arm/armv7_m/Port_ConfigTypes.h\<close>. A \<^verbatim>\<open>GpioPinCnfMode_Type\<close>, sixteen 4-bit
  bit-fields, is the list of its fields; reading it as two 32-bit words packs the fields from the
  least significant bit on, as the ARM ABI lays bit-fields out. A \<^verbatim>\<open>GpioPinOutLevel_Type\<close> is the
  list of its sixteen 1-bit fields, two bytes wide. An index into \<^verbatim>\<open>GpioBaseAddr\<close> is the index of
  the port, and faults past the table.
\<close>

section \<open>Definitions\<close>

type_synonym GpioPinCnfMode_Type = "4 word list"
type_synonym GpioPinOutLevel_Type = "bool list"
type_synonym Port_PinType = uint8
type_synonym Port_PinModeType = uint32

datatype Port_PinDirectionType = PORT_PIN_IN | PORT_PIN_OUT

datatype Port_StateType = PORT_UNINITIALIZED | PORT_INITIALIZED

record Port_ConfigType =
  padCnt :: uint16
  padConfig :: "GpioPinCnfMode_Type list"
  outConfig :: "GpioPinOutLevel_Type list"
  remapCount :: uint16
  remaps :: "uint32 list"

abbreviation (input) "PORT_MODULE_ID \<equiv> (124 :: uint16)"
abbreviation (input) "PORT_INIT_ID \<equiv> (0x00 :: uint8)"
abbreviation (input) "PORT_SET_PIN_DIRECTION_ID \<equiv> (0x01 :: uint8)"
abbreviation (input) "PORT_REFRESH_PORT_DIRECTION_ID \<equiv> (0x02 :: uint8)"
abbreviation (input) "PORT_SET_PIN_MODE_ID \<equiv> (0x04 :: uint8)"
abbreviation (input) "PORT_E_PARAM_PIN \<equiv> (0x0a :: uint8)"
abbreviation (input) "PORT_E_PARAM_CONFIG \<equiv> (0x0c :: uint8)"
abbreviation (input) "PORT_E_MODE_UNCHANGEABLE \<equiv> (0x0e :: uint8)"
abbreviation (input) "PORT_E_UNINIT \<equiv> (0x0f :: uint8)"
abbreviation (input) "GPIO_INPUT_MODE \<equiv> (0 :: uint32)"
abbreviation (input) "GPIO_INPUT_PULLUP_CNF \<equiv> (8 :: uint32)"
abbreviation (input) "GPIO_OUTPUT_2MHz_MODE \<equiv> (2 :: uint32)"
abbreviation (input) "GPIO_OUTPUT_PUSHPULL_CNF \<equiv> (0 :: uint32)"

text \<open>\<^verbatim>\<open>GpioBaseAddr[]\<close> and \<^verbatim>\<open>GpioODRAddr[]\<close>: GPIOA to GPIOG.\<close>

definition GpioBaseAddr :: "nat list" where
  "GpioBaseAddr = [0, 1, 2, 3, 4, 5, 6]"

definition GpioODRAddr :: "nat list" where
  "GpioODRAddr = [0, 1, 2, 3, 4, 5, 6]"

text \<open>Bit-fields as the word they occupy, the first field in the low bits.\<close>

primrec pack_cnf :: "4 word list \<Rightarrow> uint32" where
  "pack_cnf [] = 0"
| "pack_cnf (x # xs) = ucast x OR push_bit 4 (pack_cnf xs)"

definition pack_levels :: "bool list \<Rightarrow> uint32" where
  "pack_levels bs = horner_sum of_bool 2 bs"

definition upd_port :: "(GPIO_TypeDef \<Rightarrow> GPIO_TypeDef) \<Rightarrow> nat \<Rightarrow> stm32 \<Rightarrow> stm32 ub" where
  "upd_port f x hw = do {
     p \<leftarrow> rd (gpio hw) x;
     l \<leftarrow> wr (gpio hw) x (f p);
     Some (hw\<lparr>gpio := l\<rparr>) }"

text \<open>The body of the loop of \<^verbatim>\<open>Port_Init\<close> for one port.\<close>

definition port_init_pad :: "Port_ConfigType \<Rightarrow> nat \<Rightarrow> stm32 \<Rightarrow> stm32 ub" where
  "port_init_pad cfg i hw = do {
     x \<leftarrow> rd GpioBaseAddr i;
     c \<leftarrow> rd (padConfig cfg) i;
     hw \<leftarrow> upd_port (\<lambda>p. p\<lparr>CRL := pack_cnf (take 8 c)\<rparr>) x hw;
     hw \<leftarrow> upd_port (\<lambda>p. p\<lparr>CRH := pack_cnf (take 8 (drop 8 c))\<rparr>) x hw;
     x \<leftarrow> rd GpioODRAddr i;
     l \<leftarrow> rd (outConfig cfg) i;
     upd_port (\<lambda>p. p\<lparr>ODR := (ODR p AND NOT 0xFFFF) OR pack_levels (take 16 l)\<rparr>) x hw }"

text \<open>\<^verbatim>\<open>for (i = 0; i < padCnt; i++)\<close>, from index \<open>i\<close>, \<open>n\<close> rounds.\<close>

fun port_init_pads :: "Port_ConfigType \<Rightarrow> nat \<Rightarrow> nat \<Rightarrow> stm32 \<Rightarrow> stm32 ub" where
  "port_init_pads cfg i 0 hw = Some hw"
| "port_init_pads cfg i (Suc n) hw = do {
     hw \<leftarrow> port_init_pad cfg i hw;
     port_init_pads cfg (Suc i) n hw }"

fun port_remap :: "Port_ConfigType \<Rightarrow> nat \<Rightarrow> nat \<Rightarrow> stm32 \<Rightarrow> stm32 ub" where
  "port_remap cfg i 0 hw = Some hw"
| "port_remap cfg i (Suc n) hw = do {
     r \<leftarrow> rd (remaps cfg) i;
     hw \<leftarrow> GPIO_PinRemapConfig hw r True;
     port_remap cfg (Suc i) n hw }"

definition Port_Init ::
  "build \<Rightarrow> Port_StateType \<Rightarrow> Port_ConfigType ptr \<Rightarrow> stm32 \<Rightarrow> (Port_StateType \<times> stm32) ub" where
  "Port_Init bld portState configType =
     VALIDATE_RV bld (Some (configType \<noteq> None)) PORT_MODULE_ID PORT_INIT_ID PORT_E_PARAM_CONFIG portState
    (\<lambda>hw. do {
       cfg \<leftarrow> deref configType;
       hw \<leftarrow> port_init_pads cfg 0 (unat (padCnt cfg)) hw;
       hw \<leftarrow> port_remap cfg 0 (unat (remapCount cfg)) hw;
       Some (PORT_INITIALIZED, hw) })"

text \<open>The register \<open>CRL\<close> or \<open>CRH\<close> of a port, as \<^verbatim>\<open>gpioAddr[reg]\<close>.\<close>

definition upd_reg :: "uint8 \<Rightarrow> (uint32 \<Rightarrow> uint32) \<Rightarrow> GPIO_TypeDef \<Rightarrow> GPIO_TypeDef" where
  "upd_reg reg f p = (if reg = 0 then p\<lparr>CRL := f (CRL p)\<rparr> else p\<lparr>CRH := f (CRH p)\<rparr>)"

definition Port_SetPinDirection ::
  "build \<Rightarrow> Port_StateType \<Rightarrow> Port_PinType \<Rightarrow> Port_PinDirectionType \<Rightarrow> stm32 \<Rightarrow> stm32 ub" where
  "Port_SetPinDirection bld portState pin direction =
     VALIDATE bld (Some (portState = PORT_INITIALIZED)) PORT_MODULE_ID PORT_SET_PIN_DIRECTION_ID PORT_E_UNINIT
    (VALIDATE bld (Some (\<not> unat pin > length GpioBaseAddr * 16))
       PORT_MODULE_ID PORT_SET_PIN_DIRECTION_ID PORT_E_PARAM_PIN
    (\<lambda>hw. do {
       let index_port = pin div 16;
       let bt = pin mod 16;
       let reg = bt div 8;
       let bt = (bt mod 8) * 4;
       x \<leftarrow> rd GpioBaseAddr (unat index_port);
       hw \<leftarrow> upd_port (upd_reg reg (\<lambda>v. v AND NOT (push_bit (unat bt) 0xF))) x hw;
       if direction = PORT_PIN_IN
       then upd_port (upd_reg reg
              (\<lambda>v. v OR push_bit (unat bt) (GPIO_INPUT_MODE OR GPIO_INPUT_PULLUP_CNF))) x hw
       else upd_port (upd_reg reg
              (\<lambda>v. v OR push_bit (unat bt) (GPIO_OUTPUT_2MHz_MODE OR GPIO_OUTPUT_PUSHPULL_CNF))) x hw }))"

definition Port_RefreshPortDirection :: "build \<Rightarrow> Port_StateType \<Rightarrow> stm32 \<Rightarrow> stm32 ub" where
  "Port_RefreshPortDirection bld portState =
     VALIDATE bld (Some (portState = PORT_INITIALIZED)) PORT_MODULE_ID PORT_REFRESH_PORT_DIRECTION_ID PORT_E_UNINIT
    (\<lambda>hw. Some hw)"

definition Port_SetPinMode ::
  "build \<Rightarrow> Port_StateType \<Rightarrow> Port_PinType \<Rightarrow> Port_PinModeType \<Rightarrow> stm32 \<Rightarrow> stm32 ub" where
  "Port_SetPinMode bld portState Pin Mode =
     VALIDATE bld (Some (portState = PORT_INITIALIZED)) PORT_MODULE_ID PORT_SET_PIN_MODE_ID PORT_E_UNINIT
    (\<lambda>hw. if DEV_ERROR_DETECT bld
          then det_report bld PORT_MODULE_ID PORT_SET_PIN_MODE_ID PORT_E_MODE_UNCHANGEABLE hw
          else Some hw)"

text \<open>
  The specification: the 4-bit configuration of a pin, by pin number, and the registers of a port the driver
  leaves alone when it configures pins.
\<close>

definition pin_cnf :: "stm32 \<Rightarrow> nat \<Rightarrow> 4 word" where
  "pin_cnf hw p =
     (let g = gpio hw ! (p div 16) in
      ucast (drop_bit (4 * (p mod 8)) (if p mod 16 < 8 then CRL g else CRH g)))"

definition same_but_cnf :: "stm32 \<Rightarrow> stm32 \<Rightarrow> bool" where
  "same_but_cnf hw hw' \<longleftrightarrow>
     map (\<lambda>g. g\<lparr>CRL := 0, CRH := 0\<rparr>) (gpio hw') = map (\<lambda>g. g\<lparr>CRL := 0, CRH := 0\<rparr>) (gpio hw) \<and>
     hw' = hw\<lparr>gpio := gpio hw'\<rparr>"

text \<open>A configuration whose arrays are as long as its counts say, for at most seven ports.\<close>

definition port_config_ok :: "Port_ConfigType \<Rightarrow> bool" where
  "port_config_ok cfg \<longleftrightarrow> unat (padCnt cfg) \<le> 7 \<and>
     unat (padCnt cfg) \<le> length (padConfig cfg) \<and> unat (padCnt cfg) \<le> length (outConfig cfg) \<and>
     list_all (\<lambda>c. length c = 16) (padConfig cfg) \<and> list_all (\<lambda>l. length l = 16) (outConfig cfg) \<and>
     unat (remapCount cfg) \<le> length (remaps cfg) \<and>
     list_all (\<lambda>r. unat (drop_bit 0x15 r * 0x10) < 32) (remaps cfg)"

section \<open>Register fields\<close>

lemma bit_pack_cnf:
  "bit (pack_cnf xs) k \<longleftrightarrow> k < 32 \<and> k div 4 < length xs \<and> bit (xs ! (k div 4)) (k mod 4)"
proof (induction xs arbitrary: k)
  case (Cons x xs)
  show ?case
  proof (cases "k < 4")
    case True
    then show ?thesis by (auto simp: bit_simps)
  next
    case False
    then obtain j where j: "k = j + 4" using le_Suc_ex [of 4 k] by (metis add.commute not_less)
    have "\<not> bit x (j + 4)" by (auto dest: bit_imp_le_length)
    moreover have "(j + 4) div 4 = Suc (j div 4)" "(j + 4) mod 4 = j mod 4" by simp_all
    ultimately show ?thesis using Cons.IH [of j] unfolding j
      by (simp only: pack_cnf.simps) (auto simp: bit_or_iff bit_push_bit_iff bit_ucast_iff dest: bit_imp_le_length)
  qed
qed simp

lemma bit_pack_levels:
  "bit (pack_levels bs) k \<longleftrightarrow> k < 32 \<and> k < length bs \<and> bs ! k"
  by (simp add: pack_levels_def bit_horner_sum_bit_word_iff)

text \<open>Field \<open>j\<close> of a packed word, and of a word in which another field was replaced.\<close>

lemma field_pack:
  assumes "j < length xs" and "j < 8"
  shows "ucast (drop_bit (4 * j) (pack_cnf xs)) = xs ! j"
proof (rule bit_word_eqI)
  fix n assume "n < LENGTH(4)"
  then have "(4 * j + n) div 4 = j" "(4 * j + n) mod 4 = n" "4 * j + n < 32" using assms(2) by auto
  then show "bit (ucast (drop_bit (4 * j) (pack_cnf xs)) :: 4 word) n = bit (xs ! j) n"
    using assms(1) \<open>n < LENGTH(4)\<close> by (simp add: bit_ucast_iff bit_drop_bit_eq bit_pack_cnf)
qed

lemma field_replace:
  fixes v m :: uint32
  assumes "j < 8" and "i < 8" and "m = ucast c"
  shows "ucast (drop_bit (4 * j) ((v AND NOT (push_bit (4 * i) 0xF)) OR push_bit (4 * i) m)) =
    (if j = i then c else ucast (drop_bit (4 * j) v) :: 4 word)"
proof (rule bit_word_eqI)
  fix n assume n: "n < LENGTH(4)"
  have F: "bit (0xF :: uint32) q \<longleftrightarrow> q < 4" for q
    using bit_mask_iff [of 4 q, where 'a = uint32] by (auto simp: mask_eq_exp_minus_1)
  have here: "4 * i \<le> 4 * j + n \<and> 4 * j + n - 4 * i < 4 \<longleftrightarrow> j = i" using n by auto
  have old: "bit (push_bit (4 * i) 0xF :: uint32) (4 * j + n) \<longleftrightarrow> j = i"
    unfolding bit_push_bit_iff F using here n assms(1) by auto
  have new: "bit (push_bit (4 * i) m) (4 * j + n) \<longleftrightarrow> j = i \<and> bit c n"
    unfolding bit_push_bit_iff assms(3) using here n assms(1) by (auto simp: bit_ucast_iff dest: bit_imp_le_length)
  show "bit (ucast (drop_bit (4 * j) ((v AND NOT (push_bit (4 * i) 0xF)) OR push_bit (4 * i) m)) :: 4 word) n =
      bit (if j = i then c else ucast (drop_bit (4 * j) v) :: 4 word) n"
    unfolding bit_ucast_iff bit_drop_bit_eq comp_def bit_or_iff bit_and_iff bit_not_iff old new
    using n assms(1) by (auto simp: bit_ucast_iff bit_drop_bit_eq)
qed

lemma upd_port_eq:
  "x < length (gpio hw) \<Longrightarrow> upd_port f x hw = Some (hw\<lparr>gpio := (gpio hw)[x := f (gpio hw ! x)]\<rparr>)"
  by (simp add: upd_port_def ub_simps)

lemma length_base: "length GpioBaseAddr = 7"
  by (simp add: GpioBaseAddr_def)

lemma base_nth: "i < 7 \<Longrightarrow> rd GpioBaseAddr i = Some i" "i < 7 \<Longrightarrow> rd GpioODRAddr i = Some i"
  by (auto simp: rd_def GpioBaseAddr_def GpioODRAddr_def less_Suc_eq numeral_eq_Suc)

text \<open>The arithmetic on pin numbers.\<close>

lemma pin_split:
  fixes pin :: uint8
  shows "unat (pin div 16) = unat pin div 16"
    and "pin mod 16 div 8 = 0 \<longleftrightarrow> unat pin mod 16 < 8"
    and "unat (pin mod 16 mod 8 * 4) = 4 * (unat pin mod 8)"
proof -
  have m: "unat (pin mod 16) = unat pin mod 16" by (simp add: unat_mod_distrib)
  show "unat (pin div 16) = unat pin div 16" by (simp add: unat_div_distrib)
  have "unat (pin mod 16 div 8) = unat pin mod 16 div 8" by (simp add: unat_div_distrib m)
  then show "pin mod 16 div 8 = 0 \<longleftrightarrow> unat pin mod 16 < 8"
    by (metis div_eq_0_iff unsigned_0 word_unat_eq_iff zero_neq_numeral)
  have "unat (pin mod 16 mod 8) = unat pin mod 8"
    by (simp add: unat_mod_distrib m mod_mod_cancel)
  then show "unat (pin mod 16 mod 8 * 4) = 4 * (unat pin mod 8)"
    by (simp add: unat_word_ariths)
qed

lemma pin_cnf_upd:
  assumes "x < length (gpio hw)" and "i < 8" and "m = ucast c"
  shows "pin_cnf (hw\<lparr>gpio := (gpio hw)[x := upd_reg r
      (\<lambda>v. (v AND NOT (push_bit (4 * i) 0xF)) OR push_bit (4 * i) m) (gpio hw ! x)]\<rparr>) p =
    (if p div 16 = x \<and> (p mod 16 < 8 \<longleftrightarrow> r = 0) \<and> p mod 8 = i then c else pin_cnf hw p)"
proof -
  define f where "f v = (v AND NOT (push_bit (4 * i) 0xF)) OR push_bit (4 * i) m" for v :: uint32
  have "ucast (drop_bit (4 * (p mod 8)) (f v)) =
      (if p mod 8 = i then c else ucast (drop_bit (4 * (p mod 8)) v))" for v
    unfolding f_def by (rule field_replace [OF _ assms(2,3)]) simp
  then show ?thesis using assms(1) unfolding f_def [symmetric]
    by (cases "p div 16 = x") (auto simp: pin_cnf_def upd_reg_def Let_def)
qed

lemma mod16_split: "p mod 16 = (if p mod 16 < 8 then 0 else 8) + p mod (8 :: nat)"
proof -
  have "r mod 8 = (if r < 8 then r else r - 8)" if "r < 16" for r :: nat
    using that le_mod_geq [of 8 r] by simp
  from this [of "p mod 16"] have "p mod 8 = (if p mod 16 < 8 then p mod 16 else p mod 16 - 8)"
    by (simp add: mod_mod_cancel)
  then show ?thesis by simp
qed

lemma pin_eq_iff:
  "p = q \<longleftrightarrow> p div 16 = q div 16 \<and> (p mod 16 < 8 \<longleftrightarrow> q mod 16 < 8) \<and> p mod 8 = q mod (8 :: nat)"
proof -
  have "p mod 16 = q mod 16" if "p mod 16 < 8 \<longleftrightarrow> q mod 16 < 8" "p mod 8 = q mod 8"
  proof -
    have "p mod 16 = (if p mod 16 < 8 then 0 else 8) + p mod 8" by (rule mod16_split)
    also have "\<dots> = (if q mod 16 < 8 then 0 else 8) + q mod 8" using that by (simp only:)
    also have "\<dots> = q mod 16" by (rule mod16_split [symmetric])
    finally show ?thesis .
  qed
  moreover have "p = q" if "p div 16 = q div 16" "p mod 16 = q mod 16"
    using that by (metis div_mod_decomp)
  ultimately show ?thesis by auto
qed

text \<open>The 4-bit configuration a direction stands for.\<close>

definition direction_cnf :: "Port_PinDirectionType \<Rightarrow> 4 word" where
  "direction_cnf d = (if d = PORT_PIN_IN then 8 else 2)"

lemma set_direction_eq:
  assumes "DEV_ERROR_DETECT bld \<Longrightarrow> st = PORT_INITIALIZED" and "unat pin < 112" and "length (gpio hw) = 7"
  shows "Port_SetPinDirection bld st pin d hw =
    Some (hw\<lparr>gpio := (gpio hw)[unat pin div 16 := upd_reg (pin mod 16 div 8)
      (\<lambda>v. (v AND NOT (push_bit (4 * (unat pin mod 8)) 0xF)) OR
        push_bit (4 * (unat pin mod 8)) (ucast (direction_cnf d))) (gpio hw ! (unat pin div 16))]\<rparr>)"
proof -
  have x: "unat pin div 16 < 7" using assms(2) by (simp add: less_mult_imp_div_less)
  have up: "upd_port (upd_reg r g) x (hw\<lparr>gpio := (gpio hw)[x := upd_reg r f (gpio hw ! x)]\<rparr>) =
      Some (hw\<lparr>gpio := (gpio hw)[x := upd_reg r (\<lambda>v. g (f v)) (gpio hw ! x)]\<rparr>)" if "x < 7" for x r f g
    using that assms(3) by (simp add: upd_port_eq) (simp add: upd_reg_def)
  have first: "upd_port f x hw = Some (hw\<lparr>gpio := (gpio hw)[x := f (gpio hw ! x)]\<rparr>)" if "x < 7" for x f
    using that assms(3) by (simp add: upd_port_eq)
  have c: "ucast (direction_cnf d) = (if d = PORT_PIN_IN then 8 else 2 :: uint32)"
    by (simp add: direction_cnf_def)
  show ?thesis using assms x
    by (simp add: Port_SetPinDirection_def VALIDATE_pass_if length_base base_nth pin_split
        first [OF x] up [OF x] Let_def c del: push_bit_numeral)
qed

section \<open>Initialisation\<close>

definition pad_of :: "Port_ConfigType \<Rightarrow> nat \<Rightarrow> GPIO_TypeDef \<Rightarrow> GPIO_TypeDef" where
  "pad_of cfg i p = p\<lparr>CRL := pack_cnf (take 8 (padConfig cfg ! i)),
     CRH := pack_cnf (take 8 (drop 8 (padConfig cfg ! i))),
     ODR := (ODR p AND NOT 0xFFFF) OR pack_levels (take 16 (outConfig cfg ! i))\<rparr>"

lemma init_pad_eq:
  assumes "i < 7" and "i < length (padConfig cfg)" and "i < length (outConfig cfg)" and "length (gpio hw) = 7"
  shows "port_init_pad cfg i hw = Some (hw\<lparr>gpio := (gpio hw)[i := pad_of cfg i (gpio hw ! i)]\<rparr>)"
  using assms by (simp add: port_init_pad_def base_nth rd_Some upd_port_eq pad_of_def)

lemma init_pads_eq:
  assumes "i + n \<le> 7" and "i + n \<le> length (padConfig cfg)" and "i + n \<le> length (outConfig cfg)"
    and "length (gpio hw) = 7"
  shows "port_init_pads cfg i n hw = Some (hw\<lparr>gpio := map (\<lambda>j. if i \<le> j \<and> j < i + n
    then pad_of cfg j (gpio hw ! j) else gpio hw ! j) [0..<7]\<rparr>)"
  using assms
proof (induction n arbitrary: i hw)
  case 0
  have "(\<lambda>j. if i \<le> j \<and> j < i + 0 then pad_of cfg j (gpio hw ! j) else gpio hw ! j) = (!) (gpio hw)"
    by (auto simp: fun_eq_iff)
  then show ?case using map_nth [of "gpio hw"] 0 by simp
next
  case (Suc n)
  define hw1 where "hw1 = hw\<lparr>gpio := (gpio hw)[i := pad_of cfg i (gpio hw ! i)]\<rparr>"
  have one: "port_init_pad cfg i hw = Some hw1"
    using Suc.prems by (simp add: hw1_def init_pad_eq)
  have rest: "port_init_pads cfg (Suc i) n hw1 = Some (hw1\<lparr>gpio := map (\<lambda>j. if Suc i \<le> j \<and> j < Suc i + n
      then pad_of cfg j (gpio hw1 ! j) else gpio hw1 ! j) [0..<7]\<rparr>)"
    using Suc.prems by (intro Suc.IH) (simp_all add: hw1_def)
  have g: "gpio hw1 ! j = (if j = i then pad_of cfg i (gpio hw ! i) else gpio hw ! j)" if "j < 7" for j
    using that Suc.prems(4) by (simp add: hw1_def)
  have "map (\<lambda>j. if Suc i \<le> j \<and> j < Suc i + n then pad_of cfg j (gpio hw1 ! j) else gpio hw1 ! j) [0..<7] =
      map (\<lambda>j. if i \<le> j \<and> j < i + Suc n then pad_of cfg j (gpio hw ! j) else gpio hw ! j) [0..<7]"
    by (rule map_cong [OF refl]) (auto simp: g not_less_eq_eq)
  then show ?case using one rest by (simp add: hw1_def)
qed

text \<open>Remapping touches the two remap registers only.\<close>

lemma remap_mask_small: "unat (drop_bit 0x10 (r AND 0x000F0000) :: uint32) < 32"
proof -
  have "drop_bit 0x10 (r AND 0x000F0000) = drop_bit 0x10 r AND drop_bit 0x10 (0x000F0000 :: uint32)"
    by (rule drop_bit_and)
  also have "\<dots> = take_bit 4 (drop_bit 0x10 r)"
    by (simp add: take_bit_eq_mask mask_eq_exp_minus_1)
  finally show ?thesis
    using take_bit_nat_less_exp [of 4 "unat (drop_bit 0x10 r)"] by (simp add: unsigned_take_bit_eq)
qed

lemma remap_config_frame:
  assumes "unat (drop_bit 0x15 r * 0x10) < 32"
  shows "\<exists>hw'. GPIO_PinRemapConfig hw r v = Some hw' \<and> gpio hw' = gpio hw \<and> tim hw' = tim hw \<and> det hw' = det hw"
proof -
  have 1: "shl32 x (unat (drop_bit 0x15 r * 0x10)) = Some (push_bit (unat (drop_bit 0x15 r * 0x10)) x)" for x
    using assms by (simp add: shl32_def)
  have 2: "shl32 x (unat (drop_bit 0x10 (r AND 0x000F0000))) =
      Some (push_bit (unat (drop_bit 0x10 (r AND 0x000F0000))) x)" for x
    using remap_mask_small [of r] by (simp add: shl32_def)
  show ?thesis unfolding GPIO_PinRemapConfig_def Let_def 1 2 by (simp split: if_split)
qed

lemma remap_frame:
  assumes "i + n \<le> length (remaps cfg)" and "list_all (\<lambda>r. unat (drop_bit 0x15 r * 0x10) < 32) (remaps cfg)"
  shows "\<exists>hw'. port_remap cfg i n hw = Some hw' \<and> gpio hw' = gpio hw \<and> tim hw' = tim hw \<and> det hw' = det hw"
  using assms
proof (induction n arbitrary: i hw)
  case (Suc n)
  then have i: "i < length (remaps cfg)" by simp
  then obtain hw1 where "GPIO_PinRemapConfig hw (remaps cfg ! i) True = Some hw1"
    "gpio hw1 = gpio hw" "tim hw1 = tim hw" "det hw1 = det hw"
    using remap_config_frame Suc.prems(2) by (metis list_all_length)
  then show ?case using Suc.IH [of "Suc i" hw1] Suc.prems i by (simp add: rd_Some)
qed simp

lemma pin_cnf_pad:
  assumes "j < 7" and "gpio hw' ! j = pad_of cfg j g" and "p div 16 = j" and "length (padConfig cfg ! j) = 16"
  shows "pin_cnf hw' p = padConfig cfg ! j ! (p mod 16)"
proof (cases "p mod 16 < 8")
  case True
  then have "p mod 8 = p mod 16" using mod16_split [of p] by simp
  then show ?thesis using True assms field_pack [of "p mod 8" "take 8 (padConfig cfg ! j)"]
    by (simp add: pin_cnf_def pad_of_def)
next
  case False
  then have "p mod 16 = 8 + p mod 8" using mod16_split [of p] by simp
  then show ?thesis using False assms field_pack [of "p mod 8" "take 8 (drop 8 (padConfig cfg ! j))"]
    by (simp add: pin_cnf_def pad_of_def)
qed

lemma dio_out_pad:
  assumes "gpio hw' ! (unat c div 16) = pad_of cfg j g" and "length (outConfig cfg ! j) = 16"
  shows "dio_out hw' c = outConfig cfg ! j ! (unat c mod 16)"
proof -
  have F: "bit (0xFFFF :: uint32) k" if "k < 16" for k
    using bit_mask_iff [of 16 k, where 'a = uint32] that by (simp add: mask_eq_exp_minus_1)
  have "bit ((v AND NOT 0xFFFF) OR w) k = bit w k" if "k < 16" for v w :: uint32 and k
    unfolding bit_or_iff bit_and_iff bit_not_iff using F [OF that] by simp
  moreover have "unat c mod 16 < 32" using mod_less_divisor [of 16 "unat c"] by linarith
  ultimately show ?thesis using assms
    by (simp add: dio_out_def pad_of_def bit_pack_levels)
qed

text \<open>Configuring pins and driving them do not disturb each other.\<close>

lemma nth_of_map_eq: "map f xs = map f ys \<Longrightarrow> i < length ys \<Longrightarrow> f (xs ! i) = f (ys ! i)"
  by (metis length_map nth_map)

lemma same_but_out_cnf:
  assumes "same_but_out hw hw'" and "p div 16 < length (gpio hw)"
  shows "pin_cnf hw' p = pin_cnf hw p"
  using nth_of_map_eq [of "ODR_update (\<lambda>_. 0)" "gpio hw'" "gpio hw" "p div 16"] assms
  by (cases "gpio hw ! (p div 16)", cases "gpio hw' ! (p div 16)") (simp add: same_but_out_def pin_cnf_def Let_def)

lemma same_but_cnf_out:
  assumes "same_but_cnf hw hw'" and "unat c div 16 < length (gpio hw)"
  shows "dio_out hw' c = dio_out hw c"
  using nth_of_map_eq [of "\<lambda>g. g\<lparr>CRL := 0, CRH := 0\<rparr>" "gpio hw'" "gpio hw" "unat c div 16"] assms
  by (cases "gpio hw ! (unat c div 16)", cases "gpio hw' ! (unat c div 16)")
    (simp add: same_but_cnf_def dio_out_def)

lemma same_but_cnf_length: "same_but_cnf hw hw' \<Longrightarrow> length (gpio hw') = length (gpio hw)"
  by (metis length_map same_but_cnf_def)

section \<open>Properties\<close>

lemma port_init_effect:
  assumes "port_config_ok cfg" and "length (gpio hw) = 7"
  shows "\<exists>hw'. Port_Init bld st (Some cfg) hw = Some (PORT_INITIALIZED, hw') \<and>
    length (gpio hw') = 7 \<and> tim hw' = tim hw \<and> det hw' = det hw \<and>
    (\<forall>p < 112. pin_cnf hw' p =
      (if p div 16 < unat (padCnt cfg) then padConfig cfg ! (p div 16) ! (p mod 16) else pin_cnf hw p)) \<and>
    (\<forall>c. unat c < 112 \<longrightarrow> dio_out hw' c =
      (if unat c div 16 < unat (padCnt cfg) then outConfig cfg ! (unat c div 16) ! (unat c mod 16)
       else dio_out hw c))"
proof -
  define n where "n = unat (padCnt cfg)"
  have n: "n \<le> 7" "n \<le> length (padConfig cfg)" "n \<le> length (outConfig cfg)"
    and len: "\<And>j. j < n \<Longrightarrow> length (padConfig cfg ! j) = 16" "\<And>j. j < n \<Longrightarrow> length (outConfig cfg ! j) = 16"
    and rm: "unat (remapCount cfg) \<le> length (remaps cfg)"
      "list_all (\<lambda>r. unat (drop_bit 0x15 r * 0x10) < 32) (remaps cfg)"
    using assms(1) by (auto simp: port_config_ok_def n_def list_all_length)
  define hw1 where "hw1 = hw\<lparr>gpio := map (\<lambda>j. if j < n then pad_of cfg j (gpio hw ! j) else gpio hw ! j) [0..<7]\<rparr>"
  have pads: "port_init_pads cfg 0 n hw = Some hw1"
    using init_pads_eq [of 0 n cfg hw] n assms(2) by (simp add: hw1_def)
  obtain hw2 where hw2: "port_remap cfg 0 (unat (remapCount cfg)) hw1 = Some hw2"
    "gpio hw2 = gpio hw1" "tim hw2 = tim hw1" "det hw2 = det hw1"
    using remap_frame [of 0 _ cfg hw1] rm by auto
  have g: "gpio hw2 ! j = (if j < n then pad_of cfg j (gpio hw ! j) else gpio hw ! j)" if "j < 7" for j
    using that hw2(2) by (simp add: hw1_def)
  have "pin_cnf hw2 p = (if p div 16 < n then padConfig cfg ! (p div 16) ! (p mod 16) else pin_cnf hw p)"
    if "p < 112" for p
    using that g [of "p div 16"] pin_cnf_pad [of "p div 16" hw2 cfg _ p] len
    by (cases "p div 16 < n") (simp_all add: less_mult_imp_div_less pin_cnf_def)
  moreover have "dio_out hw2 c = (if unat c div 16 < n then outConfig cfg ! (unat c div 16) ! (unat c mod 16)
      else dio_out hw c)" if "unat c < 112" for c
    using that g [of "unat c div 16"] dio_out_pad [of hw2 c cfg "unat c div 16"] len
    by (cases "unat c div 16 < n") (simp_all add: less_mult_imp_div_less dio_out_def)
  ultimately show ?thesis using pads hw2
    by (simp add: Port_Init_def deref_def n_def) (simp add: hw1_def)
qed

text \<open>
  C27: Port_Init with a consistent configuration of at most seven ports returns, leaves the
  driver initialised, and gives every pin of the configured ports its configured 4-bit mode and its
  configured output level, while the pins of the other ports, the timers and the error tracer keep
  their state.
\<close>

theorem port_init:
  assumes "port_config_ok cfg" and "length (gpio hw) = 7"
  shows "\<exists>hw'. Port_Init bld st (Some cfg) hw = Some (PORT_INITIALIZED, hw') \<and>
    length (gpio hw') = 7 \<and> tim hw' = tim hw \<and> det hw' = det hw \<and>
    (\<forall>p < 112. pin_cnf hw' p =
      (if p div 16 < unat (padCnt cfg) then padConfig cfg ! (p div 16) ! (p mod 16) else pin_cnf hw p)) \<and>
    (\<forall>c. unat c < 112 \<longrightarrow> dio_out hw' c =
      (if unat c div 16 < unat (padCnt cfg) then outConfig cfg ! (unat c div 16) ! (unat c mod 16)
       else dio_out hw c))"
  by (rule port_init_effect [OF assms])

text \<open>One port with all pins floating inputs but pin 0, a push-pull output driven high, and one remap.\<close>

abbreviation (input) "port_example \<equiv> \<lparr>padCnt = 1,
  padConfig = [2 # replicate 15 4], outConfig = [True # replicate 15 False], remapCount = 1, remaps = [4]\<rparr>"

theorem port_init_witness:
  "\<exists>hw'. Port_Init dev_build PORT_UNINITIALIZED (Some port_example) hw_reset = Some (PORT_INITIALIZED, hw') \<and>
    length (gpio hw') = 7 \<and> tim hw' = tim hw_reset \<and> det hw' = det hw_reset \<and>
    (\<forall>p < 112. pin_cnf hw' p =
      (if p div 16 < unat (padCnt port_example) then padConfig port_example ! (p div 16) ! (p mod 16)
       else pin_cnf hw_reset p)) \<and>
    (\<forall>c. unat c < 112 \<longrightarrow> dio_out hw' c =
      (if unat c div 16 < unat (padCnt port_example)
       then outConfig port_example ! (unat c div 16) ! (unat c mod 16) else dio_out hw_reset c))"
  by (rule port_init) (simp_all add: port_config_ok_def hw_reset_def)

lemma set_direction_effect:
  assumes "DEV_ERROR_DETECT bld \<Longrightarrow> st = PORT_INITIALIZED" and "unat pin < 112" and "length (gpio hw) = 7"
  shows "\<exists>hw'. Port_SetPinDirection bld st pin d hw = Some hw' \<and> same_but_cnf hw hw' \<and>
    (\<forall>p. pin_cnf hw' p = (if p = unat pin then direction_cnf d else pin_cnf hw p))"
proof -
  define x where "x = unat pin div 16"
  have x: "x < length (gpio hw)" using assms(2,3) by (simp add: x_def less_mult_imp_div_less)
  define hw' where "hw' = hw\<lparr>gpio := (gpio hw)[x := upd_reg (pin mod 16 div 8)
    (\<lambda>v. (v AND NOT (push_bit (4 * (unat pin mod 8)) 0xF)) OR
      push_bit (4 * (unat pin mod 8)) (ucast (direction_cnf d))) (gpio hw ! x)]\<rparr>"
  have "pin_cnf hw' p = (if p = unat pin then direction_cnf d else pin_cnf hw p)" for p
    using pin_cnf_upd [OF x, of "unat pin mod 8" _ "direction_cnf d" "pin mod 16 div 8" p]
      pin_eq_iff [of p "unat pin"] by (simp add: hw'_def pin_split x_def)
  moreover have "same_but_cnf hw hw'"
    by (auto simp: same_but_cnf_def hw'_def map_update list_update_same_conv x upd_reg_def)
  ultimately show ?thesis using set_direction_eq [OF assms] by (auto simp: hw'_def x_def)
qed

text \<open>
  Setting the direction of one of the 112 pins gives exactly that pin the input or output
  configuration; every other pin keeps its configuration, and no register besides the
  configuration registers is written.
\<close>

theorem port_set_direction:
  assumes "DEV_ERROR_DETECT bld \<Longrightarrow> st = PORT_INITIALIZED" and "unat pin < 112" and "length (gpio hw) = 7"
  shows "\<exists>hw'. Port_SetPinDirection bld st pin d hw = Some hw' \<and> same_but_cnf hw hw' \<and>
    (\<forall>p. pin_cnf hw' p = (if p = unat pin then direction_cnf d else pin_cnf hw p))"
  by (rule set_direction_effect [OF assms])

theorem port_set_direction_witness:
  "\<exists>hw'. Port_SetPinDirection dev_build PORT_INITIALIZED 61 PORT_PIN_OUT hw_reset = Some hw' \<and>
    same_but_cnf hw_reset hw' \<and>
    (\<forall>p. pin_cnf hw' p = (if p = unat (61 :: uint8) then direction_cnf PORT_PIN_OUT else pin_cnf hw_reset p))"
  by (rule port_set_direction) (simp_all add: hw_reset_def)

text \<open>
  The check of the pin number lets pin 112, the first one past the last port, through: with
  development error detection on and the driver initialised, the call indexes GpioBaseAddr out of
  its bounds. Every larger pin number is refused with an error report.
\<close>

theorem port_pin_out_of_range:
  assumes "DEV_ERROR_DETECT bld"
  shows "Port_SetPinDirection bld PORT_INITIALIZED 112 d hw = None \<and>
    (\<forall>pin. 112 < unat pin \<longrightarrow> Port_SetPinDirection bld PORT_INITIALIZED pin d hw =
      det_report bld PORT_MODULE_ID PORT_SET_PIN_DIRECTION_ID PORT_E_PARAM_PIN hw)"
  using assms
  by (simp add: Port_SetPinDirection_def VALIDATE_fail length_base rd_def)

theorem port_pin_out_of_range_witness:
  "Port_SetPinDirection dev_build PORT_INITIALIZED 112 PORT_PIN_IN hw_reset = None \<and>
    (\<forall>pin. 112 < unat pin \<longrightarrow> Port_SetPinDirection dev_build PORT_INITIALIZED pin PORT_PIN_IN hw_reset =
      det_report dev_build PORT_MODULE_ID PORT_SET_PIN_DIRECTION_ID PORT_E_PARAM_PIN hw_reset)"
  by (rule port_pin_out_of_range) simp

end
