(* ===== verification/Gpt.thy ===== *)
theory Gpt
  imports Stm32
begin

text \<open>
  The general purpose timer driver \<^verbatim>\<open>McalSrc/Gpt.c\<close> on the timers of \<open>Stm32\<close>, with its interrupt
  routine. The counting of a timer and its update event are hardware: the model has the registers
  as memory, and a property about an interrupt states the registers the hardware left.

  \<^item> \<^verbatim>\<open>GPT_CHANNEL_CNT\<close> and \<^verbatim>\<open>GPT_CHANNEL_ILL\<close> are those of \<^verbatim>\<open>McalGen/Gpt_Cfg.h\<close>. The
    configuration is an array that ends with a channel \<^verbatim>\<open>GPT_CHANNEL_ILL\<close>; reading past it faults.
  \<^item> A notification is a function of the application: \<open>None\<close> is \<^verbatim>\<open>NULL\<close>, and a call is recorded.
    Installing the interrupt routine is recorded too.
  \<^item> The accesses to \<^verbatim>\<open>ARR\<close> and \<^verbatim>\<open>CNT\<close> through \<^verbatim>\<open>uint32\<close> pointers cover the register and the
    reserved half word behind it. The value of \<^verbatim>\<open>1<<31\<close> is the word with the top bit set.
\<close>

section \<open>Definitions\<close>

datatype Gpt_StateType = GPT_STATE_STOPPED | GPT_STATE_STARTED | GPT_STATE_EXPIRED | GPT_STATE_INITIALIZED

datatype Gpt_ChannelMode = GPT_CH_MODE_ONESHOT | GPT_CH_MODE_CONTINUOUS

datatype Gpt_ModeType = GPT_MODE_NORMAL | GPT_MODE_SLEEP | GPT_MODE_UNINTIALIZED

record Gpt_ConfigType =
  GptChannelId :: uint8
  GptChannelMode :: Gpt_ChannelMode
  GptNotification :: "nat ptr"
  GptNotificationPriority :: uint8
  GptChannelPrescale :: uint32

record Gpt_GlobalType =
  initRun :: bool
  config :: "Gpt_ConfigType list ptr"
  wakeupEnabled :: bool
  configured :: uint32
  channelMap :: "uint8 list"

record Gpt_UnitType =
  state :: Gpt_StateType
  expiredWhenStopped :: bool

record gpt =
  Gpt_Global :: Gpt_GlobalType
  Gpt_Unit :: "Gpt_UnitType list"
  chip :: stm32
  isr_installed :: "nat list"
  notified :: "nat list"

record Gpt_build =
  drv :: build
  ENABLE_DISABLE_NOTIFICATION_API :: bool
  GPT_CHANNEL_RTI :: uint8

abbreviation (input) "GPT_CHANNEL_CNT \<equiv> (4 :: nat)"
abbreviation (input) "GPT_CHANNEL_ILL \<equiv> (31 :: uint8)"
abbreviation (input) "GPT_MODULE_ID \<equiv> (100 :: uint16)"
abbreviation (input) "GPT_E_UNINIT \<equiv> (0x0A :: uint8)"
abbreviation (input) "GPT_E_BUSY \<equiv> (0x0B :: uint8)"
abbreviation (input) "GPT_E_ALREADY_INITIALIZED \<equiv> (0x0D :: uint8)"
abbreviation (input) "GPT_E_PARAM_CHANNEL \<equiv> (0x14 :: uint8)"
abbreviation (input) "GPT_E_PARAM_VALUE \<equiv> (0x15 :: uint8)"
abbreviation (input) "GPT_E_PARAM_POINTER \<equiv> (0x16 :: uint8)"
abbreviation (input) "GPT_E_PARAM_MODE \<equiv> (0x1F :: uint8)"
abbreviation (input) "GPT_INIT_SERVICE_ID \<equiv> (0x01 :: uint8)"
abbreviation (input) "GPT_DEINIT_SERVICE_ID \<equiv> (0x02 :: uint8)"
abbreviation (input) "GPT_GETTIMEELAPSED_SERVICE_ID \<equiv> (0x03 :: uint8)"
abbreviation (input) "GPT_GETTIMEREMAINING_SERVICE_ID \<equiv> (0x04 :: uint8)"
abbreviation (input) "GPT_STARTTIMER_SERVICE_ID \<equiv> (0x05 :: uint8)"
abbreviation (input) "GPT_STOPTIMER_SERVICE_ID \<equiv> (0x06 :: uint8)"
abbreviation (input) "GPT_SETMODE_SERVICE_ID \<equiv> (0x09 :: uint8)"
abbreviation (input) "GPT_DISABLEWAKEUP_SERVICE_ID \<equiv> (0x0A :: uint8)"
abbreviation (input) "GPT_ENABLEWAKEUP_SERVICE_ID \<equiv> (0x0B :: uint8)"
abbreviation (input) "TIM_CR1_CEN \<equiv> (0x0001 :: uint16)"
abbreviation (input) "TIM_CR1_UDIS \<equiv> (0x0002 :: uint16)"
abbreviation (input) "TIM_CR1_URS \<equiv> (0x0004 :: uint16)"
abbreviation (input) "TIM_CR1_DIR \<equiv> (0x0010 :: uint16)"
abbreviation (input) "TIM_DIER_UIE \<equiv> (0x0001 :: uint16)"
abbreviation (input) "TIM_SR_UIF \<equiv> (0x0001 :: uint16)"

definition TimAddr :: "nat list" where
  "TimAddr = [0, 1, 2, 3, 4, 5, 6]"

text \<open>Reading and updating the registers \<^verbatim>\<open>TimAddr[channel]\<close>.\<close>

definition get_tim :: "uint8 \<Rightarrow> gpt \<Rightarrow> TIM_TypeDef ub" where
  "get_tim channel st = do { x \<leftarrow> rd TimAddr (unat channel); rd (tim (chip st)) x }"

definition upd_tim :: "uint8 \<Rightarrow> (TIM_TypeDef \<Rightarrow> TIM_TypeDef) \<Rightarrow> gpt \<Rightarrow> gpt ub" where
  "upd_tim channel f st = do {
     x \<leftarrow> rd TimAddr (unat channel);
     t \<leftarrow> rd (tim (chip st)) x;
     l \<leftarrow> wr (tim (chip st)) x (f t);
     Some (st\<lparr>chip := (chip st)\<lparr>tim := l\<rparr>\<rparr>) }"

definition upd_unit :: "nat \<Rightarrow> (Gpt_UnitType \<Rightarrow> Gpt_UnitType) \<Rightarrow> gpt \<Rightarrow> gpt ub" where
  "upd_unit channel f st = do {
     u \<leftarrow> rd (Gpt_Unit st) channel;
     l \<leftarrow> wr (Gpt_Unit st) channel (f u);
     Some (st\<lparr>Gpt_Unit := l\<rparr>) }"

text \<open>The two macros, with the condition as a computation, and the rest of the function.\<close>

definition GPT_VALIDATE ::
  "Gpt_build \<Rightarrow> bool ub \<Rightarrow> uint8 \<Rightarrow> uint8 \<Rightarrow> (gpt \<Rightarrow> gpt ub) \<Rightarrow> gpt \<Rightarrow> gpt ub" where
  "GPT_VALIDATE bld ex api err rest st =
     (if DEV_ERROR_DETECT (drv bld) then do {
        b \<leftarrow> ex;
        if b then rest st
        else do { hw \<leftarrow> det_report (drv bld) GPT_MODULE_ID api err (chip st); Some (st\<lparr>chip := hw\<rparr>) } }
      else rest st)"

definition VALIDATE_W_RV ::
  "Gpt_build \<Rightarrow> bool ub \<Rightarrow> uint8 \<Rightarrow> uint8 \<Rightarrow> 'r \<Rightarrow> (gpt \<Rightarrow> ('r \<times> gpt) ub) \<Rightarrow> gpt \<Rightarrow> ('r \<times> gpt) ub" where
  "VALIDATE_W_RV bld ex api err rv rest st =
     (if DEV_ERROR_DETECT (drv bld) then do {
        b \<leftarrow> ex;
        if b then rest st
        else do { hw \<leftarrow> det_report (drv bld) GPT_MODULE_ID api err (chip st); Some (rv, st\<lparr>chip := hw\<rparr>) } }
      else rest st)"

definition VALID_CHANNEL :: "gpt \<Rightarrow> uint8 \<Rightarrow> bool ub" where
  "VALID_CHANNEL st ch = do { b \<leftarrow> shl32 1 (unat ch); Some (configured (Gpt_Global st) AND b \<noteq> 0) }"

text \<open>Reading \<^verbatim>\<open>Gpt_Global.config[confCh]\<close>.\<close>

definition get_config :: "gpt \<Rightarrow> uint8 \<Rightarrow> Gpt_ConfigType ub" where
  "get_config st confCh = do { cs \<leftarrow> deref (config (Gpt_Global st)); rd cs (unat confCh) }"

definition Gpt_IsrCh :: "uint8 \<Rightarrow> gpt \<Rightarrow> gpt ub" where
  "Gpt_IsrCh channel st = do {
     confCh \<leftarrow> rd (channelMap (Gpt_Global st)) (unat channel);
     if confCh = GPT_CHANNEL_ILL then None
     else do {
       cfg \<leftarrow> get_config st confCh;
       st \<leftarrow> (if GptChannelMode cfg = GPT_CH_MODE_ONESHOT then do {
               st \<leftarrow> upd_tim channel (\<lambda>t. t\<lparr>CR1 := CR1 t AND NOT TIM_CR1_CEN\<rparr>) st;
               upd_unit (unat channel) (\<lambda>u. u\<lparr>state := GPT_STATE_EXPIRED\<rparr>) st }
             else Some st);
       f \<leftarrow> deref (GptNotification cfg);
       let st = st\<lparr>notified := notified st @ [f]\<rparr>;
       upd_tim channel (\<lambda>t. t\<lparr>SR := SR t AND NOT TIM_SR_UIF\<rparr>) st } }"

text \<open>The loop of the interrupt routine looks for a channel that counts and has its update flag set.\<close>

definition isr_pending :: "nat \<Rightarrow> gpt \<Rightarrow> bool ub" where
  "isr_pending i st = do {
     t \<leftarrow> get_tim (of_nat i) st;
     Some (SR t AND TIM_SR_UIF = TIM_SR_UIF \<and> CR1 t AND TIM_CR1_CEN = TIM_CR1_CEN) }"

fun isr_search :: "nat list \<Rightarrow> gpt \<Rightarrow> nat option ub" where
  "isr_search [] st = Some None"
| "isr_search (i # is) st = do {
     found \<leftarrow> isr_pending i st;
     if found then Some (Some i) else isr_search is st }"

definition Gpt_Isr :: "gpt \<Rightarrow> gpt ub" where
  "Gpt_Isr st = do {
     r \<leftarrow> isr_search [0..<GPT_CHANNEL_CNT] st;
     case r of None \<Rightarrow> Some st | Some i \<Rightarrow> Gpt_IsrCh (of_nat i) st }"

text \<open>The loop of \<^verbatim>\<open>Gpt_Init\<close> over the configuration, from entry \<open>i\<close>.\<close>

fun gpt_init_loop :: "nat \<Rightarrow> Gpt_ConfigType list \<Rightarrow> gpt \<Rightarrow> gpt ub" where
  "gpt_init_loop i [] st = None"
| "gpt_init_loop i (cfg # cs) st =
     (let ch = GptChannelId cfg in
      if ch = GPT_CHANNEL_ILL then Some st
      else do {
        l \<leftarrow> wr (channelMap (Gpt_Global st)) (unat ch) (of_nat i);
        b \<leftarrow> shl32 1 (unat ch);
        let st = st\<lparr>Gpt_Global := (Gpt_Global st)\<lparr>channelMap := l, configured := configured (Gpt_Global st) OR b\<rparr>\<rparr>;
        let st = (if unat ch \<le> GPT_CHANNEL_CNT \<and> GptNotification cfg \<noteq> None \<and> unat ch < 4
                  then st\<lparr>isr_installed := isr_installed st @ [unat ch]\<rparr> else st);
        st \<leftarrow> upd_unit i (\<lambda>u. u\<lparr>state := GPT_STATE_INITIALIZED, expiredWhenStopped := False\<rparr>) st;
        gpt_init_loop (Suc i) cs st })"

definition Gpt_Init :: "Gpt_build \<Rightarrow> Gpt_ConfigType list ptr \<Rightarrow> gpt \<Rightarrow> gpt ub" where
  "Gpt_Init bld cfgPtr st =
     GPT_VALIDATE bld (Some (\<not> initRun (Gpt_Global st))) GPT_INIT_SERVICE_ID GPT_E_ALREADY_INITIALIZED (\<lambda>st.
     GPT_VALIDATE bld (Some (cfgPtr \<noteq> None)) GPT_INIT_SERVICE_ID GPT_E_PARAM_POINTER (\<lambda>st. do {
       let st = st\<lparr>Gpt_Global := (Gpt_Global st)\<lparr>channelMap := replicate GPT_CHANNEL_CNT GPT_CHANNEL_ILL\<rparr>\<rparr>;
       cs \<leftarrow> deref cfgPtr;
       st \<leftarrow> gpt_init_loop 0 cs st;
       Some (st\<lparr>Gpt_Global := (Gpt_Global st)\<lparr>config := cfgPtr, initRun := True\<rparr>\<rparr>) }) st) st"

definition Gpt_EnableNotification :: "Gpt_build \<Rightarrow> uint8 \<Rightarrow> gpt \<Rightarrow> gpt ub" where
  "Gpt_EnableNotification bld channel st =
     GPT_VALIDATE bld (Some (initRun (Gpt_Global st))) 0x7 GPT_E_UNINIT (\<lambda>st.
     GPT_VALIDATE bld (VALID_CHANNEL st channel) 0x7 GPT_E_PARAM_CHANNEL (\<lambda>st.
       if unat channel \<le> GPT_CHANNEL_CNT
       then upd_tim channel (\<lambda>t. t\<lparr>DIER := DIER t OR TIM_DIER_UIE\<rparr>) st else Some st) st) st"

definition Gpt_DisableNotification :: "Gpt_build \<Rightarrow> uint8 \<Rightarrow> gpt \<Rightarrow> gpt ub" where
  "Gpt_DisableNotification bld channel st =
     GPT_VALIDATE bld (Some (initRun (Gpt_Global st))) 0x8 GPT_E_UNINIT (\<lambda>st.
     GPT_VALIDATE bld (VALID_CHANNEL st channel) 0x8 GPT_E_PARAM_CHANNEL (\<lambda>st.
       if unat channel \<le> GPT_CHANNEL_CNT
       then upd_tim channel (\<lambda>t. t\<lparr>DIER := DIER t AND NOT TIM_DIER_UIE\<rparr>) st else Some st) st) st"

text \<open>The register writes of \<^verbatim>\<open>Gpt_StartTimer\<close>.\<close>

definition start_regs :: "uint32 \<Rightarrow> uint32 \<Rightarrow> TIM_TypeDef \<Rightarrow> TIM_TypeDef" where
  "start_regs period_ticks prescale t =
     (let t = t\<lparr>ARR := ucast period_ticks, RESERVED11 := ucast (drop_bit 16 period_ticks)\<rparr>;
          t = t\<lparr>CNT := ucast period_ticks, RESERVED9 := ucast (drop_bit 16 period_ticks)\<rparr>;
          t = t\<lparr>SR := SR t AND NOT TIM_SR_UIF\<rparr>;
          t = t\<lparr>PSC := ucast prescale\<rparr>;
          t = t\<lparr>CR1 := CR1 t OR (TIM_CR1_CEN OR TIM_CR1_URS OR TIM_CR1_DIR)\<rparr>
      in t\<lparr>CR1 := CR1 t AND NOT TIM_CR1_UDIS\<rparr>)"

definition Gpt_StartTimer :: "Gpt_build \<Rightarrow> uint8 \<Rightarrow> uint32 \<Rightarrow> gpt \<Rightarrow> gpt ub" where
  "Gpt_StartTimer bld channel period_ticks st =
     GPT_VALIDATE bld (Some (initRun (Gpt_Global st))) GPT_STARTTIMER_SERVICE_ID GPT_E_UNINIT (\<lambda>st.
     GPT_VALIDATE bld (VALID_CHANNEL st channel) GPT_STARTTIMER_SERVICE_ID GPT_E_PARAM_CHANNEL (\<lambda>st.
     GPT_VALIDATE bld (Some (period_ticks \<noteq> 0)) GPT_STARTTIMER_SERVICE_ID GPT_E_PARAM_VALUE (\<lambda>st.
     GPT_VALIDATE bld (do { u \<leftarrow> rd (Gpt_Unit st) (unat channel); Some (state u \<noteq> GPT_STATE_STARTED) })
       GPT_STARTTIMER_SERVICE_ID GPT_E_BUSY (\<lambda>st. do {
       confCh \<leftarrow> rd (channelMap (Gpt_Global st)) (unat channel);
       st \<leftarrow> (if unat channel \<le> GPT_CHANNEL_CNT then do {
               cfg \<leftarrow> get_config st confCh;
               upd_tim channel (start_regs period_ticks (GptChannelPrescale cfg)) st }
             else Some st);
       st \<leftarrow> (if ENABLE_DISABLE_NOTIFICATION_API bld then do {
               cfg \<leftarrow> get_config st confCh;
               if GptNotification cfg \<noteq> None then Gpt_EnableNotification bld channel st else Some st }
             else Some st);
       upd_unit (unat channel) (\<lambda>u. u\<lparr>state := GPT_STATE_STARTED, expiredWhenStopped := False\<rparr>) st }) st) st) st) st"

definition Gpt_StopTimer :: "Gpt_build \<Rightarrow> uint8 \<Rightarrow> gpt \<Rightarrow> gpt ub" where
  "Gpt_StopTimer bld channel st =
     GPT_VALIDATE bld (Some (initRun (Gpt_Global st))) GPT_STOPTIMER_SERVICE_ID GPT_E_UNINIT (\<lambda>st.
     GPT_VALIDATE bld (VALID_CHANNEL st channel) GPT_STOPTIMER_SERVICE_ID GPT_E_PARAM_CHANNEL (\<lambda>st. do {
       st \<leftarrow> (if unat channel \<le> GPT_CHANNEL_CNT then
               upd_tim channel (\<lambda>t. t\<lparr>CR1 := CR1 t AND NOT TIM_CR1_CEN, SR := SR t AND NOT TIM_SR_UIF\<rparr>) st
             else Some st);
       st \<leftarrow> (if ENABLE_DISABLE_NOTIFICATION_API bld then Gpt_DisableNotification bld channel st else Some st);
       upd_unit (unat channel) (\<lambda>u.
         (if state u = GPT_STATE_EXPIRED then u\<lparr>expiredWhenStopped := True\<rparr> else u)\<lparr>state := GPT_STATE_STOPPED\<rparr>) st }) st) st"

text \<open>The loop of \<^verbatim>\<open>Gpt_DeInit\<close> returns at the first channel that is started.\<close>

fun deinit_loop :: "Gpt_build \<Rightarrow> nat list \<Rightarrow> gpt \<Rightarrow> gpt ub" where
  "deinit_loop bld [] st =
     Some (st\<lparr>Gpt_Global := (Gpt_Global st)\<lparr>initRun := False, configured := 0\<rparr>\<rparr>)"
| "deinit_loop bld (channel # cs) st =
     GPT_VALIDATE bld (do { u \<leftarrow> rd (Gpt_Unit st) channel; Some (state u \<noteq> GPT_STATE_STARTED) })
       GPT_DEINIT_SERVICE_ID GPT_E_BUSY
       (\<lambda>st. do { st \<leftarrow> Gpt_StopTimer bld (of_nat channel) st; deinit_loop bld cs st }) st"

definition Gpt_DeInit :: "Gpt_build \<Rightarrow> gpt \<Rightarrow> gpt ub" where
  "Gpt_DeInit bld st =
     GPT_VALIDATE bld (Some (initRun (Gpt_Global st))) GPT_DEINIT_SERVICE_ID GPT_E_UNINIT
       (deinit_loop bld [0..<GPT_CHANNEL_CNT]) st"

text \<open>The 32-bit reads of a counter and of a reload value.\<close>

definition reg32 :: "uint16 \<Rightarrow> uint16 \<Rightarrow> uint32" where
  "reg32 low high = ucast low OR push_bit 16 (ucast high)"

definition Gpt_GetTimeRemaining :: "Gpt_build \<Rightarrow> uint8 \<Rightarrow> gpt \<Rightarrow> (uint32 \<times> gpt) ub" where
  "Gpt_GetTimeRemaining bld channel st =
     VALIDATE_W_RV bld (Some (initRun (Gpt_Global st))) GPT_GETTIMEREMAINING_SERVICE_ID GPT_E_UNINIT 0 (\<lambda>st.
     VALIDATE_W_RV bld (VALID_CHANNEL st channel) GPT_GETTIMEREMAINING_SERVICE_ID GPT_E_PARAM_CHANNEL 0 (\<lambda>st. do {
       u \<leftarrow> rd (Gpt_Unit st) (unat channel);
       if state u = GPT_STATE_INITIALIZED \<or> state u = GPT_STATE_EXPIRED \<or>
          (state u = GPT_STATE_STOPPED \<and> expiredWhenStopped u)
       then Some (0, st)
       else if unat channel \<le> GPT_CHANNEL_CNT then do {
         t \<leftarrow> get_tim channel st;
         Some (reg32 (CNT t) (RESERVED9 t), st) }
       else Some (0, st) }) st) st"

definition Gpt_GetTimeElapsed :: "Gpt_build \<Rightarrow> uint8 \<Rightarrow> gpt \<Rightarrow> (uint32 \<times> gpt) ub" where
  "Gpt_GetTimeElapsed bld channel st =
     VALIDATE_W_RV bld (Some (initRun (Gpt_Global st))) GPT_GETTIMEELAPSED_SERVICE_ID GPT_E_UNINIT 0 (\<lambda>st.
     VALIDATE_W_RV bld (VALID_CHANNEL st channel) GPT_GETTIMEELAPSED_SERVICE_ID GPT_E_PARAM_CHANNEL 0 (\<lambda>st. do {
       u \<leftarrow> rd (Gpt_Unit st) (unat channel);
       if state u = GPT_STATE_INITIALIZED then Some (0, st)
       else if state u = GPT_STATE_EXPIRED \<or> (state u = GPT_STATE_STOPPED \<and> expiredWhenStopped u) then do {
         t \<leftarrow> get_tim channel st;
         Some (ucast (ARR t), st) }
       else if unat channel \<le> GPT_CHANNEL_CNT then do {
         t \<leftarrow> get_tim channel st;
         Some (reg32 (ARR t) (RESERVED11 t) - reg32 (CNT t) (RESERVED9 t), st) }
       else Some (0, st) }) st) st"

definition Gpt_SetMode :: "Gpt_build \<Rightarrow> Gpt_ModeType \<Rightarrow> gpt \<Rightarrow> gpt ub" where
  "Gpt_SetMode bld mode st =
     GPT_VALIDATE bld (Some (initRun (Gpt_Global st))) GPT_SETMODE_SERVICE_ID GPT_E_UNINIT (\<lambda>st.
     GPT_VALIDATE bld (Some (mode \<noteq> GPT_MODE_UNINTIALIZED)) GPT_SETMODE_SERVICE_ID GPT_E_PARAM_MODE (\<lambda>st.
       if mode = GPT_MODE_SLEEP
       then for_each (\<lambda>i. Gpt_StopTimer bld (of_nat i)) [0..<Suc GPT_CHANNEL_CNT] st
       else Some st) st) st"

definition Gpt_DisableWakeup :: "Gpt_build \<Rightarrow> uint8 \<Rightarrow> gpt \<Rightarrow> gpt ub" where
  "Gpt_DisableWakeup bld channel st =
     GPT_VALIDATE bld (Some (initRun (Gpt_Global st))) GPT_DISABLEWAKEUP_SERVICE_ID GPT_E_UNINIT (\<lambda>st.
     GPT_VALIDATE bld (VALID_CHANNEL st channel) GPT_DISABLEWAKEUP_SERVICE_ID GPT_E_PARAM_CHANNEL (\<lambda>st.
       Some (if channel = GPT_CHANNEL_RTI bld
             then st\<lparr>Gpt_Global := (Gpt_Global st)\<lparr>wakeupEnabled := False\<rparr>\<rparr> else st)) st) st"

definition Gpt_EnableWakeup :: "Gpt_build \<Rightarrow> uint8 \<Rightarrow> gpt \<Rightarrow> gpt ub" where
  "Gpt_EnableWakeup bld channel st =
     GPT_VALIDATE bld (Some (initRun (Gpt_Global st))) GPT_ENABLEWAKEUP_SERVICE_ID GPT_E_UNINIT (\<lambda>st.
     GPT_VALIDATE bld (VALID_CHANNEL st channel) GPT_ENABLEWAKEUP_SERVICE_ID GPT_E_PARAM_CHANNEL (\<lambda>st.
       Some (if channel = GPT_CHANNEL_RTI bld
             then st\<lparr>Gpt_Global := (Gpt_Global st)\<lparr>wakeupEnabled := True\<rparr>\<rparr> else st)) st) st"

section \<open>The invariant\<close>

text \<open>
  A configuration is well formed if it is terminated, its channels exist and are pairwise different,
  and each has a notification function.
\<close>

definition entries :: "Gpt_ConfigType list \<Rightarrow> Gpt_ConfigType list" where
  "entries cs = takeWhile (\<lambda>c. GptChannelId c \<noteq> GPT_CHANNEL_ILL) cs"

definition gpt_ids :: "Gpt_ConfigType list \<Rightarrow> nat list" where
  "gpt_ids cs = map (\<lambda>c. unat (GptChannelId c)) (entries cs)"

definition gpt_config_ok :: "Gpt_ConfigType list \<Rightarrow> bool" where
  "gpt_config_ok cs \<longleftrightarrow> length (entries cs) < length cs \<and> distinct (gpt_ids cs) \<and>
     list_all (\<lambda>i. i < 4) (gpt_ids cs) \<and> list_all (\<lambda>c. GptNotification c \<noteq> None) (entries cs)"

abbreviation counting :: "gpt \<Rightarrow> nat \<Rightarrow> bool" where
  "counting st ch \<equiv> bit (CR1 (tim (chip st) ! ch)) 0"

abbreviation started :: "gpt \<Rightarrow> nat \<Rightarrow> bool" where
  "started st ch \<equiv> state (Gpt_Unit st ! ch) = GPT_STATE_STARTED"

text \<open>The entry of the channel map for a channel.\<close>

definition map_entry_ok :: "Gpt_ConfigType list \<Rightarrow> uint8 list \<Rightarrow> nat \<Rightarrow> bool" where
  "map_entry_ok cs cm ch \<longleftrightarrow>
     (if ch \<in> set (gpt_ids cs)
      then unat (cm ! ch) < length (entries cs) \<and> unat (GptChannelId (cs ! unat (cm ! ch))) = ch
      else cm ! ch = GPT_CHANNEL_ILL)"

text \<open>
  A timer counts exactly if the driver has its channel as started, only configured channels of an
  initialised driver are started, and the bit field and the channel map describe the configuration.
\<close>

definition gpt_inv :: "Gpt_build \<Rightarrow> Gpt_ConfigType list \<Rightarrow> gpt \<Rightarrow> bool" where
  "gpt_inv bld cs st \<longleftrightarrow>
     hw_wf (drv bld) (chip st) \<and> length (Gpt_Unit st) = 4 \<and>
     (\<forall>ch < 4. counting st ch \<longleftrightarrow> started st ch) \<and>
     (\<forall>ch < 4. started st ch \<longrightarrow> initRun (Gpt_Global st) \<and> ch \<in> set (gpt_ids cs)) \<and>
     (\<forall>ch < 32. bit (configured (Gpt_Global st)) ch \<longleftrightarrow> initRun (Gpt_Global st) \<and> ch \<in> set (gpt_ids cs)) \<and>
     (initRun (Gpt_Global st) \<longrightarrow>
        config (Gpt_Global st) = Some cs \<and> length (channelMap (Gpt_Global st)) = 4 \<and>
        (\<forall>ch < 4. map_entry_ok cs (channelMap (Gpt_Global st)) ch))"

section \<open>Registers, units and checks\<close>

lemma entries_nth: "k < length (entries cs) \<Longrightarrow> entries cs ! k = cs ! k"
  by (simp add: entries_def takeWhile_nth)

lemma length_entries: "length (entries cs) \<le> length cs"
  by (simp add: entries_def length_takeWhile_le)

lemma TimAddr_nth: "n < 7 \<Longrightarrow> rd TimAddr n = Some n"
proof -
  assume "n < 7"
  then have "n = 0 \<or> n = 1 \<or> n = 2 \<or> n = 3 \<or> n = 4 \<or> n = 5 \<or> n = 6" by arith
  then show ?thesis by (auto simp: TimAddr_def rd_def)
qed

lemma get_tim_eq:
  "hw_wf b (chip st) \<Longrightarrow> unat ch < 7 \<Longrightarrow> get_tim ch st = Some (tim (chip st) ! unat ch)"
  by (simp add: get_tim_def TimAddr_nth ub_simps hw_wf_def)

lemma upd_tim_eq:
  "hw_wf b (chip st) \<Longrightarrow> unat ch < 7 \<Longrightarrow>
     upd_tim ch f st = Some (st\<lparr>chip := (chip st)\<lparr>tim := (tim (chip st))[unat ch := f (tim (chip st) ! unat ch)]\<rparr>\<rparr>)"
  by (simp add: upd_tim_def TimAddr_nth ub_simps hw_wf_def)

lemma upd_unit_eq:
  "i < length (Gpt_Unit st) \<Longrightarrow> upd_unit i f st = Some (st\<lparr>Gpt_Unit := (Gpt_Unit st)[i := f (Gpt_Unit st ! i)]\<rparr>)"
  by (simp add: upd_unit_def ub_simps)

lemma hw_wf_tim [simp]: "hw_wf b (hw\<lparr>tim := (tim hw)[i := t]\<rparr>) = hw_wf b hw"
  by (simp add: hw_wf_def)

lemma VALID_CHANNEL_eq: "unat ch < 32 \<Longrightarrow> VALID_CHANNEL st ch = Some (bit (configured (Gpt_Global st)) (unat ch))"
  by (simp add: VALID_CHANNEL_def shl32_def and_exp_eq_0_iff_not_bit push_bit_of_1)

lemma length_gpt_ids [simp]: "length (gpt_ids cs) = length (entries cs)"
  by (simp add: gpt_ids_def)

lemma gpt_config_small:
  assumes "gpt_config_ok cs"
  shows "length (entries cs) \<le> 4" "i < length (entries cs) \<Longrightarrow> gpt_ids cs ! i < 4"
proof -
  have "card (set (gpt_ids cs)) \<le> card {..<4 :: nat}"
    using assms by (intro card_mono) (auto simp: gpt_config_ok_def list_all_iff)
  moreover have "distinct (gpt_ids cs)" using assms by (simp add: gpt_config_ok_def)
  ultimately show "length (entries cs) \<le> 4" using distinct_card [of "gpt_ids cs"] by simp
  show "gpt_ids cs ! i < 4" if "i < length (entries cs)"
    using that assms nth_mem [of i "gpt_ids cs"] by (auto simp: gpt_config_ok_def list_all_iff)
qed

text \<open>The configured channels, which all channel functions accept.\<close>

definition active_channel :: "Gpt_build \<Rightarrow> Gpt_ConfigType list \<Rightarrow> gpt \<Rightarrow> uint8 \<Rightarrow> bool" where
  "active_channel bld cs st ch \<longleftrightarrow>
     gpt_config_ok cs \<and> gpt_inv bld cs st \<and> initRun (Gpt_Global st) \<and> unat ch \<in> set (gpt_ids cs)"

lemma active_facts:
  assumes "active_channel bld cs st ch"
  shows "unat ch < 4" "hw_wf (drv bld) (chip st)" "length (Gpt_Unit st) = 4" "initRun (Gpt_Global st)"
    "VALID_CHANNEL st ch = Some True" "rd (Gpt_Unit st) (unat ch) = Some (Gpt_Unit st ! unat ch)"
    and "\<exists>k c. rd (channelMap (Gpt_Global st)) (unat ch) = Some k \<and> k \<noteq> GPT_CHANNEL_ILL \<and>
      get_config st k = Some c \<and> c \<in> set (entries cs) \<and> unat (GptChannelId c) = unat ch \<and> GptNotification c \<noteq> None"
proof -
  show 4: "unat ch < 4" using assms by (auto simp: active_channel_def gpt_config_ok_def list_all_iff)
  show "hw_wf (drv bld) (chip st)" and len: "length (Gpt_Unit st) = 4" and "initRun (Gpt_Global st)"
    using assms by (simp_all add: active_channel_def gpt_inv_def)
  show "VALID_CHANNEL st ch = Some True"
    using 4 assms by (simp add: VALID_CHANNEL_eq active_channel_def gpt_inv_def)
  show "rd (Gpt_Unit st) (unat ch) = Some (Gpt_Unit st ! unat ch)" using 4 len by (simp add: ub_simps)
  let ?k = "channelMap (Gpt_Global st) ! unat ch"
  have k: "unat ?k < length (entries cs)" "unat (GptChannelId (cs ! unat ?k)) = unat ch"
    and cm: "length (channelMap (Gpt_Global st)) = 4" and cfg: "config (Gpt_Global st) = Some cs"
    using assms 4 by (auto simp: active_channel_def gpt_inv_def map_entry_ok_def)
  have mem: "cs ! unat ?k \<in> set (entries cs)" using k(1) entries_nth nth_mem by metis
  have "length (entries cs) \<le> 4" using gpt_config_small(1) assms by (simp add: active_channel_def)
  then have "?k \<noteq> GPT_CHANNEL_ILL" using k(1) by auto
  moreover have "GptNotification (cs ! unat ?k) \<noteq> None"
    using mem assms by (simp add: active_channel_def gpt_config_ok_def list_all_iff)
  moreover have "get_config st ?k = Some (cs ! unat ?k)"
    using cfg k(1) length_entries [of cs] by (simp add: get_config_def deref_def ub_simps)
  ultimately show "\<exists>k c. rd (channelMap (Gpt_Global st)) (unat ch) = Some k \<and> k \<noteq> GPT_CHANNEL_ILL \<and>
      get_config st k = Some c \<and> c \<in> set (entries cs) \<and> unat (GptChannelId c) = unat ch \<and> GptNotification c \<noteq> None"
    using cm 4 mem k(2) by (simp add: ub_simps)
qed

text \<open>An update of one timer and of one unit, and when it keeps the invariant.\<close>

abbreviation upd_channel :: "nat \<Rightarrow> TIM_TypeDef \<Rightarrow> Gpt_UnitType \<Rightarrow> gpt \<Rightarrow> gpt" where
  "upd_channel ch t u st \<equiv>
     st\<lparr>chip := (chip st)\<lparr>tim := (tim (chip st))[ch := t]\<rparr>, Gpt_Unit := (Gpt_Unit st)[ch := u]\<rparr>"

lemma inv_upd_channel:
  assumes "gpt_inv bld cs st" and "ch < 4" and "bit (CR1 t) 0 \<longleftrightarrow> state u = GPT_STATE_STARTED"
    and "state u = GPT_STATE_STARTED \<Longrightarrow> initRun (Gpt_Global st) \<and> ch \<in> set (gpt_ids cs)"
  shows "gpt_inv bld cs (upd_channel ch t u st)"
  using assms by (auto simp: gpt_inv_def nth_list_update hw_wf_def)

lemma inv_upd_tim:
  assumes "gpt_inv bld cs st" and "ch < 4" and "bit (CR1 t) 0 = counting st ch"
  shows "gpt_inv bld cs (st\<lparr>chip := (chip st)\<lparr>tim := (tim (chip st))[ch := t]\<rparr>\<rparr>)"
  using inv_upd_channel [OF assms(1,2), of t "Gpt_Unit st ! ch"] assms by (auto simp: gpt_inv_def)

lemma inv_report:
  assumes "gpt_inv bld cs st" and "same_hw (chip st) hw" and "hw_wf (drv bld) hw"
  shows "gpt_inv bld cs (st\<lparr>chip := hw\<rparr>)"
proof -
  have "tim hw = tim (chip st)" using assms(2) unfolding same_hw_def by (metis stm32.select_convs(4) stm32.surjective stm32.update_convs(5))
  then show ?thesis using assms(1,3) by (simp add: gpt_inv_def)
qed

lemma report_inv:
  assumes "gpt_inv bld cs st"
  shows "\<exists>hw. det_report (drv bld) GPT_MODULE_ID a e (chip st) = Some hw \<and> gpt_inv bld cs (st\<lparr>chip := hw\<rparr>)"
proof -
  have "hw_wf (drv bld) (chip st)" using assms by (simp add: gpt_inv_def)
  then show ?thesis using det_report_total [of "drv bld" "chip st" GPT_MODULE_ID a e] inv_report [OF assms] by blast
qed

lemmas gpt_validate_defs = GPT_VALIDATE_def VALIDATE_W_RV_def

lemma validate_pass [simp]:
  "GPT_VALIDATE bld (Some True) a e rest st = rest st"
  "VALIDATE_W_RV bld (Some True) a e rv rest2 st = rest2 st"
  by (simp_all add: gpt_validate_defs)

definition good :: "Gpt_build \<Rightarrow> Gpt_ConfigType list \<Rightarrow> gpt ub \<Rightarrow> bool" where
  "good bld cs r \<longleftrightarrow> (\<exists>st'. r = Some st' \<and> gpt_inv bld cs st')"

lemma good_validate:
  assumes "DEV_ERROR_DETECT (drv bld)" and "gpt_inv bld cs st" and "ex = Some b" and "b \<Longrightarrow> good bld cs (rest st)"
  shows "good bld cs (GPT_VALIDATE bld ex a e rest st)"
proof (cases b)
  case False
  then show ?thesis using assms(1,3) report_inv [OF assms(2), of a e] by (auto simp: gpt_validate_defs good_def)
qed (use assms in simp)

lemma good_validate_rv:
  assumes "DEV_ERROR_DETECT (drv bld)" and "gpt_inv bld cs st" and "ex = Some b"
    and "b \<Longrightarrow> good bld cs (map_option snd (rest st))"
  shows "good bld cs (map_option snd (VALIDATE_W_RV bld ex a e rv rest st))"
proof (cases b)
  case False
  then show ?thesis using assms(1,3) report_inv [OF assms(2), of a e] by (auto simp: gpt_validate_defs good_def)
qed (use assms in simp)

lemma valid_channel_total:
  assumes "gpt_config_ok cs" and "gpt_inv bld cs st" and "unat ch < 32"
  shows "VALID_CHANNEL st ch = Some (initRun (Gpt_Global st) \<and> unat ch \<in> set (gpt_ids cs))"
  using assms by (simp add: VALID_CHANNEL_eq gpt_inv_def)

text \<open>Every channel function starts with the same two checks.\<close>

lemma good_channel_op:
  assumes "DEV_ERROR_DETECT (drv bld)" and "gpt_config_ok cs" and "gpt_inv bld cs st" and "unat ch < 32"
    and "active_channel bld cs st ch \<Longrightarrow> good bld cs (rest st)"
  shows "good bld cs (GPT_VALIDATE bld (Some (initRun (Gpt_Global st))) a e
    (\<lambda>st. GPT_VALIDATE bld (VALID_CHANNEL st ch) a2 e2 rest st) st)"
  using assms
  by (intro good_validate [OF assms(1,3) refl] good_validate [OF assms(1,3) valid_channel_total [OF assms(2-4)]])
     (simp add: active_channel_def)

lemma good_channel_op_rv:
  assumes "DEV_ERROR_DETECT (drv bld)" and "gpt_config_ok cs" and "gpt_inv bld cs st" and "unat ch < 32"
    and "active_channel bld cs st ch \<Longrightarrow> good bld cs (map_option snd (rest st))"
  shows "good bld cs (map_option snd (VALIDATE_W_RV bld (Some (initRun (Gpt_Global st))) a e rv
    (\<lambda>st. VALIDATE_W_RV bld (VALID_CHANNEL st ch) a2 e2 rv rest st) st))"
  using assms
  by (intro good_validate_rv [OF assms(1,3) refl] good_validate_rv [OF assms(1,3) valid_channel_total [OF assms(2-4)]])
     (simp add: active_channel_def)

section \<open>The effect of the channel functions\<close>

lemma enable_effect:
  assumes "active_channel bld cs st ch"
  shows "Gpt_EnableNotification bld ch st = Some (st\<lparr>chip := (chip st)\<lparr>tim := (tim (chip st))
    [unat ch := (tim (chip st) ! unat ch)\<lparr>DIER := DIER (tim (chip st) ! unat ch) OR TIM_DIER_UIE\<rparr>]\<rparr>\<rparr>)"
  using active_facts(1-5) [OF assms] by (simp add: Gpt_EnableNotification_def upd_tim_eq [where b = "drv bld"])

lemma disable_effect:
  assumes "active_channel bld cs st ch"
  shows "Gpt_DisableNotification bld ch st = Some (st\<lparr>chip := (chip st)\<lparr>tim := (tim (chip st))
    [unat ch := (tim (chip st) ! unat ch)\<lparr>DIER := DIER (tim (chip st) ! unat ch) AND NOT TIM_DIER_UIE\<rparr>]\<rparr>\<rparr>)"
  using active_facts(1-5) [OF assms] by (simp add: Gpt_DisableNotification_def upd_tim_eq [where b = "drv bld"])

lemma active_upd_tim:
  assumes "active_channel bld cs st ch" and "bit (CR1 t) 0 = counting st (unat ch)"
  shows "active_channel bld cs (st\<lparr>chip := (chip st)\<lparr>tim := (tim (chip st))[unat ch := t]\<rparr>\<rparr>) ch"
  using assms inv_upd_tim [of bld cs st "unat ch" t] active_facts(1) [OF assms(1)] by (simp add: active_channel_def)

text \<open>The driver state does not matter for the check of a channel, only the bit field does.\<close>

lemma enable_any:
  assumes "active_channel bld cs st ch"
  shows "Gpt_EnableNotification bld ch (st\<lparr>chip := (chip st)\<lparr>tim := (tim (chip st))[unat ch := t]\<rparr>\<rparr>) =
    Some (st\<lparr>chip := (chip st)\<lparr>tim := (tim (chip st))[unat ch := t\<lparr>DIER := DIER t OR TIM_DIER_UIE\<rparr>]\<rparr>\<rparr>)"
  using active_facts(1-5) [OF assms]
  by (simp add: Gpt_EnableNotification_def VALID_CHANNEL_def upd_tim_eq [where b = "drv bld"] hw_wf_def)

lemma disable_any:
  assumes "active_channel bld cs st ch"
  shows "Gpt_DisableNotification bld ch (st\<lparr>chip := (chip st)\<lparr>tim := (tim (chip st))[unat ch := t]\<rparr>\<rparr>) =
    Some (st\<lparr>chip := (chip st)\<lparr>tim := (tim (chip st))[unat ch := t\<lparr>DIER := DIER t AND NOT TIM_DIER_UIE\<rparr>]\<rparr>\<rparr>)"
  using active_facts(1-5) [OF assms]
  by (simp add: Gpt_DisableNotification_def VALID_CHANNEL_def upd_tim_eq [where b = "drv bld"] hw_wf_def)

definition started_regs :: "Gpt_build \<Rightarrow> uint32 \<Rightarrow> uint32 \<Rightarrow> TIM_TypeDef \<Rightarrow> TIM_TypeDef" where
  "started_regs bld p prescale t =
     (let t = start_regs p prescale t
      in if ENABLE_DISABLE_NOTIFICATION_API bld then t\<lparr>DIER := DIER t OR TIM_DIER_UIE\<rparr> else t)"

definition stopped_regs :: "Gpt_build \<Rightarrow> TIM_TypeDef \<Rightarrow> TIM_TypeDef" where
  "stopped_regs bld t =
     (let t = t\<lparr>CR1 := CR1 t AND NOT TIM_CR1_CEN, SR := SR t AND NOT TIM_SR_UIF\<rparr>
      in if ENABLE_DISABLE_NOTIFICATION_API bld then t\<lparr>DIER := DIER t AND NOT TIM_DIER_UIE\<rparr> else t)"

definition stopped_unit :: "Gpt_UnitType \<Rightarrow> Gpt_UnitType" where
  "stopped_unit u =
     \<lparr>state = GPT_STATE_STOPPED, expiredWhenStopped = (state u = GPT_STATE_EXPIRED \<or> expiredWhenStopped u)\<rparr>"

text \<open>The configuration entry of a channel.\<close>

definition channel_config :: "Gpt_ConfigType list \<Rightarrow> uint8 \<Rightarrow> Gpt_ConfigType" where
  "channel_config cs ch = the (find (\<lambda>c. GptChannelId c = ch) (entries cs))"

lemma distinct_ids_inj:
  "distinct (gpt_ids cs) \<Longrightarrow> c \<in> set (entries cs) \<Longrightarrow> d \<in> set (entries cs) \<Longrightarrow>
     GptChannelId c = GptChannelId d \<Longrightarrow> c = d"
  by (simp add: gpt_ids_def distinct_map inj_on_def)

lemma channel_config_eq:
  assumes "gpt_config_ok cs" and "c \<in> set (entries cs)" and "unat (GptChannelId c) = unat ch"
  shows "channel_config cs ch = c"
proof -
  have ch: "GptChannelId c = ch" using assms(3) by (simp add: word_unat_eq_iff)
  then have "find (\<lambda>c. GptChannelId c = ch) (entries cs) \<noteq> None" using assms(2) by (auto simp: find_None_iff)
  then obtain d where d: "find (\<lambda>c. GptChannelId c = ch) (entries cs) = Some d" by blast
  then have "d \<in> set (entries cs)" "GptChannelId d = ch" by (auto simp: find_Some_iff in_set_conv_nth)
  then have "d = c" using distinct_ids_inj [of cs d c] assms(1,2) ch by (simp add: gpt_config_ok_def)
  then show ?thesis using d by (simp add: channel_config_def)
qed

lemma channel_map_entry:
  assumes "active_channel bld cs st ch"
  obtains k where "rd (channelMap (Gpt_Global st)) (unat ch) = Some k" "k \<noteq> GPT_CHANNEL_ILL"
    "get_config st k = Some (channel_config cs ch)" "GptNotification (channel_config cs ch) \<noteq> None"
  using active_facts(7) [OF assms] channel_config_eq [of cs _ ch] assms by (auto simp: active_channel_def)

lemma unit_set: "u\<lparr>state := s, expiredWhenStopped := b\<rparr> = \<lparr>state = s, expiredWhenStopped = b\<rparr>" for u :: Gpt_UnitType
  by (cases u) simp

lemma start_effect:
  assumes "active_channel bld cs st ch" and "p \<noteq> 0" and "\<not> started st (unat ch)"
  shows "Gpt_StartTimer bld ch p st = Some (upd_channel (unat ch)
    (started_regs bld p (GptChannelPrescale (channel_config cs ch)) (tim (chip st) ! unat ch))
    \<lparr>state = GPT_STATE_STARTED, expiredWhenStopped = False\<rparr> st)"
proof -
  obtain k where k: "rd (channelMap (Gpt_Global st)) (unat ch) = Some k"
    "get_config st k = Some (channel_config cs ch)" "GptNotification (channel_config cs ch) \<noteq> None"
    by (rule channel_map_entry [OF assms(1)])
  have "get_config (st\<lparr>chip := hw\<rparr>) k = get_config st k" for hw by (simp add: get_config_def)
  then show ?thesis
    using active_facts(1-6) [OF assms(1)] k assms(2,3)
    by (simp add: Gpt_StartTimer_def upd_tim_eq [where b = "drv bld"] upd_unit_eq enable_any [OF assms(1)]
        started_regs_def Let_def unit_set)
qed

lemma stop_effect:
  assumes "active_channel bld cs st ch"
  shows "Gpt_StopTimer bld ch st = Some (upd_channel (unat ch)
    (stopped_regs bld (tim (chip st) ! unat ch)) (stopped_unit (Gpt_Unit st ! unat ch)) st)"
proof -
  have "(if state u = GPT_STATE_EXPIRED then u\<lparr>expiredWhenStopped := True\<rparr> else u)\<lparr>state := GPT_STATE_STOPPED\<rparr> =
    stopped_unit u" for u :: Gpt_UnitType by (simp add: stopped_unit_def)
  then show ?thesis
    using active_facts(1-6) [OF assms]
    by (simp add: Gpt_StopTimer_def upd_tim_eq [where b = "drv bld"] upd_unit_eq disable_any [OF assms]
        stopped_regs_def Let_def)
qed

lemma cen_bits:
  "bit (CR1 (started_regs bld p ps t)) 0" "\<not> bit (CR1 (stopped_regs bld t)) 0"
  by (simp_all add: started_regs_def stopped_regs_def start_regs_def Let_def bit_simps)

lemma find_upt: "n < m \<Longrightarrow> (\<And>i. i < n \<Longrightarrow> \<not> P i) \<Longrightarrow> P n \<Longrightarrow> find P [0..<m] = Some n"
  by (auto simp: find_Some_iff)

section \<open>The interrupt routine\<close>

lemma and_1_eq: "x AND 1 = 1 \<longleftrightarrow> bit x 0" for x :: uint16
  by (simp add: and_one_eq bit_0 odd_iff_mod_2_eq_one)

abbreviation isr_ready :: "gpt \<Rightarrow> nat \<Rightarrow> bool" where
  "isr_ready st i \<equiv> bit (SR (tim (chip st) ! i)) 0 \<and> counting st i"

lemma isr_search_eq:
  assumes "hw_wf b (chip st)" and "\<forall>i \<in> set is. i < 7"
  shows "isr_search is st = Some (find (isr_ready st) is)"
  using assms(2)
proof (induction "is")
  case (Cons i "is")
  then have "unat (of_nat i :: uint8) = i" by (intro unat_of_nat_small) simp
  then have "isr_pending i st = Some (isr_ready st i)"
    using Cons.prems by (simp add: isr_pending_def get_tim_eq [OF assms(1)] and_1_eq)
  then show ?case using Cons by simp
qed simp

definition isr_regs :: "Gpt_ConfigType \<Rightarrow> TIM_TypeDef \<Rightarrow> TIM_TypeDef" where
  "isr_regs c t =
     (if GptChannelMode c = GPT_CH_MODE_ONESHOT then t\<lparr>CR1 := CR1 t AND NOT TIM_CR1_CEN, SR := SR t AND NOT TIM_SR_UIF\<rparr>
      else t\<lparr>SR := SR t AND NOT TIM_SR_UIF\<rparr>)"

definition isr_unit :: "Gpt_ConfigType \<Rightarrow> Gpt_UnitType \<Rightarrow> Gpt_UnitType" where
  "isr_unit c u = (if GptChannelMode c = GPT_CH_MODE_ONESHOT then u\<lparr>state := GPT_STATE_EXPIRED\<rparr> else u)"

lemma isr_channel_effect:
  assumes "active_channel bld cs st ch"
  shows "Gpt_IsrCh ch st = Some ((upd_channel (unat ch)
      (isr_regs (channel_config cs ch) (tim (chip st) ! unat ch)) (isr_unit (channel_config cs ch) (Gpt_Unit st ! unat ch)) st)
      \<lparr>notified := notified st @ [the (GptNotification (channel_config cs ch))]\<rparr>)"
proof -
  obtain k where k: "rd (channelMap (Gpt_Global st)) (unat ch) = Some k" "k \<noteq> GPT_CHANNEL_ILL"
    "get_config st k = Some (channel_config cs ch)" "GptNotification (channel_config cs ch) \<noteq> None"
    by (rule channel_map_entry [OF assms])
  then obtain f where f: "GptNotification (channel_config cs ch) = Some f" by blast
  let ?t = "\<lambda>st. (chip st)\<lparr>tim := (tim (chip st))[unat ch := (tim (chip st) ! unat ch)
    \<lparr>CR1 := CR1 (tim (chip st) ! unat ch) AND NOT TIM_CR1_CEN\<rparr>]\<rparr>"
  have tim: "upd_tim ch g st = Some (st\<lparr>chip := (chip st)\<lparr>tim := (tim (chip st))[unat ch := g (tim (chip st) ! unat ch)]\<rparr>\<rparr>)"
    if "hw_wf (drv bld) (chip st)" for g st
    using upd_tim_eq [OF that] active_facts(1) [OF assms] by simp
  show ?thesis
    using active_facts(1-3) [OF assms] k f
    by (cases "GptChannelMode (channel_config cs ch)"; cases st)
       (simp_all add: Gpt_IsrCh_def tim upd_unit_eq deref_def isr_regs_def isr_unit_def hw_wf_def)
qed

lemma isr_dispatch:
  assumes "gpt_config_ok cs" and "gpt_inv bld cs st"
  shows "Gpt_Isr st = (case find (isr_ready st) [0..<4] of None \<Rightarrow> Some st | Some i \<Rightarrow> Gpt_IsrCh (of_nat i) st)"
  using isr_search_eq [of "drv bld" st "[0..<4]"] assms(2) by (simp add: Gpt_Isr_def gpt_inv_def)

lemma isr_ready_active:
  assumes "gpt_config_ok cs" and "gpt_inv bld cs st" and "find (isr_ready st) [0..<4] = Some i"
  shows "active_channel bld cs st (of_nat i)" "unat (of_nat i :: uint8) = i" "i < 4"
proof -
  show i: "i < 4" using assms(3) by (auto simp: find_Some_iff)
  then show u: "unat (of_nat i :: uint8) = i" by (intro unat_of_nat_small) simp
  have "counting st i" using assms(3) by (auto simp: find_Some_iff)
  then show "active_channel bld cs st (of_nat i)" using assms(1,2) i u by (auto simp: active_channel_def gpt_inv_def)
qed

lemma inv_notified [simp]: "gpt_inv bld cs (st\<lparr>notified := ns\<rparr>) = gpt_inv bld cs st"
  by (simp add: gpt_inv_def)

lemma good_Isr:
  assumes "gpt_config_ok cs" and "gpt_inv bld cs st"
  shows "good bld cs (Gpt_Isr st)"
proof (cases "find (isr_ready st) [0..<4]")
  case None
  then show ?thesis using assms by (simp add: isr_dispatch [OF assms] good_def)
next
  case (Some i)
  note act = isr_ready_active [OF assms Some]
  let ?c = "channel_config cs (of_nat i)"
  have "gpt_inv bld cs (upd_channel i (isr_regs ?c (tim (chip st) ! i)) (isr_unit ?c (Gpt_Unit st ! i)) st)"
    using act assms(2)
    by (intro inv_upd_channel [OF assms(2)])
       (auto simp: isr_regs_def isr_unit_def gpt_inv_def active_channel_def bit_simps)
  then show ?thesis
    using Some isr_channel_effect [OF act(1)] act(2) by (simp add: isr_dispatch [OF assms] good_def)
qed

section \<open>Initialisation\<close>

text \<open>The state after \<open>i\<close> rounds of the loop of \<^verbatim>\<open>Gpt_Init\<close>.\<close>

definition init_upto :: "Gpt_ConfigType list \<Rightarrow> gpt \<Rightarrow> nat \<Rightarrow> gpt \<Rightarrow> bool" where
  "init_upto cs st0 i st \<longleftrightarrow>
     length (channelMap (Gpt_Global st)) = 4 \<and> length (Gpt_Unit st) = 4 \<and> chip st = chip st0 \<and>
     (\<forall>j < i. channelMap (Gpt_Global st) ! (gpt_ids cs ! j) = of_nat j) \<and>
     (\<forall>ch < 4. ch \<notin> set (take i (gpt_ids cs)) \<longrightarrow> channelMap (Gpt_Global st) ! ch = GPT_CHANNEL_ILL) \<and>
     (\<forall>n < 32. bit (configured (Gpt_Global st)) n \<longleftrightarrow> n \<in> set (take i (gpt_ids cs))) \<and>
     (\<forall>ch < 4. \<not> started st ch)"

lemma init_loop_total:
  assumes "gpt_config_ok cs" and "i \<le> length (entries cs)" and "init_upto cs st0 i st"
  shows "\<exists>st'. gpt_init_loop i (drop i cs) st = Some st' \<and> init_upto cs st0 (length (entries cs)) st'"
  using assms(2,3)
proof (induction "length (entries cs) - i" arbitrary: i st)
  case 0
  then have i: "i = length (entries cs)" by simp
  moreover have "i < length cs" using assms(1) i by (simp add: gpt_config_ok_def)
  moreover have "GptChannelId (cs ! i) = GPT_CHANNEL_ILL"
    using nth_length_takeWhile [of "\<lambda>c. GptChannelId c \<noteq> GPT_CHANNEL_ILL" cs] calculation by (simp add: entries_def)
  ultimately show ?case using 0 by (simp add: Cons_nth_drop_Suc [symmetric])
next
  case (Suc d)
  let ?ids = "gpt_ids cs" and ?c = "cs ! i" and ?ch = "gpt_ids cs ! i"
  have i: "i < length (entries cs)" and d: "d = length (entries cs) - Suc i" using Suc.hyps(2) by simp_all
  have ic: "i < length cs" using i length_entries [of cs] by simp
  have mem: "?c \<in> set (entries cs)" using i entries_nth nth_mem by metis
  then have ill: "GptChannelId ?c \<noteq> GPT_CHANNEL_ILL" by (auto simp: entries_def dest: set_takeWhileD)
  have ch: "unat (GptChannelId ?c) = ?ch" "?ch < 4" "i < 4"
    using i entries_nth [OF i] gpt_config_small(1) [OF assms(1)] gpt_config_small(2) [OF assms(1) i]
    by (simp_all add: gpt_ids_def)
  have new: "?ch \<notin> set (take i ?ids)" and tk: "take (Suc i) ?ids = take i ?ids @ [?ch]"
    using assms(1) i by (auto simp: gpt_config_ok_def in_set_conv_nth nth_eq_iff_index_eq take_Suc_conv_app_nth)
  have neq: "?ch \<noteq> ?ids ! j" if "j < i" for j using that new i by (auto simp: in_set_conv_nth)
  let ?g = "(Gpt_Global st)\<lparr>channelMap := (channelMap (Gpt_Global st))[?ch := of_nat i],
     configured := configured (Gpt_Global st) OR push_bit ?ch 1\<rparr>"
  let ?st = "st\<lparr>Gpt_Global := ?g, isr_installed := isr_installed st @ (if GptNotification ?c \<noteq> None then [?ch] else []),
     Gpt_Unit := (Gpt_Unit st)[i := \<lparr>state = GPT_STATE_INITIALIZED, expiredWhenStopped = False\<rparr>]\<rparr>"
  have "gpt_init_loop i (drop i cs) st = gpt_init_loop (Suc i) (drop (Suc i) cs) ?st"
    using Suc.prems(2) ch ill ic
    by (cases st) (simp add: Cons_nth_drop_Suc [symmetric] init_upto_def ub_simps shl32_def upd_unit_eq unit_set Let_def)
  moreover have "init_upto cs st0 (Suc i) ?st"
    using Suc.prems(2) ch neq new
    by (auto simp: init_upto_def tk less_Suc_eq nth_list_update bit_or_iff bit_exp_iff)
  ultimately show ?case using Suc.hyps(1) [OF d, of ?st] i by simp
qed

lemma init_upto_inv:
  assumes "gpt_config_ok cs" and "gpt_inv bld cs st0" and "\<not> initRun (Gpt_Global st0)"
    and "init_upto cs st0 (length (entries cs)) st"
  shows "gpt_inv bld cs (st\<lparr>Gpt_Global := (Gpt_Global st)\<lparr>config := Some cs, initRun := True\<rparr>\<rparr>)"
proof -
  let ?cm = "channelMap (Gpt_Global st)"
  have "map_entry_ok cs ?cm ch" if "ch < 4" for ch
  proof (cases "ch \<in> set (gpt_ids cs)")
    case True
    then obtain j where j: "j < length (entries cs)" "gpt_ids cs ! j = ch" by (auto simp: in_set_conv_nth)
    then have "?cm ! ch = of_nat j" using assms(4) by (auto simp: init_upto_def)
    moreover have "unat (of_nat j :: uint8) = j"
      using gpt_config_small(1) [OF assms(1)] j(1) by (intro unat_of_nat_small) simp
    ultimately show ?thesis using True j by (auto simp: map_entry_ok_def gpt_ids_def entries_nth)
  qed (use that assms(4) in \<open>simp add: map_entry_ok_def init_upto_def\<close>)
  then show ?thesis using assms(2-4) by (simp add: gpt_inv_def init_upto_def)
qed

lemma init_start:
  assumes "gpt_inv bld cs st" and "\<not> initRun (Gpt_Global st)"
  shows "init_upto cs st 0 (st\<lparr>Gpt_Global := (Gpt_Global st)\<lparr>channelMap := replicate 4 GPT_CHANNEL_ILL\<rparr>\<rparr>)"
  using assms by (auto simp: init_upto_def gpt_inv_def)

lemma init_effect:
  assumes "gpt_config_ok cs" and "gpt_inv bld cs st" and "\<not> initRun (Gpt_Global st)"
  shows "\<exists>st'. Gpt_Init bld (Some cs) st = Some st' \<and> gpt_inv bld cs st' \<and> initRun (Gpt_Global st')"
  using init_loop_total [OF assms(1) _ init_start [OF assms(2,3)]] init_upto_inv [OF assms] assms(3)
  by (fastforce simp: Gpt_Init_def deref_def)

section \<open>All calls\<close>

text \<open>
  The calls of the application and the interrupt, and the hardware in between: a timer may count
  and set its flags at any time.
\<close>

datatype gpt_op =
  GInit | GDeInit | GStartTimer uint8 uint32 | GStopTimer uint8 | GGetTimeRemaining uint8 | GGetTimeElapsed uint8
| GEnableNotification uint8 | GDisableNotification uint8 | GSetMode Gpt_ModeType | GEnableWakeup uint8
| GDisableWakeup uint8 | GIsr | GHardware nat uint16 uint16

definition hardware :: "nat \<Rightarrow> uint16 \<Rightarrow> uint16 \<Rightarrow> gpt \<Rightarrow> gpt" where
  "hardware ch sr cnt st =
     st\<lparr>chip := (chip st)\<lparr>tim := (tim (chip st))[ch := (tim (chip st) ! ch)\<lparr>SR := sr, CNT := cnt\<rparr>]\<rparr>\<rparr>"

fun gpt_step :: "Gpt_build \<Rightarrow> Gpt_ConfigType list \<Rightarrow> gpt_op \<Rightarrow> gpt \<Rightarrow> gpt ub" where
  "gpt_step bld cs GInit st = Gpt_Init bld (Some cs) st"
| "gpt_step bld cs GDeInit st = Gpt_DeInit bld st"
| "gpt_step bld cs (GStartTimer ch p) st = Gpt_StartTimer bld ch p st"
| "gpt_step bld cs (GStopTimer ch) st = Gpt_StopTimer bld ch st"
| "gpt_step bld cs (GGetTimeRemaining ch) st = map_option snd (Gpt_GetTimeRemaining bld ch st)"
| "gpt_step bld cs (GGetTimeElapsed ch) st = map_option snd (Gpt_GetTimeElapsed bld ch st)"
| "gpt_step bld cs (GEnableNotification ch) st = Gpt_EnableNotification bld ch st"
| "gpt_step bld cs (GDisableNotification ch) st = Gpt_DisableNotification bld ch st"
| "gpt_step bld cs (GSetMode md) st = Gpt_SetMode bld md st"
| "gpt_step bld cs (GEnableWakeup ch) st = Gpt_EnableWakeup bld ch st"
| "gpt_step bld cs (GDisableWakeup ch) st = Gpt_DisableWakeup bld ch st"
| "gpt_step bld cs GIsr st = Gpt_Isr st"
| "gpt_step bld cs (GHardware ch sr cnt) st = Some (hardware ch sr cnt st)"

text \<open>A channel of 32 or more shifts out of the word in the channel check.\<close>

fun gpt_op_ok :: "gpt_op \<Rightarrow> bool" where
  "gpt_op_ok (GStartTimer ch p) \<longleftrightarrow> unat ch < 32"
| "gpt_op_ok (GStopTimer ch) \<longleftrightarrow> unat ch < 32"
| "gpt_op_ok (GGetTimeRemaining ch) \<longleftrightarrow> unat ch < 32"
| "gpt_op_ok (GGetTimeElapsed ch) \<longleftrightarrow> unat ch < 32"
| "gpt_op_ok (GEnableNotification ch) \<longleftrightarrow> unat ch < 32"
| "gpt_op_ok (GDisableNotification ch) \<longleftrightarrow> unat ch < 32"
| "gpt_op_ok (GEnableWakeup ch) \<longleftrightarrow> unat ch < 32"
| "gpt_op_ok (GDisableWakeup ch) \<longleftrightarrow> unat ch < 32"
| "gpt_op_ok _ \<longleftrightarrow> True"

lemma good_start:
  assumes "DEV_ERROR_DETECT (drv bld)" and "gpt_config_ok cs" and "gpt_inv bld cs st" and "unat ch < 32"
  shows "good bld cs (Gpt_StartTimer bld ch p st)"
proof (cases "active_channel bld cs st ch \<and> p \<noteq> 0 \<and> \<not> started st (unat ch)")
  case True
  then show ?thesis
    using start_effect [of bld cs st ch p] active_facts(1) [of bld cs st ch]
    by (auto simp: good_def cen_bits active_channel_def intro: inv_upd_channel)
next
  case False
  show ?thesis unfolding Gpt_StartTimer_def
  proof (rule good_channel_op [OF assms])
    assume act: "active_channel bld cs st ch"
    note unit = active_facts(6) [OF act]
    show "good bld cs (GPT_VALIDATE bld (Some (p \<noteq> 0)) GPT_STARTTIMER_SERVICE_ID GPT_E_PARAM_VALUE (\<lambda>st.
      GPT_VALIDATE bld (do { u \<leftarrow> rd (Gpt_Unit st) (unat ch); Some (state u \<noteq> GPT_STATE_STARTED) })
       GPT_STARTTIMER_SERVICE_ID GPT_E_BUSY (\<lambda>st. do {
       confCh \<leftarrow> rd (channelMap (Gpt_Global st)) (unat ch);
       st \<leftarrow> (if unat ch \<le> GPT_CHANNEL_CNT then do {
               cfg \<leftarrow> get_config st confCh;
               upd_tim ch (start_regs p (GptChannelPrescale cfg)) st }
             else Some st);
       st \<leftarrow> (if ENABLE_DISABLE_NOTIFICATION_API bld then do {
               cfg \<leftarrow> get_config st confCh;
               if GptNotification cfg \<noteq> None then Gpt_EnableNotification bld ch st else Some st }
             else Some st);
       upd_unit (unat ch) (\<lambda>u. u\<lparr>state := GPT_STATE_STARTED, expiredWhenStopped := False\<rparr>) st }) st) st)"
      using False act unit
      by (intro good_validate [OF assms(1,3) refl] good_validate [OF assms(1,3), where b = "\<not> started st (unat ch)"]) auto
  qed
qed

lemma good_stop:
  assumes "DEV_ERROR_DETECT (drv bld)" and "gpt_config_ok cs" and "gpt_inv bld cs st" and "unat ch < 32"
  shows "good bld cs (Gpt_StopTimer bld ch st)"
proof (cases "active_channel bld cs st ch")
  case True
  then show ?thesis
    using stop_effect [OF True] active_facts(1) [OF True]
    by (auto simp: good_def cen_bits active_channel_def stopped_unit_def intro: inv_upd_channel)
next
  case False
  then show ?thesis unfolding Gpt_StopTimer_def by (intro good_channel_op [OF assms]) simp
qed

lemma good_notification:
  assumes "DEV_ERROR_DETECT (drv bld)" and "gpt_config_ok cs" and "gpt_inv bld cs st" and "unat ch < 32"
  shows "good bld cs (Gpt_EnableNotification bld ch st)" "good bld cs (Gpt_DisableNotification bld ch st)"
proof -
  have "good bld cs (Gpt_EnableNotification bld ch st) \<and> good bld cs (Gpt_DisableNotification bld ch st)"
  proof (cases "active_channel bld cs st ch")
    case True
    then show ?thesis
      using enable_effect [OF True] disable_effect [OF True] active_facts(1) [OF True]
      by (auto simp: good_def intro: inv_upd_tim [OF assms(3)])
  next
    case False
    then show ?thesis unfolding Gpt_EnableNotification_def Gpt_DisableNotification_def
      by (intro conjI good_channel_op [OF assms]) simp_all
  qed
  then show "good bld cs (Gpt_EnableNotification bld ch st)" "good bld cs (Gpt_DisableNotification bld ch st)" by simp_all
qed

lemma good_get:
  assumes "DEV_ERROR_DETECT (drv bld)" and "gpt_config_ok cs" and "gpt_inv bld cs st" and "unat ch < 32"
  shows "good bld cs (map_option snd (Gpt_GetTimeRemaining bld ch st))"
    "good bld cs (map_option snd (Gpt_GetTimeElapsed bld ch st))"
proof -
  note facts = active_facts(1,2,6)
  show "good bld cs (map_option snd (Gpt_GetTimeRemaining bld ch st))"
    unfolding Gpt_GetTimeRemaining_def
  proof (rule good_channel_op_rv [OF assms])
    assume act: "active_channel bld cs st ch"
    show "good bld cs (map_option snd (do {
       u \<leftarrow> rd (Gpt_Unit st) (unat ch);
       if state u = GPT_STATE_INITIALIZED \<or> state u = GPT_STATE_EXPIRED \<or>
          (state u = GPT_STATE_STOPPED \<and> expiredWhenStopped u)
       then Some (0, st)
       else if unat ch \<le> GPT_CHANNEL_CNT then do {
         t \<leftarrow> get_tim ch st;
         Some (reg32 (CNT t) (RESERVED9 t), st) }
       else Some (0, st) }))"
      using facts [OF act] assms(3) by (simp add: good_def get_tim_eq)
  qed
  show "good bld cs (map_option snd (Gpt_GetTimeElapsed bld ch st))"
    unfolding Gpt_GetTimeElapsed_def
  proof (rule good_channel_op_rv [OF assms])
    assume act: "active_channel bld cs st ch"
    show "good bld cs (map_option snd (do {
       u \<leftarrow> rd (Gpt_Unit st) (unat ch);
       if state u = GPT_STATE_INITIALIZED then Some (0, st)
       else if state u = GPT_STATE_EXPIRED \<or> (state u = GPT_STATE_STOPPED \<and> expiredWhenStopped u) then do {
         t \<leftarrow> get_tim ch st;
         Some (ucast (ARR t), st) }
       else if unat ch \<le> GPT_CHANNEL_CNT then do {
         t \<leftarrow> get_tim ch st;
         Some (reg32 (ARR t) (RESERVED11 t) - reg32 (CNT t) (RESERVED9 t), st) }
       else Some (0, st) }))"
      using facts [OF act] assms(3) by (simp add: good_def get_tim_eq)
  qed
qed

lemma good_wakeup:
  assumes "DEV_ERROR_DETECT (drv bld)" and "gpt_config_ok cs" and "gpt_inv bld cs st" and "unat ch < 32"
  shows "good bld cs (Gpt_EnableWakeup bld ch st)" "good bld cs (Gpt_DisableWakeup bld ch st)"
  unfolding Gpt_EnableWakeup_def Gpt_DisableWakeup_def
  by (intro good_channel_op [OF assms]; use assms(3) in \<open>simp add: good_def gpt_inv_def\<close>)+

lemma good_stops:
  assumes "DEV_ERROR_DETECT (drv bld)" and "gpt_config_ok cs" and "gpt_inv bld cs st" and "\<forall>i \<in> set is. i < 32"
  shows "good bld cs (for_each (\<lambda>i. Gpt_StopTimer bld (of_nat i)) is st)"
  unfolding good_def
proof (rule for_each_inv)
  show "gpt_inv bld cs st" by (rule assms(3))
  show "\<exists>s'. Gpt_StopTimer bld (of_nat i) s = Some s' \<and> gpt_inv bld cs s'" if "i \<in> set is" "gpt_inv bld cs s" for i s
  proof -
    have "unat (of_nat i :: uint8) = i" using that(1) assms(4) by (intro unat_of_nat_small) auto
    then show ?thesis using good_stop [OF assms(1,2) that(2), of "of_nat i"] that(1) assms(4) by (simp add: good_def)
  qed
qed

lemma gpt_good_SetMode:
  assumes "DEV_ERROR_DETECT (drv bld)" and "gpt_config_ok cs" and "gpt_inv bld cs st"
  shows "good bld cs (Gpt_SetMode bld md st)"
  unfolding Gpt_SetMode_def
  by (intro good_validate [OF assms(1,3) refl]) (use assms good_stops [OF assms, of "[0..<5]"] in \<open>simp add: good_def\<close>)

text \<open>Stopping a channel that is not configured only reports.\<close>

lemma stop_inactive:
  assumes "DEV_ERROR_DETECT (drv bld)" and "gpt_config_ok cs" and "gpt_inv bld cs st" and "unat ch < 32"
    and "\<not> active_channel bld cs st ch" and "Gpt_StopTimer bld ch st = Some st'"
  shows "Gpt_Unit st' = Gpt_Unit st"
  using assms valid_channel_total [OF assms(2-4)]
  by (auto simp: Gpt_StopTimer_def GPT_VALIDATE_def active_channel_def Option.bind_eq_Some_conv split: if_splits)

text \<open>
  The loop of \<^verbatim>\<open>Gpt_DeInit\<close> keeps the invariant; at its end no channel is started, so that the
  driver can forget its configuration.
\<close>

lemma good_deinit_loop:
  assumes "DEV_ERROR_DETECT (drv bld)" and "gpt_config_ok cs" and "gpt_inv bld cs st" and "k \<le> 4"
    and "\<forall>ch < k. \<not> started st ch"
  shows "good bld cs (deinit_loop bld [k..<4] st)"
  using assms(3-5)
proof (induction "4 - k" arbitrary: k st)
  case 0
  then have "\<forall>ch < 4. \<not> started st ch" by simp
  then show ?case using 0 by (auto simp: good_def gpt_inv_def)
next
  case (Suc d)
  have k: "k < 4" and d: "d = 4 - Suc k" using Suc.hyps(2) by simp_all
  have u: "unat (of_nat k :: uint8) = k" using k by (intro unat_of_nat_small) simp
  have unit: "rd (Gpt_Unit st) k = Some (Gpt_Unit st ! k)" using Suc.prems(1) k by (simp add: gpt_inv_def ub_simps)
  obtain st1 where st1: "Gpt_StopTimer bld (of_nat k) st = Some st1" "gpt_inv bld cs st1"
    using good_stop [OF assms(1,2) Suc.prems(1), of "of_nat k"] u k by (auto simp: good_def)
  have ns: "\<forall>ch < Suc k. \<not> started st1 ch" if "\<not> started st k"
  proof (cases "active_channel bld cs st (of_nat k)")
    case True
    then show ?thesis using st1(1) stop_effect [OF True] u Suc.prems(3) k that
        active_facts(3) [OF True] by (auto simp: stopped_unit_def nth_list_update less_Suc_eq)
  next
    case False
    then show ?thesis using stop_inactive [OF assms(1,2) Suc.prems(1), of "of_nat k"] st1(1) u k Suc.prems(3) that
      by (auto simp: less_Suc_eq)
  qed
  have "good bld cs (do { st \<leftarrow> Gpt_StopTimer bld (of_nat k) st; deinit_loop bld [Suc k..<4] st })" if "\<not> started st k"
    using Suc.hyps(1) [OF d st1(2) _ ns [OF that]] k st1(1) by simp
  then show ?case
    using k by (simp add: upt_conv_Cons) (rule good_validate [OF assms(1) Suc.prems(1), where b = "\<not> started st k"],
      simp_all add: unit)
qed

lemma gpt_good_DeInit:
  assumes "DEV_ERROR_DETECT (drv bld)" and "gpt_config_ok cs" and "gpt_inv bld cs st"
  shows "good bld cs (Gpt_DeInit bld st)"
  unfolding Gpt_DeInit_def
  by (rule good_validate [OF assms(1,3) refl]) (use good_deinit_loop [OF assms, of 0] in simp)

lemma gpt_good_Init:
  assumes "DEV_ERROR_DETECT (drv bld)" and "gpt_config_ok cs" and "gpt_inv bld cs st"
  shows "good bld cs (Gpt_Init bld (Some cs) st)"
proof (cases "initRun (Gpt_Global st)")
  case True
  then show ?thesis unfolding Gpt_Init_def by (intro good_validate [OF assms(1,3) refl]) simp
next
  case False
  then show ?thesis using init_effect [OF assms(2,3)] by (auto simp: good_def)
qed

lemma good_hardware: "gpt_inv bld cs st \<Longrightarrow> gpt_inv bld cs (hardware ch sr cnt st)"
proof -
  assume inv: "gpt_inv bld cs st"
  then have len: "length (tim (chip st)) = 7" by (simp add: gpt_inv_def hw_wf_def)
  have "CR1 ((tim (chip st))[ch := (tim (chip st) ! ch)\<lparr>SR := sr, CNT := cnt\<rparr>] ! i) = CR1 (tim (chip st) ! i)" if "i < 4" for i
    using that len by (cases "ch < 7") (simp_all add: nth_list_update)
  then show ?thesis using inv by (simp add: gpt_inv_def hardware_def)
qed

lemma gpt_step_inv:
  assumes "DEV_ERROR_DETECT (drv bld)" and "gpt_config_ok cs" and "gpt_inv bld cs st" and "gpt_op_ok op"
  shows "good bld cs (gpt_step bld cs op st)"
  using assms gpt_good_Init [OF assms(1-3)] gpt_good_DeInit [OF assms(1-3)] good_start [OF assms(1-3)] good_stop [OF assms(1-3)]
    good_get [OF assms(1-3)] good_notification [OF assms(1-3)] gpt_good_SetMode [OF assms(1-3)] good_wakeup [OF assms(1-3)]
    good_Isr [OF assms(2,3)] good_hardware [OF assms(3)]
  by (cases op) (simp_all add: good_def)

text \<open>
  C36: With development error detection on and a consistent configuration in which every entry has a
  notification (the interrupt routine calls a NULL one), every sequence of calls of the timer driver, of timer
  interrupts and of changes of the counters and flags by the hardware runs without fault, for
  every channel number below 32, and afterwards a timer counts exactly if its channel is started,
  and only configured channels of an initialised driver are.
\<close>

theorem gpt_calls_safe:
  assumes "DEV_ERROR_DETECT (drv bld)" and "gpt_config_ok cs" and "gpt_inv bld cs st" and "list_all gpt_op_ok ops"
  shows "\<exists>st'. for_each (gpt_step bld cs) ops st = Some st' \<and> gpt_inv bld cs st'"
proof (rule for_each_inv)
  show "gpt_inv bld cs st" by (rule assms(3))
  show "\<exists>s'. gpt_step bld cs op s = Some s' \<and> gpt_inv bld cs s'" if "op \<in> set ops" "gpt_inv bld cs s" for op s
    using gpt_step_inv [OF assms(1,2) that(2), of op] that(1) assms(4) by (simp add: good_def list_all_iff)
qed

text \<open>A configuration with a one-shot timer on channel 2 and a continuous one on channel 0.\<close>

definition gpt_example_config :: "Gpt_ConfigType list" where
  "gpt_example_config =
     [\<lparr>GptChannelId = 2, GptChannelMode = GPT_CH_MODE_ONESHOT, GptNotification = Some 7,
       GptNotificationPriority = 0, GptChannelPrescale = 24\<rparr>,
      \<lparr>GptChannelId = 0, GptChannelMode = GPT_CH_MODE_CONTINUOUS, GptNotification = Some 8,
       GptNotificationPriority = 0, GptChannelPrescale = 9\<rparr>,
      \<lparr>GptChannelId = GPT_CHANNEL_ILL, GptChannelMode = GPT_CH_MODE_ONESHOT, GptNotification = None,
       GptNotificationPriority = 0, GptChannelPrescale = 0\<rparr>]"

definition gpt_example_build :: Gpt_build where
  "gpt_example_build = \<lparr>drv = dev_build, ENABLE_DISABLE_NOTIFICATION_API = True, GPT_CHANNEL_RTI = 9\<rparr>"

definition gpt_reset :: gpt where
  "gpt_reset = \<lparr>
     Gpt_Global = \<lparr>initRun = False, config = None, wakeupEnabled = False, configured = 0, channelMap = [0, 0, 0, 0]\<rparr>,
     Gpt_Unit = replicate 4 \<lparr>state = GPT_STATE_STOPPED, expiredWhenStopped = False\<rparr>,
     chip = hw_reset, isr_installed = [], notified = []\<rparr>"

lemma gpt_example_config_ok: "gpt_config_ok gpt_example_config"
  by (simp add: gpt_config_ok_def gpt_example_config_def entries_def gpt_ids_def)

lemma gpt_reset_inv: "gpt_inv gpt_example_build cs gpt_reset"
  by (simp add: gpt_inv_def gpt_reset_def gpt_example_build_def) (simp add: hw_reset_def tim_reset_def)

theorem gpt_calls_safe_witness:
  "\<exists>st'. for_each (gpt_step gpt_example_build gpt_example_config)
     [GStartTimer 2 100, GInit, GStartTimer 2 100, GStartTimer 2 5, GHardware 2 1 0, GIsr, GGetTimeElapsed 2,
      GStopTimer 9, GSetMode GPT_MODE_SLEEP, GDeInit] gpt_reset = Some st' \<and>
     gpt_inv gpt_example_build gpt_example_config st'"
  by (rule gpt_calls_safe [OF _ gpt_example_config_ok gpt_reset_inv]) (simp_all add: gpt_example_build_def)

text \<open>
  C37: A one-shot timer. Starting a configured channel that is not running, with a period other than 0,
  loads the lower 16 bits of the period into the reload register and lets the timer count. When the hardware then sets its update flag, and no
  lower channel has an interrupt pending, the interrupt routine calls the notification of the
  channel once, stops the timer and clears the flag; the time remaining is then 0 and the time
  elapsed is the period truncated to its lower 16 bits.
\<close>

theorem gpt_oneshot:
  assumes "active_channel bld cs st ch" and "p \<noteq> 0" and "\<not> started st (unat ch)"
    and "GptChannelMode (channel_config cs ch) = GPT_CH_MODE_ONESHOT"
    and "list_all (\<lambda>i. \<not> isr_ready st i) [0..<unat ch]" and "bit sr 0"
  shows "\<exists>st1 st2. Gpt_StartTimer bld ch p st = Some st1 \<and> counting st1 (unat ch) \<and>
    ARR (tim (chip st1) ! unat ch) = ucast p \<and> CNT (tim (chip st1) ! unat ch) = ucast p \<and>
    Gpt_Isr (hardware (unat ch) sr cnt st1) = Some st2 \<and>
    notified st2 = notified st @ [the (GptNotification (channel_config cs ch))] \<and>
    \<not> counting st2 (unat ch) \<and> \<not> bit (SR (tim (chip st2) ! unat ch)) 0 \<and>
    Gpt_GetTimeRemaining bld ch st2 = Some (0, st2) \<and>
    Gpt_GetTimeElapsed bld ch st2 = Some (ucast (ucast p :: uint16), st2)"
proof -
  let ?n = "unat ch" and ?c = "channel_config cs ch"
  let ?t = "started_regs bld p (GptChannelPrescale ?c) (tim (chip st) ! ?n)"
  let ?u = "\<lparr>state = GPT_STATE_STARTED, expiredWhenStopped = False\<rparr>"
  let ?st1 = "upd_channel ?n ?t ?u st"
  let ?h = "hardware ?n sr cnt ?st1"
  note n = active_facts(1) [OF assms(1)] and facts = active_facts [OF assms(1)]
  have len: "length (tim (chip st)) = 7" using facts(2) by (simp add: hw_wf_def)
  have inv1: "gpt_inv bld cs ?st1"
    using assms(1) n by (intro inv_upd_channel) (simp_all add: active_channel_def cen_bits)
  have inv: "gpt_inv bld cs ?h" by (rule good_hardware [OF inv1])
  have act: "active_channel bld cs ?h ch" using inv assms(1) by (simp add: active_channel_def hardware_def)
  have regs: "tim (chip ?h) ! ?n = ?t\<lparr>SR := sr, CNT := cnt\<rparr>" using n len by (simp add: hardware_def)
  have "find (isr_ready ?h) [0..<4] = Some ?n"
  proof (rule find_upt [OF n])
    show "\<not> isr_ready ?h i" if "i < ?n" for i
      using assms(5) that by (simp add: list_all_iff hardware_def)
    show "isr_ready ?h ?n" using regs assms(6) cen_bits(1) by simp
  qed
  then have isr: "Gpt_Isr ?h = Some ((upd_channel ?n (isr_regs ?c (?t\<lparr>SR := sr, CNT := cnt\<rparr>)) (isr_unit ?c ?u) ?h)
      \<lparr>notified := notified st @ [the (GptNotification ?c)]\<rparr>)" (is "_ = Some ?st2")
    using isr_dispatch [OF _ inv] isr_channel_effect [OF act] assms(1) regs n facts(3)
    by (simp add: active_channel_def hardware_def)
  have "active_channel bld cs ?st2 ch"
    using inv_upd_channel [OF inv n, of "isr_regs ?c (?t\<lparr>SR := sr, CNT := cnt\<rparr>)" "isr_unit ?c ?u"] act assms(4)
    by (simp add: active_channel_def isr_regs_def isr_unit_def bit_simps hardware_def)
  note f2 = active_facts(1-6) [OF this]
  have u2: "state (Gpt_Unit ?st2 ! ?n) = GPT_STATE_EXPIRED" and t2: "tim (chip ?st2) ! ?n = isr_regs ?c (?t\<lparr>SR := sr, CNT := cnt\<rparr>)"
    using n len facts(3) assms(4) by (simp_all add: hardware_def isr_unit_def)
  have arr: "ARR ?t = ucast p" "CNT ?t = ucast p" by (simp_all add: started_regs_def start_regs_def Let_def)
  have "Gpt_GetTimeRemaining bld ch ?st2 = Some (0, ?st2)"
    using f2 u2 by (simp only: Gpt_GetTimeRemaining_def validate_pass) simp
  moreover have "Gpt_GetTimeElapsed bld ch ?st2 = Some (ucast (ucast p :: uint16), ?st2)"
    using f2 u2 t2 arr(1) assms(4)
    by (simp only: Gpt_GetTimeElapsed_def validate_pass) (simp add: get_tim_eq [where b = "drv bld"] isr_regs_def)
  ultimately show ?thesis
    using start_effect [OF assms(1-3)] isr n len arr cen_bits(1) t2 assms(4)
    by (intro exI [of _ ?st1] exI [of _ ?st2]) (simp add: isr_regs_def bit_simps)
qed

definition gpt_running :: gpt where
  "gpt_running = gpt_reset\<lparr>Gpt_Global := \<lparr>initRun = True, config = Some gpt_example_config, wakeupEnabled = False,
     configured = 5, channelMap = [1, GPT_CHANNEL_ILL, 0, GPT_CHANNEL_ILL]\<rparr>\<rparr>"

lemma gpt_running_active: "active_channel gpt_example_build gpt_example_config gpt_running 2"
proof -
  have ids: "gpt_ids gpt_example_config = [2, 0]" and ent: "length (entries gpt_example_config) = 2"
    by (simp_all add: gpt_ids_def entries_def gpt_example_config_def)
  have conf: "bit (5 :: uint32) n \<longleftrightarrow> n = 2 \<or> n = 0" if "n < 32" for n
  proof -
    have five: "(5 :: uint32) = push_bit 2 1 OR 1" by simp
    show ?thesis using that unfolding five bit_or_iff bit_push_bit_iff bit_1_iff by auto
  qed
  have four: "ch = 0 \<or> ch = 1 \<or> ch = 2 \<or> ch = 3" if "ch < 4" for ch :: nat using that by arith
  have "map_entry_ok gpt_example_config [1, GPT_CHANNEL_ILL, 0, GPT_CHANNEL_ILL] ch" if "ch < 4" for ch
    using four [OF that] by (auto simp: map_entry_ok_def ids ent) (simp_all add: gpt_example_config_def)
  then have "gpt_inv gpt_example_build gpt_example_config gpt_running"
    using gpt_reset_inv [of gpt_example_config] conf by (simp add: gpt_inv_def gpt_running_def ids gpt_reset_def)
  then show ?thesis by (simp add: active_channel_def gpt_example_config_ok gpt_running_def ids)
qed

theorem gpt_oneshot_witness:
  "\<exists>st1 st2. Gpt_StartTimer gpt_example_build 2 100 gpt_running = Some st1 \<and> counting st1 2 \<and>
    ARR (tim (chip st1) ! 2) = 100 \<and> CNT (tim (chip st1) ! 2) = 100 \<and>
    Gpt_Isr (hardware 2 1 0 st1) = Some st2 \<and> notified st2 = [7] \<and>
    \<not> counting st2 2 \<and> \<not> bit (SR (tim (chip st2) ! 2)) 0 \<and>
    Gpt_GetTimeRemaining gpt_example_build 2 st2 = Some (0, st2) \<and>
    Gpt_GetTimeElapsed gpt_example_build 2 st2 = Some (100, st2)"
proof -
  have cfg: "GptChannelMode (channel_config gpt_example_config 2) = GPT_CH_MODE_ONESHOT"
    "GptNotification (channel_config gpt_example_config 2) = Some 7"
    by (simp_all add: channel_config_def entries_def gpt_example_config_def)
  have st: "\<not> started gpt_running (unat (2 :: uint8))" "list_all (\<lambda>i. \<not> isr_ready gpt_running i) [0..<unat (2 :: uint8)]"
    "notified gpt_running = []"
    by (simp_all add: gpt_running_def gpt_reset_def hw_reset_def tim_reset_def upt_conv_Cons)
  show ?thesis
    using gpt_oneshot [OF gpt_running_active _ st(1) cfg(1) st(2), of 100 1 0] by (simp add: cfg st(3))
qed

section \<open>Channel numbers out of range\<close>

lemma validate_off [simp]: "\<not> DEV_ERROR_DETECT (drv bld) \<Longrightarrow> GPT_VALIDATE bld ex a e rest st = rest st"
  by (simp add: GPT_VALIDATE_def)

lemma upd_tim_units: "upd_tim ch f st = Some st' \<Longrightarrow> Gpt_Unit st' = Gpt_Unit st"
  by (auto simp: upd_tim_def Option.bind_eq_Some_conv)

lemma disable_units:
  "\<not> DEV_ERROR_DETECT (drv bld) \<Longrightarrow> Gpt_DisableNotification bld ch st = Some st' \<Longrightarrow> Gpt_Unit st' = Gpt_Unit st"
  by (auto simp: Gpt_DisableNotification_def dest: upd_tim_units split: if_splits)

text \<open>Without error detection, stopping a channel ends with the write to its unit.\<close>

lemma stop_units:
  assumes "\<not> DEV_ERROR_DETECT (drv bld)" and "Gpt_StopTimer bld ch st = Some st'"
  shows "unat ch < length (Gpt_Unit st)" "length (Gpt_Unit st') = length (Gpt_Unit st)"
proof -
  obtain st1 st2 where 1: "(if unat ch \<le> GPT_CHANNEL_CNT then
        upd_tim ch (\<lambda>t. t\<lparr>CR1 := CR1 t AND NOT TIM_CR1_CEN, SR := SR t AND NOT TIM_SR_UIF\<rparr>) st else Some st) = Some st1"
    and 2: "(if ENABLE_DISABLE_NOTIFICATION_API bld then Gpt_DisableNotification bld ch st1 else Some st1) = Some st2"
    and 3: "upd_unit (unat ch) (\<lambda>u. (if state u = GPT_STATE_EXPIRED then u\<lparr>expiredWhenStopped := True\<rparr> else u)
       \<lparr>state := GPT_STATE_STOPPED\<rparr>) st2 = Some st'"
    using assms(2) unfolding Gpt_StopTimer_def validate_off [OF assms(1)] Option.bind_eq_Some_conv by blast
  have "Gpt_Unit st1 = Gpt_Unit st" using 1 by (auto dest: upd_tim_units split: if_splits)
  moreover have "Gpt_Unit st2 = Gpt_Unit st1" using 2 by (auto dest: disable_units [OF assms(1)] split: if_splits)
  moreover note 3
  ultimately show "unat ch < length (Gpt_Unit st)" "length (Gpt_Unit st') = length (Gpt_Unit st)"
    by (auto simp: upd_unit_def Option.bind_eq_Some_conv wr_eq_Some_iff rd_eq_Some_iff)
qed

text \<open>
  The loop that stops all timers for the sleep mode runs one channel too far: with development
  error detection off, as in the generated configuration, it writes behind the array of the
  channel states, whatever the state of the driver.
\<close>

theorem gpt_sleep_overrun:
  assumes "\<not> DEV_ERROR_DETECT (drv bld)" and "length (Gpt_Unit st) = 4"
  shows "Gpt_SetMode bld GPT_MODE_SLEEP st = None"
proof -
  let ?stop = "\<lambda>i. Gpt_StopTimer bld (of_nat i :: uint8)"
  have len: "length (Gpt_Unit s') = length (Gpt_Unit s)" if "for_each ?stop is s = Some s'" for "is" s s'
    using that by (induction "is" arbitrary: s) (auto simp: Option.bind_eq_Some_conv dest: stop_units(2) [OF assms(1)])
  have last: "?stop 4 s = None" if "length (Gpt_Unit s) = 4" for s
    using stop_units(1) [OF assms(1), of "of_nat 4" s] that by (cases "?stop 4 s") auto
  have "for_each ?stop ([0..<4] @ [4]) st = None"
    using last len [of "[0..<4]" st] assms(2) by (cases "for_each ?stop [0..<4] st") (simp_all add: for_each_append)
  moreover have "[0..<Suc 4] = [0..<4] @ [4]" by (rule upt_Suc_append) simp
  ultimately show ?thesis using assms(1) by (simp only: Gpt_SetMode_def validate_off) simp
qed

theorem gpt_sleep_overrun_witness:
  "Gpt_SetMode (gpt_example_build\<lparr>drv := \<lparr>DEV_ERROR_DETECT = False, DET_CFG = Det_Cfg\<rparr>\<rparr>) GPT_MODE_SLEEP gpt_running = None"
  by (rule gpt_sleep_overrun) (simp_all add: gpt_running_def gpt_reset_def)

text \<open>
  \<^verbatim>\<open>Gpt_Init\<close> marks the unit with the index of the configuration entry as initialised, not the
  unit of its channel: with channel 2 configured alone, the time elapsed of the channel that was
  never started is the reset value of its reload register instead of 0.
\<close>

lemma gpt_init_wrong_unit:
  "map_option fst (do {
     st \<leftarrow> Gpt_Init gpt_example_build (Some [gpt_example_config ! 0, gpt_example_config ! 2]) gpt_reset;
     Gpt_GetTimeElapsed gpt_example_build 2 st }) = Some 0xFFFF"
  by (simp add: Gpt_Init_def Gpt_GetTimeElapsed_def GPT_VALIDATE_def VALIDATE_W_RV_def gpt_example_build_def
      gpt_example_config_def gpt_reset_def deref_def VALID_CHANNEL_def shl32_def rd_def wr_def upd_unit_def
      get_tim_def TimAddr_def hw_reset_def tim_reset_def reg32_def Let_def)

text \<open>
  The interrupt routine does not look at the interrupt enable bit: it calls the notification of a
  channel that is configured without one, if the channel counts and its flag is set when another
  timer interrupts.
\<close>

lemma gpt_isr_null_notification:
  "do {
     st \<leftarrow> Gpt_Init gpt_example_build (Some [(gpt_example_config ! 1)\<lparr>GptNotification := None\<rparr>, gpt_example_config ! 2]) gpt_reset;
     st \<leftarrow> Gpt_StartTimer gpt_example_build 0 5 st;
     Gpt_Isr (hardware 0 1 0 st) } = None"
  by (simp add: Gpt_Init_def Gpt_StartTimer_def Gpt_Isr_def Gpt_IsrCh_def GPT_VALIDATE_def gpt_example_build_def
      gpt_example_config_def gpt_reset_def deref_def VALID_CHANNEL_def shl32_def rd_def wr_def upd_unit_def upd_tim_def
      get_tim_def get_config_def TimAddr_def hw_reset_def tim_reset_def start_regs_def hardware_def isr_pending_def
      upt_conv_Cons Let_def)

end
