(* ===== verification/WdgM.thy ===== *)
theory WdgM
  imports Mcal_Prelude
begin

text \<open>
  The watchdog manager \<^verbatim>\<open>core/system/WdgM/WdgM.c\<close> on top of the watchdog interface
  \<^verbatim>\<open>core/system/WdgIf/WdgIf.c\<close>: mode changes, the three kinds of supervision of checkpoints, the
  local state of each supervised entity and the global state.

  \<^item> A configuration array and its \<^verbatim>\<open>Length_\<close> field are one list. An index that is not a loop
    counter is checked: outside its array it faults.
  \<^item> \<^verbatim>\<open>WdgM_instance\<close> and \<^verbatim>\<open>WdgM_runtimeData\<close> are one state record. The pointer \<^verbatim>\<open>CurrentMode\<close> is
    the index of the mode in the configuration.
  \<^item> The preprocessor switches are fields of a build record. The watchdog drivers behind
    \<^verbatim>\<open>WdgIf\<close> are not part of the module: whether a driver accepts a mode is the field
    \<open>Wdg_SetMode\<close> of that record, and every call that leaves the module (to a driver, to
    Det, Dem and Mcu) is recorded in \<open>wd_calls\<close>.
  \<^item> A failing \<^verbatim>\<open>ASSERT\<close> stops the program, like undefined behaviour.
\<close>

section \<open>Types\<close>

datatype Std_ReturnType = E_OK | E_NOT_OK

datatype WdgIf_ModeType = WDGIF_OFF_MODE | WDGIF_SLOW_MODE | WDGIF_FAST_MODE

datatype WdgM_Substate = WDGM_SUBSTATE_INCORRECT | WDGM_SUBSTATE_CORRECT

datatype WdgM_LocalStatusType =
  WDGM_LOCAL_STATUS_OK | WDGM_LOCAL_STATUS_FAILED | WDGM_LOCAL_STATUS_EXPIRED | WDGM_LOCAL_STATUS_DEACTIVATED

datatype WdgM_GlobalStatusType =
  WDGM_GLOBAL_STATUS_OK | WDGM_GLOBAL_STATUS_FAILED | WDGM_GLOBAL_STATUS_EXPIRED
| WDGM_GLOBAL_STATUS_STOPPED | WDGM_GLOBAL_STATUS_DEACTIVATED

record WdgM_Trigger =
  TriggerConditionValue :: uint16
  WatchdogMode :: WdgIf_ModeType
  TriggerWatchdogId :: uint8

record WdgM_AliveSupervision =
  CheckpointId :: uint16
  ExpectedAliveIndications :: uint16
  MinMargin :: uint8
  MaxMargin :: uint8
  SupervisionReferenceCycle :: uint16

record WdgM_DeadlineSupervision =
  CheckpointIdStart :: uint16
  CheckpointIdFinish :: uint16
  DeadlineMin :: uint32
  DeadlineMax :: uint32

record WdgM_InternalTransition =
  CheckpointIdSource :: uint16
  CheckpointIdDestination :: uint16

record WdgM_SupervisedEntity =
  CheckpointIds :: "uint16 list"
  Transitions :: "WdgM_InternalTransition list"
  StartCheckpointIds :: "uint16 list"
  FinalCheckpointIds :: "uint16 list"

record WdgM_SupervisedEntityConfiguration =
  SupervisedEntityId :: uint16
  CheckInternalLogic :: bool
  AliveSupervisions :: "WdgM_AliveSupervision list"
  DeadlineSupervisions :: "WdgM_DeadlineSupervision list"
  FailedAliveSupervisionReferenceCycleTol :: uint8

record WdgM_Mode =
  ModeId :: uint8
  ExpiredSupervisionCycleTol :: uint16
  SupervisionCycle :: uint32
  SEConfigurations :: "WdgM_SupervisedEntityConfiguration list"
  Triggers :: "WdgM_Trigger list"

record WdgM_Watchdog =
  WatchdogId :: uint8
  WatchdogDeviceId :: uint8

record WdgM_DEMEventIdRefs =
  ImproperCaller :: uint16
  Monitoring :: uint16
  SetModeEvent :: uint16

record WdgM_ConfigType =
  allowedCallerIds :: "uint16 list"
  SupervisedEntities :: "WdgM_SupervisedEntity list"
  Watchdogs :: "WdgM_Watchdog list"
  DemEventIdRefs :: WdgM_DEMEventIdRefs
  initialModeId :: uint8
  Modes :: "WdgM_Mode list"

text \<open>The runtime data.\<close>

record WdgM_internal_AliveSupervision =
  AliveCounter :: uint32
  SupervisionCycleCounter :: uint16
  wasEvaluated :: bool

record WdgM_internal_DeadlineSupervision =
  TimestampStart :: uint32

record WdgM_internal_SupervisedEntity =
  LocalState :: WdgM_LocalStatusType
  SubstateAlive :: WdgM_Substate
  SubstateDeadline :: WdgM_Substate
  SubstateLogical :: WdgM_Substate
  IsInternalGraphActive :: bool
  PreviousCheckpointId_Deadline :: uint16
  PreviousCheckpointId_internalLogic :: uint16
  FailedAliveCyclesCounter :: uint8

record WdgM_internal_SupervisedEntityConfig =
  RtAliveSupervisions :: "WdgM_internal_AliveSupervision list"
  RtDeadlineSupervisions :: "WdgM_internal_DeadlineSupervision list"

record WdgM_internal_Mode =
  SE_Configs :: "WdgM_internal_SupervisedEntityConfig list"
  ExpiredSupervisionCycleCounter :: uint16

text \<open>Calls that leave the module.\<close>

datatype WdgM_Call =
  DetReport uint8 uint8
| WdgIfDetReport uint8 uint8
| DemReport uint16
| WdgSetMode uint8 WdgIf_ModeType
| WdgTrigger uint8 uint16
| McuReset

record WdgM_internalData =
  ConfigPtr :: "WdgM_ConfigType ptr"
  SEs :: "WdgM_internal_SupervisedEntity list"
  RtModes :: "WdgM_internal_Mode list"
  isInitiated :: bool
  GlobalState :: WdgM_GlobalStatusType
  CurrentTime :: uint32
  CurrentMode :: nat
  ResetInitiated :: bool
  firstExpiredSEID :: uint16
  isFirstExpiredSet :: bool
  wd_calls :: "WdgM_Call list"

record WdgM_build =
  WDGM_DEV_ERROR_DETECT :: bool
  WDGM_DEFENSIVE_BEHAVIOR :: bool
  WDGM_OFF_MODE_ENABLED :: bool
  WDGM_DEM_ALIVE_SUPERVISION_REPORT :: bool
  WDGM_IMMEDIATE_RESET :: bool
  USE_DEM :: bool
  WDGIF_DEV_ERROR_DETECT :: bool
  WdgIf_NumberOfDevices :: uint8
  Wdg_SetMode :: "uint8 \<Rightarrow> WdgIf_ModeType \<Rightarrow> Std_ReturnType"

abbreviation (input) "WDGM_SID_INIT \<equiv> (0x00 :: uint8)"
abbreviation (input) "WDGM_SID_DEINIT \<equiv> (0x01 :: uint8)"
abbreviation (input) "WDGM_SID_SETMODE \<equiv> (0x03 :: uint8)"
abbreviation (input) "WDGM_SID_GETMODE \<equiv> (0x0B :: uint8)"
abbreviation (input) "WDGM_SID_CHECKPOINTREACHED \<equiv> (0x0E :: uint8)"
abbreviation (input) "WDGM_SID_UPDATEALIVECOUNTER \<equiv> (0x04 :: uint8)"
abbreviation (input) "WDGM_SID_GETLOCALSTATUS \<equiv> (0x0C :: uint8)"
abbreviation (input) "WDGM_SID_GETGLOBALSTATUS \<equiv> (0x0D :: uint8)"
abbreviation (input) "WDGM_SID_PERFORMRESET \<equiv> (0x0F :: uint8)"
abbreviation (input) "WDGM_SID_GETFIRSTEXPIREDSEID \<equiv> (0x10 :: uint8)"
abbreviation (input) "WDGM_SID_MAINFUNCTION \<equiv> (0x08 :: uint8)"
abbreviation (input) "WDGM_E_NO_INIT \<equiv> (0x10 :: uint8)"
abbreviation (input) "WDGM_E_PARAM_MODE \<equiv> (0x12 :: uint8)"
abbreviation (input) "WDGM_E_PARAM_SEID \<equiv> (0x13 :: uint8)"
abbreviation (input) "WDGM_E_INV_POINTER \<equiv> (0x14 :: uint8)"
abbreviation (input) "WDGM_E_DISABLE_NOT_ALLOWED \<equiv> (0x15 :: uint8)"
abbreviation (input) "WDGM_E_CPID \<equiv> (0x16 :: uint8)"
abbreviation (input) "WDGM_E_DEPRECATED \<equiv> (0x17 :: uint8)"
abbreviation (input) "WDGM_E_AMBIGIOUS \<equiv> (0x18 :: uint8)"
abbreviation (input) "WDGM_E_SEDEACTIVATED \<equiv> (0x19 :: uint8)"
abbreviation (input) "WDGIF_SETMODE_ID \<equiv> (0x01 :: uint8)"
abbreviation (input) "WDGIF_SETTRIGGERCONDITION_ID \<equiv> (0x02 :: uint8)"
abbreviation (input) "WDGIF_E_PARAM_DEVICE \<equiv> (0x01 :: uint8)"

section \<open>Reports and the watchdog interface\<close>

definition wd_call :: "WdgM_Call \<Rightarrow> WdgM_internalData \<Rightarrow> WdgM_internalData" where
  "wd_call c st = st\<lparr>wd_calls := wd_calls st @ [c]\<rparr>"

definition WDGM_REPORT_DET_ERROR :: "WdgM_build \<Rightarrow> uint8 \<Rightarrow> uint8 \<Rightarrow> WdgM_internalData \<Rightarrow> WdgM_internalData" where
  "WDGM_REPORT_DET_ERROR bld api err st =
     (if WDGM_DEV_ERROR_DETECT bld then wd_call (DetReport api err) st else st)"

text \<open>\<^verbatim>\<open>DEM_EVENT_ID_NULL\<close> is 0.\<close>

definition WDGM_REPORT_DEM_ERROR :: "WdgM_build \<Rightarrow> uint16 \<Rightarrow> WdgM_internalData \<Rightarrow> WdgM_internalData" where
  "WDGM_REPORT_DEM_ERROR bld eventId st =
     (if USE_DEM bld \<and> eventId \<noteq> 0 then wd_call (DemReport eventId) st else st)"

definition WdgIf_SetMode ::
  "WdgM_build \<Rightarrow> uint8 \<Rightarrow> WdgIf_ModeType \<Rightarrow> WdgM_internalData \<Rightarrow> (Std_ReturnType \<times> WdgM_internalData) ub" where
  "WdgIf_SetMode bld DeviceIndex Mode st =
     (if WDGIF_DEV_ERROR_DETECT bld \<and> \<not> WdgIf_NumberOfDevices bld > DeviceIndex
      then Some (E_NOT_OK, wd_call (WdgIfDetReport WDGIF_SETMODE_ID WDGIF_E_PARAM_DEVICE) st)
      else if DeviceIndex < WdgIf_NumberOfDevices bld
      then Some (Wdg_SetMode bld DeviceIndex Mode, wd_call (WdgSetMode DeviceIndex Mode) st)
      else None)"

definition WdgIf_SetTriggerCondition ::
  "WdgM_build \<Rightarrow> uint8 \<Rightarrow> uint16 \<Rightarrow> WdgM_internalData \<Rightarrow> WdgM_internalData ub" where
  "WdgIf_SetTriggerCondition bld DeviceIndex Timeout st =
     (if WDGIF_DEV_ERROR_DETECT bld \<and> \<not> WdgIf_NumberOfDevices bld > DeviceIndex
      then Some (wd_call (WdgIfDetReport WDGIF_SETTRIGGERCONDITION_ID WDGIF_E_PARAM_DEVICE) st)
      else if DeviceIndex < WdgIf_NumberOfDevices bld
      then Some (wd_call (WdgTrigger DeviceIndex Timeout) st)
      else None)"

section \<open>Supervision of a checkpoint\<close>

definition WdgM_internal_AliveMonitoring ::
  "WdgM_SupervisedEntityConfiguration \<Rightarrow> WdgM_internal_SupervisedEntityConfig \<Rightarrow> uint16 \<Rightarrow>
   WdgM_internal_SupervisedEntityConfig ub" where
  "WdgM_internal_AliveMonitoring seConf rsc CPId =
     (case find (\<lambda>i. CheckpointId (AliveSupervisions seConf ! i) = CPId) [0..<length (AliveSupervisions seConf)] of
        None \<Rightarrow> Some rsc
      | Some i \<Rightarrow> do {
          a \<leftarrow> rd (RtAliveSupervisions rsc) i;
          l \<leftarrow> wr (RtAliveSupervisions rsc) i (a\<lparr>AliveCounter := AliveCounter a + 1\<rparr>);
          Some (rsc\<lparr>RtAliveSupervisions := l\<rparr>) })"

definition WdgM_internalIsDeadlineHold ::
  "uint32 \<Rightarrow> WdgM_DeadlineSupervision \<Rightarrow> WdgM_internal_DeadlineSupervision \<Rightarrow> WdgM_Substate" where
  "WdgM_internalIsDeadlineHold now deadlineCP rdl =
     (if now \<ge> TimestampStart rdl + DeadlineMin deadlineCP \<and> now \<le> TimestampStart rdl + DeadlineMax deadlineCP
      then WDGM_SUBSTATE_CORRECT else WDGM_SUBSTATE_INCORRECT)"

text \<open>The loop of the deadline supervision, from index \<open>i\<close> of the runtime array.\<close>

fun deadline_loop ::
  "uint32 \<Rightarrow> uint16 \<Rightarrow> nat \<Rightarrow> WdgM_DeadlineSupervision list \<Rightarrow> WdgM_internal_SupervisedEntity \<Rightarrow>
   WdgM_internal_SupervisedEntityConfig \<Rightarrow>
   (WdgM_Substate \<times> WdgM_internal_SupervisedEntity \<times> WdgM_internal_SupervisedEntityConfig) ub" where
  "deadline_loop now CPId i [] rse rsc = Some (WDGM_SUBSTATE_CORRECT, rse, rsc)"
| "deadline_loop now CPId i (d # ds) rse rsc = do {
     (rse, rsc) \<leftarrow>
       (if CheckpointIdStart d = CPId then do {
          l \<leftarrow> wr (RtDeadlineSupervisions rsc) i \<lparr>TimestampStart = now\<rparr>;
          Some (rse\<lparr>PreviousCheckpointId_Deadline := CPId\<rparr>, rsc\<lparr>RtDeadlineSupervisions := l\<rparr>) }
        else Some (rse, rsc));
     (if CheckpointIdFinish d = CPId then do {
        r \<leftarrow> rd (RtDeadlineSupervisions rsc) i;
        if TimestampStart r \<noteq> 0 then
          (if WdgM_internalIsDeadlineHold now d r = WDGM_SUBSTATE_INCORRECT
           then Some (WDGM_SUBSTATE_INCORRECT, rse, rsc)
           else do {
             l \<leftarrow> wr (RtDeadlineSupervisions rsc) i \<lparr>TimestampStart = 0\<rparr>;
             deadline_loop now CPId (Suc i) ds
               (rse\<lparr>PreviousCheckpointId_Deadline := CPId\<rparr>) (rsc\<lparr>RtDeadlineSupervisions := l\<rparr>) })
        else deadline_loop now CPId (Suc i) ds rse rsc }
      else deadline_loop now CPId (Suc i) ds rse rsc) }"

definition WdgM_internal_DeadlineMonitoring ::
  "uint32 \<Rightarrow> WdgM_internal_SupervisedEntity \<Rightarrow> WdgM_SupervisedEntityConfiguration \<Rightarrow>
   WdgM_internal_SupervisedEntityConfig \<Rightarrow> uint16 \<Rightarrow>
   (WdgM_Substate \<times> WdgM_internal_SupervisedEntity \<times> WdgM_internal_SupervisedEntityConfig) ub" where
  "WdgM_internal_DeadlineMonitoring now rse seConf rsc CPId =
     deadline_loop now CPId 0 (DeadlineSupervisions seConf) rse rsc"

definition WdgM_internal_LogicalMonitoring_GraphActive ::
  "WdgM_SupervisedEntity \<Rightarrow> WdgM_internal_SupervisedEntity \<Rightarrow> uint16 \<Rightarrow>
   WdgM_Substate \<times> WdgM_internal_SupervisedEntity" where
  "WdgM_internal_LogicalMonitoring_GraphActive se rse CPId =
     (if list_ex (\<lambda>t. CheckpointIdSource t = PreviousCheckpointId_internalLogic rse \<and>
                      CheckpointIdDestination t = CPId) (Transitions se)
      then let rse = rse\<lparr>PreviousCheckpointId_internalLogic := CPId\<rparr>
           in (WDGM_SUBSTATE_CORRECT,
               if CPId \<in> set (FinalCheckpointIds se) then rse\<lparr>IsInternalGraphActive := False\<rparr> else rse)
      else (WDGM_SUBSTATE_INCORRECT, rse))"

definition WdgM_internal_LogicalMonitoring_GraphInactive ::
  "WdgM_SupervisedEntity \<Rightarrow> WdgM_internal_SupervisedEntity \<Rightarrow> uint16 \<Rightarrow>
   WdgM_Substate \<times> WdgM_internal_SupervisedEntity" where
  "WdgM_internal_LogicalMonitoring_GraphInactive se rse CPId =
     (if CPId \<in> set (StartCheckpointIds se)
      then (WDGM_SUBSTATE_CORRECT,
            rse\<lparr>IsInternalGraphActive := True, PreviousCheckpointId_internalLogic := CPId\<rparr>)
      else (WDGM_SUBSTATE_INCORRECT, rse))"

definition WdgM_internal_LogicalMonitoring ::
  "WdgM_SupervisedEntity \<Rightarrow> WdgM_internal_SupervisedEntity \<Rightarrow> uint16 \<Rightarrow>
   WdgM_Substate \<times> WdgM_internal_SupervisedEntity" where
  "WdgM_internal_LogicalMonitoring se rse CPId =
     (if IsInternalGraphActive rse then WdgM_internal_LogicalMonitoring_GraphActive se rse CPId
      else WdgM_internal_LogicalMonitoring_GraphInactive se rse CPId)"

section \<open>The periodic evaluation\<close>

text \<open>
  The alive algorithm computes in \<^verbatim>\<open>sint16\<close>, converting after each step: arithmetic modulo
  \<open>2 ^ 16\<close>, read as signed.
\<close>

definition WdgM_internal_SpecAliveAlgo ::
  "WdgM_AliveSupervision \<Rightarrow> WdgM_internal_AliveSupervision \<Rightarrow> WdgM_Substate \<times> WdgM_internal_AliveSupervision" where
  "WdgM_internal_SpecAliveAlgo aliveCP ra =
     (let f = SupervisionReferenceCycle aliveCP - ExpectedAliveIndications aliveCP;
          temp = (ucast (AliveCounter ra) :: uint16) - SupervisionCycleCounter ra;
          temp = temp + f;
          retVal = (if sint temp \<le> int (unat (MaxMargin aliveCP)) \<and> sint temp \<ge> 0 - int (unat (MinMargin aliveCP))
                    then WDGM_SUBSTATE_CORRECT else WDGM_SUBSTATE_INCORRECT)
      in (retVal, ra\<lparr>AliveCounter := 0, SupervisionCycleCounter := 0\<rparr>))"

definition WdgM_internal_IsAliveHold ::
  "WdgM_AliveSupervision \<Rightarrow> WdgM_internal_AliveSupervision \<Rightarrow> WdgM_Substate \<times> WdgM_internal_AliveSupervision" where
  "WdgM_internal_IsAliveHold aliveCP ra =
     (let ra = ra\<lparr>wasEvaluated := False\<rparr> in
      if SupervisionReferenceCycle aliveCP = 1 then
        let (retVal, ra) = WdgM_internal_SpecAliveAlgo aliveCP ra in (retVal, ra\<lparr>wasEvaluated := True\<rparr>)
      else if SupervisionCycleCounter ra = SupervisionReferenceCycle aliveCP then
        let (retVal, ra) = WdgM_internal_SpecAliveAlgo aliveCP ra in (retVal, ra\<lparr>wasEvaluated := True\<rparr>)
      else (WDGM_SUBSTATE_CORRECT, ra))"

text \<open>The inner loop of \<^verbatim>\<open>WdgM_internal_CheckAlives\<close>, from index \<open>a\<close> of the runtime array.\<close>

fun alive_loop ::
  "nat \<Rightarrow> WdgM_AliveSupervision list \<Rightarrow> WdgM_internal_SupervisedEntityConfig \<Rightarrow> WdgM_Substate \<Rightarrow> bool \<Rightarrow>
   (WdgM_internal_SupervisedEntityConfig \<times> WdgM_Substate \<times> bool) ub" where
  "alive_loop a [] rsc result writeResult = Some (rsc, result, writeResult)"
| "alive_loop a (cp # cps) rsc result writeResult = do {
     ra \<leftarrow> rd (RtAliveSupervisions rsc) a;
     let ra = ra\<lparr>SupervisionCycleCounter := SupervisionCycleCounter ra + 1\<rparr>;
     let (tempRes, ra) = WdgM_internal_IsAliveHold cp ra;
     l \<leftarrow> wr (RtAliveSupervisions rsc) a ra;
     let writeResult = (if wasEvaluated ra then True else writeResult);
     let result = (if tempRes = WDGM_SUBSTATE_INCORRECT then tempRes else result);
     alive_loop (Suc a) cps (rsc\<lparr>RtAliveSupervisions := l\<rparr>) result writeResult }"

text \<open>Reading and writing the runtime data of configuration \<open>i\<close> of a mode.\<close>

definition get_rsc :: "nat \<Rightarrow> nat \<Rightarrow> WdgM_internalData \<Rightarrow> WdgM_internal_SupervisedEntityConfig ub" where
  "get_rsc mode i st = do { rm \<leftarrow> rd (RtModes st) mode; rd (SE_Configs rm) i }"

definition set_rsc ::
  "nat \<Rightarrow> nat \<Rightarrow> WdgM_internal_SupervisedEntityConfig \<Rightarrow> WdgM_internalData \<Rightarrow> WdgM_internalData ub" where
  "set_rsc mode i rsc st = do {
     rm \<leftarrow> rd (RtModes st) mode;
     l \<leftarrow> wr (SE_Configs rm) i rsc;
     ms \<leftarrow> wr (RtModes st) mode (rm\<lparr>SE_Configs := l\<rparr>);
     Some (st\<lparr>RtModes := ms\<rparr>) }"

definition set_se ::
  "nat \<Rightarrow> WdgM_internal_SupervisedEntity \<Rightarrow> WdgM_internalData \<Rightarrow> WdgM_internalData ub" where
  "set_se i rse st = do { l \<leftarrow> wr (SEs st) i rse; Some (st\<lparr>SEs := l\<rparr>) }"

definition WdgM_internal_CheckAlives :: "WdgM_Mode \<Rightarrow> WdgM_internalData \<Rightarrow> WdgM_internalData ub" where
  "WdgM_internal_CheckAlives cm =
     for_each (\<lambda>i st. do {
       seConf \<leftarrow> rd (SEConfigurations cm) i;
       rse \<leftarrow> rd (SEs st) (unat (SupervisedEntityId seConf));
       rsc \<leftarrow> (if AliveSupervisions seConf = [] then Some \<lparr>RtAliveSupervisions = [], RtDeadlineSupervisions = []\<rparr>
              else get_rsc (unat (ModeId cm)) i st);
       (rsc, result, writeResult) \<leftarrow>
         alive_loop 0 (AliveSupervisions seConf) rsc WDGM_SUBSTATE_CORRECT False;
       st \<leftarrow> (if AliveSupervisions seConf = [] then Some st else set_rsc (unat (ModeId cm)) i rsc st);
       set_se (unat (SupervisedEntityId seConf))
         (if writeResult then rse\<lparr>SubstateAlive := result\<rparr> else rse) st })
     [0..<length (SEConfigurations cm)]"

definition WdgM_internal_CalculateLocalState_FromFailedNoError ::
  "WdgM_internal_SupervisedEntity \<Rightarrow> WdgM_internal_SupervisedEntity" where
  "WdgM_internal_CalculateLocalState_FromFailedNoError rse =
     (if FailedAliveCyclesCounter rse > 1
      then rse\<lparr>FailedAliveCyclesCounter := FailedAliveCyclesCounter rse - 1\<rparr>
      else rse\<lparr>FailedAliveCyclesCounter := 0, LocalState := WDGM_LOCAL_STATUS_OK\<rparr>)"

definition WdgM_internal_CalculateLocalState_FromOKOneError ::
  "WdgM_internal_SupervisedEntity \<Rightarrow> WdgM_SupervisedEntityConfiguration \<Rightarrow>
   WdgM_internal_SupervisedEntityConfig \<Rightarrow> WdgM_internal_SupervisedEntity" where
  "WdgM_internal_CalculateLocalState_FromOKOneError rse seConf rsc =
     (let tol = FailedAliveSupervisionReferenceCycleTol seConf;
          rse = (if FailedAliveCyclesCounter rse \<le> tol \<and> SubstateAlive rse = WDGM_SUBSTATE_INCORRECT
                 then let wasEval = list_ex wasEvaluated (RtAliveSupervisions rsc);
                          rse = rse\<lparr>LocalState := WDGM_LOCAL_STATUS_FAILED\<rparr>
                      in if wasEval then rse\<lparr>FailedAliveCyclesCounter := FailedAliveCyclesCounter rse + 1\<rparr> else rse
                 else rse)
      in if FailedAliveCyclesCounter rse > tol \<or> SubstateAlive rse = WDGM_SUBSTATE_CORRECT
         then rse\<lparr>LocalState := WDGM_LOCAL_STATUS_EXPIRED\<rparr> else rse)"

definition WdgM_internal_CalculateLocalState_FromFailedOneError ::
  "WdgM_internal_SupervisedEntity \<Rightarrow> WdgM_SupervisedEntityConfiguration \<Rightarrow>
   WdgM_internal_SupervisedEntityConfig \<Rightarrow> WdgM_internal_SupervisedEntity" where
  "WdgM_internal_CalculateLocalState_FromFailedOneError rse seConf rsc =
     (let tol = FailedAliveSupervisionReferenceCycleTol seConf;
          rse = (if FailedAliveCyclesCounter rse \<le> tol \<and> SubstateAlive rse = WDGM_SUBSTATE_INCORRECT
                 then let wasEval = list_ex wasEvaluated (RtAliveSupervisions rsc);
                          rse = rse\<lparr>LocalState := WDGM_LOCAL_STATUS_FAILED\<rparr>
                      in if wasEval then rse\<lparr>FailedAliveCyclesCounter := FailedAliveCyclesCounter rse + 1\<rparr> else rse
                 else rse)
      in if FailedAliveCyclesCounter rse > tol
         then rse\<lparr>LocalState := WDGM_LOCAL_STATUS_EXPIRED\<rparr> else rse)"

text \<open>The numbers behind the substates, which the code adds up.\<close>

definition substate_val :: "WdgM_Substate \<Rightarrow> nat" where
  "substate_val s = (if s = WDGM_SUBSTATE_CORRECT then 1 else 0)"

definition WdgM_internal_CalculateLocalState ::
  "WdgM_internal_SupervisedEntity \<Rightarrow> WdgM_SupervisedEntityConfiguration \<Rightarrow>
   WdgM_internal_SupervisedEntityConfig \<Rightarrow> WdgM_internal_SupervisedEntity" where
  "WdgM_internal_CalculateLocalState rse seConf rsc =
     (let temp = substate_val (SubstateAlive rse) + substate_val (SubstateDeadline rse) +
                 substate_val (SubstateLogical rse)
      in if temp = 3 then
           (if LocalState rse = WDGM_LOCAL_STATUS_FAILED
            then WdgM_internal_CalculateLocalState_FromFailedNoError rse else rse)
         else if temp = 2 then
           (if LocalState rse = WDGM_LOCAL_STATUS_OK
            then WdgM_internal_CalculateLocalState_FromOKOneError rse seConf rsc
            else if LocalState rse = WDGM_LOCAL_STATUS_FAILED
            then WdgM_internal_CalculateLocalState_FromFailedOneError rse seConf rsc
            else rse)
         else rse\<lparr>LocalState := WDGM_LOCAL_STATUS_EXPIRED\<rparr>)"

text \<open>The counter of expired cycles of the current mode.\<close>

definition expired_cycles :: "WdgM_Mode \<Rightarrow> WdgM_internalData \<Rightarrow> uint16 ub" where
  "expired_cycles cm st = do {
     rm \<leftarrow> rd (RtModes st) (unat (ModeId cm));
     Some (ExpiredSupervisionCycleCounter rm) }"

definition WdgM_internal_updateFromGlobalOK ::
  "WdgM_Mode \<Rightarrow> uint16 \<Rightarrow> uint16 \<Rightarrow> WdgM_internalData \<Rightarrow> WdgM_internalData ub" where
  "WdgM_internal_updateFromGlobalOK cm expired failed st = do {
     let st = (if failed > 0 then st\<lparr>GlobalState := WDGM_GLOBAL_STATUS_FAILED\<rparr> else st);
     if expired > 0 then do {
       n \<leftarrow> expired_cycles cm st;
       Some (if n < ExpiredSupervisionCycleTol cm then st\<lparr>GlobalState := WDGM_GLOBAL_STATUS_EXPIRED\<rparr>
             else st\<lparr>GlobalState := WDGM_GLOBAL_STATUS_STOPPED\<rparr>) }
     else Some st }"

definition WdgM_internal_updateFromGlobalFAILED ::
  "WdgM_Mode \<Rightarrow> uint16 \<Rightarrow> uint16 \<Rightarrow> WdgM_internalData \<Rightarrow> WdgM_internalData ub" where
  "WdgM_internal_updateFromGlobalFAILED cm expired failed st =
     (if failed = 0 \<and> expired = 0 then Some (st\<lparr>GlobalState := WDGM_GLOBAL_STATUS_OK\<rparr>)
      else if expired > 0 then do {
        n \<leftarrow> expired_cycles cm st;
        Some (if n < ExpiredSupervisionCycleTol cm then st\<lparr>GlobalState := WDGM_GLOBAL_STATUS_EXPIRED\<rparr>
              else st\<lparr>GlobalState := WDGM_GLOBAL_STATUS_STOPPED\<rparr>) }
      else Some st)"

definition WdgM_internal_updateFromGlobalEXPIRED ::
  "WdgM_Mode \<Rightarrow> uint16 \<Rightarrow> WdgM_internalData \<Rightarrow> WdgM_internalData ub" where
  "WdgM_internal_updateFromGlobalEXPIRED cm expired st =
     (if expired > 0 then do {
        rm \<leftarrow> rd (RtModes st) (unat (ModeId cm));
        if ExpiredSupervisionCycleCounter rm < ExpiredSupervisionCycleTol cm then do {
          l \<leftarrow> wr (RtModes st) (unat (ModeId cm))
            (rm\<lparr>ExpiredSupervisionCycleCounter := ExpiredSupervisionCycleCounter rm + 1\<rparr>);
          Some (st\<lparr>RtModes := l\<rparr>) }
        else Some (st\<lparr>GlobalState := WDGM_GLOBAL_STATUS_STOPPED\<rparr>) }
      else Some st)"

text \<open>
  The loop over the supervised entities of the mode, with the counters of expired and failed ones.
  The first expired entity is recorded by the index of its configuration.
\<close>

definition local_states_step ::
  "WdgM_Mode \<Rightarrow> nat \<Rightarrow> uint16 \<times> uint16 \<times> WdgM_internalData \<Rightarrow> (uint16 \<times> uint16 \<times> WdgM_internalData) ub" where
  "local_states_step cm i s = do {
     let (expiredCounter, failedCounter, st) = s;
     seConf \<leftarrow> rd (SEConfigurations cm) i;
     rsc \<leftarrow> get_rsc (unat (ModeId cm)) i st;
     rse \<leftarrow> rd (SEs st) (unat (SupervisedEntityId seConf));
     let rse = WdgM_internal_CalculateLocalState rse seConf rsc;
     st \<leftarrow> set_se (unat (SupervisedEntityId seConf)) rse st;
     let (expiredCounter, st) =
       (if LocalState rse = WDGM_LOCAL_STATUS_EXPIRED
        then (expiredCounter + 1,
              if \<not> isFirstExpiredSet st then st\<lparr>firstExpiredSEID := of_nat i, isFirstExpiredSet := True\<rparr> else st)
        else (expiredCounter, st));
     let failedCounter = (if LocalState rse = WDGM_LOCAL_STATUS_FAILED then failedCounter + 1 else failedCounter);
     Some (expiredCounter, failedCounter, st) }"

definition WdgM_internal_CalculateGlobalState :: "WdgM_Mode \<Rightarrow> WdgM_internalData \<Rightarrow> WdgM_internalData ub" where
  "WdgM_internal_CalculateGlobalState cm st = do {
     (expiredCounter, failedCounter, st) \<leftarrow>
       for_each (local_states_step cm) [0..<length (SEConfigurations cm)] (0, 0, st);
     case GlobalState st of
       WDGM_GLOBAL_STATUS_OK \<Rightarrow> WdgM_internal_updateFromGlobalOK cm expiredCounter failedCounter st
     | WDGM_GLOBAL_STATUS_FAILED \<Rightarrow> WdgM_internal_updateFromGlobalFAILED cm expiredCounter failedCounter st
     | WDGM_GLOBAL_STATUS_EXPIRED \<Rightarrow> WdgM_internal_updateFromGlobalEXPIRED cm expiredCounter st
     | WDGM_GLOBAL_STATUS_STOPPED \<Rightarrow> Some st
     | WDGM_GLOBAL_STATUS_DEACTIVATED \<Rightarrow> Some st }"

section \<open>Resetting supervised entities and modes\<close>

definition WdgM_internal_DeactivateAndResetSE :: "nat \<Rightarrow> WdgM_internalData \<Rightarrow> WdgM_internalData ub" where
  "WdgM_internal_DeactivateAndResetSE SEIndex st = do {
     rse \<leftarrow> rd (SEs st) SEIndex;
     set_se SEIndex
       (rse\<lparr>LocalState := WDGM_LOCAL_STATUS_DEACTIVATED, IsInternalGraphActive := False,
            PreviousCheckpointId_internalLogic := 0, PreviousCheckpointId_Deadline := 0,
            FailedAliveCyclesCounter := 0, SubstateAlive := WDGM_SUBSTATE_CORRECT,
            SubstateDeadline := WDGM_SUBSTATE_CORRECT, SubstateLogical := WDGM_SUBSTATE_CORRECT\<rparr>) st }"

text \<open>The counter of expired cycles is reset in the body of the loop, so only if there is a configuration.\<close>

definition WdgM_internal_ResetSEConfigsForMode :: "WdgM_internal_Mode \<Rightarrow> WdgM_internal_Mode" where
  "WdgM_internal_ResetSEConfigsForMode rm =
     fold (\<lambda>i rm. rm\<lparr>ExpiredSupervisionCycleCounter := 0,
        SE_Configs := (SE_Configs rm)[i := \<lparr>
          RtAliveSupervisions =
            map (\<lambda>a. a\<lparr>AliveCounter := 0, SupervisionCycleCounter := 0\<rparr>) (RtAliveSupervisions (SE_Configs rm ! i)),
          RtDeadlineSupervisions =
            map (\<lambda>d. d\<lparr>TimestampStart := 0\<rparr>) (RtDeadlineSupervisions (SE_Configs rm ! i))\<rparr>]\<rparr>)
     [0..<length (SE_Configs rm)] rm"

definition reset_mode :: "nat \<Rightarrow> WdgM_internalData \<Rightarrow> WdgM_internalData ub" where
  "reset_mode mode st = do {
     rm \<leftarrow> rd (RtModes st) mode;
     l \<leftarrow> wr (RtModes st) mode (WdgM_internal_ResetSEConfigsForMode rm);
     Some (st\<lparr>RtModes := l\<rparr>) }"

section \<open>Triggers\<close>

definition WdgM_internal_isAtLeastOneWdogEnabled ::
  "WdgM_build \<Rightarrow> WdgM_ConfigType \<Rightarrow> uint8 \<Rightarrow> uint8 \<Rightarrow> uint8 \<Rightarrow> WdgM_internalData \<Rightarrow>
   (bool \<times> WdgM_internalData) ub" where
  "WdgM_internal_isAtLeastOneWdogEnabled bld cfg Mode SID errID st = do {
     newMode \<leftarrow> rd (Modes cfg) (unat Mode);
     let WdgActive = list_ex (\<lambda>t. WatchdogMode t \<noteq> WDGIF_OFF_MODE) (Triggers newMode);
     Some (WdgActive, if WdgActive then st else WDGM_REPORT_DET_ERROR bld SID errID st) }"

definition WdgM_internal_isAllowedForCalling ::
  "WdgM_build \<Rightarrow> WdgM_ConfigType \<Rightarrow> uint16 \<Rightarrow> WdgM_internalData \<Rightarrow> bool \<times> WdgM_internalData" where
  "WdgM_internal_isAllowedForCalling bld cfg CallerID st =
     (let callerAllowed = CallerID \<in> set (allowedCallerIds cfg)
      in (callerAllowed,
          if callerAllowed then st else WDGM_REPORT_DEM_ERROR bld (ImproperCaller (DemEventIdRefs cfg)) st))"

text \<open>
  The two trigger loops stop at the first driver that refuses its mode. \<open>device_of\<close> reads
  \<^verbatim>\<open>Watchdogs[trigger.WatchdogId].WatchdogDeviceId\<close>.
\<close>

definition device_of :: "WdgM_ConfigType \<Rightarrow> WdgM_Trigger \<Rightarrow> uint8 ub" where
  "device_of cfg t = do { w \<leftarrow> rd (Watchdogs cfg) (unat (TriggerWatchdogId t)); Some (WatchdogDeviceId w) }"

fun deactivate_loop ::
  "WdgM_build \<Rightarrow> WdgM_ConfigType \<Rightarrow> uint16 \<Rightarrow> WdgM_Trigger list \<Rightarrow> WdgM_internalData \<Rightarrow>
   (Std_ReturnType \<times> WdgM_internalData) ub" where
  "deactivate_loop bld cfg errID [] st = Some (E_OK, st)"
| "deactivate_loop bld cfg errID (t # ts) st = do {
     DeviceIndex \<leftarrow> device_of cfg t;
     (potError, st) \<leftarrow> WdgIf_SetMode bld DeviceIndex WDGIF_OFF_MODE st;
     if potError \<noteq> E_OK
     then Some (E_NOT_OK, WDGM_REPORT_DEM_ERROR bld errID (st\<lparr>GlobalState := WDGM_GLOBAL_STATUS_STOPPED\<rparr>))
     else deactivate_loop bld cfg errID ts st }"

definition WdgM_internal_deactivateCurrentTriggers ::
  "WdgM_build \<Rightarrow> uint16 \<Rightarrow> WdgM_internalData \<Rightarrow> (Std_ReturnType \<times> WdgM_internalData) ub" where
  "WdgM_internal_deactivateCurrentTriggers bld errID st = do {
     cfg \<leftarrow> deref (ConfigPtr st);
     cm \<leftarrow> rd (Modes cfg) (CurrentMode st);
     deactivate_loop bld cfg errID (Triggers cm) st }"

fun activate_loop ::
  "WdgM_build \<Rightarrow> WdgM_ConfigType \<Rightarrow> uint16 \<Rightarrow> WdgM_Trigger list \<Rightarrow> WdgM_internalData \<Rightarrow>
   (Std_ReturnType \<times> WdgM_internalData) ub" where
  "activate_loop bld cfg errID [] st = Some (E_OK, st)"
| "activate_loop bld cfg errID (t # ts) st = do {
     DeviceIndex \<leftarrow> device_of cfg t;
     (potError, st) \<leftarrow> WdgIf_SetMode bld DeviceIndex (WatchdogMode t) st;
     st \<leftarrow> (if potError = E_OK \<and> WatchdogMode t \<noteq> WDGIF_OFF_MODE
           then WdgIf_SetTriggerCondition bld DeviceIndex (TriggerConditionValue t) st else Some st);
     if potError \<noteq> E_OK
     then Some (E_NOT_OK, WDGM_REPORT_DEM_ERROR bld errID (st\<lparr>GlobalState := WDGM_GLOBAL_STATUS_STOPPED\<rparr>))
     else activate_loop bld cfg errID ts st }"

definition WdgM_internal_activateTriggers ::
  "WdgM_build \<Rightarrow> WdgM_Mode \<Rightarrow> uint16 \<Rightarrow> WdgM_internalData \<Rightarrow> (Std_ReturnType \<times> WdgM_internalData) ub" where
  "WdgM_internal_activateTriggers bld m errID st = do {
     cfg \<leftarrow> deref (ConfigPtr st);
     activate_loop bld cfg errID (Triggers m) st }"

text \<open>The loop that sets the trigger condition of every configured watchdog to 0.\<close>

definition stop_watchdogs :: "WdgM_build \<Rightarrow> WdgM_ConfigType \<Rightarrow> WdgM_internalData \<Rightarrow> WdgM_internalData ub" where
  "stop_watchdogs bld cfg =
     for_each (\<lambda>w. WdgIf_SetTriggerCondition bld (WatchdogDeviceId w) 0) (Watchdogs cfg)"

section \<open>The interface of the module\<close>

definition WDGM_CHECK_INIT_NR :: "WdgM_build \<Rightarrow> uint8 \<Rightarrow> WdgM_internalData \<Rightarrow> WdgM_internalData" where
  "WDGM_CHECK_INIT_NR bld functionID st =
     (if WDGM_DEFENSIVE_BEHAVIOR bld then WDGM_REPORT_DET_ERROR bld functionID WDGM_E_NO_INIT st else st)"

definition SetModeEventId :: "WdgM_build \<Rightarrow> WdgM_ConfigType \<Rightarrow> uint16" where
  "SetModeEventId bld cfg = (if USE_DEM bld then SetModeEvent (DemEventIdRefs cfg) else 0)"

definition WdgM_Init ::
  "WdgM_build \<Rightarrow> WdgM_ConfigType ptr \<Rightarrow> WdgM_internalData \<Rightarrow> WdgM_internalData ub" where
  "WdgM_Init bld cfgPtr st =
     (case cfgPtr of
        None \<Rightarrow> Some (WDGM_REPORT_DET_ERROR bld WDGM_SID_INIT WDGM_E_INV_POINTER st)
      | Some cfg \<Rightarrow>
          if isInitiated st then Some st
          else do {
            let st = st\<lparr>ConfigPtr := Some cfg\<rparr>;
            initialMode \<leftarrow> rd (Modes cfg) (unat (initialModeId cfg));
            (status, st) \<leftarrow>
              (if WDGM_OFF_MODE_ENABLED bld then Some (True, st)
               else WdgM_internal_isAtLeastOneWdogEnabled bld cfg (ModeId initialMode) WDGM_SID_INIT
                      WDGM_E_DISABLE_NOT_ALLOWED st);
            if \<not> status then Some st
            else do {
              st \<leftarrow> for_each WdgM_internal_DeactivateAndResetSE [0..<length (SupervisedEntities cfg)] st;
              st \<leftarrow> for_each (\<lambda>c st. do {
                      rse \<leftarrow> rd (SEs st) (unat (SupervisedEntityId c));
                      set_se (unat (SupervisedEntityId c)) (rse\<lparr>LocalState := WDGM_LOCAL_STATUS_OK\<rparr>) st })
                    (SEConfigurations initialMode) st;
              st \<leftarrow> reset_mode (unat (ModeId initialMode)) st;
              let st = st\<lparr>GlobalState := WDGM_GLOBAL_STATUS_OK, isFirstExpiredSet := False,
                          firstExpiredSEID := 0, CurrentMode := unat (initialModeId cfg),
                          ResetInitiated := False, CurrentTime := 0\<rparr>;
              (ret, st) \<leftarrow> WdgM_internal_activateTriggers bld initialMode (SetModeEventId bld cfg) st;
              Some (if ret = E_OK then st\<lparr>isInitiated := True\<rparr> else st) } })"

definition WdgM_DeInit :: "WdgM_build \<Rightarrow> WdgM_internalData \<Rightarrow> WdgM_internalData ub" where
  "WdgM_DeInit bld st =
     (if \<not> isInitiated st then Some (WDGM_CHECK_INIT_NR bld WDGM_SID_DEINIT st)
      else if GlobalState st = WDGM_GLOBAL_STATUS_OK then do {
        let st = st\<lparr>GlobalState := WDGM_GLOBAL_STATUS_DEACTIVATED\<rparr>;
        (ret, st) \<leftarrow> WdgM_internal_deactivateCurrentTriggers bld 0 st;
        if ret = E_OK then do {
          cfg \<leftarrow> deref (ConfigPtr st);
          st \<leftarrow> stop_watchdogs bld cfg st;
          Some (st\<lparr>isInitiated := False\<rparr>) }
        else Some st }
      else Some st)"

text \<open>
  The loop of \<^verbatim>\<open>WdgM_SetMode\<close> over the configurations of the new mode: entities before the next
  configured one are deactivated, the configured one is activated if it was not active, and the
  entities after the last one are deactivated. \<open>ids\<close> are the identifiers of the configurations
  that are left.
\<close>

fun switch_loop :: "nat \<Rightarrow> nat list \<Rightarrow> nat \<Rightarrow> WdgM_internalData \<Rightarrow> WdgM_internalData ub" where
  "switch_loop n [] SEIndex st =
     for_each WdgM_internal_DeactivateAndResetSE [SEIndex..<n] st"
| "switch_loop n (untilID # ids) SEIndex st = do {
     st \<leftarrow> for_each WdgM_internal_DeactivateAndResetSE [SEIndex..<untilID] st;
     let SEIndex = max SEIndex untilID;
     rse \<leftarrow> rd (SEs st) SEIndex;
     st \<leftarrow> (if LocalState rse = WDGM_LOCAL_STATUS_DEACTIVATED
           then set_se SEIndex (rse\<lparr>LocalState := WDGM_LOCAL_STATUS_OK\<rparr>) st else Some st);
     switch_loop n ids (Suc SEIndex) st }"

definition WdgM_SetMode ::
  "WdgM_build \<Rightarrow> uint8 \<Rightarrow> uint16 \<Rightarrow> WdgM_internalData \<Rightarrow> (Std_ReturnType \<times> WdgM_internalData) ub" where
  "WdgM_SetMode bld Mode CallerID st =
     (if \<not> isInitiated st then Some (E_NOT_OK, WDGM_REPORT_DET_ERROR bld WDGM_SID_SETMODE WDGM_E_NO_INIT st)
      else do {
        cfg \<leftarrow> deref (ConfigPtr st);
        if unat Mode \<ge> length (Modes cfg)
        then Some (E_NOT_OK, WDGM_REPORT_DET_ERROR bld WDGM_SID_SETMODE WDGM_E_PARAM_MODE st)
        else do {
          (status, st) \<leftarrow>
            (if WDGM_OFF_MODE_ENABLED bld then Some (True, st)
             else WdgM_internal_isAtLeastOneWdogEnabled bld cfg Mode WDGM_SID_SETMODE
                    WDGM_E_DISABLE_NOT_ALLOWED st);
          if \<not> status then Some (E_NOT_OK, st)
          else do {
            let (status, st) =
              (if WDGM_DEFENSIVE_BEHAVIOR bld then WdgM_internal_isAllowedForCalling bld cfg CallerID st
               else (True, st));
            if \<not> status then Some (E_NOT_OK, st)
            else if GlobalState st = WDGM_GLOBAL_STATUS_OK \<or> GlobalState st = WDGM_GLOBAL_STATUS_FAILED then do {
              newMode \<leftarrow> rd (Modes cfg) (unat Mode);
              st \<leftarrow> switch_loop (length (SupervisedEntities cfg))
                     (map (\<lambda>c. unat (SupervisedEntityId c)) (SEConfigurations newMode)) 0 st;
              cm \<leftarrow> rd (Modes cfg) (CurrentMode st);
              st \<leftarrow> reset_mode (unat (ModeId cm)) st;
              (retVal, st) \<leftarrow> WdgM_internal_deactivateCurrentTriggers bld (SetModeEventId bld cfg) st;
              (retVal, st) \<leftarrow>
                (if retVal = E_OK then WdgM_internal_activateTriggers bld newMode (SetModeEventId bld cfg) st
                 else Some (retVal, st));
              Some (retVal, st\<lparr>CurrentMode := unat Mode\<rparr>) }
            else Some (E_OK, st) } } })"

definition WdgM_GetMode ::
  "WdgM_build \<Rightarrow> uint8 ptr \<Rightarrow> WdgM_internalData \<Rightarrow> (Std_ReturnType \<times> uint8 ptr \<times> WdgM_internalData) ub" where
  "WdgM_GetMode bld Mode st =
     (if \<not> isInitiated st
      then Some (E_NOT_OK, Mode, WDGM_REPORT_DET_ERROR bld WDGM_SID_GETMODE WDGM_E_NO_INIT st)
      else if Mode = None
      then Some (E_NOT_OK, Mode, WDGM_REPORT_DET_ERROR bld WDGM_SID_GETMODE WDGM_E_INV_POINTER st)
      else do {
        cfg \<leftarrow> deref (ConfigPtr st);
        cm \<leftarrow> rd (Modes cfg) (CurrentMode st);
        Some (E_OK, Some (ModeId cm), st) })"

definition WdgM_CheckpointReached ::
  "WdgM_build \<Rightarrow> uint16 \<Rightarrow> uint16 \<Rightarrow> WdgM_internalData \<Rightarrow> (Std_ReturnType \<times> WdgM_internalData) ub" where
  "WdgM_CheckpointReached bld SEID CheckpointID st =
     (if \<not> isInitiated st
      then Some (E_NOT_OK, WDGM_REPORT_DET_ERROR bld WDGM_SID_CHECKPOINTREACHED WDGM_E_NO_INIT st)
      else do {
        cfg \<leftarrow> deref (ConfigPtr st);
        if unat SEID > length (SupervisedEntities cfg)
        then Some (E_NOT_OK, WDGM_REPORT_DET_ERROR bld WDGM_SID_CHECKPOINTREACHED WDGM_E_PARAM_SEID st)
        else do {
          se \<leftarrow> rd (SupervisedEntities cfg) (unat SEID);
          if unat CheckpointID > length (CheckpointIds se)
          then Some (E_NOT_OK, WDGM_REPORT_DET_ERROR bld WDGM_SID_CHECKPOINTREACHED WDGM_E_CPID st)
          else do {
            rse \<leftarrow> rd (SEs st) (unat SEID);
            if LocalState rse \<noteq> WDGM_LOCAL_STATUS_DEACTIVATED then do {
              cm \<leftarrow> rd (Modes cfg) (CurrentMode st);
              i \<leftarrow> find (\<lambda>i. SupervisedEntityId (SEConfigurations cm ! i) = SEID)
                     [0..<length (SEConfigurations cm)];
              let seConf = SEConfigurations cm ! i;
              rsc \<leftarrow> get_rsc (unat (ModeId cm)) i st;
              rsc \<leftarrow> WdgM_internal_AliveMonitoring seConf rsc CheckpointID;
              (result, rse, rsc) \<leftarrow>
                WdgM_internal_DeadlineMonitoring (CurrentTime st) rse seConf rsc CheckpointID;
              let rse = rse\<lparr>SubstateDeadline := result\<rparr>;
              let rse = (if CheckInternalLogic seConf
                         then let (r, rse) = WdgM_internal_LogicalMonitoring se rse CheckpointID
                              in rse\<lparr>SubstateLogical := r\<rparr>
                         else rse);
              st \<leftarrow> set_rsc (unat (ModeId cm)) i rsc st;
              st \<leftarrow> set_se (unat SEID) rse st;
              Some (E_OK, st) }
            else Some (E_NOT_OK, WDGM_REPORT_DET_ERROR bld WDGM_SID_CHECKPOINTREACHED WDGM_E_SEDEACTIVATED st) } } })"

definition WdgM_UpdateAliveCounter ::
  "WdgM_build \<Rightarrow> uint16 \<Rightarrow> WdgM_internalData \<Rightarrow> (Std_ReturnType \<times> WdgM_internalData) ub" where
  "WdgM_UpdateAliveCounter bld SEID st =
     (if \<not> isInitiated st
      then Some (E_NOT_OK, WDGM_REPORT_DET_ERROR bld WDGM_SID_UPDATEALIVECOUNTER WDGM_E_NO_INIT st)
      else do {
        let st = WDGM_REPORT_DET_ERROR bld WDGM_SID_UPDATEALIVECOUNTER WDGM_E_DEPRECATED st;
        cfg \<leftarrow> deref (ConfigPtr st);
        cm \<leftarrow> rd (Modes cfg) (CurrentMode st);
        case find (\<lambda>c. SupervisedEntityId c = SEID) (SEConfigurations cm) of
          None \<Rightarrow> Some (E_NOT_OK, WDGM_REPORT_DET_ERROR bld WDGM_SID_UPDATEALIVECOUNTER WDGM_E_PARAM_SEID st)
        | Some c \<Rightarrow>
            (case AliveSupervisions c of
               [] \<Rightarrow> Some (E_NOT_OK, st)
             | [a] \<Rightarrow> WdgM_CheckpointReached bld SEID (CheckpointId a) st
             | _ \<Rightarrow> Some (E_NOT_OK,
                      WDGM_REPORT_DET_ERROR bld WDGM_SID_UPDATEALIVECOUNTER WDGM_E_AMBIGIOUS st)) })"

definition WdgM_GetLocalStatus ::
  "WdgM_build \<Rightarrow> uint16 \<Rightarrow> WdgM_LocalStatusType ptr \<Rightarrow> WdgM_internalData \<Rightarrow>
   (Std_ReturnType \<times> WdgM_LocalStatusType ptr \<times> WdgM_internalData) ub" where
  "WdgM_GetLocalStatus bld SEID Status st =
     (if \<not> isInitiated st
      then Some (E_NOT_OK, Status, WDGM_REPORT_DET_ERROR bld WDGM_SID_GETLOCALSTATUS WDGM_E_NO_INIT st)
      else if Status = None
      then Some (E_NOT_OK, Status, WDGM_REPORT_DET_ERROR bld WDGM_SID_GETLOCALSTATUS WDGM_E_INV_POINTER st)
      else do {
        cfg \<leftarrow> deref (ConfigPtr st);
        if unat SEID > length (SupervisedEntities cfg)
        then Some (E_NOT_OK, Status, WDGM_REPORT_DET_ERROR bld WDGM_SID_GETLOCALSTATUS WDGM_E_PARAM_SEID st)
        else do { rse \<leftarrow> rd (SEs st) (unat SEID); Some (E_OK, Some (LocalState rse), st) } })"

definition WdgM_GetGlobalStatus ::
  "WdgM_build \<Rightarrow> WdgM_GlobalStatusType ptr \<Rightarrow> WdgM_internalData \<Rightarrow>
   Std_ReturnType \<times> WdgM_GlobalStatusType ptr \<times> WdgM_internalData" where
  "WdgM_GetGlobalStatus bld Status st =
     (if \<not> isInitiated st
      then (E_NOT_OK, Status, WDGM_REPORT_DET_ERROR bld WDGM_SID_GETGLOBALSTATUS WDGM_E_NO_INIT st)
      else if Status = None
      then (E_NOT_OK, Status, WDGM_REPORT_DET_ERROR bld WDGM_SID_GETGLOBALSTATUS WDGM_E_INV_POINTER st)
      else (E_OK, Some (GlobalState st), st))"

definition WdgM_PerformReset :: "WdgM_build \<Rightarrow> WdgM_internalData \<Rightarrow> WdgM_internalData ub" where
  "WdgM_PerformReset bld st =
     (if \<not> isInitiated st then Some (WDGM_CHECK_INIT_NR bld WDGM_SID_PERFORMRESET st)
      else if ResetInitiated st then Some st
      else do {
        let st = st\<lparr>ResetInitiated := True\<rparr>;
        cfg \<leftarrow> deref (ConfigPtr st);
        stop_watchdogs bld cfg st })"

definition WdgM_GetFirstExpiredSEID ::
  "WdgM_build \<Rightarrow> uint16 ptr \<Rightarrow> WdgM_internalData \<Rightarrow> Std_ReturnType \<times> uint16 ptr \<times> WdgM_internalData" where
  "WdgM_GetFirstExpiredSEID bld SEID st =
     (if SEID = None
      then (E_NOT_OK, SEID, WDGM_REPORT_DET_ERROR bld WDGM_SID_GETFIRSTEXPIREDSEID WDGM_E_INV_POINTER st)
      else if isFirstExpiredSet st then (E_OK, Some (firstExpiredSEID st), st)
      else (E_NOT_OK, SEID, st))"

text \<open>The loop at the end of \<^verbatim>\<open>WdgM_MainFunction\<close> that sets the trigger conditions.\<close>

definition set_triggers ::
  "WdgM_build \<Rightarrow> WdgM_ConfigType \<Rightarrow> WdgM_Trigger list \<Rightarrow> WdgM_internalData \<Rightarrow> WdgM_internalData ub" where
  "set_triggers bld cfg =
     for_each (\<lambda>t st.
       if WatchdogMode t \<noteq> WDGIF_OFF_MODE then do {
         DeviceIndex \<leftarrow> device_of cfg t;
         WdgIf_SetTriggerCondition bld DeviceIndex
           (if GlobalState st = WDGM_GLOBAL_STATUS_STOPPED then 0 else TriggerConditionValue t) st }
       else Some st)"

definition WdgM_MainFunction :: "WdgM_build \<Rightarrow> WdgM_internalData \<Rightarrow> WdgM_internalData ub" where
  "WdgM_MainFunction bld st =
     (if \<not> isInitiated st then Some (WDGM_CHECK_INIT_NR bld WDGM_SID_MAINFUNCTION st)
      else if GlobalState st = WDGM_GLOBAL_STATUS_DEACTIVATED then Some st
      else do {
        cfg \<leftarrow> deref (ConfigPtr st);
        cm \<leftarrow> rd (Modes cfg) (CurrentMode st);
        let st = st\<lparr>CurrentTime := CurrentTime st + SupervisionCycle cm\<rparr>;
        st \<leftarrow> WdgM_internal_CheckAlives cm st;
        st \<leftarrow> WdgM_internal_CalculateGlobalState cm st;
        let st = (if GlobalState st = WDGM_GLOBAL_STATUS_STOPPED then
                    let st = (if WDGM_DEM_ALIVE_SUPERVISION_REPORT bld
                              then WDGM_REPORT_DEM_ERROR bld (Monitoring (DemEventIdRefs cfg)) st else st)
                    in if WDGM_IMMEDIATE_RESET bld then wd_call McuReset st else st
                  else st);
        set_triggers bld cfg (Triggers cm) st })"

end
