(* ===== verification/WdgM_Correct.thy ===== *)
theory WdgM_Correct
  imports WdgM
begin

text \<open>
  Correctness of the watchdog manager. A well-formed configuration and runtime arrays of the
  matching shape are what the generator of the configuration provides; under them no call faults,
  and the states the calls reach satisfy the invariant below.
\<close>

section \<open>Configuration and shape of the runtime data\<close>

definition mode_ids :: "WdgM_Mode \<Rightarrow> nat list" where
  "mode_ids m = map (\<lambda>c. unat (SupervisedEntityId c)) (SEConfigurations m)"

definition mode_ok :: "WdgM_ConfigType \<Rightarrow> WdgM_Mode \<Rightarrow> bool" where
  "mode_ok cfg m \<longleftrightarrow>
     sorted_wrt (<) (mode_ids m) \<and> list_all (\<lambda>s. s < length (SupervisedEntities cfg)) (mode_ids m) \<and>
     list_all (\<lambda>t. unat (TriggerWatchdogId t) < length (Watchdogs cfg)) (Triggers m)"

definition wdgm_config_ok :: "WdgM_build \<Rightarrow> WdgM_ConfigType \<Rightarrow> bool" where
  "wdgm_config_ok bld cfg \<longleftrightarrow>
     length (SupervisedEntities cfg) < 65536 \<and>
     map (\<lambda>m. unat (ModeId m)) (Modes cfg) = [0..<length (Modes cfg)] \<and>
     unat (initialModeId cfg) < length (Modes cfg) \<and>
     list_all (mode_ok cfg) (Modes cfg) \<and>
     list_all (\<lambda>w. WatchdogDeviceId w < WdgIf_NumberOfDevices bld) (Watchdogs cfg)"

definition seconf_shape :: "WdgM_SupervisedEntityConfiguration \<Rightarrow> WdgM_internal_SupervisedEntityConfig \<Rightarrow> bool" where
  "seconf_shape c rsc \<longleftrightarrow>
     length (RtAliveSupervisions rsc) = length (AliveSupervisions c) \<and>
     length (RtDeadlineSupervisions rsc) = length (DeadlineSupervisions c)"

definition rt_shape :: "WdgM_ConfigType \<Rightarrow> WdgM_internalData \<Rightarrow> bool" where
  "rt_shape cfg st \<longleftrightarrow>
     length (SEs st) = length (SupervisedEntities cfg) \<and>
     list_all2 (\<lambda>m rm. list_all2 seconf_shape (SEConfigurations m) (SE_Configs rm)) (Modes cfg) (RtModes st)"

lemma config_ModeId: "wdgm_config_ok bld cfg \<Longrightarrow> k < length (Modes cfg) \<Longrightarrow> unat (ModeId (Modes cfg ! k)) = k"
proof -
  assume "wdgm_config_ok bld cfg" and k: "k < length (Modes cfg)"
  then have "map (\<lambda>m. unat (ModeId m)) (Modes cfg) ! k = [0..<length (Modes cfg)] ! k"
    by (simp only: wdgm_config_ok_def)
  then show ?thesis using k by simp
qed

lemma config_mode_ok: "wdgm_config_ok bld cfg \<Longrightarrow> k < length (Modes cfg) \<Longrightarrow> mode_ok cfg (Modes cfg ! k)"
  by (simp add: wdgm_config_ok_def list_all_length)

lemma mode_ids_less: "mode_ok cfg m \<Longrightarrow> s \<in> set (mode_ids m) \<Longrightarrow> s < length (SupervisedEntities cfg)"
  by (simp add: mode_ok_def list_all_iff)

lemma mode_ids_nth: "i < length (SEConfigurations m) \<Longrightarrow>
    mode_ids m ! i = unat (SupervisedEntityId (SEConfigurations m ! i))"
  by (simp add: mode_ids_def)

lemma length_mode_ids [simp]: "length (mode_ids m) = length (SEConfigurations m)"
  by (simp add: mode_ids_def)

lemma mode_ids_distinct: "mode_ok cfg m \<Longrightarrow> distinct (mode_ids m)"
  unfolding mode_ok_def using strict_sorted_iff by blast

lemma mode_ids_length_le: "mode_ok cfg m \<Longrightarrow> length (SEConfigurations m) \<le> length (SupervisedEntities cfg)"
proof -
  assume ok: "mode_ok cfg m"
  have "card (set (mode_ids m)) \<le> card {..<length (SupervisedEntities cfg)}"
    using mode_ids_less [OF ok] by (intro card_mono) auto
  then show ?thesis using distinct_card [OF mode_ids_distinct [OF ok]] by simp
qed

lemma se_id_less:
  "mode_ok cfg m \<Longrightarrow> rt_shape cfg st \<Longrightarrow> i < length (SEConfigurations m) \<Longrightarrow>
     unat (SupervisedEntityId (SEConfigurations m ! i)) < length (SEs st)"
  using mode_ids_less [of cfg m "mode_ids m ! i"] nth_mem [of i "mode_ids m"]
  by (simp add: rt_shape_def mode_ids_nth)

section \<open>Runtime data of one configuration\<close>

abbreviation the_rsc :: "nat \<Rightarrow> nat \<Rightarrow> WdgM_internalData \<Rightarrow> WdgM_internal_SupervisedEntityConfig" where
  "the_rsc k i st \<equiv> SE_Configs (RtModes st ! k) ! i"

abbreviation upd_rsc :: "nat \<Rightarrow> nat \<Rightarrow> WdgM_internal_SupervisedEntityConfig \<Rightarrow> WdgM_internalData \<Rightarrow> WdgM_internalData" where
  "upd_rsc k i rsc st \<equiv>
     st\<lparr>RtModes := (RtModes st)[k := (RtModes st ! k)\<lparr>SE_Configs := (SE_Configs (RtModes st ! k))[i := rsc]\<rparr>]\<rparr>"

lemma shape_nth:
  assumes "rt_shape cfg st" and "k < length (Modes cfg)"
  shows "k < length (RtModes st)" and "length (SE_Configs (RtModes st ! k)) = length (SEConfigurations (Modes cfg ! k))"
    and "i < length (SEConfigurations (Modes cfg ! k)) \<Longrightarrow>
           seconf_shape (SEConfigurations (Modes cfg ! k) ! i) (the_rsc k i st)"
  using assms by (auto simp: rt_shape_def list_all2_conv_all_nth)

lemma get_rsc_eq:
  "rt_shape cfg st \<Longrightarrow> k < length (Modes cfg) \<Longrightarrow> i < length (SEConfigurations (Modes cfg ! k)) \<Longrightarrow>
     get_rsc k i st = Some (the_rsc k i st)"
  by (simp add: get_rsc_def ub_simps shape_nth)

lemma set_rsc_eq:
  "rt_shape cfg st \<Longrightarrow> k < length (Modes cfg) \<Longrightarrow> i < length (SEConfigurations (Modes cfg ! k)) \<Longrightarrow>
     set_rsc k i rsc st = Some (upd_rsc k i rsc st)"
  by (simp add: set_rsc_def ub_simps shape_nth)

lemma set_se_eq: "i < length (SEs st) \<Longrightarrow> set_se i rse st = Some (st\<lparr>SEs := (SEs st)[i := rse]\<rparr>)"
  by (simp add: set_se_def ub_simps)

lemma upd_rsc_same: "k < length (RtModes st) \<Longrightarrow> upd_rsc k i (the_rsc k i st) st = st"
  by simp

lemma rt_shape_upd_rsc:
  assumes "rt_shape cfg st" and "k < length (Modes cfg)" and "i < length (SEConfigurations (Modes cfg ! k))"
    and "seconf_shape (SEConfigurations (Modes cfg ! k) ! i) rsc"
  shows "rt_shape cfg (upd_rsc k i rsc st)"
  using assms unfolding rt_shape_def list_all2_conv_all_nth by (auto simp: nth_list_update)

lemma rt_shape_upd_se [simp]: "rt_shape cfg (st\<lparr>SEs := (SEs st)[i := rse]\<rparr>) = rt_shape cfg st"
  by (simp add: rt_shape_def)

lemma rt_shape_other [simp]:
  "rt_shape cfg (st\<lparr>GlobalState := g\<rparr>) = rt_shape cfg st"
  "rt_shape cfg (st\<lparr>wd_calls := cs\<rparr>) = rt_shape cfg st"
  "rt_shape cfg (st\<lparr>CurrentTime := t\<rparr>) = rt_shape cfg st"
  "rt_shape cfg (st\<lparr>CurrentMode := md\<rparr>) = rt_shape cfg st"
  "rt_shape cfg (st\<lparr>ResetInitiated := b\<rparr>) = rt_shape cfg st"
  "rt_shape cfg (st\<lparr>isInitiated := b\<rparr>) = rt_shape cfg st"
  "rt_shape cfg (st\<lparr>ConfigPtr := p\<rparr>) = rt_shape cfg st"
  "rt_shape cfg (st\<lparr>firstExpiredSEID := f\<rparr>) = rt_shape cfg st"
  "rt_shape cfg (st\<lparr>isFirstExpiredSet := b\<rparr>) = rt_shape cfg st"
  by (simp_all add: rt_shape_def)

section \<open>Calls that leave the module\<close>

text \<open>
  A report or a driver call appends to the trace, and the trigger loops may also stop the global
  state; nothing else changes.
\<close>

definition only_calls :: "WdgM_internalData \<Rightarrow> WdgM_internalData \<Rightarrow> bool" where
  "only_calls st st' \<longleftrightarrow> (\<exists>cs. st' = st\<lparr>wd_calls := wd_calls st @ cs\<rparr>)"

lemma only_calls_refl [simp]: "only_calls st st"
  unfolding only_calls_def by (rule exI [of _ "[]"]) simp

lemma only_calls_wd_call [simp]: "only_calls st (wd_call c st)"
  by (auto simp: only_calls_def wd_call_def)

lemma only_calls_append [simp]: "only_calls st (st\<lparr>wd_calls := wd_calls st @ cs\<rparr>)"
  by (auto simp: only_calls_def)

lemma only_calls_trans: "only_calls a b \<Longrightarrow> only_calls b c \<Longrightarrow> only_calls a c"
  by (auto simp: only_calls_def)

lemma only_calls_reports [simp]:
  "only_calls st (WDGM_REPORT_DET_ERROR bld a e st)" "only_calls st (WDGM_REPORT_DEM_ERROR bld ev st)"
  "only_calls st (WDGM_CHECK_INIT_NR bld a st)"
  by (auto simp: WDGM_REPORT_DET_ERROR_def WDGM_REPORT_DEM_ERROR_def WDGM_CHECK_INIT_NR_def)

lemma only_calls_fields:
  assumes "only_calls st st'"
  shows "SEs st' = SEs st" "RtModes st' = RtModes st" "GlobalState st' = GlobalState st"
    "CurrentMode st' = CurrentMode st" "isInitiated st' = isInitiated st" "ConfigPtr st' = ConfigPtr st"
    "CurrentTime st' = CurrentTime st" "ResetInitiated st' = ResetInitiated st"
    "isFirstExpiredSet st' = isFirstExpiredSet st" "firstExpiredSEID st' = firstExpiredSEID st"
    "rt_shape cfg st' = rt_shape cfg st"
  using assms by (auto simp: only_calls_def)

text \<open>The effect of a trigger loop with result \<open>r\<close>.\<close>

abbreviation halt_unless :: "Std_ReturnType \<Rightarrow> WdgM_internalData \<Rightarrow> WdgM_internalData" where
  "halt_unless r st \<equiv> (if r = E_OK then st else st\<lparr>GlobalState := WDGM_GLOBAL_STATUS_STOPPED\<rparr>)"

lemma only_calls_GlobalState:
  "only_calls st st1 \<Longrightarrow> only_calls (st\<lparr>GlobalState := g\<rparr>) (st1\<lparr>GlobalState := g\<rparr>)"
  by (cases st) (auto simp: only_calls_def)

lemma only_calls_halt: "only_calls st st1 \<Longrightarrow> only_calls (halt_unless r st1) st' \<Longrightarrow> only_calls (halt_unless r st) st'"
  by (auto intro: only_calls_trans [OF only_calls_GlobalState] only_calls_trans)

lemma only_calls_halt_report:
  "only_calls (st\<lparr>GlobalState := WDGM_GLOBAL_STATUS_STOPPED\<rparr>)
     (WDGM_REPORT_DEM_ERROR bld ev ((wd_call c st)\<lparr>GlobalState := WDGM_GLOBAL_STATUS_STOPPED\<rparr>))"
  by (rule only_calls_trans [OF only_calls_GlobalState [OF only_calls_wd_call [of st c]]]) simp

lemma WdgIf_SetMode_total:
  "DeviceIndex < WdgIf_NumberOfDevices bld \<Longrightarrow>
     WdgIf_SetMode bld DeviceIndex md st =
       Some (Wdg_SetMode bld DeviceIndex md, wd_call (WdgSetMode DeviceIndex md) st)"
  by (simp add: WdgIf_SetMode_def)

lemma WdgIf_SetTriggerCondition_total:
  "DeviceIndex < WdgIf_NumberOfDevices bld \<Longrightarrow>
     WdgIf_SetTriggerCondition bld DeviceIndex v st = Some (wd_call (WdgTrigger DeviceIndex v) st)"
  by (simp add: WdgIf_SetTriggerCondition_def)

lemma device_of_total:
  assumes "wdgm_config_ok bld cfg" and "unat (TriggerWatchdogId t) < length (Watchdogs cfg)"
  shows "\<exists>d. device_of cfg t = Some d \<and> d < WdgIf_NumberOfDevices bld"
  using assms by (auto simp: device_of_def ub_simps wdgm_config_ok_def list_all_length)

lemma deactivate_loop_total:
  assumes "wdgm_config_ok bld cfg" and "list_all (\<lambda>t. unat (TriggerWatchdogId t) < length (Watchdogs cfg)) ts"
  shows "\<exists>r st'. deactivate_loop bld cfg ev ts st = Some (r, st') \<and>
only_calls (halt_unless r st) st'"
  using assms(2)
proof (induction ts arbitrary: st)
  case (Cons t ts)
  obtain d where d: "device_of cfg t = Some d" "d < WdgIf_NumberOfDevices bld"
    using device_of_total [OF assms(1), of t] Cons.prems by auto
  show ?case
  proof (cases "Wdg_SetMode bld d WDGIF_OFF_MODE = E_OK")
    case True
    let ?st = "wd_call (WdgSetMode d WDGIF_OFF_MODE) st"
    obtain r st' where "deactivate_loop bld cfg ev ts ?st = Some (r, st')" "only_calls (halt_unless r ?st) st'"
      using Cons.IH [of ?st] Cons.prems by auto
    then show ?thesis
      using only_calls_halt [OF only_calls_wd_call] True d by (simp add: WdgIf_SetMode_total)
  next
    case False
    then show ?thesis using d
      by (simp add: WdgIf_SetMode_total only_calls_halt_report)
  qed
qed simp

lemma activate_loop_total:
  assumes "wdgm_config_ok bld cfg" and "list_all (\<lambda>t. unat (TriggerWatchdogId t) < length (Watchdogs cfg)) ts"
  shows "\<exists>r st'. activate_loop bld cfg ev ts st = Some (r, st') \<and>
only_calls (halt_unless r st) st'"
  using assms(2)
proof (induction ts arbitrary: st)
  case (Cons t ts)
  obtain d where d: "device_of cfg t = Some d" "d < WdgIf_NumberOfDevices bld"
    using device_of_total [OF assms(1), of t] Cons.prems by auto
  show ?case
  proof (cases "Wdg_SetMode bld d (WatchdogMode t) = E_OK")
    case True
    define st1 where "st1 = (let st = wd_call (WdgSetMode d (WatchdogMode t)) st in
      if WatchdogMode t \<noteq> WDGIF_OFF_MODE then wd_call (WdgTrigger d (TriggerConditionValue t)) st else st)"
    have st1: "only_calls st st1"
      unfolding st1_def Let_def by (auto intro: only_calls_trans [OF only_calls_wd_call only_calls_wd_call])
    obtain r st' where "activate_loop bld cfg ev ts st1 = Some (r, st')" "only_calls (halt_unless r st1) st'"
      using Cons.IH [of st1] Cons.prems by auto
    moreover have "activate_loop bld cfg ev (t # ts) st = activate_loop bld cfg ev ts st1"
      using d True by (simp add: WdgIf_SetMode_total WdgIf_SetTriggerCondition_total st1_def)
    ultimately show ?thesis using only_calls_halt [OF st1] by simp
  next
    case False
    then show ?thesis using d
      by (simp add: WdgIf_SetMode_total only_calls_halt_report)
  qed
qed simp

text \<open>
  The result of the trigger loops is decided by the drivers: the loops are successful exactly if every
  driver accepts its mode, and then they make exactly the calls of their triggers.
\<close>

definition trigger_device :: "WdgM_ConfigType \<Rightarrow> WdgM_Trigger \<Rightarrow> uint8" where
  "trigger_device cfg t = WatchdogDeviceId (Watchdogs cfg ! unat (TriggerWatchdogId t))"

definition modes_accepted :: "WdgM_build \<Rightarrow> WdgM_ConfigType \<Rightarrow> (WdgM_Trigger \<Rightarrow> WdgIf_ModeType) \<Rightarrow> WdgM_Trigger list \<Rightarrow> bool" where
  "modes_accepted bld cfg m ts = list_all (\<lambda>t. Wdg_SetMode bld (trigger_device cfg t) (m t) = E_OK) ts"

definition off_calls :: "WdgM_ConfigType \<Rightarrow> WdgM_Trigger list \<Rightarrow> WdgM_Call list" where
  "off_calls cfg ts = map (\<lambda>t. WdgSetMode (trigger_device cfg t) WDGIF_OFF_MODE) ts"

definition mode_calls :: "WdgM_ConfigType \<Rightarrow> WdgM_Trigger list \<Rightarrow> WdgM_Call list" where
  "mode_calls cfg ts = concat (map (\<lambda>t. WdgSetMode (trigger_device cfg t) (WatchdogMode t) #
     (if WatchdogMode t = WDGIF_OFF_MODE then [] else [WdgTrigger (trigger_device cfg t) (TriggerConditionValue t)])) ts)"

lemma device_of_eq:
  assumes "wdgm_config_ok bld cfg" and "unat (TriggerWatchdogId t) < length (Watchdogs cfg)"
  shows "device_of cfg t = Some (trigger_device cfg t)" "trigger_device cfg t < WdgIf_NumberOfDevices bld"
  using assms by (auto simp: device_of_def ub_simps trigger_device_def wdgm_config_ok_def list_all_length)

lemma deactivate_loop_result:
  assumes "wdgm_config_ok bld cfg" and "list_all (\<lambda>t. unat (TriggerWatchdogId t) < length (Watchdogs cfg)) ts"
    and "deactivate_loop bld cfg ev ts st = Some (r, st')"
  shows "r = (if modes_accepted bld cfg (\<lambda>_. WDGIF_OFF_MODE) ts then E_OK else E_NOT_OK) \<and>
    (r = E_OK \<longrightarrow> wd_calls st' = wd_calls st @ off_calls cfg ts)"
  using assms(2,3)
proof (induction ts arbitrary: st)
  case (Cons t ts)
  then show ?case
    using device_of_eq [OF assms(1), of t] Cons.IH [of "wd_call (WdgSetMode (trigger_device cfg t) WDGIF_OFF_MODE) st"]
    by (auto simp: WdgIf_SetMode_total modes_accepted_def off_calls_def wd_call_def split: if_splits)
qed (simp add: modes_accepted_def off_calls_def)

lemma activate_loop_result:
  assumes "wdgm_config_ok bld cfg" and "list_all (\<lambda>t. unat (TriggerWatchdogId t) < length (Watchdogs cfg)) ts"
    and "activate_loop bld cfg ev ts st = Some (r, st')"
  shows "r = (if modes_accepted bld cfg WatchdogMode ts then E_OK else E_NOT_OK) \<and>
    (r = E_OK \<longrightarrow> wd_calls st' = wd_calls st @ mode_calls cfg ts)"
  using assms(2,3)
proof (induction ts arbitrary: st)
  case (Cons t ts)
  let ?d = "trigger_device cfg t"
  let ?st1 = "wd_call (WdgSetMode ?d (WatchdogMode t)) st"
  let ?st2 = "if WatchdogMode t = WDGIF_OFF_MODE then ?st1 else wd_call (WdgTrigger ?d (TriggerConditionValue t)) ?st1"
  have d: "device_of cfg t = Some ?d" "?d < WdgIf_NumberOfDevices bld"
    using device_of_eq [OF assms(1), of t] Cons.prems(1) by simp_all
  show ?case
  proof (cases "Wdg_SetMode bld ?d (WatchdogMode t) = E_OK")
    case True
    then have "activate_loop bld cfg ev ts ?st2 = Some (r, st')"
      using Cons.prems(2) d by (simp add: WdgIf_SetMode_total WdgIf_SetTriggerCondition_total split: if_splits)
    then show ?thesis
      using Cons.IH [of ?st2] Cons.prems(1) True by (simp add: modes_accepted_def mode_calls_def wd_call_def)
  next
    case False
    then show ?thesis
      using Cons.prems(2) d by (auto simp: WdgIf_SetMode_total modes_accepted_def split: if_splits)
  qed
qed (simp add: modes_accepted_def mode_calls_def)

text \<open>The loops that set trigger conditions, with the calls they make.\<close>

lemma stop_watchdogs_eq:
  assumes "list_all (\<lambda>w. WatchdogDeviceId w < WdgIf_NumberOfDevices bld) ws"
  shows "for_each (\<lambda>w. WdgIf_SetTriggerCondition bld (WatchdogDeviceId w) 0) ws st =
    Some (st\<lparr>wd_calls := wd_calls st @ map (\<lambda>w. WdgTrigger (WatchdogDeviceId w) 0) ws\<rparr>)"
  using assms
  by (induction ws arbitrary: st) (simp_all add: WdgIf_SetTriggerCondition_total wd_call_def)

definition trigger_calls :: "WdgM_ConfigType \<Rightarrow> bool \<Rightarrow> WdgM_Trigger list \<Rightarrow> WdgM_Call list" where
  "trigger_calls cfg stopped ts =
     map (\<lambda>t. WdgTrigger (WatchdogDeviceId (Watchdogs cfg ! unat (TriggerWatchdogId t)))
                (if stopped then 0 else TriggerConditionValue t))
       (filter (\<lambda>t. WatchdogMode t \<noteq> WDGIF_OFF_MODE) ts)"

lemma set_triggers_eq:
  assumes "wdgm_config_ok bld cfg" and "list_all (\<lambda>t. unat (TriggerWatchdogId t) < length (Watchdogs cfg)) ts"
  shows "set_triggers bld cfg ts st =
    Some (st\<lparr>wd_calls := wd_calls st @ trigger_calls cfg (GlobalState st = WDGM_GLOBAL_STATUS_STOPPED) ts\<rparr>)"
  using assms(2) unfolding set_triggers_def
proof (induction ts arbitrary: st)
  case (Cons t ts)
  have "device_of cfg t = Some (WatchdogDeviceId (Watchdogs cfg ! unat (TriggerWatchdogId t)))"
    and "WatchdogDeviceId (Watchdogs cfg ! unat (TriggerWatchdogId t)) < WdgIf_NumberOfDevices bld"
    using Cons.prems assms(1) by (auto simp: device_of_def ub_simps wdgm_config_ok_def list_all_length)
  then show ?case using Cons by (simp add: WdgIf_SetTriggerCondition_total wd_call_def trigger_calls_def)
qed (simp add: trigger_calls_def)

section \<open>The loops of the supervision\<close>

lemma alive_loop_total:
  assumes "a + length cps \<le> length (RtAliveSupervisions rsc)"
  shows "\<exists>rsc' r w. alive_loop a cps rsc r0 w0 = Some (rsc', r, w) \<and>
    length (RtAliveSupervisions rsc') = length (RtAliveSupervisions rsc) \<and>
    RtDeadlineSupervisions rsc' = RtDeadlineSupervisions rsc"
  using assms
proof (induction cps arbitrary: a rsc r0 w0)
  case (Cons cp cps)
  obtain t ra where h: "WdgM_internal_IsAliveHold cp ((RtAliveSupervisions rsc ! a)
      \<lparr>SupervisionCycleCounter := SupervisionCycleCounter (RtAliveSupervisions rsc ! a) + 1\<rparr>) = (t, ra)"
    by fastforce
  show ?case
    using Cons.IH [of "Suc a" "rsc\<lparr>RtAliveSupervisions := (RtAliveSupervisions rsc)[a := ra]\<rparr>"] Cons.prems h
    by (simp add: ub_simps)
qed simp

lemma deadline_loop_total:
  assumes "i + length ds \<le> length (RtDeadlineSupervisions rsc)"
  shows "\<exists>r p rsc'. deadline_loop now cp i ds rse rsc =
      Some (r, rse\<lparr>PreviousCheckpointId_Deadline := p\<rparr>, rsc') \<and>
    length (RtDeadlineSupervisions rsc') = length (RtDeadlineSupervisions rsc) \<and>
    RtAliveSupervisions rsc' = RtAliveSupervisions rsc"
  using assms
proof (induction ds arbitrary: i rse rsc)
  case Nil
  have "rse = rse\<lparr>PreviousCheckpointId_Deadline := PreviousCheckpointId_Deadline rse\<rparr>" by simp
  then show ?case unfolding deadline_loop.simps by blast
next
  case (Cons d ds)
  define rse1 where "rse1 = (if CheckpointIdStart d = cp then rse\<lparr>PreviousCheckpointId_Deadline := cp\<rparr> else rse)"
  define rsc1 where "rsc1 = (if CheckpointIdStart d = cp
    then rsc\<lparr>RtDeadlineSupervisions := (RtDeadlineSupervisions rsc)[i := \<lparr>TimestampStart = now\<rparr>]\<rparr> else rsc)"
  have rse1: "\<exists>p. rse1 = rse\<lparr>PreviousCheckpointId_Deadline := p\<rparr>"
    unfolding rse1_def by (cases rse) auto
  have len: "length (RtDeadlineSupervisions rsc1) = length (RtDeadlineSupervisions rsc)"
    "RtAliveSupervisions rsc1 = RtAliveSupervisions rsc" by (simp_all add: rsc1_def)
  have i: "i < length (RtDeadlineSupervisions rsc)" using Cons.prems by simp
  define rsc2 where "rsc2 = rsc1\<lparr>RtDeadlineSupervisions := (RtDeadlineSupervisions rsc1)[i := \<lparr>TimestampStart = 0\<rparr>]\<rparr>"
  have "deadline_loop now cp i (d # ds) rse rsc =
    (if CheckpointIdFinish d = cp \<and> TimestampStart (RtDeadlineSupervisions rsc1 ! i) \<noteq> 0
     then (if WdgM_internalIsDeadlineHold now d (RtDeadlineSupervisions rsc1 ! i) = WDGM_SUBSTATE_INCORRECT
           then Some (WDGM_SUBSTATE_INCORRECT, rse1, rsc1)
           else deadline_loop now cp (Suc i) ds (rse1\<lparr>PreviousCheckpointId_Deadline := cp\<rparr>) rsc2)
     else deadline_loop now cp (Suc i) ds rse1 rsc1)"
    using i len by (simp add: ub_simps rse1_def rsc1_def rsc2_def)
  then show ?case
    using Cons.IH [of "Suc i" rsc2 "rse1\<lparr>PreviousCheckpointId_Deadline := cp\<rparr>"] Cons.IH [of "Suc i" rsc1 rse1]
      Cons.prems len rse1 by (auto simp: rsc2_def)
qed

lemma AliveMonitoring_total:
  assumes "seconf_shape c rsc"
  shows "\<exists>rsc'. WdgM_internal_AliveMonitoring c rsc cp = Some rsc' \<and> seconf_shape c rsc'"
proof (cases "find (\<lambda>i. CheckpointId (AliveSupervisions c ! i) = cp) [0..<length (AliveSupervisions c)]")
  case (Some i)
  then have "i < length (AliveSupervisions c)" by (auto simp: find_Some_iff)
  then show ?thesis using assms Some by (simp add: WdgM_internal_AliveMonitoring_def ub_simps seconf_shape_def)
qed (use assms in \<open>simp add: WdgM_internal_AliveMonitoring_def\<close>)

section \<open>One supervision cycle\<close>

definition rt_frame :: "WdgM_internalData \<Rightarrow> WdgM_internalData \<Rightarrow> bool" where
  "rt_frame st st' \<longleftrightarrow> (\<exists>l m. st' = st\<lparr>SEs := l, RtModes := m\<rparr>)"

lemma rt_frame_refl [simp]: "rt_frame st st"
  by (cases st) (simp add: rt_frame_def)

lemma rt_frame_trans: "rt_frame a b \<Longrightarrow> rt_frame b c \<Longrightarrow> rt_frame a c"
  by (cases a) (auto simp: rt_frame_def)

lemma rt_frame_upd [simp]: "rt_frame st ((upd_rsc k i rsc st)\<lparr>SEs := l\<rparr>)" "rt_frame st (st\<lparr>SEs := l\<rparr>)"
  "rt_frame st (upd_rsc k i rsc st)"
  by (cases st; simp add: rt_frame_def)+

lemma rt_frame_fields:
  assumes "rt_frame st st'"
  shows "GlobalState st' = GlobalState st" "CurrentMode st' = CurrentMode st" "isInitiated st' = isInitiated st"
    "ConfigPtr st' = ConfigPtr st" "CurrentTime st' = CurrentTime st" "wd_calls st' = wd_calls st"
    "isFirstExpiredSet st' = isFirstExpiredSet st" "firstExpiredSEID st' = firstExpiredSEID st"
    "ResetInitiated st' = ResetInitiated st"
  using assms by (auto simp: rt_frame_def)

text \<open>What the alive supervision keeps: all of an entity but its alive substate, and the counters of
  expired cycles.\<close>

definition alive_frame :: "WdgM_ConfigType \<Rightarrow> WdgM_internalData \<Rightarrow> WdgM_internalData \<Rightarrow> bool" where
  "alive_frame cfg st st' \<longleftrightarrow> rt_frame st st' \<and> rt_shape cfg st' \<and>
     map (SubstateAlive_update (\<lambda>x. WDGM_SUBSTATE_CORRECT)) (SEs st') =
       map (SubstateAlive_update (\<lambda>x. WDGM_SUBSTATE_CORRECT)) (SEs st) \<and>
     map ExpiredSupervisionCycleCounter (RtModes st') = map ExpiredSupervisionCycleCounter (RtModes st)"

lemma alive_frame_nth:
  assumes "alive_frame cfg st st'"
  shows "length (SEs st') = length (SEs st)"
    and "q < length (SEs st) \<Longrightarrow> SEs st' ! q = (SEs st ! q)\<lparr>SubstateAlive := SubstateAlive (SEs st' ! q)\<rparr>"
    and "k < length (RtModes st) \<Longrightarrow>
      ExpiredSupervisionCycleCounter (RtModes st' ! k) = ExpiredSupervisionCycleCounter (RtModes st ! k)"
proof -
  let ?f = "SubstateAlive_update (\<lambda>x. WDGM_SUBSTATE_CORRECT)"
  have m: "map ?f (SEs st') = map ?f (SEs st)" using assms by (simp add: alive_frame_def)
  then show len: "length (SEs st') = length (SEs st)" by (metis length_map)
  show "SEs st' ! q = (SEs st ! q)\<lparr>SubstateAlive := SubstateAlive (SEs st' ! q)\<rparr>" if "q < length (SEs st)"
  proof -
    have "?f (SEs st' ! q) = ?f (SEs st ! q)" using that m len by (metis nth_map)
    then show ?thesis by (cases "SEs st' ! q"; cases "SEs st ! q") simp
  qed
  show "ExpiredSupervisionCycleCounter (RtModes st' ! k) = ExpiredSupervisionCycleCounter (RtModes st ! k)"
    if "k < length (RtModes st)"
    using assms that unfolding alive_frame_def by (metis length_map nth_map)
qed

lemma CheckAlives_total:
  assumes "wdgm_config_ok bld cfg" and "rt_shape cfg st" and "k < length (Modes cfg)"
  shows "\<exists>st'. WdgM_internal_CheckAlives (Modes cfg ! k) st = Some st' \<and> alive_frame cfg st st'"
  unfolding WdgM_internal_CheckAlives_def
proof (rule for_each_inv)
  show "alive_frame cfg st st" using assms(2) by (simp add: alive_frame_def)
  fix i s
  let ?m = "Modes cfg ! k"
  assume i: "i \<in> set [0..<length (SEConfigurations ?m)]" and fr: "alive_frame cfg st s"
  let ?c = "SEConfigurations ?m ! i" and ?id = "unat (SupervisedEntityId (SEConfigurations ?m ! i))"
  have sh: "rt_shape cfg s" using fr by (simp add: alive_frame_def)
  have id: "?id < length (SEs s)"
    using se_id_less [OF config_mode_ok [OF assms(1,3)] sh] i by simp
  have shape: "seconf_shape ?c (the_rsc k i s)" using shape_nth [OF sh assms(3)] i by simp
  obtain rsc r w where loop: "alive_loop 0 (AliveSupervisions ?c) (the_rsc k i s) WDGM_SUBSTATE_CORRECT False = Some (rsc, r, w)"
    and rsc: "seconf_shape ?c rsc"
    using alive_loop_total [of 0 "AliveSupervisions ?c" "the_rsc k i s" WDGM_SUBSTATE_CORRECT False] shape by (auto simp: seconf_shape_def)
  let ?rse = "if w then (SEs s ! ?id)\<lparr>SubstateAlive := r\<rparr> else SEs s ! ?id"
  let ?s = "(if AliveSupervisions ?c = [] then s else upd_rsc k i rsc s)"
  have "alive_frame cfg st (?s\<lparr>SEs := (SEs ?s)[?id := ?rse]\<rparr>)"
    using fr id rt_shape_upd_rsc [OF sh assms(3) _ rsc] i shape_nth(1) [OF sh assms(3)]
    by (auto simp: alive_frame_def map_field_update intro: rt_frame_trans)
  moreover have "?id < length (SEs ?s)" using id by simp
  ultimately show "\<exists>s'. (do {
       seConf \<leftarrow> rd (SEConfigurations ?m) i;
       rse \<leftarrow> rd (SEs s) (unat (SupervisedEntityId seConf));
       rsc \<leftarrow> (if AliveSupervisions seConf = [] then Some \<lparr>RtAliveSupervisions = [], RtDeadlineSupervisions = []\<rparr>
              else get_rsc (unat (ModeId ?m)) i s);
       (rsc, result, writeResult) \<leftarrow>
         alive_loop 0 (AliveSupervisions seConf) rsc WDGM_SUBSTATE_CORRECT False;
       st \<leftarrow> (if AliveSupervisions seConf = [] then Some s else set_rsc (unat (ModeId ?m)) i rsc s);
       set_se (unat (SupervisedEntityId seConf))
         (if writeResult then rse\<lparr>SubstateAlive := result\<rparr> else rse) st }) = Some s' \<and> alive_frame cfg st s'"
    using i id loop get_rsc_eq [OF sh assms(3), of i] set_rsc_eq [OF sh assms(3), of i]
    by (auto simp: ub_simps config_ModeId [OF assms(1,3)] set_se_eq)
qed

text \<open>
  The abstract status machines. A supervised entity that is in order goes on; one whose alive
  supervision alone fails is tolerated while its count of failed cycles stays within the
  tolerance; every other violation expires it. The global status is the worst of the local ones,
  and an expired system is stopped when the tolerance of the mode is used up.
\<close>

definition local_next ::
  "bool \<Rightarrow> bool \<Rightarrow> bool \<Rightarrow> bool \<Rightarrow> uint8 \<Rightarrow> WdgM_LocalStatusType \<times> uint8 \<Rightarrow> WdgM_LocalStatusType \<times> uint8" where
  "local_next alive deadline logical evaluated tol ln =
     (case ln of
        (WDGM_LOCAL_STATUS_EXPIRED, n) \<Rightarrow> (WDGM_LOCAL_STATUS_EXPIRED, n)
      | (st, n) \<Rightarrow>
          if alive \<and> deadline \<and> logical then
            (if st = WDGM_LOCAL_STATUS_FAILED
             then if n > 1 then (WDGM_LOCAL_STATUS_FAILED, n - 1) else (WDGM_LOCAL_STATUS_OK, 0)
             else (st, n))
          else if \<not> alive \<and> deadline \<and> logical then
            (if st = WDGM_LOCAL_STATUS_DEACTIVATED then (st, n)
             else let n' = (if n \<le> tol \<and> evaluated then n + 1 else n)
                  in (if n' > tol then WDGM_LOCAL_STATUS_EXPIRED else WDGM_LOCAL_STATUS_FAILED, n'))
          else if alive \<and> (deadline \<or> logical) \<and> st \<noteq> WDGM_LOCAL_STATUS_OK then
            (if st = WDGM_LOCAL_STATUS_FAILED \<and> n > tol then WDGM_LOCAL_STATUS_EXPIRED else st, n)
          else (WDGM_LOCAL_STATUS_EXPIRED, n))"

definition global_next :: "bool \<Rightarrow> bool \<Rightarrow> bool \<Rightarrow> WdgM_GlobalStatusType \<Rightarrow> WdgM_GlobalStatusType" where
  "global_next expired failed tolerated g =
     (if g \<in> {WDGM_GLOBAL_STATUS_OK, WDGM_GLOBAL_STATUS_FAILED} then
        (if expired then if tolerated then WDGM_GLOBAL_STATUS_EXPIRED else WDGM_GLOBAL_STATUS_STOPPED
         else if failed then WDGM_GLOBAL_STATUS_FAILED else WDGM_GLOBAL_STATUS_OK)
      else if g = WDGM_GLOBAL_STATUS_EXPIRED \<and> expired \<and> \<not> tolerated then WDGM_GLOBAL_STATUS_STOPPED
      else g)"

lemmas local_state_defs = WdgM_internal_CalculateLocalState_def
  WdgM_internal_CalculateLocalState_FromFailedNoError_def
  WdgM_internal_CalculateLocalState_FromOKOneError_def
  WdgM_internal_CalculateLocalState_FromFailedOneError_def

lemma substate_val_cases:
  "substate_val x + substate_val y + substate_val z = 3 \<longleftrightarrow>
     x = WDGM_SUBSTATE_CORRECT \<and> y = WDGM_SUBSTATE_CORRECT \<and> z = WDGM_SUBSTATE_CORRECT"
  "substate_val x + substate_val y + substate_val z = 2 \<longleftrightarrow>
     (x = WDGM_SUBSTATE_INCORRECT \<and> y = WDGM_SUBSTATE_CORRECT \<and> z = WDGM_SUBSTATE_CORRECT) \<or>
     (x = WDGM_SUBSTATE_CORRECT \<and> (y = WDGM_SUBSTATE_CORRECT) \<noteq> (z = WDGM_SUBSTATE_CORRECT))"
  by (cases x; cases y; cases z; simp add: substate_val_def)+

lemma local_state_next:
  "(LocalState (WdgM_internal_CalculateLocalState rse c rsc),
    FailedAliveCyclesCounter (WdgM_internal_CalculateLocalState rse c rsc)) =
   local_next (SubstateAlive rse = WDGM_SUBSTATE_CORRECT) (SubstateDeadline rse = WDGM_SUBSTATE_CORRECT)
     (SubstateLogical rse = WDGM_SUBSTATE_CORRECT) (list_ex wasEvaluated (RtAliveSupervisions rsc))
     (FailedAliveSupervisionReferenceCycleTol c) (LocalState rse, FailedAliveCyclesCounter rse)"
  unfolding local_state_defs Let_def substate_val_cases
  by (cases "LocalState rse"; cases "SubstateAlive rse"; cases "SubstateDeadline rse"; cases "SubstateLogical rse")
     (auto simp: local_next_def Let_def)

lemma local_state_latched [simp]:
  "LocalState rse = WDGM_LOCAL_STATUS_EXPIRED \<Longrightarrow>
     LocalState (WdgM_internal_CalculateLocalState rse c rsc) = WDGM_LOCAL_STATUS_EXPIRED"
  "LocalState rse \<noteq> WDGM_LOCAL_STATUS_DEACTIVATED \<Longrightarrow>
     LocalState (WdgM_internal_CalculateLocalState rse c rsc) \<noteq> WDGM_LOCAL_STATUS_DEACTIVATED"
  by (auto simp: local_state_defs Let_def)

text \<open>The entities of a mode with a given local state, among the first \<open>i\<close> configurations.\<close>

abbreviation with_state :: "WdgM_LocalStatusType \<Rightarrow> nat list \<Rightarrow> WdgM_internalData \<Rightarrow> nat \<Rightarrow> nat list" where
  "with_state l ids st i \<equiv> filter (\<lambda>q. LocalState (SEs st ! q) = l) (take i ids)"

definition state_frame :: "WdgM_internalData \<Rightarrow> WdgM_internalData \<Rightarrow> bool" where
  "state_frame st st' \<longleftrightarrow>
     (\<exists>l f b. st' = st\<lparr>SEs := l, firstExpiredSEID := f, isFirstExpiredSet := b\<rparr> \<and> length l = length (SEs st))"

lemma state_frame_fields:
  assumes "state_frame st st'"
  shows "GlobalState st' = GlobalState st" "CurrentMode st' = CurrentMode st" "isInitiated st' = isInitiated st"
    "ConfigPtr st' = ConfigPtr st" "CurrentTime st' = CurrentTime st" "wd_calls st' = wd_calls st"
    "RtModes st' = RtModes st" "length (SEs st') = length (SEs st)" "rt_shape cfg st' = rt_shape cfg st"
  using assms by (auto simp: state_frame_def rt_shape_def)

lemma state_frame_refl [simp]: "state_frame st st"
  by (cases st) (simp add: state_frame_def)

lemma state_frame_upd:
  "state_frame st s \<Longrightarrow> state_frame st (s\<lparr>SEs := (SEs s)[q := r]\<rparr>)"
  "state_frame st s \<Longrightarrow> state_frame st (s\<lparr>SEs := (SEs s)[q := r], firstExpiredSEID := f, isFirstExpiredSet := b\<rparr>)"
  by (cases st; auto simp: state_frame_def)+

definition states_upto ::
  "WdgM_ConfigType \<Rightarrow> nat \<Rightarrow> WdgM_internalData \<Rightarrow> nat \<Rightarrow> uint16 \<times> uint16 \<times> WdgM_internalData \<Rightarrow> bool" where
  "states_upto cfg k st i s =
     (case s of (e, f, s) \<Rightarrow>
        let m = Modes cfg ! k in
        state_frame st s \<and>
        e = of_nat (length (with_state WDGM_LOCAL_STATUS_EXPIRED (mode_ids m) s i)) \<and>
        f = of_nat (length (with_state WDGM_LOCAL_STATUS_FAILED (mode_ids m) s i)) \<and>
        (\<forall>q. q \<notin> set (take i (mode_ids m)) \<longrightarrow> SEs s ! q = SEs st ! q) \<and>
        (\<forall>j < i. SEs s ! (mode_ids m ! j) =
           WdgM_internal_CalculateLocalState (SEs st ! (mode_ids m ! j)) (SEConfigurations m ! j) (the_rsc k j st)))"

lemma with_state_upd:
  "q \<notin> set (take i ids) \<Longrightarrow>
     filter (\<lambda>p. LocalState ((SEs s)[q := r] ! p) = l) (take i ids) = with_state l ids s i"
  by (rule filter_cong [OF refl]) (metis nth_list_update_neq)

lemma states_upto_step:
  assumes "wdgm_config_ok bld cfg" and "rt_shape cfg st" and "k < length (Modes cfg)"
    and "i < length (SEConfigurations (Modes cfg ! k))" and "states_upto cfg k st i s"
  shows "\<exists>s'. local_states_step (Modes cfg ! k) i s = Some s' \<and> states_upto cfg k st (Suc i) s'"
proof -
  let ?m = "Modes cfg ! k"
  let ?ids = "mode_ids ?m" and ?c = "SEConfigurations ?m ! i"
  obtain e f t where s: "s = (e, f, t)" by (cases s) auto
  have fr: "state_frame st t" and sh: "rt_shape cfg t" and rt: "RtModes t = RtModes st"
    using assms(2,5) state_frame_fields by (auto simp: states_upto_def s Let_def)
  have q: "?ids ! i = unat (SupervisedEntityId ?c)" using assms(4) by (simp add: mode_ids_nth)
  have lt: "?ids ! i < length (SEs t)"
    using se_id_less [OF config_mode_ok [OF assms(1,3)] sh assms(4)] by (simp add: q)
  have new: "?ids ! i \<notin> set (take i ?ids)"
    using mode_ids_distinct [OF config_mode_ok [OF assms(1,3)]] assms(4)
    by (auto simp: in_set_conv_nth nth_eq_iff_index_eq)
  have tk: "take (Suc i) ?ids = take i ?ids @ [?ids ! i]" using assms(4) by (simp add: take_Suc_conv_app_nth)
  have old: "SEs t ! (?ids ! i) = SEs st ! (?ids ! i)" using assms(5) new by (simp add: states_upto_def s Let_def)
  have prev: "?ids ! i \<noteq> ?ids ! j" if "j < i" for j
    using that new assms(4) by (auto simp: in_set_conv_nth)
  let ?rse = "WdgM_internal_CalculateLocalState (SEs st ! (?ids ! i)) ?c (the_rsc k i st)"
  let ?t = "t\<lparr>SEs := (SEs t)[?ids ! i := ?rse]\<rparr>"
  let ?u = "if LocalState ?rse = WDGM_LOCAL_STATUS_EXPIRED \<and> \<not> isFirstExpiredSet t
            then ?t\<lparr>firstExpiredSEID := of_nat i, isFirstExpiredSet := True\<rparr> else ?t"
  let ?s = "(if LocalState ?rse = WDGM_LOCAL_STATUS_EXPIRED then e + 1 else e,
             if LocalState ?rse = WDGM_LOCAL_STATUS_FAILED then f + 1 else f, ?u)"
  have "local_states_step ?m i s = Some ?s"
    using assms(4) lt get_rsc_eq [OF sh assms(3,4)]
    by (simp add: local_states_step_def s ub_simps config_ModeId [OF assms(1,3)] q [symmetric] old rt set_se_eq)
  moreover have "state_frame st ?u" using state_frame_upd [OF fr] by simp
  moreover have "SEs ?u = (SEs t)[?ids ! i := ?rse]" by simp
  ultimately show ?thesis
    using assms(5) lt prev new
    by (auto simp: states_upto_def s Let_def tk with_state_upd less_Suc_eq)
qed

definition any_state :: "WdgM_LocalStatusType \<Rightarrow> WdgM_Mode \<Rightarrow> WdgM_internalData \<Rightarrow> bool" where
  "any_state l m st \<longleftrightarrow> list_ex (\<lambda>q. LocalState (SEs st ! q) = l) (mode_ids m)"

abbreviation expired_count :: "nat \<Rightarrow> WdgM_internalData \<Rightarrow> uint16" where
  "expired_count k st \<equiv> ExpiredSupervisionCycleCounter (RtModes st ! k)"

text \<open>The effect of evaluating the states of mode \<open>k\<close>.\<close>

definition states_result :: "WdgM_ConfigType \<Rightarrow> nat \<Rightarrow> WdgM_internalData \<Rightarrow> WdgM_internalData \<Rightarrow> bool" where
  "states_result cfg k st st' \<longleftrightarrow>
     (let m = Modes cfg ! k; expired = any_state WDGM_LOCAL_STATUS_EXPIRED m st';
          failed = any_state WDGM_LOCAL_STATUS_FAILED m st';
          tolerated = expired_count k st < ExpiredSupervisionCycleTol m in
      rt_shape cfg st' \<and> isInitiated st' = isInitiated st \<and> ConfigPtr st' = ConfigPtr st \<and>
      CurrentMode st' = CurrentMode st \<and> wd_calls st' = wd_calls st \<and> length (SEs st') = length (SEs st) \<and>
      (\<forall>q. q \<notin> set (mode_ids m) \<longrightarrow> SEs st' ! q = SEs st ! q) \<and>
      (\<forall>j < length (SEConfigurations m). SEs st' ! (mode_ids m ! j) =
         WdgM_internal_CalculateLocalState (SEs st ! (mode_ids m ! j)) (SEConfigurations m ! j) (the_rsc k j st)) \<and>
      GlobalState st' = global_next expired failed tolerated (GlobalState st) \<and>
      SE_Configs (RtModes st' ! k) = SE_Configs (RtModes st ! k) \<and>
      expired_count k st' =
        (if GlobalState st = WDGM_GLOBAL_STATUS_EXPIRED \<and> expired \<and> tolerated
         then expired_count k st + 1 else expired_count k st))"

lemma count_pos: "length xs < 65536 \<Longrightarrow> (0 :: uint16) < of_nat (length xs) \<longleftrightarrow> xs \<noteq> []"
proof -
  assume "length xs < 65536"
  then have "unat (of_nat (length xs) :: uint16) = length xs" by (intro unat_of_nat_small) simp
  then show ?thesis by (metis length_greater_0_conv unat_0 word_less_nat_alt)
qed

lemma filter_neq_Nil: "filter P xs \<noteq> [] \<longleftrightarrow> list_ex P xs"
  by (simp add: filter_empty_conv list_ex_iff)

lemmas update_defs = WdgM_internal_updateFromGlobalOK_def WdgM_internal_updateFromGlobalFAILED_def
  WdgM_internal_updateFromGlobalEXPIRED_def expired_cycles_def

lemma CalculateGlobalState_total:
  assumes "wdgm_config_ok bld cfg" and "rt_shape cfg st" and "k < length (Modes cfg)"
  shows "\<exists>st'. WdgM_internal_CalculateGlobalState (Modes cfg ! k) st = Some st' \<and> states_result cfg k st st'"
proof -
  let ?m = "Modes cfg ! k"
  let ?n = "length (SEConfigurations ?m)"
  have "states_upto cfg k st 0 (0, 0, st)" by (simp add: states_upto_def)
  then obtain s where loop: "for_each (local_states_step ?m) [0..<?n] (0, 0, st) = Some s"
    and upto: "states_upto cfg k st ?n s"
    using for_each_upt [where P = "states_upto cfg k st" and f = "local_states_step ?m" and n = ?n]
      states_upto_step [OF assms] by blast
  obtain e f t where s: "s = (e, f, t)" by (cases s) auto
  have fr: "state_frame st t" using upto by (simp add: states_upto_def s Let_def)
  note fields = state_frame_fields [OF fr]
  have n: "?n < 65536"
    using mode_ids_length_le [OF config_mode_ok [OF assms(1,3)]] assms(1) by (simp add: wdgm_config_ok_def)
  have "length (filter P (mode_ids ?m)) < 65536" for P
    using length_filter_le [of P "mode_ids ?m"] n by simp
  then have cnt: "0 < e \<longleftrightarrow> any_state WDGM_LOCAL_STATUS_EXPIRED ?m t"
    "0 < f \<longleftrightarrow> any_state WDGM_LOCAL_STATUS_FAILED ?m t"
    using upto by (simp_all add: states_upto_def s Let_def any_state_def count_pos filter_neq_Nil)
  have zero: "f = 0 \<longleftrightarrow> \<not> 0 < f" "e = 0 \<longleftrightarrow> \<not> 0 < e" by (simp_all add: word_neq_0_conv [symmetric])
  let ?ex = "any_state WDGM_LOCAL_STATUS_EXPIRED ?m t" and ?fl = "any_state WDGM_LOCAL_STATUS_FAILED ?m t"
    and ?tol = "expired_count k st < ExpiredSupervisionCycleTol ?m"
  let ?t = "t\<lparr>GlobalState := global_next ?ex ?fl ?tol (GlobalState st)\<rparr>"
  let ?rm = "(RtModes t ! k)\<lparr>ExpiredSupervisionCycleCounter := expired_count k st + 1\<rparr>"
  let ?r = "if GlobalState st = WDGM_GLOBAL_STATUS_EXPIRED \<and> ?ex \<and> ?tol
            then ?t\<lparr>RtModes := (RtModes t)[k := ?rm]\<rparr> else ?t"
  have k: "k < length (RtModes t)" using shape_nth(1) [OF assms(2,3)] by (simp add: fields)
  have same: "t\<lparr>GlobalState := GlobalState st\<rparr> = t" using fields(1) by (cases t) simp
  have "WdgM_internal_CalculateGlobalState ?m st = Some ?r"
    using k same by (cases "GlobalState st")
      (simp_all add: WdgM_internal_CalculateGlobalState_def loop s fields update_defs config_ModeId [OF assms(1,3)]
        ub_simps global_next_def cnt zero)
  moreover have "rt_shape cfg ?r"
    using assms(2) fields(9) k by (auto simp: rt_shape_def list_all2_conv_all_nth nth_list_update fields)
  ultimately show ?thesis
    using upto k by (auto simp: states_result_def states_upto_def s Let_def fields any_state_def)
qed

definition halt_calls :: "WdgM_build \<Rightarrow> WdgM_ConfigType \<Rightarrow> WdgM_GlobalStatusType \<Rightarrow> WdgM_Call list" where
  "halt_calls bld cfg g =
     (if g = WDGM_GLOBAL_STATUS_STOPPED then
        (if WDGM_DEM_ALIVE_SUPERVISION_REPORT bld \<and> USE_DEM bld \<and> Monitoring (DemEventIdRefs cfg) \<noteq> 0
         then [DemReport (Monitoring (DemEventIdRefs cfg))] else []) @
        (if WDGM_IMMEDIATE_RESET bld then [McuReset] else [])
      else [])"

section \<open>The invariant\<close>

text \<open>
  While the manager is initialised, exactly the entities of the current mode are active; an
  expired entity has brought the global status to expired or stopped, and the global status is
  expired only because of an expired entity.
\<close>

definition running :: "WdgM_ConfigType \<Rightarrow> WdgM_internalData \<Rightarrow> bool" where
  "running cfg st \<longleftrightarrow>
     ConfigPtr st = Some cfg \<and> CurrentMode st < length (Modes cfg) \<and>
     GlobalState st \<noteq> WDGM_GLOBAL_STATUS_DEACTIVATED \<and>
     (\<forall>q < length (SEs st). LocalState (SEs st ! q) \<noteq> WDGM_LOCAL_STATUS_DEACTIVATED \<longleftrightarrow>
        q \<in> set (mode_ids (Modes cfg ! CurrentMode st))) \<and>
     (any_state WDGM_LOCAL_STATUS_EXPIRED (Modes cfg ! CurrentMode st) st \<longrightarrow>
        GlobalState st \<in> {WDGM_GLOBAL_STATUS_EXPIRED, WDGM_GLOBAL_STATUS_STOPPED}) \<and>
     (GlobalState st = WDGM_GLOBAL_STATUS_EXPIRED \<longrightarrow>
        any_state WDGM_LOCAL_STATUS_EXPIRED (Modes cfg ! CurrentMode st) st)"

definition wdgm_inv :: "WdgM_ConfigType \<Rightarrow> WdgM_internalData \<Rightarrow> bool" where
  "wdgm_inv cfg st \<longleftrightarrow> rt_shape cfg st \<and> (isInitiated st \<longrightarrow> running cfg st)"

lemma any_state_cong: "SEs st' = SEs st \<Longrightarrow> any_state l m st' = any_state l m st"
  by (simp add: any_state_def)

lemma running_calls [simp]:
  "any_state l m (st\<lparr>wd_calls := cs\<rparr>) = any_state l m st" "running cfg (st\<lparr>wd_calls := cs\<rparr>) = running cfg st"
  by (simp_all add: any_state_def running_def)

lemma any_state_local:
  assumes "map LocalState (SEs st') = map LocalState (SEs st)" and "\<forall>q \<in> set (mode_ids m). q < length (SEs st)"
  shows "any_state l m st' = any_state l m st"
proof -
  have "LocalState (SEs st' ! q) = LocalState (SEs st ! q)" if "q < length (SEs st)" for q
    using that assms(1) by (metis length_map nth_map)
  then show ?thesis using assms(2) by (auto simp: any_state_def list_ex_iff)
qed

lemma only_calls_inv: "only_calls st st' \<Longrightarrow> wdgm_inv cfg st \<Longrightarrow> wdgm_inv cfg st'"
  by (auto simp: wdgm_inv_def running_def only_calls_fields any_state_cong [of st' st])

lemma MainFunction_total:
  assumes "wdgm_config_ok bld cfg" and "rt_shape cfg st" and "running cfg st" and "isInitiated st"
  shows "\<exists>st1 st2. alive_frame cfg
      (st\<lparr>CurrentTime := CurrentTime st + SupervisionCycle (Modes cfg ! CurrentMode st)\<rparr>) st1 \<and>
    states_result cfg (CurrentMode st) st1 st2 \<and>
    WdgM_MainFunction bld st = Some (st2\<lparr>wd_calls := wd_calls st @ halt_calls bld cfg (GlobalState st2) @
      trigger_calls cfg (GlobalState st2 = WDGM_GLOBAL_STATUS_STOPPED) (Triggers (Modes cfg ! CurrentMode st))\<rparr>)"
proof -
  let ?k = "CurrentMode st"
  let ?m = "Modes cfg ! ?k" and ?st = "st\<lparr>CurrentTime := CurrentTime st + SupervisionCycle (Modes cfg ! ?k)\<rparr>"
  have k: "?k < length (Modes cfg)" and cfg: "ConfigPtr st = Some cfg"
    and g: "GlobalState st \<noteq> WDGM_GLOBAL_STATUS_DEACTIVATED" using assms(3) by (simp_all add: running_def)
  obtain st1 where 1: "WdgM_internal_CheckAlives ?m ?st = Some st1" "alive_frame cfg ?st st1"
    using CheckAlives_total [OF assms(1) _ k, of ?st] assms(2) by auto
  then have sh1: "rt_shape cfg st1" by (simp add: alive_frame_def)
  obtain st2 where 2: "WdgM_internal_CalculateGlobalState ?m st1 = Some st2" "states_result cfg ?k st1 st2"
    using CalculateGlobalState_total [OF assms(1) sh1 k] by auto
  have fr: "rt_frame ?st st1" using 1(2) by (simp add: alive_frame_def)
  have calls: "wd_calls st2 = wd_calls st"
    using 2(2) rt_frame_fields [OF fr] by (simp add: states_result_def Let_def)
  have trig: "list_all (\<lambda>t. unat (TriggerWatchdogId t) < length (Watchdogs cfg)) (Triggers ?m)"
    using config_mode_ok [OF assms(1) k] by (simp add: mode_ok_def)
  show ?thesis
    by (rule exI [of _ st1], rule exI [of _ st2])
       (simp add: 1 2 WdgM_MainFunction_def assms(4) g cfg deref_def ub_simps k halt_calls_def
          set_triggers_eq [OF assms(1) trig] WDGM_REPORT_DEM_ERROR_def wd_call_def calls)
qed

text \<open>The step of entity \<open>j\<close> of mode \<open>k\<close>, in terms of the state before and after a cycle.\<close>

definition entity_step :: "WdgM_ConfigType \<Rightarrow> nat \<Rightarrow> WdgM_internalData \<Rightarrow> WdgM_internalData \<Rightarrow> nat \<Rightarrow> bool" where
  "entity_step cfg k st st' j \<longleftrightarrow>
     (let m = Modes cfg ! k; c = SEConfigurations m ! j; se = SEs st ! (mode_ids m ! j); se' = SEs st' ! (mode_ids m ! j) in
      (LocalState se', FailedAliveCyclesCounter se') =
        local_next (SubstateAlive se' = WDGM_SUBSTATE_CORRECT) (SubstateDeadline se = WDGM_SUBSTATE_CORRECT)
          (SubstateLogical se = WDGM_SUBSTATE_CORRECT)
          (list_ex wasEvaluated (RtAliveSupervisions (the_rsc k j st')))
          (FailedAliveSupervisionReferenceCycleTol c) (LocalState se, FailedAliveCyclesCounter se))"

definition main_result :: "WdgM_build \<Rightarrow> WdgM_ConfigType \<Rightarrow> WdgM_internalData \<Rightarrow> WdgM_internalData \<Rightarrow> bool" where
  "main_result bld cfg st st' \<longleftrightarrow>
     (let k = CurrentMode st; m = Modes cfg ! k; expired = any_state WDGM_LOCAL_STATUS_EXPIRED m st';
          tolerated = expired_count k st < ExpiredSupervisionCycleTol m in
      rt_shape cfg st' \<and> running cfg st' \<and> isInitiated st' \<and> CurrentMode st' = k \<and>
      (\<forall>j < length (SEConfigurations m). entity_step cfg k st st' j) \<and>
      GlobalState st' = global_next expired (any_state WDGM_LOCAL_STATUS_FAILED m st') tolerated (GlobalState st) \<and>
      expired_count k st' =
        (if GlobalState st = WDGM_GLOBAL_STATUS_EXPIRED \<and> expired \<and> tolerated
         then expired_count k st + 1 else expired_count k st) \<and>
      wd_calls st' = wd_calls st @ halt_calls bld cfg (GlobalState st') @
        trigger_calls cfg (GlobalState st' = WDGM_GLOBAL_STATUS_STOPPED) (Triggers m))"

lemma states_local:
  assumes "states_result cfg k st1 st2" and "LocalState (SEs st1 ! q) \<noteq> WDGM_LOCAL_STATUS_DEACTIVATED"
  shows "LocalState (SEs st2 ! q) \<noteq> WDGM_LOCAL_STATUS_DEACTIVATED"
    and "LocalState (SEs st1 ! q) = WDGM_LOCAL_STATUS_EXPIRED \<Longrightarrow> LocalState (SEs st2 ! q) = WDGM_LOCAL_STATUS_EXPIRED"
proof -
  have "SEs st2 ! q = SEs st1 ! q \<or>
    (\<exists>c rsc. SEs st2 ! q = WdgM_internal_CalculateLocalState (SEs st1 ! q) c rsc)"
  proof (cases "q \<in> set (mode_ids (Modes cfg ! k))")
    case True
    then obtain j where "j < length (SEConfigurations (Modes cfg ! k))" "mode_ids (Modes cfg ! k) ! j = q"
      by (auto simp: in_set_conv_nth)
    then show ?thesis using assms(1) unfolding states_result_def Let_def by blast
  qed (use assms(1) in \<open>simp add: states_result_def Let_def\<close>)
  then show "LocalState (SEs st2 ! q) \<noteq> WDGM_LOCAL_STATUS_DEACTIVATED"
    and "LocalState (SEs st1 ! q) = WDGM_LOCAL_STATUS_EXPIRED \<Longrightarrow> LocalState (SEs st2 ! q) = WDGM_LOCAL_STATUS_EXPIRED"
    using assms(2) by auto
qed

lemma CalculateLocalState_substates:
  "SubstateAlive (WdgM_internal_CalculateLocalState rse c rsc) = SubstateAlive rse"
  by (simp add: local_state_defs Let_def)

lemma states_entity_step:
  assumes "states_result cfg k st1 st2" and "j < length (SEConfigurations (Modes cfg ! k))"
    and "SEs st1 ! (mode_ids (Modes cfg ! k) ! j) =
      (SEs st ! (mode_ids (Modes cfg ! k) ! j))\<lparr>SubstateAlive := a\<rparr>"
  shows "entity_step cfg k st (st2\<lparr>wd_calls := cs\<rparr>) j"
proof -
  have "SEs st2 ! (mode_ids (Modes cfg ! k) ! j) = WdgM_internal_CalculateLocalState
      ((SEs st ! (mode_ids (Modes cfg ! k) ! j))\<lparr>SubstateAlive := a\<rparr>) (SEConfigurations (Modes cfg ! k) ! j) (the_rsc k j st1)"
    and "SE_Configs (RtModes st2 ! k) = SE_Configs (RtModes st1 ! k)"
    using assms by (simp_all add: states_result_def Let_def)
  then show ?thesis by (simp add: entity_step_def Let_def CalculateLocalState_substates local_state_next)
qed

lemma global_next_facts:
  "global_next e f t g = WDGM_GLOBAL_STATUS_DEACTIVATED \<longleftrightarrow> g = WDGM_GLOBAL_STATUS_DEACTIVATED"
  "e \<Longrightarrow> g \<noteq> WDGM_GLOBAL_STATUS_DEACTIVATED \<Longrightarrow>
     global_next e f t g \<in> {WDGM_GLOBAL_STATUS_EXPIRED, WDGM_GLOBAL_STATUS_STOPPED}"
  "global_next e f t g = WDGM_GLOBAL_STATUS_EXPIRED \<Longrightarrow> e \<or> g = WDGM_GLOBAL_STATUS_EXPIRED"
  by (cases g; auto simp: global_next_def split: if_splits)+

lemma MainFunction_step:
  assumes "wdgm_config_ok bld cfg" and "rt_shape cfg st" and "running cfg st" and "isInitiated st"
  shows "\<exists>st'. WdgM_MainFunction bld st = Some st' \<and> main_result bld cfg st st'"
proof -
  let ?k = "CurrentMode st"
  let ?m = "Modes cfg ! ?k" and ?st = "st\<lparr>CurrentTime := CurrentTime st + SupervisionCycle (Modes cfg ! ?k)\<rparr>"
  obtain st1 st2 where 1: "alive_frame cfg ?st st1" and 2: "states_result cfg ?k st1 st2"
    and main: "WdgM_MainFunction bld st = Some (st2\<lparr>wd_calls := wd_calls st @ halt_calls bld cfg (GlobalState st2) @
      trigger_calls cfg (GlobalState st2 = WDGM_GLOBAL_STATUS_STOPPED) (Triggers ?m)\<rparr>)"
    (is "_ = Some ?st'") using MainFunction_total [OF assms] by auto
  have k: "?k < length (Modes cfg)" and g: "GlobalState st \<noteq> WDGM_GLOBAL_STATUS_DEACTIVATED"
    and act: "\<forall>q < length (SEs st). LocalState (SEs st ! q) \<noteq> WDGM_LOCAL_STATUS_DEACTIVATED \<longleftrightarrow> q \<in> set (mode_ids ?m)"
    using assms(3) by (simp_all add: running_def)
  have fr: "rt_frame ?st st1" using 1 by (simp add: alive_frame_def)
  note f1 = rt_frame_fields [OF fr]
  have len: "length (SEs st1) = length (SEs st)"
    and se1: "\<And>q. q < length (SEs st) \<Longrightarrow> SEs st1 ! q = (SEs st ! q)\<lparr>SubstateAlive := SubstateAlive (SEs st1 ! q)\<rparr>"
    and cnt: "expired_count ?k st1 = expired_count ?k st"
    using alive_frame_nth [OF 1] shape_nth(1) [OF assms(2) k] by simp_all
  have loc: "LocalState (SEs st1 ! q) = LocalState (SEs st ! q)" if "q < length (SEs st)" for q
    using arg_cong [OF se1 [OF that], of LocalState] by simp
  have len2: "length (SEs st2) = length (SEs st)" using 2 len by (simp add: states_result_def Let_def)
  have ids: "\<forall>q \<in> set (mode_ids ?m). q < length (SEs st)"
    using mode_ids_less [OF config_mode_ok [OF assms(1) k]] assms(2) by (simp add: rt_shape_def)
  have act2: "LocalState (SEs st2 ! q) \<noteq> WDGM_LOCAL_STATUS_DEACTIVATED \<longleftrightarrow> q \<in> set (mode_ids ?m)"
    if "q < length (SEs st)" for q
    using that act loc states_local(1) [OF 2, of q] 2 by (auto simp: states_result_def Let_def)
  have latch: "any_state WDGM_LOCAL_STATUS_EXPIRED ?m st2" if ex: "any_state WDGM_LOCAL_STATUS_EXPIRED ?m st"
  proof -
    obtain q where q: "q \<in> set (mode_ids ?m)" "LocalState (SEs st ! q) = WDGM_LOCAL_STATUS_EXPIRED"
      using ex by (auto simp: any_state_def list_ex_iff)
    then have "LocalState (SEs st2 ! q) = WDGM_LOCAL_STATUS_EXPIRED"
      using states_local(2) [OF 2, of q] loc [of q] ids by simp
    then show ?thesis using q(1) by (auto simp: any_state_def list_ex_iff)
  qed
  let ?e = "any_state WDGM_LOCAL_STATUS_EXPIRED ?m st2"
  have gs: "GlobalState st2 = global_next ?e (any_state WDGM_LOCAL_STATUS_FAILED ?m st2)
      (expired_count ?k st < ExpiredSupervisionCycleTol ?m) (GlobalState st)"
    and rest: "CurrentMode st2 = ?k" "isInitiated st2 = isInitiated st" "ConfigPtr st2 = ConfigPtr st" "rt_shape cfg st2"
    "expired_count ?k st2 = (if GlobalState st = WDGM_GLOBAL_STATUS_EXPIRED \<and> ?e \<and>
        expired_count ?k st < ExpiredSupervisionCycleTol ?m then expired_count ?k st + 1 else expired_count ?k st)"
    using 2 f1 cnt by (simp_all add: states_result_def Let_def)
  have "GlobalState st2 = WDGM_GLOBAL_STATUS_EXPIRED \<longrightarrow> ?e"
    using global_next_facts(3) [of ?e] latch assms(3) unfolding gs by (auto simp: running_def)
  then have "running cfg st2"
    using act2 k g rest len2 assms(3) global_next_facts(1,2) [of ?e] gs by (auto simp: running_def)
  moreover have "entity_step cfg ?k st ?st' j" if "j < length (SEConfigurations ?m)" for j
    using states_entity_step [OF 2 that se1] ids that nth_mem [of j "mode_ids ?m"] by simp
  ultimately have "main_result bld cfg st ?st'"
    using gs rest assms(4) by (simp add: main_result_def Let_def)
  then show ?thesis using main by blast
qed

end
