(* ===== verification/WdgM_Api.thy ===== *)
theory WdgM_Api
  imports WdgM_Correct
begin

text \<open>
  The interface of the watchdog manager as a whole: sequences of calls from any context, in any
  order. The invariant of \<open>WdgM_Correct\<close> is kept by every call, so no call faults; once the
  global status is expired only \<^verbatim>\<open>WdgM_MainFunction\<close> moves it, and only to stopped.
\<close>

section \<open>Switching the active entities\<close>

definition se_frame :: "WdgM_internalData \<Rightarrow> WdgM_internalData \<Rightarrow> bool" where
  "se_frame st st' \<longleftrightarrow> (\<exists>l. st' = st\<lparr>SEs := l\<rparr> \<and> length l = length (SEs st))"

lemma se_frame_refl [simp]: "se_frame st st"
  by (cases st) (simp add: se_frame_def)

lemma se_frame_trans: "se_frame a b \<Longrightarrow> se_frame b c \<Longrightarrow> se_frame a c"
  by (cases a) (auto simp: se_frame_def)

lemma se_frame_upd [simp]: "se_frame st (st\<lparr>SEs := (SEs st)[q := r]\<rparr>)"
  by (auto simp: se_frame_def)

lemma se_frame_fields:
  assumes "se_frame st st'"
  shows "GlobalState st' = GlobalState st" "CurrentMode st' = CurrentMode st" "isInitiated st' = isInitiated st"
    "ConfigPtr st' = ConfigPtr st" "CurrentTime st' = CurrentTime st" "wd_calls st' = wd_calls st"
    "RtModes st' = RtModes st" "length (SEs st') = length (SEs st)" "rt_shape cfg st' = rt_shape cfg st"
  using assms by (auto simp: se_frame_def rt_shape_def)

definition se_reset :: "WdgM_internal_SupervisedEntity \<Rightarrow> WdgM_internal_SupervisedEntity" where
  "se_reset rse = rse\<lparr>LocalState := WDGM_LOCAL_STATUS_DEACTIVATED, IsInternalGraphActive := False,
     PreviousCheckpointId_internalLogic := 0, PreviousCheckpointId_Deadline := 0,
     FailedAliveCyclesCounter := 0, SubstateAlive := WDGM_SUBSTATE_CORRECT,
     SubstateDeadline := WDGM_SUBSTATE_CORRECT, SubstateLogical := WDGM_SUBSTATE_CORRECT\<rparr>"

definition se_activate :: "WdgM_internal_SupervisedEntity \<Rightarrow> WdgM_internal_SupervisedEntity" where
  "se_activate rse =
     (if LocalState rse = WDGM_LOCAL_STATUS_DEACTIVATED then rse\<lparr>LocalState := WDGM_LOCAL_STATUS_OK\<rparr> else rse)"

lemma se_local [simp]:
  "LocalState (se_reset rse) = WDGM_LOCAL_STATUS_DEACTIVATED"
  "LocalState (se_activate rse) \<noteq> WDGM_LOCAL_STATUS_DEACTIVATED"
  "LocalState (se_activate rse) = WDGM_LOCAL_STATUS_EXPIRED \<longleftrightarrow> LocalState rse = WDGM_LOCAL_STATUS_EXPIRED"
  by (simp_all add: se_reset_def se_activate_def)

lemma DeactivateAndResetSE_eq:
  "q < length (SEs st) \<Longrightarrow>
     WdgM_internal_DeactivateAndResetSE q st = Some (st\<lparr>SEs := (SEs st)[q := se_reset (SEs st ! q)]\<rparr>)"
  by (simp add: WdgM_internal_DeactivateAndResetSE_def ub_simps set_se_eq se_reset_def)

lemma deactivate_range:
  assumes "b \<le> length (SEs st)"
  shows "\<exists>st'. for_each WdgM_internal_DeactivateAndResetSE [a..<b] st = Some st' \<and> se_frame st st' \<and>
    (\<forall>q. SEs st' ! q = (if a \<le> q \<and> q < b then se_reset (SEs st ! q) else SEs st ! q))"
  using assms
proof (induction "b - a" arbitrary: a st)
  case 0
  then show ?case by auto
next
  case (Suc d)
  let ?st = "st\<lparr>SEs := (SEs st)[a := se_reset (SEs st ! a)]\<rparr>"
  have a: "a < b" and d: "d = b - Suc a" using Suc.hyps(2) by simp_all
  obtain st' where "for_each WdgM_internal_DeactivateAndResetSE [Suc a..<b] ?st = Some st'" "se_frame ?st st'"
    "\<forall>q. SEs st' ! q = (if Suc a \<le> q \<and> q < b then se_reset (SEs ?st ! q) else SEs ?st ! q)"
    using Suc.hyps(1) [OF d, of ?st] Suc.prems by auto
  moreover have "for_each WdgM_internal_DeactivateAndResetSE [a..<b] st =
      for_each WdgM_internal_DeactivateAndResetSE [Suc a..<b] ?st"
    using a Suc.prems by (simp add: upt_conv_Cons DeactivateAndResetSE_eq)
  moreover have "se_frame st st'" using se_frame_trans [OF se_frame_upd] calculation(2) by blast
  ultimately show ?case using a Suc.prems by (auto simp: nth_list_update)
qed

lemma switch_loop_total:
  assumes "sorted_wrt (<) ids" and "\<forall>q \<in> set ids. a \<le> q \<and> q < length (SEs st)"
  shows "\<exists>st'. switch_loop (length (SEs st)) ids a st = Some st' \<and> se_frame st st' \<and>
    (\<forall>q < length (SEs st). SEs st' ! q =
       (if q < a then SEs st ! q else if q \<in> set ids then se_activate (SEs st ! q) else se_reset (SEs st ! q)))"
  using assms
proof (induction ids arbitrary: a st)
  case Nil
  then show ?case using deactivate_range [of "length (SEs st)" st a] by auto
next
  case (Cons i ids)
  have i: "a \<le> i" "i < length (SEs st)" using Cons.prems(2) by auto
  obtain st1 where 1: "for_each WdgM_internal_DeactivateAndResetSE [a..<i] st = Some st1" "se_frame st st1"
    "\<forall>q. SEs st1 ! q = (if a \<le> q \<and> q < i then se_reset (SEs st ! q) else SEs st ! q)"
    using deactivate_range [of i st a] i by auto
  note len = se_frame_fields(8) [OF 1(2)]
  let ?st = "st1\<lparr>SEs := (SEs st1)[i := se_activate (SEs st1 ! i)]\<rparr>"
  have "\<forall>q \<in> set ids. Suc i \<le> q \<and> q < length (SEs ?st)" using Cons.prems len by auto
  then obtain st' where 2: "switch_loop (length (SEs ?st)) ids (Suc i) ?st = Some st'" "se_frame ?st st'"
    "\<forall>q < length (SEs ?st). SEs st' ! q =
      (if q < Suc i then SEs ?st ! q else if q \<in> set ids then se_activate (SEs ?st ! q) else se_reset (SEs ?st ! q))"
    using Cons.IH [of "Suc i" ?st] Cons.prems(1) by auto
  have "switch_loop (length (SEs st)) (i # ids) a st = switch_loop (length (SEs ?st)) ids (Suc i) ?st"
  proof -
    have "(if LocalState (SEs st1 ! i) = WDGM_LOCAL_STATUS_DEACTIVATED
       then set_se i ((SEs st1 ! i)\<lparr>LocalState := WDGM_LOCAL_STATUS_OK\<rparr>) st1 else Some st1) = Some ?st"
      using i len by (simp add: set_se_eq se_activate_def)
    then show ?thesis using i 1(1) len by (simp add: ub_simps max_def)
  qed
  moreover have "se_frame st st'" using se_frame_trans [OF 1(2)] se_frame_trans [OF se_frame_upd 2(2)] by blast
  moreover have "\<forall>q \<in> set ids. i < q" using Cons.prems(1) by simp
  ultimately show ?case using 1(3) 2 i len by (auto simp: nth_list_update)
qed

section \<open>Resetting the data of a mode\<close>

lemma ResetSEConfigs_shape:
  assumes "list_all2 seconf_shape cs (SE_Configs rm)"
  shows "list_all2 seconf_shape cs (SE_Configs (WdgM_internal_ResetSEConfigsForMode rm))"
  unfolding WdgM_internal_ResetSEConfigsForMode_def
  by (rule fold_invariant [where P = "\<lambda>rm. list_all2 seconf_shape cs (SE_Configs rm)" 
      and Q = "\<lambda>i. i < length cs"])
     (use assms in \<open>auto simp: list_all2_conv_all_nth nth_list_update seconf_shape_def\<close>)

lemma reset_mode_total:
  assumes "rt_shape cfg st" and "k < length (Modes cfg)"
  shows "\<exists>l. reset_mode k st = Some (st\<lparr>RtModes := l\<rparr>) \<and> rt_shape cfg (st\<lparr>RtModes := l\<rparr>) \<and>
    l = (RtModes st)[k := WdgM_internal_ResetSEConfigsForMode (RtModes st ! k)]"
proof -
  let ?l = "(RtModes st)[k := WdgM_internal_ResetSEConfigsForMode (RtModes st ! k)]"
  have k: "k < length (RtModes st)" using shape_nth(1) [OF assms] .
  have "rt_shape cfg (st\<lparr>RtModes := ?l\<rparr>)"
    using assms(1) k by (auto simp: rt_shape_def list_all2_conv_all_nth [of _ "Modes cfg"] nth_list_update
        intro: ResetSEConfigs_shape)
  then show ?thesis using k by (intro exI [of _ ?l]) (simp add: reset_mode_def ub_simps)
qed

section \<open>Calls\<close>

datatype wd_op =
  OpInit | OpDeInit | OpSetMode uint8 uint16 | OpGetMode "uint8 ptr" | OpCheckpointReached uint16 uint16
| OpUpdateAliveCounter uint16 | OpGetLocalStatus uint16 "WdgM_LocalStatusType ptr"
| OpGetGlobalStatus "WdgM_GlobalStatusType ptr" | OpPerformReset | OpGetFirstExpiredSEID "uint16 ptr"
| OpMainFunction

text \<open>The state a call leaves.\<close>

fun wd_step :: "WdgM_build \<Rightarrow> WdgM_ConfigType \<Rightarrow> wd_op \<Rightarrow> WdgM_internalData \<Rightarrow> WdgM_internalData ub" where
  "wd_step bld cfg OpInit st = WdgM_Init bld (Some cfg) st"
| "wd_step bld cfg OpDeInit st = WdgM_DeInit bld st"
| "wd_step bld cfg (OpSetMode md c) st = map_option snd (WdgM_SetMode bld md c st)"
| "wd_step bld cfg (OpGetMode p) st = map_option (snd \<circ> snd) (WdgM_GetMode bld p st)"
| "wd_step bld cfg (OpCheckpointReached se cp) st = map_option snd (WdgM_CheckpointReached bld se cp st)"
| "wd_step bld cfg (OpUpdateAliveCounter se) st = map_option snd (WdgM_UpdateAliveCounter bld se st)"
| "wd_step bld cfg (OpGetLocalStatus se p) st = map_option (snd \<circ> snd) (WdgM_GetLocalStatus bld se p st)"
| "wd_step bld cfg (OpGetGlobalStatus p) st = Some (snd (snd (WdgM_GetGlobalStatus bld p st)))"
| "wd_step bld cfg OpPerformReset st = WdgM_PerformReset bld st"
| "wd_step bld cfg (OpGetFirstExpiredSEID p) st = Some (snd (snd (WdgM_GetFirstExpiredSEID bld p st)))"
| "wd_step bld cfg OpMainFunction st = WdgM_MainFunction bld st"

text \<open>The one identifier the range check lets through although no entity has it.\<close>

fun op_ok :: "WdgM_ConfigType \<Rightarrow> wd_op \<Rightarrow> bool" where
  "op_ok cfg (OpCheckpointReached se cp) \<longleftrightarrow> unat se \<noteq> length (SupervisedEntities cfg)"
| "op_ok cfg (OpGetLocalStatus se p) \<longleftrightarrow> unat se \<noteq> length (SupervisedEntities cfg)"
| "op_ok cfg _ \<longleftrightarrow> True"

text \<open>Calls that do not keep a watchdog from firing.\<close>

fun harmless :: "WdgM_Call \<Rightarrow> bool" where
  "harmless (WdgTrigger d v) \<longleftrightarrow> v = 0"
| "harmless (WdgSetMode d md) \<longleftrightarrow> False"
| "harmless _ \<longleftrightarrow> True"

text \<open>What a call keeps once the global status is expired or stopped.\<close>

definition keeps :: "WdgM_internalData \<Rightarrow> WdgM_internalData \<Rightarrow> bool" where
  "keeps st st' \<longleftrightarrow> isInitiated st' = isInitiated st \<and> GlobalState st' = GlobalState st \<and>
     CurrentMode st' = CurrentMode st \<and>
     map ExpiredSupervisionCycleCounter (RtModes st') = map ExpiredSupervisionCycleCounter (RtModes st) \<and>
     (\<exists>cs. wd_calls st' = wd_calls st @ cs \<and> list_all harmless cs)"

abbreviation frozen :: "WdgM_internalData \<Rightarrow> bool" where
  "frozen st \<equiv> isInitiated st \<and> GlobalState st \<in> {WDGM_GLOBAL_STATUS_EXPIRED, WDGM_GLOBAL_STATUS_STOPPED}"

definition good_step :: "WdgM_ConfigType \<Rightarrow> WdgM_internalData \<Rightarrow> WdgM_internalData ub \<Rightarrow> bool" where
  "good_step cfg st r \<longleftrightarrow> (\<exists>st'. r = Some st' \<and> wdgm_inv cfg st' \<and> (frozen st \<longrightarrow> keeps st st'))"

lemma keeps_refl [simp]: "keeps st st"
  by (simp add: keeps_def)

lemma keeps_trans: "keeps a b \<Longrightarrow> keeps b c \<Longrightarrow> keeps a c"
  by (auto simp: keeps_def)

lemma keeps_reports [simp]:
  "keeps st (WDGM_REPORT_DET_ERROR bld a e st)" "keeps st (WDGM_REPORT_DEM_ERROR bld ev st)"
  "keeps st (WDGM_CHECK_INIT_NR bld a st)"
  by (auto simp: keeps_def WDGM_REPORT_DET_ERROR_def WDGM_REPORT_DEM_ERROR_def WDGM_CHECK_INIT_NR_def wd_call_def)

lemma inv_reports:
  assumes "wdgm_inv cfg st"
  shows "wdgm_inv cfg (WDGM_REPORT_DET_ERROR bld a e st)" "wdgm_inv cfg (WDGM_REPORT_DEM_ERROR bld ev st)"
    "wdgm_inv cfg (WDGM_CHECK_INIT_NR bld a st)"
  using assms by (auto intro: only_calls_inv only_calls_reports)

lemma good_same: "wdgm_inv cfg st \<Longrightarrow> good_step cfg st (Some st)"
  by (simp add: good_step_def)

lemma good_report:
  assumes "wdgm_inv cfg st"
  shows "good_step cfg st (Some (WDGM_REPORT_DET_ERROR bld a e st))"
    "good_step cfg st (Some (WDGM_REPORT_DEM_ERROR bld ev st))" "good_step cfg st (Some (WDGM_CHECK_INIT_NR bld a st))"
  using inv_reports [OF assms] by (simp_all add: good_step_def)

lemma good_after:
  assumes "keeps st st1" and "good_step cfg st1 r"
  shows "good_step cfg st r"
  using assms keeps_trans [OF assms(1)] by (fastforce simp: good_step_def keeps_def)

lemmas good_intros = good_same good_report inv_reports

text \<open>A call that only touches the supervision data keeps the invariant.\<close>

lemma running_data:
  assumes "running cfg st" and "map LocalState (SEs st') = map LocalState (SEs st)"
    and "ConfigPtr st' = ConfigPtr st" and "CurrentMode st' = CurrentMode st" and "GlobalState st' = GlobalState st"
    and "\<forall>q \<in> set (mode_ids (Modes cfg ! CurrentMode st)). q < length (SEs st)"
  shows "running cfg st'"
proof -
  have len: "length (SEs st') = length (SEs st)" using assms(2) by (metis length_map)
  have "LocalState (SEs st' ! q) = LocalState (SEs st ! q)" if "q < length (SEs st)" for q
    using that assms(2) by (metis length_map nth_map)
  then show ?thesis
    using assms(1,3-6) len any_state_local [OF assms(2,6)] by (auto simp: running_def)
qed

lemma good_GetMode: "wdgm_inv cfg st \<Longrightarrow> good_step cfg st (map_option (snd \<circ> snd) (WdgM_GetMode bld p st))"
  by (auto simp: WdgM_GetMode_def deref_def ub_simps wdgm_inv_def running_def intro: good_intros)

lemma good_GetLocalStatus:
  "wdgm_inv cfg st \<Longrightarrow> unat se \<noteq> length (SupervisedEntities cfg) \<Longrightarrow>
     good_step cfg st (map_option (snd \<circ> snd) (WdgM_GetLocalStatus bld se p st))"
  by (auto simp: WdgM_GetLocalStatus_def deref_def ub_simps wdgm_inv_def running_def rt_shape_def intro: good_intros)

lemma good_GetGlobalStatus: "wdgm_inv cfg st \<Longrightarrow> good_step cfg st (Some (snd (snd (WdgM_GetGlobalStatus bld p st))))"
  by (auto simp: WdgM_GetGlobalStatus_def intro: good_intros)

lemma good_GetFirstExpiredSEID:
  "wdgm_inv cfg st \<Longrightarrow> good_step cfg st (Some (snd (snd (WdgM_GetFirstExpiredSEID bld p st))))"
  by (auto simp: WdgM_GetFirstExpiredSEID_def intro: good_intros)

lemma good_PerformReset:
  assumes "wdgm_config_ok bld cfg" and "wdgm_inv cfg st"
  shows "good_step cfg st (WdgM_PerformReset bld st)"
proof (cases "isInitiated st \<and> \<not> ResetInitiated st")
  case True
  let ?st = "st\<lparr>ResetInitiated := True,
    wd_calls := wd_calls st @ map (\<lambda>w. WdgTrigger (WatchdogDeviceId w) 0) (Watchdogs cfg)\<rparr>"
  have "WdgM_PerformReset bld st = Some ?st"
    using True assms by (simp add: WdgM_PerformReset_def stop_watchdogs_def stop_watchdogs_eq wdgm_config_ok_def
        wdgm_inv_def running_def deref_def)
  moreover have "wdgm_inv cfg ?st"
    using assms(2) True by (simp add: wdgm_inv_def) (simp add: running_def any_state_def)
  ultimately show ?thesis by (auto simp: good_step_def keeps_def list_all_iff)
qed (use assms(2) in \<open>auto simp: WdgM_PerformReset_def intro: good_intros\<close>)

lemma good_CheckpointReached:
  assumes "wdgm_config_ok bld cfg" and "wdgm_inv cfg st" and "unat se \<noteq> length (SupervisedEntities cfg)"
  shows "good_step cfg st (map_option snd (WdgM_CheckpointReached bld se cp st))"
proof (cases "isInitiated st \<and> unat se < length (SupervisedEntities cfg) \<and>
    \<not> length (CheckpointIds (SupervisedEntities cfg ! unat se)) < unat cp \<and>
    LocalState (SEs st ! unat se) \<noteq> WDGM_LOCAL_STATUS_DEACTIVATED")
  case False
  have "ConfigPtr st = Some cfg" "length (SEs st) = length (SupervisedEntities cfg)" if "isInitiated st"
    using assms(2) that by (auto simp: wdgm_inv_def running_def rt_shape_def)
  then have "\<exists>e. WdgM_CheckpointReached bld se cp st =
      Some (E_NOT_OK, WDGM_REPORT_DET_ERROR bld WDGM_SID_CHECKPOINTREACHED e st)"
    using False assms(3) by (auto simp: WdgM_CheckpointReached_def deref_def rd_def)
  then show ?thesis using good_report(1) [OF assms(2)] by auto
next
  case True
  let ?k = "CurrentMode st"
  let ?m = "Modes cfg ! ?k"
  have sh: "rt_shape cfg st" and run: "running cfg st" using assms(2) True by (auto simp: wdgm_inv_def)
  then have k: "?k < length (Modes cfg)" and len: "length (SEs st) = length (SupervisedEntities cfg)"
    by (simp_all add: running_def rt_shape_def)
  have "unat se \<in> set (mode_ids ?m)" using run True len by (auto simp: running_def)
  then have "find (\<lambda>i. SupervisedEntityId (SEConfigurations ?m ! i) = se) [0..<length (SEConfigurations ?m)] \<noteq> None"
    by (auto simp: find_None_iff in_set_conv_nth mode_ids_nth word_unat_eq_iff)
  then obtain i where i: "find (\<lambda>i. SupervisedEntityId (SEConfigurations ?m ! i) = se)
      [0..<length (SEConfigurations ?m)] = Some i" by blast
  then have i': "i < length (SEConfigurations ?m)" by (auto simp: find_Some_iff)
  let ?c = "SEConfigurations ?m ! i"
  obtain rsc1 where 1: "WdgM_internal_AliveMonitoring ?c (the_rsc ?k i st) cp = Some rsc1" "seconf_shape ?c rsc1"
    using AliveMonitoring_total [OF shape_nth(3) [OF sh k i']] by blast
  obtain r p rsc2 where 2: "WdgM_internal_DeadlineMonitoring (CurrentTime st) (SEs st ! unat se) ?c rsc1 cp =
      Some (r, (SEs st ! unat se)\<lparr>PreviousCheckpointId_Deadline := p\<rparr>, rsc2)" "seconf_shape ?c rsc2"
    using deadline_loop_total [of 0 "DeadlineSupervisions ?c" rsc1 "CurrentTime st" cp "SEs st ! unat se"] 1(2)
    by (auto simp: WdgM_internal_DeadlineMonitoring_def seconf_shape_def)
  let ?rse = "(SEs st ! unat se)\<lparr>PreviousCheckpointId_Deadline := p, SubstateDeadline := r\<rparr>"
  let ?lg = "WdgM_internal_LogicalMonitoring (SupervisedEntities cfg ! unat se) ?rse cp"
  let ?rse' = "if CheckInternalLogic ?c then (snd ?lg)\<lparr>SubstateLogical := fst ?lg\<rparr> else ?rse"
  have loc: "LocalState ?rse' = LocalState (SEs st ! unat se)"
    by (simp add: WdgM_internal_LogicalMonitoring_def WdgM_internal_LogicalMonitoring_GraphActive_def
        WdgM_internal_LogicalMonitoring_GraphInactive_def Let_def)
  let ?st1 = "upd_rsc ?k i rsc2 st"
  let ?st' = "?st1\<lparr>SEs := (SEs st)[unat se := ?rse']\<rparr>"
  have "WdgM_CheckpointReached bld se cp st = Some (E_OK, ?st')"
    using True run len k i 1(1) 2(1) get_rsc_eq [OF sh k i'] set_rsc_eq [OF sh k i']
    by (simp add: WdgM_CheckpointReached_def running_def deref_def ub_simps config_ModeId [OF assms(1) k] set_se_eq
        case_prod_beta Let_def)
  moreover have "rt_shape cfg ?st'" using rt_shape_upd_rsc [OF sh k i' 2(2)] by (simp add: rt_shape_def)
  moreover have "running cfg ?st'"
    using running_data [OF run] loc mode_ids_less [OF config_mode_ok [OF assms(1) k]] len
    by (simp add: map_field_update)
  ultimately show ?thesis by (simp add: good_step_def wdgm_inv_def keeps_def map_field_update)
qed

lemma good_UpdateAliveCounter:
  assumes "wdgm_config_ok bld cfg" and "wdgm_inv cfg st"
  shows "good_step cfg st (map_option snd (WdgM_UpdateAliveCounter bld se st))"
proof (cases "isInitiated st")
  case False
  then show ?thesis using assms(2) by (simp add: WdgM_UpdateAliveCounter_def good_report)
next
  case True
  let ?m = "Modes cfg ! CurrentMode st"
  define st1 where "st1 = WDGM_REPORT_DET_ERROR bld WDGM_SID_UPDATEALIVECOUNTER WDGM_E_DEPRECATED st"
  have keeps: "keeps st st1" and inv1: "wdgm_inv cfg st1" using inv_reports(1) [OF assms(2)] by (simp_all add: st1_def)
  have st1: "ConfigPtr st1 = Some cfg" "CurrentMode st1 = CurrentMode st" "CurrentMode st < length (Modes cfg)"
    using True assms(2) only_calls_fields [OF only_calls_reports(1)] by (simp_all add: st1_def wdgm_inv_def running_def)
  have ids: "unat se \<noteq> length (SupervisedEntities cfg)"
    if "find (\<lambda>c. SupervisedEntityId c = se) (SEConfigurations ?m) = Some c" for c
  proof -
    have "unat se \<in> set (mode_ids ?m)" using that by (auto simp: find_Some_iff mode_ids_def)
    then show ?thesis using mode_ids_less [OF config_mode_ok [OF assms(1) st1(3)]] by force
  qed
  have "good_step cfg st1 (map_option snd (WdgM_UpdateAliveCounter bld se st))"
  proof (cases "find (\<lambda>c. SupervisedEntityId c = se) (SEConfigurations ?m)")
    case None
    then show ?thesis
      using True st1 inv1 by (simp add: WdgM_UpdateAliveCounter_def st1_def [symmetric] deref_def ub_simps good_report)
  next
    case (Some c)
    then show ?thesis
      using True st1 inv1 good_CheckpointReached [OF assms(1) inv1 ids]
      by (simp add: WdgM_UpdateAliveCounter_def st1_def [symmetric] deref_def ub_simps good_report good_same
          split: list.splits)
  qed
  then show ?thesis by (rule good_after [OF keeps])
qed

lemma mode_triggers:
  "wdgm_config_ok bld cfg \<Longrightarrow> k < length (Modes cfg) \<Longrightarrow>
     list_all (\<lambda>t. unat (TriggerWatchdogId t) < length (Watchdogs cfg)) (Triggers (Modes cfg ! k))"
  using config_mode_ok by (simp add: mode_ok_def)

lemma good_DeInit:
  assumes "wdgm_config_ok bld cfg" and "wdgm_inv cfg st"
  shows "good_step cfg st (WdgM_DeInit bld st)"
proof (cases "isInitiated st \<and> GlobalState st = WDGM_GLOBAL_STATUS_OK")
  case False
  then show ?thesis using assms(2) by (auto simp: WdgM_DeInit_def intro: good_intros)
next
  case True
  let ?k = "CurrentMode st"
  have run: "running cfg st" and sh: "rt_shape cfg st" using assms(2) True by (simp_all add: wdgm_inv_def)
  then have k: "?k < length (Modes cfg)" and c: "ConfigPtr st = Some cfg" by (simp_all add: running_def)
  let ?st = "st\<lparr>GlobalState := WDGM_GLOBAL_STATUS_DEACTIVATED\<rparr>"
  obtain r st1 where 1: "deactivate_loop bld cfg 0 (Triggers (Modes cfg ! ?k)) ?st = Some (r, st1)"
    and fr: "only_calls (halt_unless r ?st) st1"
    using deactivate_loop_total [OF assms(1) mode_triggers [OF assms(1) k], of 0 ?st] by blast
  note f1 = only_calls_fields [OF fr]
  have ws: "list_all (\<lambda>w. WatchdogDeviceId w < WdgIf_NumberOfDevices bld) (Watchdogs cfg)"
    using assms(1) by (simp add: wdgm_config_ok_def)
  have d: "WdgM_DeInit bld st = (if r = E_OK
      then Some (st1\<lparr>wd_calls := wd_calls st1 @ map (\<lambda>w. WdgTrigger (WatchdogDeviceId w) 0) (Watchdogs cfg), isInitiated := False\<rparr>)
      else Some st1)"
    using True 1 f1(6) c k by (simp add: WdgM_DeInit_def WdgM_internal_deactivateCurrentTriggers_def deref_def ub_simps
        stop_watchdogs_def stop_watchdogs_eq [OF ws])
  have "running cfg st1" if "r \<noteq> E_OK"
    using that f1 run True by (auto simp: running_def any_state_def)
  then show ?thesis
    using d f1(5,11) sh True by (auto simp: good_step_def wdgm_inv_def)
qed

section \<open>Changing the mode\<close>

lemma no_expired:
  assumes "running cfg st" and "GlobalState st \<in> {WDGM_GLOBAL_STATUS_OK, WDGM_GLOBAL_STATUS_FAILED}" and "q < length (SEs st)"
  shows "LocalState (SEs st ! q) \<noteq> WDGM_LOCAL_STATUS_EXPIRED"
proof
  assume e: "LocalState (SEs st ! q) = WDGM_LOCAL_STATUS_EXPIRED"
  then have "q \<in> set (mode_ids (Modes cfg ! CurrentMode st))" using assms(1,3) by (auto simp: running_def)
  then have "any_state WDGM_LOCAL_STATUS_EXPIRED (Modes cfg ! CurrentMode st) st"
    using e by (auto simp: any_state_def list_ex_iff)
  then show False using assms(1,2) by (auto simp: running_def)
qed

definition mode_allowed :: "WdgM_build \<Rightarrow> WdgM_ConfigType \<Rightarrow> nat \<Rightarrow> uint16 \<Rightarrow> bool" where
  "mode_allowed bld cfg k CallerID \<longleftrightarrow> k < length (Modes cfg) \<and>
     (WDGM_OFF_MODE_ENABLED bld \<or> list_ex (\<lambda>t. WatchdogMode t \<noteq> WDGIF_OFF_MODE) (Triggers (Modes cfg ! k))) \<and>
     (WDGM_DEFENSIVE_BEHAVIOR bld \<longrightarrow> CallerID \<in> set (allowedCallerIds cfg))"

definition switched :: "WdgM_ConfigType \<Rightarrow> nat \<Rightarrow> WdgM_internalData \<Rightarrow> WdgM_internalData \<Rightarrow> bool" where
  "switched cfg k st st' \<longleftrightarrow> CurrentMode st' = k \<and> length (SEs st') = length (SEs st) \<and>
     (\<forall>q < length (SEs st). SEs st' ! q =
        (if q \<in> set (mode_ids (Modes cfg ! k)) then se_activate (SEs st ! q) else se_reset (SEs st ! q)))"

lemma switched_running:
  assumes "switched cfg k st st'" and "running cfg st" and "GlobalState st \<in> {WDGM_GLOBAL_STATUS_OK, WDGM_GLOBAL_STATUS_FAILED}"
    and "k < length (Modes cfg)" and "ConfigPtr st' = Some cfg"
    and "GlobalState st' = GlobalState st \<or> GlobalState st' = WDGM_GLOBAL_STATUS_STOPPED"
    and ids: "\<forall>q \<in> set (mode_ids (Modes cfg ! k)). q < length (SEs st)"
  shows "running cfg st'"
proof -
  have "\<not> any_state WDGM_LOCAL_STATUS_EXPIRED (Modes cfg ! k) st'"
    using assms(1) no_expired [OF assms(2,3)] ids by (auto simp: any_state_def list_ex_iff switched_def)
  then show ?thesis using assms by (auto simp: running_def switched_def)
qed

text \<open>
  Every driver accepts the end of the mode \<open>k\<close> and the start of the mode \<open>n\<close>, and the calls of the change.
\<close>

definition change_accepted :: "WdgM_build \<Rightarrow> WdgM_ConfigType \<Rightarrow> nat \<Rightarrow> nat \<Rightarrow> bool" where
  "change_accepted bld cfg k n \<longleftrightarrow> modes_accepted bld cfg (\<lambda>_. WDGIF_OFF_MODE) (Triggers (Modes cfg ! k)) \<and>
     modes_accepted bld cfg WatchdogMode (Triggers (Modes cfg ! n))"

definition change_calls :: "WdgM_ConfigType \<Rightarrow> nat \<Rightarrow> nat \<Rightarrow> WdgM_Call list" where
  "change_calls cfg k n = off_calls cfg (Triggers (Modes cfg ! k)) @ mode_calls cfg (Triggers (Modes cfg ! n))"

lemma change_triggers_total:
  assumes "wdgm_config_ok bld cfg" and "k < length (Modes cfg)" and "n < length (Modes cfg)" and "ConfigPtr st = Some cfg"
  shows "\<exists>r st'. (do {
      (r, st) \<leftarrow> deactivate_loop bld cfg ev (Triggers (Modes cfg ! k)) st;
      (r, st) \<leftarrow> (if r = E_OK then WdgM_internal_activateTriggers bld (Modes cfg ! n) ev st else Some (r, st));
      Some (r, st\<lparr>CurrentMode := n\<rparr>) }) = Some (r, st'\<lparr>CurrentMode := n\<rparr>) \<and>
    only_calls (halt_unless r st) st' \<and> r = (if change_accepted bld cfg k n then E_OK else E_NOT_OK) \<and>
    (r = E_OK \<longrightarrow> wd_calls st' = wd_calls st @ change_calls cfg k n)"
proof -
  obtain r1 st1 where 1: "deactivate_loop bld cfg ev (Triggers (Modes cfg ! k)) st = Some (r1, st1)"
    and fr1: "only_calls (halt_unless r1 st) st1"
    using deactivate_loop_total [OF assms(1) mode_triggers [OF assms(1,2)]] by blast
  obtain r2 st2 where 2: "activate_loop bld cfg ev (Triggers (Modes cfg ! n)) st1 = Some (r2, st2)"
    and fr2: "only_calls (halt_unless r2 st1) st2"
    using activate_loop_total [OF assms(1) mode_triggers [OF assms(1,3)]] by blast
  note res1 = deactivate_loop_result [OF assms(1) mode_triggers [OF assms(1,2)] 1]
  note res2 = activate_loop_result [OF assms(1) mode_triggers [OF assms(1,3)] 2]
  show ?thesis
  proof (cases "r1 = E_OK")
    case True
    then have "only_calls st st1" using fr1 by simp
    moreover have "modes_accepted bld cfg (\<lambda>_. WDGIF_OFF_MODE) (Triggers (Modes cfg ! k))"
      "wd_calls st1 = wd_calls st @ off_calls cfg (Triggers (Modes cfg ! k))"
      using res1 True by (auto split: if_splits)
    ultimately show ?thesis
      using True 1 2 only_calls_halt [OF _ fr2] only_calls_fields(6) assms(4) res2
      by (intro exI [of _ r2] exI [of _ st2])
         (simp add: WdgM_internal_activateTriggers_def deref_def change_accepted_def change_calls_def)
  next
    case False
    then show ?thesis using 1 fr1 res1
      by (intro exI [of _ r1] exI [of _ st1]) (auto simp: change_accepted_def split: if_splits)
  qed
qed

lemma SetMode_total:
  assumes "wdgm_config_ok bld cfg" and "rt_shape cfg st" and "running cfg st" and "isInitiated st"
    and "GlobalState st \<in> {WDGM_GLOBAL_STATUS_OK, WDGM_GLOBAL_STATUS_FAILED}" and "mode_allowed bld cfg (unat md) c"
  shows "\<exists>r st'. WdgM_SetMode bld md c st = Some (r, st') \<and> isInitiated st' \<and> rt_shape cfg st' \<and>
    running cfg st' \<and> switched cfg (unat md) st st' \<and>
    GlobalState st' = (if r = E_OK then GlobalState st else WDGM_GLOBAL_STATUS_STOPPED) \<and>
    r = (if change_accepted bld cfg (CurrentMode st) (unat md) then E_OK else E_NOT_OK) \<and>
    (r = E_OK \<longrightarrow> wd_calls st' = wd_calls st @ change_calls cfg (CurrentMode st) (unat md)) \<and>
    RtModes st' = (RtModes st)[CurrentMode st := WdgM_internal_ResetSEConfigsForMode (RtModes st ! CurrentMode st)]"
proof -
  let ?n = "unat md" and ?k = "CurrentMode st" and ?ev = "SetModeEventId bld cfg"
  have n: "?n < length (Modes cfg)" using assms(6) by (simp add: mode_allowed_def)
  have k: "?k < length (Modes cfg)" and c: "ConfigPtr st = Some cfg" using assms(3) by (simp_all add: running_def)
  have len: "length (SEs st) = length (SupervisedEntities cfg)" using assms(2) by (simp add: rt_shape_def)
  note ok = config_mode_ok [OF assms(1) n]
  have ids: "\<forall>q \<in> set (mode_ids (Modes cfg ! ?n)). q < length (SEs st)" using mode_ids_less [OF ok] len by simp
  obtain st1 where 1: "switch_loop (length (SupervisedEntities cfg)) (mode_ids (Modes cfg ! ?n)) 0 st = Some st1"
    "se_frame st st1" and se1: "\<forall>q < length (SEs st). SEs st1 ! q =
      (if q \<in> set (mode_ids (Modes cfg ! ?n)) then se_activate (SEs st ! q) else se_reset (SEs st ! q))"
    using switch_loop_total [of "mode_ids (Modes cfg ! ?n)" 0 st] ok ids len by (auto simp: mode_ok_def)
  note f1 = se_frame_fields [OF 1(2)]
  have sh1: "rt_shape cfg st1" using assms(2) f1 by simp
  obtain l where 2: "reset_mode ?k st1 = Some (st1\<lparr>RtModes := l\<rparr>)" and sh2: "rt_shape cfg (st1\<lparr>RtModes := l\<rparr>)"
    and l: "l = (RtModes st1)[?k := WdgM_internal_ResetSEConfigsForMode (RtModes st1 ! ?k)]"
    using reset_mode_total [OF sh1 k] by blast
  let ?st2 = "st1\<lparr>RtModes := l\<rparr>"
  obtain r st4 where 3: "(do {
      (r, st) \<leftarrow> deactivate_loop bld cfg ?ev (Triggers (Modes cfg ! ?k)) ?st2;
      (r, st) \<leftarrow> (if r = E_OK then WdgM_internal_activateTriggers bld (Modes cfg ! ?n) ?ev st else Some (r, st));
      Some (r, st\<lparr>CurrentMode := ?n\<rparr>) }) = Some (r, st4\<lparr>CurrentMode := ?n\<rparr>)"
    and fr: "only_calls (halt_unless r ?st2) st4"
    and res: "r = (if change_accepted bld cfg ?k ?n then E_OK else E_NOT_OK)"
      "r = E_OK \<longrightarrow> wd_calls st4 = wd_calls ?st2 @ change_calls cfg ?k ?n"
    using change_triggers_total [OF assms(1) k n, of ?st2 ?ev] f1(4) c by auto
  note f4 = only_calls_fields [OF fr]
  let ?st' = "st4\<lparr>CurrentMode := ?n\<rparr>"
  have "WdgM_SetMode bld md c st = do {
      (r, st) \<leftarrow> deactivate_loop bld cfg ?ev (Triggers (Modes cfg ! ?k)) ?st2;
      (r, st) \<leftarrow> (if r = E_OK then WdgM_internal_activateTriggers bld (Modes cfg ! ?n) ?ev st else Some (r, st));
      Some (r, st\<lparr>CurrentMode := ?n\<rparr>) }"
    using assms(4-6) n k c 1(1) 2 f1
    by (cases "WDGM_OFF_MODE_ENABLED bld")
       (simp_all add: WdgM_SetMode_def mode_allowed_def deref_def ub_simps WdgM_internal_isAtLeastOneWdogEnabled_def
        WdgM_internal_isAllowedForCalling_def Let_def mode_ids_def [symmetric] config_ModeId [OF assms(1) k]
        WdgM_internal_deactivateCurrentTriggers_def)
  then have eq: "WdgM_SetMode bld md c st = Some (r, ?st')" by (simp only: 3)
  have gs: "GlobalState ?st' = (if r = E_OK then GlobalState st else WDGM_GLOBAL_STATUS_STOPPED)"
    using f1 f4 by simp
  have sw: "switched cfg ?n st ?st'" using se1 f1 f4 by (simp add: switched_def)
  have "running cfg ?st'"
    using switched_running [OF sw assms(3,5) n] gs ids c f1 f4 by simp
  moreover have "rt_shape cfg ?st'" "isInitiated ?st'" using sh2 f1 f4 assms(4) by simp_all
  moreover have "RtModes ?st' = (RtModes st)[?k := WdgM_internal_ResetSEConfigsForMode (RtModes st ! ?k)]"
    "r = E_OK \<longrightarrow> wd_calls ?st' = wd_calls st @ change_calls cfg ?k ?n"
    using f4 l f1 res(2) by simp_all
  ultimately show ?thesis using eq gs sw res(1) by blast
qed

lemma good_SetMode:
  assumes "wdgm_config_ok bld cfg" and "wdgm_inv cfg st"
  shows "good_step cfg st (map_option snd (WdgM_SetMode bld md c st))"
proof (cases "isInitiated st")
  case False
  then show ?thesis using assms(2) by (simp add: WdgM_SetMode_def good_report)
next
  case True
  then have run: "running cfg st" and sh: "rt_shape cfg st" and c: "ConfigPtr st = Some cfg"
    using assms(2) by (simp_all add: wdgm_inv_def running_def)
  show ?thesis
  proof (cases "mode_allowed bld cfg (unat md) c \<and> GlobalState st \<in> {WDGM_GLOBAL_STATUS_OK, WDGM_GLOBAL_STATUS_FAILED}")
    case True
    then show ?thesis
      using SetMode_total [OF assms(1) sh run \<open>isInitiated st\<close>, of md c] by (auto simp: good_step_def wdgm_inv_def)
  next
    case False
    then have "\<exists>r st'. WdgM_SetMode bld md c st = Some (r, st') \<and>
        (st' = st \<or> (\<exists>a e. st' = WDGM_REPORT_DET_ERROR bld a e st) \<or> (\<exists>e. st' = WDGM_REPORT_DEM_ERROR bld e st))"
      using True c by (auto simp: WdgM_SetMode_def mode_allowed_def deref_def rd_def Let_def
          WdgM_internal_isAtLeastOneWdogEnabled_def WdgM_internal_isAllowedForCalling_def not_less)
    then show ?thesis using good_report [OF assms(2)] good_same [OF assms(2)] by auto
  qed
qed

section \<open>Initialisation\<close>

lemma activate_configs:
  assumes "\<forall>c \<in> set cs. unat (SupervisedEntityId c) < length (SEs st)"
  shows "\<exists>st'. for_each (\<lambda>c st. do {
       rse \<leftarrow> rd (SEs st) (unat (SupervisedEntityId c));
       set_se (unat (SupervisedEntityId c)) (rse\<lparr>LocalState := WDGM_LOCAL_STATUS_OK\<rparr>) st }) cs st = Some st' \<and>
    se_frame st st' \<and>
    (\<forall>q < length (SEs st). SEs st' ! q =
       (if q \<in> (\<lambda>c. unat (SupervisedEntityId c)) ` set cs then (SEs st ! q)\<lparr>LocalState := WDGM_LOCAL_STATUS_OK\<rparr>
        else SEs st ! q))"
  using assms
proof (induction cs arbitrary: st)
  case (Cons c cs)
  let ?q = "unat (SupervisedEntityId c)"
  let ?st = "st\<lparr>SEs := (SEs st)[?q := (SEs st ! ?q)\<lparr>LocalState := WDGM_LOCAL_STATUS_OK\<rparr>]\<rparr>"
  obtain st' where IH: "for_each (\<lambda>c st. do {
       rse \<leftarrow> rd (SEs st) (unat (SupervisedEntityId c));
       set_se (unat (SupervisedEntityId c)) (rse\<lparr>LocalState := WDGM_LOCAL_STATUS_OK\<rparr>) st }) cs ?st = Some st'"
    "se_frame ?st st'" "\<forall>q < length (SEs ?st). SEs st' ! q =
       (if q \<in> (\<lambda>c. unat (SupervisedEntityId c)) ` set cs then (SEs ?st ! q)\<lparr>LocalState := WDGM_LOCAL_STATUS_OK\<rparr>
        else SEs ?st ! q)"
    using Cons.IH [of ?st] Cons.prems by auto
  have "se_frame st st'" using se_frame_trans [OF se_frame_upd IH(2)] .
  then show ?case using IH(1,3) Cons.prems by (auto simp: ub_simps set_se_eq nth_list_update)
qed auto

lemma Init_total:
  assumes "wdgm_config_ok bld cfg" and "rt_shape cfg st" and "\<not> isInitiated st"
    and "WDGM_OFF_MODE_ENABLED bld \<or>
      list_ex (\<lambda>t. WatchdogMode t \<noteq> WDGIF_OFF_MODE) (Triggers (Modes cfg ! unat (initialModeId cfg)))"
  shows "\<exists>r st'. WdgM_Init bld (Some cfg) st = Some st' \<and> rt_shape cfg st' \<and> isInitiated st' = (r = E_OK) \<and>
    (isInitiated st' \<longrightarrow> running cfg st' \<and> GlobalState st' = WDGM_GLOBAL_STATUS_OK)"
proof -
  let ?k = "unat (initialModeId cfg)"
  let ?m = "Modes cfg ! ?k" and ?st = "st\<lparr>ConfigPtr := Some cfg\<rparr>"
  have k: "?k < length (Modes cfg)" using assms(1) by (simp add: wdgm_config_ok_def)
  have id: "unat (ModeId ?m) = ?k" by (rule config_ModeId [OF assms(1) k])
  have len: "length (SEs st) = length (SupervisedEntities cfg)" using assms(2) by (simp add: rt_shape_def)
  obtain st1 where 1: "for_each WdgM_internal_DeactivateAndResetSE [0..<length (SupervisedEntities cfg)] ?st = Some st1"
    "se_frame ?st st1" "\<forall>q. SEs st1 ! q = (if q < length (SEs st) then se_reset (SEs st ! q) else SEs st ! q)"
    using deactivate_range [of "length (SEs ?st)" ?st 0] len by auto
  note f1 = se_frame_fields [OF 1(2)]
  have ids: "\<forall>q \<in> set (mode_ids ?m). q < length (SEs st)"
    using mode_ids_less [OF config_mode_ok [OF assms(1) k]] len by simp
  then have "\<forall>c \<in> set (SEConfigurations ?m). unat (SupervisedEntityId c) < length (SEs st1)"
    using f1 by (simp add: mode_ids_def)
  then obtain st2 where 2: "for_each (\<lambda>c st. do {
       rse \<leftarrow> rd (SEs st) (unat (SupervisedEntityId c));
       set_se (unat (SupervisedEntityId c)) (rse\<lparr>LocalState := WDGM_LOCAL_STATUS_OK\<rparr>) st }) (SEConfigurations ?m) st1 = Some st2"
    "se_frame st1 st2" "\<forall>q < length (SEs st1). SEs st2 ! q =
       (if q \<in> set (mode_ids ?m) then (SEs st1 ! q)\<lparr>LocalState := WDGM_LOCAL_STATUS_OK\<rparr> else SEs st1 ! q)"
    using activate_configs [of "SEConfigurations ?m" st1] by (auto simp: mode_ids_def)
  note f2 = se_frame_fields [OF 2(2)]
  obtain l where 3: "reset_mode ?k st2 = Some (st2\<lparr>RtModes := l\<rparr>)" and sh3: "rt_shape cfg (st2\<lparr>RtModes := l\<rparr>)"
    using reset_mode_total [OF _ k, of st2] f1 f2 assms(2) by auto
  let ?st4 = "st2\<lparr>RtModes := l, GlobalState := WDGM_GLOBAL_STATUS_OK, isFirstExpiredSet := False,
                firstExpiredSEID := 0, CurrentMode := ?k, ResetInitiated := False, CurrentTime := 0\<rparr>"
  obtain r st5 where 5: "activate_loop bld cfg (SetModeEventId bld cfg) (Triggers ?m) ?st4 = Some (r, st5)"
    "only_calls (halt_unless r ?st4) st5"
    using activate_loop_total [OF assms(1) mode_triggers [OF assms(1) k]] by blast
  note f5 = only_calls_fields [OF 5(2)]
  let ?st' = "if r = E_OK then st5\<lparr>isInitiated := True\<rparr> else st5"
  have "WdgM_Init bld (Some cfg) st = Some ?st'"
    using assms(3,4) k 1(1) 2(1) 3 5(1) f1 f2 unfolding WdgM_Init_def
    by (auto simp: ub_simps WdgM_internal_isAtLeastOneWdogEnabled_def id WdgM_internal_activateTriggers_def
        deref_def Let_def)
  moreover have "running cfg ?st'" if "r = E_OK"
    using that f5 f2 f1 1(3) 2(3) k ids by (auto simp: running_def any_state_def list_ex_iff)
  moreover have "rt_shape cfg ?st'" "isInitiated ?st' = (r = E_OK)" "r = E_OK \<Longrightarrow> GlobalState ?st' = WDGM_GLOBAL_STATUS_OK"
    using f5 sh3 f2 f1 assms(3) by (simp_all add: rt_shape_def)
  ultimately show ?thesis by (intro exI [of _ r] exI [of _ ?st']) simp
qed

lemma good_Init:
  assumes "wdgm_config_ok bld cfg" and "wdgm_inv cfg st"
  shows "good_step cfg st (WdgM_Init bld (Some cfg) st)"
proof (cases "isInitiated st")
  case True
  then show ?thesis using assms(2) by (simp add: WdgM_Init_def good_same)
next
  case False
  let ?k = "unat (initialModeId cfg)"
  have k: "?k < length (Modes cfg)" using assms(1) by (simp add: wdgm_config_ok_def)
  have sh: "rt_shape cfg st" using assms(2) by (simp add: wdgm_inv_def)
  show ?thesis
  proof (cases "WDGM_OFF_MODE_ENABLED bld \<or> list_ex (\<lambda>t. WatchdogMode t \<noteq> WDGIF_OFF_MODE) (Triggers (Modes cfg ! ?k))")
    case True
    then show ?thesis using Init_total [OF assms(1) sh False True] False
      by (auto simp: good_step_def wdgm_inv_def)
  next
    case off: False
    let ?st = "WDGM_REPORT_DET_ERROR bld WDGM_SID_INIT WDGM_E_DISABLE_NOT_ALLOWED (st\<lparr>ConfigPtr := Some cfg\<rparr>)"
    have "WdgM_Init bld (Some cfg) st = Some ?st"
      using off False k by (simp add: WdgM_Init_def ub_simps WdgM_internal_isAtLeastOneWdogEnabled_def
          config_ModeId [OF assms(1) k])
    moreover have "wdgm_inv cfg (st\<lparr>ConfigPtr := Some cfg\<rparr>)" using sh False by (simp add: wdgm_inv_def)
    then have "wdgm_inv cfg ?st" by (rule inv_reports)
    ultimately show ?thesis using False by (simp add: good_step_def)
  qed
qed

section \<open>Sequences of calls\<close>

lemma good_op:
  assumes "wdgm_config_ok bld cfg" and "wdgm_inv cfg st" and "op_ok cfg op" and "op \<noteq> OpMainFunction"
  shows "good_step cfg st (wd_step bld cfg op st)"
  using assms good_Init [OF assms(1,2)] good_DeInit [OF assms(1,2)] good_SetMode [OF assms(1,2)]
    good_GetMode [OF assms(2)] good_CheckpointReached [OF assms(1,2)] good_UpdateAliveCounter [OF assms(1,2)]
    good_GetLocalStatus [OF assms(2)] good_GetGlobalStatus [OF assms(2)] good_PerformReset [OF assms(1,2)]
    good_GetFirstExpiredSEID [OF assms(2)]
  by (cases op) simp_all

lemma wdgm_op_inv:
  assumes "wdgm_config_ok bld cfg" and "wdgm_inv cfg st" and "op_ok cfg op"
  shows "\<exists>st'. wd_step bld cfg op st = Some st' \<and> wdgm_inv cfg st'"
proof (cases "op = OpMainFunction \<and> isInitiated st")
  case True
  then show ?thesis
    using MainFunction_step [OF assms(1)] assms(2) by (auto simp: wdgm_inv_def main_result_def Let_def)
next
  case False
  then show ?thesis
    using good_op [OF assms] good_report(3) [OF assms(2)]
    by (cases "op = OpMainFunction") (auto simp: good_step_def WdgM_MainFunction_def)
qed

lemma harmless_stop: "list_all harmless (halt_calls bld cfg g)" "list_all harmless (trigger_calls cfg True ts)"
  by (auto simp: halt_calls_def trigger_calls_def list_all_iff)

lemma stopped_op:
  assumes "wdgm_config_ok bld cfg" and "wdgm_inv cfg st" and "op_ok cfg op"
    and "isInitiated st" and "GlobalState st = WDGM_GLOBAL_STATUS_STOPPED"
  shows "\<exists>st' cs. wd_step bld cfg op st = Some st' \<and> wdgm_inv cfg st' \<and> isInitiated st' \<and>
    GlobalState st' = WDGM_GLOBAL_STATUS_STOPPED \<and> wd_calls st' = wd_calls st @ cs \<and> list_all harmless cs"
proof (cases "op = OpMainFunction")
  case True
  have "rt_shape cfg st" "running cfg st" using assms(2,4) by (simp_all add: wdgm_inv_def)
  then obtain st' where "WdgM_MainFunction bld st = Some st'" "main_result bld cfg st st'"
    using MainFunction_step [OF assms(1) _ _ assms(4)] by blast
  moreover have "GlobalState st' = WDGM_GLOBAL_STATUS_STOPPED"
    using calculation(2) assms(5) by (simp add: main_result_def Let_def global_next_def)
  ultimately show ?thesis using True harmless_stop by (simp add: main_result_def Let_def wdgm_inv_def)
next
  case False
  then show ?thesis using good_op [OF assms(1-3)] assms(4,5) by (auto simp: good_step_def keeps_def)
qed

text \<open>
  C29: Whatever calls of the interface are made in whatever order, starting from runtime data of
  the right shape and an uninitialised manager, no call faults (no access outside an array, no
  failing assertion), and afterwards the invariant holds: while the manager is initialised exactly
  the supervised entities of the current mode are active, an expired entity implies a global
  status expired or stopped, and conversely. The entity identifier that equals the number of
  entities is excluded: the range check accepts it.
\<close>

theorem wdgm_calls_safe:
  assumes "wdgm_config_ok bld cfg" and "rt_shape cfg st" and "\<not> isInitiated st" and "list_all (op_ok cfg) ops"
  shows "\<exists>st'. for_each (wd_step bld cfg) ops st = Some st' \<and> wdgm_inv cfg st'"
proof (rule for_each_inv)
  show "wdgm_inv cfg st" using assms(2,3) by (simp add: wdgm_inv_def)
  show "\<exists>s'. wd_step bld cfg op s = Some s' \<and> wdgm_inv cfg s'" if "op \<in> set ops" "wdgm_inv cfg s" for op s
    using that wdgm_op_inv [OF assms(1)] assms(4) by (simp add: list_all_iff)
qed

text \<open>A configuration with two entities and two modes, the second without the first entity.\<close>

definition example_build :: WdgM_build where
  "example_build = \<lparr>WDGM_DEV_ERROR_DETECT = True, WDGM_DEFENSIVE_BEHAVIOR = False, WDGM_OFF_MODE_ENABLED = False,
     WDGM_DEM_ALIVE_SUPERVISION_REPORT = True, WDGM_IMMEDIATE_RESET = False, USE_DEM = True,
     WDGIF_DEV_ERROR_DETECT = True, WdgIf_NumberOfDevices = 1, Wdg_SetMode = (\<lambda>d m. E_OK)\<rparr>"

definition example_se :: WdgM_SupervisedEntity where
  "example_se = \<lparr>CheckpointIds = [0, 1], Transitions = [\<lparr>CheckpointIdSource = 0, CheckpointIdDestination = 1\<rparr>],
     StartCheckpointIds = [0], FinalCheckpointIds = [1]\<rparr>"

definition example_seconf :: "uint16 \<Rightarrow> WdgM_SupervisedEntityConfiguration" where
  "example_seconf i = \<lparr>SupervisedEntityId = i, CheckInternalLogic = True,
     AliveSupervisions = [\<lparr>CheckpointId = 0, ExpectedAliveIndications = 2, MinMargin = 1, MaxMargin = 1,
       SupervisionReferenceCycle = 1\<rparr>],
     DeadlineSupervisions = [], FailedAliveSupervisionReferenceCycleTol = 0\<rparr>"

definition example_mode :: "uint8 \<Rightarrow> uint16 list \<Rightarrow> WdgM_Mode" where
  "example_mode k ids = \<lparr>ModeId = k, ExpiredSupervisionCycleTol = 1, SupervisionCycle = 10,
     SEConfigurations = map example_seconf ids,
     Triggers = [\<lparr>TriggerConditionValue = 50, WatchdogMode = WDGIF_FAST_MODE, TriggerWatchdogId = 0\<rparr>]\<rparr>"

definition example_cfg :: WdgM_ConfigType where
  "example_cfg = \<lparr>allowedCallerIds = [], SupervisedEntities = [example_se, example_se],
     Watchdogs = [\<lparr>WatchdogId = 0, WatchdogDeviceId = 0\<rparr>],
     DemEventIdRefs = \<lparr>ImproperCaller = 1, Monitoring = 2, SetModeEvent = 3\<rparr>,
     initialModeId = 0, Modes = [example_mode 0 [0, 1], example_mode 1 [1]]\<rparr>"

definition example_state :: WdgM_internalData where
  "example_state =
     (let se = \<lparr>LocalState = WDGM_LOCAL_STATUS_OK, SubstateAlive = WDGM_SUBSTATE_INCORRECT,
                SubstateDeadline = WDGM_SUBSTATE_INCORRECT, SubstateLogical = WDGM_SUBSTATE_INCORRECT,
                IsInternalGraphActive = False, PreviousCheckpointId_Deadline = 0,
                PreviousCheckpointId_internalLogic = 0, FailedAliveCyclesCounter = 0\<rparr>;
          rsc = \<lparr>RtAliveSupervisions = [\<lparr>AliveCounter = 0, SupervisionCycleCounter = 0, wasEvaluated = False\<rparr>],
                 RtDeadlineSupervisions = []\<rparr>
      in \<lparr>ConfigPtr = None, SEs = [se, se],
          RtModes = [\<lparr>SE_Configs = [rsc, rsc], ExpiredSupervisionCycleCounter = 0\<rparr>,
                     \<lparr>SE_Configs = [rsc], ExpiredSupervisionCycleCounter = 0\<rparr>],
          isInitiated = False, GlobalState = WDGM_GLOBAL_STATUS_OK, CurrentTime = 0, CurrentMode = 0,
          ResetInitiated = False, firstExpiredSEID = 0, isFirstExpiredSet = False, wd_calls = []\<rparr>)"

lemma example_ok:
  "wdgm_config_ok example_build example_cfg" "rt_shape example_cfg example_state" "\<not> isInitiated example_state"
  by (simp_all add: wdgm_config_ok_def example_cfg_def example_build_def mode_ok_def mode_ids_def example_mode_def
      example_seconf_def rt_shape_def example_state_def Let_def seconf_shape_def)

theorem wdgm_calls_safe_witness:
  "\<exists>st'. for_each (wd_step example_build example_cfg)
     [OpMainFunction, OpInit, OpCheckpointReached 0 0, OpCheckpointReached 0 7, OpMainFunction, OpSetMode 1 0,
      OpCheckpointReached 5 0, OpSetMode 9 0, OpPerformReset, OpMainFunction, OpDeInit] example_state = Some st' \<and>
     wdgm_inv example_cfg st'"
  by (rule wdgm_calls_safe [OF example_ok]) (simp add: example_cfg_def)

lemma stopped_ops:
  assumes "wdgm_config_ok bld cfg" and "list_all (op_ok cfg) ops"
    and "wdgm_inv cfg st" and "isInitiated st" and "GlobalState st = WDGM_GLOBAL_STATUS_STOPPED"
  shows "\<exists>st' cs. for_each (wd_step bld cfg) ops st = Some st' \<and> isInitiated st' \<and>
    GlobalState st' = WDGM_GLOBAL_STATUS_STOPPED \<and> wd_calls st' = wd_calls st @ cs \<and> list_all harmless cs"
  using assms(2-)
proof (induction ops arbitrary: st)
  case (Cons op ops)
  then obtain st1 cs where 1: "wd_step bld cfg op st = Some st1" "wdgm_inv cfg st1" "isInitiated st1"
    "GlobalState st1 = WDGM_GLOBAL_STATUS_STOPPED" "wd_calls st1 = wd_calls st @ cs" "list_all harmless cs"
    using stopped_op [OF assms(1), of st op] by auto
  then show ?case using Cons.IH [of st1] Cons.prems(1) by fastforce
qed simp

text \<open>
  C30: Stopped is final. Once the global status is stopped, no sequence of calls leaves it: every
  trigger condition the manager still passes to a watchdog driver is 0, and it changes no
  watchdog's mode, so the watchdogs are left to fire.
\<close>

theorem wdgm_stopped_is_final:
  assumes "wdgm_config_ok bld cfg" and "list_all (op_ok cfg) ops"
    and "wdgm_inv cfg st" and "isInitiated st" and "GlobalState st = WDGM_GLOBAL_STATUS_STOPPED"
  shows "\<exists>st' cs. for_each (wd_step bld cfg) ops st = Some st' \<and> isInitiated st' \<and>
    GlobalState st' = WDGM_GLOBAL_STATUS_STOPPED \<and> wd_calls st' = wd_calls st @ cs \<and> list_all harmless cs"
  by (rule stopped_ops [OF assms])

definition example_stopped :: WdgM_internalData where
  "example_stopped = example_state\<lparr>ConfigPtr := Some example_cfg, isInitiated := True,
     GlobalState := WDGM_GLOBAL_STATUS_STOPPED\<rparr>"

lemma example_stopped_inv: "wdgm_inv example_cfg example_stopped"
  using example_ok(2)
  by (simp add: wdgm_inv_def example_stopped_def running_def any_state_def)
     (auto simp: example_state_def Let_def example_cfg_def example_mode_def mode_ids_def example_seconf_def
       less_Suc_eq nth_Cons')

theorem wdgm_stopped_is_final_witness:
  "\<exists>st' cs. for_each (wd_step example_build example_cfg)
     [OpInit, OpSetMode 1 0, OpMainFunction, OpDeInit, OpPerformReset, OpMainFunction] example_stopped = Some st' \<and>
     isInitiated st' \<and> GlobalState st' = WDGM_GLOBAL_STATUS_STOPPED \<and>
     wd_calls st' = wd_calls example_stopped @ cs \<and> list_all harmless cs"
  by (rule wdgm_stopped_is_final [OF example_ok(1) _ example_stopped_inv]) (simp_all add: example_stopped_def)

lemma expired_op:
  assumes "wdgm_config_ok bld cfg" and "wdgm_inv cfg st" and "op_ok cfg op"
    and "isInitiated st" and "GlobalState st = WDGM_GLOBAL_STATUS_EXPIRED"
  shows "\<exists>st'. wd_step bld cfg op st = Some st' \<and> wdgm_inv cfg st' \<and> isInitiated st' \<and>
    CurrentMode st' = CurrentMode st \<and>
    (if op = OpMainFunction then
       (if expired_count (CurrentMode st) st < ExpiredSupervisionCycleTol (Modes cfg ! CurrentMode st)
        then GlobalState st' = WDGM_GLOBAL_STATUS_EXPIRED \<and>
          expired_count (CurrentMode st) st' = expired_count (CurrentMode st) st + 1
        else GlobalState st' = WDGM_GLOBAL_STATUS_STOPPED)
     else GlobalState st' = WDGM_GLOBAL_STATUS_EXPIRED \<and>
       expired_count (CurrentMode st) st' = expired_count (CurrentMode st) st)"
proof (cases "op = OpMainFunction")
  case True
  have run: "rt_shape cfg st" "running cfg st" using assms(2,4) by (simp_all add: wdgm_inv_def)
  then obtain st' where st': "WdgM_MainFunction bld st = Some st'" "main_result bld cfg st st'"
    using MainFunction_step [OF assms(1) _ _ assms(4)] by blast
  have "any_state WDGM_LOCAL_STATUS_EXPIRED (Modes cfg ! CurrentMode st) st'"
  proof (rule ccontr)
    assume no: "\<not> any_state WDGM_LOCAL_STATUS_EXPIRED (Modes cfg ! CurrentMode st) st'"
    then have "GlobalState st' = WDGM_GLOBAL_STATUS_EXPIRED"
      using st'(2) assms(5) by (simp add: main_result_def Let_def global_next_def)
    then show False using st'(2) no by (auto simp: main_result_def Let_def running_def)
  qed
  then show ?thesis
    using st' True assms(5) by (auto simp: main_result_def Let_def wdgm_inv_def global_next_def)
next
  case False
  obtain st' where st': "wd_step bld cfg op st = Some st'" "wdgm_inv cfg st'" "keeps st st'"
    using good_op [OF assms(1-3) False] assms(4,5) by (auto simp: good_step_def)
  have "expired_count (CurrentMode st) st' = expired_count (CurrentMode st) st"
  proof -
    have "CurrentMode st < length (RtModes st)"
      using shape_nth(1) [of cfg st] assms(2,4) by (auto simp: wdgm_inv_def running_def)
    then show ?thesis using st'(3) unfolding keeps_def by (metis length_map nth_map)
  qed
  then show ?thesis using st' False assms(4,5) by (simp add: keeps_def)
qed

text \<open>
  C31: An expired system is stopped. From a state whose global status is expired, every sequence of
  calls that contains enough executions of the main function (one more than what is left of the
  tolerance of the mode) ends in the status stopped; no checkpoint, mode request or
  re-initialisation in between prevents it.
\<close>

theorem wdgm_expired_is_stopped:
  assumes "wdgm_config_ok bld cfg" and "list_all (op_ok cfg) ops"
    and "wdgm_inv cfg st" and "isInitiated st" and "GlobalState st = WDGM_GLOBAL_STATUS_EXPIRED"
    and "length (filter (\<lambda>op. op = OpMainFunction) ops) >
      unat (ExpiredSupervisionCycleTol (Modes cfg ! CurrentMode st)) - unat (expired_count (CurrentMode st) st)"
  shows "\<exists>st'. for_each (wd_step bld cfg) ops st = Some st' \<and> GlobalState st' = WDGM_GLOBAL_STATUS_STOPPED"
  using assms(2-)
proof (induction ops arbitrary: st)
  case (Cons op ops)
  let ?k = "CurrentMode st"
  let ?tol = "ExpiredSupervisionCycleTol (Modes cfg ! ?k)"
  obtain st1 where 1: "wd_step bld cfg op st = Some st1" "wdgm_inv cfg st1" "isInitiated st1" "CurrentMode st1 = ?k"
    and eff: "if op = OpMainFunction then
       (if expired_count ?k st < ?tol
        then GlobalState st1 = WDGM_GLOBAL_STATUS_EXPIRED \<and> expired_count ?k st1 = expired_count ?k st + 1
        else GlobalState st1 = WDGM_GLOBAL_STATUS_STOPPED)
     else GlobalState st1 = WDGM_GLOBAL_STATUS_EXPIRED \<and> expired_count ?k st1 = expired_count ?k st"
    using expired_op [OF assms(1) Cons.prems(2) _ Cons.prems(3,4), of op] Cons.prems(1) by auto
  show ?case
  proof (cases "GlobalState st1 = WDGM_GLOBAL_STATUS_STOPPED")
    case True
    then show ?thesis using stopped_ops [OF assms(1) _ 1(2,3)] Cons.prems(1) 1(1) by auto
  next
    case False
    have "GlobalState st1 = WDGM_GLOBAL_STATUS_EXPIRED \<and>
        unat ?tol - unat (expired_count ?k st1) < length (filter (\<lambda>op. op = OpMainFunction) ops)"
      using eff False Cons.prems(5) by (auto split: if_splits simp: unat_inc word_less_nat_alt)
    then show ?thesis using Cons.IH [OF _ 1(2,3)] Cons.prems(1) 1 by simp
  qed
qed simp

definition example_expired :: WdgM_internalData where
  "example_expired = example_stopped\<lparr>GlobalState := WDGM_GLOBAL_STATUS_EXPIRED,
     SEs := map (\<lambda>se. se\<lparr>LocalState := WDGM_LOCAL_STATUS_EXPIRED\<rparr>) (SEs example_stopped)\<rparr>"

lemma example_expired_inv: "wdgm_inv example_cfg example_expired"
  using example_stopped_inv
  by (auto simp: wdgm_inv_def example_expired_def example_stopped_def running_def any_state_def rt_shape_def
      example_state_def Let_def example_cfg_def example_mode_def mode_ids_def example_seconf_def less_Suc_eq)

theorem wdgm_expired_is_stopped_witness:
  "\<exists>st'. for_each (wd_step example_build example_cfg)
     [OpCheckpointReached 0 0, OpMainFunction, OpSetMode 1 0, OpInit, OpMainFunction] example_expired = Some st' \<and>
     GlobalState st' = WDGM_GLOBAL_STATUS_STOPPED"
  by (rule wdgm_expired_is_stopped [OF example_ok(1) _ example_expired_inv])
     (simp_all add: example_expired_def example_stopped_def example_state_def Let_def example_cfg_def example_mode_def)

end
