(* ===== verification/WdgM_Supervision.thy ===== *)
theory WdgM_Supervision
  imports WdgM_Api
begin

text \<open>
  What the supervision of the watchdog manager decides: the alive supervision over a whole
  reference cycle, the logical supervision over a whole sequence of checkpoints, the status
  machines of a main function, and the effect of a mode change.
\<close>

section \<open>Alive supervision\<close>

text \<open>
  One supervision cycle of an alive supervision with \<open>n\<close> indications in it, as
  \<^verbatim>\<open>WdgM_internal_AliveMonitoring\<close> and the loop of \<^verbatim>\<open>WdgM_internal_CheckAlives\<close> process it,
  and a run of several cycles with the result of each.
\<close>

definition alive_cycle ::
  "WdgM_AliveSupervision \<Rightarrow> nat \<Rightarrow> WdgM_internal_AliveSupervision \<Rightarrow> WdgM_Substate \<times> WdgM_internal_AliveSupervision" where
  "alive_cycle cp n ra = WdgM_internal_IsAliveHold cp
     (ra\<lparr>AliveCounter := AliveCounter ra + of_nat n, SupervisionCycleCounter := SupervisionCycleCounter ra + 1\<rparr>)"

fun alive_run ::
  "WdgM_AliveSupervision \<Rightarrow> nat list \<Rightarrow> WdgM_internal_AliveSupervision \<Rightarrow>
   (WdgM_Substate \<times> bool) list \<times> WdgM_internal_AliveSupervision" where
  "alive_run cp [] ra = ([], ra)"
| "alive_run cp (n # ns) ra =
     (let (v, ra') = alive_cycle cp n ra; (vs, ra'') = alive_run cp ns ra'
      in ((v, wasEvaluated ra') # vs, ra''))"

lemma sint_of_diff:
  fixes e :: uint16
  assumes "s < 32768" and "unat e < 32768"
  shows "sint (of_nat s - e) = int s - int (unat e)"
proof -
  have eq: "of_nat s - e = (word_of_int (int s - int (unat e)) :: uint16)"
    by simp
  have "sint (of_nat s - e) = signed_take_bit (LENGTH(16) - 1) (int s - int (unat e))"
    unfolding eq by (rule sint_sbintrunc')
  also have "\<dots> = int s - int (unat e)"
  proof -
    have "- 32768 \<le> int s - int (unat e)" "int s - int (unat e) < 32768" using assms by linarith+
    then show ?thesis by (intro signed_take_bit_int_eq_self) simp_all
  qed
  finally show ?thesis .
qed

lemma SpecAliveAlgo_verdict:
  assumes "AliveCounter ra = of_nat s" and "SupervisionCycleCounter ra = SupervisionReferenceCycle cp"
    and "s < 32768" and "unat (ExpectedAliveIndications cp) < 32768"
  shows "WdgM_internal_SpecAliveAlgo cp ra =
    (if unat (ExpectedAliveIndications cp) \<le> s + unat (MinMargin cp) \<and>
        s \<le> unat (ExpectedAliveIndications cp) + unat (MaxMargin cp)
     then WDGM_SUBSTATE_CORRECT else WDGM_SUBSTATE_INCORRECT,
     ra\<lparr>AliveCounter := 0, SupervisionCycleCounter := 0\<rparr>)"
proof -
  have "(ucast (of_nat s :: uint32) :: uint16) = of_nat s"
    using assms(3) by (simp add: unsigned_of_nat take_bit_nat_eq_self)
  then have temp: "(ucast (AliveCounter ra) :: uint16) - SupervisionCycleCounter ra +
      (SupervisionReferenceCycle cp - ExpectedAliveIndications cp) = of_nat s - ExpectedAliveIndications cp"
    using assms(1,2) by (simp add: algebra_simps)
  have "int s - int (unat (ExpectedAliveIndications cp)) \<le> int (unat (MaxMargin cp)) \<and>
      0 - int (unat (MinMargin cp)) \<le> int s - int (unat (ExpectedAliveIndications cp)) \<longleftrightarrow>
      unat (ExpectedAliveIndications cp) \<le> s + unat (MinMargin cp) \<and>
      s \<le> unat (ExpectedAliveIndications cp) + unat (MaxMargin cp)"
    by linarith
  then show ?thesis
    unfolding WdgM_internal_SpecAliveAlgo_def Let_def temp sint_of_diff [OF assms(3,4)] by simp
qed

lemma alive_run_quiet:
  assumes "k + length ns < unat (SupervisionReferenceCycle cp)"
    and "AliveCounter ra = of_nat s" and "SupervisionCycleCounter ra = of_nat k" and "\<not> wasEvaluated ra"
  shows "alive_run cp ns ra = (replicate (length ns) (WDGM_SUBSTATE_CORRECT, False),
    ra\<lparr>AliveCounter := of_nat (s + sum_list ns), SupervisionCycleCounter := of_nat (k + length ns)\<rparr>)"
  using assms
proof (induction ns arbitrary: k s ra)
  case (Cons n ns)
  let ?ra = "ra\<lparr>AliveCounter := of_nat (s + n), SupervisionCycleCounter := of_nat (Suc k), wasEvaluated := False\<rparr>"
  have k: "Suc k < unat (SupervisionReferenceCycle cp)" using Cons.prems(1) by simp
  then have "unat (of_nat (Suc k) :: uint16) = Suc k"
    using unat_uint16_less [of "SupervisionReferenceCycle cp"] by (intro unat_of_nat_small) (simp del: unat_uint16_less)
  then have "of_nat (Suc k) \<noteq> SupervisionReferenceCycle cp" and "SupervisionReferenceCycle cp \<noteq> 1"
    using k by auto
  then have "alive_cycle cp n ra = (WDGM_SUBSTATE_CORRECT, ?ra)"
    using Cons.prems by (simp add: alive_cycle_def WdgM_internal_IsAliveHold_def add.commute)
  then show ?case using Cons.IH [of "Suc k" ?ra "s + n"] Cons.prems(1,4) by (simp add: ac_simps)
qed simp

lemma alive_run_append:
  "alive_run cp (xs @ ys) ra =
     (fst (alive_run cp xs ra) @ fst (alive_run cp ys (snd (alive_run cp xs ra))),
      snd (alive_run cp ys (snd (alive_run cp xs ra))))"
  by (induction xs arbitrary: ra) (simp_all add: case_prod_beta Let_def)

text \<open>
  C34: The alive supervision of a checkpoint over one supervision reference cycle. Whatever the
  distribution of the indications over its cycles, only the last cycle is evaluated, and its
  result is correct exactly if the number of indications lies between the expected number minus
  the minimum margin and the expected number plus the maximum margin; the counters are then reset
  for the next reference cycle. The counts have to stay below 2^15, where the 16-bit arithmetic
  of the code does not wrap.
\<close>

theorem wdgm_alive_reference_cycle:
  assumes "AliveCounter ra = 0" and "SupervisionCycleCounter ra = 0" and "\<not> wasEvaluated ra"
    and "0 < SupervisionReferenceCycle cp" and "length ns = unat (SupervisionReferenceCycle cp)"
    and "sum_list ns < 32768" and "unat (ExpectedAliveIndications cp) < 32768"
  shows "alive_run cp ns ra =
    (map (\<lambda>n. (WDGM_SUBSTATE_CORRECT, False)) (butlast ns) @
     [(if unat (ExpectedAliveIndications cp) \<le> sum_list ns + unat (MinMargin cp) \<and>
          sum_list ns \<le> unat (ExpectedAliveIndications cp) + unat (MaxMargin cp)
       then WDGM_SUBSTATE_CORRECT else WDGM_SUBSTATE_INCORRECT, True)],
     ra\<lparr>AliveCounter := 0, SupervisionCycleCounter := 0, wasEvaluated := True\<rparr>)"
proof -
  have "ns \<noteq> []" using assms(4,5) by (auto simp: word_gt_0 unat_eq_0)
  then obtain xs n where ns: "ns = xs @ [n]" by (metis rev_exhaust)
  let ?ra = "ra\<lparr>AliveCounter := of_nat (sum_list xs), SupervisionCycleCounter := of_nat (length xs)\<rparr>"
  have 1: "alive_run cp xs ra = (replicate (length xs) (WDGM_SUBSTATE_CORRECT, False), ?ra)"
    using alive_run_quiet [of 0 xs cp ra 0] assms(1-3,5) ns by simp
  have src: "(1 + of_nat (length xs) :: uint16) = SupervisionReferenceCycle cp"
  proof -
    have "(of_nat (length ns) :: uint16) = SupervisionReferenceCycle cp" using assms(5) by simp
    then show ?thesis using ns by simp
  qed
  have 2: "alive_cycle cp n ?ra =
    (if unat (ExpectedAliveIndications cp) \<le> sum_list ns + unat (MinMargin cp) \<and>
        sum_list ns \<le> unat (ExpectedAliveIndications cp) + unat (MaxMargin cp)
     then WDGM_SUBSTATE_CORRECT else WDGM_SUBSTATE_INCORRECT,
     ra\<lparr>AliveCounter := 0, SupervisionCycleCounter := 0, wasEvaluated := True\<rparr>)"
    using SpecAliveAlgo_verdict [of _ "sum_list ns" cp] assms(6,7) ns
    by (simp add: alive_cycle_def WdgM_internal_IsAliveHold_def src add.commute Let_def)
  show ?thesis unfolding ns alive_run_append using 2 by (simp add: 1 ns map_replicate_const)
qed

theorem wdgm_alive_reference_cycle_witness:
  "alive_run \<lparr>CheckpointId = 1, ExpectedAliveIndications = 4, MinMargin = 1, MaxMargin = 0, SupervisionReferenceCycle = 3\<rparr>
     [0, 3, 2] \<lparr>AliveCounter = 0, SupervisionCycleCounter = 0, wasEvaluated = False\<rparr> =
   ([(WDGM_SUBSTATE_CORRECT, False), (WDGM_SUBSTATE_CORRECT, False), (WDGM_SUBSTATE_INCORRECT, True)],
    \<lparr>AliveCounter = 0, SupervisionCycleCounter = 0, wasEvaluated = True\<rparr>)"
  using wdgm_alive_reference_cycle [of
      "\<lparr>AliveCounter = 0, SupervisionCycleCounter = 0, wasEvaluated = False\<rparr>"
      "\<lparr>CheckpointId = 1, ExpectedAliveIndications = 4, MinMargin = 1, MaxMargin = 0, SupervisionReferenceCycle = 3\<rparr>"
      "[0, 3, 2]"]
  by simp

section \<open>Logical supervision\<close>

text \<open>The results of the logical supervision for a sequence of checkpoints of one entity.\<close>

fun logical_run ::
  "WdgM_SupervisedEntity \<Rightarrow> uint16 list \<Rightarrow> WdgM_internal_SupervisedEntity \<Rightarrow>
   WdgM_Substate list \<times> WdgM_internal_SupervisedEntity" where
  "logical_run se [] rse = ([], rse)"
| "logical_run se (c # cs) rse =
     (let (r, rse') = WdgM_internal_LogicalMonitoring se rse c; (rs, rse'') = logical_run se cs rse'
      in (r # rs, rse''))"

definition edge :: "WdgM_SupervisedEntity \<Rightarrow> uint16 \<Rightarrow> uint16 \<Rightarrow> bool" where
  "edge se a b \<longleftrightarrow> list_ex (\<lambda>t. CheckpointIdSource t = a \<and> CheckpointIdDestination t = b) (Transitions se)"

text \<open>A path that has not reached a final checkpoint, and one that ends with its first one.\<close>

definition open_path :: "WdgM_SupervisedEntity \<Rightarrow> uint16 list \<Rightarrow> bool" where
  "open_path se p \<longleftrightarrow> p \<noteq> [] \<and> hd p \<in> set (StartCheckpointIds se) \<and> successively (edge se) p \<and>
     set (tl p) \<inter> set (FinalCheckpointIds se) = {}"

definition full_path :: "WdgM_SupervisedEntity \<Rightarrow> uint16 list \<Rightarrow> bool" where
  "full_path se p \<longleftrightarrow> p \<noteq> [] \<and> open_path se (butlast p) \<and> edge se (last (butlast p)) (last p) \<and>
     last p \<in> set (FinalCheckpointIds se)"

abbreviation all_correct :: "WdgM_Substate list \<Rightarrow> bool" where
  "all_correct rs \<equiv> list_all (\<lambda>r. r = WDGM_SUBSTATE_CORRECT) rs"

lemmas logical_defs = WdgM_internal_LogicalMonitoring_def WdgM_internal_LogicalMonitoring_GraphActive_def
  WdgM_internal_LogicalMonitoring_GraphInactive_def

lemma logical_run_append:
  "logical_run se (xs @ ys) rse =
     (fst (logical_run se xs rse) @ fst (logical_run se ys (snd (logical_run se xs rse))),
      snd (logical_run se ys (snd (logical_run se xs rse))))"
  by (induction xs arbitrary: rse) (simp_all add: case_prod_beta Let_def)

lemma open_path_snoc:
  "p \<noteq> [] \<Longrightarrow> open_path se (p @ [c]) \<longleftrightarrow> open_path se p \<and> edge se (last p) c \<and> c \<notin> set (FinalCheckpointIds se)"
  by (auto simp: open_path_def successively_append_iff)

lemma open_path_single: "open_path se [c] \<longleftrightarrow> c \<in> set (StartCheckpointIds se)"
  by (simp add: open_path_def)

lemma full_path_snoc:
  "full_path se (p @ [c]) \<longleftrightarrow> open_path se p \<and> edge se (last p) c \<and> c \<in> set (FinalCheckpointIds se)"
  by (simp add: full_path_def)

text \<open>The state of the supervision after an open path, or between two paths.\<close>

definition at_path :: "WdgM_SupervisedEntity \<Rightarrow> uint16 list \<Rightarrow> WdgM_internal_SupervisedEntity \<Rightarrow> bool" where
  "at_path se p rse \<longleftrightarrow>
     (if p = [] then \<not> IsInternalGraphActive rse
      else open_path se p \<and> IsInternalGraphActive rse \<and> PreviousCheckpointId_internalLogic rse = last p)"

lemma logical_step:
  assumes "at_path se p rse" and "WdgM_internal_LogicalMonitoring se rse c = (r, rse')"
  shows "r = WDGM_SUBSTATE_CORRECT \<longleftrightarrow> open_path se (p @ [c]) \<or> (p \<noteq> [] \<and> full_path se (p @ [c]))"
    and "p = [] \<or> c \<notin> set (FinalCheckpointIds se) \<Longrightarrow> r = WDGM_SUBSTATE_CORRECT \<Longrightarrow> at_path se (p @ [c]) rse'"
    and "p \<noteq> [] \<Longrightarrow> c \<in> set (FinalCheckpointIds se) \<Longrightarrow> r = WDGM_SUBSTATE_CORRECT \<Longrightarrow> at_path se [] rse'"
proof -
  note step = assms(2) [unfolded logical_defs Let_def edge_def [symmetric]]
  show "r = WDGM_SUBSTATE_CORRECT \<longleftrightarrow> open_path se (p @ [c]) \<or> (p \<noteq> [] \<and> full_path se (p @ [c]))"
    using assms(1) step
    by (cases "p = []") (auto simp: at_path_def open_path_snoc open_path_single full_path_snoc split: if_splits)
  show "at_path se (p @ [c]) rse'" if "p = [] \<or> c \<notin> set (FinalCheckpointIds se)" "r = WDGM_SUBSTATE_CORRECT"
    using assms(1) step that
    by (cases "p = []") (auto simp: at_path_def open_path_snoc open_path_single split: if_splits)
  show "at_path se [] rse'" if "p \<noteq> []" "c \<in> set (FinalCheckpointIds se)" "r = WDGM_SUBSTATE_CORRECT"
    using assms(1) step that by (auto simp: at_path_def split: if_splits)
qed

definition decomposes :: "WdgM_SupervisedEntity \<Rightarrow> uint16 list \<Rightarrow> bool" where
  "decomposes se cs \<longleftrightarrow> (\<exists>ps p. cs = concat ps @ p \<and> list_all (full_path se) ps \<and> (p = [] \<or> open_path se p))"

lemma decomposes_Cons_full: "full_path se p \<Longrightarrow> decomposes se cs \<Longrightarrow> decomposes se (p @ cs)"
proof -
  assume p: "full_path se p" and "decomposes se cs"
  then obtain ps q where "cs = concat ps @ q" "list_all (full_path se) ps" "q = [] \<or> open_path se q"
    by (auto simp: decomposes_def)
  then show ?thesis using p unfolding decomposes_def by (intro exI [of _ "p # ps"] exI [of _ q]) simp
qed

lemma accepted_decomposes:
  assumes "at_path se p rse" and "all_correct (fst (logical_run se cs rse))"
  shows "decomposes se (p @ cs)"
  using assms
proof (induction cs arbitrary: p rse)
  case Nil
  then have "p = [] \<or> open_path se p" by (auto simp: at_path_def split: if_splits)
  then show ?case unfolding decomposes_def by (intro exI [of _ "[]"] exI [of _ p]) simp
next
  case (Cons c cs)
  obtain r rse' where step: "WdgM_internal_LogicalMonitoring se rse c = (r, rse')" by fastforce
  then have ok: "r = WDGM_SUBSTATE_CORRECT" and rest: "all_correct (fst (logical_run se cs rse'))"
    using Cons.prems(2) by (simp_all add: case_prod_beta)
  show ?case
  proof (cases "p = [] \<or> c \<notin> set (FinalCheckpointIds se)")
    case True
    then show ?thesis using Cons.IH [OF logical_step(2) [OF Cons.prems(1) step True ok] rest] by simp
  next
    case False
    then have "full_path se (p @ [c])"
      using logical_step(1) [OF Cons.prems(1) step] ok by (auto simp: open_path_snoc)
    moreover have "decomposes se cs"
      using Cons.IH [OF logical_step(3) [OF Cons.prems(1) step] rest] False ok by simp
    ultimately show ?thesis using decomposes_Cons_full [of se "p @ [c]" cs] by simp
  qed
qed

lemma open_path_accepted:
  assumes "at_path se [] rse" and "open_path se p"
  shows "all_correct (fst (logical_run se p rse)) \<and> at_path se p (snd (logical_run se p rse))"
  using assms(2)
proof (induction p rule: rev_induct)
  case (snoc c p)
  obtain r rse' where step: "WdgM_internal_LogicalMonitoring se (snd (logical_run se p rse)) c = (r, rse')" by fastforce
  have path: "at_path se p (snd (logical_run se p rse))" and ok: "all_correct (fst (logical_run se p rse))"
    and fin: "p = [] \<or> c \<notin> set (FinalCheckpointIds se)"
    using snoc assms(1) by (cases "p = []"; simp add: open_path_snoc)+
  have r: "r = WDGM_SUBSTATE_CORRECT" using logical_step(1) [OF path step] snoc.prems by simp
  then show ?case using logical_step(2) [OF path step fin r] ok step by (simp add: logical_run_append)
qed (simp add: open_path_def)

lemma full_path_accepted:
  assumes "at_path se [] rse" and "full_path se p"
  shows "all_correct (fst (logical_run se p rse)) \<and> at_path se [] (snd (logical_run se p rse))"
proof -
  obtain q c where p: "p = q @ [c]" using assms(2) by (metis append_butlast_last_id full_path_def)
  then have q: "open_path se q" "c \<in> set (FinalCheckpointIds se)" "q \<noteq> []"
    using assms(2) by (auto simp: full_path_snoc open_path_def)
  note acc = open_path_accepted [OF assms(1) q(1)]
  obtain r rse' where step: "WdgM_internal_LogicalMonitoring se (snd (logical_run se q rse)) c = (r, rse')" by fastforce
  have r: "r = WDGM_SUBSTATE_CORRECT"
    using logical_step(1) [OF conjunct2 [OF acc] step] q(3) assms(2) by (simp add: p)
  then show ?thesis
    using logical_step(3) [OF conjunct2 [OF acc] step q(3,2) r] acc step by (simp add: p logical_run_append)
qed

lemma full_paths_accepted:
  assumes "at_path se [] rse" and "list_all (full_path se) ps"
  shows "all_correct (fst (logical_run se (concat ps) rse)) \<and> at_path se [] (snd (logical_run se (concat ps) rse))"
  using assms
proof (induction ps arbitrary: rse)
  case (Cons p ps)
  then show ?case using full_path_accepted [of se rse p] by (simp add: logical_run_append)
qed simp

text \<open>
  C33: The logical supervision of an entity whose graph is inactive accepts a sequence of
  checkpoints exactly if it is a concatenation of complete paths through the internal graph of the
  entity (from a start checkpoint along transitions to the first final checkpoint), followed by
  nothing or by a path that has not reached a final checkpoint.
\<close>

theorem wdgm_logical_supervision:
  assumes "\<not> IsInternalGraphActive rse"
  shows "all_correct (fst (logical_run se cs rse)) \<longleftrightarrow> decomposes se cs"
proof
  have start: "at_path se [] rse" using assms by (simp add: at_path_def)
  show "decomposes se cs" if "all_correct (fst (logical_run se cs rse))"
    using accepted_decomposes [OF start that] by simp
  assume "decomposes se cs"
  then obtain ps p where cs: "cs = concat ps @ p" "list_all (full_path se) ps" "p = [] \<or> open_path se p"
    by (auto simp: decomposes_def)
  note full = full_paths_accepted [OF start cs(2)]
  then show "all_correct (fst (logical_run se cs rse))"
    using open_path_accepted [of se _ p] cs(3) by (auto simp: cs(1) logical_run_append)
qed

theorem wdgm_logical_supervision_witness:
  "decomposes example_se [0, 1, 0] \<and> \<not> decomposes example_se [0, 0]"
proof -
  have "\<not> IsInternalGraphActive (SEs example_state ! 0)" by (simp add: example_state_def Let_def)
  note th = wdgm_logical_supervision [OF this, of example_se]
  show ?thesis unfolding th [symmetric] by (simp add: example_se_def example_state_def Let_def logical_defs)
qed

section \<open>The main function\<close>

text \<open>
  C32: One execution of the main function of an initialised manager. Every entity of the current
  mode takes a step of the local status machine (with the alive result of this cycle and the
  deadline and logical results reported since the last one); the global status takes a step of the
  global machine, on whether an entity is now expired or failed and whether the tolerance of the
  mode is used up, and the counter of expired cycles advances accordingly. The only calls that
  leave the manager are a Dem report and a reset if it is stopped, and then one trigger condition
  for each watchdog that is not off: the configured one, or 0 if stopped.
\<close>

theorem wdgm_main_function:
  assumes "wdgm_config_ok bld cfg" and "wdgm_inv cfg st" and "isInitiated st"
  shows "\<exists>st'. WdgM_MainFunction bld st = Some st' \<and> main_result bld cfg st st'"
  using MainFunction_step [OF assms(1)] assms(2,3) by (simp add: wdgm_inv_def)

theorem wdgm_main_function_witness:
  "\<exists>st'. WdgM_MainFunction example_build example_expired = Some st' \<and>
     main_result example_build example_cfg example_expired st'"
  by (rule wdgm_main_function [OF example_ok(1) example_expired_inv])
     (simp add: example_expired_def example_stopped_def)

section \<open>Changing the mode\<close>

text \<open>
  C35: A mode change that is allowed (the mode exists, does not switch every watchdog off unless
  that is enabled, and the caller is allowed) in a system that is neither expired nor stopped makes
  the new mode the current one, and its entities exactly the active ones: an entity of the new mode that
  was active keeps its record (local status, sub-statuses, position in its graph), one that was not becomes
  OK, and every other entity is deactivated and reset. The alive counters, deadline timestamps and, if
  it has a configuration, the counter of expired cycles of the mode that is left are cleared, those of the
  other modes stay. The result is E_OK exactly if the drivers accept to switch off every watchdog of the old mode and to set the
  mode of every watchdog of the new one; then exactly these calls are made, with the trigger conditions of
  the watchdogs that are not off, and the global status is unchanged. Otherwise the result is E_NOT_OK and
  the global status is stopped.
\<close>

theorem wdgm_set_mode:
  assumes "wdgm_config_ok bld cfg" and "wdgm_inv cfg st" and "isInitiated st"
    and "GlobalState st \<in> {WDGM_GLOBAL_STATUS_OK, WDGM_GLOBAL_STATUS_FAILED}" and "mode_allowed bld cfg (unat md) c"
  shows "\<exists>r st'. WdgM_SetMode bld md c st = Some (r, st') \<and> wdgm_inv cfg st' \<and> isInitiated st' \<and>
    CurrentMode st' = unat md \<and>
    list_all (\<lambda>q. SEs st' ! q =
      (if q \<in> set (mode_ids (Modes cfg ! unat md)) then se_activate (SEs st ! q) else se_reset (SEs st ! q)))
      [0..<length (SEs st)] \<and>
    RtModes st' = (RtModes st)[CurrentMode st := WdgM_internal_ResetSEConfigsForMode (RtModes st ! CurrentMode st)] \<and>
    r = (if change_accepted bld cfg (CurrentMode st) (unat md) then E_OK else E_NOT_OK) \<and>
    (r = E_OK \<longrightarrow> wd_calls st' = wd_calls st @ change_calls cfg (CurrentMode st) (unat md)) \<and>
    GlobalState st' = (if r = E_OK then GlobalState st else WDGM_GLOBAL_STATUS_STOPPED)"
proof -
  have "rt_shape cfg st" "running cfg st" using assms(2,3) by (simp_all add: wdgm_inv_def)
  then show ?thesis
    using SetMode_total [OF assms(1) _ _ assms(3-5)] by (auto simp: wdgm_inv_def switched_def list_all_iff)
qed

definition example_running :: WdgM_internalData where
  "example_running = example_state\<lparr>ConfigPtr := Some example_cfg, isInitiated := True\<rparr>"

lemma example_running_inv: "wdgm_inv example_cfg example_running"
  using example_ok(2)
  by (simp add: wdgm_inv_def example_running_def running_def any_state_def)
     (auto simp: example_state_def Let_def example_cfg_def example_mode_def mode_ids_def example_seconf_def
       less_Suc_eq nth_Cons')

theorem wdgm_set_mode_witness:
  "\<exists>r st'. WdgM_SetMode example_build 1 0 example_running = Some (r, st') \<and> wdgm_inv example_cfg st' \<and>
    isInitiated st' \<and> CurrentMode st' = unat (1 :: uint8) \<and>
    list_all (\<lambda>q. SEs st' ! q =
      (if q \<in> set (mode_ids (Modes example_cfg ! unat (1 :: uint8))) then se_activate (SEs example_running ! q)
       else se_reset (SEs example_running ! q)))
      [0..<length (SEs example_running)] \<and>
    RtModes st' = (RtModes example_running)[CurrentMode example_running :=
      WdgM_internal_ResetSEConfigsForMode (RtModes example_running ! CurrentMode example_running)] \<and>
    r = (if change_accepted example_build example_cfg (CurrentMode example_running) (unat (1 :: uint8))
         then E_OK else E_NOT_OK) \<and>
    (r = E_OK \<longrightarrow> wd_calls st' = wd_calls example_running @
       change_calls example_cfg (CurrentMode example_running) (unat (1 :: uint8))) \<and>
    GlobalState st' = (if r = E_OK then GlobalState example_running else WDGM_GLOBAL_STATUS_STOPPED)"
  by (rule wdgm_set_mode [OF example_ok(1) example_running_inv])
     (simp_all add: example_running_def example_state_def Let_def mode_allowed_def example_build_def
       example_cfg_def example_mode_def)

section \<open>Range checks and lost violations\<close>

text \<open>
  The range check of the entity identifier is off by one: for the identifier that equals the
  number of entities, WdgM_CheckpointReached and WdgM_GetLocalStatus read behind the arrays
  instead of reporting the error.
\<close>

theorem wdgm_seid_off_by_one:
  assumes "wdgm_inv cfg st" and "isInitiated st" and "unat se = length (SupervisedEntities cfg)"
  shows "WdgM_CheckpointReached bld se cp st = None \<and> WdgM_GetLocalStatus bld se (Some x) st = None"
  using assms
  by (simp add: WdgM_CheckpointReached_def WdgM_GetLocalStatus_def wdgm_inv_def running_def rt_shape_def deref_def rd_def)

theorem wdgm_seid_off_by_one_witness:
  "WdgM_CheckpointReached example_build 2 0 example_running = None \<and>
   WdgM_GetLocalStatus example_build 2 (Some WDGM_LOCAL_STATUS_OK) example_running = None"
  by (rule wdgm_seid_off_by_one [OF example_running_inv]) (simp_all add: example_running_def example_cfg_def)

text \<open>
  A logical violation that is followed by an accepted checkpoint before the next main function is
  lost: the substate is overwritten, and the local status stays OK. Without the second checkpoint
  the entity expires.
\<close>

lemma wdgm_violation_overwritten:
  "map_option (\<lambda>st. LocalState (SEs st ! 0)) (for_each (wd_step example_build example_cfg)
     [OpInit, OpCheckpointReached 0 1, OpCheckpointReached 0 0, OpMainFunction] example_state) = Some WDGM_LOCAL_STATUS_OK"
  "map_option (\<lambda>st. LocalState (SEs st ! 0)) (for_each (wd_step example_build example_cfg)
     [OpInit, OpCheckpointReached 0 0, OpCheckpointReached 0 0, OpMainFunction] example_state) = Some WDGM_LOCAL_STATUS_EXPIRED"
  by code_simp+

end
