(* ===== verification/Com_Signal.thy ===== *)
theory Com_Signal
  imports Os_Irq
begin

text \<open>
  Signals in I-PDUs, \<^verbatim>\<open>core/communication/Com/Com_misc.c\<close>: reading and writing a signal of up to 64
  bits at any bit position in either byte order, and the I-PDU counters.

  \<^item> A PDU buffer is a position \<open>base\<close> in a memory object, a list of bytes: the code reads a whole
    word around the signal, which may begin before the buffer (big endian) or end behind it (little
    endian). An access outside the memory object faults.
  \<^item> The code has one copy for 32 bits and one for 64 bits; the shared parts are polymorphic in the
    word. The big endian copy walks its pointer down and the little endian copy up, so both are
    written with the address of the byte of significance \<open>i\<close>.
  \<^item> A signal buffer is a list of bytes, and the casts to \<^verbatim>\<open>uint16*\<close>, \<^verbatim>\<open>uint32*\<close> and \<^verbatim>\<open>uint64*\<close>
    access it in the little endian order of the target.
  \<^item> The exclusive area is threaded through as the interrupt state of \<open>Os_Irq\<close>.
\<close>

section \<open>Definitions\<close>

type_synonym uint64 = "64 word"

datatype Com_SignalType =
  COM_BOOLEAN | COM_UINT8 | COM_UINT16 | COM_UINT32 | COM_UINT64 | COM_UINT8_N | COM_UINT8_DYN
| COM_SINT8 | COM_SINT16 | COM_SINT32 | COM_SINT64

datatype ComSignalEndianess_type = COM_BIG_ENDIAN | COM_LITTLE_ENDIAN | COM_OPAQUE

definition SchM_Enter_Com_EA_0 :: "Os_Int \<Rightarrow> Os_Int" where
  "SchM_Enter_Com_EA_0 os = SuspendOSInterrupts os"

definition SchM_Exit_Com_EA_0 :: "Os_Int \<Rightarrow> Os_Int" where
  "SchM_Exit_Com_EA_0 os = ResumeOSInterrupts os"

text \<open>Memory access at a computed address, which may be negative.\<close>

definition mem_rd :: "uint8 list \<Rightarrow> int \<Rightarrow> uint8 ub" where
  "mem_rd mem a = (if 0 \<le> a then rd mem (nat a) else None)"

definition mem_wr :: "uint8 list \<Rightarrow> int \<Rightarrow> uint8 \<Rightarrow> uint8 list ub" where
  "mem_wr mem a v = (if 0 \<le> a then wr mem (nat a) v else None)"

text \<open>The index of the least significant bit of a signal, and the address of byte \<open>i\<close> counted from it.\<close>

definition lsbIndex :: "ComSignalEndianess_type \<Rightarrow> nat \<Rightarrow> nat \<Rightarrow> nat" where
  "lsbIndex endian bitPosition bitSize =
     (if endian = COM_BIG_ENDIAN then ((bitPosition XOR 7) + bitSize - 1) XOR 7 else bitPosition)"

definition byte_addr :: "ComSignalEndianess_type \<Rightarrow> nat \<Rightarrow> nat \<Rightarrow> nat \<Rightarrow> int" where
  "byte_addr endian base lsb i =
     (if endian = COM_BIG_ENDIAN then int base + int (lsb div 8) - int i
      else int base + int (lsb div 8) + int i)"

text \<open>\<^verbatim>\<open>pduData = (pduData << 8) | pduDataPtr[i]\<close> for the addresses in turn.\<close>

fun load_bytes :: "uint8 list \<Rightarrow> int list \<Rightarrow> 'w::len word \<Rightarrow> 'w word ub" where
  "load_bytes mem [] pduData = Some pduData"
| "load_bytes mem (a # as) pduData = do {
     b \<leftarrow> mem_rd mem a;
     load_bytes mem as (push_bit 8 pduData OR ucast b) }"

text \<open>\<^verbatim>\<open>pduDataPtr[i] = (uint8)newPduData; newPduData >>= 8\<close> for the addresses in turn.\<close>

fun store_bytes :: "int list \<Rightarrow> 'w::len word \<Rightarrow> uint8 list \<Rightarrow> uint8 list ub" where
  "store_bytes [] newPduData mem = Some mem"
| "store_bytes (a # as) newPduData mem = do {
     mem \<leftarrow> mem_wr mem a (ucast newPduData);
     store_bytes as (drop_bit 8 newPduData) mem }"

text \<open>\<^verbatim>\<open>0xFFFFFFFF >> (32 - bitSize)\<close>; a shift by the width or more is undefined.\<close>

definition size_mask :: "nat \<Rightarrow> 'w::len word ub" where
  "size_mask bitSize =
     (if 0 < bitSize \<and> bitSize \<le> LENGTH('w) then Some (drop_bit (LENGTH('w) - bitSize) (- 1)) else None)"

text \<open>The reading of a signal, up to the masking.\<close>

definition pdu_get ::
  "uint8 list \<Rightarrow> nat \<Rightarrow> nat \<Rightarrow> nat \<Rightarrow> ComSignalEndianess_type \<Rightarrow> 'w::len word ub" where
  "pdu_get mem base bitPosition bitSize endian = do {
     let n = LENGTH('w) div 8;
     let lsb = lsbIndex endian bitPosition bitSize;
     let addr = byte_addr endian base lsb;
     let bitShift = lsb mod 8;
     pduData \<leftarrow> load_bytes mem (map addr (rev [0..<n])) (0 :: 'w word);
     let pduData = drop_bit bitShift pduData;
     pduData \<leftarrow> (if LENGTH('w) - bitShift < bitSize then do {
                  b \<leftarrow> mem_rd mem (addr n);
                  Some (pduData OR push_bit (LENGTH('w) - bitShift) (ucast b)) }
                else Some pduData);
     msk \<leftarrow> size_mask bitSize;
     Some (pduData AND msk) }"

definition sign_extend :: "'w::len word \<Rightarrow> 'w word \<Rightarrow> 'w word" where
  "sign_extend msk pduData =
     (let signmask = NOT (drop_bit 1 msk)
      in if 0 < pduData AND signmask then pduData OR signmask else pduData)"

text \<open>The writing of a signal value, and whether a byte changed.\<close>

definition pdu_put ::
  "'w::len word \<Rightarrow> uint8 list \<Rightarrow> nat \<Rightarrow> nat \<Rightarrow> nat \<Rightarrow> ComSignalEndianess_type \<Rightarrow> (uint8 list \<times> bool) ub" where
  "pdu_put sigVal mem base bitPosition bitSize endian = do {
     let n = LENGTH('w) div 8;
     msk \<leftarrow> size_mask bitSize;
     let sigVal = sigVal AND msk;
     let lsb = lsbIndex endian bitPosition bitSize;
     let addr = byte_addr endian base lsb;
     pduData \<leftarrow> load_bytes mem (map addr (rev [0..<n])) (0 :: 'w word);
     let bitShift = lsb mod 8;
     let sigLo = push_bit bitShift sigVal;
     let maskLo = NOT (push_bit bitShift msk);
     let newPduData = (pduData AND maskLo) OR sigLo;
     let dataChanged = (newPduData \<noteq> pduData);
     mem \<leftarrow> store_bytes (map addr [0..<n]) newPduData mem;
     let maxBitsWritten = LENGTH('w) - bitShift;
     if maxBitsWritten < bitSize then do {
       b \<leftarrow> mem_rd mem (addr n);
       let pduData = (ucast b :: 'w word);
       let maskHi = NOT (drop_bit maxBitsWritten msk);
       let sigHi = drop_bit maxBitsWritten sigVal;
       let newPduData = (pduData AND maskHi) OR sigHi;
       mem \<leftarrow> mem_wr mem (addr n) (ucast newPduData);
       Some (mem, newPduData \<noteq> pduData \<or> dataChanged) }
     else Some (mem, dataChanged) }"

text \<open>A value as the little endian bytes behind a pointer, \<open>n\<close> of them.\<close>

definition load_le :: "nat \<Rightarrow> uint8 list \<Rightarrow> 'w::len word ub" where
  "load_le n buf = load_bytes buf (map int (rev [0..<n])) 0"

definition store_le :: "nat \<Rightarrow> 'w::len word \<Rightarrow> uint8 list \<Rightarrow> uint8 list ub" where
  "store_le n v buf = store_bytes (map int [0..<n]) v buf"

text \<open>\<^verbatim>\<open>memcpy\<close> between two objects, by positions.\<close>

definition copy_range :: "nat \<Rightarrow> nat \<Rightarrow> uint8 list \<Rightarrow> uint8 list \<Rightarrow> uint8 list ub" where
  "copy_range len from src dst =
     (if from + len \<le> length src \<and> len \<le> length dst then Some (take len (drop from src) @ drop len dst) else None)"

definition Com_Misc_ReadSignalDataFromPdu64Bits ::
  "Os_Int \<Rightarrow> uint8 list \<Rightarrow> nat \<Rightarrow> uint16 \<Rightarrow> uint16 \<Rightarrow> ComSignalEndianess_type \<Rightarrow> Com_SignalType \<Rightarrow> uint8 list \<Rightarrow>
   (uint8 list \<times> Os_Int) ub" where
  "Com_Misc_ReadSignalDataFromPdu64Bits os mem base bitPosition bitSize endian signalType SignalData =
     (if endian = COM_OPAQUE then None
      else do {
        pduData \<leftarrow> pdu_get mem base (unat bitPosition) (unat bitSize) endian;
        let os = SchM_Exit_Com_EA_0 os;
        msk \<leftarrow> size_mask (unat bitSize);
        if signalType = COM_SINT64 then do {
          buf \<leftarrow> store_le 8 (sign_extend msk (pduData :: uint64)) SignalData;
          Some (buf, os) }
        else if signalType = COM_UINT64 then do {
          buf \<leftarrow> store_le 8 pduData SignalData;
          Some (buf, os) }
        else None })"

definition Com_Misc_ReadSignalDataFromPdu ::
  "Os_Int \<Rightarrow> uint8 list \<Rightarrow> nat \<Rightarrow> uint16 \<Rightarrow> uint16 \<Rightarrow> ComSignalEndianess_type \<Rightarrow> Com_SignalType \<Rightarrow> uint8 list \<Rightarrow>
   (uint8 list \<times> Os_Int) ub" where
  "Com_Misc_ReadSignalDataFromPdu os mem base bitPosition bitSize endian signalType SignalData = do {
     let os = SchM_Enter_Com_EA_0 os;
     if endian = COM_OPAQUE \<or> signalType = COM_UINT8_N then do {
       buf \<leftarrow> copy_range (unat bitSize div 8) (base + unat bitPosition div 8) mem SignalData;
       Some (buf, SchM_Exit_Com_EA_0 os) }
     else if signalType \<noteq> COM_UINT64 \<and> signalType \<noteq> COM_SINT64 then do {
       pduData \<leftarrow> pdu_get mem base (unat bitPosition) (unat bitSize) endian;
       let os = SchM_Exit_Com_EA_0 os;
       msk \<leftarrow> size_mask (unat bitSize);
       buf \<leftarrow>
         (case signalType of
            COM_SINT8 \<Rightarrow> store_le 1 (sign_extend msk (pduData :: uint32)) SignalData
          | COM_BOOLEAN \<Rightarrow> store_le 1 pduData SignalData
          | COM_UINT8 \<Rightarrow> store_le 1 pduData SignalData
          | COM_SINT16 \<Rightarrow> store_le 2 (sign_extend msk pduData) SignalData
          | COM_UINT16 \<Rightarrow> store_le 2 pduData SignalData
          | COM_SINT32 \<Rightarrow> store_le 4 (sign_extend msk pduData) SignalData
          | COM_UINT32 \<Rightarrow> store_le 4 pduData SignalData
          | _ \<Rightarrow> None);
       Some (buf, os) }
     else Com_Misc_ReadSignalDataFromPdu64Bits os mem base bitPosition bitSize endian signalType SignalData }"

definition Com_Misc_WriteSignalDataToPdu64Bits ::
  "Os_Int \<Rightarrow> uint8 list \<Rightarrow> Com_SignalType \<Rightarrow> uint8 list \<Rightarrow> nat \<Rightarrow> uint16 \<Rightarrow> uint16 \<Rightarrow> ComSignalEndianess_type \<Rightarrow>
   (uint8 list \<times> bool \<times> Os_Int) ub" where
  "Com_Misc_WriteSignalDataToPdu64Bits os SignalDataPtr signalType mem base bitPosition bitSize endian =
     (if signalType \<noteq> COM_UINT64 \<and> signalType \<noteq> COM_SINT64 then None
      else do {
        sigVal \<leftarrow> load_le 8 SignalDataPtr;
        let os = SchM_Enter_Com_EA_0 os;
        if endian = COM_OPAQUE then None
        else do {
          (mem, dataChanged) \<leftarrow> pdu_put (sigVal :: uint64) mem base (unat bitPosition) (unat bitSize) endian;
          Some (mem, dataChanged, os) } })"

definition Com_Misc_WriteSignalDataToPdu ::
  "Os_Int \<Rightarrow> uint8 list \<Rightarrow> Com_SignalType \<Rightarrow> uint8 list \<Rightarrow> nat \<Rightarrow> uint16 \<Rightarrow> uint16 \<Rightarrow> ComSignalEndianess_type \<Rightarrow>
   (uint8 list \<times> bool \<times> Os_Int) ub" where
  "Com_Misc_WriteSignalDataToPdu os SignalDataPtr signalType mem base bitPosition bitSize endian = do {
     (mem, dataChanged, os) \<leftarrow>
       (if endian = COM_OPAQUE \<or> signalType = COM_UINT8_N then do {
          let at = base + unat bitPosition div 8;
          let signalLength = unat bitSize div 8;
          let os = SchM_Enter_Com_EA_0 os;
          if at + signalLength \<le> length mem \<and> signalLength \<le> length SignalDataPtr
          then Some (take at mem @ take signalLength SignalDataPtr @ drop (at + signalLength) mem,
                     take signalLength (drop at mem) \<noteq> take signalLength SignalDataPtr, os)
          else None }
        else if signalType \<noteq> COM_UINT64 \<and> signalType \<noteq> COM_SINT64 then do {
          sigVal \<leftarrow>
            (if signalType \<in> {COM_BOOLEAN, COM_UINT8, COM_SINT8} then load_le 1 SignalDataPtr
             else if signalType \<in> {COM_UINT16, COM_SINT16} then load_le 2 SignalDataPtr
             else if signalType \<in> {COM_UINT32, COM_SINT32} then load_le 4 SignalDataPtr
             else None);
          let os = SchM_Enter_Com_EA_0 os;
          (mem, dataChanged) \<leftarrow> pdu_put (sigVal :: uint32) mem base (unat bitPosition) (unat bitSize) endian;
          Some (mem, dataChanged, os) }
        else Com_Misc_WriteSignalDataToPdu64Bits os SignalDataPtr signalType mem base bitPosition bitSize endian);
     Some (mem, dataChanged, SchM_Exit_Com_EA_0 os) }"

section \<open>I-PDU counters\<close>

record ComIPduCounter_type =
  ComIPduCntrRange :: uint16
  ComIPduCntrStartPos :: uint16
  ComIPduCntrThrshldStep :: uint8
  ComIPduCntErrNotification :: uint32
  ComIPduCntrIndex :: uint16

record Com_Counters =
  ComIPduCountRxStart :: "bool list"
  Com_IPdu_Counters :: "uint8 list"

definition ResetInternalCounter :: "uint16 \<Rightarrow> Com_Counters \<Rightarrow> Com_Counters ub" where
  "ResetInternalCounter indx st = do {
     l \<leftarrow> wr (Com_IPdu_Counters st) (unat indx) 0; Some (st\<lparr>Com_IPdu_Counters := l\<rparr>) }"

definition ReSetInternalRxStartSts :: "uint16 \<Rightarrow> Com_Counters \<Rightarrow> Com_Counters ub" where
  "ReSetInternalRxStartSts indx st = do {
     l \<leftarrow> wr (ComIPduCountRxStart st) (unat indx) False; Some (st\<lparr>ComIPduCountRxStart := l\<rparr>) }"

definition ResetInternalCounterRxStartSts :: "Com_Counters \<Rightarrow> Com_Counters" where
  "ResetInternalCounterRxStartSts st =
     \<lparr>ComIPduCountRxStart = map (\<lambda>x. False) (ComIPduCountRxStart st),
      Com_IPdu_Counters = map (\<lambda>x. 0) (Com_IPdu_Counters st)\<rparr>"

text \<open>\<^verbatim>\<open>(c + 1) % cntrRng\<close> in \<^verbatim>\<open>int\<close>, converted to \<^verbatim>\<open>uint8\<close>; a range of 0 divides by zero.\<close>

definition next_cntr :: "uint8 \<Rightarrow> uint16 \<Rightarrow> uint8 ub" where
  "next_cntr c cntrRng = (if cntrRng = 0 then None else Some (of_nat ((unat c + 1) mod unat cntrRng)))"

definition updateIPduCntr ::
  "ComIPduCounter_type \<Rightarrow> uint8 list \<Rightarrow> Com_Counters \<Rightarrow> (uint8 \<times> uint8 list \<times> uint16) ub" where
  "updateIPduCntr CounterCfgRef sdu st = do {
     let startPos = ComIPduCntrStartPos CounterCfgRef;
     let bytPos = unat startPos div 8;
     let bitPos = unat startPos mod 8;
     let cntrRng = ComIPduCntrRange CounterCfgRef;
     let bitMask = NOT (push_bit bitPos (cntrRng - 1));
     let cntrIdx = ComIPduCntrIndex CounterCfgRef;
     c \<leftarrow> rd (Com_IPdu_Counters st) (unat cntrIdx);
     cntrVal \<leftarrow> next_cntr c cntrRng;
     val \<leftarrow> rd sdu bytPos;
     sdu \<leftarrow> wr sdu bytPos ((val AND ucast bitMask) OR push_bit bitPos cntrVal);
     Some (cntrVal, sdu, cntrIdx) }"

definition extractIPduCntr :: "ComIPduCounter_type \<Rightarrow> uint8 list \<Rightarrow> uint8 ub" where
  "extractIPduCntr CounterCfgRef sdu = do {
     let startPos = ComIPduCntrStartPos CounterCfgRef;
     let bytPos = unat startPos div 8;
     let bitPos = unat startPos mod 8;
     let bitMask = (ucast (ComIPduCntrRange CounterCfgRef - 1) :: uint8);
     val \<leftarrow> rd sdu bytPos;
     Some (drop_bit bitPos val AND bitMask) }"

definition Com_Misc_validateIPduCounter ::
  "ComIPduCounter_type \<Rightarrow> uint8 list \<Rightarrow> Com_Counters \<Rightarrow> (bool \<times> Com_Counters) ub" where
  "Com_Misc_validateIPduCounter CounterCfgRef sdu st = do {
     let cntrIdx = unat (ComIPduCntrIndex CounterCfgRef);
     let cntrRng = ComIPduCntrRange CounterCfgRef;
     rxStart \<leftarrow> rd (ComIPduCountRxStart st) cntrIdx;
     rxCntrVal \<leftarrow> extractIPduCntr CounterCfgRef sdu;
     (ret, st) \<leftarrow>
       (if rxStart then do {
          c \<leftarrow> rd (Com_IPdu_Counters st) cntrIdx;
          let diff = (if rxCntrVal \<ge> c then rxCntrVal - c else of_nat (unat rxCntrVal + unat cntrRng - unat c));
          Some (diff \<le> ComIPduCntrThrshldStep CounterCfgRef, st) }
        else do {
          l \<leftarrow> wr (ComIPduCountRxStart st) cntrIdx True;
          Some (True, st\<lparr>ComIPduCountRxStart := l\<rparr>) });
     n \<leftarrow> next_cntr rxCntrVal cntrRng;
     l \<leftarrow> wr (Com_IPdu_Counters st) cntrIdx n;
     Some (ret, st\<lparr>Com_IPdu_Counters := l\<rparr>) }"

section \<open>Specification\<close>

text \<open>
  The place of bit \<open>j\<close> of a signal, counted from its least significant bit: a memory position and a
  bit of the byte there.
\<close>

definition sig_pos :: "ComSignalEndianess_type \<Rightarrow> nat \<Rightarrow> nat \<Rightarrow> nat \<Rightarrow> nat \<Rightarrow> int \<times> nat" where
  "sig_pos endian base bitPosition bitSize j =
     (let lsb = lsbIndex endian bitPosition bitSize
      in (byte_addr endian base lsb ((lsb mod 8 + j) div 8), (lsb mod 8 + j) mod 8))"

definition mem_bit :: "uint8 list \<Rightarrow> int \<times> nat \<Rightarrow> bool" where
  "mem_bit mem p \<longleftrightarrow> bit (mem ! nat (fst p)) (snd p)"

definition buf_bit :: "uint8 list \<Rightarrow> nat \<Rightarrow> bool" where
  "buf_bit buf j \<longleftrightarrow> mem_bit buf (int (j div 8), j mod 8)"

text \<open>An access window: the bytes of the word, and one more when the signal reaches past it.\<close>

definition in_mem :: "uint8 list \<Rightarrow> int \<Rightarrow> bool" where
  "in_mem mem a \<longleftrightarrow> 0 \<le> a \<and> a < int (length mem)"

definition window_ok ::
  "nat \<Rightarrow> uint8 list \<Rightarrow> nat \<Rightarrow> nat \<Rightarrow> nat \<Rightarrow> ComSignalEndianess_type \<Rightarrow> bool" where
  "window_ok n mem base bitPosition bitSize endian \<longleftrightarrow>
     (let lsb = lsbIndex endian bitPosition bitSize;
          n' = (if 8 * n - lsb mod 8 < bitSize then n + 1 else n)
      in list_all (\<lambda>i. in_mem mem (byte_addr endian base lsb i)) [0..<n'])"

section \<open>Byte windows\<close>

lemma mem_rd_Some [ub_simps]: "in_mem mem a \<Longrightarrow> mem_rd mem a = Some (mem ! nat a)"
  by (simp add: mem_rd_def in_mem_def rd_def nat_less_iff)

lemma mem_wr_Some [ub_simps]: "in_mem mem a \<Longrightarrow> mem_wr mem a v = Some (mem[nat a := v])"
  by (simp add: mem_wr_def in_mem_def wr_def nat_less_iff)

lemma in_mem_update [simp]: "in_mem (mem[i := v]) a = in_mem mem a"
  by (simp add: in_mem_def)

lemma bit_shift_in:
  fixes acc :: "'w::len word" and x :: uint8
  assumes "k < LENGTH('w)"
  shows "bit (push_bit 8 acc OR ucast x) k \<longleftrightarrow> (if k < 8 then bit x k else bit acc (k - 8))"
  using assms bit_imp_le_length [of x k]
  by (cases "k < 8") (auto simp: bit_or_iff bit_push_bit_iff bit_unsigned_iff)

text \<open>
  The interface between the byte order and the packing: bytes of different significance have different
  addresses.
\<close>

locale byte_window =
  fixes addr :: "nat \<Rightarrow> int"
  assumes addr_inj: "addr i = addr j \<Longrightarrow> i = j"
begin

lemma load_bits:
  assumes "\<forall>i<n. in_mem mem (addr i)"
  shows "\<exists>w. load_bytes mem (map addr (rev [0..<n])) acc = Some (w :: 'w::len word) \<and>
           (\<forall>k<LENGTH('w). bit w k \<longleftrightarrow>
              (if k < 8 * n then mem_bit mem (addr (k div 8), k mod 8) else bit acc (k - 8 * n)))"
  using assms
proof (induction n arbitrary: acc)
  case (Suc n)
  let ?acc = "push_bit 8 acc OR ucast (mem ! nat (addr n)) :: 'w word"
  have "\<forall>i<n. in_mem mem (addr i)" using Suc.prems by simp
  from Suc.IH [OF this, of ?acc] obtain w where w: "load_bytes mem (map addr (rev [0..<n])) ?acc = Some w"
    and b: "\<And>k. k < LENGTH('w) \<Longrightarrow> bit w k \<longleftrightarrow>
      (if k < 8 * n then mem_bit mem (addr (k div 8), k mod 8) else bit ?acc (k - 8 * n))"
    by blast
  have "bit w k \<longleftrightarrow>
      (if k < 8 * Suc n then mem_bit mem (addr (k div 8), k mod 8) else bit acc (k - 8 * Suc n))"
    if "k < LENGTH('w)" for k
  proof -
    consider "k < 8 * n" | r where "k = 8 * n + r" "r < 8" | r where "k = 8 * Suc n + r"
    proof -
      assume "k < 8 * n \<Longrightarrow> thesis" "\<And>r. k = 8 * n + r \<Longrightarrow> r < 8 \<Longrightarrow> thesis"
        "\<And>r. k = 8 * Suc n + r \<Longrightarrow> thesis"
      then show thesis using that le_Suc_ex
        by (cases "k < 8 * n"; cases "k < 8 * Suc n") (auto simp: le_iff_add not_less)
    qed
    then show ?thesis
    proof cases
      case 1
      with b [OF that] show ?thesis by simp
    next
      case 2
      with b [OF that] bit_shift_in [of r acc "mem ! nat (addr n)"] that show ?thesis
        by (simp add: mem_bit_def)
    next
      case 3
      then have e: "k = 8 * n + (8 + r)" by simp
      have "bit w k \<longleftrightarrow> bit acc r"
        using b [OF that] bit_shift_in [of "8 + r" acc "mem ! nat (addr n)"] that unfolding e by simp
      with 3 show ?thesis by simp
    qed
  qed
  with w Suc.prems show ?case by (simp add: ub_simps)
qed auto

lemma store_bits:
  assumes "\<forall>i<n. in_mem mem (addr (m + i))"
  shows "\<exists>mem'. store_bytes (map addr [m..<m + n]) (w :: 'w::len word) mem = Some mem' \<and>
           length mem' = length mem \<and>
           (\<forall>i<n. mem' ! nat (addr (m + i)) = ucast (drop_bit (8 * i) w)) \<and>
           (\<forall>a\<ge>0. (\<forall>i<n. a \<noteq> addr (m + i)) \<longrightarrow> mem' ! nat a = mem ! nat a)"
  using assms
proof (induction n arbitrary: m w mem)
  case (Suc n)
  let ?mem = "mem[nat (addr m) := ucast w]"
  have m: "in_mem mem (addr m)" using Suc.prems by (metis add.right_neutral zero_less_Suc)
  have step: "[m..<m + Suc n] = m # [Suc m..<Suc m + n]" by (simp add: upt_conv_Cons)
  have "\<forall>i<n. in_mem ?mem (addr (Suc m + i))"
    using Suc.prems by (simp flip: add_Suc_right)
  from Suc.IH [OF this, of "drop_bit 8 w"] obtain mem' where r:
    "store_bytes (map addr [Suc m..<Suc m + n]) (drop_bit 8 w) ?mem = Some mem'"
    "length mem' = length mem"
    and set: "\<And>i. i < n \<Longrightarrow> mem' ! nat (addr (Suc m + i)) = ucast (drop_bit (8 * i) (drop_bit 8 w))"
    and keep: "\<And>a. 0 \<le> a \<Longrightarrow> \<forall>i<n. a \<noteq> addr (Suc m + i) \<Longrightarrow> mem' ! nat a = ?mem ! nat a"
    by auto
  have first: "mem' ! nat (addr m) = ucast w"
    using m by (subst keep) (auto simp: in_mem_def nat_less_iff dest: addr_inj)
  have "mem' ! nat (addr (m + i)) = ucast (drop_bit (8 * i) w)" if "i < Suc n" for i
  proof (cases i)
    case (Suc j)
    with that set [of j] show ?thesis by (simp add: add.commute)
  qed (simp add: first)
  moreover have "mem' ! nat a = mem ! nat a" if "0 \<le> a" "\<forall>i<Suc n. a \<noteq> addr (m + i)" for a
  proof -
    have "a \<noteq> addr m" using that(2) by (metis add.right_neutral zero_less_Suc)
    moreover have "\<forall>i<n. a \<noteq> addr (Suc m + i)" using that(2) by (simp flip: add_Suc_right)
    ultimately show ?thesis using that(1) m by (simp add: keep in_mem_def nat_eq_iff2)
  qed
  moreover have "store_bytes (map addr [m..<m + Suc n]) w mem = Some mem'"
    unfolding step using r m by (simp add: ub_simps del: upt_Suc)
  ultimately show ?case using r(2) by (intro exI [of _ mem']) simp
qed auto

end

interpretation be: byte_window "byte_addr COM_BIG_ENDIAN base lsb" for base lsb
  by unfold_locales (simp add: byte_addr_def)

interpretation le: byte_window "byte_addr COM_LITTLE_ENDIAN base lsb" for base lsb
  by unfold_locales (simp add: byte_addr_def)

interpretation pos: byte_window int
  by unfold_locales simp

lemma byte_addr_inj: "byte_window (byte_addr endian base lsb)"
  by unfold_locales (auto simp: byte_addr_def split: if_splits)

section \<open>Reading and writing signal bits\<close>

lemma bit_size_mask:
  assumes "0 < bitSize" "bitSize \<le> LENGTH('w)"
  shows "\<exists>msk :: 'w::len word. size_mask bitSize = Some msk \<and> (\<forall>j. bit msk j \<longleftrightarrow> j < bitSize)"
  using assms by (auto simp: size_mask_def bit_simps dest: bit_imp_le_length)

text \<open>The bytes of a signal, and the condition under which it reaches past the word.\<close>

lemma sig_byte_low: "s + j < 8 * n \<Longrightarrow> (s + j) div 8 < (n :: nat)"
  by (simp add: div_less_iff_less_mult)

lemma sig_byte_high:
  assumes "8 * n \<le> s + j" "s < 8" "j < bitSize" "bitSize \<le> 8 * n"
  shows "(s + j) div 8 = (n :: nat)" "(s + j) mod 8 = s + j - 8 * n" "8 * n - s < bitSize"
    "j - (8 * n - s) = s + j - 8 * n" "8 * n - s \<le> j" "s + j - 8 * n < 8 * n"
proof -
  have b: "n * 8 \<le> s + j" "s + j < Suc n * 8" using assms by simp_all
  then show d: "(s + j) div 8 = n" by (intro div_nat_eqI) (simp_all add: mult.commute)
  show "(s + j) mod 8 = s + j - 8 * n" using d by (simp add: minus_mult_div_eq_mod [symmetric])
  have "s \<le> 8 * n" using assms by (cases n) simp_all
  then show "j - (8 * n - s) = s + j - 8 * n" "s + j - 8 * n < 8 * n" "8 * n - s < bitSize"
    using assms by linarith+
  show "8 * n - s \<le> j" using assms by linarith
qed

lemma pdu_get_bits:
  assumes len: "LENGTH('w) = 8 * n" and win: "window_ok n mem base bitPosition bitSize endian"
    and size: "0 < bitSize" "bitSize \<le> LENGTH('w)"
  shows "\<exists>w. pdu_get mem base bitPosition bitSize endian = Some (w :: 'w::len word) \<and>
    (\<forall>j. bit w j \<longleftrightarrow> j < bitSize \<and> mem_bit mem (sig_pos endian base bitPosition bitSize j))"
proof -
  let ?lsb = "lsbIndex endian bitPosition bitSize"
  let ?addr = "byte_addr endian base ?lsb"
  define s where "s = ?lsb mod 8"
  have s8: "s < 8" by (simp add: s_def)
  obtain msk :: "'w word" where msk: "size_mask bitSize = Some msk" "\<And>j. bit msk j \<longleftrightarrow> j < bitSize"
    using bit_size_mask [OF size] by blast
  have low: "\<forall>i<n. in_mem mem (?addr i)"
    and high: "8 * n - s < bitSize \<Longrightarrow> in_mem mem (?addr n)"
    using win by (auto simp: window_ok_def s_def Let_def list_all_iff split: if_splits)
  obtain w where w: "load_bytes mem (map ?addr (rev [0..<n])) 0 = Some (w :: 'w word)"
    and bits: "\<And>k. k < 8 * n \<Longrightarrow> bit w k \<longleftrightarrow> mem_bit mem (?addr (k div 8), k mod 8)"
    using byte_window.load_bits [OF byte_addr_inj low, of "0 :: 'w word"] len by auto
  let ?hi = "ucast (mem ! nat (?addr n)) :: 'w word"
  let ?v = "if 8 * n - s < bitSize then drop_bit s w OR push_bit (8 * n - s) ?hi else drop_bit s w"
  have "pdu_get mem base bitPosition bitSize endian = Some (?v AND msk)"
    using w msk(1) high len by (simp add: pdu_get_def Let_def ub_simps flip: s_def)
  moreover have "bit ?v j \<longleftrightarrow> mem_bit mem (sig_pos endian base bitPosition bitSize j)" if "j < bitSize" for j
  proof (cases "s + j < 8 * n")
    case True
    with that size len bits [OF True] show ?thesis
      by (auto simp: sig_pos_def Let_def bit_simps simp flip: s_def)
  next
    case False
    note h = sig_byte_high [OF leI [OF False] s8 that size(2) [unfolded len]]
    have "\<not> bit w (s + j)" using False len by (intro impossible_bit) simp
    then have "bit ?v j \<longleftrightarrow> bit (push_bit (8 * n - s) ?hi) j"
      using h(3) by (simp add: bit_or_iff bit_drop_bit_eq)
    also have "\<dots> \<longleftrightarrow> bit (mem ! nat (?addr n)) (s + j - 8 * n)"
      using h(4-6) that size len by (simp add: bit_push_bit_iff bit_unsigned_iff)
    finally show ?thesis using h(1,2) by (simp add: sig_pos_def Let_def mem_bit_def flip: s_def)
  qed
  then have "bit (?v AND msk) j \<longleftrightarrow>
      j < bitSize \<and> mem_bit mem (sig_pos endian base bitPosition bitSize j)" for j
    unfolding bit_and_iff msk(2) by blast
  ultimately show ?thesis by blast
qed

text \<open>
  What a write leaves in byte \<open>i\<close> of the window, with the signal at bit \<open>s\<close> of byte 0.
\<close>

definition put_byte :: "nat \<Rightarrow> nat \<Rightarrow> 'w::len word \<Rightarrow> nat \<Rightarrow> uint8 \<Rightarrow> nat \<Rightarrow> bool" where
  "put_byte s bitSize sigVal i old b \<longleftrightarrow>
     (if s \<le> 8 * i + b \<and> 8 * i + b < s + bitSize then bit sigVal (8 * i + b - s) else bit old b)"

lemma put_low:
  fixes sigVal pduData msk :: "'w::len word"
  assumes "LENGTH('w) = 8 * n" "i < n" "b < 8" "\<And>j. bit msk j \<longleftrightarrow> j < bitSize"
    and "bit pduData (8 * i + b) \<longleftrightarrow> bit old b"
  shows "bit ((pduData AND NOT (push_bit s msk)) OR push_bit s (sigVal AND msk)) (8 * i + b) \<longleftrightarrow>
    put_byte s bitSize sigVal i old b"
proof -
  define k where "k = 8 * i + b"
  have "k < LENGTH('w)" using assms(1-3) unfolding k_def by linarith
  moreover have "k - s < bitSize \<longleftrightarrow> k < s + bitSize" if "s \<le> k" using that by linarith
  ultimately show ?thesis
    unfolding put_byte_def bit_or_iff bit_and_iff bit_not_iff bit_push_bit_iff assms(4)
      assms(5) [symmetric] k_def [symmetric] by (cases "s \<le> k") simp_all
qed

lemma put_high:
  fixes sigVal msk :: "'w::len word" and old :: uint8
  assumes "LENGTH('w) = 8 * n" "0 < n" "b < 8" "s < 8" "\<And>j. bit msk j \<longleftrightarrow> j < bitSize"
  shows "bit ((ucast old AND NOT (drop_bit (8 * n - s) msk)) OR drop_bit (8 * n - s) (sigVal AND msk)) b \<longleftrightarrow>
    put_byte s bitSize sigVal n old b"
proof -
  have "b < LENGTH('w)" "8 * n - s + b = 8 * n + b - s" "s \<le> 8 * n + b"
    "8 * n + b - s < bitSize \<longleftrightarrow> 8 * n + b < s + bitSize"
    using assms(1-4) by linarith+
  then show ?thesis
    unfolding put_byte_def bit_or_iff bit_and_iff bit_not_iff bit_drop_bit_eq bit_unsigned_iff o_def assms(5)
    by (cases "8 * n + b < s + bitSize") simp_all
qed

lemma put_high_byte:
  fixes sigVal msk :: "'w::len word" and old :: uint8
  assumes "LENGTH('w) = 8 * n" "s < 8" "bitSize \<le> LENGTH('w)" "\<And>j. bit msk j \<longleftrightarrow> j < bitSize"
  shows "ucast (ucast ((ucast old AND NOT (drop_bit (8 * n - s) msk)) OR drop_bit (8 * n - s) (sigVal AND msk)) :: uint8) =
    (ucast old AND NOT (drop_bit (8 * n - s) msk)) OR drop_bit (8 * n - s) (sigVal AND msk)"
  (is "ucast (ucast ?h :: uint8) = ?h")
proof (rule bit_word_eqI)
  fix k assume "k < LENGTH('w)"
  have "\<not> bit ?h k" if "8 \<le> k"
  proof -
    have "\<not> 8 * n - s + k < bitSize" using that assms(1-3) by linarith
    moreover have "\<not> bit old k" using that by (intro impossible_bit) simp
    ultimately show ?thesis
      unfolding bit_or_iff bit_and_iff bit_not_iff bit_drop_bit_eq bit_unsigned_iff o_def assms(4) by simp
  qed
  then show "bit (ucast (ucast ?h :: uint8) :: 'w word) k \<longleftrightarrow> bit ?h k"
    using \<open>k < LENGTH('w)\<close> unfolding bit_unsigned_iff by (cases "k < 8") simp_all
qed

lemma byte_eqI: "(\<And>b. b < 8 \<Longrightarrow> bit x b \<longleftrightarrow> bit y b) \<Longrightarrow> x = y" for x y :: uint8
  by (rule bit_word_eqI) simp

text \<open>The low word of a write: what is stored, and that it differs exactly if a byte does.\<close>

lemma put_word:
  fixes sigVal msk :: "'w::len word"
  assumes win: "byte_window addr" and len: "LENGTH('w) = 8 * n" and low: "\<forall>i<n. in_mem mem (addr i)"
    and msk: "\<And>j. bit msk j \<longleftrightarrow> j < bitSize"
  shows "\<exists>pduData mem'. load_bytes mem (map addr (rev [0..<n])) 0 = Some pduData \<and>
    store_bytes (map addr [0..<n]) ((pduData AND NOT (push_bit s msk)) OR push_bit s (sigVal AND msk)) mem = Some mem' \<and>
    length mem' = length mem \<and>
    (\<forall>i<n. \<forall>b<8. bit (mem' ! nat (addr i)) b \<longleftrightarrow> put_byte s bitSize sigVal i (mem ! nat (addr i)) b) \<and>
    (\<forall>a\<ge>0. (\<forall>i<n. a \<noteq> addr i) \<longrightarrow> mem' ! nat a = mem ! nat a) \<and>
    ((pduData AND NOT (push_bit s msk)) OR push_bit s (sigVal AND msk) = pduData \<longleftrightarrow> mem' = mem)"
proof -
  obtain w where w: "load_bytes mem (map addr (rev [0..<n])) 0 = Some (w :: 'w word)"
    and bits: "\<And>k. k < 8 * n \<Longrightarrow> bit w k \<longleftrightarrow> mem_bit mem (addr (k div 8), k mod 8)"
    using byte_window.load_bits [OF win low, of "0 :: 'w word"] len by auto
  define v where "v = (w AND NOT (push_bit s msk)) OR push_bit s (sigVal AND msk)"
  have old: "bit w (8 * i + b) \<longleftrightarrow> bit (mem ! nat (addr i)) b" if "i < n" "b < 8" for i b
    using that by (simp add: bits mem_bit_def)
  have new: "bit v (8 * i + b) \<longleftrightarrow> put_byte s bitSize sigVal i (mem ! nat (addr i)) b" if "i < n" "b < 8" for i b
    unfolding v_def by (rule put_low [OF len that msk old [OF that]])
  have "\<forall>i<n. in_mem mem (addr (0 + i))" using low by simp
  from byte_window.store_bits [OF win this, of v] obtain mem' where m:
    "store_bytes (map addr [0..<n]) v mem = Some mem'" "length mem' = length mem"
    and set: "\<And>i. i < n \<Longrightarrow> mem' ! nat (addr i) = ucast (drop_bit (8 * i) v)"
    and keep: "\<And>a. 0 \<le> a \<Longrightarrow> \<forall>i<n. a \<noteq> addr i \<Longrightarrow> mem' ! nat a = mem ! nat a"
    by auto
  have stored: "bit (mem' ! nat (addr i)) b \<longleftrightarrow> bit v (8 * i + b)" if "i < n" "b < 8" for i b
    using that by (simp add: set bit_unsigned_iff bit_drop_bit_eq)
  have "v = w \<longleftrightarrow> mem' = mem"
  proof
    assume eq: "v = w"
    have same: "mem' ! nat (addr i) = mem ! nat (addr i)" if "i < n" for i
      by (rule byte_eqI) (simp add: stored [OF that] old [OF that] eq)
    show "mem' = mem"
    proof (rule nth_equalityI [OF m(2)])
      fix a assume "a < length mem'"
      show "mem' ! a = mem ! a"
        using keep [of "int a"] same by (cases "\<exists>i<n. int a = addr i") (metis nat_int, force)
    qed
  next
    assume eq: "mem' = mem"
    show "v = w"
    proof (rule bit_word_eqI)
      fix k assume "k < LENGTH('w)"
      then have d: "k div 8 < n" "k mod 8 < 8" "8 * (k div 8) + k mod 8 = k" using len by auto
      show "bit v k \<longleftrightarrow> bit w k" using stored [OF d(1,2)] old [OF d(1,2)] eq d(3) by simp
    qed
  qed
  then show ?thesis
    using w m keep stored new unfolding v_def by (intro exI [of _ w] exI [of _ mem']) blast
qed

text \<open>The byte behind the word, when the signal reaches there.\<close>

lemma put_extra:
  fixes sigVal msk :: "'w::len word"
  assumes bw: "byte_window addr" and len: "LENGTH('w) = 8 * n" and n0: "0 < n" "s < 8"
    and size: "bitSize \<le> LENGTH('w)" and msk: "\<And>j. bit msk j \<longleftrightarrow> j < bitSize"
    and ok: "\<forall>i\<le>n. in_mem mem (addr i)" and len1: "length mem1 = length mem"
    and low: "\<forall>i<n. \<forall>b<8. bit (mem1 ! nat (addr i)) b \<longleftrightarrow> put_byte s bitSize sigVal i (mem ! nat (addr i)) b"
    and keep: "\<forall>a\<ge>0. (\<forall>i<n. a \<noteq> addr i) \<longrightarrow> mem1 ! nat a = mem ! nat a"
    and old: "old = mem ! nat (addr n)"
    and hi: "hi = (ucast old AND NOT (drop_bit (8 * n - s) msk)) OR drop_bit (8 * n - s) (sigVal AND msk)"
    and mem2: "mem2 = mem1[nat (addr n) := ucast hi]"
  shows "mem1 ! nat (addr n) = old" and "hi = ucast old \<and> mem1 = mem \<longleftrightarrow> mem2 = mem"
    and "\<forall>i<n + 1. \<forall>b<8. bit (mem2 ! nat (addr i)) b \<longleftrightarrow> put_byte s bitSize sigVal i (mem ! nat (addr i)) b"
    and "\<forall>a\<ge>0. (\<forall>i<n + 1. a \<noteq> addr i) \<longrightarrow> mem2 ! nat a = mem ! nat a"
proof -
  have inm: "0 \<le> addr n" "nat (addr n) < length mem1" using ok len1 by (simp_all add: in_mem_def nat_less_iff)
  have ne: "nat (addr n) \<noteq> nat a" if "0 \<le> a" "a \<noteq> addr n" for a
    using that inm by (simp add: eq_nat_nat_iff)
  have inj: "addr i \<noteq> addr n" if "i < n" for i using byte_window.addr_inj [OF bw] that by blast
  then show o1: "mem1 ! nat (addr n) = old" using keep inm(1) by (metis old)
  have top: "mem2 ! nat (addr n) = ucast hi" using inm by (simp add: mem2)
  have other: "mem2 ! nat a = mem1 ! nat a" if "0 \<le> a" "a \<noteq> addr n" for a
    using ne [OF that] by (simp add: mem2)
  show "hi = ucast old \<and> mem1 = mem \<longleftrightarrow> mem2 = mem"
  proof
    assume "hi = ucast old \<and> mem1 = mem"
    moreover have "ucast (ucast old :: 'w word) = old"
      using len n0(1) by (intro bit_word_eqI) (auto simp: bit_unsigned_iff)
    ultimately show "mem2 = mem" by (simp add: mem2 old)
  next
    assume "mem2 = mem"
    then have "ucast hi = old" using top by (simp add: old)
    moreover from this have "mem1 = mem" using \<open>mem2 = mem\<close> o1 unfolding mem2 by (metis list_update_id)
    ultimately show "hi = ucast old \<and> mem1 = mem"
      using put_high_byte [OF len n0(2) size msk, of old sigVal] unfolding hi by simp
  qed
  have "bit (mem2 ! nat (addr i)) b \<longleftrightarrow> put_byte s bitSize sigVal i (mem ! nat (addr i)) b"
    if "i < n + 1" "b < 8" for i b
  proof (cases "i = n")
    case True
    with that show ?thesis
      using put_high [OF len n0(1) that(2) n0(2) msk] by (simp add: top bit_unsigned_iff hi flip: old)
  next
    case False
    with that have i: "i < n" "0 \<le> addr i" using ok by (auto simp: in_mem_def)
    with low inj that show ?thesis by (simp add: other)
  qed
  then show "\<forall>i<n + 1. \<forall>b<8. bit (mem2 ! nat (addr i)) b \<longleftrightarrow>
      put_byte s bitSize sigVal i (mem ! nat (addr i)) b" by blast
  show "\<forall>a\<ge>0. (\<forall>i<n + 1. a \<noteq> addr i) \<longrightarrow> mem2 ! nat a = mem ! nat a"
    using keep other by (auto simp: less_Suc_eq)
qed

text \<open>The whole write.\<close>

lemma pdu_put_window:
  fixes sigVal :: "'w::len word"
  assumes len: "LENGTH('w) = 8 * n" and win: "window_ok n mem base bitPosition bitSize endian"
    and size: "0 < bitSize" "bitSize \<le> LENGTH('w)"
    and lsb: "lsb = lsbIndex endian bitPosition bitSize"
    and n': "n' = (if 8 * n - lsb mod 8 < bitSize then n + 1 else n)"
  shows "\<exists>mem'. pdu_put sigVal mem base bitPosition bitSize endian = Some (mem', mem' \<noteq> mem) \<and>
    length mem' = length mem \<and>
    (\<forall>i<n'. \<forall>b<8. bit (mem' ! nat (byte_addr endian base lsb i)) b \<longleftrightarrow>
       put_byte (lsb mod 8) bitSize sigVal i (mem ! nat (byte_addr endian base lsb i)) b) \<and>
    (\<forall>a\<ge>0. (\<forall>i<n'. a \<noteq> byte_addr endian base lsb i) \<longrightarrow> mem' ! nat a = mem ! nat a)"
proof -
  define addr where "addr = byte_addr endian base lsb"
  define s where "s = lsb mod 8"
  have bw: "byte_window addr" unfolding addr_def by (rule byte_addr_inj)
  have ok: "in_mem mem (addr i)" if "i < n'" for i
    using win that by (simp add: window_ok_def Let_def list_all_iff addr_def flip: lsb n')
  obtain msk :: "'w word" where msk: "size_mask bitSize = Some msk" "\<And>j. bit msk j \<longleftrightarrow> j < bitSize"
    using bit_size_mask [OF size] by blast
  have "\<forall>i<n. in_mem mem (addr i)" using ok by (simp add: n' split: if_splits)
  from put_word [OF bw len this msk(2), of s sigVal] obtain w mem1 where w:
    "load_bytes mem (map addr (rev [0..<n])) 0 = Some w"
    "store_bytes (map addr [0..<n]) ((w AND NOT (push_bit s msk)) OR push_bit s (sigVal AND msk)) mem = Some mem1"
    "length mem1 = length mem"
    and low: "\<forall>i<n. \<forall>b<8. bit (mem1 ! nat (addr i)) b \<longleftrightarrow> put_byte s bitSize sigVal i (mem ! nat (addr i)) b"
    and keep: "\<forall>a\<ge>0. (\<forall>i<n. a \<noteq> addr i) \<longrightarrow> mem1 ! nat a = mem ! nat a"
    and ch: "(w AND NOT (push_bit s msk)) OR push_bit s (sigVal AND msk) = w \<longleftrightarrow> mem1 = mem"
    by blast
  note eqs = msk(1) w(1,2) [unfolded addr_def s_def] lsb [symmetric] len
  show ?thesis
  proof (cases "8 * n - s < bitSize")
    case False
    then have "n' = n" by (simp add: n' s_def)
    moreover have "pdu_put sigVal mem base bitPosition bitSize endian = Some (mem1, mem1 \<noteq> mem)"
      using False ch [unfolded s_def] by (simp add: pdu_put_def Let_def eqs s_def del: push_bit_and)
    ultimately show ?thesis
      using w(3) low keep unfolding addr_def [symmetric] s_def [symmetric] by blast
  next
    case True
    then have n'1: "n' = n + 1" by (simp add: n' s_def)
    have n0: "0 < n" "s < 8" using size len by (auto simp: s_def)
    have ok': "\<forall>i\<le>n. in_mem mem (addr i)" using ok by (simp add: n'1)
    note x = put_extra [OF bw len n0 size(2) msk(2) ok' w(3) low keep refl refl refl]
    have "pdu_put sigVal mem base bitPosition bitSize endian =
        (let old = mem ! nat (addr n);
             hi = (ucast old AND NOT (drop_bit (8 * n - s) msk)) OR drop_bit (8 * n - s) (sigVal AND msk)
         in Some (mem1[nat (addr n) := ucast hi], hi \<noteq> ucast old \<or> mem1 \<noteq> mem))"
      using True ch x(1) ok' w(3) unfolding s_def addr_def
      by (simp add: pdu_put_def Let_def eqs ub_simps in_mem_def del: push_bit_and drop_bit_and)
    then show ?thesis
      using x(2-4) w(3) unfolding n'1 addr_def [symmetric] s_def [symmetric] Let_def
      by (intro exI conjI) (auto simp del: push_bit_and drop_bit_and)
  qed
qed

lemma sig_byte_in_window:
  assumes "s < 8" "j < bitSize" "bitSize \<le> 8 * n"
  shows "(s + j) div 8 < (if 8 * n - s < bitSize then n + 1 else n :: nat)"
proof (cases "s + j < 8 * n")
  case True
  then show ?thesis using sig_byte_low [OF True] by simp
next
  case False
  then show ?thesis using sig_byte_high [OF leI [OF False] assms] by simp
qed

lemma pdu_put_bits:
  fixes sigVal :: "'w::len word"
  assumes len: "LENGTH('w) = 8 * n" and win: "window_ok n mem base bitPosition bitSize endian"
    and size: "0 < bitSize" "bitSize \<le> LENGTH('w)"
  shows "\<exists>mem'. pdu_put sigVal mem base bitPosition bitSize endian = Some (mem', mem' \<noteq> mem) \<and>
    length mem' = length mem \<and>
    (\<forall>j<bitSize. mem_bit mem' (sig_pos endian base bitPosition bitSize j) \<longleftrightarrow> bit sigVal j) \<and>
    (\<forall>a\<ge>0. \<forall>b<8. (a, b) \<notin> sig_pos endian base bitPosition bitSize ` {..<bitSize} \<longrightarrow>
       (mem_bit mem' (a, b) \<longleftrightarrow> mem_bit mem (a, b)))"
proof -
  define lsb where "lsb = lsbIndex endian bitPosition bitSize"
  define s where "s = lsb mod 8"
  define addr where "addr = byte_addr endian base lsb"
  define n' where "n' = (if 8 * n - s < bitSize then n + 1 else n)"
  have pos: "sig_pos endian base bitPosition bitSize j = (addr ((s + j) div 8), (s + j) mod 8)" for j
    by (simp add: sig_pos_def Let_def lsb_def s_def addr_def)
  obtain mem' where m: "pdu_put sigVal mem base bitPosition bitSize endian = Some (mem', mem' \<noteq> mem)"
    "length mem' = length mem"
    and new: "\<And>i b. i < n' \<Longrightarrow> b < 8 \<Longrightarrow>
      bit (mem' ! nat (addr i)) b \<longleftrightarrow> put_byte s bitSize sigVal i (mem ! nat (addr i)) b"
    and keep: "\<And>a. 0 \<le> a \<Longrightarrow> \<forall>i<n'. a \<noteq> addr i \<Longrightarrow> mem' ! nat a = mem ! nat a"
    using pdu_put_window [OF len win size lsb_def, of n' sigVal] unfolding n'_def s_def addr_def by blast
  have "mem_bit mem' (sig_pos endian base bitPosition bitSize j) \<longleftrightarrow> bit sigVal j" if "j < bitSize" for j
  proof -
    have "(s + j) div 8 < n'" unfolding n'_def
      using sig_byte_in_window [OF _ that] size len by (simp add: s_def)
    then show ?thesis using new [of "(s + j) div 8" "(s + j) mod 8"] that
      by (simp add: pos mem_bit_def put_byte_def)
  qed
  moreover have "mem_bit mem' (a, b) \<longleftrightarrow> mem_bit mem (a, b)"
    if "0 \<le> a" "b < 8" and free: "(a, b) \<notin> sig_pos endian base bitPosition bitSize ` {..<bitSize}" for a b
  proof (cases "\<exists>i<n'. a = addr i")
    case True
    then obtain i where i: "i < n'" "a = addr i" by blast
    have "\<not> (s \<le> 8 * i + b \<and> 8 * i + b < s + bitSize)"
    proof
      assume c: "s \<le> 8 * i + b \<and> 8 * i + b < s + bitSize"
      then have "(a, b) = sig_pos endian base bitPosition bitSize (8 * i + b - s)"
        using that(2) i(2) by (simp add: pos)
      moreover have "8 * i + b - s < bitSize" using c by linarith
      ultimately show False using free by blast
    qed
    then show ?thesis using new [OF i(1) that(2)] i(2) by (auto simp: mem_bit_def put_byte_def)
  next
    case False
    then show ?thesis using keep [OF that(1)] by (simp add: mem_bit_def)
  qed
  ultimately show ?thesis using m by blast
qed

section \<open>The operations\<close>

text \<open>The size of a signal value in its buffer and in the word the code computes with.\<close>

fun sig_bytes :: "Com_SignalType \<Rightarrow> nat" where
  "sig_bytes COM_BOOLEAN = 1" | "sig_bytes COM_UINT8 = 1" | "sig_bytes COM_SINT8 = 1"
| "sig_bytes COM_UINT16 = 2" | "sig_bytes COM_SINT16 = 2"
| "sig_bytes COM_UINT32 = 4" | "sig_bytes COM_SINT32 = 4"
| "sig_bytes COM_UINT64 = 8" | "sig_bytes COM_SINT64 = 8"
| "sig_bytes COM_UINT8_N = 0" | "sig_bytes COM_UINT8_DYN = 0"

definition word_bytes :: "Com_SignalType \<Rightarrow> nat" where
  "word_bytes signalType = (if signalType = COM_UINT64 \<or> signalType = COM_SINT64 then 8 else 4)"

definition sig_signed :: "Com_SignalType \<Rightarrow> bool" where
  "sig_signed signalType \<longleftrightarrow> signalType \<in> {COM_SINT8, COM_SINT16, COM_SINT32, COM_SINT64}"

text \<open>A numeric signal that fits its type, with the memory the code accesses around it.\<close>

definition sig_ok ::
  "uint8 list \<Rightarrow> nat \<Rightarrow> uint16 \<Rightarrow> uint16 \<Rightarrow> ComSignalEndianess_type \<Rightarrow> Com_SignalType \<Rightarrow> bool" where
  "sig_ok mem base bitPosition bitSize endian signalType \<longleftrightarrow>
     endian \<noteq> COM_OPAQUE \<and> 0 < bitSize \<and> unat bitSize \<le> 8 * sig_bytes signalType \<and>
     window_ok (word_bytes signalType) mem base (unat bitPosition) (unat bitSize) endian"

definition sig_bits :: "nat \<Rightarrow> uint16 \<Rightarrow> uint16 \<Rightarrow> ComSignalEndianess_type \<Rightarrow> (int \<times> nat) set" where
  "sig_bits base bitPosition bitSize endian =
     sig_pos endian base (unat bitPosition) (unat bitSize) ` {..<unat bitSize}"

lemma load_le_bits:
  assumes "n \<le> length buf"
  shows "\<exists>w. load_le n buf = Some (w :: 'w::len word) \<and>
    (\<forall>k<LENGTH('w). bit w k \<longleftrightarrow> k < 8 * n \<and> buf_bit buf k)"
proof -
  have "\<forall>i<n. in_mem buf (int i)" using assms by (simp add: in_mem_def)
  from pos.load_bits [OF this, of "0 :: 'w word"] show ?thesis by (auto simp: load_le_def buf_bit_def)
qed

lemma store_le_bits:
  fixes v :: "'w::len word"
  assumes "n \<le> length buf"
  shows "\<exists>out. store_le n v buf = Some out \<and> length out = length buf \<and> drop n out = drop n buf \<and>
    (\<forall>j<8 * n. buf_bit out j \<longleftrightarrow> bit v j)"
proof -
  have "\<forall>i<n. in_mem buf (int (0 + i))" using assms by (simp add: in_mem_def)
  from pos.store_bits [OF this, of v] obtain out where o1:
    "store_bytes (map int [0..<n]) v buf = Some out" "length out = length buf"
    and set: "\<And>i. i < n \<Longrightarrow> out ! i = ucast (drop_bit (8 * i) v)"
    and keep: "\<And>a. 0 \<le> a \<Longrightarrow> \<forall>i<n. a \<noteq> int i \<Longrightarrow> out ! nat a = buf ! nat a" by auto
  have "out ! i = buf ! i" if "n \<le> i" for i using keep [of "int i"] that by auto
  then have "drop n out = drop n buf" using o1(2) by (intro nth_equalityI) simp_all
  moreover have "buf_bit out j \<longleftrightarrow> bit v j" if "j < 8 * n" for j
    using set [of "j div 8"] that by (simp add: buf_bit_def mem_bit_def less_mult_imp_div_less
      bit_unsigned_iff bit_drop_bit_eq)
  ultimately show ?thesis using o1 by (auto simp: store_le_def)
qed

lemma sign_extend_bits:
  fixes v msk :: "'w::len word"
  assumes "\<And>j. bit msk j \<longleftrightarrow> j < bitSize" "0 < bitSize" "bitSize \<le> LENGTH('w)" "\<And>j. bit v j \<Longrightarrow> j < bitSize"
    and "k < LENGTH('w)"
  shows "bit (sign_extend msk v) k \<longleftrightarrow> (if k < bitSize then bit v k else bit v (bitSize - 1))"
proof -
  have sm: "bit (v AND NOT (drop_bit 1 msk)) j \<longleftrightarrow> j = bitSize - 1 \<and> bit v j" for j
    unfolding bit_and_iff bit_not_iff bit_drop_bit_eq o_def assms(1)
    using assms(2) assms(4) [of j] bit_imp_le_length [of v j] by auto
  have "0 < v AND NOT (drop_bit 1 msk) \<longleftrightarrow> bit v (bitSize - 1)"
    unfolding word_gt_0 using sm by (metis bit_eq_iff bit_0_eq bot_apply bot_bool_def)
  moreover have "bit (NOT (drop_bit 1 msk)) k \<longleftrightarrow> bitSize - 1 \<le> k"
    unfolding bit_not_iff bit_drop_bit_eq o_def assms(1) using assms(2,5) by auto
  moreover have "k = bitSize - 1 \<or> k < bitSize - 1" if "k < bitSize" using that by auto
  ultimately show ?thesis
    using assms(2) assms(4) [of k] by (auto simp: sign_extend_def Let_def bit_or_iff)
qed

lemma sig_size:
  assumes "sig_ok mem base bitPosition bitSize endian signalType"
  shows "0 < unat bitSize" "unat bitSize \<le> 8 * sig_bytes signalType" "unat bitSize \<le> 8 * word_bytes signalType"
    "endian \<noteq> COM_OPAQUE" "window_ok (word_bytes signalType) mem base (unat bitPosition) (unat bitSize) endian"
    "signalType \<noteq> COM_UINT8_N" "signalType \<noteq> COM_UINT8_DYN"
proof -
  have "0 < unat bitSize" using assms by (simp add: sig_ok_def word_gt_0 unat_gt_0)
  then show "0 < unat bitSize" "unat bitSize \<le> 8 * sig_bytes signalType" "unat bitSize \<le> 8 * word_bytes signalType"
    "endian \<noteq> COM_OPAQUE" "window_ok (word_bytes signalType) mem base (unat bitPosition) (unat bitSize) endian"
    "signalType \<noteq> COM_UINT8_N" "signalType \<noteq> COM_UINT8_DYN"
    using assms by (cases signalType; simp add: sig_ok_def word_bytes_def)+
qed

lemma put_buffer:
  assumes sig: "sig_ok mem base bitPosition bitSize endian signalType" and buf: "sig_bytes signalType \<le> length buf"
    and len: "LENGTH('w) = 8 * word_bytes signalType"
  shows "\<exists>w mem'. load_le (sig_bytes signalType) buf = Some (w :: 'w::len word) \<and>
    pdu_put w mem base (unat bitPosition) (unat bitSize) endian = Some (mem', mem' \<noteq> mem) \<and>
    length mem' = length mem \<and>
    (\<forall>j<unat bitSize. mem_bit mem' (sig_pos endian base (unat bitPosition) (unat bitSize) j) \<longleftrightarrow> buf_bit buf j) \<and>
    (\<forall>a\<ge>0. \<forall>b<8. (a, b) \<notin> sig_bits base bitPosition bitSize endian \<longrightarrow>
       (mem_bit mem' (a, b) \<longleftrightarrow> mem_bit mem (a, b)))"
proof -
  note z = sig_size [OF sig]
  obtain w where w: "load_le (sig_bytes signalType) buf = Some (w :: 'w word)"
    and bits: "\<And>k. k < LENGTH('w) \<Longrightarrow> bit w k \<longleftrightarrow> k < 8 * sig_bytes signalType \<and> buf_bit buf k"
    using load_le_bits [OF buf, where 'w = 'w] by blast
  have "bit w j \<longleftrightarrow> buf_bit buf j" if "j < unat bitSize" for j using that z bits [of j] len by simp
  with w pdu_put_bits [OF len z(5,1), of w] z(3) len show ?thesis
    unfolding sig_bits_def by auto
qed

lemma write_signal:
  assumes sig: "sig_ok mem base bitPosition bitSize endian signalType" and buf: "sig_bytes signalType \<le> length buf"
  shows "\<exists>mem'. Com_Misc_WriteSignalDataToPdu os buf signalType mem base bitPosition bitSize endian =
      Some (mem', mem' \<noteq> mem, SchM_Exit_Com_EA_0 (SchM_Enter_Com_EA_0 os)) \<and> length mem' = length mem \<and>
    (\<forall>j<unat bitSize. mem_bit mem' (sig_pos endian base (unat bitPosition) (unat bitSize) j) \<longleftrightarrow> buf_bit buf j) \<and>
    (\<forall>a\<ge>0. \<forall>b<8. (a, b) \<notin> sig_bits base bitPosition bitSize endian \<longrightarrow>
       (mem_bit mem' (a, b) \<longleftrightarrow> mem_bit mem (a, b)))"
proof (cases "word_bytes signalType = 8")
  case True
  then have ty: "signalType = COM_UINT64 \<or> signalType = COM_SINT64" by (simp add: word_bytes_def split: if_splits)
  show ?thesis
    using put_buffer [OF sig buf, where 'w = 64] sig_size(4) [OF sig] ty
    by (auto simp: Com_Misc_WriteSignalDataToPdu_def Com_Misc_WriteSignalDataToPdu64Bits_def Let_def word_bytes_def)
next
  case False
  then have w4: "word_bytes signalType = 4" "signalType \<noteq> COM_UINT64 \<and> signalType \<noteq> COM_SINT64"
    by (simp_all add: word_bytes_def split: if_splits)
  obtain w mem' where w: "load_le (sig_bytes signalType) buf = Some (w :: uint32)"
    "pdu_put w mem base (unat bitPosition) (unat bitSize) endian = Some (mem', mem' \<noteq> mem)"
    "length mem' = length mem"
    "\<forall>j<unat bitSize. mem_bit mem' (sig_pos endian base (unat bitPosition) (unat bitSize) j) \<longleftrightarrow> buf_bit buf j"
    "\<forall>a\<ge>0. \<forall>b<8. (a, b) \<notin> sig_bits base bitPosition bitSize endian \<longrightarrow>
       (mem_bit mem' (a, b) \<longleftrightarrow> mem_bit mem (a, b))"
    using put_buffer [OF sig buf, where 'w = 32] w4 by auto
  have "Com_Misc_WriteSignalDataToPdu os buf signalType mem base bitPosition bitSize endian =
      Some (mem', mem' \<noteq> mem, SchM_Exit_Com_EA_0 (SchM_Enter_Com_EA_0 os))"
    using w(1,2) w4 sig_size [OF sig]
    by (cases signalType) (simp_all add: Com_Misc_WriteSignalDataToPdu_def Let_def)
  with w(3-5) show ?thesis by blast
qed

lemma get_buffer:
  assumes sig: "sig_ok mem base bitPosition bitSize endian signalType" and buf: "sig_bytes signalType \<le> length out"
    and len: "LENGTH('w) = 8 * word_bytes signalType"
  shows "\<exists>w msk out'. pdu_get mem base (unat bitPosition) (unat bitSize) endian = Some (w :: 'w::len word) \<and>
    size_mask (unat bitSize) = Some msk \<and>
    store_le (sig_bytes signalType) (if sig_signed signalType then sign_extend msk w else w) out = Some out' \<and>
    length out' = length out \<and> drop (sig_bytes signalType) out' = drop (sig_bytes signalType) out \<and>
    (\<forall>j<8 * sig_bytes signalType. buf_bit out' j \<longleftrightarrow>
       (if j < unat bitSize then mem_bit mem (sig_pos endian base (unat bitPosition) (unat bitSize) j)
        else sig_signed signalType \<and>
             mem_bit mem (sig_pos endian base (unat bitPosition) (unat bitSize) (unat bitSize - 1))))"
proof -
  note z = sig_size [OF sig]
  have size: "unat bitSize \<le> LENGTH('w)" using z len by simp
  obtain w where w: "pdu_get mem base (unat bitPosition) (unat bitSize) endian = Some (w :: 'w word)"
    and bw: "\<And>j. bit w j \<longleftrightarrow>
      j < unat bitSize \<and> mem_bit mem (sig_pos endian base (unat bitPosition) (unat bitSize) j)"
    using pdu_get_bits [OF len z(5,1) size] by blast
  obtain msk :: "'w word" where msk: "size_mask (unat bitSize) = Some msk" "\<And>j. bit msk j \<longleftrightarrow> j < unat bitSize"
    using bit_size_mask [OF z(1) size] by blast
  define v where "v = (if sig_signed signalType then sign_extend msk w else w)"
  obtain out' where o1: "store_le (sig_bytes signalType) v out = Some out'" "length out' = length out"
    "drop (sig_bytes signalType) out' = drop (sig_bytes signalType) out"
    "\<And>j. j < 8 * sig_bytes signalType \<Longrightarrow> buf_bit out' j \<longleftrightarrow> bit v j"
    using store_le_bits [OF buf] by blast
  have "sig_bytes signalType \<le> word_bytes signalType" by (cases signalType) (simp_all add: word_bytes_def)
  then have "j < LENGTH('w)" if "j < 8 * sig_bytes signalType" for j using that len by simp
  then have "bit v j \<longleftrightarrow>
      (if j < unat bitSize then mem_bit mem (sig_pos endian base (unat bitPosition) (unat bitSize) j)
       else sig_signed signalType \<and>
            mem_bit mem (sig_pos endian base (unat bitPosition) (unat bitSize) (unat bitSize - 1)))"
    if "j < 8 * sig_bytes signalType" for j
    using sign_extend_bits [OF msk(2) z(1) size, of w j] bw that z(1) by (simp add: v_def)
  with o1 w msk(1) show ?thesis unfolding v_def by blast
qed

lemma read_signal:
  assumes sig: "sig_ok mem base bitPosition bitSize endian signalType" and buf: "sig_bytes signalType \<le> length out"
  shows "\<exists>out'. Com_Misc_ReadSignalDataFromPdu os mem base bitPosition bitSize endian signalType out =
      Some (out', SchM_Exit_Com_EA_0 (SchM_Enter_Com_EA_0 os)) \<and>
    length out' = length out \<and> drop (sig_bytes signalType) out' = drop (sig_bytes signalType) out \<and>
    (\<forall>j<8 * sig_bytes signalType. buf_bit out' j \<longleftrightarrow>
       (if j < unat bitSize then mem_bit mem (sig_pos endian base (unat bitPosition) (unat bitSize) j)
        else sig_signed signalType \<and>
             mem_bit mem (sig_pos endian base (unat bitPosition) (unat bitSize) (unat bitSize - 1))))"
proof (cases "word_bytes signalType = 8")
  case True
  then have ty: "signalType = COM_UINT64 \<or> signalType = COM_SINT64" by (simp add: word_bytes_def split: if_splits)
  show ?thesis
    using get_buffer [OF sig buf, where 'w = 64] sig_size(4) [OF sig] ty
    by (auto simp: Com_Misc_ReadSignalDataFromPdu_def Com_Misc_ReadSignalDataFromPdu64Bits_def Let_def
      word_bytes_def sig_signed_def)
next
  case False
  then have w4: "word_bytes signalType = 4" "signalType \<noteq> COM_UINT64 \<and> signalType \<noteq> COM_SINT64"
    by (simp_all add: word_bytes_def split: if_splits)
  obtain w msk out' where w: "pdu_get mem base (unat bitPosition) (unat bitSize) endian = Some (w :: uint32)"
    "size_mask (unat bitSize) = Some msk"
    "store_le (sig_bytes signalType) (if sig_signed signalType then sign_extend msk w else w) out = Some out'"
    and out': "length out' = length out" "drop (sig_bytes signalType) out' = drop (sig_bytes signalType) out"
    "\<forall>j<8 * sig_bytes signalType. buf_bit out' j \<longleftrightarrow>
       (if j < unat bitSize then mem_bit mem (sig_pos endian base (unat bitPosition) (unat bitSize) j)
        else sig_signed signalType \<and>
             mem_bit mem (sig_pos endian base (unat bitPosition) (unat bitSize) (unat bitSize - 1)))"
    using get_buffer [OF sig buf, where 'w = 32] w4 by auto
  have "Com_Misc_ReadSignalDataFromPdu os mem base bitPosition bitSize endian signalType out =
      Some (out', SchM_Exit_Com_EA_0 (SchM_Enter_Com_EA_0 os))"
    using w w4 sig_size [OF sig]
    by (cases signalType) (simp_all add: Com_Misc_ReadSignalDataFromPdu_def Let_def sig_signed_def)
  with out' show ?thesis by blast
qed

text \<open>A buffer is determined by the bytes behind the value and the bits of the value.\<close>

lemma buf_eqI:
  assumes "length x = length y" "n \<le> length x" "drop n x = drop n y" "\<And>j. j < 8 * n \<Longrightarrow> buf_bit x j \<longleftrightarrow> buf_bit y j"
  shows "x = y"
proof (rule nth_equalityI [OF assms(1)])
  fix i assume i: "i < length x"
  show "x ! i = y ! i"
  proof (cases "i < n")
    case True
    have "bit (x ! i) b \<longleftrightarrow> bit (y ! i) b" if "b < 8" for b
      using assms(4) [of "8 * i + b"] True that by (simp add: buf_bit_def mem_bit_def)
    then show ?thesis by (rule byte_eqI)
  next
    case False
    then show ?thesis using arg_cong [OF assms(3), of "\<lambda>l. l ! (i - n)"] i assms(1,2) by simp
  qed
qed

lemma sig_bits_nonneg:
  assumes "sig_ok mem base bitPosition bitSize endian signalType" "p \<in> sig_bits base bitPosition bitSize endian"
  shows "0 \<le> fst p" "snd p < 8"
proof -
  note z = sig_size [OF assms(1)]
  obtain j where j: "j < unat bitSize" "p = sig_pos endian base (unat bitPosition) (unat bitSize) j"
    using assms(2) by (auto simp: sig_bits_def)
  let ?lsb = "lsbIndex endian (unat bitPosition) (unat bitSize)"
  have "(?lsb mod 8 + j) div 8 <
      (if 8 * word_bytes signalType - ?lsb mod 8 < unat bitSize then word_bytes signalType + 1 else word_bytes signalType)"
    by (rule sig_byte_in_window) (use j z in simp_all)
  then show "0 \<le> fst p" "snd p < 8"
    using z(5) j(2) by (simp_all add: window_ok_def Let_def list_all_iff sig_pos_def in_mem_def)
qed

lemma sig_ok_length: "length mem' = length mem \<Longrightarrow>
  sig_ok mem' base bitPosition bitSize endian signalType = sig_ok mem base bitPosition bitSize endian signalType"
  by (simp add: sig_ok_def window_ok_def in_mem_def)

text \<open>
  The configured bit position is the place of the least significant bit of a little endian signal and of
  the most significant bit of a big endian one.
\<close>

lemma xor_7: "n XOR 7 = 8 * (n div 8) + (7 - n mod 8)" for n :: nat
proof -
  have "drop_bit 3 (n XOR 7) = drop_bit 3 n XOR drop_bit 3 7" by (rule drop_bit_xor)
  then have "drop_bit 3 (n XOR 7) = n div 8" by (simp add: drop_bit_eq_div)
  moreover have "take_bit 3 (n XOR 7) = 7 - n mod 8"
  proof -
    have "take_bit 3 (n XOR 7) = take_bit 3 n XOR take_bit 3 7" by (rule take_bit_xor)
    then have "take_bit 3 (n XOR 7) = (n mod 8) XOR 7" by (simp add: take_bit_eq_mod)
    moreover have "m XOR 7 = 7 - m" if "m < 8" for m :: nat
      using nat_lt_8_cases [OF that] by (elim disjE) simp_all
    ultimately show ?thesis by simp
  qed
  ultimately show ?thesis using bits_ident [of 3 "n XOR 7"] by (simp add: push_bit_eq_mult mult.commute)
qed

lemma split_8: "e < 8 \<Longrightarrow> (8 * d + e) div 8 = d \<and> (8 * d + e) mod 8 = (e :: nat)"
  by simp

lemma last_byte:
  assumes "8 * d + e = 8 * q + (7 - t) + k" "e < 8" "t < (8 :: nat)"
  shows "q \<le> d" "7 - e + k = 8 * (d - q) + t"
proof -
  show "q \<le> d" using assms by arith
  then obtain x where "d = q + x" using le_Suc_ex by blast
  then show "7 - e + k = 8 * (d - q) + t" using assms by simp
qed

lemma sig_pos_ends:
  shows "sig_pos COM_LITTLE_ENDIAN base bitPosition (Suc k) 0 = (int (base + bitPosition div 8), bitPosition mod 8)"
    and "sig_pos COM_BIG_ENDIAN base bitPosition (Suc k) k = (int (base + bitPosition div 8), bitPosition mod 8)"
proof -
  show "sig_pos COM_LITTLE_ENDIAN base bitPosition (Suc k) 0 = (int (base + bitPosition div 8), bitPosition mod 8)"
    by (simp add: sig_pos_def lsbIndex_def byte_addr_def Let_def)
  define m where "m = (bitPosition XOR 7) + k"
  define d e q t where "d = m div 8" and "e = m mod 8" and "q = bitPosition div 8" and "t = bitPosition mod 8"
  have lt: "e < 8" "t < 8" by (simp_all add: e_def t_def)
  have "8 * d + e = 8 * q + (7 - t) + k"
    unfolding d_def e_def q_def t_def m_def xor_7 mult_div_mod_eq by simp
  note lb = last_byte [OF this lt]
  have "7 - e < 8" by simp
  then have l: "(m XOR 7) div 8 = d" "(m XOR 7) mod 8 = 7 - e"
    using split_8 [of "7 - e" d] unfolding xor_7 d_def [symmetric] e_def [symmetric] by blast+
  have "(7 - e + k) div 8 = d - q" "(7 - e + k) mod 8 = t" unfolding lb(2) using split_8 [OF lt(2)] by blast+
  then show "sig_pos COM_BIG_ENDIAN base bitPosition (Suc k) k = (int (base + bitPosition div 8), bitPosition mod 8)"
    using lb(1) unfolding sig_pos_def lsbIndex_def byte_addr_def Let_def
    by (simp add: l of_nat_diff flip: m_def q_def t_def)
qed

section \<open>Properties of signals\<close>

text \<open>
  C38: Writing a signal and reading it back. For a numeric signal of any type, size, position and byte
  order whose access window lies in the memory object, the write returns, changes exactly the bits of
  the signal, and reports a change exactly if the memory changed; the read that follows returns the low
  bits of the value written, sign-extended for the signed types and zero-extended for the others, and
  leaves the rest of the result buffer alone. Both leave the exclusive area as they found it.
\<close>

theorem com_signal_roundtrip:
  assumes "sig_ok mem base bitPosition bitSize endian signalType" "irq_balanced os"
    and "sig_bytes signalType \<le> length buf" "sig_bytes signalType \<le> length out"
  shows "\<exists>mem' out'.
    Com_Misc_WriteSignalDataToPdu os buf signalType mem base bitPosition bitSize endian = Some (mem', mem' \<noteq> mem, os) \<and>
    length mem' = length mem \<and>
    (\<forall>a\<ge>0. \<forall>b<8. (a, b) \<notin> sig_bits base bitPosition bitSize endian \<longrightarrow>
       (mem_bit mem' (a, b) \<longleftrightarrow> mem_bit mem (a, b))) \<and>
    Com_Misc_ReadSignalDataFromPdu os mem' base bitPosition bitSize endian signalType out = Some (out', os) \<and>
    length out' = length out \<and> drop (sig_bytes signalType) out' = drop (sig_bytes signalType) out \<and>
    (\<forall>j<8 * sig_bytes signalType. buf_bit out' j \<longleftrightarrow>
       (if j < unat bitSize then buf_bit buf j else sig_signed signalType \<and> buf_bit buf (unat bitSize - 1)))"
proof -
  have os: "SchM_Exit_Com_EA_0 (SchM_Enter_Com_EA_0 os) = os"
    using assms(2) by (simp add: SchM_Enter_Com_EA_0_def SchM_Exit_Com_EA_0_def)
  obtain mem' where m: "Com_Misc_WriteSignalDataToPdu os buf signalType mem base bitPosition bitSize endian =
      Some (mem', mem' \<noteq> mem, os)" "length mem' = length mem"
    "\<forall>j<unat bitSize. mem_bit mem' (sig_pos endian base (unat bitPosition) (unat bitSize) j) \<longleftrightarrow> buf_bit buf j"
    "\<forall>a\<ge>0. \<forall>b<8. (a, b) \<notin> sig_bits base bitPosition bitSize endian \<longrightarrow>
       (mem_bit mem' (a, b) \<longleftrightarrow> mem_bit mem (a, b))"
    using write_signal [OF assms(1,3), of os] unfolding os by blast
  have "sig_ok mem' base bitPosition bitSize endian signalType" using assms(1) sig_ok_length [OF m(2)] by blast
  from read_signal [OF this assms(4), of os] obtain out' where o1:
    "Com_Misc_ReadSignalDataFromPdu os mem' base bitPosition bitSize endian signalType out = Some (out', os)"
    "length out' = length out" "drop (sig_bytes signalType) out' = drop (sig_bytes signalType) out"
    "\<forall>j<8 * sig_bytes signalType. buf_bit out' j \<longleftrightarrow>
       (if j < unat bitSize then mem_bit mem' (sig_pos endian base (unat bitPosition) (unat bitSize) j)
        else sig_signed signalType \<and>
             mem_bit mem' (sig_pos endian base (unat bitPosition) (unat bitSize) (unat bitSize - 1)))"
    unfolding os by blast
  have "\<forall>j<8 * sig_bytes signalType. buf_bit out' j \<longleftrightarrow>
      (if j < unat bitSize then buf_bit buf j else sig_signed signalType \<and> buf_bit buf (unat bitSize - 1))"
    using o1(4) m(3) sig_size(1) [OF assms(1)] by simp
  then show ?thesis using m(1,2,4) o1(1-3) by blast
qed

theorem com_signal_roundtrip_witness:
  "\<exists>mem' out'.
    Com_Misc_WriteSignalDataToPdu Os_Int_Start [0xFB, 0xFF] COM_SINT16 (replicate 12 0) 4 10 11 COM_BIG_ENDIAN =
      Some (mem', mem' \<noteq> replicate 12 0, Os_Int_Start) \<and>
    Com_Misc_ReadSignalDataFromPdu Os_Int_Start mem' 4 10 11 COM_BIG_ENDIAN COM_SINT16 [0, 0] = Some (out', Os_Int_Start) \<and>
    buf_bit out' 15"
proof -
  have l: "lsbIndex COM_BIG_ENDIAN 10 11 = 16" by (simp add: lsbIndex_def)
  have "sig_ok (replicate 12 0) 4 10 11 COM_BIG_ENDIAN COM_SINT16"
    by (simp add: sig_ok_def window_ok_def word_bytes_def l upt_rec in_mem_def byte_addr_def)
  from com_signal_roundtrip [OF this Os_Int_Start_balanced, of "[0xFB, 0xFF]" "[0, 0]"]
  obtain mem' out' where r:
    "Com_Misc_WriteSignalDataToPdu Os_Int_Start [0xFB, 0xFF] COM_SINT16 (replicate 12 0) 4 10 11 COM_BIG_ENDIAN =
      Some (mem', mem' \<noteq> replicate 12 0, Os_Int_Start)"
    "Com_Misc_ReadSignalDataFromPdu Os_Int_Start mem' 4 10 11 COM_BIG_ENDIAN COM_SINT16 [0, 0] = Some (out', Os_Int_Start)"
    and bits: "\<forall>j<16. buf_bit out' j \<longleftrightarrow>
      (if j < unat (11 :: uint16) then buf_bit [0xFB, 0xFF] j
       else sig_signed COM_SINT16 \<and> buf_bit [0xFB, 0xFF] (unat (11 :: uint16) - 1))"
    by auto
  have "buf_bit [0xFB, 0xFF] 10" by (simp add: buf_bit_def mem_bit_def)
  then have "buf_bit out' 15" using bits [rule_format, of 15] by (simp add: sig_signed_def)
  then show ?thesis using r by blast
qed

text \<open>
  C39: Signals do not disturb each other. When two signals of an I-PDU occupy different bits, writing
  one leaves the value read from the other as it was, although both accesses read and write whole words
  around the signal.
\<close>

theorem com_signals_independent:
  assumes "sig_ok mem base pos1 size1 endian1 type1" "sig_ok mem base pos2 size2 endian2 type2"
    and "sig_bits base pos1 size1 endian1 \<inter> sig_bits base pos2 size2 endian2 = {}"
    and "sig_bytes type1 \<le> length buf" "sig_bytes type2 \<le> length out"
  shows "\<exists>mem' ch os' r.
    Com_Misc_WriteSignalDataToPdu os buf type1 mem base pos1 size1 endian1 = Some (mem', ch, os') \<and>
    Com_Misc_ReadSignalDataFromPdu os mem base pos2 size2 endian2 type2 out = Some r \<and>
    Com_Misc_ReadSignalDataFromPdu os mem' base pos2 size2 endian2 type2 out = Some r"
proof -
  let ?pos = "sig_pos endian2 base (unat pos2) (unat size2)"
  obtain mem' where m: "Com_Misc_WriteSignalDataToPdu os buf type1 mem base pos1 size1 endian1 =
      Some (mem', mem' \<noteq> mem, SchM_Exit_Com_EA_0 (SchM_Enter_Com_EA_0 os))" "length mem' = length mem"
    and keep: "\<forall>a\<ge>0. \<forall>b<8. (a, b) \<notin> sig_bits base pos1 size1 endian1 \<longrightarrow>
       (mem_bit mem' (a, b) \<longleftrightarrow> mem_bit mem (a, b))"
    using write_signal [OF assms(1,4), of os] by blast
  have same: "mem_bit mem' (?pos j) \<longleftrightarrow> mem_bit mem (?pos j)" if "j < unat size2" for j
  proof -
    have "?pos j \<in> sig_bits base pos2 size2 endian2" using that by (simp add: sig_bits_def)
    with assms(3) have "?pos j \<notin> sig_bits base pos1 size1 endian1" "0 \<le> fst (?pos j)" "snd (?pos j) < 8"
      using sig_bits_nonneg [OF assms(2)] by blast+
    then show ?thesis using keep by (cases "?pos j") simp
  qed
  have ok': "sig_ok mem' base pos2 size2 endian2 type2" using assms(2) sig_ok_length [OF m(2)] by blast
  note z = sig_size(1) [OF assms(2)]
  obtain r1 where r1: "Com_Misc_ReadSignalDataFromPdu os mem base pos2 size2 endian2 type2 out =
      Some (r1, SchM_Exit_Com_EA_0 (SchM_Enter_Com_EA_0 os))" "length r1 = length out"
    "drop (sig_bytes type2) r1 = drop (sig_bytes type2) out"
    "\<forall>j<8 * sig_bytes type2. buf_bit r1 j \<longleftrightarrow>
      (if j < unat size2 then mem_bit mem (?pos j) else sig_signed type2 \<and> mem_bit mem (?pos (unat size2 - 1)))"
    using read_signal [OF assms(2,5), of os] by blast
  obtain r2 where r2: "Com_Misc_ReadSignalDataFromPdu os mem' base pos2 size2 endian2 type2 out =
      Some (r2, SchM_Exit_Com_EA_0 (SchM_Enter_Com_EA_0 os))" "length r2 = length out"
    "drop (sig_bytes type2) r2 = drop (sig_bytes type2) out"
    "\<forall>j<8 * sig_bytes type2. buf_bit r2 j \<longleftrightarrow>
      (if j < unat size2 then mem_bit mem' (?pos j) else sig_signed type2 \<and> mem_bit mem' (?pos (unat size2 - 1)))"
    using read_signal [OF ok' assms(5), of os] by blast
  have "buf_bit r2 j \<longleftrightarrow> buf_bit r1 j" if "j < 8 * sig_bytes type2" for j
    using r1(4) r2(4) that same [of j] same [of "unat size2 - 1"] z by simp
  then have "r2 = r1"
    using buf_eqI [of r2 r1 "sig_bytes type2"] r1(2,3) r2(2,3) assms(5) by metis
  then show ?thesis using m(1) r1(1) r2(1) by blast
qed

theorem com_signals_independent_witness:
  "\<exists>mem' ch os' r.
    Com_Misc_WriteSignalDataToPdu Os_Int_Start [1] COM_UINT8 (replicate 12 7) 4 3 5 COM_LITTLE_ENDIAN = Some (mem', ch, os') \<and>
    Com_Misc_ReadSignalDataFromPdu Os_Int_Start (replicate 12 7) 4 0 3 COM_LITTLE_ENDIAN COM_UINT8 [0] = Some r \<and>
    Com_Misc_ReadSignalDataFromPdu Os_Int_Start mem' 4 0 3 COM_LITTLE_ENDIAN COM_UINT8 [0] = Some r"
proof -
  have ok: "sig_ok (replicate 12 7) 4 3 5 COM_LITTLE_ENDIAN COM_UINT8" "sig_ok (replicate 12 7) 4 0 3 COM_LITTLE_ENDIAN COM_UINT8"
    by (simp_all add: sig_ok_def window_ok_def word_bytes_def lsbIndex_def upt_rec in_mem_def byte_addr_def)
  have "sig_bits 4 3 5 COM_LITTLE_ENDIAN \<inter> sig_bits 4 0 3 COM_LITTLE_ENDIAN = {}"
    by (auto simp: sig_bits_def sig_pos_def Let_def lsbIndex_def byte_addr_def)
  from com_signals_independent [OF ok this, of "[1]" "[0]"] show ?thesis by simp
qed

section \<open>Properties of the I-PDU counters\<close>

text \<open>A counter of \<open>r\<close> bits inside one byte of the I-PDU, with its slots in the counter arrays.\<close>

definition cntr_ok :: "nat \<Rightarrow> ComIPduCounter_type \<Rightarrow> uint8 list \<Rightarrow> Com_Counters \<Rightarrow> bool" where
  "cntr_ok r cfg sdu st \<longleftrightarrow>
     unat (ComIPduCntrRange cfg) = 2 ^ r \<and> unat (ComIPduCntrStartPos cfg) mod 8 + r \<le> 8 \<and>
     unat (ComIPduCntrStartPos cfg) div 8 < length sdu \<and>
     unat (ComIPduCntrIndex cfg) < length (Com_IPdu_Counters st) \<and>
     unat (ComIPduCntrIndex cfg) < length (ComIPduCountRxStart st)"

definition cntr_at :: "ComIPduCounter_type \<Rightarrow> Com_Counters \<Rightarrow> nat" where
  "cntr_at cfg st = unat (Com_IPdu_Counters st ! unat (ComIPduCntrIndex cfg))"

lemma range_mask:
  assumes "unat (m :: uint16) = 2 ^ r" "r \<le> 8"
  shows "bit (m - 1) j \<longleftrightarrow> j < r"
proof -
  have "uint m = 2 ^ r" using assms(1) by (metis of_nat_numeral of_nat_power uint_nat)
  then have "m = word_of_int (2 ^ r)" by (metis word_of_int_uint)
  then have "m = 2 ^ r" by simp
  then have "m - 1 = mask r" by (simp add: mask_eq_exp_minus_1)
  then show ?thesis using assms(2) by (auto simp: bit_mask_iff)
qed

lemma next_cntr_eq:
  assumes "unat (m :: uint16) = 2 ^ r" "r \<le> 8"
  shows "\<exists>v. next_cntr c m = Some v \<and> unat v = (unat c + 1) mod 2 ^ r \<and> unat v < 2 ^ r"
proof -
  have "m \<noteq> 0" using assms(1) by auto
  define x where "x = (unat c + 1) mod 2 ^ r"
  have "(2 :: nat) ^ r \<le> 2 ^ 8" using assms(2) by (intro power_increasing) simp_all
  moreover have l: "x < 2 ^ r" by (simp add: x_def)
  ultimately have "x < 2 ^ LENGTH(8)" by simp
  then have "unat (of_nat x :: uint8) = x" by (rule unat_of_nat_small)
  then show ?thesis using l \<open>m \<noteq> 0\<close> unfolding next_cntr_def assms(1) x_def [symmetric] by simp
qed

lemma small_bit: "unat v < 2 ^ r \<Longrightarrow> bit v j \<Longrightarrow> j < r" for v :: "'w::len word"
proof (rule ccontr)
  assume "unat v < 2 ^ r" "bit v j" "\<not> j < r"
  then have "unat v < 2 ^ j" by (meson leI less_le_trans one_le_numeral power_increasing)
  moreover have "bit (unat v) j" using \<open>bit v j\<close> by (simp add: bit_unsigned_iff)
  ultimately show False by (simp add: bit_iff_odd)
qed

lemma update_cntr:
  assumes ok: "cntr_ok r cfg sdu st"
    and pos: "p = unat (ComIPduCntrStartPos cfg) mod 8" "i = unat (ComIPduCntrStartPos cfg) div 8"
  shows "\<exists>v new. updateIPduCntr cfg sdu st = Some (v, sdu[i := new], ComIPduCntrIndex cfg) \<and>
    unat v = (cntr_at cfg st + 1) mod 2 ^ r \<and> extractIPduCntr cfg (sdu[i := new]) = Some v \<and>
    (\<forall>b<8. \<not> (p \<le> b \<and> b < p + r) \<longrightarrow> (bit new b \<longleftrightarrow> bit (sdu ! i) b))"
proof -
  define rng where "rng = ComIPduCntrRange cfg"
  have r: "unat rng = 2 ^ r" "p + r \<le> 8" "r \<le> 8" "i < length sdu"
    "unat (ComIPduCntrIndex cfg) < length (Com_IPdu_Counters st)"
    using ok by (auto simp: cntr_ok_def pos rng_def)
  obtain v where v: "next_cntr (Com_IPdu_Counters st ! unat (ComIPduCntrIndex cfg)) rng = Some v"
    "unat v = (cntr_at cfg st + 1) mod 2 ^ r" "unat v < 2 ^ r"
    using next_cntr_eq [OF r(1,3)] by (auto simp: cntr_at_def)
  define new where "new = (sdu ! i AND ucast (NOT (push_bit p (rng - 1)))) OR push_bit p v"
  have msk: "bit (rng - 1) j \<longleftrightarrow> j < r" for j by (rule range_mask [OF r(1,3)])
  have new: "bit new b \<longleftrightarrow> (if p \<le> b \<and> b < p + r then bit v (b - p) else bit (sdu ! i) b)" if "b < 8" for b
    using that small_bit [OF v(3), of "b - p"]
    unfolding new_def bit_or_iff bit_and_iff bit_unsigned_iff bit_not_iff bit_push_bit_iff msk by auto
  have up: "updateIPduCntr cfg sdu st = Some (v, sdu[i := new], ComIPduCntrIndex cfg)"
    using v(1) r(4,5) unfolding rng_def
    by (simp add: updateIPduCntr_def Let_def ub_simps new_def rng_def flip: pos)
  have "drop_bit p new AND ucast (rng - 1) = v"
  proof (rule bit_word_eqI)
    fix j assume "j < LENGTH(8)"
    then show "bit (drop_bit p new AND ucast (rng - 1)) j \<longleftrightarrow> bit v j"
      using new [of "p + j"] r(2) small_bit [OF v(3), of j]
      unfolding bit_and_iff bit_unsigned_iff bit_drop_bit_eq o_def msk by (cases "j < r") auto
  qed
  then have "extractIPduCntr cfg (sdu[i := new]) = Some v"
    using r(4) by (simp add: extractIPduCntr_def Let_def ub_simps rng_def flip: pos)
  with up v(2) new show ?thesis by (intro exI [of _ v] exI [of _ new]) auto
qed

text \<open>The distance of a received counter to the expected one, as the code computes it.\<close>

lemma cntr_diff:
  assumes "unat (m :: uint16) = 2 ^ r" "r \<le> 8" "unat (x :: uint8) < 2 ^ r" "unat c < 2 ^ r"
  shows "unat (if x \<ge> c then x - c else of_nat (unat x + unat m - unat c)) = (unat x + 2 ^ r - unat c) mod 2 ^ r"
proof (cases "x \<ge> c")
  case True
  then have "unat c \<le> unat x" by (simp add: word_le_nat_alt)
  then have "unat x + 2 ^ r - unat c = (unat x - unat c) + 2 ^ r" by linarith
  then have "(unat x + 2 ^ r - unat c) mod 2 ^ r = (unat x - unat c) mod 2 ^ r" by (metis mod_add_self2)
  also have "\<dots> = unat x - unat c" using assms(3) by (intro mod_less) linarith
  finally have "(unat x + 2 ^ r - unat c) mod 2 ^ r = unat x - unat c" .
  with True show ?thesis by (simp add: unat_sub)
next
  case False
  then have l: "unat x < unat c" by (simp add: word_le_nat_alt)
  define d where "d = unat x + 2 ^ r - unat c"
  have d: "d < 2 ^ r" using l assms(4) by (simp add: d_def)
  have "(2 :: nat) ^ r \<le> 2 ^ 8" using assms(2) by (intro power_increasing) simp_all
  with d have "d < 2 ^ LENGTH(8)" by simp
  then have "unat (of_nat d :: uint8) = d" by (rule unat_of_nat_small)
  moreover have "d mod 2 ^ r = d" using d by simp
  ultimately show ?thesis using False unfolding assms(1) d_def [symmetric] by metis
qed

lemma validate_cntr:
  assumes ok: "cntr_ok r cfg sdu st" and x: "extractIPduCntr cfg sdu = Some x" "unat x < 2 ^ r"
    and c: "cntr_at cfg st < 2 ^ r" and i: "i = unat (ComIPduCntrIndex cfg)"
  shows "\<exists>ret st'. Com_Misc_validateIPduCounter cfg sdu st = Some (ret, st') \<and>
    (ret \<longleftrightarrow> \<not> ComIPduCountRxStart st ! i \<or>
       (unat x + 2 ^ r - cntr_at cfg st) mod 2 ^ r \<le> unat (ComIPduCntrThrshldStep cfg)) \<and>
    cntr_at cfg st' = (unat x + 1) mod 2 ^ r \<and> ComIPduCountRxStart st' = (ComIPduCountRxStart st)[i := True]"
proof -
  have r: "unat (ComIPduCntrRange cfg) = 2 ^ r" "r \<le> 8" "i < length (Com_IPdu_Counters st)"
    "i < length (ComIPduCountRxStart st)"
    using ok by (auto simp: cntr_ok_def i)
  obtain n where n: "next_cntr x (ComIPduCntrRange cfg) = Some n" "unat n = (unat x + 1) mod 2 ^ r"
    using next_cntr_eq [OF r(1,2)] by blast
  let ?c = "Com_IPdu_Counters st ! i"
  have diff: "unat (if x \<ge> ?c then x - ?c else of_nat (unat x + unat (ComIPduCntrRange cfg) - unat ?c)) =
      (unat x + 2 ^ r - cntr_at cfg st) mod 2 ^ r"
    using cntr_diff [OF r(1,2) x(2), of ?c] c by (simp add: cntr_at_def i)
  have "Com_Misc_validateIPduCounter cfg sdu st =
      Some (\<not> ComIPduCountRxStart st ! i \<or>
          (if x \<ge> ?c then x - ?c else of_nat (unat x + unat (ComIPduCntrRange cfg) - unat ?c)) \<le> ComIPduCntrThrshldStep cfg,
        \<lparr>ComIPduCountRxStart = (ComIPduCountRxStart st)[i := True],
         Com_IPdu_Counters = (Com_IPdu_Counters st)[i := n]\<rparr>)"
    using r(3,4) x(1) n(1)
    by (cases st) (auto simp: Com_Misc_validateIPduCounter_def Let_def ub_simps
        list_update_same_conv [THEN iffD2] simp flip: i)
  then show ?thesis using n(2) r(3) diff by (simp add: word_le_nat_alt cntr_at_def flip: i)
qed

text \<open>
  C40: The I-PDU counter from sender to receiver. A sender and a receiver with the same counter
  configuration (a power of two, inside one byte): the sender writes the next counter value into the
  I-PDU and touches no other bit; the receiver accepts the I-PDU exactly if it is the first one, or if
  the counter is at most the threshold ahead of the expected one, counting round the range; and it then
  expects the successor of the value received.
\<close>

theorem com_counter_window:
  assumes "cntr_ok r cfg sdu tx" "cntr_ok r cfg sdu rx" "cntr_at cfg rx < 2 ^ r"
    and "k = unat (ComIPduCntrIndex cfg)" "v = (cntr_at cfg tx + 1) mod 2 ^ r"
  shows "\<exists>val sdu' ret rx'. updateIPduCntr cfg sdu tx = Some (val, sdu', ComIPduCntrIndex cfg) \<and> unat val = v \<and>
    length sdu' = length sdu \<and>
    (\<forall>i < 8 * length sdu. (\<not> (unat (ComIPduCntrStartPos cfg) \<le> i \<and> i < unat (ComIPduCntrStartPos cfg) + r)) \<longrightarrow>
       (buf_bit sdu' i \<longleftrightarrow> buf_bit sdu i)) \<and>
    Com_Misc_validateIPduCounter cfg sdu' rx = Some (ret, rx') \<and>
    (ret \<longleftrightarrow> \<not> ComIPduCountRxStart rx ! k \<or>
       (v + 2 ^ r - cntr_at cfg rx) mod 2 ^ r \<le> unat (ComIPduCntrThrshldStep cfg)) \<and>
    ComIPduCountRxStart rx' ! k \<and> cntr_at cfg rx' = (v + 1) mod 2 ^ r"
proof -
  define p where "p = unat (ComIPduCntrStartPos cfg) mod 8"
  define i where "i = unat (ComIPduCntrStartPos cfg) div 8"
  obtain val new where u: "updateIPduCntr cfg sdu tx = Some (val, sdu[i := new], ComIPduCntrIndex cfg)"
    "unat val = v" "extractIPduCntr cfg (sdu[i := new]) = Some val"
    and frame: "\<And>b. b < 8 \<Longrightarrow> \<not> (p \<le> b \<and> b < p + r) \<Longrightarrow> bit new b \<longleftrightarrow> bit (sdu ! i) b"
    using update_cntr [OF assms(1) p_def i_def] assms(5) by blast
  have "cntr_ok r cfg (sdu[i := new]) rx" "unat val < 2 ^ r"
    using assms(2) u(2) assms(5) by (simp_all add: cntr_ok_def)
  from validate_cntr [OF this(1) u(3) this(2) assms(3,4)] obtain ret rx' where w:
    "Com_Misc_validateIPduCounter cfg (sdu[i := new]) rx = Some (ret, rx')"
    "ret \<longleftrightarrow> \<not> ComIPduCountRxStart rx ! k \<or>
       (v + 2 ^ r - cntr_at cfg rx) mod 2 ^ r \<le> unat (ComIPduCntrThrshldStep cfg)"
    "cntr_at cfg rx' = (v + 1) mod 2 ^ r" "ComIPduCountRxStart rx' = (ComIPduCountRxStart rx)[k := True]"
    unfolding u(2) by blast
  have "buf_bit (sdu[i := new]) j \<longleftrightarrow> buf_bit sdu j"
    if j: "\<not> (unat (ComIPduCntrStartPos cfg) \<le> j \<and> j < unat (ComIPduCntrStartPos cfg) + r)" for j
  proof (cases "j div 8 = i")
    case True
    have "8 * i + p = unat (ComIPduCntrStartPos cfg)" by (simp add: i_def p_def)
    moreover have "8 * i + j mod 8 = j" by (simp flip: True)
    ultimately have "\<not> (p \<le> j mod 8 \<and> j mod 8 < p + r)" using j by linarith
    with frame [of "j mod 8"] True assms(1) show ?thesis
      by (simp add: buf_bit_def mem_bit_def cntr_ok_def i_def)
  next
    case False
    then show ?thesis by (simp add: buf_bit_def mem_bit_def)
  qed
  moreover have "ComIPduCountRxStart rx' ! k" using w(4) assms(2,4) by (simp add: cntr_ok_def)
  ultimately show ?thesis using u(1,2) w(1-3) by (intro exI conjI) auto
qed

theorem com_counter_window_witness:
  "\<exists>val sdu' ret rx'.
    updateIPduCntr \<lparr>ComIPduCntrRange = 16, ComIPduCntrStartPos = 12, ComIPduCntrThrshldStep = 2,
      ComIPduCntErrNotification = 0, ComIPduCntrIndex = 0\<rparr> [0, 0]
      \<lparr>ComIPduCountRxStart = [False], Com_IPdu_Counters = [15]\<rparr> = Some (val, sdu', 0) \<and> unat val = 0 \<and>
    Com_Misc_validateIPduCounter \<lparr>ComIPduCntrRange = 16, ComIPduCntrStartPos = 12, ComIPduCntrThrshldStep = 2,
      ComIPduCntErrNotification = 0, ComIPduCntrIndex = 0\<rparr> sdu'
      \<lparr>ComIPduCountRxStart = [True], Com_IPdu_Counters = [14]\<rparr> = Some (ret, rx') \<and> ret"
proof -
  let ?cfg = "\<lparr>ComIPduCntrRange = 16, ComIPduCntrStartPos = 12, ComIPduCntrThrshldStep = 2,
      ComIPduCntErrNotification = 0, ComIPduCntrIndex = 0\<rparr>"
  let ?tx = "\<lparr>ComIPduCountRxStart = [False], Com_IPdu_Counters = [15]\<rparr>"
  let ?rx = "\<lparr>ComIPduCountRxStart = [True], Com_IPdu_Counters = [14]\<rparr>"
  have "cntr_ok 4 ?cfg [0, 0] ?tx" "cntr_ok 4 ?cfg [0, 0] ?rx" "cntr_at ?cfg ?rx < 2 ^ 4"
    "(0 :: nat) = unat (ComIPduCntrIndex ?cfg)" "(0 :: nat) = (cntr_at ?cfg ?tx + 1) mod 2 ^ 4"
    by (simp_all add: cntr_ok_def cntr_at_def)
  from com_counter_window [OF this] show ?thesis by (auto simp: cntr_at_def)
qed

end
