(* ===== verification/Com.thy ===== *)
theory Com
  imports Com_Signal
begin

text \<open>
  The communication module, \<^verbatim>\<open>core/communication/Com\<close>: \<^verbatim>\<open>Com.c\<close>, \<^verbatim>\<open>Com_Com.c\<close>, \<^verbatim>\<open>Com_Sched.c\<close> and the rest
  of \<^verbatim>\<open>Com_misc.c\<close>, for a build without the signal gateway (\<^verbatim>\<open>COM_SIG_GATEWAY_ENABLE\<close>) and without
  \<^verbatim>\<open>COM_OSEKNM_SUPPORT\<close>.

  \<^item> All I-PDU, deferred and shadow buffers lie in the one array \<^verbatim>\<open>Com_Arc_Buffer\<close>; a buffer pointer is
    a position in it, \<open>None\<close> the null pointer.
  \<^item> The arrays of the configuration end in an entry with \<^verbatim>\<open>Com_Arc_EOL\<close> set, or in a null pointer; they
    are lists here, and reading behind the last entry faults.
  \<^item> \<^verbatim>\<open>PduR_ComTransmit\<close> and the callouts are parameters. A callout gets the bytes of the I-PDU and, where
    it is not const, returns them changed. A transmission may be refused, depending on everything that
    was called before. Neither calls back into the module.
  \<^item> Notifications, transmissions and reports to the error tracer are appended to \<open>com_calls\<close>.
\<close>

section \<open>Configuration\<close>

datatype Com_StatusType = COM_UNINIT | COM_INIT

datatype Com_IPduSignalProcessingMode = COM_IMMEDIATE | COM_DEFERRED

datatype Com_IPduDirection = COM_RECEIVE | COM_SEND

datatype ComTransferPropertyType =
  COM_PENDING | COM_TRIGGERED | COM_TRIGGERED_WITHOUT_REPETITION
| COM_TRIGGERED_ON_CHANGE_WITHOUT_REPETITION | COM_TRIGGERED_ON_CHANGE

datatype ComTxModeModeType = COM_DIRECT | COM_MIXED | COM_NONE | COM_PERIODIC

datatype ComRxDataTimeoutAction_type = COM_TIMEOUT_DATA_ACTION_NONE | COM_TIMEOUT_DATA_ACTION_REPLACE

datatype ComTxTriggerStatusType = COM_TX_TRIGGERED | COM_TX_MIN_DELAY_NOT_FULFILLED | COM_TX_NOT_TRIGGERED

datatype BufReq_ReturnType = BUFREQ_OK | BUFREQ_NOT_OK | BUFREQ_BUSY | BUFREQ_OVFL

record ComGroupSignal_type =
  gs_ComBitPosition :: uint16
  gs_ComBitSize :: uint16
  gs_ComHandleId :: uint16
  gs_ComSignalEndianess :: ComSignalEndianess_type
  gs_ComSignalInitValue :: "uint8 list"
  gs_ComSignalType :: Com_SignalType

record ComSignal_type =
  ComBitPosition :: uint16
  ComBitSize :: uint16
  ComFirstTimeoutFactor :: uint32
  ComHandleId :: uint16
  ComNotification :: uint32
  ComRxDataTimeoutAction :: ComRxDataTimeoutAction_type
  ComSignalEndianess :: ComSignalEndianess_type
  ComSignalInitValue :: "uint8 list"
  ComSignalType :: Com_SignalType
  ComTimeoutFactor :: uint32
  ComTimeoutNotification :: uint32
  ComTransferProperty :: ComTransferPropertyType
  ComUpdateBitPosition :: uint16
  ComSignalArcUseUpdateBit :: bool
  Com_Arc_IsSignalGroup :: bool
  ComGroupSignal :: "ComGroupSignal_type list"
  Com_Arc_ShadowBuffer_Mask :: "uint8 list"
  ComIPduHandleId :: uint16

record ComTxMode_type =
  ComTxModeMode :: ComTxModeModeType
  ComTxModeNumberOfRepetitions :: uint8
  ComTxModeRepetitionPeriodFactor :: uint32
  ComTxModeTimeOffsetFactor :: uint32
  ComTxModeTimePeriodFactor :: uint32

record ComTxIPdu_type =
  ComTxIPduMinimumDelayFactor :: uint32
  ComTxIPduUnusedAreasDefault :: uint8
  ComTxModeTrue :: ComTxMode_type

record ComIPdu_type =
  ComRxIPduCallout :: uint32
  ComTxIPduCallout :: uint32
  ComTriggerTransmitIPduCallout :: uint32
  ArcIPduOutgoingId :: uint16
  ComIPduSignalProcessing :: Com_IPduSignalProcessingMode
  ComIPduSize :: uint16
  ComIPduDirection :: Com_IPduDirection
  ComIPduGroupRefs :: "uint16 list"
  ComTxIPdu :: ComTxIPdu_type
  ComIPduSignalRef :: "ComSignal_type list ptr"
  ComIPduDynSignalRef :: "ComSignal_type ptr"
  ComIpduCounterRef :: "ComIPduCounter_type ptr"

record Com_ConfigType =
  ComNofIPdus :: uint16
  ComNofSignals :: uint16
  ComNofGroupSignals :: uint16
  ComIPdu :: "ComIPdu_type list"
  ComSignal :: "ComSignal_type list"
  ComGroupSignals :: "ComGroupSignal_type list"

abbreviation tx_mode :: "ComIPdu_type \<Rightarrow> ComTxMode_type" where
  "tx_mode IPdu \<equiv> ComTxModeTrue (ComTxIPdu IPdu)"

definition COM_NO_FUNCTION_CALLOUT :: uint32 where "COM_NO_FUNCTION_CALLOUT = 0xFFFFFFFF"
definition NO_PDU_REFERENCE :: uint16 where "NO_PDU_REFERENCE = 0xFFFF"

definition com_E_OK :: uint8 where "com_E_OK = 0"
definition com_E_NOT_OK :: uint8 where "com_E_NOT_OK = 1"
definition COM_BUSY :: uint8 where "COM_BUSY = 0x81"
definition COM_SERVICE_NOT_AVAILABLE :: uint8 where "COM_SERVICE_NOT_AVAILABLE = 0x80"
definition NTFRSLT_OK :: uint8 where "NTFRSLT_OK = 0"

definition COM_E_PARAM :: uint8 where "COM_E_PARAM = 1"
definition COM_E_UNINIT :: uint8 where "COM_E_UNINIT = 2"
definition COM_E_PARAM_POINTER :: uint8 where "COM_E_PARAM_POINTER = 3"

section \<open>State\<close>

record Com_Arc_Signal_type =
  Com_Arc_ShadowBuffer :: "nat ptr"
  Com_Arc_DeadlineCounter :: uint32
  ComSignalUpdated :: bool

record Com_Arc_GroupSignal_type =
  gs_Com_Arc_ShadowBuffer :: "nat ptr"

record Com_Arc_TxIPduTimer_type =
  ComTxModeRepetitionPeriodTimer :: uint32
  ComTxIPduMinimumDelayTimer :: uint32
  ComTxModeTimePeriodTimer :: uint32
  ComTxDMTimer :: uint32
  ComTxIPduNumberOfRepetitionsLeft :: uint8
  ComTxIPduNumberOfTxConfirmations :: uint8

record Com_Arc_IPdu_type =
  ComIPduDataPtr :: "nat ptr"
  ComIPduDeferredDataPtr :: "nat ptr"
  Com_Arc_TxIPduTimers :: Com_Arc_TxIPduTimer_type
  Com_Arc_TxDeadlineCounter :: uint32
  Com_Arc_DynSignalLength :: uint16
  Com_Arc_IpduStarted :: bool
  Com_Arc_IpduRxDMControl :: bool

record Com_BufferPduStateType =
  currentPosition :: uint16
  locked :: bool

datatype Com_Call =
  Notification uint32
| Transmit uint16 "uint8 list"
| Report uint8 uint8

record Com_Env =
  COM_DEV_ERROR_DETECT :: bool
  COM_IPDU_COUNTING_ENABLE :: bool
  ComNotificationCallouts :: "bool list"
  ComTxIPduCallouts :: "(uint16 \<Rightarrow> uint8 list \<Rightarrow> bool \<times> uint8 list) ptr list"
  ComRxIPduCallouts :: "(uint16 \<Rightarrow> uint8 list \<Rightarrow> bool) ptr list"
  ComTriggerTransmitIPduCallouts :: "(uint16 \<Rightarrow> uint8 list \<Rightarrow> bool \<times> uint8 list) ptr list"
  COM_INVALID_PDU_ID :: uint8
  COM_E_TOO_MANY_IPDU :: uint8
  PduR_ComTransmit :: "Com_Call list \<Rightarrow> uint16 \<Rightarrow> uint8 list \<Rightarrow> bool"

record com =
  initStatus :: Com_StatusType
  ComConfig :: "Com_ConfigType ptr"
  Com_Arc_IPdu :: "Com_Arc_IPdu_type list"
  Com_Arc_Signal :: "Com_Arc_Signal_type list"
  Com_Arc_GroupSignal :: "Com_Arc_GroupSignal_type list"
  Com_BufferPduState :: "Com_BufferPduStateType list"
  Com_Arc_Buffer :: "uint8 list"
  com_cntrs :: Com_Counters
  com_os :: Os_Int
  com_calls :: "Com_Call list"

text \<open>\<^verbatim>\<open>GET_IPdu\<close>, \<^verbatim>\<open>GET_ArcIPdu\<close> and the other accessors, and updates through such a pointer.\<close>

definition GET_IPdu :: "uint16 \<Rightarrow> com \<Rightarrow> ComIPdu_type ub" where
  "GET_IPdu IPduId st = do { cfg \<leftarrow> deref (ComConfig st); rd (ComIPdu cfg) (unat IPduId) }"

definition GET_Signal :: "uint16 \<Rightarrow> com \<Rightarrow> ComSignal_type ub" where
  "GET_Signal SignalId st = do { cfg \<leftarrow> deref (ComConfig st); rd (ComSignal cfg) (unat SignalId) }"

definition GET_GroupSignal :: "uint16 \<Rightarrow> com \<Rightarrow> ComGroupSignal_type ub" where
  "GET_GroupSignal GroupSignalId st = do { cfg \<leftarrow> deref (ComConfig st); rd (ComGroupSignals cfg) (unat GroupSignalId) }"

definition GET_ArcIPdu :: "uint16 \<Rightarrow> com \<Rightarrow> Com_Arc_IPdu_type ub" where
  "GET_ArcIPdu IPduId st = rd (Com_Arc_IPdu st) (unat IPduId)"

definition GET_ArcSignal :: "uint16 \<Rightarrow> com \<Rightarrow> Com_Arc_Signal_type ub" where
  "GET_ArcSignal SignalId st = rd (Com_Arc_Signal st) (unat SignalId)"

definition GET_ArcGroupSignal :: "uint16 \<Rightarrow> com \<Rightarrow> Com_Arc_GroupSignal_type ub" where
  "GET_ArcGroupSignal GroupSignalId st = rd (Com_Arc_GroupSignal st) (unat GroupSignalId)"

definition upd_pdu :: "uint16 \<Rightarrow> (Com_Arc_IPdu_type \<Rightarrow> Com_Arc_IPdu_type) \<Rightarrow> com \<Rightarrow> com ub" where
  "upd_pdu i f st = do {
     a \<leftarrow> GET_ArcIPdu i st;
     l \<leftarrow> wr (Com_Arc_IPdu st) (unat i) (f a);
     Some (st\<lparr>Com_Arc_IPdu := l\<rparr>) }"

definition upd_timers ::
  "uint16 \<Rightarrow> (Com_Arc_TxIPduTimer_type \<Rightarrow> Com_Arc_TxIPduTimer_type) \<Rightarrow> com \<Rightarrow> com ub" where
  "upd_timers i f = upd_pdu i (\<lambda>a. a\<lparr>Com_Arc_TxIPduTimers := f (Com_Arc_TxIPduTimers a)\<rparr>)"

definition upd_sig :: "uint16 \<Rightarrow> (Com_Arc_Signal_type \<Rightarrow> Com_Arc_Signal_type) \<Rightarrow> com \<Rightarrow> com ub" where
  "upd_sig i f st = do {
     a \<leftarrow> GET_ArcSignal i st;
     l \<leftarrow> wr (Com_Arc_Signal st) (unat i) (f a);
     Some (st\<lparr>Com_Arc_Signal := l\<rparr>) }"

definition upd_lock :: "uint16 \<Rightarrow> (Com_BufferPduStateType \<Rightarrow> Com_BufferPduStateType) \<Rightarrow> com \<Rightarrow> com ub" where
  "upd_lock i f st = do {
     a \<leftarrow> rd (Com_BufferPduState st) (unat i);
     l \<leftarrow> wr (Com_BufferPduState st) (unat i) (f a);
     Some (st\<lparr>Com_BufferPduState := l\<rparr>) }"

definition isPduBufferLocked :: "uint16 \<Rightarrow> com \<Rightarrow> bool ub" where
  "isPduBufferLocked i st = map_option locked (rd (Com_BufferPduState st) (unat i))"

definition ea_enter :: "com \<Rightarrow> com" where
  "ea_enter st = st\<lparr>com_os := SchM_Enter_Com_EA_0 (com_os st)\<rparr>"

definition ea_exit :: "com \<Rightarrow> com" where
  "ea_exit st = st\<lparr>com_os := SchM_Exit_Com_EA_0 (com_os st)\<rparr>"

definition DET_REPORTERROR :: "Com_Env \<Rightarrow> uint8 \<Rightarrow> uint8 \<Rightarrow> com \<Rightarrow> com" where
  "DET_REPORTERROR env api err st =
     (if COM_DEV_ERROR_DETECT env then st\<lparr>com_calls := com_calls st @ [Report api err]\<rparr> else st)"

text \<open>The call of a notification, when one is configured and the table has a function for it.\<close>

definition notify :: "Com_Env \<Rightarrow> uint32 \<Rightarrow> com \<Rightarrow> com ub" where
  "notify env n st =
     (if n = COM_NO_FUNCTION_CALLOUT then Some st
      else do {
        p \<leftarrow> rd (ComNotificationCallouts env) (unat n);
        Some (if p then st\<lparr>com_calls := com_calls st @ [Notification n]\<rparr> else st) })"

section \<open>Buffers\<close>

definition TESTBIT :: "nat \<Rightarrow> uint16 \<Rightarrow> com \<Rightarrow> bool ub" where
  "TESTBIT base b st = do {
     v \<leftarrow> rd (Com_Arc_Buffer st) (base + unat b div 8);
     Some (0 < v AND push_bit (unat b mod 8) 1) }"

definition SETBIT :: "nat \<Rightarrow> uint16 \<Rightarrow> com \<Rightarrow> com ub" where
  "SETBIT base b st = do {
     v \<leftarrow> rd (Com_Arc_Buffer st) (base + unat b div 8);
     l \<leftarrow> wr (Com_Arc_Buffer st) (base + unat b div 8) (v OR push_bit (unat b mod 8) 1);
     Some (st\<lparr>Com_Arc_Buffer := l\<rparr>) }"

definition CLEARBIT :: "nat \<Rightarrow> uint16 \<Rightarrow> com \<Rightarrow> com ub" where
  "CLEARBIT base b st = do {
     v \<leftarrow> rd (Com_Arc_Buffer st) (base + unat b div 8);
     l \<leftarrow> wr (Com_Arc_Buffer st) (base + unat b div 8) (v AND NOT (push_bit (unat b mod 8) 1));
     Some (st\<lparr>Com_Arc_Buffer := l\<rparr>) }"

text \<open>\<^verbatim>\<open>n\<close> bytes of the buffer from a position, and storing bytes there.\<close>

definition get_bytes :: "nat \<Rightarrow> nat \<Rightarrow> com \<Rightarrow> uint8 list ub" where
  "get_bytes base n st =
     (if base + n \<le> length (Com_Arc_Buffer st) then Some (take n (drop base (Com_Arc_Buffer st))) else None)"

definition put_bytes :: "nat \<Rightarrow> uint8 list \<Rightarrow> com \<Rightarrow> com ub" where
  "put_bytes base bs st =
     (if base + length bs \<le> length (Com_Arc_Buffer st)
      then Some (st\<lparr>Com_Arc_Buffer := take base (Com_Arc_Buffer st) @ bs @ drop (base + length bs) (Com_Arc_Buffer st)\<rparr>)
      else None)"

definition write_signal_at ::
  "nat \<Rightarrow> uint8 list \<Rightarrow> Com_SignalType \<Rightarrow> uint16 \<Rightarrow> uint16 \<Rightarrow> ComSignalEndianess_type \<Rightarrow> com \<Rightarrow> (bool \<times> com) ub" where
  "write_signal_at base data ty bitPosition bitSize endian st = do {
     (mem, changed, os) \<leftarrow>
       Com_Misc_WriteSignalDataToPdu (com_os st) data ty (Com_Arc_Buffer st) base bitPosition bitSize endian;
     Some (changed, st\<lparr>Com_Arc_Buffer := mem, com_os := os\<rparr>) }"

definition read_signal_at ::
  "nat \<Rightarrow> uint16 \<Rightarrow> uint16 \<Rightarrow> ComSignalEndianess_type \<Rightarrow> Com_SignalType \<Rightarrow> uint8 list \<Rightarrow> com \<Rightarrow> (uint8 list \<times> com) ub" where
  "read_signal_at base bitPosition bitSize endian ty out st = do {
     (out, os) \<leftarrow>
       Com_Misc_ReadSignalDataFromPdu (com_os st) (Com_Arc_Buffer st) base bitPosition bitSize endian ty out;
     Some (out, st\<lparr>com_os := os\<rparr>) }"

section \<open>Com\_misc.c: transmission\<close>

definition Com_Misc_UnlockTpBuffer :: "uint16 \<Rightarrow> com \<Rightarrow> com ub" where
  "Com_Misc_UnlockTpBuffer PduId = upd_lock PduId (\<lambda>b. b\<lparr>locked := False, currentPosition := 0\<rparr>)"

text \<open>The callout of a sender: whether to go on, and the I-PDU as the callout left it.\<close>

definition tx_callout ::
  "(uint16 \<Rightarrow> uint8 list \<Rightarrow> bool \<times> uint8 list) ptr list \<Rightarrow> uint32 \<Rightarrow> uint16 \<Rightarrow> nat ptr \<Rightarrow> uint16 \<Rightarrow> com \<Rightarrow> (bool \<times> com) ub" where
  "tx_callout table n PduId dataPtr sz st =
     (if n = COM_NO_FUNCTION_CALLOUT then Some (True, st)
      else do {
        f \<leftarrow> rd table (unat n);
        case f of
          None \<Rightarrow> Some (True, st)
        | Some f \<Rightarrow> do {
            base \<leftarrow> deref dataPtr;
            bs \<leftarrow> get_bytes base (unat sz) st;
            let (ok, bs') = f PduId bs;
            st \<leftarrow> (if length bs' = length bs then put_bytes base bs' st else None);
            Some (ok, st) } })"

text \<open>The length passed to \<^verbatim>\<open>PduR_ComTransmit\<close>, with the current length of a dynamic signal.\<close>

definition SduLength :: "ComIPdu_type \<Rightarrow> Com_Arc_IPdu_type \<Rightarrow> uint16" where
  "SduLength IPdu Arc_IPdu =
     (case ComIPduDynSignalRef IPdu of
        Some dyn \<Rightarrow> ComIPduSize IPdu - ComBitSize dyn div 8 + Com_Arc_DynSignalLength Arc_IPdu
      | None \<Rightarrow> ComIPduSize IPdu)"

text \<open>The counter of the I-PDU, if there is one: its next value, written into the buffer.\<close>

definition tx_counter :: "Com_Env \<Rightarrow> ComIPdu_type \<Rightarrow> nat \<Rightarrow> com \<Rightarrow> ((uint8 \<times> uint16) option \<times> com) ub" where
  "tx_counter env IPdu base st =
     (if COM_IPDU_COUNTING_ENABLE env then
        case ComIpduCounterRef IPdu of
          None \<Rightarrow> Some (None, st)
        | Some c \<Rightarrow> do {
            (cntrVal, sdu, cntrIdx) \<leftarrow> updateIPduCntr c (drop base (Com_Arc_Buffer st)) (com_cntrs st);
            Some (Some (cntrVal, cntrIdx), st\<lparr>Com_Arc_Buffer := take base (Com_Arc_Buffer st) @ sdu\<rparr>) }
      else Some (None, st))"

definition store_counter :: "(uint8 \<times> uint16) option \<Rightarrow> com \<Rightarrow> com ub" where
  "store_counter c st =
     (case c of
        None \<Rightarrow> Some st
      | Some (cntrVal, cntrIdx) \<Rightarrow> do {
          l \<leftarrow> wr (Com_IPdu_Counters (com_cntrs st)) (unat cntrIdx) cntrVal;
          Some (st\<lparr>com_cntrs := (com_cntrs st)\<lparr>Com_IPdu_Counters := l\<rparr>\<rparr>) })"

definition signal_refs :: "ComIPdu_type \<Rightarrow> ComSignal_type list" where
  "signal_refs IPdu = (case ComIPduSignalRef IPdu of None \<Rightarrow> [] | Some l \<Rightarrow> l)"

definition clear_update_bits :: "ComIPdu_type \<Rightarrow> nat \<Rightarrow> com \<Rightarrow> com ub" where
  "clear_update_bits IPdu base =
     for_each (\<lambda>s st. if ComSignalArcUseUpdateBit s then CLEARBIT base (ComUpdateBitPosition s) st else Some st)
       (signal_refs IPdu)"

text \<open>The part of \<^verbatim>\<open>Com_Misc_TriggerIPDUSend\<close> behind the callout.\<close>

definition send_ipdu :: "Com_Env \<Rightarrow> uint16 \<Rightarrow> ComIPdu_type \<Rightarrow> com \<Rightarrow> (ComTxTriggerStatusType \<times> com) ub" where
  "send_ipdu env PduId IPdu st = do {
     Arc_IPdu \<leftarrow> GET_ArcIPdu PduId st;
     base \<leftarrow> deref (ComIPduDataPtr Arc_IPdu);
     (cntr, st) \<leftarrow> tx_counter env IPdu base st;
     sdu \<leftarrow> get_bytes base (unat (SduLength IPdu Arc_IPdu)) st;
     let ok = PduR_ComTransmit env (com_calls st) (ArcIPduOutgoingId IPdu) sdu;
     let st = st\<lparr>com_calls := com_calls st @ [Transmit (ArcIPduOutgoingId IPdu) sdu]\<rparr>;
     st \<leftarrow> (if ok then do { st \<leftarrow> clear_update_bits IPdu base st; store_counter cntr st }
            else Com_Misc_UnlockTpBuffer PduId st);
     st \<leftarrow> upd_timers PduId (\<lambda>t. t\<lparr>ComTxIPduMinimumDelayTimer := ComTxIPduMinimumDelayFactor (ComTxIPdu IPdu)\<rparr>) st;
     Some (if ok then COM_TX_TRIGGERED else COM_TX_NOT_TRIGGERED, st) }"

definition Com_Misc_TriggerIPDUSend :: "Com_Env \<Rightarrow> uint16 \<Rightarrow> com \<Rightarrow> (ComTxTriggerStatusType \<times> com) ub" where
  "Com_Misc_TriggerIPDUSend env PduId st = do {
     IPdu \<leftarrow> GET_IPdu PduId st;
     Arc_IPdu \<leftarrow> GET_ArcIPdu PduId st;
     let st = ea_enter st;
     (r, st) \<leftarrow>
       (if ComTxIPduMinimumDelayTimer (Com_Arc_TxIPduTimers Arc_IPdu) = 0 then do {
          (status, st) \<leftarrow> tx_callout (ComTxIPduCallouts env) (ComTxIPduCallout IPdu) PduId
             (ComIPduDataPtr Arc_IPdu) (ComIPduSize IPdu) st;
          if status then send_ipdu env PduId IPdu st else Some (COM_TX_NOT_TRIGGERED, st) }
        else Some (COM_TX_MIN_DELAY_NOT_FULFILLED, st));
     Some (r, ea_exit st) }"

definition nof_reps :: "ComIPdu_type \<Rightarrow> ComTransferPropertyType \<Rightarrow> uint8" where
  "nof_reps IPdu transferProperty =
     (case transferProperty of
        COM_TRIGGERED \<Rightarrow>
          if ComTxModeNumberOfRepetitions (tx_mode IPdu) = 0 then 1 else ComTxModeNumberOfRepetitions (tx_mode IPdu)
      | COM_TRIGGERED_ON_CHANGE \<Rightarrow>
          if ComTxModeNumberOfRepetitions (tx_mode IPdu) = 0 then 1 else ComTxModeNumberOfRepetitions (tx_mode IPdu)
      | COM_TRIGGERED_WITHOUT_REPETITION \<Rightarrow> 1
      | COM_TRIGGERED_ON_CHANGE_WITHOUT_REPETITION \<Rightarrow> 1
      | COM_PENDING \<Rightarrow> 0)"

text \<open>The first transmission of a new request: whether it was made, and the repetitions that are left.\<close>

definition trigger_now :: "Com_Env \<Rightarrow> uint16 \<Rightarrow> ComIPdu_type \<Rightarrow> uint8 \<Rightarrow> com \<Rightarrow> (bool \<times> uint8 \<times> com) ub" where
  "trigger_now env pduHandleId IPdu nofReps st =
     (if 0 < nofReps then do {
        (txTrigSts, st) \<leftarrow> Com_Misc_TriggerIPDUSend env pduHandleId st;
        let period = ComTxModeRepetitionPeriodFactor (tx_mode IPdu);
        case txTrigSts of
          COM_TX_TRIGGERED \<Rightarrow> do {
            st \<leftarrow> upd_timers pduHandleId (\<lambda>t. t\<lparr>ComTxModeRepetitionPeriodTimer := period\<rparr>) st;
            Some (True, nofReps - 1, st) }
        | COM_TX_NOT_TRIGGERED \<Rightarrow> do {
            st \<leftarrow> upd_timers pduHandleId (\<lambda>t. t\<lparr>ComTxModeRepetitionPeriodTimer := period\<rparr>) st;
            Some (False, nofReps - 1, st) }
        | COM_TX_MIN_DELAY_NOT_FULFILLED \<Rightarrow> do {
            st \<leftarrow> upd_timers pduHandleId (\<lambda>t. t\<lparr>ComTxModeRepetitionPeriodTimer := 0\<rparr>) st;
            Some (False, nofReps, st) } }
      else Some (False, nofReps, st))"

definition restart_repetitions :: "bool \<Rightarrow> uint8 \<Rightarrow> Com_Arc_IPdu_type \<Rightarrow> Com_Arc_IPdu_type" where
  "restart_repetitions triggeredNow nofReps a =
     (let t = Com_Arc_TxIPduTimers a in
      if ComTxIPduNumberOfRepetitionsLeft t \<le> nofReps then
        let t = t\<lparr>ComTxIPduNumberOfRepetitionsLeft := nofReps\<rparr>;
            t = (if 0 < Com_Arc_TxDeadlineCounter a
                 then t\<lparr>ComTxIPduNumberOfTxConfirmations := nofReps + (if triggeredNow then 1 else 0),
                        ComTxDMTimer := Com_Arc_TxDeadlineCounter a\<rparr>
                 else t)
        in a\<lparr>Com_Arc_TxIPduTimers := t\<rparr>
      else if triggeredNow \<and> ComTxIPduNumberOfRepetitionsLeft t \<noteq> 0
      then a\<lparr>Com_Arc_TxIPduTimers :=
               t\<lparr>ComTxIPduNumberOfRepetitionsLeft := ComTxIPduNumberOfRepetitionsLeft t - 1\<rparr>\<rparr>
      else a)"

definition Com_Misc_TriggerTxOnConditions ::
  "Com_Env \<Rightarrow> uint16 \<Rightarrow> bool \<Rightarrow> ComTransferPropertyType \<Rightarrow> com \<Rightarrow> (bool \<times> com) ub" where
  "Com_Misc_TriggerTxOnConditions env pduHandleId dataChanged transferProperty st = do {
     IPdu \<leftarrow> GET_IPdu pduHandleId st;
     Arc_IPdu \<leftarrow> GET_ArcIPdu pduHandleId st;
     if Com_Arc_IpduStarted Arc_IPdu then
       if (transferProperty = COM_TRIGGERED \<or> transferProperty = COM_TRIGGERED_WITHOUT_REPETITION \<or>
           (transferProperty = COM_TRIGGERED_ON_CHANGE \<or> transferProperty = COM_TRIGGERED_ON_CHANGE_WITHOUT_REPETITION)
             \<and> dataChanged) \<and>
          (ComTxModeMode (tx_mode IPdu) = COM_DIRECT \<or> ComTxModeMode (tx_mode IPdu) = COM_MIXED)
       then do {
         (triggeredNow, nofReps, st) \<leftarrow> trigger_now env pduHandleId IPdu (nof_reps IPdu transferProperty) st;
         st \<leftarrow> upd_pdu pduHandleId (restart_repetitions triggeredNow nofReps) st;
         Some (True, st) }
       else Some (True, st)
     else Some (False, st) }"

definition Com_Misc_TxHandleDM :: "uint16 \<Rightarrow> ComIPdu_type \<Rightarrow> com \<Rightarrow> com ub" where
  "Com_Misc_TxHandleDM PduId IPdu st = do {
     let st = ea_enter st;
     st \<leftarrow> upd_pdu PduId (\<lambda>a.
       let t = Com_Arc_TxIPduTimers a in
       a\<lparr>Com_Arc_TxIPduTimers :=
           (case ComTxModeMode (tx_mode IPdu) of
              COM_PERIODIC \<Rightarrow> t\<lparr>ComTxDMTimer := 0\<rparr>
            | COM_NONE \<Rightarrow> t\<lparr>ComTxDMTimer := Com_Arc_TxDeadlineCounter a\<rparr>
            | _ \<Rightarrow>
                if 0 < ComTxIPduNumberOfTxConfirmations t then
                  let t = t\<lparr>ComTxIPduNumberOfTxConfirmations := ComTxIPduNumberOfTxConfirmations t - 1\<rparr>
                  in if ComTxIPduNumberOfTxConfirmations t = 0 then t\<lparr>ComTxDMTimer := 0\<rparr> else t
                else t\<lparr>ComTxDMTimer := 0\<rparr>)\<rparr>) st;
     Some (ea_exit st) }"

definition Com_Misc_SetTxConfirmationStatus :: "ComIPdu_type \<Rightarrow> bool \<Rightarrow> com \<Rightarrow> com ub" where
  "Com_Misc_SetTxConfirmationStatus IPdu value st = do {
     refs \<leftarrow> deref (ComIPduSignalRef IPdu);
     case refs of
       [] \<Rightarrow> Some st
     | signal # _ \<Rightarrow> upd_sig (ComHandleId signal) (\<lambda>a. a\<lparr>ComSignalUpdated := value\<rparr>) st }"

definition Com_Misc_GetTxConfirmationStatus :: "ComIPdu_type \<Rightarrow> com \<Rightarrow> bool ub" where
  "Com_Misc_GetTxConfirmationStatus IPdu st = do {
     refs \<leftarrow> deref (ComIPduSignalRef IPdu);
     case refs of
       [] \<Rightarrow> Some False
     | signal # _ \<Rightarrow> map_option ComSignalUpdated (GET_ArcSignal (ComHandleId signal) st) }"

section \<open>Com\_misc.c: signal groups and reception\<close>

text \<open>\<^verbatim>\<open>data = (~mask[i] & *pduDataPtr) | (mask[i] & *buf)\<close> for the bytes from \<open>i\<close> on.\<close>

fun group_to_pdu :: "uint8 list \<Rightarrow> nat \<Rightarrow> nat \<Rightarrow> nat \<Rightarrow> nat \<Rightarrow> bool \<Rightarrow> uint8 list \<Rightarrow> (bool \<times> uint8 list) ub" where
  "group_to_pdu msk pdu buf i 0 dataChanged mem = Some (dataChanged, mem)"
| "group_to_pdu msk pdu buf i (Suc n) dataChanged mem = do {
     m \<leftarrow> rd msk i;
     old \<leftarrow> rd mem (pdu + i);
     b \<leftarrow> rd mem (buf + i);
     let data = (NOT m AND old) OR (m AND b);
     mem \<leftarrow> wr mem (pdu + i) data;
     group_to_pdu msk pdu buf (Suc i) n (dataChanged \<or> old \<noteq> data) mem }"

fun group_from_pdu :: "uint8 list \<Rightarrow> nat \<Rightarrow> nat \<Rightarrow> nat \<Rightarrow> nat \<Rightarrow> uint8 list \<Rightarrow> uint8 list ub" where
  "group_from_pdu msk pdu buf i 0 mem = Some mem"
| "group_from_pdu msk pdu buf i (Suc n) mem = do {
     m \<leftarrow> rd msk i;
     d \<leftarrow> rd mem (pdu + i);
     mem \<leftarrow> wr mem (buf + i) (m AND d);
     group_from_pdu msk pdu buf (Suc i) n mem }"

definition Com_Misc_CopySignalGroupDataFromShadowBufferToPdu :: "uint16 \<Rightarrow> bool \<Rightarrow> com \<Rightarrow> (bool \<times> com) ub" where
  "Com_Misc_CopySignalGroupDataFromShadowBufferToPdu signalGroupId deferredBufferDestination st = do {
     Signal \<leftarrow> GET_Signal signalGroupId st;
     IPdu \<leftarrow> GET_IPdu (ComIPduHandleId Signal) st;
     Arc_Signal \<leftarrow> GET_ArcSignal (ComHandleId Signal) st;
     Arc_IPdu \<leftarrow> GET_ArcIPdu (ComIPduHandleId Signal) st;
     pdu \<leftarrow> deref (if deferredBufferDestination then ComIPduDeferredDataPtr Arc_IPdu else ComIPduDataPtr Arc_IPdu);
     buf \<leftarrow> deref (Com_Arc_ShadowBuffer Arc_Signal);
     (dataChanged, mem) \<leftarrow>
       group_to_pdu (Com_Arc_ShadowBuffer_Mask Signal) pdu buf 0 (unat (ComIPduSize IPdu)) False (Com_Arc_Buffer st);
     Some (dataChanged, st\<lparr>Com_Arc_Buffer := mem\<rparr>) }"

definition Com_Misc_CopySignalGroupDataFromPduToShadowBuffer :: "uint16 \<Rightarrow> com \<Rightarrow> com ub" where
  "Com_Misc_CopySignalGroupDataFromPduToShadowBuffer signalGroupId st = do {
     Signal \<leftarrow> GET_Signal signalGroupId st;
     IPdu \<leftarrow> GET_IPdu (ComIPduHandleId Signal) st;
     Arc_IPdu \<leftarrow> GET_ArcIPdu (ComIPduHandleId Signal) st;
     pdu \<leftarrow> deref (if ComIPduSignalProcessing IPdu = COM_DEFERRED \<and> ComIPduDirection IPdu = COM_RECEIVE
                   then ComIPduDeferredDataPtr Arc_IPdu else ComIPduDataPtr Arc_IPdu);
     Arc_Signal \<leftarrow> GET_ArcSignal (ComHandleId Signal) st;
     buf \<leftarrow> deref (Com_Arc_ShadowBuffer Arc_Signal);
     mem \<leftarrow> group_from_pdu (Com_Arc_ShadowBuffer_Mask Signal) pdu buf 0 (unat (ComIPduSize IPdu)) (Com_Arc_Buffer st);
     Some (st\<lparr>Com_Arc_Buffer := mem\<rparr>) }"

definition Com_Misc_UpdateShadowSignal :: "uint16 \<Rightarrow> uint8 list \<Rightarrow> com \<Rightarrow> com ub" where
  "Com_Misc_UpdateShadowSignal SignalId SignalDataPtr st = do {
     Arc_GroupSignal \<leftarrow> GET_ArcGroupSignal SignalId st;
     GroupSignal \<leftarrow> GET_GroupSignal SignalId st;
     buf \<leftarrow> deref (gs_Com_Arc_ShadowBuffer Arc_GroupSignal);
     (dataChanged, st) \<leftarrow> write_signal_at buf SignalDataPtr (gs_ComSignalType GroupSignal)
        (gs_ComBitPosition GroupSignal) (gs_ComBitSize GroupSignal) (gs_ComSignalEndianess GroupSignal) st;
     Some st }"

text \<open>The body of the loop of \<^verbatim>\<open>Com_Misc_RxProcessSignals\<close>.\<close>

definition rx_signal :: "Com_Env \<Rightarrow> ComIPdu_type \<Rightarrow> nat ptr \<Rightarrow> ComSignal_type \<Rightarrow> com \<Rightarrow> com ub" where
  "rx_signal env IPdu dataPtr comSignal st = do {
     considered \<leftarrow> (if ComSignalArcUseUpdateBit comSignal then do {
                     base \<leftarrow> deref dataPtr; TESTBIT base (ComUpdateBitPosition comSignal) st }
                   else Some True);
     if considered then do {
       st \<leftarrow> (if 0 < ComTimeoutFactor comSignal
              then upd_sig (ComHandleId comSignal) (\<lambda>a. a\<lparr>Com_Arc_DeadlineCounter := ComTimeoutFactor comSignal\<rparr>) st
              else Some st);
       if ComIPduSignalProcessing IPdu = COM_IMMEDIATE then notify env (ComNotification comSignal) st
       else upd_sig (ComHandleId comSignal) (\<lambda>a. a\<lparr>ComSignalUpdated := True\<rparr>) st }
     else Some st }"

definition Com_Misc_RxProcessSignals :: "Com_Env \<Rightarrow> ComIPdu_type \<Rightarrow> Com_Arc_IPdu_type \<Rightarrow> com \<Rightarrow> com ub" where
  "Com_Misc_RxProcessSignals env IPdu Arc_IPdu st = do {
     refs \<leftarrow> deref (ComIPduSignalRef IPdu);
     for_each (rx_signal env IPdu (ComIPduDataPtr Arc_IPdu)) refs st }"

section \<open>Com\_Com.c\<close>

text \<open>The services that return without a value when a check fails.\<close>

definition com_guard :: "Com_Env \<Rightarrow> uint8 \<Rightarrow> bool \<Rightarrow> com \<Rightarrow> 'a \<Rightarrow> ('a \<times> com) ub \<Rightarrow> ('a \<times> com) ub" where
  "com_guard env api inRange st refused body =
     (if initStatus st \<noteq> COM_INIT then Some (refused, DET_REPORTERROR env api COM_E_UNINIT st)
      else if \<not> inRange then Some (refused, DET_REPORTERROR env api COM_E_PARAM st)
      else body)"

definition ipdu_in_range :: "uint16 \<Rightarrow> com \<Rightarrow> bool" where
  "ipdu_in_range PduId st = (case ComConfig st of None \<Rightarrow> False | Some cfg \<Rightarrow> PduId < ComNofIPdus cfg)"

definition signal_in_range :: "uint16 \<Rightarrow> com \<Rightarrow> bool" where
  "signal_in_range SignalId st = (case ComConfig st of None \<Rightarrow> False | Some cfg \<Rightarrow> SignalId < ComNofSignals cfg)"

definition group_signal_in_range :: "uint16 \<Rightarrow> com \<Rightarrow> bool" where
  "group_signal_in_range SignalId st =
     (case ComConfig st of None \<Rightarrow> False | Some cfg \<Rightarrow> SignalId < ComNofGroupSignals cfg)"

definition set_update_bit :: "ComSignal_type \<Rightarrow> nat ptr \<Rightarrow> com \<Rightarrow> com ub" where
  "set_update_bit Signal dataPtr st =
     (if ComSignalArcUseUpdateBit Signal
      then do { base \<leftarrow> deref dataPtr; SETBIT base (ComUpdateBitPosition Signal) st }
      else Some st)"

definition trigger_result :: "Com_Env \<Rightarrow> ComSignal_type \<Rightarrow> bool \<Rightarrow> com \<Rightarrow> (uint8 \<times> com) ub" where
  "trigger_result env Signal dataChanged st = do {
     (ok, st) \<leftarrow>
       Com_Misc_TriggerTxOnConditions env (ComIPduHandleId Signal) dataChanged (ComTransferProperty Signal) st;
     Some (if ok then com_E_OK else COM_SERVICE_NOT_AVAILABLE, st) }"

definition Com_SendSignal :: "Com_Env \<Rightarrow> uint16 \<Rightarrow> uint8 list \<Rightarrow> com \<Rightarrow> (uint8 \<times> com) ub" where
  "Com_SendSignal env SignalId SignalDataPtr st =
     com_guard env 0x0A (signal_in_range SignalId st) st COM_SERVICE_NOT_AVAILABLE (do {
       Signal \<leftarrow> GET_Signal SignalId st;
       if ComIPduHandleId Signal = NO_PDU_REFERENCE then Some (COM_SERVICE_NOT_AVAILABLE, st)
       else do {
         busy \<leftarrow> isPduBufferLocked (ComIPduHandleId Signal) st;
         if busy then Some (COM_BUSY, st)
         else do {
           (dataChanged, st) \<leftarrow>
             (if ComBitSize Signal \<noteq> 0 then do {
                Arc_IPdu \<leftarrow> GET_ArcIPdu (ComIPduHandleId Signal) st;
                base \<leftarrow> deref (ComIPduDataPtr Arc_IPdu);
                let st = ea_enter st;
                (dataChanged, st) \<leftarrow> write_signal_at base SignalDataPtr (ComSignalType Signal)
                   (ComBitPosition Signal) (ComBitSize Signal) (ComSignalEndianess Signal) st;
                st \<leftarrow> set_update_bit Signal (Some base) st;
                Some (dataChanged, st) }
              else Some (False, st));
           (ret, st) \<leftarrow> trigger_result env Signal dataChanged st;
           Some (ret, ea_exit st) } } })"

text \<open>\<^verbatim>\<open>SignalTypeToSize\<close>; what is not listed there has the size of a boolean.\<close>

definition SignalTypeToSize :: "Com_SignalType \<Rightarrow> nat \<Rightarrow> nat" where
  "SignalTypeToSize ty len =
     (case ty of
        COM_UINT8 \<Rightarrow> 1 | COM_UINT16 \<Rightarrow> 2 | COM_UINT32 \<Rightarrow> 4 | COM_UINT64 \<Rightarrow> 8 | COM_UINT8_N \<Rightarrow> len
      | COM_SINT8 \<Rightarrow> 1 | COM_SINT16 \<Rightarrow> 2 | COM_SINT32 \<Rightarrow> 4 | COM_SINT64 \<Rightarrow> 8 | _ \<Rightarrow> 1)"

definition Com_ReceiveSignal ::
  "Com_Env \<Rightarrow> uint16 \<Rightarrow> uint8 list \<Rightarrow> com \<Rightarrow> ((uint8 \<times> uint8 list) \<times> com) ub" where
  "Com_ReceiveSignal env SignalId SignalDataPtr st =
     com_guard env 0x0B (signal_in_range SignalId st) st (COM_SERVICE_NOT_AVAILABLE, SignalDataPtr) (do {
       Signal \<leftarrow> GET_Signal SignalId st;
       if ComIPduHandleId Signal = NO_PDU_REFERENCE then do {
         out \<leftarrow> copy_range (SignalTypeToSize (ComSignalType Signal) (unat (ComBitSize Signal) div 8)) 0
           (ComSignalInitValue Signal) SignalDataPtr;
         Some ((com_E_OK, out), st) }
       else do {
         IPdu \<leftarrow> GET_IPdu (ComIPduHandleId Signal) st;
         Arc_IPdu \<leftarrow> GET_ArcIPdu (ComIPduHandleId Signal) st;
         (ret, pduBuffer) \<leftarrow>
           (if ComIPduSignalProcessing IPdu = COM_DEFERRED \<and> ComIPduDirection IPdu = COM_RECEIVE
            then Some (com_E_OK, ComIPduDeferredDataPtr Arc_IPdu)
            else do {
              busy \<leftarrow> isPduBufferLocked (ComIPduHandleId Signal) st;
              Some (if busy then COM_BUSY else com_E_OK, ComIPduDataPtr Arc_IPdu) });
         base \<leftarrow> deref pduBuffer;
         (out, st) \<leftarrow> read_signal_at base (ComBitPosition Signal) (ComBitSize Signal) (ComSignalEndianess Signal)
           (ComSignalType Signal) SignalDataPtr st;
         Some ((if \<not> Com_Arc_IpduStarted Arc_IPdu \<and> ret = com_E_OK then COM_SERVICE_NOT_AVAILABLE else ret, out), st) } })"

definition Com_ReceiveDynSignal ::
  "Com_Env \<Rightarrow> uint16 \<Rightarrow> uint8 list \<Rightarrow> uint16 \<Rightarrow> com \<Rightarrow> ((uint8 \<times> uint8 list \<times> uint16) \<times> com) ub" where
  "Com_ReceiveDynSignal env SignalId SignalDataPtr Length st =
     com_guard env 0x22 True st (COM_SERVICE_NOT_AVAILABLE, SignalDataPtr, Length) (do {
       Signal \<leftarrow> GET_Signal SignalId st;
       Arc_IPdu \<leftarrow> GET_ArcIPdu (ComIPduHandleId Signal) st;
       IPdu \<leftarrow> GET_IPdu (ComIPduHandleId Signal) st;
       if ComSignalType Signal \<noteq> COM_UINT8_DYN then Some ((COM_SERVICE_NOT_AVAILABLE, SignalDataPtr, Length), st)
       else do {
         let st = ea_enter st;
         (ret, out, len) \<leftarrow>
           (if Com_Arc_DynSignalLength Arc_IPdu \<le> Length then do {
              let len = Com_Arc_DynSignalLength Arc_IPdu;
              (ret, pdu) \<leftarrow>
                (if ComIPduSignalProcessing IPdu = COM_DEFERRED \<and> ComIPduDirection IPdu = COM_RECEIVE
                 then Some (com_E_OK, ComIPduDeferredDataPtr Arc_IPdu)
                 else do {
                   busy \<leftarrow> isPduBufferLocked (ComIPduHandleId Signal) st;
                   Some (if busy then COM_BUSY else com_E_OK, ComIPduDataPtr Arc_IPdu) });
              base \<leftarrow> deref pdu;
              out \<leftarrow> copy_range (unat len) (base + unat (ComBitPosition Signal) div 8) (Com_Arc_Buffer st) SignalDataPtr;
              Some (ret, out, len) }
            else Some (com_E_NOT_OK, SignalDataPtr, Com_Arc_DynSignalLength Arc_IPdu));
         let st = ea_exit st;
         Some ((if \<not> Com_Arc_IpduStarted Arc_IPdu \<and> ret = com_E_OK then COM_SERVICE_NOT_AVAILABLE else ret, out, len), st) } })"

definition Com_SendDynSignal :: "Com_Env \<Rightarrow> uint16 \<Rightarrow> uint8 list \<Rightarrow> uint16 \<Rightarrow> com \<Rightarrow> (uint8 \<times> com) ub" where
  "Com_SendDynSignal env SignalId SignalDataPtr Length st =
     com_guard env 0x21 True st COM_SERVICE_NOT_AVAILABLE (do {
       Signal \<leftarrow> GET_Signal SignalId st;
       Arc_IPdu \<leftarrow> GET_ArcIPdu (ComIPduHandleId Signal) st;
       IPdu \<leftarrow> GET_IPdu (ComIPduHandleId Signal) st;
       if ComSignalType Signal \<noteq> COM_UINT8_DYN then Some (COM_SERVICE_NOT_AVAILABLE, st)
       else do {
         busy \<leftarrow> isPduBufferLocked (ComIPduHandleId Signal) st;
         if busy then Some (COM_BUSY, st)
         else if ComBitSize Signal div 8 < Length then Some (com_E_NOT_OK, st)
         else do {
           let st = ea_enter st;
           base \<leftarrow> deref (ComIPduDataPtr Arc_IPdu);
           let start = base + unat (ComBitPosition Signal) div 8;
           old \<leftarrow> get_bytes start (unat Length) st;
           new \<leftarrow> (if unat Length \<le> length SignalDataPtr then Some (take (unat Length) SignalDataPtr) else None);
           let dataChanged = (Com_Arc_DynSignalLength Arc_IPdu \<noteq> Length \<or> old \<noteq> new);
           st \<leftarrow> put_bytes start new st;
           st \<leftarrow> upd_pdu (ComIPduHandleId Signal) (\<lambda>a. a\<lparr>Com_Arc_DynSignalLength := Length\<rparr>) st;
           st \<leftarrow> set_update_bit Signal (Some base) st;
           (ret, st) \<leftarrow> trigger_result env Signal dataChanged st;
           Some (ret, ea_exit st) } } })"

text \<open>The buffer and the length of \<^verbatim>\<open>PduInfoPtr\<close> are results.\<close>

definition Com_TriggerTransmit ::
  "Com_Env \<Rightarrow> uint16 \<Rightarrow> uint8 list \<Rightarrow> uint16 \<Rightarrow> com \<Rightarrow> ((uint8 \<times> uint8 list \<times> uint16) \<times> com) ub" where
  "Com_TriggerTransmit env TxPduId SduDataPtr len st =
     com_guard env 0x41 (ipdu_in_range TxPduId st) st (com_E_NOT_OK, SduDataPtr, len) (do {
       IPdu \<leftarrow> GET_IPdu TxPduId st;
       Arc_IPdu \<leftarrow> GET_ArcIPdu TxPduId st;
       let st = ea_enter st;
       (_, st) \<leftarrow> tx_callout (ComTriggerTransmitIPduCallouts env) (ComTriggerTransmitIPduCallout IPdu) TxPduId
          (ComIPduDataPtr Arc_IPdu) (ComIPduSize IPdu) st;
       base \<leftarrow> deref (ComIPduDataPtr Arc_IPdu);
       out \<leftarrow> copy_range (unat (ComIPduSize IPdu)) base (Com_Arc_Buffer st) SduDataPtr;
       let st = ea_exit st;
       Some ((if Com_Arc_IpduStarted Arc_IPdu then com_E_OK else com_E_NOT_OK, out, ComIPduSize IPdu), st) })"

definition Com_TriggerIPDUSend :: "Com_Env \<Rightarrow> uint16 \<Rightarrow> com \<Rightarrow> com ub" where
  "Com_TriggerIPDUSend env PduId st =
     map_option snd (com_guard env 0x17 (ipdu_in_range PduId st) st () (do {
       (_, st) \<leftarrow> Com_Misc_TriggerIPDUSend env PduId st;
       Some ((), st) }))"

text \<open>The receiving callout, then the counter: whether the I-PDU is taken over.\<close>

definition rx_callout :: "Com_Env \<Rightarrow> ComIPdu_type \<Rightarrow> uint16 \<Rightarrow> uint8 list \<Rightarrow> bool ub" where
  "rx_callout env IPdu RxPduId sdu =
     (if ComRxIPduCallout IPdu = COM_NO_FUNCTION_CALLOUT then Some True
      else do {
        f \<leftarrow> rd (ComRxIPduCallouts env) (unat (ComRxIPduCallout IPdu));
        Some (case f of None \<Rightarrow> True | Some f \<Rightarrow> f RxPduId sdu) })"

definition rx_counter :: "Com_Env \<Rightarrow> ComIPdu_type \<Rightarrow> uint8 list \<Rightarrow> com \<Rightarrow> (bool \<times> com) ub" where
  "rx_counter env IPdu sdu st =
     (if COM_IPDU_COUNTING_ENABLE env then
        case ComIpduCounterRef IPdu of
          None \<Rightarrow> Some (True, st)
        | Some c \<Rightarrow> do {
            (ok, cntrs) \<leftarrow> Com_Misc_validateIPduCounter c sdu (com_cntrs st);
            let st = st\<lparr>com_cntrs := cntrs\<rparr>;
            if ok then Some (True, st)
            else if ComIPduCntErrNotification c = COM_NO_FUNCTION_CALLOUT then Some (False, st)
            else do {
              p \<leftarrow> rd (ComNotificationCallouts env) (unat (ComIPduCntErrNotification c));
              if p then Some (False, st\<lparr>com_calls := com_calls st @ [Notification (ComIPduCntErrNotification c)]\<rparr>)
              else None } }
      else Some (True, st))"

definition Com_RxIndication :: "Com_Env \<Rightarrow> uint16 \<Rightarrow> uint8 list \<Rightarrow> com \<Rightarrow> com ub" where
  "Com_RxIndication env RxPduId sdu st =
     map_option snd (com_guard env 0x42 (ipdu_in_range RxPduId st) st () (do {
       IPdu \<leftarrow> GET_IPdu RxPduId st;
       Arc_IPdu \<leftarrow> GET_ArcIPdu RxPduId st;
       let st = ea_enter st;
       st \<leftarrow>
         (if \<not> Com_Arc_IpduStarted Arc_IPdu then Some st
          else do {
            status \<leftarrow> rx_callout env IPdu RxPduId sdu;
            if status then do {
              (status, st) \<leftarrow> rx_counter env IPdu sdu st;
              if status then do {
                base \<leftarrow> deref (ComIPduDataPtr Arc_IPdu);
                bs \<leftarrow> (if unat (ComIPduSize IPdu) \<le> length sdu then Some (take (unat (ComIPduSize IPdu)) sdu) else None);
                st \<leftarrow> put_bytes base bs st;
                Com_Misc_RxProcessSignals env IPdu Arc_IPdu st }
              else Some st }
            else Some st });
       Some ((), ea_exit st) }))"

definition Com_TpRxIndication :: "Com_Env \<Rightarrow> uint16 \<Rightarrow> uint8 \<Rightarrow> com \<Rightarrow> com ub" where
  "Com_TpRxIndication env PduId Result st =
     (if initStatus st \<noteq> COM_INIT then Some (DET_REPORTERROR env 0x1E COM_E_UNINIT st)
      else if \<not> ipdu_in_range PduId st then Some (DET_REPORTERROR env 0x42 COM_E_PARAM st)
      else do {
        IPdu \<leftarrow> GET_IPdu PduId st;
        Arc_IPdu \<leftarrow> GET_ArcIPdu PduId st;
        let st = ea_enter st;
        st \<leftarrow>
          (if \<not> Com_Arc_IpduStarted Arc_IPdu then Com_Misc_UnlockTpBuffer PduId st
           else if Result = NTFRSLT_OK then do {
             st \<leftarrow> (if ComIPduSignalProcessing IPdu = COM_IMMEDIATE then Com_Misc_UnlockTpBuffer PduId st else Some st);
             Com_Misc_RxProcessSignals env IPdu Arc_IPdu st }
           else Com_Misc_UnlockTpBuffer PduId st);
        Some (ea_exit st) })"

definition Com_TpTxConfirmation :: "Com_Env \<Rightarrow> uint16 \<Rightarrow> uint8 \<Rightarrow> com \<Rightarrow> com ub" where
  "Com_TpTxConfirmation env PduId Result st =
     (if initStatus st \<noteq> COM_INIT then Some (DET_REPORTERROR env 0x26 COM_E_UNINIT st)
      else if \<not> ipdu_in_range PduId st then Some (DET_REPORTERROR env 0x42 COM_E_PARAM st)
      else do {
        let st = ea_enter st;
        st \<leftarrow> Com_Misc_UnlockTpBuffer PduId st;
        Some (ea_exit st) })"

definition Com_TxConfirmation :: "Com_Env \<Rightarrow> uint16 \<Rightarrow> com \<Rightarrow> com ub" where
  "Com_TxConfirmation env TxPduId st =
     (if initStatus st \<noteq> COM_INIT then Some (DET_REPORTERROR env 0x40 COM_E_UNINIT st)
      else if \<not> ipdu_in_range TxPduId st then Some (DET_REPORTERROR env 0x42 COM_E_PARAM st)
      else do {
        IPdu \<leftarrow> GET_IPdu TxPduId st;
        Arc_IPdu \<leftarrow> GET_ArcIPdu TxPduId st;
        if ComIPduDirection IPdu = COM_RECEIVE then Some (DET_REPORTERROR env 0x40 (COM_INVALID_PDU_ID env) st)
        else do {
          st \<leftarrow> (if 0 < Com_Arc_TxDeadlineCounter Arc_IPdu then Com_Misc_TxHandleDM TxPduId IPdu st else Some st);
          if ComIPduSignalProcessing IPdu = COM_IMMEDIATE then do {
            refs \<leftarrow> deref (ComIPduSignalRef IPdu);
            for_each (\<lambda>s. notify env (ComNotification s)) refs st }
          else Com_Misc_SetTxConfirmationStatus IPdu True st } })"

definition Com_SendSignalGroup :: "Com_Env \<Rightarrow> uint16 \<Rightarrow> com \<Rightarrow> (uint8 \<times> com) ub" where
  "Com_SendSignalGroup env SignalGroupId st =
     com_guard env 0x0D True st COM_SERVICE_NOT_AVAILABLE (do {
       Signal \<leftarrow> GET_Signal SignalGroupId st;
       if ComIPduHandleId Signal = NO_PDU_REFERENCE then Some (COM_SERVICE_NOT_AVAILABLE, st)
       else do {
         Arc_IPdu \<leftarrow> GET_ArcIPdu (ComIPduHandleId Signal) st;
         IPdu \<leftarrow> GET_IPdu (ComIPduHandleId Signal) st;
         busy \<leftarrow> isPduBufferLocked (ComIPduHandleId Signal) st;
         if busy then Some (COM_BUSY, st)
         else do {
           let st = ea_enter st;
           (dataChanged, st) \<leftarrow> Com_Misc_CopySignalGroupDataFromShadowBufferToPdu SignalGroupId
             (ComIPduSignalProcessing IPdu = COM_DEFERRED \<and> ComIPduDirection IPdu = COM_RECEIVE) st;
           st \<leftarrow> set_update_bit Signal (ComIPduDataPtr Arc_IPdu) st;
           (ret, st) \<leftarrow> trigger_result env Signal dataChanged st;
           Some (ret, ea_exit st) } } })"

definition Com_ReceiveSignalGroup :: "Com_Env \<Rightarrow> uint16 \<Rightarrow> com \<Rightarrow> (uint8 \<times> com) ub" where
  "Com_ReceiveSignalGroup env SignalGroupId st =
     com_guard env 0x0E True st COM_SERVICE_NOT_AVAILABLE (do {
       Signal \<leftarrow> GET_Signal SignalGroupId st;
       if ComIPduHandleId Signal = NO_PDU_REFERENCE then Some (COM_SERVICE_NOT_AVAILABLE, st)
       else do {
         busy \<leftarrow> isPduBufferLocked (ComIPduHandleId Signal) st;
         if busy then Some (COM_BUSY, st)
         else do {
           let st = ea_enter st;
           st \<leftarrow> Com_Misc_CopySignalGroupDataFromPduToShadowBuffer SignalGroupId st;
           let st = ea_exit st;
           Arc_IPdu \<leftarrow> GET_ArcIPdu (ComIPduHandleId Signal) st;
           Some (if Com_Arc_IpduStarted Arc_IPdu then com_E_OK else COM_SERVICE_NOT_AVAILABLE, st) } } })"

definition Com_UpdateShadowSignal :: "Com_Env \<Rightarrow> uint16 \<Rightarrow> uint8 list \<Rightarrow> com \<Rightarrow> com ub" where
  "Com_UpdateShadowSignal env SignalId SignalDataPtr st =
     map_option snd (com_guard env 0x0C (group_signal_in_range SignalId st) st () (do {
       Arc_GroupSignal \<leftarrow> GET_ArcGroupSignal SignalId st;
       st \<leftarrow> (if gs_Com_Arc_ShadowBuffer Arc_GroupSignal \<noteq> None
              then Com_Misc_UpdateShadowSignal SignalId SignalDataPtr st else Some st);
       Some ((), st) }))"

definition Com_ReceiveShadowSignal ::
  "Com_Env \<Rightarrow> uint16 \<Rightarrow> uint8 list \<Rightarrow> com \<Rightarrow> (uint8 list \<times> com) ub" where
  "Com_ReceiveShadowSignal env SignalId SignalDataPtr st =
     com_guard env 0x0F (group_signal_in_range SignalId st) st SignalDataPtr (do {
       GroupSignal \<leftarrow> GET_GroupSignal SignalId st;
       Arc_GroupSignal \<leftarrow> GET_ArcGroupSignal SignalId st;
       case gs_Com_Arc_ShadowBuffer Arc_GroupSignal of
         None \<Rightarrow> do {
           out \<leftarrow> copy_range (SignalTypeToSize (gs_ComSignalType GroupSignal) (unat (gs_ComBitSize GroupSignal) div 8)) 0
             (gs_ComSignalInitValue GroupSignal) SignalDataPtr;
           Some (out, st) }
       | Some buf \<Rightarrow>
           read_signal_at buf (gs_ComBitPosition GroupSignal) (gs_ComBitSize GroupSignal)
             (gs_ComSignalEndianess GroupSignal) (gs_ComSignalType GroupSignal) SignalDataPtr st })"

section \<open>Com\_Sched.c\<close>

definition timerDec :: "uint32 \<Rightarrow> uint32" where
  "timerDec timer = (if 0 < timer then timer - 1 else timer)"

text \<open>A repetition of a direct transmission, or the end of the repetitions after a timeout.\<close>

definition repeat_tx :: "Com_Env \<Rightarrow> uint16 \<Rightarrow> ComIPdu_type \<Rightarrow> bool \<Rightarrow> com \<Rightarrow> com ub" where
  "repeat_tx env IPduId IPdu dmTimeOut st = do {
     st \<leftarrow> upd_timers IPduId (\<lambda>t. t\<lparr>ComTxModeRepetitionPeriodTimer := timerDec (ComTxModeRepetitionPeriodTimer t)\<rparr>) st;
     if \<not> dmTimeOut then do {
       Arc_IPdu \<leftarrow> GET_ArcIPdu IPduId st;
       let t = Com_Arc_TxIPduTimers Arc_IPdu;
       if ComTxModeRepetitionPeriodTimer t = 0 \<and> ComTxIPduMinimumDelayTimer t = 0 then do {
         st \<leftarrow> Com_TriggerIPDUSend env IPduId st;
         upd_timers IPduId (\<lambda>t.
           t\<lparr>ComTxModeRepetitionPeriodTimer := ComTxModeRepetitionPeriodFactor (tx_mode IPdu),
             ComTxIPduNumberOfRepetitionsLeft := ComTxIPduNumberOfRepetitionsLeft t - 1\<rparr>) st }
       else Some st }
     else upd_timers IPduId (\<lambda>t.
       t\<lparr>ComTxIPduNumberOfRepetitionsLeft := 0, ComTxIPduNumberOfTxConfirmations := 0\<rparr>) st }"

definition Com_ProcessMixedOrPeriodicTxMode :: "Com_Env \<Rightarrow> uint16 \<Rightarrow> bool \<Rightarrow> com \<Rightarrow> com ub" where
  "Com_ProcessMixedOrPeriodicTxMode env IPduId dmTimeOut st = do {
     IPdu \<leftarrow> GET_IPdu IPduId st;
     st \<leftarrow> upd_timers IPduId (\<lambda>t. t\<lparr>ComTxModeTimePeriodTimer := timerDec (ComTxModeTimePeriodTimer t)\<rparr>) st;
     Arc_IPdu \<leftarrow> GET_ArcIPdu IPduId st;
     st \<leftarrow> (if ComTxModeMode (tx_mode IPdu) = COM_MIXED \<and>
                0 < ComTxIPduNumberOfRepetitionsLeft (Com_Arc_TxIPduTimers Arc_IPdu)
            then repeat_tx env IPduId IPdu dmTimeOut st else Some st);
     Arc_IPdu \<leftarrow> GET_ArcIPdu IPduId st;
     let t = Com_Arc_TxIPduTimers Arc_IPdu;
     if ComTxModeTimePeriodTimer t = 0 \<and> ComTxIPduMinimumDelayTimer t = 0 then do {
       st \<leftarrow> Com_TriggerIPDUSend env IPduId st;
       upd_pdu IPduId (\<lambda>a.
         let t = (Com_Arc_TxIPduTimers a)\<lparr>ComTxModeTimePeriodTimer := ComTxModeTimePeriodFactor (tx_mode IPdu)\<rparr>
         in a\<lparr>Com_Arc_TxIPduTimers :=
                (if 0 < Com_Arc_TxDeadlineCounter a \<and> ComTxDMTimer t = 0
                 then t\<lparr>ComTxDMTimer := Com_Arc_TxDeadlineCounter a\<rparr> else t)\<rparr>) st }
     else Some st }"

definition Com_ProcessDirectTxMode :: "Com_Env \<Rightarrow> uint16 \<Rightarrow> bool \<Rightarrow> com \<Rightarrow> com ub" where
  "Com_ProcessDirectTxMode env IPduId dmTimeOut st = do {
     IPdu \<leftarrow> GET_IPdu IPduId st;
     Arc_IPdu \<leftarrow> GET_ArcIPdu IPduId st;
     if 0 < ComTxIPduNumberOfRepetitionsLeft (Com_Arc_TxIPduTimers Arc_IPdu)
     then repeat_tx env IPduId IPdu dmTimeOut st else Some st }"

text \<open>Reception: a timeout of a signal, and the deadline monitoring of one signal.\<close>

definition rx_timeout :: "Com_Env \<Rightarrow> nat ptr \<Rightarrow> ComSignal_type \<Rightarrow> com \<Rightarrow> com ub" where
  "rx_timeout env dataPtr signal st = do {
     st \<leftarrow>
       (if ComRxDataTimeoutAction signal = COM_TIMEOUT_DATA_ACTION_REPLACE then
          if Com_Arc_IsSignalGroup signal then do {
            st \<leftarrow> for_each (\<lambda>g st. do {
                base \<leftarrow> deref dataPtr;
                (_, st) \<leftarrow> write_signal_at base (gs_ComSignalInitValue g) (gs_ComSignalType g)
                  (gs_ComBitPosition g) (gs_ComBitSize g) (gs_ComSignalEndianess g) st;
                Some st }) (ComGroupSignal signal) st;
            upd_sig (ComHandleId signal) (\<lambda>a. a\<lparr>ComSignalUpdated := True\<rparr>) st }
          else do {
            st \<leftarrow> upd_sig (ComHandleId signal) (\<lambda>a. a\<lparr>ComSignalUpdated := True\<rparr>) st;
            base \<leftarrow> deref dataPtr;
            (_, st) \<leftarrow> write_signal_at base (ComSignalInitValue signal) (ComSignalType signal)
              (ComBitPosition signal) (ComBitSize signal) (ComSignalEndianess signal) st;
            Some st }
        else Some st);
     st \<leftarrow> notify env (ComTimeoutNotification signal) st;
     upd_sig (ComHandleId signal) (\<lambda>a. a\<lparr>Com_Arc_DeadlineCounter := ComTimeoutFactor signal\<rparr>) st }"

definition rx_deadline :: "Com_Env \<Rightarrow> Com_Arc_IPdu_type \<Rightarrow> ComSignal_type \<Rightarrow> com \<Rightarrow> com ub" where
  "rx_deadline env Arc_IPdu signal st = do {
     Arc_Signal \<leftarrow> GET_ArcSignal (ComHandleId signal) st;
     if Com_Arc_IpduRxDMControl Arc_IPdu \<and> 0 < ComTimeoutFactor signal \<and> Com_Arc_DeadlineCounter Arc_Signal \<noteq> 0
     then do {
       st \<leftarrow> upd_sig (ComHandleId signal)
              (\<lambda>a. a\<lparr>Com_Arc_DeadlineCounter := timerDec (Com_Arc_DeadlineCounter a)\<rparr>) st;
       Arc_Signal \<leftarrow> GET_ArcSignal (ComHandleId signal) st;
       if Com_Arc_DeadlineCounter Arc_Signal = 0 then rx_timeout env (ComIPduDataPtr Arc_IPdu) signal st
       else Some st }
     else Some st }"

text \<open>The first loop over the signals of an I-PDU, which also collects whether one was updated.\<close>

fun rx_signals :: "Com_Env \<Rightarrow> Com_Arc_IPdu_type \<Rightarrow> ComSignal_type list \<Rightarrow> bool \<Rightarrow> com \<Rightarrow> (bool \<times> com) ub" where
  "rx_signals env Arc_IPdu [] pduUpdated st = Some (pduUpdated, st)"
| "rx_signals env Arc_IPdu (signal # signals) pduUpdated st = do {
     st \<leftarrow> rx_deadline env Arc_IPdu signal st;
     Arc_Signal \<leftarrow> GET_ArcSignal (ComHandleId signal) st;
     rx_signals env Arc_IPdu signals (pduUpdated \<or> ComSignalUpdated Arc_Signal) st }"

definition rx_notify :: "Com_Env \<Rightarrow> ComSignal_type \<Rightarrow> com \<Rightarrow> com ub" where
  "rx_notify env signal st = do {
     Arc_Signal \<leftarrow> GET_ArcSignal (ComHandleId signal) st;
     if ComSignalUpdated Arc_Signal then do {
       st \<leftarrow> notify env (ComNotification signal) st;
       upd_sig (ComHandleId signal) (\<lambda>a. a\<lparr>ComSignalUpdated := False\<rparr>) st }
     else Some st }"

text \<open>The identifiers of the I-PDUs up to the end of the list.\<close>

definition pdu_ids :: "com \<Rightarrow> uint16 list ub" where
  "pdu_ids st = do { cfg \<leftarrow> deref (ComConfig st); Some (map of_nat [0..<length (ComIPdu cfg)]) }"

definition rx_pdu :: "Com_Env \<Rightarrow> uint16 \<Rightarrow> com \<Rightarrow> com ub" where
  "rx_pdu env pduId st = do {
     IPdu \<leftarrow> GET_IPdu pduId st;
     Arc_IPdu \<leftarrow> GET_ArcIPdu pduId st;
     if ComIPduDirection IPdu = COM_RECEIVE \<and> Com_Arc_IpduStarted Arc_IPdu then do {
       let st = ea_enter st;
       (pduUpdated, st) \<leftarrow> rx_signals env Arc_IPdu (signal_refs IPdu) False st;
       st \<leftarrow>
         (if pduUpdated \<and> ComIPduSignalProcessing IPdu = COM_DEFERRED then do {
            st \<leftarrow> Com_Misc_UnlockTpBuffer pduId st;
            src \<leftarrow> deref (ComIPduDataPtr Arc_IPdu);
            dst \<leftarrow> deref (ComIPduDeferredDataPtr Arc_IPdu);
            bs \<leftarrow> get_bytes src (unat (ComIPduSize IPdu)) st;
            st \<leftarrow> put_bytes dst bs st;
            for_each (rx_notify env) (signal_refs IPdu) st }
          else Some st);
       Some (ea_exit st) }
     else Some st }"

definition Com_MainFunctionRx :: "Com_Env \<Rightarrow> com \<Rightarrow> com ub" where
  "Com_MainFunctionRx env st =
     (if initStatus st \<noteq> COM_INIT then Some (DET_REPORTERROR env 0x18 COM_E_UNINIT st)
      else do { ids \<leftarrow> pdu_ids st; for_each (rx_pdu env) ids st })"

text \<open>Transmission: the timers of an I-PDU and whether its confirmation is overdue.\<close>

definition tx_timers :: "uint16 \<Rightarrow> com \<Rightarrow> (bool \<times> com) ub" where
  "tx_timers i st = do {
     st \<leftarrow> upd_timers i (\<lambda>t. t\<lparr>ComTxIPduMinimumDelayTimer := timerDec (ComTxIPduMinimumDelayTimer t)\<rparr>) st;
     Arc_IPdu \<leftarrow> GET_ArcIPdu i st;
     if 0 < Com_Arc_TxDeadlineCounter Arc_IPdu \<and> 0 < ComTxDMTimer (Com_Arc_TxIPduTimers Arc_IPdu) then do {
       st \<leftarrow> upd_timers i (\<lambda>t. t\<lparr>ComTxDMTimer := timerDec (ComTxDMTimer t)\<rparr>) st;
       Arc_IPdu \<leftarrow> GET_ArcIPdu i st;
       Some (ComTxDMTimer (Com_Arc_TxIPduTimers Arc_IPdu) = 0, st) }
     else Some (False, st) }"

definition tx_notify :: "Com_Env \<Rightarrow> bool \<Rightarrow> bool \<Rightarrow> ComSignal_type \<Rightarrow> com \<Rightarrow> com ub" where
  "tx_notify env confirmationStatus dmTimeOut signal st = do {
     st \<leftarrow> (if confirmationStatus then notify env (ComNotification signal) st else Some st);
     if dmTimeOut then notify env (ComTimeoutNotification signal) st else Some st }"

definition tx_pdu :: "Com_Env \<Rightarrow> uint16 \<Rightarrow> com \<Rightarrow> com ub" where
  "tx_pdu env i st = do {
     IPdu \<leftarrow> GET_IPdu i st;
     Arc_IPdu \<leftarrow> GET_ArcIPdu i st;
     if ComIPduDirection IPdu = COM_SEND \<and> Com_Arc_IpduStarted Arc_IPdu then do {
       let st = ea_enter st;
       (dmTimeOut, st) \<leftarrow> tx_timers i st;
       st \<leftarrow>
         (case ComTxModeMode (tx_mode IPdu) of
            COM_PERIODIC \<Rightarrow> Com_ProcessMixedOrPeriodicTxMode env i dmTimeOut st
          | COM_MIXED \<Rightarrow> Com_ProcessMixedOrPeriodicTxMode env i dmTimeOut st
          | COM_DIRECT \<Rightarrow> Com_ProcessDirectTxMode env i dmTimeOut st
          | COM_NONE \<Rightarrow> Some st);
       let st = ea_exit st;
       confirmationStatus \<leftarrow> Com_Misc_GetTxConfirmationStatus IPdu st;
       st \<leftarrow> Com_Misc_SetTxConfirmationStatus IPdu False st;
       for_each (tx_notify env confirmationStatus dmTimeOut) (signal_refs IPdu) st }
     else Some st }"

definition Com_MainFunctionTx :: "Com_Env \<Rightarrow> com \<Rightarrow> com ub" where
  "Com_MainFunctionTx env st =
     (if initStatus st \<noteq> COM_INIT then Some (DET_REPORTERROR env 0x19 COM_E_UNINIT st)
      else do { ids \<leftarrow> pdu_ids st; for_each (tx_pdu env) ids st })"

text \<open>Without the gateway, \<^verbatim>\<open>Com_MainFunctionRouteSignals\<close> only checks the status.\<close>

definition Com_MainFunctionRouteSignals :: "Com_Env \<Rightarrow> com \<Rightarrow> com" where
  "Com_MainFunctionRouteSignals env st =
     (if initStatus st \<noteq> COM_INIT then DET_REPORTERROR env 0x1A COM_E_UNINIT st else st)"

section \<open>Com.c\<close>

text \<open>The initialisation of a group signal and of a signal. \<^verbatim>\<open>uint8 h\<close> would wrap at 256 group signals.\<close>

definition init_group_signal :: "nat \<Rightarrow> ComGroupSignal_type \<Rightarrow> com \<Rightarrow> com ub" where
  "init_group_signal buf g st = do {
     _ \<leftarrow> GET_ArcGroupSignal (gs_ComHandleId g) st;
     l \<leftarrow> wr (Com_Arc_GroupSignal st) (unat (gs_ComHandleId g)) \<lparr>gs_Com_Arc_ShadowBuffer = Some buf\<rparr>;
     Com_Misc_UpdateShadowSignal (gs_ComHandleId g) (gs_ComSignalInitValue g) (st\<lparr>Com_Arc_GroupSignal := l\<rparr>) }"

definition init_deadline :: "uint16 \<Rightarrow> ComIPdu_type \<Rightarrow> ComSignal_type \<Rightarrow> com \<Rightarrow> com ub" where
  "init_deadline i IPdu Signal st =
     (if 0 < ComTimeoutFactor Signal then
        if ComIPduDirection IPdu = COM_RECEIVE
        then upd_sig (ComHandleId Signal) (\<lambda>a. a\<lparr>Com_Arc_DeadlineCounter := ComFirstTimeoutFactor Signal\<rparr>) st
        else upd_pdu i (\<lambda>a. a\<lparr>Com_Arc_TxDeadlineCounter := ComTimeoutFactor Signal\<rparr>) st
      else Some st)"

definition init_signal :: "uint16 \<Rightarrow> ComIPdu_type \<Rightarrow> nat \<Rightarrow> uint16 \<Rightarrow> ComSignal_type \<Rightarrow> com \<Rightarrow> com ub" where
  "init_signal i IPdu base bufferIndex Signal st = do {
     _ \<leftarrow> GET_ArcSignal (ComHandleId Signal) st;
     st \<leftarrow> init_deadline i IPdu Signal st;
     st \<leftarrow> (if ComSignalArcUseUpdateBit Signal then CLEARBIT base (ComUpdateBitPosition Signal) st else Some st);
     if Com_Arc_IsSignalGroup Signal then do {
       st \<leftarrow> upd_sig (ComHandleId Signal) (\<lambda>a. a\<lparr>Com_Arc_ShadowBuffer := Some (unat bufferIndex)\<rparr>) st;
       st \<leftarrow> (if length (ComGroupSignal Signal) < 256
              then for_each (init_group_signal (unat bufferIndex)) (ComGroupSignal Signal) st else None);
       (_, st) \<leftarrow> Com_Misc_CopySignalGroupDataFromShadowBufferToPdu (ComHandleId Signal) False st;
       Some st }
     else do {
       (_, st) \<leftarrow> write_signal_at base (ComSignalInitValue Signal) (ComSignalType Signal)
         (ComBitPosition Signal) (ComBitSize Signal) (ComSignalEndianess Signal) st;
       Some st } }"

text \<open>The body of the loop over the I-PDUs, after the check of the number of I-PDUs.\<close>

definition init_pdu :: "uint16 \<Rightarrow> ComIPdu_type \<Rightarrow> uint16 \<Rightarrow> com \<Rightarrow> (uint16 \<times> com) ub" where
  "init_pdu i IPdu bufferIndex st = do {
     let base = unat bufferIndex;
     st \<leftarrow> upd_pdu i (\<lambda>a. a\<lparr>ComIPduDataPtr := Some base\<rparr>) st;
     let bufferIndex = bufferIndex + ComIPduSize IPdu;
     st \<leftarrow> (if ComIPduDirection IPdu = COM_SEND \<and>
                (ComTxModeMode (tx_mode IPdu) = COM_PERIODIC \<or> ComTxModeMode (tx_mode IPdu) = COM_MIXED)
            then upd_timers i (\<lambda>t. t\<lparr>ComTxModeTimePeriodTimer := ComTxModeTimeOffsetFactor (tx_mode IPdu) + 1\<rparr>) st
            else Some st);
     st \<leftarrow> (if ComIPduDirection IPdu = COM_SEND then do {
              st \<leftarrow> put_bytes base (replicate (unat (ComIPduSize IPdu)) (ComTxIPduUnusedAreasDefault (ComTxIPdu IPdu))) st;
              upd_timers i (\<lambda>t. t\<lparr>ComTxIPduMinimumDelayTimer := 0\<rparr>) st }
            else Some st);
     st \<leftarrow> for_each (init_signal i IPdu base bufferIndex) (signal_refs IPdu) st;
     let bufferIndex = (if list_ex Com_Arc_IsSignalGroup (signal_refs IPdu)
                        then bufferIndex + ComIPduSize IPdu else bufferIndex);
     if ComIPduDirection IPdu = COM_RECEIVE \<and> ComIPduSignalProcessing IPdu = COM_DEFERRED then do {
       st \<leftarrow> upd_pdu i (\<lambda>a. a\<lparr>ComIPduDeferredDataPtr := Some (unat bufferIndex)\<rparr>) st;
       bs \<leftarrow> get_bytes base (unat (ComIPduSize IPdu)) st;
       st \<leftarrow> put_bytes (unat bufferIndex) bs st;
       Some (bufferIndex + ComIPduSize IPdu, st) }
     else Some (bufferIndex, st) }"

fun init_pdus :: "Com_Env \<Rightarrow> Com_ConfigType \<Rightarrow> uint16 list \<Rightarrow> uint16 \<Rightarrow> com \<Rightarrow> (bool \<times> com) ub" where
  "init_pdus env cfg [] bufferIndex st = Some (False, st)"
| "init_pdus env cfg (i # ids) bufferIndex st = do {
     IPdu \<leftarrow> GET_IPdu i st;
     st \<leftarrow> upd_pdu i (\<lambda>a. a\<lparr>Com_Arc_DynSignalLength := 0, Com_Arc_IpduRxDMControl := True,
        Com_Arc_TxIPduTimers := (Com_Arc_TxIPduTimers a)\<lparr>ComTxDMTimer := 0\<rparr>\<rparr>) st;
     if ComNofIPdus cfg \<le> i then Some (True, DET_REPORTERROR env 0x01 (COM_E_TOO_MANY_IPDU env) st)
     else do {
       (bufferIndex, st) \<leftarrow> init_pdu i IPdu bufferIndex st;
       init_pdus env cfg ids bufferIndex st } }"

definition Com_Init :: "Com_Env \<Rightarrow> Com_ConfigType ptr \<Rightarrow> com \<Rightarrow> com ub" where
  "Com_Init env config st =
     (case config of
        None \<Rightarrow> Some (DET_REPORTERROR env 0x01 COM_E_PARAM_POINTER st)
      | Some cfg \<Rightarrow> do {
          let st = st\<lparr>ComConfig := Some cfg\<rparr>;
          ids \<leftarrow> pdu_ids st;
          (failure, st) \<leftarrow> init_pdus env cfg ids 0 st;
          st \<leftarrow> for_each (\<lambda>i. upd_lock (of_nat i) (\<lambda>b. b\<lparr>currentPosition := 0, locked := False\<rparr>))
                  [0..<unat (ComNofIPdus cfg)] st;
          let st = (if COM_IPDU_COUNTING_ENABLE env
                    then st\<lparr>com_cntrs := ResetInternalCounterRxStartSts (com_cntrs st)\<rparr> else st);
          Some (if failure then st else st\<lparr>initStatus := COM_INIT\<rparr>) })"

definition Com_DeInit :: "Com_Env \<Rightarrow> com \<Rightarrow> com ub" where
  "Com_DeInit env st =
     (if initStatus st \<noteq> COM_INIT then Some (DET_REPORTERROR env 0x02 COM_E_UNINIT st)
      else do {
        ids \<leftarrow> pdu_ids st;
        st \<leftarrow> for_each (\<lambda>i. upd_pdu i (\<lambda>a. a\<lparr>Com_Arc_IpduStarted := False\<rparr>)) ids st;
        Some (st\<lparr>initStatus := COM_UNINIT\<rparr>) })"

definition Com_GetStatus :: "com \<Rightarrow> Com_StatusType" where
  "Com_GetStatus st = initStatus st"

text \<open>Whether one of the groups of an I-PDU is set in a vector.\<close>

fun group_set :: "uint8 list \<Rightarrow> uint16 list \<Rightarrow> bool ub" where
  "group_set ipduGroupVector [] = Some False"
| "group_set ipduGroupVector (g # gs) = do {
     v \<leftarrow> rd ipduGroupVector (unat g div 8);
     if bit v (unat g mod 8) then Some True else group_set ipduGroupVector gs }"

definition restart_deadline :: "ComSignal_type \<Rightarrow> com \<Rightarrow> com ub" where
  "restart_deadline comSignal st =
     (if 0 < ComTimeoutFactor comSignal
      then upd_sig (ComHandleId comSignal) (\<lambda>a. a\<lparr>Com_Arc_DeadlineCounter := ComFirstTimeoutFactor comSignal\<rparr>) st
      else Some st)"

definition start_counter :: "Com_Env \<Rightarrow> ComIPdu_type \<Rightarrow> com \<Rightarrow> com ub" where
  "start_counter env IPdu st =
     (if COM_IPDU_COUNTING_ENABLE env then
        case ComIpduCounterRef IPdu of
          None \<Rightarrow> Some st
        | Some c \<Rightarrow> do {
            cntrs \<leftarrow> (if ComIPduDirection IPdu = COM_SEND then ResetInternalCounter (ComIPduCntrIndex c) (com_cntrs st)
                      else ReSetInternalRxStartSts (ComIPduCntrIndex c) (com_cntrs st));
            Some (st\<lparr>com_cntrs := cntrs\<rparr>) }
      else Some st)"

definition start_tx :: "bool \<Rightarrow> bool \<Rightarrow> ComIPdu_type \<Rightarrow> Com_Arc_IPdu_type \<Rightarrow> Com_Arc_IPdu_type" where
  "start_tx strt Initialize IPdu a =
     (let t = Com_Arc_TxIPduTimers a;
          t = (if strt \<and> 0 < Com_Arc_TxDeadlineCounter a
               then t\<lparr>ComTxDMTimer :=
                        (if ComTxModeMode (tx_mode IPdu) = COM_NONE then Com_Arc_TxDeadlineCounter a else 0)\<rparr>
               else t\<lparr>ComTxDMTimer := 0, ComTxIPduNumberOfTxConfirmations := 0\<rparr>);
          t = (if Initialize \<and> strt
               then let t = t\<lparr>ComTxModeRepetitionPeriodTimer := 0, ComTxIPduNumberOfRepetitionsLeft := 0\<rparr>
                    in if ComTxModeMode (tx_mode IPdu) = COM_PERIODIC \<or> ComTxModeMode (tx_mode IPdu) = COM_MIXED
                       then t\<lparr>ComTxModeTimePeriodTimer := ComTxModeTimeOffsetFactor (tx_mode IPdu) + 1\<rparr>
                       else t
               else t)
      in a\<lparr>Com_Arc_TxIPduTimers := t\<rparr>)"

definition group_control :: "Com_Env \<Rightarrow> uint8 list \<Rightarrow> bool \<Rightarrow> uint16 \<Rightarrow> com \<Rightarrow> com ub" where
  "group_control env ipduGroupVector Initialize i st = do {
     IPdu \<leftarrow> GET_IPdu i st;
     strt \<leftarrow> group_set ipduGroupVector (ComIPduGroupRefs IPdu);
     st \<leftarrow> upd_pdu i (\<lambda>a. a\<lparr>Com_Arc_IpduStarted := strt\<rparr>) st;
     st \<leftarrow> (if Initialize \<and> strt then start_counter env IPdu st else Some st);
     let st = ea_enter st;
     st \<leftarrow>
       (if ComIPduDirection IPdu = COM_RECEIVE then
          if strt then do {
            Arc_IPdu \<leftarrow> GET_ArcIPdu i st;
            if Com_Arc_IpduRxDMControl Arc_IPdu then do {
              refs \<leftarrow> deref (ComIPduSignalRef IPdu);
              for_each restart_deadline refs st }
            else Some st }
          else upd_pdu i (\<lambda>a. a\<lparr>Com_Arc_IpduRxDMControl := False\<rparr>) st
        else upd_pdu i (start_tx strt Initialize IPdu) st);
     Some (ea_exit st) }"

definition Com_IpduGroupControl :: "Com_Env \<Rightarrow> uint8 list \<Rightarrow> bool \<Rightarrow> com \<Rightarrow> com ub" where
  "Com_IpduGroupControl env ipduGroupVector Initialize st =
     (if initStatus st \<noteq> COM_INIT then Some (DET_REPORTERROR env 0x03 COM_E_UNINIT st)
      else do { ids \<leftarrow> pdu_ids st; for_each (group_control env ipduGroupVector Initialize) ids st })"

definition Com_ClearIpduGroupVector :: "Com_Env \<Rightarrow> uint8 list \<Rightarrow> com \<Rightarrow> uint8 list \<times> com" where
  "Com_ClearIpduGroupVector env ipduGroupVector st =
     (if initStatus st \<noteq> COM_INIT then (ipduGroupVector, DET_REPORTERROR env 0x1C COM_E_UNINIT st)
      else (replicate (length ipduGroupVector) 0, st))"

definition Com_SetIpduGroup ::
  "Com_Env \<Rightarrow> uint8 list \<Rightarrow> uint16 \<Rightarrow> bool \<Rightarrow> com \<Rightarrow> (uint8 list \<times> com) ub" where
  "Com_SetIpduGroup env ipduGroupVector ipduGroupId bitval st =
     (if initStatus st \<noteq> COM_INIT then Some (ipduGroupVector, DET_REPORTERROR env 0x1D COM_E_UNINIT st)
      else do {
        let byteIndex = unat ipduGroupId div 8;
        let b = push_bit (unat ipduGroupId mod 8) 1;
        v \<leftarrow> rd ipduGroupVector byteIndex;
        l \<leftarrow> wr ipduGroupVector byteIndex (if bitval then v OR b else v AND NOT b);
        Some (l, st) })"

text \<open>The transport protocol interface: the count or the buffer size behind a pointer is a result.\<close>

definition Com_CopyTxData ::
  "Com_Env \<Rightarrow> uint16 \<Rightarrow> uint8 list \<Rightarrow> uint16 \<Rightarrow> uint16 \<Rightarrow> com \<Rightarrow>
   ((BufReq_ReturnType \<times> uint8 list \<times> uint16) \<times> com) ub" where
  "Com_CopyTxData env PduId SduDataPtr sduLength txDataCnt st =
     com_guard env 0x24 True st (BUFREQ_NOT_OK, SduDataPtr, txDataCnt) (do {
       IPdu \<leftarrow> GET_IPdu PduId st;
       b \<leftarrow> rd (Com_BufferPduState st) (unat PduId);
       let st = ea_enter st;
       let sizeOk = (unat (currentPosition b) + unat sduLength \<le> unat (ComIPduSize IPdu));
       st \<leftarrow> upd_lock PduId (\<lambda>b. b\<lparr>locked := True\<rparr>) st;
       if ComIPduDirection IPdu = COM_SEND \<and> sizeOk then do {
         Arc_IPdu \<leftarrow> GET_ArcIPdu PduId st;
         base \<leftarrow> deref (ComIPduDataPtr Arc_IPdu);
         out \<leftarrow> copy_range (unat sduLength) (base + unat (currentPosition b)) (Com_Arc_Buffer st) SduDataPtr;
         let pos = currentPosition b + sduLength;
         st \<leftarrow> upd_lock PduId (\<lambda>b. b\<lparr>currentPosition := pos\<rparr>) st;
         Some ((BUFREQ_OK, out, ComIPduSize IPdu - pos), ea_exit st) }
       else Some ((BUFREQ_NOT_OK, SduDataPtr, txDataCnt), ea_exit st) })"

definition Com_CopyRxData ::
  "Com_Env \<Rightarrow> uint16 \<Rightarrow> uint8 list \<Rightarrow> uint16 \<Rightarrow> uint16 \<Rightarrow> com \<Rightarrow> ((BufReq_ReturnType \<times> uint16) \<times> com) ub" where
  "Com_CopyRxData env PduId SduDataPtr sduLength rxBufferSize st =
     com_guard env 0x23 True st (BUFREQ_NOT_OK, rxBufferSize) (do {
       let st = ea_enter st;
       IPdu \<leftarrow> GET_IPdu PduId st;
       b \<leftarrow> rd (Com_BufferPduState st) (unat PduId);
       let remainingBytes = ComIPduSize IPdu - currentPosition b;
       if ComIPduDirection IPdu = COM_RECEIVE \<and> locked b \<and> sduLength \<le> remainingBytes then do {
         Arc_IPdu \<leftarrow> GET_ArcIPdu PduId st;
         base \<leftarrow> deref (ComIPduDataPtr Arc_IPdu);
         bs \<leftarrow> (if unat sduLength \<le> length SduDataPtr then Some (take (unat sduLength) SduDataPtr) else None);
         st \<leftarrow> put_bytes (base + unat (currentPosition b)) bs st;
         let pos = currentPosition b + sduLength;
         st \<leftarrow> upd_lock PduId (\<lambda>b. b\<lparr>currentPosition := pos\<rparr>) st;
         Some ((BUFREQ_OK, ComIPduSize IPdu - pos), ea_exit st) }
       else Some ((BUFREQ_NOT_OK, rxBufferSize), ea_exit st) })"

definition Com_SetDynSignalLength :: "uint16 \<Rightarrow> uint16 \<Rightarrow> com \<Rightarrow> com ub" where
  "Com_SetDynSignalLength ComRxPduId TpSduLength st = do {
     IPdu \<leftarrow> GET_IPdu ComRxPduId st;
     case ComIPduDynSignalRef IPdu of
       None \<Rightarrow> Some st
     | Some dyn \<Rightarrow>
         upd_pdu ComRxPduId (\<lambda>a. a\<lparr>Com_Arc_DynSignalLength :=
           (if ComBitPosition dyn div 8 < TpSduLength then TpSduLength - ComBitPosition dyn div 8 else 0)\<rparr>) st }"

definition Com_StartOfReception ::
  "Com_Env \<Rightarrow> uint16 \<Rightarrow> uint16 \<Rightarrow> uint16 \<Rightarrow> com \<Rightarrow> ((BufReq_ReturnType \<times> uint16) \<times> com) ub" where
  "Com_StartOfReception env ComRxPduId TpSduLength rxBufferSize st =
     com_guard env 0x25 True st (BUFREQ_NOT_OK, rxBufferSize) (do {
       Arc_IPdu \<leftarrow> GET_ArcIPdu ComRxPduId st;
       let st = ea_enter st;
       if Com_Arc_IpduStarted Arc_IPdu then do {
         IPdu \<leftarrow> GET_IPdu ComRxPduId st;
         if ComIPduDirection IPdu = COM_RECEIVE then do {
           b \<leftarrow> rd (Com_BufferPduState st) (unat ComRxPduId);
           if \<not> locked b then
             if TpSduLength \<le> ComIPduSize IPdu then do {
               st \<leftarrow> upd_lock ComRxPduId (\<lambda>b. b\<lparr>locked := True\<rparr>) st;
               st \<leftarrow> Com_SetDynSignalLength ComRxPduId TpSduLength st;
               Some ((BUFREQ_OK, ComIPduSize IPdu), ea_exit st) }
             else Some ((BUFREQ_OVFL, rxBufferSize), ea_exit st)
           else Some ((BUFREQ_BUSY, rxBufferSize), ea_exit st) }
         else Some ((BUFREQ_OK, rxBufferSize), ea_exit st) }
       else Some ((BUFREQ_NOT_OK, rxBufferSize), ea_exit st) })"

definition reception_control :: "uint8 list \<Rightarrow> uint16 \<Rightarrow> com \<Rightarrow> com ub" where
  "reception_control ipduGroupVector i st = do {
     IPdu \<leftarrow> GET_IPdu i st;
     if ComIPduDirection IPdu = COM_RECEIVE then do {
       enabled \<leftarrow> group_set ipduGroupVector (ComIPduGroupRefs IPdu);
       Arc_IPdu \<leftarrow> GET_ArcIPdu i st;
       if Com_Arc_IpduRxDMControl Arc_IPdu \<noteq> enabled then do {
         let st = ea_enter st;
         st \<leftarrow> upd_pdu i (\<lambda>a. a\<lparr>Com_Arc_IpduRxDMControl := enabled\<rparr>) st;
         st \<leftarrow> (if enabled then do { refs \<leftarrow> deref (ComIPduSignalRef IPdu); for_each restart_deadline refs st }
                else Some st);
         Some (ea_exit st) }
       else Some st }
     else Some st }"

definition Com_ReceptionDMControl :: "Com_Env \<Rightarrow> uint8 list \<Rightarrow> com \<Rightarrow> com ub" where
  "Com_ReceptionDMControl env ipduGroupVector st =
     (if initStatus st \<noteq> COM_INIT then Some (DET_REPORTERROR env 0x06 COM_E_UNINIT st)
      else do { ids \<leftarrow> pdu_ids st; for_each (reception_control ipduGroupVector) ids st })"

end
