(* ===== verification/Com_Safe.thy ===== *)
theory Com_Safe
  imports Com
begin

text \<open>
  What a well-configured Com module promises: with buffers, tables and signals that fit, every service
  returns, leaves the layout of the buffers and the interrupt state as they were, and transmits no I-PDU
  whose minimum delay is running. The facts about the parts of a service have the form \<open>returns m P\<close>;
  the rules of the locale \<open>step_relation\<close> put them together.
\<close>

section \<open>Layout\<close>

text \<open>What no service changes after the initialisation.\<close>

record com_shape =
  sh_cfg :: "Com_ConfigType ptr"
  sh_pdus :: "(nat ptr \<times> nat ptr) list"
  sh_sigs :: "nat ptr list"
  sh_groups :: "nat ptr list"
  sh_locks :: nat
  sh_buf :: nat
  sh_cntrs :: nat
  sh_rx :: nat

definition shape :: "com \<Rightarrow> com_shape" where
  "shape st =
     \<lparr>sh_cfg = ComConfig st,
      sh_pdus = map (\<lambda>a. (ComIPduDataPtr a, ComIPduDeferredDataPtr a)) (Com_Arc_IPdu st),
      sh_sigs = map Com_Arc_ShadowBuffer (Com_Arc_Signal st),
      sh_groups = map gs_Com_Arc_ShadowBuffer (Com_Arc_GroupSignal st),
      sh_locks = length (Com_BufferPduState st), sh_buf = length (Com_Arc_Buffer st),
      sh_cntrs = length (Com_IPdu_Counters (com_cntrs st)), sh_rx = length (ComIPduCountRxStart (com_cntrs st))\<rparr>"

lemma shape_fields [simp]:
  "sh_cfg (shape st) = ComConfig st"
  "sh_pdus (shape st) = map (\<lambda>a. (ComIPduDataPtr a, ComIPduDeferredDataPtr a)) (Com_Arc_IPdu st)"
  "sh_sigs (shape st) = map Com_Arc_ShadowBuffer (Com_Arc_Signal st)"
  "sh_groups (shape st) = map gs_Com_Arc_ShadowBuffer (Com_Arc_GroupSignal st)"
  "sh_locks (shape st) = length (Com_BufferPduState st)" "sh_buf (shape st) = length (Com_Arc_Buffer st)"
  "sh_cntrs (shape st) = length (Com_IPdu_Counters (com_cntrs st))"
  "sh_rx (shape st) = length (ComIPduCountRxStart (com_cntrs st))"
  by (simp_all add: shape_def)

text \<open>A signal access at a base position of a buffer of \<open>n\<close> bytes, and the bytes of its value.\<close>

definition opaque :: "ComSignalEndianess_type \<Rightarrow> Com_SignalType \<Rightarrow> bool" where
  "opaque endian ty \<longleftrightarrow> endian = COM_OPAQUE \<or> ty = COM_UINT8_N"

definition value_bytes :: "uint16 \<Rightarrow> ComSignalEndianess_type \<Rightarrow> Com_SignalType \<Rightarrow> nat" where
  "value_bytes bitSize endian ty = (if opaque endian ty then unat bitSize div 8 else sig_bytes ty)"

definition access_ok :: "nat \<Rightarrow> nat \<Rightarrow> uint16 \<Rightarrow> uint16 \<Rightarrow> ComSignalEndianess_type \<Rightarrow> Com_SignalType \<Rightarrow> bool" where
  "access_ok n base bitPosition bitSize endian ty \<longleftrightarrow>
     (if opaque endian ty then base + unat bitPosition div 8 + unat bitSize div 8 \<le> n
      else sig_ok (replicate n 0) base bitPosition bitSize endian ty)"

definition callout_ok :: "'a list \<Rightarrow> uint32 \<Rightarrow> bool" where
  "callout_ok table n \<longleftrightarrow> n = COM_NO_FUNCTION_CALLOUT \<or> unat n < length table"

definition keeps_length :: "(uint16 \<Rightarrow> uint8 list \<Rightarrow> bool \<times> uint8 list) ptr list \<Rightarrow> bool" where
  "keeps_length table \<longleftrightarrow> (\<forall>f p bs. Some f \<in> set table \<longrightarrow> length (snd (f p bs)) = length bs)"

definition signal_ref_ok :: "Com_Env \<Rightarrow> com_shape \<Rightarrow> nat \<Rightarrow> ComSignal_type \<Rightarrow> bool" where
  "signal_ref_ok env sh base s \<longleftrightarrow>
     unat (ComHandleId s) < length (sh_sigs sh) \<and>
     base + unat (ComUpdateBitPosition s) div 8 < sh_buf sh \<and>
     callout_ok (ComNotificationCallouts env) (ComNotification s) \<and>
     callout_ok (ComNotificationCallouts env) (ComTimeoutNotification s) \<and>
     (if Com_Arc_IsSignalGroup s
      then list_all (\<lambda>g. access_ok (sh_buf sh) base (gs_ComBitPosition g) (gs_ComBitSize g) (gs_ComSignalEndianess g)
               (gs_ComSignalType g) \<and>
             value_bytes (gs_ComBitSize g) (gs_ComSignalEndianess g) (gs_ComSignalType g) \<le> length (gs_ComSignalInitValue g))
             (ComGroupSignal s)
      else access_ok (sh_buf sh) base (ComBitPosition s) (ComBitSize s) (ComSignalEndianess s) (ComSignalType s) \<and>
           value_bytes (ComBitSize s) (ComSignalEndianess s) (ComSignalType s) \<le> length (ComSignalInitValue s))"

definition counter_ok :: "Com_Env \<Rightarrow> com_shape \<Rightarrow> nat \<Rightarrow> ComIPdu_type \<Rightarrow> ComIPduCounter_type \<Rightarrow> bool" where
  "counter_ok env sh base IPdu c \<longleftrightarrow>
     ComIPduCntrRange c \<noteq> 0 \<and> unat (ComIPduCntrIndex c) < sh_cntrs sh \<and> unat (ComIPduCntrIndex c) < sh_rx sh \<and>
     unat (ComIPduCntrStartPos c) div 8 < unat (ComIPduSize IPdu) \<and>
     (ComIPduCntErrNotification c = COM_NO_FUNCTION_CALLOUT \<or>
      (unat (ComIPduCntErrNotification c) < length (ComNotificationCallouts env) \<and>
       ComNotificationCallouts env ! unat (ComIPduCntErrNotification c)))"

definition pdu_ok :: "Com_Env \<Rightarrow> com_shape \<Rightarrow> ComIPdu_type \<Rightarrow> nat ptr \<times> nat ptr \<Rightarrow> bool" where
  "pdu_ok env sh IPdu ptrs \<longleftrightarrow>
     callout_ok (ComTxIPduCallouts env) (ComTxIPduCallout IPdu) \<and>
     callout_ok (ComRxIPduCallouts env) (ComRxIPduCallout IPdu) \<and>
     callout_ok (ComTriggerTransmitIPduCallouts env) (ComTriggerTransmitIPduCallout IPdu) \<and>
     ComIPduDynSignalRef IPdu = None \<and> ComIPduSignalRef IPdu \<noteq> None \<and>
     (case fst ptrs of
        None \<Rightarrow> False
      | Some base \<Rightarrow>
          base + unat (ComIPduSize IPdu) \<le> sh_buf sh \<and>
          list_all (signal_ref_ok env sh base) (signal_refs IPdu) \<and>
          (case ComIpduCounterRef IPdu of None \<Rightarrow> True | Some c \<Rightarrow> counter_ok env sh base IPdu c)) \<and>
     (ComIPduDirection IPdu = COM_RECEIVE \<and> ComIPduSignalProcessing IPdu = COM_DEFERRED \<longrightarrow>
        (case snd ptrs of None \<Rightarrow> False | Some d \<Rightarrow> d + unat (ComIPduSize IPdu) \<le> sh_buf sh))"

text \<open>The buffer from which a signal of an I-PDU is read.\<close>

definition read_buffer :: "ComIPdu_type \<Rightarrow> nat ptr \<times> nat ptr \<Rightarrow> nat ptr" where
  "read_buffer IPdu ptrs =
     (if ComIPduSignalProcessing IPdu = COM_DEFERRED \<and> ComIPduDirection IPdu = COM_RECEIVE then snd ptrs else fst ptrs)"

definition signal_ok :: "com_shape \<Rightarrow> Com_ConfigType \<Rightarrow> ComSignal_type \<Rightarrow> bool" where
  "signal_ok sh cfg s \<longleftrightarrow>
     ComSignalType s \<noteq> COM_UINT8_DYN \<and> ComBitSize s \<noteq> 0 \<and>
     unat (ComHandleId s) < length (sh_sigs sh) \<and>
     (if ComIPduHandleId s = NO_PDU_REFERENCE
      then SignalTypeToSize (ComSignalType s) (unat (ComBitSize s) div 8) \<le> length (ComSignalInitValue s)
      else unat (ComIPduHandleId s) < length (ComIPdu cfg) \<and>
        (let IPdu = ComIPdu cfg ! unat (ComIPduHandleId s); ptrs = sh_pdus sh ! unat (ComIPduHandleId s) in
         (case fst ptrs of None \<Rightarrow> False | Some b \<Rightarrow> b + unat (ComUpdateBitPosition s) div 8 < sh_buf sh) \<and>
         (if Com_Arc_IsSignalGroup s
          then (case sh_sigs sh ! unat (ComHandleId s) of
                  None \<Rightarrow> False
                | Some b \<Rightarrow> b + unat (ComIPduSize IPdu) \<le> sh_buf sh \<and>
                            unat (ComIPduSize IPdu) \<le> length (Com_Arc_ShadowBuffer_Mask s))
          else (case fst ptrs of None \<Rightarrow> False
                | Some b \<Rightarrow> access_ok (sh_buf sh) b (ComBitPosition s) (ComBitSize s) (ComSignalEndianess s) (ComSignalType s)) \<and>
               (case read_buffer IPdu ptrs of None \<Rightarrow> False
                | Some b \<Rightarrow> access_ok (sh_buf sh) b (ComBitPosition s) (ComBitSize s) (ComSignalEndianess s) (ComSignalType s)))))"

definition group_signal_ok :: "com_shape \<Rightarrow> ComGroupSignal_type \<Rightarrow> nat ptr \<Rightarrow> bool" where
  "group_signal_ok sh g shadow \<longleftrightarrow>
     (case shadow of
        None \<Rightarrow> SignalTypeToSize (gs_ComSignalType g) (unat (gs_ComBitSize g) div 8) \<le> length (gs_ComSignalInitValue g)
      | Some b \<Rightarrow> access_ok (sh_buf sh) b (gs_ComBitPosition g) (gs_ComBitSize g) (gs_ComSignalEndianess g) (gs_ComSignalType g))"

definition shape_ok :: "Com_Env \<Rightarrow> com_shape \<Rightarrow> bool" where
  "shape_ok env sh \<longleftrightarrow>
     keeps_length (ComTxIPduCallouts env) \<and> keeps_length (ComTriggerTransmitIPduCallouts env) \<and>
     (case sh_cfg sh of
        None \<Rightarrow> False
      | Some cfg \<Rightarrow>
          length (ComIPdu cfg) < 65536 \<and> unat (ComNofIPdus cfg) = length (ComIPdu cfg) \<and>
          length (ComIPdu cfg) \<le> length (sh_pdus sh) \<and> length (ComIPdu cfg) \<le> sh_locks sh \<and>
          distinct (map ArcIPduOutgoingId (ComIPdu cfg)) \<and>
          (\<forall>i < length (ComIPdu cfg). pdu_ok env sh (ComIPdu cfg ! i) (sh_pdus sh ! i)) \<and>
          unat (ComNofSignals cfg) = length (ComSignal cfg) \<and> list_all (signal_ok sh cfg) (ComSignal cfg) \<and>
          unat (ComNofGroupSignals cfg) = length (ComGroupSignals cfg) \<and>
          length (ComGroupSignals cfg) \<le> length (sh_groups sh) \<and>
          (\<forall>i < length (ComGroupSignals cfg). group_signal_ok sh (ComGroupSignals cfg ! i) (sh_groups sh ! i)))"

text \<open>The I-PDU with an identifier, and its buffers.\<close>

definition has_pdu :: "com_shape \<Rightarrow> uint16 \<Rightarrow> ComIPdu_type \<Rightarrow> nat ptr \<times> nat ptr \<Rightarrow> bool" where
  "has_pdu sh i IPdu ptrs \<longleftrightarrow>
     (case sh_cfg sh of None \<Rightarrow> False
      | Some cfg \<Rightarrow> unat i < length (ComIPdu cfg) \<and> ComIPdu cfg ! unat i = IPdu \<and> sh_pdus sh ! unat i = ptrs)"

text \<open>The exclusive area can be nested \<open>d\<close> levels deeper.\<close>

definition os_ok :: "nat \<Rightarrow> Os_Int \<Rightarrow> bool" where
  "os_ok d os \<longleftrightarrow> (irq_on os \<longleftrightarrow> Os_IntSuspendAllCnt os = 0) \<and> unat (Os_IntSuspendAllCnt os) + d < 255"

definition the_cfg :: "com \<Rightarrow> Com_ConfigType" where
  "the_cfg st = the (ComConfig st)"

text \<open>The position of a transport protocol transfer stays inside the I-PDU.\<close>

definition locks_ok :: "com \<Rightarrow> bool" where
  "locks_ok st \<longleftrightarrow>
     (\<forall>i < length (ComIPdu (the_cfg st)). currentPosition (Com_BufferPduState st ! i) \<le> ComIPduSize (ComIPdu (the_cfg st) ! i))"

definition com_ok :: "Com_Env \<Rightarrow> nat \<Rightarrow> com \<Rightarrow> bool" where
  "com_ok env d st \<longleftrightarrow> initStatus st = COM_INIT \<and> shape_ok env (shape st) \<and> os_ok d (com_os st) \<and> locks_ok st"

definition com_at :: "Com_Env \<Rightarrow> com_shape \<Rightarrow> nat \<Rightarrow> com \<Rightarrow> bool" where
  "com_at env sh d st \<longleftrightarrow> com_ok env d st \<and> shape st = sh"

section \<open>Steps\<close>

definition min_delay :: "nat \<Rightarrow> com \<Rightarrow> nat" where
  "min_delay i st = unat (ComTxIPduMinimumDelayTimer (Com_Arc_TxIPduTimers (Com_Arc_IPdu st ! i)))"

definition min_delay_factor :: "nat \<Rightarrow> com \<Rightarrow> nat" where
  "min_delay_factor i st = unat (ComTxIPduMinimumDelayFactor (ComTxIPdu (ComIPdu (the_cfg st) ! i)))"

definition is_transmit :: "uint16 \<Rightarrow> Com_Call \<Rightarrow> bool" where
  "is_transmit out c = (case c of Transmit o2 _ \<Rightarrow> o2 = out | _ \<Rightarrow> False)"

text \<open>The transmissions of an I-PDU so far.\<close>

definition pdu_sent :: "nat \<Rightarrow> com \<Rightarrow> Com_Call list" where
  "pdu_sent i st = filter (is_transmit (ArcIPduOutgoingId (ComIPdu (the_cfg st) ! i))) (com_calls st)"

definition com_same :: "com \<Rightarrow> com \<Rightarrow> bool" where
  "com_same st st' \<longleftrightarrow>
     initStatus st' = initStatus st \<and> shape st' = shape st \<and> com_os st' = com_os st \<and> (locks_ok st \<longrightarrow> locks_ok st')"

text \<open>A step that touches neither a minimum delay nor transmits.\<close>

definition com_still :: "com \<Rightarrow> com \<Rightarrow> bool" where
  "com_still st st' \<longleftrightarrow> com_same st st' \<and> (\<forall>i. min_delay i st' = min_delay i st \<and> pdu_sent i st' = pdu_sent i st)"

text \<open>
  A step that may transmit: an I-PDU is transmitted only when its minimum delay has expired, and the
  delay is then the configured one.
\<close>

definition pdu_step :: "nat \<Rightarrow> com \<Rightarrow> com \<Rightarrow> bool" where
  "pdu_step i st st' \<longleftrightarrow>
     min_delay i st' = min_delay i st \<and> pdu_sent i st' = pdu_sent i st \<or>
     min_delay i st = 0 \<and> min_delay i st' = min_delay_factor i st"

definition com_step :: "com \<Rightarrow> com \<Rightarrow> bool" where
  "com_step st st' \<longleftrightarrow> com_same st st' \<and> (\<forall>i < length (ComIPdu (the_cfg st)). pdu_step i st st')"

text \<open>A step that concerns the transmission of one I-PDU only.\<close>

definition tx_step :: "nat \<Rightarrow> com \<Rightarrow> com \<Rightarrow> bool" where
  "tx_step i st st' \<longleftrightarrow> com_same st st' \<and> pdu_step i st st' \<and>
     (\<forall>j < length (ComIPdu (the_cfg st)). j \<noteq> i \<longrightarrow> min_delay j st' = min_delay j st \<and> pdu_sent j st' = pdu_sent j st)"

lemma com_same_cfg: "com_same st st' \<Longrightarrow> the_cfg st' = the_cfg st"
  unfolding com_same_def the_cfg_def shape_def by simp

lemma com_same_refl [simp]: "com_same st st"
  by (simp add: com_same_def)

lemma com_same_trans: "com_same a b \<Longrightarrow> com_same b c \<Longrightarrow> com_same a c"
  by (simp add: com_same_def)

lemma com_same_ok: "com_same st st' \<Longrightarrow> com_ok env d st \<Longrightarrow> com_ok env d st'"
  by (simp add: com_same_def com_ok_def)

lemma com_same_at: "com_same st st' \<Longrightarrow> com_at env sh d st \<Longrightarrow> com_at env sh d st'"
  by (auto simp: com_same_def com_at_def com_ok_def)

lemma com_still_refl [simp]: "com_still st st"
  by (simp add: com_still_def)

lemma still_calls: "(\<And>out. \<not> is_transmit out c) \<Longrightarrow> com_still st (st\<lparr>com_calls := com_calls st @ [c]\<rparr>)"
  by (simp add: com_still_def com_same_def shape_def pdu_sent_def the_cfg_def min_delay_def locks_ok_def)

lemma still_report: "com_still st (DET_REPORTERROR env api err st)"
  by (auto simp: DET_REPORTERROR_def is_transmit_def intro!: still_calls)

section \<open>Exclusive areas\<close>

lemma os_enter:
  assumes "os_ok (Suc d) os"
  shows "os_ok d (SchM_Enter_Com_EA_0 os)" "SchM_Exit_Com_EA_0 (SchM_Enter_Com_EA_0 os) = os"
proof -
  have "Os_IntSuspendAllCnt os \<noteq> 0xFF" using assms by (auto simp: os_ok_def)
  then have "irq_balanced os" using assms by (simp add: irq_balanced_def os_ok_def)
  then show "SchM_Exit_Com_EA_0 (SchM_Enter_Com_EA_0 os) = os"
    by (simp add: SchM_Enter_Com_EA_0_def SchM_Exit_Com_EA_0_def)
  have "unat (Os_IntSuspendAllCnt os + 1) = unat (Os_IntSuspendAllCnt os) + 1"
    using assms by (intro unat_word_ariths(1) [THEN trans]) (simp add: os_ok_def)
  moreover from this have "Os_IntSuspendAllCnt os + 1 \<noteq> 0" by auto
  ultimately show "os_ok d (SchM_Enter_Com_EA_0 os)"
    using assms by (simp add: SchM_Enter_Com_EA_0_def Os_Int_defs os_ok_def Let_def)
qed

lemma ea_fields [simp]:
  "min_delay i (ea_enter st) = min_delay i st" "min_delay i (ea_exit st) = min_delay i st"
  "min_delay_factor i (ea_enter st) = min_delay_factor i st"
  "pdu_sent i (ea_enter st) = pdu_sent i st" "pdu_sent i (ea_exit st) = pdu_sent i st"
  "the_cfg (ea_enter st) = the_cfg st" "the_cfg (ea_exit st) = the_cfg st"
  "shape (ea_enter st) = shape st" "shape (ea_exit st) = shape st"
  "initStatus (ea_enter st) = initStatus st" "initStatus (ea_exit st) = initStatus st"
  "locks_ok (ea_enter st) = locks_ok st" "locks_ok (ea_exit st) = locks_ok st"
  "Com_Arc_IPdu (ea_enter st) = Com_Arc_IPdu st" "Com_Arc_Signal (ea_enter st) = Com_Arc_Signal st"
  "Com_BufferPduState (ea_enter st) = Com_BufferPduState st" "Com_Arc_Buffer (ea_enter st) = Com_Arc_Buffer st"
  by (simp_all add: ea_enter_def ea_exit_def min_delay_def min_delay_factor_def pdu_sent_def the_cfg_def shape_def locks_ok_def)

lemma com_at_enter: "com_at env sh (Suc d) st \<Longrightarrow> com_at env sh d (ea_enter st)"
  using os_enter(1) [of d "com_os st"]
  by (auto simp: com_at_def com_ok_def) (simp add: ea_enter_def)

lemma same_exit:
  assumes "com_at env sh (Suc d) st" "com_same (ea_enter st) st'"
  shows "com_same st (ea_exit st')"
  using assms os_enter(2) [of d "com_os st"]
  by (simp add: com_same_def com_at_def com_ok_def ea_exit_def ea_enter_def shape_def locks_ok_def the_cfg_def)

section \<open>Chains of steps\<close>

text \<open>
  Relations between states that can be chained and that an exclusive area keeps, and the composition of
  computations whose steps are in such a relation.
\<close>

locale step_relation =
  fixes R :: "com \<Rightarrow> com \<Rightarrow> bool"
  assumes R_still: "com_still a b \<Longrightarrow> R a b"
    and R_trans: "R a b \<Longrightarrow> R b c \<Longrightarrow> R a c"
    and R_same: "R a b \<Longrightarrow> com_same a b"
    and R_exit: "com_at env sh (Suc d) a \<Longrightarrow> R (ea_enter a) b \<Longrightarrow> R a (ea_exit b)"
begin

lemma R_refl: "R st st"
  by (rule R_still) (simp add: com_still_def)

lemma R_at: "R st st' \<Longrightarrow> com_at env sh d st \<Longrightarrow> com_at env sh d st'"
  using R_same com_same_at by blast

lemma of_still: "returns m (\<lambda>x. com_still st (f x)) \<Longrightarrow> returns m (\<lambda>x. R st (f x))"
  using R_still by (blast intro: returns_mono)

text \<open>The next step of a computation that started in \<open>s0\<close>.\<close>

lemma next_st:
  assumes "com_at env sh d s" "R s0 s" "returns m (\<lambda>x. R s (f x))"
    and "\<And>x. com_at env sh d (f x) \<Longrightarrow> R s0 (f x) \<Longrightarrow> returns (k x) Q"
  shows "returns (m \<bind> k) Q"
  using assms(3) by (rule returns_bind) (use assms R_at R_trans in blast)

lemma next_pair:
  assumes "com_at env sh d s" "R s0 s" "returns m (\<lambda>x. R s (snd x))"
    and "\<And>a s'. com_at env sh d s' \<Longrightarrow> R s0 s' \<Longrightarrow> returns (k a s') Q"
  shows "returns (m \<bind> (\<lambda>(a, s'). k a s')) Q"
  using assms(1-3) by (rule next_st) (simp add: assms(4) case_prod_unfold)

lemma bind:
  assumes "com_at env sh d st" "returns m (\<lambda>x. R st (f x))"
    and "\<And>x. com_at env sh d (f x) \<Longrightarrow> returns (k x) (\<lambda>y. R (f x) (g y))"
  shows "returns (m \<bind> k) (\<lambda>y. R st (g y))"
  using assms(1) R_refl assms(2)
proof (rule next_st)
  fix x assume x: "com_at env sh d (f x)" "R st (f x)"
  then show "returns (k x) (\<lambda>y. R st (g y))" using assms(3) R_trans by (blast intro: returns_mono)
qed

lemma bind2:
  assumes "com_at env sh d st" "returns m (\<lambda>x. R st (snd x))"
    and "\<And>a st'. com_at env sh d st' \<Longrightarrow> returns (k a st') (\<lambda>y. R st' (g y))"
  shows "returns (m \<bind> (\<lambda>(a, st'). k a st')) (\<lambda>y. R st (g y))"
  using assms(1,2) by (rule bind) (simp add: assms(3) case_prod_unfold)

lemma each:
  assumes "com_at env sh d st" "\<And>x st'. x \<in> set xs \<Longrightarrow> com_at env sh d st' \<Longrightarrow> returns (f x st') (R st')"
  shows "returns (for_each f xs st) (R st)"
  using assms
proof (induction xs arbitrary: st)
  case (Cons x xs)
  show ?case unfolding for_each.simps
  proof (rule bind [OF Cons.prems(1)])
    show "returns (f x st) (R st)" using Cons.prems by simp
    show "returns (for_each f xs st') (R st')" if "com_at env sh d st'" for st'
      using Cons.IH [OF that] Cons.prems(2) by simp
  qed
qed (simp add: R_refl)

text \<open>An exclusive area around a computation.\<close>

lemma area:
  assumes "com_at env sh (Suc d) st"
    and "com_at env sh d (ea_enter st) \<Longrightarrow> returns m (R (ea_enter st))"
  shows "returns (m \<bind> (\<lambda>st'. Some (ea_exit st'))) (R st)"
  by (rule returns_bind [OF assms(2) [OF com_at_enter [OF assms(1)]]]) (simp add: R_exit [OF assms(1)])

lemma area2:
  assumes "com_at env sh (Suc d) st"
    and "com_at env sh d (ea_enter st) \<Longrightarrow> returns m (\<lambda>x. R (ea_enter st) (snd x))"
  shows "returns (m \<bind> (\<lambda>(r, st'). Some (r, ea_exit st'))) (\<lambda>x. R st (snd x))"
  by (rule returns_bind [OF assms(2) [OF com_at_enter [OF assms(1)]]]) (simp add: R_exit [OF assms(1)] case_prod_unfold)

text \<open>The checks in front of a service.\<close>

lemma R_report: "R st (DET_REPORTERROR env api err st)"
  by (rule R_still) (rule still_report)

lemma guard:
  assumes "com_at env sh d st" "c \<Longrightarrow> returns body (\<lambda>x. R st (snd x))"
  shows "returns (com_guard env' api c st refused body) (\<lambda>x. R st (snd x))"
  using assms by (simp add: com_guard_def com_at_def com_ok_def R_report)

end

interpretation still: step_relation com_still
  by unfold_locales (auto simp: com_still_def intro: com_same_trans same_exit)

lemma pdu_step_trans: "pdu_step i a b \<Longrightarrow> pdu_step i b c \<Longrightarrow> the_cfg b = the_cfg a \<Longrightarrow> pdu_step i a c"
  by (auto simp: pdu_step_def min_delay_factor_def)

interpretation step: step_relation com_step
proof
  show "com_step a b" if "com_still a b" for a b using that by (simp add: com_still_def com_step_def pdu_step_def)
  show "com_step a c" if "com_step a b" "com_step b c" for a b c
    using that com_same_trans [of a b c] pdu_step_trans [of _ a b c] com_same_cfg [of a b]
    by (auto simp: com_step_def)
  show "com_same a b" if "com_step a b" for a b using that by (simp add: com_step_def)
  show "com_step a (ea_exit b)" if "com_at env sh (Suc d) a" "com_step (ea_enter a) b" for env sh d a b
    using that(2) same_exit [OF that(1), of b] by (auto simp: com_step_def pdu_step_def)
qed

interpretation tx: step_relation "tx_step i" for i
proof
  show "tx_step i a b" if "com_still a b" for a b using that by (simp add: com_still_def tx_step_def pdu_step_def)
  show "tx_step i a c" if "tx_step i a b" "tx_step i b c" for a b c
    using that com_same_trans [of a b c] pdu_step_trans [of i a b c] com_same_cfg [of a b]
    by (auto simp: tx_step_def)
  show "com_same a b" if "tx_step i a b" for a b using that by (simp add: tx_step_def)
  show "tx_step i a (ea_exit b)" if "com_at env sh (Suc d) a" "tx_step i (ea_enter a) b" for env sh d a b
    using that(2) same_exit [OF that(1), of b] by (auto simp: tx_step_def pdu_step_def)
qed

lemma tx_step_step: "tx_step i st st' \<Longrightarrow> com_step st st'"
  by (auto simp: tx_step_def com_step_def pdu_step_def)

lemma tx_returns: "returns m (\<lambda>x. tx_step i st (f x)) \<Longrightarrow> returns m (\<lambda>x. com_step st (f x))"
  using tx_step_step by (blast intro: returns_mono)

lemma com_at_less: "com_at env sh d st \<Longrightarrow> e \<le> d \<Longrightarrow> com_at env sh e st"
  by (auto simp: com_at_def com_ok_def os_ok_def)

section \<open>Reading the configuration and the state\<close>

lemma com_at_shape:
  assumes "com_at env sh d st"
  shows "initStatus st = COM_INIT" "shape st = sh" "shape_ok env sh" "ComConfig st = Some (the_cfg st)"
    "sh_cfg sh = Some (the_cfg st)" "length (Com_Arc_Buffer st) = sh_buf sh"
  using assms by (auto simp: com_at_def com_ok_def shape_ok_def the_cfg_def split: option.splits)

text \<open>The conditions of a well-configured module, one by one.\<close>

lemma shape_ok_facts:
  assumes "com_at env sh d st"
  shows "length (ComIPdu (the_cfg st)) \<le> length (Com_Arc_IPdu st)"
    "length (ComIPdu (the_cfg st)) \<le> length (Com_BufferPduState st)"
    "unat (ComNofIPdus (the_cfg st)) = length (ComIPdu (the_cfg st))"
    "unat (ComNofSignals (the_cfg st)) = length (ComSignal (the_cfg st))"
    "unat (ComNofGroupSignals (the_cfg st)) = length (ComGroupSignals (the_cfg st))"
    "length (ComGroupSignals (the_cfg st)) \<le> length (Com_Arc_GroupSignal st)"
    "length (ComIPdu (the_cfg st)) < 65536" "distinct (map ArcIPduOutgoingId (ComIPdu (the_cfg st)))"
    "list_all (signal_ok sh (the_cfg st)) (ComSignal (the_cfg st))"
    "keeps_length (ComTxIPduCallouts env)" "keeps_length (ComTriggerTransmitIPduCallouts env)"
  using assms by (auto simp: com_at_def com_ok_def shape_ok_def the_cfg_def split: option.splits)

lemma has_pdu_at:
  assumes "com_at env sh d st" "has_pdu sh i IPdu ptrs"
  shows "unat i < length (ComIPdu (the_cfg st))" "unat i < length (Com_Arc_IPdu st)"
    "unat i < length (Com_BufferPduState st)" "ComIPdu (the_cfg st) ! unat i = IPdu"
    "GET_IPdu i st = Some IPdu" "GET_ArcIPdu i st = Some (Com_Arc_IPdu st ! unat i)"
    "rd (Com_BufferPduState st) (unat i) = Some (Com_BufferPduState st ! unat i)"
    "isPduBufferLocked i st = Some (locked (Com_BufferPduState st ! unat i))"
    "ComIPduDataPtr (Com_Arc_IPdu st ! unat i) = fst ptrs"
    "ComIPduDeferredDataPtr (Com_Arc_IPdu st ! unat i) = snd ptrs" "pdu_ok env sh IPdu ptrs"
proof -
  note c = com_at_shape [OF assms(1)] and f = shape_ok_facts [OF assms(1)]
  show i: "unat i < length (ComIPdu (the_cfg st))" "ComIPdu (the_cfg st) ! unat i = IPdu"
    using assms(2) c(5) by (simp_all add: has_pdu_def)
  then show l: "unat i < length (Com_Arc_IPdu st)" "unat i < length (Com_BufferPduState st)" using f by auto
  show "GET_IPdu i st = Some IPdu" using i c(4) by (simp add: GET_IPdu_def deref_def ub_simps)
  show "GET_ArcIPdu i st = Some (Com_Arc_IPdu st ! unat i)" using l by (simp add: GET_ArcIPdu_def ub_simps)
  show "rd (Com_BufferPduState st) (unat i) = Some (Com_BufferPduState st ! unat i)"
    "isPduBufferLocked i st = Some (locked (Com_BufferPduState st ! unat i))"
    using l by (simp_all add: isPduBufferLocked_def ub_simps)
  have "sh_pdus sh = map (\<lambda>a. (ComIPduDataPtr a, ComIPduDeferredDataPtr a)) (Com_Arc_IPdu st)"
    unfolding c(2) [symmetric] by simp
  moreover have ptrs: "sh_pdus sh ! unat i = ptrs" using assms(2) c(5) by (simp add: has_pdu_def)
  ultimately show "ComIPduDataPtr (Com_Arc_IPdu st ! unat i) = fst ptrs"
    "ComIPduDeferredDataPtr (Com_Arc_IPdu st ! unat i) = snd ptrs" using l(1) by auto
  show "pdu_ok env sh IPdu ptrs" using c(3,5) i ptrs by (auto simp: shape_ok_def)
qed

lemma has_pdu_index: "com_at env sh d st \<Longrightarrow> unat i < length (ComIPdu (the_cfg st)) \<Longrightarrow>
  has_pdu sh i (ComIPdu (the_cfg st) ! unat i) (sh_pdus sh ! unat i)"
  using com_at_shape(5) [of env sh d st] by (simp add: has_pdu_def)

section \<open>Primitive updates\<close>

lemma still_upd_pdu:
  assumes at: "com_at env sh d st" and pdu: "has_pdu sh i IPdu ptrs"
    and f: "\<And>a. ComIPduDataPtr (f a) = ComIPduDataPtr a" "\<And>a. ComIPduDeferredDataPtr (f a) = ComIPduDeferredDataPtr a"
    and t: "\<And>a. ComTxIPduMinimumDelayTimer (Com_Arc_TxIPduTimers (f a)) = ComTxIPduMinimumDelayTimer (Com_Arc_TxIPduTimers a)"
  shows "returns (upd_pdu i f st) (com_still st)"
proof -
  let ?l = "(Com_Arc_IPdu st)[unat i := f (Com_Arc_IPdu st ! unat i)]"
  note l = has_pdu_at(2) [OF at pdu]
  then have u: "upd_pdu i f st = Some (st\<lparr>Com_Arc_IPdu := ?l\<rparr>)"
    by (simp add: upd_pdu_def GET_ArcIPdu_def ub_simps)
  have "min_delay j (st\<lparr>Com_Arc_IPdu := ?l\<rparr>) = min_delay j st" for j
    using t l by (cases "j = unat i") (simp_all add: min_delay_def)
  moreover have "map (\<lambda>a. (ComIPduDataPtr a, ComIPduDeferredDataPtr a)) ?l =
      map (\<lambda>a. (ComIPduDataPtr a, ComIPduDeferredDataPtr a)) (Com_Arc_IPdu st)"
    using f by (intro map_field_update) simp
  ultimately show ?thesis
    unfolding u returns_Some com_still_def com_same_def
    by (simp add: shape_def pdu_sent_def the_cfg_def locks_ok_def)
qed

lemma still_upd_timers:
  assumes "com_at env sh d st" "has_pdu sh i IPdu ptrs"
    and "\<And>t. ComTxIPduMinimumDelayTimer (f t) = ComTxIPduMinimumDelayTimer t"
  shows "returns (upd_timers i f st) (com_still st)"
  unfolding upd_timers_def using assms by (intro still_upd_pdu) simp_all

lemma still_upd_sig:
  assumes "com_at env sh d st" "unat i < length (sh_sigs sh)"
    and "\<And>a. Com_Arc_ShadowBuffer (f a) = Com_Arc_ShadowBuffer a"
  shows "returns (upd_sig i f st) (com_still st)"
proof -
  let ?l = "(Com_Arc_Signal st)[unat i := f (Com_Arc_Signal st ! unat i)]"
  have "unat i < length (Com_Arc_Signal st)" using assms(1,2) by (auto simp: com_at_def)
  then have u: "upd_sig i f st = Some (st\<lparr>Com_Arc_Signal := ?l\<rparr>)"
    by (simp add: upd_sig_def GET_ArcSignal_def ub_simps)
  have "map Com_Arc_ShadowBuffer ?l = map Com_Arc_ShadowBuffer (Com_Arc_Signal st)"
    using assms(3) by (intro map_field_update) simp
  then show ?thesis
    unfolding u returns_Some com_still_def com_same_def
    by (simp add: shape_def pdu_sent_def the_cfg_def min_delay_def locks_ok_def)
qed

lemma GET_ArcSignal_at: "com_at env sh d st \<Longrightarrow> unat i < length (sh_sigs sh) \<Longrightarrow>
  GET_ArcSignal i st = Some (Com_Arc_Signal st ! unat i) \<and> Com_Arc_ShadowBuffer (Com_Arc_Signal st ! unat i) = sh_sigs sh ! unat i"
  by (auto simp: com_at_def GET_ArcSignal_def rd_Some)

lemma still_upd_lock:
  assumes "com_at env sh d st" "has_pdu sh i IPdu ptrs"
    and f: "\<And>b. currentPosition b \<le> ComIPduSize IPdu \<Longrightarrow> currentPosition (f b) \<le> ComIPduSize IPdu"
  shows "returns (upd_lock i f st) (com_still st)"
proof -
  note l = has_pdu_at(1,3,4) [OF assms(1,2)]
  have u: "upd_lock i f st =
      Some (st\<lparr>Com_BufferPduState := (Com_BufferPduState st)[unat i := f (Com_BufferPduState st ! unat i)]\<rparr>)"
    using l(2) by (simp add: upd_lock_def ub_simps)
  show ?thesis
    unfolding u returns_Some com_still_def com_same_def
    using l f by (auto simp: shape_def pdu_sent_def the_cfg_def min_delay_def locks_ok_def nth_list_update)
qed

lemma still_buffer: "length mem = length (Com_Arc_Buffer st) \<Longrightarrow> com_still st (st\<lparr>Com_Arc_Buffer := mem\<rparr>)"
  by (simp add: com_still_def com_same_def shape_def pdu_sent_def the_cfg_def min_delay_def locks_ok_def)

lemma still_cntrs:
  "length (Com_IPdu_Counters c) = length (Com_IPdu_Counters (com_cntrs st)) \<Longrightarrow>
   length (ComIPduCountRxStart c) = length (ComIPduCountRxStart (com_cntrs st)) \<Longrightarrow> com_still st (st\<lparr>com_cntrs := c\<rparr>)"
  by (simp add: com_still_def com_same_def shape_def pdu_sent_def the_cfg_def min_delay_def locks_ok_def)

lemma still_notify:
  assumes "callout_ok (ComNotificationCallouts env) n"
  shows "returns (notify env n st) (com_still st)"
  using assms
  by (auto simp: notify_def callout_ok_def ub_simps is_transmit_def still.R_refl intro!: still_calls)

lemma still_unlock: "com_at env sh d st \<Longrightarrow> has_pdu sh i IPdu ptrs \<Longrightarrow> returns (Com_Misc_UnlockTpBuffer i st) (com_still st)"
  unfolding Com_Misc_UnlockTpBuffer_def by (erule (1) still_upd_lock) simp

text \<open>Bits and bytes of the buffer.\<close>

lemma still_SETBIT:
  assumes "com_at env sh d st" "base + unat b div 8 < sh_buf sh"
  shows "returns (SETBIT base b st) (com_still st)"
  using com_at_shape(6) [OF assms(1)] assms(2) by (simp add: SETBIT_def ub_simps still_buffer)

lemma still_CLEARBIT:
  assumes "com_at env sh d st" "base + unat b div 8 < sh_buf sh"
  shows "returns (CLEARBIT base b st) (com_still st)"
  using com_at_shape(6) [OF assms(1)] assms(2) by (simp add: CLEARBIT_def ub_simps still_buffer)

lemma get_bytes_at: "com_at env sh d st \<Longrightarrow> base + n \<le> sh_buf sh \<Longrightarrow>
  get_bytes base n st = Some (take n (drop base (Com_Arc_Buffer st)))"
  using com_at_shape(6) [of env sh d st] by (simp add: get_bytes_def)

lemma still_put_bytes: "com_at env sh d st \<Longrightarrow> base + length bs \<le> sh_buf sh \<Longrightarrow> returns (put_bytes base bs st) (com_still st)"
  using com_at_shape(6) [of env sh d st] by (simp add: put_bytes_def still_buffer)

lemma access_sig_ok: "length mem = n \<Longrightarrow> \<not> opaque endian ty \<Longrightarrow>
  access_ok n base bitPosition bitSize endian ty \<Longrightarrow> sig_ok mem base bitPosition bitSize endian ty"
  using sig_ok_length [of mem "replicate n 0"] by (simp add: access_ok_def)

lemma write_signal_at_returns:
  assumes os: "os_ok (Suc d) (com_os st)" and acc: "access_ok (length (Com_Arc_Buffer st)) base bitPosition bitSize endian ty"
    and len: "value_bytes bitSize endian ty \<le> length data"
  obtains changed mem where "write_signal_at base data ty bitPosition bitSize endian st = Some (changed, st\<lparr>Com_Arc_Buffer := mem\<rparr>)"
    "length mem = length (Com_Arc_Buffer st)"
proof -
  note os = os_enter(2) [OF os]
  have "\<exists>mem' changed. Com_Misc_WriteSignalDataToPdu (com_os st) data ty (Com_Arc_Buffer st) base bitPosition bitSize endian =
      Some (mem', changed, com_os st) \<and> length mem' = length (Com_Arc_Buffer st)"
  proof (cases "opaque endian ty")
    case True
    then show ?thesis using acc len os
      by (simp add: Com_Misc_WriteSignalDataToPdu_def opaque_def access_ok_def value_bytes_def Let_def)
  next
    case False
    then have "sig_bytes ty \<le> length data" using len by (simp add: value_bytes_def)
    from write_signal [OF access_sig_ok [OF refl False acc] this, of "com_os st"] show ?thesis unfolding os by blast
  qed
  then show ?thesis using that by (auto simp: write_signal_at_def)
qed

lemma still_write_signal:
  assumes at: "com_at env sh (Suc d) st" and acc: "access_ok (sh_buf sh) base bitPosition bitSize endian ty"
    and len: "value_bytes bitSize endian ty \<le> length data"
  shows "returns (write_signal_at base data ty bitPosition bitSize endian st) (\<lambda>x. com_still st (snd x))"
proof -
  have "os_ok (Suc d) (com_os st)" using at by (simp add: com_at_def com_ok_def)
  moreover have "access_ok (length (Com_Arc_Buffer st)) base bitPosition bitSize endian ty" using acc com_at_shape(6) [OF at] by simp
  ultimately obtain changed mem where "write_signal_at base data ty bitPosition bitSize endian st = Some (changed, st\<lparr>Com_Arc_Buffer := mem\<rparr>)"
    "length mem = length (Com_Arc_Buffer st)" using len by (rule write_signal_at_returns)
  then show ?thesis using still_buffer [of mem st] by simp
qed

lemma still_read_signal:
  assumes at: "com_at env sh (Suc d) st" and acc: "access_ok (sh_buf sh) base bitPosition bitSize endian ty"
    and len: "value_bytes bitSize endian ty \<le> length out"
  shows "returns (read_signal_at base bitPosition bitSize endian ty out st) (\<lambda>x. com_still st (snd x))"
proof -
  note b = com_at_shape(6) [OF at]
  have os: "SchM_Exit_Com_EA_0 (SchM_Enter_Com_EA_0 (com_os st)) = com_os st"
    using at os_enter(2) [of d "com_os st"] by (simp add: com_at_def com_ok_def)
  have "\<exists>out'. Com_Misc_ReadSignalDataFromPdu (com_os st) (Com_Arc_Buffer st) base bitPosition bitSize endian ty out =
      Some (out', com_os st)"
  proof (cases "opaque endian ty")
    case True
    then show ?thesis using acc len b os
      by (simp add: Com_Misc_ReadSignalDataFromPdu_def opaque_def access_ok_def value_bytes_def Let_def copy_range_def)
  next
    case False
    then have "sig_bytes ty \<le> length out" using len by (simp add: value_bytes_def)
    from read_signal [OF access_sig_ok [OF b False acc] this, of "com_os st"] show ?thesis unfolding os by blast
  qed
  then show ?thesis by (auto simp: read_signal_at_def still.R_refl)
qed

end
