(* ===== verification/Com_Tx.thy ===== *)
theory Com_Tx
  imports Com_Safe
begin

text \<open>
  Transmission: \<^verbatim>\<open>Com_Misc_TriggerIPDUSend\<close>, \<^verbatim>\<open>Com_Misc_TriggerTxOnConditions\<close> and the services and the main
  function built on them return on a well-configured module, and transmit an I-PDU only when its minimum
  delay has expired.
\<close>

section \<open>One transmission\<close>

lemma pdu_okD:
  assumes "pdu_ok env sh IPdu ptrs"
  obtains base where "fst ptrs = Some base" "base + unat (ComIPduSize IPdu) \<le> sh_buf sh"
    "\<And>s. s \<in> set (signal_refs IPdu) \<Longrightarrow> signal_ref_ok env sh base s"
    "\<And>c. ComIpduCounterRef IPdu = Some c \<Longrightarrow> counter_ok env sh base IPdu c"
  using assms by (auto simp: pdu_ok_def list_all_iff split: option.splits)

lemma still_tx_callout:
  assumes at: "com_at env sh d st" and base: "base + unat sz \<le> sh_buf sh"
    and table: "callout_ok table n" "keeps_length table"
  shows "returns (tx_callout table n i (Some base) sz st) (\<lambda>x. com_still st (snd x))"
proof (cases "n = COM_NO_FUNCTION_CALLOUT \<or> table ! unat n = None")
  case True
  then show ?thesis using table(1) by (auto simp: tx_callout_def callout_ok_def still.R_refl ub_simps)
next
  case False
  then obtain f where f: "unat n < length table" "table ! unat n = Some f" using table(1) by (auto simp: callout_ok_def)
  let ?bs = "take (unat sz) (drop base (Com_Arc_Buffer st))"
  have "Some f \<in> set table" using f nth_mem by fastforce
  then have len: "length (snd (f i ?bs)) = length ?bs" using table(2) unfolding keeps_length_def by blast
  then have "base + length (snd (f i ?bs)) \<le> sh_buf sh" using base com_at_shape(6) [OF at] by simp
  then have "returns (put_bytes base (snd (f i ?bs)) st) (com_still st)" by (rule still_put_bytes [OF at])
  then obtain st' where "put_bytes base (snd (f i ?bs)) st = Some st'" "com_still st st'" by (auto simp: returns_def)
  moreover have "rd table (unat n) = Some (Some f)" using f by (simp add: rd_Some)
  ultimately show ?thesis
    using False len get_bytes_at [OF at base] unfolding tx_callout_def
    by (simp add: deref_def case_prod_unfold Let_def del: length_take length_drop)
qed

lemma still_tx_counter:
  assumes at: "com_at env sh d st" and base: "base + unat (ComIPduSize IPdu) \<le> sh_buf sh"
    and c: "\<And>c. ComIpduCounterRef IPdu = Some c \<Longrightarrow> counter_ok env sh base IPdu c"
  shows "returns (tx_counter env IPdu base st)
    (\<lambda>x. com_still st (snd x) \<and> (\<forall>v k. fst x = Some (v, k) \<longrightarrow> unat k < sh_cntrs sh))"
proof (cases "COM_IPDU_COUNTING_ENABLE env \<and> ComIpduCounterRef IPdu \<noteq> None")
  case False
  then show ?thesis by (auto simp: tx_counter_def still.R_refl)
next
  case True
  then obtain c where c': "ComIpduCounterRef IPdu = Some c" by auto
  note ok = c [OF this]
  note b = com_at_shape(6) [OF at]
  have k: "unat (ComIPduCntrIndex c) < length (Com_IPdu_Counters (com_cntrs st))" "ComIPduCntrRange c \<noteq> 0"
    using ok at by (auto simp: counter_ok_def com_at_def)
  have p: "base + unat (ComIPduCntrStartPos c) div 8 < length (Com_Arc_Buffer st)"
    using ok base b by (simp add: counter_ok_def)
  obtain v sdu where u: "updateIPduCntr c (drop base (Com_Arc_Buffer st)) (com_cntrs st) = Some (v, sdu, ComIPduCntrIndex c)"
    "length sdu = length (Com_Arc_Buffer st) - base"
    using k p by (simp add: updateIPduCntr_def Let_def rd_Some wr_Some next_cntr_def)
  then show ?thesis
    using True c' ok p still_buffer [of "take base (Com_Arc_Buffer st) @ sdu" st] by (simp add: tx_counter_def counter_ok_def)
qed

lemma still_store_counter:
  assumes "com_at env sh d st" "\<And>v k. c = Some (v, k) \<Longrightarrow> unat k < sh_cntrs sh"
  shows "returns (store_counter c st) (com_still st)"
proof (cases c)
  case None
  then show ?thesis by (simp add: store_counter_def still.R_refl)
next
  case (Some x)
  then have "unat (snd x) < length (Com_IPdu_Counters (com_cntrs st))"
    using assms(2) [of "fst x" "snd x"] assms(1) by (auto simp: com_at_def)
  then show ?thesis using Some by (simp add: store_counter_def case_prod_unfold ub_simps still_cntrs)
qed

lemma still_clear_update_bits:
  assumes at: "com_at env sh d st" and refs: "\<And>s. s \<in> set (signal_refs IPdu) \<Longrightarrow> signal_ref_ok env sh base s"
  shows "returns (clear_update_bits IPdu base st) (com_still st)"
  unfolding clear_update_bits_def
  by (rule still.each [OF at])
    (use refs in \<open>auto simp: signal_ref_ok_def still.R_refl intro!: still_CLEARBIT\<close>)

text \<open>The call of \<^verbatim>\<open>PduR_ComTransmit\<close>, and the restart of the minimum delay.\<close>

lemma same_transmit: "com_same st (st\<lparr>com_calls := cs\<rparr>)"
  by (simp add: com_same_def shape_def locks_ok_def the_cfg_def)

lemma transmit_fields:
  assumes at: "com_at env sh d st" and pdu: "has_pdu sh i IPdu ptrs" and j: "j < length (ComIPdu (the_cfg st))" "j \<noteq> unat i"
  shows "pdu_sent j (st\<lparr>com_calls := com_calls st @ [Transmit (ArcIPduOutgoingId IPdu) sdu]\<rparr>) = pdu_sent j st"
proof -
  have "ArcIPduOutgoingId (ComIPdu (the_cfg st) ! j) \<noteq> ArcIPduOutgoingId (ComIPdu (the_cfg st) ! unat i)"
    using shape_ok_facts(8) [OF at] has_pdu_at(1) [OF at pdu] j by (simp add: distinct_conv_nth)
  then show ?thesis using has_pdu_at(4) [OF at pdu] by (auto simp: pdu_sent_def is_transmit_def the_cfg_def)
qed

definition upd_delay :: "uint16 \<Rightarrow> (uint32 \<Rightarrow> uint32) \<Rightarrow> com \<Rightarrow> com" where
  "upd_delay i g st =
     (let a = Com_Arc_IPdu st ! unat i; t = Com_Arc_TxIPduTimers a in
      st\<lparr>Com_Arc_IPdu := (Com_Arc_IPdu st)[unat i :=
        a\<lparr>Com_Arc_TxIPduTimers := t\<lparr>ComTxIPduMinimumDelayTimer := g (ComTxIPduMinimumDelayTimer t)\<rparr>\<rparr>]\<rparr>)"

lemma upd_delay:
  assumes "com_at env sh d st" "has_pdu sh i IPdu ptrs"
  shows "upd_timers i (\<lambda>t. t\<lparr>ComTxIPduMinimumDelayTimer := g (ComTxIPduMinimumDelayTimer t)\<rparr>) st =
      Some (upd_delay i g st)"
    "com_same st (upd_delay i g st)" "pdu_sent j (upd_delay i g st) = pdu_sent j st"
    "min_delay (unat i) (upd_delay i g st) =
       unat (g (ComTxIPduMinimumDelayTimer (Com_Arc_TxIPduTimers (Com_Arc_IPdu st ! unat i))))"
    "j \<noteq> unat i \<Longrightarrow> min_delay j (upd_delay i g st) = min_delay j st"
proof -
  note l = has_pdu_at(2,4) [OF assms]
  show "upd_timers i (\<lambda>t. t\<lparr>ComTxIPduMinimumDelayTimer := g (ComTxIPduMinimumDelayTimer t)\<rparr>) st =
      Some (upd_delay i g st)"
    using l(1) by (simp add: upd_timers_def upd_pdu_def GET_ArcIPdu_def ub_simps upd_delay_def Let_def)
  have "map (\<lambda>a. (ComIPduDataPtr a, ComIPduDeferredDataPtr a)) (Com_Arc_IPdu (upd_delay i g st)) =
      map (\<lambda>a. (ComIPduDataPtr a, ComIPduDeferredDataPtr a)) (Com_Arc_IPdu st)"
    by (simp add: upd_delay_def Let_def map_field_update)
  then show "com_same st (upd_delay i g st)"
    by (simp add: com_same_def shape_def locks_ok_def the_cfg_def) (simp add: upd_delay_def Let_def)
  show "pdu_sent j (upd_delay i g st) = pdu_sent j st" by (simp add: pdu_sent_def the_cfg_def upd_delay_def Let_def)
  show "min_delay (unat i) (upd_delay i g st) =
      unat (g (ComTxIPduMinimumDelayTimer (Com_Arc_TxIPduTimers (Com_Arc_IPdu st ! unat i))))"
    "j \<noteq> unat i \<Longrightarrow> min_delay j (upd_delay i g st) = min_delay j st"
    using l by (simp_all add: min_delay_def upd_delay_def Let_def)
qed

abbreviation restart_delay :: "uint16 \<Rightarrow> ComIPdu_type \<Rightarrow> com \<Rightarrow> com" where
  "restart_delay i IPdu \<equiv> upd_delay i (\<lambda>_. ComTxIPduMinimumDelayFactor (ComTxIPdu IPdu))"

lemma step_transmit:
  assumes at: "com_at env sh d st" and pdu: "has_pdu sh i IPdu ptrs" and zero: "min_delay (unat i) st = 0"
    and st1: "com_still st st1"
    and st2: "com_still (st1\<lparr>com_calls := com_calls st1 @ [Transmit (ArcIPduOutgoingId IPdu) sdu]\<rparr>) st2"
  shows "tx_step (unat i) st (restart_delay i IPdu st2)"
proof -
  let ?st = "st1\<lparr>com_calls := com_calls st1 @ [Transmit (ArcIPduOutgoingId IPdu) sdu]\<rparr>"
  have same1: "com_same st st1" and same2: "com_same ?st st2" using st1 st2 by (simp_all add: com_still_def)
  then have at1: "com_at env sh d st1" and at2: "com_at env sh d st2"
    using at com_same_at same_transmit by blast+
  note r = upd_delay(2-5) [OF at2 pdu, where g = "\<lambda>_. ComTxIPduMinimumDelayFactor (ComTxIPdu IPdu)"]
  have same: "com_same st (restart_delay i IPdu st2)"
    using same1 same2 same_transmit r(1) com_same_trans by blast
  have cfg: "the_cfg st1 = the_cfg st" using com_same_cfg [OF same1] by simp
  have min: "min_delay j ?st = min_delay j st1" for j by (simp add: min_delay_def)
  have "pdu_step (unat i) st (restart_delay i IPdu st2)"
    using zero r(3) has_pdu_at(4) [OF at pdu] by (simp add: pdu_step_def min_delay_factor_def)
  moreover have "min_delay j (restart_delay i IPdu st2) = min_delay j st \<and> pdu_sent j (restart_delay i IPdu st2) = pdu_sent j st"
    if "j < length (ComIPdu (the_cfg st))" "j \<noteq> unat i" for j
  proof -
    have "min_delay j st2 = min_delay j ?st" "pdu_sent j st2 = pdu_sent j ?st" using st2 unfolding com_still_def by blast+
    moreover have "min_delay j st1 = min_delay j st" "pdu_sent j st1 = pdu_sent j st" using st1 unfolding com_still_def by blast+
    moreover have "pdu_sent j ?st = pdu_sent j st1" using that by (intro transmit_fields [OF at1 pdu]) (simp_all add: cfg)
    ultimately show ?thesis unfolding r(2) r(4) [OF that(2)] min by simp
  qed
  ultimately show ?thesis using same by (simp add: tx_step_def)
qed

text \<open>The stages of a transmission.\<close>

lemma send_ipdu_stages:
  assumes at: "com_at env sh d st" and pdu: "has_pdu sh i IPdu ptrs" and base: "fst ptrs = Some base"
  obtains c st1 r st2 where "tx_counter env IPdu base st = Some (c, st1)" "com_still st st1"
    "com_still (st1\<lparr>com_calls := com_calls st1 @
       [Transmit (ArcIPduOutgoingId IPdu) (take (unat (ComIPduSize IPdu)) (drop base (Com_Arc_Buffer st1)))]\<rparr>) st2"
    "send_ipdu env i IPdu st = Some (r, restart_delay i IPdu st2)"
proof -
  note p = has_pdu_at [OF at pdu]
  have base': "base + unat (ComIPduSize IPdu) \<le> sh_buf sh"
    and refs: "\<And>s. s \<in> set (signal_refs IPdu) \<Longrightarrow> signal_ref_ok env sh base s"
    and cntr: "\<And>c. ComIpduCounterRef IPdu = Some c \<Longrightarrow> counter_ok env sh base IPdu c"
    using p(11) base by (auto simp: pdu_ok_def list_all_iff)
  have len: "SduLength IPdu a = ComIPduSize IPdu" for a using p(11) by (simp add: pdu_ok_def SduLength_def)
  obtain c st1 where c: "tx_counter env IPdu base st = Some (c, st1)" "com_still st st1"
    "\<And>v k. c = Some (v, k) \<Longrightarrow> unat k < sh_cntrs sh"
    using still_tx_counter [OF at base' cntr] unfolding returns_def by auto
  have at1: "com_at env sh d st1" using still.R_at [OF c(2) at] .
  let ?sdu = "take (unat (ComIPduSize IPdu)) (drop base (Com_Arc_Buffer st1))"
  let ?ok = "PduR_ComTransmit env (com_calls st1) (ArcIPduOutgoingId IPdu) ?sdu"
  let ?st = "st1\<lparr>com_calls := com_calls st1 @ [Transmit (ArcIPduOutgoingId IPdu) ?sdu]\<rparr>"
  have at2: "com_at env sh d ?st" using same_transmit at1 by (rule com_same_at)
  have "returns (if ?ok then do { st \<leftarrow> clear_update_bits IPdu base ?st; store_counter c st }
      else Com_Misc_UnlockTpBuffer i ?st) (com_still ?st)"
    using still_unlock [OF at2 pdu] still_clear_update_bits [OF at2 refs] still_store_counter [of env sh d _ c] c(3)
    by (intro returns_if still.bind [OF at2]) auto
  then obtain st2 where st2: "(if ?ok then do { st \<leftarrow> clear_update_bits IPdu base ?st; store_counter c st }
      else Com_Misc_UnlockTpBuffer i ?st) = Some st2" "com_still ?st st2"
    unfolding returns_def by blast
  have "com_at env sh d st2" using still.R_at [OF st2(2) at2] .
  note r = upd_delay(1) [OF this pdu, where g = "\<lambda>_. ComTxIPduMinimumDelayFactor (ComTxIPdu IPdu)"]
  have "send_ipdu env i IPdu st = Some (if ?ok then COM_TX_TRIGGERED else COM_TX_NOT_TRIGGERED, restart_delay i IPdu st2)"
    using p(6,9) base c(1) get_bytes_at [OF at1 base'] st2(1) r by (simp add: send_ipdu_def deref_def len Let_def)
  then show ?thesis using that c(1,2) st2(2) by blast
qed

lemma step_send_ipdu:
  assumes at: "com_at env sh d st" and pdu: "has_pdu sh i IPdu ptrs" and zero: "min_delay (unat i) st = 0"
  shows "returns (send_ipdu env i IPdu st) (\<lambda>x. tx_step (unat i) st (snd x))"
proof -
  obtain base where "fst ptrs = Some base" using pdu_okD [OF has_pdu_at(11) [OF at pdu]] by metis
  from send_ipdu_stages [OF at pdu this] step_transmit [OF at pdu zero] show ?thesis by (metis returns_Some snd_conv)
qed

text \<open>What is handed to the PDU router, when no counter is put into the I-PDU.\<close>

lemma send_ipdu_sends:
  assumes at: "com_at env sh d st" and pdu: "has_pdu sh i IPdu ptrs" and base: "fst ptrs = Some base"
    and c: "ComIpduCounterRef IPdu = None"
  shows "returns (send_ipdu env i IPdu st) (\<lambda>x. com_same st (snd x) \<and> pdu_sent (unat i) (snd x) = pdu_sent (unat i) st @
    [Transmit (ArcIPduOutgoingId IPdu) (take (unat (ComIPduSize IPdu)) (drop base (Com_Arc_Buffer st)))])"
proof -
  let ?t = "Transmit (ArcIPduOutgoingId IPdu) (take (unat (ComIPduSize IPdu)) (drop base (Com_Arc_Buffer st)))"
  have "tx_counter env IPdu base st = Some (None, st)" using c by (simp add: tx_counter_def)
  with send_ipdu_stages [OF at pdu base] obtain r st2 where
    st2: "com_still (st\<lparr>com_calls := com_calls st @ [?t]\<rparr>) st2" "send_ipdu env i IPdu st = Some (r, restart_delay i IPdu st2)"
    by (metis Pair_inject option.inject)
  have same: "com_same st st2" using st2(1) same_transmit com_same_trans unfolding com_still_def by blast
  note u = upd_delay(2,3) [OF com_same_at [OF same at] pdu, where g = "\<lambda>_. ComTxIPduMinimumDelayFactor (ComTxIPdu IPdu)"]
  have "pdu_sent (unat i) st2 = pdu_sent (unat i) (st\<lparr>com_calls := com_calls st @ [?t]\<rparr>)"
    using st2(1) unfolding com_still_def by blast
  also have "\<dots> = pdu_sent (unat i) st @ [?t]"
    using has_pdu_at(4) [OF at pdu] by (simp add: pdu_sent_def the_cfg_def is_transmit_def)
  finally show ?thesis using st2(2) u com_same_trans [OF same u(1)] by simp
qed

lemma step_TriggerIPDUSend:
  assumes at: "com_at env sh (Suc d) st" and pdu: "has_pdu sh i IPdu ptrs"
  shows "returns (Com_Misc_TriggerIPDUSend env i st) (\<lambda>x. tx_step (unat i) st (snd x))"
proof -
  note p = has_pdu_at [OF at pdu]
  obtain base where base: "fst ptrs = Some base" "base + unat (ComIPduSize IPdu) \<le> sh_buf sh"
    using pdu_okD [OF p(11)] by metis
  let ?st = "ea_enter st"
  have e: "com_at env sh d ?st" using at by (rule com_at_enter)
  let ?delay = "ComTxIPduMinimumDelayTimer (Com_Arc_TxIPduTimers (Com_Arc_IPdu st ! unat i))"
  let ?body = "if ?delay = 0 then do {
      (status, st) \<leftarrow> tx_callout (ComTxIPduCallouts env) (ComTxIPduCallout IPdu) i (Some base) (ComIPduSize IPdu) ?st;
      if status then send_ipdu env i IPdu st else Some (COM_TX_NOT_TRIGGERED, st) }
    else Some (COM_TX_MIN_DELAY_NOT_FULFILLED, ?st)"
  have co: "returns (tx_callout (ComTxIPduCallouts env) (ComTxIPduCallout IPdu) i (Some base) (ComIPduSize IPdu) ?st)
      (\<lambda>x. com_still ?st (snd x))"
    using p(11) shape_ok_facts(10) [OF at] by (intro still_tx_callout [OF e base(2)]) (simp_all add: pdu_ok_def)
  have send: "returns (send_ipdu env i IPdu st') (\<lambda>x. tx_step (unat i) ?st (snd x))" if "?delay = 0" "com_still ?st st'" for st'
  proof -
    have "com_at env sh d st'" using still.R_at [OF that(2) e] .
    moreover have "min_delay (unat i) st' = 0" using that by (simp add: com_still_def) (simp add: min_delay_def)
    ultimately have "returns (send_ipdu env i IPdu st') (\<lambda>x. tx_step (unat i) st' (snd x))" using pdu by (intro step_send_ipdu)
    then show ?thesis using tx.R_trans [OF tx.R_still [OF that(2)]] by (blast intro: returns_mono)
  qed
  have body: "returns ?body (\<lambda>x. tx_step (unat i) ?st (snd x))"
  proof (intro returns_if)
    assume d: "?delay = 0"
    from co show "returns (do {
      (status, st) \<leftarrow> tx_callout (ComTxIPduCallouts env) (ComTxIPduCallout IPdu) i (Some base) (ComIPduSize IPdu) ?st;
      if status then send_ipdu env i IPdu st else Some (COM_TX_NOT_TRIGGERED, st) }) (\<lambda>x. tx_step (unat i) ?st (snd x))"
      by (rule returns_bind) (auto simp: send [OF d] tx.R_still)
  qed (simp add: tx.R_refl)
  have whole: "Com_Misc_TriggerIPDUSend env i st = do { (r, st) \<leftarrow> ?body; Some (r, ea_exit st) }"
    using p(5,6,9) base(1) by (simp add: Com_Misc_TriggerIPDUSend_def)
  show ?thesis unfolding whole by (rule returns_bind [OF body]) (auto simp: tx.R_exit [OF at])
qed

lemma step_trigger_now:
  assumes at: "com_at env sh (Suc d) st" and pdu: "has_pdu sh i IPdu ptrs"
  shows "returns (trigger_now env i IPdu n st) (\<lambda>x. tx_step (unat i) st (snd (snd x)))"
proof (cases "0 < n")
  case True
  have t: "returns (upd_timers i (\<lambda>t. t\<lparr>ComTxModeRepetitionPeriodTimer := v\<rparr>) st') (tx_step (unat i) st')"
    if "com_at env sh (Suc d) st'" for st' v
    by (intro tx.of_still still_upd_timers [OF that pdu]) simp
  show ?thesis
    unfolding trigger_now_def if_P [OF True]
  proof (rule tx.bind2 [OF at step_TriggerIPDUSend [OF at pdu]])
    fix r st' assume at': "com_at env sh (Suc d) st'"
    show "returns (let period = ComTxModeRepetitionPeriodFactor (tx_mode IPdu)
        in case r of
           COM_TX_TRIGGERED \<Rightarrow> do {
             st \<leftarrow> upd_timers i (\<lambda>t. t\<lparr>ComTxModeRepetitionPeriodTimer := period\<rparr>) st'; Some (True, n - 1, st) }
         | COM_TX_MIN_DELAY_NOT_FULFILLED \<Rightarrow> do {
             st \<leftarrow> upd_timers i (\<lambda>t. t\<lparr>ComTxModeRepetitionPeriodTimer := 0\<rparr>) st'; Some (False, n, st) }
         | COM_TX_NOT_TRIGGERED \<Rightarrow> do {
             st \<leftarrow> upd_timers i (\<lambda>t. t\<lparr>ComTxModeRepetitionPeriodTimer := period\<rparr>) st'; Some (False, n - 1, st) })
        (\<lambda>y. tx_step (unat i) st' (snd (snd y)))"
      unfolding Let_def
      by (cases r) (auto intro!: returns_bind [OF t [OF at']])
  qed
qed (simp add: trigger_now_def tx.R_refl)

lemma step_TriggerTxOnConditions:
  assumes at: "com_at env sh (Suc d) st" and pdu: "has_pdu sh i IPdu ptrs"
  shows "returns (Com_Misc_TriggerTxOnConditions env i changed prop st) (\<lambda>x. tx_step (unat i) st (snd x))"
proof -
  note p = has_pdu_at [OF at pdu]
  have u: "returns (upd_pdu i (restart_repetitions now n) st') (tx_step (unat i) st')" if "com_at env sh (Suc d) st'" for now n st'
    by (intro tx.of_still still_upd_pdu [OF that pdu]) (simp_all add: restart_repetitions_def Let_def)
  have "returns (do {
      (triggeredNow, nofReps, st) \<leftarrow> trigger_now env i IPdu (nof_reps IPdu prop) st;
      st \<leftarrow> upd_pdu i (restart_repetitions triggeredNow nofReps) st;
      Some (True, st) }) (\<lambda>x. tx_step (unat i) st (snd x))"
    by (rule tx.bind [OF at step_trigger_now [OF at pdu]])
      (auto simp: case_prod_unfold intro!: returns_bind [OF u])
  then show ?thesis using p(5,6) by (auto simp: Com_Misc_TriggerTxOnConditions_def tx.R_refl)
qed

lemma step_trigger_result:
  assumes at: "com_at env sh (Suc d) st" and pdu: "has_pdu sh (ComIPduHandleId s) IPdu ptrs"
  shows "returns (trigger_result env s changed st) (\<lambda>x. tx_step (unat (ComIPduHandleId s)) st (snd x))"
  unfolding trigger_result_def
  by (rule tx.bind2 [OF at step_TriggerTxOnConditions [OF at pdu]]) (simp add: tx.R_refl)

lemma ipdu_in_range_at: "com_at env sh d st \<Longrightarrow> ipdu_in_range i st = (unat i < length (ComIPdu (the_cfg st)))"
  using com_at_shape(4) [of env sh d st] shape_ok_facts(3) [of env sh d st]
  by (simp add: ipdu_in_range_def word_less_nat_alt)

lemma ipdu_in_range_pdu:
  assumes "com_at env sh d st" "ipdu_in_range i st"
  obtains IPdu ptrs where "has_pdu sh i IPdu ptrs"
  using assms has_pdu_index ipdu_in_range_at by blast

lemma step_Com_TriggerIPDUSend:
  assumes at: "com_at env sh (Suc d) st" and pdu: "has_pdu sh i IPdu ptrs"
  shows "returns (Com_TriggerIPDUSend env i st) (tx_step (unat i) st)"
  unfolding Com_TriggerIPDUSend_def
  by (intro returns_map tx.guard [OF at] tx.bind2 [OF at step_TriggerIPDUSend [OF at pdu]]) (simp add: tx.R_refl)

section \<open>The main function\<close>

lemma still_timers_tx:
  assumes "com_at env sh d st" "has_pdu sh i IPdu ptrs" "\<And>t. ComTxIPduMinimumDelayTimer (f t) = ComTxIPduMinimumDelayTimer t"
  shows "returns (upd_timers i f st) (tx_step k st)"
  using assms by (intro tx.of_still still_upd_timers) simp_all

lemma step_repeat_tx:
  assumes at: "com_at env sh (Suc d) st" and pdu: "has_pdu sh i IPdu ptrs"
  shows "returns (repeat_tx env i IPdu dmTimeOut st) (tx_step (unat i) st)"
  unfolding repeat_tx_def
proof (rule tx.bind [OF at, where f = "\<lambda>x. x"], goal_cases)
  case 1
  show ?case by (intro still_timers_tx [OF at pdu]) simp
next
  case (2 st')
  then show ?case
    unfolding has_pdu_at(6) [OF 2 pdu] Option.bind.bind_lunit Let_def
    by (intro returns_if tx.bind [OF 2 step_Com_TriggerIPDUSend [OF 2 pdu]] still_timers_tx [OF _ pdu])
      (simp_all add: tx.R_refl)
qed

lemma step_ProcessDirect:
  assumes at: "com_at env sh (Suc d) st" and pdu: "has_pdu sh i IPdu ptrs"
  shows "returns (Com_ProcessDirectTxMode env i dmTimeOut st) (tx_step (unat i) st)"
  using has_pdu_at(5,6) [OF at pdu] step_repeat_tx [OF at pdu, of dmTimeOut]
  by (simp add: Com_ProcessDirectTxMode_def tx.R_refl)

lemma step_ProcessMixed:
  assumes at: "com_at env sh (Suc d) st" and pdu: "has_pdu sh i IPdu ptrs"
  shows "returns (Com_ProcessMixedOrPeriodicTxMode env i dmTimeOut st) (tx_step (unat i) st)"
  unfolding Com_ProcessMixedOrPeriodicTxMode_def has_pdu_at(5) [OF at pdu] Option.bind.bind_lunit
proof (rule tx.bind [OF at, where f = "\<lambda>x. x"], goal_cases)
  case 1
  show ?case by (intro still_timers_tx [OF at pdu]) simp
next
  case (2 st1)
  show ?case
    unfolding has_pdu_at(6) [OF 2 pdu] Option.bind.bind_lunit
  proof (rule tx.bind [OF 2, where f = "\<lambda>x. x"], goal_cases)
    case 1
    show ?case using step_repeat_tx [OF 2 pdu] by (simp add: tx.R_refl)
  next
    case (2 st2)
    then show ?case
      unfolding has_pdu_at(6) [OF 2 pdu] Option.bind.bind_lunit Let_def
      by (intro returns_if tx.bind [OF 2 step_Com_TriggerIPDUSend [OF 2 pdu]] tx.of_still still_upd_pdu [OF _ pdu])
        (simp_all add: tx.R_refl)
  qed
qed

text \<open>
  A call of the main function for one I-PDU: the minimum delay runs by at most one, and the I-PDU is
  transmitted only if the delay has expired then.
\<close>

definition pdu_tick :: "nat \<Rightarrow> com \<Rightarrow> com \<Rightarrow> bool" where
  "pdu_tick i st st' \<longleftrightarrow>
     min_delay i st - 1 \<le> min_delay i st' \<and> min_delay i st' \<le> min_delay i st \<and> pdu_sent i st' = pdu_sent i st \<or>
     min_delay i st \<le> 1 \<and> min_delay i st' = min_delay_factor i st"

definition tick_step :: "nat \<Rightarrow> com \<Rightarrow> com \<Rightarrow> bool" where
  "tick_step i st st' \<longleftrightarrow> com_same st st' \<and> pdu_tick i st st' \<and>
     (\<forall>j < length (ComIPdu (the_cfg st)). j \<noteq> i \<longrightarrow> min_delay j st' = min_delay j st \<and> pdu_sent j st' = pdu_sent j st)"

lemma pdu_tick_step: "pdu_tick i a b \<Longrightarrow> pdu_step i b c \<Longrightarrow> the_cfg b = the_cfg a \<Longrightarrow> pdu_tick i a c"
  by (auto simp: pdu_tick_def pdu_step_def min_delay_factor_def)

lemma tick_tx: "tick_step i a b \<Longrightarrow> tx_step i b c \<Longrightarrow> tick_step i a c"
  using com_same_cfg [of a b] pdu_tick_step [of i a b c] com_same_trans [of a b c] by (auto simp: tick_step_def tx_step_def)

lemma tick_still: "com_still a b \<Longrightarrow> tick_step i a b"
  by (simp add: tick_step_def com_still_def pdu_tick_def)

lemma tick_exit: "com_at env sh (Suc d) st \<Longrightarrow> tick_step i (ea_enter st) st' \<Longrightarrow> tick_step i st (ea_exit st')"
  using same_exit by (auto simp: tick_step_def pdu_tick_def)

lemma tick_next:
  assumes "com_at env sh d st" "returns m (\<lambda>x. tick_step i st (f x))"
    and "\<And>x. com_at env sh d (f x) \<Longrightarrow> returns (k x) (\<lambda>y. tx_step i (f x) (g y))"
  shows "returns (m \<bind> k) (\<lambda>y. tick_step i st (g y))"
  using assms(2)
proof (rule returns_bind)
  fix x assume x: "tick_step i st (f x)"
  then have "com_at env sh d (f x)" using assms(1) com_same_at unfolding tick_step_def by blast
  from assms(3) [OF this] show "returns (k x) (\<lambda>y. tick_step i st (g y))"
    using tick_tx [OF x] by (blast intro: returns_mono)
qed

lemma unat_timerDec: "unat (timerDec t) = unat t - 1"
proof (cases "0 < t")
  case True
  then have "1 \<le> t" using inc_le [of 0 t] by simp
  then have "unat (t - 1) = unat t - unat (1 :: uint32)" by (rule unat_sub)
  then show ?thesis using True by (simp add: timerDec_def)
next
  case False
  then have "t = 0" by (simp add: word_greater_zero_iff)
  then show ?thesis by (simp add: timerDec_def)
qed

lemma step_tx_timers:
  assumes at: "com_at env sh d st" and pdu: "has_pdu sh i IPdu ptrs"
  shows "returns (tx_timers i st) (\<lambda>x. tick_step (unat i) st (snd x))"
  unfolding tx_timers_def
proof (rule tick_next [OF at, where f = "\<lambda>x. x"], goal_cases)
  case 1
  note u = upd_delay [OF at pdu, where g = timerDec]
  show ?case unfolding u(1) returns_Some
    using u(2-5) unat_timerDec by (auto simp: tick_step_def pdu_tick_def min_delay_def)
next
  case (2 st1)
  show ?case
    unfolding has_pdu_at(6) [OF 2 pdu] Option.bind.bind_lunit
    by (intro returns_if tx.next_st [OF 2 tx.R_refl still_timers_tx [OF 2 pdu]])
      (simp_all add: has_pdu_at(6) [OF _ pdu] tx.R_refl)
qed

lemma pdu_refs:
  assumes "pdu_ok env sh IPdu ptrs" "s \<in> set (signal_refs IPdu)"
  shows "unat (ComHandleId s) < length (sh_sigs sh)" "callout_ok (ComNotificationCallouts env) (ComNotification s)"
    "callout_ok (ComNotificationCallouts env) (ComTimeoutNotification s)"
  using assms by (auto simp: pdu_ok_def list_all_iff signal_ref_ok_def split: option.splits)

lemma pdu_SignalRef: "pdu_ok env sh IPdu ptrs \<Longrightarrow> ComIPduSignalRef IPdu = Some (signal_refs IPdu)"
  by (auto simp: pdu_ok_def signal_refs_def)

lemma still_SetTxConfirmationStatus:
  assumes at: "com_at env sh d st" and ok: "pdu_ok env sh IPdu ptrs"
  shows "returns (Com_Misc_SetTxConfirmationStatus IPdu v st) (com_still st)"
  unfolding Com_Misc_SetTxConfirmationStatus_def pdu_SignalRef [OF ok]
  using still_upd_sig [OF at, of "ComHandleId (hd (signal_refs IPdu))"] pdu_refs(1) [OF ok, of "hd (signal_refs IPdu)"]
  by (auto simp: deref_def split: list.split)

lemma GetTxConfirmationStatus_at:
  assumes at: "com_at env sh d st" and ok: "pdu_ok env sh IPdu ptrs"
  obtains v where "Com_Misc_GetTxConfirmationStatus IPdu st = Some v"
  using GET_ArcSignal_at [OF at, of "ComHandleId (hd (signal_refs IPdu))"] pdu_refs(1) [OF ok, of "hd (signal_refs IPdu)"]
  unfolding Com_Misc_GetTxConfirmationStatus_def pdu_SignalRef [OF ok]
  by (cases "signal_refs IPdu") (auto simp: deref_def)

lemma still_tx_notify:
  assumes at: "com_at env sh d st" and ok: "pdu_ok env sh IPdu ptrs"
  shows "returns (for_each (tx_notify env c t) (signal_refs IPdu) st) (com_still st)"
proof (rule still.each [OF at])
  fix s st' assume s: "s \<in> set (signal_refs IPdu)" and at': "com_at env sh d st'"
  note n = pdu_refs(2,3) [OF ok s, THEN still_notify]
  show "returns (tx_notify env c t s st') (com_still st')"
    unfolding tx_notify_def by (rule still.bind [OF at', where f = "\<lambda>x. x"]) (use n in simp_all)
qed

lemma step_tx_pdu:
  assumes at: "com_at env sh (Suc (Suc d)) st" and pdu: "has_pdu sh i IPdu ptrs"
  shows "returns (tx_pdu env i st) (tick_step (unat i) st)"
proof -
  note p = has_pdu_at [OF at pdu]
  let ?e = "ea_enter st"
  have e: "com_at env sh (Suc d) ?e" using at by (rule com_at_enter)
  let ?mode = "\<lambda>dmTimeOut st. case ComTxModeMode (tx_mode IPdu) of
      COM_PERIODIC \<Rightarrow> Com_ProcessMixedOrPeriodicTxMode env i dmTimeOut st
    | COM_MIXED \<Rightarrow> Com_ProcessMixedOrPeriodicTxMode env i dmTimeOut st
    | COM_DIRECT \<Rightarrow> Com_ProcessDirectTxMode env i dmTimeOut st
    | COM_NONE \<Rightarrow> Some st"
  let ?rest = "\<lambda>dmTimeOut st. do {
    confirmationStatus \<leftarrow> Com_Misc_GetTxConfirmationStatus IPdu st;
    st \<leftarrow> Com_Misc_SetTxConfirmationStatus IPdu False st;
    for_each (tx_notify env confirmationStatus dmTimeOut) (signal_refs IPdu) st }"
  have mode: "returns (?mode t st') (tx_step (unat i) st')" if "com_at env sh (Suc d) st'" for t st'
    using step_ProcessMixed [OF that pdu] step_ProcessDirect [OF that pdu]
    by (simp add: tx.R_refl split: ComTxModeModeType.split)
  have rest: "returns (?rest t st') (tx_step (unat i) st')" if at': "com_at env sh (Suc (Suc d)) st'" for t st'
  proof -
    obtain v where v: "Com_Misc_GetTxConfirmationStatus IPdu st' = Some v"
      using GetTxConfirmationStatus_at [OF at' p(11)] .
    show ?thesis unfolding v Option.bind.bind_lunit
      by (rule tx.bind [OF at' tx.of_still [OF still_SetTxConfirmationStatus [OF at' p(11)]]])
        (intro tx.of_still still_tx_notify [OF _ p(11)])
  qed
  have first: "returns (do { (t, st) \<leftarrow> tx_timers i ?e; st \<leftarrow> ?mode t st; Some (t, ea_exit st) })
      (\<lambda>x. tick_step (unat i) st (snd x))"
  proof -
    have "returns (do { (t, st) \<leftarrow> tx_timers i ?e; st \<leftarrow> ?mode t st; Some (t, st) }) (\<lambda>x. tick_step (unat i) ?e (snd x))"
      by (rule tick_next [OF e step_tx_timers [OF e pdu]])
        (auto simp: case_prod_unfold intro!: returns_bind [OF mode])
    then show ?thesis using tick_exit [OF at] by (auto simp: returns_def Option.bind_eq_Some_conv case_prod_unfold)
  qed
  have whole: "tx_pdu env i st = (if ComIPduDirection IPdu = COM_SEND \<and> Com_Arc_IpduStarted (Com_Arc_IPdu st ! unat i)
      then do { (t, st) \<leftarrow> do { (t, st) \<leftarrow> tx_timers i ?e; st \<leftarrow> ?mode t st; Some (t, ea_exit st) }; ?rest t st } else Some st)"
    unfolding tx_pdu_def p(5,6) by (simp add: Let_def case_prod_unfold)
  have "returns (do { (t, st) \<leftarrow> do { (t, st) \<leftarrow> tx_timers i ?e; st \<leftarrow> ?mode t st; Some (t, ea_exit st) }; ?rest t st })
      (tick_step (unat i) st)"
    by (rule tick_next [OF at first]) (simp only: case_prod_unfold, intro rest)
  then show ?thesis unfolding whole by (simp add: tick_still)
qed

text \<open>The loop over all I-PDUs: each is handled once.\<close>

lemma for_each_map: "for_each f (map g xs) st = for_each (\<lambda>x. f (g x)) xs st"
proof (induction xs arbitrary: st)
  case (Cons x xs)
  then show ?case by (cases "f (g x) st") simp_all
qed simp

lemma pdu_ids_at: "com_at env sh d st \<Longrightarrow> pdu_ids st = Some (map of_nat [0..<length (ComIPdu (the_cfg st))])"
  using com_at_shape(4) [of env sh d st] by (simp add: pdu_ids_def deref_def)

lemma has_pdu_id:
  assumes "com_at env sh d st" "k < length (ComIPdu (the_cfg st))"
  shows "unat (of_nat k :: uint16) = k" "has_pdu sh (of_nat k) (ComIPdu (the_cfg st) ! k) (sh_pdus sh ! k)"
proof -
  show k: "unat (of_nat k :: uint16) = k" using shape_ok_facts(7) [OF assms(1)] assms(2) by (simp add: unat_of_nat)
  show "has_pdu sh (of_nat k) (ComIPdu (the_cfg st) ! k) (sh_pdus sh ! k)"
    using has_pdu_index [OF assms(1), of "of_nat k"] assms(2) k by simp
qed

definition main_step :: "com \<Rightarrow> com \<Rightarrow> bool" where
  "main_step st st' \<longleftrightarrow> com_same st st' \<and> (\<forall>i < length (ComIPdu (the_cfg st)). pdu_tick i st st')"

lemma main_MainFunctionTx:
  assumes at: "com_at env sh (Suc (Suc d)) st"
  shows "returns (Com_MainFunctionTx env st) (main_step st)"
proof -
  let ?n = "length (ComIPdu (the_cfg st))"
  define P where "P k st' \<longleftrightarrow> com_same st st' \<and> (\<forall>j<?n.
      if j < k then pdu_tick j st st' else min_delay j st' = min_delay j st \<and> pdu_sent j st' = pdu_sent j st)" for k st'
  have "\<exists>st'. for_each (\<lambda>k. tx_pdu env (of_nat k)) [0..<?n] st = Some st' \<and> P ?n st'"
  proof (rule for_each_upt)
    show "P 0 st" by (simp add: P_def)
  next
    fix k st1 assume k: "k < ?n" and P: "P k st1"
    then have same: "com_same st st1" by (simp add: P_def)
    note at1 = com_same_at [OF same at] and cfg = com_same_cfg [OF same]
    obtain st2 where st2: "tx_pdu env (of_nat k) st1 = Some st2" "tick_step k st1 st2"
      using step_tx_pdu [OF at1 has_pdu_id(2) [OF at1], of k] has_pdu_id(1) [OF at1, of k] k cfg unfolding returns_def by auto
    have "P (Suc k) st2"
      unfolding P_def
    proof (intro conjI allI impI)
      show "com_same st st2" using same st2(2) com_same_trans unfolding tick_step_def by blast
      fix j assume j: "j < ?n"
      have other: "min_delay j st2 = min_delay j st1 \<and> pdu_sent j st2 = pdu_sent j st1" if "j \<noteq> k"
        using st2(2) j that cfg by (simp add: tick_step_def)
      have self: "min_delay k st1 = min_delay k st \<and> pdu_sent k st1 = pdu_sent k st" using P k by (simp add: P_def)
      have tick: "pdu_tick k st1 st2" using st2(2) by (simp add: tick_step_def)
      show "if j < Suc k then pdu_tick j st st2 else min_delay j st2 = min_delay j st \<and> pdu_sent j st2 = pdu_sent j st"
      proof (cases "j = k")
        case True
        then show ?thesis using self tick cfg by (simp add: pdu_tick_def min_delay_factor_def)
      next
        case False
        then show ?thesis using other P j by (auto simp: P_def pdu_tick_def)
      qed
    qed
    then show "\<exists>st'. tx_pdu env (of_nat k) st1 = Some st' \<and> P (Suc k) st'" using st2 by blast
  qed
  then show ?thesis
    using pdu_ids_at [OF at] com_at_shape(1) [OF at]
    by (auto simp: Com_MainFunctionTx_def for_each_map P_def main_step_def)
qed

end
