(* ===== verification/Com_Services.thy ===== *)
theory Com_Services
  imports Com_Tx
begin

text \<open>
  The other services of the module: every one of them returns on a well-configured module, for arguments
  that fit, and is a \<open>com_step\<close>.
\<close>

section \<open>Sending\<close>

lemma GET_Signal_at:
  assumes "com_at env sh d st" "unat i < length (ComSignal (the_cfg st))"
  shows "GET_Signal i st = Some (ComSignal (the_cfg st) ! unat i)"
    "signal_ok sh (the_cfg st) (ComSignal (the_cfg st) ! unat i)"
  using com_at_shape(4) [OF assms(1)] shape_ok_facts(9) [OF assms(1)] assms(2)
  by (simp_all add: GET_Signal_def deref_def ub_simps list_all_length)

lemma signal_in_range_at: "com_at env sh d st \<Longrightarrow> signal_in_range i st = (unat i < length (ComSignal (the_cfg st)))"
  using com_at_shape(4) [of env sh d st] shape_ok_facts(4) [of env sh d st]
  by (simp add: signal_in_range_def word_less_nat_alt)

lemma group_signal_in_range_at:
  "com_at env sh d st \<Longrightarrow> group_signal_in_range i st = (unat i < length (ComGroupSignals (the_cfg st)))"
  using com_at_shape(4) [of env sh d st] shape_ok_facts(5) [of env sh d st]
  by (simp add: group_signal_in_range_def word_less_nat_alt)

text \<open>A signal that is connected to an I-PDU.\<close>

lemma signal_pdu:
  assumes at: "com_at env sh d st" and ok: "signal_ok sh (the_cfg st) s" and h: "ComIPduHandleId s \<noteq> NO_PDU_REFERENCE"
  obtains IPdu ptrs base where "has_pdu sh (ComIPduHandleId s) IPdu ptrs" "fst ptrs = Some base"
    "base + unat (ComUpdateBitPosition s) div 8 < sh_buf sh"
    "\<not> Com_Arc_IsSignalGroup s \<Longrightarrow>
       access_ok (sh_buf sh) base (ComBitPosition s) (ComBitSize s) (ComSignalEndianess s) (ComSignalType s)"
    "\<not> Com_Arc_IsSignalGroup s \<Longrightarrow> \<exists>b. read_buffer IPdu ptrs = Some b \<and>
       access_ok (sh_buf sh) b (ComBitPosition s) (ComBitSize s) (ComSignalEndianess s) (ComSignalType s)"
    "Com_Arc_IsSignalGroup s \<Longrightarrow> \<exists>b. sh_sigs sh ! unat (ComHandleId s) = Some b \<and>
       b + unat (ComIPduSize IPdu) \<le> sh_buf sh \<and> unat (ComIPduSize IPdu) \<le> length (Com_Arc_ShadowBuffer_Mask s)"
proof -
  let ?i = "unat (ComIPduHandleId s)"
  have i: "?i < length (ComIPdu (the_cfg st))" using ok h by (simp add: signal_ok_def)
  show ?thesis
    by (rule that [OF has_pdu_index [OF at i], of "the (fst (sh_pdus sh ! ?i))"])
      (use ok h in \<open>auto simp: signal_ok_def Let_def split: option.splits\<close>)
qed

lemma still_set_update_bit:
  assumes "com_at env sh d st" "base + unat (ComUpdateBitPosition s) div 8 < sh_buf sh"
  shows "returns (set_update_bit s (Some base) st) (com_still st)"
  using still_SETBIT [OF assms] by (simp add: set_update_bit_def deref_def)

lemma step_Com_SendSignal:
  assumes at: "com_at env sh (Suc (Suc d)) st"
    and s: "\<And>s. unat i < length (ComSignal (the_cfg st)) \<Longrightarrow> s = ComSignal (the_cfg st) ! unat i \<Longrightarrow>
      \<not> Com_Arc_IsSignalGroup s \<and> value_bytes (ComBitSize s) (ComSignalEndianess s) (ComSignalType s) \<le> length data"
  shows "returns (Com_SendSignal env i data st) (\<lambda>x. com_step st (snd x))"
  unfolding Com_SendSignal_def
proof (rule step.guard [OF at], goal_cases)
  case 1
  then have i: "unat i < length (ComSignal (the_cfg st))" using signal_in_range_at [OF at] by simp
  define s where "s = ComSignal (the_cfg st) ! unat i"
  note g = GET_Signal_at [OF at i, folded s_def] and s = s [OF i s_def]
  show ?case
  proof (cases "ComIPduHandleId s = NO_PDU_REFERENCE")
    case True
    then show ?thesis by (simp add: g step.R_refl)
  next
    case False
    then obtain IPdu ptrs base where pdu: "has_pdu sh (ComIPduHandleId s) IPdu ptrs" and base: "fst ptrs = Some base"
      and ub: "base + unat (ComUpdateBitPosition s) div 8 < sh_buf sh"
      and acc: "access_ok (sh_buf sh) base (ComBitPosition s) (ComBitSize s) (ComSignalEndianess s) (ComSignalType s)"
      using signal_pdu [OF at g(2)] s by metis
    note p = has_pdu_at [OF at pdu]
    let ?e = "ea_enter st"
    have e: "com_at env sh (Suc d) ?e" using at by (rule com_at_enter)
    have "returns (do { (dataChanged, st) \<leftarrow> write_signal_at base data (ComSignalType s)
          (ComBitPosition s) (ComBitSize s) (ComSignalEndianess s) ?e;
        st \<leftarrow> set_update_bit s (Some base) st;
        (ret, st) \<leftarrow> trigger_result env s dataChanged st;
        Some (ret, ea_exit st) }) (\<lambda>x. com_step st (snd x))"
    proof (rule step.next_pair [OF e step.R_refl])
      show "returns (write_signal_at base data (ComSignalType s) (ComBitPosition s) (ComBitSize s) (ComSignalEndianess s) ?e)
          (\<lambda>x. com_step ?e (snd x))"
        by (rule step.of_still [OF still_write_signal [OF e acc]]) (use s in simp)
    next
      fix c st1 assume st1: "com_at env sh (Suc d) st1" "com_step ?e st1"
      show "returns (do { st \<leftarrow> set_update_bit s (Some base) st1;
          (ret, st) \<leftarrow> trigger_result env s c st; Some (ret, ea_exit st) }) (\<lambda>x. com_step st (snd x))"
        by (rule step.next_st [OF st1 step.of_still [OF still_set_update_bit [OF st1(1) ub]]],
            rule step.next_pair [OF _ _ tx_returns [OF step_trigger_result [OF _ pdu]]])
          (auto intro: step.R_exit [OF at])
    qed
    then show ?thesis using False p(6,8,9) base g s(1)
      by (simp add: deref_def Let_def step.R_refl signal_ok_def case_prod_unfold)
  qed
qed

section \<open>Signal groups\<close>

lemma group_to_pdu_returns:
  "pdu + i + n \<le> length mem \<Longrightarrow> buf + i + n \<le> length mem \<Longrightarrow> i + n \<le> length msk \<Longrightarrow>
   \<exists>c mem'. group_to_pdu msk pdu buf i n changed mem = Some (c, mem') \<and> length mem' = length mem"
proof (induction n arbitrary: i changed mem)
  case (Suc n)
  let ?data = "(NOT (msk ! i) AND mem ! (pdu + i)) OR (msk ! i AND mem ! (buf + i))"
  show ?case using Suc.prems Suc.IH [of "Suc i" "mem[pdu + i := ?data]" "changed \<or> mem ! (pdu + i) \<noteq> ?data"]
    by (simp add: ub_simps Let_def)
qed simp

lemma group_from_pdu_returns:
  "pdu + i + n \<le> length mem \<Longrightarrow> buf + i + n \<le> length mem \<Longrightarrow> i + n \<le> length msk \<Longrightarrow>
   \<exists>mem'. group_from_pdu msk pdu buf i n mem = Some mem' \<and> length mem' = length mem"
proof (induction n arbitrary: i mem)
  case (Suc n)
  then show ?case using Suc.IH [of "Suc i" "mem[buf + i := msk ! i AND mem ! (pdu + i)]"] by (simp add: ub_simps)
qed simp

text \<open>The buffer from which a signal group is read, and to which one is sent.\<close>

lemma read_buffer_at:
  assumes "com_at env sh d st" "has_pdu sh i IPdu ptrs"
  obtains b where "read_buffer IPdu ptrs = Some b" "b + unat (ComIPduSize IPdu) \<le> sh_buf sh"
proof (cases "ComIPduSignalProcessing IPdu = COM_DEFERRED \<and> ComIPduDirection IPdu = COM_RECEIVE")
  case True
  then show ?thesis using has_pdu_at(11) [OF assms] that by (auto simp: pdu_ok_def read_buffer_def split: option.splits)
next
  case False
  then have "read_buffer IPdu ptrs = fst ptrs" unfolding read_buffer_def by (rule if_not_P)
  then show ?thesis using pdu_okD [OF has_pdu_at(11) [OF assms]] that by metis
qed

lemma still_CopyToPdu:
  assumes at: "com_at env sh d st" and i: "unat i < length (ComSignal (the_cfg st))"
    and s: "s = ComSignal (the_cfg st) ! unat i" "Com_Arc_IsSignalGroup s"
    and h: "ComIPduHandleId s \<noteq> NO_PDU_REFERENCE" and pdu: "has_pdu sh (ComIPduHandleId s) IPdu ptrs"
    and dst: "b = (ComIPduSignalProcessing IPdu = COM_DEFERRED \<and> ComIPduDirection IPdu = COM_RECEIVE)"
  shows "returns (Com_Misc_CopySignalGroupDataFromShadowBufferToPdu i b st) (\<lambda>x. com_still st (snd x))"
proof -
  note g = GET_Signal_at [OF at i, folded s(1)] and p = has_pdu_at [OF at pdu] and len = com_at_shape(6) [OF at]
  obtain buf where buf: "sh_sigs sh ! unat (ComHandleId s) = Some buf" "buf + unat (ComIPduSize IPdu) \<le> sh_buf sh"
    "unat (ComIPduSize IPdu) \<le> length (Com_Arc_ShadowBuffer_Mask s)"
    using signal_pdu [OF at g(2) h] s(2) pdu by (metis has_pdu_at(4) [OF at])
  have a: "unat (ComHandleId s) < length (sh_sigs sh)" using g(2) by (simp add: signal_ok_def)
  obtain dest where dest: "read_buffer IPdu ptrs = Some dest" "dest + unat (ComIPduSize IPdu) \<le> sh_buf sh"
    using read_buffer_at [OF at pdu] .
  obtain c mem where "group_to_pdu (Com_Arc_ShadowBuffer_Mask s) dest buf 0 (unat (ComIPduSize IPdu)) False (Com_Arc_Buffer st) =
      Some (c, mem)" "length mem = length (Com_Arc_Buffer st)"
    using group_to_pdu_returns [of dest 0 "unat (ComIPduSize IPdu)" "Com_Arc_Buffer st" buf "Com_Arc_ShadowBuffer_Mask s" False]
      dest(2) buf(2,3) len by auto
  then show ?thesis
    using g(1) p(5,6,9,10) GET_ArcSignal_at [OF at a] buf(1) dest(1) dst still_buffer [of mem st]
    by (auto simp: Com_Misc_CopySignalGroupDataFromShadowBufferToPdu_def read_buffer_def deref_def split: if_splits)
qed

lemma still_CopyFromPdu:
  assumes at: "com_at env sh d st" and i: "unat i < length (ComSignal (the_cfg st))"
    and s: "s = ComSignal (the_cfg st) ! unat i" "Com_Arc_IsSignalGroup s"
    and h: "ComIPduHandleId s \<noteq> NO_PDU_REFERENCE" and pdu: "has_pdu sh (ComIPduHandleId s) IPdu ptrs"
  shows "returns (Com_Misc_CopySignalGroupDataFromPduToShadowBuffer i st) (com_still st)"
proof -
  note g = GET_Signal_at [OF at i, folded s(1)] and p = has_pdu_at [OF at pdu] and len = com_at_shape(6) [OF at]
  obtain buf where buf: "sh_sigs sh ! unat (ComHandleId s) = Some buf" "buf + unat (ComIPduSize IPdu) \<le> sh_buf sh"
    "unat (ComIPduSize IPdu) \<le> length (Com_Arc_ShadowBuffer_Mask s)"
    using signal_pdu [OF at g(2) h] s(2) pdu by (metis has_pdu_at(4) [OF at])
  have a: "unat (ComHandleId s) < length (sh_sigs sh)" using g(2) by (simp add: signal_ok_def)
  obtain src where src: "read_buffer IPdu ptrs = Some src" "src + unat (ComIPduSize IPdu) \<le> sh_buf sh"
    using read_buffer_at [OF at pdu] .
  obtain mem where "group_from_pdu (Com_Arc_ShadowBuffer_Mask s) src buf 0 (unat (ComIPduSize IPdu)) (Com_Arc_Buffer st) = Some mem"
    "length mem = length (Com_Arc_Buffer st)"
    using group_from_pdu_returns [of src 0 "unat (ComIPduSize IPdu)" "Com_Arc_Buffer st" buf "Com_Arc_ShadowBuffer_Mask s"]
      src(2) buf(2,3) len by auto
  then show ?thesis
    using g(1) p(5,6,9,10) GET_ArcSignal_at [OF at a] buf(1) src(1) still_buffer [of mem st]
    by (auto simp: Com_Misc_CopySignalGroupDataFromPduToShadowBuffer_def read_buffer_def deref_def split: if_splits)
qed

lemma step_Com_SendSignalGroup:
  assumes at: "com_at env sh (Suc (Suc d)) st" and i: "unat i < length (ComSignal (the_cfg st))"
    and grp: "Com_Arc_IsSignalGroup (ComSignal (the_cfg st) ! unat i)"
  shows "returns (Com_SendSignalGroup env i st) (\<lambda>x. com_step st (snd x))"
  unfolding Com_SendSignalGroup_def
proof (rule step.guard [OF at], goal_cases)
  case 1
  define s where "s = ComSignal (the_cfg st) ! unat i"
  note g = GET_Signal_at [OF at i, folded s_def]
  show ?case
  proof (cases "ComIPduHandleId s = NO_PDU_REFERENCE")
    case True
    then show ?thesis by (simp add: g step.R_refl)
  next
    case False
    then obtain IPdu ptrs base where pdu: "has_pdu sh (ComIPduHandleId s) IPdu ptrs" and base: "fst ptrs = Some base"
      and ub: "base + unat (ComUpdateBitPosition s) div 8 < sh_buf sh"
      using signal_pdu [OF at g(2)] by metis
    note p = has_pdu_at [OF at pdu]
    have e: "com_at env sh (Suc d) (ea_enter st)" using at by (rule com_at_enter)
    have "returns (Com_Misc_CopySignalGroupDataFromShadowBufferToPdu i
        (ComIPduSignalProcessing IPdu = COM_DEFERRED \<and> ComIPduDirection IPdu = COM_RECEIVE) (ea_enter st))
        (\<lambda>x. com_step (ea_enter st) (snd x))"
      by (intro step.of_still still_CopyToPdu [OF e _ _ _ False pdu]) (simp_all add: i s_def grp)
    then show ?thesis
      unfolding g(1) p(5,6,8,9) base Option.bind.bind_lunit Let_def if_not_P [OF False]
      by (intro returns_if step.next_pair [OF e step.R_refl], simp add: step.R_refl)
        (simp, rule step.next_st [OF _ _ step.of_still [OF still_set_update_bit [OF _ ub]]],
          auto intro!: step.next_pair [OF _ _ tx_returns [OF step_trigger_result [OF _ pdu]]] step.R_exit [OF at])
  qed
qed

lemma step_Com_ReceiveSignalGroup:
  assumes at: "com_at env sh (Suc (Suc d)) st" and i: "unat i < length (ComSignal (the_cfg st))"
    and grp: "Com_Arc_IsSignalGroup (ComSignal (the_cfg st) ! unat i)"
  shows "returns (Com_ReceiveSignalGroup env i st) (\<lambda>x. com_step st (snd x))"
  unfolding Com_ReceiveSignalGroup_def
proof (rule step.guard [OF at], goal_cases)
  case 1
  define s where "s = ComSignal (the_cfg st) ! unat i"
  note g = GET_Signal_at [OF at i, folded s_def]
  show ?case
  proof (cases "ComIPduHandleId s = NO_PDU_REFERENCE")
    case True
    then show ?thesis by (simp add: g step.R_refl)
  next
    case False
    then obtain IPdu ptrs where pdu: "has_pdu sh (ComIPduHandleId s) IPdu ptrs" using signal_pdu [OF at g(2)] by metis
    have e: "com_at env sh (Suc d) (ea_enter st)" using at by (rule com_at_enter)
    have "returns (Com_Misc_CopySignalGroupDataFromPduToShadowBuffer i (ea_enter st)) (com_step (ea_enter st))"
      by (intro step.of_still still_CopyFromPdu [OF e _ _ _ False pdu]) (simp_all add: i s_def grp)
    then obtain st1 where st1: "Com_Misc_CopySignalGroupDataFromPduToShadowBuffer i (ea_enter st) = Some st1"
      "com_step st (ea_exit st1)"
      using step.R_exit [OF at] unfolding returns_def by blast
    show ?thesis
      using False has_pdu_at(8) [OF at pdu] has_pdu_at(6) [OF step.R_at [OF st1(2) at] pdu] st1
      by (simp add: g(1) step.R_refl Let_def)
  qed
qed

lemma GET_GroupSignal_at:
  assumes "com_at env sh d st" "unat i < length (ComGroupSignals (the_cfg st))"
  shows "GET_GroupSignal i st = Some (ComGroupSignals (the_cfg st) ! unat i)"
    "GET_ArcGroupSignal i st = Some (Com_Arc_GroupSignal st ! unat i)"
    "group_signal_ok sh (ComGroupSignals (the_cfg st) ! unat i) (gs_Com_Arc_ShadowBuffer (Com_Arc_GroupSignal st ! unat i))"
proof -
  note f = com_at_shape [OF assms(1)] and l = shape_ok_facts(6) [OF assms(1)]
  show "GET_GroupSignal i st = Some (ComGroupSignals (the_cfg st) ! unat i)"
    "GET_ArcGroupSignal i st = Some (Com_Arc_GroupSignal st ! unat i)"
    using f(4) l assms(2) by (simp_all add: GET_GroupSignal_def GET_ArcGroupSignal_def deref_def ub_simps)
  have "sh_groups sh = map gs_Com_Arc_ShadowBuffer (Com_Arc_GroupSignal st)" unfolding f(2) [symmetric] by simp
  then show "group_signal_ok sh (ComGroupSignals (the_cfg st) ! unat i)
      (gs_Com_Arc_ShadowBuffer (Com_Arc_GroupSignal st ! unat i))"
    using f(3,5) l assms(2) by (auto simp: shape_ok_def)
qed

lemma step_Com_UpdateShadowSignal:
  assumes at: "com_at env sh (Suc (Suc d)) st"
    and s: "\<And>g. unat i < length (ComGroupSignals (the_cfg st)) \<Longrightarrow> g = ComGroupSignals (the_cfg st) ! unat i \<Longrightarrow>
      value_bytes (gs_ComBitSize g) (gs_ComSignalEndianess g) (gs_ComSignalType g) \<le> length data"
  shows "returns (Com_UpdateShadowSignal env i data st) (com_step st)"
  unfolding Com_UpdateShadowSignal_def
proof (intro returns_map step.guard [OF at])
  assume "group_signal_in_range i st"
  then have i: "unat i < length (ComGroupSignals (the_cfg st))" using group_signal_in_range_at [OF at] by simp
  note g = GET_GroupSignal_at [OF at i]
  show "returns (do {
       Arc_GroupSignal \<leftarrow> GET_ArcGroupSignal i st;
       st \<leftarrow> (if gs_Com_Arc_ShadowBuffer Arc_GroupSignal \<noteq> None then Com_Misc_UpdateShadowSignal i data st else Some st);
       Some ((), st) }) (\<lambda>x. com_step st (snd x))"
  proof (cases "gs_Com_Arc_ShadowBuffer (Com_Arc_GroupSignal st ! unat i)")
    case None
    then show ?thesis by (simp add: g step.R_refl)
  next
    case (Some buf)
    define gs where "gs = ComGroupSignals (the_cfg st) ! unat i"
    have "access_ok (sh_buf sh) buf (gs_ComBitPosition gs) (gs_ComBitSize gs) (gs_ComSignalEndianess gs) (gs_ComSignalType gs)"
      using g(3) Some by (simp add: group_signal_ok_def gs_def)
    from still_write_signal [OF at this s [OF i gs_def]] Some show ?thesis
      using step.R_still
      by (auto simp: Com_Misc_UpdateShadowSignal_def g deref_def returns_def case_prod_unfold gs_def [symmetric])
  qed
qed

lemma step_Com_ReceiveShadowSignal:
  assumes at: "com_at env sh (Suc (Suc d)) st"
    and s: "\<And>g. unat i < length (ComGroupSignals (the_cfg st)) \<Longrightarrow> g = ComGroupSignals (the_cfg st) ! unat i \<Longrightarrow>
      value_bytes (gs_ComBitSize g) (gs_ComSignalEndianess g) (gs_ComSignalType g) \<le> length out \<and>
      SignalTypeToSize (gs_ComSignalType g) (unat (gs_ComBitSize g) div 8) \<le> length out"
  shows "returns (Com_ReceiveShadowSignal env i out st) (\<lambda>x. com_step st (snd x))"
  unfolding Com_ReceiveShadowSignal_def
proof (rule step.guard [OF at], goal_cases)
  case 1
  then have i: "unat i < length (ComGroupSignals (the_cfg st))" using group_signal_in_range_at [OF at] by simp
  note g = GET_GroupSignal_at [OF at i]
  define gs where "gs = ComGroupSignals (the_cfg st) ! unat i"
  note s = s [OF i gs_def]
  show ?case
  proof (cases "gs_Com_Arc_ShadowBuffer (Com_Arc_GroupSignal st ! unat i)")
    case None
    then have "SignalTypeToSize (gs_ComSignalType gs) (unat (gs_ComBitSize gs) div 8) \<le> length (gs_ComSignalInitValue gs)"
      using g(3) by (simp add: group_signal_ok_def gs_def)
    then show ?thesis using None s by (simp add: g gs_def [symmetric] copy_range_def step.R_refl)
  next
    case (Some buf)
    then have "access_ok (sh_buf sh) buf (gs_ComBitPosition gs) (gs_ComBitSize gs) (gs_ComSignalEndianess gs) (gs_ComSignalType gs)"
      using g(3) by (simp add: group_signal_ok_def gs_def)
    from still_read_signal [OF at this] s show ?thesis
      by (simp add: g Some gs_def [symmetric] step.of_still)
  qed
qed

section \<open>Reception\<close>

lemma still_rx_signal:
  assumes at: "com_at env sh d st" and ref: "signal_ref_ok env sh base s"
  shows "returns (rx_signal env IPdu (Some base) s st) (com_still st)"
proof -
  note b = com_at_shape(6) [OF at]
  obtain v where v: "(if ComSignalArcUseUpdateBit s then do {
      base \<leftarrow> deref (Some base); TESTBIT base (ComUpdateBitPosition s) st } else Some True) = Some v"
    using ref b by (cases "ComSignalArcUseUpdateBit s") (auto simp: signal_ref_ok_def TESTBIT_def deref_def rd_Some)
  have h: "unat (ComHandleId s) < length (sh_sigs sh)" and n: "callout_ok (ComNotificationCallouts env) (ComNotification s)"
    using ref by (simp_all add: signal_ref_ok_def)
  show ?thesis
    unfolding rx_signal_def v Option.bind.bind_lunit
    by (intro returns_if still.bind [OF at, where f = "\<lambda>x. x"] still_upd_sig [OF at h] still_notify [OF n]
        still_upd_sig [OF _ h]) (simp_all del: still_notify)
qed

lemma still_RxProcessSignals:
  assumes at: "com_at env sh d st" and ok: "pdu_ok env sh IPdu ptrs" and a: "ComIPduDataPtr a = fst ptrs"
  shows "returns (Com_Misc_RxProcessSignals env IPdu a st) (com_still st)"
proof -
  obtain base where base: "fst ptrs = Some base" and refs: "\<And>s. s \<in> set (signal_refs IPdu) \<Longrightarrow> signal_ref_ok env sh base s"
    using pdu_okD [OF ok] by metis
  show ?thesis
    unfolding Com_Misc_RxProcessSignals_def pdu_SignalRef [OF ok] a base
    using still.each [OF at still_rx_signal [OF _ refs]] by (simp add: deref_def)
qed

lemma validate_returns:
  assumes "unat (ComIPduCntrIndex c) < length (Com_IPdu_Counters cn)"
    "unat (ComIPduCntrIndex c) < length (ComIPduCountRxStart cn)" "ComIPduCntrRange c \<noteq> 0"
    "unat (ComIPduCntrStartPos c) div 8 < length sdu"
  shows "\<exists>r cn'. Com_Misc_validateIPduCounter c sdu cn = Some (r, cn') \<and>
    length (Com_IPdu_Counters cn') = length (Com_IPdu_Counters cn) \<and>
    length (ComIPduCountRxStart cn') = length (ComIPduCountRxStart cn)"
  using assms
  by (cases "ComIPduCountRxStart cn ! unat (ComIPduCntrIndex c)")
    (auto simp: Com_Misc_validateIPduCounter_def extractIPduCntr_def Let_def rd_Some wr_Some next_cntr_def)

lemma still_rx_counter:
  assumes at: "com_at env sh d st" and len: "unat (ComIPduSize IPdu) \<le> length sdu"
    and c: "\<And>c. ComIpduCounterRef IPdu = Some c \<Longrightarrow> counter_ok env sh base IPdu c"
  shows "returns (rx_counter env IPdu sdu st) (\<lambda>x. com_still st (snd x))"
proof (cases "COM_IPDU_COUNTING_ENABLE env \<and> ComIpduCounterRef IPdu \<noteq> None")
  case False
  then show ?thesis by (auto simp: rx_counter_def)
next
  case True
  then obtain c where c': "ComIpduCounterRef IPdu = Some c" by auto
  note ok = c [OF this]
  have k: "unat (ComIPduCntrIndex c) < length (Com_IPdu_Counters (com_cntrs st))"
    "unat (ComIPduCntrIndex c) < length (ComIPduCountRxStart (com_cntrs st))" "ComIPduCntrRange c \<noteq> 0"
    "unat (ComIPduCntrStartPos c) div 8 < length sdu"
    using ok at len by (auto simp: counter_ok_def com_at_def)
  obtain r cn where v: "Com_Misc_validateIPduCounter c sdu (com_cntrs st) = Some (r, cn)"
    "length (Com_IPdu_Counters cn) = length (Com_IPdu_Counters (com_cntrs st))"
    "length (ComIPduCountRxStart cn) = length (ComIPduCountRxStart (com_cntrs st))"
    using validate_returns [OF k] by blast
  have still: "com_still st (st\<lparr>com_cntrs := cn\<rparr>)" using v(2,3) by (rule still_cntrs)
  have "com_still st (st\<lparr>com_cntrs := cn, com_calls := com_calls st @ [Notification n]\<rparr>)" for n
    using still.R_trans [OF still still_calls [of "Notification n" "st\<lparr>com_cntrs := cn\<rparr>"]] by (simp add: is_transmit_def)
  then show ?thesis using True c' v(1) ok still
    by (auto simp: rx_counter_def counter_ok_def rd_Some Let_def)
qed

lemma step_Com_RxIndication:
  assumes at: "com_at env sh (Suc (Suc d)) st"
    and len: "\<And>IPdu. unat i < length (ComIPdu (the_cfg st)) \<Longrightarrow> IPdu = ComIPdu (the_cfg st) ! unat i \<Longrightarrow>
      unat (ComIPduSize IPdu) \<le> length sdu"
  shows "returns (Com_RxIndication env i sdu st) (com_step st)"
  unfolding Com_RxIndication_def
proof (intro returns_map step.guard [OF at], goal_cases)
  case 1
  then have "unat i < length (ComIPdu (the_cfg st))" using ipdu_in_range_at [OF at] by simp
  then obtain IPdu ptrs where pdu: "has_pdu sh i IPdu ptrs" and len: "unat (ComIPduSize IPdu) \<le> length sdu"
    using has_pdu_index [OF at] len by blast
  note p = has_pdu_at [OF at pdu]
  obtain base where base: "fst ptrs = Some base" "base + unat (ComIPduSize IPdu) \<le> sh_buf sh"
    and cntr: "\<And>c. ComIpduCounterRef IPdu = Some c \<Longrightarrow> counter_ok env sh base IPdu c"
    using pdu_okD [OF p(11)] by metis
  have e: "com_at env sh (Suc d) (ea_enter st)" using at by (rule com_at_enter)
  have "callout_ok (ComRxIPduCallouts env) (ComRxIPduCallout IPdu)" using p(11) by (simp add: pdu_ok_def)
  then have "rx_callout env IPdu i sdu \<noteq> None" by (auto simp: callout_ok_def rx_callout_def rd_Some)
  then obtain v where v: "rx_callout env IPdu i sdu = Some v" by blast
  let ?a = "Com_Arc_IPdu st ! unat i"
  have "returns (do {
      (status, st) \<leftarrow> rx_counter env IPdu sdu (ea_enter st);
      if status then do {
        st \<leftarrow> put_bytes base (take (unat (ComIPduSize IPdu)) sdu) st;
        Com_Misc_RxProcessSignals env IPdu ?a st }
      else Some st }) (com_step (ea_enter st))"
  proof (rule step.bind2 [OF e step.of_still [OF still_rx_counter [OF e len cntr]]], assumption, goal_cases)
    case (1 status st1)
    show ?case
      by (intro returns_if step.bind [OF 1 step.of_still [OF still_put_bytes [OF 1]]]
          step.of_still still_RxProcessSignals [OF _ p(11)]) (use base p(9) in \<open>simp_all add: step.R_refl\<close>)
  qed
  then show ?case
    unfolding p(5,6) Option.bind.bind_lunit Let_def v p(9) base(1) if_P [OF len] deref_def option.case
    by (intro step.next_st [OF e step.R_refl, where f = "\<lambda>x. x"] returns_if)
      (simp_all add: step.R_refl deref_def step.R_exit [OF at])
qed

lemma step_Com_TpRxIndication:
  assumes at: "com_at env sh (Suc (Suc d)) st"
  shows "returns (Com_TpRxIndication env i r st) (com_step st)"
proof (cases "ipdu_in_range i st")
  case False
  then show ?thesis using com_at_shape(1) [OF at] by (simp add: Com_TpRxIndication_def step.R_report)
next
  case True
  obtain IPdu ptrs where pdu: "has_pdu sh i IPdu ptrs" using ipdu_in_range_pdu [OF at True] .
  note p = has_pdu_at [OF at pdu]
  show ?thesis
    unfolding Com_TpRxIndication_def p(5,6) Option.bind.bind_lunit Let_def
    by (intro returns_if step.area [OF at] step.R_report returns_Some [THEN iffD2] step.of_still
        still.bind [where f = "\<lambda>x. x"] still_unlock [OF _ pdu] still_RxProcessSignals [OF _ p(11) p(9)])
      (simp_all add: com_at_shape(1) [OF at] True)
qed

lemma step_Com_TpTxConfirmation:
  assumes at: "com_at env sh (Suc (Suc d)) st"
  shows "returns (Com_TpTxConfirmation env i r st) (com_step st)"
proof (cases "ipdu_in_range i st")
  case False
  then show ?thesis using com_at_shape(1) [OF at] by (simp add: Com_TpTxConfirmation_def step.R_report)
next
  case True
  obtain IPdu ptrs where pdu: "has_pdu sh i IPdu ptrs" using ipdu_in_range_pdu [OF at True] .
  show ?thesis
    using step.area [OF at step.of_still [OF still_unlock [OF _ pdu]]] com_at_shape(1) [OF at] True
    by (simp add: Com_TpTxConfirmation_def Let_def)
qed

lemma still_TxHandleDM:
  assumes at: "com_at env sh (Suc d) st" and pdu: "has_pdu sh i IPdu ptrs"
  shows "returns (Com_Misc_TxHandleDM i IPdu st) (com_still st)"
  unfolding Com_Misc_TxHandleDM_def Let_def
  by (rule still.area [OF at], rule still_upd_pdu [OF _ pdu]) (simp_all split: ComTxModeModeType.split)

lemma step_Com_TxConfirmation:
  assumes at: "com_at env sh (Suc (Suc d)) st"
  shows "returns (Com_TxConfirmation env i st) (com_step st)"
proof (cases "ipdu_in_range i st")
  case False
  then show ?thesis using com_at_shape(1) [OF at] by (simp add: Com_TxConfirmation_def step.R_report)
next
  case True
  obtain IPdu ptrs where pdu: "has_pdu sh i IPdu ptrs" using ipdu_in_range_pdu [OF at True] .
  note p = has_pdu_at [OF at pdu]
  have dm: "returns (if 0 < Com_Arc_TxDeadlineCounter (Com_Arc_IPdu st ! unat i) then Com_Misc_TxHandleDM i IPdu st else Some st)
      (com_still st)"
    using still_TxHandleDM [OF at pdu] by simp
  have "returns (for_each (\<lambda>s. notify env (ComNotification s)) (signal_refs IPdu) st') (com_still st')"
    if "com_at env sh (Suc (Suc d)) st'" for st'
    using that by (rule still.each) (intro still_notify pdu_refs(2) [OF p(11)])
  then have "returns (do {
      st \<leftarrow> (if 0 < Com_Arc_TxDeadlineCounter (Com_Arc_IPdu st ! unat i) then Com_Misc_TxHandleDM i IPdu st else Some st);
      if ComIPduSignalProcessing IPdu = COM_IMMEDIATE then do {
        refs \<leftarrow> deref (ComIPduSignalRef IPdu);
        for_each (\<lambda>s. notify env (ComNotification s)) refs st }
      else Com_Misc_SetTxConfirmationStatus IPdu True st }) (com_still st)"
    unfolding pdu_SignalRef [OF p(11)] deref_def option.case Option.bind.bind_lunit
    by (intro still.bind [OF at dm] returns_if still_SetTxConfirmationStatus [OF _ p(11)])
  then show ?thesis
    using com_at_shape(1) [OF at] True p(5,6) by (simp add: Com_TxConfirmation_def step.R_report step.of_still)
qed

lemma step_Com_TriggerTransmit:
  assumes at: "com_at env sh (Suc (Suc d)) st"
    and len: "\<And>IPdu. unat i < length (ComIPdu (the_cfg st)) \<Longrightarrow> IPdu = ComIPdu (the_cfg st) ! unat i \<Longrightarrow>
      unat (ComIPduSize IPdu) \<le> length out"
  shows "returns (Com_TriggerTransmit env i out n st) (\<lambda>x. com_step st (snd x))"
  unfolding Com_TriggerTransmit_def
proof (rule step.guard [OF at], goal_cases)
  case 1
  then have "unat i < length (ComIPdu (the_cfg st))" using ipdu_in_range_at [OF at] by simp
  then obtain IPdu ptrs where pdu: "has_pdu sh i IPdu ptrs" and len: "unat (ComIPduSize IPdu) \<le> length out"
    using has_pdu_index [OF at] len by blast
  note p = has_pdu_at [OF at pdu]
  obtain base where base: "fst ptrs = Some base" "base + unat (ComIPduSize IPdu) \<le> sh_buf sh"
    using pdu_okD [OF p(11)] by metis
  have e: "com_at env sh (Suc d) (ea_enter st)" using at by (rule com_at_enter)
  have "returns (tx_callout (ComTriggerTransmitIPduCallouts env) (ComTriggerTransmitIPduCallout IPdu) i (Some base)
      (ComIPduSize IPdu) (ea_enter st)) (\<lambda>x. com_step (ea_enter st) (snd x))"
    using p(11) shape_ok_facts(11) [OF at]
    by (intro step.of_still still_tx_callout [OF e base(2)]) (simp_all add: pdu_ok_def)
  then show ?case
    unfolding p(5,6,9) base(1) Option.bind.bind_lunit Let_def deref_def option.case
  proof (rule step.next_pair [OF e step.R_refl], goal_cases)
    case (1 r st1)
    then show ?case using len base(2) com_at_shape(6) [OF 1(1)] by (simp add: copy_range_def step.R_exit [OF at])
  qed
qed

lemma step_Com_ReceiveSignal:
  assumes at: "com_at env sh (Suc (Suc d)) st"
    and s: "\<And>s. unat i < length (ComSignal (the_cfg st)) \<Longrightarrow> s = ComSignal (the_cfg st) ! unat i \<Longrightarrow>
      \<not> Com_Arc_IsSignalGroup s \<and> value_bytes (ComBitSize s) (ComSignalEndianess s) (ComSignalType s) \<le> length out \<and>
      SignalTypeToSize (ComSignalType s) (unat (ComBitSize s) div 8) \<le> length out"
  shows "returns (Com_ReceiveSignal env i out st) (\<lambda>x. com_step st (snd x))"
  unfolding Com_ReceiveSignal_def
proof (rule step.guard [OF at], goal_cases)
  case 1
  then have i: "unat i < length (ComSignal (the_cfg st))" using signal_in_range_at [OF at] by simp
  define s where "s = ComSignal (the_cfg st) ! unat i"
  note g = GET_Signal_at [OF at i, folded s_def] and s = s [OF i s_def]
  show ?case
  proof (cases "ComIPduHandleId s = NO_PDU_REFERENCE")
    case True
    then show ?thesis using g(2) s by (simp add: g(1) signal_ok_def copy_range_def step.R_refl)
  next
    case False
    then obtain IPdu ptrs b where pdu: "has_pdu sh (ComIPduHandleId s) IPdu ptrs" and b: "read_buffer IPdu ptrs = Some b"
      and acc: "access_ok (sh_buf sh) b (ComBitPosition s) (ComBitSize s) (ComSignalEndianess s) (ComSignalType s)"
      using signal_pdu [OF at g(2)] s by metis
    note p = has_pdu_at [OF at pdu]
    obtain o' st' where "read_signal_at b (ComBitPosition s) (ComBitSize s) (ComSignalEndianess s) (ComSignalType s) out st =
        Some (o', st')" "com_still st st'"
      using still_read_signal [OF at acc, of out] s unfolding returns_def by auto
    then show ?thesis
      using False b p(5,6,8,9,10) by (auto simp: g(1) read_buffer_def deref_def step.R_still split: if_splits)
  qed
qed

text \<open>The configuration has no dynamic signal, so the services for them refuse.\<close>

lemma dyn_signals_refused:
  assumes at: "com_at env sh d st" and i: "unat i < length (ComSignal (the_cfg st))"
    and h: "ComIPduHandleId (ComSignal (the_cfg st) ! unat i) \<noteq> NO_PDU_REFERENCE"
  shows "Com_SendDynSignal env i data n st = Some (COM_SERVICE_NOT_AVAILABLE, st)"
    "Com_ReceiveDynSignal env i out n st = Some ((COM_SERVICE_NOT_AVAILABLE, out, n), st)"
proof -
  note g = GET_Signal_at [OF at i]
  obtain IPdu ptrs where pdu: "has_pdu sh (ComIPduHandleId (ComSignal (the_cfg st) ! unat i)) IPdu ptrs"
    using signal_pdu [OF at g(2) h] by metis
  have ty: "ComSignalType (ComSignal (the_cfg st) ! unat i) \<noteq> COM_UINT8_DYN" using g(2) by (simp add: signal_ok_def)
  show "Com_SendDynSignal env i data n st = Some (COM_SERVICE_NOT_AVAILABLE, st)"
    "Com_ReceiveDynSignal env i out n st = Some ((COM_SERVICE_NOT_AVAILABLE, out, n), st)"
    using has_pdu_at(5,6) [OF at pdu] ty com_at_shape(1) [OF at]
    by (simp_all add: Com_SendDynSignal_def Com_ReceiveDynSignal_def com_guard_def g(1))
qed

section \<open>Transport protocol\<close>

lemma word_add_le: "unat a + unat b \<le> unat c \<Longrightarrow> a + b \<le> c" for a b c :: "'w::len word"
proof -
  assume le: "unat a + unat b \<le> unat c"
  also have "\<dots> < 2 ^ LENGTH('w)" by (rule unsigned_less)
  finally have "unat (a + b) = unat a + unat b" by (simp add: unat_add_lem)
  then show ?thesis using le by (simp add: word_le_nat_alt)
qed

lemma position_at:
  assumes "com_at env sh d st" "has_pdu sh i IPdu ptrs"
  shows "currentPosition (Com_BufferPduState st ! unat i) \<le> ComIPduSize IPdu"
  using assms(1) has_pdu_at(1,4) [OF assms] by (auto simp: com_at_def com_ok_def locks_ok_def)

lemma step_Com_CopyTxData:
  assumes at: "com_at env sh (Suc (Suc d)) st" and pdu: "has_pdu sh i IPdu ptrs" and len: "unat n \<le> length out"
  shows "returns (Com_CopyTxData env i out n cnt st) (\<lambda>x. com_step st (snd x))"
  unfolding Com_CopyTxData_def
proof (rule step.guard [OF at], goal_cases)
  case 1
  note p = has_pdu_at [OF at pdu]
  let ?b = "Com_BufferPduState st ! unat i"
  obtain base where base: "fst ptrs = Some base" "base + unat (ComIPduSize IPdu) \<le> sh_buf sh"
    using pdu_okD [OF p(11)] by metis
  have e: "com_at env sh (Suc d) (ea_enter st)" using at by (rule com_at_enter)
  have lock: "returns (upd_lock i (\<lambda>b. b\<lparr>locked := True\<rparr>) (ea_enter st)) (com_step (ea_enter st))"
    by (intro step.of_still still_upd_lock [OF e pdu]) simp
  show ?case
    unfolding p(5,7) Option.bind.bind_lunit Let_def
  proof (rule step.next_st [OF e step.R_refl lock], intro returns_if, goal_cases)
    case (1 st1)
    then have n: "unat (currentPosition ?b) + unat n \<le> unat (ComIPduSize IPdu)" by simp
    then have pos: "currentPosition ?b + n \<le> ComIPduSize IPdu" by (rule word_add_le)
    have "base + unat (currentPosition ?b) + unat n \<le> length (Com_Arc_Buffer st1)"
      using n base(2) com_at_shape(6) [OF 1(1)] by simp
    then obtain out' where copy: "copy_range (unat n) (base + unat (currentPosition ?b)) (Com_Arc_Buffer st1) out = Some out'"
      using len by (simp add: copy_range_def)
    show ?case
      unfolding has_pdu_at(6,9) [OF 1(1) pdu] base(1) deref_def option.case Option.bind.bind_lunit copy
      by (rule step.next_st [OF 1(1,2) step.of_still [OF still_upd_lock [OF 1(1) pdu]]])
        (simp_all add: pos step.R_exit [OF at])
  qed (simp add: step.R_exit [OF at])
qed

lemma step_Com_CopyRxData:
  assumes at: "com_at env sh (Suc (Suc d)) st" and pdu: "has_pdu sh i IPdu ptrs" and len: "unat n \<le> length sdu"
  shows "returns (Com_CopyRxData env i sdu n cnt st) (\<lambda>x. com_step st (snd x))"
  unfolding Com_CopyRxData_def
proof (rule step.guard [OF at], goal_cases)
  case 1
  have e: "com_at env sh (Suc d) (ea_enter st)" using at by (rule com_at_enter)
  note p = has_pdu_at [OF e pdu]
  let ?b = "Com_BufferPduState (ea_enter st) ! unat i"
  obtain base where base: "fst ptrs = Some base" "base + unat (ComIPduSize IPdu) \<le> sh_buf sh"
    using pdu_okD [OF p(11)] by metis
  note q = position_at [OF e pdu]
  show ?case
    unfolding Let_def p(5,7) Option.bind.bind_lunit
  proof (intro returns_if, goal_cases)
    case 1
    then have "unat n \<le> unat (ComIPduSize IPdu) - unat (currentPosition ?b)"
      using q by (simp add: word_le_nat_alt unat_sub)
    then have n: "unat (currentPosition ?b) + unat n \<le> unat (ComIPduSize IPdu)" using q by (simp add: word_le_nat_alt)
    then have pos: "currentPosition ?b + n \<le> ComIPduSize IPdu" by (rule word_add_le)
    have put: "returns (put_bytes (base + unat (currentPosition ?b)) (take (unat n) sdu) (ea_enter st)) (com_step (ea_enter st))"
      using n len base(2) by (intro step.of_still still_put_bytes [OF e]) simp
    show ?case
      unfolding p(6,9) base(1) deref_def option.case Option.bind.bind_lunit if_P [OF len]
    proof (rule step.next_st [OF e step.R_refl put], goal_cases)
      case (1 st1)
      show ?case
        by (rule step.next_st [OF 1 step.of_still [OF still_upd_lock [OF 1(1) pdu]]])
          (simp_all add: pos [simplified] step.R_exit [OF at])
    qed
  qed (simp add: step.R_exit [OF at] step.R_refl)
qed

lemma step_Com_StartOfReception:
  assumes at: "com_at env sh (Suc (Suc d)) st" and pdu: "has_pdu sh i IPdu ptrs"
  shows "returns (Com_StartOfReception env i n m st) (\<lambda>x. com_step st (snd x))"
  unfolding Com_StartOfReception_def
proof (rule step.guard [OF at], goal_cases)
  case 1
  have e: "com_at env sh (Suc d) (ea_enter st)" using at by (rule com_at_enter)
  have dyn: "Com_SetDynSignalLength i n st' = Some st'" if "com_at env sh (Suc d) st'" for st'
    using has_pdu_at(5,11) [OF that pdu] by (simp add: Com_SetDynSignalLength_def pdu_ok_def)
  have lock: "returns (upd_lock i (\<lambda>b. b\<lparr>locked := True\<rparr>) (ea_enter st)) (com_step (ea_enter st))"
    by (intro step.of_still still_upd_lock [OF e pdu]) simp
  show ?case
    unfolding has_pdu_at(6) [OF at pdu] has_pdu_at(5,7) [OF e pdu] Option.bind.bind_lunit Let_def
    by (intro returns_if step.next_st [OF e step.R_refl lock]) (simp_all add: dyn step.R_exit [OF at] step.R_refl)
qed

section \<open>Loops over the I-PDUs\<close>

context step_relation
begin

lemma each_pdu:
  assumes at: "com_at env sh d st"
    and f: "\<And>i IPdu ptrs st'. has_pdu sh i IPdu ptrs \<Longrightarrow> com_at env sh d st' \<Longrightarrow> returns (f i st') (R st')"
  shows "returns (do { ids \<leftarrow> pdu_ids st; for_each f ids st }) (R st)"
  unfolding pdu_ids_at [OF at] Option.bind.bind_lunit
proof (rule each [OF at])
  fix i :: uint16 and st' assume "i \<in> set (map of_nat [0..<length (ComIPdu (the_cfg st))])" and at': "com_at env sh d st'"
  then obtain k where "i = of_nat k" "k < length (ComIPdu (the_cfg st))" by auto
  then show "returns (f i st') (R st')" using f [OF has_pdu_id(2) [OF at] at'] by blast
qed

end

text \<open>A vector that has a bit for every group of the configuration.\<close>

definition vector_ok :: "com_shape \<Rightarrow> uint8 list \<Rightarrow> bool" where
  "vector_ok sh v \<longleftrightarrow>
     (\<forall>i IPdu ptrs. has_pdu sh i IPdu ptrs \<longrightarrow> list_all (\<lambda>g. unat g div 8 < length v) (ComIPduGroupRefs IPdu))"

lemma group_set_returns: "list_all (\<lambda>g. unat g div 8 < length v) gs \<Longrightarrow> group_set v gs \<noteq> None"
proof (induction gs)
  case (Cons g gs)
  then show ?case by (cases "bit (v ! (unat g div 8)) (unat g mod 8)") (auto simp: rd_Some)
qed simp

lemma still_restart_deadlines:
  assumes at: "com_at env sh d st" and ok: "pdu_ok env sh IPdu ptrs"
  shows "returns (for_each restart_deadline (signal_refs IPdu) st) (com_still st)"
  by (rule still.each [OF at]) (auto simp: restart_deadline_def intro!: still_upd_sig pdu_refs(1) [OF ok])

lemma still_start_counter:
  assumes at: "com_at env sh d st" and ok: "pdu_ok env sh IPdu ptrs"
  shows "returns (start_counter env IPdu st) (com_still st)"
proof -
  obtain base where c: "\<And>c. ComIpduCounterRef IPdu = Some c \<Longrightarrow> counter_ok env sh base IPdu c" using pdu_okD [OF ok] by metis
  have "sh_cntrs sh = length (Com_IPdu_Counters (com_cntrs st))" "sh_rx sh = length (ComIPduCountRxStart (com_cntrs st))"
    using com_at_shape(2) [OF at] by auto
  then have "unat (ComIPduCntrIndex c) < length (Com_IPdu_Counters (com_cntrs st)) \<and>
      unat (ComIPduCntrIndex c) < length (ComIPduCountRxStart (com_cntrs st))" if "ComIpduCounterRef IPdu = Some c" for c
    using c [OF that] by (simp add: counter_ok_def)
  then show ?thesis
    by (auto simp: start_counter_def ResetInternalCounter_def ReSetInternalRxStartSts_def wr_Some still_cntrs
        split: option.split)
qed

lemma start_tx_fields [simp]:
  "ComIPduDataPtr (start_tx b c IPdu a) = ComIPduDataPtr a"
  "ComIPduDeferredDataPtr (start_tx b c IPdu a) = ComIPduDeferredDataPtr a"
  "ComTxIPduMinimumDelayTimer (Com_Arc_TxIPduTimers (start_tx b c IPdu a)) =
     ComTxIPduMinimumDelayTimer (Com_Arc_TxIPduTimers a)"
  by (simp_all add: start_tx_def Let_def)

lemma still_group_control:
  assumes at: "com_at env sh (Suc d) st" and pdu: "has_pdu sh i IPdu ptrs" and v: "vector_ok sh v"
  shows "returns (group_control env v init i st) (com_still st)"
proof -
  note p = has_pdu_at [OF at pdu]
  obtain b where b: "group_set v (ComIPduGroupRefs IPdu) = Some b"
    using group_set_returns [of v "ComIPduGroupRefs IPdu"] v pdu unfolding vector_ok_def by blast
  have "returns (upd_pdu i (\<lambda>a. a\<lparr>Com_Arc_IpduStarted := b\<rparr>) st) (com_still st)"
    by (rule still_upd_pdu [OF at pdu]) simp_all
  then show ?thesis
    unfolding group_control_def p(5) b Option.bind.bind_lunit
  proof (rule still.bind [OF at, where f = "\<lambda>x. x"], goal_cases)
    case (1 st1)
    have "returns (if init \<and> b then start_counter env IPdu st1 else Some st1) (com_still st1)"
      using still_start_counter [OF 1 p(11)] by simp
    then show ?case
    proof (rule still.bind [OF 1, where f = "\<lambda>x. x"], goal_cases)
      case (1 st2)
      show ?case
        unfolding Let_def
      proof (rule still.area [OF 1], intro returns_if, goal_cases)
        case 1
        then show ?case
          unfolding has_pdu_at(6) [OF 1(1) pdu] pdu_SignalRef [OF p(11)] deref_def option.case Option.bind.bind_lunit
          using still_restart_deadlines [OF 1(1) p(11)] by simp
      qed (auto intro!: still_upd_pdu [OF _ pdu])
    qed
  qed
qed

lemma step_Com_IpduGroupControl:
  assumes at: "com_at env sh (Suc (Suc d)) st" and v: "vector_ok sh v"
  shows "returns (Com_IpduGroupControl env v init st) (com_step st)"
  unfolding Com_IpduGroupControl_def
  by (rule returns_if, simp add: step.R_report, rule step.each_pdu [OF at])
    (intro step.of_still still_group_control [OF _ _ v])

lemma still_reception_control:
  assumes at: "com_at env sh (Suc d) st" and pdu: "has_pdu sh i IPdu ptrs" and v: "vector_ok sh v"
  shows "returns (reception_control v i st) (com_still st)"
proof -
  note p = has_pdu_at [OF at pdu]
  obtain b where b: "group_set v (ComIPduGroupRefs IPdu) = Some b"
    using group_set_returns [of v "ComIPduGroupRefs IPdu"] v pdu unfolding vector_ok_def by blast
  have e: "com_at env sh d (ea_enter st)" using at by (rule com_at_enter)
  have "returns (upd_pdu i (\<lambda>a. a\<lparr>Com_Arc_IpduRxDMControl := b\<rparr>) (ea_enter st)) (com_still (ea_enter st))"
    by (rule still_upd_pdu [OF e pdu]) simp_all
  then show ?thesis
    unfolding reception_control_def p(5,6) b Option.bind.bind_lunit pdu_SignalRef [OF p(11)] deref_def option.case Let_def
  proof (intro returns_if, goal_cases)
    case 1
    show ?case
    proof (rule still.next_st [OF e still.R_refl 1(1)], goal_cases)
      case (1 st1)
      show ?case
        by (rule still.next_st [OF 1, where f = "\<lambda>x. x"])
          (use still_restart_deadlines [OF 1(1) p(11)] in \<open>simp_all add: still.R_exit [OF at]\<close>)
    qed
  qed simp_all
qed

lemma step_Com_ReceptionDMControl:
  assumes at: "com_at env sh (Suc (Suc d)) st" and v: "vector_ok sh v"
  shows "returns (Com_ReceptionDMControl env v st) (com_step st)"
  unfolding Com_ReceptionDMControl_def
  by (rule returns_if, simp add: step.R_report, rule step.each_pdu [OF at])
    (intro step.of_still still_reception_control [OF _ _ v])

section \<open>The receiving main function\<close>

lemma still_write_init:
  assumes at: "com_at env sh (Suc d) st" and acc: "access_ok (sh_buf sh) base bitPosition bitSize endian ty"
    and len: "value_bytes bitSize endian ty \<le> length data"
  shows "returns (do { (_, st) \<leftarrow> write_signal_at base data ty bitPosition bitSize endian st; Some st }) (com_still st)"
  by (rule still.bind2 [OF at still_write_signal [OF at acc len]]) simp

lemma still_rx_timeout:
  assumes at: "com_at env sh (Suc d) st" and ref: "signal_ref_ok env sh base s"
  shows "returns (rx_timeout env (Some base) s st) (com_still st)"
proof -
  have h: "unat (ComHandleId s) < length (sh_sigs sh)" and n: "callout_ok (ComNotificationCallouts env) (ComTimeoutNotification s)"
    using ref by (simp_all add: signal_ref_ok_def)
  note upd = still_upd_sig [OF _ h, where f = "\<lambda>a. a\<lparr>ComSignalUpdated := True\<rparr>"]
  have "returns
      (if ComRxDataTimeoutAction s = COM_TIMEOUT_DATA_ACTION_REPLACE then
          if Com_Arc_IsSignalGroup s then do {
            st \<leftarrow> for_each (\<lambda>g st. do {
                base \<leftarrow> deref (Some base);
                (_, st) \<leftarrow> write_signal_at base (gs_ComSignalInitValue g) (gs_ComSignalType g)
                  (gs_ComBitPosition g) (gs_ComBitSize g) (gs_ComSignalEndianess g) st;
                Some st }) (ComGroupSignal s) st;
            upd_sig (ComHandleId s) (\<lambda>a. a\<lparr>ComSignalUpdated := True\<rparr>) st }
          else do {
            st \<leftarrow> upd_sig (ComHandleId s) (\<lambda>a. a\<lparr>ComSignalUpdated := True\<rparr>) st;
            base \<leftarrow> deref (Some base);
            (_, st) \<leftarrow> write_signal_at base (ComSignalInitValue s) (ComSignalType s)
              (ComBitPosition s) (ComBitSize s) (ComSignalEndianess s) st;
            Some st }
        else Some st) (com_still st)"
    unfolding deref_def option.case Option.bind.bind_lunit
    by (intro returns_if still.bind [OF at, where f = "\<lambda>x. x"] still.each [OF at]
        still_write_init [of env sh d] upd)
      (use ref at in \<open>simp_all add: signal_ref_ok_def list_all_iff\<close>)
  then show ?thesis
    unfolding rx_timeout_def
  proof (rule still.bind [OF at, where f = "\<lambda>x. x"], goal_cases)
    case (1 st1)
    show ?case by (rule still.bind [OF 1 still_notify [OF n]]) (simp add: still_upd_sig [OF _ h])
  qed
qed

lemma still_rx_deadline:
  assumes at: "com_at env sh (Suc d) st" and ref: "signal_ref_ok env sh base s" and a: "ComIPduDataPtr a = Some base"
  shows "returns (rx_deadline env a s st) (com_still st)"
proof -
  have h: "unat (ComHandleId s) < length (sh_sigs sh)" using ref by (simp add: signal_ref_ok_def)
  have g: "GET_ArcSignal (ComHandleId s) st' = Some (Com_Arc_Signal st' ! unat (ComHandleId s))"
    if "com_at env sh (Suc d) st'" for st' using GET_ArcSignal_at [OF that h] by simp
  show ?thesis
    unfolding rx_deadline_def g [OF at] Option.bind.bind_lunit a
    by (intro returns_if still.bind [OF at still_upd_sig [OF at h]])
      (auto simp: g still_rx_timeout [OF _ ref])
qed

lemma still_rx_signals:
  assumes "com_at env sh (Suc d) st" "\<And>s. s \<in> set ss \<Longrightarrow> signal_ref_ok env sh base s" and a: "ComIPduDataPtr a = Some base"
  shows "returns (rx_signals env a ss u st) (\<lambda>x. com_still st (snd x))"
  using assms(1,2)
proof (induction ss arbitrary: u st)
  case (Cons s ss)
  have ref: "signal_ref_ok env sh base s" using Cons.prems by simp
  then have h: "unat (ComHandleId s) < length (sh_sigs sh)" by (simp add: signal_ref_ok_def)
  show ?case
    unfolding rx_signals.simps
  proof (rule still.bind [OF Cons.prems(1) still_rx_deadline [OF Cons.prems(1) ref a]], goal_cases)
    case (1 st1)
    then show ?case using Cons.IH [OF 1] Cons.prems(2) GET_ArcSignal_at [OF 1 h] by simp
  qed
qed simp

lemma still_rx_notify:
  assumes at: "com_at env sh d st" and ok: "pdu_ok env sh IPdu ptrs" and s: "s \<in> set (signal_refs IPdu)"
  shows "returns (rx_notify env s st) (com_still st)"
  unfolding rx_notify_def using GET_ArcSignal_at [OF at pdu_refs(1) [OF ok s]]
    still.bind [OF at still_notify [OF pdu_refs(2) [OF ok s]] still_upd_sig [OF _ pdu_refs(1) [OF ok s]]]
  by simp

lemma still_rx_pdu:
  assumes at: "com_at env sh (Suc (Suc d)) st" and pdu: "has_pdu sh i IPdu ptrs"
  shows "returns (rx_pdu env i st) (com_still st)"
proof -
  note p = has_pdu_at [OF at pdu]
  obtain base where base: "fst ptrs = Some base" "base + unat (ComIPduSize IPdu) \<le> sh_buf sh"
    and refs: "\<And>s. s \<in> set (signal_refs IPdu) \<Longrightarrow> signal_ref_ok env sh base s"
    using pdu_okD [OF p(11)] by metis
  have e: "com_at env sh (Suc d) (ea_enter st)" using at by (rule com_at_enter)
  have later: "returns (do {
      st \<leftarrow> Com_Misc_UnlockTpBuffer i st';
      bs \<leftarrow> get_bytes base (unat (ComIPduSize IPdu)) st;
      st \<leftarrow> put_bytes dst bs st;
      for_each (rx_notify env) (signal_refs IPdu) st }) (com_still st')"
    if "com_at env sh (Suc d) st'" "dst + unat (ComIPduSize IPdu) \<le> sh_buf sh" for st' dst
  proof (rule still.bind [OF that(1) still_unlock [OF that(1) pdu]], goal_cases)
    case (1 st1)
    show ?case
      unfolding get_bytes_at [OF 1 base(2)] Option.bind.bind_lunit
      by (rule still.bind [OF 1 still_put_bytes [OF 1]])
        (use that(2) in \<open>auto intro!: still.each still_rx_notify [OF _ p(11)]\<close>)
  qed
  show ?thesis
    unfolding rx_pdu_def p(5,6,9,10) base(1) Option.bind.bind_lunit Let_def deref_def option.case
  proof (intro returns_if, rule still.next_pair [OF e still.R_refl still_rx_signals [OF e refs]], assumption, simp add: p(9) base, goal_cases)
    case (1 u st1)
    then obtain dst where dst: "ComIPduSignalProcessing IPdu = COM_DEFERRED \<Longrightarrow>
        snd ptrs = Some dst \<and> dst + unat (ComIPduSize IPdu) \<le> sh_buf sh"
      using p(11) by (auto simp: pdu_ok_def split: option.splits)
    show ?case
      by (rule still.next_st [OF 1(2,3), where f = "\<lambda>x. x"], intro returns_if)
        (use dst later [OF 1(2)] in \<open>auto simp: still.R_exit [OF at]\<close>)
  qed simp
qed

lemma step_Com_MainFunctionRx:
  assumes at: "com_at env sh (Suc (Suc d)) st"
  shows "returns (Com_MainFunctionRx env st) (com_step st)"
  unfolding Com_MainFunctionRx_def
  by (rule returns_if, simp add: step.R_report, rule step.each_pdu [OF at]) (intro step.of_still still_rx_pdu)

end
