(* ===== verification/Com_Module.thy ===== *)
theory Com_Module
  imports Com_Services
begin

text \<open>
  The communication module as a whole: sequences of calls of its services, an example configuration, and
  the properties of the module.
\<close>

section \<open>Calls\<close>

datatype com_op =
  SendSignal uint16 "uint8 list"
| ReceiveSignal uint16 "uint8 list"
| SendDynSignal uint16 "uint8 list" uint16
| ReceiveDynSignal uint16 "uint8 list" uint16
| SendSignalGroup uint16
| ReceiveSignalGroup uint16
| UpdateShadowSignal uint16 "uint8 list"
| ReceiveShadowSignal uint16 "uint8 list"
| TriggerIPDUSend uint16
| TriggerTransmit uint16 "uint8 list" uint16
| RxIndication uint16 "uint8 list"
| TxConfirmation uint16
| TpRxIndication uint16 uint8
| TpTxConfirmation uint16 uint8
| StartOfReception uint16 uint16 uint16
| CopyRxData uint16 "uint8 list" uint16 uint16
| CopyTxData uint16 "uint8 list" uint16 uint16
| IpduGroupControl "uint8 list" bool
| ReceptionDMControl "uint8 list"
| MainFunctionRx
| MainFunctionTx
| MainFunctionRouteSignals

text \<open>The effect of a call on the state; results are dropped.\<close>

fun com_call :: "Com_Env \<Rightarrow> com_op \<Rightarrow> com \<Rightarrow> com ub" where
  "com_call env (SendSignal i data) st = map_option snd (Com_SendSignal env i data st)"
| "com_call env (ReceiveSignal i out) st = map_option snd (Com_ReceiveSignal env i out st)"
| "com_call env (SendDynSignal i data n) st = map_option snd (Com_SendDynSignal env i data n st)"
| "com_call env (ReceiveDynSignal i out n) st = map_option snd (Com_ReceiveDynSignal env i out n st)"
| "com_call env (SendSignalGroup i) st = map_option snd (Com_SendSignalGroup env i st)"
| "com_call env (ReceiveSignalGroup i) st = map_option snd (Com_ReceiveSignalGroup env i st)"
| "com_call env (UpdateShadowSignal i data) st = Com_UpdateShadowSignal env i data st"
| "com_call env (ReceiveShadowSignal i out) st = map_option snd (Com_ReceiveShadowSignal env i out st)"
| "com_call env (TriggerIPDUSend i) st = Com_TriggerIPDUSend env i st"
| "com_call env (TriggerTransmit i out n) st = map_option snd (Com_TriggerTransmit env i out n st)"
| "com_call env (RxIndication i sdu) st = Com_RxIndication env i sdu st"
| "com_call env (TxConfirmation i) st = Com_TxConfirmation env i st"
| "com_call env (TpRxIndication i r) st = Com_TpRxIndication env i r st"
| "com_call env (TpTxConfirmation i r) st = Com_TpTxConfirmation env i r st"
| "com_call env (StartOfReception i n m) st = map_option snd (Com_StartOfReception env i n m st)"
| "com_call env (CopyRxData i sdu n m) st = map_option snd (Com_CopyRxData env i sdu n m st)"
| "com_call env (CopyTxData i out n m) st = map_option snd (Com_CopyTxData env i out n m st)"
| "com_call env (IpduGroupControl v init) st = Com_IpduGroupControl env v init st"
| "com_call env (ReceptionDMControl v) st = Com_ReceptionDMControl env v st"
| "com_call env MainFunctionRx st = Com_MainFunctionRx env st"
| "com_call env MainFunctionTx st = Com_MainFunctionTx env st"
| "com_call env MainFunctionRouteSignals st = Some (Com_MainFunctionRouteSignals env st)"

text \<open>
  What a caller has to respect: buffers as long as the signal or the I-PDU, signal groups and plain
  signals not confused, and valid identifiers for the services that do not check them.
\<close>

definition plain_signal :: "Com_ConfigType \<Rightarrow> uint16 \<Rightarrow> uint8 list \<Rightarrow> bool" where
  "plain_signal cfg i buf \<longleftrightarrow>
     (unat i < length (ComSignal cfg) \<longrightarrow>
      (let s = ComSignal cfg ! unat i in
       \<not> Com_Arc_IsSignalGroup s \<and> value_bytes (ComBitSize s) (ComSignalEndianess s) (ComSignalType s) \<le> length buf \<and>
       SignalTypeToSize (ComSignalType s) (unat (ComBitSize s) div 8) \<le> length buf))"

definition group_signal :: "Com_ConfigType \<Rightarrow> uint16 \<Rightarrow> uint8 list \<Rightarrow> bool" where
  "group_signal cfg i buf \<longleftrightarrow>
     (unat i < length (ComGroupSignals cfg) \<longrightarrow>
      (let g = ComGroupSignals cfg ! unat i in
       value_bytes (gs_ComBitSize g) (gs_ComSignalEndianess g) (gs_ComSignalType g) \<le> length buf \<and>
       SignalTypeToSize (gs_ComSignalType g) (unat (gs_ComBitSize g) div 8) \<le> length buf))"

definition whole_pdu :: "Com_ConfigType \<Rightarrow> uint16 \<Rightarrow> uint8 list \<Rightarrow> bool" where
  "whole_pdu cfg i buf \<longleftrightarrow> (unat i < length (ComIPdu cfg) \<longrightarrow> unat (ComIPduSize (ComIPdu cfg ! unat i)) \<le> length buf)"

fun call_ok :: "Com_ConfigType \<Rightarrow> com_op \<Rightarrow> bool" where
  "call_ok cfg (SendSignal i data) = plain_signal cfg i data"
| "call_ok cfg (ReceiveSignal i out) = plain_signal cfg i out"
| "call_ok cfg (SendDynSignal i data n) =
     (unat i < length (ComSignal cfg) \<and> ComIPduHandleId (ComSignal cfg ! unat i) \<noteq> NO_PDU_REFERENCE)"
| "call_ok cfg (ReceiveDynSignal i out n) =
     (unat i < length (ComSignal cfg) \<and> ComIPduHandleId (ComSignal cfg ! unat i) \<noteq> NO_PDU_REFERENCE)"
| "call_ok cfg (SendSignalGroup i) = (unat i < length (ComSignal cfg) \<and> Com_Arc_IsSignalGroup (ComSignal cfg ! unat i))"
| "call_ok cfg (ReceiveSignalGroup i) = (unat i < length (ComSignal cfg) \<and> Com_Arc_IsSignalGroup (ComSignal cfg ! unat i))"
| "call_ok cfg (UpdateShadowSignal i data) = group_signal cfg i data"
| "call_ok cfg (ReceiveShadowSignal i out) = group_signal cfg i out"
| "call_ok cfg (TriggerTransmit i out n) = whole_pdu cfg i out"
| "call_ok cfg (RxIndication i sdu) = whole_pdu cfg i sdu"
| "call_ok cfg (StartOfReception i n m) = (unat i < length (ComIPdu cfg))"
| "call_ok cfg (CopyRxData i sdu n m) = (unat i < length (ComIPdu cfg) \<and> unat n \<le> length sdu)"
| "call_ok cfg (CopyTxData i out n m) = (unat i < length (ComIPdu cfg) \<and> unat n \<le> length out)"
| "call_ok cfg (IpduGroupControl v init) =
     list_all (\<lambda>IPdu. list_all (\<lambda>g. unat g div 8 < length v) (ComIPduGroupRefs IPdu)) (ComIPdu cfg)"
| "call_ok cfg (ReceptionDMControl v) =
     list_all (\<lambda>IPdu. list_all (\<lambda>g. unat g div 8 < length v) (ComIPduGroupRefs IPdu)) (ComIPdu cfg)"
| "call_ok cfg _ = True"

definition com_run :: "Com_Env \<Rightarrow> com_op list \<Rightarrow> com \<Rightarrow> com ub" where
  "com_run env = for_each (com_call env)"

lemma vector_ok_cfg:
  assumes "com_at env sh d st" "list_all (\<lambda>IPdu. list_all (\<lambda>g. unat g div 8 < length v) (ComIPduGroupRefs IPdu)) (ComIPdu (the_cfg st))"
  shows "vector_ok sh v"
  using assms(2) com_at_shape(5) [OF assms(1)] by (auto simp: vector_ok_def has_pdu_def list_all_length)

text \<open>Every call but the transmitting main function is a step.\<close>

lemma step_com_call:
  assumes at: "com_at env sh (Suc (Suc d)) st" and ok: "call_ok (the_cfg st) op" and op: "op \<noteq> MainFunctionTx"
  shows "returns (com_call env op st) (com_step st)"
proof (cases op)
  case (SendSignal i data)
  have "returns (Com_SendSignal env i data st) (\<lambda>x. com_step st (snd x))"
    by (rule step_Com_SendSignal [OF at]) (use ok SendSignal in \<open>simp add: plain_signal_def Let_def\<close>)
  then show ?thesis unfolding SendSignal com_call.simps by (rule returns_map)
next
  case (ReceiveSignal i out)
  have "returns (Com_ReceiveSignal env i out st) (\<lambda>x. com_step st (snd x))"
    by (rule step_Com_ReceiveSignal [OF at]) (use ok ReceiveSignal in \<open>simp add: plain_signal_def Let_def\<close>)
  then show ?thesis unfolding ReceiveSignal com_call.simps by (rule returns_map)
next
  case (SendDynSignal i data n)
  then show ?thesis using ok dyn_signals_refused(1) [OF at] by (simp add: step.R_refl)
next
  case (ReceiveDynSignal i out n)
  then show ?thesis using ok dyn_signals_refused(2) [OF at] by (simp add: step.R_refl)
next
  case (SendSignalGroup i)
  then show ?thesis using ok unfolding SendSignalGroup com_call.simps by (intro returns_map step_Com_SendSignalGroup [OF at]) simp_all
next
  case (ReceiveSignalGroup i)
  then show ?thesis using ok unfolding ReceiveSignalGroup com_call.simps
    by (intro returns_map step_Com_ReceiveSignalGroup [OF at]) simp_all
next
  case (UpdateShadowSignal i data)
  have "returns (Com_UpdateShadowSignal env i data st) (com_step st)"
    by (rule step_Com_UpdateShadowSignal [OF at]) (use ok UpdateShadowSignal in \<open>simp add: group_signal_def Let_def\<close>)
  then show ?thesis unfolding UpdateShadowSignal com_call.simps .
next
  case (ReceiveShadowSignal i out)
  have "returns (Com_ReceiveShadowSignal env i out st) (\<lambda>x. com_step st (snd x))"
    by (rule step_Com_ReceiveShadowSignal [OF at]) (use ok ReceiveShadowSignal in \<open>simp add: group_signal_def Let_def\<close>)
  then show ?thesis unfolding ReceiveShadowSignal com_call.simps by (rule returns_map)
next
  case (TriggerIPDUSend i)
  show ?thesis
  proof (cases "ipdu_in_range i st")
    case True
    obtain IPdu ptrs where "has_pdu sh i IPdu ptrs" using ipdu_in_range_pdu [OF at True] .
    from tx_returns [OF step_Com_TriggerIPDUSend [OF at this]] show ?thesis unfolding TriggerIPDUSend com_call.simps .
  next
    case False
    then show ?thesis
      using TriggerIPDUSend com_at_shape(1) [OF at] by (simp add: Com_TriggerIPDUSend_def com_guard_def step.R_report)
  qed
next
  case (TriggerTransmit i out n)
  have "returns (Com_TriggerTransmit env i out n st) (\<lambda>x. com_step st (snd x))"
    by (rule step_Com_TriggerTransmit [OF at]) (use ok TriggerTransmit in \<open>simp add: whole_pdu_def\<close>)
  then show ?thesis unfolding TriggerTransmit com_call.simps by (rule returns_map)
next
  case (RxIndication i sdu)
  have "returns (Com_RxIndication env i sdu st) (com_step st)"
    by (rule step_Com_RxIndication [OF at]) (use ok RxIndication in \<open>simp add: whole_pdu_def\<close>)
  then show ?thesis unfolding RxIndication com_call.simps .
next
  case (TxConfirmation i)
  then show ?thesis using step_Com_TxConfirmation [OF at] by simp
next
  case (TpRxIndication i r)
  then show ?thesis using step_Com_TpRxIndication [OF at] by simp
next
  case (TpTxConfirmation i r)
  then show ?thesis using step_Com_TpTxConfirmation [OF at] by simp
next
  case (StartOfReception i n m)
  then have "unat i < length (ComIPdu (the_cfg st))" using ok by simp
  from step_Com_StartOfReception [OF at has_pdu_index [OF at this]] show ?thesis
    unfolding StartOfReception com_call.simps by (rule returns_map)
next
  case (CopyRxData i sdu n m)
  then have "unat i < length (ComIPdu (the_cfg st))" "unat n \<le> length sdu" using ok by simp_all
  from step_Com_CopyRxData [OF at has_pdu_index [OF at this(1)] this(2)] show ?thesis
    unfolding CopyRxData com_call.simps by (rule returns_map)
next
  case (CopyTxData i out n m)
  then have "unat i < length (ComIPdu (the_cfg st))" "unat n \<le> length out" using ok by simp_all
  from step_Com_CopyTxData [OF at has_pdu_index [OF at this(1)] this(2)] show ?thesis
    unfolding CopyTxData com_call.simps by (rule returns_map)
next
  case (IpduGroupControl v init)
  then have "vector_ok sh v" using ok vector_ok_cfg [OF at] by simp
  then show ?thesis unfolding IpduGroupControl com_call.simps by (rule step_Com_IpduGroupControl [OF at])
next
  case (ReceptionDMControl v)
  then have "vector_ok sh v" using ok vector_ok_cfg [OF at] by simp
  then show ?thesis unfolding ReceptionDMControl com_call.simps by (rule step_Com_ReceptionDMControl [OF at])
next
  case MainFunctionRx
  then show ?thesis using step_Com_MainFunctionRx [OF at] by simp
next
  case MainFunctionTx
  then show ?thesis using op by simp
next
  case MainFunctionRouteSignals
  then show ?thesis by (simp add: Com_MainFunctionRouteSignals_def step.R_refl step.R_report)
qed

text \<open>One call, with what it does to the transmissions of every I-PDU: \<open>k\<close> is the time that passes.\<close>

definition call_ticks :: "com_op \<Rightarrow> nat" where
  "call_ticks op = (if op = MainFunctionTx then 1 else 0)"

definition ticks :: "com_op list \<Rightarrow> nat" where
  "ticks ops = sum_list (map call_ticks ops)"

definition pdu_after :: "nat \<Rightarrow> nat \<Rightarrow> com \<Rightarrow> com \<Rightarrow> bool" where
  "pdu_after k i st st' \<longleftrightarrow>
     min_delay i st - k \<le> min_delay i st' \<and> pdu_sent i st' = pdu_sent i st \<or>
     min_delay i st \<le> k \<and> min_delay i st' = min_delay_factor i st"

lemma com_call_returns:
  assumes at: "com_at env sh (Suc (Suc d)) st" and ok: "call_ok (the_cfg st) op"
  shows "returns (com_call env op st)
    (\<lambda>st'. com_same st st' \<and> (\<forall>i < length (ComIPdu (the_cfg st)). pdu_after (call_ticks op) i st st'))"
proof (cases "op = MainFunctionTx")
  case True
  have "returns (com_call env op st) (main_step st)" using main_MainFunctionTx [OF at] True by simp
  then show ?thesis
    by (rule returns_mono) (use True in \<open>auto simp: main_step_def pdu_tick_def pdu_after_def call_ticks_def\<close>)
next
  case False
  from step_com_call [OF at ok this] show ?thesis
    by (rule returns_mono) (use False in \<open>auto simp: com_step_def pdu_step_def pdu_after_def call_ticks_def\<close>)
qed

text \<open>A sequence of calls returns, and transmits nothing before the minimum delay has expired.\<close>

lemma com_run_returns:
  assumes "com_at env sh (Suc (Suc d)) st" "list_all (call_ok (the_cfg st)) ops"
  shows "returns (com_run env ops st)
    (\<lambda>st'. com_same st st' \<and> (\<forall>i < length (ComIPdu (the_cfg st)). ticks ops < min_delay i st \<longrightarrow>
       pdu_sent i st' = pdu_sent i st \<and> min_delay i st \<le> min_delay i st' + ticks ops))"
  using assms
proof (induction ops arbitrary: st)
  case Nil
  then show ?case by (simp add: com_run_def)
next
  case (Cons op ops)
  have ok: "call_ok (the_cfg st) op" "list_all (call_ok (the_cfg st)) ops" using Cons.prems by simp_all
  obtain st1 where st1: "com_call env op st = Some st1" "com_same st st1"
    "\<And>i. i < length (ComIPdu (the_cfg st)) \<Longrightarrow> pdu_after (call_ticks op) i st st1"
    using com_call_returns [OF Cons.prems(1) ok(1)] unfolding returns_def by blast
  note cfg = com_same_cfg [OF st1(2)]
  have "com_at env sh (Suc (Suc d)) st1" using st1(2) Cons.prems(1) by (rule com_same_at)
  from Cons.IH [OF this] ok(2) cfg obtain st2 where st2: "com_run env ops st1 = Some st2" "com_same st1 st2"
    "\<And>i. i < length (ComIPdu (the_cfg st)) \<Longrightarrow> ticks ops < min_delay i st1 \<Longrightarrow>
       pdu_sent i st2 = pdu_sent i st1 \<and> min_delay i st1 \<le> min_delay i st2 + ticks ops"
    unfolding returns_def by auto
  have "pdu_sent i st2 = pdu_sent i st \<and> min_delay i st \<le> min_delay i st2 + ticks (op # ops)"
    if i: "i < length (ComIPdu (the_cfg st))" and t: "ticks (op # ops) < min_delay i st" for i
  proof -
    have t: "call_ticks op + ticks ops < min_delay i st" using t by (simp add: ticks_def)
    then have st1': "min_delay i st - call_ticks op \<le> min_delay i st1" "pdu_sent i st1 = pdu_sent i st"
      using st1(3) [OF i] by (auto simp: pdu_after_def)
    then have "ticks ops < min_delay i st1" using t by linarith
    from st2(3) [OF i this] have "pdu_sent i st2 = pdu_sent i st" "min_delay i st1 \<le> min_delay i st2 + ticks ops"
      using st1'(2) by simp_all
    moreover have "ticks (op # ops) = call_ticks op + ticks ops" by (simp add: ticks_def)
    ultimately show ?thesis using st1'(1) by linarith
  qed
  then show ?case
    using st1(1) st2(1) com_same_trans [OF st1(2) st2(2)] by (simp add: com_run_def)
qed

section \<open>An example configuration\<close>

text \<open>
  One I-PDU is sent and one received, both of four bytes with a 12-bit signal in bits 4 to 15. The sender
  transmits on every write, at most every third call of the main function.
\<close>

definition com_example_signal :: "uint16 \<Rightarrow> ComSignal_type" where
  "com_example_signal i =
     \<lparr>ComBitPosition = 4, ComBitSize = 12, ComFirstTimeoutFactor = 0, ComHandleId = i,
      ComNotification = COM_NO_FUNCTION_CALLOUT, ComRxDataTimeoutAction = COM_TIMEOUT_DATA_ACTION_NONE,
      ComSignalEndianess = COM_LITTLE_ENDIAN, ComSignalInitValue = [0, 0], ComSignalType = COM_UINT16,
      ComTimeoutFactor = 0, ComTimeoutNotification = COM_NO_FUNCTION_CALLOUT, ComTransferProperty = COM_TRIGGERED,
      ComUpdateBitPosition = 0, ComSignalArcUseUpdateBit = False, Com_Arc_IsSignalGroup = False, ComGroupSignal = [],
      Com_Arc_ShadowBuffer_Mask = [], ComIPduHandleId = i\<rparr>"

definition com_example_pdu :: "uint16 \<Rightarrow> Com_IPduDirection \<Rightarrow> ComIPdu_type" where
  "com_example_pdu i dir =
     \<lparr>ComRxIPduCallout = COM_NO_FUNCTION_CALLOUT, ComTxIPduCallout = COM_NO_FUNCTION_CALLOUT,
      ComTriggerTransmitIPduCallout = COM_NO_FUNCTION_CALLOUT, ArcIPduOutgoingId = i,
      ComIPduSignalProcessing = COM_IMMEDIATE, ComIPduSize = 4, ComIPduDirection = dir, ComIPduGroupRefs = [0],
      ComTxIPdu = \<lparr>ComTxIPduMinimumDelayFactor = 3, ComTxIPduUnusedAreasDefault = 0,
        ComTxModeTrue = \<lparr>ComTxModeMode = COM_DIRECT, ComTxModeNumberOfRepetitions = 0, ComTxModeRepetitionPeriodFactor = 0,
          ComTxModeTimeOffsetFactor = 0, ComTxModeTimePeriodFactor = 0\<rparr>\<rparr>,
      ComIPduSignalRef = Some [com_example_signal i], ComIPduDynSignalRef = None, ComIpduCounterRef = None\<rparr>"

definition com_example_cfg :: Com_ConfigType where
  "com_example_cfg =
     \<lparr>ComNofIPdus = 2, ComNofSignals = 2, ComNofGroupSignals = 0,
      ComIPdu = [com_example_pdu 0 COM_SEND, com_example_pdu 1 COM_RECEIVE],
      ComSignal = [com_example_signal 0, com_example_signal 1], ComGroupSignals = []\<rparr>"

definition com_example_env :: Com_Env where
  "com_example_env =
     \<lparr>COM_DEV_ERROR_DETECT = True, COM_IPDU_COUNTING_ENABLE = False, ComNotificationCallouts = [], ComTxIPduCallouts = [],
      ComRxIPduCallouts = [], ComTriggerTransmitIPduCallouts = [], COM_INVALID_PDU_ID = 4, COM_E_TOO_MANY_IPDU = 5,
      PduR_ComTransmit = (\<lambda>_ _ _. True)\<rparr>"

definition com_blank_timers :: Com_Arc_TxIPduTimer_type where
  "com_blank_timers =
     \<lparr>ComTxModeRepetitionPeriodTimer = 0, ComTxIPduMinimumDelayTimer = 0, ComTxModeTimePeriodTimer = 0, ComTxDMTimer = 0,
      ComTxIPduNumberOfRepetitionsLeft = 0, ComTxIPduNumberOfTxConfirmations = 0\<rparr>"

definition com_blank_pdu :: "nat ptr \<Rightarrow> bool \<Rightarrow> bool \<Rightarrow> Com_Arc_IPdu_type" where
  "com_blank_pdu p strt b =
     \<lparr>ComIPduDataPtr = p, ComIPduDeferredDataPtr = None, Com_Arc_TxIPduTimers = com_blank_timers,
      Com_Arc_TxDeadlineCounter = 0, Com_Arc_DynSignalLength = 0, Com_Arc_IpduStarted = strt, Com_Arc_IpduRxDMControl = b\<rparr>"

text \<open>The zeroed memory before the initialisation, for two I-PDUs and two signals.\<close>

definition com_blank :: com where
  "com_blank =
     \<lparr>initStatus = COM_UNINIT, ComConfig = None, Com_Arc_IPdu = [com_blank_pdu None False False, com_blank_pdu None False False],
      Com_Arc_Signal = replicate 2 \<lparr>Com_Arc_ShadowBuffer = None, Com_Arc_DeadlineCounter = 0, ComSignalUpdated = False\<rparr>,
      Com_Arc_GroupSignal = [], Com_BufferPduState = replicate 2 \<lparr>currentPosition = 0, locked = False\<rparr>,
      Com_Arc_Buffer = replicate 8 0, com_cntrs = \<lparr>ComIPduCountRxStart = [], Com_IPdu_Counters = []\<rparr>,
      com_os = Os_Int_Start, com_calls = []\<rparr>"

text \<open>The state after the initialisation, and after the start of the only group.\<close>

definition com_example :: "bool \<Rightarrow> com" where
  "com_example strt = com_blank\<lparr>initStatus := COM_INIT, ComConfig := Some com_example_cfg,
     Com_Arc_IPdu := [com_blank_pdu (Some 0) strt True, com_blank_pdu (Some 4) strt True]\<rparr>"

lemma com_example_init: "Com_Init com_example_env (Some com_example_cfg) com_blank = Some (com_example False)"
  by code_simp

lemma com_example_start: "Com_IpduGroupControl com_example_env [1] True (com_example False) = Some (com_example True)"
  by code_simp

lemma com_example_access: "base \<le> 4 \<Longrightarrow> access_ok 8 base 4 12 COM_LITTLE_ENDIAN COM_UINT16"
  by (simp add: access_ok_def opaque_def sig_ok_def window_ok_def word_bytes_def lsbIndex_def byte_addr_def in_mem_def
      upt_rec)

lemma com_example_ok: "com_ok com_example_env 2 (com_example strt)"
proof -
  let ?st = "com_example strt"
  note defs = com_example_def com_blank_def com_blank_pdu_def
  have cfg: "the_cfg ?st = com_example_cfg" by (simp add: the_cfg_def com_example_def)
  have "os_ok 2 (com_os ?st)" by (simp add: com_example_def com_blank_def os_ok_def Os_Int_Start_def)
  moreover have "locks_ok ?st" unfolding locks_ok_def cfg by (simp add: com_example_cfg_def less_Suc_eq defs)
  moreover have "shape ?st =
      \<lparr>sh_cfg = Some com_example_cfg, sh_pdus = [(Some 0, None), (Some 4, None)], sh_sigs = [None, None], sh_groups = [],
       sh_locks = 2, sh_buf = 8, sh_cntrs = 0, sh_rx = 0\<rparr>"
    by (simp add: shape_def defs numeral_2_eq_2)
  moreover have "shape_ok com_example_env
      \<lparr>sh_cfg = Some com_example_cfg, sh_pdus = [(Some 0, None), (Some 4, None)], sh_sigs = [None, None], sh_groups = [],
       sh_locks = 2, sh_buf = 8, sh_cntrs = 0, sh_rx = 0\<rparr>"
    by (simp add: shape_ok_def com_example_env_def keeps_length_def com_example_cfg_def com_example_pdu_def less_Suc_eq
        pdu_ok_def callout_ok_def signal_refs_def signal_ref_ok_def com_example_signal_def com_example_access
        value_bytes_def opaque_def signal_ok_def read_buffer_def NO_PDU_REFERENCE_def all_conj_distrib)
  ultimately show ?thesis by (simp add: com_ok_def com_example_def)
qed

section \<open>Properties of the module\<close>

lemma com_ok_at: "com_ok env 2 st \<Longrightarrow> com_at env (shape st) (Suc (Suc 0)) st"
  by (simp add: com_at_def numeral_2_eq_2)


lemma com_example_cfg_of: "the_cfg (com_example b) = com_example_cfg"
  by (simp add: the_cfg_def com_example_def)

lemma com_example_calls_ok:
  "call_ok com_example_cfg (SendSignal 0 [0xAB, 0x0C])" "call_ok com_example_cfg (SendSignal 0 [1, 0])"
  "call_ok com_example_cfg (RxIndication 1 [0xB0, 0xCA, 0, 0])" "call_ok com_example_cfg (ReceiveSignal 1 [0, 0])"
  by (simp_all add: plain_signal_def whole_pdu_def com_example_cfg_def com_example_signal_def com_example_pdu_def
      value_bytes_def opaque_def SignalTypeToSize_def)


text \<open>
  C10: The minimum delay between transmissions. After a call that hands an I-PDU to the PDU router, no
  further calls hand the same I-PDU to it while the transmitting main function has run fewer times than
  the configured minimum delay, whatever services are called in between and whether or not the router
  accepts a transmission. All these calls return.
\<close>

theorem com_min_delay:
  assumes "com_ok env 2 st" "i < length (ComIPdu (the_cfg st))"
    and "call_ok (the_cfg st) op" "com_call env op st = Some st1" "pdu_sent i st1 \<noteq> pdu_sent i st"
    and "list_all (call_ok (the_cfg st)) ops" "ticks ops < min_delay_factor i st"
  shows "\<exists>st2. com_run env ops st1 = Some st2 \<and> pdu_sent i st2 = pdu_sent i st1"
proof -
  note at = com_ok_at [OF assms(1)]
  have st1: "com_same st st1" "pdu_after (call_ticks op) i st st1"
    using com_call_returns [OF at assms(3)] assms(2,4) by (auto simp: returns_def)
  then have "min_delay i st1 = min_delay_factor i st" using assms(5) by (auto simp: pdu_after_def)
  moreover have "the_cfg st1 = the_cfg st" using st1(1) by (rule com_same_cfg)
  ultimately show ?thesis
    using com_run_returns [OF com_same_at [OF st1(1) at], of ops] assms(2,6,7) by (auto simp: returns_def)
qed

lemma com_example_transmits:
  "map_option com_calls (com_call com_example_env (SendSignal 0 [0xAB, 0x0C]) (com_example True)) =
     Some [Transmit 0 [0xB0, 0xCA, 0, 0]]"
  by code_simp

theorem com_min_delay_witness:
  "\<exists>st1 st2. com_call com_example_env (SendSignal 0 [0xAB, 0x0C]) (com_example True) = Some st1 \<and>
     com_calls st1 = [Transmit 0 [0xB0, 0xCA, 0, 0]] \<and>
     com_run com_example_env [MainFunctionTx, SendSignal 0 [1, 0], MainFunctionTx] st1 = Some st2 \<and>
     pdu_sent 0 st2 = pdu_sent 0 st1"
proof -
  let ?st = "com_example True"
  obtain st1 where st1: "com_call com_example_env (SendSignal 0 [0xAB, 0x0C]) ?st = Some st1"
    "com_calls st1 = [Transmit 0 [0xB0, 0xCA, 0, 0]]"
    using com_example_transmits by auto
  have "the_cfg st1 = the_cfg ?st"
    using com_call_returns [OF com_ok_at [OF com_example_ok], of True "SendSignal 0 [0xAB, 0x0C]"] st1(1)
      com_example_calls_ok(1) com_same_cfg [of ?st st1] com_example_cfg_of [of True]
    by (simp add: returns_def del: com_call.simps call_ok.simps)
  then have "pdu_sent 0 st1 \<noteq> pdu_sent 0 ?st"
    using st1(2) com_example_cfg_of [of True]
    by (simp add: pdu_sent_def is_transmit_def com_example_cfg_def com_example_pdu_def)
      (simp add: com_example_def com_blank_def)
  moreover have "ticks [MainFunctionTx, SendSignal 0 [1, 0], MainFunctionTx] < min_delay_factor 0 ?st"
    by (simp add: ticks_def call_ticks_def min_delay_factor_def com_example_cfg_of com_example_cfg_def com_example_pdu_def)
  moreover have "list_all (call_ok (the_cfg ?st)) [MainFunctionTx, SendSignal 0 [1, 0], MainFunctionTx]"
    using com_example_calls_ok(2) by (simp add: com_example_cfg_of del: call_ok.simps(1))
  moreover have "0 < length (ComIPdu (the_cfg ?st))" by (simp add: com_example_cfg_of com_example_cfg_def)
  ultimately obtain st2 where "com_run com_example_env [MainFunctionTx, SendSignal 0 [1, 0], MainFunctionTx] st1 = Some st2"
    "pdu_sent 0 st2 = pdu_sent 0 st1"
    using com_min_delay [OF com_example_ok _ _ st1(1)] com_example_calls_ok(1) unfolding com_example_cfg_of by blast
  then show ?thesis using st1 by blast
qed

end
