(* ===== verification/Com_Deliver.thy ===== *)
theory Com_Deliver
  imports Com_Module
begin

text \<open>
  From one module to another: a signal that is sent, transmitted, received and read has the value that
  was sent.
\<close>

section \<open>Positions\<close>

lemma sig_pos_base: "sig_pos endian base p n j = (int base + fst (sig_pos endian 0 p n j), snd (sig_pos endian 0 p n j))"
  by (simp add: sig_pos_def byte_addr_def Let_def)

text \<open>A signal inside its I-PDU.\<close>

definition inside_pdu :: "ComSignal_type \<Rightarrow> ComIPdu_type \<Rightarrow> bool" where
  "inside_pdu s IPdu \<longleftrightarrow>
     list_all (\<lambda>j. let a = fst (sig_pos (ComSignalEndianess s) 0 (unat (ComBitPosition s)) (unat (ComBitSize s)) j)
       in 0 \<le> a \<and> a < int (unat (ComIPduSize IPdu))) [0..<unat (ComBitSize s)]"

lemma mem_bit_inside:
  assumes "inside_pdu s IPdu" "j < unat (ComBitSize s)" "unat (ComIPduSize IPdu) \<le> length sdu"
    and "\<And>k. k < unat (ComIPduSize IPdu) \<Longrightarrow> base + k < length mem \<and> mem ! (base + k) = sdu ! k"
  shows "mem_bit mem (sig_pos (ComSignalEndianess s) base (unat (ComBitPosition s)) (unat (ComBitSize s)) j) \<longleftrightarrow>
    mem_bit sdu (sig_pos (ComSignalEndianess s) 0 (unat (ComBitPosition s)) (unat (ComBitSize s)) j)"
proof -
  define p where "p = sig_pos (ComSignalEndianess s) 0 (unat (ComBitPosition s)) (unat (ComBitSize s)) j"
  have a: "0 \<le> fst p" "nat (fst p) < unat (ComIPduSize IPdu)"
    using assms(1,2) by (auto simp: inside_pdu_def Let_def list_all_iff p_def nat_less_iff)
  then have "mem ! (base + nat (fst p)) = sdu ! nat (fst p)" using assms(4) by blast
  then show ?thesis
    unfolding sig_pos_base [of _ base] p_def [symmetric] using a(1) by (simp add: mem_bit_def nat_add_distrib)
qed

section \<open>Sending\<close>

text \<open>A started I-PDU whose signal is transmitted on every write, with no callout, counter or update bit.\<close>

definition sends_at_once :: "com \<Rightarrow> ComSignal_type \<Rightarrow> bool" where
  "sends_at_once st s \<longleftrightarrow>
     ComIPduHandleId s \<noteq> NO_PDU_REFERENCE \<and> \<not> Com_Arc_IsSignalGroup s \<and> \<not> ComSignalArcUseUpdateBit s \<and>
     \<not> opaque (ComSignalEndianess s) (ComSignalType s) \<and>
     ComTransferProperty s \<in> {COM_TRIGGERED, COM_TRIGGERED_WITHOUT_REPETITION} \<and>
     (let k = unat (ComIPduHandleId s); IPdu = ComIPdu (the_cfg st) ! k in
      ComTxModeMode (tx_mode IPdu) \<in> {COM_DIRECT, COM_MIXED} \<and> ComTxIPduCallout IPdu = COM_NO_FUNCTION_CALLOUT \<and>
      ComIpduCounterRef IPdu = None \<and> inside_pdu s IPdu \<and> min_delay k st = 0 \<and>
      Com_Arc_IpduStarted (Com_Arc_IPdu st ! k) \<and> \<not> locked (Com_BufferPduState st ! k))"

definition adds :: "nat \<Rightarrow> Com_Call \<Rightarrow> com \<Rightarrow> com \<Rightarrow> bool" where
  "adds k c st st' \<longleftrightarrow> com_same st st' \<and> pdu_sent k st' = pdu_sent k st @ [c]"

lemma adds_still: "adds k c a b \<Longrightarrow> com_still b d \<Longrightarrow> adds k c a d"
  using com_same_trans [of a b d] by (auto simp: adds_def com_still_def)

lemma still_adds: "com_still a b \<Longrightarrow> adds k c b d \<Longrightarrow> adds k c a d"
  using com_same_trans [of a b d] by (auto simp: adds_def com_still_def)

lemma adds_exit: "com_at env sh (Suc d) st \<Longrightarrow> adds k c (ea_enter st) st' \<Longrightarrow> adds k c st (ea_exit st')"
  using same_exit by (auto simp: adds_def)

lemma adds_at: "adds k c st st' \<Longrightarrow> com_at env sh d st \<Longrightarrow> com_at env sh d st'"
  using com_same_at unfolding adds_def by blast

text \<open>The I-PDU as it is handed over.\<close>

abbreviation pdu_bytes :: "ComIPdu_type \<Rightarrow> nat \<Rightarrow> com \<Rightarrow> uint8 list" where
  "pdu_bytes IPdu base st \<equiv> take (unat (ComIPduSize IPdu)) (drop base (Com_Arc_Buffer st))"

lemma TriggerIPDUSend_sends:
  assumes at: "com_at env sh (Suc d) st" and pdu: "has_pdu sh i IPdu ptrs" and base: "fst ptrs = Some base"
    and c: "ComIpduCounterRef IPdu = None" "ComTxIPduCallout IPdu = COM_NO_FUNCTION_CALLOUT"
    and zero: "min_delay (unat i) st = 0"
  shows "returns (Com_Misc_TriggerIPDUSend env i st)
    (\<lambda>x. adds (unat i) (Transmit (ArcIPduOutgoingId IPdu) (pdu_bytes IPdu base st)) st (snd x))"
proof -
  note p = has_pdu_at(5,6) [OF at pdu]
  have e: "com_at env sh d (ea_enter st)" using at by (rule com_at_enter)
  have "ComTxIPduMinimumDelayTimer (Com_Arc_TxIPduTimers (Com_Arc_IPdu st ! unat i)) = 0"
    using zero by (simp add: min_delay_def unat_0_iff)
  then have "Com_Misc_TriggerIPDUSend env i st = do { (r, st) \<leftarrow> send_ipdu env i IPdu (ea_enter st); Some (r, ea_exit st) }"
    using p c(2) by (simp add: Com_Misc_TriggerIPDUSend_def tx_callout_def)
  then show ?thesis
    using send_ipdu_sends [OF e pdu base c(1)] adds_exit [OF at]
    by (auto simp: returns_def adds_def)
qed

lemma trigger_result_sends:
  assumes at: "com_at env sh (Suc d) st" and pdu: "has_pdu sh (ComIPduHandleId s) IPdu ptrs" and base: "fst ptrs = Some base"
    and c: "ComIpduCounterRef IPdu = None" "ComTxIPduCallout IPdu = COM_NO_FUNCTION_CALLOUT"
    and tx: "ComTransferProperty s \<in> {COM_TRIGGERED, COM_TRIGGERED_WITHOUT_REPETITION}"
      "ComTxModeMode (tx_mode IPdu) \<in> {COM_DIRECT, COM_MIXED}"
    and run: "min_delay (unat (ComIPduHandleId s)) st = 0" "Com_Arc_IpduStarted (Com_Arc_IPdu st ! unat (ComIPduHandleId s))"
  shows "returns (trigger_result env s changed st)
    (\<lambda>(r, st'). r = com_E_OK \<and> adds (unat (ComIPduHandleId s)) (Transmit (ArcIPduOutgoingId IPdu) (pdu_bytes IPdu base st)) st st')"
proof -
  let ?i = "ComIPduHandleId s" and ?n = "nof_reps IPdu (ComTransferProperty s)"
  let ?A = "adds (unat ?i) (Transmit (ArcIPduOutgoingId IPdu) (pdu_bytes IPdu base st)) st"
  note p = has_pdu_at(5,6) [OF at pdu]
  have n: "0 < ?n" using tx(1) by (auto simp: nof_reps_def word_gt_0)
  obtain r st1 where st1: "Com_Misc_TriggerIPDUSend env ?i st = Some (r, st1)" "?A st1"
    using TriggerIPDUSend_sends [OF at pdu base c run(1)] by (auto simp: returns_def)
  have at1: "com_at env sh (Suc d) st1" using adds_at [OF st1(2) at] .
  have "returns (trigger_now env ?i IPdu ?n st) (\<lambda>x. com_at env sh (Suc d) (snd (snd x)) \<and> ?A (snd (snd x)))"
  proof -
    have upd: "returns (upd_timers ?i (\<lambda>t. t\<lparr>ComTxModeRepetitionPeriodTimer := v\<rparr>) st1) ?A" for v
      by (rule returns_mono [OF still_upd_timers [OF at1 pdu]]) (simp_all add: adds_still [OF st1(2)])
    have "returns (trigger_now env ?i IPdu ?n st) (\<lambda>x. ?A (snd (snd x)))"
      using n st1(1) by (cases r) (auto simp: trigger_now_def Let_def intro!: returns_bind [OF upd])
    then show ?thesis by (rule returns_mono) (simp add: adds_at [OF _ at])
  qed
  then obtain b m st2 where st2: "trigger_now env ?i IPdu ?n st = Some (b, m, st2)" "com_at env sh (Suc d) st2" "?A st2"
    unfolding returns_def by auto
  have "returns (upd_pdu ?i (restart_repetitions b m) st2) (com_still st2)"
    by (rule still_upd_pdu [OF st2(2) pdu]) (simp_all add: restart_repetitions_def Let_def)
  then obtain st3 where "upd_pdu ?i (restart_repetitions b m) st2 = Some st3" "?A st3"
    using adds_still [OF st2(3)] unfolding returns_def by blast
  moreover have "ComTransferProperty s = COM_TRIGGERED \<or> ComTransferProperty s = COM_TRIGGERED_WITHOUT_REPETITION"
    "ComTxModeMode (tx_mode IPdu) = COM_DIRECT \<or> ComTxModeMode (tx_mode IPdu) = COM_MIXED" using tx by auto
  ultimately show ?thesis
    using st2(1) run(2) p by (auto simp: trigger_result_def Com_Misc_TriggerTxOnConditions_def)
qed

text \<open>A write that is transmitted: the I-PDU handed over carries the value.\<close>

lemma SendSignal_sends:
  assumes at: "com_at env sh (Suc (Suc d)) st" and i: "unat i < length (ComSignal (the_cfg st))"
    and s: "s = ComSignal (the_cfg st) ! unat i" and once: "sends_at_once st s"
    and k: "k = unat (ComIPduHandleId s)" and IPdu: "IPdu = ComIPdu (the_cfg st) ! k"
    and len: "sig_bytes (ComSignalType s) \<le> length data"
  shows "\<exists>st' sdu. Com_SendSignal env i data st = Some (com_E_OK, st') \<and> com_same st st' \<and>
    pdu_sent k st' = pdu_sent k st @ [Transmit (ArcIPduOutgoingId IPdu) sdu] \<and>
    length sdu = unat (ComIPduSize IPdu) \<and>
    (\<forall>j < unat (ComBitSize s).
       mem_bit sdu (sig_pos (ComSignalEndianess s) 0 (unat (ComBitPosition s)) (unat (ComBitSize s)) j) \<longleftrightarrow> buf_bit data j)"
proof -
  note g = GET_Signal_at [OF at i, folded s]
  have o1: "ComIPduHandleId s \<noteq> NO_PDU_REFERENCE" "\<not> Com_Arc_IsSignalGroup s" "\<not> ComSignalArcUseUpdateBit s"
    "\<not> opaque (ComSignalEndianess s) (ComSignalType s)" "ComTransferProperty s \<in> {COM_TRIGGERED, COM_TRIGGERED_WITHOUT_REPETITION}"
    "ComTxModeMode (tx_mode IPdu) \<in> {COM_DIRECT, COM_MIXED}" "ComTxIPduCallout IPdu = COM_NO_FUNCTION_CALLOUT"
    "ComIpduCounterRef IPdu = None" "inside_pdu s IPdu" "min_delay k st = 0" "Com_Arc_IpduStarted (Com_Arc_IPdu st ! k)"
    "\<not> locked (Com_BufferPduState st ! k)"
    using once by (simp_all add: sends_at_once_def Let_def k IPdu)
  obtain ptrs base where pdu: "has_pdu sh (ComIPduHandleId s) IPdu ptrs" and base: "fst ptrs = Some base"
    and acc: "access_ok (sh_buf sh) base (ComBitPosition s) (ComBitSize s) (ComSignalEndianess s) (ComSignalType s)"
    using signal_pdu [OF at g(2) o1(1)] o1(2) has_pdu_at(4) [OF at] unfolding IPdu k by metis
  note p = has_pdu_at [OF at pdu]
  have room: "base + unat (ComIPduSize IPdu) \<le> sh_buf sh" using pdu_okD [OF p(11)] base by (metis option.inject)
  let ?e = "ea_enter st"
  have e: "com_at env sh (Suc d) ?e" using at by (rule com_at_enter)
  have os: "SchM_Exit_Com_EA_0 (SchM_Enter_Com_EA_0 (com_os ?e)) = com_os ?e"
    using e os_enter(2) [of d "com_os ?e"] by (simp add: com_at_def com_ok_def)
  note lb = com_at_shape(6) [OF at]
  have sok: "sig_ok (Com_Arc_Buffer ?e) base (ComBitPosition s) (ComBitSize s) (ComSignalEndianess s) (ComSignalType s)"
    using lb by (intro access_sig_ok [OF _ o1(4) acc]) simp
  obtain mem ch where w: "Com_Misc_WriteSignalDataToPdu (com_os ?e) data (ComSignalType s) (Com_Arc_Buffer ?e) base
      (ComBitPosition s) (ComBitSize s) (ComSignalEndianess s) = Some (mem, ch, com_os ?e)"
    "length mem = length (Com_Arc_Buffer ?e)"
    "\<forall>j<unat (ComBitSize s). mem_bit mem (sig_pos (ComSignalEndianess s) base (unat (ComBitPosition s)) (unat (ComBitSize s)) j)
       \<longleftrightarrow> buf_bit data j"
    using write_signal [OF sok len, of "com_os ?e"] unfolding os by blast
  let ?m = "?e\<lparr>Com_Arc_Buffer := mem\<rparr>"
  have still: "com_still ?e ?m" using w(2) by (rule still_buffer)
  have m: "com_at env sh (Suc d) ?m" using still.R_at [OF still e] .
  have ws: "write_signal_at base data (ComSignalType s) (ComBitPosition s) (ComBitSize s) (ComSignalEndianess s) ?e = Some (ch, ?m)"
    using w(1) by (simp add: write_signal_at_def)
  define sdu where "sdu = pdu_bytes IPdu base ?m"
  have "min_delay (unat (ComIPduHandleId s)) ?m = 0" "Com_Arc_IpduStarted (Com_Arc_IPdu ?m ! unat (ComIPduHandleId s))"
    using o1(10,11) still unfolding k by (simp_all add: com_still_def)
  from trigger_result_sends [OF m pdu base o1(8,7,5,6) this, of ch] obtain st1 where
    t: "trigger_result env s ch ?m = Some (com_E_OK, st1)" "adds k (Transmit (ArcIPduOutgoingId IPdu) sdu) ?m st1"
    unfolding returns_def sdu_def k by auto
  have "adds k (Transmit (ArcIPduOutgoingId IPdu) sdu) st (ea_exit st1)"
    using adds_exit [OF at still_adds [OF still t(2)]] .
  moreover have "Com_SendSignal env i data st = Some (com_E_OK, ea_exit st1)"
    using com_at_shape(1) [OF at] signal_in_range_at [OF at] i o1(1,3,12) g p(6,8,9) base ws t(1) k
    by (simp add: Com_SendSignal_def com_guard_def deref_def set_update_bit_def signal_ok_def)
  moreover have "length sdu = unat (ComIPduSize IPdu)" using room lb w(2) by (simp add: sdu_def)
  moreover have "mem_bit sdu (sig_pos (ComSignalEndianess s) 0 (unat (ComBitPosition s)) (unat (ComBitSize s)) j) \<longleftrightarrow>
      buf_bit data j" if "j < unat (ComBitSize s)" for j
    using mem_bit_inside [OF o1(9) that, of sdu base mem] w(2,3) that room lb by (simp add: sdu_def)
  ultimately show ?thesis unfolding adds_def by blast
qed

section \<open>Receiving\<close>

text \<open>A started I-PDU that is processed immediately, with no callout or counter.\<close>

definition takes_over :: "com \<Rightarrow> ComSignal_type \<Rightarrow> bool" where
  "takes_over st s \<longleftrightarrow>
     ComIPduHandleId s \<noteq> NO_PDU_REFERENCE \<and> \<not> Com_Arc_IsSignalGroup s \<and>
     \<not> opaque (ComSignalEndianess s) (ComSignalType s) \<and>
     (let k = unat (ComIPduHandleId s); IPdu = ComIPdu (the_cfg st) ! k in
      ComRxIPduCallout IPdu = COM_NO_FUNCTION_CALLOUT \<and> ComIpduCounterRef IPdu = None \<and>
      ComIPduSignalProcessing IPdu = COM_IMMEDIATE \<and> inside_pdu s IPdu \<and>
      Com_Arc_IpduStarted (Com_Arc_IPdu st ! k) \<and> \<not> locked (Com_BufferPduState st ! k))"

definition same_data :: "com \<Rightarrow> com \<Rightarrow> bool" where
  "same_data st st' \<longleftrightarrow> Com_Arc_Buffer st' = Com_Arc_Buffer st \<and> Com_Arc_IPdu st' = Com_Arc_IPdu st \<and>
     Com_BufferPduState st' = Com_BufferPduState st"

lemma same_data_upd_sig: "upd_sig i f st = Some st' \<Longrightarrow> same_data st st'"
  by (auto simp: upd_sig_def same_data_def Option.bind_eq_Some_conv)

lemma same_data_notify: "notify env n st = Some st' \<Longrightarrow> same_data st st'"
  by (auto simp: notify_def same_data_def Option.bind_eq_Some_conv split: if_splits)

lemma same_data_rx_signal: "rx_signal env IPdu p s st = Some st' \<Longrightarrow> same_data st st'"
  using same_data_upd_sig same_data_notify
  by (fastforce simp: rx_signal_def same_data_def Option.bind_eq_Some_conv split: if_splits)

lemma same_data_each: "for_each (rx_signal env IPdu p) ss st = Some st' \<Longrightarrow> same_data st st'"
proof (induction ss arbitrary: st)
  case (Cons s ss)
  then obtain st1 where "rx_signal env IPdu p s st = Some st1" "for_each (rx_signal env IPdu p) ss st1 = Some st'"
    by (auto simp: Option.bind_eq_Some_conv)
  then show ?case using Cons.IH same_data_rx_signal unfolding same_data_def by metis
qed (simp add: same_data_def)

lemma RxIndication_stores:
  assumes at: "com_at env sh (Suc (Suc d)) st" and pdu: "has_pdu sh i IPdu ptrs" and base: "fst ptrs = Some base"
    and c: "ComRxIPduCallout IPdu = COM_NO_FUNCTION_CALLOUT" "ComIpduCounterRef IPdu = None"
    and run: "Com_Arc_IpduStarted (Com_Arc_IPdu st ! unat i)" and len: "length sdu = unat (ComIPduSize IPdu)"
  shows "\<exists>st'. Com_RxIndication env i sdu st = Some st' \<and> com_same st st' \<and>
    Com_Arc_IPdu st' = Com_Arc_IPdu st \<and> Com_BufferPduState st' = Com_BufferPduState st \<and>
    (\<forall>k < unat (ComIPduSize IPdu). base + k < length (Com_Arc_Buffer st') \<and> Com_Arc_Buffer st' ! (base + k) = sdu ! k)"
proof -
  note p = has_pdu_at [OF at pdu] and lb = com_at_shape(6) [OF at]
  have room: "base + unat (ComIPduSize IPdu) \<le> sh_buf sh" using pdu_okD [OF p(11)] base by (metis option.inject)
  let ?e = "ea_enter st"
  have e: "com_at env sh (Suc d) ?e" using at by (rule com_at_enter)
  let ?buf = "take base (Com_Arc_Buffer st) @ sdu @ drop (base + length sdu) (Com_Arc_Buffer st)"
  let ?m = "?e\<lparr>Com_Arc_Buffer := ?buf\<rparr>"
  have put: "put_bytes base sdu ?e = Some ?m" using room len lb by (simp add: put_bytes_def)
  have "com_still ?e ?m" using room len lb by (intro still_buffer) simp
  then have m: "com_at env sh (Suc d) ?m" "com_same ?e ?m" using still.R_at e still.R_same by blast+
  obtain st1 where st1: "Com_Misc_RxProcessSignals env IPdu (Com_Arc_IPdu st ! unat i) ?m = Some st1" "com_still ?m st1"
    using still_RxProcessSignals [OF m(1) p(11,9)] unfolding returns_def by blast
  have same: "com_same st (ea_exit st1)"
    using same_exit [OF at com_same_trans [OF m(2)]] st1(2) unfolding com_still_def by blast
  have data: "same_data ?m st1"
    using st1(1) unfolding Com_Misc_RxProcessSignals_def pdu_SignalRef [OF p(11)] deref_def option.case Option.bind.bind_lunit
    by (rule same_data_each)
  have in_range: "ipdu_in_range i st" using ipdu_in_range_at [OF at] p(1) by simp
  have cntr: "rx_counter env IPdu sdu st' = Some (True, st')" for st' using c(2) by (simp add: rx_counter_def)
  have rx: "Com_RxIndication env i sdu st = Some (ea_exit st1)"
    using com_at_shape(1) [OF at] in_range p(5,6,9) base c(1) run len put st1(1)
    by (simp add: Com_RxIndication_def com_guard_def rx_callout_def cntr deref_def Let_def)
  have b: "Com_Arc_Buffer (ea_exit st1) = ?buf" "Com_Arc_IPdu (ea_exit st1) = Com_Arc_IPdu st"
    "Com_BufferPduState (ea_exit st1) = Com_BufferPduState st"
    using data by (simp_all add: same_data_def ea_exit_def)
  show ?thesis
    by (rule exI [of _ "ea_exit st1"]) (use rx same b room len lb in \<open>auto simp: nth_append\<close>)
qed

lemma ReceiveSignal_reads:
  assumes at: "com_at env sh (Suc (Suc d)) st" and i: "unat i < length (ComSignal (the_cfg st))"
    and s: "s = ComSignal (the_cfg st) ! unat i" and take: "takes_over st s"
    and k: "k = unat (ComIPduHandleId s)" and IPdu: "IPdu = ComIPdu (the_cfg st) ! k"
    and base: "has_pdu sh (ComIPduHandleId s) IPdu ptrs" "fst ptrs = Some base"
    and sdu: "length sdu = unat (ComIPduSize IPdu)"
      "\<And>j. j < unat (ComIPduSize IPdu) \<Longrightarrow> base + j < length (Com_Arc_Buffer st) \<and> Com_Arc_Buffer st ! (base + j) = sdu ! j"
    and len: "sig_bytes (ComSignalType s) \<le> length out"
  shows "\<exists>out' st'. Com_ReceiveSignal env i out st = Some ((com_E_OK, out'), st') \<and> length out' = length out \<and>
    drop (sig_bytes (ComSignalType s)) out' = drop (sig_bytes (ComSignalType s)) out \<and>
    (\<forall>j < 8 * sig_bytes (ComSignalType s). buf_bit out' j \<longleftrightarrow>
       (let pos = sig_pos (ComSignalEndianess s) 0 (unat (ComBitPosition s)) (unat (ComBitSize s)) in
        if j < unat (ComBitSize s) then mem_bit sdu (pos j)
        else sig_signed (ComSignalType s) \<and> mem_bit sdu (pos (unat (ComBitSize s) - 1))))"
proof -
  note g = GET_Signal_at [OF at i, folded s]
  have t: "ComIPduHandleId s \<noteq> NO_PDU_REFERENCE" "\<not> Com_Arc_IsSignalGroup s" "\<not> opaque (ComSignalEndianess s) (ComSignalType s)"
    "ComIPduSignalProcessing IPdu = COM_IMMEDIATE" "inside_pdu s IPdu" "Com_Arc_IpduStarted (Com_Arc_IPdu st ! k)"
    "\<not> locked (Com_BufferPduState st ! k)"
    using take by (simp_all add: takes_over_def Let_def k IPdu)
  note p = has_pdu_at [OF at base(1)]
  have acc: "access_ok (sh_buf sh) base (ComBitPosition s) (ComBitSize s) (ComSignalEndianess s) (ComSignalType s)"
    using g(2) t(1,2) base by (auto simp: signal_ok_def has_pdu_def Let_def split: option.splits)
  have os: "SchM_Exit_Com_EA_0 (SchM_Enter_Com_EA_0 (com_os st)) = com_os st"
    using at os_enter(2) [of "Suc d" "com_os st"] by (simp add: com_at_def com_ok_def)
  note sok = access_sig_ok [OF com_at_shape(6) [OF at] t(3) acc]
  define pos where "pos = sig_pos (ComSignalEndianess s) 0 (unat (ComBitPosition s)) (unat (ComBitSize s))"
  obtain out' where r: "Com_Misc_ReadSignalDataFromPdu (com_os st) (Com_Arc_Buffer st) base (ComBitPosition s) (ComBitSize s)
      (ComSignalEndianess s) (ComSignalType s) out = Some (out', com_os st)"
    "length out' = length out" "drop (sig_bytes (ComSignalType s)) out' = drop (sig_bytes (ComSignalType s)) out"
    "\<forall>j<8 * sig_bytes (ComSignalType s). buf_bit out' j \<longleftrightarrow>
       (if j < unat (ComBitSize s)
        then mem_bit (Com_Arc_Buffer st) (sig_pos (ComSignalEndianess s) base (unat (ComBitPosition s)) (unat (ComBitSize s)) j)
        else sig_signed (ComSignalType s) \<and> mem_bit (Com_Arc_Buffer st)
          (sig_pos (ComSignalEndianess s) base (unat (ComBitPosition s)) (unat (ComBitSize s)) (unat (ComBitSize s) - 1)))"
    using read_signal [OF sok len, of "com_os st"] unfolding os by blast
  have bits: "mem_bit (Com_Arc_Buffer st) (sig_pos (ComSignalEndianess s) base (unat (ComBitPosition s)) (unat (ComBitSize s)) j)
      \<longleftrightarrow> mem_bit sdu (pos j)" if "j < unat (ComBitSize s)" for j
    unfolding pos_def by (rule mem_bit_inside [OF t(5) that]) (use sdu in auto)
  have pos: "0 < unat (ComBitSize s)" using sig_size(1) [OF sok] .
  have "Com_ReceiveSignal env i out st = Some ((com_E_OK, out'), st)"
    using com_at_shape(1) [OF at] signal_in_range_at [OF at] i t(1,4,6,7) g(1) p(5,6,8,9) base(2) r(1) k
    by (simp add: Com_ReceiveSignal_def com_guard_def deref_def read_signal_at_def)
  moreover have "\<forall>j < 8 * sig_bytes (ComSignalType s). buf_bit out' j \<longleftrightarrow>
      (if j < unat (ComBitSize s) then mem_bit sdu (pos j)
       else sig_signed (ComSignalType s) \<and> mem_bit sdu (pos (unat (ComBitSize s) - 1)))"
    using r(4) bits pos by simp
  ultimately show ?thesis using r(2,3) unfolding pos_def Let_def by blast
qed

section \<open>From sender to receiver\<close>

text \<open>
  C9: A signal reaches the other side. A sender writes a numeric signal that is transmitted at once: outside
  groups, without update bit, with a triggered transfer property, in a started and unlocked I-PDU in direct
  or mixed mode without callout and counter, whose minimum delay is not running. The bytes it hands to the
  PDU router are delivered unchanged to the receiving I-PDU of another module, which has the signal at the
  same place in an I-PDU of the same size, started, unlocked, processed immediately, without callout and
  counter. The read on the
  receiving side then returns the low bits of the value written, extended by its sign for signed types.
  All four calls return, and exactly one transmission of the I-PDU is made.
\<close>

theorem com_end_to_end:
  assumes "com_ok env 2 st" "com_ok env' 2 st'"
    and "unat i < length (ComSignal (the_cfg st))" "s = ComSignal (the_cfg st) ! unat i" "sends_at_once st s"
    and "unat i' < length (ComSignal (the_cfg st'))" "s' = ComSignal (the_cfg st') ! unat i'" "takes_over st' s'"
    and "k = unat (ComIPduHandleId s)" "IPdu = ComIPdu (the_cfg st) ! k"
    and "ComIPduSize (ComIPdu (the_cfg st') ! unat (ComIPduHandleId s')) = ComIPduSize IPdu"
    and "ComBitPosition s' = ComBitPosition s" "ComBitSize s' = ComBitSize s"
    and "ComSignalEndianess s' = ComSignalEndianess s" "ComSignalType s' = ComSignalType s"
    and "sig_bytes (ComSignalType s) \<le> length data" "sig_bytes (ComSignalType s) \<le> length out"
  shows "\<exists>st1 sdu st2 out' st3.
    Com_SendSignal env i data st = Some (com_E_OK, st1) \<and>
    pdu_sent k st1 = pdu_sent k st @ [Transmit (ArcIPduOutgoingId IPdu) sdu] \<and>
    Com_RxIndication env' (ComIPduHandleId s') sdu st' = Some st2 \<and>
    Com_ReceiveSignal env' i' out st2 = Some ((com_E_OK, out'), st3) \<and>
    length out' = length out \<and> drop (sig_bytes (ComSignalType s)) out' = drop (sig_bytes (ComSignalType s)) out \<and>
    (\<forall>j < 8 * sig_bytes (ComSignalType s). buf_bit out' j \<longleftrightarrow>
       (if j < unat (ComBitSize s) then buf_bit data j
        else sig_signed (ComSignalType s) \<and> buf_bit data (unat (ComBitSize s) - 1)))"
proof -
  note at = com_ok_at [OF assms(1)] and at' = com_ok_at [OF assms(2)]
  let ?pos = "sig_pos (ComSignalEndianess s) 0 (unat (ComBitPosition s)) (unat (ComBitSize s))"
  obtain st1 sdu where send: "Com_SendSignal env i data st = Some (com_E_OK, st1)"
    "pdu_sent k st1 = pdu_sent k st @ [Transmit (ArcIPduOutgoingId IPdu) sdu]" "length sdu = unat (ComIPduSize IPdu)"
    "\<And>j. j < unat (ComBitSize s) \<Longrightarrow> mem_bit sdu (?pos j) \<longleftrightarrow> buf_bit data j"
    using SendSignal_sends [OF at assms(3-5,9,10,16)] by blast
  let ?k' = "unat (ComIPduHandleId s')" and ?IPdu' = "ComIPdu (the_cfg st') ! unat (ComIPduHandleId s')"
  have t: "ComIPduHandleId s' \<noteq> NO_PDU_REFERENCE" "ComRxIPduCallout ?IPdu' = COM_NO_FUNCTION_CALLOUT"
    "ComIpduCounterRef ?IPdu' = None" "Com_Arc_IpduStarted (Com_Arc_IPdu st' ! ?k')"
    using assms(8) by (simp_all add: takes_over_def Let_def)
  note g' = GET_Signal_at [OF at' assms(6), folded assms(7)]
  have size: "unat (ComBitSize s) \<le> 8 * sig_bytes (ComSignalType s)" "0 < unat (ComBitSize s)"
    using assms(3-5) GET_Signal_at(2) [OF at assms(3)]
    by (auto simp: sends_at_once_def signal_ok_def access_ok_def sig_ok_def Let_def word_gt_0 unat_gt_0 split: option.splits)
  obtain ptrs base where pdu: "has_pdu (shape st') (ComIPduHandleId s') ?IPdu' ptrs" and base: "fst ptrs = Some base"
    using signal_pdu [OF at' g'(2) t(1)] has_pdu_at(4) [OF at'] by metis
  have len: "length sdu = unat (ComIPduSize ?IPdu')" using send(3) assms(11) by simp
  obtain st2 where rx: "Com_RxIndication env' (ComIPduHandleId s') sdu st' = Some st2" "com_same st' st2"
    "Com_Arc_IPdu st2 = Com_Arc_IPdu st'" "Com_BufferPduState st2 = Com_BufferPduState st'"
    "\<And>j. j < unat (ComIPduSize ?IPdu') \<Longrightarrow> base + j < length (Com_Arc_Buffer st2) \<and> Com_Arc_Buffer st2 ! (base + j) = sdu ! j"
    using RxIndication_stores [OF at' pdu base t(2,3,4) len] by blast
  note cfg = com_same_cfg [OF rx(2)] and at2 = com_same_at [OF rx(2) at']
  have "takes_over st2 s'" using assms(8) unfolding takes_over_def cfg rx(3,4) .
  from ReceiveSignal_reads [OF at2 _ _ this refl refl, of i' ptrs base sdu out] obtain out' st3 where
    "Com_ReceiveSignal env' i' out st2 = Some ((com_E_OK, out'), st3)" "length out' = length out"
    "drop (sig_bytes (ComSignalType s)) out' = drop (sig_bytes (ComSignalType s)) out"
    "\<And>j. j < 8 * sig_bytes (ComSignalType s) \<Longrightarrow> buf_bit out' j \<longleftrightarrow>
       (if j < unat (ComBitSize s) then mem_bit sdu (?pos j)
        else sig_signed (ComSignalType s) \<and> mem_bit sdu (?pos (unat (ComBitSize s) - 1)))"
    using assms(6,7,12-15,17) pdu base len rx(5) unfolding cfg by (auto simp: Let_def)
  then show ?thesis using send rx(1) size by (intro exI conjI allI impI) (assumption | simp)+
qed

theorem com_end_to_end_witness:
  "\<exists>st1 sdu st2 out' st3.
    Com_SendSignal com_example_env 0 [0xAB, 0x0C] (com_example True) = Some (com_E_OK, st1) \<and>
    pdu_sent 0 st1 = [Transmit 0 sdu] \<and>
    Com_RxIndication com_example_env 1 sdu (com_example True) = Some st2 \<and>
    Com_ReceiveSignal com_example_env 1 [0, 0] st2 = Some ((com_E_OK, out'), st3) \<and>
    length out' = 2 \<and> (\<forall>j < 12. buf_bit out' j \<longleftrightarrow> buf_bit [0xAB, 0x0C] j)"
proof -
  let ?st = "com_example True" and ?cfg = com_example_cfg
  note defs = com_example_cfg_def com_example_pdu_def com_example_signal_def
  have s: "sends_at_once ?st (com_example_signal 0)"
    unfolding sends_at_once_def com_example_cfg_of
    by (simp add: defs NO_PDU_REFERENCE_def opaque_def inside_pdu_def sig_pos_def lsbIndex_def byte_addr_def
        upt_rec min_delay_def com_example_def com_blank_def com_blank_pdu_def com_blank_timers_def)
  have t: "takes_over ?st (com_example_signal 1)"
    unfolding takes_over_def com_example_cfg_of
    by (simp add: defs NO_PDU_REFERENCE_def opaque_def inside_pdu_def sig_pos_def lsbIndex_def byte_addr_def
        upt_rec com_example_def com_blank_def com_blank_pdu_def)
  have sent: "pdu_sent 0 ?st = []"
    by (simp add: pdu_sent_def com_example_def com_blank_def)
  show ?thesis
    using com_end_to_end [OF com_example_ok com_example_ok _ _ s _ _ t refl refl, of 0 1 "[0xAB, 0x0C]" "[0, 0]"] sent
    unfolding com_example_cfg_of by (auto simp: defs)
qed

end
