(* ===== verification/Com_Start.thy ===== *)
theory Com_Start
  imports Com_Module
begin

text \<open>
  The start of the module: the layout of the buffer that \<^verbatim>\<open>Com_Init\<close> computes, and that it leaves a module
  on which every service is safe.
\<close>

section \<open>Layout\<close>

text \<open>
  The data of an I-PDU is followed by the shadow buffer of its signal groups and by the buffer of deferred
  reception, where it has them.
\<close>

definition has_group :: "ComIPdu_type \<Rightarrow> bool" where
  "has_group IPdu \<longleftrightarrow> list_ex Com_Arc_IsSignalGroup (signal_refs IPdu)"

definition deferred_rx :: "ComIPdu_type \<Rightarrow> bool" where
  "deferred_rx IPdu \<longleftrightarrow> ComIPduDirection IPdu = COM_RECEIVE \<and> ComIPduSignalProcessing IPdu = COM_DEFERRED"

definition shadow_at :: "ComIPdu_type \<Rightarrow> nat \<Rightarrow> nat" where
  "shadow_at IPdu b = b + unat (ComIPduSize IPdu)"

definition deferred_at :: "ComIPdu_type \<Rightarrow> nat \<Rightarrow> nat" where
  "deferred_at IPdu b = shadow_at IPdu b + (if has_group IPdu then unat (ComIPduSize IPdu) else 0)"


definition lay_group :: "nat \<Rightarrow> ComGroupSignal_type \<Rightarrow> com_shape \<Rightarrow> com_shape" where
  "lay_group shadow g sh = sh\<lparr>sh_groups := (sh_groups sh)[unat (gs_ComHandleId g) := Some shadow]\<rparr>"

definition lay_shadow :: "nat \<Rightarrow> ComSignal_type \<Rightarrow> com_shape \<Rightarrow> com_shape" where
  "lay_shadow shadow s sh = sh\<lparr>sh_sigs := (sh_sigs sh)[unat (ComHandleId s) := Some shadow]\<rparr>"

definition lay_signal :: "nat \<Rightarrow> ComSignal_type \<Rightarrow> com_shape \<Rightarrow> com_shape" where
  "lay_signal shadow s sh =
     (if Com_Arc_IsSignalGroup s then fold (lay_group shadow) (ComGroupSignal s) (lay_shadow shadow s sh) else sh)"

definition lay_data :: "nat \<Rightarrow> nat \<Rightarrow> com_shape \<Rightarrow> com_shape" where
  "lay_data i b sh = sh\<lparr>sh_pdus := (sh_pdus sh)[i := (Some b, snd (sh_pdus sh ! i))]\<rparr>"

definition lay_deferred :: "nat \<Rightarrow> nat \<Rightarrow> com_shape \<Rightarrow> com_shape" where
  "lay_deferred i b sh = sh\<lparr>sh_pdus := (sh_pdus sh)[i := (fst (sh_pdus sh ! i), Some b)]\<rparr>"

definition lay_pdu :: "nat \<Rightarrow> nat \<Rightarrow> ComIPdu_type \<Rightarrow> com_shape \<Rightarrow> com_shape" where
  "lay_pdu i b IPdu sh =
     (let sh = fold (lay_signal (shadow_at IPdu b)) (signal_refs IPdu) (lay_data i b sh) in
      if deferred_rx IPdu then lay_deferred i (deferred_at IPdu b) sh else sh)"






section \<open>Steps of the initialisation\<close>

text \<open>The sizes of the tables, which the layout does not change.\<close>

definition sizes :: "com_shape \<Rightarrow> com_shape" where
  "sizes sh = sh\<lparr>sh_pdus := replicate (length (sh_pdus sh)) (None, None),
     sh_sigs := replicate (length (sh_sigs sh)) None, sh_groups := replicate (length (sh_groups sh)) None\<rparr>"


lemma sizes_lay [simp]:
  "sizes (lay_group b g sh) = sizes sh" "sizes (lay_shadow b s sh) = sizes sh" "sizes (lay_data i b sh) = sizes sh"
  "sizes (lay_deferred i b sh) = sizes sh"
  by (simp_all add: sizes_def lay_group_def lay_shadow_def lay_data_def lay_deferred_def)

lemma sizes_fold: "(\<And>x sh. sizes (g x sh) = sizes sh) \<Longrightarrow> sizes (fold g xs sh) = sizes sh"
  by (induction xs arbitrary: sh) simp_all

lemma sizes_lay_signal [simp]: "sizes (lay_signal b s sh) = sizes sh"
  by (simp add: lay_signal_def sizes_fold)

lemma sizes_lay_pdu [simp]: "sizes (lay_pdu i b IPdu sh) = sizes sh"
  by (simp add: lay_pdu_def sizes_fold Let_def)









section \<open>Primitive updates\<close>








section \<open>The parts of the initialisation\<close>





lemma fold_lay_group_fields [simp]:
  "sh_pdus (fold (lay_group b) gs sh) = sh_pdus sh" "sh_sigs (fold (lay_group b) gs sh) = sh_sigs sh"
  by (induction gs arbitrary: sh) (simp_all add: lay_group_def)

lemma lay_signal_pdus [simp]: "sh_pdus (lay_signal b s sh) = sh_pdus sh"
  by (simp add: lay_signal_def lay_shadow_def)

lemma fold_lay_signal_pdus [simp]: "sh_pdus (fold (lay_signal b) ss sh) = sh_pdus sh"
  by (induction ss arbitrary: sh) simp_all









section \<open>From the initialisation on\<close>




end
