(* ===== verification/CanNm.thy ===== *)
theory CanNm
  imports Os_Irq
begin

text \<open>
  Network management on CAN (\<^verbatim>\<open>core/communication/CanNm/CanNm.c\<close>): the state machine of every channel,
  its timers, the transmission and reception of network management messages, and the request bits of
  partial networks.

  The functions of the C file that get \<^verbatim>\<open>ChannelConf\<close> and \<^verbatim>\<open>ChannelInternal\<close> work on the pair of the
  channel and the data shared by the channels (\<open>CanNm_Glob\<close>); the services select the channel. Preprocessor
  switches are fields of \<open>CanNm_Build\<close>. Calls of Nm, CanIf, PduR and Det are appended to \<open>nm_calls\<close>; what
  CanIf and PduR answer is a function of the calls so far.
\<close>

section \<open>Types\<close>

datatype Nm_ModeType =
  NM_MODE_BUS_SLEEP | NM_MODE_PREPARE_BUS_SLEEP | NM_MODE_SYNCHRONIZE | NM_MODE_NETWORK

datatype Nm_StateType =
  NM_STATE_UNINIT | NM_STATE_BUS_SLEEP | NM_STATE_PREPARE_BUS_SLEEP | NM_STATE_READY_SLEEP
| NM_STATE_NORMAL_OPERATION | NM_STATE_REPEAT_MESSAGE | NM_STATE_SYNCHRONIZE

datatype CanNm_PduBytePositionType = CANNM_PDU_BYTE_0 | CANNM_PDU_BYTE_1 | CANNM_PDU_OFF

datatype CanNm_InitStatusType = CANNM_STATUS_INIT | CANNM_STATUS_UNINIT

record CanNm_ChannelType =
  NmNetworkHandle :: uint8
  NodeId :: uint8
  MainFunctionPeriod :: uint32
  TimeoutTime :: uint32
  RepeatMessageTime :: uint32
  WaitBusSleepTime :: uint32
  MessageCycleTime :: uint32
  MessageCycleOffsetTime :: uint32
  MessageTimeoutTime :: uint32
  CanIfPduId :: uint16
  PduLength :: uint16
  NidPosition :: CanNm_PduBytePositionType
  CbvPosition :: CanNm_PduBytePositionType
  ImmediateNmCycleTime :: uint32
  ImmediateNmTransmissions :: uint32
  CanNmPnEnable :: bool
  CanNmPnEraCalcEnabled :: bool
  CanNmAllNmMsgKeepAwake :: bool
  CanNmUserDataTxPduId :: uint16
  CanNmERARxNSduId :: uint16

record CanNm_PnInfoType =
  CanNmPnInfoOffset :: uint8
  CanNmPnInfoLen :: uint16
  CanNmPnInfoMask :: "uint8 list"
  CanNmPnIndexToTimerMap :: "uint8 list"
  CanNmTimerIndexToPnMap :: "uint8 list"
  CanNmEIRARxNSduId :: uint16

record CanNm_ConfigType =
  cfg_Channels :: "CanNm_ChannelType list"
  ChannelLookups :: "uint8 list"
  ChannelLookupsSize :: uint8
  CanNmPnInfo :: "CanNm_PnInfoType ptr"

record CanNm_Internal_PnTimerType =
  resetTimer :: uint32
  timerRunning :: bool

text \<open>
  \<^verbatim>\<open>CanNm_Internal_RAType\<close>: the bytes of the union, of which \<^verbatim>\<open>data\<close> covers the first eight. With fewer
  than eight bytes the rest of \<^verbatim>\<open>data\<close> is always 0.
\<close>

type_synonym CanNm_Internal_RAType = "uint8 list"

record CanNm_Internal_ChannelType =
  Mode :: Nm_ModeType
  State :: Nm_StateType
  Requested :: bool
  TimeoutTimeLeft :: uint32
  RepeatMessageTimeLeft :: uint32
  WaitBusSleepTimeLeft :: uint32
  MessageCycleTimeLeft :: uint32
  MessageTimeoutTimeLeft :: uint32
  TxMessageSdu :: "uint8 list"
  RxMessageSdu :: "uint8 list"
  immediateNmTransmissionsSent :: uint32
  immediateModeActive :: bool
  TransmissionStatus :: uint8
  SpontaneousTxMessageSdu :: "uint8 list"
  IsUserDataSet :: bool
  CommunicationEnabled :: bool
  MessageFilteringEnabled :: bool
  pnERATimers :: "CanNm_Internal_PnTimerType list"
  pnERA :: CanNm_Internal_RAType

datatype CanNm_Call =
  Nm_NetworkMode uint8
| Nm_PrepareBusSleepMode uint8
| Nm_BusSleepMode uint8
| Nm_NetworkStartIndication uint8
| Nm_StateChangeNotification uint8 Nm_StateType Nm_StateType
| Nm_TxTimeoutException uint8
| CanIf_Transmit uint16 "uint8 list"
| PduR_CanNmRxIndication uint16 "uint8 list"
| PduR_CanNmTxConfirmation uint16
| CanNm_Det uint8 uint8 uint8

record CanNm_Build =
  CANNM_DEV_ERROR_DETECT :: bool
  CANNM_USER_DATA_ENABLED :: bool
  CANNM_COM_USER_DATA_SUPPORT :: bool
  CANNM_PASSIVE_MODE_ENABLED :: bool
  CANNM_NODE_DETECTION_ENABLED :: bool
  CANNM_STATE_CHANGE_IND_ENABLED :: bool
  CANNM_PDU_RX_INDICATION_ENABLED :: bool
  CANNM_PNC_EIRA_CALC_ENABLED :: bool
  CANNM_PNC_ERA_CALC_ENABLED :: bool
  CANNM_CHANNEL_COUNT :: nat
  CANNM_PNC_COUNT :: nat
  CANNM_PNC_INFO_LEN :: nat
  CANNM_PNC_RESET_TIME :: uint32
  CANNM_MAIN_FUNCTION_PERIOD :: uint32
  CanIf_accepts :: "CanNm_Call list \<Rightarrow> uint16 \<Rightarrow> uint8 list \<Rightarrow> bool"
  PduR_user_data :: "CanNm_Call list \<Rightarrow> uint16 \<Rightarrow> uint8 list \<Rightarrow> uint8 list"

text \<open>What the channels share, and the module.\<close>

record CanNm_Glob =
  pnEIRATimers :: "CanNm_Internal_PnTimerType list"
  pnEIRA :: CanNm_Internal_RAType
  nm_os :: Os_Int
  nm_calls :: "CanNm_Call list"

record CanNm_InternalType =
  InitStatus :: CanNm_InitStatusType
  CanNm_ConfigPtr :: "CanNm_ConfigType ptr"
  Channels :: "CanNm_Internal_ChannelType list"
  Glob :: CanNm_Glob

type_synonym nm = "CanNm_Internal_ChannelType \<times> CanNm_Glob"

abbreviation com_user_data :: "CanNm_Build \<Rightarrow> bool" where
  "com_user_data b \<equiv> CANNM_USER_DATA_ENABLED b \<and> CANNM_COM_USER_DATA_SUPPORT b"

abbreviation set_user_data :: "CanNm_Build \<Rightarrow> bool" where
  "set_user_data b \<equiv> CANNM_USER_DATA_ENABLED b \<and> \<not> CANNM_COM_USER_DATA_SUPPORT b"

abbreviation eira_calc :: "CanNm_Build \<Rightarrow> bool" where
  "eira_calc b \<equiv> CANNM_PNC_EIRA_CALC_ENABLED b \<and> 0 < CANNM_PNC_COUNT b"

abbreviation era_calc :: "CanNm_Build \<Rightarrow> bool" where
  "era_calc b \<equiv> CANNM_PNC_ERA_CALC_ENABLED b \<and> 0 < CANNM_PNC_COUNT b"

definition nm_call :: "CanNm_Call \<Rightarrow> CanNm_Glob \<Rightarrow> CanNm_Glob" where
  "nm_call c g = g\<lparr>nm_calls := nm_calls g @ [c]\<rparr>"

definition SchM_Enter_CanNm_EA_0 :: "CanNm_Glob \<Rightarrow> CanNm_Glob" where
  "SchM_Enter_CanNm_EA_0 g = g\<lparr>nm_os := SuspendOSInterrupts (nm_os g)\<rparr>"

definition SchM_Exit_CanNm_EA_0 :: "CanNm_Glob \<Rightarrow> CanNm_Glob" where
  "SchM_Exit_CanNm_EA_0 g = g\<lparr>nm_os := ResumeOSInterrupts (nm_os g)\<rparr>"

definition CANNM_DET_REPORTERROR :: "CanNm_Build \<Rightarrow> uint8 \<Rightarrow> uint8 \<Rightarrow> uint8 \<Rightarrow> CanNm_Glob \<Rightarrow> CanNm_Glob" where
  "CANNM_DET_REPORTERROR b serviceId errorId instanceId g =
     (if CANNM_DEV_ERROR_DETECT b then nm_call (CanNm_Det instanceId serviceId errorId) g else g)"

section \<open>Messages\<close>

definition pdu_pos :: "CanNm_PduBytePositionType \<Rightarrow> nat" where
  "pdu_pos p = (case p of CANNM_PDU_BYTE_0 \<Rightarrow> 0 | CANNM_PDU_BYTE_1 \<Rightarrow> 1 | CANNM_PDU_OFF \<Rightarrow> 255)"

definition CanNm_Internal_GetUserDataOffset :: "CanNm_ChannelType \<Rightarrow> uint16" where
  "CanNm_Internal_GetUserDataOffset ChannelConf =
     (if NidPosition ChannelConf = CANNM_PDU_OFF then 0 else 1) + (if CbvPosition ChannelConf = CANNM_PDU_OFF then 0 else 1)"

definition CanNm_Internal_GetUserDataLength :: "CanNm_ChannelType \<Rightarrow> uint16" where
  "CanNm_Internal_GetUserDataLength ChannelConf = PduLength ChannelConf - CanNm_Internal_GetUserDataOffset ChannelConf"

text \<open>\<^verbatim>\<open>memcpy\<close> into an array, and the first bytes of one.\<close>

definition put_at :: "uint8 list \<Rightarrow> nat \<Rightarrow> uint8 list \<Rightarrow> uint8 list ub" where
  "put_at mem i bs = (if i + length bs \<le> length mem then Some (take i mem @ bs @ drop (i + length bs) mem) else None)"

definition first_bytes :: "nat \<Rightarrow> uint8 list \<Rightarrow> uint8 list ub" where
  "first_bytes n mem = (if n \<le> length mem then Some (take n mem) else None)"

text \<open>The user data of a message, from \<^verbatim>\<open>CanNm_Internal_GetUserDataPtr\<close> on.\<close>

definition CanNm_Internal_GetUserData :: "CanNm_ChannelType \<Rightarrow> uint8 list \<Rightarrow> uint8 list ub" where
  "CanNm_Internal_GetUserData ChannelConf MessageSduPtr =
     first_bytes (unat (CanNm_Internal_GetUserDataLength ChannelConf))
       (drop (unat (CanNm_Internal_GetUserDataOffset ChannelConf)) MessageSduPtr)"

definition put_user_data :: "CanNm_ChannelType \<Rightarrow> uint8 list \<Rightarrow> uint8 list \<Rightarrow> uint8 list ub" where
  "put_user_data ChannelConf mem bs =
     put_at mem (unat (CanNm_Internal_GetUserDataOffset ChannelConf)) bs"

text \<open>A change of the control bit vector in the messages to be sent.\<close>

definition upd_cbv :: "CanNm_Build \<Rightarrow> CanNm_ChannelType \<Rightarrow> (uint8 \<Rightarrow> uint8) \<Rightarrow> CanNm_Internal_ChannelType
    \<Rightarrow> CanNm_Internal_ChannelType ub" where
  "upd_cbv b ChannelConf f ch = do {
     let i = pdu_pos (CbvPosition ChannelConf);
     v \<leftarrow> rd (TxMessageSdu ch) i;
     l \<leftarrow> wr (TxMessageSdu ch) i (f v);
     let ch = ch\<lparr>TxMessageSdu := l\<rparr>;
     if com_user_data b then do {
       v \<leftarrow> rd (SpontaneousTxMessageSdu ch) i;
       l \<leftarrow> wr (SpontaneousTxMessageSdu ch) i (f v);
       Some (ch\<lparr>SpontaneousTxMessageSdu := l\<rparr>) }
     else Some ch }"

definition CanNm_Internal_ClearRptMsgRqstCbv ::
  "CanNm_Build \<Rightarrow> CanNm_ChannelType \<Rightarrow> CanNm_Internal_ChannelType \<Rightarrow> CanNm_Internal_ChannelType ub" where
  "CanNm_Internal_ClearRptMsgRqstCbv b ChannelConf ch =
     (if CbvPosition ChannelConf \<noteq> CANNM_PDU_OFF then upd_cbv b ChannelConf (\<lambda>v. v AND NOT 0x01) ch else Some ch)"

definition CanNm_Internal_SetPNICbv ::
  "CanNm_Build \<Rightarrow> CanNm_ChannelType \<Rightarrow> CanNm_Internal_ChannelType \<Rightarrow> CanNm_Internal_ChannelType ub" where
  "CanNm_Internal_SetPNICbv b ChannelConf ch =
     (if CbvPosition ChannelConf \<noteq> CANNM_PDU_OFF then upd_cbv b ChannelConf (\<lambda>v. v OR 0x40) ch else Some ch)"

section \<open>Transitions\<close>

definition state_change :: "CanNm_Build \<Rightarrow> CanNm_ChannelType \<Rightarrow> Nm_StateType \<Rightarrow> Nm_StateType \<Rightarrow> CanNm_Glob \<Rightarrow> CanNm_Glob" where
  "state_change b ChannelConf old new g =
     (if CANNM_STATE_CHANGE_IND_ENABLED b then nm_call (Nm_StateChangeNotification (NmNetworkHandle ChannelConf) old new) g else g)"

text \<open>The timers of the transitions into the repeat message state from a sleep mode.\<close>

definition start_network :: "CanNm_ChannelType \<Rightarrow> bool \<Rightarrow> CanNm_Internal_ChannelType \<Rightarrow> CanNm_Internal_ChannelType" where
  "start_network ChannelConf isNwReq ch =
     (let ch = ch\<lparr>Mode := NM_MODE_NETWORK, State := NM_STATE_REPEAT_MESSAGE\<rparr>;
          ch = (if 0 < ImmediateNmTransmissions ChannelConf \<and> isNwReq
                then ch\<lparr>MessageCycleTimeLeft := 0, immediateNmTransmissionsSent := 0, immediateModeActive := True\<rparr>
                else ch\<lparr>MessageCycleTimeLeft := MessageCycleOffsetTime ChannelConf + MainFunctionPeriod ChannelConf\<rparr>)
      in ch\<lparr>RepeatMessageTimeLeft := RepeatMessageTime ChannelConf + MainFunctionPeriod ChannelConf,
            TimeoutTimeLeft := TimeoutTime ChannelConf + MainFunctionPeriod ChannelConf\<rparr>)"

definition CanNm_Internal_PrepareBusSleep_to_RepeatMessage :: "CanNm_Build \<Rightarrow> CanNm_ChannelType \<Rightarrow> bool \<Rightarrow> nm \<Rightarrow> nm" where
  "CanNm_Internal_PrepareBusSleep_to_RepeatMessage b ChannelConf isNwReq = (\<lambda>(ch, g).
     (start_network ChannelConf isNwReq ch,
      state_change b ChannelConf NM_STATE_PREPARE_BUS_SLEEP NM_STATE_REPEAT_MESSAGE
        (nm_call (Nm_NetworkMode (NmNetworkHandle ChannelConf)) g)))"

definition CanNm_Internal_BusSleep_to_RepeatMessage :: "CanNm_Build \<Rightarrow> CanNm_ChannelType \<Rightarrow> bool \<Rightarrow> nm \<Rightarrow> nm" where
  "CanNm_Internal_BusSleep_to_RepeatMessage b ChannelConf isNwReq = (\<lambda>(ch, g).
     (start_network ChannelConf isNwReq ch,
      state_change b ChannelConf NM_STATE_BUS_SLEEP NM_STATE_REPEAT_MESSAGE
        (nm_call (Nm_NetworkMode (NmNetworkHandle ChannelConf)) g)))"

definition CanNm_Internal_PrepareBusSleep_to_BusSleep :: "CanNm_Build \<Rightarrow> CanNm_ChannelType \<Rightarrow> nm \<Rightarrow> nm" where
  "CanNm_Internal_PrepareBusSleep_to_BusSleep b ChannelConf = (\<lambda>(ch, g).
     (let g = SchM_Enter_CanNm_EA_0 g;
          ch = ch\<lparr>Mode := NM_MODE_BUS_SLEEP, State := NM_STATE_BUS_SLEEP\<rparr>;
          g = nm_call (Nm_BusSleepMode (NmNetworkHandle ChannelConf)) g;
          g = state_change b ChannelConf NM_STATE_PREPARE_BUS_SLEEP NM_STATE_BUS_SLEEP g
      in (ch, SchM_Exit_CanNm_EA_0 g)))"

definition CanNm_Internal_BusSleep_to_BusSleep :: "CanNm_Build \<Rightarrow> CanNm_ChannelType \<Rightarrow> nm \<Rightarrow> nm" where
  "CanNm_Internal_BusSleep_to_BusSleep b ChannelConf = (\<lambda>(ch, g).
     (ch, if CANNM_PNC_COUNT b = 0 then nm_call (Nm_NetworkStartIndication (NmNetworkHandle ChannelConf)) g else g))"

definition CanNm_Internal_RepeatMessage_to_RepeatMessage :: "CanNm_ChannelType \<Rightarrow> nm \<Rightarrow> nm" where
  "CanNm_Internal_RepeatMessage_to_RepeatMessage ChannelConf = (\<lambda>(ch, g). (ch\<lparr>TimeoutTimeLeft := TimeoutTime ChannelConf\<rparr>, g))"

definition CanNm_Internal_RepeatMessage_to_ReadySleep :: "CanNm_Build \<Rightarrow> CanNm_ChannelType \<Rightarrow> nm \<Rightarrow> nm ub" where
  "CanNm_Internal_RepeatMessage_to_ReadySleep b ChannelConf = (\<lambda>(ch, g). do {
     let ch = ch\<lparr>Mode := NM_MODE_NETWORK, State := NM_STATE_READY_SLEEP\<rparr>;
     ch \<leftarrow> (if CANNM_NODE_DETECTION_ENABLED b then CanNm_Internal_ClearRptMsgRqstCbv b ChannelConf ch else Some ch);
     Some (ch, state_change b ChannelConf NM_STATE_REPEAT_MESSAGE NM_STATE_READY_SLEEP g) })"

definition CanNm_Internal_RepeatMessage_to_NormalOperation :: "CanNm_Build \<Rightarrow> CanNm_ChannelType \<Rightarrow> nm \<Rightarrow> nm ub" where
  "CanNm_Internal_RepeatMessage_to_NormalOperation b ChannelConf = (\<lambda>(ch, g). do {
     let ch = ch\<lparr>Mode := NM_MODE_NETWORK, State := NM_STATE_NORMAL_OPERATION\<rparr>;
     ch \<leftarrow> (if CANNM_NODE_DETECTION_ENABLED b then CanNm_Internal_ClearRptMsgRqstCbv b ChannelConf ch else Some ch);
     Some (ch, state_change b ChannelConf NM_STATE_REPEAT_MESSAGE NM_STATE_NORMAL_OPERATION g) })"

definition repeat_again :: "CanNm_ChannelType \<Rightarrow> CanNm_Internal_ChannelType \<Rightarrow> CanNm_Internal_ChannelType" where
  "repeat_again ChannelConf ch =
     ch\<lparr>Mode := NM_MODE_NETWORK, State := NM_STATE_REPEAT_MESSAGE,
        RepeatMessageTimeLeft := RepeatMessageTime ChannelConf + MainFunctionPeriod ChannelConf,
        MessageCycleTimeLeft := MessageCycleOffsetTime ChannelConf + MainFunctionPeriod ChannelConf\<rparr>"

definition CanNm_Internal_NormalOperation_to_RepeatMessage :: "CanNm_Build \<Rightarrow> CanNm_ChannelType \<Rightarrow> nm \<Rightarrow> nm" where
  "CanNm_Internal_NormalOperation_to_RepeatMessage b ChannelConf = (\<lambda>(ch, g).
     (repeat_again ChannelConf ch, state_change b ChannelConf NM_STATE_NORMAL_OPERATION NM_STATE_REPEAT_MESSAGE g))"

definition CanNm_Internal_NormalOperation_to_ReadySleep :: "CanNm_Build \<Rightarrow> CanNm_ChannelType \<Rightarrow> nm \<Rightarrow> nm" where
  "CanNm_Internal_NormalOperation_to_ReadySleep b ChannelConf = (\<lambda>(ch, g).
     (ch\<lparr>Mode := NM_MODE_NETWORK, State := NM_STATE_READY_SLEEP\<rparr>,
      state_change b ChannelConf NM_STATE_NORMAL_OPERATION NM_STATE_READY_SLEEP g))"

definition CanNm_Internal_NormalOperation_to_NormalOperation :: "CanNm_ChannelType \<Rightarrow> nm \<Rightarrow> nm" where
  "CanNm_Internal_NormalOperation_to_NormalOperation ChannelConf = (\<lambda>(ch, g). (ch\<lparr>TimeoutTimeLeft := TimeoutTime ChannelConf\<rparr>, g))"

definition CanNm_Internal_ReadySleep_to_NormalOperation :: "CanNm_Build \<Rightarrow> CanNm_ChannelType \<Rightarrow> nm \<Rightarrow> nm" where
  "CanNm_Internal_ReadySleep_to_NormalOperation b ChannelConf = (\<lambda>(ch, g).
     (ch\<lparr>Mode := NM_MODE_NETWORK, State := NM_STATE_NORMAL_OPERATION,
         MessageCycleTimeLeft := MessageCycleOffsetTime ChannelConf + MainFunctionPeriod ChannelConf\<rparr>,
      state_change b ChannelConf NM_STATE_READY_SLEEP NM_STATE_NORMAL_OPERATION g))"

definition CanNm_Internal_ReadySleep_to_PrepareBusSleep :: "CanNm_Build \<Rightarrow> CanNm_ChannelType \<Rightarrow> nm \<Rightarrow> nm" where
  "CanNm_Internal_ReadySleep_to_PrepareBusSleep b ChannelConf = (\<lambda>(ch, g).
     (let g = SchM_Enter_CanNm_EA_0 g;
          ch = ch\<lparr>Mode := NM_MODE_PREPARE_BUS_SLEEP, State := NM_STATE_PREPARE_BUS_SLEEP,
                  WaitBusSleepTimeLeft := WaitBusSleepTime ChannelConf, MessageTimeoutTimeLeft := 0\<rparr>;
          g = nm_call (Nm_PrepareBusSleepMode (NmNetworkHandle ChannelConf)) g;
          g = state_change b ChannelConf NM_STATE_READY_SLEEP NM_STATE_PREPARE_BUS_SLEEP g
      in (ch, SchM_Exit_CanNm_EA_0 g)))"

definition CanNm_Internal_ReadySleep_to_RepeatMessage :: "CanNm_Build \<Rightarrow> CanNm_ChannelType \<Rightarrow> nm \<Rightarrow> nm" where
  "CanNm_Internal_ReadySleep_to_RepeatMessage b ChannelConf = (\<lambda>(ch, g).
     (repeat_again ChannelConf ch, state_change b ChannelConf NM_STATE_READY_SLEEP NM_STATE_REPEAT_MESSAGE g))"

definition CanNm_Internal_NetworkMode_to_NetworkMode :: "CanNm_ChannelType \<Rightarrow> nm \<Rightarrow> nm" where
  "CanNm_Internal_NetworkMode_to_NetworkMode ChannelConf = (\<lambda>(ch, g).
     (ch\<lparr>TimeoutTimeLeft := TimeoutTime ChannelConf + MainFunctionPeriod ChannelConf\<rparr>, g))"

section \<open>Partial networks\<close>

definition ra_zero :: "CanNm_Internal_RAType \<Rightarrow> bool" where
  "ra_zero ra \<longleftrightarrow> list_all (\<lambda>v. v = 0) (take 8 ra)"

definition ra_or :: "CanNm_Internal_RAType \<Rightarrow> CanNm_Internal_RAType \<Rightarrow> CanNm_Internal_RAType" where
  "ra_or old ra = map2 (\<lambda>v w. v OR w) (take 8 old) (take 8 ra) @ drop 8 old"

text \<open>The requests in a message, from the start of its partial network information on.\<close>

definition pn_requests :: "CanNm_Build \<Rightarrow> CanNm_PnInfoType \<Rightarrow> uint8 list \<Rightarrow> CanNm_Internal_RAType ub" where
  "pn_requests b pn info = do {
     bs \<leftarrow> first_bytes (CANNM_PNC_INFO_LEN b) info;
     ms \<leftarrow> first_bytes (CANNM_PNC_INFO_LEN b) (CanNmPnInfoMask pn);
     Some (map2 (\<lambda>v w. v AND w) bs ms) }"

definition restartPnTimer ::
  "CanNm_Build \<Rightarrow> CanNm_PnInfoType \<Rightarrow> uint8 \<Rightarrow> CanNm_Internal_PnTimerType list \<Rightarrow> CanNm_Internal_PnTimerType list ub" where
  "restartPnTimer b pn pnIndex timers = do {
     timerIndex \<leftarrow> rd (CanNmPnIndexToTimerMap pn) (unat pnIndex);
     wr timers (unat timerIndex) \<lparr>resetTimer = CANNM_PNC_RESET_TIME b, timerRunning = True\<rparr> }"

definition restartTimerForRequests ::
  "CanNm_Build \<Rightarrow> CanNm_PnInfoType \<Rightarrow> CanNm_Internal_RAType \<Rightarrow> CanNm_Internal_PnTimerType list
    \<Rightarrow> CanNm_Internal_PnTimerType list ub" where
  "restartTimerForRequests b pn ra = for_each (\<lambda>byteNo timers. do {
     v \<leftarrow> rd ra byteNo;
     if 0 < v
     then for_each (\<lambda>i timers. if bit v i then restartPnTimer b pn (of_nat (byteNo * 8 + i)) timers else Some timers) [0..<8] timers
     else Some timers }) [0..<CANNM_PNC_INFO_LEN b]"

definition eira_indication :: "CanNm_Build \<Rightarrow> CanNm_PnInfoType \<Rightarrow> CanNm_Glob \<Rightarrow> CanNm_Glob ub" where
  "eira_indication b pn g =
     (if CANNM_PDU_RX_INDICATION_ENABLED b then do {
        sdu \<leftarrow> first_bytes (unat (CanNmPnInfoLen pn)) (pnEIRA g);
        Some (nm_call (PduR_CanNmRxIndication (CanNmEIRARxNSduId pn) sdu) g) }
      else Some g)"

definition era_indication :: "CanNm_Build \<Rightarrow> CanNm_PnInfoType \<Rightarrow> CanNm_ChannelType \<Rightarrow> nm \<Rightarrow> nm ub" where
  "era_indication b pn ChannelConf = (\<lambda>(ch, g).
     if CANNM_PDU_RX_INDICATION_ENABLED b then do {
       sdu \<leftarrow> first_bytes (unat (CanNmPnInfoLen pn)) (pnERA ch);
       Some (ch, nm_call (PduR_CanNmRxIndication (CanNmERARxNSduId ChannelConf) sdu) g) }
     else Some (ch, g))"

text \<open>New requests: whether they change the internal and external ones, or the external ones of the channel.\<close>

definition eira_request :: "CanNm_Build \<Rightarrow> CanNm_PnInfoType \<Rightarrow> CanNm_Internal_RAType \<Rightarrow> CanNm_Glob \<Rightarrow> (bool \<times> CanNm_Glob) ub" where
  "eira_request b pn ra g = do {
     timers \<leftarrow> restartTimerForRequests b pn ra (pnEIRATimers g);
     let new = ra_or (pnEIRA g) ra;
     Some (take 8 (pnEIRA g) \<noteq> take 8 new, g\<lparr>pnEIRATimers := timers, pnEIRA := new\<rparr>) }"

definition era_request :: "CanNm_Build \<Rightarrow> CanNm_PnInfoType \<Rightarrow> CanNm_Internal_RAType \<Rightarrow> CanNm_Internal_ChannelType
    \<Rightarrow> (bool \<times> CanNm_Internal_ChannelType) ub" where
  "era_request b pn ra ch = do {
     timers \<leftarrow> restartTimerForRequests b pn ra (pnERATimers ch);
     let new = ra_or (pnERA ch) ra;
     Some (take 8 (pnERA ch) \<noteq> take 8 new, ch\<lparr>pnERATimers := timers, pnERA := new\<rparr>) }"

definition CanNm_Internal_ProcessTxPdu :: "CanNm_Build \<Rightarrow> CanNm_PnInfoType \<Rightarrow> uint8 list \<Rightarrow> CanNm_Glob \<Rightarrow> CanNm_Glob ub" where
  "CanNm_Internal_ProcessTxPdu b pn pnInfo g = do {
     let g = SchM_Enter_CanNm_EA_0 g;
     ra \<leftarrow> pn_requests b pn pnInfo;
     g \<leftarrow> (if ra_zero ra then Some g
           else do {
             (changed, g) \<leftarrow> eira_request b pn ra g;
             if changed then eira_indication b pn g else Some g });
     Some (SchM_Exit_CanNm_EA_0 g) }"

text \<open>The filter for received messages: whether the message is processed further.\<close>

definition CanNm_Internal_RxProcess ::
  "CanNm_Build \<Rightarrow> CanNm_ConfigType \<Rightarrow> CanNm_ChannelType \<Rightarrow> bool \<Rightarrow> nm \<Rightarrow> (bool \<times> nm) ub" where
  "CanNm_Internal_RxProcess b cfg ChannelConf pni = (\<lambda>(ch, g).
     if \<not> CanNmPnEnable ChannelConf then Some (True, ch, g)
     else if CanNmAllNmMsgKeepAwake ChannelConf \<and> \<not> pni then Some (True, ch, g)
     else if \<not> CanNmAllNmMsgKeepAwake ChannelConf \<and> \<not> pni then Some (False, ch, g)
     else if \<not> MessageFilteringEnabled ch then Some (False, ch, g)
     else do {
       pn \<leftarrow> deref (CanNmPnInfo cfg);
       ra \<leftarrow> pn_requests b pn (drop (unat (CanNmPnInfoOffset pn)) (RxMessageSdu ch));
       if ra_zero ra then Some (CanNmAllNmMsgKeepAwake ChannelConf, ch, g)
       else do {
         g \<leftarrow> (if CANNM_PNC_EIRA_CALC_ENABLED b then do {
                 (changed, g) \<leftarrow> eira_request b pn ra (SchM_Enter_CanNm_EA_0 g);
                 let g = SchM_Exit_CanNm_EA_0 g;
                 if changed then eira_indication b pn g else Some g }
               else Some g);
         (ch, g) \<leftarrow> (if CANNM_PNC_ERA_CALC_ENABLED b \<and> CanNmPnEraCalcEnabled ChannelConf then do {
                 let g = SchM_Enter_CanNm_EA_0 g;
                 (changed, ch) \<leftarrow> era_request b pn ra ch;
                 let g = SchM_Exit_CanNm_EA_0 g;
                 if changed then era_indication b pn ChannelConf (ch, g) else Some (ch, g) }
               else Some (ch, g));
         Some (True, ch, g) } })"

text \<open>The timers of the requests: those that expire end the request of their partial network.\<close>

definition tick_pn_timer :: "CanNm_Build \<Rightarrow> CanNm_ConfigType \<Rightarrow> nat \<Rightarrow> CanNm_Internal_PnTimerType list \<times> uint8 list
    \<Rightarrow> (CanNm_Internal_PnTimerType list \<times> uint8 list) ub" where
  "tick_pn_timer b cfg timerIdx = (\<lambda>(timers, pncIndexReset). do {
     t \<leftarrow> rd timers timerIdx;
     if timerRunning t then
       if resetTimer t \<le> CANNM_MAIN_FUNCTION_PERIOD b then do {
         timers \<leftarrow> wr timers timerIdx (t\<lparr>timerRunning := False\<rparr>);
         pn \<leftarrow> deref (CanNmPnInfo cfg);
         p \<leftarrow> rd (CanNmTimerIndexToPnMap pn) timerIdx;
         Some (timers, pncIndexReset @ [p]) }
       else do {
         timers \<leftarrow> wr timers timerIdx (t\<lparr>resetTimer := resetTimer t - CANNM_MAIN_FUNCTION_PERIOD b\<rparr>);
         Some (timers, pncIndexReset) }
     else Some (timers, pncIndexReset) })"

definition reset_pn_bit :: "uint8 \<Rightarrow> CanNm_Internal_RAType \<Rightarrow> CanNm_Internal_RAType ub" where
  "reset_pn_bit pnIndex ra = do {
     v \<leftarrow> rd ra (unat pnIndex div 8);
     wr ra (unat pnIndex div 8) (v AND NOT (push_bit (unat pnIndex mod 8) 1)) }"

definition CanNm_Internal_resetEIRAPNbits :: "CanNm_Build \<Rightarrow> CanNm_ConfigType \<Rightarrow> uint8 list \<Rightarrow> CanNm_Glob \<Rightarrow> CanNm_Glob ub" where
  "CanNm_Internal_resetEIRAPNbits b cfg pnIndex g = do {
     ra \<leftarrow> for_each reset_pn_bit pnIndex (pnEIRA g);
     pn \<leftarrow> deref (CanNmPnInfo cfg);
     eira_indication b pn (g\<lparr>pnEIRA := ra\<rparr>) }"

definition CanNm_Internal_ResetEraPnBits ::
  "CanNm_Build \<Rightarrow> CanNm_ConfigType \<Rightarrow> CanNm_ChannelType \<Rightarrow> uint8 list \<Rightarrow> nm \<Rightarrow> nm ub" where
  "CanNm_Internal_ResetEraPnBits b cfg ChannelConf pnIndex = (\<lambda>(ch, g). do {
     ra \<leftarrow> for_each reset_pn_bit pnIndex (pnERA ch);
     pn \<leftarrow> deref (CanNmPnInfo cfg);
     era_indication b pn ChannelConf (ch\<lparr>pnERA := ra\<rparr>, g) })"

definition CanNm_Internal_TickPnEIRAResetTime :: "CanNm_Build \<Rightarrow> CanNm_ConfigType \<Rightarrow> CanNm_Glob \<Rightarrow> CanNm_Glob ub" where
  "CanNm_Internal_TickPnEIRAResetTime b cfg g = do {
     let g = SchM_Enter_CanNm_EA_0 g;
     (timers, pncIndexReset) \<leftarrow> for_each (tick_pn_timer b cfg) [0..<CANNM_PNC_COUNT b] (pnEIRATimers g, []);
     let g = g\<lparr>pnEIRATimers := timers\<rparr>;
     g \<leftarrow> (if pncIndexReset \<noteq> [] then CanNm_Internal_resetEIRAPNbits b cfg pncIndexReset g else Some g);
     Some (SchM_Exit_CanNm_EA_0 g) }"

text \<open>The body of the loop over the channels in \<^verbatim>\<open>CanNm_Internal_TickPnEraResetTime\<close>.\<close>

definition tick_pn_era :: "CanNm_Build \<Rightarrow> CanNm_ConfigType \<Rightarrow> CanNm_ChannelType \<Rightarrow> nm \<Rightarrow> nm ub" where
  "tick_pn_era b cfg ChannelConf = (\<lambda>(ch, g).
     if CanNmPnEraCalcEnabled ChannelConf then do {
       (timers, pncIndexReset) \<leftarrow> for_each (tick_pn_timer b cfg) [0..<CANNM_PNC_COUNT b] (pnERATimers ch, []);
       let ch = ch\<lparr>pnERATimers := timers\<rparr>;
       if pncIndexReset \<noteq> [] then CanNm_Internal_ResetEraPnBits b cfg ChannelConf pncIndexReset (ch, g) else Some (ch, g) }
     else Some (ch, g))"

section \<open>Timers\<close>

definition timeout_report :: "CanNm_Build \<Rightarrow> nm \<Rightarrow> nm" where
  "timeout_report b = (\<lambda>(ch, g).
     (if com_user_data b then ch\<lparr>TransmissionStatus := 0\<rparr> else ch, CANNM_DET_REPORTERROR b 0x13 0x11 0 g))"

definition CanNm_Internal_TickTimeoutTime :: "CanNm_Build \<Rightarrow> CanNm_ChannelType \<Rightarrow> nm \<Rightarrow> nm" where
  "CanNm_Internal_TickTimeoutTime b ChannelConf = (\<lambda>(ch, g).
     if TimeoutTimeLeft ch \<le> MainFunctionPeriod ChannelConf then
       let ch = ch\<lparr>TimeoutTimeLeft := 0\<rparr> in
       if State ch = NM_STATE_REPEAT_MESSAGE
       then CanNm_Internal_RepeatMessage_to_RepeatMessage ChannelConf (timeout_report b (ch, g))
       else if State ch = NM_STATE_NORMAL_OPERATION
       then CanNm_Internal_NormalOperation_to_NormalOperation ChannelConf (timeout_report b (ch, g))
       else if State ch = NM_STATE_READY_SLEEP then CanNm_Internal_ReadySleep_to_PrepareBusSleep b ChannelConf (ch, g)
       else (ch, g)
     else (ch\<lparr>TimeoutTimeLeft := TimeoutTimeLeft ch - MainFunctionPeriod ChannelConf\<rparr>, g))"

definition CanNm_Internal_TickRepeatMessageTime :: "CanNm_Build \<Rightarrow> CanNm_ChannelType \<Rightarrow> nm \<Rightarrow> nm ub" where
  "CanNm_Internal_TickRepeatMessageTime b ChannelConf = (\<lambda>(ch, g).
     if RepeatMessageTimeLeft ch \<le> MainFunctionPeriod ChannelConf then
       let ch = ch\<lparr>RepeatMessageTimeLeft := 0\<rparr> in
       if State ch = NM_STATE_REPEAT_MESSAGE then
         if Requested ch then CanNm_Internal_RepeatMessage_to_NormalOperation b ChannelConf (ch, g)
         else CanNm_Internal_RepeatMessage_to_ReadySleep b ChannelConf (ch, g)
       else Some (ch, g)
     else Some (ch\<lparr>RepeatMessageTimeLeft := RepeatMessageTimeLeft ch - MainFunctionPeriod ChannelConf\<rparr>, g))"

definition CanNm_Internal_TickWaitBusSleepTime :: "CanNm_Build \<Rightarrow> CanNm_ChannelType \<Rightarrow> nm \<Rightarrow> nm" where
  "CanNm_Internal_TickWaitBusSleepTime b ChannelConf = (\<lambda>(ch, g).
     if WaitBusSleepTimeLeft ch \<le> MainFunctionPeriod ChannelConf then
       let ch = ch\<lparr>WaitBusSleepTimeLeft := 0\<rparr> in
       if Mode ch = NM_MODE_PREPARE_BUS_SLEEP then CanNm_Internal_PrepareBusSleep_to_BusSleep b ChannelConf (ch, g) else (ch, g)
     else (ch\<lparr>WaitBusSleepTimeLeft := WaitBusSleepTimeLeft ch - MainFunctionPeriod ChannelConf\<rparr>, g))"

definition CanNm_Internal_TickTxTimeout :: "CanNm_ChannelType \<Rightarrow> nm \<Rightarrow> nm" where
  "CanNm_Internal_TickTxTimeout ChannelConf = (\<lambda>(ch, g).
     if MessageTimeoutTimeLeft ch \<noteq> 0 then
       if MessageTimeoutTimeLeft ch \<le> MainFunctionPeriod ChannelConf
       then (ch\<lparr>MessageTimeoutTimeLeft := 0\<rparr>, nm_call (Nm_TxTimeoutException (NmNetworkHandle ChannelConf)) g)
       else (ch\<lparr>MessageTimeoutTimeLeft := MessageTimeoutTimeLeft ch - MainFunctionPeriod ChannelConf\<rparr>, g)
     else (ch, g))"

text \<open>The last part of \<^verbatim>\<open>CanNm_Internal_TransmitMessage\<close>: the call of CanIf, and the immediate transmissions.\<close>

definition immediate_sent :: "CanNm_ChannelType \<Rightarrow> CanNm_Internal_ChannelType \<Rightarrow> CanNm_Internal_ChannelType" where
  "immediate_sent ChannelConf ch =
     (if immediateModeActive ch then
        let ch = ch\<lparr>immediateNmTransmissionsSent := immediateNmTransmissionsSent ch + 1\<rparr> in
        if immediateNmTransmissionsSent ch = ImmediateNmTransmissions ChannelConf
        then ch\<lparr>immediateModeActive := False,
                MessageCycleTimeLeft := (if MessageCycleOffsetTime ChannelConf \<noteq> 0 then MessageCycleOffsetTime ChannelConf
                                         else MessageCycleTime ChannelConf)\<rparr>
        else ch
      else ch)"

definition send_message :: "CanNm_ChannelType \<Rightarrow> nm \<Rightarrow> nm ub" where
  "send_message ChannelConf = (\<lambda>(ch, g). do {
     let ch = ch\<lparr>MessageTimeoutTimeLeft := MessageTimeoutTime ChannelConf\<rparr>;
     sdu \<leftarrow> first_bytes (unat (PduLength ChannelConf)) (TxMessageSdu ch);
     let g = nm_call (CanIf_Transmit (CanIfPduId ChannelConf) sdu) g;
     Some (immediate_sent ChannelConf ch, g) })"

text \<open>The user data that PduR supplies, and the requests of partial networks in the message.\<close>

definition pn_process_tx :: "CanNm_Build \<Rightarrow> CanNm_ConfigType \<Rightarrow> CanNm_ChannelType \<Rightarrow> uint8 list \<Rightarrow> CanNm_Glob \<Rightarrow> CanNm_Glob ub" where
  "pn_process_tx b cfg ChannelConf sdu g =
     (if eira_calc b \<and> CanNmPnEnable ChannelConf then do {
        pn \<leftarrow> deref (CanNmPnInfo cfg);
        CanNm_Internal_ProcessTxPdu b pn (drop (unat (CanNmPnInfoOffset pn)) sdu) g }
      else Some g)"

definition fetch_user_data :: "CanNm_Build \<Rightarrow> CanNm_ChannelType \<Rightarrow> nm \<Rightarrow> CanNm_Internal_ChannelType ub" where
  "fetch_user_data b ChannelConf = (\<lambda>(ch, g). do {
     old \<leftarrow> CanNm_Internal_GetUserData ChannelConf (TxMessageSdu ch);
     let new = PduR_user_data b (nm_calls g) (CanNmUserDataTxPduId ChannelConf) old;
     sdu \<leftarrow> (if length new = length old then put_user_data ChannelConf (TxMessageSdu ch) new else None);
     Some (ch\<lparr>TxMessageSdu := sdu\<rparr>) })"

definition CanNm_Internal_TransmitMessage :: "CanNm_Build \<Rightarrow> CanNm_ConfigType \<Rightarrow> CanNm_ChannelType \<Rightarrow> nm \<Rightarrow> nm ub" where
  "CanNm_Internal_TransmitMessage b cfg ChannelConf = (\<lambda>(ch, g).
     if \<not> CommunicationEnabled ch then Some (ch, g)
     else if com_user_data b then
       let g = SchM_Exit_CanNm_EA_0 (SchM_Enter_CanNm_EA_0 g) in
       if TransmissionStatus ch = 0 then do {
         let ch = ch\<lparr>TransmissionStatus := 1\<rparr>;
         ch \<leftarrow> fetch_user_data b ChannelConf (ch, g);
         g \<leftarrow> pn_process_tx b cfg ChannelConf (TxMessageSdu ch) g;
         (ch, g) \<leftarrow> send_message ChannelConf (ch, g);
         Some (ch\<lparr>TransmissionStatus := 0\<rparr>, g) }
       else Some (ch, g)
     else if set_user_data b then
       let g = SchM_Exit_CanNm_EA_0 (SchM_Enter_CanNm_EA_0 g) in
       if \<not> IsUserDataSet ch then do {
         (ch, g) \<leftarrow> send_message ChannelConf (ch\<lparr>IsUserDataSet := True\<rparr>, g);
         Some (ch\<lparr>IsUserDataSet := False\<rparr>, g) }
       else Some (ch, g)
     else send_message ChannelConf (ch, g))"

definition CanNm_Internal_TickMessageCycleTime :: "CanNm_Build \<Rightarrow> CanNm_ConfigType \<Rightarrow> CanNm_ChannelType \<Rightarrow> nm \<Rightarrow> nm ub" where
  "CanNm_Internal_TickMessageCycleTime b cfg ChannelConf = (\<lambda>(ch, g).
     if MessageCycleTimeLeft ch \<le> MainFunctionPeriod ChannelConf then
       CanNm_Internal_TransmitMessage b cfg ChannelConf
         (ch\<lparr>MessageCycleTimeLeft := (if immediateModeActive ch then ImmediateNmCycleTime ChannelConf
                                      else MessageCycleTime ChannelConf)\<rparr>, g)
     else Some (ch\<lparr>MessageCycleTimeLeft := MessageCycleTimeLeft ch - MainFunctionPeriod ChannelConf\<rparr>, g))"

section \<open>Services\<close>

text \<open>A return value \<open>True\<close> is \<^verbatim>\<open>E_OK\<close>.\<close>

definition on_glob :: "(CanNm_Glob \<Rightarrow> CanNm_Glob) \<Rightarrow> CanNm_InternalType \<Rightarrow> CanNm_InternalType" where
  "on_glob f st = st\<lparr>Glob := f (Glob st)\<rparr>"

definition CANNM_VALIDATE ::
  "CanNm_Build \<Rightarrow> bool ub \<Rightarrow> uint8 \<Rightarrow> uint8 \<Rightarrow> uint8 \<Rightarrow> 'a \<Rightarrow> CanNm_InternalType \<Rightarrow> ('a \<times> CanNm_InternalType) ub
    \<Rightarrow> ('a \<times> CanNm_InternalType) ub" where
  "CANNM_VALIDATE b expression serviceId errorId instanceId rv st k =
     (if CANNM_DEV_ERROR_DETECT b then do {
        ok \<leftarrow> expression;
        if ok then k else Some (rv, on_glob (CANNM_DET_REPORTERROR b serviceId errorId instanceId) st) }
      else k)"

definition CANNM_VALIDATE_INIT ::
  "CanNm_Build \<Rightarrow> uint8 \<Rightarrow> uint8 \<Rightarrow> 'a \<Rightarrow> CanNm_InternalType \<Rightarrow> ('a \<times> CanNm_InternalType) ub \<Rightarrow> ('a \<times> CanNm_InternalType) ub" where
  "CANNM_VALIDATE_INIT b serviceId instanceId rv st =
     CANNM_VALIDATE b (Some (InitStatus st = CANNM_STATUS_INIT)) serviceId 0x01 instanceId rv st"

definition known_channel :: "uint8 \<Rightarrow> CanNm_InternalType \<Rightarrow> bool ub" where
  "known_channel nmHandle st = do {
     cfg \<leftarrow> deref (CanNm_ConfigPtr st);
     if nmHandle < ChannelLookupsSize cfg then do { i \<leftarrow> rd (ChannelLookups cfg) (unat nmHandle); Some (i \<noteq> 0xFF) }
     else Some False }"

definition CANNM_VALIDATE_CHANNEL ::
  "CanNm_Build \<Rightarrow> uint8 \<Rightarrow> uint8 \<Rightarrow> 'a \<Rightarrow> CanNm_InternalType \<Rightarrow> ('a \<times> CanNm_InternalType) ub \<Rightarrow> ('a \<times> CanNm_InternalType) ub" where
  "CANNM_VALIDATE_CHANNEL b nmHandle serviceId rv st =
     CANNM_VALIDATE b (known_channel nmHandle st) serviceId 0x02 nmHandle rv st"

definition CANNM_VALIDATE_NOTNULL ::
  "CanNm_Build \<Rightarrow> 'p ptr \<Rightarrow> uint8 \<Rightarrow> uint8 \<Rightarrow> 'a \<Rightarrow> CanNm_InternalType \<Rightarrow> ('a \<times> CanNm_InternalType) ub
    \<Rightarrow> ('a \<times> CanNm_InternalType) ub" where
  "CANNM_VALIDATE_NOTNULL b p serviceId instanceId rv st =
     CANNM_VALIDATE b (Some (p \<noteq> None)) serviceId 0x12 instanceId rv st"

text \<open>The channel of a handle, and an operation on a channel.\<close>

definition channel_of :: "uint8 \<Rightarrow> CanNm_InternalType \<Rightarrow> nat ub" where
  "channel_of nmHandle st = do {
     cfg \<leftarrow> deref (CanNm_ConfigPtr st); i \<leftarrow> rd (ChannelLookups cfg) (unat nmHandle); Some (unat i) }"

definition on_channel ::
  "(CanNm_ConfigType \<Rightarrow> CanNm_ChannelType \<Rightarrow> nm \<Rightarrow> ('a \<times> nm) ub) \<Rightarrow> nat \<Rightarrow> CanNm_InternalType \<Rightarrow> ('a \<times> CanNm_InternalType) ub" where
  "on_channel f i st = do {
     cfg \<leftarrow> deref (CanNm_ConfigPtr st);
     ChannelConf \<leftarrow> rd (cfg_Channels cfg) i;
     ch \<leftarrow> rd (Channels st) i;
     (r, ch, g) \<leftarrow> f cfg ChannelConf (ch, Glob st);
     Some (r, st\<lparr>Channels := (Channels st)[i := ch], Glob := g\<rparr>) }"

text \<open>A service for a network handle.\<close>

definition on_handle ::
  "CanNm_Build \<Rightarrow> uint8 \<Rightarrow> uint8 \<Rightarrow> 'a \<Rightarrow> (CanNm_ConfigType \<Rightarrow> CanNm_ChannelType \<Rightarrow> nm \<Rightarrow> ('a \<times> nm) ub)
    \<Rightarrow> CanNm_InternalType \<Rightarrow> ('a \<times> CanNm_InternalType) ub" where
  "on_handle b serviceId nmHandle rv f st =
     CANNM_VALIDATE_INIT b serviceId 0 rv st (
       CANNM_VALIDATE_CHANNEL b nmHandle serviceId rv st (do {
         i \<leftarrow> channel_of nmHandle st;
         on_channel f i st }))"

definition set_pni :: "CanNm_Build \<Rightarrow> CanNm_ChannelType \<Rightarrow> nm \<Rightarrow> nm ub" where
  "set_pni b ChannelConf = (\<lambda>(ch, g).
     if 0 < CANNM_PNC_COUNT b \<and> CanNmPnEnable ChannelConf
     then do { ch \<leftarrow> CanNm_Internal_SetPNICbv b ChannelConf ch; Some (ch, g) }
     else Some (ch, g))"

definition passive_start_up :: "CanNm_Build \<Rightarrow> CanNm_ConfigType \<Rightarrow> CanNm_ChannelType \<Rightarrow> nm \<Rightarrow> (bool \<times> nm) ub" where
  "passive_start_up b cfg ChannelConf = (\<lambda>(ch, g). do {
     let (status, x) =
       (if Mode ch = NM_MODE_BUS_SLEEP then (True, CanNm_Internal_BusSleep_to_RepeatMessage b ChannelConf False (ch, g))
        else (False, ch, g));
     x \<leftarrow> set_pni b ChannelConf x;
     Some (status, x) })"

definition CanNm_PassiveStartUp :: "CanNm_Build \<Rightarrow> uint8 \<Rightarrow> CanNm_InternalType \<Rightarrow> (bool \<times> CanNm_InternalType) ub" where
  "CanNm_PassiveStartUp b nmHandle = on_handle b 0x01 nmHandle False (passive_start_up b)"

definition network_request :: "CanNm_Build \<Rightarrow> CanNm_ConfigType \<Rightarrow> CanNm_ChannelType \<Rightarrow> nm \<Rightarrow> (bool \<times> nm) ub" where
  "network_request b cfg ChannelConf = (\<lambda>(ch, g). do {
     let ch = ch\<lparr>Requested := True\<rparr>;
     let x =
       (if Mode ch = NM_MODE_BUS_SLEEP then CanNm_Internal_BusSleep_to_RepeatMessage b ChannelConf True (ch, g)
        else if Mode ch = NM_MODE_PREPARE_BUS_SLEEP then CanNm_Internal_PrepareBusSleep_to_RepeatMessage b ChannelConf True (ch, g)
        else if Mode ch = NM_MODE_NETWORK \<and> State ch = NM_STATE_READY_SLEEP
        then CanNm_Internal_ReadySleep_to_NormalOperation b ChannelConf (ch, g)
        else (ch, g));
     x \<leftarrow> set_pni b ChannelConf x;
     Some (True, x) })"

definition CanNm_NetworkRequest :: "CanNm_Build \<Rightarrow> uint8 \<Rightarrow> CanNm_InternalType \<Rightarrow> (bool \<times> CanNm_InternalType) ub" where
  "CanNm_NetworkRequest b nmHandle = on_handle b 0x02 nmHandle False (network_request b)"

definition network_release :: "CanNm_Build \<Rightarrow> CanNm_ConfigType \<Rightarrow> CanNm_ChannelType \<Rightarrow> nm \<Rightarrow> (bool \<times> nm) ub" where
  "network_release b cfg ChannelConf = (\<lambda>(ch, g).
     if \<not> CommunicationEnabled ch then Some (False, ch, g)
     else let ch = ch\<lparr>Requested := False\<rparr> in
       Some (True,
         if Mode ch = NM_MODE_NETWORK \<and> State ch = NM_STATE_NORMAL_OPERATION
         then CanNm_Internal_NormalOperation_to_ReadySleep b ChannelConf (ch, g) else (ch, g)))"

definition CanNm_NetworkRelease :: "CanNm_Build \<Rightarrow> uint8 \<Rightarrow> CanNm_InternalType \<Rightarrow> (bool \<times> CanNm_InternalType) ub" where
  "CanNm_NetworkRelease b nmHandle = on_handle b 0x03 nmHandle False (network_release b)"

definition disable_communication :: "CanNm_ConfigType \<Rightarrow> CanNm_ChannelType \<Rightarrow> nm \<Rightarrow> (bool \<times> nm) ub" where
  "disable_communication cfg ChannelConf = (\<lambda>(ch, g).
     if Mode ch \<noteq> NM_MODE_NETWORK then Some (False, ch, g) else Some (True, ch\<lparr>CommunicationEnabled := False\<rparr>, g))"

definition CanNm_DisableCommunication :: "CanNm_Build \<Rightarrow> uint8 \<Rightarrow> CanNm_InternalType \<Rightarrow> (bool \<times> CanNm_InternalType) ub" where
  "CanNm_DisableCommunication b nmHandle st =
     (if CANNM_PASSIVE_MODE_ENABLED b then CANNM_VALIDATE_INIT b 0x0C 0 False st (Some (False, st))
      else on_handle b 0x0C nmHandle False disable_communication st)"

definition enable_communication :: "CanNm_ConfigType \<Rightarrow> CanNm_ChannelType \<Rightarrow> nm \<Rightarrow> (bool \<times> nm) ub" where
  "enable_communication cfg ChannelConf = (\<lambda>(ch, g).
     if Mode ch \<noteq> NM_MODE_NETWORK then Some (False, ch, g)
     else if CommunicationEnabled ch then Some (False, ch, g)
     else Some (True, ch\<lparr>MessageCycleTimeLeft := MessageCycleOffsetTime ChannelConf + MainFunctionPeriod ChannelConf,
         TimeoutTimeLeft := TimeoutTime ChannelConf + MainFunctionPeriod ChannelConf, CommunicationEnabled := True\<rparr>, g))"

definition CanNm_EnableCommunication :: "CanNm_Build \<Rightarrow> uint8 \<Rightarrow> CanNm_InternalType \<Rightarrow> (bool \<times> CanNm_InternalType) ub" where
  "CanNm_EnableCommunication b nmHandle st =
     (if CANNM_PASSIVE_MODE_ENABLED b then CANNM_VALIDATE_INIT b 0x0D 0 False st (Some (False, st))
      else on_handle b 0x0D nmHandle False enable_communication st)"

text \<open>Services with a pointer argument, which is tested behind the handle.\<close>

definition on_handle_ptr ::
  "CanNm_Build \<Rightarrow> uint8 \<Rightarrow> uint8 \<Rightarrow> 'p ptr \<Rightarrow> 'a \<Rightarrow> (CanNm_ConfigType \<Rightarrow> CanNm_ChannelType \<Rightarrow> nm \<Rightarrow> ('a \<times> nm) ub)
    \<Rightarrow> CanNm_InternalType \<Rightarrow> ('a \<times> CanNm_InternalType) ub" where
  "on_handle_ptr b serviceId nmHandle p rv f st =
     CANNM_VALIDATE_INIT b serviceId 0 rv st (
       CANNM_VALIDATE_CHANNEL b nmHandle serviceId rv st (
         CANNM_VALIDATE_NOTNULL b p serviceId nmHandle rv st (do {
           i \<leftarrow> channel_of nmHandle st;
           on_channel f i st })))"

definition user_data_set :: "uint8 list ptr \<Rightarrow> CanNm_ConfigType \<Rightarrow> CanNm_ChannelType \<Rightarrow> nm \<Rightarrow> (bool \<times> nm) ub" where
  "user_data_set nmUserDataPtr cfg ChannelConf = (\<lambda>(ch, g).
     if \<not> IsUserDataSet ch then do {
       let g = SchM_Exit_CanNm_EA_0 (SchM_Enter_CanNm_EA_0 g);
       src \<leftarrow> deref nmUserDataPtr;
       bs \<leftarrow> first_bytes (unat (CanNm_Internal_GetUserDataLength ChannelConf)) src;
       sdu \<leftarrow> put_user_data ChannelConf (TxMessageSdu ch) bs;
       Some (True, ch\<lparr>TxMessageSdu := sdu, IsUserDataSet := False\<rparr>, g) }
     else Some (False, ch, g))"

definition CanNm_SetUserData :: "CanNm_Build \<Rightarrow> uint8 \<Rightarrow> uint8 list ptr \<Rightarrow> CanNm_InternalType \<Rightarrow> (bool \<times> CanNm_InternalType) ub" where
  "CanNm_SetUserData b nmHandle nmUserDataPtr = on_handle_ptr b 0x04 nmHandle nmUserDataPtr False (user_data_set nmUserDataPtr)"

text \<open>Services that only read return the buffer behind their pointer with the result.\<close>

definition CanNm_GetUserData ::
  "CanNm_Build \<Rightarrow> uint8 \<Rightarrow> uint8 list ptr \<Rightarrow> CanNm_InternalType \<Rightarrow> ((bool \<times> uint8 list ptr) \<times> CanNm_InternalType) ub" where
  "CanNm_GetUserData b nmHandle nmUserDataPtr =
     on_handle_ptr b 0x05 nmHandle nmUserDataPtr (False, nmUserDataPtr) (\<lambda>cfg ChannelConf (ch, g). do {
       out \<leftarrow> deref nmUserDataPtr;
       bs \<leftarrow> CanNm_Internal_GetUserData ChannelConf (RxMessageSdu ch);
       out \<leftarrow> put_at out 0 bs;
       Some ((True, Some out), ch, g) })"

definition CanNm_GetNodeIdentifier ::
  "CanNm_Build \<Rightarrow> uint8 \<Rightarrow> uint8 ptr \<Rightarrow> CanNm_InternalType \<Rightarrow> ((bool \<times> uint8 ptr) \<times> CanNm_InternalType) ub" where
  "CanNm_GetNodeIdentifier b nmHandle nmNodeIdPtr =
     on_handle_ptr b 0x06 nmHandle nmNodeIdPtr (False, nmNodeIdPtr) (\<lambda>cfg ChannelConf (ch, g).
       if NidPosition ChannelConf = CANNM_PDU_OFF then Some ((False, nmNodeIdPtr), ch, g)
       else do { _ \<leftarrow> deref nmNodeIdPtr; v \<leftarrow> rd (RxMessageSdu ch) (pdu_pos (NidPosition ChannelConf)); Some ((True, Some v), ch, g) })"

definition CanNm_GetLocalNodeIdentifier ::
  "CanNm_Build \<Rightarrow> uint8 \<Rightarrow> uint8 ptr \<Rightarrow> CanNm_InternalType \<Rightarrow> ((bool \<times> uint8 ptr) \<times> CanNm_InternalType) ub" where
  "CanNm_GetLocalNodeIdentifier b nmHandle nmNodeIdPtr =
     on_handle_ptr b 0x07 nmHandle nmNodeIdPtr (False, nmNodeIdPtr)
       (\<lambda>cfg ChannelConf (ch, g). do { _ \<leftarrow> deref nmNodeIdPtr; Some ((True, Some (NodeId ChannelConf)), ch, g) })"

definition CanNm_GetPduData ::
  "CanNm_Build \<Rightarrow> uint8 \<Rightarrow> uint8 list ptr \<Rightarrow> CanNm_InternalType \<Rightarrow> ((bool \<times> uint8 list ptr) \<times> CanNm_InternalType) ub" where
  "CanNm_GetPduData b nmHandle nmPduDataPtr =
     on_handle_ptr b 0x0A nmHandle nmPduDataPtr (False, nmPduDataPtr) (\<lambda>cfg ChannelConf (ch, g). do {
       out \<leftarrow> deref nmPduDataPtr;
       bs \<leftarrow> first_bytes (unat (PduLength ChannelConf)) (RxMessageSdu ch);
       out \<leftarrow> put_at out 0 bs;
       Some ((True, Some out), ch, g) })"

definition CanNm_GetState ::
  "CanNm_Build \<Rightarrow> uint8 \<Rightarrow> Nm_StateType ptr \<Rightarrow> Nm_ModeType ptr \<Rightarrow> CanNm_InternalType
    \<Rightarrow> ((bool \<times> Nm_StateType ptr \<times> Nm_ModeType ptr) \<times> CanNm_InternalType) ub" where
  "CanNm_GetState b nmHandle nmStatePtr nmModePtr st =
     (let rv = (False, nmStatePtr, nmModePtr) in
      CANNM_VALIDATE_INIT b 0x0B 0 rv st (
        CANNM_VALIDATE_CHANNEL b nmHandle 0x0B rv st (
          CANNM_VALIDATE_NOTNULL b nmStatePtr 0x0B nmHandle rv st (
            CANNM_VALIDATE_NOTNULL b nmModePtr 0x0B nmHandle rv st (do {
              i \<leftarrow> channel_of nmHandle st;
              _ \<leftarrow> deref nmStatePtr; _ \<leftarrow> deref nmModePtr;
              on_channel (\<lambda>cfg ChannelConf (ch, g). Some ((True, Some (State ch), Some (Mode ch)), ch, g)) i st })))))"

definition repeat_message_request :: "CanNm_Build \<Rightarrow> CanNm_ConfigType \<Rightarrow> CanNm_ChannelType \<Rightarrow> nm \<Rightarrow> (bool \<times> nm) ub" where
  "repeat_message_request b cfg ChannelConf = (\<lambda>(ch, g).
     if CbvPosition ChannelConf \<noteq> CANNM_PDU_OFF then
       if State ch = NM_STATE_READY_SLEEP then do {
         ch \<leftarrow> upd_cbv b ChannelConf (\<lambda>v. v OR 0x01) ch;
         Some (True, CanNm_Internal_ReadySleep_to_RepeatMessage b ChannelConf (ch, g)) }
       else if State ch = NM_STATE_NORMAL_OPERATION then do {
         ch \<leftarrow> upd_cbv b ChannelConf (\<lambda>v. v OR 0x01) ch;
         Some (True, CanNm_Internal_NormalOperation_to_RepeatMessage b ChannelConf (ch, g)) }
       else Some (False, ch, g)
     else Some (False, ch, g))"

definition CanNm_RepeatMessageRequest :: "CanNm_Build \<Rightarrow> uint8 \<Rightarrow> CanNm_InternalType \<Rightarrow> (bool \<times> CanNm_InternalType) ub" where
  "CanNm_RepeatMessageRequest b nmHandle = on_handle b 0x08 nmHandle False (repeat_message_request b)"

definition CanNm_RequestBusSynchronization :: "CanNm_Build \<Rightarrow> uint8 \<Rightarrow> CanNm_InternalType \<Rightarrow> (bool \<times> CanNm_InternalType) ub" where
  "CanNm_RequestBusSynchronization b nmHandle st =
     CANNM_VALIDATE_INIT b 0xC0 0 False st (CANNM_VALIDATE_CHANNEL b nmHandle 0xC0 False st (Some (False, st)))"

definition CanNm_CheckRemoteSleepIndication ::
  "CanNm_Build \<Rightarrow> uint8 \<Rightarrow> bool ptr \<Rightarrow> CanNm_InternalType \<Rightarrow> (bool \<times> CanNm_InternalType) ub" where
  "CanNm_CheckRemoteSleepIndication b nmHandle nmRemoteSleepIndPtr st =
     CANNM_VALIDATE_INIT b 0xD0 0 False st (CANNM_VALIDATE_CHANNEL b nmHandle 0xD0 False st (
       CANNM_VALIDATE_NOTNULL b nmRemoteSleepIndPtr 0xD0 nmHandle False st (Some (False, st))))"

definition CanNm_SetSleepReadyBit :: "uint8 \<Rightarrow> bool \<Rightarrow> bool" where
  "CanNm_SetSleepReadyBit nmHandle nmSleepReadyBit = False"

definition CanNm_ConfirmPnAvailability :: "CanNm_Build \<Rightarrow> uint8 \<Rightarrow> CanNm_InternalType \<Rightarrow> (unit \<times> CanNm_InternalType) ub" where
  "CanNm_ConfirmPnAvailability b nmChannelHandle st =
     CANNM_VALIDATE_INIT b 0x16 0 () st (
       CANNM_VALIDATE b (do { cfg \<leftarrow> deref (CanNm_ConfigPtr st); Some (nmChannelHandle < ChannelLookupsSize cfg) }) 0x16 0x02 0 () st (do {
         i \<leftarrow> channel_of nmChannelHandle st;
         on_channel (\<lambda>cfg ChannelConf (ch, g). Some ((), ch\<lparr>MessageFilteringEnabled := CanNmPnEnable ChannelConf\<rparr>, g)) i st }))"

section \<open>Functions called by CanIf and PduR\<close>

text \<open>A callback for a PDU, whose identifier is the index of the channel.\<close>

definition on_pdu ::
  "CanNm_Build \<Rightarrow> uint8 \<Rightarrow> uint16 \<Rightarrow> (CanNm_ConfigType \<Rightarrow> CanNm_ChannelType \<Rightarrow> nm \<Rightarrow> nm ub) \<Rightarrow> CanNm_InternalType
    \<Rightarrow> (unit \<times> CanNm_InternalType) ub" where
  "on_pdu b serviceId pduId f st =
     CANNM_VALIDATE b (Some (unat pduId < CANNM_CHANNEL_COUNT b)) serviceId 0x03 (ucast pduId) () st
       (on_channel (\<lambda>cfg ChannelConf x. do { x \<leftarrow> f cfg ChannelConf x; Some ((), x) }) (unat pduId) st)"

definition tx_confirmation :: "CanNm_Build \<Rightarrow> CanNm_ConfigType \<Rightarrow> CanNm_ChannelType \<Rightarrow> nm \<Rightarrow> nm ub" where
  "tx_confirmation b cfg ChannelConf = (\<lambda>(ch, g).
     let (ch, g) =
       (if com_user_data b \<and> TransmissionStatus ch = 3
        then (ch\<lparr>TransmissionStatus := 0\<rparr>, nm_call (PduR_CanNmTxConfirmation (CanNmUserDataTxPduId ChannelConf)) g)
        else if Mode ch = NM_MODE_NETWORK then CanNm_Internal_NetworkMode_to_NetworkMode ChannelConf (ch, g)
        else (ch, g))
     in Some (ch\<lparr>MessageTimeoutTimeLeft := 0\<rparr>, g))"

definition CanNm_TxConfirmation :: "CanNm_Build \<Rightarrow> uint16 \<Rightarrow> CanNm_InternalType \<Rightarrow> (unit \<times> CanNm_InternalType) ub" where
  "CanNm_TxConfirmation b CanNmTxPduId st =
     CANNM_VALIDATE_INIT b 0x0F (ucast CanNmTxPduId) () st (on_pdu b 0x0F CanNmTxPduId (tx_confirmation b) st)"

text \<open>The control bit vector of a received message: the request to repeat, and the filter.\<close>

definition rx_cbv :: "CanNm_Build \<Rightarrow> CanNm_ConfigType \<Rightarrow> CanNm_ChannelType \<Rightarrow> nm \<Rightarrow> ((bool \<times> bool) \<times> nm) ub" where
  "rx_cbv b cfg ChannelConf = (\<lambda>(ch, g).
     if (CANNM_NODE_DETECTION_ENABLED b \<or> 0 < CANNM_PNC_COUNT b) \<and> CbvPosition ChannelConf \<noteq> CANNM_PDU_OFF then do {
       cbv \<leftarrow> rd (RxMessageSdu ch) (pdu_pos (CbvPosition ChannelConf));
       let repeatMessageBitIndication = (CANNM_NODE_DETECTION_ENABLED b \<and> cbv AND 0x01 \<noteq> 0);
       (status, x) \<leftarrow> (if 0 < CANNM_PNC_COUNT b
                       then CanNm_Internal_RxProcess b cfg ChannelConf (cbv AND 0x40 \<noteq> 0) (ch, g) else Some (True, ch, g));
       Some ((status, repeatMessageBitIndication), x) }
     else Some ((True, False), ch, g))"

definition rx_state :: "CanNm_Build \<Rightarrow> uint8 \<Rightarrow> CanNm_ChannelType \<Rightarrow> bool \<Rightarrow> nm \<Rightarrow> nm" where
  "rx_state b instanceId ChannelConf repeatMessageBitIndication = (\<lambda>(ch, g).
     if Mode ch = NM_MODE_BUS_SLEEP then
       CanNm_Internal_BusSleep_to_BusSleep b ChannelConf (ch, CANNM_DET_REPORTERROR b 0x10 0x04 instanceId g)
     else if Mode ch = NM_MODE_PREPARE_BUS_SLEEP then CanNm_Internal_PrepareBusSleep_to_RepeatMessage b ChannelConf False (ch, g)
     else if Mode ch = NM_MODE_NETWORK then
       let (ch, g) = CanNm_Internal_NetworkMode_to_NetworkMode ChannelConf (ch, g) in
       if repeatMessageBitIndication then
         if State ch = NM_STATE_READY_SLEEP then CanNm_Internal_ReadySleep_to_RepeatMessage b ChannelConf (ch, g)
         else if State ch = NM_STATE_NORMAL_OPERATION then CanNm_Internal_NormalOperation_to_RepeatMessage b ChannelConf (ch, g)
         else (ch, g)
       else (ch, g)
     else (ch, g))"

definition rx_indication :: "CanNm_Build \<Rightarrow> uint8 \<Rightarrow> uint8 list \<Rightarrow> CanNm_ConfigType \<Rightarrow> CanNm_ChannelType \<Rightarrow> nm \<Rightarrow> nm ub" where
  "rx_indication b instanceId SduDataPtr cfg ChannelConf = (\<lambda>(ch, g). do {
     bs \<leftarrow> first_bytes (unat (PduLength ChannelConf)) SduDataPtr;
     sdu \<leftarrow> put_at (RxMessageSdu ch) 0 bs;
     ((status, repeatMessageBitIndication), ch, g) \<leftarrow> rx_cbv b cfg ChannelConf (ch\<lparr>RxMessageSdu := sdu\<rparr>, g);
     Some (if status then rx_state b instanceId ChannelConf repeatMessageBitIndication (ch, g) else (ch, g)) })"

definition CanNm_RxIndication ::
  "CanNm_Build \<Rightarrow> uint16 \<Rightarrow> uint8 list ptr ptr \<Rightarrow> CanNm_InternalType \<Rightarrow> (unit \<times> CanNm_InternalType) ub" where
  "CanNm_RxIndication b CanNmRxPduId PduInfoPtr st =
     CANNM_VALIDATE_INIT b 0x10 (ucast CanNmRxPduId) () st (
       CANNM_VALIDATE_NOTNULL b PduInfoPtr 0x10 (ucast CanNmRxPduId) () st (do {
         info \<leftarrow> deref PduInfoPtr;
         CANNM_VALIDATE_NOTNULL b info 0x10 (ucast CanNmRxPduId) () st (do {
           sdu \<leftarrow> deref info;
           on_pdu b 0x10 CanNmRxPduId (rx_indication b (ucast CanNmRxPduId) sdu) st }) }))"

definition transmit_spontaneous ::
  "CanNm_Build \<Rightarrow> uint8 list ptr ptr \<Rightarrow> CanNm_ConfigType \<Rightarrow> CanNm_ChannelType \<Rightarrow> nm \<Rightarrow> (bool \<times> nm) ub" where
  "transmit_spontaneous b PduInfoPtr cfg ChannelConf = (\<lambda>(ch, g).
     if (State ch = NM_STATE_REPEAT_MESSAGE \<or> State ch = NM_STATE_NORMAL_OPERATION) \<and> CommunicationEnabled ch then
       let g = SchM_Exit_CanNm_EA_0 (SchM_Enter_CanNm_EA_0 g) in
       if TransmissionStatus ch = 0 then do {
         info \<leftarrow> deref PduInfoPtr;
         src \<leftarrow> deref info;
         bs \<leftarrow> first_bytes (unat (CanNm_Internal_GetUserDataLength ChannelConf)) src;
         sdu \<leftarrow> put_user_data ChannelConf (SpontaneousTxMessageSdu ch) bs;
         msg \<leftarrow> first_bytes (unat (PduLength ChannelConf)) sdu;
         let retVal = CanIf_accepts b (nm_calls g) (CanIfPduId ChannelConf) msg;
         let g = nm_call (CanIf_Transmit (CanIfPduId ChannelConf) msg) g;
         g \<leftarrow> pn_process_tx b cfg ChannelConf sdu g;
         Some (retVal, ch\<lparr>SpontaneousTxMessageSdu := sdu, TransmissionStatus := (if retVal then 3 else 0)\<rparr>, g) }
       else Some (False, ch, g)
     else Some (False, ch, g))"

text \<open>
  The channel whose user data has an identifier; the position behind the last one if there is none. The
  search has a \<^verbatim>\<open>uint8\<close> counter, which would not get behind more than 255 channels.
\<close>

fun find_user_data :: "uint16 \<Rightarrow> CanNm_ChannelType list \<Rightarrow> nat" where
  "find_user_data pduId [] = 0"
| "find_user_data pduId (c # cs) = (if pduId = CanNmUserDataTxPduId c then 0 else Suc (find_user_data pduId cs))"

definition CanNm_Transmit ::
  "CanNm_Build \<Rightarrow> uint16 \<Rightarrow> uint8 list ptr ptr \<Rightarrow> CanNm_InternalType \<Rightarrow> (bool \<times> CanNm_InternalType) ub" where
  "CanNm_Transmit b pduId PduInfoPtr st =
     (if com_user_data b then do {
        cfg \<leftarrow> deref (CanNm_ConfigPtr st);
        confs \<leftarrow> (if CANNM_CHANNEL_COUNT b \<le> length (cfg_Channels cfg) \<and> CANNM_CHANNEL_COUNT b < 256
                 then Some (take (CANNM_CHANNEL_COUNT b) (cfg_Channels cfg)) else None);
        let affectedChannel = find_user_data pduId confs;
        let found = (affectedChannel < CANNM_CHANNEL_COUNT b);
        let h = (of_nat affectedChannel :: uint8);
        CANNM_VALIDATE b (Some found) 0x14 0x03 0 False st (
          CANNM_VALIDATE_CHANNEL b h 0x14 False st (
            CANNM_VALIDATE_NOTNULL b PduInfoPtr 0x14 h False st (
              CANNM_VALIDATE b (do { info \<leftarrow> deref PduInfoPtr; Some (info \<noteq> None) }) 0x14 0x12 h False st (
                if found then on_channel (transmit_spontaneous b PduInfoPtr) affectedChannel st else Some (False, st))))) }
      else Some (True, st))"

section \<open>The main function and the initialisation\<close>

definition main_channel :: "CanNm_Build \<Rightarrow> CanNm_ConfigType \<Rightarrow> CanNm_ChannelType \<Rightarrow> nm \<Rightarrow> nm ub" where
  "main_channel b cfg ChannelConf = (\<lambda>(ch, g).
     if Mode ch = NM_MODE_NETWORK then do {
       (ch, g) \<leftarrow> (if State ch = NM_STATE_REPEAT_MESSAGE then CanNm_Internal_TickRepeatMessageTime b ChannelConf (ch, g)
                   else Some (ch, g));
       let (ch, g) = (if CANNM_PASSIVE_MODE_ENABLED b then (ch, g) else CanNm_Internal_TickTxTimeout ChannelConf (ch, g));
       let (ch, g) = (if CommunicationEnabled ch then CanNm_Internal_TickTimeoutTime b ChannelConf (ch, g) else (ch, g));
       if \<not> CANNM_PASSIVE_MODE_ENABLED b \<and> (State ch = NM_STATE_REPEAT_MESSAGE \<or> State ch = NM_STATE_NORMAL_OPERATION) \<and>
          CommunicationEnabled ch
       then CanNm_Internal_TickMessageCycleTime b cfg ChannelConf (ch, g) else Some (ch, g) }
     else if Mode ch = NM_MODE_PREPARE_BUS_SLEEP then Some (CanNm_Internal_TickWaitBusSleepTime b ChannelConf (ch, g))
     else Some (ch, g))"

text \<open>A loop with a \<^verbatim>\<open>uint8\<close> counter over all channels, which would not end for more than 255 of them.\<close>

definition each_channel ::
  "CanNm_Build \<Rightarrow> (CanNm_ConfigType \<Rightarrow> CanNm_ChannelType \<Rightarrow> nm \<Rightarrow> nm ub) \<Rightarrow> CanNm_InternalType \<Rightarrow> CanNm_InternalType ub" where
  "each_channel b f st =
     (if CANNM_CHANNEL_COUNT b < 256
      then for_each (\<lambda>i st. map_option snd (on_channel (\<lambda>cfg ChannelConf x. do { x \<leftarrow> f cfg ChannelConf x; Some ((), x) }) i st))
             [0..<CANNM_CHANNEL_COUNT b] st
      else None)"

definition CanNm_Internal_TickPnEraResetTime :: "CanNm_Build \<Rightarrow> CanNm_InternalType \<Rightarrow> CanNm_InternalType ub" where
  "CanNm_Internal_TickPnEraResetTime b st = do {
     st \<leftarrow> each_channel b (tick_pn_era b) (on_glob SchM_Enter_CanNm_EA_0 st);
     Some (on_glob SchM_Exit_CanNm_EA_0 st) }"

definition CanNm_MainFunction :: "CanNm_Build \<Rightarrow> CanNm_InternalType \<Rightarrow> (unit \<times> CanNm_InternalType) ub" where
  "CanNm_MainFunction b st =
     CANNM_VALIDATE_INIT b 0x13 0 () st (do {
       st \<leftarrow> each_channel b (main_channel b) st;
       st \<leftarrow> (if eira_calc b then do {
                cfg \<leftarrow> deref (CanNm_ConfigPtr st);
                g \<leftarrow> CanNm_Internal_TickPnEIRAResetTime b cfg (Glob st);
                Some (st\<lparr>Glob := g\<rparr>) }
              else Some st);
       st \<leftarrow> (if era_calc b then CanNm_Internal_TickPnEraResetTime b st else Some st);
       Some ((), st) })"

text \<open>The initial content of a message: user data, node identifier and control bit vector.\<close>

definition init_message :: "CanNm_ChannelType \<Rightarrow> uint8 list ub" where
  "init_message ChannelConf = do {
     m \<leftarrow> put_user_data ChannelConf (replicate 8 0) (replicate (unat (CanNm_Internal_GetUserDataLength ChannelConf)) 0xFF);
     m \<leftarrow> (if NidPosition ChannelConf \<noteq> CANNM_PDU_OFF then wr m (pdu_pos (NidPosition ChannelConf)) (NodeId ChannelConf) else Some m);
     if CbvPosition ChannelConf \<noteq> CANNM_PDU_OFF then wr m (pdu_pos (CbvPosition ChannelConf)) 0x00 else Some m }"

definition init_channel :: "CanNm_Build \<Rightarrow> CanNm_ConfigType \<Rightarrow> CanNm_ChannelType \<Rightarrow> nm \<Rightarrow> nm ub" where
  "init_channel b cfg ChannelConf = (\<lambda>(ch, g). do {
     let ch = ch\<lparr>Mode := NM_MODE_BUS_SLEEP, State := NM_STATE_BUS_SLEEP, Requested := False, CommunicationEnabled := True,
       immediateModeActive := False, MessageFilteringEnabled := False\<rparr>;
     let ch = (if com_user_data b then ch\<lparr>TransmissionStatus := 0\<rparr>
               else if set_user_data b then ch\<lparr>IsUserDataSet := False\<rparr> else ch);
     m \<leftarrow> init_message ChannelConf;
     let ch = ch\<lparr>TxMessageSdu := m, RxMessageSdu := replicate 8 0\<rparr>;
     let ch = (if com_user_data b then ch\<lparr>SpontaneousTxMessageSdu := m\<rparr> else ch);
     let ch = (if CANNM_PASSIVE_MODE_ENABLED b then ch else ch\<lparr>MessageCycleTimeLeft := 0, MessageTimeoutTimeLeft := 0\<rparr>);
     Some (ch, g) })"

definition stop_timers :: "CanNm_Internal_PnTimerType list \<Rightarrow> CanNm_Internal_PnTimerType list" where
  "stop_timers = map (\<lambda>_. \<lparr>resetTimer = 0, timerRunning = False\<rparr>)"

definition ra_clear :: "CanNm_Internal_RAType \<Rightarrow> CanNm_Internal_RAType" where
  "ra_clear ra = replicate (length (take 8 ra)) 0 @ drop 8 ra"

definition init_era :: "CanNm_Build \<Rightarrow> CanNm_ConfigType \<Rightarrow> CanNm_ChannelType \<Rightarrow> nm \<Rightarrow> nm ub" where
  "init_era b cfg ChannelConf = (\<lambda>(ch, g). Some (ch\<lparr>pnERATimers := stop_timers (pnERATimers ch), pnERA := ra_clear (pnERA ch)\<rparr>, g))"

definition CanNm_Init :: "CanNm_Build \<Rightarrow> CanNm_ConfigType ptr \<Rightarrow> CanNm_InternalType \<Rightarrow> (unit \<times> CanNm_InternalType) ub" where
  "CanNm_Init b cannmConfigPtr st =
     CANNM_VALIDATE b (Some (cannmConfigPtr \<noteq> None)) 0x00 0x05 0 () st (do {
       st \<leftarrow> each_channel b (init_channel b) (st\<lparr>CanNm_ConfigPtr := cannmConfigPtr\<rparr>);
       let st = (if eira_calc b
                 then on_glob (\<lambda>g. g\<lparr>pnEIRATimers := stop_timers (pnEIRATimers g), pnEIRA := ra_clear (pnEIRA g)\<rparr>) st else st);
       st \<leftarrow> (if era_calc b then each_channel b (init_era b) st else Some st);
       Some ((), st\<lparr>InitStatus := CANNM_STATUS_INIT\<rparr>) })"

end
