(* ===== verification/CanNm_Correct.thy ===== *)
theory CanNm_Correct
  imports CanNm
begin

text \<open>
  The abstract state machine of network management, and that every operation on a channel takes
  transitions of it, keeps the timers in their range and reports exactly the transitions it takes.
\<close>

section \<open>The abstract machine\<close>

text \<open>
  A state with the request of the network. The transitions carry the notifications of changed states that
  they cause.
\<close>

type_synonym nm_abs = "Nm_StateType \<times> bool"
type_synonym nm_changes = "(Nm_StateType \<times> Nm_StateType) list"

inductive nm_trans :: "nm_abs \<Rightarrow> nm_changes \<Rightarrow> nm_abs \<Rightarrow> bool" where
  wake_up: "s \<in> {NM_STATE_BUS_SLEEP, NM_STATE_PREPARE_BUS_SLEEP} \<Longrightarrow>
    nm_trans (s, False) [(s, NM_STATE_REPEAT_MESSAGE)] (NM_STATE_REPEAT_MESSAGE, r)"
| request_again: "nm_trans (NM_STATE_READY_SLEEP, False) [(NM_STATE_READY_SLEEP, NM_STATE_NORMAL_OPERATION)] (NM_STATE_NORMAL_OPERATION, True)"
| request_while_repeating: "nm_trans (NM_STATE_REPEAT_MESSAGE, r) [] (NM_STATE_REPEAT_MESSAGE, r')"
| release: "nm_trans (NM_STATE_NORMAL_OPERATION, True) [(NM_STATE_NORMAL_OPERATION, NM_STATE_READY_SLEEP)] (NM_STATE_READY_SLEEP, False)"
| repeat_request: "s \<in> {NM_STATE_NORMAL_OPERATION, NM_STATE_READY_SLEEP} \<Longrightarrow>
    nm_trans (s, r) [(s, NM_STATE_REPEAT_MESSAGE)] (NM_STATE_REPEAT_MESSAGE, r)"
| repeat_over: "nm_trans (NM_STATE_REPEAT_MESSAGE, r)
    [(NM_STATE_REPEAT_MESSAGE, if r then NM_STATE_NORMAL_OPERATION else NM_STATE_READY_SLEEP)]
    (if r then NM_STATE_NORMAL_OPERATION else NM_STATE_READY_SLEEP, r)"
| network_silent: "nm_trans (NM_STATE_READY_SLEEP, False) [(NM_STATE_READY_SLEEP, NM_STATE_PREPARE_BUS_SLEEP)]
    (NM_STATE_PREPARE_BUS_SLEEP, False)"
| fall_asleep: "nm_trans (NM_STATE_PREPARE_BUS_SLEEP, False) [(NM_STATE_PREPARE_BUS_SLEEP, NM_STATE_BUS_SLEEP)]
    (NM_STATE_BUS_SLEEP, False)"

inductive nm_run :: "nm_abs \<Rightarrow> nm_changes \<Rightarrow> nm_abs \<Rightarrow> bool" where
  run_refl: "nm_run a [] a"
| run_step: "nm_trans a p a' \<Longrightarrow> nm_run a' q a'' \<Longrightarrow> nm_run a (p @ q) a''"

inductive_cases nm_transE: "nm_trans a p a'"

lemma run_one: "nm_trans a p a' \<Longrightarrow> nm_run a p a'"
  using run_step [OF _ run_refl, of a p a'] by simp

lemma run_trans: "nm_run a p a' \<Longrightarrow> nm_run a' q a'' \<Longrightarrow> nm_run a (p @ q) a''"
  by (induction rule: nm_run.induct) (auto intro: run_step)

text \<open>In normal operation the network is requested, and in the states that lead to sleep it is not.\<close>

fun good :: "nm_abs \<Rightarrow> bool" where
  "good (s, r) \<longleftrightarrow> s \<notin> {NM_STATE_UNINIT, NM_STATE_SYNCHRONIZE} \<and> (s = NM_STATE_NORMAL_OPERATION \<longrightarrow> r) \<and>
     (r \<longrightarrow> s \<in> {NM_STATE_REPEAT_MESSAGE, NM_STATE_NORMAL_OPERATION})"

lemma trans_good: "nm_trans a p a' \<Longrightarrow> good a \<Longrightarrow> good a'"
  by (erule nm_transE) (auto split: if_splits)

lemma run_good: "nm_run a p a' \<Longrightarrow> good a \<Longrightarrow> good a'"
  by (induction rule: nm_run.induct) (auto dest: trans_good)

fun mode_of :: "Nm_StateType \<Rightarrow> Nm_ModeType" where
  "mode_of NM_STATE_BUS_SLEEP = NM_MODE_BUS_SLEEP"
| "mode_of NM_STATE_PREPARE_BUS_SLEEP = NM_MODE_PREPARE_BUS_SLEEP"
| "mode_of _ = NM_MODE_NETWORK"

lemma mode_of_network: "good (s, r) \<Longrightarrow> mode_of s = NM_MODE_NETWORK \<longleftrightarrow>
    s \<in> {NM_STATE_REPEAT_MESSAGE, NM_STATE_NORMAL_OPERATION, NM_STATE_READY_SLEEP}"
  by (cases s) auto

section \<open>Well-formed channels\<close>

text \<open>The notifications for a network among the calls.\<close>

fun changes :: "uint8 \<Rightarrow> CanNm_Call list \<Rightarrow> nm_changes" where
  "changes h [] = []"
| "changes h (c # cs) =
     (case c of Nm_StateChangeNotification h' old new \<Rightarrow> if h' = h then [(old, new)] else [] | _ \<Rightarrow> []) @ changes h cs"

lemma changes_append [simp]: "changes h (cs @ ds) = changes h cs @ changes h ds"
  by (induction cs) simp_all

definition conf_ok :: "CanNm_ChannelType \<Rightarrow> bool" where
  "conf_ok conf \<longleftrightarrow> unat (PduLength conf) \<le> 8 \<and> unat (CanNm_Internal_GetUserDataOffset conf) \<le> unat (PduLength conf) \<and>
     (CbvPosition conf \<noteq> CANNM_PDU_OFF \<longrightarrow> pdu_pos (CbvPosition conf) < 8) \<and>
     unat (TimeoutTime conf) + unat (MainFunctionPeriod conf) < 2 ^ 32 \<and>
     unat (RepeatMessageTime conf) + unat (MainFunctionPeriod conf) < 2 ^ 32"

definition pn_ok :: "CanNm_Build \<Rightarrow> CanNm_ConfigType \<Rightarrow> bool" where
  "pn_ok b cfg \<longleftrightarrow> (0 < CANNM_PNC_COUNT b \<longrightarrow>
     (case CanNmPnInfo cfg of
        None \<Rightarrow> False
      | Some pn \<Rightarrow>
          CANNM_PNC_INFO_LEN b \<le> 8 \<and> unat (CanNmPnInfoLen pn) \<le> CANNM_PNC_INFO_LEN b \<and>
          unat (CanNmPnInfoOffset pn) + CANNM_PNC_INFO_LEN b \<le> 8 \<and>
          CANNM_PNC_INFO_LEN b \<le> length (CanNmPnInfoMask pn) \<and>
          8 * CANNM_PNC_INFO_LEN b \<le> length (CanNmPnIndexToTimerMap pn) \<and>
          (\<forall>k < 8 * CANNM_PNC_INFO_LEN b. bit (CanNmPnInfoMask pn ! (k div 8)) (k mod 8) \<longrightarrow>
             unat (CanNmPnIndexToTimerMap pn ! k) < CANNM_PNC_COUNT b) \<and>
          CANNM_PNC_COUNT b \<le> length (CanNmTimerIndexToPnMap pn) \<and>
          (\<forall>k < CANNM_PNC_COUNT b. unat (CanNmTimerIndexToPnMap pn ! k) div 8 < CANNM_PNC_INFO_LEN b)))"

definition data_ok :: "CanNm_Build \<Rightarrow> CanNm_Internal_ChannelType \<Rightarrow> bool" where
  "data_ok b ch \<longleftrightarrow> length (TxMessageSdu ch) = 8 \<and> length (RxMessageSdu ch) = 8 \<and> length (SpontaneousTxMessageSdu ch) = 8 \<and>
     length (pnERATimers ch) = CANNM_PNC_COUNT b \<and> length (pnERA ch) = CANNM_PNC_INFO_LEN b"

definition time_ok :: "CanNm_ChannelType \<Rightarrow> CanNm_Internal_ChannelType \<Rightarrow> bool" where
  "time_ok conf ch \<longleftrightarrow>
     (Mode ch = NM_MODE_NETWORK \<longrightarrow> unat (TimeoutTimeLeft ch) \<le> unat (TimeoutTime conf) + unat (MainFunctionPeriod conf)) \<and>
     (State ch = NM_STATE_REPEAT_MESSAGE \<longrightarrow>
        unat (RepeatMessageTimeLeft ch) \<le> unat (RepeatMessageTime conf) + unat (MainFunctionPeriod conf)) \<and>
     (State ch = NM_STATE_PREPARE_BUS_SLEEP \<longrightarrow> unat (WaitBusSleepTimeLeft ch) \<le> unat (WaitBusSleepTime conf))"

definition chan_ok :: "CanNm_Build \<Rightarrow> CanNm_ChannelType \<Rightarrow> CanNm_Internal_ChannelType \<Rightarrow> bool" where
  "chan_ok b conf ch \<longleftrightarrow> data_ok b ch \<and> time_ok conf ch \<and> good (State ch, Requested ch) \<and> Mode ch = mode_of (State ch)"

definition glob_ok :: "CanNm_Build \<Rightarrow> CanNm_Glob \<Rightarrow> bool" where
  "glob_ok b g \<longleftrightarrow> irq_balanced (nm_os g) \<and> length (pnEIRATimers g) = CANNM_PNC_COUNT b \<and> length (pnEIRA g) = CANNM_PNC_INFO_LEN b"

text \<open>What the transitions work on, and what only concerns messages.\<close>

definition core :: "CanNm_Internal_ChannelType \<Rightarrow> Nm_ModeType \<times> Nm_StateType \<times> bool \<times> uint32 \<times> uint32 \<times> uint32 \<times> bool" where
  "core ch = (Mode ch, State ch, Requested ch, TimeoutTimeLeft ch, RepeatMessageTimeLeft ch, WaitBusSleepTimeLeft ch,
     CommunicationEnabled ch)"

section \<open>Steps of a channel\<close>

text \<open>Shared data: no notification for another network, and only those of the transitions for this one.\<close>

definition glob_step :: "CanNm_Build \<Rightarrow> uint8 \<Rightarrow> nm_changes \<Rightarrow> CanNm_Glob \<Rightarrow> CanNm_Glob \<Rightarrow> bool" where
  "glob_step b h p g g' \<longleftrightarrow> (glob_ok b g \<longrightarrow> glob_ok b g' \<and> nm_os g' = nm_os g) \<and>
     (\<exists>cs. nm_calls g' = nm_calls g @ cs \<and>
        (\<forall>h'. changes h' cs = (if h' = h \<and> CANNM_STATE_CHANGE_IND_ENABLED b then p else [])))"

text \<open>
  A step of a channel: \<open>rq\<close> tells whether the request may be withdrawn, and \<open>n\<close> how often the main function
  has run. Until the timeout time has passed the network mode is kept.
\<close>

definition chan_step :: "CanNm_Build \<Rightarrow> CanNm_ChannelType \<Rightarrow> bool \<Rightarrow> nat \<Rightarrow> nm \<Rightarrow> nm \<Rightarrow> bool" where
  "chan_step b conf rq n = (\<lambda>(ch, g) (ch', g').
     chan_ok b conf ch' \<and>
     (\<exists>p. nm_run (State ch, Requested ch) p (State ch', Requested ch') \<and> glob_step b (NmNetworkHandle conf) p g g') \<and>
     (Requested ch \<and> \<not> rq \<longrightarrow> Requested ch') \<and>
     (Mode ch = NM_MODE_NETWORK \<and> n * unat (MainFunctionPeriod conf) < unat (TimeoutTimeLeft ch) \<longrightarrow>
        Mode ch' = NM_MODE_NETWORK \<and>
        unat (TimeoutTimeLeft ch) \<le> unat (TimeoutTimeLeft ch') + n * unat (MainFunctionPeriod conf)))"

lemma glob_step_refl [simp]: "glob_step b h [] g g"
  by (auto simp: glob_step_def intro!: exI [of _ "[]"])

lemma glob_step_trans: "glob_step b h p g g' \<Longrightarrow> glob_step b h q g' g'' \<Longrightarrow> glob_step b h (p @ q) g g''"
  unfolding glob_step_def
  by (elim conjE exE, intro conjI, simp, rule_tac x = "cs @ csa" in exI, auto)

lemma chan_step_trans:
  assumes "chan_step b conf rq n x y" "chan_step b conf rq' m y z"
  shows "chan_step b conf (rq \<or> rq') (n + m) x z"
proof -
  obtain ch g where x: "x = (ch, g)" by (cases x)
  obtain ch' g' where y: "y = (ch', g')" by (cases y)
  obtain ch'' g'' where z: "z = (ch'', g'')" by (cases z)
  obtain p where p: "nm_run (State ch, Requested ch) p (State ch', Requested ch')" "glob_step b (NmNetworkHandle conf) p g g'"
    using assms(1) by (auto simp: x y chan_step_def)
  obtain q where q: "nm_run (State ch', Requested ch') q (State ch'', Requested ch'')" "glob_step b (NmNetworkHandle conf) q g' g''"
    using assms(2) by (auto simp: y z chan_step_def)
  show ?thesis
    using assms run_trans [OF p(1) q(1)] glob_step_trans [OF p(2) q(2)] by (auto simp: x y z chan_step_def algebra_simps)
qed

text \<open>A step that changes only messages.\<close>

lemma chan_step_core:
  assumes "chan_ok b conf ch" "core ch' = core ch" "data_ok b ch'" "glob_step b (NmNetworkHandle conf) [] g g'"
  shows "chan_step b conf rq n (ch, g) (ch', g')"
  using assms run_refl by (auto simp: chan_step_def chan_ok_def core_def time_ok_def)

lemma chan_step_refl: "chan_ok b conf ch \<Longrightarrow> chan_step b conf rq n (ch, g) (ch, g)"
  by (rule chan_step_core) (simp_all add: chan_ok_def)

lemma chan_step_ok: "chan_step b conf rq n (ch, g) (ch', g') \<Longrightarrow> chan_ok b conf ch'"
  by (simp add: chan_step_def)

section \<open>Messages\<close>

lemma put_at_Some [ub_simps]: "i + length bs \<le> length mem \<Longrightarrow> put_at mem i bs = Some (take i mem @ bs @ drop (i + length bs) mem)"
  by (simp add: put_at_def)

lemma first_bytes_Some [ub_simps]: "n \<le> length mem \<Longrightarrow> first_bytes n mem = Some (take n mem)"
  by (simp add: first_bytes_def)

lemma put_at_returns: "i + length bs \<le> length mem \<Longrightarrow> returns (put_at mem i bs) (\<lambda>mem'. length mem' = length mem)"
  by (simp add: ub_simps)

lemma user_data_length:
  assumes "conf_ok conf"
  shows "unat (CanNm_Internal_GetUserDataOffset conf) + unat (CanNm_Internal_GetUserDataLength conf) = unat (PduLength conf)"
    "unat (PduLength conf) \<le> 8"
  using assms by (simp_all add: conf_ok_def CanNm_Internal_GetUserDataLength_def unat_sub word_le_nat_alt)

lemma put_user_data_returns:
  assumes "conf_ok conf" "length mem = 8" "length bs = unat (CanNm_Internal_GetUserDataLength conf)"
  shows "returns (put_user_data conf mem bs) (\<lambda>mem'. length mem' = 8)"
  using user_data_length [OF assms(1)] assms(2,3) put_at_returns [of "unat (CanNm_Internal_GetUserDataOffset conf)" bs mem]
  by (simp add: put_user_data_def)

lemma get_user_data_returns:
  assumes "conf_ok conf" "length mem = 8"
  shows "returns (CanNm_Internal_GetUserData conf mem) (\<lambda>bs. length bs = unat (CanNm_Internal_GetUserDataLength conf))"
  using user_data_length [OF assms(1)] assms(2) by (simp add: CanNm_Internal_GetUserData_def ub_simps)

text \<open>A change of the channel that leaves the timers and the sizes of the messages.\<close>

definition same_core :: "CanNm_Build \<Rightarrow> CanNm_Internal_ChannelType \<Rightarrow> CanNm_Internal_ChannelType \<Rightarrow> bool" where
  "same_core b ch ch' \<longleftrightarrow> core ch' = core ch \<and> (data_ok b ch \<longrightarrow> data_ok b ch')"

lemma same_core_refl [simp]: "same_core b ch ch"
  by (simp add: same_core_def)

lemma same_core_trans: "same_core b ch ch' \<Longrightarrow> same_core b ch' ch'' \<Longrightarrow> same_core b ch ch''"
  by (simp add: same_core_def)

lemma upd_cbv_returns:
  assumes "data_ok b ch" "conf_ok conf" "CbvPosition conf \<noteq> CANNM_PDU_OFF"
  shows "returns (upd_cbv b conf f ch) (same_core b ch)"
  using assms by (simp add: upd_cbv_def conf_ok_def data_ok_def ub_simps same_core_def core_def Let_def)

lemma ClearRptMsgRqstCbv_returns: "data_ok b ch \<Longrightarrow> conf_ok conf \<Longrightarrow>
    returns (CanNm_Internal_ClearRptMsgRqstCbv b conf ch) (same_core b ch)"
  by (simp add: CanNm_Internal_ClearRptMsgRqstCbv_def upd_cbv_returns)

lemma SetPNICbv_returns: "data_ok b ch \<Longrightarrow> conf_ok conf \<Longrightarrow> returns (CanNm_Internal_SetPNICbv b conf ch) (same_core b ch)"
  by (simp add: CanNm_Internal_SetPNICbv_def upd_cbv_returns)

section \<open>Shared data\<close>

text \<open>Calls that are no notifications, and exclusive areas.\<close>

abbreviation glob_quiet :: "CanNm_Build \<Rightarrow> CanNm_Glob \<Rightarrow> CanNm_Glob \<Rightarrow> bool" where
  "glob_quiet b g g' \<equiv> \<forall>h. glob_step b h [] g g'"

lemma nm_call_quiet: "(\<And>h. changes h [c] = []) \<Longrightarrow> glob_quiet b g (nm_call c g)"
  by (auto simp: glob_step_def nm_call_def glob_ok_def)

lemma det_quiet: "glob_quiet b g (CANNM_DET_REPORTERROR b s e i g)"
  by (simp add: CANNM_DET_REPORTERROR_def nm_call_quiet)

lemma glob_quiet_trans: "glob_quiet b g g' \<Longrightarrow> glob_quiet b g' g'' \<Longrightarrow> glob_quiet b g g''"
  using glob_step_trans [of b _ "[]" g g' "[]" g''] by simp

lemma enter_exit: "glob_ok b g \<Longrightarrow> SchM_Exit_CanNm_EA_0 (SchM_Enter_CanNm_EA_0 g) = g"
  by (simp add: glob_ok_def SchM_Exit_CanNm_EA_0_def SchM_Enter_CanNm_EA_0_def)

text \<open>What happens inside an exclusive area does not look at the interrupt state.\<close>

definition in_area :: "CanNm_Build \<Rightarrow> nm_changes \<Rightarrow> uint8 \<Rightarrow> CanNm_Glob \<Rightarrow> CanNm_Glob \<Rightarrow> bool" where
  "in_area b p h g g' \<longleftrightarrow> nm_os g' = nm_os g \<and> length (pnEIRATimers g') = length (pnEIRATimers g) \<and>
     length (pnEIRA g') = length (pnEIRA g) \<and>
     (\<exists>cs. nm_calls g' = nm_calls g @ cs \<and>
        (\<forall>h'. changes h' cs = (if h' = h \<and> CANNM_STATE_CHANGE_IND_ENABLED b then p else [])))"

lemma in_area_exit:
  assumes "in_area b p h (SchM_Enter_CanNm_EA_0 g) g'"
  shows "glob_step b h p g (SchM_Exit_CanNm_EA_0 g')"
  using assms by (auto simp: in_area_def glob_step_def glob_ok_def SchM_Exit_CanNm_EA_0_def SchM_Enter_CanNm_EA_0_def)

lemma in_area_step: "in_area b p h g g' \<Longrightarrow> glob_step b h p g g'"
  by (auto simp: in_area_def glob_step_def glob_ok_def)

lemma state_change_area: "in_area b [(old, new)] (NmNetworkHandle conf) g (state_change b conf old new g)"
  by (simp add: in_area_def state_change_def nm_call_def)

lemma state_change_call_area: "(\<And>h. changes h [c] = []) \<Longrightarrow>
    in_area b [(old, new)] (NmNetworkHandle conf) g (state_change b conf old new (nm_call c g))"
  by (auto simp: in_area_def state_change_def nm_call_def)

lemmas state_change_step = in_area_step [OF state_change_area]
lemmas state_change_call_step = in_area_step [OF state_change_call_area]

section \<open>Transitions of a channel\<close>

lemma unat_time: "conf_ok conf \<Longrightarrow> unat (TimeoutTime conf + MainFunctionPeriod conf) = unat (TimeoutTime conf) + unat (MainFunctionPeriod conf)"
  "conf_ok conf \<Longrightarrow> unat (RepeatMessageTime conf + MainFunctionPeriod conf) = unat (RepeatMessageTime conf) + unat (MainFunctionPeriod conf)"
  by (auto simp: conf_ok_def unat_word_ariths)

lemmas chan_ok_defs = chan_ok_def data_ok_def time_ok_def

lemma step_start_network:
  assumes "conf_ok conf" "chan_ok b conf ch" "State ch \<in> {NM_STATE_BUS_SLEEP, NM_STATE_PREPARE_BUS_SLEEP}"
    and "glob_step b (NmNetworkHandle conf) [(State ch, NM_STATE_REPEAT_MESSAGE)] g g'"
  shows "chan_step b conf False 0 (ch, g) (start_network conf isNwReq (ch\<lparr>Requested := r\<rparr>), g')"
proof -
  let ?ch = "start_network conf isNwReq (ch\<lparr>Requested := r\<rparr>)"
  have s: "State ?ch = NM_STATE_REPEAT_MESSAGE" "Requested ?ch = r" "Mode ?ch = NM_MODE_NETWORK"
    by (simp_all add: start_network_def Let_def)
  have off: "\<not> Requested ch" "Mode ch \<noteq> NM_MODE_NETWORK" using assms(2,3) by (auto simp: chan_ok_def)
  have "nm_run (State ch, Requested ch) [(State ch, NM_STATE_REPEAT_MESSAGE)] (State ?ch, Requested ?ch)"
    unfolding s using off(1) assms(3) by (auto intro!: run_one wake_up)
  moreover have "chan_ok b conf ?ch"
    using assms(2) unat_time [OF assms(1)] s by (auto simp: chan_ok_defs start_network_def Let_def)
  ultimately show ?thesis using assms(4) off by (auto simp: chan_step_def)
qed

lemma requested_id [simp]: "ch\<lparr>Requested := Requested ch\<rparr> = ch"
  by simp

lemma step_wake_up:
  assumes "conf_ok conf" "chan_ok b conf ch"
  shows "State ch = NM_STATE_BUS_SLEEP \<Longrightarrow>
      chan_step b conf False 0 (ch, g) (CanNm_Internal_BusSleep_to_RepeatMessage b conf isNwReq (ch\<lparr>Requested := r\<rparr>, g))"
    "State ch = NM_STATE_PREPARE_BUS_SLEEP \<Longrightarrow>
      chan_step b conf False 0 (ch, g) (CanNm_Internal_PrepareBusSleep_to_RepeatMessage b conf isNwReq (ch\<lparr>Requested := r\<rparr>, g))"
  unfolding CanNm_Internal_BusSleep_to_RepeatMessage_def CanNm_Internal_PrepareBusSleep_to_RepeatMessage_def prod.case
  by (rule step_start_network [OF assms]; simp add: state_change_call_step)+

lemma step_repeat_again:
  assumes "conf_ok conf" "chan_ok b conf ch" "State ch \<in> {NM_STATE_NORMAL_OPERATION, NM_STATE_READY_SLEEP}"
  shows "chan_step b conf False 0 (ch, g) (repeat_again conf ch, state_change b conf (State ch) NM_STATE_REPEAT_MESSAGE g)"
proof -
  let ?ch = "repeat_again conf ch"
  have s: "State ?ch = NM_STATE_REPEAT_MESSAGE" "Requested ?ch = Requested ch" by (simp_all add: repeat_again_def)
  have "nm_run (State ch, Requested ch) [(State ch, NM_STATE_REPEAT_MESSAGE)] (State ?ch, Requested ?ch)"
    unfolding s using assms(3) by (auto intro!: run_one repeat_request)
  moreover have "chan_ok b conf ?ch"
    using assms(2,3) unat_time [OF assms(1)] by (auto simp: chan_ok_defs repeat_again_def)
  ultimately show ?thesis
    using state_change_step s by (auto simp: chan_step_def repeat_again_def)
qed

lemma step_repeat:
  assumes "conf_ok conf" "chan_ok b conf ch"
  shows "State ch = NM_STATE_NORMAL_OPERATION \<Longrightarrow> chan_step b conf False 0 (ch, g) (CanNm_Internal_NormalOperation_to_RepeatMessage b conf (ch, g))"
    "State ch = NM_STATE_READY_SLEEP \<Longrightarrow> chan_step b conf False 0 (ch, g) (CanNm_Internal_ReadySleep_to_RepeatMessage b conf (ch, g))"
  using step_repeat_again [OF assms, of g]
  by (simp_all add: CanNm_Internal_NormalOperation_to_RepeatMessage_def CanNm_Internal_ReadySleep_to_RepeatMessage_def)

lemma step_request_again:
  assumes "chan_ok b conf ch" "State ch = NM_STATE_READY_SLEEP"
  shows "chan_step b conf False 0 (ch, g) (CanNm_Internal_ReadySleep_to_NormalOperation b conf (ch\<lparr>Requested := True\<rparr>, g))"
  using assms state_change_step [of b conf NM_STATE_READY_SLEEP NM_STATE_NORMAL_OPERATION g]
  by (auto simp: CanNm_Internal_ReadySleep_to_NormalOperation_def chan_step_def chan_ok_defs intro!: exI run_one request_again)

lemma step_release:
  assumes "chan_ok b conf ch" "State ch = NM_STATE_NORMAL_OPERATION"
  shows "chan_step b conf True 0 (ch, g) (CanNm_Internal_NormalOperation_to_ReadySleep b conf (ch\<lparr>Requested := False\<rparr>, g))"
proof -
  have "Requested ch" using assms by (simp add: chan_ok_def)
  then show ?thesis
    using assms state_change_step [of b conf NM_STATE_NORMAL_OPERATION NM_STATE_READY_SLEEP g]
    by (auto simp: CanNm_Internal_NormalOperation_to_ReadySleep_def chan_step_def chan_ok_defs intro!: exI run_one release)
qed

lemma step_request_repeating:
  assumes "chan_ok b conf ch" "State ch = NM_STATE_REPEAT_MESSAGE"
  shows "chan_step b conf (\<not> r) 0 (ch, g) (ch\<lparr>Requested := r\<rparr>, g)"
proof -
  have "nm_run (State ch, Requested ch) [] (State ch, r)" unfolding assms(2) by (rule run_one [OF request_while_repeating])
  then show ?thesis using assms by (auto simp: chan_step_def chan_ok_defs)
qed

text \<open>Data changes behind a step.\<close>

lemma chan_step_same_core:
  assumes "chan_step b conf rq n x (ch, g)" "same_core b ch ch'" "glob_quiet b g g'"
  shows "chan_step b conf rq n x (ch', g')"
proof -
  have ok: "chan_ok b conf ch" using assms(1) by (cases x) (simp add: chan_step_def)
  then have "chan_step b conf False 0 (ch, g) (ch', g')"
    using assms(2,3) by (intro chan_step_core) (simp_all add: same_core_def chan_ok_def)
  from chan_step_trans [OF assms(1) this] show ?thesis by simp
qed

lemma set_pni_step:
  assumes "conf_ok conf" "chan_step b conf rq n x y"
  shows "returns (set_pni b conf y) (chan_step b conf rq n x)"
proof -
  obtain ch g where y: "y = (ch, g)" by (cases y)
  have "data_ok b ch" using assms(2) by (cases x) (simp add: y chan_step_def chan_ok_def)
  from SetPNICbv_returns [OF this assms(1)] show ?thesis
    using assms(2) chan_step_same_core [of b conf rq n x ch g] unfolding y by (auto simp: set_pni_def returns_def)
qed

lemma chan_state:
  assumes "chan_ok b conf ch"
  shows "Mode ch = NM_MODE_BUS_SLEEP \<longleftrightarrow> State ch = NM_STATE_BUS_SLEEP"
    "Mode ch = NM_MODE_PREPARE_BUS_SLEEP \<longleftrightarrow> State ch = NM_STATE_PREPARE_BUS_SLEEP"
    "Mode ch = NM_MODE_NETWORK \<longleftrightarrow> State ch \<in> {NM_STATE_REPEAT_MESSAGE, NM_STATE_NORMAL_OPERATION, NM_STATE_READY_SLEEP}"
    "Mode ch \<noteq> NM_MODE_SYNCHRONIZE"
  using assms by (cases "State ch"; auto simp: chan_ok_def)+

section \<open>Services\<close>

text \<open>A service on a channel that returns with a step.\<close>

abbreviation serves :: "CanNm_Build \<Rightarrow> CanNm_ChannelType \<Rightarrow> bool \<Rightarrow> nm \<Rightarrow> ('a \<times> nm) ub \<Rightarrow> bool" where
  "serves b conf rq x m \<equiv> returns m (\<lambda>y. chan_step b conf rq 0 x (snd y))"

lemma serves_passive_start_up:
  assumes "conf_ok conf" "chan_ok b conf ch"
  shows "serves b conf False (ch, g) (passive_start_up b cfg conf (ch, g))"
proof (cases "Mode ch = NM_MODE_BUS_SLEEP")
  case True
  then have "chan_step b conf False 0 (ch, g) (CanNm_Internal_BusSleep_to_RepeatMessage b conf False (ch, g))"
    using step_wake_up(1) [OF assms, of g False "Requested ch"] chan_state(1) [OF assms(2)] by simp
  from set_pni_step [OF assms(1) this] show ?thesis using True by (auto simp: passive_start_up_def returns_def)
next
  case False
  from set_pni_step [OF assms(1) chan_step_refl [OF assms(2), of False 0 g]] show ?thesis using False
    by (auto simp: passive_start_up_def returns_def)
qed

lemma serves_network_request:
  assumes "conf_ok conf" "chan_ok b conf ch"
  shows "serves b conf False (ch, g) (network_request b cfg conf (ch, g))"
proof -
  note st = chan_state [OF assms(2)] and w = step_wake_up [OF assms, of g True True]
  have req: "chan_step b conf False 0 (ch, g) (ch\<lparr>Requested := True\<rparr>, g)" if "State ch = NM_STATE_NORMAL_OPERATION"
  proof -
    have "Requested ch" using that assms(2) by (simp add: chan_ok_def)
    then show ?thesis using chan_step_refl [OF assms(2)] by (metis requested_id)
  qed
  let ?x = "if Mode ch = NM_MODE_BUS_SLEEP then CanNm_Internal_BusSleep_to_RepeatMessage b conf True (ch\<lparr>Requested := True\<rparr>, g)
    else if Mode ch = NM_MODE_PREPARE_BUS_SLEEP then CanNm_Internal_PrepareBusSleep_to_RepeatMessage b conf True (ch\<lparr>Requested := True\<rparr>, g)
    else if Mode ch = NM_MODE_NETWORK \<and> State ch = NM_STATE_READY_SLEEP
    then CanNm_Internal_ReadySleep_to_NormalOperation b conf (ch\<lparr>Requested := True\<rparr>, g) else (ch\<lparr>Requested := True\<rparr>, g)"
  have "chan_step b conf False 0 (ch, g) ?x"
    using st w req step_request_again [OF assms(2), of g] step_request_repeating [OF assms(2), of True g]
    by (cases "Mode ch") auto
  from set_pni_step [OF assms(1) this] show ?thesis by (auto simp: network_request_def returns_def Let_def)
qed

lemma serves_network_release:
  assumes "chan_ok b conf ch"
  shows "serves b conf True (ch, g) (network_release b cfg conf (ch, g))"
proof -
  have sleep: "ch\<lparr>Requested := False\<rparr> = ch" if "State ch \<notin> {NM_STATE_REPEAT_MESSAGE, NM_STATE_NORMAL_OPERATION}"
    using that assms by (cases ch) (auto simp: chan_ok_def)
  have "chan_step b conf True 0 (ch, g) (if Mode ch = NM_MODE_NETWORK \<and> State ch = NM_STATE_NORMAL_OPERATION
      then CanNm_Internal_NormalOperation_to_ReadySleep b conf (ch\<lparr>Requested := False\<rparr>, g) else (ch\<lparr>Requested := False\<rparr>, g))"
    using chan_state(3) [OF assms] step_release [OF assms, of g] step_request_repeating [OF assms, of False g]
      chan_step_refl [OF assms, of True 0 g] sleep
    by (cases "State ch = NM_STATE_NORMAL_OPERATION"; cases "State ch = NM_STATE_REPEAT_MESSAGE") simp_all
  then show ?thesis using chan_step_refl [OF assms] by (simp add: network_release_def Let_def)
qed

lemma serves_disable_communication:
  assumes "chan_ok b conf ch"
  shows "serves b conf False (ch, g) (disable_communication cfg conf (ch, g))"
proof -
  have "chan_step b conf False 0 (ch, g) (ch\<lparr>CommunicationEnabled := False\<rparr>, g)"
    using assms run_refl by (auto simp: chan_step_def chan_ok_defs intro!: exI)
  then show ?thesis using chan_step_refl [OF assms] by (simp add: disable_communication_def)
qed

lemma serves_enable_communication:
  assumes "conf_ok conf" "chan_ok b conf ch"
  shows "serves b conf False (ch, g) (enable_communication cfg conf (ch, g))"
proof -
  have "chan_step b conf False 0 (ch, g) (ch\<lparr>MessageCycleTimeLeft := MessageCycleOffsetTime conf + MainFunctionPeriod conf,
         TimeoutTimeLeft := TimeoutTime conf + MainFunctionPeriod conf, CommunicationEnabled := True\<rparr>, g)"
    if "Mode ch = NM_MODE_NETWORK"
    using assms(2) that unat_time [OF assms(1)] run_refl by (auto simp: chan_step_def chan_ok_defs intro!: exI)
  then show ?thesis using chan_step_refl [OF assms(2)] by (simp add: enable_communication_def)
qed

lemma serves_user_data_set:
  assumes "conf_ok conf" "chan_ok b conf ch" "glob_ok b g" "src = Some bs" "unat (PduLength conf) \<le> length bs"
  shows "serves b conf False (ch, g) (user_data_set src cfg conf (ch, g))"
proof -
  let ?n = "unat (CanNm_Internal_GetUserDataLength conf)"
  have n: "?n \<le> length bs" using user_data_length [OF assms(1)] assms(5) by simp
  have d: "data_ok b ch" using assms(2) by (simp add: chan_ok_def)
  then obtain sdu where sdu: "put_user_data conf (TxMessageSdu ch) (take ?n bs) = Some sdu" "length sdu = 8"
    using put_user_data_returns [OF assms(1), of "TxMessageSdu ch" "take ?n bs"] n by (auto simp: data_ok_def returns_def)
  have "same_core b ch (ch\<lparr>TxMessageSdu := sdu, IsUserDataSet := False\<rparr>)"
    using sdu(2) by (simp add: same_core_def core_def data_ok_def)
  then show ?thesis
    using sdu(1) n enter_exit [OF assms(3)] chan_step_refl [OF assms(2)] chan_step_same_core [OF chan_step_refl [OF assms(2)]]
    by (simp add: user_data_set_def assms(4) deref_def ub_simps Let_def)
qed

lemma serves_repeat_message_request:
  assumes "conf_ok conf" "chan_ok b conf ch"
  shows "serves b conf False (ch, g) (repeat_message_request b cfg conf (ch, g))"
proof (cases "CbvPosition conf \<noteq> CANNM_PDU_OFF \<and> State ch \<in> {NM_STATE_READY_SLEEP, NM_STATE_NORMAL_OPERATION}")
  case True
  have "data_ok b ch" using assms(2) by (simp add: chan_ok_def)
  then obtain ch' where ch': "upd_cbv b conf (\<lambda>v. v OR 0x01) ch = Some ch'" "same_core b ch ch'"
    using upd_cbv_returns [of b ch conf] assms(1) True unfolding returns_def by blast
  have s: "chan_step b conf False 0 (ch, g) (ch', g)"
    using chan_step_same_core [OF chan_step_refl [OF assms(2)] ch'(2)] by simp
  have st: "State ch' = State ch" using ch'(2) by (simp add: same_core_def core_def)
  show ?thesis
    using True ch'(1) st step_repeat [OF assms(1) chan_step_ok [OF s], of g] chan_step_trans [OF s]
    by (auto simp: repeat_message_request_def)
qed (use chan_step_refl [OF assms(2)] in \<open>auto simp: repeat_message_request_def\<close>)

lemma serves_tx_confirmation:
  assumes "conf_ok conf" "chan_ok b conf ch"
  shows "returns (tx_confirmation b cfg conf (ch, g)) (chan_step b conf False 0 (ch, g))"
proof -
  have "chan_step b conf False 0 (ch, g) (ch\<lparr>TimeoutTimeLeft := TimeoutTime conf + MainFunctionPeriod conf, MessageTimeoutTimeLeft := 0\<rparr>, g)"
    if "Mode ch = NM_MODE_NETWORK"
    using assms(2) that unat_time [OF assms(1)] run_refl by (auto simp: chan_step_def chan_ok_defs intro!: exI)
  moreover have "chan_step b conf False 0 (ch, g) (ch\<lparr>TransmissionStatus := 0, MessageTimeoutTimeLeft := 0\<rparr>,
      nm_call (PduR_CanNmTxConfirmation (CanNmUserDataTxPduId conf)) g)"
    by (rule chan_step_same_core [OF chan_step_refl [OF assms(2)]])
      (simp_all add: same_core_def core_def data_ok_def nm_call_quiet)
  moreover have "chan_step b conf False 0 (ch, g) (ch\<lparr>MessageTimeoutTimeLeft := 0\<rparr>, g)"
    by (rule chan_step_same_core [OF chan_step_refl [OF assms(2)]]) (simp_all add: same_core_def core_def data_ok_def)
  ultimately show ?thesis
    by (auto simp: tx_confirmation_def CanNm_Internal_NetworkMode_to_NetworkMode_def Let_def)
qed

section \<open>Partial networks\<close>

lemma ra_or_length: "length old = n \<Longrightarrow> length ra = n \<Longrightarrow> length (ra_or old ra) = n"
  by (simp add: ra_or_def)

lemma pn_info: "pn_ok b cfg \<Longrightarrow> 0 < CANNM_PNC_COUNT b \<Longrightarrow> \<exists>pn. CanNmPnInfo cfg = Some pn"
  by (auto simp: pn_ok_def split: option.splits)

lemma pn_okD:
  assumes "pn_ok b cfg" "0 < CANNM_PNC_COUNT b" "CanNmPnInfo cfg = Some pn"
  shows "CANNM_PNC_INFO_LEN b \<le> 8" "unat (CanNmPnInfoLen pn) \<le> CANNM_PNC_INFO_LEN b"
    "unat (CanNmPnInfoOffset pn) + CANNM_PNC_INFO_LEN b \<le> 8" "CANNM_PNC_INFO_LEN b \<le> length (CanNmPnInfoMask pn)"
    "8 * CANNM_PNC_INFO_LEN b \<le> length (CanNmPnIndexToTimerMap pn)"
    "\<And>k. k < 8 * CANNM_PNC_INFO_LEN b \<Longrightarrow> bit (CanNmPnInfoMask pn ! (k div 8)) (k mod 8) \<Longrightarrow>
       unat (CanNmPnIndexToTimerMap pn ! k) < CANNM_PNC_COUNT b"
    "CANNM_PNC_COUNT b \<le> length (CanNmTimerIndexToPnMap pn)"
    "\<And>k. k < CANNM_PNC_COUNT b \<Longrightarrow> unat (CanNmTimerIndexToPnMap pn ! k) div 8 < CANNM_PNC_INFO_LEN b"
  using assms by (auto simp: pn_ok_def)

text \<open>Requests that pass the mask.\<close>

definition masked :: "CanNm_Build \<Rightarrow> CanNm_PnInfoType \<Rightarrow> CanNm_Internal_RAType \<Rightarrow> bool" where
  "masked b pn ra \<longleftrightarrow> length ra = CANNM_PNC_INFO_LEN b \<and>
     (\<forall>i < CANNM_PNC_INFO_LEN b. \<forall>j. bit (ra ! i) j \<longrightarrow> bit (CanNmPnInfoMask pn ! i) j)"

lemma pn_requests_returns:
  assumes "CANNM_PNC_INFO_LEN b \<le> length info" "CANNM_PNC_INFO_LEN b \<le> length (CanNmPnInfoMask pn)"
  shows "returns (pn_requests b pn info) (masked b pn)"
  using assms by (auto simp: pn_requests_def ub_simps masked_def bit_simps)

lemma restartTimer_returns:
  assumes "pn_ok b cfg" "0 < CANNM_PNC_COUNT b" "CanNmPnInfo cfg = Some pn" "masked b pn ra" "length timers = CANNM_PNC_COUNT b"
  shows "returns (restartTimerForRequests b pn ra timers) (\<lambda>timers'. length timers' = CANNM_PNC_COUNT b)"
  unfolding restartTimerForRequests_def returns_def
proof (rule for_each_inv, goal_cases)
  case 1
  show ?case by (rule assms(5))
next
  case (2 i timers)
  note p = pn_okD [OF assms(1-3)]
  have i: "i < CANNM_PNC_INFO_LEN b" using 2(1) by simp
  have ra: "length ra = CANNM_PNC_INFO_LEN b" "\<And>j. bit (ra ! i) j \<Longrightarrow> bit (CanNmPnInfoMask pn ! i) j"
    using assms(4) i by (simp_all add: masked_def)
  have "\<exists>timers'. for_each (\<lambda>j timers. if bit (ra ! i) j then restartPnTimer b pn (of_nat (i * 8 + j)) timers else Some timers)
      [0..<8] timers = Some timers' \<and> length timers' = CANNM_PNC_COUNT b"
  proof (rule for_each_inv)
    show "length timers = CANNM_PNC_COUNT b" by (rule 2(2))
    fix j and timers :: "CanNm_Internal_PnTimerType list"
    assume j: "j \<in> set [0..<8]" and l: "length timers = CANNM_PNC_COUNT b"
    have k: "i * 8 + j < 8 * CANNM_PNC_INFO_LEN b" using i j by simp
    then have u: "unat (of_nat (i * 8 + j) :: uint8) = i * 8 + j" using p(1) by (intro unat_of_nat_small) simp
    have "unat (CanNmPnIndexToTimerMap pn ! (i * 8 + j)) < CANNM_PNC_COUNT b" if "bit (ra ! i) j"
      using p(6) [OF k] ra(2) [OF that] j by simp
    then show "\<exists>timers'. (if bit (ra ! i) j then restartPnTimer b pn (of_nat (i * 8 + j)) timers else Some timers) = Some timers' \<and>
        length timers' = CANNM_PNC_COUNT b"
      using k p(5) l by (auto simp: restartPnTimer_def u ub_simps simp del: of_nat_add of_nat_mult)
  qed
  then show ?case using i ra(1) 2(2) by (simp add: ub_simps)
qed

lemma eira_indication_returns:
  assumes "pn_ok b cfg" "0 < CANNM_PNC_COUNT b" "CanNmPnInfo cfg = Some pn" "length (pnEIRA g) = CANNM_PNC_INFO_LEN b"
  shows "returns (eira_indication b pn g) (in_area b [] h g)"
  using pn_okD(2) [OF assms(1-3)] assms(4)
  by (auto simp: eira_indication_def ub_simps nm_call_def in_area_def intro!: exI [of _ "[]"])

lemma in_area_trans: "in_area b [] h g g' \<Longrightarrow> in_area b [] h g' g'' \<Longrightarrow> in_area b [] h g g''"
  by (auto simp: in_area_def)

lemma eira_request_returns:
  assumes "pn_ok b cfg" "0 < CANNM_PNC_COUNT b" "CanNmPnInfo cfg = Some pn" "masked b pn ra"
    "length (pnEIRA g) = CANNM_PNC_INFO_LEN b" "length (pnEIRATimers g) = CANNM_PNC_COUNT b"
  shows "returns (eira_request b pn ra g) (\<lambda>x. in_area b [] h g (snd x))"
proof -
  obtain timers where "restartTimerForRequests b pn ra (pnEIRATimers g) = Some timers" "length timers = CANNM_PNC_COUNT b"
    using restartTimer_returns [OF assms(1-4,6)] unfolding returns_def by blast
  moreover have "length (ra_or (pnEIRA g) ra) = length (pnEIRA g)" using assms(4,5) by (simp add: ra_or_length masked_def)
  ultimately show ?thesis using assms(6) by (auto simp: eira_request_def Let_def in_area_def intro!: exI [of _ "[]"])
qed

text \<open>The areas around the requests.\<close>

lemma enter_fields [simp]:
  "pnEIRA (SchM_Enter_CanNm_EA_0 g) = pnEIRA g" "pnEIRATimers (SchM_Enter_CanNm_EA_0 g) = pnEIRATimers g"
  by (simp_all add: SchM_Enter_CanNm_EA_0_def)

lemma in_area_refl: "in_area b [] h g g"
  by (simp add: in_area_def)

lemma in_area_quiet: "in_area b [] h (SchM_Enter_CanNm_EA_0 g) g' \<Longrightarrow> glob_quiet b g (SchM_Exit_CanNm_EA_0 g')"
  using in_area_exit [of b "[]" h g g'] by (simp add: glob_step_def)

lemma in_area_quiet': "in_area b [] h g g' \<Longrightarrow> glob_quiet b g g'"
  using in_area_step [of b "[]" h g g'] by (simp add: glob_step_def)

lemma ProcessTxPdu_returns:
  assumes "pn_ok b cfg" "0 < CANNM_PNC_COUNT b" "CanNmPnInfo cfg = Some pn" "glob_ok b g" "CANNM_PNC_INFO_LEN b \<le> length info"
  shows "returns (CanNm_Internal_ProcessTxPdu b pn info g) (glob_quiet b g)"
proof -
  let ?g = "SchM_Enter_CanNm_EA_0 g"
  have len: "length (pnEIRA ?g) = CANNM_PNC_INFO_LEN b" "length (pnEIRATimers ?g) = CANNM_PNC_COUNT b"
    using assms(4) by (simp_all add: glob_ok_def)
  obtain ra where ra: "pn_requests b pn info = Some ra" "masked b pn ra"
    using pn_requests_returns [OF assms(5) pn_okD(4) [OF assms(1-3)]] unfolding returns_def by blast
  obtain c g1 where g1: "eira_request b pn ra ?g = Some (c, g1)" "in_area b [] 0 ?g g1"
    using eira_request_returns [OF assms(1-3) ra(2) len, of 0] by (auto simp: returns_def)
  have "length (pnEIRA g1) = CANNM_PNC_INFO_LEN b" using g1(2) len by (simp add: in_area_def)
  from eira_indication_returns [OF assms(1-3) this, of 0] obtain g2 where
    g2: "eira_indication b pn g1 = Some g2" "in_area b [] 0 g1 g2" unfolding returns_def by blast
  show ?thesis
    using ra(1) g1(1) g2(1) in_area_quiet [OF in_area_refl] in_area_quiet [OF g1(2)]
      in_area_quiet [OF in_area_trans [OF g1(2) g2(2)]]
    by (simp add: CanNm_Internal_ProcessTxPdu_def Let_def)
qed

lemma pn_process_tx_returns:
  assumes "pn_ok b cfg" "glob_ok b g" "length sdu = 8"
  shows "returns (pn_process_tx b cfg conf sdu g) (glob_quiet b g)"
proof (cases "eira_calc b \<and> CanNmPnEnable conf")
  case True
  then obtain pn where pn: "CanNmPnInfo cfg = Some pn" using pn_info [OF assms(1)] by blast
  have "CANNM_PNC_INFO_LEN b \<le> length (drop (unat (CanNmPnInfoOffset pn)) sdu)"
    using pn_okD(3) [OF assms(1) _ pn] True assms(3) by simp
  from ProcessTxPdu_returns [OF assms(1) _ pn assms(2) this] show ?thesis
    using True by (simp add: pn_process_tx_def pn deref_def)
next
  case False
  then show ?thesis by (auto simp: pn_process_tx_def)
qed

lemma era_request_returns:
  assumes "pn_ok b cfg" "0 < CANNM_PNC_COUNT b" "CanNmPnInfo cfg = Some pn" "masked b pn ra" "data_ok b ch"
  shows "returns (era_request b pn ra ch) (\<lambda>x. same_core b ch (snd x))"
proof -
  have len: "length (pnERATimers ch) = CANNM_PNC_COUNT b" "length (pnERA ch) = CANNM_PNC_INFO_LEN b"
    using assms(5) by (simp_all add: data_ok_def)
  obtain timers where "restartTimerForRequests b pn ra (pnERATimers ch) = Some timers" "length timers = CANNM_PNC_COUNT b"
    using restartTimer_returns [OF assms(1-4) len(1)] unfolding returns_def by blast
  moreover have "length (ra_or (pnERA ch) ra) = CANNM_PNC_INFO_LEN b" using assms(4) len by (simp add: ra_or_length masked_def)
  ultimately show ?thesis by (simp add: era_request_def Let_def same_core_def core_def data_ok_def)
qed

lemma era_indication_returns:
  assumes "pn_ok b cfg" "0 < CANNM_PNC_COUNT b" "CanNmPnInfo cfg = Some pn" "length (pnERA ch) = CANNM_PNC_INFO_LEN b"
  shows "returns (era_indication b pn conf (ch, g)) (\<lambda>(ch', g'). ch' = ch \<and> in_area b [] h g g')"
  using pn_okD(2) [OF assms(1-3)] assms(4)
  by (auto simp: era_indication_def ub_simps nm_call_def in_area_def)

text \<open>A computation on a channel that leaves the state machine alone.\<close>

abbreviation idles :: "CanNm_Build \<Rightarrow> nm \<Rightarrow> nm \<Rightarrow> bool" where
  "idles b x y \<equiv> same_core b (fst x) (fst y) \<and> glob_quiet b (snd x) (snd y)"

lemma idles_trans: "idles b x y \<Longrightarrow> idles b y z \<Longrightarrow> idles b x z"
  using same_core_trans [of b "fst x" "fst y" "fst z"] glob_quiet_trans [of b "snd x" "snd y" "snd z"] by blast

lemma chan_step_idles: "chan_step b conf rq n x y \<Longrightarrow> idles b y z \<Longrightarrow> chan_step b conf rq n x z"
  using chan_step_same_core [of b conf rq n x "fst y" "snd y" "fst z" "snd z"] by simp

lemma glob_quiet_ok: "glob_quiet b g g' \<Longrightarrow> glob_ok b g \<Longrightarrow> glob_ok b g'"
  by (simp add: glob_step_def)

lemma RxProcess_returns:
  assumes pn: "pn_ok b cfg" "0 < CANNM_PNC_COUNT b" and ok: "data_ok b ch" "glob_ok b g"
  shows "returns (CanNm_Internal_RxProcess b cfg conf pni (ch, g)) (\<lambda>x. idles b (ch, g) (snd x))"
proof -
  obtain pn where p: "CanNmPnInfo cfg = Some pn" using pn_info [OF pn] by blast
  note pk = pn_okD [OF pn p]
  have "CANNM_PNC_INFO_LEN b \<le> length (drop (unat (CanNmPnInfoOffset pn)) (RxMessageSdu ch))"
    using pk(3) ok(1) by (simp add: data_ok_def)
  from pn_requests_returns [OF this pk(4)] obtain ra where ra:
    "pn_requests b pn (drop (unat (CanNmPnInfoOffset pn)) (RxMessageSdu ch)) = Some ra" "masked b pn ra"
    unfolding returns_def by blast
  let ?eira = "\<lambda>g. if CANNM_PNC_EIRA_CALC_ENABLED b then do {
      (changed, g) \<leftarrow> eira_request b pn ra (SchM_Enter_CanNm_EA_0 g);
      let g = SchM_Exit_CanNm_EA_0 g;
      if changed then eira_indication b pn g else Some g } else Some g"
  have "returns (?eira g) (glob_quiet b g)"
  proof (cases "CANNM_PNC_EIRA_CALC_ENABLED b")
    case True
    have len: "length (pnEIRA (SchM_Enter_CanNm_EA_0 g)) = CANNM_PNC_INFO_LEN b"
      "length (pnEIRATimers (SchM_Enter_CanNm_EA_0 g)) = CANNM_PNC_COUNT b" using ok(2) by (simp_all add: glob_ok_def)
    obtain c g1 where g1: "eira_request b pn ra (SchM_Enter_CanNm_EA_0 g) = Some (c, g1)" "in_area b [] 0 (SchM_Enter_CanNm_EA_0 g) g1"
      using eira_request_returns [OF pn p ra(2) len, of 0] by (auto simp: returns_def)
    note q1 = in_area_quiet [OF g1(2)]
    have "length (pnEIRA (SchM_Exit_CanNm_EA_0 g1)) = CANNM_PNC_INFO_LEN b"
      using glob_quiet_ok [OF q1 ok(2)] by (simp add: glob_ok_def)
    from eira_indication_returns [OF pn p this, of 0] obtain g2 where
      g2: "eira_indication b pn (SchM_Exit_CanNm_EA_0 g1) = Some g2" "in_area b [] 0 (SchM_Exit_CanNm_EA_0 g1) g2"
      unfolding returns_def by blast
    show ?thesis using True g1(1) g2(1) q1 glob_quiet_trans [OF q1 in_area_quiet' [OF g2(2)]] by (simp add: Let_def)
  next
    case False
    then show ?thesis by auto
  qed
  then obtain g1 where g1: "?eira g = Some g1" "glob_quiet b g g1" unfolding returns_def by blast
  let ?era = "\<lambda>(ch, g). if CANNM_PNC_ERA_CALC_ENABLED b \<and> CanNmPnEraCalcEnabled conf then do {
      let g = SchM_Enter_CanNm_EA_0 g;
      (changed, ch) \<leftarrow> era_request b pn ra ch;
      let g = SchM_Exit_CanNm_EA_0 g;
      if changed then era_indication b pn conf (ch, g) else Some (ch, g) } else Some (ch, g)"
  have "returns (?era (ch, g1)) (idles b (ch, g1))"
  proof (cases "CANNM_PNC_ERA_CALC_ENABLED b \<and> CanNmPnEraCalcEnabled conf")
    case True
    obtain c ch1 where ch1: "era_request b pn ra ch = Some (c, ch1)" "same_core b ch ch1"
      using era_request_returns [OF pn p ra(2) ok(1)] by (auto simp: returns_def)
    have "length (pnERA ch1) = CANNM_PNC_INFO_LEN b" using ch1(2) ok(1) by (simp add: same_core_def data_ok_def)
    from era_indication_returns [OF pn p this, of conf "SchM_Exit_CanNm_EA_0 (SchM_Enter_CanNm_EA_0 g1)" 0] obtain g2 where
      g2: "era_indication b pn conf (ch1, SchM_Exit_CanNm_EA_0 (SchM_Enter_CanNm_EA_0 g1)) = Some (ch1, g2)"
        "in_area b [] 0 (SchM_Exit_CanNm_EA_0 (SchM_Enter_CanNm_EA_0 g1)) g2"
      by (auto simp: returns_def)
    note e = enter_exit [OF glob_quiet_ok [OF g1(2) ok(2)]]
    show ?thesis using True ch1 g2(1) in_area_quiet' [OF g2(2)] unfolding e by (simp add: e Let_def)
  next
    case False
    then show ?thesis by auto
  qed
  then obtain ch2 g2 where g2: "?era (ch, g1) = Some (ch2, g2)" "idles b (ch, g1) (ch2, g2)" unfolding returns_def by auto
  have "idles b (ch, g) (ch2, g2)" using g1(2) g2(2) glob_quiet_trans [of b g g1 g2] by simp
  then show ?thesis
    using ra(1) p g1(1) g2(1) by (simp add: CanNm_Internal_RxProcess_def deref_def Let_def)
qed

end
