(* ===== verification/CanNm_Main.thy ===== *)
theory CanNm_Main
  imports CanNm_Correct
begin

text \<open>
  Messages that are received and sent, and the main function on a channel: the timers, and how far a channel
  that nobody requests is from sleep.
\<close>

section \<open>Received messages\<close>

lemma step_timeout:
  assumes "conf_ok conf" "chan_ok b conf ch" "Mode ch = NM_MODE_NETWORK"
  shows "chan_step b conf False 0 (ch, g) (CanNm_Internal_NetworkMode_to_NetworkMode conf (ch, g))"
  using assms(2,3) unat_time [OF assms(1)] run_refl
  by (auto simp: CanNm_Internal_NetworkMode_to_NetworkMode_def chan_step_def chan_ok_defs intro!: exI)

lemma chan_step_then: "chan_step b conf rq n x y \<Longrightarrow> chan_step b conf False 0 y z \<Longrightarrow> chan_step b conf rq n x z"
  using chan_step_trans [of b conf rq n x y False 0 z] by simp

lemma step_timeout_repeat:
  assumes "conf_ok conf" "chan_ok b conf ch"
  shows "State ch = NM_STATE_NORMAL_OPERATION \<Longrightarrow> chan_step b conf False 0 (ch, g)
      (CanNm_Internal_NormalOperation_to_RepeatMessage b conf (CanNm_Internal_NetworkMode_to_NetworkMode conf (ch, g)))"
    "State ch = NM_STATE_READY_SLEEP \<Longrightarrow> chan_step b conf False 0 (ch, g)
      (CanNm_Internal_ReadySleep_to_RepeatMessage b conf (CanNm_Internal_NetworkMode_to_NetworkMode conf (ch, g)))"
proof -
  have s: "chan_step b conf False 0 (ch, g) (ch\<lparr>TimeoutTimeLeft := TimeoutTime conf + MainFunctionPeriod conf\<rparr>, g)"
    if "State ch \<in> {NM_STATE_NORMAL_OPERATION, NM_STATE_READY_SLEEP}"
    using step_timeout [OF assms, of g] chan_state(3) [OF assms(2)] that
    by (auto simp: CanNm_Internal_NetworkMode_to_NetworkMode_def)
  show "State ch = NM_STATE_NORMAL_OPERATION \<Longrightarrow> chan_step b conf False 0 (ch, g)
      (CanNm_Internal_NormalOperation_to_RepeatMessage b conf (CanNm_Internal_NetworkMode_to_NetworkMode conf (ch, g)))"
    "State ch = NM_STATE_READY_SLEEP \<Longrightarrow> chan_step b conf False 0 (ch, g)
      (CanNm_Internal_ReadySleep_to_RepeatMessage b conf (CanNm_Internal_NetworkMode_to_NetworkMode conf (ch, g)))"
    using chan_step_then [OF s step_repeat(1) [OF assms(1) chan_step_ok [OF s]]]
      chan_step_then [OF s step_repeat(2) [OF assms(1) chan_step_ok [OF s]]]
    by (simp_all add: CanNm_Internal_NetworkMode_to_NetworkMode_def)
qed

text \<open>A message in the network mode restarts the timeout timer.\<close>

definition heard :: "CanNm_ChannelType \<Rightarrow> nm \<Rightarrow> nm \<Rightarrow> bool" where
  "heard conf x y \<longleftrightarrow> (Mode (fst x) = NM_MODE_NETWORK \<longrightarrow> Mode (fst y) = NM_MODE_NETWORK \<and>
     TimeoutTimeLeft (fst y) = TimeoutTime conf + MainFunctionPeriod conf)"

lemma rx_state_step:
  assumes "conf_ok conf" "chan_ok b conf ch"
  shows "chan_step b conf False 0 (ch, g) (rx_state b inst conf rep (ch, g)) \<and> heard conf (ch, g) (rx_state b inst conf rep (ch, g))"
proof -
  note st = chan_state [OF assms(2)]
  have sleep: "glob_quiet b g (snd (CanNm_Internal_BusSleep_to_BusSleep b conf (ch, CANNM_DET_REPORTERROR b s e i g)))" for s e i
    using glob_quiet_trans [OF det_quiet nm_call_quiet] det_quiet by (simp add: CanNm_Internal_BusSleep_to_BusSleep_def)
  have "chan_step b conf False 0 (ch, g) (CanNm_Internal_BusSleep_to_BusSleep b conf (ch, CANNM_DET_REPORTERROR b s e i g))" for s e i
    using chan_step_idles [OF chan_step_refl [OF assms(2)]] sleep [of s e i]
    by (simp add: CanNm_Internal_BusSleep_to_BusSleep_def)
  moreover have "chan_step b conf False 0 (ch, g) (CanNm_Internal_PrepareBusSleep_to_RepeatMessage b conf False (ch, g))"
    if "State ch = NM_STATE_PREPARE_BUS_SLEEP"
    using step_wake_up(2) [OF assms that, of g False "Requested ch"] by simp
  ultimately show ?thesis
    using st chan_step_refl [OF assms(2), of False 0 g] step_timeout [OF assms, of g] step_timeout_repeat [OF assms, of g]
    by (auto simp: rx_state_def heard_def CanNm_Internal_NetworkMode_to_NetworkMode_def Let_def
        CanNm_Internal_ReadySleep_to_RepeatMessage_def CanNm_Internal_NormalOperation_to_RepeatMessage_def repeat_again_def)
qed

lemma rx_cbv_returns:
  assumes "conf_ok conf" "pn_ok b cfg" "data_ok b ch" "glob_ok b g"
  shows "returns (rx_cbv b cfg conf (ch, g)) (\<lambda>(r, y). idles b (ch, g) y \<and>
    (\<not> CanNmPnEnable conf \<longrightarrow> fst r))"
proof (cases "(CANNM_NODE_DETECTION_ENABLED b \<or> 0 < CANNM_PNC_COUNT b) \<and> CbvPosition conf \<noteq> CANNM_PDU_OFF")
  case True
  have l: "pdu_pos (CbvPosition conf) < length (RxMessageSdu ch)" using assms(1,3) True by (simp add: conf_ok_def data_ok_def)
  show ?thesis
  proof (cases "0 < CANNM_PNC_COUNT b")
    case c: True
    obtain s y where y: "CanNm_Internal_RxProcess b cfg conf (RxMessageSdu ch ! pdu_pos (CbvPosition conf) AND 0x40 \<noteq> 0) (ch, g) = Some (s, y)"
      "idles b (ch, g) y"
      using RxProcess_returns [OF assms(2) c assms(3,4), of conf "RxMessageSdu ch ! pdu_pos (CbvPosition conf) AND 0x40 \<noteq> 0"]
      unfolding returns_def by (metis prod.collapse)
    have "s" if "\<not> CanNmPnEnable conf" using y(1) that by (simp add: CanNm_Internal_RxProcess_def)
    then show ?thesis using True c l y by (auto simp: rx_cbv_def ub_simps Let_def)
  qed (use True l in \<open>auto simp: rx_cbv_def ub_simps Let_def\<close>)
qed (auto simp: rx_cbv_def)

lemma rx_indication_returns:
  assumes "conf_ok conf" "pn_ok b cfg" "chan_ok b conf ch" "glob_ok b g" "unat (PduLength conf) \<le> length sdu"
  shows "returns (rx_indication b inst sdu cfg conf (ch, g)) (\<lambda>y. chan_step b conf False 0 (ch, g) y \<and>
    (\<not> CanNmPnEnable conf \<longrightarrow> heard conf (ch, g) y))"
proof -
  have d: "data_ok b ch" using assms(3) by (simp add: chan_ok_def)
  have l: "length (take (unat (PduLength conf)) sdu) = unat (PduLength conf)" "unat (PduLength conf) \<le> 8"
    using assms(1,5) by (simp_all add: conf_ok_def)
  obtain m where m: "put_at (RxMessageSdu ch) 0 (take (unat (PduLength conf)) sdu) = Some m" "length m = 8"
    using put_at_returns [of 0 "take (unat (PduLength conf)) sdu" "RxMessageSdu ch"] l d by (auto simp: returns_def data_ok_def)
  let ?ch = "ch\<lparr>RxMessageSdu := m\<rparr>"
  have i: "idles b (ch, g) (?ch, g)" "data_ok b ?ch" using m(2) d by (simp_all add: same_core_def core_def data_ok_def)
  obtain s r y where y: "rx_cbv b cfg conf (?ch, g) = Some ((s, r), y)" "idles b (?ch, g) y" "\<not> CanNmPnEnable conf \<longrightarrow> s"
    using rx_cbv_returns [OF assms(1,2) i(2) assms(4)] by (auto simp: returns_def)
  have step: "chan_step b conf False 0 (ch, g) y"
    using chan_step_idles [OF chan_step_refl [OF assms(3)] idles_trans [OF i(1) y(2)]] .
  obtain ch1 g1 where y1: "y = (ch1, g1)" by (cases y)
  have m1: "Mode ch1 = Mode ch" using idles_trans [OF i(1) y(2)] by (simp add: y1 same_core_def core_def)
  note rx = rx_state_step [OF assms(1) chan_step_ok [OF step [unfolded y1]], of g1 inst r]
  have "chan_step b conf False 0 (ch, g) (rx_state b inst conf r (ch1, g1))" using chan_step_then [OF step [unfolded y1]] rx by blast
  moreover have "heard conf (ch, g) (rx_state b inst conf r (ch1, g1))" using rx m1 by (simp add: heard_def)
  ultimately show ?thesis
    using assms(5) m(1) y step by (auto simp: rx_indication_def y1 ub_simps)
qed

section \<open>Sent messages\<close>

text \<open>PduR fills the buffer it is given.\<close>

definition build_ok :: "CanNm_Build \<Rightarrow> bool" where
  "build_ok b \<longleftrightarrow> (\<forall>cs i old. length (PduR_user_data b cs i old) = length old)"

text \<open>A computation that only sends.\<close>

abbreviation (input) idling :: "CanNm_Build \<Rightarrow> nm \<Rightarrow> nm ub \<Rightarrow> bool" where
  "idling b x m \<equiv> returns m (idles b x)"

lemma same_core_messages:
  "length m = 8 \<Longrightarrow> same_core b ch (ch\<lparr>TxMessageSdu := m\<rparr>)"
  "length m = 8 \<Longrightarrow> same_core b ch (ch\<lparr>SpontaneousTxMessageSdu := m\<rparr>)"
  "same_core b ch (ch\<lparr>TransmissionStatus := s\<rparr>)"
  "same_core b ch (ch\<lparr>IsUserDataSet := u\<rparr>)"
  "same_core b ch (ch\<lparr>MessageCycleTimeLeft := t\<rparr>)"
  "same_core b ch (ch\<lparr>MessageTimeoutTimeLeft := t\<rparr>)"
  by (simp_all add: same_core_def core_def data_ok_def)

lemma same_core_data: "same_core b ch ch' \<Longrightarrow> data_ok b ch \<Longrightarrow> data_ok b ch'"
  by (simp add: same_core_def)

lemma immediate_sent_core: "same_core b ch (immediate_sent conf ch)"
  by (simp add: immediate_sent_def same_core_def core_def data_ok_def Let_def)

lemma send_message_returns:
  assumes "conf_ok conf" "data_ok b ch"
  shows "idling b (ch, g) (send_message conf (ch, g))"
proof -
  have "unat (PduLength conf) \<le> length (TxMessageSdu ch)" using assms by (simp add: conf_ok_def data_ok_def)
  then show ?thesis
    using same_core_trans [OF same_core_messages(6) immediate_sent_core]
    by (simp add: send_message_def ub_simps nm_call_quiet)
qed

lemma fetch_user_data_returns:
  assumes "build_ok b" "conf_ok conf" "data_ok b ch"
  shows "returns (fetch_user_data b conf (ch, g)) (same_core b ch)"
proof -
  have l: "length (TxMessageSdu ch) = 8" using assms(3) by (simp add: data_ok_def)
  obtain old where old: "CanNm_Internal_GetUserData conf (TxMessageSdu ch) = Some old"
    "length old = unat (CanNm_Internal_GetUserDataLength conf)"
    using get_user_data_returns [OF assms(2) l] unfolding returns_def by blast
  let ?new = "PduR_user_data b (nm_calls g) (CanNmUserDataTxPduId conf) old"
  have n: "length ?new = length old" using assms(1) by (simp add: build_ok_def)
  obtain m where "put_user_data conf (TxMessageSdu ch) ?new = Some m" "length m = 8"
    using put_user_data_returns [OF assms(2) l, of ?new] old(2) n unfolding returns_def by auto
  then show ?thesis using old(1) n same_core_messages(1) by (simp add: fetch_user_data_def Let_def)
qed

lemma pn_process_returns:
  assumes "pn_ok b cfg" "data_ok b ch" "glob_ok b g" "length m = 8"
  shows "returns (pn_process_tx b cfg conf m g) (\<lambda>g'. idles b (ch, g) (ch, g'))"
  using pn_process_tx_returns [OF assms(1,3,4)] by simp

text \<open>The message with user data from PduR.\<close>

lemma transmit_com_returns:
  assumes "build_ok b" "conf_ok conf" "pn_ok b cfg" "data_ok b ch" "glob_ok b g"
  shows "idling b (ch, g) (do {
    ch \<leftarrow> fetch_user_data b conf (ch\<lparr>TransmissionStatus := 1\<rparr>, g);
    g \<leftarrow> pn_process_tx b cfg conf (TxMessageSdu ch) g;
    (ch, g) \<leftarrow> send_message conf (ch, g);
    Some (ch\<lparr>TransmissionStatus := 0\<rparr>, g) })"
proof -
  let ?ch = "ch\<lparr>TransmissionStatus := 1\<rparr>"
  have d: "data_ok b ?ch" using assms(4) by (simp add: data_ok_def)
  obtain ch1 where ch1: "fetch_user_data b conf (?ch, g) = Some ch1" "same_core b ?ch ch1"
    using fetch_user_data_returns [OF assms(1,2) d, of g] unfolding returns_def by blast
  have s1: "same_core b ch ch1" using same_core_trans [OF same_core_messages(3) ch1(2)] .
  have d1: "data_ok b ch1" "length (TxMessageSdu ch1) = 8" using same_core_data [OF s1 assms(4)] by (simp_all add: data_ok_def)
  obtain g1 where g1: "pn_process_tx b cfg conf (TxMessageSdu ch1) g = Some g1" "glob_quiet b g g1"
    using pn_process_tx_returns [OF assms(3,5) d1(2), of conf] unfolding returns_def by blast
  obtain ch2 g2 where g2: "send_message conf (ch1, g1) = Some (ch2, g2)" "idles b (ch1, g1) (ch2, g2)"
    using send_message_returns [OF assms(2) d1(1), of g1] by (auto simp: returns_def)
  have "idles b (ch, g) (ch2\<lparr>TransmissionStatus := 0\<rparr>, g2)"
    using same_core_trans [OF same_core_trans [OF s1] same_core_messages(3)] g1(2) g2(2) glob_quiet_trans [of b g g1 g2] by simp
  then show ?thesis using ch1(1) g1(1) g2(1) by simp
qed

lemma TransmitMessage_returns:
  assumes "build_ok b" "conf_ok conf" "pn_ok b cfg" "data_ok b ch" "glob_ok b g"
  shows "idling b (ch, g) (CanNm_Internal_TransmitMessage b cfg conf (ch, g))"
proof -
  have "data_ok b (ch\<lparr>IsUserDataSet := True\<rparr>)" using assms(4) by (simp add: data_ok_def)
  from send_message_returns [OF assms(2) this, of g] obtain ch1 g1 where
    s: "send_message conf (ch\<lparr>IsUserDataSet := True\<rparr>, g) = Some (ch1, g1)" "same_core b (ch\<lparr>IsUserDataSet := True\<rparr>) ch1"
      "glob_quiet b g g1"
    by (auto simp: returns_def)
  have "same_core b ch (ch1\<lparr>IsUserDataSet := False\<rparr>)"
    using same_core_trans [OF same_core_trans [OF same_core_messages(4) s(2)] same_core_messages(4)] .
  then show ?thesis
    using s transmit_com_returns [OF assms] send_message_returns [OF assms(2,4), of g] enter_exit [OF assms(5)]
    by (auto simp: CanNm_Internal_TransmitMessage_def Let_def)
qed

lemma TickMessageCycleTime_returns:
  assumes "build_ok b" "conf_ok conf" "pn_ok b cfg" "data_ok b ch" "glob_ok b g"
  shows "idling b (ch, g) (CanNm_Internal_TickMessageCycleTime b cfg conf (ch, g))"
proof -
  let ?ch = "ch\<lparr>MessageCycleTimeLeft := (if immediateModeActive ch then ImmediateNmCycleTime conf else MessageCycleTime conf)\<rparr>"
  have "data_ok b ?ch" using assms(4) by (simp add: data_ok_def)
  from TransmitMessage_returns [OF assms(1-3) this assms(5)] obtain y where
    y: "CanNm_Internal_TransmitMessage b cfg conf (?ch, g) = Some y" "idles b (?ch, g) y"
    unfolding returns_def by blast
  have "idles b (ch, g) y" using y(2) same_core_trans [OF same_core_messages(5)] by (metis fst_conv snd_conv)
  then show ?thesis using y(1) same_core_messages(5) by (simp add: CanNm_Internal_TickMessageCycleTime_def)
qed

lemma transmit_spontaneous_returns:
  assumes "conf_ok conf" "pn_ok b cfg" "data_ok b ch" "glob_ok b g" "unat (PduLength conf) \<le> length bs"
  shows "returns (transmit_spontaneous b (Some (Some bs)) cfg conf (ch, g)) (\<lambda>y. idles b (ch, g) (snd y))"
proof -
  let ?n = "unat (CanNm_Internal_GetUserDataLength conf)"
  have n: "?n \<le> length bs" using user_data_length [OF assms(1)] assms(5) by simp
  obtain m where m: "put_user_data conf (SpontaneousTxMessageSdu ch) (take ?n bs) = Some m" "length m = 8"
    using put_user_data_returns [OF assms(1), of "SpontaneousTxMessageSdu ch" "take ?n bs"] n assms(3)
    by (auto simp: data_ok_def returns_def)
  have l: "unat (PduLength conf) \<le> length m" using assms(1) m(2) by (simp add: conf_ok_def)
  let ?g = "nm_call (CanIf_Transmit (CanIfPduId conf) (take (unat (PduLength conf)) m)) g"
  have q: "glob_quiet b g ?g" by (simp add: nm_call_quiet)
  obtain g1 where g1: "pn_process_tx b cfg conf m ?g = Some g1" "glob_quiet b ?g g1"
    using pn_process_tx_returns [OF assms(2) glob_quiet_ok [OF q assms(4)] m(2), of conf] unfolding returns_def by blast
  have s: "same_core b ch (ch\<lparr>SpontaneousTxMessageSdu := m, TransmissionStatus := t\<rparr>)" for t
    using same_core_trans [OF same_core_messages(2) [OF m(2)] same_core_messages(3)] .
  show ?thesis
    using m(1) n l g1(1) s glob_quiet_trans [OF q g1(2)] enter_exit [OF assms(4)]
    by (simp add: transmit_spontaneous_def deref_def ub_simps Let_def)
qed

section \<open>The timers of the state machine\<close>

text \<open>How often a timer has to be counted down.\<close>

definition countdown :: "CanNm_ChannelType \<Rightarrow> nat \<Rightarrow> nat" where
  "countdown conf t = (t - 1) div unat (MainFunctionPeriod conf) + 1"

lemma countdown_mono: "t \<le> t' \<Longrightarrow> countdown conf t \<le> countdown conf t'"
  by (simp add: countdown_def div_le_mono)

lemma countdown_pos: "1 \<le> countdown conf t"
  by (simp add: countdown_def)

lemma countdown_less:
  assumes "0 < MainFunctionPeriod conf" "\<not> t \<le> MainFunctionPeriod conf"
  shows "countdown conf (unat (t - MainFunctionPeriod conf)) + 1 = countdown conf (unat t)"
proof -
  have p: "0 < unat (MainFunctionPeriod conf)" using assms(1) by (simp add: word_less_nat_alt)
  have lt: "unat (MainFunctionPeriod conf) < unat t" using assms(2) by (simp add: word_le_nat_alt)
  then have "unat (t - MainFunctionPeriod conf) = unat t - unat (MainFunctionPeriod conf)"
    by (simp add: unat_sub word_le_nat_alt)
  moreover have "(unat t - unat (MainFunctionPeriod conf) - 1) div unat (MainFunctionPeriod conf) + 1
      = (unat t - 1) div unat (MainFunctionPeriod conf)"
    using lt p by (simp add: le_div_geq)
  ultimately show ?thesis by (simp add: countdown_def)
qed

text \<open>How many main functions a channel that nobody requests is away from sleep.\<close>

definition rank :: "CanNm_ChannelType \<Rightarrow> CanNm_Internal_ChannelType \<Rightarrow> nat" where
  "rank conf ch = (let wait = countdown conf (unat (WaitBusSleepTime conf)) in
     case State ch of
       NM_STATE_REPEAT_MESSAGE \<Rightarrow> countdown conf (unat (RepeatMessageTimeLeft ch)) +
         (countdown conf (unat (TimeoutTime conf) + unat (MainFunctionPeriod conf)) + wait)
     | NM_STATE_READY_SLEEP \<Rightarrow> countdown conf (unat (TimeoutTimeLeft ch)) + wait
     | NM_STATE_PREPARE_BUS_SLEEP \<Rightarrow> countdown conf (unat (WaitBusSleepTimeLeft ch))
     | _ \<Rightarrow> 0)"

definition sleep_bound :: "CanNm_ChannelType \<Rightarrow> nat" where
  "sleep_bound conf = countdown conf (unat (RepeatMessageTime conf) + unat (MainFunctionPeriod conf)) +
     (countdown conf (unat (TimeoutTime conf) + unat (MainFunctionPeriod conf)) + countdown conf (unat (WaitBusSleepTime conf)))"

lemma rank_bound:
  assumes "chan_ok b conf ch"
  shows "rank conf ch \<le> sleep_bound conf"
proof -
  have "Mode ch = mode_of (State ch)" using assms by (simp add: chan_ok_def)
  then show ?thesis
    using assms countdown_mono [of "unat (RepeatMessageTimeLeft ch)" "unat (RepeatMessageTime conf) + unat (MainFunctionPeriod conf)" conf]
      countdown_mono [of "unat (TimeoutTimeLeft ch)" "unat (TimeoutTime conf) + unat (MainFunctionPeriod conf)" conf]
      countdown_mono [of "unat (WaitBusSleepTimeLeft ch)" "unat (WaitBusSleepTime conf)" conf]
    by (auto simp: rank_def sleep_bound_def chan_ok_defs Let_def split: Nm_StateType.splits)
qed

text \<open>A channel that nobody requests and that may fall asleep.\<close>

definition sleepy :: "CanNm_Internal_ChannelType \<Rightarrow> bool" where
  "sleepy ch \<longleftrightarrow> \<not> Requested ch \<and> CommunicationEnabled ch"

lemma rank_core: "core ch' = core ch \<Longrightarrow> rank conf ch' = rank conf ch"
  "core ch' = core ch \<Longrightarrow> sleepy ch' = sleepy ch"
  by (cases "State ch"; simp add: rank_def core_def sleepy_def Let_def)+

lemma rank_sleep: "chan_ok b conf ch \<Longrightarrow> sleepy ch \<Longrightarrow> rank conf ch = 0 \<longleftrightarrow> State ch = NM_STATE_BUS_SLEEP"
  by (cases "State ch") (auto simp: countdown_def rank_def Let_def chan_ok_def sleepy_def)

text \<open>Steps that bring the channel closer to sleep.\<close>

definition progress :: "CanNm_ChannelType \<Rightarrow> nat \<Rightarrow> nm \<Rightarrow> nm \<Rightarrow> bool" where
  "progress conf k x y \<longleftrightarrow> 0 < MainFunctionPeriod conf \<and> sleepy (fst x) \<longrightarrow>
     sleepy (fst y) \<and> rank conf (fst y) \<le> rank conf (fst x) - k"

lemma progress_trans: "progress conf k x y \<Longrightarrow> progress conf j y z \<Longrightarrow> progress conf (k + j) x z"
  by (auto simp: progress_def)

lemma progress_weaken: "progress conf k x y \<Longrightarrow> j \<le> k \<Longrightarrow> progress conf j x y"
  by (auto simp: progress_def)

lemma idles_progress: "idles b x y \<Longrightarrow> progress conf 0 x y"
  using rank_core(1) [of "fst y" "fst x" conf] rank_core(2) [of "fst y" "fst x"] by (simp add: progress_def same_core_def)

text \<open>The end of the repeat message state.\<close>

lemma step_repeat_over:
  assumes "chan_ok b conf ch" "State ch = NM_STATE_REPEAT_MESSAGE"
    and "same_core b (ch\<lparr>RepeatMessageTimeLeft := t, Mode := NM_MODE_NETWORK, State := s\<rparr>) ch'"
    and "s = (if Requested ch then NM_STATE_NORMAL_OPERATION else NM_STATE_READY_SLEEP)"
  shows "chan_step b conf False 0 (ch, g) (ch', state_change b conf NM_STATE_REPEAT_MESSAGE s g) \<and>
    progress conf 1 (ch, g) (ch', state_change b conf NM_STATE_REPEAT_MESSAGE s g) \<and> Mode ch' = NM_MODE_NETWORK"
proof -
  let ?ch = "ch\<lparr>RepeatMessageTimeLeft := t, Mode := NM_MODE_NETWORK, State := s\<rparr>"
  have c: "core ch' = core ?ch" and d: "data_ok b ch'"
    using assms(1,3) by (simp_all add: same_core_def chan_ok_def data_ok_def)
  then have f: "State ch' = s" "Requested ch' = Requested ch" "Mode ch' = NM_MODE_NETWORK" "TimeoutTimeLeft ch' = TimeoutTimeLeft ch"
    "CommunicationEnabled ch' = CommunicationEnabled ch"
    by (simp_all add: core_def)
  have m: "Mode ch = NM_MODE_NETWORK" using assms(1,2) by (simp add: chan_ok_def)
  have "nm_run (State ch, Requested ch) [(NM_STATE_REPEAT_MESSAGE, s)] (State ch', Requested ch')"
    using run_one [OF repeat_over [of "Requested ch"]] unfolding assms(2,4) f .
  moreover have "chan_ok b conf ch'"
    using assms(1,2) m d f by (auto simp: chan_ok_defs assms(4))
  moreover have "progress conf 1 (ch, g) (ch', state_change b conf NM_STATE_REPEAT_MESSAGE s g)"
  proof -
    have "countdown conf (unat (TimeoutTimeLeft ch)) \<le> countdown conf (unat (TimeoutTime conf) + unat (MainFunctionPeriod conf))"
      using assms(1) m by (intro countdown_mono) (simp add: chan_ok_defs)
    moreover have "1 \<le> countdown conf (unat (RepeatMessageTimeLeft ch))" by (rule countdown_pos)
    ultimately have "\<not> Requested ch \<Longrightarrow> rank conf ch' + 1 \<le> rank conf ch"
      unfolding rank_def f assms(2) by (simp add: assms(4) Let_def)
    then show ?thesis by (auto simp: progress_def sleepy_def f)
  qed
  ultimately show ?thesis
    using state_change_step [of b conf NM_STATE_REPEAT_MESSAGE s g] f by (auto simp: chan_step_def)
qed

lemma step_repeat_running:
  assumes "chan_ok b conf ch" "State ch = NM_STATE_REPEAT_MESSAGE" "\<not> RepeatMessageTimeLeft ch \<le> MainFunctionPeriod conf"
  shows "chan_step b conf False 0 (ch, g) (ch\<lparr>RepeatMessageTimeLeft := RepeatMessageTimeLeft ch - MainFunctionPeriod conf\<rparr>, g) \<and>
    progress conf 1 (ch, g) (ch\<lparr>RepeatMessageTimeLeft := RepeatMessageTimeLeft ch - MainFunctionPeriod conf\<rparr>, g)"
proof -
  have "unat (RepeatMessageTimeLeft ch - MainFunctionPeriod conf) \<le> unat (RepeatMessageTimeLeft ch)"
    using assms(3) by (simp add: unat_sub word_le_nat_alt)
  then have "chan_ok b conf (ch\<lparr>RepeatMessageTimeLeft := RepeatMessageTimeLeft ch - MainFunctionPeriod conf\<rparr>)"
    using assms(1) by (auto simp: chan_ok_defs)
  then show ?thesis
    using run_refl countdown_less [OF _ assms(3)] assms(2)
    by (auto simp: chan_step_def progress_def sleepy_def rank_def Let_def intro!: exI)
qed

lemma TickRepeatMessageTime_returns:
  assumes "conf_ok conf" "chan_ok b conf ch" "State ch = NM_STATE_REPEAT_MESSAGE"
  shows "returns (CanNm_Internal_TickRepeatMessageTime b conf (ch, g)) (\<lambda>y. chan_step b conf False 0 (ch, g) y \<and> progress conf 1 (ch, g) y \<and>
    Mode (fst y) = NM_MODE_NETWORK)"
proof -
  have over: "returns (if CANNM_NODE_DETECTION_ENABLED b then CanNm_Internal_ClearRptMsgRqstCbv b conf
      (ch\<lparr>RepeatMessageTimeLeft := 0, Mode := NM_MODE_NETWORK, State := s\<rparr>)
      else Some (ch\<lparr>RepeatMessageTimeLeft := 0, Mode := NM_MODE_NETWORK, State := s\<rparr>))
      (same_core b (ch\<lparr>RepeatMessageTimeLeft := 0, Mode := NM_MODE_NETWORK, State := s\<rparr>))" for s
    using ClearRptMsgRqstCbv_returns [of b "ch\<lparr>RepeatMessageTimeLeft := 0, Mode := NM_MODE_NETWORK, State := s\<rparr>" conf] assms(1,2)
    by (simp add: chan_ok_def data_ok_def)
  let ?P = "\<lambda>y. chan_step b conf False 0 (ch, g) y \<and> progress conf 1 (ch, g) y \<and> Mode (fst y) = NM_MODE_NETWORK"
  have m: "Mode ch = NM_MODE_NETWORK" using assms(2,3) by (simp add: chan_ok_def)
  have "returns (CanNm_Internal_RepeatMessage_to_NormalOperation b conf (ch\<lparr>RepeatMessageTimeLeft := 0\<rparr>, g)) ?P" if "Requested ch"
    using over [of NM_STATE_NORMAL_OPERATION] step_repeat_over [OF assms(2,3), where t = 0 and s = NM_STATE_NORMAL_OPERATION and g = g] that
    by (auto simp: CanNm_Internal_RepeatMessage_to_NormalOperation_def returns_def Let_def)
  moreover have "returns (CanNm_Internal_RepeatMessage_to_ReadySleep b conf (ch\<lparr>RepeatMessageTimeLeft := 0\<rparr>, g)) ?P" if "\<not> Requested ch"
    using over [of NM_STATE_READY_SLEEP] step_repeat_over [OF assms(2,3), where t = 0 and s = NM_STATE_READY_SLEEP and g = g] that
    by (auto simp: CanNm_Internal_RepeatMessage_to_ReadySleep_def returns_def Let_def)
  ultimately show ?thesis
    using step_repeat_running [OF assms(2,3)] assms(3) m by (simp add: CanNm_Internal_TickRepeatMessageTime_def Let_def)
qed

section \<open>The timeout\<close>

lemma timeout_running:
  assumes "chan_ok b conf ch" "Mode ch = NM_MODE_NETWORK" "\<not> TimeoutTimeLeft ch \<le> MainFunctionPeriod conf"
  shows "chan_step b conf False 1 (ch, g) (ch\<lparr>TimeoutTimeLeft := TimeoutTimeLeft ch - MainFunctionPeriod conf\<rparr>, g) \<and>
    progress conf (if State ch = NM_STATE_READY_SLEEP then 1 else 0) (ch, g)
      (ch\<lparr>TimeoutTimeLeft := TimeoutTimeLeft ch - MainFunctionPeriod conf\<rparr>, g)"
proof -
  let ?t = "TimeoutTimeLeft ch - MainFunctionPeriod conf"
  have u: "unat ?t + unat (MainFunctionPeriod conf) = unat (TimeoutTimeLeft ch)"
    using assms(3) by (simp add: unat_sub word_le_nat_alt)
  then have "chan_ok b conf (ch\<lparr>TimeoutTimeLeft := ?t\<rparr>)" using assms(1) by (auto simp: chan_ok_defs)
  moreover have "progress conf (if State ch = NM_STATE_READY_SLEEP then 1 else 0) (ch, g) (ch\<lparr>TimeoutTimeLeft := ?t\<rparr>, g)"
  proof (cases "State ch = NM_STATE_READY_SLEEP")
    case True
    then show ?thesis using countdown_less [OF _ assms(3)] by (auto simp: progress_def sleepy_def rank_def Let_def)
  next
    case False
    then show ?thesis by (cases "State ch") (auto simp: progress_def sleepy_def rank_def Let_def)
  qed
  ultimately show ?thesis using run_refl u assms(2) by (auto simp: chan_step_def intro!: exI)
qed

text \<open>The timer ran out: the own messages restart it, and without a request the network is left.\<close>

lemma timeout_over:
  assumes "chan_ok b conf ch" "same_core b ch ch'" "glob_quiet b g g'" "State ch \<noteq> NM_STATE_READY_SLEEP"
    "TimeoutTimeLeft ch \<le> MainFunctionPeriod conf"
  shows "chan_step b conf False 1 (ch, g) (ch'\<lparr>TimeoutTimeLeft := TimeoutTime conf\<rparr>, g') \<and>
    progress conf 0 (ch, g) (ch'\<lparr>TimeoutTimeLeft := TimeoutTime conf\<rparr>, g')"
proof -
  have c: "core ch' = core ch" and d: "data_ok b ch'" using assms(1,2) by (simp_all add: same_core_def chan_ok_def)
  have "chan_ok b conf (ch'\<lparr>TimeoutTimeLeft := TimeoutTime conf\<rparr>)" using assms(1) c d by (auto simp: chan_ok_defs core_def)
  moreover have "progress conf 0 (ch, g) (ch'\<lparr>TimeoutTimeLeft := TimeoutTime conf\<rparr>, g')"
    using c assms(4) by (cases "State ch") (auto simp: progress_def sleepy_def rank_def core_def Let_def)
  moreover have "unat (TimeoutTimeLeft ch) \<le> unat (MainFunctionPeriod conf)" using assms(5) by (simp add: word_le_nat_alt)
  ultimately show ?thesis using run_refl c assms(3) by (auto simp: chan_step_def core_def intro!: exI)
qed

lemma step_prepare:
  assumes "chan_ok b conf ch" "State ch = NM_STATE_READY_SLEEP" "TimeoutTimeLeft ch \<le> MainFunctionPeriod conf"
  shows "chan_step b conf False 1 (ch, g) (CanNm_Internal_ReadySleep_to_PrepareBusSleep b conf (ch\<lparr>TimeoutTimeLeft := 0\<rparr>, g)) \<and>
    progress conf 1 (ch, g) (CanNm_Internal_ReadySleep_to_PrepareBusSleep b conf (ch\<lparr>TimeoutTimeLeft := 0\<rparr>, g))"
proof -
  have r: "\<not> Requested ch" using assms(1,2) by (simp add: chan_ok_def)
  have u: "unat (TimeoutTimeLeft ch) \<le> unat (MainFunctionPeriod conf)" using assms(3) by (simp add: word_le_nat_alt)
  have n: "nm_run (NM_STATE_READY_SLEEP, False) [(NM_STATE_READY_SLEEP, NM_STATE_PREPARE_BUS_SLEEP)] (NM_STATE_PREPARE_BUS_SLEEP, False)"
    by (rule run_one [OF network_silent])
  have p: "1 \<le> countdown conf (unat (TimeoutTimeLeft ch))" by (rule countdown_pos)
  have a: "glob_step b (NmNetworkHandle conf) [(NM_STATE_READY_SLEEP, NM_STATE_PREPARE_BUS_SLEEP)] g
      (SchM_Exit_CanNm_EA_0 (state_change b conf NM_STATE_READY_SLEEP NM_STATE_PREPARE_BUS_SLEEP
        (nm_call (Nm_PrepareBusSleepMode (NmNetworkHandle conf)) (SchM_Enter_CanNm_EA_0 g))))"
    by (rule in_area_exit [OF state_change_call_area]) simp
  show ?thesis
    using assms(1,2) r u n p a
    by (auto simp: CanNm_Internal_ReadySleep_to_PrepareBusSleep_def chan_step_def progress_def sleepy_def rank_def chan_ok_defs Let_def)
qed

lemma timeout_report_idles: "same_core b ch (fst (timeout_report b (ch, g))) \<and> glob_quiet b g (snd (timeout_report b (ch, g)))"
  by (simp add: timeout_report_def det_quiet same_core_messages(3))

lemma TickTimeoutTime_step:
  assumes "chan_ok b conf ch" "Mode ch = NM_MODE_NETWORK"
  shows "chan_step b conf False 1 (ch, g) (CanNm_Internal_TickTimeoutTime b conf (ch, g)) \<and>
    progress conf (if State ch = NM_STATE_READY_SLEEP then 1 else 0) (ch, g) (CanNm_Internal_TickTimeoutTime b conf (ch, g))"
proof (cases "TimeoutTimeLeft ch \<le> MainFunctionPeriod conf")
  case True
  obtain ch' g' where r: "timeout_report b (ch\<lparr>TimeoutTimeLeft := 0\<rparr>, g) = (ch', g')"
    by (cases "timeout_report b (ch\<lparr>TimeoutTimeLeft := 0\<rparr>, g)")
  have e: "(if State ch = NM_STATE_REPEAT_MESSAGE then CanNm_Internal_RepeatMessage_to_RepeatMessage conf (ch', g')
      else CanNm_Internal_NormalOperation_to_NormalOperation conf (ch', g')) = (ch'\<lparr>TimeoutTimeLeft := TimeoutTime conf\<rparr>, g')"
    by (simp add: CanNm_Internal_RepeatMessage_to_RepeatMessage_def CanNm_Internal_NormalOperation_to_NormalOperation_def)
  have ch': "ch'\<lparr>TimeoutTimeLeft := TimeoutTime conf\<rparr> =
      (fst (timeout_report b (ch, g)))\<lparr>TimeoutTimeLeft := TimeoutTime conf\<rparr>" "g' = snd (timeout_report b (ch, g))"
    using r by (auto simp: timeout_report_def)
  have s: "State ch \<in> {NM_STATE_REPEAT_MESSAGE, NM_STATE_NORMAL_OPERATION, NM_STATE_READY_SLEEP}"
    using chan_state(3) [OF assms(1)] assms(2) by simp
  have o: "chan_step b conf False 1 (ch, g) (ch'\<lparr>TimeoutTimeLeft := TimeoutTime conf\<rparr>, g') \<and>
      progress conf 0 (ch, g) (ch'\<lparr>TimeoutTimeLeft := TimeoutTime conf\<rparr>, g')" if "State ch \<noteq> NM_STATE_READY_SLEEP"
    unfolding ch' using timeout_over [OF assms(1) _ _ that True] timeout_report_idles by blast
  show ?thesis
    using True s e o step_prepare [OF assms(1) _ True, of g]
    by (auto simp: CanNm_Internal_TickTimeoutTime_def r Let_def split: if_splits)
next
  case False
  then show ?thesis using timeout_running [OF assms False] by (simp add: CanNm_Internal_TickTimeoutTime_def)
qed

lemma TickTxTimeout_idles: "idles b (ch, g) (CanNm_Internal_TickTxTimeout conf (ch, g))"
  by (simp add: CanNm_Internal_TickTxTimeout_def same_core_messages(6) nm_call_quiet)

lemma TickWaitBusSleepTime_step:
  assumes "chan_ok b conf ch" "State ch = NM_STATE_PREPARE_BUS_SLEEP"
  shows "chan_step b conf False 1 (ch, g) (CanNm_Internal_TickWaitBusSleepTime b conf (ch, g)) \<and>
    progress conf 1 (ch, g) (CanNm_Internal_TickWaitBusSleepTime b conf (ch, g))"
proof (cases "WaitBusSleepTimeLeft ch \<le> MainFunctionPeriod conf")
  case True
  have r: "\<not> Requested ch" "Mode ch = NM_MODE_PREPARE_BUS_SLEEP" using assms by (simp_all add: chan_ok_def)
  have n: "nm_run (NM_STATE_PREPARE_BUS_SLEEP, False) [(NM_STATE_PREPARE_BUS_SLEEP, NM_STATE_BUS_SLEEP)] (NM_STATE_BUS_SLEEP, False)"
    by (rule run_one [OF fall_asleep])
  have a: "glob_step b (NmNetworkHandle conf) [(NM_STATE_PREPARE_BUS_SLEEP, NM_STATE_BUS_SLEEP)] g
      (SchM_Exit_CanNm_EA_0 (state_change b conf NM_STATE_PREPARE_BUS_SLEEP NM_STATE_BUS_SLEEP
        (nm_call (Nm_BusSleepMode (NmNetworkHandle conf)) (SchM_Enter_CanNm_EA_0 g))))"
    by (rule in_area_exit [OF state_change_call_area]) simp
  show ?thesis
    using True assms r n a
    by (auto simp: CanNm_Internal_TickWaitBusSleepTime_def CanNm_Internal_PrepareBusSleep_to_BusSleep_def chan_step_def
        progress_def sleepy_def rank_def chan_ok_defs Let_def)
next
  case False
  have r: "Mode ch = NM_MODE_PREPARE_BUS_SLEEP" using assms by (simp add: chan_ok_def)
  have "unat (WaitBusSleepTimeLeft ch - MainFunctionPeriod conf) \<le> unat (WaitBusSleepTimeLeft ch)"
    using False by (simp add: unat_sub word_le_nat_alt)
  then have "chan_ok b conf (ch\<lparr>WaitBusSleepTimeLeft := WaitBusSleepTimeLeft ch - MainFunctionPeriod conf\<rparr>)"
    using assms(1) by (auto simp: chan_ok_defs)
  then show ?thesis
    using False assms(2) r run_refl countdown_less [OF _ False]
    by (auto simp: CanNm_Internal_TickWaitBusSleepTime_def chan_step_def progress_def sleepy_def rank_def Let_def intro!: exI)
qed

section \<open>The main function on a channel\<close>

definition main_step :: "CanNm_Build \<Rightarrow> CanNm_ChannelType \<Rightarrow> nm \<Rightarrow> nm \<Rightarrow> bool" where
  "main_step b conf x y \<longleftrightarrow> chan_step b conf False 1 x y \<and> progress conf 1 x y"

lemma main_network:
  assumes "build_ok b" "conf_ok conf" "pn_ok b cfg" "chan_ok b conf ch" "glob_ok b g" "Mode ch = NM_MODE_NETWORK"
  shows "returns (main_channel b cfg conf (ch, g)) (main_step b conf (ch, g))"
proof -
  obtain ch1 g1 where y1: "(if State ch = NM_STATE_REPEAT_MESSAGE then CanNm_Internal_TickRepeatMessageTime b conf (ch, g)
      else Some (ch, g)) = Some (ch1, g1)"
    and s1: "chan_step b conf False 0 (ch, g) (ch1, g1)" "Mode ch1 = NM_MODE_NETWORK"
      "if State ch = NM_STATE_REPEAT_MESSAGE then progress conf 1 (ch, g) (ch1, g1) else (ch1, g1) = (ch, g)"
  proof (cases "State ch = NM_STATE_REPEAT_MESSAGE")
    case True
    from TickRepeatMessageTime_returns [OF assms(2,4) this, of g] obtain y where
      "CanNm_Internal_TickRepeatMessageTime b conf (ch, g) = Some y" "chan_step b conf False 0 (ch, g) y"
      "progress conf 1 (ch, g) y" "Mode (fst y) = NM_MODE_NETWORK" unfolding returns_def by blast
    then show ?thesis using that [of "fst y" "snd y"] True by simp
  qed (use that [of ch g] assms(4,6) chan_step_refl in simp)
  let ?x2 = "if CANNM_PASSIVE_MODE_ENABLED b then (ch1, g1) else CanNm_Internal_TickTxTimeout conf (ch1, g1)"
  obtain ch2 g2 where y2: "?x2 = (ch2, g2)" by (cases ?x2)
  have "idles b (ch1, g1) ?x2" using TickTxTimeout_idles [of b ch1 g1 conf] by simp
  then have i2: "idles b (ch1, g1) (ch2, g2)" unfolding y2 .
  have s2: "chan_step b conf False 0 (ch, g) (ch2, g2)" by (rule chan_step_idles [OF s1(1) i2])
  note ok2 = chan_step_ok [OF s2]
  have f2: "Mode ch2 = NM_MODE_NETWORK" "State ch2 = State ch1" using i2 s1(2) by (simp_all add: same_core_def core_def)
  have p12: "progress conf 0 (ch1, g1) (ch2, g2)" by (rule idles_progress [OF i2])
  let ?x3 = "if CommunicationEnabled ch2 then CanNm_Internal_TickTimeoutTime b conf (ch2, g2) else (ch2, g2)"
  obtain ch3 g3 where y3: "?x3 = (ch3, g3)" by (cases ?x3)
  have s3: "chan_step b conf False 1 (ch, g) (ch3, g3)" "progress conf (if CommunicationEnabled ch2 \<and> State ch2 = NM_STATE_READY_SLEEP then 1 else 0) (ch2, g2) (ch3, g3)"
    using TickTimeoutTime_step [OF ok2 f2(1), of g2] chan_step_refl [OF ok2, of False 1 g2] y3
      chan_step_trans [OF s2, of False 1 "(ch3, g3)"] idles_progress [of b "(ch2, g2)" "(ch2, g2)" conf]
    by (auto split: if_splits)
  have p3: "progress conf 1 (ch, g) (ch3, g3)"
  proof (cases "State ch = NM_STATE_REPEAT_MESSAGE")
    case True
    then have "progress conf 1 (ch, g) (ch1, g1)" using s1(3) by simp
    from progress_weaken [OF progress_trans [OF progress_trans [OF this p12] s3(2)]] show ?thesis by simp
  next
    case False
    then have e: "ch1 = ch" "g1 = g" using s1(3) by simp_all
    have "CommunicationEnabled ch2 = CommunicationEnabled ch" "State ch2 = State ch" using i2 e by (simp_all add: same_core_def core_def)
    then have "sleepy ch \<Longrightarrow> CommunicationEnabled ch2 \<and> State ch2 = NM_STATE_READY_SLEEP"
      using False chan_state(3) [OF assms(4)] assms(4,6) by (auto simp: sleepy_def chan_ok_def)
    then show ?thesis using progress_trans [OF p12 s3(2)] unfolding e by (auto simp: progress_def)
  qed
  have ok3: "chan_ok b conf ch3" by (rule chan_step_ok [OF s3(1)])
  have g3: "glob_ok b g3" using s3(1) assms(5) by (auto simp: chan_step_def glob_step_def)
  have d3: "data_ok b ch3" using ok3 by (simp add: chan_ok_def)
  have "idles b (ch3, g3) y \<Longrightarrow> main_step b conf (ch, g) y" for y
    using chan_step_idles [OF s3(1)] progress_trans [OF p3 idles_progress] by (simp add: main_step_def)
  then have "returns (if c then CanNm_Internal_TickMessageCycleTime b cfg conf (ch3, g3) else Some (ch3, g3)) (main_step b conf (ch, g))" for c
    using TickMessageCycleTime_returns [OF assms(1-3) d3 g3] unfolding returns_def by auto
  then show ?thesis using assms(6) y1 y2 y3 by (simp add: main_channel_def Let_def)
qed

lemma main_channel_returns:
  assumes "build_ok b" "conf_ok conf" "pn_ok b cfg" "chan_ok b conf ch" "glob_ok b g"
  shows "returns (main_channel b cfg conf (ch, g)) (main_step b conf (ch, g))"
proof -
  note st = chan_state [OF assms(4)]
  have "main_step b conf (ch, g) (ch, g)" if "State ch = NM_STATE_BUS_SLEEP"
    using chan_step_refl [OF assms(4)] that by (simp add: main_step_def progress_def rank_def)
  moreover have "main_step b conf (ch, g) (CanNm_Internal_TickWaitBusSleepTime b conf (ch, g))" if "State ch = NM_STATE_PREPARE_BUS_SLEEP"
    using TickWaitBusSleepTime_step [OF assms(4) that, of g] by (simp add: main_step_def)
  ultimately show ?thesis
    using main_network [OF assms] st by (cases "Mode ch") (simp_all add: main_channel_def)
qed

section \<open>The timers of partial networks\<close>

lemma tick_timers_return:
  assumes "pn_ok b cfg" "0 < CANNM_PNC_COUNT b" "length timers = CANNM_PNC_COUNT b"
  shows "returns (for_each (tick_pn_timer b cfg) [0..<CANNM_PNC_COUNT b] (timers, []))
    (\<lambda>(timers', resets). length timers' = CANNM_PNC_COUNT b \<and> (\<forall>p \<in> set resets. unat p div 8 < CANNM_PNC_INFO_LEN b))"
  unfolding returns_def
proof (rule for_each_inv, goal_cases)
  case 1
  show ?case using assms(3) by simp
next
  case (2 k x)
  obtain ts rs where x: "x = (ts, rs)" by (cases x)
  obtain pn where pn: "CanNmPnInfo cfg = Some pn" using pn_info [OF assms(1,2)] by blast
  have "k < CANNM_PNC_COUNT b" using 2(1) by simp
  then show ?case
    using 2(2) pn_okD(7,8) [OF assms(1,2) pn] pn
    by (auto simp: x tick_pn_timer_def deref_def ub_simps Let_def)
qed

lemma reset_bits_return:
  assumes "\<forall>p \<in> set resets. unat p div 8 < CANNM_PNC_INFO_LEN b" "length ra = CANNM_PNC_INFO_LEN b"
  shows "returns (for_each reset_pn_bit resets ra) (\<lambda>ra'. length ra' = CANNM_PNC_INFO_LEN b)"
  unfolding returns_def using assms by (intro for_each_inv) (auto simp: reset_pn_bit_def ub_simps)

lemma tick_pn_era_returns:
  assumes "pn_ok b cfg" "0 < CANNM_PNC_COUNT b" "data_ok b ch"
  shows "returns (tick_pn_era b cfg conf (ch, g)) (\<lambda>(ch', g'). same_core b ch ch' \<and> in_area b [] 0 g g')"
proof (cases "CanNmPnEraCalcEnabled conf")
  case True
  have l: "length (pnERATimers ch) = CANNM_PNC_COUNT b" "length (pnERA ch) = CANNM_PNC_INFO_LEN b" using assms(3) by (simp_all add: data_ok_def)
  obtain pn where pn: "CanNmPnInfo cfg = Some pn" using pn_info [OF assms(1,2)] by blast
  obtain ts rs where t: "for_each (tick_pn_timer b cfg) [0..<CANNM_PNC_COUNT b] (pnERATimers ch, []) = Some (ts, rs)"
    "length ts = CANNM_PNC_COUNT b" "\<forall>p \<in> set rs. unat p div 8 < CANNM_PNC_INFO_LEN b"
    using tick_timers_return [OF assms(1,2) l(1)] by (auto simp: returns_def)
  obtain ra where ra: "for_each reset_pn_bit rs (pnERA ch) = Some ra" "length ra = CANNM_PNC_INFO_LEN b"
    using reset_bits_return [OF t(3) l(2)] unfolding returns_def by blast
  have len: "length (pnERA (ch\<lparr>pnERATimers := ts, pnERA := ra\<rparr>)) = CANNM_PNC_INFO_LEN b" using ra(2) by simp
  obtain g1 where g1: "era_indication b pn conf (ch\<lparr>pnERATimers := ts, pnERA := ra\<rparr>, g) = Some (ch\<lparr>pnERATimers := ts, pnERA := ra\<rparr>, g1)"
    "in_area b [] 0 g g1"
    using era_indication_returns [OF assms(1,2) pn len, of conf g 0] by (auto simp: returns_def)
  show ?thesis
    using True t ra g1 in_area_refl pn
    by (simp add: tick_pn_era_def CanNm_Internal_ResetEraPnBits_def deref_def same_core_def core_def data_ok_def Let_def)
next
  case False
  then show ?thesis by (simp add: tick_pn_era_def in_area_refl)
qed

lemma TickPnEIRAResetTime_returns:
  assumes "pn_ok b cfg" "0 < CANNM_PNC_COUNT b" "glob_ok b g"
  shows "returns (CanNm_Internal_TickPnEIRAResetTime b cfg g) (glob_quiet b g)"
proof -
  let ?g = "SchM_Enter_CanNm_EA_0 g"
  have l: "length (pnEIRATimers ?g) = CANNM_PNC_COUNT b" "length (pnEIRA ?g) = CANNM_PNC_INFO_LEN b"
    using assms(3) by (simp_all add: glob_ok_def)
  obtain pn where pn: "CanNmPnInfo cfg = Some pn" using pn_info [OF assms(1,2)] by blast
  obtain ts rs where t: "for_each (tick_pn_timer b cfg) [0..<CANNM_PNC_COUNT b] (pnEIRATimers ?g, []) = Some (ts, rs)"
    "length ts = CANNM_PNC_COUNT b" "\<forall>p \<in> set rs. unat p div 8 < CANNM_PNC_INFO_LEN b"
    using tick_timers_return [OF assms(1,2) l(1)] unfolding returns_def by blast
  obtain ra where ra: "for_each reset_pn_bit rs (pnEIRA ?g) = Some ra" "length ra = CANNM_PNC_INFO_LEN b"
    using reset_bits_return [OF t(3) l(2)] unfolding returns_def by blast
  have len: "length (pnEIRA (?g\<lparr>pnEIRATimers := ts, pnEIRA := ra\<rparr>)) = CANNM_PNC_INFO_LEN b" using ra(2) by simp
  obtain g1 where g1: "eira_indication b pn (?g\<lparr>pnEIRATimers := ts, pnEIRA := ra\<rparr>) = Some g1"
    "in_area b [] 0 (?g\<lparr>pnEIRATimers := ts, pnEIRA := ra\<rparr>) g1"
    using eira_indication_returns [OF assms(1,2) pn len, of 0] unfolding returns_def by blast
  have a: "in_area b [] 0 ?g (?g\<lparr>pnEIRATimers := ts\<rparr>)" "in_area b [] 0 ?g (?g\<lparr>pnEIRATimers := ts, pnEIRA := ra\<rparr>)"
    using t(2) ra(2) l by (auto simp: in_area_def)
  show ?thesis
    using t(1) ra(1) g1(1) in_area_quiet [OF a(1)] in_area_quiet [OF in_area_trans [OF a(2) g1(2)]] pn
    by (simp add: CanNm_Internal_TickPnEIRAResetTime_def CanNm_Internal_resetEIRAPNbits_def deref_def Let_def)
qed

end
