(* ===== verification/CanNm_Module.thy ===== *)
theory CanNm_Module
  imports CanNm_Main
begin

text \<open>
  The module: its configuration, its services on any channel and handle, and the main function over all
  channels. Every call returns and moves each channel along the abstract machine.
\<close>

section \<open>Well-formed configurations and states\<close>

abbreviation conf_at :: "CanNm_ConfigType \<Rightarrow> nat \<Rightarrow> CanNm_ChannelType" where
  "conf_at cfg i \<equiv> cfg_Channels cfg ! i"

abbreviation chan_at :: "CanNm_InternalType \<Rightarrow> nat \<Rightarrow> CanNm_Internal_ChannelType" where
  "chan_at st i \<equiv> Channels st ! i"

text \<open>The lookup table leads from a network handle to its channel, or to no channel.\<close>

definition lookup_ok :: "CanNm_Build \<Rightarrow> CanNm_ConfigType \<Rightarrow> bool" where
  "lookup_ok b cfg \<longleftrightarrow> unat (ChannelLookupsSize cfg) \<le> length (ChannelLookups cfg) \<and>
     (\<forall>h < unat (ChannelLookupsSize cfg). ChannelLookups cfg ! h \<noteq> 0xFF \<longrightarrow>
        unat (ChannelLookups cfg ! h) < CANNM_CHANNEL_COUNT b \<and>
        NmNetworkHandle (conf_at cfg (unat (ChannelLookups cfg ! h))) = of_nat h)"

definition cfg_ok :: "CanNm_Build \<Rightarrow> CanNm_ConfigType \<Rightarrow> bool" where
  "cfg_ok b cfg \<longleftrightarrow> build_ok b \<and> CANNM_CHANNEL_COUNT b < 256 \<and> length (cfg_Channels cfg) = CANNM_CHANNEL_COUNT b \<and>
     (\<forall>i < CANNM_CHANNEL_COUNT b. conf_ok (conf_at cfg i)) \<and> pn_ok b cfg \<and>
     distinct (map NmNetworkHandle (cfg_Channels cfg)) \<and> lookup_ok b cfg"

definition nm_ok :: "CanNm_Build \<Rightarrow> CanNm_ConfigType \<Rightarrow> CanNm_InternalType \<Rightarrow> bool" where
  "nm_ok b cfg st \<longleftrightarrow> InitStatus st = CANNM_STATUS_INIT \<and> CanNm_ConfigPtr st = Some cfg \<and>
     length (Channels st) = CANNM_CHANNEL_COUNT b \<and> (\<forall>i < CANNM_CHANNEL_COUNT b. chan_ok b (conf_at cfg i) (chan_at st i)) \<and>
     glob_ok b (Glob st)"

section \<open>Moves of the module\<close>

text \<open>
  A move as channel \<open>i\<close> sees it: \<open>rq\<close> tells whether its request may have been withdrawn, and \<open>n\<close> how often
  the main function ran.
\<close>

definition chan_move :: "CanNm_Build \<Rightarrow> CanNm_ConfigType \<Rightarrow> nat \<Rightarrow> bool \<Rightarrow> nat \<Rightarrow> CanNm_InternalType \<Rightarrow> CanNm_InternalType \<Rightarrow> bool" where
  "chan_move b cfg i rq n st st' \<longleftrightarrow>
     (\<exists>p cs. nm_run (State (chan_at st i), Requested (chan_at st i)) p (State (chan_at st' i), Requested (chan_at st' i)) \<and>
        nm_calls (Glob st') = nm_calls (Glob st) @ cs \<and>
        changes (NmNetworkHandle (conf_at cfg i)) cs = (if CANNM_STATE_CHANGE_IND_ENABLED b then p else [])) \<and>
     (Requested (chan_at st i) \<and> \<not> rq \<longrightarrow> Requested (chan_at st' i)) \<and>
     (Mode (chan_at st i) = NM_MODE_NETWORK \<and> n * unat (MainFunctionPeriod (conf_at cfg i)) < unat (TimeoutTimeLeft (chan_at st i)) \<longrightarrow>
        Mode (chan_at st' i) = NM_MODE_NETWORK \<and>
        unat (TimeoutTimeLeft (chan_at st i)) \<le> unat (TimeoutTimeLeft (chan_at st' i)) + n * unat (MainFunctionPeriod (conf_at cfg i)))"

definition nm_move :: "CanNm_Build \<Rightarrow> CanNm_ConfigType \<Rightarrow> (nat \<Rightarrow> bool) \<Rightarrow> (nat \<Rightarrow> nat) \<Rightarrow> CanNm_InternalType \<Rightarrow> CanNm_InternalType \<Rightarrow> bool" where
  "nm_move b cfg rq n st st' \<longleftrightarrow> nm_ok b cfg st' \<and> nm_os (Glob st') = nm_os (Glob st) \<and>
     (\<forall>i < CANNM_CHANNEL_COUNT b. chan_move b cfg i (rq i) (n i) st st')"

lemma chan_move_trans:
  assumes "chan_move b cfg i rq n st st'" "chan_move b cfg i rq' m st' st''"
  shows "chan_move b cfg i (rq \<or> rq') (n + m) st st''"
proof -
  obtain p cs where p: "nm_run (State (chan_at st i), Requested (chan_at st i)) p (State (chan_at st' i), Requested (chan_at st' i))"
    "nm_calls (Glob st') = nm_calls (Glob st) @ cs"
    "changes (NmNetworkHandle (conf_at cfg i)) cs = (if CANNM_STATE_CHANGE_IND_ENABLED b then p else [])"
    using assms(1) by (auto simp: chan_move_def)
  obtain q ds where q: "nm_run (State (chan_at st' i), Requested (chan_at st' i)) q (State (chan_at st'' i), Requested (chan_at st'' i))"
    "nm_calls (Glob st'') = nm_calls (Glob st') @ ds"
    "changes (NmNetworkHandle (conf_at cfg i)) ds = (if CANNM_STATE_CHANGE_IND_ENABLED b then q else [])"
    using assms(2) by (auto simp: chan_move_def)
  have "\<exists>p cs. nm_run (State (chan_at st i), Requested (chan_at st i)) p (State (chan_at st'' i), Requested (chan_at st'' i)) \<and>
        nm_calls (Glob st'') = nm_calls (Glob st) @ cs \<and>
        changes (NmNetworkHandle (conf_at cfg i)) cs = (if CANNM_STATE_CHANGE_IND_ENABLED b then p else [])"
    using run_trans [OF p(1) q(1)] p(2,3) q(2,3) by (intro exI [of _ "p @ q"] exI [of _ "cs @ ds"]) auto
  then show ?thesis using assms by (auto simp: chan_move_def algebra_simps)
qed

lemma nm_move_trans:
  assumes "nm_move b cfg rq n st st'" "nm_move b cfg rq' m st' st''"
  shows "nm_move b cfg (\<lambda>i. rq i \<or> rq' i) (\<lambda>i. n i + m i) st st''"
  using assms by (auto simp: nm_move_def intro: chan_move_trans)

lemma chan_move_weaken: "chan_move b cfg i rq n st st' \<Longrightarrow> (rq \<Longrightarrow> rq') \<Longrightarrow> chan_move b cfg i rq' n st st'"
  unfolding chan_move_def by blast

lemma chan_move_still:
  assumes "chan_at st' i = chan_at st i" "nm_calls (Glob st') = nm_calls (Glob st) @ cs" "changes (NmNetworkHandle (conf_at cfg i)) cs = []"
  shows "chan_move b cfg i rq n st st'"
  using assms run_refl by (fastforce simp: chan_move_def)

lemma nm_move_refl: "nm_ok b cfg st \<Longrightarrow> nm_move b cfg rq n st st"
  by (simp add: nm_move_def chan_move_still [where cs = "[]"])

text \<open>Only the calls change.\<close>

lemma nm_move_glob:
  assumes "nm_ok b cfg st" "glob_quiet b (Glob st) g"
  shows "nm_move b cfg rq n st (st\<lparr>Glob := g\<rparr>)"
proof -
  obtain cs where "nm_calls g = nm_calls (Glob st) @ cs" "\<forall>h. changes h cs = []"
    using assms(2) by (auto simp: glob_step_def)
  moreover have "glob_ok b g" "nm_os g = nm_os (Glob st)" using assms by (simp_all add: glob_step_def nm_ok_def)
  ultimately show ?thesis using assms(1) by (auto simp: nm_move_def nm_ok_def intro!: chan_move_still)
qed

lemma handles_differ: "cfg_ok b cfg \<Longrightarrow> i < CANNM_CHANNEL_COUNT b \<Longrightarrow> j < CANNM_CHANNEL_COUNT b \<Longrightarrow>
    NmNetworkHandle (conf_at cfg i) = NmNetworkHandle (conf_at cfg j) \<longleftrightarrow> i = j"
  using nth_eq_iff_index_eq [of "map NmNetworkHandle (cfg_Channels cfg)" i j] by (simp add: cfg_ok_def)

text \<open>A step on one channel is a move of the module.\<close>

lemma chan_step_move:
  assumes "cfg_ok b cfg" "nm_ok b cfg st" "i < CANNM_CHANNEL_COUNT b"
    and "chan_step b (conf_at cfg i) rq n (chan_at st i, Glob st) (ch, g)"
  shows "nm_move b cfg (\<lambda>j. j = i \<and> rq) (\<lambda>j. if j = i then n else 0) st (st\<lparr>Channels := (Channels st)[i := ch], Glob := g\<rparr>)"
proof -
  let ?st = "st\<lparr>Channels := (Channels st)[i := ch], Glob := g\<rparr>"
  have l: "i < length (Channels st)" using assms(2,3) by (simp add: nm_ok_def)
  obtain p cs where p: "nm_run (State (chan_at st i), Requested (chan_at st i)) p (State ch, Requested ch)"
    "nm_calls g = nm_calls (Glob st) @ cs"
    "\<forall>h. changes h cs = (if h = NmNetworkHandle (conf_at cfg i) \<and> CANNM_STATE_CHANGE_IND_ENABLED b then p else [])"
    and g: "glob_ok b g" "nm_os g = nm_os (Glob st)"
    using assms(2,4) by (auto simp: chan_step_def glob_step_def nm_ok_def)
  have "chan_ok b (conf_at cfg j) (chan_at ?st j)" if "j < CANNM_CHANNEL_COUNT b" for j
    using assms(2) that l chan_step_ok [OF assms(4)] by (cases "j = i") (simp_all add: nm_ok_def)
  then have "nm_ok b cfg ?st" using assms(2) g(1) by (simp add: nm_ok_def)
  moreover have "chan_move b cfg j (j = i \<and> rq) (if j = i then n else 0) st ?st" if "j < CANNM_CHANNEL_COUNT b" for j
  proof (cases "j = i")
    case True
    have "\<exists>p cs. nm_run (State (chan_at st i), Requested (chan_at st i)) p (State ch, Requested ch) \<and>
        nm_calls g = nm_calls (Glob st) @ cs \<and>
        changes (NmNetworkHandle (conf_at cfg i)) cs = (if CANNM_STATE_CHANGE_IND_ENABLED b then p else [])"
      using p by auto
    then show ?thesis using True l assms(4) by (auto simp: chan_move_def chan_step_def)
  next
    case False
    then show ?thesis using p(2,3) handles_differ [OF assms(1) that assms(3)] by (auto intro!: chan_move_still)
  qed
  ultimately show ?thesis using g(2) by (simp add: nm_move_def)
qed

text \<open>A call that returns with a move, and what it does to the channels.\<close>

definition moves :: "CanNm_Build \<Rightarrow> CanNm_ConfigType \<Rightarrow> (nat \<Rightarrow> bool) \<Rightarrow> CanNm_InternalType \<Rightarrow> ('a \<times> CanNm_InternalType) ub \<Rightarrow> bool" where
  "moves b cfg rq st m \<longleftrightarrow> returns m (\<lambda>x. nm_move b cfg rq (\<lambda>_. 0) st (snd x))"

lemma moves_weaken: "moves b cfg rq st m \<Longrightarrow> (\<And>i. rq i \<Longrightarrow> rq' i) \<Longrightarrow> moves b cfg rq' st m"
  using chan_move_weaken by (fastforce simp: moves_def returns_def nm_move_def)

lemma moves_Some: "nm_ok b cfg st \<Longrightarrow> moves b cfg rq st (Some (v, st))"
  by (simp add: moves_def nm_move_refl)

lemma on_channel_returns:
  assumes "cfg_ok b cfg" "nm_ok b cfg st" "i < CANNM_CHANNEL_COUNT b"
    and "returns (f cfg (conf_at cfg i) (chan_at st i, Glob st))
      (\<lambda>y. chan_step b (conf_at cfg i) rq n (chan_at st i, Glob st) (snd y) \<and> Q (chan_at st i) (fst (snd y)))"
  shows "returns (on_channel f i st) (\<lambda>x. nm_move b cfg (\<lambda>j. j = i \<and> rq) (\<lambda>j. if j = i then n else 0) st (snd x) \<and>
    Q (chan_at st i) (chan_at (snd x) i) \<and> (\<forall>j. j \<noteq> i \<longrightarrow> chan_at (snd x) j = chan_at st j))"
proof -
  obtain r ch g where y: "f cfg (conf_at cfg i) (chan_at st i, Glob st) = Some (r, ch, g)"
    "chan_step b (conf_at cfg i) rq n (chan_at st i, Glob st) (ch, g)" "Q (chan_at st i) ch"
    using assms(4) by (auto simp: returns_def)
  have l: "i < length (Channels st)" "i < length (cfg_Channels cfg)" "CanNm_ConfigPtr st = Some cfg"
    using assms(1-3) by (simp_all add: nm_ok_def cfg_ok_def)
  show ?thesis
    using l y(1,3) chan_step_move [OF assms(1-3) y(2)] by (simp add: on_channel_def deref_def ub_simps)
qed

lemma on_channel_moves:
  assumes "cfg_ok b cfg" "nm_ok b cfg st" "i < CANNM_CHANNEL_COUNT b"
    and "serves b (conf_at cfg i) rq (chan_at st i, Glob st) (f cfg (conf_at cfg i) (chan_at st i, Glob st))"
  shows "moves b cfg (\<lambda>j. j = i \<and> rq) st (on_channel f i st)"
  using on_channel_returns [OF assms(1-3), of f rq 0 "\<lambda>_ _. True"] assms(4) by (auto simp: moves_def returns_def)

section \<open>All channels\<close>

lemma nm_move_cong: "(\<And>i. i < CANNM_CHANNEL_COUNT b \<Longrightarrow> rq i = rq' i \<and> n i = n' i) \<Longrightarrow>
    nm_move b cfg rq n st st' = nm_move b cfg rq' n' st st'"
  by (auto simp: nm_move_def)

lemma each_channel_returns:
  assumes "cfg_ok b cfg" "nm_ok b cfg st"
    and "\<And>i ch g. i < CANNM_CHANNEL_COUNT b \<Longrightarrow> chan_ok b (conf_at cfg i) ch \<Longrightarrow> glob_ok b g \<Longrightarrow>
      returns (f cfg (conf_at cfg i) (ch, g)) (\<lambda>y. chan_step b (conf_at cfg i) False n (ch, g) y \<and> Q i ch (fst y))"
  shows "returns (each_channel b f st) (\<lambda>st'. nm_move b cfg (\<lambda>_. False) (\<lambda>_. n) st st' \<and>
    (\<forall>i < CANNM_CHANNEL_COUNT b. Q i (chan_at st i) (chan_at st' i)))"
proof -
  let ?f = "\<lambda>i st. map_option snd (on_channel (\<lambda>cfg ChannelConf x. do { x \<leftarrow> f cfg ChannelConf x; Some ((), x) }) i st)"
  let ?P = "\<lambda>k st'. nm_move b cfg (\<lambda>_. False) (\<lambda>j. if j < k then n else 0) st st' \<and>
    (\<forall>i < CANNM_CHANNEL_COUNT b. if i < k then Q i (chan_at st i) (chan_at st' i) else chan_at st' i = chan_at st i)"
  have "\<exists>st'. for_each ?f [0..<CANNM_CHANNEL_COUNT b] st = Some st' \<and> ?P (CANNM_CHANNEL_COUNT b) st'"
  proof (rule for_each_upt [where P = ?P])
    show "?P 0 st" using nm_move_refl [OF assms(2)] by simp
    fix i st1
    assume i: "i < CANNM_CHANNEL_COUNT b" and P: "?P i st1"
    have ok: "nm_ok b cfg st1" using P by (simp add: nm_move_def)
    have "returns (f cfg (conf_at cfg i) (chan_at st1 i, Glob st1))
        (\<lambda>y. chan_step b (conf_at cfg i) False n (chan_at st1 i, Glob st1) y \<and> Q i (chan_at st1 i) (fst y))"
      using assms(3) [OF i] ok i by (simp add: nm_ok_def)
    then have "returns (do { x \<leftarrow> f cfg (conf_at cfg i) (chan_at st1 i, Glob st1); Some ((), x) })
        (\<lambda>y. chan_step b (conf_at cfg i) False n (chan_at st1 i, Glob st1) (snd y) \<and> Q i (chan_at st1 i) (fst (snd y)))"
      by (auto simp: returns_def)
    from on_channel_returns [OF assms(1) ok i, of "\<lambda>cfg ChannelConf x. do { x \<leftarrow> f cfg ChannelConf x; Some ((), x) }" False n "Q i", OF this]
    obtain u st2 where st2: "on_channel (\<lambda>cfg ChannelConf x. do { x \<leftarrow> f cfg ChannelConf x; Some ((), x) }) i st1 = Some (u, st2)"
      "nm_move b cfg (\<lambda>j. j = i \<and> False) (\<lambda>j. if j = i then n else 0) st1 st2"
      "Q i (chan_at st1 i) (chan_at st2 i)" "\<forall>j. j \<noteq> i \<longrightarrow> chan_at st2 j = chan_at st1 j"
      by (auto simp: returns_def)
    have "nm_move b cfg (\<lambda>_. False) (\<lambda>j. if j < Suc i then n else 0) st st2"
      using nm_move_trans [OF conjunct1 [OF P] st2(2)]
      by (rule iffD1 [OF nm_move_cong, rotated]) auto
    moreover have "if j < Suc i then Q j (chan_at st j) (chan_at st2 j) else chan_at st2 j = chan_at st j"
      if "j < CANNM_CHANNEL_COUNT b" for j
      using conjunct2 [OF P] st2(3,4) that i by (cases "j = i") (auto simp: less_Suc_eq)
    ultimately show "\<exists>st'. ?f i st1 = Some st' \<and> ?P (Suc i) st'" using st2(1) by simp
  qed
  then obtain st' where st': "for_each ?f [0..<CANNM_CHANNEL_COUNT b] st = Some st'" "?P (CANNM_CHANNEL_COUNT b) st'" by blast
  have "nm_move b cfg (\<lambda>_. False) (\<lambda>_. n) st st'"
    using conjunct1 [OF st'(2)] by (rule iffD1 [OF nm_move_cong, rotated]) auto
  then show ?thesis using st' assms(1) by (simp add: each_channel_def cfg_ok_def)
qed

definition chan_progress :: "CanNm_ConfigType \<Rightarrow> nat \<Rightarrow> CanNm_Internal_ChannelType \<Rightarrow> CanNm_Internal_ChannelType \<Rightarrow> bool" where
  "chan_progress cfg i ch ch' \<longleftrightarrow> 0 < MainFunctionPeriod (conf_at cfg i) \<and> sleepy ch \<longrightarrow>
     sleepy ch' \<and> rank (conf_at cfg i) ch' \<le> rank (conf_at cfg i) ch - 1"

lemma chan_progress_core: "chan_progress cfg i ch ch' \<Longrightarrow> core ch'' = core ch' \<Longrightarrow> chan_progress cfg i ch ch''"
  using rank_core(1) [of ch'' ch' "conf_at cfg i"] rank_core(2) [of ch'' ch'] by (simp add: chan_progress_def)

text \<open>The clients of the module see the same channel.\<close>

definition all_progress :: "CanNm_Build \<Rightarrow> CanNm_ConfigType \<Rightarrow> CanNm_InternalType \<Rightarrow> CanNm_InternalType \<Rightarrow> bool" where
  "all_progress b cfg st st' \<longleftrightarrow> nm_move b cfg (\<lambda>_. False) (\<lambda>_. 1) st st' \<and>
     (\<forall>i < CANNM_CHANNEL_COUNT b. chan_progress cfg i (chan_at st i) (chan_at st' i))"

lemma all_progress_idle:
  assumes "all_progress b cfg st st1" "nm_move b cfg (\<lambda>_. False) (\<lambda>_. 0) st1 st2"
    and "\<forall>i < CANNM_CHANNEL_COUNT b. core (chan_at st2 i) = core (chan_at st1 i)"
  shows "all_progress b cfg st st2"
  using nm_move_trans [OF _ assms(2), of "\<lambda>_. False" "\<lambda>_. 1" st] assms(1,3) chan_progress_core
  by (auto simp: all_progress_def)

lemma main_channels_return:
  assumes "cfg_ok b cfg" "nm_ok b cfg st"
  shows "returns (each_channel b (main_channel b) st) (all_progress b cfg st)"
proof -
  have "returns (each_channel b (main_channel b) st) (\<lambda>st'. nm_move b cfg (\<lambda>_. False) (\<lambda>_. 1) st st' \<and>
      (\<forall>i < CANNM_CHANNEL_COUNT b. chan_progress cfg i (chan_at st i) (chan_at st' i)))"
  proof (rule each_channel_returns [OF assms])
    fix i ch g
    assume a: "i < CANNM_CHANNEL_COUNT b" "chan_ok b (conf_at cfg i) ch" "glob_ok b g"
    have "returns (main_channel b cfg (conf_at cfg i) (ch, g)) (main_step b (conf_at cfg i) (ch, g))"
      using assms(1) a by (intro main_channel_returns) (simp_all add: cfg_ok_def)
    then show "returns (main_channel b cfg (conf_at cfg i) (ch, g))
        (\<lambda>y. chan_step b (conf_at cfg i) False 1 (ch, g) y \<and> chan_progress cfg i ch (fst y))"
      by (rule returns_mono) (simp add: main_step_def progress_def chan_progress_def)
  qed
  then show ?thesis unfolding all_progress_def .
qed

text \<open>Nothing but messages and partial networks change.\<close>

lemma nm_move_idle:
  assumes "nm_ok b cfg st" "glob_quiet b (Glob st) (Glob st')"
    and "InitStatus st' = InitStatus st" "CanNm_ConfigPtr st' = CanNm_ConfigPtr st" "length (Channels st') = length (Channels st)"
    and "\<forall>i < CANNM_CHANNEL_COUNT b. same_core b (chan_at st i) (chan_at st' i)"
  shows "nm_move b cfg rq (\<lambda>_. 0) st st'"
proof -
  have g: "glob_ok b (Glob st')" "nm_os (Glob st') = nm_os (Glob st)" using assms(1,2) by (simp_all add: glob_step_def nm_ok_def)
  have c: "chan_step b (conf_at cfg i) (rq i) 0 (chan_at st i, Glob st) (chan_at st' i, Glob st')" if "i < CANNM_CHANNEL_COUNT b" for i
    using assms(1,2,6) that by (intro chan_step_same_core [OF chan_step_refl]) (simp_all add: nm_ok_def)
  then have "chan_move b cfg i (rq i) 0 st st'" if "i < CANNM_CHANNEL_COUNT b" for i
    using that by (fastforce simp: chan_step_def chan_move_def glob_step_def)
  then show ?thesis using assms(1,3-5) g chan_step_ok [OF c] by (simp add: nm_move_def nm_ok_def)
qed

text \<open>The timers of the external requests, inside one exclusive area.\<close>

definition era_loop :: "CanNm_Build \<Rightarrow> CanNm_InternalType \<Rightarrow> CanNm_InternalType \<Rightarrow> bool" where
  "era_loop b st st' \<longleftrightarrow> InitStatus st' = InitStatus st \<and> CanNm_ConfigPtr st' = CanNm_ConfigPtr st \<and>
     length (Channels st') = length (Channels st) \<and> (\<forall>i < CANNM_CHANNEL_COUNT b. same_core b (chan_at st i) (chan_at st' i)) \<and>
     in_area b [] 0 (SchM_Enter_CanNm_EA_0 (Glob st)) (Glob st')"

lemma era_loop_step:
  assumes "cfg_ok b cfg" "nm_ok b cfg st" "0 < CANNM_PNC_COUNT b" "i < CANNM_CHANNEL_COUNT b" "era_loop b st st1"
  shows "returns (on_channel (\<lambda>cfg ChannelConf x. do { x \<leftarrow> tick_pn_era b cfg ChannelConf x; Some ((), x) }) i st1) (\<lambda>x. era_loop b st (snd x))"
proof -
  have l: "i < length (Channels st1)" "i < length (cfg_Channels cfg)" "CanNm_ConfigPtr st1 = Some cfg"
    using assms by (simp_all add: nm_ok_def cfg_ok_def era_loop_def)
  have s: "same_core b (chan_at st i) (chan_at st1 i)" using assms(4,5) by (simp add: era_loop_def)
  have d: "data_ok b (chan_at st1 i)"
    using same_core_data [OF s] assms(2,4) by (simp add: nm_ok_def chan_ok_def)
  have "pn_ok b cfg" using assms(1) by (simp add: cfg_ok_def)
  from tick_pn_era_returns [OF this assms(3) d, of "conf_at cfg i" "Glob st1"] obtain ch g where
    y: "tick_pn_era b cfg (conf_at cfg i) (chan_at st1 i, Glob st1) = Some (ch, g)" "same_core b (chan_at st1 i) ch"
      "in_area b [] 0 (Glob st1) g"
    by (auto simp: returns_def)
  have "era_loop b st (st1\<lparr>Channels := (Channels st1)[i := ch], Glob := g\<rparr>)"
    using assms(5) l(1) same_core_trans [OF s y(2)] in_area_trans [OF _ y(3)] unfolding era_loop_def
    by (auto simp: nth_list_update)
  then show ?thesis using l y(1) by (simp add: on_channel_def deref_def ub_simps)
qed

lemma TickPnEra_returns:
  assumes "cfg_ok b cfg" "nm_ok b cfg st" "0 < CANNM_PNC_COUNT b"
  shows "returns (CanNm_Internal_TickPnEraResetTime b st) (\<lambda>st'. nm_move b cfg (\<lambda>_. False) (\<lambda>_. 0) st st' \<and>
    (\<forall>i < CANNM_CHANNEL_COUNT b. core (chan_at st' i) = core (chan_at st i)))"
proof -
  let ?f = "\<lambda>i st. map_option snd (on_channel (\<lambda>cfg ChannelConf x. do { x \<leftarrow> tick_pn_era b cfg ChannelConf x; Some ((), x) }) i st)"
  have "\<exists>st'. for_each ?f [0..<CANNM_CHANNEL_COUNT b] (on_glob SchM_Enter_CanNm_EA_0 st) = Some st' \<and> era_loop b st st'"
  proof (rule for_each_inv)
    show "era_loop b st (on_glob SchM_Enter_CanNm_EA_0 st)" by (simp add: era_loop_def on_glob_def in_area_refl)
    fix i st1
    assume "i \<in> set [0..<CANNM_CHANNEL_COUNT b]" "era_loop b st st1"
    then show "\<exists>st2. ?f i st1 = Some st2 \<and> era_loop b st st2"
      using era_loop_step [OF assms, of i st1] by (auto simp: returns_def)
  qed
  then obtain st1 where st1: "for_each ?f [0..<CANNM_CHANNEL_COUNT b] (on_glob SchM_Enter_CanNm_EA_0 st) = Some st1" "era_loop b st st1"
    by blast
  have "nm_move b cfg (\<lambda>_. False) (\<lambda>_. 0) st (on_glob SchM_Exit_CanNm_EA_0 st1)"
    using st1(2) by (intro nm_move_idle [OF assms(2)]) (auto simp: era_loop_def on_glob_def intro: in_area_quiet [rule_format])
  then show ?thesis
    using st1 assms(1) by (auto simp: CanNm_Internal_TickPnEraResetTime_def each_channel_def cfg_ok_def era_loop_def same_core_def on_glob_def)
qed

lemma TickPnEIRA_returns:
  assumes "cfg_ok b cfg" "nm_ok b cfg st" "0 < CANNM_PNC_COUNT b"
  shows "returns (do { cfg \<leftarrow> deref (CanNm_ConfigPtr st); g \<leftarrow> CanNm_Internal_TickPnEIRAResetTime b cfg (Glob st); Some (st\<lparr>Glob := g\<rparr>) })
    (\<lambda>st'. nm_move b cfg (\<lambda>_. False) (\<lambda>_. 0) st st' \<and> (\<forall>i < CANNM_CHANNEL_COUNT b. core (chan_at st' i) = core (chan_at st i)))"
proof -
  have "pn_ok b cfg" "glob_ok b (Glob st)" using assms by (simp_all add: cfg_ok_def nm_ok_def)
  from TickPnEIRAResetTime_returns [OF this(1) assms(3) this(2)] obtain g where
    g: "CanNm_Internal_TickPnEIRAResetTime b cfg (Glob st) = Some g" "glob_quiet b (Glob st) g" unfolding returns_def by blast
  then show ?thesis using nm_move_glob [OF assms(2) g(2)] assms(2) by (simp add: nm_ok_def deref_def)
qed

lemma MainFunction_returns:
  assumes "cfg_ok b cfg" "nm_ok b cfg st"
  shows "returns (CanNm_MainFunction b st) (\<lambda>x. all_progress b cfg st (snd x))"
proof -
  let ?E = "\<lambda>st. if eira_calc b then do { cfg \<leftarrow> deref (CanNm_ConfigPtr st); g \<leftarrow> CanNm_Internal_TickPnEIRAResetTime b cfg (Glob st);
    Some (st\<lparr>Glob := g\<rparr>) } else Some st"
  let ?R = "\<lambda>st. if era_calc b then CanNm_Internal_TickPnEraResetTime b st else Some st"
  obtain st1 where st1: "each_channel b (main_channel b) st = Some st1" "all_progress b cfg st st1"
    using main_channels_return [OF assms] unfolding returns_def by blast
  have ok1: "nm_ok b cfg st1" using st1(2) by (simp add: all_progress_def nm_move_def)
  have "returns (?E st1) (\<lambda>st'. nm_move b cfg (\<lambda>_. False) (\<lambda>_. 0) st1 st' \<and>
      (\<forall>i < CANNM_CHANNEL_COUNT b. core (chan_at st' i) = core (chan_at st1 i)))"
    using TickPnEIRA_returns [OF assms(1) ok1] nm_move_refl [OF ok1] by (cases "eira_calc b") auto
  then obtain st2 where st2: "?E st1 = Some st2" "all_progress b cfg st st2"
    using all_progress_idle [OF st1(2)] unfolding returns_def by blast
  have ok2: "nm_ok b cfg st2" using st2(2) by (simp add: all_progress_def nm_move_def)
  have "returns (?R st2) (\<lambda>st'. nm_move b cfg (\<lambda>_. False) (\<lambda>_. 0) st2 st' \<and>
      (\<forall>i < CANNM_CHANNEL_COUNT b. core (chan_at st' i) = core (chan_at st2 i)))"
    using TickPnEra_returns [OF assms(1) ok2] nm_move_refl [OF ok2] by (cases "era_calc b") auto
  then obtain st3 where st3: "?R st2 = Some st3" "all_progress b cfg st st3"
    using all_progress_idle [OF st2(2)] unfolding returns_def by blast
  have "InitStatus st = CANNM_STATUS_INIT" using assms(2) by (simp add: nm_ok_def)
  then show ?thesis
    using st1(1) st2(1) st3 by (simp add: CanNm_MainFunction_def CANNM_VALIDATE_INIT_def CANNM_VALIDATE_def)
qed

section \<open>Services\<close>

lemma validate_moves:
  assumes "nm_ok b cfg st" "expr = Some c" "c \<Longrightarrow> moves b cfg rq st k" "\<not> c \<Longrightarrow> CANNM_DEV_ERROR_DETECT b"
  shows "moves b cfg rq st (CANNM_VALIDATE b expr s e inst rv st k)"
proof (cases "CANNM_DEV_ERROR_DETECT b \<and> \<not> c")
  case True
  have "nm_move b cfg rq (\<lambda>_. 0) st (on_glob (CANNM_DET_REPORTERROR b s e inst) st)"
    unfolding on_glob_def by (rule nm_move_glob [OF assms(1) det_quiet])
  then show ?thesis using True assms(2) by (simp add: CANNM_VALIDATE_def moves_def)
next
  case False
  then show ?thesis using assms by (auto simp: CANNM_VALIDATE_def)
qed

text \<open>Arguments: without error detection a handle has to be that of a channel.\<close>

definition known_handle :: "CanNm_ConfigType \<Rightarrow> uint8 \<Rightarrow> bool" where
  "known_handle cfg h \<longleftrightarrow> h < ChannelLookupsSize cfg \<and> ChannelLookups cfg ! unat h \<noteq> 0xFF"

definition handle_ok :: "CanNm_Build \<Rightarrow> CanNm_ConfigType \<Rightarrow> uint8 \<Rightarrow> bool" where
  "handle_ok b cfg h \<longleftrightarrow> CANNM_DEV_ERROR_DETECT b \<or> known_handle cfg h"

lemma known_channel_Some:
  assumes "cfg_ok b cfg" "nm_ok b cfg st"
  shows "known_channel h st = Some (known_handle cfg h)"
  using assms by (simp add: known_channel_def known_handle_def cfg_ok_def lookup_ok_def nm_ok_def deref_def ub_simps word_less_nat_alt)

lemma channel_of_Some:
  assumes "cfg_ok b cfg" "nm_ok b cfg st" "known_handle cfg h"
  shows "\<exists>i. channel_of h st = Some i \<and> i < CANNM_CHANNEL_COUNT b \<and> NmNetworkHandle (conf_at cfg i) = h"
proof -
  have l: "unat h < unat (ChannelLookupsSize cfg)" using assms(3) by (simp add: known_handle_def word_less_nat_alt)
  then have "unat h < length (ChannelLookups cfg)" using assms(1) by (simp add: cfg_ok_def lookup_ok_def)
  moreover have "unat (ChannelLookups cfg ! unat h) < CANNM_CHANNEL_COUNT b"
    "NmNetworkHandle (conf_at cfg (unat (ChannelLookups cfg ! unat h))) = of_nat (unat h)"
    using assms(1,3) l by (simp_all add: cfg_ok_def lookup_ok_def known_handle_def)
  ultimately show ?thesis using assms(2) by (simp add: channel_of_def nm_ok_def deref_def ub_simps)
qed

lemma init_moves:
  assumes "nm_ok b cfg st" "moves b cfg rq st k"
  shows "moves b cfg rq st (CANNM_VALIDATE_INIT b s i rv st k)"
  unfolding CANNM_VALIDATE_INIT_def using assms(1) by (intro validate_moves [OF assms(1) refl assms(2)]) (simp add: nm_ok_def)

lemma channel_moves:
  assumes "cfg_ok b cfg" "nm_ok b cfg st" "handle_ok b cfg h" "known_handle cfg h \<Longrightarrow> moves b cfg rq st k"
  shows "moves b cfg rq st (CANNM_VALIDATE_CHANNEL b h s rv st k)"
  unfolding CANNM_VALIDATE_CHANNEL_def using assms(3)
  by (intro validate_moves [OF assms(2) known_channel_Some [OF assms(1,2)] assms(4)]) (auto simp: handle_ok_def)

lemma notnull_moves:
  assumes "nm_ok b cfg st" "p = None \<Longrightarrow> CANNM_DEV_ERROR_DETECT b" "p \<noteq> None \<Longrightarrow> moves b cfg rq st k"
  shows "moves b cfg rq st (CANNM_VALIDATE_NOTNULL b p s i rv st k)"
  unfolding CANNM_VALIDATE_NOTNULL_def using assms by (intro validate_moves [OF assms(1) refl]) auto

text \<open>A service on the channel of a handle.\<close>

lemma selected_moves:
  assumes "cfg_ok b cfg" "nm_ok b cfg st" "known_handle cfg h"
    and "\<And>i. i < CANNM_CHANNEL_COUNT b \<Longrightarrow> serves b (conf_at cfg i) rq (chan_at st i, Glob st) (f cfg (conf_at cfg i) (chan_at st i, Glob st))"
  shows "moves b cfg (\<lambda>j. NmNetworkHandle (conf_at cfg j) = h \<and> rq) st (do { i \<leftarrow> channel_of h st; on_channel f i st })"
proof -
  obtain i where i: "channel_of h st = Some i" "i < CANNM_CHANNEL_COUNT b" "NmNetworkHandle (conf_at cfg i) = h"
    using channel_of_Some [OF assms(1-3)] by blast
  have "moves b cfg (\<lambda>j. NmNetworkHandle (conf_at cfg j) = h \<and> rq) st (on_channel f i st)"
    using i(3) by (intro moves_weaken [OF on_channel_moves [of b cfg st i f rq, OF assms(1,2) i(2) assms(4) [OF i(2)]]]) simp
  then show ?thesis using i(1) by simp
qed

lemma on_handle_moves:
  assumes "cfg_ok b cfg" "nm_ok b cfg st" "handle_ok b cfg h"
    and "\<And>i. i < CANNM_CHANNEL_COUNT b \<Longrightarrow> serves b (conf_at cfg i) rq (chan_at st i, Glob st) (f cfg (conf_at cfg i) (chan_at st i, Glob st))"
  shows "moves b cfg (\<lambda>j. NmNetworkHandle (conf_at cfg j) = h \<and> rq) st (on_handle b s h rv f st)"
  unfolding on_handle_def
  by (intro init_moves channel_moves selected_moves assms)

lemma on_handle_ptr_moves:
  assumes "cfg_ok b cfg" "nm_ok b cfg st" "handle_ok b cfg h" "p = None \<Longrightarrow> CANNM_DEV_ERROR_DETECT b"
    and "\<And>i. p \<noteq> None \<Longrightarrow> i < CANNM_CHANNEL_COUNT b \<Longrightarrow>
      serves b (conf_at cfg i) False (chan_at st i, Glob st) (f cfg (conf_at cfg i) (chan_at st i, Glob st))"
  shows "moves b cfg (\<lambda>_. False) st (on_handle_ptr b s h p rv f st)"
proof -
  have "moves b cfg (\<lambda>_. False) st (do { i \<leftarrow> channel_of h st; on_channel f i st })" if "known_handle cfg h" "p \<noteq> None"
    using selected_moves [of b cfg st h f False, OF assms(1,2) that(1) assms(5) [OF that(2)]] by simp
  then show ?thesis unfolding on_handle_ptr_def by (intro init_moves channel_moves notnull_moves assms)
qed

section \<open>Calls of the module\<close>

datatype nm_op =
  NmPassiveStartUp uint8
| NmNetworkRequest uint8
| NmNetworkRelease uint8
| NmDisableCommunication uint8
| NmEnableCommunication uint8
| NmSetUserData uint8 "uint8 list ptr"
| NmGetUserData uint8 "uint8 list ptr"
| NmGetNodeIdentifier uint8 "uint8 ptr"
| NmGetLocalNodeIdentifier uint8 "uint8 ptr"
| NmRepeatMessageRequest uint8
| NmGetPduData uint8 "uint8 list ptr"
| NmGetState uint8 "Nm_StateType ptr" "Nm_ModeType ptr"
| NmRequestBusSynchronization uint8
| NmCheckRemoteSleepIndication uint8 "bool ptr"
| NmConfirmPnAvailability uint8
| NmTxConfirmation uint16
| NmRxIndication uint16 "uint8 list ptr ptr"
| NmTransmit uint16 "uint8 list ptr ptr"
| NmMainFunction

fun nm_exec :: "CanNm_Build \<Rightarrow> nm_op \<Rightarrow> CanNm_InternalType \<Rightarrow> CanNm_InternalType ub" where
  "nm_exec b (NmPassiveStartUp h) st = map_option snd (CanNm_PassiveStartUp b h st)"
| "nm_exec b (NmNetworkRequest h) st = map_option snd (CanNm_NetworkRequest b h st)"
| "nm_exec b (NmNetworkRelease h) st = map_option snd (CanNm_NetworkRelease b h st)"
| "nm_exec b (NmDisableCommunication h) st = map_option snd (CanNm_DisableCommunication b h st)"
| "nm_exec b (NmEnableCommunication h) st = map_option snd (CanNm_EnableCommunication b h st)"
| "nm_exec b (NmSetUserData h p) st = map_option snd (CanNm_SetUserData b h p st)"
| "nm_exec b (NmGetUserData h p) st = map_option snd (CanNm_GetUserData b h p st)"
| "nm_exec b (NmGetNodeIdentifier h p) st = map_option snd (CanNm_GetNodeIdentifier b h p st)"
| "nm_exec b (NmGetLocalNodeIdentifier h p) st = map_option snd (CanNm_GetLocalNodeIdentifier b h p st)"
| "nm_exec b (NmRepeatMessageRequest h) st = map_option snd (CanNm_RepeatMessageRequest b h st)"
| "nm_exec b (NmGetPduData h p) st = map_option snd (CanNm_GetPduData b h p st)"
| "nm_exec b (NmGetState h p q) st = map_option snd (CanNm_GetState b h p q st)"
| "nm_exec b (NmRequestBusSynchronization h) st = map_option snd (CanNm_RequestBusSynchronization b h st)"
| "nm_exec b (NmCheckRemoteSleepIndication h p) st = map_option snd (CanNm_CheckRemoteSleepIndication b h p st)"
| "nm_exec b (NmConfirmPnAvailability h) st = map_option snd (CanNm_ConfirmPnAvailability b h st)"
| "nm_exec b (NmTxConfirmation i) st = map_option snd (CanNm_TxConfirmation b i st)"
| "nm_exec b (NmRxIndication i p) st = map_option snd (CanNm_RxIndication b i p st)"
| "nm_exec b (NmTransmit i p) st = map_option snd (CanNm_Transmit b i p st)"
| "nm_exec b NmMainFunction st = map_option snd (CanNm_MainFunction b st)"

definition nm_exec_all :: "CanNm_Build \<Rightarrow> nm_op list \<Rightarrow> CanNm_InternalType \<Rightarrow> CanNm_InternalType ub" where
  "nm_exec_all b = for_each (nm_exec b)"

text \<open>
  Valid arguments. With error detection, unknown handles and identifiers and \<^verbatim>\<open>NULL\<close> are allowed; a buffer has
  the size of a message. \<^verbatim>\<open>CanNm_ConfirmPnAvailability\<close> does not test for a handle without channel.
\<close>

definition ptr_valid :: "CanNm_Build \<Rightarrow> 'p ptr \<Rightarrow> bool" where
  "ptr_valid b p \<longleftrightarrow> CANNM_DEV_ERROR_DETECT b \<or> p \<noteq> None"

definition buf_valid :: "CanNm_Build \<Rightarrow> uint8 list ptr \<Rightarrow> bool" where
  "buf_valid b p \<longleftrightarrow> (case p of None \<Rightarrow> CANNM_DEV_ERROR_DETECT b | Some bs \<Rightarrow> 8 \<le> length bs)"

definition info_valid :: "CanNm_Build \<Rightarrow> uint8 list ptr ptr \<Rightarrow> bool" where
  "info_valid b p \<longleftrightarrow> (case p of None \<Rightarrow> CANNM_DEV_ERROR_DETECT b | Some q \<Rightarrow> buf_valid b q)"

fun op_valid :: "CanNm_Build \<Rightarrow> CanNm_ConfigType \<Rightarrow> nm_op \<Rightarrow> bool" where
  "op_valid b cfg (NmPassiveStartUp h) = handle_ok b cfg h"
| "op_valid b cfg (NmNetworkRequest h) = handle_ok b cfg h"
| "op_valid b cfg (NmNetworkRelease h) = handle_ok b cfg h"
| "op_valid b cfg (NmDisableCommunication h) = handle_ok b cfg h"
| "op_valid b cfg (NmEnableCommunication h) = handle_ok b cfg h"
| "op_valid b cfg (NmSetUserData h p) = (handle_ok b cfg h \<and> buf_valid b p)"
| "op_valid b cfg (NmGetUserData h p) = (handle_ok b cfg h \<and> buf_valid b p)"
| "op_valid b cfg (NmGetNodeIdentifier h p) = (handle_ok b cfg h \<and> ptr_valid b p)"
| "op_valid b cfg (NmGetLocalNodeIdentifier h p) = (handle_ok b cfg h \<and> ptr_valid b p)"
| "op_valid b cfg (NmRepeatMessageRequest h) = handle_ok b cfg h"
| "op_valid b cfg (NmGetPduData h p) = (handle_ok b cfg h \<and> buf_valid b p)"
| "op_valid b cfg (NmGetState h p q) = (handle_ok b cfg h \<and> ptr_valid b p \<and> ptr_valid b q)"
| "op_valid b cfg (NmRequestBusSynchronization h) = handle_ok b cfg h"
| "op_valid b cfg (NmCheckRemoteSleepIndication h p) = (handle_ok b cfg h \<and> ptr_valid b p)"
| "op_valid b cfg (NmConfirmPnAvailability h) = (CANNM_DEV_ERROR_DETECT b \<and> \<not> h < ChannelLookupsSize cfg \<or> known_handle cfg h)"
| "op_valid b cfg (NmTxConfirmation i) = (CANNM_DEV_ERROR_DETECT b \<or> unat i < CANNM_CHANNEL_COUNT b)"
| "op_valid b cfg (NmRxIndication i p) = ((CANNM_DEV_ERROR_DETECT b \<or> unat i < CANNM_CHANNEL_COUNT b) \<and> info_valid b p)"
| "op_valid b cfg (NmTransmit i p) = info_valid b p"
| "op_valid b cfg NmMainFunction = True"

text \<open>Whether a call may withdraw the request of a channel, and whether it is the main function.\<close>

definition releases :: "CanNm_ConfigType \<Rightarrow> nm_op \<Rightarrow> nat \<Rightarrow> bool" where
  "releases cfg op i \<longleftrightarrow> op = NmNetworkRelease (NmNetworkHandle (conf_at cfg i))"

definition mains :: "nm_op list \<Rightarrow> nat" where
  "mains ops = length (filter (\<lambda>op. op = NmMainFunction) ops)"

section \<open>Every call is a move\<close>

lemma chan_facts:
  assumes "cfg_ok b cfg" "nm_ok b cfg st" "i < CANNM_CHANNEL_COUNT b"
  shows "conf_ok (conf_at cfg i)" "chan_ok b (conf_at cfg i) (chan_at st i)" "glob_ok b (Glob st)" "pn_ok b cfg"
    "data_ok b (chan_at st i)"
  using assms by (simp_all add: cfg_ok_def nm_ok_def chan_ok_def)

lemma move_handles:
  assumes "cfg_ok b cfg" "nm_ok b cfg st" "handle_ok b cfg h"
  shows "moves b cfg (\<lambda>_. False) st (CanNm_PassiveStartUp b h st)"
    "moves b cfg (\<lambda>_. False) st (CanNm_NetworkRequest b h st)"
    "moves b cfg (\<lambda>j. NmNetworkHandle (conf_at cfg j) = h) st (CanNm_NetworkRelease b h st)"
    "moves b cfg (\<lambda>_. False) st (CanNm_DisableCommunication b h st)"
    "moves b cfg (\<lambda>_. False) st (CanNm_EnableCommunication b h st)"
    "moves b cfg (\<lambda>_. False) st (CanNm_RepeatMessageRequest b h st)"
proof -
  note f = chan_facts [OF assms(1,2)]
  have n: "moves b cfg (\<lambda>_. False) st (CANNM_VALIDATE_INIT b s i False st (Some (False, st)))" for s i
    by (rule init_moves [OF assms(2) moves_Some [OF assms(2)]])
  show "moves b cfg (\<lambda>_. False) st (CanNm_PassiveStartUp b h st)"
    using on_handle_moves [of b cfg st h "passive_start_up b" False, OF assms serves_passive_start_up [OF f(1,2)]]
    by (simp add: CanNm_PassiveStartUp_def)
  show "moves b cfg (\<lambda>_. False) st (CanNm_NetworkRequest b h st)"
    using on_handle_moves [of b cfg st h "network_request b" False, OF assms serves_network_request [OF f(1,2)]]
    by (simp add: CanNm_NetworkRequest_def)
  show "moves b cfg (\<lambda>j. NmNetworkHandle (conf_at cfg j) = h) st (CanNm_NetworkRelease b h st)"
    using on_handle_moves [of b cfg st h "network_release b" True, OF assms serves_network_release [OF f(2)]]
    by (simp add: CanNm_NetworkRelease_def)
  show "moves b cfg (\<lambda>_. False) st (CanNm_DisableCommunication b h st)"
    using on_handle_moves [of b cfg st h disable_communication False, OF assms serves_disable_communication [OF f(2)]]
      n by (simp add: CanNm_DisableCommunication_def)
  show "moves b cfg (\<lambda>_. False) st (CanNm_EnableCommunication b h st)"
    using on_handle_moves [of b cfg st h enable_communication False, OF assms serves_enable_communication [OF f(1,2)]]
      n by (simp add: CanNm_EnableCommunication_def)
  show "moves b cfg (\<lambda>_. False) st (CanNm_RepeatMessageRequest b h st)"
    using on_handle_moves [of b cfg st h "repeat_message_request b" False, OF assms serves_repeat_message_request [OF f(1,2)]]
    by (simp add: CanNm_RepeatMessageRequest_def)
qed

text \<open>Services with a pointer.\<close>

lemma serves_same: "chan_ok b conf ch \<Longrightarrow> returns m (\<lambda>y. snd y = (ch, g)) \<Longrightarrow> serves b conf rq (ch, g) m"
  using chan_step_refl [of b conf ch rq 0 g] by (auto simp: returns_def)

lemma move_pointers:
  assumes "cfg_ok b cfg" "nm_ok b cfg st" "handle_ok b cfg h"
  shows "buf_valid b p \<Longrightarrow> moves b cfg (\<lambda>_. False) st (CanNm_SetUserData b h p st)"
    "buf_valid b p \<Longrightarrow> moves b cfg (\<lambda>_. False) st (CanNm_GetUserData b h p st)"
    "ptr_valid b q \<Longrightarrow> moves b cfg (\<lambda>_. False) st (CanNm_GetNodeIdentifier b h q st)"
    "ptr_valid b q \<Longrightarrow> moves b cfg (\<lambda>_. False) st (CanNm_GetLocalNodeIdentifier b h q st)"
    "buf_valid b p \<Longrightarrow> moves b cfg (\<lambda>_. False) st (CanNm_GetPduData b h p st)"
proof -
  note f = chan_facts [OF assms(1,2)]
  have len: "unat (PduLength (conf_at cfg i)) \<le> 8" "unat (CanNm_Internal_GetUserDataLength (conf_at cfg i)) \<le> 8"
    "unat (CanNm_Internal_GetUserDataOffset (conf_at cfg i)) + unat (CanNm_Internal_GetUserDataLength (conf_at cfg i)) \<le> 8"
    if "i < CANNM_CHANNEL_COUNT b" for i
    using user_data_length [OF f(1) [OF that]] by simp_all
  have rx: "length (RxMessageSdu (chan_at st i)) = 8" if "i < CANNM_CHANNEL_COUNT b" for i
    using f(5) [OF that] by (simp add: data_ok_def)
  show "buf_valid b p \<Longrightarrow> moves b cfg (\<lambda>_. False) st (CanNm_SetUserData b h p st)"
    unfolding CanNm_SetUserData_def using serves_user_data_set [OF f(1,2,3)] len(1)
    by (intro on_handle_ptr_moves assms) (fastforce simp: buf_valid_def split: option.splits)+
  show "buf_valid b p \<Longrightarrow> moves b cfg (\<lambda>_. False) st (CanNm_GetUserData b h p st)"
    unfolding CanNm_GetUserData_def using len rx
    by (intro on_handle_ptr_moves assms serves_same f(2))
      (fastforce simp: buf_valid_def CanNm_Internal_GetUserData_def deref_def ub_simps split: option.splits)+
  show "buf_valid b p \<Longrightarrow> moves b cfg (\<lambda>_. False) st (CanNm_GetPduData b h p st)"
    unfolding CanNm_GetPduData_def using len rx
    by (intro on_handle_ptr_moves assms serves_same f(2))
      (fastforce simp: buf_valid_def deref_def ub_simps split: option.splits)+
  have nid: "pdu_pos (NidPosition (conf_at cfg i)) < 8" if "NidPosition (conf_at cfg i) \<noteq> CANNM_PDU_OFF" for i
    using that by (cases "NidPosition (conf_at cfg i)") (simp_all add: pdu_pos_def)
  show "ptr_valid b q \<Longrightarrow> moves b cfg (\<lambda>_. False) st (CanNm_GetNodeIdentifier b h q st)"
    unfolding CanNm_GetNodeIdentifier_def using nid rx
    by (intro on_handle_ptr_moves assms serves_same f(2)) (auto simp: ptr_valid_def deref_def ub_simps)
  show "ptr_valid b q \<Longrightarrow> moves b cfg (\<lambda>_. False) st (CanNm_GetLocalNodeIdentifier b h q st)"
    unfolding CanNm_GetLocalNodeIdentifier_def
    by (intro on_handle_ptr_moves assms serves_same f(2)) (auto simp: ptr_valid_def deref_def)
qed

lemma move_reads:
  assumes "cfg_ok b cfg" "nm_ok b cfg st" "handle_ok b cfg h"
  shows "ptr_valid b p \<Longrightarrow> ptr_valid b q \<Longrightarrow> moves b cfg (\<lambda>_. False) st (CanNm_GetState b h p q st)"
    "moves b cfg (\<lambda>_. False) st (CanNm_RequestBusSynchronization b h st)"
    "ptr_valid b r \<Longrightarrow> moves b cfg (\<lambda>_. False) st (CanNm_CheckRemoteSleepIndication b h r st)"
proof -
  note f = chan_facts [OF assms(1,2)]
  show "ptr_valid b p \<Longrightarrow> ptr_valid b q \<Longrightarrow> moves b cfg (\<lambda>_. False) st (CanNm_GetState b h p q st)"
    unfolding CanNm_GetState_def Let_def
  proof (intro init_moves channel_moves notnull_moves assms)
    assume k: "known_handle cfg h" and p: "p \<noteq> None" "q \<noteq> None"
    obtain p' q' where p': "p = Some p'" "q = Some q'" using p by auto
    have "moves b cfg (\<lambda>j. NmNetworkHandle (conf_at cfg j) = h \<and> False) st (do { i \<leftarrow> channel_of h st;
        on_channel (\<lambda>cfg ChannelConf (ch, g). Some ((True, Some (State ch), Some (Mode ch)), ch, g)) i st })"
      by (rule selected_moves [OF assms(1,2) k]) (simp add: chan_step_refl [OF f(2)])
    then show "moves b cfg (\<lambda>_. False) st (do { i \<leftarrow> channel_of h st; _ \<leftarrow> deref p; _ \<leftarrow> deref q;
        on_channel (\<lambda>cfg ChannelConf (ch, g). Some ((True, Some (State ch), Some (Mode ch)), ch, g)) i st })"
      unfolding p' by (simp add: deref_def)
  qed (auto simp: ptr_valid_def)
  show "moves b cfg (\<lambda>_. False) st (CanNm_RequestBusSynchronization b h st)"
    unfolding CanNm_RequestBusSynchronization_def by (intro init_moves channel_moves moves_Some assms)
  show "ptr_valid b r \<Longrightarrow> moves b cfg (\<lambda>_. False) st (CanNm_CheckRemoteSleepIndication b h r st)"
    unfolding CanNm_CheckRemoteSleepIndication_def
    by (intro init_moves channel_moves notnull_moves moves_Some assms) (auto simp: ptr_valid_def)
qed

lemma on_pdu_moves:
  assumes "cfg_ok b cfg" "nm_ok b cfg st" "CANNM_DEV_ERROR_DETECT b \<or> unat i < CANNM_CHANNEL_COUNT b"
    and "unat i < CANNM_CHANNEL_COUNT b \<Longrightarrow> returns (f cfg (conf_at cfg (unat i)) (chan_at st (unat i), Glob st))
      (chan_step b (conf_at cfg (unat i)) False 0 (chan_at st (unat i), Glob st))"
  shows "moves b cfg (\<lambda>_. False) st (on_pdu b s i f st)"
  unfolding on_pdu_def
proof (rule validate_moves [OF assms(2) refl])
  assume i: "unat i < CANNM_CHANNEL_COUNT b"
  let ?f = "\<lambda>cfg ChannelConf x. do { x \<leftarrow> f cfg ChannelConf x; Some ((), x) }"
  have "serves b (conf_at cfg (unat i)) False (chan_at st (unat i), Glob st) (?f cfg (conf_at cfg (unat i)) (chan_at st (unat i), Glob st))"
    using assms(4) [OF i] by (auto simp: returns_def)
  from on_channel_moves [of b cfg st "unat i" ?f False, OF assms(1,2) i this]
  show "moves b cfg (\<lambda>_. False) st (on_channel ?f (unat i) st)" by simp
qed (use assms(3) in auto)

end
