(* ===== verification/CanNm_Network.thy ===== *)
theory CanNm_Network
  imports CanNm_Module
begin

text \<open>
  Callbacks and transmissions, sequences of calls, the initialisation, and the properties of network
  management.
\<close>

section \<open>Callbacks\<close>

lemma move_callbacks:
  assumes "cfg_ok b cfg" "nm_ok b cfg st"
  shows "CANNM_DEV_ERROR_DETECT b \<or> unat i < CANNM_CHANNEL_COUNT b \<Longrightarrow> moves b cfg (\<lambda>_. False) st (CanNm_TxConfirmation b i st)"
    "CANNM_DEV_ERROR_DETECT b \<or> unat i < CANNM_CHANNEL_COUNT b \<Longrightarrow> info_valid b p \<Longrightarrow>
       moves b cfg (\<lambda>_. False) st (CanNm_RxIndication b i p st)"
proof -
  note f = chan_facts [OF assms]
  show "CANNM_DEV_ERROR_DETECT b \<or> unat i < CANNM_CHANNEL_COUNT b \<Longrightarrow> moves b cfg (\<lambda>_. False) st (CanNm_TxConfirmation b i st)"
    unfolding CanNm_TxConfirmation_def by (intro init_moves on_pdu_moves assms serves_tx_confirmation f)
  assume i: "CANNM_DEV_ERROR_DETECT b \<or> unat i < CANNM_CHANNEL_COUNT b" and p: "info_valid b p"
  have rx: "moves b cfg (\<lambda>_. False) st (on_pdu b 0x10 i (rx_indication b (ucast i) bs) st)" if "8 \<le> length bs" for bs
  proof (rule on_pdu_moves [OF assms i])
    assume u: "unat i < CANNM_CHANNEL_COUNT b"
    have "unat (PduLength (conf_at cfg (unat i))) \<le> length bs" using f(1) [OF u] that by (simp add: conf_ok_def)
    from rx_indication_returns [OF f(1) [OF u] f(4) [OF u] f(2) [OF u] f(3) [OF u] this]
    show "returns (rx_indication b (ucast i) bs cfg (conf_at cfg (unat i)) (chan_at st (unat i), Glob st))
        (chan_step b (conf_at cfg (unat i)) False 0 (chan_at st (unat i), Glob st))"
      by (rule returns_mono) blast
  qed
  show "moves b cfg (\<lambda>_. False) st (CanNm_RxIndication b i p st)"
    unfolding CanNm_RxIndication_def
  proof (intro init_moves notnull_moves assms)
    assume "p \<noteq> None"
    then obtain q where q: "p = Some q" by auto
    show "moves b cfg (\<lambda>_. False) st (do { info \<leftarrow> deref p; CANNM_VALIDATE_NOTNULL b info 0x10 (ucast i) () st
        (do { sdu \<leftarrow> deref info; on_pdu b 0x10 i (rx_indication b (ucast i) sdu) st }) })"
      unfolding q deref_def Option.bind.bind_lunit
    proof (rule notnull_moves [OF assms(2)])
      assume "q \<noteq> None"
      then show "moves b cfg (\<lambda>_. False) st (do { sdu \<leftarrow> q; on_pdu b 0x10 i (rx_indication b (ucast i) sdu) st })"
        using rx p by (auto simp: q info_valid_def buf_valid_def)
    qed (use p in \<open>simp add: q info_valid_def buf_valid_def\<close>)
  qed (use p in \<open>simp add: info_valid_def\<close>)
qed

lemma find_user_data_le: "find_user_data i cs \<le> length cs"
  by (induction cs) auto

lemma validate_moves':
  assumes "nm_ok b cfg st" "CANNM_DEV_ERROR_DETECT b \<Longrightarrow> expr = Some c"
    and "(CANNM_DEV_ERROR_DETECT b \<Longrightarrow> c) \<Longrightarrow> moves b cfg rq st k"
  shows "moves b cfg rq st (CANNM_VALIDATE b expr s e inst rv st k)"
proof (cases "CANNM_DEV_ERROR_DETECT b")
  case True
  then show ?thesis using assms(3) by (intro validate_moves [OF assms(1) assms(2)]) auto
next
  case False
  then show ?thesis using assms(3) by (simp add: CANNM_VALIDATE_def)
qed

lemma move_transmit:
  assumes "cfg_ok b cfg" "nm_ok b cfg st" "info_valid b p"
  shows "moves b cfg (\<lambda>_. False) st (CanNm_Transmit b i p st)"
proof (cases "com_user_data b")
  case True
  note f = chan_facts [OF assms(1,2)]
  have l: "length (cfg_Channels cfg) = CANNM_CHANNEL_COUNT b" "CANNM_CHANNEL_COUNT b < 256" using assms(1) by (simp_all add: cfg_ok_def)
  let ?k = "find_user_data i (cfg_Channels cfg)"
  have "moves b cfg (\<lambda>_. False) st (CANNM_VALIDATE b (Some (?k < CANNM_CHANNEL_COUNT b)) 0x14 0x03 0 False st (
      CANNM_VALIDATE_CHANNEL b (of_nat ?k) 0x14 False st (
        CANNM_VALIDATE_NOTNULL b p 0x14 (of_nat ?k) False st (
          CANNM_VALIDATE b (do { info \<leftarrow> p; Some (info \<noteq> None) }) 0x14 0x12 (of_nat ?k) False st (
            if ?k < CANNM_CHANNEL_COUNT b then on_channel (transmit_spontaneous b p) ?k st else Some (False, st))))))"
    unfolding CANNM_VALIDATE_CHANNEL_def CANNM_VALIDATE_NOTNULL_def
  proof (rule validate_moves' [OF assms(2) refl], rule validate_moves' [OF assms(2) known_channel_Some [OF assms(1,2)]],
      rule validate_moves' [OF assms(2) refl], rule validate_moves' [OF assms(2), where c = "the p \<noteq> None"])
    assume n: "CANNM_DEV_ERROR_DETECT b \<Longrightarrow> p \<noteq> None"
    then have "p \<noteq> None" using assms(3) by (cases p) (auto simp: info_valid_def)
    then obtain q where q: "p = Some q" by auto
    show "(do { info \<leftarrow> p; Some (info \<noteq> None) }) = Some (the p \<noteq> None)" by (simp add: q)
    assume m: "CANNM_DEV_ERROR_DETECT b \<Longrightarrow> the p \<noteq> None"
    then have "q \<noteq> None" using assms(3) m by (cases q) (auto simp: q info_valid_def buf_valid_def)
    then obtain bs where bs: "p = Some (Some bs)" "8 \<le> length bs" using assms(3) by (auto simp: q info_valid_def buf_valid_def)
    have "serves b (conf_at cfg ?k) False (chan_at st ?k, Glob st) (transmit_spontaneous b p cfg (conf_at cfg ?k) (chan_at st ?k, Glob st))"
      if k: "?k < CANNM_CHANNEL_COUNT b"
    proof -
      have "unat (PduLength (conf_at cfg ?k)) \<le> length bs" using f(1) [OF k] bs(2) by (simp add: conf_ok_def)
      from transmit_spontaneous_returns [OF f(1) [OF k] f(4) [OF k] f(5) [OF k] f(3) [OF k] this] show ?thesis
        unfolding bs(1) by (rule returns_mono) (rule chan_step_idles [OF chan_step_refl [OF f(2) [OF k]]])
    qed
    then show "moves b cfg (\<lambda>_. False) st (if ?k < CANNM_CHANNEL_COUNT b then on_channel (transmit_spontaneous b p) ?k st else Some (False, st))"
      using on_channel_moves [of b cfg st ?k "transmit_spontaneous b p" False, OF assms(1,2)] moves_Some [OF assms(2), of _ False] by simp
  qed
  then show ?thesis using True assms(2) l by (simp add: CanNm_Transmit_def deref_def nm_ok_def Let_def)
next
  case False
  then show ?thesis using moves_Some [OF assms(2)] by (auto simp: CanNm_Transmit_def)
qed

lemma move_confirm_pn:
  assumes "cfg_ok b cfg" "nm_ok b cfg st" "CANNM_DEV_ERROR_DETECT b \<and> \<not> h < ChannelLookupsSize cfg \<or> known_handle cfg h"
  shows "moves b cfg (\<lambda>_. False) st (CanNm_ConfirmPnAvailability b h st)"
proof -
  note f = chan_facts [OF assms(1,2)]
  have s: "same_core b ch (ch\<lparr>MessageFilteringEnabled := v\<rparr>)" for ch v by (simp add: same_core_def core_def data_ok_def)
  have k: "moves b cfg (\<lambda>_. False) st (do { i \<leftarrow> channel_of h st;
      on_channel (\<lambda>cfg ChannelConf (ch, g). Some ((), ch\<lparr>MessageFilteringEnabled := CanNmPnEnable ChannelConf\<rparr>, g)) i st })"
    if "h < ChannelLookupsSize cfg"
  proof -
    have "known_handle cfg h" using assms(3) that by simp
    from selected_moves [of b cfg st h
        "\<lambda>cfg ChannelConf (ch, g). Some ((), ch\<lparr>MessageFilteringEnabled := CanNmPnEnable ChannelConf\<rparr>, g)" False,
        OF assms(1,2) this]
    show ?thesis using chan_step_same_core [OF chan_step_refl [OF f(2)] s] by simp
  qed
  have e: "(do { cfg \<leftarrow> deref (CanNm_ConfigPtr st); Some (h < ChannelLookupsSize cfg) }) = Some (h < ChannelLookupsSize cfg)"
    using assms(2) by (simp add: nm_ok_def deref_def)
  show ?thesis
    unfolding CanNm_ConfirmPnAvailability_def e using assms(3)
    by (intro init_moves validate_moves [OF assms(2) refl] assms k) (auto simp: known_handle_def)
qed

section \<open>Sequences of calls\<close>

lemma releases_fun: "releases cfg op = (\<lambda>i. op = NmNetworkRelease (NmNetworkHandle (conf_at cfg i)))"
  by (rule ext) (simp add: releases_def)

lemma nm_exec_returns:
  assumes "cfg_ok b cfg" "nm_ok b cfg st" "op_valid b cfg op"
  shows "returns (nm_exec b op st) (nm_move b cfg (releases cfg op) (\<lambda>_. mains [op]) st)"
proof -
  have m: "moves b cfg rq st x \<Longrightarrow> returns (map_option snd x) (nm_move b cfg rq (\<lambda>_. 0) st)" for rq and x :: "('a \<times> CanNm_InternalType) ub"
    by (auto simp: moves_def returns_def)
  note h = move_handles [OF assms(1,2), THEN m] and p = move_pointers [OF assms(1,2), THEN m]
    and r = move_reads [OF assms(1,2), THEN m] and c = move_callbacks [OF assms(1,2), THEN m]
  show ?thesis
  proof (cases op)
    case NmMainFunction
    then show ?thesis
      using MainFunction_returns [OF assms(1,2)] by (auto simp: releases_fun mains_def all_progress_def returns_def)
  next
    case (NmTransmit i q)
    then show ?thesis using move_transmit [OF assms(1,2), THEN m] assms(3) by (simp add: releases_fun mains_def)
  next
    case (NmConfirmPnAvailability k)
    then show ?thesis using move_confirm_pn [OF assms(1,2), THEN m] assms(3) by (simp add: releases_fun mains_def)
  qed (use assms(3) h p r c in \<open>simp_all add: releases_fun mains_def eq_commute\<close>)
qed

lemma nm_exec_all_returns:
  assumes "cfg_ok b cfg" "nm_ok b cfg st" "list_all (op_valid b cfg) ops"
  shows "returns (nm_exec_all b ops st) (nm_move b cfg (\<lambda>i. \<exists>op \<in> set ops. releases cfg op i) (\<lambda>_. mains ops) st)"
  using assms(2,3)
proof (induction ops arbitrary: st)
  case Nil
  then show ?case using nm_move_refl by (simp add: nm_exec_all_def mains_def)
next
  case (Cons op ops)
  obtain st1 where st1: "nm_exec b op st = Some st1" "nm_move b cfg (releases cfg op) (\<lambda>_. mains [op]) st st1"
    using nm_exec_returns [OF assms(1) Cons.prems(1)] Cons.prems(2) by (auto simp: returns_def)
  have "nm_ok b cfg st1" using st1(2) by (simp add: nm_move_def)
  from Cons.IH [OF this] Cons.prems(2) obtain st2 where
    st2: "nm_exec_all b ops st1 = Some st2" "nm_move b cfg (\<lambda>i. \<exists>op \<in> set ops. releases cfg op i) (\<lambda>_. mains ops) st1 st2"
    by (auto simp: returns_def)
  have "nm_move b cfg (\<lambda>i. \<exists>op' \<in> set (op # ops). releases cfg op' i) (\<lambda>_. mains (op # ops)) st st2"
    using nm_move_trans [OF st1(2) st2(2)] by (rule iffD1 [OF nm_move_cong, rotated]) (auto simp: mains_def)
  then show ?case using st1(1) st2(1) by (simp add: nm_exec_all_def)
qed

section \<open>The initialisation\<close>

lemma each_channel_pure:
  assumes "CANNM_CHANNEL_COUNT b < 256" "length (cfg_Channels cfg) = CANNM_CHANNEL_COUNT b" "CanNm_ConfigPtr st = Some cfg"
    and "length (Channels st) = CANNM_CHANNEL_COUNT b" "\<And>i. i < CANNM_CHANNEL_COUNT b \<Longrightarrow> R i (chan_at st i)"
    and "\<And>i ch g. i < CANNM_CHANNEL_COUNT b \<Longrightarrow> R i ch \<Longrightarrow> returns (f cfg (conf_at cfg i) (ch, g)) (\<lambda>(ch', g'). g' = g \<and> R' i ch')"
  shows "returns (each_channel b f st) (\<lambda>st'. CanNm_ConfigPtr st' = Some cfg \<and> Glob st' = Glob st \<and>
    length (Channels st') = CANNM_CHANNEL_COUNT b \<and> (\<forall>i < CANNM_CHANNEL_COUNT b. R' i (chan_at st' i)))"
proof -
  let ?f = "\<lambda>i st. map_option snd (on_channel (\<lambda>cfg ChannelConf x. do { x \<leftarrow> f cfg ChannelConf x; Some ((), x) }) i st)"
  let ?P = "\<lambda>k st'. CanNm_ConfigPtr st' = Some cfg \<and> Glob st' = Glob st \<and> length (Channels st') = CANNM_CHANNEL_COUNT b \<and>
    (\<forall>i < CANNM_CHANNEL_COUNT b. if i < k then R' i (chan_at st' i) else R i (chan_at st' i))"
  have "\<exists>st'. for_each ?f [0..<CANNM_CHANNEL_COUNT b] st = Some st' \<and> ?P (CANNM_CHANNEL_COUNT b) st'"
  proof (rule for_each_upt [where P = ?P])
    show "?P 0 st" using assms(3-5) by simp
    fix i st1
    assume i: "i < CANNM_CHANNEL_COUNT b" and P: "?P i st1"
    have "R i (chan_at st1 i)" using P i by auto
    from assms(6) [OF i this, of "Glob st1"] obtain ch where
      ch: "f cfg (conf_at cfg i) (chan_at st1 i, Glob st1) = Some (ch, Glob st1)" "R' i ch" by (auto simp: returns_def)
    show "\<exists>st'. ?f i st1 = Some st' \<and> ?P (Suc i) st'"
      using P i ch assms(2) by (auto simp: on_channel_def deref_def ub_simps nth_list_update less_Suc_eq)
  qed
  then show ?thesis using assms(1) by (auto simp: each_channel_def returns_def)
qed

lemma init_message_returns:
  assumes "conf_ok conf"
  shows "returns (init_message conf) (\<lambda>m. length m = 8)"
proof -
  let ?n = "unat (CanNm_Internal_GetUserDataLength conf)"
  obtain m where m: "put_user_data conf (replicate 8 0) (replicate ?n 0xFF) = Some m" "length m = 8"
    using put_user_data_returns [OF assms, of "replicate 8 0" "replicate ?n 0xFF"] by (auto simp: returns_def)
  have "NidPosition conf \<noteq> CANNM_PDU_OFF \<Longrightarrow> pdu_pos (NidPosition conf) < 8"
    by (cases "NidPosition conf") (simp_all add: pdu_pos_def)
  moreover have "CbvPosition conf \<noteq> CANNM_PDU_OFF \<Longrightarrow> pdu_pos (CbvPosition conf) < 8"
    by (cases "CbvPosition conf") (simp_all add: pdu_pos_def)
  ultimately show ?thesis using m by (simp add: init_message_def ub_simps)
qed

text \<open>The memory before the initialisation has the sizes of the configuration.\<close>

definition sizes_ok :: "CanNm_Build \<Rightarrow> CanNm_Internal_ChannelType \<Rightarrow> bool" where
  "sizes_ok b ch \<longleftrightarrow> length (SpontaneousTxMessageSdu ch) = 8 \<and> length (pnERATimers ch) = CANNM_PNC_COUNT b \<and>
     length (pnERA ch) = CANNM_PNC_INFO_LEN b"

definition memory_ok :: "CanNm_Build \<Rightarrow> CanNm_InternalType \<Rightarrow> bool" where
  "memory_ok b st \<longleftrightarrow> length (Channels st) = CANNM_CHANNEL_COUNT b \<and> (\<forall>i < CANNM_CHANNEL_COUNT b. sizes_ok b (chan_at st i)) \<and>
     glob_ok b (Glob st)"

definition asleep :: "CanNm_Internal_ChannelType \<Rightarrow> bool" where
  "asleep ch \<longleftrightarrow> State ch = NM_STATE_BUS_SLEEP \<and> sleepy ch"

lemma init_channel_returns:
  assumes "conf_ok conf" "sizes_ok b ch"
  shows "returns (init_channel b cfg conf (ch, g)) (\<lambda>(ch', g'). g' = g \<and> chan_ok b conf ch' \<and> asleep ch')"
  using init_message_returns [OF assms(1)] assms(2)
  by (auto simp: init_channel_def returns_def Let_def chan_ok_defs sizes_ok_def asleep_def sleepy_def)

lemma init_era_returns:
  assumes "chan_ok b conf ch" "asleep ch"
  shows "returns (init_era b cfg conf (ch, g)) (\<lambda>(ch', g'). g' = g \<and> chan_ok b conf ch' \<and> asleep ch')"
  using assms by (auto simp: init_era_def chan_ok_defs asleep_def sleepy_def stop_timers_def ra_clear_def)

lemma CanNm_Init_returns:
  assumes "cfg_ok b cfg" "memory_ok b st"
  shows "returns (CanNm_Init b (Some cfg) st) (\<lambda>x. nm_ok b cfg (snd x) \<and> nm_os (Glob (snd x)) = nm_os (Glob st) \<and>
    nm_calls (Glob (snd x)) = nm_calls (Glob st) \<and> (\<forall>i < CANNM_CHANNEL_COUNT b. asleep (chan_at (snd x) i)))"
proof -
  have c: "CANNM_CHANNEL_COUNT b < 256" "length (cfg_Channels cfg) = CANNM_CHANNEL_COUNT b"
    and f: "\<And>i. i < CANNM_CHANNEL_COUNT b \<Longrightarrow> conf_ok (conf_at cfg i)" using assms(1) by (simp_all add: cfg_ok_def)
  let ?R = "\<lambda>i ch. chan_ok b (conf_at cfg i) ch \<and> asleep ch"
  have "returns (each_channel b (init_channel b) (st\<lparr>CanNm_ConfigPtr := Some cfg\<rparr>)) (\<lambda>st'. CanNm_ConfigPtr st' = Some cfg \<and>
      Glob st' = Glob (st\<lparr>CanNm_ConfigPtr := Some cfg\<rparr>) \<and> length (Channels st') = CANNM_CHANNEL_COUNT b \<and>
      (\<forall>i < CANNM_CHANNEL_COUNT b. ?R i (chan_at st' i)))"
    using assms(2) init_channel_returns [OF f]
    by (intro each_channel_pure [where R = "\<lambda>_. sizes_ok b", OF c]) (auto simp: memory_ok_def)
  then obtain st1 where st1: "each_channel b (init_channel b) (st\<lparr>CanNm_ConfigPtr := Some cfg\<rparr>) = Some st1"
    "CanNm_ConfigPtr st1 = Some cfg" "Glob st1 = Glob st" "length (Channels st1) = CANNM_CHANNEL_COUNT b"
    "\<forall>i < CANNM_CHANNEL_COUNT b. ?R i (chan_at st1 i)"
    by (auto simp: returns_def)
  define st2 where "st2 = (if eira_calc b
    then on_glob (\<lambda>g. g\<lparr>pnEIRATimers := stop_timers (pnEIRATimers g), pnEIRA := ra_clear (pnEIRA g)\<rparr>) st1 else st1)"
  have st2: "CanNm_ConfigPtr st2 = Some cfg" "glob_ok b (Glob st2)" "nm_os (Glob st2) = nm_os (Glob st)"
    "nm_calls (Glob st2) = nm_calls (Glob st)" "length (Channels st2) = CANNM_CHANNEL_COUNT b"
    "\<forall>i < CANNM_CHANNEL_COUNT b. ?R i (chan_at st2 i)"
    using st1(2-5) assms(2) by (auto simp: st2_def on_glob_def memory_ok_def glob_ok_def stop_timers_def ra_clear_def)
  have "returns (if era_calc b then each_channel b (init_era b) st2 else Some st2) (\<lambda>st'. CanNm_ConfigPtr st' = Some cfg \<and>
      Glob st' = Glob st2 \<and> length (Channels st') = CANNM_CHANNEL_COUNT b \<and> (\<forall>i < CANNM_CHANNEL_COUNT b. ?R i (chan_at st' i)))"
    using each_channel_pure [where R = ?R and R' = ?R, OF c st2(1,5)] st2(1,5,6) init_era_returns by auto
  moreover have "CanNm_Init b (Some cfg) st = do {
      st \<leftarrow> (if era_calc b then each_channel b (init_era b) st2 else Some st2); Some ((), st\<lparr>InitStatus := CANNM_STATUS_INIT\<rparr>) }"
    unfolding CanNm_Init_def CANNM_VALIDATE_def st2_def using st1(1) by simp
  ultimately show ?thesis using st2(2-4) by (auto simp: returns_def nm_ok_def)
qed

section \<open>Requests, messages and sleep\<close>

lemma set_pni_requested: "set_pni b conf x = Some x' \<Longrightarrow> Requested (fst x') = Requested (fst x)"
  by (cases x) (auto simp: set_pni_def CanNm_Internal_SetPNICbv_def upd_cbv_def Let_def split: Option.bind_splits if_splits)

lemma network_request_requested: "network_request b cfg conf x = Some (r, x') \<Longrightarrow> r \<and> Requested (fst x')"
  by (cases x) (auto dest!: set_pni_requested simp: network_request_def CanNm_Internal_BusSleep_to_RepeatMessage_def
      CanNm_Internal_PrepareBusSleep_to_RepeatMessage_def CanNm_Internal_ReadySleep_to_NormalOperation_def start_network_def Let_def
      split: Option.bind_splits if_splits)

lemma NetworkRequest_requests:
  assumes "cfg_ok b cfg" "nm_ok b cfg st" "known_handle cfg h" "CanNm_NetworkRequest b h st = Some (r, st1)"
  shows "r \<and> nm_ok b cfg st1 \<and> (\<exists>i < CANNM_CHANNEL_COUNT b. NmNetworkHandle (conf_at cfg i) = h \<and> Requested (chan_at st1 i))"
proof -
  obtain i where i: "channel_of h st = Some i" "i < CANNM_CHANNEL_COUNT b" "NmNetworkHandle (conf_at cfg i) = h"
    using channel_of_Some [OF assms(1-3)] by blast
  have "CanNm_NetworkRequest b h st = on_channel (network_request b) i st"
    using known_channel_Some [OF assms(1,2), of h] assms(2,3) i(1)
    by (simp add: CanNm_NetworkRequest_def on_handle_def CANNM_VALIDATE_INIT_def CANNM_VALIDATE_CHANNEL_def CANNM_VALIDATE_def nm_ok_def)
  then have e: "on_channel (network_request b) i st = Some (r, st1)" using assms(4) by simp
  have h: "handle_ok b cfg h" using assms(3) by (simp add: handle_ok_def)
  have ok: "nm_ok b cfg st1" using move_handles(2) [OF assms(1,2) h] assms(4) by (simp add: moves_def nm_move_def)
  have "r \<and> Requested (chan_at st1 i)"
    using e i(2) assms(1,2)
    by (auto simp: on_channel_def deref_def ub_simps nm_ok_def cfg_ok_def split: Option.bind_splits dest!: network_request_requested)
  then show ?thesis using ok i(2,3) by blast
qed

lemma requested_network:
  assumes "nm_ok b cfg st" "i < CANNM_CHANNEL_COUNT b" "Requested (chan_at st i)"
  shows "Mode (chan_at st i) = NM_MODE_NETWORK \<and> State (chan_at st i) \<in> {NM_STATE_REPEAT_MESSAGE, NM_STATE_NORMAL_OPERATION}"
proof -
  have ok: "chan_ok b (conf_at cfg i) (chan_at st i)" using assms(1,2) by (simp add: nm_ok_def)
  then have "State (chan_at st i) \<in> {NM_STATE_REPEAT_MESSAGE, NM_STATE_NORMAL_OPERATION}" using assms(3) by (simp add: chan_ok_def)
  then show ?thesis using chan_state(3) [OF ok] by auto
qed

lemma RxIndication_heard:
  assumes "cfg_ok b cfg" "nm_ok b cfg st" "unat i < CANNM_CHANNEL_COUNT b" "\<not> CanNmPnEnable (conf_at cfg (unat i))" "8 \<le> length bs"
    and "CanNm_RxIndication b i (Some (Some bs)) st = Some (u, st1)"
  shows "heard (conf_at cfg (unat i)) (chan_at st (unat i), Glob st) (chan_at st1 (unat i), Glob st1)"
proof -
  let ?i = "unat i"
  note f = chan_facts [OF assms(1-3)]
  have "CanNm_RxIndication b i (Some (Some bs)) st = on_channel (\<lambda>cfg ChannelConf x.
      do { x \<leftarrow> rx_indication b (ucast i) bs cfg ChannelConf x; Some ((), x) }) ?i st"
    using assms(2,3) by (simp add: CanNm_RxIndication_def on_pdu_def deref_def CANNM_VALIDATE_INIT_def
        CANNM_VALIDATE_NOTNULL_def CANNM_VALIDATE_def nm_ok_def)
  then have e: "on_channel (\<lambda>cfg ChannelConf x. do { x \<leftarrow> rx_indication b (ucast i) bs cfg ChannelConf x; Some ((), x) }) ?i st = Some (u, st1)"
    using assms(6) by simp
  have "unat (PduLength (conf_at cfg ?i)) \<le> length bs" using f(1) assms(5) by (simp add: conf_ok_def)
  from rx_indication_returns [OF f(1,4,2,3) this, of "ucast i"] assms(4) obtain ch g where
    y: "rx_indication b (ucast i) bs cfg (conf_at cfg ?i) (chan_at st ?i, Glob st) = Some (ch, g)"
      "heard (conf_at cfg ?i) (chan_at st ?i, Glob st) (ch, g)"
    by (auto simp: returns_def)
  show ?thesis
    using e y assms(1-3) by (auto simp: on_channel_def deref_def ub_simps nm_ok_def cfg_ok_def heard_def)
qed

lemma mains_sleep:
  assumes "cfg_ok b cfg" "i < CANNM_CHANNEL_COUNT b" "0 < MainFunctionPeriod (conf_at cfg i)"
    and "nm_ok b cfg st" "sleepy (chan_at st i)"
  shows "\<exists>st'. nm_exec_all b (replicate n NmMainFunction) st = Some st' \<and> nm_ok b cfg st' \<and> sleepy (chan_at st' i) \<and>
    rank (conf_at cfg i) (chan_at st' i) \<le> rank (conf_at cfg i) (chan_at st i) - n"
  using assms(4,5)
proof (induction n arbitrary: st)
  case (Suc n)
  obtain u st1 where st1: "CanNm_MainFunction b st = Some (u, st1)" "all_progress b cfg st st1"
    using MainFunction_returns [OF assms(1) Suc.prems(1)] by (auto simp: returns_def)
  then have "nm_ok b cfg st1" "sleepy (chan_at st1 i)" "rank (conf_at cfg i) (chan_at st1 i) \<le> rank (conf_at cfg i) (chan_at st i) - 1"
    using assms(2,3) Suc.prems(2) by (auto simp: all_progress_def chan_progress_def nm_move_def)
  then show ?case using Suc.IH [of st1] st1(1) by (fastforce simp: nm_exec_all_def)
qed (simp add: nm_exec_all_def)

section \<open>An example\<close>

text \<open>Two networks, with handles 1 and 2; handle 0 has no channel.\<close>

definition nm_example_build :: CanNm_Build where
  "nm_example_build = \<lparr>CANNM_DEV_ERROR_DETECT = True, CANNM_USER_DATA_ENABLED = True, CANNM_COM_USER_DATA_SUPPORT = False,
     CANNM_PASSIVE_MODE_ENABLED = False, CANNM_NODE_DETECTION_ENABLED = True, CANNM_STATE_CHANGE_IND_ENABLED = True,
     CANNM_PDU_RX_INDICATION_ENABLED = False, CANNM_PNC_EIRA_CALC_ENABLED = False, CANNM_PNC_ERA_CALC_ENABLED = False,
     CANNM_CHANNEL_COUNT = 2, CANNM_PNC_COUNT = 0, CANNM_PNC_INFO_LEN = 0, CANNM_PNC_RESET_TIME = 0, CANNM_MAIN_FUNCTION_PERIOD = 5,
     CanIf_accepts = \<lambda>_ _ _. True, PduR_user_data = \<lambda>_ _ old. old\<rparr>"

definition nm_example_conf :: "uint8 \<Rightarrow> CanNm_ChannelType" where
  "nm_example_conf h = \<lparr>NmNetworkHandle = h, NodeId = 7, MainFunctionPeriod = 5, TimeoutTime = 20, RepeatMessageTime = 10,
     WaitBusSleepTime = 10, MessageCycleTime = 10, MessageCycleOffsetTime = 0, MessageTimeoutTime = 5, CanIfPduId = ucast h,
     PduLength = 8, NidPosition = CANNM_PDU_BYTE_0, CbvPosition = CANNM_PDU_BYTE_1, ImmediateNmCycleTime = 0,
     ImmediateNmTransmissions = 0, CanNmPnEnable = False, CanNmPnEraCalcEnabled = False, CanNmAllNmMsgKeepAwake = False,
     CanNmUserDataTxPduId = 0, CanNmERARxNSduId = 0\<rparr>"

definition nm_example_cfg :: CanNm_ConfigType where
  "nm_example_cfg = \<lparr>cfg_Channels = [nm_example_conf 1, nm_example_conf 2], ChannelLookups = [0xFF, 0, 1], ChannelLookupsSize = 3,
     CanNmPnInfo = None\<rparr>"

definition nm_blank :: CanNm_Internal_ChannelType where
  "nm_blank = \<lparr>Mode = NM_MODE_BUS_SLEEP, State = NM_STATE_UNINIT, Requested = False, TimeoutTimeLeft = 0, RepeatMessageTimeLeft = 0,
     WaitBusSleepTimeLeft = 0, MessageCycleTimeLeft = 0, MessageTimeoutTimeLeft = 0, TxMessageSdu = replicate 8 0,
     RxMessageSdu = replicate 8 0, immediateNmTransmissionsSent = 0, immediateModeActive = False, TransmissionStatus = 0,
     SpontaneousTxMessageSdu = replicate 8 0, IsUserDataSet = False, CommunicationEnabled = False, MessageFilteringEnabled = False,
     pnERATimers = [], pnERA = []\<rparr>"

definition nm_memory :: CanNm_InternalType where
  "nm_memory = \<lparr>InitStatus = CANNM_STATUS_UNINIT, CanNm_ConfigPtr = None, Channels = [nm_blank, nm_blank],
     Glob = \<lparr>pnEIRATimers = [], pnEIRA = [], nm_os = Os_Int_Start, nm_calls = []\<rparr>\<rparr>"

lemma nm_example_conf_ok: "conf_ok (nm_example_conf h)"
  by (simp add: conf_ok_def nm_example_conf_def CanNm_Internal_GetUserDataOffset_def pdu_pos_def)

lemma nm_example_handle: "NmNetworkHandle (nm_example_conf h) = h"
  by (simp add: nm_example_conf_def)

lemma below_3: "(h :: nat) < 3 \<longleftrightarrow> h = 0 \<or> h = 1 \<or> h = 2" "(h :: nat) < 2 \<longleftrightarrow> h = 0 \<or> h = 1"
  by auto

lemma nm_example_lookup_ok: "lookup_ok nm_example_build nm_example_cfg"
  by (auto simp: lookup_ok_def nm_example_build_def nm_example_cfg_def nm_example_handle below_3(1))

lemma nm_example_cfg_ok: "cfg_ok nm_example_build nm_example_cfg"
proof -
  have "\<forall>i < CANNM_CHANNEL_COUNT nm_example_build. conf_ok (conf_at nm_example_cfg i)"
    by (auto simp: nm_example_build_def nm_example_cfg_def nm_example_conf_ok below_3(2))
  then show ?thesis
    using nm_example_lookup_ok
    by (simp add: cfg_ok_def build_ok_def pn_ok_def nm_example_build_def nm_example_cfg_def nm_example_handle)
qed

lemma nm_memory_ok: "memory_ok nm_example_build nm_memory"
  by (simp add: memory_ok_def sizes_ok_def nm_memory_def nm_blank_def nm_example_build_def glob_ok_def numeral_2_eq_2 less_Suc_eq
      all_conj_distrib)

lemma nm_started:
  "\<exists>st. CanNm_Init nm_example_build (Some nm_example_cfg) nm_memory = Some ((), st) \<and> nm_ok nm_example_build nm_example_cfg st"
  using CanNm_Init_returns [OF nm_example_cfg_ok nm_memory_ok] by (auto simp: returns_def)

lemma nm_example_known: "known_handle nm_example_cfg 1" "known_handle nm_example_cfg 2"
  by (simp_all add: known_handle_def nm_example_cfg_def)

text \<open>The network of channel 0 is requested and released again.\<close>

lemma nm_example_released:
  "map_option (\<lambda>st. (State (chan_at st 0), Requested (chan_at st 0), CommunicationEnabled (chan_at st 0)))
     (do { (u, st) \<leftarrow> CanNm_Init nm_example_build (Some nm_example_cfg) nm_memory;
           nm_exec_all nm_example_build [NmNetworkRequest 1, NmMainFunction, NmNetworkRelease 1] st })
   = Some (NM_STATE_REPEAT_MESSAGE, False, True)"
  by code_simp

section \<open>Properties of network management\<close>

text \<open>
  C11: Network management refines its abstract state machine. After the initialisation, every sequence of
  service calls, callbacks and main functions with valid arguments returns; the module stays well-formed and
  every exclusive area that was entered is left; and each channel takes transitions of the abstract machine
  from bus sleep on, of which exactly the changes are notified for its network, in their order.
\<close>

theorem nm_refines:
  assumes "cfg_ok b cfg" "memory_ok b mem" "list_all (op_valid b cfg) ops"
  shows "\<exists>st st'. CanNm_Init b (Some cfg) mem = Some ((), st) \<and> nm_exec_all b ops st = Some st' \<and> nm_ok b cfg st' \<and>
    nm_os (Glob st') = nm_os (Glob mem) \<and>
    (\<forall>i < CANNM_CHANNEL_COUNT b. \<exists>p cs.
       nm_run (NM_STATE_BUS_SLEEP, False) p (State (chan_at st' i), Requested (chan_at st' i)) \<and>
       nm_calls (Glob st') = nm_calls (Glob mem) @ cs \<and>
       changes (NmNetworkHandle (conf_at cfg i)) cs = (if CANNM_STATE_CHANGE_IND_ENABLED b then p else []))"
proof -
  obtain st where st: "CanNm_Init b (Some cfg) mem = Some ((), st)" "nm_ok b cfg st" "nm_os (Glob st) = nm_os (Glob mem)"
    "nm_calls (Glob st) = nm_calls (Glob mem)" "\<forall>i < CANNM_CHANNEL_COUNT b. asleep (chan_at st i)"
    using CanNm_Init_returns [OF assms(1,2)] by (auto simp: returns_def)
  obtain st' where st': "nm_exec_all b ops st = Some st'"
    "nm_move b cfg (\<lambda>i. \<exists>op \<in> set ops. releases cfg op i) (\<lambda>_. mains ops) st st'"
    using nm_exec_all_returns [OF assms(1) st(2) assms(3)] unfolding returns_def by blast
  have "\<exists>p cs. nm_run (NM_STATE_BUS_SLEEP, False) p (State (chan_at st' i), Requested (chan_at st' i)) \<and>
       nm_calls (Glob st') = nm_calls (Glob mem) @ cs \<and>
       changes (NmNetworkHandle (conf_at cfg i)) cs = (if CANNM_STATE_CHANGE_IND_ENABLED b then p else [])"
    if "i < CANNM_CHANNEL_COUNT b" for i
  proof -
    have "State (chan_at st i) = NM_STATE_BUS_SLEEP" "Requested (chan_at st i) = False"
      using st(5) that by (simp_all add: asleep_def sleepy_def)
    moreover have "chan_move b cfg i (\<exists>op \<in> set ops. releases cfg op i) (mains ops) st st'"
      using st'(2) that by (simp add: nm_move_def)
    ultimately show ?thesis using st(4) unfolding chan_move_def by metis
  qed
  then show ?thesis using st(1,3) st' by (auto simp: nm_move_def)
qed


theorem nm_refines_witness:
  "\<exists>st st' p cs. CanNm_Init nm_example_build (Some nm_example_cfg) nm_memory = Some ((), st) \<and>
     nm_exec_all nm_example_build [NmNetworkRequest 1, NmMainFunction, NmRxIndication 1 (Some (Some (replicate 8 1))), NmMainFunction,
       NmNetworkRelease 1, NmNetworkRequest 0] st = Some st' \<and>
     nm_run (NM_STATE_BUS_SLEEP, False) p (State (chan_at st' 0), Requested (chan_at st' 0)) \<and>
     nm_calls (Glob st') = cs \<and> changes 1 cs = p"
proof -
  have "list_all (op_valid nm_example_build nm_example_cfg) [NmNetworkRequest 1, NmMainFunction,
      NmRxIndication 1 (Some (Some (replicate 8 1))), NmMainFunction, NmNetworkRelease 1, NmNetworkRequest 0]"
    by (simp add: handle_ok_def info_valid_def buf_valid_def nm_example_build_def)
  from nm_refines [OF nm_example_cfg_ok nm_memory_ok this]
  show ?thesis
    by (fastforce simp: nm_example_build_def nm_memory_def nm_example_cfg_def nm_example_handle)
qed

text \<open>
  C12: A requested network stays awake. After a network request for a channel, every further sequence of calls with
  valid arguments that does not release this network keeps the channel in the network mode, in the repeat
  message state or in normal operation, however often the main function runs and whatever is received.
\<close>

theorem nm_request_keeps_network:
  assumes "cfg_ok b cfg" "nm_ok b cfg st" "known_handle cfg h" "CanNm_NetworkRequest b h st = Some (r, st1)"
    and "list_all (op_valid b cfg) ops" "NmNetworkRelease h \<notin> set ops"
  shows "r \<and> (\<exists>st2 i. nm_exec_all b ops st1 = Some st2 \<and> i < CANNM_CHANNEL_COUNT b \<and> NmNetworkHandle (conf_at cfg i) = h \<and>
    Mode (chan_at st2 i) = NM_MODE_NETWORK \<and> State (chan_at st2 i) \<in> {NM_STATE_REPEAT_MESSAGE, NM_STATE_NORMAL_OPERATION})"
proof -
  obtain i where i: "r" "nm_ok b cfg st1" "i < CANNM_CHANNEL_COUNT b" "NmNetworkHandle (conf_at cfg i) = h" "Requested (chan_at st1 i)"
    using NetworkRequest_requests [OF assms(1-4)] by blast
  obtain st2 where st2: "nm_exec_all b ops st1 = Some st2"
    "nm_move b cfg (\<lambda>i. \<exists>op \<in> set ops. releases cfg op i) (\<lambda>_. mains ops) st1 st2"
    using nm_exec_all_returns [OF assms(1) i(2) assms(5)] unfolding returns_def by blast
  have "chan_move b cfg i (\<exists>op \<in> set ops. releases cfg op i) (mains ops) st1 st2" using st2(2) i(3) by (simp add: nm_move_def)
  moreover have "\<not> (\<exists>op \<in> set ops. releases cfg op i)" using assms(6) i(4) by (auto simp: releases_def)
  ultimately have "Requested (chan_at st2 i)" using i(5) by (simp add: chan_move_def)
  then show ?thesis
    using requested_network [of b cfg st2 i] st2 i(1,3,4) by (auto simp: nm_move_def)
qed

theorem nm_request_keeps_network_witness:
  "\<exists>st st1 st2. CanNm_Init nm_example_build (Some nm_example_cfg) nm_memory = Some ((), st) \<and>
     CanNm_NetworkRequest nm_example_build 2 st = Some (True, st1) \<and>
     nm_exec_all nm_example_build [NmMainFunction, NmNetworkRelease 1, NmDisableCommunication 2, NmMainFunction, NmMainFunction] st1 = Some st2 \<and>
     Mode (chan_at st2 1) = NM_MODE_NETWORK"
proof -
  let ?ops = "[NmMainFunction, NmNetworkRelease 1, NmDisableCommunication 2, NmMainFunction, NmMainFunction]"
  obtain st where st: "CanNm_Init nm_example_build (Some nm_example_cfg) nm_memory = Some ((), st)" "nm_ok nm_example_build nm_example_cfg st"
    using nm_started by blast
  have h: "handle_ok nm_example_build nm_example_cfg 2" by (simp add: handle_ok_def nm_example_build_def)
  obtain r st1 where r: "CanNm_NetworkRequest nm_example_build 2 st = Some (r, st1)"
    using move_handles(2) [OF nm_example_cfg_ok st(2) h] by (auto simp: moves_def returns_def)
  have ops: "list_all (op_valid nm_example_build nm_example_cfg) ?ops" by (simp add: handle_ok_def nm_example_build_def)
  have "NmNetworkRelease 2 \<notin> set ?ops" by simp
  from nm_request_keeps_network [OF nm_example_cfg_ok st(2) nm_example_known(2) r ops this] obtain st2 i where
    x: r "nm_exec_all nm_example_build ?ops st1 = Some st2" "i < CANNM_CHANNEL_COUNT nm_example_build"
      "NmNetworkHandle (conf_at nm_example_cfg i) = 2" "Mode (chan_at st2 i) = NM_MODE_NETWORK" by blast
  have "i = 1" using x(3,4) by (auto simp: nm_example_build_def below_3(2) nm_example_cfg_def nm_example_handle)
  then show ?thesis using st(1) r x(1,2,5) by auto
qed

text \<open>
  C13: A received message keeps the network awake. After a message for a channel without partial networking
  in the network mode, every further sequence of calls with valid arguments keeps the channel in the network
  mode while the time of the main functions in it stays below the timeout time and one period, whether or
  not the network is released.
\<close>

theorem nm_message_keeps_network:
  assumes "cfg_ok b cfg" "nm_ok b cfg st" "unat k < CANNM_CHANNEL_COUNT b" "\<not> CanNmPnEnable (conf_at cfg (unat k))"
    and "Mode (chan_at st (unat k)) = NM_MODE_NETWORK" "8 \<le> length bs"
    and "CanNm_RxIndication b k (Some (Some bs)) st = Some (u, st1)" "list_all (op_valid b cfg) ops"
    and "mains ops * unat (MainFunctionPeriod (conf_at cfg (unat k))) <
      unat (TimeoutTime (conf_at cfg (unat k))) + unat (MainFunctionPeriod (conf_at cfg (unat k)))"
  shows "\<exists>st2. nm_exec_all b ops st1 = Some st2 \<and> Mode (chan_at st2 (unat k)) = NM_MODE_NETWORK"
proof -
  have "moves b cfg (\<lambda>_. False) st (CanNm_RxIndication b k (Some (Some bs)) st)"
    using assms(3,6) by (intro move_callbacks [OF assms(1,2)]) (auto simp: info_valid_def buf_valid_def)
  then have ok: "nm_ok b cfg st1" using assms(7) by (simp add: moves_def nm_move_def)
  have "Mode (chan_at st1 (unat k)) = NM_MODE_NETWORK"
    "unat (TimeoutTimeLeft (chan_at st1 (unat k))) = unat (TimeoutTime (conf_at cfg (unat k))) + unat (MainFunctionPeriod (conf_at cfg (unat k)))"
    using RxIndication_heard [OF assms(1-4,6,7)] assms(5) unat_time(1) [OF chan_facts(1) [OF assms(1-3)]] by (simp_all add: heard_def)
  moreover obtain st2 where "nm_exec_all b ops st1 = Some st2"
    "nm_move b cfg (\<lambda>i. \<exists>op \<in> set ops. releases cfg op i) (\<lambda>_. mains ops) st1 st2"
    using nm_exec_all_returns [OF assms(1) ok assms(8)] unfolding returns_def by blast
  ultimately show ?thesis using assms(3,9) by (auto simp: nm_move_def chan_move_def)
qed

theorem nm_message_keeps_network_witness:
  "\<exists>st st1 st2 st3. CanNm_Init nm_example_build (Some nm_example_cfg) nm_memory = Some ((), st) \<and>
     CanNm_NetworkRequest nm_example_build 1 st = Some (True, st1) \<and>
     CanNm_RxIndication nm_example_build 0 (Some (Some (replicate 8 0))) st1 = Some ((), st2) \<and>
     nm_exec_all nm_example_build (NmNetworkRelease 1 # replicate 4 NmMainFunction) st2 = Some st3 \<and>
     Mode (chan_at st3 0) = NM_MODE_NETWORK"
proof -
  let ?b = nm_example_build and ?c = nm_example_cfg and ?ops = "NmNetworkRelease 1 # replicate 4 NmMainFunction"
  obtain st where st: "CanNm_Init ?b (Some ?c) nm_memory = Some ((), st)" "nm_ok ?b ?c st" using nm_started by blast
  have h: "handle_ok ?b ?c 1" by (simp add: handle_ok_def nm_example_build_def)
  obtain r st1 where r: "CanNm_NetworkRequest ?b 1 st = Some (r, st1)"
    using move_handles(2) [OF nm_example_cfg_ok st(2) h] by (auto simp: moves_def returns_def)
  obtain i where i: r "nm_ok ?b ?c st1" "i < CANNM_CHANNEL_COUNT ?b" "NmNetworkHandle (conf_at ?c i) = 1" "Requested (chan_at st1 i)"
    using NetworkRequest_requests [OF nm_example_cfg_ok st(2) nm_example_known(1) r] by blast
  have "i = 0" using i(3,4) by (auto simp: nm_example_build_def below_3(2) nm_example_cfg_def nm_example_handle)
  then have m: "Mode (chan_at st1 (unat (0 :: uint16))) = NM_MODE_NETWORK" using requested_network [OF i(2,3,5)] by simp
  have k: "unat (0 :: uint16) < CANNM_CHANNEL_COUNT ?b" "\<not> CanNmPnEnable (conf_at ?c (unat (0 :: uint16)))"
    by (simp_all add: nm_example_build_def nm_example_cfg_def nm_example_conf_def)
  have "moves ?b ?c (\<lambda>_. False) st1 (CanNm_RxIndication ?b 0 (Some (Some (replicate 8 0))) st1)"
    using k(1) by (intro move_callbacks [OF nm_example_cfg_ok i(2)]) (auto simp: info_valid_def buf_valid_def)
  then obtain st2 where rx: "CanNm_RxIndication ?b 0 (Some (Some (replicate 8 0))) st1 = Some ((), st2)"
    by (auto simp: moves_def returns_def)
  have l: "8 \<le> length (replicate 8 (0 :: uint8))" by simp
  have ops: "list_all (op_valid ?b ?c) ?ops" by (simp add: handle_ok_def nm_example_build_def numeral_eq_Suc)
  have t: "mains ?ops * unat (MainFunctionPeriod (conf_at ?c (unat (0 :: uint16)))) <
      unat (TimeoutTime (conf_at ?c (unat (0 :: uint16)))) + unat (MainFunctionPeriod (conf_at ?c (unat (0 :: uint16))))"
    by (simp add: mains_def nm_example_cfg_def nm_example_conf_def)
  obtain st3 where "nm_exec_all ?b ?ops st2 = Some st3" "Mode (chan_at st3 (unat (0 :: uint16))) = NM_MODE_NETWORK"
    using nm_message_keeps_network [OF nm_example_cfg_ok i(2) k m l rx ops t] by blast
  then show ?thesis using st(1) r i(1) rx by (auto simp del: replicate.simps)
qed

text \<open>
  C14: The bus falls asleep in bounded time. A channel that is not requested, whose communication is
  enabled and that receives nothing is in the bus sleep mode after the main function ran as often as the
  repeat message timer, the timeout timer and the wait timer take together, whichever state of its machine
  it was in. With disabled communication the timeout timer stands still.
\<close>

theorem nm_sleeps:
  assumes "cfg_ok b cfg" "nm_ok b cfg st" "i < CANNM_CHANNEL_COUNT b" "0 < MainFunctionPeriod (conf_at cfg i)"
    and "\<not> Requested (chan_at st i)" "CommunicationEnabled (chan_at st i)" "sleep_bound (conf_at cfg i) \<le> n"
  shows "\<exists>st'. nm_exec_all b (replicate n NmMainFunction) st = Some st' \<and> Mode (chan_at st' i) = NM_MODE_BUS_SLEEP \<and>
    State (chan_at st' i) = NM_STATE_BUS_SLEEP"
proof -
  have s: "sleepy (chan_at st i)" using assms(5,6) by (simp add: sleepy_def)
  obtain st' where st': "nm_exec_all b (replicate n NmMainFunction) st = Some st'" "nm_ok b cfg st'" "sleepy (chan_at st' i)"
    "rank (conf_at cfg i) (chan_at st' i) \<le> rank (conf_at cfg i) (chan_at st i) - n"
    using mains_sleep [OF assms(1,3,4,2) s] by blast
  have "rank (conf_at cfg i) (chan_at st' i) = 0"
    using st'(4) rank_bound [OF chan_facts(2) [OF assms(1-3)]] assms(7) by simp
  note ok = chan_facts(2) [OF assms(1) st'(2) assms(3)]
  have "State (chan_at st' i) = NM_STATE_BUS_SLEEP"
    using rank_sleep [OF ok st'(3)] \<open>rank (conf_at cfg i) (chan_at st' i) = 0\<close> by simp
  then show ?thesis using chan_state(1) [OF ok] st'(1) by blast
qed

theorem nm_sleeps_witness:
  "\<exists>st st1 st2. CanNm_Init nm_example_build (Some nm_example_cfg) nm_memory = Some ((), st) \<and>
     nm_exec_all nm_example_build [NmNetworkRequest 1, NmMainFunction, NmNetworkRelease 1] st = Some st1 \<and>
     State (chan_at st1 0) = NM_STATE_REPEAT_MESSAGE \<and>
     nm_exec_all nm_example_build (replicate 10 NmMainFunction) st1 = Some st2 \<and> State (chan_at st2 0) = NM_STATE_BUS_SLEEP"
proof -
  let ?b = nm_example_build and ?c = nm_example_cfg
  obtain st where st: "CanNm_Init ?b (Some ?c) nm_memory = Some ((), st)" "nm_ok ?b ?c st" using nm_started by blast
  have "list_all (op_valid ?b ?c) [NmNetworkRequest 1, NmMainFunction, NmNetworkRelease 1]" by (simp add: handle_ok_def nm_example_build_def)
  from nm_exec_all_returns [OF nm_example_cfg_ok st(2) this] obtain st1 where
    st1: "nm_exec_all ?b [NmNetworkRequest 1, NmMainFunction, NmNetworkRelease 1] st = Some st1" "nm_ok ?b ?c st1"
    by (auto simp: returns_def nm_move_def)
  have q: "State (chan_at st1 0) = NM_STATE_REPEAT_MESSAGE" "\<not> Requested (chan_at st1 0)" "CommunicationEnabled (chan_at st1 0)"
    using nm_example_released st(1) st1(1) by simp_all
  have k: "0 < CANNM_CHANNEL_COUNT ?b" "0 < MainFunctionPeriod (conf_at ?c 0)" "sleep_bound (conf_at ?c 0) \<le> 10"
    by (simp_all add: nm_example_build_def nm_example_cfg_def nm_example_conf_def sleep_bound_def countdown_def)
  from nm_sleeps [OF nm_example_cfg_ok st1(2) k(1,2) q(2,3) k(3)] show ?thesis using st(1) st1(1) q(1) by blast
qed

end
