(* ===== verification/Spec2Isabelle.thy ===== *)
theory Spec2Isabelle
  imports E2E_P01 E2E_P02 E2E_P04 E2E_P05 E2E_P06 E2E_SM Cirq Port Gpt WdgM_Supervision Com_Deliver Com_Start CanNm_Network
begin

text \<open>
  \<^bold>\<open>What is verified.\<close>
  The repository is an AUTOSAR basic software platform (Arctic Core, \<^verbatim>\<open>src/MCAL/core\<close>) with the drivers
  of an STM32F10x microcontroller (\<^verbatim>\<open>src/MCAL/McalSrc\<close>) and their generated configuration
  (\<^verbatim>\<open>src/MCAL/McalGen\<close>). This library models the parts that carry the safety of an application built
  on it: end-to-end protection of messages, the watchdog manager, the communication module Com, network
  management on CAN, the queues the modules exchange data with, the error tracer every driver reports to,
  and the digital output, port and timer drivers. The definitions are translated function by function and
  keep the names of the C code.

  \<^bold>\<open>How the code is represented.\<close>
  \<^item> Machine integers are words of their C width; sums and differences that C computes in \<^verbatim>\<open>int\<close> are
    written over \<open>nat\<close> or \<open>int\<close> with the conversion back spelled out.
  \<^item> \<open>'a ub\<close> is an optional result: \<open>None\<close> stands for undefined behaviour (an access outside an
    object, a null dereference, a shift by the width or more, a division by zero) and for a failed
    \<^verbatim>\<open>ASSERT\<close>. A theorem of the form \<open>\<exists>r. f x = Some r\<close> therefore says that the code returns and is
    defined. \<open>'a ptr\<close> is an optional object, \<open>None\<close> the null pointer.
  \<^item> Errors are values: return codes, statuses and reports to the error tracer.
  \<^item> State is passed explicitly, in records with the fields of the C structures; hardware registers are
    the record \<open>stm32\<close>. Calls that leave the program (callbacks, drivers behind WdgIf, reports to Dem)
    are appended to a list of calls in the state. Preprocessor switches are the fields of a \<open>build\<close>
    record or a mode argument, so that every theorem holds for every configuration it does not exclude.
  \<^item> Loops are structural recursions or recursions on the number of rounds (\<open>ptr_loop\<close>, \<open>for_each\<close> over
    an index list): they are total, no fuel is needed, and no theorem assumes that a loop ends.

  \<^bold>\<open>The theories and the code they model.\<close>
  \<^item> \<open>Mcal_Prelude\<close>: integer types, checked reads and writes, loop combinators, the collections
    \<open>ub_simps\<close> and \<open>word_facts\<close>, and the lemmas the components share.
  \<^item> \<open>Crc_Poly\<close>, \<open>Crc\<close> (\<^verbatim>\<open>core/system/Crc\<close>): five checksums, each bit by bit and by table. The locale
    of a polynomial step gives linearity once; the table columns are checked against it. Shown: both
    modes agree, a checksum can be continued, and bursts up to the width are detected.
  \<^item> \<open>E2E\<close>, \<open>E2E_P01\<close>, \<open>E2E_P02\<close>, \<open>E2E_P04\<close>, \<open>E2E_P05\<close>, \<open>E2E_P06\<close> (\<^verbatim>\<open>core/system/E2E\<close>): the
    protection profiles. A locale describes a channel that delivers every message; each profile
    interprets it. Shown: protect and check are inverse up to the counter judgement, changed bytes that
    lie on one side of the CRC field are reported, refused calls change nothing, counters stay in range.
  \<^item> \<open>E2E_SM\<close>: the state machine over the check results, with its ring buffer. Shown: it refines a
    transition relation on the list of the last results, it is valid only if the thresholds hold, and a
    full window of equal results makes it converge.
  \<^item> \<open>Os_Irq\<close> (\<^verbatim>\<open>core/system/Os/include/Os.h\<close>): the interrupt services behind the exclusive areas.
  \<^item> \<open>Fifo\<close>, \<open>Cirq\<close> (\<^verbatim>\<open>core/common/cirq_buffer.c\<close>, \<^verbatim>\<open>mbox.c\<close>): the locale \<open>Fifo\<close> states the contract of a
    bounded queue; the circular buffer and the message box interpret it. Shown: every sequence of
    operations answers as a list, also when a consumer interrupts a producer that uses the lock
    interface.
  \<^item> \<open>Det\<close> (\<^verbatim>\<open>core/diagnostic/Det\<close>): the error tracer with callbacks and RAM log.
  \<^item> \<open>Stm32\<close>, \<open>Dio\<close>, \<open>Port\<close>, \<open>Gpt\<close> (\<^verbatim>\<open>McalSrc/Dio.c\<close>, \<^verbatim>\<open>Port.c\<close>, \<^verbatim>\<open>Gpt.c\<close>): registers, and the
    drivers on them. Shown: the effect of each operation on exactly the pins or timers it names, no
    undefined behaviour when error detection is on, and the places where it occurs nevertheless (a group
    offset of 16 and more in Dio, a channel from 32 on and a NULL notification in Gpt) or without it.
  \<^item> \<open>WdgM\<close>, \<open>WdgM_Correct\<close>, \<open>WdgM_Api\<close>, \<open>WdgM_Supervision\<close> (\<^verbatim>\<open>core/system/WdgM\<close>, \<^verbatim>\<open>WdgIf\<close>): the model,
    the invariant and the main function, the interface as a step function over all calls, and the three
    supervision algorithms with their specifications (margins over a reference cycle, paths through the
    graph of an entity, the status machines).
  \<^item> \<open>Com_Signal\<close> (\<^verbatim>\<open>core/communication/Com/Com_misc.c\<close>): signals of up to 64 bits in both byte orders
    and the I-PDU counters. A locale for byte windows serves both byte orders and the signal buffers.
    Shown: write and read are inverse, signals on different bits are independent, and the counter
    window.
  \<^item> \<open>Com\<close> (\<^verbatim>\<open>Com.c\<close>, \<^verbatim>\<open>Com_Com.c\<close>, \<^verbatim>\<open>Com_Sched.c\<close>, \<^verbatim>\<open>Com_misc.c\<close> in \<^verbatim>\<open>core/communication/Com\<close>): every
    service, the two main functions and the initialisation, for a build without the signal gateway and
    OsekNm. The static buffer \<^verbatim>\<open>Com_Arc_Buffer\<close> is a list of bytes and pointers into it are positions;
    transmissions, notifications and error reports are the list \<open>com_calls\<close>.
  \<^item> \<open>Com_Safe\<close>, \<open>Com_Tx\<close>, \<open>Com_Services\<close>: what a fitting configuration is (\<open>com_ok\<close>), and a step lemma for
    every function. The locale \<open>step_relation\<close> gives the rules that chain steps and pass through an
    exclusive area; it is interpreted for steps that do not transmit, steps that transmit only when the
    minimum delay has expired, and steps on one I-PDU.
  \<^item> \<open>Com_Module\<close>, \<open>Com_Start\<close>, \<open>Com_Deliver\<close>: sequences of calls and an example configuration, the layout
    computed by \<^verbatim>\<open>Com_Init\<close>, and two modules. Shown: the initialisation makes the module well formed,
    every sequence of valid calls returns and keeps it so, the minimum delay separates transmissions, and
    a signal that one module transmits at once is read with its value on another that takes it over
    immediately.
  \<^item> \<open>CanNm\<close> (\<^verbatim>\<open>core/communication/CanNm/CanNm.c\<close>, \<^verbatim>\<open>core/include/CanNm_Internal.h\<close>): every service,
    callback, timer and transition of network management on CAN, with the request bits of partial networks.
    The functions that get a channel work on the pair of the channel and the data the channels share;
    \<open>CanNm_Build\<close> holds the switches and what CanIf and PduR answer, \<open>nm_calls\<close> the calls made of Nm, CanIf,
    PduR and Det.
  \<^item> \<open>CanNm_Correct\<close>, \<open>CanNm_Main\<close>: the abstract state machine \<open>nm_trans\<close> with the notifications of its
    transitions, and for every function on a channel that it returns with a step (\<open>chan_step\<close>): along the
    abstract machine, with exactly its notifications, keeping a request and the time that is left. A rank
    counts the main functions that a channel nobody requests is away from sleep.
  \<^item> \<open>CanNm_Module\<close>, \<open>CanNm_Network\<close>: all channels, handles and identifiers, sequences of calls, the
    initialisation and an example. Shown: the module refines one abstract machine per channel, a requested
    network stays awake, a received message keeps it awake for the timeout time (without partial
    networking), and a network that nobody requests and that may communicate sleeps within the sum of its
    timers.
  \<^item> this theory: a profile 4 channel with its state machine, the other profiles over a lossless channel,
    and Port with Dio from initialisation to a driven pin.

  \<^bold>\<open>What is assumed.\<close>
  Memory allocation is a parameter that may fail. The devices behind WdgIf and the time source of WdgM
  are parameters that answer anything. Hardware that changes registers on its own is a step of the
  sequences in \<open>Gpt\<close>. The configuration tables satisfy the predicates named \<open>..._ok\<close> or \<open>..._valid\<close>,
  which state what the generator promises; each is shown to hold of an example.

  \<^bold>\<open>What is not modelled.\<close>
  \<^item> The signal gateway of Com, which is compiled only with \<^verbatim>\<open>COM_SIG_GATEWAY_ENABLE\<close>, the test functions of
    CanNm behind \<^verbatim>\<open>HOST_TEST\<close>, and the other modules of the communication stack (PduR, the interfaces,
    transport, Nm and ComM), which work on generated routing tables.
  \<^item> The kernel of the operating system, whose task switch is assembler; the Can and Mcu drivers, which
    wait on the hardware and on the vendor library.
  \<^item> Memory, diagnostics, Ethernet, FlexRay and LIN stacks, other architectures, vendored libraries
    (lwIP, the STM32 peripheral library beyond the accesses used here), generators and tests.
  \<^item> Operations that only copy version constants, and debug output.
  \<^item> Concurrency beyond the exclusive areas: an exclusive area is shown to restore the interrupt state,
    and the lock interface of the circular buffer is shown correct under interruption; elsewhere a
    function runs to its end.
\<close>

section \<open>Profiles and state machine together\<close>

lemma map_all_ok:
  "list_all (\<lambda>rx. f rx = v) rxs \<Longrightarrow> map f rxs = replicate (length rxs) v"
  by (induction rxs) auto

text \<open>
  C5: A lossless profile 4 channel becomes VALID: a sender and a receiver fresh from their init
  functions, with the same valid configuration, and a state machine fresh from its own; after more
  messages than the monitoring window holds, every receiver status was OK and the state machine, fed
  with the mapped statuses, is in VALID.
\<close>

theorem e2e_lossless_channel_valid:
  assumes "P04_valid cfg Length" "1 \<le> p04_MaxDeltaCounter cfg" "sm_sane smcfg"
    and "E2E_P04ProtectInit (Some tx0) = (E2E_E_OK, Some tx)"
    and "E2E_P04CheckInit (Some rx0) = (E2E_E_OK, Some rx)"
    and "E2E_SMCheckInit (Some sm0) (Some smcfg) = Some (E2E_E_OK, Some sm)"
    and "sm_ProfileStatusWindow sm0 = Some w" "unat (sm_WindowSize smcfg) \<le> length w"
    and "list_all (\<lambda>d. unat Length \<le> length d) ds" "unat (sm_WindowSize smcfg) < length ds"
  shows "\<exists>tx' rxs sm'.
    transmit (\<lambda>tx d. sent (E2E_P04Protect (Some cfg) (Some tx) (Some d) Length))
      (\<lambda>rx d. received (E2E_P04Check (Some cfg) (Some rx) (Some d) Length)) tx rx ds = Some (tx', rxs) \<and>
    length rxs = length ds \<and> list_all (\<lambda>rx. p04c_Status rx = E2E_P04STATUS_OK) rxs \<and>
    sm_run smcfg sm (map (\<lambda>rx. E2E_P04MapStatusToSM E2E_E_OK (p04c_Status rx)) rxs) = Some sm' \<and>
    sm_SMState sm' = E2E_SM_VALID"
proof -
  have step: "p04p_Counter tx = p04c_Counter rx + 1"
    using assms(4,5) by (auto simp: E2E_P04ProtectInit_def E2E_P04CheckInit_def)
  have msgs: "list_all (\<lambda>d. P04_valid cfg Length \<and> 1 \<le> p04_MaxDeltaCounter cfg \<and> unat Length \<le> length d) ds"
    using assms(1,2,9) by (simp add: list_all_iff)
  obtain tx' rxs where t: "transmit (\<lambda>tx d. sent (E2E_P04Protect (Some cfg) (Some tx) (Some d) Length))
      (\<lambda>rx d. received (E2E_P04Check (Some cfg) (Some rx) (Some d) Length)) tx rx ds = Some (tx', rxs)"
    "length rxs = length ds" "list_all (\<lambda>rx. p04c_Status rx = E2E_P04STATUS_OK) rxs"
    using p04_link.all_delivered [OF msgs step] by blast
  have ok: "map (\<lambda>rx. E2E_P04MapStatusToSM E2E_E_OK (p04c_Status rx)) rxs = replicate (length ds) E2E_P_OK"
    using t(2,3) by (subst map_all_ok [where v = E2E_P_OK]) (auto simp: list_all_iff E2E_P04MapStatusToSM_def)
  have "0 < sm_WindowSize smcfg" using assms(3) by (simp add: sm_sane_def)
  from E2E_SMCheckInit_eq [OF this assms(7,8)] have "sm_wf smcfg sm" "sm_SMState sm = E2E_SM_NODATA"
    using assms(6) by (auto simp: sm_abs_def)
  from sm_run_all_ok [OF this assms(3,10)] t ok show ?thesis by metis
qed

theorem e2e_lossless_channel_valid_witness:
  "\<exists>tx' rxs sm'.
    transmit (\<lambda>tx d. sent (E2E_P04Protect (Some P04_example) (Some tx) (Some d) 16))
      (\<lambda>rx d. received (E2E_P04Check (Some P04_example) (Some rx) (Some d) 16))
      \<lparr>p04p_Counter = 0\<rparr> \<lparr>p04c_Status = E2E_P04STATUS_ERROR, p04c_Counter = 0xFFFF\<rparr>
      (replicate 3 (replicate 16 7)) = Some (tx', rxs) \<and>
    sm_run sm_example (sm_example_state\<lparr>sm_SMState := E2E_SM_NODATA\<rparr>)
      (map (\<lambda>rx. E2E_P04MapStatusToSM E2E_E_OK (p04c_Status rx)) rxs) = Some sm' \<and>
    sm_SMState sm' = E2E_SM_VALID"
proof -
  have r2: "replicate 2 (4 :: uint8) = [4, 4]" by (simp add: numeral_2_eq_2)
  have i: "E2E_SMCheckInit (Some sm_example_state) (Some sm_example) =
      Some (E2E_E_OK, Some (sm_example_state\<lparr>sm_SMState := E2E_SM_NODATA\<rparr>))"
    using r2 by (simp add: E2E_SMCheckInit_def E2E_SMClearStatus_def sm_example_def sm_example_state_def
      deref_def sm_clear_loop_eq)
  have w: "sm_ProfileStatusWindow sm_example_state = Some [4, 4]" "unat (sm_WindowSize sm_example) = 2"
    "1 \<le> p04_MaxDeltaCounter P04_example"
    by (simp_all add: sm_example_state_def sm_example_def P04_example_def)
  show ?thesis
    using e2e_lossless_channel_valid [OF P04_example_valid w(3) sm_example_sane(1), of
        "\<lparr>p04p_Counter = 0\<rparr>" "\<lparr>p04p_Counter = 0\<rparr>"
        "\<lparr>p04c_Status = E2E_P04STATUS_ERROR, p04c_Counter = 0xFFFF\<rparr>"
        "\<lparr>p04c_Status = E2E_P04STATUS_ERROR, p04c_Counter = 0xFFFF\<rparr>" sm_example_state _ "[4, 4]"
        "replicate 3 (replicate 16 7)"] i w
    by (simp add: E2E_P04ProtectInit_def E2E_P04CheckInit_def list_all_iff) blast
qed

text \<open>
  C6: Lossless transmission is accepted by the other profiles too: for the profiles 1, 2, 5 and 6, a
  sender and a receiver that start in their initial states, with the same valid configuration (and
  the new-data flag set by the caller, in profiles 1 and 2), accept every message of any sequence:
  OK always, or INITIAL as well in the profiles 1 and 2.
\<close>

theorem e2e_lossless_delivery:
  "(P05_valid cfg5 Length \<and> 1 \<le> p05_MaxDeltaCounter cfg5 \<and> list_all (\<lambda>d. unat Length \<le> length d) ds \<longrightarrow>
     (\<exists>tx rxs. transmit (\<lambda>tx d. sent (E2E_P05Protect (Some cfg5) (Some tx) (Some d) Length))
        (\<lambda>rx d. received (E2E_P05Check (Some cfg5) (Some rx) (Some d) Length))
        \<lparr>p05p_Counter = 0\<rparr> \<lparr>p05c_Status = E2E_P05STATUS_ERROR, p05c_Counter = 0xFF\<rparr> ds = Some (tx, rxs) \<and>
      length rxs = length ds \<and> list_all (\<lambda>rx. p05c_Status rx = E2E_P05STATUS_OK) rxs)) \<and>
   (P06_valid cfg6 Length \<and> 1 \<le> p06_MaxDeltaCounter cfg6 \<and> list_all (\<lambda>d. unat Length \<le> length d) ds \<longrightarrow>
     (\<exists>tx rxs. transmit (\<lambda>tx d. sent (E2E_P06Protect (Some cfg6) (Some tx) (Some d) Length))
        (\<lambda>rx d. received (E2E_P06Check (Some cfg6) (Some rx) (Some d) Length))
        \<lparr>p06p_Counter = 0\<rparr> \<lparr>p06c_Status = E2E_P06STATUS_ERROR, p06c_Counter = 0xFF\<rparr> ds = Some (tx, rxs) \<and>
      length rxs = length ds \<and> list_all (\<lambda>rx. p06c_Status rx = E2E_P06STATUS_OK) rxs)) \<and>
   (P01_ok cfg1 \<and> P01_nibble_ok cfg1 \<and> list_all (\<lambda>d. P01_len cfg1 \<le> length d) ds \<and>
      E2E_P01CheckInit (Some rx1) = (E2E_E_OK, Some rx1') \<longrightarrow>
     (\<exists>tx rxs. transmit (\<lambda>tx d. sent (E2E_P01Protect (Some cfg1) (Some tx) (Some d)))
        (\<lambda>rx d. received (E2E_P01Check (Some cfg1) (Some rx) (Some d)))
        \<lparr>p01p_Counter = 0\<rparr> (rx1'\<lparr>p01c_NewDataAvailable := True\<rparr>) ds = Some (tx, rxs) \<and>
      length rxs = length ds \<and>
      list_all (\<lambda>rx. p01c_Status rx = E2E_P01STATUS_OK \<or> p01c_Status rx = E2E_P01STATUS_INITIAL) rxs)) \<and>
   (P02_ok cfg2 \<and> list_all (\<lambda>d. P02_len cfg2 \<le> length d) ds \<and>
      E2E_P02CheckInit (Some rx2) = (E2E_E_OK, Some rx2') \<longrightarrow>
     (\<exists>tx rxs. transmit (\<lambda>tx d. sent (E2E_P02Protect (Some cfg2) (Some tx) (Some d)))
        (\<lambda>rx d. received (E2E_P02Check (Some cfg2) (Some rx) (Some d)))
        \<lparr>p02p_Counter = 0\<rparr> (rx2'\<lparr>p02c_NewDataAvailable := True\<rparr>) ds = Some (tx, rxs) \<and>
      length rxs = length ds \<and>
      list_all (\<lambda>rx. p02c_Status rx = E2E_P02STATUS_OK \<or> p02c_Status rx = E2E_P02STATUS_INITIAL) rxs))"
proof (intro conjI impI, goal_cases)
  case 1
  then show ?case
    using p05_link.all_delivered [of cfg5 Length ds "\<lparr>p05p_Counter = 0\<rparr>"
        "\<lparr>p05c_Status = E2E_P05STATUS_ERROR, p05c_Counter = 0xFF\<rparr>"] by (auto simp: list_all_iff)
next
  case 2
  then show ?case
    using p06_link.all_delivered [of cfg6 Length ds "\<lparr>p06p_Counter = 0\<rparr>"
        "\<lparr>p06c_Status = E2E_P06STATUS_ERROR, p06c_Counter = 0xFF\<rparr>"] by (auto simp: list_all_iff)
next
  case 3
  then show ?case
    using p01_link.all_delivered [of cfg1 ds "\<lparr>p01p_Counter = 0\<rparr>" "rx1'\<lparr>p01c_NewDataAvailable := True\<rparr>"]
    by (auto simp: list_all_iff E2E_P01CheckInit_def)
next
  case 4
  then show ?case
    using p02_link.all_delivered [of cfg2 ds "rx2'\<lparr>p02c_NewDataAvailable := True\<rparr>" "\<lparr>p02p_Counter = 0\<rparr>"]
    by (auto simp: list_all_iff E2E_P02CheckInit_def)
qed

theorem e2e_lossless_delivery_witness:
  "\<exists>tx rxs. transmit (\<lambda>tx d. sent (E2E_P05Protect (Some P05_example) (Some tx) (Some d) 8))
      (\<lambda>rx d. received (E2E_P05Check (Some P05_example) (Some rx) (Some d) 8))
      \<lparr>p05p_Counter = 0\<rparr> \<lparr>p05c_Status = E2E_P05STATUS_ERROR, p05c_Counter = 0xFF\<rparr>
      [replicate 8 1, replicate 8 2] = Some (tx, rxs) \<and>
    length rxs = 2 \<and> list_all (\<lambda>rx. p05c_Status rx = E2E_P05STATUS_OK) rxs"
proof -
  have "1 \<le> p05_MaxDeltaCounter P05_example" by (simp add: P05_example_def)
  then show ?thesis
    using e2e_lossless_delivery [of P05_example 8 "[replicate 8 1, replicate 8 2]", THEN conjunct1]
      P05_example_valid by (simp add: numeral_2_eq_2)
qed

section \<open>Port and Dio together\<close>

text \<open>
  C28: Bringing up an output pin: Port_Init with a consistent configuration, then
  Port_SetPinDirection to output and Dio_WriteChannel on one pin of the ports A to F. All
  three return; in the end the pin is a push-pull output at the written level, and every other pin of
  the seven ports has the mode and the output level of the configuration (of the chip before, where the
  configuration leaves the port out).
\<close>

theorem port_dio_output_pin:
  assumes "port_config_ok cfg" and "length (gpio hw) = 7" and "dio_channel_ok bld g ch"
    and "unat ch = unat pin"
  shows "\<exists>hw1 hw2 hw3. Port_Init bld st (Some cfg) hw = Some (PORT_INITIALIZED, hw1) \<and>
    Port_SetPinDirection bld PORT_INITIALIZED pin PORT_PIN_OUT hw1 = Some hw2 \<and>
    Dio_WriteChannel bld g ch level hw2 = Some hw3 \<and>
    (\<forall>p < 112. pin_cnf hw3 p =
      (if p = unat pin then 2
       else if p div 16 < unat (padCnt cfg) then padConfig cfg ! (p div 16) ! (p mod 16)
       else pin_cnf hw p)) \<and>
    (\<forall>c. unat c < 112 \<longrightarrow> dio_out hw3 c =
      (if c = ch then level = 1
       else if unat c div 16 < unat (padCnt cfg) then outConfig cfg ! (unat c div 16) ! (unat c mod 16)
       else dio_out hw c))"
proof -
  have "unat (ch div 16) < 6" using assms(3) by (simp add: dio_channel_ok_def dio_port_ok_def)
  then have "unat ch div 16 < 6" by (simp add: channel_split)
  then have pin: "unat pin < 112" using assms(4) by (simp add: div_less_iff_less_mult)
  obtain hw1 where 1: "Port_Init bld st (Some cfg) hw = Some (PORT_INITIALIZED, hw1)" "length (gpio hw1) = 7"
    "\<forall>p < 112. pin_cnf hw1 p =
      (if p div 16 < unat (padCnt cfg) then padConfig cfg ! (p div 16) ! (p mod 16) else pin_cnf hw p)"
    "\<forall>c. unat c < 112 \<longrightarrow> dio_out hw1 c =
      (if unat c div 16 < unat (padCnt cfg) then outConfig cfg ! (unat c div 16) ! (unat c mod 16)
       else dio_out hw c)"
    using port_init_effect [OF assms(1,2)] by blast
  obtain hw2 where 2: "Port_SetPinDirection bld PORT_INITIALIZED pin PORT_PIN_OUT hw1 = Some hw2"
    "same_but_cnf hw1 hw2"
    "\<forall>p. pin_cnf hw2 p = (if p = unat pin then direction_cnf PORT_PIN_OUT else pin_cnf hw1 p)"
    using set_direction_effect [OF _ pin 1(2)] by blast
  have len: "length (gpio hw2) = 7" using 1(2) same_but_cnf_length [OF 2(2)] by simp
  obtain hw3 where 3: "Dio_WriteChannel bld g ch level hw2 = Some hw3" "same_but_out hw2 hw3"
    "\<forall>c. dio_out hw3 c = (if c = ch then level = STD_HIGH else dio_out hw2 c)"
    using write_channel_effect [OF assms(3) len] by blast
  have "pin_cnf hw3 p = pin_cnf hw2 p" if "p < 112" for p
    using same_but_out_cnf [OF 3(2)] that len by (simp add: less_mult_imp_div_less)
  moreover have "dio_out hw2 c = dio_out hw1 c" if "unat c < 112" for c
    using same_but_cnf_out [OF 2(2)] that 1(2) by (simp add: less_mult_imp_div_less)
  ultimately show ?thesis using 1 2(1,3) 3(1,3) by (simp add: direction_cnf_def)
qed

theorem port_dio_output_pin_witness:
  "\<exists>hw1 hw2 hw3. Port_Init dev_build PORT_UNINITIALIZED (Some port_example) hw_reset = Some (PORT_INITIALIZED, hw1) \<and>
    Port_SetPinDirection dev_build PORT_INITIALIZED 61 PORT_PIN_OUT hw1 = Some hw2 \<and>
    Dio_WriteChannel dev_build dio_running 61 1 hw2 = Some hw3 \<and>
    (\<forall>p < 112. pin_cnf hw3 p =
      (if p = unat (61 :: uint8) then 2
       else if p div 16 < unat (padCnt port_example) then padConfig port_example ! (p div 16) ! (p mod 16)
       else pin_cnf hw_reset p)) \<and>
    (\<forall>c. unat c < 112 \<longrightarrow> dio_out hw3 c =
      (if c = 61 then (1 :: uint8) = 1
       else if unat c div 16 < unat (padCnt port_example)
       then outConfig port_example ! (unat c div 16) ! (unat c mod 16)
       else dio_out hw_reset c))"
  by (rule port_dio_output_pin)
    (simp_all add: port_config_ok_def hw_reset_def dio_channel_ok_def dio_port_ok_def DioConfigData_def
      Channel_Config_Contains_def Port_Config_Contains_def deref_def)

end
